(* ===== verification/Prelude.thy ===== *)
theory Prelude
  imports Main "HOL-Library.Word"
begin

text \<open>
  Shared vocabulary of the development: the type of run-time failures, sequencing of
  fallible computations, 64-bit unsigned arithmetic on \<open>nat\<close>, overwriting a slice of a
  list, and C string helpers. The \<open>named_theorems\<close> collections gather the equations that
  the component theories hand to the simplifier.
\<close>

named_theorems sim_simps "equations that unfold one step of a component's model"
named_theorems inv_intros "introduction rules of component invariants"

subsection \<open>Failures and sequencing\<close>

text \<open>
  A C++ computation ends normally (\<open>Inr\<close>), throws one of the exceptions the program
  uses, or does something the language leaves undefined. The last kind is split by cause.
\<close>

datatype fault =
    Out_of_range         \<comment> \<open>\<open>std::out_of_range\<close>\<close>
  | Logic_error          \<comment> \<open>\<open>std::logic_error\<close>\<close>
  | Invalid_argument     \<comment> \<open>\<open>std::invalid_argument\<close>\<close>
  | Null_deref           \<comment> \<open>access through a null pointer\<close>
  | Div_by_zero          \<comment> \<open>integer \<open>/\<close> or \<open>%\<close> by zero\<close>
  | Bad_index            \<comment> \<open>\<open>vector\<close> or array access out of bounds\<close>
  | Bad_iterator         \<comment> \<open>dereferencing or erasing \<open>end()\<close>\<close>
  | Bad_length           \<comment> \<open>a negative or overlong count passed to a copy\<close>
  | Deadlock             \<comment> \<open>relocking a non-recursive mutex\<close>
  | Assert_failed        \<comment> \<open>a failed \<open>assert\<close>\<close>
  | Uninitialised        \<comment> \<open>reading a member no constructor has set\<close>
  | Exit_called          \<comment> \<open>\<open>exit\<close>\<close>
  | Bad_shift            \<comment> \<open>a shift by the width of the type or more\<close>
  | Signed_overflow      \<comment> \<open>overflow of a signed integer\<close>
  | Type_error           \<comment> \<open>\<open>type_error\<close> of the JSON library\<close>
  | Parse_error          \<comment> \<open>\<open>parse_error\<close> of the JSON library\<close>
  | Bad_cast             \<comment> \<open>\<open>boost::bad_lexical_cast\<close>\<close>
  | Terminate_called     \<comment> \<open>\<open>std::terminate\<close>\<close>

fun bindE :: "'e + 'a \<Rightarrow> ('a \<Rightarrow> 'e + 'b) \<Rightarrow> 'e + 'b" where
  "bindE (Inl e) f = Inl e"
| "bindE (Inr a) f = f a"

lemma bindE_Inr [simp]: "bindE m Inr = m"
  by (cases m) auto

lemma bindE_assoc: "bindE (bindE m f) g = bindE m (\<lambda>a. bindE (f a) g)"
  by (cases m) auto

lemma bindE_eq_Inr: "bindE m f = Inr b \<longleftrightarrow> (\<exists>a. m = Inr a \<and> f a = Inr b)"
  by (cases m) auto

lemma bindE_eq_InrE [elim!]:
  assumes "bindE m f = Inr b" obtains a where "m = Inr a" "f a = Inr b"
  using assms by (auto simp: bindE_eq_Inr)

lemma bindE_cong [fundef_cong]:
  "m = m' \<Longrightarrow> (\<And>a. m' = Inr a \<Longrightarrow> f a = f' a) \<Longrightarrow> bindE m f = bindE m' f'"
  by (cases m') auto

subsection \<open>Callbacks\<close>

text \<open>
  A \<open>std::function<void()>\<close> that is not empty: an identifier, or what \<open>std::bind(&onTimer,
  weak_cond, cb)\<close> makes of one and a weak pointer (\<^verbatim>\<open>src/timer.cc\<close>).
\<close>

datatype callback = Callback nat | On_timer nat nat

subsection \<open>64-bit unsigned arithmetic on natural numbers\<close>

text \<open>\<open>size_t\<close> and \<open>uint64_t\<close> values as \<open>nat\<close> below \<open>2 ^ 64\<close>, with the wrap written out.\<close>

definition u64max :: nat where
  "u64max = 2 ^ 64 - 1"

definition usub64 :: "nat \<Rightarrow> nat \<Rightarrow> nat" where
  "usub64 a b = (a + 2 ^ 64 - b) mod 2 ^ 64"

definition uadd64 :: "nat \<Rightarrow> nat \<Rightarrow> nat" where
  "uadd64 a b = (a + b) mod 2 ^ 64"

lemma usub64_no_wrap: "b \<le> a \<Longrightarrow> a < 2 ^ 64 \<Longrightarrow> usub64 a b = a - b"
proof -
  assume a: "b \<le> a" "a < 2 ^ 64"
  then have "a + 2 ^ 64 - b = (a - b) + 2 ^ 64" by simp
  with a show ?thesis by (simp only: usub64_def mod_add_self2) simp
qed

lemma usub64_wrap: "a < b \<Longrightarrow> b < 2 ^ 64 \<Longrightarrow> usub64 a b = 2 ^ 64 - (b - a)"
  by (simp add: usub64_def)

lemma usub64_less [simp]: "usub64 a b < 2 ^ 64"
  by (simp add: usub64_def)

lemma uadd64_no_wrap: "a + b < 2 ^ 64 \<Longrightarrow> uadd64 a b = a + b"
  by (simp add: uadd64_def)

lemma uadd64_less [simp]: "uadd64 a b < 2 ^ 64"
  by (simp add: uadd64_def)

lemmas wrap64_less [simp] = usub64_less[simplified] uadd64_less[simplified]

subsection \<open>Overwriting a slice of a list\<close>

text \<open>
  \<open>overwrite xs p ys\<close> is \<open>xs\<close> with \<open>ys\<close> written from position \<open>p\<close> on; what
  \<open>memcpy\<close> does to a block when \<open>p + length ys \<le> length xs\<close>.
\<close>

definition overwrite :: "'a list \<Rightarrow> nat \<Rightarrow> 'a list \<Rightarrow> 'a list" where
  "overwrite xs p ys = take p xs @ ys @ drop (p + length ys) xs"

lemma length_overwrite: "p + length ys \<le> length xs \<Longrightarrow> length (overwrite xs p ys) = length xs"
  by (simp add: overwrite_def)

lemma overwrite_Nil [simp]: "overwrite xs p [] = xs"
  by (simp add: overwrite_def)

lemma overwrite_append1:
  "p + length ys \<le> length xs \<Longrightarrow> overwrite (xs @ zs) p ys = overwrite xs p ys @ zs"
  by (simp add: overwrite_def)

lemma overwrite_append2:
  "overwrite (xs @ zs) (length xs + p) ys = xs @ overwrite zs p ys"
  by (simp add: overwrite_def)

lemma overwrite_overwrite:
  "p \<le> length xs \<Longrightarrow> overwrite (overwrite xs p ys) (p + length ys) zs = overwrite xs p (ys @ zs)"
  by (simp add: overwrite_def add.commute add.left_commute)

lemma take_overwrite: "p \<le> length xs \<Longrightarrow> take p (overwrite xs p ys) = take p xs"
  by (simp add: overwrite_def)

lemma slice_overwrite:
  "p \<le> length xs \<Longrightarrow> take (length ys) (drop p (overwrite xs p ys)) = ys"
  by (simp add: overwrite_def)

lemma drop_overwrite:
  "p \<le> length xs \<Longrightarrow> drop (p + length ys) (overwrite xs p ys) = drop (p + length ys) xs"
  by (simp add: overwrite_def)

lemma nth_overwrite:
  "p + length ys \<le> length xs \<Longrightarrow> i < length xs \<Longrightarrow>
   overwrite xs p ys ! i = (if p \<le> i \<and> i < p + length ys then ys ! (i - p) else xs ! i)"
  by (auto simp: overwrite_def nth_append min_def)

subsection \<open>Conversion to signed integers\<close>

definition to_int32 :: "int \<Rightarrow> int" where
  "to_int32 x = signed_take_bit 31 x"

definition to_int64 :: "int \<Rightarrow> int" where
  "to_int64 x = signed_take_bit 63 x"

lemma to_int32_id: "0 \<le> x \<Longrightarrow> x < 2 ^ 31 \<Longrightarrow> to_int32 x = x"
  by (simp add: to_int32_def signed_take_bit_int_eq_self)

lemma to_int64_id: "- (2 ^ 63) \<le> x \<Longrightarrow> x < 2 ^ 63 \<Longrightarrow> to_int64 x = x"
  by (simp add: to_int64_def signed_take_bit_int_eq_self)

end
