(* ===== verification/Endian.thy ===== *)
theory Endian
  imports Prelude
begin

unbundle bit_operations_syntax

text \<open>
  Byte order (\<^verbatim>\<open>include/ntmlgb.h\<close>). A machine integer of \<open>n\<close> bytes is a word; its bytes,
  least significant first, are \<open>le_bytes n\<close>. What the object looks like in memory depends
  on the host's byte order, the parameter \<open>host\<close> (\<open>SYLAR_BYTE_ORDER\<close>).
\<close>

type_synonym byte = "8 word"

datatype endian = Little_endian | Big_endian

fun le_bytes :: "nat \<Rightarrow> 'a::len word \<Rightarrow> byte list" where
  "le_bytes 0 w = []"
| "le_bytes (Suc n) w = ucast w # le_bytes n (drop_bit 8 w)"

fun of_le_bytes :: "byte list \<Rightarrow> 'a::len word" where
  "of_le_bytes [] = 0"
| "of_le_bytes (b # bs) = ucast b OR push_bit 8 (of_le_bytes bs)"

abbreviation sizeof :: "'a::len itself \<Rightarrow> nat" where
  "sizeof T \<equiv> LENGTH('a) div 8"

text \<open>The template \<open>byteswap\<close>: \<open>bswap_16/32/64\<close> of \<^verbatim>\<open><byteswap.h>\<close> by the size of the type.\<close>

definition byteswap :: "'a::len word \<Rightarrow> 'a word" where
  "byteswap w = of_le_bytes (rev (le_bytes (LENGTH('a) div 8) w))"

definition byteswapOnLittleEndian :: "endian \<Rightarrow> 'a::len word \<Rightarrow> 'a word" where
  "byteswapOnLittleEndian host t = (if host = Big_endian then t else byteswap t)"

definition byteswapOnBigEndian :: "endian \<Rightarrow> 'a::len word \<Rightarrow> 'a word" where
  "byteswapOnBigEndian host t = (if host = Big_endian then byteswap t else t)"

text \<open>The object representation of an integer, and the integer a block of memory holds.\<close>

definition mem_of :: "endian \<Rightarrow> 'a::len word \<Rightarrow> byte list" where
  "mem_of host w = (let bs = le_bytes (LENGTH('a) div 8) w
                    in if host = Little_endian then bs else rev bs)"

definition val_of :: "endian \<Rightarrow> byte list \<Rightarrow> 'a::len word" where
  "val_of host bs = of_le_bytes (if host = Little_endian then bs else rev bs)"

lemma length_le_bytes [simp]: "length (le_bytes n w) = n"
  by (induction n arbitrary: w) auto

lemma length_mem_of [simp]: "length (mem_of host (w :: 'a::len word)) = LENGTH('a) div 8"
  by (simp add: mem_of_def Let_def)

lemma of_le_bytes_le_bytes: "of_le_bytes (le_bytes n w) = take_bit (8 * n) w"
proof (induction n arbitrary: w)
  case (Suc n)
  show ?case
    by (rule bit_word_eqI) (auto simp: Suc.IH bit_simps)
qed simp

lemma take_bit_of_le_bytes:
  "take_bit (8 * length bs) (of_le_bytes bs :: 'a::len word) = of_le_bytes bs"
proof (induction bs)
  case (Cons b bs)
  have "bit (of_le_bytes bs :: 'a word) n \<Longrightarrow> n < 8 * length bs" for n
    using Cons.IH by (metis bit_take_bit_iff)
  then show ?case
    by (intro bit_word_eqI) (force simp: bit_simps dest: bit_imp_le_length)
qed simp

lemma le_bytes_of_le_bytes:
  "8 * length bs \<le> LENGTH('a) \<Longrightarrow> le_bytes (length bs) (of_le_bytes bs :: 'a::len word) = bs"
proof (induction bs)
  case (Cons b bs)
  have low: "bit (of_le_bytes bs :: 'a word) n \<Longrightarrow> n < 8 * length bs" for n
    using take_bit_of_le_bytes[of bs, where 'a = 'a] by (metis bit_take_bit_iff)
  have 1: "ucast (ucast b OR push_bit 8 (of_le_bytes bs) :: 'a word) = b"
    using Cons.prems by (intro bit_word_eqI) (auto simp: bit_simps)
  have 2: "drop_bit 8 (ucast b OR push_bit 8 (of_le_bytes bs) :: 'a word) = of_le_bytes bs"
    using Cons.prems by (intro bit_word_eqI) (auto simp: bit_simps dest: low bit_imp_le_length)
  have "le_bytes (length bs) (of_le_bytes bs :: 'a word) = bs"
    using Cons.prems by (intro Cons.IH) simp
  then show ?case
    by (simp only: list.size(4) add_Suc_right add_0_right le_bytes.simps of_le_bytes.simps 1 2)
qed simp

lemma val_of_mem_of [simp]:
  "8 dvd LENGTH('a) \<Longrightarrow> val_of host (mem_of host (w :: 'a::len word)) = w"
  by (simp add: val_of_def mem_of_def Let_def of_le_bytes_le_bytes)

lemma le_bytes_byteswap:
  "8 dvd LENGTH('a) \<Longrightarrow>
   le_bytes (LENGTH('a) div 8) (byteswap w) = rev (le_bytes (LENGTH('a) div 8) (w :: 'a::len word))"
  using le_bytes_of_le_bytes[of "rev (le_bytes (LENGTH('a) div 8) w)", where 'a = 'a]
  by (simp add: byteswap_def)

lemma byteswap_byteswap [simp]:
  "8 dvd LENGTH('a) \<Longrightarrow> byteswap (byteswap w) = (w :: 'a::len word)"
  unfolding byteswap_def[of "byteswap w"]
  by (simp add: le_bytes_byteswap of_le_bytes_le_bytes)

lemma mem_of_byteswap:
  "8 dvd LENGTH('a) \<Longrightarrow> mem_of host (byteswap w) = rev (mem_of host (w :: 'a::len word))"
  by (simp add: mem_of_def Let_def le_bytes_byteswap)

lemma byteswapOnLittleEndian_inverse [simp]:
  "8 dvd LENGTH('a) \<Longrightarrow>
   byteswapOnLittleEndian host (byteswapOnLittleEndian host w) = (w :: 'a::len word)"
  by (simp add: byteswapOnLittleEndian_def)

text \<open>
  On either host, swapping on little-endian machines only puts the most significant byte
  first in memory: network byte order.
\<close>

lemma mem_of_byteswapOnLittleEndian:
  "8 dvd LENGTH('a) \<Longrightarrow>
   mem_of host (byteswapOnLittleEndian host w) = rev (le_bytes (LENGTH('a) div 8) (w :: 'a::len word))"
  by (cases host) (simp_all add: byteswapOnLittleEndian_def mem_of_byteswap, simp_all add: mem_of_def)

end
