(* ===== verification/NodeChain.thy ===== *)
theory NodeChain
  imports Endian
begin

text \<open>
  The storage of \<^verbatim>\<open>ByteArray\<close> (\<^verbatim>\<open>include/bytearray.h\<close>, \<^verbatim>\<open>src/bytearray.cc\<close>): a chain of
  heap blocks. The chain reached from \<open>m_root\<close> by \<open>next\<close> is a list of nodes and a
  \<open>Node *\<close> is an index into it, \<open>None\<close> for a null pointer. The two copy loops of
  \<open>write\<close> and \<open>read\<close> and the walk of \<open>setPosition\<close> work on this list; the lemmas
  relate each to the flat memory \<open>flat nodes\<close> of the whole chain.
\<close>

subsection \<open>Blocks\<close>

record node =
  n_ptr :: "byte list"
  n_size :: nat

text \<open>
  \<open>new char[size]\<close> leaves the block's contents indeterminate: they come from the
  allocator, a function \<open>junk\<close> the model does not constrain.
\<close>

definition new_node :: "(nat \<Rightarrow> byte) \<Rightarrow> nat \<Rightarrow> node" where
  "new_node junk sz = \<lparr>n_ptr = map junk [0..<sz], n_size = sz\<rparr>"

definition node_at :: "node list \<Rightarrow> nat option \<Rightarrow> fault + node" where
  "node_at nodes cur = (case cur of None \<Rightarrow> Inl Null_deref
     | Some i \<Rightarrow> if i < length nodes then Inr (nodes ! i) else Inl Null_deref)"

definition next_node :: "node list \<Rightarrow> nat \<Rightarrow> nat option" where
  "next_node nodes i = (if Suc i < length nodes then Some (Suc i) else None)"

text \<open>\<open>memcpy\<close> into and out of a block; a copy that leaves the block is a fault.\<close>

definition poke :: "node \<Rightarrow> nat \<Rightarrow> byte list \<Rightarrow> fault + node" where
  "poke nd p bs = (if p + length bs \<le> length (n_ptr nd)
     then Inr (nd\<lparr>n_ptr := overwrite (n_ptr nd) p bs\<rparr>) else Inl Bad_length)"

definition peek :: "node \<Rightarrow> nat \<Rightarrow> nat \<Rightarrow> fault + byte list" where
  "peek nd p n = (if p + n \<le> length (n_ptr nd)
     then Inr (take n (drop p (n_ptr nd))) else Inl Bad_length)"

subsection \<open>The copy loops\<close>

text \<open>
  The \<open>while (size > 0)\<close> loop of \<open>write\<close>. A block with room for the rest takes it and
  the loop ends; otherwise the block is filled, \<open>m_cur = m_cur->next\<close> and
  \<open>ncap = m_cur->size\<close>, which dereferences the new \<open>m_cur\<close>.
\<close>

function ba_write_loop ::
  "node list \<Rightarrow> nat option \<Rightarrow> nat \<Rightarrow> nat \<Rightarrow> nat \<Rightarrow> byte list \<Rightarrow> fault + node list \<times> nat option \<times> nat"
where
  "ba_write_loop nodes cur position npos ncap buf =
     (if buf = [] then Inr (nodes, cur, position)
      else case cur of None \<Rightarrow> Inl Null_deref
      | Some i \<Rightarrow>
        if \<not> i < length nodes then Inl Null_deref
        else if length buf \<le> ncap then
          bindE (poke (nodes ! i) npos buf) (\<lambda>nd.
            Inr (nodes[i := nd],
                 if n_size nd = npos + length buf then next_node nodes i else cur,
                 position + length buf))
        else
          bindE (poke (nodes ! i) npos (take ncap buf)) (\<lambda>nd.
            case next_node nodes i of None \<Rightarrow> Inl Null_deref
            | Some j \<Rightarrow> ba_write_loop (nodes[i := nd]) (Some j) (position + ncap) 0
                         (n_size (nodes ! j)) (drop ncap buf)))"
  by pat_completeness auto
termination
  by (relation "measure (\<lambda>(nodes, cur, _). case cur of None \<Rightarrow> 0 | Some i \<Rightarrow> length nodes - i)")
     (auto simp: next_node_def split: if_splits)

declare ba_write_loop.simps [simp del]

text \<open>The same loop of \<open>read\<close>, which appends what it copies to the caller's buffer.\<close>

function ba_read_loop ::
  "node list \<Rightarrow> nat option \<Rightarrow> nat \<Rightarrow> nat \<Rightarrow> nat \<Rightarrow> nat \<Rightarrow> byte list \<Rightarrow> fault + byte list \<times> nat option \<times> nat"
where
  "ba_read_loop nodes cur position npos ncap sz out =
     (if sz = 0 then Inr (out, cur, position)
      else case cur of None \<Rightarrow> Inl Null_deref
      | Some i \<Rightarrow>
        if \<not> i < length nodes then Inl Null_deref
        else if sz \<le> ncap then
          bindE (peek (nodes ! i) npos sz) (\<lambda>bs.
            Inr (out @ bs,
                 if n_size (nodes ! i) = npos + sz then next_node nodes i else cur,
                 position + sz))
        else
          bindE (peek (nodes ! i) npos ncap) (\<lambda>bs.
            case next_node nodes i of None \<Rightarrow> Inl Null_deref
            | Some j \<Rightarrow> ba_read_loop nodes (Some j) (position + ncap) 0
                         (n_size (nodes ! j)) (sz - ncap) (out @ bs)))"
  by pat_completeness auto
termination
  by (relation "measure (\<lambda>(nodes, cur, _). case cur of None \<Rightarrow> 0 | Some i \<Rightarrow> length nodes - i)")
     (auto simp: next_node_def split: if_splits)

declare ba_read_loop.simps [simp del]

text \<open>The walk of \<open>setPosition\<close> from \<open>m_root\<close>.\<close>

function ba_seek_loop :: "node list \<Rightarrow> nat option \<Rightarrow> nat \<Rightarrow> fault + nat option" where
  "ba_seek_loop nodes cur v =
     (case cur of None \<Rightarrow> Inl Null_deref
      | Some i \<Rightarrow>
        if \<not> i < length nodes then Inl Null_deref
        else if n_size (nodes ! i) < v then
          ba_seek_loop nodes (next_node nodes i) (v - n_size (nodes ! i))
        else if v = n_size (nodes ! i) then Inr (next_node nodes i)
        else Inr cur)"
  by pat_completeness auto
termination
  by (relation "measure (\<lambda>(nodes, cur, _). case cur of None \<Rightarrow> 0 | Some i \<Rightarrow> length nodes - i)")
     (auto simp: next_node_def split: if_splits)

declare ba_seek_loop.simps [simp del]

subsection \<open>The chain as flat memory\<close>

definition flat :: "node list \<Rightarrow> byte list" where
  "flat nodes = concat (map n_ptr nodes)"

definition uniform :: "nat \<Rightarrow> node list \<Rightarrow> bool" where
  "uniform base nodes \<longleftrightarrow> (\<forall>nd \<in> set nodes. n_size nd = base \<and> length (n_ptr nd) = base)"

text \<open>The block that holds flat position \<open>p\<close>; null at the end of the chain.\<close>

definition cursor :: "nat \<Rightarrow> nat \<Rightarrow> nat \<Rightarrow> nat option" where
  "cursor base n p = (if p < n * base then Some (p div base) else None)"

lemma flat_append [simp]: "flat (xs @ ys) = flat xs @ flat ys"
  by (simp add: flat_def)

lemma flat_Cons [simp]: "flat (x # xs) = n_ptr x @ flat xs"
  by (simp add: flat_def)

lemma uniform_append [simp]: "uniform base (xs @ ys) \<longleftrightarrow> uniform base xs \<and> uniform base ys"
  by (auto simp: uniform_def)

lemma uniform_nth:
  "uniform base nodes \<Longrightarrow> i < length nodes \<Longrightarrow> n_size (nodes ! i) = base \<and> length (n_ptr (nodes ! i)) = base"
  by (auto simp: uniform_def)

lemma uniform_new_node [simp]: "uniform base [new_node junk base]"
  by (simp add: uniform_def new_node_def)

lemma uniform_update:
  "uniform base nodes \<Longrightarrow> n_size nd = base \<Longrightarrow> length (n_ptr nd) = base \<Longrightarrow> uniform base (nodes[i := nd])"
  by (auto simp: uniform_def dest: set_update_subset_insert [THEN subsetD])

lemma length_flat: "uniform base nodes \<Longrightarrow> length (flat nodes) = length nodes * base"
  by (induction nodes) (auto simp: flat_def uniform_def)

lemma flat_split:
  assumes "uniform base nodes" "i < length nodes"
  obtains pre post where "nodes = pre @ nodes ! i # post" "length pre = i" "length (flat pre) = i * base"
    "flat nodes = flat pre @ n_ptr (nodes ! i) @ flat post"
proof
  show eq: "nodes = take i nodes @ nodes ! i # drop (Suc i) nodes"
    using assms(2) by (simp add: id_take_nth_drop)
  show "length (take i nodes) = i" using assms(2) by simp
  have "uniform base (take i nodes)" using assms(1) by (auto simp: uniform_def dest: in_set_takeD)
  then show "length (flat (take i nodes)) = i * base"
    using assms(2) by (simp add: length_flat)
  show "flat nodes = flat (take i nodes) @ n_ptr (nodes ! i) @ flat (drop (Suc i) nodes)"
    using eq by (metis flat_append flat_Cons)
qed

lemma flat_poke:
  assumes "uniform base nodes" "i < length nodes" "p + length bs \<le> base"
  shows "flat (nodes[i := (nodes ! i)\<lparr>n_ptr := overwrite (n_ptr (nodes ! i)) p bs\<rparr>]) =
         overwrite (flat nodes) (i * base + p) bs"
proof -
  obtain pre post where s: "nodes = pre @ nodes ! i # post" "length pre = i"
    "length (flat pre) = i * base" "flat nodes = flat pre @ n_ptr (nodes ! i) @ flat post"
    using flat_split[OF assms(1,2)] .
  have len: "length (n_ptr (nodes ! i)) = base"
    using assms by (simp add: uniform_nth)
  have "nodes[i := nd] = pre @ nd # post" for nd
    by (subst s(1)) (simp add: s(2)[symmetric])
  moreover have "overwrite (flat nodes) (i * base + p) bs =
      flat pre @ overwrite (n_ptr (nodes ! i)) p bs @ flat post"
    using assms(3) len by (simp add: s(4) s(3)[symmetric] overwrite_append2 overwrite_append1)
  ultimately show ?thesis by simp
qed

lemma flat_peek:
  assumes "uniform base nodes" "i < length nodes" "p + n \<le> base"
  shows "take n (drop p (n_ptr (nodes ! i))) = take n (drop (i * base + p) (flat nodes))"
proof -
  obtain pre post where s: "length (flat pre) = i * base"
    "flat nodes = flat pre @ n_ptr (nodes ! i) @ flat post"
    using flat_split[OF assms(1,2)] .
  have "length (n_ptr (nodes ! i)) = base" using assms by (simp add: uniform_nth)
  then show ?thesis using assms(3) by (simp add: s(2) s(1)[symmetric])
qed

lemma cursor_next:
  assumes "0 < base" "i < n"
  shows "(if Suc i < n then Some (Suc i) else None) = cursor base n (i * base + base)"
proof -
  have "(i * base + base) div base = Suc i" using assms(1) by simp
  moreover have "i * base + base < n * base \<longleftrightarrow> Suc i < n"
    using assms(1) by (metis add.commute mult_Suc mult_less_cancel2)
  ultimately show ?thesis by (simp add: cursor_def)
qed

lemma cursor_inside:
  assumes "p < base" "i < n"
  shows "cursor base n (i * base + p) = Some i"
proof -
  have "i * base + p < Suc i * base" using assms(1) by simp
  also have "\<dots> \<le> n * base" using assms(2) by (intro mult_le_mono1) simp
  finally show ?thesis using assms(1) by (simp add: cursor_def div_mult_self3)
qed

subsection \<open>Correctness of the loops\<close>

lemma block_less: "i * base < n * base \<Longrightarrow> i < (n :: nat)" for base :: nat
  by (simp only: mult_less_cancel2)

lemma poke_ok:
  "uniform base nodes \<Longrightarrow> i < length nodes \<Longrightarrow> p + length bs \<le> base \<Longrightarrow>
   poke (nodes ! i) p bs = Inr ((nodes ! i)\<lparr>n_ptr := overwrite (n_ptr (nodes ! i)) p bs\<rparr>)"
  by (simp add: poke_def uniform_nth)

lemma uniform_poke:
  "uniform base nodes \<Longrightarrow> i < length nodes \<Longrightarrow> p + length bs \<le> base \<Longrightarrow>
   uniform base (nodes[i := (nodes ! i)\<lparr>n_ptr := overwrite (n_ptr (nodes ! i)) p bs\<rparr>])"
  by (simp add: uniform_update uniform_nth length_overwrite)

lemma peek_ok:
  "uniform base nodes \<Longrightarrow> i < length nodes \<Longrightarrow> p + n \<le> base \<Longrightarrow>
   peek (nodes ! i) p n = Inr (take n (drop (i * base + p) (flat nodes)))"
  by (simp add: peek_def uniform_nth flat_peek)

lemma ba_write_loop_ok:
  assumes "uniform base nodes" "i < length nodes" "npos < base" "buf \<noteq> []"
    and "i * base + npos + length buf \<le> length nodes * base"
  shows "\<exists>nodes'. ba_write_loop nodes (Some i) position npos (base - npos) buf =
           Inr (nodes', cursor base (length nodes) (i * base + npos + length buf), position + length buf)
         \<and> uniform base nodes' \<and> length nodes' = length nodes
         \<and> flat nodes' = overwrite (flat nodes) (i * base + npos) buf"
  using assms
proof (induction "length buf" arbitrary: nodes i npos position buf rule: less_induct)
  case less
  note un = less.prems(1) and i = less.prems(2)
  show ?case
  proof (cases "length buf \<le> base - npos")
    case True
    then have fits: "npos + length buf \<le> base" using less.prems(3) by simp
    have cur: "(if base = npos + length buf then next_node nodes i else Some i)
        = cursor base (length nodes) (i * base + npos + length buf)"
    proof (cases "base = npos + length buf")
      case True
      then show ?thesis
        using cursor_next[of base i "length nodes"] less.prems(3) i
        by (simp add: next_node_def add.assoc)
    next
      case False
      with fits have "npos + length buf < base" by simp
      from cursor_inside[OF this i] False show ?thesis by (simp add: add.assoc)
    qed
    show ?thesis
      using True less.prems(4) cur
      by (subst ba_write_loop.simps)
         (simp add: poke_ok[OF un i fits] flat_poke[OF un i fits] uniform_poke[OF un i fits]
           uniform_nth[OF un i] i)
  next
    case False
    define bs where "bs = take (base - npos) buf"
    define nd where "nd = (nodes ! i)\<lparr>n_ptr := overwrite (n_ptr (nodes ! i)) npos bs\<rparr>"
    have len: "length bs = base - npos" and fits: "npos + length bs \<le> base"
      using False less.prems(3) by (auto simp: bs_def)
    have "Suc i * base < length nodes * base"
      using less.prems(3,5) False by simp
    then have j: "Suc i < length nodes" by (rule block_less)
    let ?rest = "drop (base - npos) buf"
    have "\<exists>nodes'. ba_write_loop (nodes[i := nd]) (Some (Suc i)) (position + (base - npos)) 0 (base - 0) ?rest =
           Inr (nodes', cursor base (length (nodes[i := nd])) (Suc i * base + 0 + length ?rest),
                position + (base - npos) + length ?rest)
         \<and> uniform base nodes' \<and> length nodes' = length (nodes[i := nd])
         \<and> flat nodes' = overwrite (flat (nodes[i := nd])) (Suc i * base + 0) ?rest"
      by (rule less.hyps) (use False less.prems j in \<open>auto simp: nd_def uniform_poke[OF un i fits]\<close>)
    moreover have "flat (nodes[i := nd]) = overwrite (flat nodes) (i * base + npos) bs"
      unfolding nd_def by (rule flat_poke[OF un i fits])
    moreover have "overwrite (overwrite (flat nodes) (i * base + npos) bs) (Suc i * base) ?rest
        = overwrite (flat nodes) (i * base + npos) buf"
      using overwrite_overwrite[of "i * base + npos" "flat nodes" bs ?rest] less.prems(3,5) len
      by (simp add: length_flat[OF un] bs_def add.commute)
    ultimately show ?thesis
      using False less.prems(3,4) j
      by (subst ba_write_loop.simps)
         (simp add: poke_ok[OF un i fits, folded nd_def] bs_def[symmetric] next_node_def i
           uniform_nth[OF un j] add.commute add.left_commute)
  qed
qed

lemma ba_read_loop_ok:
  assumes "uniform base nodes" "i < length nodes" "npos < base" "0 < n"
    and "i * base + npos + n \<le> length nodes * base"
  shows "ba_read_loop nodes (Some i) position npos (base - npos) n out =
           Inr (out @ take n (drop (i * base + npos) (flat nodes)),
                cursor base (length nodes) (i * base + npos + n), position + n)"
  using assms
proof (induction n arbitrary: i npos position out rule: less_induct)
  case (less n)
  note un = less.prems(1) and i = less.prems(2)
  show ?case
  proof (cases "n \<le> base - npos")
    case True
    then have fits: "npos + n \<le> base" using less.prems(3) by simp
    have cur: "(if base = npos + n then next_node nodes i else Some i)
        = cursor base (length nodes) (i * base + npos + n)"
    proof (cases "base = npos + n")
      case True
      then show ?thesis
        using cursor_next[of base i "length nodes"] less.prems(3) i
        by (simp add: next_node_def add.assoc)
    next
      case False
      with fits have "npos + n < base" by simp
      from cursor_inside[OF this i] False show ?thesis by (simp add: add.assoc)
    qed
    show ?thesis
      using True less.prems(4) cur
      by (subst ba_read_loop.simps) (simp add: peek_ok[OF un i fits] uniform_nth[OF un i] i)
  next
    case False
    define k where "k = base - npos"
    have k: "npos + k = base" "0 < k" "k < n" using False less.prems(3) by (auto simp: k_def)
    have "Suc i * base < length nodes * base" using k less.prems(5) by simp
    then have j: "Suc i < length nodes" by (rule block_less)
    have "ba_read_loop nodes (Some (Suc i)) (position + k) 0 (base - 0) (n - k)
            (out @ take k (drop (i * base + npos) (flat nodes))) =
          Inr ((out @ take k (drop (i * base + npos) (flat nodes))) @
               take (n - k) (drop (Suc i * base + 0) (flat nodes)),
               cursor base (length nodes) (Suc i * base + 0 + (n - k)), position + k + (n - k))"
      by (rule less.IH) (use k less.prems j in auto)
    moreover have "take k (drop (i * base + npos) (flat nodes)) @ take (n - k) (drop (Suc i * base) (flat nodes))
        = take n (drop (i * base + npos) (flat nodes))"
    proof -
      have "Suc i * base = k + (i * base + npos)" using k by simp
      then have "drop (Suc i * base) (flat nodes) = drop k (drop (i * base + npos) (flat nodes))"
        by (simp only: drop_drop)
      then show ?thesis using k by (metis take_add less_imp_add_positive add_diff_cancel_left')
    qed
    moreover have "Suc i * base + (n - k) = i * base + npos + n" using k by simp
    ultimately show ?thesis
      using False less.prems(4) j k
      by (subst ba_read_loop.simps)
         (simp add: peek_ok[OF un i, of npos k] next_node_def i uniform_nth[OF un j] k_def[symmetric])
  qed
qed

lemma ba_seek_loop_ok:
  assumes "uniform base nodes" "0 < base" "i < length nodes" "i * base + v \<le> length nodes * base"
  shows "ba_seek_loop nodes (Some i) v = Inr (cursor base (length nodes) (i * base + v))"
  using assms
proof (induction v arbitrary: i rule: less_induct)
  case (less v)
  note un = less.prems(1) and i = less.prems(3)
  consider "base < v" | "v = base" | "v < base" by linarith
  then show ?case
  proof cases
    case 1
    with less.prems(4) have "Suc i * base < length nodes * base" by simp
    then have j: "Suc i < length nodes" by (rule block_less)
    have "ba_seek_loop nodes (Some (Suc i)) (v - base) = Inr (cursor base (length nodes) (Suc i * base + (v - base)))"
      by (rule less.IH) (use 1 less.prems j in auto)
    then show ?thesis using 1 j
      by (subst ba_seek_loop.simps) (simp add: i uniform_nth[OF un i] next_node_def add.commute)
  next
    case 2
    then show ?thesis using cursor_next[OF less.prems(2) i]
      by (subst ba_seek_loop.simps) (simp add: i uniform_nth[OF un i] next_node_def)
  next
    case 3
    then show ?thesis using cursor_inside[OF 3 i]
      by (subst ba_seek_loop.simps) (simp add: i uniform_nth[OF un i])
  qed
qed

end
