(* ===== verification/ByteStore.thy ===== *)
theory ByteStore
  imports Endian
begin

text \<open>
  The interface between the storage of a byte buffer and the encodings on top of it: put
  bytes at the position, get bytes from it. The encodings rely on these laws only.
\<close>

definition at_pos :: "'a list \<Rightarrow> nat \<Rightarrow> 'a list \<Rightarrow> bool" where
  "at_pos xs p ys \<longleftrightarrow> p \<le> length xs \<and> take (length ys) (drop p xs) = ys"

lemma at_pos_length: "at_pos xs p ys \<Longrightarrow> p + length ys \<le> length xs"
proof -
  assume a: "at_pos xs p ys"
  then have "length (take (length ys) (drop p xs)) = length ys" by (simp only: at_pos_def)
  then have "length ys \<le> length xs - p" by (simp add: min_def split: if_splits)
  moreover have "p \<le> length xs" using a by (simp only: at_pos_def)
  ultimately show ?thesis by linarith
qed

lemma at_pos_overwrite: "p \<le> length xs \<Longrightarrow> at_pos (overwrite xs p ys) p ys"
  by (simp add: at_pos_def slice_overwrite) (simp add: overwrite_def)

lemma at_pos_append:
  "at_pos xs p (ys @ zs) \<longleftrightarrow> at_pos xs p ys \<and> at_pos xs (p + length ys) zs"
proof
  assume a: "at_pos xs p (ys @ zs)"
  have len: "p + (length ys + length zs) \<le> length xs" using at_pos_length[OF a] by simp
  have split: "take (length ys) (drop p xs) @ take (length zs) (drop (p + length ys) xs) = ys @ zs"
    using a by (simp add: at_pos_def take_add add.commute)
  moreover have "length (take (length ys) (drop p xs)) = length ys" using len by simp
  ultimately show "at_pos xs p ys \<and> at_pos xs (p + length ys) zs"
    using len by (simp add: at_pos_def append_eq_append_conv)
next
  assume "at_pos xs p ys \<and> at_pos xs (p + length ys) zs"
  then show "at_pos xs p (ys @ zs)"
    by (auto simp: at_pos_def take_add add.commute dest: sym)
qed

lemma at_pos_Cons: "at_pos xs p (y # ys) \<longleftrightarrow> at_pos xs p [y] \<and> at_pos xs (Suc p) ys"
  using at_pos_append[of xs p "[y]" ys] by simp

lemma at_pos_overwrite_before:
  assumes "at_pos xs q zs" "q + length zs \<le> p" "p \<le> length xs"
  shows "at_pos (overwrite xs p ys) q zs"
  using assms at_pos_length[OF assms(1)]
  by (auto simp: at_pos_def overwrite_def drop_take take_append min_def)

locale byte_store =
  fixes put :: "byte list \<Rightarrow> 's \<Rightarrow> fault + 's"
    and get :: "nat \<Rightarrow> 's \<Rightarrow> fault + byte list \<times> 's"
    and content :: "'s \<Rightarrow> byte list"
    and pos :: "'s \<Rightarrow> nat"
    and frame :: "'s \<Rightarrow> 'f"
    and inv :: "'s \<Rightarrow> bool"
    and room :: "'s \<Rightarrow> nat \<Rightarrow> bool"
  assumes put_spec: "inv s \<Longrightarrow> room s (length bs) \<Longrightarrow>
      \<exists>t. put bs s = Inr t \<and> inv t \<and> content t = overwrite (content s) (pos s) bs
        \<and> pos t = pos s + length bs \<and> frame t = frame s"
    and get_spec: "inv s \<Longrightarrow> 0 < n \<Longrightarrow> n \<le> length (content s) - pos s \<Longrightarrow>
      \<exists>t. get n s = Inr (take n (drop (pos s) (content s)), t) \<and> inv t
        \<and> content t = content s \<and> pos t = pos s + n \<and> frame t = frame s"
    and get_short: "inv s \<Longrightarrow> length (content s) - pos s < n \<Longrightarrow> get n s = Inl Out_of_range"
    and pos_bound: "inv s \<Longrightarrow> pos s \<le> length (content s)"
    and room_put: "put bs s = Inr t \<Longrightarrow> inv s \<Longrightarrow> room s (length bs + n) \<Longrightarrow> room t n"
    and room_less: "room s (m + n) \<Longrightarrow> room s m"
begin

definition stepped :: "'s \<Rightarrow> 's \<Rightarrow> nat \<Rightarrow> bool" where
  "stepped s t n \<longleftrightarrow> inv t \<and> content t = content s \<and> pos t = pos s + n \<and> frame t = frame s"

definition stored :: "'s \<Rightarrow> 's \<Rightarrow> byte list \<Rightarrow> bool" where
  "stored s t bs \<longleftrightarrow> inv t \<and> content t = overwrite (content s) (pos s) bs
     \<and> pos t = pos s + length bs \<and> frame t = frame s"

text \<open>Reading back a block that lies at the position.\<close>

lemma get_at:
  assumes "inv s" "bs \<noteq> []" "at_pos (content s) (pos s) bs"
  shows "\<exists>t. get (length bs) s = Inr (bs, t) \<and> stepped s t (length bs)"
proof -
  have "length bs \<le> length (content s) - pos s"
    using at_pos_length[OF assms(3)] by linarith
  moreover have "0 < length bs" using assms(2) by simp
  ultimately show ?thesis
    using get_spec[OF assms(1), of "length bs"] assms(3) by (auto simp: at_pos_def stepped_def)
qed

lemma put_stored:
  assumes "inv s" "room s (length bs)"
  shows "\<exists>t. put bs s = Inr t \<and> stored s t bs"
  using put_spec[OF assms] by (auto simp: stored_def)

text \<open>Two puts in a row store the concatenation.\<close>

lemma stored_trans: "inv s \<Longrightarrow> stored s u as \<Longrightarrow> stored u t bs \<Longrightarrow> stored s t (as @ bs)"
  using pos_bound[of s] by (simp add: stored_def overwrite_overwrite)

lemma put_put:
  assumes "inv s" "room s (length (as @ bs))"
  shows "\<exists>t. bindE (put as s) (put bs) = Inr t \<and> stored s t (as @ bs)"
proof -
  have ra: "room s (length as)" using room_less[of s "length as" "length bs"] assms(2) by simp
  obtain u where u: "put as s = Inr u" "stored s u as" using put_stored[OF assms(1) ra] by blast
  have "room u (length bs)" using room_put[OF u(1) assms(1)] assms(2) by simp
  then obtain t where t: "put bs u = Inr t" "stored u t bs"
    using put_stored[of u bs] u(2) by (auto simp: stored_def)
  with u stored_trans[OF assms(1)] show ?thesis by auto
qed

lemma stored_at: "inv s \<Longrightarrow> stored s t bs \<Longrightarrow> at_pos (content t) (pos s) bs"
  using pos_bound[of s] by (simp add: stored_def at_pos_overwrite)

end

end
