(* ===== verification/ByteArray.thy ===== *)
theory ByteArray
  imports NodeChain ByteStore
begin

text \<open>
  The class \<^verbatim>\<open>ByteArray\<close> (\<^verbatim>\<open>include/bytearray.h\<close>, \<^verbatim>\<open>src/bytearray.cc\<close>): a growing byte
  buffer over a chain of blocks of \<open>m_baseSize\<close> bytes, with a current position. This
  theory has its state, the untyped operations, its invariant and the refinement of a flat
  buffer; the typed encodings are in \<open>ByteCodec\<close>, files and scatter/gather buffers in
  \<open>ByteBuffers\<close>. Sizes are \<open>size_t\<close> values as \<open>nat\<close>; subtractions wrap at 64 bits.
\<close>

subsection \<open>State\<close>

text \<open>\<open>ba_junk\<close> is not a member of the class: it is the allocator's contents of new blocks.\<close>

record byte_array =
  m_baseSize :: nat
  m_position :: nat
  m_capacity :: nat
  m_size :: nat
  m_endian :: endian
  m_root :: "node list"
  m_cur :: "nat option"
  ba_junk :: "nat \<Rightarrow> byte"

definition ByteArray :: "(nat \<Rightarrow> byte) \<Rightarrow> nat \<Rightarrow> byte_array" where
  "ByteArray junk base_size = \<lparr>m_baseSize = base_size, m_position = 0, m_capacity = base_size,
     m_size = 0, m_endian = Big_endian, m_root = [new_node junk base_size], m_cur = Some 0,
     ba_junk = junk\<rparr>"

definition isLittleEndian :: "byte_array \<Rightarrow> bool" where
  "isLittleEndian s = (m_endian s = Little_endian)"

definition setIsLittleEndian :: "bool \<Rightarrow> byte_array \<Rightarrow> byte_array" where
  "setIsLittleEndian val s = (if val then s\<lparr>m_endian := Little_endian\<rparr> else s\<lparr>m_endian := Big_endian\<rparr>)"

definition getReadSize :: "byte_array \<Rightarrow> nat" where
  "getReadSize s = usub64 (m_size s) (m_position s)"

definition getCapacity :: "byte_array \<Rightarrow> nat" where
  "getCapacity s = usub64 (m_capacity s) (m_position s)"

subsection \<open>Operations\<close>

definition ba_clear :: "byte_array \<Rightarrow> byte_array" where
  "ba_clear s = s\<lparr>m_position := 0, m_size := 0, m_capacity := m_baseSize s,
     m_root := take 1 (m_root s), m_cur := Some 0\<rparr>"

text \<open>The \<open>for\<close> loop of \<open>addCapacity\<close>: each round appends one block.\<close>

fun add_blocks :: "nat \<Rightarrow> byte_array \<Rightarrow> byte_array" where
  "add_blocks 0 s = s"
| "add_blocks (Suc count) s = add_blocks count
     (s\<lparr>m_root := m_root s @ [new_node (ba_junk s) (m_baseSize s)],
        m_capacity := m_capacity s + m_baseSize s\<rparr>)"

text \<open>
  \<open>ceil(1.0 * size / m_baseSize)\<close> is computed in a \<open>double\<close>; the model takes the exact rounded-up
  quotient, which is the same for sizes below \<open>2 ^ 53\<close>: beyond that, which no memory holds, the code may be
  a block off. For \<open>m_baseSize = 0\<close> the conversion of infinity is undefined.
\<close>

definition ba_addCapacity :: "nat \<Rightarrow> byte_array \<Rightarrow> fault + byte_array" where
  "ba_addCapacity sz s =
     (if sz = 0 then Inr s
      else let old_cap = getCapacity s in
        if sz \<le> old_cap then Inr s
        else if m_baseSize s = 0 then Inl Div_by_zero
        else let sz' = sz - old_cap;
                 count = (sz' + m_baseSize s - 1) div m_baseSize s;
                 first = length (m_root s);
                 s' = add_blocks count s
             in Inr (if old_cap = 0 then s'\<lparr>m_cur := Some first\<rparr> else s'))"

definition ba_write :: "byte list \<Rightarrow> byte_array \<Rightarrow> fault + byte_array" where
  "ba_write buf s =
     (if buf = [] then Inr s
      else bindE (ba_addCapacity (length buf) s) (\<lambda>s.
        if m_baseSize s = 0 then Inl Div_by_zero
        else let npos = m_position s mod m_baseSize s in
          bindE (node_at (m_root s) (m_cur s)) (\<lambda>nd.
            let ncap = usub64 (n_size nd) npos in
            bindE (ba_write_loop (m_root s) (m_cur s) (m_position s) npos ncap buf) (\<lambda>(nodes, cur, pos).
              Inr (s\<lparr>m_root := nodes, m_cur := cur, m_position := pos,
                     m_size := (if m_size s < pos then pos else m_size s)\<rparr>)))))"

definition ba_read :: "nat \<Rightarrow> byte_array \<Rightarrow> fault + byte list \<times> byte_array" where
  "ba_read sz s =
     (if getReadSize s < sz then Inl Out_of_range
      else if m_baseSize s = 0 then Inl Div_by_zero
      else let npos = m_position s mod m_baseSize s in
        bindE (node_at (m_root s) (m_cur s)) (\<lambda>nd.
          let ncap = usub64 (n_size nd) npos in
          bindE (ba_read_loop (m_root s) (m_cur s) (m_position s) npos ncap sz []) (\<lambda>(bs, cur, pos).
            Inr (bs, s\<lparr>m_cur := cur, m_position := pos\<rparr>))))"

text \<open>The \<open>const\<close> overload with a position; it too starts from \<open>m_cur\<close>.\<close>

definition ba_read_at :: "nat \<Rightarrow> nat \<Rightarrow> byte_array \<Rightarrow> fault + byte list" where
  "ba_read_at sz position s =
     (if usub64 (m_size s) position < sz then Inl Out_of_range
      else if m_baseSize s = 0 then Inl Div_by_zero
      else let npos = position mod m_baseSize s in
        bindE (node_at (m_root s) (m_cur s)) (\<lambda>nd.
          let ncap = usub64 (n_size nd) npos in
          bindE (ba_read_loop (m_root s) (m_cur s) position npos ncap sz []) (\<lambda>(bs, _, _). Inr bs)))"

definition ba_setPosition :: "nat \<Rightarrow> byte_array \<Rightarrow> fault + byte_array" where
  "ba_setPosition v s =
     (if m_capacity s < v then Inl Out_of_range
      else bindE (ba_seek_loop (m_root s) (Some 0) v) (\<lambda>cur.
        Inr (s\<lparr>m_position := v, m_size := (if m_size s < v then v else m_size s), m_cur := cur\<rparr>)))"

definition ba_toString :: "byte_array \<Rightarrow> fault + byte list" where
  "ba_toString s = (if getReadSize s = 0 then Inr [] else ba_read_at (getReadSize s) (m_position s) s)"

subsection \<open>Invariant and abstraction\<close>

definition ba_inv :: "byte_array \<Rightarrow> bool" where
  "ba_inv s \<longleftrightarrow> 0 < m_baseSize s \<and> m_root s \<noteq> [] \<and> uniform (m_baseSize s) (m_root s)
     \<and> m_capacity s = length (m_root s) * m_baseSize s
     \<and> m_position s \<le> m_size s \<and> m_size s \<le> m_capacity s
     \<and> m_cur s = cursor (m_baseSize s) (length (m_root s)) (m_position s)
     \<and> m_capacity s < 2 ^ 64"

text \<open>The bytes written so far, \<open>[0, m_size)\<close> of the chain, and the address-space bound.\<close>

definition ba_content :: "byte_array \<Rightarrow> byte list" where
  "ba_content s = take (m_size s) (flat (m_root s))"

definition ba_room :: "byte_array \<Rightarrow> nat \<Rightarrow> bool" where
  "ba_room s n \<longleftrightarrow> m_position s + n + m_baseSize s < 2 ^ 64"

lemma ba_invD:
  assumes "ba_inv s"
  shows "0 < m_baseSize s" "m_root s \<noteq> []" "uniform (m_baseSize s) (m_root s)"
    "m_capacity s = length (m_root s) * m_baseSize s" "m_position s \<le> m_size s" "m_size s \<le> m_capacity s"
    "m_cur s = cursor (m_baseSize s) (length (m_root s)) (m_position s)" "m_capacity s < 2 ^ 64"
  using assms by (auto simp: ba_inv_def)

lemma ba_inv_length_content: "ba_inv s \<Longrightarrow> length (ba_content s) = m_size s"
  using ba_invD(4,6)[of s] length_flat[OF ba_invD(3)] by (simp add: ba_content_def)

lemma ba_inv_getReadSize: "ba_inv s \<Longrightarrow> getReadSize s = m_size s - m_position s"
  using ba_invD[of s] by (simp add: getReadSize_def usub64_no_wrap)

lemma ba_inv_getCapacity: "ba_inv s \<Longrightarrow> getCapacity s = m_capacity s - m_position s"
  using ba_invD[of s] by (simp add: getCapacity_def usub64_no_wrap)

lemma ba_inv_new: "0 < base \<Longrightarrow> base < 2 ^ 64 \<Longrightarrow> ba_inv (ByteArray junk base)"
  by (simp add: ba_inv_def ByteArray_def cursor_def)

lemma ba_inv_setIsLittleEndian: "ba_inv s \<Longrightarrow> ba_inv (setIsLittleEndian v s)"
  by (simp add: ba_inv_def setIsLittleEndian_def)

lemma ba_inv_clear:
  assumes "ba_inv s" shows "ba_inv (ba_clear s)"
proof -
  obtain nd rest where r: "m_root s = nd # rest" using ba_invD(2)[OF assms] by (cases "m_root s") auto
  then have "m_baseSize s \<le> m_capacity s" using ba_invD(4)[OF assms] by simp
  then show ?thesis using ba_invD[OF assms] r
    by (auto simp: ba_inv_def ba_clear_def cursor_def uniform_def)
qed

subsection \<open>Growing the chain\<close>

lemma add_blocks_eq:
  "add_blocks count s = s\<lparr>m_root := m_root s @ replicate count (new_node (ba_junk s) (m_baseSize s)),
     m_capacity := m_capacity s + count * m_baseSize s\<rparr>"
proof (induction count arbitrary: s)
  case (Suc count)
  show ?case by (simp add: Suc.IH replicate_append_same[symmetric])
qed simp

lemma uniform_replicate [simp]: "uniform base (replicate n (new_node junk base))"
  by (auto simp: uniform_def new_node_def)

text \<open>What every operation that only moves the position or grows the chain keeps.\<close>

definition same_bytes :: "byte_array \<Rightarrow> byte_array \<Rightarrow> bool" where
  "same_bytes s t \<longleftrightarrow> ba_content t = ba_content s \<and> m_size t = m_size s
     \<and> m_baseSize t = m_baseSize s \<and> m_endian t = m_endian s"

lemma div_ceil_bounds:
  fixes a b :: nat assumes "0 < b" "0 < a"
  shows "a \<le> (a + b - 1) div b * b" "(a + b - 1) div b * b < a + b"
proof -
  have eq: "(a + b - 1) div b * b + (a + b - 1) mod b = a + b - 1" by simp
  have lt: "(a + b - 1) mod b < b" using assms(1) by simp
  show "a \<le> (a + b - 1) div b * b" using eq lt assms(2) by linarith
  show "(a + b - 1) div b * b < a + b" using eq lt assms by linarith
qed

lemma cursor_grow:
  assumes "0 < base" "p \<le> n * base" "0 < k"
  shows "cursor base (n + k) p = (if p = n * base then Some n else cursor base n p)"
proof -
  have "n * base < (n + k) * base" using assms by simp
  with assms(2) have "p < (n + k) * base" by linarith
  then show ?thesis using assms by (auto simp: cursor_def simp del: add_mult_distrib)
qed

lemma ba_addCapacity_ok:
  assumes inv: "ba_inv s" and room: "ba_room s n"
  shows "\<exists>t. ba_addCapacity n s = Inr t \<and> ba_inv t \<and> same_bytes s t
     \<and> m_position t = m_position s \<and> m_position s + n \<le> m_capacity t"
proof (cases "n \<le> m_capacity s - m_position s")
  case True
  then show ?thesis using inv ba_invD(5,6)[OF inv]
    by (auto simp: ba_addCapacity_def ba_inv_getCapacity[OF inv] same_bytes_def)
next
  case False
  note I = ba_invD[OF inv]
  let ?a = "n - (m_capacity s - m_position s)"
  define k where "k = (?a + m_baseSize s - 1) div m_baseSize s"
  have k: "?a \<le> k * m_baseSize s" "k * m_baseSize s < ?a + m_baseSize s"
    using div_ceil_bounds[OF I(1), of ?a] False by (auto simp: k_def)
  have k0: "0 < k" using k(1) False by (cases k) auto
  define t where "t = (add_blocks k s)\<lparr>m_cur := if m_capacity s - m_position s = 0
    then Some (length (m_root s)) else m_cur s\<rparr>"
  have eq: "ba_addCapacity n s = Inr t"
    unfolding ba_addCapacity_def Let_def ba_inv_getCapacity[OF inv] k_def[symmetric]
    using False I(1) by (simp add: t_def add_blocks_eq)
  have cap: "m_capacity t = m_capacity s + k * m_baseSize s" by (simp add: t_def add_blocks_eq)
  have "m_capacity t < 2 ^ 64"
    using room cap k(2) False I(5,6) by (simp add: ba_room_def)
  moreover have "m_cur t = cursor (m_baseSize s) (length (m_root s) + k) (m_position s)"
    using I(4,5,6,7) cursor_grow[OF I(1) _ k0, of "m_position s" "length (m_root s)"]
    by (auto simp: t_def add_blocks_eq)
  ultimately have "ba_inv t"
    using I by (auto simp: ba_inv_def t_def add_blocks_eq algebra_simps)
  moreover have "same_bytes s t"
    using I(4,6) length_flat[OF I(3)] by (simp add: same_bytes_def ba_content_def t_def add_blocks_eq)
  moreover have "m_position s + n \<le> m_capacity t" using cap k(1) False I(5,6) by simp
  ultimately show ?thesis using eq by (auto simp: t_def add_blocks_eq)
qed

subsection \<open>Refinement of a flat buffer\<close>

lemma take_overwrite_content:
  assumes "p \<le> n" "n \<le> length xs" "p + length ys \<le> length xs"
  shows "take (max n (p + length ys)) (overwrite xs p ys) = overwrite (take n xs) p ys"
proof -
  have m: "max n (p + length ys) - (p + length ys) = n - (p + length ys)"
    "p + length ys \<le> max n (p + length ys)" by simp_all
  have "take (max n (p + length ys)) (overwrite xs p ys) =
      take p xs @ ys @ take (n - (p + length ys)) (drop (p + length ys) xs)"
    using assms m by (simp add: overwrite_def take_append min_absorb1 del: max_less_iff_conj)
  moreover have "overwrite (take n xs) p ys =
      take p xs @ ys @ take (n - (p + length ys)) (drop (p + length ys) xs)"
    using assms by (simp add: overwrite_def drop_take min_absorb1)
  ultimately show ?thesis by simp
qed

lemma block_rest:
  assumes "0 < base" "0 < n" "n * base < 2 ^ 64"
  shows "usub64 base (p mod base) = base - p mod base"
proof -
  have "1 * base \<le> n * base" using assms(2) by (intro mult_le_mono1) simp
  with assms(3) have "base < 2 ^ 64" by linarith
  then show ?thesis using assms(1) by (simp add: usub64_no_wrap less_imp_le)
qed

lemma block_of_position:
  assumes "0 < base" "p < n * base"
  shows "p div base < n" "p div base * base + p mod base = p" "cursor base n p = Some (p div base)"
  using assms by (simp_all add: cursor_def less_mult_imp_div_less)

lemma ba_write_ok:
  assumes inv: "ba_inv s" and room: "ba_room s (length bs)"
  shows "\<exists>t. ba_write bs s = Inr t \<and> ba_inv t \<and> m_position t = m_position s + length bs
     \<and> ba_content t = overwrite (ba_content s) (m_position s) bs
     \<and> m_baseSize t = m_baseSize s \<and> m_endian t = m_endian s"
proof (cases "bs = []")
  case True
  then show ?thesis using inv by (auto simp: ba_write_def)
next
  case False
  obtain u where u: "ba_addCapacity (length bs) s = Inr u" "ba_inv u" "same_bytes s u"
    "m_position u = m_position s" "m_position s + length bs \<le> m_capacity u"
    using ba_addCapacity_ok[OF inv room] by auto
  note I = ba_invD[OF u(2)]
  let ?b = "m_baseSize u" and ?n = "length (m_root u)" and ?p = "m_position u"
  have p: "?p < ?n * ?b" using u(4,5) I(4) False by (cases bs) auto
  note blk = block_of_position[OF I(1) p]
  obtain nodes where nodes: "ba_write_loop (m_root u) (Some (?p div ?b)) ?p (?p mod ?b) (?b - ?p mod ?b) bs =
      Inr (nodes, cursor ?b ?n (?p + length bs), ?p + length bs)"
    "uniform ?b nodes" "length nodes = ?n" "flat nodes = overwrite (flat (m_root u)) ?p bs"
    using ba_write_loop_ok[OF I(3) blk(1) _ False, of "?p mod ?b" ?p] I(1,4) u(4,5) blk(2) by auto
  let ?t = "u\<lparr>m_root := nodes, m_cur := cursor ?b ?n (?p + length bs), m_position := ?p + length bs,
     m_size := max (m_size u) (?p + length bs)\<rparr>"
  have ncap: "usub64 (n_size (m_root u ! (?p div ?b))) (?p mod ?b) = ?b - ?p mod ?b"
    using uniform_nth[OF I(3) blk(1)] I(2,4,8) by (simp add: block_rest[OF I(1), of ?n])
  have "ba_write bs s = Inr ?t"
    using False I(1) by (simp add: ba_write_def u(1) I(7) blk(3) node_at_def blk(1) ncap nodes(1) max_def Let_def)
  moreover have "ba_inv ?t"
    using I nodes u(4,5) by (auto simp: ba_inv_def)
  moreover have "ba_content ?t = overwrite (ba_content u) ?p bs"
    using take_overwrite_content[of ?p "m_size u" "flat (m_root u)" bs] I(4,5,6) u(4,5) length_flat[OF I(3)]
    by (simp add: ba_content_def nodes(4))
  ultimately show ?thesis using u(3,4) by (auto simp: same_bytes_def)
qed

lemma take_drop_take: "p + n \<le> m \<Longrightarrow> take n (drop p (take m xs)) = take n (drop p xs)"
  by (simp add: drop_take min_def)

lemma ba_read_ok:
  assumes inv: "ba_inv s" and n: "0 < n" "n \<le> m_size s - m_position s"
  shows "\<exists>t. ba_read n s = Inr (take n (drop (m_position s) (ba_content s)), t) \<and> ba_inv t
     \<and> same_bytes s t \<and> m_position t = m_position s + n"
proof -
  note I = ba_invD[OF inv]
  let ?b = "m_baseSize s" and ?n = "length (m_root s)" and ?p = "m_position s"
  have p: "?p < ?n * ?b" using n I(4,6) by simp
  note blk = block_of_position[OF I(1) p]
  have rd: "ba_read_loop (m_root s) (Some (?p div ?b)) ?p (?p mod ?b) (?b - ?p mod ?b) n [] =
      Inr (take n (drop ?p (flat (m_root s))), cursor ?b ?n (?p + n), ?p + n)"
    using ba_read_loop_ok[OF I(3) blk(1) _ n(1), of "?p mod ?b" ?p "[]"] I(1,4,6) n blk(2) by auto
  have ncap: "usub64 (n_size (m_root s ! (?p div ?b))) (?p mod ?b) = ?b - ?p mod ?b"
    using uniform_nth[OF I(3) blk(1)] I(2,4,8) by (simp add: block_rest[OF I(1), of ?n])
  let ?t = "s\<lparr>m_cur := cursor ?b ?n (?p + n), m_position := ?p + n\<rparr>"
  have "ba_read n s = Inr (take n (drop ?p (flat (m_root s))), ?t)"
    using n I(1) by (simp add: ba_read_def ba_inv_getReadSize[OF inv] I(7) blk(3) node_at_def blk(1) ncap rd Let_def)
  moreover have "ba_inv ?t" using I n by (auto simp: ba_inv_def)
  moreover have "take n (drop ?p (flat (m_root s))) = take n (drop ?p (ba_content s))"
    using n by (simp add: ba_content_def take_drop_take)
  ultimately show ?thesis by (auto simp: same_bytes_def ba_content_def)
qed

lemma ba_read_short:
  "ba_inv s \<Longrightarrow> m_size s - m_position s < n \<Longrightarrow> ba_read n s = Inl Out_of_range"
  by (simp add: ba_read_def ba_inv_getReadSize)

text \<open>
  A read of no bytes still evaluates \<open>m_cur->size\<close>: at the end of the chain, where
  \<open>m_cur\<close> is null, it does not return.
\<close>

lemma ba_read_nothing:
  assumes "ba_inv s"
  shows "ba_read 0 s = (if m_position s < m_capacity s then Inr ([], s) else Inl Null_deref)"
proof -
  note I = ba_invD[OF assms]
  show ?thesis
    using I block_of_position[OF I(1), of "m_position s" "length (m_root s)"]
    by (auto simp: ba_read_def node_at_def cursor_def Let_def ba_read_loop.simps)
qed

lemma ba_setPosition_ok:
  assumes inv: "ba_inv s" and v: "v \<le> m_capacity s"
  shows "\<exists>t. ba_setPosition v s = Inr t \<and> ba_inv t \<and> m_position t = v
     \<and> m_size t = max (m_size s) v \<and> take (m_size s) (ba_content t) = ba_content s
     \<and> m_baseSize t = m_baseSize s \<and> m_endian t = m_endian s \<and> m_capacity t = m_capacity s"
proof -
  note I = ba_invD[OF inv]
  let ?t = "s\<lparr>m_position := v, m_size := max (m_size s) v,
      m_cur := cursor (m_baseSize s) (length (m_root s)) v\<rparr>"
  have "ba_seek_loop (m_root s) (Some 0) v = Inr (cursor (m_baseSize s) (length (m_root s)) v)"
    using ba_seek_loop_ok[OF I(3) I(1), of 0 v] I(2,4) v by auto
  then have "ba_setPosition v s = Inr ?t"
    using v by (simp add: ba_setPosition_def max_def)
  moreover have "ba_inv ?t" using I v by (auto simp: ba_inv_def)
  ultimately show ?thesis by (auto simp: ba_content_def)
qed

lemma ba_setPosition_inside:
  assumes "ba_inv s" "v \<le> m_size s"
  shows "\<exists>t. ba_setPosition v s = Inr t \<and> ba_inv t \<and> m_position t = v \<and> same_bytes s t"
proof -
  have "v \<le> m_capacity s" using assms ba_invD(6)[OF assms(1)] by simp
  from ba_setPosition_ok[OF assms(1) this] obtain t where t: "ba_setPosition v s = Inr t" "ba_inv t"
    "m_position t = v" "m_size t = max (m_size s) v" "take (m_size s) (ba_content t) = ba_content s"
    "m_baseSize t = m_baseSize s" "m_endian t = m_endian s" by blast
  moreover have "m_size t = m_size s" using t(4) assms(2) by simp
  then have "ba_content t = ba_content s"
    using t(5) ba_inv_length_content[OF t(2)] by (metis order_refl take_all)
  ultimately show ?thesis using \<open>m_size t = m_size s\<close> by (auto simp: same_bytes_def)
qed

lemma ba_toString_ok:
  assumes inv: "ba_inv s"
  shows "ba_toString s = Inr (drop (m_position s) (ba_content s))"
proof (cases "m_position s = m_size s")
  case True
  then show ?thesis using ba_inv_length_content[OF inv] by (simp add: ba_toString_def ba_inv_getReadSize[OF inv])
next
  case False
  let ?n = "m_size s - m_position s"
  have n: "0 < ?n" using False ba_invD(5)[OF inv] by simp
  obtain t where "ba_read ?n s = Inr (take ?n (drop (m_position s) (ba_content s)), t)"
    using ba_read_ok[OF inv n] by auto
  then have "ba_read_at ?n (m_position s) s = Inr (take ?n (drop (m_position s) (ba_content s)))"
    using n by (auto simp: ba_read_def ba_read_at_def getReadSize_def Let_def split: if_splits)
  then show ?thesis
    using n ba_inv_length_content[OF inv] by (simp add: ba_toString_def ba_inv_getReadSize[OF inv])
qed

interpretation ba: byte_store ba_write ba_read ba_content m_position
  "\<lambda>s. (m_baseSize s, m_endian s)" ba_inv ba_room
proof (unfold_locales, goal_cases)
  case (1 s bs)
  then show ?case using ba_write_ok[of s bs] by auto
next
  case (2 s n)
  then show ?case using ba_read_ok[of s n] ba_inv_length_content[of s] by (auto simp: same_bytes_def)
next
  case (3 s n)
  then show ?case using ba_read_short[of s n] ba_inv_length_content[of s] by simp
next
  case (4 s)
  then show ?case using ba_invD(5)[of s] ba_inv_length_content[of s] by simp
next
  case (5 bs s t n)
  then have "ba_room s (length bs)" by (simp add: ba_room_def)
  from ba_write_ok[OF 5(2) this] 5 show ?case by (auto simp: ba_room_def)
next
  case (6 s m n)
  then show ?case by (simp add: ba_room_def)
qed

end
