(* ===== verification/ByteCodec.thy ===== *)
theory ByteCodec
  imports ByteArray
begin

text \<open>
  The typed writers and readers of \<^verbatim>\<open>ByteArray\<close> (\<^verbatim>\<open>src/bytearray.cc\<close>): fixed-width
  integers in the chosen byte order, zigzag and variable-length integers, floating-point
  values by their bit pattern, and strings with a length prefix. \<open>host\<close> is the byte order
  of the machine. A signed integer is the word with its two's complement representation.
  The proofs use the laws of \<open>byte_store\<close> only.
\<close>

subsection \<open>Fixed-width integers\<close>

text \<open>The common body of \<open>writeFint16\<close> to \<open>writeFuint64\<close>, and the macro \<open>XX\<close> of the readers.\<close>

definition write_fixed :: "endian \<Rightarrow> 'a::len word \<Rightarrow> byte_array \<Rightarrow> fault + byte_array" where
  "write_fixed host value s =
     (let value = (if m_endian s \<noteq> host then byteswap value else value)
      in ba_write (mem_of host value) s)"

definition read_fixed :: "endian \<Rightarrow> byte_array \<Rightarrow> fault + 'a::len word \<times> byte_array" where
  "read_fixed host s = bindE (ba_read (LENGTH('a) div 8) s) (\<lambda>(bs, s).
     let v = val_of host bs in
     Inr (if m_endian s = host then v else byteswap v, s))"

definition writeFint8 :: "8 word \<Rightarrow> byte_array \<Rightarrow> fault + byte_array" where
  "writeFint8 value s = ba_write [value] s"

definition writeFuint8 :: "8 word \<Rightarrow> byte_array \<Rightarrow> fault + byte_array" where
  "writeFuint8 value s = ba_write [value] s"

definition writeFint16 :: "endian \<Rightarrow> 16 word \<Rightarrow> byte_array \<Rightarrow> fault + byte_array" where
  "writeFint16 host value s = write_fixed host value s"

definition writeFuint16 :: "endian \<Rightarrow> 16 word \<Rightarrow> byte_array \<Rightarrow> fault + byte_array" where
  "writeFuint16 host value s = write_fixed host value s"

definition writeFint32 :: "endian \<Rightarrow> 32 word \<Rightarrow> byte_array \<Rightarrow> fault + byte_array" where
  "writeFint32 host value s = write_fixed host value s"

definition writeFuint32 :: "endian \<Rightarrow> 32 word \<Rightarrow> byte_array \<Rightarrow> fault + byte_array" where
  "writeFuint32 host value s = write_fixed host value s"

definition writeFint64 :: "endian \<Rightarrow> 64 word \<Rightarrow> byte_array \<Rightarrow> fault + byte_array" where
  "writeFint64 host value s = write_fixed host value s"

definition writeFuint64 :: "endian \<Rightarrow> 64 word \<Rightarrow> byte_array \<Rightarrow> fault + byte_array" where
  "writeFuint64 host value s = write_fixed host value s"

definition readFint8 :: "byte_array \<Rightarrow> fault + 8 word \<times> byte_array" where
  "readFint8 s = bindE (ba_read 1 s) (\<lambda>(bs, s). Inr (hd bs, s))"

definition readFuint8 :: "byte_array \<Rightarrow> fault + 8 word \<times> byte_array" where
  "readFuint8 s = bindE (ba_read 1 s) (\<lambda>(bs, s). Inr (hd bs, s))"

definition readFint16 :: "endian \<Rightarrow> byte_array \<Rightarrow> fault + 16 word \<times> byte_array" where
  "readFint16 host s = read_fixed host s"

definition readFuint16 :: "endian \<Rightarrow> byte_array \<Rightarrow> fault + 16 word \<times> byte_array" where
  "readFuint16 host s = read_fixed host s"

definition readFint32 :: "endian \<Rightarrow> byte_array \<Rightarrow> fault + 32 word \<times> byte_array" where
  "readFint32 host s = read_fixed host s"

definition readFuint32 :: "endian \<Rightarrow> byte_array \<Rightarrow> fault + 32 word \<times> byte_array" where
  "readFuint32 host s = read_fixed host s"

definition readFint64 :: "endian \<Rightarrow> byte_array \<Rightarrow> fault + 64 word \<times> byte_array" where
  "readFint64 host s = read_fixed host s"

definition readFuint64 :: "endian \<Rightarrow> byte_array \<Rightarrow> fault + 64 word \<times> byte_array" where
  "readFuint64 host s = read_fixed host s"

text \<open>
  \<open>float\<close> and \<open>double\<close> values are copied bit by bit (\<open>memcpy\<close>) to an integer of the same
  size; a value is its bit pattern.
\<close>

definition writeFloat :: "endian \<Rightarrow> 32 word \<Rightarrow> byte_array \<Rightarrow> fault + byte_array" where
  "writeFloat host bits s = writeFuint32 host bits s"

definition writeDouble :: "endian \<Rightarrow> 64 word \<Rightarrow> byte_array \<Rightarrow> fault + byte_array" where
  "writeDouble host bits s = writeFuint64 host bits s"

definition readFloat :: "endian \<Rightarrow> byte_array \<Rightarrow> fault + 32 word \<times> byte_array" where
  "readFloat host s = readFuint32 host s"

definition readDouble :: "endian \<Rightarrow> byte_array \<Rightarrow> fault + 64 word \<times> byte_array" where
  "readDouble host s = readFuint64 host s"

subsection \<open>Zigzag and variable-length integers\<close>

text \<open>
  \<open>-v\<close> and \<open>v * 2\<close> are computed in the signed type, before the conversion to the unsigned
  one: they overflow for the smallest integer and from \<open>2 ^ 30\<close> (\<open>2 ^ 62\<close>) on, which is
  undefined behaviour. The product after the cast to \<open>uint32_t\<close> wraps.
\<close>

definition EncodeZigzag32 :: "32 word \<Rightarrow> fault + 32 word" where
  "EncodeZigzag32 v =
     (if sint v < 0
      then if sint v = - (2 ^ 31) then Inl Signed_overflow else Inr ((- v) * 2 - 1)
      else if 2 ^ 31 \<le> sint v * 2 then Inl Signed_overflow else Inr (v * 2))"

definition EncodeZigzag64 :: "64 word \<Rightarrow> fault + 64 word" where
  "EncodeZigzag64 v =
     (if sint v < 0
      then if sint v = - (2 ^ 63) then Inl Signed_overflow else Inr ((- v) * 2 - 1)
      else if 2 ^ 63 \<le> sint v * 2 then Inl Signed_overflow else Inr (v * 2))"

definition DecodeZigzag32 :: "32 word \<Rightarrow> 32 word" where
  "DecodeZigzag32 v = drop_bit 1 v XOR - (v AND 1)"

definition DecodeZigzag64 :: "64 word \<Rightarrow> 64 word" where
  "DecodeZigzag64 v = drop_bit 1 v XOR - (v AND 1)"

text \<open>The \<open>while (value >= 0x80)\<close> loop that fills \<open>tmp\<close>; both widths have the same body.\<close>

function varint_loop :: "'a::len word \<Rightarrow> byte list \<Rightarrow> byte list" where
  "varint_loop value tmp =
     (if 128 \<le> unat value
      then varint_loop (drop_bit 7 value) (tmp @ [ucast (value AND 0x7F) OR 0x80])
      else tmp @ [ucast value])"
  by pat_completeness auto
termination
  by (relation "measure (\<lambda>(value, tmp). unat value)") (auto simp: unat_drop_bit_eq drop_bit_eq_div[where 'a = nat])

declare varint_loop.simps [simp del]

definition writeUint32 :: "32 word \<Rightarrow> byte_array \<Rightarrow> fault + byte_array" where
  "writeUint32 value s = ba_write (varint_loop value []) s"

definition writeUint64 :: "64 word \<Rightarrow> byte_array \<Rightarrow> fault + byte_array" where
  "writeUint64 value s = ba_write (varint_loop value []) s"

definition writeInt32 :: "32 word \<Rightarrow> byte_array \<Rightarrow> fault + byte_array" where
  "writeInt32 value s = bindE (EncodeZigzag32 value) (\<lambda>v. writeUint32 v s)"

definition writeInt64 :: "64 word \<Rightarrow> byte_array \<Rightarrow> fault + byte_array" where
  "writeInt64 value s = bindE (EncodeZigzag64 value) (\<lambda>v. writeUint64 v s)"

text \<open>The \<open>for (i = 0; i < 32 (or 64); i += 7)\<close> loop of the readers.\<close>

function read_varint_loop :: "nat \<Rightarrow> 'a::len word \<Rightarrow> byte_array \<Rightarrow> fault + 'a word \<times> byte_array" where
  "read_varint_loop i result s =
     (if \<not> i < LENGTH('a) then Inr (result, s)
      else bindE (readFuint8 s) (\<lambda>(b, s).
        if b < 0x80 then Inr (result OR push_bit i (ucast b), s)
        else read_varint_loop (i + 7) (result OR push_bit i (ucast (b AND 0x7F))) s))"
  by pat_completeness auto
termination
  by (relation "measure (\<lambda>(i, result :: 'a word, s). LENGTH('a) - i)") auto

declare read_varint_loop.simps [simp del]

definition readUint32 :: "byte_array \<Rightarrow> fault + 32 word \<times> byte_array" where
  "readUint32 s = read_varint_loop 0 0 s"

definition readUint64 :: "byte_array \<Rightarrow> fault + 64 word \<times> byte_array" where
  "readUint64 s = read_varint_loop 0 0 s"

definition readInt32 :: "byte_array \<Rightarrow> fault + 32 word \<times> byte_array" where
  "readInt32 s = bindE (readUint32 s) (\<lambda>(v, s). Inr (DecodeZigzag32 v, s))"

definition readInt64 :: "byte_array \<Rightarrow> fault + 64 word \<times> byte_array" where
  "readInt64 s = bindE (readUint64 s) (\<lambda>(v, s). Inr (DecodeZigzag64 v, s))"

subsection \<open>Strings\<close>

text \<open>\<open>value.size()\<close> is converted to the prefix's type, dropping high bits.\<close>

definition writeStringF16 :: "endian \<Rightarrow> byte list \<Rightarrow> byte_array \<Rightarrow> fault + byte_array" where
  "writeStringF16 host value s =
     bindE (writeFuint16 host (of_nat (length value)) s) (ba_write value)"

definition writeStringF32 :: "endian \<Rightarrow> byte list \<Rightarrow> byte_array \<Rightarrow> fault + byte_array" where
  "writeStringF32 host value s =
     bindE (writeFuint32 host (of_nat (length value)) s) (ba_write value)"

definition writeStringF64 :: "endian \<Rightarrow> byte list \<Rightarrow> byte_array \<Rightarrow> fault + byte_array" where
  "writeStringF64 host value s =
     bindE (writeFuint64 host (of_nat (length value)) s) (ba_write value)"

definition writeStringVint :: "byte list \<Rightarrow> byte_array \<Rightarrow> fault + byte_array" where
  "writeStringVint value s = bindE (writeUint64 (of_nat (length value)) s) (ba_write value)"

definition writeStringWithoutLength :: "byte list \<Rightarrow> byte_array \<Rightarrow> fault + byte_array" where
  "writeStringWithoutLength value s = ba_write value s"

text \<open>\<open>buff.resize(len)\<close> has no model: a buffer of \<open>len\<close> bytes is assumed to be had.\<close>

definition readStringF16 :: "endian \<Rightarrow> byte_array \<Rightarrow> fault + byte list \<times> byte_array" where
  "readStringF16 host s = bindE (readFuint16 host s) (\<lambda>(len, s). ba_read (unat len) s)"

definition readStringF32 :: "endian \<Rightarrow> byte_array \<Rightarrow> fault + byte list \<times> byte_array" where
  "readStringF32 host s = bindE (readFuint32 host s) (\<lambda>(len, s). ba_read (unat len) s)"

definition readStringF64 :: "endian \<Rightarrow> byte_array \<Rightarrow> fault + byte list \<times> byte_array" where
  "readStringF64 host s = bindE (readFuint64 host s) (\<lambda>(len, s). ba_read (unat len) s)"

definition readStringVint :: "byte_array \<Rightarrow> fault + byte list \<times> byte_array" where
  "readStringVint s = bindE (readUint64 s) (\<lambda>(len, s). ba_read (unat len) s)"

end
