(* ===== verification/ByteRoundtrip.thy ===== *)
theory ByteRoundtrip
  imports ByteCodec
begin

text \<open>
  What the typed writers and readers of \<open>ByteCodec\<close> guarantee: the bytes each writer
  produces, and that each reader recovers the value from them, through the laws of
  \<open>byte_store\<close> (the interpretation \<open>ba\<close>).
\<close>

named_theorems writes_as "a typed writer as one put of its encoding"

subsection \<open>Fixed-width integers\<close>

lemma mem_of_endian:
  "8 dvd LENGTH('a) \<Longrightarrow>
   mem_of host (if e \<noteq> host then byteswap v else v) = mem_of e (v :: 'a::len word)"
  by (cases e; cases host) (simp_all add: mem_of_byteswap, simp_all add: mem_of_def)

lemma write_fixed_eq [writes_as]:
  "8 dvd LENGTH('a) \<Longrightarrow> write_fixed host v s = ba_write (mem_of (m_endian s) (v :: 'a::len word)) s"
  using mem_of_endian[of host "m_endian s" v] by (simp add: write_fixed_def Let_def)

lemma val_of_endian:
  assumes "8 dvd LENGTH('a)"
  shows "(if e = host then val_of host (mem_of e v) else byteswap (val_of host (mem_of e v))) = (v :: 'a::len word)"
proof (cases "e = host")
  case False
  have "mem_of e v = mem_of host (byteswap v)"
    using False mem_of_endian[OF assms, of host e v] by simp
  with False assms show ?thesis by simp
qed (simp add: assms)

lemma read_fixed_at:
  assumes "ba_inv s" "8 dvd LENGTH('a)" "at_pos (ba_content s) (m_position s) (mem_of (m_endian s) (v :: 'a::len word))"
  shows "\<exists>t. read_fixed host s = Inr (v, t) \<and> ba.stepped s t (LENGTH('a) div 8)"
proof -
  have "mem_of (m_endian s) v \<noteq> []"
    using assms(2) by (metis dvd_div_eq_0_iff len_not_eq_0 length_0_conv length_mem_of)
  from ba.get_at[OF assms(1) this assms(3)] obtain t where t:
    "ba_read (LENGTH('a) div 8) s = Inr (mem_of (m_endian s) v, t)" "ba.stepped s t (LENGTH('a) div 8)"
    by auto
  have "m_endian t = m_endian s" using t(2) by (simp add: ba.stepped_def)
  with t val_of_endian[OF assms(2), of "m_endian s" host v] show ?thesis
    by (auto simp: read_fixed_def Let_def)
qed

lemma readFuint8_at:
  assumes "ba_inv s" "at_pos (ba_content s) (m_position s) [b]"
  shows "\<exists>t. readFuint8 s = Inr (b, t) \<and> ba.stepped s t 1"
  using ba.get_at[OF assms(1) _ assms(2)] by (auto simp: readFuint8_def)

subsection \<open>Zigzag\<close>

lemma zigzag_neg: "- v * 2 - 1 = 2 * NOT v OR (1 :: 'a::len word)"
proof -
  have "2 * NOT v OR (1 :: 'a word) = 2 * NOT v + 1"
    by (rule disjunctive_add[symmetric]) (auto simp: bit_simps)
  also have "\<dots> = - v * 2 - 1"
    by (simp add: not_eq_complement algebra_simps)
  finally show ?thesis by simp
qed

lemma sint_neg_iff_bit: "sint v < 0 \<longleftrightarrow> bit (v :: 'a::len word) (LENGTH('a) - 1)"
  by (simp add: sint_uint bit_uint_iff signed_take_bit_eq_if_negative[symmetric]
      signed_take_bit_negative_iff bit_imp_le_length del: bit_take_bit_iff)

lemma decode_zigzag_neg:
  assumes "sint (v :: 'a::len word) < 0"
  shows "drop_bit 1 (- v * 2 - 1) XOR - ((- v * 2 - 1) AND 1) = v"
proof -
  have "(- v * 2 - 1) AND 1 = (1 :: 'a word)"
    unfolding zigzag_neg by (rule bit_word_eqI) (auto simp: bit_simps)
  moreover have "drop_bit 1 (- v * 2 - 1) = take_bit (LENGTH('a) - 1) (NOT v)"
    unfolding zigzag_neg by (rule bit_word_eqI) (auto simp: bit_simps)
  moreover have "take_bit (LENGTH('a) - 1) (NOT v) XOR (- 1) = v"
  proof (rule bit_word_eqI)
    fix n assume "n < LENGTH('a)"
    then show "bit (take_bit (LENGTH('a) - 1) (NOT v) XOR - 1) n = bit v n"
      using assms unfolding sint_neg_iff_bit by (cases "n = LENGTH('a) - 1") (auto simp: bit_simps)
  qed
  ultimately show ?thesis by simp
qed

lemma decode_zigzag_nonneg:
  assumes "\<not> sint (v :: 'a::len word) < 0"
  shows "drop_bit 1 (v * 2) XOR - ((v * 2) AND 1) = v"
proof -
  have eq: "v * 2 = 2 * v" by (simp add: mult.commute)
  have "(v * 2) AND 1 = 0" unfolding eq by (rule bit_word_eqI) (auto simp: bit_simps)
  moreover have "drop_bit 1 (v * 2) = v"
    unfolding eq
  proof (rule bit_word_eqI)
    fix n assume "n < LENGTH('a)"
    then show "bit (drop_bit 1 (2 * v)) n = bit v n"
      using assms unfolding sint_neg_iff_bit by (cases "n = LENGTH('a) - 1") (auto simp: bit_simps)
  qed
  ultimately show ?thesis by simp
qed

subsection \<open>Variable-length integers\<close>

lemma unat_drop_bit7: "unat (drop_bit 7 v) = unat v div 128"
  by (simp add: unat_drop_bit_eq drop_bit_eq_div[where 'a = nat])

lemma varint_acc: "varint_loop v tmp = tmp @ varint_loop v []"
proof (induction "unat v" arbitrary: v tmp rule: less_induct)
  case less
  show ?case
  proof (cases "128 \<le> unat v")
    case True
    let ?b = "ucast (v AND 0x7F) OR 0x80 :: byte"
    have IH: "varint_loop (drop_bit 7 v) t = t @ varint_loop (drop_bit 7 v) []" for t
      by (rule less) (use True in \<open>simp add: unat_drop_bit7\<close>)
    from True show ?thesis
      by (simp add: varint_loop.simps[of v] IH[of "tmp @ [?b]"] IH[of "[?b]"])
  next
    case False
    then show ?thesis by (simp add: varint_loop.simps[of v])
  qed
qed

lemma varint_Cons:
  "varint_loop v [] = (if 128 \<le> unat v then (ucast (v AND 0x7F) OR 0x80) # varint_loop (drop_bit 7 v) []
     else [ucast v])"
  by (subst varint_loop.simps) (simp add: varint_acc[of "drop_bit 7 v" "[_]"])

text \<open>Seven bits per byte: a value below \<open>2 ^ (7 * k)\<close> takes at most \<open>k\<close> bytes.\<close>

lemma length_varint: "unat v < 2 ^ (7 * Suc k) \<Longrightarrow> length (varint_loop v []) \<le> Suc k"
proof (induction k arbitrary: v)
  case 0
  then show ?case by (subst varint_Cons) simp
next
  case (Suc k)
  have "unat v < 128 * 2 ^ (7 * Suc k)" using Suc.prems by (simp add: power_add)
  then have "unat (drop_bit 7 v) < 2 ^ (7 * Suc k)"
    unfolding unat_drop_bit7 by (simp only: less_mult_imp_div_less mult.commute)
  from Suc.IH[OF this] show ?case by (subst varint_Cons) simp
qed

lemma varint_nonempty: "varint_loop v [] \<noteq> []"
  by (subst varint_Cons) simp

lemma low7: "(0x7F :: 'a::len word) = mask 7"
  by (simp add: mask_eq_exp_minus_1)

lemma cont_byte:
  "\<not> (c OR 0x80 :: byte) < 0x80" "((c OR 0x80 :: byte) AND 0x7F) = c AND 0x7F"
proof -
  have bits: "bit (128 :: int) n \<longleftrightarrow> n = 7" for n
    using bit_exp_iff[where 'a = int, of 7 n] by auto
  have "(0x80 :: byte) AND (c OR 0x80) = 0x80" by (rule bit_word_eqI) (auto simp: bit_simps bits)
  then have "(0x80 :: byte) \<le> c OR 0x80" by (metis word_and_le1)
  then show "\<not> (c OR 0x80 :: byte) < 0x80" by simp
  show "((c OR 0x80 :: byte) AND 0x7F) = c AND 0x7F"
    unfolding low7 by (rule bit_word_eqI) (auto simp: bit_simps bits)
qed

lemma varint_step:
  "take_bit i v OR push_bit i (ucast ((ucast (drop_bit i v AND 0x7F) OR 0x80 :: byte) AND 0x7F))
   = take_bit (i + 7) (v :: 'a::len word)"
  unfolding cont_byte unfolding low7
  by (rule bit_word_eqI) (auto simp: bit_simps)

lemma varint_last:
  assumes "unat (drop_bit i (v :: 'a::len word)) < 128"
  shows "(ucast (drop_bit i v) :: byte) < 0x80" "take_bit i v OR push_bit i (ucast (ucast (drop_bit i v) :: byte)) = v"
proof -
  have u: "unat (ucast (drop_bit i v) :: byte) = unat (drop_bit i v)"
    using assms by (simp add: unsigned_ucast_eq take_bit_nat_eq_self)
  with assms show "(ucast (drop_bit i v) :: byte) < 0x80" by (simp add: word_less_nat_alt)
  have "unat (ucast (ucast (drop_bit i v) :: byte) :: 'a word) = take_bit LENGTH('a) (unat (drop_bit i v))"
    unfolding u[symmetric] by (rule unsigned_ucast_eq)
  also have "\<dots> = unat (drop_bit i v)" by (simp add: take_bit_nat_eq_self)
  finally have "unat (ucast (ucast (drop_bit i v) :: byte) :: 'a word) = unat (drop_bit i v)" .
  then have "ucast (ucast (drop_bit i v) :: byte) = drop_bit i v"
    by (simp only: word_unat_eq_iff)
  then show "take_bit i v OR push_bit i (ucast (ucast (drop_bit i v) :: byte)) = v"
    by (auto intro!: bit_word_eqI simp: bit_simps)
qed

lemma varint_more:
  assumes "128 \<le> unat (drop_bit i (v :: 'a::len word))"
  shows "i + 7 < LENGTH('a)"
proof (rule ccontr)
  assume "\<not> i + 7 < LENGTH('a)"
  then have "(2::nat) ^ LENGTH('a) \<le> 2 ^ (i + 7)" by (intro power_increasing) simp_all
  moreover have "unat v < 2 ^ LENGTH('a)" by (rule unsigned_less)
  ultimately have "unat v < 2 ^ (i + 7)" by linarith
  then have "unat v < 128 * 2 ^ i" by (simp add: power_add mult.commute)
  then have "unat v div 2 ^ i < 128" by (simp add: less_mult_imp_div_less)
  with assms show False by (simp add: unat_drop_bit_eq drop_bit_eq_div[where 'a = nat])
qed

lemma read_varint_at:
  assumes "ba_inv s" "i < LENGTH('a)"
    and "at_pos (ba_content s) (m_position s) (varint_loop (drop_bit i (v :: 'a::len word)) [])"
  shows "\<exists>t. read_varint_loop i (take_bit i v) s = Inr (v, t)
    \<and> ba.stepped s t (length (varint_loop (drop_bit i v) []))"
  using assms
proof (induction "LENGTH('a) - i" arbitrary: i s rule: less_induct)
  case less
  let ?v = "drop_bit i v"
  show ?case
  proof (cases "128 \<le> unat ?v")
    case True
    let ?b = "ucast (?v AND 0x7F) OR 0x80 :: byte" and ?rest = "varint_loop (drop_bit (i + 7) v) []"
    have enc: "varint_loop ?v [] = ?b # ?rest"
      using True by (subst varint_Cons) (simp add: add.commute)
    have at: "at_pos (ba_content s) (m_position s) [?b]" "at_pos (ba_content s) (Suc (m_position s)) ?rest"
      using at_pos_Cons[THEN iffD1, OF less.prems(3)[unfolded enc]] by simp_all
    obtain u where u: "readFuint8 s = Inr (?b, u)" "ba.stepped s u 1"
      using readFuint8_at[OF less.prems(1) at(1)] by blast
    have "\<exists>t. read_varint_loop (i + 7) (take_bit (i + 7) v) u = Inr (v, t) \<and> ba.stepped u t (length ?rest)"
      using less.hyps[of "i + 7" u] varint_more[OF True] less.prems(2) u(2) at(2)
      by (simp add: ba.stepped_def)
    then show ?thesis
      using u less.prems(2) varint_step[of i v] cont_byte(1)
      by (subst read_varint_loop.simps) (auto simp: enc ba.stepped_def)
  next
    case False
    let ?b = "ucast ?v :: byte"
    have enc: "varint_loop ?v [] = [?b]" using False by (subst varint_Cons) simp
    obtain u where u: "readFuint8 s = Inr (?b, u)" "ba.stepped s u 1"
      using readFuint8_at[OF less.prems(1)] less.prems(3) unfolding enc by blast
    then show ?thesis
      using less.prems(2) varint_last[of i v] False
      by (subst read_varint_loop.simps) (auto simp: enc)
  qed
qed

lemma readUint32_at:
  "ba_inv s \<Longrightarrow> at_pos (ba_content s) (m_position s) (varint_loop v []) \<Longrightarrow>
   \<exists>t. readUint32 s = Inr (v, t) \<and> ba.stepped s t (length (varint_loop v []))"
  using read_varint_at[of s 0 v] by (simp add: readUint32_def)

lemma readUint64_at:
  "ba_inv s \<Longrightarrow> at_pos (ba_content s) (m_position s) (varint_loop v []) \<Longrightarrow>
   \<exists>t. readUint64 s = Inr (v, t) \<and> ba.stepped s t (length (varint_loop v []))"
  using read_varint_at[of s 0 v] by (simp add: readUint64_def)

subsection \<open>Sequences of typed values\<close>

text \<open>
  A typed value as the API distinguishes them. \<open>write_field\<close> calls the writer of its kind;
  \<open>read_field\<close> calls the reader of the kind of its argument, whose value it ignores.
\<close>

datatype field =
    Fixed8 "8 word" | Fixed16 "16 word" | Fixed32 "32 word" | Fixed64 "64 word"
  | VarU32 "32 word" | VarU64 "64 word" | VarI32 "32 word" | VarI64 "64 word"
  | Str16 "byte list" | Str32 "byte list" | Str64 "byte list" | StrV "byte list"

fun write_field :: "endian \<Rightarrow> field \<Rightarrow> byte_array \<Rightarrow> fault + byte_array" where
  "write_field host (Fixed8 v) s = writeFuint8 v s"
| "write_field host (Fixed16 v) s = writeFuint16 host v s"
| "write_field host (Fixed32 v) s = writeFuint32 host v s"
| "write_field host (Fixed64 v) s = writeFuint64 host v s"
| "write_field host (VarU32 v) s = writeUint32 v s"
| "write_field host (VarU64 v) s = writeUint64 v s"
| "write_field host (VarI32 v) s = writeInt32 v s"
| "write_field host (VarI64 v) s = writeInt64 v s"
| "write_field host (Str16 b) s = writeStringF16 host b s"
| "write_field host (Str32 b) s = writeStringF32 host b s"
| "write_field host (Str64 b) s = writeStringF64 host b s"
| "write_field host (StrV b) s = writeStringVint b s"

definition lift_read :: "('a \<Rightarrow> 'b) \<Rightarrow> fault + 'a \<times> 's \<Rightarrow> fault + 'b \<times> 's" where
  "lift_read c r = bindE r (\<lambda>(v, s). Inr (c v, s))"

fun read_field :: "endian \<Rightarrow> field \<Rightarrow> byte_array \<Rightarrow> fault + field \<times> byte_array" where
  "read_field host (Fixed8 _) s = lift_read Fixed8 (readFuint8 s)"
| "read_field host (Fixed16 _) s = lift_read Fixed16 (readFuint16 host s)"
| "read_field host (Fixed32 _) s = lift_read Fixed32 (readFuint32 host s)"
| "read_field host (Fixed64 _) s = lift_read Fixed64 (readFuint64 host s)"
| "read_field host (VarU32 _) s = lift_read VarU32 (readUint32 s)"
| "read_field host (VarU64 _) s = lift_read VarU64 (readUint64 s)"
| "read_field host (VarI32 _) s = lift_read VarI32 (readInt32 s)"
| "read_field host (VarI64 _) s = lift_read VarI64 (readInt64 s)"
| "read_field host (Str16 _) s = lift_read Str16 (readStringF16 host s)"
| "read_field host (Str32 _) s = lift_read Str32 (readStringF32 host s)"
| "read_field host (Str64 _) s = lift_read Str64 (readStringF64 host s)"
| "read_field host (StrV _) s = lift_read StrV (readStringVint s)"

fun write_fields :: "endian \<Rightarrow> field list \<Rightarrow> byte_array \<Rightarrow> fault + byte_array" where
  "write_fields host [] s = Inr s"
| "write_fields host (f # fs) s = bindE (write_field host f s) (write_fields host fs)"

fun read_fields :: "endian \<Rightarrow> field list \<Rightarrow> byte_array \<Rightarrow> fault + field list \<times> byte_array" where
  "read_fields host [] s = Inr ([], s)"
| "read_fields host (f # fs) s = bindE (read_field host f s) (\<lambda>(v, s).
     bindE (read_fields host fs s) (\<lambda>(vs, s). Inr (v # vs, s)))"

text \<open>The zigzag number of a signed integer, and where the encoder computes it without
  overflow.\<close>

definition zigzag :: "'a::len word \<Rightarrow> 'a word" where
  "zigzag v = (if sint v < 0 then - v * 2 - 1 else v * 2)"

definition zigzag_defined :: "'a::len word \<Rightarrow> bool" where
  "zigzag_defined v \<longleftrightarrow> - (2 ^ (LENGTH('a) - 1)) < sint v \<and> sint v * 2 < 2 ^ (LENGTH('a) - 1)"

lemma EncodeZigzag:
  "EncodeZigzag32 v = (if zigzag_defined v then Inr (zigzag v) else Inl Signed_overflow)"
  "EncodeZigzag64 w = (if zigzag_defined w then Inr (zigzag w) else Inl Signed_overflow)"
  using sint_greater_eq[of v] sint_greater_eq[of w]
  by (auto simp: EncodeZigzag32_def EncodeZigzag64_def zigzag_defined_def zigzag_def)

text \<open>The bytes of a value, and the values the format can carry: the zigzag number is computed
  without overflow, the length of a string fits its prefix, and the string is not empty (see
  \<open>ba_read_nothing\<close>).\<close>

fun enc :: "endian \<Rightarrow> field \<Rightarrow> byte list" where
  "enc e (Fixed8 v) = [v]"
| "enc e (Fixed16 v) = mem_of e v"
| "enc e (Fixed32 v) = mem_of e v"
| "enc e (Fixed64 v) = mem_of e v"
| "enc e (VarU32 v) = varint_loop v []"
| "enc e (VarU64 v) = varint_loop v []"
| "enc e (VarI32 v) = varint_loop (zigzag v) []"
| "enc e (VarI64 v) = varint_loop (zigzag v) []"
| "enc e (Str16 b) = mem_of e (of_nat (length b) :: 16 word) @ b"
| "enc e (Str32 b) = mem_of e (of_nat (length b) :: 32 word) @ b"
| "enc e (Str64 b) = mem_of e (of_nat (length b) :: 64 word) @ b"
| "enc e (StrV b) = varint_loop (of_nat (length b) :: 64 word) [] @ b"

fun encodable :: "field \<Rightarrow> bool" where
  "encodable (VarI32 v) = zigzag_defined v"
| "encodable (VarI64 v) = zigzag_defined v"
| "encodable _ = True"

fun valid_field :: "field \<Rightarrow> bool" where
  "valid_field (VarI32 v) = zigzag_defined v"
| "valid_field (VarI64 v) = zigzag_defined v"
| "valid_field (Str16 b) = (b \<noteq> [] \<and> length b < 2 ^ 16)"
| "valid_field (Str32 b) = (b \<noteq> [] \<and> length b < 2 ^ 32)"
| "valid_field (Str64 b) = (b \<noteq> [] \<and> length b < 2 ^ 64)"
| "valid_field (StrV b) = (b \<noteq> [] \<and> length b < 2 ^ 64)"
| "valid_field _ = True"

lemma valid_encodable: "valid_field f \<Longrightarrow> encodable f"
  by (cases f) simp_all

definition enc_all :: "endian \<Rightarrow> field list \<Rightarrow> byte list" where
  "enc_all e fs = concat (map (enc e) fs)"

lemma write_field_put:
  "encodable f \<Longrightarrow> write_field host f s = (case f of
     Str16 b \<Rightarrow> bindE (ba_write (mem_of (m_endian s) (of_nat (length b) :: 16 word)) s) (ba_write b)
   | Str32 b \<Rightarrow> bindE (ba_write (mem_of (m_endian s) (of_nat (length b) :: 32 word)) s) (ba_write b)
   | Str64 b \<Rightarrow> bindE (ba_write (mem_of (m_endian s) (of_nat (length b) :: 64 word)) s) (ba_write b)
   | StrV b \<Rightarrow> bindE (ba_write (varint_loop (of_nat (length b) :: 64 word) []) s) (ba_write b)
   | _ \<Rightarrow> ba_write (enc (m_endian s) f) s)"
  by (cases f) (simp_all add: writes_as writeFuint8_def writeFuint16_def writeFuint32_def writeFuint64_def
    writeUint32_def writeUint64_def writeInt32_def writeInt64_def writeStringF16_def writeStringF32_def
    writeStringF64_def writeStringVint_def EncodeZigzag)

lemma write_field_overflow: "\<not> encodable f \<Longrightarrow> write_field host f s = Inl Signed_overflow"
  by (cases f) (simp_all add: writeInt32_def writeInt64_def EncodeZigzag)

lemma write_field_stored:
  assumes "ba_inv s" "encodable f" "ba_room s (length (enc (m_endian s) f))"
  shows "\<exists>t. write_field host f s = Inr t \<and> ba.stored s t (enc (m_endian s) f)"
  unfolding write_field_put[OF assms(2)]
  using ba.put_stored[OF assms(1), of "enc (m_endian s) f"] ba.put_put[OF assms(1)] assms(3)
  by (cases f) auto

lemma zigzag_roundtrip:
  "DecodeZigzag32 (zigzag v) = v" "DecodeZigzag64 (zigzag w) = w"
  using decode_zigzag_neg[of v] decode_zigzag_nonneg[of v] decode_zigzag_neg[of w] decode_zigzag_nonneg[of w]
  by (auto simp: zigzag_def DecodeZigzag32_def DecodeZigzag64_def)

text \<open>A length prefix followed by the bytes of a non-empty string.\<close>

lemma read_prefixed_at:
  assumes "\<exists>t. rd = Inr (len, t) \<and> ba.stepped s t (length pre)"
    and "unat len = length b" "b \<noteq> []" "at_pos (ba_content s) (m_position s) (pre @ b)"
  shows "\<exists>t. bindE rd (\<lambda>(len, s). ba_read (unat len) s) = Inr (b, t) \<and> ba.stepped s t (length (pre @ b))"
proof -
  from assms(4) have at: "at_pos (ba_content s) (m_position s + length pre) b" by (simp add: at_pos_append)
  obtain u where u: "rd = Inr (len, u)" "ba.stepped s u (length pre)"
    using assms(1) by blast
  then obtain t where "ba_read (length b) u = Inr (b, t)" "ba.stepped u t (length b)"
    using ba.get_at[of u b] assms(3) at by (auto simp: ba.stepped_def)
  with u assms(2) show ?thesis by (auto simp: ba.stepped_def)
qed

lemma lift_read_at:
  "\<exists>t. r = Inr (v, t) \<and> ba.stepped s t n \<Longrightarrow> \<exists>t. lift_read c r = Inr (c v, t) \<and> ba.stepped s t n"
  by (auto simp: lift_read_def)

lemma unat_of_nat_length: "n < 2 ^ LENGTH('b) \<Longrightarrow> unat (of_nat n :: 'b::len word) = n"
  by (simp add: take_bit_nat_eq_self unsigned_of_nat)

lemmas read_defs = readFuint8_def readFuint16_def readFuint32_def readFuint64_def readInt32_def
  readInt64_def readStringF16_def readStringF32_def readStringF64_def readStringVint_def

lemma read_field_at:
  assumes inv: "ba_inv s" and valid: "valid_field f"
    and at: "at_pos (ba_content s) (m_position s) (enc (m_endian s) f)"
  shows "\<exists>t. read_field host f s = Inr (f, t) \<and> ba.stepped s t (length (enc (m_endian s) f))"
proof -
  have fixed: "\<exists>t. read_fixed host s = Inr (w, t) \<and> ba.stepped s t (length (mem_of (m_endian s) w))"
    if "8 dvd LENGTH('a)" "at_pos (ba_content s) (m_position s) (mem_of (m_endian s) w)" for w :: "'a::len word"
    using read_fixed_at[OF inv that] by simp
  show ?thesis
  proof (cases f)
    case (Fixed8 v)
    then show ?thesis using lift_read_at[OF readFuint8_at[OF inv, of v]] at by simp
  next
    case (Fixed16 v)
    then show ?thesis using lift_read_at[OF fixed[of v]] at by (simp add: readFuint16_def)
  next
    case (Fixed32 v)
    then show ?thesis using lift_read_at[OF fixed[of v]] at by (simp add: readFuint32_def)
  next
    case (Fixed64 v)
    then show ?thesis using lift_read_at[OF fixed[of v]] at by (simp add: readFuint64_def)
  next
    case (VarU32 v)
    then show ?thesis using lift_read_at[OF readUint32_at[OF inv, of v]] at by simp
  next
    case (VarU64 v)
    then show ?thesis using lift_read_at[OF readUint64_at[OF inv, of v]] at by simp
  next
    case (VarI32 v)
    then show ?thesis using readUint32_at[OF inv, of "zigzag v"] at
      by (auto simp: lift_read_def readInt32_def zigzag_roundtrip)
  next
    case (VarI64 v)
    then show ?thesis using readUint64_at[OF inv, of "zigzag v"] at
      by (auto simp: lift_read_def readInt64_def zigzag_roundtrip)
  next
    case (Str16 b)
    let ?n = "of_nat (length b) :: 16 word"
    have "\<exists>t. read_fixed host s = Inr (?n, t) \<and> ba.stepped s t (length (mem_of (m_endian s) ?n))"
      using at Str16 by (intro fixed) (simp_all add: at_pos_append)
    from read_prefixed_at[OF this unat_of_nat_length] at valid Str16
    have "\<exists>t. readStringF16 host s = Inr (b, t) \<and> ba.stepped s t (length (enc (m_endian s) f))"
      by (simp add: readStringF16_def readFuint16_def)
    from lift_read_at[OF this] Str16 show ?thesis by simp
  next
    case (Str32 b)
    let ?n = "of_nat (length b) :: 32 word"
    have "\<exists>t. read_fixed host s = Inr (?n, t) \<and> ba.stepped s t (length (mem_of (m_endian s) ?n))"
      using at Str32 by (intro fixed) (simp_all add: at_pos_append)
    from read_prefixed_at[OF this unat_of_nat_length] at valid Str32
    have "\<exists>t. readStringF32 host s = Inr (b, t) \<and> ba.stepped s t (length (enc (m_endian s) f))"
      by (simp add: readStringF32_def readFuint32_def)
    from lift_read_at[OF this] Str32 show ?thesis by simp
  next
    case (Str64 b)
    let ?n = "of_nat (length b) :: 64 word"
    have "\<exists>t. read_fixed host s = Inr (?n, t) \<and> ba.stepped s t (length (mem_of (m_endian s) ?n))"
      using at Str64 by (intro fixed) (simp_all add: at_pos_append)
    from read_prefixed_at[OF this unat_of_nat_length] at valid Str64
    have "\<exists>t. readStringF64 host s = Inr (b, t) \<and> ba.stepped s t (length (enc (m_endian s) f))"
      by (simp add: readStringF64_def readFuint64_def)
    from lift_read_at[OF this] Str64 show ?thesis by simp
  next
    case (StrV b)
    let ?n = "of_nat (length b) :: 64 word"
    have "\<exists>t. readUint64 s = Inr (?n, t) \<and> ba.stepped s t (length (varint_loop ?n []))"
      using at StrV by (intro readUint64_at[OF inv]) (simp add: at_pos_append)
    from read_prefixed_at[OF this unat_of_nat_length] at valid StrV
    have "\<exists>t. readStringVint s = Inr (b, t) \<and> ba.stepped s t (length (enc (m_endian s) f))"
      by (simp add: readStringVint_def)
    from lift_read_at[OF this] StrV show ?thesis by simp
  qed
qed

lemma write_fields_stored:
  assumes "ba_inv s" "ba_room s (length (enc_all (m_endian s) fs))" "\<forall>f \<in> set fs. encodable f"
  shows "\<exists>t. write_fields host fs s = Inr t \<and> ba.stored s t (enc_all (m_endian s) fs)"
  using assms
proof (induction fs arbitrary: s)
  case Nil
  then show ?case by (simp add: enc_all_def ba.stored_def)
next
  case (Cons f fs)
  let ?a = "enc (m_endian s) f" and ?b = "enc_all (m_endian s) fs"
  have ra: "ba_room s (length ?a)" using Cons.prems(2) by (simp add: enc_all_def ba_room_def)
  obtain u where u: "write_field host f s = Inr u" "ba.stored s u ?a"
    using write_field_stored[OF Cons.prems(1) _ ra] Cons.prems(3) by auto
  have "ba_inv u" "m_endian u = m_endian s" "ba_room u (length ?b)"
    using u(2) Cons.prems(2) by (auto simp: ba.stored_def ba_room_def enc_all_def)
  then obtain t where t: "write_fields host fs u = Inr t" "ba.stored u t ?b"
    using Cons.IH[of u] Cons.prems(3) by auto
  have "ba.stored s t (?a @ ?b)" by (rule ba.stored_trans[OF Cons.prems(1) u(2) t(2)])
  with u(1) t(1) show ?case by (simp add: enc_all_def)
qed

lemma read_fields_at:
  assumes "ba_inv s" "\<forall>f \<in> set fs. valid_field f"
    and "at_pos (ba_content s) (m_position s) (enc_all (m_endian s) fs)"
  shows "\<exists>t. read_fields host fs s = Inr (fs, t) \<and> ba.stepped s t (length (enc_all (m_endian s) fs))"
  using assms
proof (induction fs arbitrary: s)
  case Nil
  then show ?case by (simp add: enc_all_def ba.stepped_def)
next
  case (Cons f fs)
  let ?a = "enc (m_endian s) f" and ?b = "enc_all (m_endian s) fs"
  have at: "at_pos (ba_content s) (m_position s) ?a" "at_pos (ba_content s) (m_position s + length ?a) ?b"
    using Cons.prems(3) by (simp_all add: enc_all_def at_pos_append)
  obtain u where u: "read_field host f s = Inr (f, u)" "ba.stepped s u (length ?a)"
    using read_field_at[OF Cons.prems(1) _ at(1)] Cons.prems(2) by auto
  then obtain t where t: "read_fields host fs u = Inr (fs, t)" "ba.stepped u t (length ?b)"
    using Cons.IH[of u] Cons.prems(2) at(2) by (auto simp: ba.stepped_def)
  with u show ?case by (auto simp: enc_all_def ba.stepped_def)
qed

end
