(* ===== verification/ByteBuffers.thy ===== *)
theory ByteBuffers
  imports ByteArray
begin

text \<open>
  The operations of \<^verbatim>\<open>ByteArray\<close> (\<^verbatim>\<open>src/bytearray.cc\<close>) that hand its blocks to someone
  else: the scatter/gather lists of \<open>getReadBuffers\<close> and \<open>getWriteBuffers\<close>, the copies to
  and from a file, and the hexadecimal dump. An \<open>iovec\<close> base address is a block index and
  an offset in the block.
\<close>

subsection \<open>Scatter/gather lists\<close>

record iovec =
  iov_node :: nat
  iov_off :: nat
  iov_len :: nat

text \<open>The \<open>while (len > 0)\<close> loop shared by the three functions.\<close>

function iov_loop ::
  "node list \<Rightarrow> nat option \<Rightarrow> nat \<Rightarrow> nat \<Rightarrow> nat \<Rightarrow> iovec list \<Rightarrow> fault + iovec list"
where
  "iov_loop nodes cur npos ncap len buffers =
     (if len = 0 then Inr buffers
      else case cur of None \<Rightarrow> Inl Null_deref
      | Some i \<Rightarrow>
        if \<not> i < length nodes then Inl Null_deref
        else if len \<le> ncap then Inr (buffers @ [\<lparr>iov_node = i, iov_off = npos, iov_len = len\<rparr>])
        else case next_node nodes i of None \<Rightarrow> Inl Null_deref
          | Some j \<Rightarrow> iov_loop nodes (Some j) 0 (n_size (nodes ! j)) (len - ncap)
              (buffers @ [\<lparr>iov_node = i, iov_off = npos, iov_len = ncap\<rparr>]))"
  by pat_completeness auto
termination
  by (relation "measure (\<lambda>(nodes, cur, _). case cur of None \<Rightarrow> 0 | Some i \<Rightarrow> length nodes - i)")
     (auto simp: next_node_def split: if_splits)

declare iov_loop.simps [simp del]

definition getReadBuffers :: "iovec list \<Rightarrow> nat \<Rightarrow> byte_array \<Rightarrow> fault + nat \<times> iovec list" where
  "getReadBuffers buffers len s =
     (let len = (if getReadSize s < len then getReadSize s else len) in
      if len = 0 then Inr (0, buffers)
      else if m_baseSize s = 0 then Inl Div_by_zero
      else let npos = m_position s mod m_baseSize s in
        bindE (node_at (m_root s) (m_cur s)) (\<lambda>nd.
          let ncap = usub64 (n_size nd) npos in
          bindE (iov_loop (m_root s) (m_cur s) npos ncap len buffers) (\<lambda>bufs. Inr (len, bufs))))"

text \<open>The loop \<open>while (count > 0) { cur = cur->next; --count; }\<close>.\<close>

fun skip_nodes :: "node list \<Rightarrow> nat option \<Rightarrow> nat \<Rightarrow> fault + nat option" where
  "skip_nodes nodes cur 0 = Inr cur"
| "skip_nodes nodes None (Suc count) = Inl Null_deref"
| "skip_nodes nodes (Some i) (Suc count) = skip_nodes nodes (next_node nodes i) count"

text \<open>The overload with a position; it clamps \<open>len\<close> by what is readable from \<open>m_position\<close>.\<close>

definition getReadBuffers_at ::
  "iovec list \<Rightarrow> nat \<Rightarrow> nat \<Rightarrow> byte_array \<Rightarrow> fault + nat \<times> iovec list"
where
  "getReadBuffers_at buffers len position s =
     (let len = (if getReadSize s < len then getReadSize s else len) in
      if len = 0 then Inr (0, buffers)
      else if m_baseSize s = 0 then Inl Div_by_zero
      else let npos = position mod m_baseSize s; count = position div m_baseSize s in
        bindE (skip_nodes (m_root s) (Some 0) count) (\<lambda>cur.
          bindE (node_at (m_root s) cur) (\<lambda>nd.
            let ncap = usub64 (n_size nd) npos in
            bindE (iov_loop (m_root s) cur npos ncap len buffers) (\<lambda>bufs. Inr (len, bufs)))))"

definition getWriteBuffers ::
  "iovec list \<Rightarrow> nat \<Rightarrow> byte_array \<Rightarrow> fault + (nat \<times> iovec list) \<times> byte_array"
where
  "getWriteBuffers buffers len s =
     (if len = 0 then Inr ((0, buffers), s)
      else bindE (ba_addCapacity len s) (\<lambda>s.
        if m_baseSize s = 0 then Inl Div_by_zero
        else let npos = m_position s mod m_baseSize s in
          bindE (node_at (m_root s) (m_cur s)) (\<lambda>nd.
            let ncap = usub64 (n_size nd) npos in
            bindE (iov_loop (m_root s) (m_cur s) npos ncap len buffers) (\<lambda>bufs. Inr ((len, bufs), s)))))"

text \<open>
  What \<open>sendmsg\<close> reads from such a list, and what \<open>recvmsg\<close> does to the blocks when
  \<open>bs\<close> arrives (the entries are filled in order).
\<close>

definition iov_bytes :: "node list \<Rightarrow> iovec \<Rightarrow> byte list" where
  "iov_bytes nodes v = take (iov_len v) (drop (iov_off v) (n_ptr (nodes ! iov_node v)))"

definition gather :: "node list \<Rightarrow> iovec list \<Rightarrow> byte list" where
  "gather nodes vs = concat (map (iov_bytes nodes) vs)"

definition iov_fill :: "node list \<Rightarrow> iovec \<Rightarrow> byte list \<Rightarrow> node list" where
  "iov_fill nodes v bs = nodes[iov_node v := (nodes ! iov_node v)
     \<lparr>n_ptr := overwrite (n_ptr (nodes ! iov_node v)) (iov_off v) bs\<rparr>]"

fun scatter :: "node list \<Rightarrow> iovec list \<Rightarrow> byte list \<Rightarrow> node list" where
  "scatter nodes [] bs = nodes"
| "scatter nodes (v # vs) bs =
     scatter (iov_fill nodes v (take (iov_len v) bs)) vs (drop (iov_len v) bs)"

subsection \<open>Files and the hexadecimal dump\<close>

text \<open>
  \<open>read_size\<close>, \<open>pos\<close> and \<open>len\<close> are \<open>int64_t\<close>, \<open>diff\<close> is an \<open>int\<close>. A negative count
  given to \<open>ofs.write\<close>, or one past the block, is a fault.
\<close>

function write_file_loop ::
  "node list \<Rightarrow> int \<Rightarrow> nat option \<Rightarrow> int \<Rightarrow> int \<Rightarrow> byte list \<Rightarrow> fault + byte list"
where
  "write_file_loop nodes base cur pos read_size ofs =
     (if read_size \<le> 0 then Inr ofs
      else if base = 0 then Inl Div_by_zero
      else case cur of None \<Rightarrow> Inl Null_deref
      | Some i \<Rightarrow>
        if \<not> i < length nodes then Inl Null_deref
        else let diff = to_int32 (pos mod base);
                 len = to_int64 ((if to_int64 base < read_size then base else read_size) - diff) in
          if len < 0 \<or> diff < 0 then Inl Bad_length
          else bindE (peek (nodes ! i) (nat diff) (nat len)) (\<lambda>bs.
            write_file_loop nodes base (next_node nodes i) (pos + len) (read_size - len) (ofs @ bs)))"
  by pat_completeness auto
termination
  by (relation "measure (\<lambda>(nodes, _, cur, _). case cur of None \<Rightarrow> 0 | Some i \<Rightarrow> length nodes - i)")
     (auto simp: next_node_def split: if_splits)

declare write_file_loop.simps [simp del]

text \<open>\<open>opened\<close>: whether \<open>ofs.open\<close> succeeded. The result is the new content of the file.\<close>

definition writeToFile :: "bool \<Rightarrow> byte_array \<Rightarrow> fault + byte list option" where
  "writeToFile opened s =
     (if \<not> opened then Inr None
      else bindE (write_file_loop (m_root s) (int (m_baseSize s)) (m_cur s)
                    (to_int64 (int (m_position s))) (to_int64 (int (getReadSize s))) [])
             (\<lambda>bs. Inr (Some bs)))"

text \<open>
  \<open>while (!ifs.eof())\<close>: \<open>ifs.read\<close> of \<open>m_baseSize\<close> bytes sets end-of-file when it gets
  fewer. With a base size of 0 end-of-file is never set: the loop does not end (\<open>None\<close>).
\<close>

partial_function (option) read_file_loop ::
  "byte list \<Rightarrow> byte_array \<Rightarrow> (fault + byte_array) option"
where
  "read_file_loop file s =
     (case ba_write (take (m_baseSize s) file) s of
        Inl e \<Rightarrow> Some (Inl e)
      | Inr t \<Rightarrow> if length file < m_baseSize s then Some (Inr t)
               else read_file_loop (drop (m_baseSize s) file) t)"

definition readFromFile :: "byte list option \<Rightarrow> byte_array \<Rightarrow> (fault + bool \<times> byte_array) option" where
  "readFromFile file s = (case file of
     None \<Rightarrow> Some (Inr (False, s))
   | Some bs \<Rightarrow> map_option (\<lambda>r. bindE r (\<lambda>s. Inr (True, s))) (read_file_loop bs s))"

definition hex_digit :: "nat \<Rightarrow> char" where
  "hex_digit n = ''0123456789abcdef'' ! (n mod 16)"

definition hex2 :: "byte \<Rightarrow> string" where
  "hex2 b = [hex_digit (unat b div 16), hex_digit (unat b)]"

definition hex_dump :: "byte list \<Rightarrow> string" where
  "hex_dump bs = concat (map (\<lambda>(i, b). (if 0 < i \<and> i mod 32 = 0 then ''\<newline>'' else '''') @ hex2 b @ '' '')
                             (List.enumerate 0 bs))"

definition toHexString :: "byte_array \<Rightarrow> fault + string" where
  "toHexString s = bindE (ba_toString s) (\<lambda>str. Inr (hex_dump str))"

subsection \<open>Spans of the flat memory\<close>

text \<open>\<open>spans base p vs\<close>: the list covers consecutive flat positions from \<open>p\<close> on.\<close>

fun spans :: "nat \<Rightarrow> nat \<Rightarrow> nat \<Rightarrow> iovec list \<Rightarrow> bool" where
  "spans base n p [] = True"
| "spans base n p (v # vs) \<longleftrightarrow> iov_node v * base + iov_off v = p \<and> iov_node v < n
     \<and> iov_off v + iov_len v \<le> base \<and> 0 < iov_len v \<and> spans base n (p + iov_len v) vs"

definition iov_total :: "iovec list \<Rightarrow> nat" where
  "iov_total vs = sum_list (map iov_len vs)"

lemma iov_total_simps [simp]: "iov_total [] = 0" "iov_total (v # vs) = iov_len v + iov_total vs"
  by (simp_all add: iov_total_def)

lemma iov_loop_ok:
  assumes "uniform base nodes" "i < length nodes" "npos < base" "0 < len"
    and "i * base + npos + len \<le> length nodes * base"
  shows "\<exists>vs. iov_loop nodes (Some i) npos (base - npos) len buffers = Inr (buffers @ vs)
     \<and> spans base (length nodes) (i * base + npos) vs \<and> iov_total vs = len"
  using assms
proof (induction len arbitrary: i npos buffers rule: less_induct)
  case (less n)
  note un = less.prems(1) and i = less.prems(2)
  show ?case
  proof (cases "n \<le> base - npos")
    case True
    then show ?thesis using less.prems by (subst iov_loop.simps) simp
  next
    case False
    define k where "k = base - npos"
    have k: "npos + k = base" "0 < k" "k < n" using False less.prems(3) by (auto simp: k_def)
    have "Suc i * base < length nodes * base" using k less.prems(5) by simp
    then have j: "Suc i < length nodes" by (rule block_less)
    let ?v = "\<lparr>iov_node = i, iov_off = npos, iov_len = k\<rparr>"
    have "\<exists>vs. iov_loop nodes (Some (Suc i)) 0 (base - 0) (n - k) (buffers @ [?v]) = Inr ((buffers @ [?v]) @ vs)
       \<and> spans base (length nodes) (Suc i * base + 0) vs \<and> iov_total vs = n - k"
      by (rule less.IH) (use k less.prems j in auto)
    then obtain vs where vs: "iov_loop nodes (Some (Suc i)) 0 base (n - k) (buffers @ [?v]) = Inr (buffers @ ?v # vs)"
       "spans base (length nodes) (Suc i * base) vs" "iov_total vs = n - k" by auto
    have next_pos: "i * base + npos + k = Suc i * base" using k by simp
    show ?thesis
      using vs k False less.prems(4) i j
      by (intro exI[of _ "?v # vs"], subst iov_loop.simps)
         (simp add: next_node_def uniform_nth[OF un j] k_def[symmetric] next_pos del: mult_Suc)
  qed
qed

lemma gather_spans:
  assumes "uniform base nodes" "spans base (length nodes) p vs"
  shows "gather nodes vs = take (iov_total vs) (drop p (flat nodes))"
  using assms(2)
proof (induction vs arbitrary: p)
  case (Cons v vs)
  then have v: "iov_node v < length nodes" "iov_off v + iov_len v \<le> base"
    "iov_node v * base + iov_off v = p" and vs: "spans base (length nodes) (p + iov_len v) vs" by auto
  have "gather nodes (v # vs) = iov_bytes nodes v @ gather nodes vs" by (simp add: gather_def)
  also have "\<dots> = take (iov_len v) (drop p (flat nodes)) @ take (iov_total vs) (drop (p + iov_len v) (flat nodes))"
    using flat_peek[OF assms(1) v(1,2)] Cons.IH[OF vs] v(3) by (simp add: iov_bytes_def)
  finally show ?case by (simp only: iov_total_simps take_add drop_drop add.commute[of p])
qed (simp add: gather_def)

lemma scatter_spans:
  assumes "uniform base nodes" "spans base (length nodes) p vs" "length bs \<le> iov_total vs"
    and "p \<le> length (flat nodes)"
  shows "uniform base (scatter nodes vs bs) \<and> length (scatter nodes vs bs) = length nodes
     \<and> flat (scatter nodes vs bs) = overwrite (flat nodes) p bs"
  using assms
proof (induction vs arbitrary: nodes p bs)
  case Nil
  then show ?case by simp
next
  case (Cons v vs)
  let ?a = "take (iov_len v) bs" and ?b = "drop (iov_len v) bs"
  let ?n = "iov_fill nodes v ?a"
  from Cons.prems have v: "iov_node v < length nodes" "iov_off v + length ?a \<le> base"
    "iov_off v + iov_len v \<le> base" "iov_node v * base + iov_off v = p" by auto
  have u: "uniform base ?n" "length ?n = length nodes"
    using uniform_poke[OF Cons.prems(1) v(1,2)] by (simp_all add: iov_fill_def)
  have f: "flat ?n = overwrite (flat nodes) p ?a"
    using flat_poke[OF Cons.prems(1) v(1,2)] v(4) by (simp add: iov_fill_def)
  have fit: "p + iov_len v \<le> length (flat nodes)"
  proof -
    have "p + iov_len v \<le> Suc (iov_node v) * base" using v(3,4) by simp
    also have "\<dots> \<le> length nodes * base" using v(1) by (intro mult_le_mono1) simp
    finally show ?thesis by (simp add: length_flat[OF Cons.prems(1)])
  qed
  have IH: "uniform base (scatter ?n vs ?b) \<and> length (scatter ?n vs ?b) = length ?n
     \<and> flat (scatter ?n vs ?b) = overwrite (flat ?n) (p + iov_len v) ?b"
    by (rule Cons.IH) (use Cons.prems u fit length_flat[OF u(1)] length_flat[OF Cons.prems(1)] in auto)
  have "overwrite (flat ?n) (p + iov_len v) ?b = overwrite (flat nodes) p bs"
  proof (cases "iov_len v \<le> length bs")
    case True
    then show ?thesis
      using overwrite_overwrite[OF Cons.prems(4), of ?a ?b] by (simp add: f)
  next
    case False
    with f show ?thesis by simp
  qed
  with IH u show ?case by simp
qed

subsection \<open>What the lists denote\<close>

lemma block_room:
  assumes inv: "ba_inv s" and i: "i < length (m_root s)"
  shows "usub64 (n_size (m_root s ! i)) (p mod m_baseSize s) = m_baseSize s - p mod m_baseSize s"
  using uniform_nth[OF ba_invD(3)[OF inv] i] ba_invD(2,4,8)[OF inv]
  by (simp add: block_rest[OF ba_invD(1)[OF inv], of "length (m_root s)"])

lemma getReadBuffers_ok:
  assumes inv: "ba_inv s"
  shows "\<exists>vs. getReadBuffers buffers len s = Inr (min len (m_size s - m_position s), buffers @ vs)
     \<and> spans (m_baseSize s) (length (m_root s)) (m_position s) vs
     \<and> iov_total vs = min len (m_size s - m_position s)"
proof (cases "min len (m_size s - m_position s) = 0")
  case True
  then show ?thesis
    by (auto simp: getReadBuffers_def ba_inv_getReadSize[OF inv] min_def split: if_splits)
next
  case False
  note I = ba_invD[OF inv]
  let ?n = "min len (m_size s - m_position s)" and ?p = "m_position s" and ?b = "m_baseSize s"
  have clamp: "(if m_size s - m_position s < len then m_size s - m_position s else len) = ?n" by auto
  have fit: "?p + ?n \<le> length (m_root s) * ?b" using I(4,5,6) by linarith
  then have "?p < length (m_root s) * ?b" using False by linarith
  note blk = block_of_position[OF I(1) this]
  note block_room[OF inv blk(1)]
  moreover obtain vs where vs: "iov_loop (m_root s) (Some (?p div ?b)) (?p mod ?b) (?b - ?p mod ?b) ?n buffers = Inr (buffers @ vs)"
    "spans ?b (length (m_root s)) ?p vs" "iov_total vs = ?n"
    using iov_loop_ok[OF I(3) blk(1) mod_less_divisor[OF I(1)], of ?n ?p buffers] False fit I(1)
    unfolding blk(2) by auto
  ultimately have "getReadBuffers buffers len s = Inr (?n, buffers @ vs)"
    using False I(1)
    unfolding getReadBuffers_def ba_inv_getReadSize[OF inv] clamp
    by (simp add: I(7) blk(3) node_at_def blk(1) Let_def del: min_less_iff_conj)
  with vs show ?thesis by blast
qed

lemma skip_nodes_ok:
  assumes "i + count < length nodes"
  shows "skip_nodes nodes (Some i) count = Inr (Some (i + count))"
  using assms by (induction count arbitrary: i) (simp_all add: next_node_def)

lemma getReadBuffers_at_ok:
  assumes inv: "ba_inv s" and fit: "position + min len (m_size s - m_position s) \<le> m_capacity s"
  shows "\<exists>vs. getReadBuffers_at buffers len position s = Inr (min len (m_size s - m_position s), buffers @ vs)
     \<and> spans (m_baseSize s) (length (m_root s)) position vs
     \<and> iov_total vs = min len (m_size s - m_position s)"
proof (cases "min len (m_size s - m_position s) = 0")
  case True
  then show ?thesis
    by (auto simp: getReadBuffers_at_def ba_inv_getReadSize[OF inv] min_def split: if_splits)
next
  case False
  note I = ba_invD[OF inv]
  let ?n = "min len (m_size s - m_position s)" and ?p = "position" and ?b = "m_baseSize s"
  have clamp: "(if m_size s - m_position s < len then m_size s - m_position s else len) = ?n" by auto
  have fit: "?p + ?n \<le> length (m_root s) * ?b" using fit I(4) by linarith
  then have "?p < length (m_root s) * ?b" using False by linarith
  note blk = block_of_position[OF I(1) this]
  note block_room[OF inv blk(1)]
  moreover obtain vs where vs: "iov_loop (m_root s) (Some (?p div ?b)) (?p mod ?b) (?b - ?p mod ?b) ?n buffers = Inr (buffers @ vs)"
    "spans ?b (length (m_root s)) ?p vs" "iov_total vs = ?n"
    using iov_loop_ok[OF I(3) blk(1) mod_less_divisor[OF I(1)], of ?n ?p buffers] False fit I(1)
    unfolding blk(2) by auto
  moreover have "skip_nodes (m_root s) (Some 0) (?p div ?b) = Inr (Some (?p div ?b))"
    using skip_nodes_ok[of 0] blk(1) by simp
  ultimately have "getReadBuffers_at buffers len position s = Inr (?n, buffers @ vs)"
    using False I(1)
    unfolding getReadBuffers_at_def ba_inv_getReadSize[OF inv] clamp
    by (simp add: I(7) blk(3) node_at_def blk(1) Let_def del: min_less_iff_conj)
  with vs show ?thesis by blast
qed

lemma getWriteBuffers_ok:
  assumes inv: "ba_inv s" and room: "ba_room s len"
  shows "\<exists>vs t. getWriteBuffers buffers len s = Inr ((len, buffers @ vs), t) \<and> ba_inv t \<and> same_bytes s t
     \<and> m_position t = m_position s \<and> m_position s + len \<le> m_capacity t
     \<and> spans (m_baseSize t) (length (m_root t)) (m_position s) vs \<and> iov_total vs = len"
proof (cases "len = 0")
  case True
  then show ?thesis
    using inv ba_invD(5,6)[OF inv] by (auto simp: getWriteBuffers_def same_bytes_def)
next
  case False
  obtain u where u: "ba_addCapacity len s = Inr u" "ba_inv u" "same_bytes s u"
    "m_position u = m_position s" "m_position s + len \<le> m_capacity u"
    using ba_addCapacity_ok[OF inv room] by auto
  note I = ba_invD[OF u(2)]
  let ?p = "m_position u" and ?b = "m_baseSize u"
  have fit: "?p + len \<le> length (m_root u) * ?b" using u(4,5) I(4) by simp
  then have "?p < length (m_root u) * ?b" using False by linarith
  note blk = block_of_position[OF I(1) this]
  note block_room[OF u(2) blk(1)]
  moreover obtain vs where vs: "iov_loop (m_root u) (Some (?p div ?b)) (?p mod ?b) (?b - ?p mod ?b) len buffers = Inr (buffers @ vs)"
    "spans ?b (length (m_root u)) ?p vs" "iov_total vs = len"
    using iov_loop_ok[OF I(3) blk(1) mod_less_divisor[OF I(1)], of len ?p buffers] False fit I(1)
    unfolding blk(2) by auto
  ultimately have "getWriteBuffers buffers len s = Inr ((len, buffers @ vs), u)"
    using False I(1) by (simp add: getWriteBuffers_def u(1) I(7) blk(3) node_at_def blk(1) Let_def)
  with u vs show ?thesis by metis
qed

subsection \<open>Copies to and from a file\<close>

text \<open>One round of the loop, with the conversions discharged.\<close>

lemma write_file_step:
  assumes "uniform base nodes" "i < length nodes" "0 < base" "base \<le> 2 ^ 31" "0 < r" "r < 2 ^ 63"
    and len: "len = (if base < r then int base else int r) - int (p mod base)"
  shows "write_file_loop nodes (int base) (Some i) (int p) (int r) ofs =
     (if len < 0 then Inl Bad_length
      else write_file_loop nodes (int base) (next_node nodes i) (int p + len) (int r - len)
             (ofs @ take (nat len) (drop (i * base + p mod base) (flat nodes))))"
proof -
  have m: "p mod base < base" using assms(3) by simp
  have b: "to_int64 (int base) = int base" using assms(4) by (intro to_int64_id) simp_all
  have "base \<le> 2147483648" using assms(4) by simp
  with m have "int (p mod base) < 2147483648" by linarith
  then have d: "to_int32 (int p mod int base) = int (p mod base)"
    using to_int32_id[OF of_nat_0_le_iff, of "p mod base"] by (simp add: zmod_int)
  have l: "to_int64 ((if base < r then int base else int r) - int (p mod base)) = len"
    using m assms(4,6) unfolding len by (subst to_int64_id) auto
  have fits: "0 \<le> len \<Longrightarrow> p mod base + nat len \<le> base"
    using m unfolding len by (auto split: if_splits)
  show ?thesis
    using assms(2,3,5) peek_ok[OF assms(1,2) fits]
    by (subst write_file_loop.simps) (simp add: b d l Let_def)
qed

lemma write_file_aligned:
  assumes "uniform base nodes" "0 < base" "base \<le> 2 ^ 31" "r < 2 ^ 63"
    and "i * base + r \<le> length nodes * base"
  shows "write_file_loop nodes (int base) (cursor base (length nodes) (i * base)) (int (i * base)) (int r) ofs
     = Inr (ofs @ take r (drop (i * base) (flat nodes)))"
  using assms(4,5)
proof (induction r arbitrary: i ofs rule: less_induct)
  case (less r)
  show ?case
  proof (cases "r = 0")
    case True
    then show ?thesis by (simp add: write_file_loop.simps)
  next
    case False
    then have "i * base < length nodes * base" using less.prems(2) by linarith
    then have i: "i < length nodes" by (rule block_less)
    have cur: "cursor base (length nodes) (i * base) = Some i"
      using cursor_inside[of 0 base i] assms(2) i by simp
    note step = write_file_step[OF assms(1) i assms(2,3) _ less.prems(1) refl, of "i * base" ofs]
    show ?thesis
    proof (cases "base < r")
      case True
      have next_cur: "next_node nodes i = cursor base (length nodes) (Suc i * base)"
        using cursor_next[OF assms(2) i] by (simp add: next_node_def add.commute)
      have "write_file_loop nodes (int base) (cursor base (length nodes) (Suc i * base)) (int (Suc i * base))
          (int (r - base)) (ofs @ take base (drop (i * base) (flat nodes)))
        = Inr ((ofs @ take base (drop (i * base) (flat nodes))) @ take (r - base) (drop (Suc i * base) (flat nodes)))"
        by (rule less.IH) (use True assms(2) less.prems in auto)
      moreover have "take base (drop (i * base) (flat nodes)) @ take (r - base) (drop (Suc i * base) (flat nodes))
          = take r (drop (i * base) (flat nodes))"
        using True take_add[of base "r - base" "drop (i * base) (flat nodes)"] by (simp add: add.commute)
      ultimately show ?thesis
        using step True False by (simp add: cur next_cur of_nat_diff add.commute)
    next
      case False
      with step \<open>r \<noteq> 0\<close> show ?thesis by (simp add: cur write_file_loop.simps[of _ _ _ _ 0])
    qed
  qed
qed

lemma write_file_stuck:
  assumes "uniform base nodes" "0 < base" "base \<le> 2 ^ 31" "0 < r" "r < base" "p mod base = r"
    and "r < 2 ^ 63"
  shows "write_file_loop nodes (int base) (Some i) (int p) (int r) ofs = Inl Null_deref"
proof (induction "length nodes - i" arbitrary: i ofs)
  case 0
  then show ?case using assms by (subst write_file_loop.simps) simp
next
  case (Suc k)
  then have i: "i < length nodes" by simp
  show ?case
  proof (cases "Suc i < length nodes")
    case True
    then show ?thesis
      using Suc.hyps(1)[of "Suc i"] Suc.hyps(2) assms write_file_step[OF assms(1) i assms(2-4,7) refl, of p ofs]
      by (simp add: next_node_def)
  next
    case False
    have "write_file_loop nodes (int base) None (int p) (int r) ofs = Inl Null_deref"
      using assms by (subst write_file_loop.simps) simp
    with False show ?thesis
      using assms write_file_step[OF assms(1) i assms(2-4,7) refl, of p ofs]
      by (simp add: next_node_def)
  qed
qed

lemma writeToFile_ok:
  assumes inv: "ba_inv s" and cap: "m_capacity s < 2 ^ 63" and base: "m_baseSize s \<le> 2 ^ 31"
    and good: "m_position s mod m_baseSize s = 0 \<or> m_baseSize s \<le> getReadSize s \<or> getReadSize s = 0"
  shows "writeToFile True s = Inr (Some (drop (m_position s) (ba_content s)))"
proof -
  note I = ba_invD[OF inv]
  let ?b = "m_baseSize s" and ?n = "length (m_root s)" and ?p = "m_position s"
  define r where "r = m_size s - m_position s"
  have r: "getReadSize s = r" by (simp add: r_def ba_inv_getReadSize[OF inv])
  have conv: "to_int64 (int ?p) = int ?p" "to_int64 (int r) = int r"
    using I(5,6) cap by (auto simp: r_def intro!: to_int64_id)
  have rest: "drop ?p (ba_content s) = take r (drop ?p (flat (m_root s)))"
    by (simp add: ba_content_def r_def drop_take)
  have fit: "?p + r \<le> ?n * ?b" "r < 2 ^ 63" using I(4-6) cap by (auto simp: r_def)
  have "write_file_loop (m_root s) (int ?b) (m_cur s) (int ?p) (int r) [] = Inr (drop ?p (ba_content s))"
  proof (cases "?p mod ?b = 0")
    case True
    then have "?p div ?b * ?b = ?p" by (simp add: minus_mod_eq_div_mult[symmetric])
    then show ?thesis
      using write_file_aligned[OF I(3,1) base fit(2), of "?p div ?b" "[]"] fit(1) by (simp add: I(7) rest)
  next
    case False
    show ?thesis
    proof (cases "r = 0")
      case True
      then show ?thesis by (simp add: rest write_file_loop.simps[of _ _ _ _ 0])
    next
      case nz: False
      with good False r have big: "?b \<le> r" by simp
      have p: "?p < ?n * ?b" using fit nz by linarith
      note blk = block_of_position[OF I(1) p]
      define k where "k = ?b - ?p mod ?b"
      have k: "k \<le> r" "Suc (?p div ?b) * ?b = ?p + k" "?p mod ?b + k = ?b"
        using blk(2) big mod_less_divisor[OF I(1), of ?p] unfolding k_def mult_Suc by linarith+
      have next_cur: "next_node (m_root s) (?p div ?b) = cursor ?b ?n (Suc (?p div ?b) * ?b)"
        using cursor_next[OF I(1) blk(1)] by (simp add: next_node_def add.commute)
      have "(if ?b < r then int ?b else int r) - int (?p mod ?b) = int k" using big k(3) by auto
      with write_file_step[OF I(3) blk(1) I(1) base _ fit(2) refl, of ?p "[]"] nz
      have "write_file_loop (m_root s) (int ?b) (m_cur s) (int ?p) (int r) [] =
          write_file_loop (m_root s) (int ?b) (cursor ?b ?n (Suc (?p div ?b) * ?b)) (int (Suc (?p div ?b) * ?b))
            (int (r - k)) (take k (drop ?p (flat (m_root s))))"
        using k(1,2) by (simp add: I(7) blk(2,3) next_cur of_nat_diff del: mult_Suc)
      also have "\<dots> = Inr (take k (drop ?p (flat (m_root s))) @ take (r - k) (drop (Suc (?p div ?b) * ?b) (flat (m_root s))))"
        by (rule write_file_aligned[OF I(3,1) base]) (use fit k in auto)
      also have "\<dots> = Inr (drop ?p (ba_content s))"
        using k(1,2) take_add[of k "r - k" "drop ?p (flat (m_root s))"] by (simp add: rest add.commute del: mult_Suc)
      finally show ?thesis .
    qed
  qed
  then show ?thesis by (simp add: writeToFile_def r conv)
qed

lemma writeToFile_unaligned:
  assumes inv: "ba_inv s" and cap: "m_capacity s < 2 ^ 63" and base: "m_baseSize s \<le> 2 ^ 31"
    and bad: "m_position s mod m_baseSize s \<noteq> 0" "getReadSize s < m_baseSize s" "getReadSize s \<noteq> 0"
  shows "writeToFile True s \<in> {Inl Bad_length, Inl Null_deref}"
proof -
  note I = ba_invD[OF inv]
  let ?b = "m_baseSize s" and ?n = "length (m_root s)" and ?p = "m_position s"
  let ?d = "?p mod ?b"
  define r where "r = m_size s - m_position s"
  have r: "getReadSize s = r" "0 < r" "r < ?b" using bad by (auto simp: r_def ba_inv_getReadSize[OF inv])
  have r63: "r < 2 ^ 63" using r(3) base by simp
  have conv: "to_int64 (int ?p) = int ?p" "to_int64 (int r) = int r"
    using I(5,6) cap r63 by (auto intro!: to_int64_id)
  have p: "?p < ?n * ?b" using I(4-6) r(2) by (simp add: r_def)
  note blk = block_of_position[OF I(1) p]
  have db: "?d < ?b" "0 < ?d" using I(1) bad(1) by auto
  have lens: "(if ?b < r then int ?b else int r) - int ?d = int r - int ?d" using r(3) by simp
  note step = write_file_step[OF I(3) blk(1) I(1) base r(2) r63 lens[symmetric], of "[]", unfolded blk(2)]
  consider "r < ?d" | "r = ?d" | "?d < r" by linarith
  then have "write_file_loop (m_root s) (int ?b) (m_cur s) (int ?p) (int r) [] \<in> {Inl Bad_length, Inl Null_deref}"
  proof cases
    case 1
    then show ?thesis using step by (simp add: I(7) blk(3))
  next
    case 2
    from write_file_stuck[OF I(3,1) base r(2,3) 2[symmetric] r63] show ?thesis by (simp add: I(7) blk(3))
  next
    case 3
    have null: "write_file_loop (m_root s) (int ?b) None x (int ?d) out = Inl Null_deref" for x out
      using db I(1) by (subst write_file_loop.simps) simp
    have again: "write_file_loop (m_root s) (int ?b) (Some j) (int (?p + (r - ?d))) (int ?d) out = Inl Bad_length"
      if "j < ?n" for j out
    proof -
      have "(?p + (r - ?d)) mod ?b = (?d + (r - ?d)) mod ?b" by (simp only: mod_add_left_eq)
      also have "\<dots> = r" using 3 r(3) by simp
      finally have m: "(?p + (r - ?d)) mod ?b = r" .
      have "?d < 2 ^ 63" using 3 r63 by simp
      from write_file_step[OF I(3) that I(1) base db(2) this refl, of "?p + (r - ?d)" out]
      show ?thesis using 3 db by (simp only: m) simp
    qed
    from 3 have "int r - (int r - int ?d) = int ?d" "int ?p + (int r - int ?d) = int (?p + (r - ?d))" by simp_all
    with step 3 null again[of "Suc (?p div ?b)"] show ?thesis
      by (cases "Suc (?p div ?b) < ?n") (simp_all only: I(7) blk(3) next_node_def, simp_all)
  qed
  then show ?thesis by (auto simp: writeToFile_def r(1) conv)
qed

text \<open>Reading a file appends it at the position, in pieces of \<open>m_baseSize\<close> bytes.\<close>

lemma read_file_loop_ok:
  assumes "ba_inv s" "ba_room s (length fl)"
  shows "\<exists>t. read_file_loop fl s = Some (Inr t) \<and> ba.stored s t fl"
  using assms
proof (induction fl arbitrary: s rule: length_induct)
  case less: (1 fl)
  let ?b = "m_baseSize s"
  let ?x = "take ?b fl" and ?y = "drop ?b fl"
  have room: "ba_room s (length ?x)" using less.prems(2) by (simp add: ba_room_def)
  obtain u where u: "ba_write ?x s = Inr u" "ba.stored s u ?x"
    using ba.put_stored[OF less.prems(1) room] by blast
  show ?case
  proof (cases "length fl < ?b")
    case True
    then show ?thesis using u by (subst read_file_loop.simps) simp
  next
    case False
    have "\<exists>t. read_file_loop ?y u = Some (Inr t) \<and> ba.stored u t ?y"
    proof (rule less.IH[rule_format])
      show "length ?y < length fl" using False ba_invD(1)[OF less.prems(1)] by simp
      show "ba_inv u" using u(2) by (simp add: ba.stored_def)
      show "ba_room u (length ?y)"
        using less.prems(2) False by (intro ba.room_put[OF u(1) less.prems(1)]) simp
    qed
    then obtain t where t: "read_file_loop ?y u = Some (Inr t)" "ba.stored u t ?y" by blast
    have "ba.stored s t (?x @ ?y)" by (rule ba.stored_trans[OF less.prems(1) u(2) t(2)])
    with t(1) False u(1) show ?thesis by (subst read_file_loop.simps) simp
  qed
qed

end
