(* ===== verification/ByteProps.thy ===== *)
theory ByteProps
  imports ByteRoundtrip ByteBuffers
begin

text \<open>
  The properties of \<^verbatim>\<open>ByteArray\<close>: the abstract buffer it implements, safety of every
  sequence of operations, round trips of the typed encodings, the scatter/gather lists and
  the file operations.
\<close>

subsection \<open>The abstract buffer\<close>

text \<open>A sequence of bytes and a position in it.\<close>

definition fb_write :: "byte list \<Rightarrow> byte list \<times> nat \<Rightarrow> byte list \<times> nat" where
  "fb_write bs b = (overwrite (fst b) (snd b) bs, snd b + length bs)"

definition fb_read :: "nat \<Rightarrow> byte list \<times> nat \<Rightarrow> fault + byte list \<times> byte list \<times> nat" where
  "fb_read n b = (if length (fst b) - snd b < n then Inl Out_of_range
     else Inr (take n (drop (snd b) (fst b)), fst b, snd b + n))"

definition ba_abs :: "byte_array \<Rightarrow> byte list \<times> nat" where
  "ba_abs s = (ba_content s, m_position s)"

text \<open>C2: a write that fits the address space does to the block chain what overwriting
  does to the abstract sequence of bytes.\<close>

theorem ba_write_refines:
  assumes "ba_inv s" "ba_room s (length bs)"
  shows "map_sum id ba_abs (ba_write bs s) = Inr (fb_write bs (ba_abs s))"
  using ba_write_ok[OF assms] by (auto simp: ba_abs_def fb_write_def)

lemma ba_write_refines_witness:
  "map_sum id ba_abs (ba_write [1, 2, 3] (ByteArray (\<lambda>_. 0) 2)) = Inr (fb_write [1, 2, 3] ([], 0))"
  using ba_write_refines[of "ByteArray (\<lambda>_. 0) 2" "[1, 2, 3]"] ba_inv_new[of 2 "\<lambda>_. 0"]
  by (simp add: ba_room_def ByteArray_def ba_abs_def ba_content_def)

text \<open>C4: a read of at least one byte returns what the abstract sequence holds at the
  position, and throws exactly when too little is left.\<close>

theorem ba_read_refines:
  assumes "ba_inv s" "0 < n"
  shows "map_sum id (\<lambda>(bs, t). (bs, ba_abs t)) (ba_read n s) = fb_read n (ba_abs s)"
proof (cases "n \<le> m_size s - m_position s")
  case True
  then show ?thesis
    using ba_read_ok[OF assms True] ba_inv_length_content[OF assms(1)]
    by (auto simp: fb_read_def ba_abs_def same_bytes_def)
next
  case False
  then show ?thesis
    using ba_read_short[OF assms(1)] ba_inv_length_content[OF assms(1)]
    by (simp add: fb_read_def ba_abs_def)
qed

lemma ba_read_refines_witness:
  "map_sum id (\<lambda>(bs, t). (bs, ba_abs t)) (ba_read 3 (ByteArray (\<lambda>_. 0) 2)) = Inl Out_of_range"
  using ba_read_refines[of "ByteArray (\<lambda>_. 0) 2" 3] ba_inv_new[of 2 "\<lambda>_. 0"]
  by (simp add: fb_read_def ByteArray_def ba_abs_def ba_content_def)

subsection \<open>Typed reads\<close>















text \<open>The \<open>const\<close> overload of \<open>read\<close> with a position starts in the block of \<open>m_position\<close>,
  not of the position given: it returns a byte of that block, and at the end of the chain it
  dereferences null.\<close>

lemma read_at_wrong_block:
  assumes "ba_inv s" "position < m_size s"
  shows "ba_read_at 1 position s = (if m_position s < m_capacity s
     then Inr [flat (m_root s) ! (m_position s div m_baseSize s * m_baseSize s + position mod m_baseSize s)]
     else Inl Null_deref)"
proof (cases "m_position s < m_capacity s")
  case False
  then have "m_cur s = None" using ba_invD[OF assms(1)] by (simp add: cursor_def)
  moreover have "\<not> usub64 (m_size s) position < 1"
    using assms ba_invD(6,8)[OF assms(1)] by (simp add: usub64_no_wrap)
  ultimately show ?thesis using False ba_invD(1)[OF assms(1)] by (simp add: ba_read_at_def node_at_def Let_def)
next
  case True
  note I = ba_invD[OF assms(1)]
  let ?b = "m_baseSize s" and ?n = "length (m_root s)" and ?i = "m_position s div m_baseSize s"
  have p: "m_position s < ?n * ?b" using True I(4) by simp
  note blk = block_of_position[OF I(1) p]
  have npos: "position mod ?b < ?b" using I(1) by simp
  have ncap: "usub64 (n_size (m_root s ! ?i)) (position mod ?b) = ?b - position mod ?b"
    using uniform_nth[OF I(3) blk(1)] I(2,4,8) by (simp add: block_rest[OF I(1), of ?n])
  have "Suc ?i * ?b \<le> ?n * ?b" using blk(1) by (intro mult_le_mono1) simp
  then have q: "?i * ?b + position mod ?b + 1 \<le> ?n * ?b" using npos by simp
  have one: "take 1 (drop k (flat (m_root s))) = [flat (m_root s) ! k]" if "k + 1 \<le> ?n * ?b" for k
    using that length_flat[OF I(3)] by (simp add: take_Suc_conv_app_nth hd_drop_conv_nth take_Suc)
  have "\<not> usub64 (m_size s) position < 1" using assms I(6,8) by (simp add: usub64_no_wrap)
  then show ?thesis
    using True I(1,2) ba_read_loop_ok[OF I(3) blk(1) npos, of 1 position "[]"] q one[OF q]
    by (simp add: ba_read_at_def I(7) blk(3) node_at_def blk(1) ncap Let_def)
qed

subsection \<open>Every sequence of operations\<close>










subsection \<open>Typed values\<close>

text \<open>C15: a sequence of typed values within the address space, in which the strings are not
  empty and not longer than their length prefix can say, and the signed integers of the
  variable-length forms are those the zigzag encoder computes without overflow (above the
  smallest one and below \<open>2 ^ 30\<close> or \<open>2 ^ 62\<close>), written on a machine of either byte order, is
  read back, value by value, on a machine of either byte order, and the reader ends where the
  writer did.\<close>

theorem fields_roundtrip:
  assumes "ba_inv s" "ba_room s (length (enc_all (m_endian s) fs))" "\<forall>f \<in> set fs. valid_field f"
  shows "\<exists>t u v. write_fields host fs s = Inr t \<and> ba_setPosition (m_position s) t = Inr u
     \<and> read_fields host' fs u = Inr (fs, v) \<and> m_position v = m_position t \<and> ba_content v = ba_content t"
proof -
  obtain t where t: "write_fields host fs s = Inr t" "ba.stored s t (enc_all (m_endian s) fs)"
    using write_fields_stored[OF assms(1,2)] assms(3) valid_encodable by blast
  have inv: "ba_inv t" using t(2) by (simp add: ba.stored_def)
  have "m_position s \<le> m_position t" using t(2) by (simp add: ba.stored_def)
  then have "m_position s \<le> m_size t" using ba_invD(5)[OF inv] by simp
  then obtain u where u: "ba_setPosition (m_position s) t = Inr u" "ba_inv u"
    "m_position u = m_position s" "same_bytes t u"
    using ba_setPosition_inside[OF inv] by blast
  have e: "m_endian u = m_endian s" using u(4) t(2) by (simp add: same_bytes_def ba.stored_def)
  have "at_pos (ba_content u) (m_position u) (enc_all (m_endian u) fs)"
    using ba.stored_at[OF assms(1) t(2)] u(3,4) e by (simp add: same_bytes_def)
  then obtain v where "read_fields host' fs u = Inr (fs, v)" "ba.stepped u v (length (enc_all (m_endian u) fs))"
    using read_fields_at[OF u(2) assms(3)] by blast
  with t u e show ?thesis by (auto simp: ba.stepped_def ba.stored_def same_bytes_def)
qed

lemma fields_roundtrip_witness:
  "\<exists>t u v. write_fields Little_endian [VarI32 (- 3), Str16 [7, 8], Fixed32 9] (ByteArray (\<lambda>_. 0) 4) = Inr t
     \<and> ba_setPosition 0 t = Inr u
     \<and> read_fields Big_endian [VarI32 (- 3), Str16 [7, 8], Fixed32 9] u = Inr ([VarI32 (- 3), Str16 [7, 8], Fixed32 9], v)
     \<and> m_position v = m_position t \<and> ba_content v = ba_content t"
proof -
  let ?s = "ByteArray (\<lambda>_. 0) 4" and ?fs = "[VarI32 (- 3), Str16 [7, 8], Fixed32 9]"
  have "length (enc_all Big_endian ?fs) = 9" by code_simp
  then have "ba_room ?s (length (enc_all (m_endian ?s) ?fs))" by (simp add: ba_room_def ByteArray_def)
  from fields_roundtrip[OF ba_inv_new this, of Little_endian Big_endian] show ?thesis
    by (simp add: ByteArray_def zigzag_defined_def)
qed

text \<open>The variable-length form of a value fits the local array it is built in, five bytes
  for 32 bits and ten for 64, and is never empty.\<close>

lemma varint_fits:
  "length (varint_loop (v :: 32 word) []) \<in> {1..5} \<and> length (varint_loop (w :: 64 word) []) \<in> {1..10}"
proof -
  have "unat v < 2 ^ 32" "unat w < 2 ^ 64" using unsigned_less[of v] unsigned_less[of w] by simp_all
  then have "length (varint_loop v []) \<le> 5" "length (varint_loop w []) \<le> 10"
    using length_varint[of v 4] length_varint[of w 9] by simp_all
  with varint_nonempty[of v] varint_nonempty[of w] show ?thesis
    by (simp add: Suc_le_eq)
qed

lemma uint_zigzag:
  fixes v :: "'a::len word"
  shows "uint (if sint v < 0 then - v * 2 - 1 else v * 2) = (if sint v < 0 then - 2 * sint v - 1 else 2 * sint v)"
proof -
  have b: "- (2 ^ (LENGTH('a) - 1)) \<le> sint v" "sint v < 2 ^ (LENGTH('a) - 1)"
    using sint_greater_eq[of v] sint_lt[of v] by simp_all
  have e: "(2 :: int) ^ LENGTH('a) = 2 * 2 ^ (LENGTH('a) - 1)"
    using power_Suc[of "2 :: int" "LENGTH('a) - 1"] by simp
  have w: "- v * 2 - 1 = word_of_int (- 2 * sint v - 1)" "v * 2 = word_of_int (2 * sint v)"
    by (simp_all add: wi_hom_syms mult.commute)
  show ?thesis
  proof (cases "sint v < 0")
    case True
    then have "(- 2 * sint v - 1) mod 2 ^ LENGTH('a) = - 2 * sint v - 1"
      using b(1) unfolding e by (intro mod_pos_pos_trivial) simp_all
    with True show ?thesis unfolding w by (simp only: uint_word_of_int if_True)
  next
    case False
    then have "(2 * sint v) mod 2 ^ LENGTH('a) = 2 * sint v"
      using b(2) unfolding e by (intro mod_pos_pos_trivial) simp_all
    with False show ?thesis unfolding w by (simp only: uint_word_of_int if_False)
  qed
qed

text \<open>Zigzag maps the signed integers one-to-one onto the unsigned ones, \<open>n \<ge> 0\<close> to
  \<open>2 * n\<close> and \<open>n < 0\<close> to \<open>-2 * n - 1\<close>, and decoding undoes it. The encoders compute it for
  half of the non-negative numbers only: above, and at the smallest integer, the signed
  product or negation overflows.\<close>

lemma zigzag_correct:
  "EncodeZigzag32 v = (if - (2 ^ 31) < sint v \<and> sint v < 2 ^ 30 then Inr (zigzag v) else Inl Signed_overflow)
   \<and> EncodeZigzag64 w = (if - (2 ^ 63) < sint w \<and> sint w < 2 ^ 62 then Inr (zigzag w) else Inl Signed_overflow)
   \<and> uint (zigzag v) = (if sint v < 0 then - 2 * sint v - 1 else 2 * sint v)
   \<and> uint (zigzag w) = (if sint w < 0 then - 2 * sint w - 1 else 2 * sint w)
   \<and> DecodeZigzag32 (zigzag v) = v \<and> DecodeZigzag64 (zigzag w) = w"
  using uint_zigzag[of v] uint_zigzag[of w] zigzag_roundtrip(1)[of v] zigzag_roundtrip(2)[of w]
  by (auto simp: EncodeZigzag zigzag_defined_def) (simp_all add: zigzag_def)

text \<open>A length-prefixed string of length 0 whose prefix ends at the end of the last block
  cannot be read back: the read of its no bytes dereferences the null \<open>m_cur\<close>.\<close>

lemma empty_string_at_end:
  assumes "ba_inv s" "at_pos (ba_content s) (m_position s) (mem_of (m_endian s) (0 :: 32 word))"
    and "m_position s + 4 = m_capacity s"
  shows "readStringF32 host s = Inl Null_deref"
proof -
  obtain t where t: "read_fixed host s = Inr (0 :: 32 word, t)" "ba.stepped s t 4"
    using read_fixed_at[OF assms(1) _ assms(2)] by auto
  have inv: "ba_inv t" and pos: "m_position t = m_capacity s" and content: "ba_content t = ba_content s"
    and base: "m_baseSize t = m_baseSize s"
    using t(2) assms(3) by (simp_all add: ba.stepped_def)
  have "length (m_root t) = length (m_root s)"
    using t(1) by (auto simp: read_fixed_def ba_read_def Let_def split: if_splits)
  then have "m_capacity t = m_capacity s" using ba_invD(4)[OF inv] ba_invD(4)[OF assms(1)] base by simp
  then have "ba_read 0 t = Inl Null_deref" using ba_read_nothing[OF inv] pos by simp
  with t(1) show ?thesis by (simp add: readStringF32_def readFuint32_def)
qed

lemma empty_string_at_end_witness:
  "\<exists>t u. writeStringF32 Little_endian [] (ByteArray (\<lambda>_. 0) 4) = Inr t \<and> ba_setPosition 0 t = Inr u
     \<and> readStringF32 Little_endian u = Inl Null_deref"
proof -
  let ?u = "(ByteArray (\<lambda>_. 0) 4)\<lparr>m_size := 4\<rparr>"
  let ?t = "?u\<lparr>m_position := 4, m_cur := None\<rparr>"
  have zero: "mem_of Little_endian (byteswap (0 :: 32 word)) = [0, 0, 0, 0]"
    "mem_of Big_endian (0 :: 32 word) = [0, 0, 0, 0]" by code_simp+
  have new: "new_node (\<lambda>_. 0) 4 = \<lparr>n_ptr = [0, 0, 0, 0], n_size = 4\<rparr>" by code_simp
  have "writeStringF32 Little_endian [] (ByteArray (\<lambda>_. 0) 4) = Inr ?t"
    by (simp add: writeStringF32_def writeFuint32_def write_fixed_def ByteArray_def zero ba_write_def
        ba_addCapacity_def getCapacity_def usub64_def node_at_def ba_write_loop.simps poke_def new
        overwrite_def next_node_def Let_def)
  moreover have "ba_setPosition 0 ?t = Inr ?u"
    by (simp add: ba_setPosition_def ba_seek_loop.simps ByteArray_def new)
  moreover have "ba_inv ?u"
    using ba_inv_new[of 4 "\<lambda>_. 0"] by (simp add: ba_inv_def ByteArray_def)
  moreover have "at_pos (ba_content ?u) (m_position ?u) (mem_of (m_endian ?u) (0 :: 32 word))"
    by (simp add: at_pos_def ba_content_def ByteArray_def new zero flat_def)
  ultimately show ?thesis
    using empty_string_at_end[of ?u Little_endian] by (simp add: ByteArray_def)
qed

subsection \<open>Scatter/gather lists and files\<close>

text \<open>The buffers of \<open>getReadBuffers\<close> are, in order, the next bytes to be read: as many as
  asked for, or all there are.\<close>

lemma getReadBuffers_gather:
  assumes "ba_inv s"
  shows "\<exists>vs. getReadBuffers buffers len s = Inr (min len (getReadSize s), buffers @ vs)
     \<and> gather (m_root s) vs = take len (drop (m_position s) (ba_content s))
     \<and> iov_total vs = min len (getReadSize s)"
proof -
  obtain vs where vs: "getReadBuffers buffers len s = Inr (min len (m_size s - m_position s), buffers @ vs)"
    "spans (m_baseSize s) (length (m_root s)) (m_position s) vs"
    "iov_total vs = min len (m_size s - m_position s)"
    using getReadBuffers_ok[OF assms] by blast
  have "gather (m_root s) vs = take (min len (m_size s - m_position s)) (drop (m_position s) (flat (m_root s)))"
    using gather_spans[OF ba_invD(3)[OF assms] vs(2)] vs(3) by simp
  also have "\<dots> = take len (drop (m_position s) (ba_content s))"
    by (simp add: ba_content_def drop_take)
  finally show ?thesis using vs(1,3) ba_inv_getReadSize[OF assms] by auto
qed

text \<open>The overload of \<open>getReadBuffers\<close> with a position clamps the length by what is
  readable from \<open>m_position\<close>, not from the position given: from a later position inside the
  written bytes it hands out buffers that reach beyond them.\<close>

lemma getReadBuffers_at_overrun:
  assumes "ba_inv s" "m_position s < position" "position \<le> m_size s"
    and "position + getReadSize s \<le> m_capacity s"
  shows "\<exists>vs. getReadBuffers_at [] (getReadSize s) position s = Inr (getReadSize s, vs)
     \<and> length (gather (m_root s) vs) = getReadSize s
     \<and> length (drop position (ba_content s)) < getReadSize s"
proof -
  note size = ba_inv_getReadSize[OF assms(1)]
  obtain vs where vs: "getReadBuffers_at [] (getReadSize s) position s = Inr (getReadSize s, vs)"
    "spans (m_baseSize s) (length (m_root s)) position vs" "iov_total vs = getReadSize s"
    using getReadBuffers_at_ok[OF assms(1), of position "getReadSize s" "[]"] assms(4) size by auto
  have "length (gather (m_root s) vs) = getReadSize s"
    using gather_spans[OF ba_invD(3)[OF assms(1)] vs(2)] vs(3) assms(4) ba_invD(4)[OF assms(1)]
      length_flat[OF ba_invD(3)[OF assms(1)]] by simp
  with vs(1) assms(2,3) show ?thesis by (simp add: size ba_inv_length_content[OF assms(1)])
qed

lemma getReadBuffers_at_overrun_witness:
  "\<exists>s vs. ba_content s = [1, 2] \<and> getReadBuffers_at [] 2 1 s = Inr (2, vs) \<and> length (gather (m_root s) vs) = 2"
proof -
  let ?s = "\<lparr>m_baseSize = 4, m_position = 0, m_capacity = 4, m_size = 2, m_endian = Big_endian,
    m_root = [\<lparr>n_ptr = [1, 2, 0, 0], n_size = 4\<rparr>], m_cur = Some 0, ba_junk = \<lambda>_. 0\<rparr>"
  have "ba_inv ?s" by (simp add: ba_inv_def uniform_def cursor_def)
  moreover have "getReadSize ?s = 2" by (simp add: getReadSize_def usub64_def)
  moreover have "ba_content ?s = [1, 2]" by (simp add: ba_content_def flat_def)
  ultimately show ?thesis using getReadBuffers_at_overrun[of ?s 1] by force
qed

text \<open>What a socket read does (\<open>getWriteBuffers\<close>, fill the buffers with the \<open>length bs\<close>
  bytes that arrived, advance the position) has the effect of writing these bytes.\<close>

lemma getWriteBuffers_scatter:
  assumes "ba_inv s" "ba_room s len" "length bs \<le> len"
  shows "\<exists>vs t u. getWriteBuffers [] len s = Inr ((len, vs), t)
     \<and> ba_setPosition (m_position t + length bs) (t\<lparr>m_root := scatter (m_root t) vs bs\<rparr>) = Inr u
     \<and> ba_inv u \<and> ba_abs u = fb_write bs (ba_abs s)
     \<and> m_baseSize u = m_baseSize s \<and> m_endian u = m_endian s \<and> ba_inv t \<and> ba_abs t = ba_abs s
     \<and> iov_total vs = len \<and> m_baseSize t = m_baseSize s \<and> m_endian t = m_endian s"
proof -
  obtain vs t where t: "getWriteBuffers [] len s = Inr ((len, vs), t)" "ba_inv t" "same_bytes s t"
    "m_position t = m_position s" "m_position s + len \<le> m_capacity t"
    "spans (m_baseSize t) (length (m_root t)) (m_position s) vs" "iov_total vs = len"
    using getWriteBuffers_ok[OF assms(1,2), of "[]"] by auto
  note I = ba_invD[OF t(2)]
  let ?r = "scatter (m_root t) vs bs" and ?p = "m_position s"
  let ?t = "t\<lparr>m_root := ?r\<rparr>"
  have flen: "length (flat (m_root t)) = m_capacity t" using length_flat[OF I(3)] I(4) by simp
  have r: "uniform (m_baseSize t) ?r" "length ?r = length (m_root t)" "flat ?r = overwrite (flat (m_root t)) ?p bs"
    using scatter_spans[OF I(3) t(6), of bs] t(4,5,7) assms(3) I(5,6) flen by auto
  have inv: "ba_inv ?t" using I r(1,2) by (auto simp: ba_inv_def)
  have v: "?p + length bs \<le> m_capacity ?t" using t(5) assms(3) by simp
  obtain u where u: "ba_setPosition (?p + length bs) ?t = Inr u" "ba_inv u" "m_position u = ?p + length bs"
    "m_size u = max (m_size ?t) (?p + length bs)"
    using ba_setPosition_ok[OF inv v] by blast
  have root: "m_root u = ?r" "m_baseSize u = m_baseSize t" "m_endian u = m_endian t" using u(1) by (auto simp: ba_setPosition_def split: if_splits)
  have "?p \<le> m_size t" "m_size t \<le> length (flat (m_root t))" "?p + length bs \<le> length (flat (m_root t))"
    using t(4) I(5,6) v flen by simp_all
  from take_overwrite_content[OF this]
  have "ba_content u = overwrite (ba_content t) ?p bs"
    using u(4) by (simp add: ba_content_def root(1) r(3))
  with t u root(2,3) show ?thesis
    by (intro exI[of _ vs] exI[of _ t] exI[of _ u]) (simp add: ba_abs_def fb_write_def same_bytes_def)
qed

text \<open>\<open>writeToFile\<close> puts the bytes from the position on into the file exactly when the
  position is on a block boundary, at least a whole block is left, or nothing is. Otherwise it
  computes a negative length or runs off the chain.\<close>

lemma writeToFile_correct_iff:
  assumes "ba_inv s" "m_capacity s < 2 ^ 63" "m_baseSize s \<le> 2 ^ 31"
  shows "writeToFile True s = Inr (Some (drop (m_position s) (ba_content s))) \<longleftrightarrow>
     m_position s mod m_baseSize s = 0 \<or> m_baseSize s \<le> getReadSize s \<or> getReadSize s = 0"
  using writeToFile_ok[OF assms] writeToFile_unaligned[OF assms] by fastforce

lemma writeToFile_correct_iff_witness:
  "writeToFile True (ByteArray (\<lambda>_. 0) 4) = Inr (Some [])"
  using writeToFile_correct_iff[of "ByteArray (\<lambda>_. 0) 4"] ba_inv_new[of 4 "\<lambda>_. 0"]
  by (simp add: ByteArray_def ba_content_def)

text \<open>\<open>readFromFile\<close> of a file that can be opened always ends, and has the effect of one
  write of the whole content.\<close>

lemma readFromFile_correct:
  assumes "ba_inv s" "ba_room s (length content)"
  shows "\<exists>t. readFromFile (Some content) s = Some (Inr (True, t)) \<and> ba_inv t
     \<and> ba_abs t = fb_write content (ba_abs s)"
  using read_file_loop_ok[OF assms]
  by (auto simp: readFromFile_def ba.stored_def ba_abs_def fb_write_def)

lemma readFromFile_correct_witness:
  "\<exists>t. readFromFile (Some [1, 2, 3]) (ByteArray (\<lambda>_. 0) 2) = Some (Inr (True, t)) \<and> ba_abs t = ([1, 2, 3], 3)"
  using readFromFile_correct[of "ByteArray (\<lambda>_. 0) 2" "[1, 2, 3]"] ba_inv_new[of 2 "\<lambda>_. 0"]
  by (auto simp: ba_room_def ByteArray_def ba_abs_def ba_content_def fb_write_def overwrite_def)

end
