(* ===== verification/Fiber.thy ===== *)
theory Fiber
  imports Prelude
begin

text \<open>
  Coroutines (\<^verbatim>\<open>include/Fiber.h\<close>, \<^verbatim>\<open>src/Fiber.cc\<close>). A \<open>Fiber *\<close> is an address in \<open>f_heap\<close>.
  Switching contexts is not modelled as such: \<open>swapIn\<close> and \<open>swapOut\<close> do the bookkeeping of
  the thread-local pointers and of the states around \<open>swapcontext\<close>, which the scheduler's
  model places between what runs before and what runs after.
\<close>

subsection \<open>State\<close>

datatype fiber_state = INIT | HOLD | RUNING | TERM' | READY | EXCEPT

text \<open>\<open>m_stack\<close>: the constructor of the main coroutine does not set it.\<close>

datatype stack_ptr = Stack_unset | Stack_null | Stack nat

record fiber =
  f_id :: nat
  f_stackSize :: nat
  f_state :: fiber_state
  f_prepared :: bool          \<comment> \<open>\<open>makecontext\<close> has been called for \<open>mainFunc\<close>\<close>
  f_stack :: stack_ptr
  f_cb :: "callback option"

text \<open>The process-wide counters and the thread-local pointers of one thread.\<close>

record fibers =
  f_heap :: "nat \<Rightarrow> fiber"
  s_fiber_id :: nat
  s_fiber_counts :: nat
  t_fiber :: "nat option"
  t_thread_fiber :: "nat option"
  t_scheduler_fiber :: "nat option"

abbreviation upd_fiber :: "nat \<Rightarrow> (fiber \<Rightarrow> fiber) \<Rightarrow> 'a fibers_scheme \<Rightarrow> 'a fibers_scheme" where
  "upd_fiber a g w \<equiv> w\<lparr>f_heap := (f_heap w)(a := g (f_heap w a))\<rparr>"

definition getState :: "nat \<Rightarrow> 'a fibers_scheme \<Rightarrow> fiber_state" where
  "getState a w = f_state (f_heap w a)"

definition setState :: "nat \<Rightarrow> fiber_state \<Rightarrow> 'a fibers_scheme \<Rightarrow> 'a fibers_scheme" where
  "setState a st w = upd_fiber a (\<lambda>f. f\<lparr>f_state := st\<rparr>) w"

subsection \<open>Operations\<close>

definition fiber_setThis :: "nat option \<Rightarrow> 'a fibers_scheme \<Rightarrow> 'a fibers_scheme" where
  "fiber_setThis f w = (case f of None \<Rightarrow> w\<lparr>t_fiber := None\<rparr>
     | Some a \<Rightarrow> (setState a RUNING w)\<lparr>t_fiber := Some a\<rparr>)"

text \<open>\<open>Fiber()\<close>, the main coroutine of a thread; a second one ends the process.\<close>

definition Fiber_main :: "nat \<Rightarrow> 'a fibers_scheme \<Rightarrow> fault + 'a fibers_scheme" where
  "Fiber_main a w =
     (let w = w\<lparr>f_heap := (f_heap w)(a := \<lparr>f_id = s_fiber_id w, f_stackSize = 0, f_state = RUNING,
                  f_prepared = False, f_stack = Stack_unset, f_cb = None\<rparr>),
                s_fiber_id := s_fiber_id w + 1\<rparr> in
      if t_thread_fiber w \<noteq> None then Inl Exit_called
      else Inr (w\<lparr>s_fiber_counts := s_fiber_counts w + 1\<rparr>))"

text \<open>\<open>Fiber(cb, stacksize)\<close>; \<open>stk\<close> is the block \<open>malloc\<close> returns.\<close>

definition Fiber_task :: "nat \<Rightarrow> nat \<Rightarrow> callback option \<Rightarrow> nat \<Rightarrow> 'a fibers_scheme \<Rightarrow> 'a fibers_scheme" where
  "Fiber_task a stk cb stacksize w =
     (let w = w\<lparr>f_heap := (f_heap w)(a := \<lparr>f_id = s_fiber_id w, f_stackSize = stacksize, f_state = RUNING,
                  f_prepared = False, f_stack = Stack_unset, f_cb = None\<rparr>),
                s_fiber_id := s_fiber_id w + 1\<rparr>;
          w = fiber_setThis (Some a) w;
          w = w\<lparr>s_fiber_counts := s_fiber_counts w + 1\<rparr>
      in upd_fiber a (\<lambda>f. f\<lparr>f_stack := Stack stk, f_cb := cb, f_prepared := True\<rparr>) w)"

definition Fiber_delete :: "nat \<Rightarrow> 'a fibers_scheme \<Rightarrow> fault + 'a fibers_scheme" where
  "Fiber_delete a w =
     (let w = setState a TERM' w; w = w\<lparr>s_fiber_counts := usub64 (s_fiber_counts w) 1\<rparr> in
      case f_stack (f_heap w a) of
        Stack_unset \<Rightarrow> Inl Uninitialised
      | Stack _ \<Rightarrow> Inr w
      | Stack_null \<Rightarrow> Inr (if t_fiber w = Some a then fiber_setThis None w else w))"

definition fiber_reset :: "nat \<Rightarrow> callback option \<Rightarrow> 'a fibers_scheme \<Rightarrow> 'a fibers_scheme" where
  "fiber_reset a cb w = upd_fiber a (\<lambda>f. f\<lparr>f_cb := cb, f_prepared := True, f_state := INIT\<rparr>) w"

definition swapIn :: "nat \<Rightarrow> 'a fibers_scheme \<Rightarrow> fault + 'a fibers_scheme" where
  "swapIn a w =
     (let w = fiber_setThis (Some a) w in
      if t_fiber w = None \<or> t_thread_fiber w = None then Inl Assert_failed
      else if t_scheduler_fiber w = None then Inl Assert_failed
      else if \<not> f_prepared (f_heap w a) then Inl Assert_failed
      else Inr w)"

definition swapOut :: "nat \<Rightarrow> 'a fibers_scheme \<Rightarrow> fault + 'a fibers_scheme" where
  "swapOut a w =
     (let w = fiber_setThis (t_scheduler_fiber w) w in
      if t_fiber w = None \<or> t_thread_fiber w = None then Inl Assert_failed
      else if t_scheduler_fiber w = None then Inl Assert_failed
      else Inr w)"

text \<open>\<open>a\<close> is the address a new main coroutine would get.\<close>

definition fiber_getThis :: "nat \<Rightarrow> 'a fibers_scheme \<Rightarrow> fault + nat \<times> 'a fibers_scheme" where
  "fiber_getThis a w = (case t_fiber w of
     Some f \<Rightarrow> Inr (f, w)
   | None \<Rightarrow> bindE (Fiber_main a w) (\<lambda>w.
       let w = (fiber_setThis (Some a) w)\<lparr>t_thread_fiber := Some a\<rparr> in Inr (a, w)))"

definition totalFibers :: "'a fibers_scheme \<Rightarrow> nat" where
  "totalFibers w = s_fiber_counts w"

definition getFiberId :: "'a fibers_scheme \<Rightarrow> nat" where
  "getFiberId w = (case t_fiber w of Some a \<Rightarrow> f_id (f_heap w a) | None \<Rightarrow> 0)"

text \<open>
  The end of \<open>mainFunc\<close>: \<open>threw\<close> tells whether \<open>m_cb()\<close> ended with a \<open>std::exception\<close>;
  calling an empty function throws one.
\<close>

definition mainFunc_end :: "nat \<Rightarrow> bool \<Rightarrow> 'a fibers_scheme \<Rightarrow> fault + 'a fibers_scheme" where
  "mainFunc_end a threw w =
     (let w = (if threw \<or> f_cb (f_heap w a) = None then setState a EXCEPT w
               else upd_fiber a (\<lambda>f. f\<lparr>f_cb := None, f_state := TERM'\<rparr>) w)
      in swapOut a w)"

subsection \<open>States after an operation\<close>

lemma getState_simps [simp, sim_simps]:
  "getState b (setState a st w) = (if b = a then st else getState b w)"
  "getState b (fiber_reset a cb w) = (if b = a then INIT else getState b w)"
  "getState b (fiber_setThis (Some a) w) = (if b = a then RUNING else getState b w)"
  "getState b (fiber_setThis None w) = getState b w"
  "getState b (Fiber_task a stk cb n w) = (if b = a then RUNING else getState b w)"
  by (simp_all add: getState_def setState_def fiber_reset_def fiber_setThis_def Fiber_task_def Let_def)

text \<open>What an operation leaves alone.\<close>

lemma thread_fiber_simps [simp, sim_simps]:
  "t_thread_fiber (setState a st w) = t_thread_fiber w"
  "t_thread_fiber (fiber_setThis f w) = t_thread_fiber w"
  "t_thread_fiber (fiber_reset a cb w) = t_thread_fiber w"
  "t_thread_fiber (Fiber_task a stk cb n w) = t_thread_fiber w"
  "t_scheduler_fiber (setState a st w) = t_scheduler_fiber w"
  "t_scheduler_fiber (fiber_setThis f w) = t_scheduler_fiber w"
  "t_scheduler_fiber (fiber_reset a cb w) = t_scheduler_fiber w"
  "t_scheduler_fiber (Fiber_task a stk cb n w) = t_scheduler_fiber w"
  by (simp_all add: setState_def fiber_reset_def fiber_setThis_def Fiber_task_def Let_def split: option.split)

lemma t_fiber_simps [simp, sim_simps]:
  "t_fiber (fiber_setThis f w) = f" "t_fiber (setState a st w) = t_fiber w"
  "t_fiber (Fiber_task a stk cb n w) = Some a" "t_fiber (fiber_reset a cb w) = t_fiber w"
  by (simp_all add: setState_def fiber_reset_def fiber_setThis_def Fiber_task_def Let_def split: option.split)

lemma f_prepared_simps [simp, sim_simps]:
  "f_prepared (f_heap (setState a st w) b) = f_prepared (f_heap w b)"
  "f_prepared (f_heap (fiber_setThis f w) b) = f_prepared (f_heap w b)"
  "f_prepared (f_heap (fiber_reset a cb w) b) \<longleftrightarrow> b = a \<or> f_prepared (f_heap w b)"
  "f_prepared (f_heap (Fiber_task a stk cb n w) b) \<longleftrightarrow> b = a \<or> f_prepared (f_heap w b)"
  by (simp_all add: setState_def fiber_reset_def fiber_setThis_def Fiber_task_def Let_def split: option.split)

lemma swapIn_ok:
  assumes "t_thread_fiber w \<noteq> None" "t_scheduler_fiber w \<noteq> None" "f_prepared (f_heap w a)"
  shows "swapIn a w = Inr (fiber_setThis (Some a) w)"
  using assms by (simp add: swapIn_def Let_def)

end
