(* ===== verification/Scheduler.thy ===== *)
theory Scheduler
  imports Fiber "HOL-Library.Multiset"
begin

text \<open>
  The coroutine scheduler (\<^verbatim>\<open>include/scheduler.h\<close>, \<^verbatim>\<open>src/Scheduler.cc\<close>): the shared queue
  of tasks, and the loop each worker thread runs. What user code does between \<open>swapIn\<close> and
  the switch back is a function argument \<open>exec\<close>. The queue's critical sections are single
  definitions, so that sequences of them are the interleavings of several threads.
\<close>

subsection \<open>State\<close>

text \<open>\<open>FiberAndThread\<close>; \<open>-1\<close> means any thread.\<close>

record task =
  tk_fiber :: "nat option"
  tk_cb :: "callback option"
  tk_thread :: int

text \<open>
  The scheduler's members, the locals \<open>cb_fiber\<close> and \<open>idle_fiber\<close> of one thread's \<open>run\<close>,
  the next address of the allocator, and the number of calls of \<open>tickle\<close>.
\<close>

record sched = fibers +
  m_fibers :: "task list"
  m_threads :: "int list"
  m_threadCount :: nat
  m_activeThreadCount :: nat
  m_idleThreadCount :: nat
  m_stopping :: bool
  m_autoStop :: bool
  cb_fiber :: "nat option"
  idle_fiber :: nat
  next_addr :: nat
  n_tickles :: nat

definition tickle :: "sched \<Rightarrow> sched" where
  "tickle s = s\<lparr>n_tickles := n_tickles s + 1\<rparr>"

subsection \<open>The queue\<close>

definition scheduleNoLock :: "task \<Rightarrow> task list \<Rightarrow> bool \<times> task list" where
  "scheduleNoLock ft q =
     (q = [], if tk_fiber ft \<noteq> None \<or> tk_cb ft \<noteq> None then q @ [ft] else q)"

definition schedule :: "task \<Rightarrow> sched \<Rightarrow> sched" where
  "schedule ft s =
     (let (needtikle, q) = scheduleNoLock ft (m_fibers s); s = s\<lparr>m_fibers := q\<rparr>
      in if needtikle then tickle s else s)"

text \<open>The overload for a range of callbacks.\<close>

fun schedule_range_loop :: "task list \<Rightarrow> task list \<Rightarrow> bool \<Rightarrow> bool \<times> task list" where
  "schedule_range_loop [] q need = (need, q)"
| "schedule_range_loop (ft # fts) q need =
     (let (n, q) = scheduleNoLock ft q in schedule_range_loop fts q (n \<or> need))"

definition schedule_range :: "task list \<Rightarrow> sched \<Rightarrow> sched" where
  "schedule_range fts s =
     (let (need, q) = schedule_range_loop fts (m_fibers s) False; s = s\<lparr>m_fibers := q\<rparr>
      in if need then tickle s else s)"

text \<open>
  The scan under the lock in \<open>run\<close>: the task taken, the queue left, \<open>tickle_me\<close>. \<open>me\<close> is
  the id of the thread and \<open>st\<close> the states of the coroutines at that moment.
\<close>

fun take_task ::
  "int \<Rightarrow> (nat \<Rightarrow> fiber_state) \<Rightarrow> task list \<Rightarrow> bool \<Rightarrow> fault + task option \<times> task list \<times> bool"
where
  "take_task me st [] tickle_me = Inr (None, [], tickle_me)"
| "take_task me st (t # ts) tickle_me =
     (if tk_thread t \<noteq> - 1 \<and> tk_thread t \<noteq> me then
        bindE (take_task me st ts True) (\<lambda>(ft, q, b). Inr (ft, t # q, b))
      else if tk_fiber t = None \<and> tk_cb t = None then Inl Assert_failed
      else if (case tk_fiber t of Some f \<Rightarrow> st f = RUNING | None \<Rightarrow> False) then
        bindE (take_task me st ts tickle_me) (\<lambda>(ft, q, b). Inr (ft, t # q, b))
      else Inr (Some t, ts, tickle_me \<or> ts \<noteq> []))"

subsection \<open>Starting and stopping\<close>

definition Scheduler :: "nat \<Rightarrow> sched \<Rightarrow> sched" where
  "Scheduler threads s = s\<lparr>m_fibers := [], m_threads := [], m_threadCount := threads,
     m_activeThreadCount := 0, m_idleThreadCount := 0, m_stopping := True, m_autoStop := False\<rparr>"

text \<open>\<open>ids\<close>: the thread ids of the threads created.\<close>

definition sched_start :: "int list \<Rightarrow> sched \<Rightarrow> sched" where
  "sched_start ids s = (if \<not> m_stopping s then s
     else s\<lparr>m_stopping := False, m_threads := take (m_threadCount s) ids\<rparr>)"

definition sched_stop :: "sched \<Rightarrow> sched" where
  "sched_stop s =
     (let s = s\<lparr>m_autoStop := True, m_stopping := True\<rparr>;
          s = (tickle ^^ m_threadCount s) s
      in s\<lparr>m_threads := []\<rparr>)"

definition sched_stopping :: "sched \<Rightarrow> bool" where
  "sched_stopping s \<longleftrightarrow> m_autoStop s \<and> m_stopping s \<and> m_activeThreadCount s = 0 \<and> m_fibers s = []"

definition hasIdleThreads :: "sched \<Rightarrow> bool" where
  "hasIdleThreads s = (0 < m_idleThreadCount s)"

subsection \<open>One round of the loop of a worker thread\<close>

abbreviation ended :: "fiber_state \<Rightarrow> bool" where
  "ended st \<equiv> st = TERM' \<or> st = EXCEPT"

text \<open>The branch for a task that is a coroutine.\<close>

definition run_fiber :: "(nat \<Rightarrow> sched \<Rightarrow> sched) \<Rightarrow> nat \<Rightarrow> sched \<Rightarrow> fault + sched" where
  "run_fiber exec f s = bindE (swapIn f s) (\<lambda>s.
     let s = exec f s; s = s\<lparr>m_activeThreadCount := m_activeThreadCount s - 1\<rparr> in
     Inr (if getState f s = READY then schedule \<lparr>tk_fiber = Some f, tk_cb = None, tk_thread = - 1\<rparr> s
          else if \<not> ended (getState f s) then setState f HOLD s
          else s))"

text \<open>The branch for a callback: the coroutine \<open>cb_fiber\<close> is reused or a new one is made.\<close>

definition prepare_cb_fiber :: "callback \<Rightarrow> sched \<Rightarrow> nat \<times> sched" where
  "prepare_cb_fiber cb s = (case cb_fiber s of
     Some f \<Rightarrow> (f, fiber_reset f (Some cb) s)
   | None \<Rightarrow> let f = next_addr s; s = s\<lparr>next_addr := next_addr s + 1\<rparr>;
                 s = Fiber_task f f (Some cb) (128 * 1024) s
             in (f, s\<lparr>cb_fiber := Some f\<rparr>))"

definition run_cb :: "(nat \<Rightarrow> sched \<Rightarrow> sched) \<Rightarrow> callback \<Rightarrow> sched \<Rightarrow> fault + sched" where
  "run_cb exec cb s =
     (let (f, s) = prepare_cb_fiber cb s in
      bindE (swapIn f s) (\<lambda>s.
        let s = exec f s; s = s\<lparr>m_activeThreadCount := m_activeThreadCount s - 1\<rparr> in
        Inr (if getState f s = READY then
               (schedule \<lparr>tk_fiber = Some f, tk_cb = None, tk_thread = - 1\<rparr> s)\<lparr>cb_fiber := None\<rparr>
             else if ended (getState f s) then fiber_reset f None s
             else (setState f HOLD s)\<lparr>cb_fiber := None\<rparr>)))"

definition run_idle :: "(nat \<Rightarrow> sched \<Rightarrow> sched) \<Rightarrow> sched \<Rightarrow> fault + sched" where
  "run_idle exec s =
     (let f = idle_fiber s; s = s\<lparr>m_idleThreadCount := m_idleThreadCount s + 1\<rparr>;
          s = setState f RUNING s in
      bindE (swapIn f s) (\<lambda>s.
        let s = exec f s; s = s\<lparr>m_idleThreadCount := m_idleThreadCount s - 1\<rparr> in
        Inr (if \<not> ended (getState f s) then setState f HOLD s else s)))"

text \<open>The flag of the result is \<open>False\<close> when the loop is left by \<open>break\<close>.\<close>

definition run_step :: "int \<Rightarrow> (nat \<Rightarrow> sched \<Rightarrow> sched) \<Rightarrow> sched \<Rightarrow> fault + bool \<times> sched" where
  "run_step me exec s =
     bindE (take_task me (\<lambda>f. getState f s) (m_fibers s) False) (\<lambda>(ft, q, tickle_me).
       let s = s\<lparr>m_fibers := q\<rparr>;
           s = (if ft \<noteq> None then s\<lparr>m_activeThreadCount := m_activeThreadCount s + 1\<rparr> else s);
           s = (if tickle_me then tickle s else s)
       in case ft of
         None \<Rightarrow> if getState (idle_fiber s) s = TERM' then Inr (False, s)
                 else bindE (run_idle exec s) (\<lambda>s. Inr (True, s))
       | Some t \<Rightarrow> (case (tk_fiber t, tk_cb t) of
           (Some f, c) \<Rightarrow>
             if \<not> ended (getState f s) then bindE (run_fiber exec f s) (\<lambda>s. Inr (True, s))
             else (case c of Some cb \<Rightarrow> bindE (run_cb exec cb s) (\<lambda>s. Inr (True, s))
               | None \<Rightarrow> Inr (True, s\<lparr>m_activeThreadCount := m_activeThreadCount s - 1\<rparr>))
         | (None, Some cb) \<Rightarrow> bindE (run_cb exec cb s) (\<lambda>s. Inr (True, s))
         | (None, None) \<Rightarrow> Inr (True, s\<lparr>m_activeThreadCount := m_activeThreadCount s - 1\<rparr>)))"

text \<open>\<open>n\<close> rounds of the loop.\<close>

fun run_rounds :: "int \<Rightarrow> (nat \<Rightarrow> sched \<Rightarrow> sched) \<Rightarrow> nat \<Rightarrow> sched \<Rightarrow> fault + sched" where
  "run_rounds me exec 0 s = Inr s"
| "run_rounds me exec (Suc n) s =
     bindE (run_step me exec s) (\<lambda>(go, s). if go then run_rounds me exec n s else Inr s)"

text \<open>What \<open>run\<close> does before the loop: the main coroutine and the idle coroutine, whose function
  (\<open>Callback 0\<close>) is \<open>idle\<close>.\<close>

definition run_setup :: "sched \<Rightarrow> fault + sched" where
  "run_setup s =
     bindE (fiber_getThis (next_addr s) (s\<lparr>next_addr := next_addr s + 1\<rparr>)) (\<lambda>(m, s).
       let s = s\<lparr>t_scheduler_fiber := Some m\<rparr>;
           f = next_addr s; s = s\<lparr>next_addr := next_addr s + 1\<rparr>;
           s = Fiber_task f f (Some (Callback 0)) (128 * 1024) s
       in Inr (s\<lparr>idle_fiber := f, cb_fiber := None\<rparr>))"

subsection \<open>The scan of the queue\<close>

definition valid_task :: "task \<Rightarrow> bool" where
  "valid_task t \<longleftrightarrow> tk_fiber t \<noteq> None \<or> tk_cb t \<noteq> None"

definition eligible :: "int \<Rightarrow> (nat \<Rightarrow> fiber_state) \<Rightarrow> task \<Rightarrow> bool" where
  "eligible me st t \<longleftrightarrow> (tk_thread t = - 1 \<or> tk_thread t = me) \<and> (\<forall>f. tk_fiber t = Some f \<longrightarrow> st f \<noteq> RUNING)"

lemma take_task_none:
  "\<forall>t \<in> set q. valid_task t \<and> \<not> eligible me st t \<Longrightarrow> \<exists>b'. take_task me st q b = Inr (None, q, b')"
proof (induction q arbitrary: b)
  case (Cons t q)
  then have IH: "\<exists>b'. take_task me st q b = Inr (None, q, b')" for b by simp
  show ?case using Cons.prems IH[of True] IH[of b]
    by (auto simp: valid_task_def eligible_def split: option.splits)
qed simp

lemma take_task_some:
  "\<forall>t \<in> set xs. valid_task t \<and> \<not> eligible me st t \<Longrightarrow> valid_task t \<Longrightarrow> eligible me st t \<Longrightarrow>
   \<exists>b'. take_task me st (xs @ t # ys) b = Inr (Some t, xs @ ys, b')"
proof (induction xs arbitrary: b)
  case Nil
  then show ?case by (auto simp: valid_task_def eligible_def split: option.splits)
next
  case (Cons x xs)
  then have IH: "\<exists>b'. take_task me st (xs @ t # ys) b = Inr (Some t, xs @ ys, b')" for b by simp
  show ?case using Cons.prems IH[of True] IH[of b]
    by (auto simp: valid_task_def eligible_def split: option.splits)
qed

text \<open>On a queue of valid tasks the scan takes the first eligible one, if there is one.\<close>

lemma take_task_cases:
  assumes "\<forall>t \<in> set q. valid_task t"
  obtains (none) b' where "take_task me st q b = Inr (None, q, b')" "\<forall>t \<in> set q. \<not> eligible me st t"
    | (some) xs t ys b' where "take_task me st q b = Inr (Some t, xs @ ys, b')" "q = xs @ t # ys"
        "eligible me st t" "\<forall>t \<in> set xs. \<not> eligible me st t"
proof (cases "\<exists>t \<in> set q. eligible me st t")
  case False
  with take_task_none[of q me st b] assms none show ?thesis by blast
next
  case True
  then obtain xs t ys where q: "q = xs @ t # ys" "eligible me st t" "\<forall>x \<in> set xs. \<not> eligible me st x"
    by (metis split_list_first_prop)
  with take_task_some[of xs me st t ys b] assms some show ?thesis by auto
qed

lemma schedule_queue:
  "m_fibers (schedule t s) = (if valid_task t then m_fibers s @ [t] else m_fibers s)"
  by (simp add: schedule_def scheduleNoLock_def valid_task_def tickle_def Let_def)

lemma schedule_frame [simp, sim_simps]:
  "f_heap (schedule t s) = f_heap s" "m_activeThreadCount (schedule t s) = m_activeThreadCount s"
  "m_idleThreadCount (schedule t s) = m_idleThreadCount s" "cb_fiber (schedule t s) = cb_fiber s"
  "idle_fiber (schedule t s) = idle_fiber s" "next_addr (schedule t s) = next_addr s"
  "getState f (schedule t s) = getState f s"
  by (simp_all add: schedule_def scheduleNoLock_def tickle_def getState_def Let_def)

lemma setState_frame [simp, sim_simps]:
  "m_fibers (setState f st s) = m_fibers s" "m_activeThreadCount (setState f st s) = m_activeThreadCount s"
  "m_idleThreadCount (setState f st s) = m_idleThreadCount s" "cb_fiber (setState f st s) = cb_fiber s"
  "idle_fiber (setState f st s) = idle_fiber s" "next_addr (setState f st s) = next_addr s"
  by (simp_all add: setState_def)

lemma setThis_frame [simp, sim_simps]:
  "m_fibers (fiber_setThis f s) = m_fibers s" "m_activeThreadCount (fiber_setThis f s) = m_activeThreadCount s"
  "m_idleThreadCount (fiber_setThis f s) = m_idleThreadCount s" "cb_fiber (fiber_setThis f s) = cb_fiber s"
  "idle_fiber (fiber_setThis f s) = idle_fiber s" "next_addr (fiber_setThis f s) = next_addr s"
  by (simp_all add: fiber_setThis_def split: option.split)

lemma reset_frame [simp, sim_simps]:
  "m_fibers (fiber_reset f cb s) = m_fibers s" "m_activeThreadCount (fiber_reset f cb s) = m_activeThreadCount s"
  "m_idleThreadCount (fiber_reset f cb s) = m_idleThreadCount s" "cb_fiber (fiber_reset f cb s) = cb_fiber s"
  "idle_fiber (fiber_reset f cb s) = idle_fiber s" "next_addr (fiber_reset f cb s) = next_addr s"
  by (simp_all add: fiber_reset_def)

lemma Fiber_task_frame [simp, sim_simps]:
  "m_fibers (Fiber_task a stk cb n s) = m_fibers s"
  "m_activeThreadCount (Fiber_task a stk cb n s) = m_activeThreadCount s"
  "m_idleThreadCount (Fiber_task a stk cb n s) = m_idleThreadCount s"
  "cb_fiber (Fiber_task a stk cb n s) = cb_fiber s" "idle_fiber (Fiber_task a stk cb n s) = idle_fiber s"
  "next_addr (Fiber_task a stk cb n s) = next_addr s"
  by (simp_all add: Fiber_task_def Let_def)

lemma getState_update [simp, sim_simps]:
  "getState f (s\<lparr>m_fibers := q\<rparr>) = getState f s" "getState f (s\<lparr>m_activeThreadCount := n\<rparr>) = getState f s"
  "getState f (s\<lparr>m_idleThreadCount := n\<rparr>) = getState f s" "getState f (s\<lparr>cb_fiber := c\<rparr>) = getState f s"
  "getState f (s\<lparr>next_addr := n\<rparr>) = getState f s" "getState f (tickle s) = getState f s"
  by (simp_all add: getState_def tickle_def)

lemma tickle_frame [simp, sim_simps]:
  "m_fibers (tickle s) = m_fibers s" "m_activeThreadCount (tickle s) = m_activeThreadCount s"
  "m_idleThreadCount (tickle s) = m_idleThreadCount s" "cb_fiber (tickle s) = cb_fiber s"
  "idle_fiber (tickle s) = idle_fiber s" "next_addr (tickle s) = next_addr s"
  by (simp_all add: tickle_def)

lemma swapIn_InrD: "swapIn f s = Inr t \<Longrightarrow> t = fiber_setThis (Some f) s"
  by (auto simp: swapIn_def Let_def split: if_splits)

subsection \<open>Sequences of scheduling and taking by any threads\<close>

datatype queue_act = Q_schedule task | Q_take int "nat \<Rightarrow> fiber_state"

fun queue_run :: "queue_act list \<Rightarrow> task list \<times> task list \<Rightarrow> fault + task list \<times> task list" where
  "queue_run [] (q, taken) = Inr (q, taken)"
| "queue_run (Q_schedule t # acts) (q, taken) = queue_run acts (snd (scheduleNoLock t q), taken)"
| "queue_run (Q_take me st # acts) (q, taken) = bindE (take_task me st q False) (\<lambda>(ft, q, _).
     queue_run acts (q, taken @ (case ft of None \<Rightarrow> [] | Some t \<Rightarrow> [t])))"

fun scheduled :: "queue_act list \<Rightarrow> task list" where
  "scheduled [] = []"
| "scheduled (Q_schedule t # acts) = (if valid_task t then t # scheduled acts else scheduled acts)"
| "scheduled (Q_take me st # acts) = scheduled acts"

text \<open>The callbacks for one thread, or, with \<open>-1\<close>, for any thread.\<close>

definition callback_for :: "int \<Rightarrow> task \<Rightarrow> bool" where
  "callback_for thread t \<longleftrightarrow> tk_fiber t = None \<and> tk_thread t = thread"

text \<open>When a callback is taken, none for the same thread stands before it.\<close>

lemma first_callback:
  assumes "eligible me st t" "\<forall>x \<in> set xs. \<not> eligible me st x" "callback_for thread t"
  shows "filter (callback_for thread) xs = []"
  using assms by (auto simp: filter_empty_conv callback_for_def eligible_def)

lemma queue_run_ok:
  assumes "\<forall>t \<in> set q. valid_task t"
  shows "\<exists>q' taken'. queue_run acts (q, taken) = Inr (q', taken')
     \<and> mset q' + mset taken' = mset q + mset taken + mset (scheduled acts)
     \<and> (\<forall>thread. filter (callback_for thread) (taken' @ q') = filter (callback_for thread) (taken @ q @ scheduled acts))"
  using assms
proof (induction acts arbitrary: q taken)
  case Nil
  then show ?case by simp
next
  case (Cons act acts)
  show ?case
  proof (cases act)
    case (Q_schedule t)
    let ?q = "snd (scheduleNoLock t q)"
    have q: "?q = (if valid_task t then q @ [t] else q)" by (simp add: scheduleNoLock_def valid_task_def)
    then have "\<forall>t \<in> set ?q. valid_task t" using Cons.prems by auto
    from Cons.IH[OF this, of taken] Q_schedule q show ?thesis by (auto split: if_splits)
  next
    case (Q_take me st)
    from Cons.prems show ?thesis
    proof (cases rule: take_task_cases[where me = me and st = st and b = False])
      case (none b')
      with Cons.IH[OF Cons.prems, of taken] Q_take show ?thesis by simp
    next
      case (some xs t ys b')
      have "\<forall>t \<in> set (xs @ ys). valid_task t" using Cons.prems some(2) by auto
      from Cons.IH[OF this, of "taken @ [t]"] obtain q' taken' where IH:
        "queue_run acts (xs @ ys, taken @ [t]) = Inr (q', taken')"
        "mset q' + mset taken' = mset (xs @ ys) + mset (taken @ [t]) + mset (scheduled acts)"
        "\<forall>thread. filter (callback_for thread) (taken' @ q')
           = filter (callback_for thread) ((taken @ [t]) @ (xs @ ys) @ scheduled acts)" by blast
      have "filter (callback_for thread) ((taken @ [t]) @ (xs @ ys) @ scheduled acts)
          = filter (callback_for thread) (taken @ q @ scheduled acts)" for thread
      proof (cases "callback_for thread t")
        case True
        have "filter (callback_for thread) xs = []"
          by (rule first_callback[OF some(3,4) True])
        then show ?thesis using some(2) by simp
      next
        case False
        then show ?thesis using some(2) by simp
      qed
      with IH some Q_take show ?thesis by simp
    qed
  qed
qed

text \<open>C9: whatever threads schedule and take in whatever order, the assertion in the scan never
  fails, no task is lost and none is taken twice, and the callbacks for the same thread, or for any thread,
  are taken in the order in which they were scheduled, whatever other callbacks and coroutines, pinned or
  running, are scheduled among them.\<close>

theorem queue_conserves_tasks:
  "\<exists>q taken. queue_run acts ([], []) = Inr (q, taken)
     \<and> mset q + mset taken = mset (scheduled acts)
     \<and> (\<forall>thread. filter (callback_for thread) taken @ filter (callback_for thread) q
           = filter (callback_for thread) (scheduled acts))"
  using queue_run_ok[of "[]" acts "[]"] by simp

text \<open>A running coroutine and a callback for another thread are passed over.\<close>

lemma queue_conserves_tasks_witness:
  "\<exists>q taken. queue_run [Q_schedule \<lparr>tk_fiber = Some 7, tk_cb = None, tk_thread = - 1\<rparr>,
       Q_schedule \<lparr>tk_fiber = None, tk_cb = Some (Callback 1), tk_thread = 4\<rparr>,
       Q_schedule \<lparr>tk_fiber = None, tk_cb = Some (Callback 2), tk_thread = - 1\<rparr>,
       Q_take 5 (\<lambda>_. RUNING)] ([], []) = Inr (q, taken)
     \<and> filter (callback_for (- 1)) taken @ filter (callback_for (- 1)) q
        = [\<lparr>tk_fiber = None, tk_cb = Some (Callback 2), tk_thread = - 1\<rparr>]"
  using queue_conserves_tasks[of "[Q_schedule \<lparr>tk_fiber = Some 7, tk_cb = None, tk_thread = - 1\<rparr>,
       Q_schedule \<lparr>tk_fiber = None, tk_cb = Some (Callback 1), tk_thread = 4\<rparr>,
       Q_schedule \<lparr>tk_fiber = None, tk_cb = Some (Callback 2), tk_thread = - 1\<rparr>, Q_take 5 (\<lambda>_. RUNING)]"]
  by (auto simp: valid_task_def callback_for_def)

subsection \<open>Rounds of the loop\<close>

text \<open>User code does not touch the scheduler's thread counters.\<close>

definition keeps_counts :: "(nat \<Rightarrow> sched \<Rightarrow> sched) \<Rightarrow> bool" where
  "keeps_counts exec \<longleftrightarrow> (\<forall>f s. m_activeThreadCount (exec f s) = m_activeThreadCount s
     \<and> m_idleThreadCount (exec f s) = m_idleThreadCount s)"

abbreviation counts :: "sched \<Rightarrow> nat \<times> nat" where
  "counts s \<equiv> (m_activeThreadCount s, m_idleThreadCount s)"

lemma run_fiber_counts:
  "keeps_counts exec \<Longrightarrow> run_fiber exec f s = Inr t \<Longrightarrow> m_activeThreadCount s = Suc n \<Longrightarrow>
   counts t = (n, m_idleThreadCount s)"
  by (auto simp: run_fiber_def Let_def keeps_counts_def dest!: swapIn_InrD)

lemma prepare_cb_fiber_counts:
  "prepare_cb_fiber cb s = (f, t) \<Longrightarrow> counts t = counts s"
  by (auto simp: prepare_cb_fiber_def Let_def split: option.splits)

lemma run_cb_counts:
  "keeps_counts exec \<Longrightarrow> run_cb exec cb s = Inr t \<Longrightarrow> m_activeThreadCount s = Suc n \<Longrightarrow>
   counts t = (n, m_idleThreadCount s)"
  by (auto simp: run_cb_def Let_def keeps_counts_def dest!: swapIn_InrD dest: prepare_cb_fiber_counts split: prod.splits)

lemma run_idle_counts:
  "keeps_counts exec \<Longrightarrow> run_idle exec s = Inr t \<Longrightarrow> counts t = counts s"
  by (auto simp: run_idle_def Let_def keeps_counts_def dest!: swapIn_InrD)

text \<open>The cases of a round: the idle coroutine has ended, it is run, or a task was taken.\<close>

lemma run_step_cases:
  assumes "run_step me exec s = Inr (go, t)"
  obtains (end_of_loop) q b s' where "take_task me (\<lambda>f. getState f s) (m_fibers s) False = Inr (None, q, b)"
      "s' = s\<lparr>m_fibers := q\<rparr> \<or> s' = tickle (s\<lparr>m_fibers := q\<rparr>)" "go = False" "t = s'"
    | (idle) q b s' where "take_task me (\<lambda>f. getState f s) (m_fibers s) False = Inr (None, q, b)"
      "s' = s\<lparr>m_fibers := q\<rparr> \<or> s' = tickle (s\<lparr>m_fibers := q\<rparr>)" "go = True" "run_idle exec s' = Inr t"
    | (took) ft q b s' where "take_task me (\<lambda>f. getState f s) (m_fibers s) False = Inr (Some ft, q, b)"
      "s' = s\<lparr>m_fibers := q, m_activeThreadCount := m_activeThreadCount s + 1\<rparr>
        \<or> s' = tickle (s\<lparr>m_fibers := q, m_activeThreadCount := m_activeThreadCount s + 1\<rparr>)" "go = True"
      "(\<exists>f. tk_fiber ft = Some f \<and> run_fiber exec f s' = Inr t) \<or> (\<exists>cb. tk_cb ft = Some cb \<and> run_cb exec cb s' = Inr t)
        \<or> t = s'\<lparr>m_activeThreadCount := m_activeThreadCount s' - 1\<rparr>"
proof -
  obtain o' q b where tt: "take_task me (\<lambda>f. getState f s) (m_fibers s) False = Inr (o', q, b)"
    using assms by (auto simp: run_step_def)
  show ?thesis
  proof (cases o')
    case None
    define s' where "s' = (if b then tickle (s\<lparr>m_fibers := q\<rparr>) else s\<lparr>m_fibers := q\<rparr>)"
    have s': "s' = s\<lparr>m_fibers := q\<rparr> \<or> s' = tickle (s\<lparr>m_fibers := q\<rparr>)" by (simp add: s'_def)
    have "(go = False \<and> t = s') \<or> (go = True \<and> run_idle exec s' = Inr t)"
      using assms by (auto simp: run_step_def tt None Let_def s'_def split: if_splits)
    with tt None s' end_of_loop idle show ?thesis by blast
  next
    case (Some ft)
    let ?u = "s\<lparr>m_fibers := q, m_activeThreadCount := m_activeThreadCount s + 1\<rparr>"
    define s' where "s' = (if b then tickle ?u else ?u)"
    have s': "s' = ?u \<or> s' = tickle ?u" by (simp add: s'_def)
    have "go = True \<and> ((\<exists>f. tk_fiber ft = Some f \<and> run_fiber exec f s' = Inr t)
        \<or> (\<exists>cb. tk_cb ft = Some cb \<and> run_cb exec cb s' = Inr t)
        \<or> t = s'\<lparr>m_activeThreadCount := m_activeThreadCount s' - 1\<rparr>)"
      using assms unfolding run_step_def tt bindE.simps case_prod_conv Some Let_def option.simps
      by (cases "tk_fiber ft"; cases "tk_cb ft") (auto simp: s'_def split: if_splits)
    with tt Some s' took show ?thesis by blast
  qed
qed

lemma run_step_counts:
  assumes "keeps_counts exec" "run_step me exec s = Inr (go, t)"
  shows "counts t = counts s"
  using assms(2)
proof (cases rule: run_step_cases)
  case (end_of_loop q b s')
  then show ?thesis by auto
next
  case (idle q b s')
  then show ?thesis using run_idle_counts[OF assms(1) idle(4)] by auto
next
  case (took ft q b s')
  then have "m_activeThreadCount s' = Suc (m_activeThreadCount s)" "m_idleThreadCount s' = m_idleThreadCount s" by auto
  with took(4) run_fiber_counts[OF assms(1)] run_cb_counts[OF assms(1)] show ?thesis by fastforce
qed

text \<open>C18: every round of the loop, on every path through it, leaves the counts of active and
  idle threads as it found them, so that \<open>stopping()\<close> sees no task in flight once the workers
  are between rounds.\<close>

theorem run_rounds_counts:
  assumes "keeps_counts exec" "run_rounds me exec n s = Inr t"
  shows "m_activeThreadCount t = m_activeThreadCount s \<and> m_idleThreadCount t = m_idleThreadCount s"
  using assms(2)
proof (induction n arbitrary: s)
  case (Suc n)
  then obtain go u where u: "run_step me exec s = Inr (go, u)"
    "(if go then run_rounds me exec n u else Inr u) = Inr t" by auto
  then show ?case using Suc.IH[of u] run_step_counts[OF assms(1) u(1)] by (auto split: if_splits)
qed simp

text \<open>A scheduler with suspended coroutines and a queue, for concrete runs.\<close>

definition demo_sched :: "task list \<Rightarrow> sched" where
  "demo_sched q = \<lparr>f_heap = (\<lambda>_. \<lparr>f_id = 0, f_stackSize = 0, f_state = HOLD, f_prepared = True,
       f_stack = Stack 0, f_cb = None\<rparr>),
     s_fiber_id = 1, s_fiber_counts = 0, t_fiber = Some 0, t_thread_fiber = Some 0, t_scheduler_fiber = Some 0,
     m_fibers = q, m_threads = [], m_threadCount = 1, m_activeThreadCount = 0, m_idleThreadCount = 0,
     m_stopping = False, m_autoStop = False, cb_fiber = None, idle_fiber = 1, next_addr = 10, n_tickles = 0\<rparr>"

definition run_to_end :: "nat \<Rightarrow> sched \<Rightarrow> sched" where
  "run_to_end f s = setState f TERM' s"

lemma run_rounds_counts_witness:
  "\<exists>t. run_rounds 5 run_to_end 1 (demo_sched [\<lparr>tk_fiber = None, tk_cb = Some (Callback 3), tk_thread = - 1\<rparr>]) = Inr t
     \<and> m_activeThreadCount t = 0"
proof -
  let ?s = "demo_sched [\<lparr>tk_fiber = None, tk_cb = Some (Callback 3), tk_thread = - 1\<rparr>]"
  have "\<exists>t. run_rounds 5 run_to_end 1 ?s = Inr t"
    by (simp add: demo_sched_def run_step_def run_cb_def prepare_cb_fiber_def swapIn_def run_to_end_def Let_def)
  then obtain t where t: "run_rounds 5 run_to_end 1 ?s = Inr t" by blast
  have "keeps_counts run_to_end" by (simp add: keeps_counts_def run_to_end_def)
  from run_rounds_counts[OF this t] t show ?thesis by (simp add: demo_sched_def)
qed

subsection \<open>A new coroutine\<close>

lemma take_task_sound:
  "take_task me st q b = Inr (ft, q', b') \<Longrightarrow>
   (\<forall>t. ft = Some t \<longrightarrow> eligible me st t) \<and> (\<forall>x \<in> set q. \<not> eligible me st x \<longrightarrow> x \<in> set q')"
proof (induction q arbitrary: b ft q' b')
  case (Cons t q)
  then show ?case
    by (fastforce simp: eligible_def split: if_splits option.splits)
qed simp

text \<open>User code of other coroutines, as far as coroutine \<open>a\<close> and the queue are concerned.\<close>

definition leaves_alone :: "nat \<Rightarrow> (nat \<Rightarrow> sched \<Rightarrow> sched) \<Rightarrow> bool" where
  "leaves_alone a exec \<longleftrightarrow> (\<forall>g s. g \<noteq> a \<longrightarrow> getState a (exec g s) = getState a s
     \<and> set (m_fibers s) \<subseteq> set (m_fibers (exec g s)) \<and> cb_fiber (exec g s) = cb_fiber s
     \<and> idle_fiber (exec g s) = idle_fiber s \<and> next_addr s \<le> next_addr (exec g s))"

definition starving :: "nat \<Rightarrow> task \<Rightarrow> sched \<Rightarrow> bool" where
  "starving a t s \<longleftrightarrow> t \<in> set (m_fibers s) \<and> getState a s = RUNING \<and> idle_fiber s \<noteq> a
     \<and> cb_fiber s \<noteq> Some a \<and> a < next_addr s"

lemma starving_exec:
  "leaves_alone a exec \<Longrightarrow> g \<noteq> a \<Longrightarrow> starving a t s \<Longrightarrow> starving a t (exec g s)"
  unfolding leaves_alone_def starving_def by (metis less_le_trans subset_eq)

lemma starving_frame:
  "g \<noteq> a \<Longrightarrow> starving a t (setState g st s) = starving a t s"
  "g \<noteq> a \<Longrightarrow> starving a t (fiber_setThis (Some g) s) = starving a t s"
  "g \<noteq> a \<Longrightarrow> starving a t (fiber_reset g cb s) = starving a t s"
  "starving a t (s\<lparr>m_activeThreadCount := n\<rparr>) = starving a t s"
  "starving a t (s\<lparr>m_idleThreadCount := n\<rparr>) = starving a t s"
  "starving a t (tickle s) = starving a t s"
  "starving a t s \<Longrightarrow> starving a t (s\<lparr>cb_fiber := None\<rparr>)"
  "starving a t s \<Longrightarrow> starving a t (schedule x s)"
  by (auto simp: starving_def schedule_queue)

lemma run_fiber_starving:
  assumes "leaves_alone a exec" "f \<noteq> a" "starving a t s" "run_fiber exec f s = Inr u"
  shows "starving a t u"
  using assms(4) starving_exec[OF assms(1,2)] assms(2,3)
  by (auto simp: run_fiber_def Let_def starving_frame dest!: swapIn_InrD split: if_splits)

lemma prepare_cb_fiber_starving:
  assumes "prepare_cb_fiber cb s = (f, u)" "starving a t s"
  shows "f \<noteq> a \<and> starving a t u"
  using assms by (auto simp: prepare_cb_fiber_def starving_def Let_def split: option.splits)

lemma run_cb_starving:
  assumes "leaves_alone a exec" "starving a t s" "run_cb exec cb s = Inr u"
  shows "starving a t u"
proof -
  obtain f w where w: "prepare_cb_fiber cb s = (f, w)" by (metis surj_pair)
  note p = prepare_cb_fiber_starving[OF w assms(2)]
  with assms(3) starving_exec[OF assms(1)] show ?thesis
    by (auto simp: run_cb_def w Let_def starving_frame dest!: swapIn_InrD split: if_splits)
qed

lemma run_idle_starving:
  assumes "leaves_alone a exec" "starving a t s" "run_idle exec s = Inr u"
  shows "starving a t u"
proof -
  have "idle_fiber s \<noteq> a" using assms(2) by (simp add: starving_def)
  with assms(3) starving_exec[OF assms(1) this] assms(2) show ?thesis
    by (auto simp: run_idle_def Let_def starving_frame dest!: swapIn_InrD split: if_splits)
qed

lemma run_step_starving:
  assumes "leaves_alone a exec" "starving a t s" "tk_fiber t = Some a" "run_step me exec s = Inr (go, u)"
  shows "starving a t u"
proof -
  let ?st = "\<lambda>f. getState f s"
  have no: "\<not> eligible me ?st x" if "tk_fiber x = Some a" for x
    using that assms(2) by (auto simp: eligible_def starving_def)
  from assms(4) show ?thesis
  proof (cases rule: run_step_cases)
    case (end_of_loop q b s')
    have "starving a t (s\<lparr>m_fibers := q\<rparr>)"
      using take_task_sound[OF end_of_loop(1)] no[OF assms(3)] assms(2) by (auto simp: starving_def)
    with end_of_loop(2,4) show ?thesis by (auto simp: starving_frame)
  next
    case (idle q b s')
    have "starving a t (s\<lparr>m_fibers := q\<rparr>)"
      using take_task_sound[OF idle(1)] no[OF assms(3)] assms(2) by (auto simp: starving_def)
    then have "starving a t s'" using idle(2) by (auto simp: starving_frame)
    from run_idle_starving[OF assms(1) this idle(4)] show ?thesis .
  next
    case (took ft q b s')
    have "starving a t (s\<lparr>m_fibers := q\<rparr>)"
      using take_task_sound[OF took(1)] no[OF assms(3)] assms(2) by (auto simp: starving_def)
    then have s': "starving a t s'" using took(2) by (auto simp: starving_frame)
    have "f \<noteq> a" if "tk_fiber ft = Some f" for f
      using take_task_sound[OF took(1)] no that by blast
    with took(4) run_fiber_starving[OF assms(1) _ s'] run_cb_starving[OF assms(1) s'] s'
    show ?thesis by (auto simp: starving_frame)
  qed
qed

text \<open>The constructor of \<open>Fiber\<close> leaves the new coroutine in state \<open>RUNING\<close>, which the scan
  of the queue skips: a coroutine that is scheduled as it was made stays in the queue, never
  run, for any number of rounds and whatever the other coroutines do.\<close>

lemma new_fiber_starves:
  assumes "s' = schedule \<lparr>tk_fiber = Some a, tk_cb = None, tk_thread = - 1\<rparr> (Fiber_task a stk cb stacksize s)"
    and "a \<noteq> idle_fiber s" "cb_fiber s \<noteq> Some a" "a < next_addr s" "leaves_alone a exec"
    and "run_rounds me exec n s' = Inr t"
  shows "\<lparr>tk_fiber = Some a, tk_cb = None, tk_thread = - 1\<rparr> \<in> set (m_fibers t) \<and> getState a t = RUNING"
proof -
  let ?t = "\<lparr>tk_fiber = Some a, tk_cb = None, tk_thread = - 1\<rparr>"
  have "starving a ?t s'"
    using assms(1-4) by (simp add: starving_def schedule_queue valid_task_def)
  then have "starving a ?t t"
    using assms(6)
  proof (induction n arbitrary: s')
    case (Suc n)
    then obtain go u where u: "run_step me exec s' = Inr (go, u)"
      "(if go then run_rounds me exec n u else Inr u) = Inr t" by auto
    have "starving a ?t u" by (rule run_step_starving[OF assms(5) Suc.prems(1) _ u(1)]) simp
    with Suc.IH[of u] u(2) show ?case by (auto split: if_splits)
  qed simp
  then show ?thesis by (simp add: starving_def)
qed

lemma new_fiber_starves_witness:
  "\<exists>t. run_rounds 5 run_to_end 1 (schedule \<lparr>tk_fiber = Some 7, tk_cb = None, tk_thread = - 1\<rparr>
       (Fiber_task 7 0 (Some (Callback 3)) 1024 (demo_sched []))) = Inr t \<and> getState 7 t = RUNING \<and> m_fibers t \<noteq> []"
proof -
  let ?s = "schedule \<lparr>tk_fiber = Some 7, tk_cb = None, tk_thread = - 1\<rparr> (Fiber_task 7 0 (Some (Callback 3)) 1024 (demo_sched []))"
  have "getState 7 ?s = RUNING" "m_fibers ?s = [\<lparr>tk_fiber = Some 7, tk_cb = None, tk_thread = - 1\<rparr>]"
    "idle_fiber ?s = 1" "getState 1 ?s = HOLD"
    by (simp_all add: schedule_queue valid_task_def demo_sched_def getState_def Fiber_task_def fiber_setThis_def setState_def Let_def)
  moreover have "t_thread_fiber ?s = Some 0" "t_scheduler_fiber ?s = Some 0" "f_prepared (f_heap ?s 1)"
    by (simp_all add: schedule_def scheduleNoLock_def tickle_def demo_sched_def Let_def)
  ultimately have "\<exists>t. run_rounds 5 run_to_end 1 ?s = Inr t"
    by (simp add: run_step_def run_idle_def swapIn_def Let_def)
  then obtain t where t: "run_rounds 5 run_to_end 1 ?s = Inr t" by blast
  have "leaves_alone 7 run_to_end" by (simp add: leaves_alone_def run_to_end_def)
  from new_fiber_starves[OF refl _ _ _ this t] t show ?thesis by (auto simp: demo_sched_def)
qed

end
