(* ===== verification/OrderedSet.thy ===== *)
theory OrderedSet
  imports Prelude
begin

text \<open>
  \<^verbatim>\<open>std::set\<close> and \<^verbatim>\<open>std::map\<close> with a user-supplied comparator, as the sequence of their
  elements in iteration order; an iterator is an index, \<open>end()\<close> the length. Search goes
  through the comparator only, as the library does. The laws hold for a comparator that is
  a strict weak order, the requirement of the C++ standard, stated as a locale.
\<close>

subsection \<open>Operations\<close>

definition lower_bound :: "('k \<Rightarrow> 'k \<Rightarrow> bool) \<Rightarrow> ('e \<Rightarrow> 'k) \<Rightarrow> 'k \<Rightarrow> 'e list \<Rightarrow> nat" where
  "lower_bound lt key k xs = length (takeWhile (\<lambda>e. lt (key e) k) xs)"

definition os_find :: "('k \<Rightarrow> 'k \<Rightarrow> bool) \<Rightarrow> ('e \<Rightarrow> 'k) \<Rightarrow> 'k \<Rightarrow> 'e list \<Rightarrow> nat option" where
  "os_find lt key k xs = (let i = lower_bound lt key k xs in
     if i < length xs \<and> \<not> lt k (key (xs ! i)) then Some i else None)"

text \<open>\<open>insert\<close> returns the iterator to the element with the key and whether it was inserted.\<close>

definition os_insert ::
  "('k \<Rightarrow> 'k \<Rightarrow> bool) \<Rightarrow> ('e \<Rightarrow> 'k) \<Rightarrow> 'e \<Rightarrow> 'e list \<Rightarrow> 'e list \<times> nat \<times> bool"
where
  "os_insert lt key x xs = (let i = lower_bound lt key (key x) xs in
     if i < length xs \<and> \<not> lt (key x) (key (xs ! i)) then (xs, i, False)
     else (take i xs @ x # drop i xs, i, True))"

text \<open>\<open>erase(it)\<close>: erasing \<open>end()\<close> is undefined.\<close>

definition os_erase :: "nat option \<Rightarrow> 'e list \<Rightarrow> fault + 'e list" where
  "os_erase it xs = (case it of None \<Rightarrow> Inl Bad_iterator
     | Some i \<Rightarrow> if i < length xs then Inr (take i xs @ drop (Suc i) xs) else Inl Bad_iterator)"

definition os_sorted :: "('k \<Rightarrow> 'k \<Rightarrow> bool) \<Rightarrow> ('e \<Rightarrow> 'k) \<Rightarrow> 'e list \<Rightarrow> bool" where
  "os_sorted lt key xs = sorted_wrt (\<lambda>x y. lt (key x) (key y)) xs"

text \<open>A map stores pairs; \<open>m[k] = v\<close> keeps the key already there.\<close>

definition om_find :: "('k \<Rightarrow> 'k \<Rightarrow> bool) \<Rightarrow> 'k \<Rightarrow> ('k \<times> 'v) list \<Rightarrow> 'v option" where
  "om_find lt k xs = map_option (\<lambda>i. snd (xs ! i)) (os_find lt fst k xs)"

definition om_set :: "('k \<Rightarrow> 'k \<Rightarrow> bool) \<Rightarrow> 'k \<Rightarrow> 'v \<Rightarrow> ('k \<times> 'v) list \<Rightarrow> ('k \<times> 'v) list" where
  "om_set lt k v xs = (case os_find lt fst k xs of
     Some i \<Rightarrow> xs[i := (fst (xs ! i), v)]
   | None \<Rightarrow> fst (os_insert lt fst (k, v) xs))"

definition om_erase :: "('k \<Rightarrow> 'k \<Rightarrow> bool) \<Rightarrow> 'k \<Rightarrow> ('k \<times> 'v) list \<Rightarrow> ('k \<times> 'v) list" where
  "om_erase lt k xs = (case os_find lt fst k xs of
     Some i \<Rightarrow> take i xs @ drop (Suc i) xs
   | None \<Rightarrow> xs)"

subsection \<open>Laws\<close>

text \<open>A downward-closed predicate holds on a prefix of a sorted sequence.\<close>

lemma sorted_prefix:
  assumes "sorted_wrt R xs" "\<And>x y. R x y \<Longrightarrow> P y \<Longrightarrow> P x"
  shows "takeWhile P xs = filter P xs \<and> dropWhile P xs = filter (\<lambda>x. \<not> P x) xs"
  using assms(1)
proof (induction xs)
  case (Cons x xs)
  show ?case
  proof (cases "P x")
    case False
    then have "\<forall>y \<in> set xs. \<not> P y" using Cons.prems assms(2) by auto
    with False show ?thesis by (auto simp: filter_empty_conv filter_id_conv)
  qed (use Cons in auto)
qed simp

lemma sorted_wrt_take_drop:
  assumes "sorted_wrt P xs"
  shows "sorted_wrt P (take i xs @ drop (Suc i) xs)"
proof (cases "i < length xs")
  case True
  then have "xs = take i xs @ xs ! i # drop (Suc i) xs" by (simp add: id_take_nth_drop)
  with assms have "sorted_wrt P (take i xs @ xs ! i # drop (Suc i) xs)" by simp
  then show ?thesis by (auto simp: sorted_wrt_append)
qed (use assms in simp)

lemma set_take_drop:
  "distinct xs \<Longrightarrow> i < length xs \<Longrightarrow> set (take i xs @ drop (Suc i) xs) = set xs - {xs ! i}"
proof -
  assume d: "distinct xs" "i < length xs"
  have e: "xs = take i xs @ xs ! i # drop (Suc i) xs" using d(2) by (simp add: id_take_nth_drop)
  have "distinct (take i xs @ xs ! i # drop (Suc i) xs)" using d(1) e by simp
  then have "xs ! i \<notin> set (take i xs @ drop (Suc i) xs)" by auto
  moreover have "set xs = insert (xs ! i) (set (take i xs @ drop (Suc i) xs))"
    by (subst e) auto
  ultimately show ?thesis by auto
qed

locale strict_weak =
  fixes lt :: "'k \<Rightarrow> 'k \<Rightarrow> bool"
  assumes asym: "lt a b \<Longrightarrow> \<not> lt b a"
    and cotrans: "lt a b \<Longrightarrow> lt a c \<or> lt c b"
begin

lemma irrefl: "\<not> lt a a"
  using asym[of a a] by blast

lemma trans: "lt a b \<Longrightarrow> lt b c \<Longrightarrow> lt a c"
  using asym cotrans by blast

text \<open>Elements of a sorted container with equivalent keys are the same.\<close>

lemma sorted_inj:
  assumes "os_sorted lt key xs" "x \<in> set xs" "y \<in> set xs" "\<not> lt (key x) (key y)" "\<not> lt (key y) (key x)"
  shows "x = y"
proof -
  obtain i j where ij: "i < length xs" "x = xs ! i" "j < length xs" "y = xs ! j"
    using assms(2,3) by (metis in_set_conv_nth)
  have "i = j"
  proof (rule ccontr)
    assume "i \<noteq> j"
    then consider "i < j" | "j < i" by linarith
    then show False
      using assms(1,4,5) ij by cases (auto simp: os_sorted_def sorted_wrt_iff_nth_less)
  qed
  with ij show ?thesis by simp
qed

lemma sorted_distinct: "os_sorted lt key xs \<Longrightarrow> distinct xs"
  by (induction xs) (auto simp: os_sorted_def irrefl)

text \<open>In a sorted container the scan of \<open>lower_bound\<close> passes exactly the smaller elements.\<close>

lemma take_lower_bound:
  assumes "os_sorted lt key xs"
  shows "take (lower_bound lt key k xs) xs = filter (\<lambda>e. lt (key e) k) xs"
    and "drop (lower_bound lt key k xs) xs = filter (\<lambda>e. \<not> lt (key e) k) xs"
proof -
  have "takeWhile (\<lambda>e. lt (key e) k) xs = filter (\<lambda>e. lt (key e) k) xs
      \<and> dropWhile (\<lambda>e. lt (key e) k) xs = filter (\<lambda>e. \<not> lt (key e) k) xs"
    using assms trans unfolding os_sorted_def by (rule sorted_prefix)
  then show "take (lower_bound lt key k xs) xs = filter (\<lambda>e. lt (key e) k) xs"
    and "drop (lower_bound lt key k xs) xs = filter (\<lambda>e. \<not> lt (key e) k) xs"
    unfolding lower_bound_def takeWhile_eq_take[symmetric] dropWhile_eq_drop[symmetric] by simp_all
qed

lemma lower_bound_le: "lower_bound lt key k xs \<le> length xs"
  by (simp add: lower_bound_def length_takeWhile_le)

lemma not_lt_lower_bound:
  "lower_bound lt key k xs < length xs \<Longrightarrow> \<not> lt (key (xs ! lower_bound lt key k xs)) k"
  unfolding lower_bound_def by (rule nth_length_takeWhile)

lemma find_sound:
  assumes "os_sorted lt key xs" "os_find lt key k xs = Some i"
  shows "i < length xs" "\<not> lt (key (xs ! i)) k" "\<not> lt k (key (xs ! i))"
proof -
  have i: "i = lower_bound lt key k xs" "i < length xs" "\<not> lt k (key (xs ! i))"
    using assms(2) by (auto simp: os_find_def Let_def split: if_splits)
  then have "\<not> lt (key (xs ! i)) k" using not_lt_lower_bound by blast
  with i show "i < length xs" "\<not> lt (key (xs ! i)) k" "\<not> lt k (key (xs ! i))" by simp_all
qed

lemma find_complete:
  assumes "os_sorted lt key xs" "x \<in> set xs" "\<not> lt (key x) k" "\<not> lt k (key x)"
  shows "\<exists>i. os_find lt key k xs = Some i \<and> i < length xs \<and> xs ! i = x"
proof -
  let ?i = "lower_bound lt key k xs"
  have "x \<in> set (drop ?i xs)" using assms(2,3) by (simp add: take_lower_bound(2)[OF assms(1)])
  then have i: "?i < length xs" by (cases "length xs \<le> ?i") simp_all
  have y: "\<not> lt (key (xs ! ?i)) k" by (rule not_lt_lower_bound[OF i])
  have "\<not> lt k (key (xs ! ?i))"
  proof
    assume "lt k (key (xs ! ?i))"
    with cotrans[of k "key (xs ! ?i)" "key x"] assms(4) have "lt (key x) (key (xs ! ?i))" by blast
    obtain j where j: "j < length (drop ?i xs)" "drop ?i xs ! j = x"
      using \<open>x \<in> set (drop ?i xs)\<close> by (metis in_set_conv_nth)
    then have "xs ! (?i + j) = x" using i by simp
    moreover have "j = 0 \<or> lt (key (xs ! ?i)) (key (xs ! (?i + j)))"
      using assms(1) j(1) by (cases j) (auto simp: os_sorted_def sorted_wrt_iff_nth_less)
    ultimately show False using \<open>lt (key x) (key (xs ! ?i))\<close> asym irrefl by auto
  qed
  moreover from this have "os_find lt key k xs = Some ?i" using i by (simp add: os_find_def Let_def)
  moreover have "\<not> lt (key (xs ! ?i)) (key x)"
    using cotrans[of "key (xs ! ?i)" "key x" k] y assms(4) by blast
  moreover have "\<not> lt (key x) (key (xs ! ?i))"
    using cotrans[of "key x" "key (xs ! ?i)" k] assms(3) \<open>\<not> lt k (key (xs ! ?i))\<close> by blast
  ultimately have "os_find lt key k xs = Some ?i" "xs ! ?i = x"
    using sorted_inj[OF assms(1) nth_mem[OF i] assms(2)] by simp_all
  then show ?thesis using i by blast
qed

lemma find_None_iff:
  "os_sorted lt key xs \<Longrightarrow>
   os_find lt key k xs = None \<longleftrightarrow> (\<forall>x \<in> set xs. lt (key x) k \<or> lt k (key x))"
  using find_complete[of key xs _ k] find_sound[of key xs k]
  by (metis not_None_eq nth_mem option.simps(3))

lemma insert_split:
  assumes "os_sorted lt key xs" "os_find lt key (key x) xs = None"
  shows "os_insert lt key x xs = (filter (\<lambda>e. lt (key e) (key x)) xs @ x # filter (\<lambda>e. \<not> lt (key e) (key x)) xs,
     lower_bound lt key (key x) xs, True)"
  using assms by (auto simp: os_insert_def os_find_def Let_def take_lower_bound split: if_splits)

lemma insert_sorted:
  assumes "os_sorted lt key xs"
  shows "os_sorted lt key (fst (os_insert lt key x xs))"
proof (cases "os_find lt key (key x) xs")
  case None
  have "lt (key x) (key e)" if "e \<in> set xs" "\<not> lt (key e) (key x)" for e
    using None that find_None_iff[OF assms] by blast
  then show ?thesis
    using assms trans
    by (auto simp: insert_split[OF assms None] os_sorted_def sorted_wrt_append sorted_wrt_filter)
next
  case (Some i)
  then show ?thesis using assms by (auto simp: os_insert_def os_find_def Let_def split: if_splits)
qed

lemma insert_set:
  assumes "os_sorted lt key xs" "os_find lt key (key x) xs = None"
  shows "set (fst (os_insert lt key x xs)) = insert x (set xs)"
  by (auto simp: insert_split[OF assms])

lemma insert_found:
  "os_find lt key (key x) xs = Some i \<Longrightarrow> os_insert lt key x xs = (xs, i, False)"
  by (auto simp: os_insert_def os_find_def Let_def split: if_splits)

lemma erase_found:
  assumes "os_sorted lt key xs" "os_find lt key k xs = Some i"
  shows "\<exists>ys. os_erase (Some i) xs = Inr ys \<and> os_sorted lt key ys \<and> set ys = set xs - {xs ! i}"
  using find_sound(1)[OF assms] assms(1) set_take_drop[OF sorted_distinct[OF assms(1)]]
  by (simp add: os_erase_def os_sorted_def sorted_wrt_take_drop)

end

end
