(* ===== verification/Timer.thy ===== *)
theory Timer
  imports OrderedSet
begin

text \<open>
  Timers (\<^verbatim>\<open>include/timer.h\<close>, \<^verbatim>\<open>src/timer.cc\<close>). A \<open>Timer::ptr\<close> is the address of a timer
  object in \<open>t_heap\<close>; the set \<open>m_timers\<close> is ordered by due time, then by address. Times are
  \<open>uint64_t\<close> milliseconds as \<open>nat\<close> with the wrap written out; the current time
  (\<open>GetCurrentMS\<close>) and the address of a new object are arguments. An empty
  \<open>std::function\<close> is \<open>None\<close>.
\<close>

subsection \<open>State\<close>

record timer =
  t_recurring :: bool
  t_ms :: nat
  t_next :: nat
  t_cb :: "callback option"

record timer_manager =
  t_heap :: "nat \<Rightarrow> timer"
  m_timers :: "nat list"
  m_tickled :: bool
  m_previousTime :: nat

definition new_timer :: "nat \<Rightarrow> nat \<Rightarrow> callback option \<Rightarrow> bool \<Rightarrow> timer" where
  "new_timer now ms cb recurring =
     \<lparr>t_recurring = recurring, t_ms = ms, t_next = uadd64 now ms, t_cb = cb\<rparr>"

definition time_timer :: "nat \<Rightarrow> timer" where
  "time_timer next = \<lparr>t_recurring = False, t_ms = 0, t_next = next, t_cb = None\<rparr>"

text \<open>\<open>Timer::Comparator\<close>; a null pointer is \<open>None\<close>.\<close>

definition Comparator :: "(nat \<Rightarrow> timer) \<Rightarrow> nat option \<Rightarrow> nat option \<Rightarrow> bool" where
  "Comparator h lhs rhs = (case (lhs, rhs) of
     (None, None) \<Rightarrow> False
   | (None, Some _) \<Rightarrow> True
   | (Some _, None) \<Rightarrow> False
   | (Some l, Some r) \<Rightarrow>
       if t_next (h l) < t_next (h r) then True
       else if t_next (h r) < t_next (h l) then False
       else l < r)"

lemma Comparator_simps:
  "Comparator h lhs None = False" "Comparator h None (Some r) = True"
  "Comparator h (Some l) (Some r) \<longleftrightarrow> t_next (h l) < t_next (h r) \<or> (t_next (h l) = t_next (h r) \<and> l < r)"
  by (auto simp: Comparator_def split: option.split)

interpretation tless: strict_weak "Comparator h" for h
proof (unfold_locales, goal_cases)
  case (1 a b)
  then show ?case by (cases a; cases b) (auto simp: Comparator_simps)
next
  case (2 a b c)
  then show ?case by (cases a; cases b; cases c) (auto simp: Comparator_simps)
qed

definition TimerManager :: "nat \<Rightarrow> timer_manager" where
  "TimerManager now = \<lparr>t_heap = (\<lambda>_. time_timer 0), m_timers = [], m_tickled = False, m_previousTime = now\<rparr>"

abbreviation find_timer :: "timer_manager \<Rightarrow> nat \<Rightarrow> nat option" where
  "find_timer s a \<equiv> os_find (Comparator (t_heap s)) Some (Some a) (m_timers s)"

abbreviation set_timer :: "nat \<Rightarrow> timer \<Rightarrow> timer_manager \<Rightarrow> timer_manager" where
  "set_timer a t s \<equiv> s\<lparr>t_heap := (t_heap s)(a := t)\<rparr>"

subsection \<open>Operations on a timer\<close>

definition timer_cancel :: "nat \<Rightarrow> timer_manager \<Rightarrow> fault + bool \<times> timer_manager" where
  "timer_cancel a s =
     (if t_cb (t_heap s a) \<noteq> None then
        let s = set_timer a ((t_heap s a)\<lparr>t_cb := None\<rparr>) s in
        bindE (os_erase (find_timer s a) (m_timers s)) (\<lambda>ts. Inr (True, s\<lparr>m_timers := ts\<rparr>))
      else Inr (False, s))"

definition timer_refresh :: "nat \<Rightarrow> nat \<Rightarrow> timer_manager \<Rightarrow> fault + bool \<times> timer_manager" where
  "timer_refresh now a s =
     (if t_cb (t_heap s a) = None then Inr (False, s)
      else case find_timer s a of None \<Rightarrow> Inr (False, s)
      | Some i \<Rightarrow> bindE (os_erase (Some i) (m_timers s)) (\<lambda>ts.
          let s = s\<lparr>m_timers := ts\<rparr>;
              s = set_timer a ((t_heap s a)\<lparr>t_next := uadd64 now (t_ms (t_heap s a))\<rparr>) s
          in Inr (True, s\<lparr>m_timers := fst (os_insert (Comparator (t_heap s)) Some a (m_timers s))\<rparr>)))"

text \<open>
  The protected overload of \<open>addTimer\<close>. The flag tells whether it calls
  \<open>onTimerInsertAtFront\<close> after releasing the lock.
\<close>

definition addTimer_locked :: "nat \<Rightarrow> timer_manager \<Rightarrow> bool \<times> timer_manager" where
  "addTimer_locked a s =
     (let (ts, it, _) = os_insert (Comparator (t_heap s)) Some a (m_timers s);
          at_front = (it = 0 \<and> \<not> m_tickled s)
      in (at_front, s\<lparr>m_timers := ts, m_tickled := (if at_front then True else m_tickled s)\<rparr>))"

definition timer_reset ::
  "nat \<Rightarrow> nat \<Rightarrow> bool \<Rightarrow> nat \<Rightarrow> timer_manager \<Rightarrow> fault + bool \<times> bool \<times> timer_manager"
where
  "timer_reset now ms from_now a s =
     (if ms = t_ms (t_heap s a) \<and> \<not> from_now then Inr (True, False, s)
      else if t_cb (t_heap s a) = None then Inr (False, False, s)
      else case find_timer s a of None \<Rightarrow> Inr (False, False, s)
      | Some i \<Rightarrow> bindE (os_erase (Some i) (m_timers s)) (\<lambda>ts.
          let s = s\<lparr>m_timers := ts\<rparr>;
              start = (if from_now then now else usub64 (t_next (t_heap s a)) (t_ms (t_heap s a)));
              s = set_timer a ((t_heap s a)\<lparr>t_ms := ms, t_next := uadd64 start ms\<rparr>) s;
              (front, s) = addTimer_locked a s
          in Inr (True, front, s)))"

subsection \<open>Operations of the manager\<close>

text \<open>\<open>a\<close> is the address of the new object; the result is this pointer and the flag.\<close>

definition addTimer ::
  "nat \<Rightarrow> nat \<Rightarrow> nat \<Rightarrow> callback option \<Rightarrow> bool \<Rightarrow> timer_manager \<Rightarrow> bool \<times> timer_manager"
where
  "addTimer a now ms cb recurring s = addTimer_locked a (set_timer a (new_timer now ms cb recurring) s)"

definition addConditionTimer ::
  "nat \<Rightarrow> nat \<Rightarrow> nat \<Rightarrow> nat \<Rightarrow> nat \<Rightarrow> bool \<Rightarrow> timer_manager \<Rightarrow> bool \<times> timer_manager"
where
  "addConditionTimer a now ms cb weak_cond recurring s =
     addTimer a now ms (Some (On_timer weak_cond cb)) recurring s"

text \<open>What running a callback calls, given which weak pointers are still alive.\<close>

fun onTimer :: "(nat \<Rightarrow> bool) \<Rightarrow> callback \<Rightarrow> nat list" where
  "onTimer alive (Callback c) = [c]"
| "onTimer alive (On_timer w c) = (if alive w then [c] else [])"

definition getNextTimer :: "nat \<Rightarrow> timer_manager \<Rightarrow> nat \<times> timer_manager" where
  "getNextTimer now s =
     (let s = s\<lparr>m_tickled := False\<rparr> in
      if m_timers s = [] then (u64max, s)
      else let next = t_next (t_heap s (hd (m_timers s))) in
        if now = next then (0, s) else (usub64 next now, s))"

definition detectColckRollover :: "nat \<Rightarrow> timer_manager \<Rightarrow> bool \<times> timer_manager" where
  "detectColckRollover now_ms s =
     (now_ms < m_previousTime s \<and> now_ms < usub64 (m_previousTime s) (60 * 60 * 1000),
      s\<lparr>m_previousTime := now_ms\<rparr>)"

text \<open>The loop over \<open>expired\<close>.\<close>

fun expire_loop ::
  "nat \<Rightarrow> nat list \<Rightarrow> callback option list \<Rightarrow> timer_manager \<Rightarrow> callback option list \<times> timer_manager"
where
  "expire_loop now [] cbs s = (cbs, s)"
| "expire_loop now (a # as) cbs s =
     (let t = t_heap s a; cbs = cbs @ [t_cb t] in
      if t_recurring t then
        let s = set_timer a (t\<lparr>t_next := uadd64 now (t_ms t)\<rparr>) s
        in expire_loop now as cbs
             (s\<lparr>m_timers := fst (os_insert (Comparator (t_heap s)) Some a (m_timers s))\<rparr>)
      else expire_loop now as cbs (set_timer a (t\<lparr>t_cb := None\<rparr>) s))"

text \<open>\<open>tmp\<close> is the address of the temporary \<open>now_timer\<close>.\<close>

definition listExpiredCb :: "nat \<Rightarrow> nat \<Rightarrow> timer_manager \<Rightarrow> callback option list \<times> timer_manager" where
  "listExpiredCb now tmp s =
     (if m_timers s = [] then ([], s)
      else let (rollover, s) = detectColckRollover now s in
        if \<not> rollover \<and> now < t_next (t_heap s (hd (m_timers s))) then ([], s)
        else
          let it = (if rollover then length (m_timers s)
                    else lower_bound (Comparator ((t_heap s)(tmp := time_timer now))) Some (Some tmp) (m_timers s));
              it = it + length (takeWhile (\<lambda>a. t_next (t_heap s a) = now) (drop it (m_timers s)));
              expired = take it (m_timers s)
          in expire_loop now expired [] (s\<lparr>m_timers := drop it (m_timers s)\<rparr>))"

definition hasTimer :: "timer_manager \<Rightarrow> bool" where
  "hasTimer s = (m_timers s \<noteq> [])"

subsection \<open>Invariant\<close>

text \<open>The set is ordered, and a timer that still has its callback is in it.\<close>

definition tm_inv :: "timer_manager \<Rightarrow> bool" where
  "tm_inv s \<longleftrightarrow> os_sorted (Comparator (t_heap s)) Some (m_timers s)
     \<and> (\<forall>a. t_cb (t_heap s a) \<noteq> None \<longrightarrow> a \<in> set (m_timers s))
     \<and> (\<forall>a \<in> set (m_timers s). t_next (t_heap s a) < 2 ^ 64)"

lemma Comparator_total: "\<not> Comparator h (Some a) (Some b) \<Longrightarrow> \<not> Comparator h (Some b) (Some a) \<Longrightarrow> a = b"
  by (auto simp: Comparator_def split: if_splits)

lemma sorted_heap_cong:
  "(\<And>a. a \<in> set ts \<Longrightarrow> t_next (h' a) = t_next (h a)) \<Longrightarrow>
   os_sorted (Comparator h') Some ts = os_sorted (Comparator h) Some ts"
  by (auto simp: os_sorted_def sorted_wrt_iff_nth_less Comparator_simps)

lemma find_timer_iff:
  assumes "os_sorted (Comparator h) Some ts"
  shows "os_find (Comparator h) Some (Some a) ts = None \<longleftrightarrow> a \<notin> set ts"
  using tless.find_None_iff[OF assms, of "Some a"] Comparator_total[of h a] tless.irrefl by auto

lemma find_timer_Some:
  assumes "os_sorted (Comparator h) Some ts" "os_find (Comparator h) Some (Some a) ts = Some i"
  shows "i < length ts \<and> ts ! i = a"
  using tless.find_sound[OF assms] Comparator_total by simp

text \<open>Taking a timer out of the set, and putting it back with another due time.\<close>

lemma erase_timer:
  assumes "os_sorted (Comparator h) Some ts" "a \<in> set ts"
  shows "\<exists>i us. os_find (Comparator h) Some (Some a) ts = Some i \<and> os_erase (Some i) ts = Inr us
     \<and> os_sorted (Comparator h) Some us \<and> set us = set ts - {a}"
proof -
  obtain i where i: "os_find (Comparator h) Some (Some a) ts = Some i"
    using find_timer_iff[OF assms(1)] assms(2) by blast
  with tless.erase_found[OF assms(1) i] find_timer_Some[OF assms(1) i] show ?thesis by auto
qed

lemma insert_timer:
  assumes "os_sorted (Comparator h) Some ts" "a \<notin> set ts"
  shows "os_sorted (Comparator (h(a := t))) Some (fst (os_insert (Comparator (h(a := t))) Some a ts))
     \<and> set (fst (os_insert (Comparator (h(a := t))) Some a ts)) = insert a (set ts)"
proof -
  have s: "os_sorted (Comparator (h(a := t))) Some ts"
    using assms sorted_heap_cong[of ts "h(a := t)" h] by (metis fun_upd_other)
  with tless.insert_sorted[OF s] tless.insert_set[OF s] find_timer_iff[OF s] assms(2) show ?thesis by simp
qed

lemma addTimer_locked_timers:
  "m_timers (snd (addTimer_locked a s)) = fst (os_insert (Comparator (t_heap s)) Some a (m_timers s))"
  "t_heap (snd (addTimer_locked a s)) = t_heap s"
  "m_previousTime (snd (addTimer_locked a s)) = m_previousTime s"
  by (simp_all add: addTimer_locked_def Let_def split: prod.split)

lemma tm_inv_put:
  assumes "os_sorted (Comparator h) Some ts" "a \<notin> set ts" "t_next t < 2 ^ 64"
    and "\<forall>b. b \<noteq> a \<and> t_cb (h b) \<noteq> None \<longrightarrow> b \<in> set ts" "\<forall>b \<in> set ts. t_next (h b) < 2 ^ 64"
    and "t_heap u = h(a := t)" "m_timers u = fst (os_insert (Comparator (h(a := t))) Some a ts)"
  shows "tm_inv u \<and> set (m_timers u) = insert a (set ts)"
  using insert_timer[OF assms(1,2), of t] assms(3-) by (auto simp: tm_inv_def)

lemma tm_invD:
  assumes "tm_inv s"
  shows "os_sorted (Comparator (t_heap s)) Some (m_timers s)"
    "t_cb (t_heap s a) \<noteq> None \<Longrightarrow> a \<in> set (m_timers s)"
    "a \<in> set (m_timers s) \<Longrightarrow> t_next (t_heap s a) < 2 ^ 64"
  using assms by (auto simp: tm_inv_def)

lemma tm_inv_new: "tm_inv (TimerManager now)"
  by (simp add: tm_inv_def TimerManager_def time_timer_def os_sorted_def)

lemma addTimer_ok:
  assumes "tm_inv s" "a \<notin> set (m_timers s)"
  shows "tm_inv (snd (addTimer a now ms cb recurring s))
     \<and> set (m_timers (snd (addTimer a now ms cb recurring s))) = insert a (set (m_timers s))"
  using tm_invD[OF assms(1)] assms(2)
  by (intro tm_inv_put[where h = "t_heap s" and t = "new_timer now ms cb recurring"])
     (auto simp: addTimer_def addTimer_locked_timers new_timer_def)

lemma timer_cancel_ok:
  assumes "tm_inv s"
  shows "\<exists>t. timer_cancel a s = Inr (t_cb (t_heap s a) \<noteq> None, t) \<and> tm_inv t
     \<and> set (m_timers t) = (if t_cb (t_heap s a) \<noteq> None then set (m_timers s) - {a} else set (m_timers s))
     \<and> t_heap t = (t_heap s)(a := (t_heap s a)\<lparr>t_cb := None\<rparr>)"
proof (cases "t_cb (t_heap s a) \<noteq> None")
  case True
  let ?h = "(t_heap s)(a := (t_heap s a)\<lparr>t_cb := None\<rparr>)"
  have "os_sorted (Comparator ?h) Some (m_timers s)"
    using tm_invD(1)[OF assms] sorted_heap_cong[of "m_timers s" ?h "t_heap s"] by simp
  from erase_timer[OF this tm_invD(2)[OF assms True]] obtain i us where
    us: "os_find (Comparator ?h) Some (Some a) (m_timers s) = Some i" "os_erase (Some i) (m_timers s) = Inr us"
    "os_sorted (Comparator ?h) Some us" "set us = set (m_timers s) - {a}" by blast
  then have "timer_cancel a s = Inr (True, s\<lparr>t_heap := ?h, m_timers := us\<rparr>)"
    using True by (simp add: timer_cancel_def Let_def)
  with True us tm_invD[OF assms] show ?thesis by (auto simp: tm_inv_def)
next
  case False
  then have "(t_heap s)(a := (t_heap s a)\<lparr>t_cb := None\<rparr>) = t_heap s" by auto
  with False show ?thesis using assms by (simp add: timer_cancel_def)
qed

lemma timer_refresh_ok:
  assumes "tm_inv s"
  shows "\<exists>t. timer_refresh now a s = Inr (t_cb (t_heap s a) \<noteq> None, t) \<and> tm_inv t
     \<and> set (m_timers t) = set (m_timers s)"
proof (cases "t_cb (t_heap s a) = None")
  case False
  then have a: "a \<in> set (m_timers s)" by (rule tm_invD(2)[OF assms])
  obtain i us where us: "find_timer s a = Some i" "os_erase (Some i) (m_timers s) = Inr us"
    "os_sorted (Comparator (t_heap s)) Some us" "set us = set (m_timers s) - {a}"
    using erase_timer[OF tm_invD(1)[OF assms] a] by blast
  let ?t = "(t_heap s a)\<lparr>t_next := uadd64 now (t_ms (t_heap s a))\<rparr>"
  let ?u = "s\<lparr>t_heap := (t_heap s)(a := ?t), m_timers := fst (os_insert (Comparator ((t_heap s)(a := ?t))) Some a us)\<rparr>"
  have "timer_refresh now a s = Inr (True, ?u)"
    using False us(1,2) by (simp add: timer_refresh_def Let_def)
  moreover have "tm_inv ?u \<and> set (m_timers ?u) = insert a (set us)"
    by (rule tm_inv_put[OF us(3)]) (use us(4) tm_invD[OF assms] in auto)
  ultimately show ?thesis using False us(4) a by (auto simp: insert_absorb)
qed (use assms in \<open>simp add: timer_refresh_def\<close>)

lemma timer_reset_ok:
  assumes "tm_inv s"
  shows "\<exists>r front t. timer_reset now ms from_now a s = Inr (r, front, t) \<and> tm_inv t
     \<and> set (m_timers t) = set (m_timers s)"
proof (cases "(ms = t_ms (t_heap s a) \<and> \<not> from_now) \<or> t_cb (t_heap s a) = None")
  case False
  then have a: "a \<in> set (m_timers s)" by (intro tm_invD(2)[OF assms]) simp
  obtain i us where us: "find_timer s a = Some i" "os_erase (Some i) (m_timers s) = Inr us"
    "os_sorted (Comparator (t_heap s)) Some us" "set us = set (m_timers s) - {a}"
    using erase_timer[OF tm_invD(1)[OF assms] a] by blast
  let ?t = "(t_heap s a)\<lparr>t_ms := ms, t_next := uadd64 (if from_now then now
      else usub64 (t_next (t_heap s a)) (t_ms (t_heap s a))) ms\<rparr>"
  let ?v = "s\<lparr>m_timers := us, t_heap := (t_heap s)(a := ?t)\<rparr>"
  let ?u = "snd (addTimer_locked a ?v)"
  have "timer_reset now ms from_now a s = Inr (True, fst (addTimer_locked a ?v), ?u)"
    using False us(1,2) by (auto simp: timer_reset_def Let_def split: prod.split)
  moreover have "tm_inv ?u \<and> set (m_timers ?u) = insert a (set us)"
    by (rule tm_inv_put[OF us(3)]) (use us(4) tm_invD[OF assms] in \<open>auto simp: addTimer_locked_timers\<close>)
  moreover have "insert a (set us) = set (m_timers s)" using us(4) a by auto
  ultimately show ?thesis by metis
qed (use assms in \<open>auto simp: timer_reset_def\<close>)

subsection \<open>Expiry\<close>

lemma expire_loop_ok:
  assumes "os_sorted (Comparator (t_heap s)) Some (m_timers s)" "distinct as" "set as \<inter> set (m_timers s) = {}"
  shows "fst (expire_loop now as cbs s) = cbs @ map (\<lambda>a. t_cb (t_heap s a)) as
     \<and> os_sorted (Comparator (t_heap (snd (expire_loop now as cbs s)))) Some (m_timers (snd (expire_loop now as cbs s)))
     \<and> set (m_timers (snd (expire_loop now as cbs s))) = set (m_timers s) \<union> {a \<in> set as. t_recurring (t_heap s a)}
     \<and> t_heap (snd (expire_loop now as cbs s)) = (\<lambda>a. if a \<in> set as then
          (if t_recurring (t_heap s a) then (t_heap s a)\<lparr>t_next := uadd64 now (t_ms (t_heap s a))\<rparr>
           else (t_heap s a)\<lparr>t_cb := None\<rparr>) else t_heap s a)"
  using assms
proof (induction as arbitrary: cbs s)
  case Nil
  then show ?case by simp
next
  case (Cons a as)
  let ?t = "t_heap s a"
  show ?case
  proof (cases "t_recurring ?t")
    case True
    let ?h = "(t_heap s)(a := ?t\<lparr>t_next := uadd64 now (t_ms ?t)\<rparr>)"
    let ?u = "s\<lparr>t_heap := ?h, m_timers := fst (os_insert (Comparator ?h) Some a (m_timers s))\<rparr>"
    have ins: "os_sorted (Comparator ?h) Some (m_timers ?u)" "set (m_timers ?u) = insert a (set (m_timers s))"
      using insert_timer[OF Cons.prems(1), of a] Cons.prems(3) by auto
    have step: "expire_loop now (a # as) cbs s = expire_loop now as (cbs @ [t_cb ?t]) ?u"
      using True by (simp add: Let_def)
    have pre: "os_sorted (Comparator (t_heap ?u)) Some (m_timers ?u)" "distinct as" "set as \<inter> set (m_timers ?u) = {}"
      using ins Cons.prems(2,3) by auto
    note IH = Cons.IH[OF pre, of "cbs @ [t_cb ?t]"]
    from IH[THEN conjunct1] IH[THEN conjunct2, THEN conjunct1] IH[THEN conjunct2, THEN conjunct2, THEN conjunct1]
      IH[THEN conjunct2, THEN conjunct2, THEN conjunct2] ins(2) True Cons.prems(2)
    show ?thesis unfolding step by (intro conjI ext) auto
  next
    case False
    let ?u = "set_timer a (?t\<lparr>t_cb := None\<rparr>) s"
    have step: "expire_loop now (a # as) cbs s = expire_loop now as (cbs @ [t_cb ?t]) ?u"
      using False by (simp add: Let_def)
    have pre: "os_sorted (Comparator (t_heap ?u)) Some (m_timers ?u)" "distinct as" "set as \<inter> set (m_timers ?u) = {}"
      using Cons.prems sorted_heap_cong[of "m_timers s" "t_heap ?u" "t_heap s"] by auto
    note IH = Cons.IH[OF pre, of "cbs @ [t_cb ?t]"]
    from IH[THEN conjunct1] IH[THEN conjunct2, THEN conjunct1] IH[THEN conjunct2, THEN conjunct2, THEN conjunct1]
      IH[THEN conjunct2, THEN conjunct2, THEN conjunct2] False Cons.prems(2)
    show ?thesis unfolding step by (intro conjI ext) auto
  qed
qed

text \<open>The clock went back by more than an hour since the last look, or the time has come.\<close>

definition due :: "timer_manager \<Rightarrow> nat \<Rightarrow> nat \<Rightarrow> bool" where
  "due s now a \<longleftrightarrow> fst (detectColckRollover now s) \<or> t_next (t_heap s a) \<le> now"

lemma expired_prefix:
  assumes sorted: "os_sorted (Comparator h) Some ts" and tmp: "tmp \<notin> set ts"
    and it: "it = lower_bound (Comparator (h(tmp := time_timer now))) Some (Some tmp) ts"
  defines "n \<equiv> it + length (takeWhile (\<lambda>a. t_next (h a) = now) (drop it ts))"
  shows "take n ts = filter (\<lambda>a. t_next (h a) \<le> now) ts" "drop n ts = filter (\<lambda>a. now < t_next (h a)) ts"
proof -
  let ?h = "h(tmp := time_timer now)"
  let ?P = "\<lambda>a. t_next (h a) \<le> now"
  have s: "os_sorted (Comparator ?h) Some ts"
    using sorted tmp sorted_heap_cong[of ts ?h h] by (metis fun_upd_other)
  have less: "Comparator ?h (Some a) (Some tmp) \<longleftrightarrow> t_next (h a) < now \<or> (t_next (h a) = now \<and> a < tmp)"
    if "a \<in> set ts" for a
    using that tmp by (auto simp: Comparator_simps time_timer_def)
  have pre: "?P a" if "a \<in> set (take it ts)" for a
    using that less unfolding it tless.take_lower_bound(1)[OF s] by auto
  have suf: "now \<le> t_next (h a)" if "a \<in> set (drop it ts)" for a
    using that less unfolding it tless.take_lower_bound(2)[OF s] by auto
  have tw: "takeWhile (\<lambda>a. t_next (h a) = now) (drop it ts) = takeWhile ?P (drop it ts)"
    using suf by (intro takeWhile_cong) force+
  have sp: "takeWhile ?P ts = filter ?P ts \<and> dropWhile ?P ts = filter (\<lambda>x. \<not> ?P x) ts"
    by (rule sorted_prefix[OF sorted[unfolded os_sorted_def]]) (auto simp: Comparator_simps)
  have "takeWhile ?P ts = take it ts @ takeWhile ?P (drop it ts)"
    using takeWhile_append2[of "take it ts" ?P "drop it ts"] pre by simp
  moreover have "length (take it ts) = it"
    unfolding it length_take by (rule min_absorb2) (rule tless.lower_bound_le)
  ultimately have "n = length (takeWhile ?P ts)" by (simp add: n_def tw)
  then have "take n ts = takeWhile ?P ts" "drop n ts = dropWhile ?P ts"
    by (simp_all only: takeWhile_eq_take[symmetric] dropWhile_eq_drop[symmetric])
  with sp show "take n ts = filter ?P ts" "drop n ts = filter (\<lambda>a. now < t_next (h a)) ts"
    by (simp_all add: not_le)
qed

lemma listExpiredCb_split:
  assumes inv: "tm_inv s" and tmp: "tmp \<notin> set (m_timers s)"
  shows "\<exists>u. m_timers u = filter (\<lambda>a. \<not> due s now a) (m_timers s) \<and> t_heap u = t_heap s
     \<and> fst (listExpiredCb now tmp s) = fst (expire_loop now (filter (due s now) (m_timers s)) [] u)
     \<and> m_timers (snd (listExpiredCb now tmp s)) = m_timers (snd (expire_loop now (filter (due s now) (m_timers s)) [] u))
     \<and> t_heap (snd (listExpiredCb now tmp s)) = t_heap (snd (expire_loop now (filter (due s now) (m_timers s)) [] u))"
proof (cases "m_timers s")
  case Nil
  then show ?thesis by (intro exI[of _ s]) (simp add: listExpiredCb_def)
next
  case (Cons a ts)
  note sorted = tm_invD(1)[OF inv]
  let ?s = "s\<lparr>m_previousTime := now\<rparr>"
  obtain r where d: "detectColckRollover now s = (r, ?s)" by (simp add: detectColckRollover_def)
  show ?thesis
  proof (cases "\<not> r \<and> now < t_next (t_heap s a)")
    case True
    have "\<not> due s now b" if "b \<in> set (m_timers s)" for b
    proof -
      have "b = a \<or> Comparator (t_heap s) (Some a) (Some b)"
        using sorted that Cons by (auto simp: os_sorted_def)
      with True show ?thesis by (auto simp: due_def d Comparator_simps)
    qed
    then have "filter (due s now) (m_timers s) = []" "filter (\<lambda>a. \<not> due s now a) (m_timers s) = m_timers s"
      by (simp_all add: filter_empty_conv filter_id_conv)
    with True Cons show ?thesis
      by (intro exI[of _ s]) (simp add: listExpiredCb_def d)
  next
    case False
    have parts: "listExpiredCb now tmp s = expire_loop now (filter (due s now) (m_timers s)) []
        (?s\<lparr>m_timers := filter (\<lambda>a. \<not> due s now a) (m_timers s)\<rparr>)"
    proof (cases r)
      case True
      then have "due s now = (\<lambda>_. True)" by (auto simp: due_def d)
      with True Cons show ?thesis by (simp add: listExpiredCb_def d Let_def)
    next
      case nr: False
      then have "due s now = (\<lambda>a. t_next (t_heap s a) \<le> now)" by (auto simp: due_def d)
      with nr False Cons expired_prefix[OF sorted tmp refl, of now] show ?thesis
        by (simp add: listExpiredCb_def d Let_def not_le)
    qed
    show ?thesis unfolding parts
      by (intro exI[of _ "?s\<lparr>m_timers := filter (\<lambda>a. \<not> due s now a) (m_timers s)\<rparr>"]) simp
  qed
qed

lemma listExpiredCb_ok:
  fixes now :: nat
  assumes inv: "tm_inv s" and tmp: "tmp \<notin> set (m_timers s)"
  defines "t \<equiv> snd (listExpiredCb now tmp s)"
  shows "fst (listExpiredCb now tmp s) = map (\<lambda>a. t_cb (t_heap s a)) (filter (due s now) (m_timers s))"
    "tm_inv t"
    "set (m_timers t) = {a \<in> set (m_timers s). due s now a \<longrightarrow> t_recurring (t_heap s a)}"
    "t_heap t = (\<lambda>a. if a \<in> set (m_timers s) \<and> due s now a then
       (if t_recurring (t_heap s a) then (t_heap s a)\<lparr>t_next := uadd64 now (t_ms (t_heap s a))\<rparr>
        else (t_heap s a)\<lparr>t_cb := None\<rparr>) else t_heap s a)"
proof -
  let ?as = "filter (due s now) (m_timers s)"
  obtain u where u: "m_timers u = filter (\<lambda>a. \<not> due s now a) (m_timers s)" "t_heap u = t_heap s"
    "fst (listExpiredCb now tmp s) = fst (expire_loop now ?as [] u)"
    "m_timers t = m_timers (snd (expire_loop now ?as [] u))"
    "t_heap t = t_heap (snd (expire_loop now ?as [] u))"
    using listExpiredCb_split[OF inv tmp, of now] unfolding t_def by blast
  note sorted = tm_invD(1)[OF inv]
  have pre: "os_sorted (Comparator (t_heap u)) Some (m_timers u)" "distinct ?as" "set ?as \<inter> set (m_timers u) = {}"
    using sorted tless.sorted_distinct[OF sorted] by (auto simp: u(1,2) os_sorted_def sorted_wrt_filter)
  note L = expire_loop_ok[OF pre, of now "[]"]
  show "fst (listExpiredCb now tmp s) = map (\<lambda>a. t_cb (t_heap s a)) ?as"
    using L by (simp add: u(2,3))
  show timers: "set (m_timers t) = {a \<in> set (m_timers s). due s now a \<longrightarrow> t_recurring (t_heap s a)}"
    using L by (auto simp: u)
  show heap: "t_heap t = (\<lambda>a. if a \<in> set (m_timers s) \<and> due s now a then
       (if t_recurring (t_heap s a) then (t_heap s a)\<lparr>t_next := uadd64 now (t_ms (t_heap s a))\<rparr>
        else (t_heap s a)\<lparr>t_cb := None\<rparr>) else t_heap s a)"
    using L by (auto simp: u(2,5) fun_eq_iff)
  have "os_sorted (Comparator (t_heap t)) Some (m_timers t)" using L unfolding u(4,5) by blast
  then show "tm_inv t"
    using tm_invD(2,3)[OF inv] unfolding tm_inv_def timers heap
    by (auto split: if_splits)
qed

subsection \<open>Properties\<close>

text \<open>
  What users of the manager and of its timers do, at any times; the address of a new timer is
  not that of a timer in the set.
\<close>

inductive tm_reachable :: "timer_manager \<Rightarrow> bool" where
  reach_new: "tm_reachable (TimerManager now)"
| reach_add: "tm_reachable s \<Longrightarrow> a \<notin> set (m_timers s) \<Longrightarrow>
    tm_reachable (snd (addTimer a now ms cb recurring s))"
| reach_cancel: "tm_reachable s \<Longrightarrow> timer_cancel a s = Inr (r, t) \<Longrightarrow> tm_reachable t"
| reach_refresh: "tm_reachable s \<Longrightarrow> timer_refresh now a s = Inr (r, t) \<Longrightarrow> tm_reachable t"
| reach_reset: "tm_reachable s \<Longrightarrow> timer_reset now ms from_now a s = Inr (r, front, t) \<Longrightarrow> tm_reachable t"
| reach_next: "tm_reachable s \<Longrightarrow> tm_reachable (snd (getNextTimer now s))"
| reach_expire: "tm_reachable s \<Longrightarrow> tmp \<notin> set (m_timers s) \<Longrightarrow> tm_reachable (snd (listExpiredCb now tmp s))"

lemma tm_reachable_inv: "tm_reachable s \<Longrightarrow> tm_inv s"
proof (induction rule: tm_reachable.induct)
  case (reach_cancel s a r t)
  then show ?case using timer_cancel_ok[of s a] by auto
next
  case (reach_refresh s now a r t)
  then show ?case using timer_refresh_ok[of s now a] by auto
next
  case (reach_reset s now ms from_now a r front t)
  then show ?case using timer_reset_ok[of s now ms from_now a] by auto
next
  case (reach_next s now)
  then show ?case by (auto simp: getNextTimer_def tm_inv_def Let_def)
qed (auto simp: tm_inv_new addTimer_ok listExpiredCb_ok(2))

text \<open>C7: in every reachable state the set is strictly ordered by due time and address, every
  timer that has a callback is in it, and cancel, refresh and reset therefore never erase or
  dereference \<open>end()\<close>.\<close>

theorem timers_safe:
  assumes "tm_reachable s"
  shows "os_sorted (Comparator (t_heap s)) Some (m_timers s)
     \<and> {a. t_cb (t_heap s a) \<noteq> None} \<subseteq> set (m_timers s)
     \<and> (\<exists>t. timer_cancel a s = Inr (t_cb (t_heap s a) \<noteq> None, t))
     \<and> (\<exists>t. timer_refresh now a s = Inr (t_cb (t_heap s a) \<noteq> None, t))
     \<and> (\<exists>r. timer_reset now ms from_now a s = Inr r)"
proof -
  note inv = tm_reachable_inv[OF assms]
  have "\<exists>t. timer_cancel a s = Inr (t_cb (t_heap s a) \<noteq> None, t)" using timer_cancel_ok[OF inv, of a] by blast
  moreover have "\<exists>t. timer_refresh now a s = Inr (t_cb (t_heap s a) \<noteq> None, t)"
    using timer_refresh_ok[OF inv, of now a] by blast
  moreover have "\<exists>r. timer_reset now ms from_now a s = Inr r"
    using timer_reset_ok[OF inv, of now ms from_now a] by blast
  ultimately show ?thesis using tm_invD(1,2)[OF inv] by (intro conjI subsetI) simp_all
qed

text \<open>A manager with one timer, due at 105.\<close>

lemma one_timer:
  obtains s where "tm_reachable s" "m_timers s = [2]" "t_heap s 2 = new_timer 100 5 (Some (Callback 7)) False"
proof
  let ?s = "snd (addTimer 2 100 5 (Some (Callback 7)) False (TimerManager 100))"
  show "tm_reachable ?s" by (rule reach_add[OF reach_new]) (simp add: TimerManager_def)
  show "m_timers ?s = [2]"
    by (simp add: addTimer_def addTimer_locked_timers os_insert_def lower_bound_def TimerManager_def)
  show "t_heap ?s 2 = new_timer 100 5 (Some (Callback 7)) False"
    by (simp add: addTimer_def addTimer_locked_timers)
qed

lemma timers_safe_witness:
  "\<exists>s t. tm_reachable s \<and> timer_cancel 2 s = Inr (True, t)"
proof -
  obtain s where s: "tm_reachable s" "t_heap s 2 = new_timer 100 5 (Some (Callback 7)) False"
    by (rule one_timer)
  with timers_safe[OF s(1), of 2 0 0 False] show ?thesis by (auto simp: new_timer_def)
qed

text \<open>C17: a call of \<open>listExpiredCb\<close> hands out, in the order of the set, the callbacks of
  exactly the timers that are due (all of them after a clock rollover); recurring ones go back
  into the set with their period added to the present, the others leave it and lose their
  callback, and no other timer changes.\<close>

theorem listExpiredCb_exact:
  assumes "tm_reachable s" "tmp \<notin> set (m_timers s)" "listExpiredCb now tmp s = (cbs, t)"
  shows "cbs = map (\<lambda>a. t_cb (t_heap s a)) (filter (due s now) (m_timers s))
     \<and> set (m_timers t) = {a \<in> set (m_timers s). due s now a \<longrightarrow> t_recurring (t_heap s a)}
     \<and> (\<forall>a. t_heap t a = (if a \<notin> set (m_timers s) \<or> \<not> due s now a then t_heap s a
          else if t_recurring (t_heap s a) then (t_heap s a)\<lparr>t_next := uadd64 now (t_ms (t_heap s a))\<rparr>
          else (t_heap s a)\<lparr>t_cb := None\<rparr>))"
  using listExpiredCb_ok[OF tm_reachable_inv[OF assms(1)] assms(2), of now] assms(3) by auto

lemma listExpiredCb_exact_witness:
  "\<exists>s cbs t. tm_reachable s \<and> listExpiredCb 106 9 s = (cbs, t) \<and> cbs = [Some (Callback 7)] \<and> m_timers t = []"
proof -
  obtain s where s: "tm_reachable s" "m_timers s = [2]" "t_heap s 2 = new_timer 100 5 (Some (Callback 7)) False"
    by (rule one_timer)
  have due: "due s 106 2" by (simp add: due_def s(3) new_timer_def uadd64_def)
  obtain cbs t where e: "listExpiredCb 106 9 s = (cbs, t)" by (metis surj_pair)
  have "9 \<notin> set (m_timers s)" by (simp add: s(2))
  note L = listExpiredCb_exact[OF s(1) this e]
  have "cbs = [Some (Callback 7)]" using L due by (simp add: s new_timer_def)
  moreover have "set (m_timers t) = {}" using L due by (auto simp: s new_timer_def)
  ultimately show ?thesis using s(1) e by auto
qed

text \<open>\<open>getNextTimer\<close> is the time left until the first timer when that lies ahead, but for
  a timer that is overdue the unsigned subtraction wraps: the answer is huge, and for a timer
  overdue by one millisecond it is \<open>~0ull\<close>, which means no timer at all.\<close>

lemma getNextTimer_value:
  assumes "tm_reachable s" "m_timers s \<noteq> []" "now < 2 ^ 64"
  shows "(\<forall>a \<in> set (m_timers s). t_next (t_heap s (hd (m_timers s))) \<le> t_next (t_heap s a))
     \<and> fst (getNextTimer now s) =
        (let next = t_next (t_heap s (hd (m_timers s))) in
         if now \<le> next then next - now else 2 ^ 64 - (now - next))
     \<and> (now = t_next (t_heap s (hd (m_timers s))) + 1 \<longrightarrow> fst (getNextTimer now s) = u64max)"
proof -
  note inv = tm_reachable_inv[OF assms(1)]
  obtain a ts where ts: "m_timers s = a # ts" using assms(2) by (cases "m_timers s") auto
  have lt: "t_next (t_heap s a) < 2 ^ 64" using tm_invD(3)[OF inv, of a] ts by simp
  have "\<forall>b \<in> set ts. Comparator (t_heap s) (Some a) (Some b)"
    using tm_invD(1)[OF inv] ts by (simp add: os_sorted_def)
  then have "\<forall>b \<in> set ts. t_next (t_heap s a) \<le> t_next (t_heap s b)" by (auto simp: Comparator_simps)
  moreover have "fst (getNextTimer now s) = (if now \<le> t_next (t_heap s a) then t_next (t_heap s a) - now
      else 2 ^ 64 - (now - t_next (t_heap s a)))"
    using lt assms(3) usub64_no_wrap[of now "t_next (t_heap s a)"] usub64_wrap[of "t_next (t_heap s a)" now]
    by (auto simp: getNextTimer_def ts Let_def)
  ultimately show ?thesis by (auto simp: ts u64max_def Let_def)
qed

lemma getNextTimer_value_witness:
  "\<exists>s. tm_reachable s \<and> m_timers s \<noteq> [] \<and> fst (getNextTimer 106 s) = u64max"
proof -
  obtain s where s: "tm_reachable s" "m_timers s = [2]" "t_heap s 2 = new_timer 100 5 (Some (Callback 7)) False"
    by (rule one_timer)
  then have "t_next (t_heap s 2) = 105" by (simp add: new_timer_def uadd64_def)
  then show ?thesis using getNextTimer_value[OF s(1), of 106] s(1,2) by auto
qed

end
