(* ===== verification/IoManager.thy ===== *)
theory IoManager
  imports Scheduler Timer
begin

unbundle bit_operations_syntax

text \<open>
  The I/O manager (\<^verbatim>\<open>include/IoManager.h\<close>, \<^verbatim>\<open>src/IoManager.cc\<close>): events on file
  descriptors that resume a coroutine or run a callback, and the loop of the idle coroutine
  around \<open>epoll_wait\<close>. The result of \<open>epoll_ctl\<close> is the argument \<open>ctl\<close>. A \<open>FdContext *\<close> is an
  address in \<open>ctx_heap\<close>. Each region under one lock is one definition, so that sequences of
  them are the interleavings of several threads.
\<close>

subsection \<open>State\<close>

record event_context =
  ec_scheduler :: "nat option"
  ec_fiber :: "nat option"
  ec_cb :: "callback option"

record fd_context =
  fc_read :: event_context
  fc_write :: event_context
  fc_fd :: int
  fc_events :: "32 word"

definition EV_NONE :: "32 word" where "EV_NONE = 0x0"
definition EV_READ :: "32 word" where "EV_READ = 0x1"
definition EV_WRITE :: "32 word" where "EV_WRITE = 0x4"

lemmas ev_defs = EV_NONE_def EV_READ_def EV_WRITE_def

text \<open>The constants of \<^verbatim>\<open><sys/epoll.h>\<close>.\<close>

definition EPOLLIN :: "32 word" where "EPOLLIN = 0x001"
definition EPOLLOUT :: "32 word" where "EPOLLOUT = 0x004"
definition EPOLLERR :: "32 word" where "EPOLLERR = 0x008"
definition EPOLLHUP :: "32 word" where "EPOLLHUP = 0x010"
definition EPOLLET :: "32 word" where "EPOLLET = 0x80000000"

lemmas epoll_defs = EPOLLIN_def EPOLLOUT_def EPOLLERR_def EPOLLHUP_def EPOLLET_def

datatype epoll_op = EPOLL_CTL_ADD | EPOLL_CTL_MOD | EPOLL_CTL_DEL

type_synonym epoll_ctl = "epoll_op \<Rightarrow> int \<Rightarrow> 32 word \<Rightarrow> int"

definition new_event_context :: event_context where
  "new_event_context = \<lparr>ec_scheduler = None, ec_fiber = None, ec_cb = None\<rparr>"

definition new_fd_context :: "int \<Rightarrow> fd_context" where
  "new_fd_context fd = \<lparr>fc_read = new_event_context, fc_write = new_event_context, fc_fd = fd, fc_events = EV_NONE\<rparr>"

text \<open>
  \<open>io_self\<close> is the manager as a \<open>Scheduler *\<close>; tasks given to other schedulers are kept in
  \<open>io_other\<close>. \<open>io_wakeups\<close> counts the writes to \<open>m_wakeupfd\<close>.
\<close>

record io_manager =
  io_self :: nat
  io_sched :: sched
  io_timers :: timer_manager
  io_other :: "(nat \<times> task) list"
  io_wakeups :: nat
  m_pendingEventCount :: nat
  m_fdContexts :: "nat option list"
  ctx_heap :: "nat \<Rightarrow> fd_context"
  ctx_next :: nat

abbreviation put_ctx :: "nat \<Rightarrow> fd_context \<Rightarrow> io_manager \<Rightarrow> io_manager" where
  "put_ctx p c s \<equiv> s\<lparr>ctx_heap := (ctx_heap s)(p := c)\<rparr>"

abbreviation dec_pending :: "io_manager \<Rightarrow> io_manager" where
  "dec_pending s \<equiv> s\<lparr>m_pendingEventCount := usub64 (m_pendingEventCount s) 1\<rparr>"

subsection \<open>Contexts\<close>

definition getContext :: "32 word \<Rightarrow> fd_context \<Rightarrow> fault + event_context" where
  "getContext event c = (if event = EV_READ then Inr (fc_read c)
     else if event = EV_WRITE then Inr (fc_write c) else Inl Invalid_argument)"

definition setContext :: "32 word \<Rightarrow> event_context \<Rightarrow> fd_context \<Rightarrow> fd_context" where
  "setContext event ctx c = (if event = EV_READ then c\<lparr>fc_read := ctx\<rparr> else c\<lparr>fc_write := ctx\<rparr>)"

definition resetContext :: "event_context \<Rightarrow> event_context" where
  "resetContext ctx = ctx\<lparr>ec_scheduler := None, ec_fiber := None, ec_cb := None\<rparr>"

text \<open>
  \<open>triggerEvent\<close> returns what it passes to \<open>ctx.scheduler->schedule\<close>. Only the scheduler of
  the context is reset.
\<close>

definition triggerEvent :: "32 word \<Rightarrow> fd_context \<Rightarrow> fault + fd_context \<times> nat \<times> task" where
  "triggerEvent event c =
     (let c = c\<lparr>fc_events := fc_events c AND NOT event\<rparr> in
      bindE (getContext event c) (\<lambda>ctx. case ec_scheduler ctx of
        None \<Rightarrow> Inl Null_deref
      | Some sch \<Rightarrow>
          let ft = (case ec_cb ctx of
              Some cb \<Rightarrow> \<lparr>tk_fiber = None, tk_cb = Some cb, tk_thread = - 1\<rparr>
            | None \<Rightarrow> \<lparr>tk_fiber = ec_fiber ctx, tk_cb = None, tk_thread = - 1\<rparr>)
          in Inr (setContext event (ctx\<lparr>ec_scheduler := None\<rparr>) c, sch, ft)))"

definition schedule_on :: "nat \<Rightarrow> task \<Rightarrow> io_manager \<Rightarrow> io_manager" where
  "schedule_on sch ft s = (if sch = io_self s then s\<lparr>io_sched := schedule ft (io_sched s)\<rparr>
     else s\<lparr>io_other := io_other s @ [(sch, ft)]\<rparr>)"

definition io_trigger :: "32 word \<Rightarrow> nat \<Rightarrow> io_manager \<Rightarrow> fault + io_manager" where
  "io_trigger event p s = bindE (triggerEvent event (ctx_heap s p)) (\<lambda>(c, sch, ft).
     Inr (schedule_on sch ft (put_ctx p c s)))"

subsection \<open>The vector of contexts\<close>

text \<open>\<open>vector::resize\<close> with null pointers, then a new context for every null pointer.\<close>

fun fill_contexts :: "nat \<Rightarrow> nat option list \<Rightarrow> io_manager \<Rightarrow> nat option list \<times> io_manager" where
  "fill_contexts i [] s = ([], s)"
| "fill_contexts i (Some p # ps) s = (let (ps, s) = fill_contexts (Suc i) ps s in (Some p # ps, s))"
| "fill_contexts i (None # ps) s =
     (let p = ctx_next s; s = (put_ctx p (new_fd_context (int i)) s)\<lparr>ctx_next := p + 1\<rparr>;
          (ps, s) = fill_contexts (Suc i) ps s
      in (Some p # ps, s))"

definition contextResize :: "nat \<Rightarrow> io_manager \<Rightarrow> io_manager" where
  "contextResize sz s =
     (let v = take sz (m_fdContexts s) @ replicate (sz - length (m_fdContexts s)) None;
          (v, s) = fill_contexts 0 v s
      in s\<lparr>m_fdContexts := v\<rparr>)"

text \<open>\<open>m_fdContexts[fd]\<close>: a negative \<open>fd\<close> becomes a huge index.\<close>

definition ctx_at :: "int \<Rightarrow> io_manager \<Rightarrow> fault + nat" where
  "ctx_at fd s = (if fd < 0 \<or> length (m_fdContexts s) \<le> nat fd then Inl Bad_index
     else case m_fdContexts s ! nat fd of None \<Rightarrow> Inl Null_deref | Some p \<Rightarrow> Inr p)"

subsection \<open>addEvent, region by region\<close>

text \<open>Under the read lock: the context, or that the vector is too short.\<close>

definition addEvent_lookup :: "int \<Rightarrow> io_manager \<Rightarrow> fault + nat option" where
  "addEvent_lookup fd s = (if fd < int (length (m_fdContexts s))
     then bindE (ctx_at fd s) (\<lambda>p. Inr (Some p)) else Inr None)"

text \<open>Under the write lock, taken after the read lock was released; \<open>1.5 * fd\<close> is truncated.\<close>

definition addEvent_grow :: "int \<Rightarrow> io_manager \<Rightarrow> fault + nat \<times> io_manager" where
  "addEvent_grow fd s =
     (let s = contextResize (nat (3 * fd div 2)) s in bindE (ctx_at fd s) (\<lambda>p. Inr (p, s)))"

text \<open>
  Under the context's mutex. \<open>cur_sched\<close> is \<open>Scheduler::GetThis()\<close>, \<open>cur_fiber\<close> the running
  coroutine with its state. An event that is already there is logged only.
\<close>

definition addEvent_commit ::
  "epoll_ctl \<Rightarrow> nat option \<Rightarrow> nat \<times> fiber_state \<Rightarrow> int \<Rightarrow> 32 word \<Rightarrow> callback option \<Rightarrow> nat \<Rightarrow> io_manager
   \<Rightarrow> fault + int \<times> io_manager"
where
  "addEvent_commit ctl cur_sched cur_fiber fd event cb p s =
     (let c = ctx_heap s p;
          op = (if fc_events c \<noteq> 0 then EPOLL_CTL_MOD else EPOLL_CTL_ADD);
          rt = ctl op fd (EPOLLET OR fc_events c OR event)
      in if rt \<noteq> 0 then Inr (- 1, s)
      else
        let s = s\<lparr>m_pendingEventCount := uadd64 (m_pendingEventCount s) 1\<rparr>;
            c = c\<lparr>fc_events := fc_events c OR event\<rparr>
        in bindE (getContext event c) (\<lambda>ctx.
          let ctx = ctx\<lparr>ec_scheduler := cur_sched\<rparr> in
          case cb of
            Some f \<Rightarrow> Inr (0, put_ctx p (setContext event (ctx\<lparr>ec_cb := Some f\<rparr>) c) s)
          | None \<Rightarrow> if snd cur_fiber \<noteq> RUNING then Inl Assert_failed
              else Inr (0, put_ctx p (setContext event (ctx\<lparr>ec_fiber := Some (fst cur_fiber)\<rparr>) c) s)))"

definition addEvent ::
  "epoll_ctl \<Rightarrow> nat option \<Rightarrow> nat \<times> fiber_state \<Rightarrow> int \<Rightarrow> 32 word \<Rightarrow> callback option \<Rightarrow> io_manager
   \<Rightarrow> fault + int \<times> io_manager"
where
  "addEvent ctl cur_sched cur_fiber fd event cb s =
     bindE (addEvent_lookup fd s) (\<lambda>r. case r of
       Some p \<Rightarrow> addEvent_commit ctl cur_sched cur_fiber fd event cb p s
     | None \<Rightarrow> bindE (addEvent_grow fd s) (\<lambda>(p, s).
         addEvent_commit ctl cur_sched cur_fiber fd event cb p s))"

subsection \<open>Removing events\<close>

definition delEvent :: "epoll_ctl \<Rightarrow> int \<Rightarrow> 32 word \<Rightarrow> io_manager \<Rightarrow> fault + bool \<times> io_manager" where
  "delEvent ctl fd event s =
     (if int (length (m_fdContexts s)) \<le> fd then Inr (False, s)
      else bindE (ctx_at fd s) (\<lambda>p.
        let c = ctx_heap s p in
        if fc_events c AND event = 0 then Inr (False, s)
        else
          let new_events = fc_events c AND NOT event;
              op = (if new_events \<noteq> 0 then EPOLL_CTL_MOD else EPOLL_CTL_DEL);
              rt = ctl op fd (EPOLLET OR new_events)
          in if rt \<noteq> 0 then Inr (False, s)
          else
            let s = dec_pending s; c = c\<lparr>fc_events := new_events\<rparr>
            in bindE (getContext event c) (\<lambda>ctx.
              Inr (True, put_ctx p (setContext event (resetContext ctx) c) s))))"

definition cancelEvent :: "epoll_ctl \<Rightarrow> int \<Rightarrow> 32 word \<Rightarrow> io_manager \<Rightarrow> fault + bool \<times> io_manager" where
  "cancelEvent ctl fd event s =
     (if int (length (m_fdContexts s)) \<le> fd then Inr (False, s)
      else bindE (ctx_at fd s) (\<lambda>p.
        let c = ctx_heap s p in
        if fc_events c AND event = 0 then Inr (False, s)
        else
          let new_events = fc_events c AND NOT event;
              op = (if new_events \<noteq> 0 then EPOLL_CTL_MOD else EPOLL_CTL_DEL);
              rt = ctl op fd (EPOLLET OR new_events)
          in if rt \<noteq> 0 then Inr (False, s)
          else bindE (io_trigger event p s) (\<lambda>s. Inr (True, dec_pending s))))"

definition trigger_if :: "bool \<Rightarrow> 32 word \<Rightarrow> nat \<Rightarrow> io_manager \<Rightarrow> fault + io_manager" where
  "trigger_if b event p s = (if b then bindE (io_trigger event p s) (\<lambda>s. Inr (dec_pending s)) else Inr s)"

definition cancelAll :: "epoll_ctl \<Rightarrow> int \<Rightarrow> io_manager \<Rightarrow> fault + bool \<times> io_manager" where
  "cancelAll ctl fd s =
     (if int (length (m_fdContexts s)) \<le> fd then Inr (False, s)
      else bindE (ctx_at fd s) (\<lambda>p.
        if fc_events (ctx_heap s p) = 0 then Inr (False, s)
        else if ctl EPOLL_CTL_DEL fd 0 \<noteq> 0 then Inr (False, s)
        else bindE (trigger_if (fc_events (ctx_heap s p) AND EV_READ \<noteq> 0) EV_READ p s) (\<lambda>s.
          bindE (trigger_if (fc_events (ctx_heap s p) AND EV_WRITE \<noteq> 0) EV_WRITE p s) (\<lambda>s.
            if fc_events (ctx_heap s p) \<noteq> 0 then Inl Assert_failed else Inr (True, s)))))"

subsection \<open>The idle coroutine\<close>

definition io_tickle :: "io_manager \<Rightarrow> io_manager" where
  "io_tickle s = (if \<not> hasIdleThreads (io_sched s) then s else s\<lparr>io_wakeups := io_wakeups s + 1\<rparr>)"

definition onTimerInsertAtFront :: "io_manager \<Rightarrow> io_manager" where
  "onTimerInsertAtFront s = io_tickle s"

text \<open>\<open>stopping(timeout)\<close> at time \<open>now\<close>: the timeout, and whether to stop.\<close>

definition io_stopping :: "nat \<Rightarrow> io_manager \<Rightarrow> nat \<times> bool \<times> io_manager" where
  "io_stopping now s =
     (let (timeout, tm) = getNextTimer now (io_timers s); s = s\<lparr>io_timers := tm\<rparr>
      in (timeout, timeout = u64max \<and> m_pendingEventCount s = 0 \<and> sched_stopping (io_sched s), s))"

text \<open>\<open>(int)x\<close>, and the argument \<open>idle\<close> passes to \<open>epoll_wait\<close>; a negative one waits for ever.\<close>

definition as_int :: "nat \<Rightarrow> int" where
  "as_int x = signed_take_bit 31 (int x)"

definition idle_timeout :: "nat \<Rightarrow> int" where
  "idle_timeout next_timeout =
     (let MAX_TIMEOUT = 3000;
          next_timeout = (if next_timeout \<noteq> u64max
            then (if as_int next_timeout > int MAX_TIMEOUT then MAX_TIMEOUT else next_timeout)
            else MAX_TIMEOUT)
      in as_int next_timeout)"

text \<open>
  One reported event: \<open>p\<close> is the context in \<open>data.ptr\<close>, \<open>ev\<close> the mask of events.
\<close>

definition handle_event :: "epoll_ctl \<Rightarrow> nat \<Rightarrow> 32 word \<Rightarrow> io_manager \<Rightarrow> fault + io_manager" where
  "handle_event ctl p ev s =
     (let c = ctx_heap s p;
          ev = (if ev AND (EPOLLERR OR EPOLLHUP) \<noteq> 0 then ev OR ((EPOLLIN OR EPOLLOUT) AND fc_events c) else ev);
          real_events = EV_NONE;
          real_events = (if ev AND EPOLLIN \<noteq> 0 then real_events OR EV_READ else real_events);
          real_events = (if ev AND EPOLLOUT \<noteq> 0 then real_events OR EV_WRITE else real_events)
      in if fc_events c AND real_events = EV_NONE then Inr s
      else
        let left_events = fc_events c AND NOT real_events;
            op = (if left_events \<noteq> 0 then EPOLL_CTL_MOD else EPOLL_CTL_DEL);
            rt2 = ctl op (fc_fd c) (EPOLLET OR left_events)
        in if rt2 \<noteq> 0 then Inr s
        else bindE (trigger_if (real_events AND EV_READ \<noteq> 0) EV_READ p s) (\<lambda>s.
          trigger_if (real_events AND EV_WRITE \<noteq> 0) EV_WRITE p s))"

text \<open>
  An event is that of the wake-up descriptor (\<open>None\<close>, which is drained) or of a context. The code tells
  them apart by \<open>event.data.fd == m_wakeupfd\<close>, where \<open>data\<close> is a union with the pointer to the context; the
  model takes the two for different, as they are unless the low half of an address is the descriptor.
\<close>

fun handle_events :: "epoll_ctl \<Rightarrow> (nat option \<times> 32 word) list \<Rightarrow> io_manager \<Rightarrow> fault + io_manager" where
  "handle_events ctl [] s = Inr s"
| "handle_events ctl ((None, _) # evs) s = handle_events ctl evs (s\<lparr>io_wakeups := 0\<rparr>)"
| "handle_events ctl ((Some p, ev) # evs) s = bindE (handle_event ctl p ev s) (handle_events ctl evs)"

text \<open>
  One round of \<open>idle\<close> up to the \<open>swapOut\<close>: \<open>None\<close> when it is left because the manager stops.
  \<open>wait\<close> is what \<open>epoll_wait\<close> reports for a timeout, \<open>later\<close> the time after it and \<open>tmp\<close> the
  address of the temporary timer of \<open>listExpiredCb\<close>.
\<close>

definition cb_task :: "callback option \<Rightarrow> task" where
  "cb_task cb = \<lparr>tk_fiber = None, tk_cb = cb, tk_thread = - 1\<rparr>"

definition idle_round ::
  "epoll_ctl \<Rightarrow> (int \<Rightarrow> (nat option \<times> 32 word) list) \<Rightarrow> nat \<Rightarrow> nat \<Rightarrow> nat \<Rightarrow> io_manager \<Rightarrow> fault + io_manager option"
where
  "idle_round ctl wait now later tmp s =
     (let (next_timeout, stop, s) = io_stopping now s in
      if stop then Inr None
      else
        let evs = wait (idle_timeout next_timeout);
            (cbs, tm) = listExpiredCb later tmp (io_timers s);
            s = s\<lparr>io_timers := tm\<rparr>;
            s = (if cbs \<noteq> [] then s\<lparr>io_sched := schedule_range (map cb_task cbs) (io_sched s)\<rparr> else s)
        in bindE (handle_events ctl evs s) (\<lambda>s. Inr (Some s)))"

subsection \<open>Invariant\<close>

text \<open>Registered events of a context and of all contexts ever made.\<close>

definition reg :: "fd_context \<Rightarrow> nat" where
  "reg c = (if fc_events c AND EV_READ \<noteq> 0 then 1 else 0) + (if fc_events c AND EV_WRITE \<noteq> 0 then 1 else 0)"

definition registered :: "io_manager \<Rightarrow> nat" where
  "registered s = (\<Sum>p < ctx_next s. reg (ctx_heap s p))"

text \<open>A registered event has a scheduler to hand its task to.\<close>

definition ctx_ok :: "fd_context \<Rightarrow> bool" where
  "ctx_ok c \<longleftrightarrow> fc_events c \<in> {0, 1, 4, 5}
     \<and> (fc_events c AND EV_READ \<noteq> 0 \<longrightarrow> ec_scheduler (fc_read c) \<noteq> None)
     \<and> (fc_events c AND EV_WRITE \<noteq> 0 \<longrightarrow> ec_scheduler (fc_write c) \<noteq> None)"

definition io_struct :: "io_manager \<Rightarrow> bool" where
  "io_struct s \<longleftrightarrow> (\<forall>p < ctx_next s. ctx_ok (ctx_heap s p))
     \<and> (\<forall>o' \<in> set (m_fdContexts s). \<exists>p < ctx_next s. o' = Some p)"

definition io_inv :: "io_manager \<Rightarrow> bool" where
  "io_inv s \<longleftrightarrow> io_struct s \<and> m_pendingEventCount s = registered s \<and> m_pendingEventCount s < 2 ^ 64"

lemma io_inv_ctx: "io_inv s \<Longrightarrow> p < ctx_next s \<Longrightarrow> ctx_ok (ctx_heap s p)"
  by (simp add: io_inv_def io_struct_def)

lemma registered_put:
  assumes "p < ctx_next s"
  shows "registered (put_ctx p c s) + reg (ctx_heap s p) = registered s + reg c"
proof -
  have fin: "finite {..<ctx_next s}" "p \<in> {..<ctx_next s}" using assms by simp_all
  have "(\<Sum>q \<in> {..<ctx_next s} - {p}. reg (((ctx_heap s)(p := c)) q)) = (\<Sum>q \<in> {..<ctx_next s} - {p}. reg (ctx_heap s q))"
    by (rule sum.cong) auto
  then show ?thesis
    using sum.remove[OF fin, of "\<lambda>q. reg (((ctx_heap s)(p := c)) q)"] sum.remove[OF fin, of "\<lambda>q. reg (ctx_heap s q)"]
    by (simp add: registered_def)
qed

lemma io_struct_put:
  "io_struct s \<Longrightarrow> ctx_ok c \<Longrightarrow> io_struct (put_ctx p c s)"
  by (simp add: io_struct_def)

lemma schedule_on_frame [simp, sim_simps]:
  "m_pendingEventCount (schedule_on k ft s) = m_pendingEventCount s" "ctx_heap (schedule_on k ft s) = ctx_heap s"
  "ctx_next (schedule_on k ft s) = ctx_next s" "m_fdContexts (schedule_on k ft s) = m_fdContexts s"
  "io_timers (schedule_on k ft s) = io_timers s" "io_self (schedule_on k ft s) = io_self s"
  by (simp_all add: schedule_on_def)

lemma io_struct_frame:
  "ctx_heap t = ctx_heap s \<Longrightarrow> ctx_next t = ctx_next s \<Longrightarrow> m_fdContexts t = m_fdContexts s \<Longrightarrow>
   io_struct t = io_struct s \<and> registered t = registered s"
  by (simp add: io_struct_def registered_def)

definition is_event :: "32 word \<Rightarrow> bool" where
  "is_event event \<longleftrightarrow> event = EV_READ \<or> event = EV_WRITE"

lemma events [simp]: "is_event EV_READ" "is_event EV_WRITE"
  by (simp_all add: is_event_def)

lemma ctx_ok_events: "ctx_ok c \<Longrightarrow> fc_events c = 0 \<or> fc_events c = 1 \<or> fc_events c = 4 \<or> fc_events c = 5"
  by (simp add: ctx_ok_def)

lemma triggerEvent_ok:
  assumes "ctx_ok c" "is_event event" "fc_events c AND event \<noteq> 0"
  shows "\<exists>c' sch ft. triggerEvent event c = Inr (c', sch, ft) \<and> ctx_ok c' \<and> reg c = Suc (reg c')
     \<and> fc_events c' = fc_events c AND NOT event"
proof -
  let ?c = "c\<lparr>fc_events := fc_events c AND NOT event\<rparr>"
  define ctx where "ctx = (if event = EV_READ then fc_read c else fc_write c)"
  define c' where "c' = setContext event (ctx\<lparr>ec_scheduler := None\<rparr>) ?c"
  have g: "getContext event ?c = Inr ctx"
    using assms(2) by (auto simp: getContext_def is_event_def ctx_def ev_defs)
  obtain sch where sch: "ec_scheduler ctx = Some sch"
    using assms by (auto simp: ctx_ok_def is_event_def ctx_def ev_defs)
  have ev: "fc_events c' = fc_events c AND NOT event" by (simp add: c'_def setContext_def)
  have ok: "ctx_ok c' \<and> reg c = Suc (reg c')"
    using ctx_ok_events[OF assms(1)] assms ev unfolding c'_def
    by (elim disjE; cases "event = EV_READ")
       (simp_all add: ctx_ok_def setContext_def is_event_def ev_defs reg_def ctx_def)
  from g sch have "\<exists>ft. triggerEvent event c = Inr (c', sch, ft)"
    by (simp add: triggerEvent_def Let_def c'_def)
  with ok ev show ?thesis by blast
qed

lemma trigger_if_ok:
  assumes "io_inv s" "p < ctx_next s" "is_event event" "b \<Longrightarrow> fc_events (ctx_heap s p) AND event \<noteq> 0"
  shows "\<exists>t. trigger_if b event p s = Inr t \<and> io_inv t \<and> ctx_next t = ctx_next s
     \<and> fc_events (ctx_heap t p) = (if b then fc_events (ctx_heap s p) AND NOT event else fc_events (ctx_heap s p))"
proof (cases b)
  case True
  obtain c' sch ft where c': "triggerEvent event (ctx_heap s p) = Inr (c', sch, ft)" "ctx_ok c'"
    "reg (ctx_heap s p) = Suc (reg c')" "fc_events c' = fc_events (ctx_heap s p) AND NOT event"
    using triggerEvent_ok[OF io_inv_ctx[OF assms(1,2)] assms(3) assms(4)[OF True]] by blast
  let ?t = "schedule_on sch ft (put_ctx p c' s)"
  have r: "Suc (registered (put_ctx p c' s)) = registered s"
    using registered_put[OF assms(2), of c'] c'(3) by simp
  then have n: "0 < m_pendingEventCount s" "m_pendingEventCount s < 2 ^ 64"
    "m_pendingEventCount s = Suc (registered (put_ctx p c' s))"
    using assms(1) by (auto simp: io_inv_def)
  have st: "io_struct (put_ctx p c' s)" using assms(1) c'(2) by (auto simp: io_inv_def intro: io_struct_put)
  have fr: "io_struct (dec_pending ?t) = io_struct (put_ctx p c' s)
      \<and> registered (dec_pending ?t) = registered (put_ctx p c' s)"
    by (rule io_struct_frame) simp_all
  have "io_inv (dec_pending ?t)"
    using fr st n usub64_no_wrap[of 1 "m_pendingEventCount s"] by (simp add: io_inv_def)
  with True c' show ?thesis by (simp add: trigger_if_def io_trigger_def)
next
  case False
  with assms(1) show ?thesis by (simp add: trigger_if_def)
qed

lemma ctx_at_ok:
  assumes "io_struct s" "0 \<le> fd" "fd < int (length (m_fdContexts s))"
  shows "\<exists>p. ctx_at fd s = Inr p \<and> p < ctx_next s"
proof -
  have "nat fd < length (m_fdContexts s)" using assms(2,3) by simp
  then have "m_fdContexts s ! nat fd \<in> set (m_fdContexts s)" by (rule nth_mem)
  with assms(1) obtain p where "m_fdContexts s ! nat fd = Some p" "p < ctx_next s"
    by (auto simp: io_struct_def)
  with assms(2,3) show ?thesis by (auto simp: ctx_at_def)
qed

lemma fill_contexts_ok:
  assumes "\<forall>p < ctx_next s. ctx_ok (ctx_heap s p)" "\<forall>o' \<in> set ps. o' = None \<or> (\<exists>p < ctx_next s. o' = Some p)"
    and "fill_contexts i ps s = (qs, t)"
  shows "length qs = length ps \<and> ctx_next s \<le> ctx_next t \<and> (\<forall>p < ctx_next t. ctx_ok (ctx_heap t p))
     \<and> (\<forall>o' \<in> set qs. \<exists>p < ctx_next t. o' = Some p) \<and> registered t = registered s
     \<and> m_pendingEventCount t = m_pendingEventCount s \<and> m_fdContexts t = m_fdContexts s
     \<and> io_timers t = io_timers s \<and> io_sched t = io_sched s \<and> (\<forall>p < ctx_next s. ctx_heap t p = ctx_heap s p)"
  using assms
proof (induction ps arbitrary: i s qs)
  case (Cons o' ps)
  show ?case
  proof (cases o')
    case (Some p)
    obtain rs where rs: "fill_contexts (Suc i) ps s = (rs, t)" "qs = Some p # rs"
      using Cons.prems(3) Some by (auto split: prod.splits)
    have "\<forall>o' \<in> set ps. o' = None \<or> (\<exists>p < ctx_next s. o' = Some p)" using Cons.prems(2) by simp
    note IH = Cons.IH[OF Cons.prems(1) this rs(1)]
    moreover have "p < ctx_next t" using Cons.prems(2) Some IH by auto
    ultimately show ?thesis using rs(2) by auto
  next
    case None
    let ?u = "(put_ctx (ctx_next s) (new_fd_context (int i)) s)\<lparr>ctx_next := ctx_next s + 1\<rparr>"
    obtain rs where rs: "fill_contexts (Suc i) ps ?u = (rs, t)" "qs = Some (ctx_next s) # rs"
      using Cons.prems(3) None by (auto simp: Let_def split: prod.splits)
    have ok: "\<forall>p < ctx_next ?u. ctx_ok (ctx_heap ?u p)"
      using Cons.prems(1) by (auto simp: less_Suc_eq ctx_ok_def new_fd_context_def ev_defs)
    have ptrs: "\<forall>o' \<in> set ps. o' = None \<or> (\<exists>p < ctx_next ?u. o' = Some p)"
      using Cons.prems(2) by (auto intro: less_SucI)
    have r: "registered ?u = registered s"
      by (simp add: registered_def reg_def new_fd_context_def ev_defs)
    note IH = Cons.IH[OF ok ptrs rs(1)]
    have "\<forall>p < ctx_next s. ctx_heap t p = ctx_heap s p" using IH by auto
    with IH r rs(2) show ?thesis by auto
  qed
qed simp

text \<open>Pointers already there stay, and the new contexts have no events.\<close>

lemma fill_contexts_heap:
  "fill_contexts i ps s = (qs, t) \<Longrightarrow> p < ctx_next s \<Longrightarrow> ctx_heap t p = ctx_heap s p \<and> p < ctx_next t"
proof (induction ps arbitrary: i s qs)
  case (Cons o' ps)
  then show ?case by (cases o') (fastforce simp: Let_def split: prod.splits)+
qed simp

lemma fill_contexts_nth:
  "fill_contexts i ps s = (qs, t) \<Longrightarrow> j < length ps \<Longrightarrow>
   (if ps ! j \<noteq> None then qs ! j = ps ! j else fc_events (ctx_heap t (the (qs ! j))) = 0)"
proof (induction ps arbitrary: i s qs j)
  case (Cons o' ps)
  show ?case
  proof (cases o')
    case (Some p)
    then obtain rs where "fill_contexts (Suc i) ps s = (rs, t)" "qs = Some p # rs"
      using Cons.prems(1) by (auto split: prod.splits)
    with Cons.IH[of "Suc i" s rs] Cons.prems(2) Some show ?thesis by (cases j) simp_all
  next
    case None
    let ?u = "(put_ctx (ctx_next s) (new_fd_context (int i)) s)\<lparr>ctx_next := ctx_next s + 1\<rparr>"
    obtain rs where rs: "fill_contexts (Suc i) ps ?u = (rs, t)" "qs = Some (ctx_next s) # rs"
      using Cons.prems(1) None by (auto simp: Let_def split: prod.splits)
    have "fc_events (ctx_heap t (ctx_next s)) = 0"
      using fill_contexts_heap[OF rs(1), of "ctx_next s"] by (simp add: new_fd_context_def ev_defs)
    with Cons.IH[OF rs(1)] Cons.prems(2) None rs(2) show ?thesis by (cases j) simp_all
  qed
qed simp

lemma contextResize_ok:
  assumes "io_inv s"
  shows "io_inv (contextResize sz s) \<and> length (m_fdContexts (contextResize sz s)) = sz
     \<and> m_pendingEventCount (contextResize sz s) = m_pendingEventCount s
     \<and> ctx_next s \<le> ctx_next (contextResize sz s)
     \<and> (\<forall>p < ctx_next s. ctx_heap (contextResize sz s) p = ctx_heap s p)
     \<and> (\<forall>j < sz. j < length (m_fdContexts s) \<longrightarrow> m_fdContexts (contextResize sz s) ! j = m_fdContexts s ! j)
     \<and> (\<forall>j < sz. length (m_fdContexts s) \<le> j \<longrightarrow>
          fc_events (ctx_heap (contextResize sz s) (the (m_fdContexts (contextResize sz s) ! j))) = 0)"
proof -
  let ?v = "take sz (m_fdContexts s) @ replicate (sz - length (m_fdContexts s)) None"
  obtain v t where f: "fill_contexts 0 ?v s = (v, t)" by (metis surj_pair)
  have st: "\<forall>p < ctx_next s. ctx_ok (ctx_heap s p)" using assms by (simp add: io_inv_def io_struct_def)
  have ptrs: "\<forall>o' \<in> set ?v. o' = None \<or> (\<exists>p < ctx_next s. o' = Some p)"
    using assms by (auto simp: io_inv_def io_struct_def dest: in_set_takeD)
  note L = fill_contexts_ok[OF st ptrs f]
  have eq: "contextResize sz s = t\<lparr>m_fdContexts := v\<rparr>" by (simp add: contextResize_def f)
  have len: "length ?v = sz" by simp
  have old: "?v ! j = m_fdContexts s ! j" if "j < length (m_fdContexts s)" "j < sz" for j
    using that by (simp add: nth_append)
  have some: "m_fdContexts s ! j \<noteq> None" if "j < length (m_fdContexts s)" for j
  proof -
    have "\<forall>o' \<in> set (m_fdContexts s). \<exists>p < ctx_next s. o' = Some p"
      using assms by (simp add: io_inv_def io_struct_def)
    from bspec[OF this nth_mem[OF that]] show ?thesis by auto
  qed
  have new: "?v ! j = None" if "length (m_fdContexts s) \<le> j" "j < sz" for j
    using that by (simp add: nth_append)
  have "registered (t\<lparr>m_fdContexts := v\<rparr>) = registered t" by (simp add: registered_def)
  then have "io_inv (t\<lparr>m_fdContexts := v\<rparr>)" using L assms by (simp add: io_inv_def io_struct_def)
  moreover have "v ! j = m_fdContexts s ! j" if "j < sz" "j < length (m_fdContexts s)" for j
    using fill_contexts_nth[OF f, of j] old[OF that(2,1)] some[OF that(2)] that(1) len by auto
  moreover have "fc_events (ctx_heap t (the (v ! j))) = 0" if "j < sz" "length (m_fdContexts s) \<le> j" for j
    using fill_contexts_nth[OF f, of j] new[OF that(2,1)] that(1) len by auto
  ultimately show ?thesis unfolding eq using L len by simp
qed

subsection \<open>Every operation keeps the invariant\<close>

lemma ctx_at_frame: "m_fdContexts t = m_fdContexts s \<Longrightarrow> ctx_at fd t = ctx_at fd s"
  by (simp add: ctx_at_def)

text \<open>Registering an event that is not there.\<close>

lemma addEvent_commit_ok:
  assumes inv: "io_inv s" and p: "p < ctx_next s" and ev: "is_event event"
    and new: "fc_events (ctx_heap s p) AND event = 0"
    and sch: "cur_sched \<noteq> None" and run: "snd cur_fiber = RUNING" and room: "m_pendingEventCount s + 1 < 2 ^ 64"
  shows "\<exists>r t. addEvent_commit ctl cur_sched cur_fiber fd event cb p s = Inr (r, t) \<and> io_inv t
     \<and> ctx_next t = ctx_next s \<and> m_fdContexts t = m_fdContexts s"
proof -
  let ?c = "ctx_heap s p"
  let ?rt = "ctl (if fc_events ?c \<noteq> 0 then EPOLL_CTL_MOD else EPOLL_CTL_ADD) fd (EPOLLET OR fc_events ?c OR event)"
  show ?thesis
  proof (cases "?rt = 0")
    case False
    then show ?thesis using inv by (simp add: addEvent_commit_def Let_def)
  next
    case True
    let ?d = "?c\<lparr>fc_events := fc_events ?c OR event\<rparr>"
    define ctx where "ctx = (if event = EV_READ then fc_read ?c else fc_write ?c)"
    define ctx' where "ctx' = (case cb of Some f \<Rightarrow> ctx\<lparr>ec_scheduler := cur_sched, ec_cb := Some f\<rparr>
        | None \<Rightarrow> ctx\<lparr>ec_scheduler := cur_sched, ec_fiber := Some (fst cur_fiber)\<rparr>)"
    define c' where "c' = setContext event ctx' ?d"
    have g: "getContext event ?d = Inr ctx"
      using ev by (auto simp: getContext_def is_event_def ctx_def ev_defs)
    have sch': "ec_scheduler ctx' \<noteq> None" using sch by (auto simp: ctx'_def split: option.split)
    have ok: "ctx_ok c' \<and> reg c' = Suc (reg ?c)"
      using ctx_ok_events[OF io_inv_ctx[OF inv p]] io_inv_ctx[OF inv p] ev new sch' unfolding c'_def
      by (elim disjE; cases "event = EV_READ")
         (simp_all add: ctx_ok_def setContext_def is_event_def ev_defs reg_def)
    let ?t = "(s\<lparr>m_pendingEventCount := uadd64 (m_pendingEventCount s) 1\<rparr>)\<lparr>ctx_heap := (ctx_heap s)(p := c')\<rparr>"
    have "addEvent_commit ctl cur_sched cur_fiber fd event cb p s = Inr (0, ?t)"
      using True g run by (cases cb) (simp_all add: addEvent_commit_def Let_def c'_def ctx'_def)
    moreover have "registered ?t = registered (put_ctx p c' s)" by (simp add: registered_def)
    then have "io_inv ?t"
      using registered_put[OF p, of c'] ok inv room uadd64_no_wrap[of "m_pendingEventCount s" 1]
      by (simp add: io_inv_def io_struct_def)
    ultimately show ?thesis by auto
  qed
qed

lemma addEvent_ok:
  assumes inv: "io_inv s" and fd: "0 \<le> fd" and ev: "is_event event" and len: "2 \<le> length (m_fdContexts s)"
    and new: "\<And>p. ctx_at fd s = Inr p \<Longrightarrow> fc_events (ctx_heap s p) AND event = 0"
    and sch: "cur_sched \<noteq> None" and run: "snd cur_fiber = RUNING" and room: "m_pendingEventCount s + 1 < 2 ^ 64"
  shows "\<exists>r t. addEvent ctl cur_sched cur_fiber fd event cb s = Inr (r, t) \<and> io_inv t
     \<and> length (m_fdContexts s) \<le> length (m_fdContexts t)"
proof (cases "fd < int (length (m_fdContexts s))")
  case True
  have "io_struct s" using inv by (simp add: io_inv_def)
  from ctx_at_ok[OF this fd True] obtain p where p: "ctx_at fd s = Inr p" "p < ctx_next s" by blast
  from addEvent_commit_ok[OF inv p(2) ev new[OF p(1)] sch run room, of ctl fd cb] p(1) True
  show ?thesis by (auto simp: addEvent_def addEvent_lookup_def)
next
  case False
  let ?n = "nat (3 * fd div 2)"
  let ?u = "contextResize ?n s"
  have R: "io_inv ?u" "length (m_fdContexts ?u) = ?n" "m_pendingEventCount ?u = m_pendingEventCount s"
    "\<forall>j < ?n. length (m_fdContexts s) \<le> j \<longrightarrow> fc_events (ctx_heap ?u (the (m_fdContexts ?u ! j))) = 0"
    using contextResize_ok[OF inv, of ?n] by blast+
  have small: "fd < int ?n" "length (m_fdContexts s) \<le> ?n" "length (m_fdContexts s) \<le> nat fd" "nat fd < ?n"
    using False len by linarith+
  have "io_struct ?u" "fd < int (length (m_fdContexts ?u))" using R(1,2) small(1) by (auto simp: io_inv_def)
  from ctx_at_ok[OF this(1) fd this(2)] obtain p where p: "ctx_at fd ?u = Inr p" "p < ctx_next ?u" by blast
  have "the (m_fdContexts ?u ! nat fd) = p" using p(1) by (auto simp: ctx_at_def split: if_splits option.splits)
  then have none: "fc_events (ctx_heap ?u p) AND event = 0" using R(4) small(3,4) by auto
  have "\<exists>r t. addEvent_commit ctl cur_sched cur_fiber fd event cb p ?u = Inr (r, t) \<and> io_inv t
     \<and> ctx_next t = ctx_next ?u \<and> m_fdContexts t = m_fdContexts ?u"
    by (rule addEvent_commit_ok[OF R(1) p(2) ev none sch run]) (use R(3) room in simp)
  then obtain r t where "addEvent_commit ctl cur_sched cur_fiber fd event cb p ?u = Inr (r, t)" "io_inv t"
    "m_fdContexts t = m_fdContexts ?u" by blast
  with False p(1) R(2) small(2) show ?thesis
    by (auto simp: addEvent_def addEvent_lookup_def addEvent_grow_def Let_def)
qed

lemma delEvent_ok:
  assumes inv: "io_inv s" and fd: "0 \<le> fd" and ev: "is_event event"
  shows "\<exists>r t. delEvent ctl fd event s = Inr (r, t) \<and> io_inv t \<and> m_fdContexts t = m_fdContexts s"
proof (cases "fd < int (length (m_fdContexts s))")
  case False
  with inv show ?thesis by (auto simp: delEvent_def)
next
  case True
  have "io_struct s" using inv by (simp add: io_inv_def)
  from ctx_at_ok[OF this fd True] obtain p where p: "ctx_at fd s = Inr p" "p < ctx_next s" by blast
  let ?c = "ctx_heap s p"
  let ?new = "fc_events ?c AND NOT event"
  show ?thesis
  proof (cases "fc_events ?c AND event = 0 \<or> ctl (if ?new \<noteq> 0 then EPOLL_CTL_MOD else EPOLL_CTL_DEL) fd (EPOLLET OR ?new) \<noteq> 0")
    case True': True
    with True p inv show ?thesis by (auto simp: delEvent_def Let_def)
  next
    case False
    define ctx where "ctx = (if event = EV_READ then fc_read ?c else fc_write ?c)"
    define c' where "c' = setContext event (resetContext ctx) (?c\<lparr>fc_events := ?new\<rparr>)"
    have g: "getContext event (?c\<lparr>fc_events := ?new\<rparr>) = Inr ctx"
      using ev by (auto simp: getContext_def is_event_def ctx_def ev_defs)
    have ok: "ctx_ok c' \<and> reg ?c = Suc (reg c')"
      using ctx_ok_events[OF io_inv_ctx[OF inv p(2)]] io_inv_ctx[OF inv p(2)] ev False unfolding c'_def
      by (elim disjE; cases "event = EV_READ")
         (simp_all add: ctx_ok_def setContext_def is_event_def ev_defs reg_def)
    let ?t = "(dec_pending s)\<lparr>ctx_heap := (ctx_heap s)(p := c')\<rparr>"
    have eq: "delEvent ctl fd event s = Inr (True, ?t)"
      using True p(1) False g by (simp add: delEvent_def Let_def c'_def)
    have r: "registered ?t = registered (put_ctx p c' s)" by (simp add: registered_def)
    have "Suc (registered ?t) = m_pendingEventCount s"
      using registered_put[OF p(2), of c'] ok inv unfolding r by (simp add: io_inv_def)
    then have "io_inv ?t"
      using ok inv usub64_no_wrap[of 1 "m_pendingEventCount s"] by (auto simp: io_inv_def io_struct_def)
    with eq show ?thesis by auto
  qed
qed

lemma cancelEvent_ok:
  assumes inv: "io_inv s" and fd: "0 \<le> fd" and ev: "is_event event"
  shows "\<exists>r t. cancelEvent ctl fd event s = Inr (r, t) \<and> io_inv t"
proof (cases "fd < int (length (m_fdContexts s))")
  case False
  with inv show ?thesis by (auto simp: cancelEvent_def)
next
  case True
  have "io_struct s" using inv by (simp add: io_inv_def)
  from ctx_at_ok[OF this fd True] obtain p where p: "ctx_at fd s = Inr p" "p < ctx_next s" by blast
  let ?new = "fc_events (ctx_heap s p) AND NOT event"
  show ?thesis
  proof (cases "fc_events (ctx_heap s p) AND event = 0 \<or> ctl (if ?new \<noteq> 0 then EPOLL_CTL_MOD else EPOLL_CTL_DEL) fd (EPOLLET OR ?new) \<noteq> 0")
    case True': True
    with True p inv show ?thesis by (auto simp: cancelEvent_def Let_def)
  next
    case False
    then obtain t where "trigger_if True event p s = Inr t" "io_inv t"
      using trigger_if_ok[OF inv p(2) ev, of True] by auto
    moreover from this obtain u where "io_trigger event p s = Inr u" "t = dec_pending u"
      by (auto simp: trigger_if_def)
    ultimately show ?thesis using True p(1) False by (auto simp: cancelEvent_def Let_def)
  qed
qed

lemma cancelAll_ok:
  assumes inv: "io_inv s" and fd: "0 \<le> fd"
  shows "\<exists>r t. cancelAll ctl fd s = Inr (r, t) \<and> io_inv t"
proof (cases "fd < int (length (m_fdContexts s))")
  case False
  with inv show ?thesis by (auto simp: cancelAll_def)
next
  case True
  have "io_struct s" using inv by (simp add: io_inv_def)
  from ctx_at_ok[OF this fd True] obtain p where p: "ctx_at fd s = Inr p" "p < ctx_next s" by blast
  let ?e = "fc_events (ctx_heap s p)"
  obtain u where u: "trigger_if (?e AND EV_READ \<noteq> 0) EV_READ p s = Inr u" "io_inv u" "ctx_next u = ctx_next s"
    "fc_events (ctx_heap u p) = (if ?e AND EV_READ \<noteq> 0 then ?e AND NOT EV_READ else ?e)"
    using trigger_if_ok[OF inv p(2) events(1)] by blast
  let ?f = "fc_events (ctx_heap u p)"
  have pu: "p < ctx_next u" using p(2) u(3) by simp
  obtain v where v: "trigger_if (?f AND EV_WRITE \<noteq> 0) EV_WRITE p u = Inr v" "io_inv v"
    "fc_events (ctx_heap v p) = (if ?f AND EV_WRITE \<noteq> 0 then ?f AND NOT EV_WRITE else ?f)"
    using trigger_if_ok[OF u(2) pu events(2)] by blast
  have "fc_events (ctx_heap v p) = 0"
    using ctx_ok_events[OF io_inv_ctx[OF inv p(2)]] u(4) v(3) by (elim disjE) (simp_all add: ev_defs)
  with True p(1) inv u(1) v(1,2) show ?thesis by (auto simp: cancelAll_def)
qed

text \<open>An event \<open>epoll_wait\<close> reports for a context, with nothing in it that is not registered.\<close>

lemma handle_event_ok:
  assumes inv: "io_inv s" and p: "p < ctx_next s"
    and rep: "ev AND (EPOLLIN OR EPOLLOUT) AND NOT (fc_events (ctx_heap s p)) = 0"
  shows "\<exists>t. handle_event ctl p ev s = Inr t \<and> io_inv t"
proof -
  let ?e = "fc_events (ctx_heap s p)"
  define ev' where "ev' = (if ev AND (EPOLLERR OR EPOLLHUP) \<noteq> 0 then ev OR ((EPOLLIN OR EPOLLOUT) AND ?e) else ev)"
  define re where "re = (if ev' AND EPOLLOUT \<noteq> 0 then (if ev' AND EPOLLIN \<noteq> 0 then EV_NONE OR EV_READ else EV_NONE) OR EV_WRITE
      else (if ev' AND EPOLLIN \<noteq> 0 then EV_NONE OR EV_READ else EV_NONE))"
  have sub: "ev' AND (EPOLLIN OR EPOLLOUT) AND NOT ?e = 0"
  proof -
    have "(ev OR ((EPOLLIN OR EPOLLOUT) AND ?e)) AND (EPOLLIN OR EPOLLOUT) AND NOT ?e
        = ev AND (EPOLLIN OR EPOLLOUT) AND NOT ?e"
      by (rule bit_word_eqI) (auto simp: bit_simps)
    with rep show ?thesis by (simp add: ev'_def)
  qed
  have one: "ev' AND b = 0 \<or> ?e AND b \<noteq> 0" if "b = EPOLLIN \<or> b = EPOLLOUT" for b
  proof -
    have "ev' AND b AND NOT ?e = 0"
      using sub that by (auto simp: bit_eq_iff bit_simps)
    moreover have "b AND NOT ?e = b" if "?e AND b = 0"
      using that by (auto simp: bit_eq_iff bit_simps)
    ultimately show ?thesis by (metis and.assoc)
  qed
  have reads: "?e AND EV_READ \<noteq> 0" if "re AND EV_READ \<noteq> 0"
    using that one[of EPOLLIN] by (auto simp: re_def ev_defs epoll_defs split: if_splits)
  have writes: "?e AND EV_WRITE \<noteq> 0" if "re AND EV_WRITE \<noteq> 0"
    using that one[of EPOLLOUT] by (auto simp: re_def ev_defs epoll_defs split: if_splits)
  obtain u where u: "trigger_if (re AND EV_READ \<noteq> 0) EV_READ p s = Inr u" "io_inv u" "ctx_next u = ctx_next s"
    "fc_events (ctx_heap u p) = (if re AND EV_READ \<noteq> 0 then ?e AND NOT EV_READ else ?e)"
    using trigger_if_ok[OF inv p events(1) reads] by blast
  have pu: "p < ctx_next u" using p u(3) by simp
  have w: "fc_events (ctx_heap u p) AND EV_WRITE \<noteq> 0" if "re AND EV_WRITE \<noteq> 0"
    using writes[OF that] u(4) ctx_ok_events[OF io_inv_ctx[OF inv p]]
    by (elim disjE) (simp_all add: ev_defs)
  obtain v where v: "trigger_if (re AND EV_WRITE \<noteq> 0) EV_WRITE p u = Inr v" "io_inv v"
    using trigger_if_ok[OF u(2) pu events(2) w] by blast
  show ?thesis
    using inv u(1) v unfolding handle_event_def Let_def ev'_def[symmetric] re_def[symmetric] by auto
qed

subsection \<open>Output\<close>

definition epoll_op_str :: "epoll_op \<Rightarrow> string" where
  "epoll_op_str op = (case op of EPOLL_CTL_ADD \<Rightarrow> ''EPOLL_CTL_ADD'' | EPOLL_CTL_MOD \<Rightarrow> ''EPOLL_CTL_MOD''
     | EPOLL_CTL_DEL \<Rightarrow> ''EPOLL_CTL_DEL'')"

definition epoll_event_names :: "(32 word \<times> string) list" where
  "epoll_event_names = [(EPOLLIN, ''EPOLLIN''), (0x002, ''EPOLLPRI''), (EPOLLOUT, ''EPOLLOUT''), (0x040, ''EPOLLRDNORM''),
     (0x080, ''EPOLLRDBAND''), (0x100, ''EPOLLWRNORM''), (0x200, ''EPOLLWRBAND''), (0x400, ''EPOLLMSG''),
     (EPOLLERR, ''EPOLLERR''), (EPOLLHUP, ''EPOLLHUP''), (0x2000, ''EPOLLRDHUP''), (0x40000000, ''EPOLLONESHOT''),
     (EPOLLET, ''EPOLLET'')]"

definition epoll_events_str :: "32 word \<Rightarrow> string" where
  "epoll_events_str events = (if events = 0 then ''0''
     else fst (fold (\<lambda>(e, name) (os, first). if events AND e \<noteq> 0 then (os @ (if first then [] else ''|'') @ name, False) else (os, first))
       epoll_event_names ([], True)))"

end
