(* ===== verification/IoProps.thy ===== *)
theory IoProps
  imports IoManager
begin

text \<open>
  The properties of the I/O manager: exactness of the count of pending events, and what goes
  wrong where the code leaves a case out (an event registered twice, a callback that is not
  reset, the vector of contexts shrunk by a race, an event reported after its removal, and
  overdue timers).
\<close>

subsection \<open>Reachable states\<close>

definition IOManager :: "nat \<Rightarrow> sched \<Rightarrow> nat \<Rightarrow> io_manager" where
  "IOManager self sch now = contextResize 32
     \<lparr>io_self = self, io_sched = sch, io_timers = TimerManager now, io_other = [], io_wakeups = 0,
      m_pendingEventCount = 0, m_fdContexts = [], ctx_heap = (\<lambda>_. new_fd_context 0), ctx_next = 0\<rparr>"

text \<open>
  The constructor with the answers of \<open>epoll_create\<close>, \<open>eventfd\<close>, \<open>fcntl\<close> and \<open>epoll_ctl\<close>, and its assertions; \<open>ids\<close> are
  the threads that \<open>start\<close> creates. The destructor returns the descriptors it closes.
\<close>

definition IOManager_ctor ::
  "int \<Rightarrow> int \<Rightarrow> int \<Rightarrow> int \<Rightarrow> int list \<Rightarrow> nat \<Rightarrow> nat \<Rightarrow> sched \<Rightarrow> nat \<Rightarrow> fault + io_manager"
where
  "IOManager_ctor epollfd wakeupfd nonblock added ids self threads sch now =
     (if \<not> 0 < epollfd then Inl Assert_failed
      else if wakeupfd = 0 then Inl Assert_failed
      else if nonblock \<noteq> 0 then Inl Assert_failed
      else if added \<noteq> 0 then Inl Assert_failed
      else let s = IOManager self (Scheduler threads sch) now in Inr (s\<lparr>io_sched := sched_start ids (io_sched s)\<rparr>))"

definition IOManager_dtor :: "int \<Rightarrow> int \<Rightarrow> io_manager \<Rightarrow> int list \<times> io_manager" where
  "IOManager_dtor epollfd wakeupfd s = ([epollfd, wakeupfd], s\<lparr>io_sched := sched_stop (io_sched s), m_fdContexts := []\<rparr>)"

text \<open>A failure of \<open>eventfd\<close>, which returns \<open>-1\<close>, is not what the assertion on its descriptor tests; the manager is
  made nevertheless only when \<open>fcntl\<close> succeeds on it.\<close>

lemma IOManager_ctor_returns:
  "(\<exists>s. IOManager_ctor epollfd wakeupfd nonblock added ids self threads sch now = Inr s)
     = (0 < epollfd \<and> wakeupfd \<noteq> 0 \<and> nonblock = 0 \<and> added = 0)"
  by (simp add: IOManager_ctor_def Let_def)

text \<open>
  Calls one after the other: an event is added by a coroutine or callback of a scheduler and
  only when it is not registered yet, and \<open>epoll_wait\<close> reports registered events only.
\<close>

inductive io_reachable :: "io_manager \<Rightarrow> bool" where
  reach_new: "io_reachable (IOManager self sch now)"
| reach_add: "io_reachable s \<Longrightarrow> 0 \<le> fd \<Longrightarrow> is_event event \<Longrightarrow>
    (\<forall>p. ctx_at fd s = Inr p \<longrightarrow> fc_events (ctx_heap s p) AND event = 0) \<Longrightarrow> cur_sched \<noteq> None \<Longrightarrow>
    snd cur_fiber = RUNING \<Longrightarrow> m_pendingEventCount s + 1 < 2 ^ 64 \<Longrightarrow>
    addEvent ctl cur_sched cur_fiber fd event cb s = Inr (r, t) \<Longrightarrow> io_reachable t"
| reach_del: "io_reachable s \<Longrightarrow> 0 \<le> fd \<Longrightarrow> is_event event \<Longrightarrow>
    delEvent ctl fd event s = Inr (b, t) \<Longrightarrow> io_reachable t"
| reach_cancel: "io_reachable s \<Longrightarrow> 0 \<le> fd \<Longrightarrow> is_event event \<Longrightarrow>
    cancelEvent ctl fd event s = Inr (b, t) \<Longrightarrow> io_reachable t"
| reach_cancelAll: "io_reachable s \<Longrightarrow> 0 \<le> fd \<Longrightarrow> cancelAll ctl fd s = Inr (b, t) \<Longrightarrow> io_reachable t"
| reach_event: "io_reachable s \<Longrightarrow> p < ctx_next s \<Longrightarrow>
    ev AND (EPOLLIN OR EPOLLOUT) AND NOT (fc_events (ctx_heap s p)) = 0 \<Longrightarrow>
    handle_event ctl p ev s = Inr t \<Longrightarrow> io_reachable t"

lemma trigger_if_contexts:
  "trigger_if b event p s = Inr t \<Longrightarrow> m_fdContexts t = m_fdContexts s"
  by (auto simp: trigger_if_def io_trigger_def split: if_splits)

lemma contexts_kept:
  "delEvent ctl fd event s = Inr (b, t) \<Longrightarrow> m_fdContexts t = m_fdContexts s"
  "cancelEvent ctl fd event s = Inr (b, t) \<Longrightarrow> m_fdContexts t = m_fdContexts s"
  "cancelAll ctl fd s = Inr (b, t) \<Longrightarrow> m_fdContexts t = m_fdContexts s"
  "handle_event ctl p ev s = Inr t \<Longrightarrow> m_fdContexts t = m_fdContexts s"
     apply (auto simp: delEvent_def Let_def split: if_splits)[1]
    apply (auto simp: cancelEvent_def io_trigger_def Let_def split: if_splits)[1]
   apply (auto simp: cancelAll_def Let_def dest!: trigger_if_contexts split: if_splits)[1]
  apply (unfold handle_event_def Let_def)
  apply (split if_split_asm; auto dest!: trigger_if_contexts split: if_split_asm)
  done

lemma io_reachable_inv: "io_reachable s \<Longrightarrow> io_inv s \<and> 32 \<le> length (m_fdContexts s)"
proof (induction rule: io_reachable.induct)
  case (reach_new self sch now)
  let ?s = "\<lparr>io_self = self, io_sched = sch, io_timers = TimerManager now, io_other = [], io_wakeups = 0,
      m_pendingEventCount = 0, m_fdContexts = [], ctx_heap = (\<lambda>_. new_fd_context 0), ctx_next = 0\<rparr>"
  have "io_inv ?s" by (simp add: io_inv_def io_struct_def registered_def)
  from contextResize_ok[OF this, of 32] show ?case by (simp add: IOManager_def)
next
  case (reach_add s fd event cur_sched cur_fiber ctl cb r t)
  then have "\<exists>r t. addEvent ctl cur_sched cur_fiber fd event cb s = Inr (r, t) \<and> io_inv t
     \<and> length (m_fdContexts s) \<le> length (m_fdContexts t)" by (intro addEvent_ok) auto
  with reach_add show ?case by auto
next
  case (reach_del s fd event ctl b t)
  with delEvent_ok[of s fd event ctl] contexts_kept(1)[OF reach_del(4)] show ?case by auto
next
  case (reach_cancel s fd event ctl b t)
  with cancelEvent_ok[of s fd event ctl] contexts_kept(2)[OF reach_cancel(4)] show ?case by auto
next
  case (reach_cancelAll s fd ctl b t)
  with cancelAll_ok[of s fd ctl] contexts_kept(3)[OF reach_cancelAll(3)] show ?case by auto
next
  case (reach_event s p ev ctl t)
  with handle_event_ok[of s p ev ctl] contexts_kept(4)[OF reach_event(4)] show ?case by auto
qed

text \<open>C8: as long as the calls on events, of descriptors that are not negative, come one after the other, an event is
  added only while it is not registered and fewer than \<open>2 ^ 64 - 1\<close> are pending, by a coroutine or callback of a scheduler, and \<open>epoll_wait\<close> reports registered events only
  (\<open>io_reachable\<close>), the count of pending events is exactly the number of registered events after every
  addition, removal, cancellation and report, and none of the last three dereferences a null scheduler,
  throws, fails its assertion or lets the count wrap. (Adding a registered event again leaks a count,
  \<open>addEvent_duplicate_leaks\<close>; a report that is out of date dereferences null,
  \<open>removed_event_is_triggered\<close>; two additions that interleave can lose an event,
  \<open>resize_race_loses_event\<close>.)\<close>

theorem pending_events_exact:
  assumes "io_reachable s" "0 \<le> fd" "is_event event"
  shows "m_pendingEventCount s = registered s
     \<and> (\<exists>b t. delEvent ctl fd event s = Inr (b, t) \<and> m_pendingEventCount t = registered t)
     \<and> (\<exists>b t. cancelEvent ctl fd event s = Inr (b, t) \<and> m_pendingEventCount t = registered t)
     \<and> (\<exists>b t. cancelAll ctl fd s = Inr (b, t) \<and> m_pendingEventCount t = registered t)
     \<and> (\<forall>p < ctx_next s. ev AND (EPOLLIN OR EPOLLOUT) AND NOT (fc_events (ctx_heap s p)) = 0 \<longrightarrow>
          (\<exists>t. handle_event ctl p ev s = Inr t \<and> m_pendingEventCount t = registered t))"
proof -
  have inv: "io_inv s" using io_reachable_inv[OF assms(1)] by blast
  have count: "m_pendingEventCount t = registered t" if "io_inv t" for t using that by (simp add: io_inv_def)
  from inv delEvent_ok[OF inv assms(2,3), of ctl] cancelEvent_ok[OF inv assms(2,3), of ctl]
    cancelAll_ok[OF inv assms(2), of ctl] handle_event_ok[OF inv, of _ ev ctl]
  show ?thesis by (metis count)
qed

subsection \<open>What the code leaves out\<close>

lemma addEvent_inside:
  "ctx_at fd s = Inr p \<Longrightarrow> addEvent ctl cur_sched cur_fiber fd event cb s
     = addEvent_commit ctl cur_sched cur_fiber fd event cb p s"
  by (auto simp: addEvent_def addEvent_lookup_def ctx_at_def split: if_splits)

text \<open>What a successful registration leaves in the context and in the count.\<close>

lemma addEvent_commit_InrD:
  assumes "addEvent_commit ctl cur_sched cur_fiber fd event cb p s = Inr (0, t)" "is_event event"
  shows "m_pendingEventCount t = uadd64 (m_pendingEventCount s) 1"
    "m_fdContexts t = m_fdContexts s" "ctx_next t = ctx_next s"
    "fc_events (ctx_heap t p) = fc_events (ctx_heap s p) OR event"
    "ec_scheduler (if event = EV_READ then fc_read (ctx_heap t p) else fc_write (ctx_heap t p)) = cur_sched"
    "ec_cb (if event = EV_READ then fc_read (ctx_heap t p) else fc_write (ctx_heap t p)) =
       (case cb of Some f \<Rightarrow> Some f
        | None \<Rightarrow> ec_cb (if event = EV_READ then fc_read (ctx_heap s p) else fc_write (ctx_heap s p)))"
    "\<And>q. q \<noteq> p \<Longrightarrow> ctx_heap t q = ctx_heap s q"
proof -
  let ?c = "ctx_heap s p"
  have g: "getContext event (?c\<lparr>fc_events := fc_events ?c OR event\<rparr>)
      = Inr (if event = EV_READ then fc_read ?c else fc_write ?c)"
    using assms(2) by (auto simp: getContext_def is_event_def ev_defs)
  note D = assms(1)[unfolded addEvent_commit_def Let_def g bindE.simps]
  show "m_pendingEventCount t = uadd64 (m_pendingEventCount s) 1"
    "m_fdContexts t = m_fdContexts s" "ctx_next t = ctx_next s"
    "fc_events (ctx_heap t p) = fc_events (ctx_heap s p) OR event"
    "ec_scheduler (if event = EV_READ then fc_read (ctx_heap t p) else fc_write (ctx_heap t p)) = cur_sched"
    "ec_cb (if event = EV_READ then fc_read (ctx_heap t p) else fc_write (ctx_heap t p)) =
       (case cb of Some f \<Rightarrow> Some f
        | None \<Rightarrow> ec_cb (if event = EV_READ then fc_read (ctx_heap s p) else fc_write (ctx_heap s p)))"
    using D by (auto simp: setContext_def split: if_splits option.splits)
  show "ctx_heap t q = ctx_heap s q" if "q \<noteq> p" for q
    using D that by (auto split: if_splits option.splits)
qed

text \<open>Adding an event that is registered already is logged but not refused: the call
  succeeds and counts one more pending event although none is registered, so that the count
  can never come back to 0 and the manager cannot stop.\<close>

lemma addEvent_duplicate_leaks:
  assumes "io_reachable s" "ctx_at fd s = Inr p" "p < ctx_next s" "is_event event"
    and "fc_events (ctx_heap s p) AND event \<noteq> 0" "m_pendingEventCount s + 1 < 2 ^ 64"
    and "addEvent ctl cur_sched cur_fiber fd event cb s = Inr (0, t)"
  shows "registered t = registered s \<and> m_pendingEventCount t = registered t + 1"
proof -
  have inv: "io_inv s" using io_reachable_inv[OF assms(1)] by blast
  note D = addEvent_commit_InrD[OF assms(7)[unfolded addEvent_inside[OF assms(2)]] assms(4)]
  have "fc_events (ctx_heap s p) OR event = fc_events (ctx_heap s p)"
    using ctx_ok_events[OF io_inv_ctx[OF inv assms(3)]] assms(4,5) unfolding is_event_def
    by (elim disjE) (simp_all add: ev_defs)
  with D(4) have "reg (ctx_heap t p) = reg (ctx_heap s p)" by (simp add: reg_def)
  then have "reg (ctx_heap t q) = reg (ctx_heap s q)" for q using D(7) by (cases "q = p") auto
  then have "registered t = registered s" by (simp add: registered_def D(3))
  then show ?thesis using D(1) inv assms(6) by (simp add: io_inv_def uadd64_no_wrap)
qed

lemma IOManager_fresh:
  "ctx_at 3 (IOManager self sch now) = Inr 3 \<and> ctx_next (IOManager self sch now) = 32
     \<and> ctx_heap (IOManager self sch now) 3 = new_fd_context 3 \<and> m_pendingEventCount (IOManager self sch now) = 0"
  by (simp add: IOManager_def contextResize_def ctx_at_def numeral_eq_Suc Let_def)

lemma addEvent_duplicate_leaks_witness:
  "\<exists>s t. io_reachable s \<and> addEvent (\<lambda>_ _ _. 0) (Some 0) (1, RUNING) 3 EV_READ None s = Inr (0, t)
     \<and> m_pendingEventCount t = registered t + 1"
proof -
  let ?ctl = "\<lambda>_ _ _. 0 :: int" and ?s0 = "IOManager 0 (demo_sched []) 0"
  note F = IOManager_fresh[of 0 "demo_sched []" 0]
  have c: "ctx_at 3 ?s0 = Inr 3" "ctx_next ?s0 = 32" "fc_events (ctx_heap ?s0 3) = 0" "m_pendingEventCount ?s0 = 0"
    using F by (simp_all add: new_fd_context_def ev_defs)
  obtain s where s: "addEvent ?ctl (Some 0) (1, RUNING) 3 EV_READ None ?s0 = Inr (0, s)"
    using c(1,3) by (simp add: addEvent_inside addEvent_commit_def getContext_def Let_def)
  have r: "io_reachable s"
    by (rule reach_add[OF reach_new _ _ _ _ _ _ s]) (use c in auto)
  note D = addEvent_commit_InrD[OF s[unfolded addEvent_inside[OF c(1)]] events(1)]
  have p: "ctx_at 3 s = Inr 3" using c(1) ctx_at_frame[OF D(2)] by simp
  have e: "fc_events (ctx_heap s 3) = EV_READ" using D(4) c(3) by simp
  obtain t where t: "addEvent ?ctl (Some 0) (1, RUNING) 3 EV_READ None s = Inr (0, t)"
    using p by (simp add: addEvent_inside addEvent_commit_def getContext_def Let_def)
  have "m_pendingEventCount t = registered t + 1"
    using addEvent_duplicate_leaks[OF r p _ events(1) _ _ t] D(1,3) c(2,4) e
    by (simp add: ev_defs uadd64_def)
  with r t show ?thesis by blast
qed

text \<open>An event that is added and removed.\<close>

lemma pending_events_exact_witness:
  "\<exists>s t. addEvent (\<lambda>_ _ _. 0) (Some 0) (1, RUNING) 3 EV_READ None (IOManager 0 (demo_sched []) 0) = Inr (0, s)
     \<and> registered s = 1 \<and> delEvent (\<lambda>_ _ _. 0) 3 EV_READ s = Inr (True, t) \<and> registered t = 0"
proof -
  let ?ctl = "\<lambda>_ _ _. 0 :: int" and ?s0 = "IOManager 0 (demo_sched []) 0"
  have c: "ctx_at 3 ?s0 = Inr 3" "ctx_next ?s0 = 32" "fc_events (ctx_heap ?s0 3) = 0" "m_pendingEventCount ?s0 = 0"
    using IOManager_fresh[of 0 "demo_sched []" 0] by (simp_all add: new_fd_context_def ev_defs)
  obtain s where s: "addEvent ?ctl (Some 0) (1, RUNING) 3 EV_READ None ?s0 = Inr (0, s)"
    using c(1,3) by (simp add: addEvent_inside addEvent_commit_def getContext_def Let_def)
  have r: "io_reachable s"
    by (rule reach_add[OF reach_new _ _ _ _ _ _ s]) (use c in auto)
  note D = addEvent_commit_InrD[OF s[unfolded addEvent_inside[OF c(1)]] events(1)]
  have p: "ctx_at 3 s = Inr 3" using c(1) ctx_at_frame[OF D(2)] by simp
  have e: "fc_events (ctx_heap s 3) = EV_READ" "m_pendingEventCount s = 1" using D(1,4) c(3,4) by (simp_all add: uadd64_def)
  have "3 < int (length (m_fdContexts s))" using p by (auto simp: ctx_at_def split: if_splits)
  then obtain t where t: "delEvent ?ctl 3 EV_READ s = Inr (True, t)" "m_pendingEventCount t = 0"
    using p e by (auto simp: delEvent_def getContext_def ev_defs usub64_def Let_def)
  have "registered s = 1" "registered t = 0"
    using pending_events_exact[OF r _ events(1), of 3 ?ctl] e(2) t by auto
  with s t(1) show ?thesis by blast
qed

text \<open>A callback stays in the context after its event was triggered. When a coroutine
  then waits for the same event without a callback, the event runs the old callback again and
  the coroutine is not resumed.\<close>

lemma stale_callback_runs_again:
  assumes "ctx_at fd s = Inr p"
    and "addEvent ctl (Some k) cur fd EV_READ (Some cb) s = Inr (0, s1)"
    and "triggerEvent EV_READ (ctx_heap s1 p) = Inr (c, sch, ft)" "s2 = put_ctx p c s1"
    and "addEvent ctl (Some k) (f, RUNING) fd EV_READ None s2 = Inr (0, s3)"
  shows "ft = \<lparr>tk_fiber = None, tk_cb = Some cb, tk_thread = - 1\<rparr>
     \<and> (\<exists>c'. triggerEvent EV_READ (ctx_heap s3 p) = Inr (c', k, \<lparr>tk_fiber = None, tk_cb = Some cb, tk_thread = - 1\<rparr>))"
proof -
  note D1 = addEvent_commit_InrD[OF assms(2)[unfolded addEvent_inside[OF assms(1)]] events(1)]
  have "ctx_at fd s2 = Inr p" using assms(1,4) D1(2) ctx_at_frame[of s2 s fd] by simp
  note D3 = addEvent_commit_InrD[OF assms(5)[unfolded addEvent_inside[OF this]] events(1)]
  have 1: "ec_scheduler (fc_read (ctx_heap s1 p)) = Some k" "ec_cb (fc_read (ctx_heap s1 p)) = Some cb"
    using D1(5,6) by simp_all
  have "ec_cb (fc_read c) = Some cb" and ft: "ft = \<lparr>tk_fiber = None, tk_cb = Some cb, tk_thread = - 1\<rparr>"
    using assms(3) 1 by (auto simp: triggerEvent_def getContext_def setContext_def Let_def)
  then have "ec_scheduler (fc_read (ctx_heap s3 p)) = Some k" "ec_cb (fc_read (ctx_heap s3 p)) = Some cb"
    using D3(5,6) assms(4) by simp_all
  with ft show ?thesis by (simp add: triggerEvent_def getContext_def Let_def)
qed

lemma stale_callback_runs_again_witness:
  "\<exists>s1 c s3 c'. addEvent (\<lambda>_ _ _. 0) (Some 0) (1, RUNING) 3 EV_READ (Some (Callback 7)) (IOManager 0 (demo_sched []) 0) = Inr (0, s1)
     \<and> addEvent (\<lambda>_ _ _. 0) (Some 0) (5, RUNING) 3 EV_READ None (put_ctx 3 c s1) = Inr (0, s3)
     \<and> triggerEvent EV_READ (ctx_heap s3 3) = Inr (c', 0, \<lparr>tk_fiber = None, tk_cb = Some (Callback 7), tk_thread = - 1\<rparr>)"
proof -
  let ?ctl = "\<lambda>_ _ _. 0 :: int" and ?s0 = "IOManager 0 (demo_sched []) 0"
  have c: "ctx_at 3 ?s0 = Inr 3" using IOManager_fresh by simp
  obtain s1 where s1: "addEvent ?ctl (Some 0) (1, RUNING) 3 EV_READ (Some (Callback 7)) ?s0 = Inr (0, s1)"
    using c by (simp add: addEvent_inside addEvent_commit_def getContext_def Let_def)
  note D = addEvent_commit_InrD[OF s1[unfolded addEvent_inside[OF c]] events(1)]
  obtain c1 sch ft where t: "triggerEvent EV_READ (ctx_heap s1 3) = Inr (c1, sch, ft)"
    using D(5) by (auto simp: triggerEvent_def getContext_def Let_def)
  have "ctx_at 3 (put_ctx 3 c1 s1) = Inr 3" using c D(2) ctx_at_frame[of "put_ctx 3 c1 s1" ?s0 3] by simp
  then obtain s3 where s3: "addEvent ?ctl (Some 0) (5, RUNING) 3 EV_READ None (put_ctx 3 c1 s1) = Inr (0, s3)"
    by (simp add: addEvent_inside addEvent_commit_def getContext_def Let_def)
  from stale_callback_runs_again[OF c s1 t refl s3] s1 s3 show ?thesis by blast
qed

text \<open>C19: between the read lock and the write lock of \<open>addEvent\<close> another thread can enlarge
  the vector and register an event; \<open>contextResize\<close> with the smaller size then drops that
  context. The event can no longer be removed, and its count stays.\<close>

theorem resize_race_loses_event:
  assumes "io_reachable s" "0 \<le> a" "0 \<le> b" "is_event event" "cur_sched \<noteq> None" "m_pendingEventCount s + 1 < 2 ^ 64"
    and "addEvent_lookup a s = Inr None" "3 * a div 2 \<le> b" "int (length (m_fdContexts s)) \<le> b"
    and "addEvent ctl cur_sched (f, RUNING) b event cb s = Inr (0, t)"
    and "addEvent_grow a t = Inr (p, u)"
  shows "delEvent ctl b event u = Inr (False, u) \<and> m_pendingEventCount u = m_pendingEventCount s + 1
     \<and> length (m_fdContexts u) < length (m_fdContexts t)"
proof -
  have inv: "io_inv s" and len: "32 \<le> length (m_fdContexts s)" using io_reachable_inv[OF assms(1)] by blast+
  let ?n = "nat (3 * b div 2)"
  let ?v = "contextResize ?n s"
  note R = contextResize_ok[OF inv, of ?n]
  have "addEvent_lookup b s = Inr None" using assms(9) by (simp add: addEvent_lookup_def)
  then obtain q where q: "addEvent_commit ctl cur_sched (f, RUNING) b event cb q ?v = Inr (0, t)"
    using assms(10) by (auto simp: addEvent_def addEvent_grow_def Let_def)
  note D = addEvent_commit_InrD[OF q assms(4)]
  have lt: "length (m_fdContexts t) = ?n" using D(2) R by simp
  have pend: "m_pendingEventCount t = m_pendingEventCount s + 1"
    using D(1) R assms(6) by (simp add: uadd64_no_wrap)
  have none: "ctx_at b s \<noteq> Inr r" for r using assms(9) by (auto simp: ctx_at_def)
  have "io_reachable t"
    by (rule reach_add[OF assms(1,3,4) _ assms(5) _ assms(6,10)]) (use none in auto)
  then have "io_inv t" using io_reachable_inv by blast
  let ?m = "nat (3 * a div 2)"
  note Q = contextResize_ok[OF \<open>io_inv t\<close>, of ?m]
  have u: "u = contextResize ?m t" using assms(11) by (auto simp: addEvent_grow_def Let_def)
  have "length (m_fdContexts u) = ?m" "m_pendingEventCount u = m_pendingEventCount t" using Q u by simp_all
  moreover have "int ?m \<le> b" "?m < ?n" using assms(2,3,8,9) len by auto
  ultimately show ?thesis using pend lt by (simp add: delEvent_def)
qed

lemma resize_race_loses_event_witness:
  "\<exists>t p u. addEvent (\<lambda>_ _ _. 0) (Some 0) (1, RUNING) 100 EV_READ None (IOManager 0 (demo_sched []) 0) = Inr (0, t)
     \<and> addEvent_grow 40 t = Inr (p, u) \<and> delEvent (\<lambda>_ _ _. 0) 100 EV_READ u = Inr (False, u)
     \<and> m_pendingEventCount u = 1"
proof -
  let ?ctl = "\<lambda>_ _ _. 0 :: int" and ?s = "IOManager 0 (demo_sched []) 0"
  have r: "io_reachable ?s" by (rule reach_new)
  have inv: "io_inv ?s" using io_reachable_inv[OF r] by blast
  have pend: "m_pendingEventCount ?s = 0" using IOManager_fresh by simp
  have len: "length (m_fdContexts ?s) = 32"
    by (simp add: IOManager_def contextResize_def numeral_eq_Suc Let_def)
  have grow: "\<exists>p. ctx_at fd (contextResize (nat n) s) = Inr p" if "io_inv s" "0 \<le> fd" "fd < n" for fd n s
    using contextResize_ok[OF that(1), of "nat n"] ctx_at_ok[of "contextResize (nat n) s" fd] that(2,3)
    by (auto simp: io_inv_def)
  obtain q where "ctx_at 100 (contextResize 150 ?s) = Inr q" using grow[OF inv, of 100 150] by auto
  then obtain t where t: "addEvent ?ctl (Some 0) (1, RUNING) 100 EV_READ None ?s = Inr (0, t)"
    using len by (simp add: addEvent_def addEvent_lookup_def addEvent_grow_def addEvent_commit_def getContext_def Let_def)
  have "io_reachable t"
    by (rule reach_add[OF r _ _ _ _ _ _ t]) (use pend len in \<open>auto simp: ctx_at_def\<close>)
  then have "io_inv t" using io_reachable_inv by blast
  from grow[OF this, of 40 60] obtain p u where u: "addEvent_grow 40 t = Inr (p, u)"
    by (auto simp: addEvent_grow_def Let_def)
  have "addEvent_lookup 40 ?s = Inr None" using len by (simp add: addEvent_lookup_def)
  from resize_race_loses_event[OF r _ _ events(1) _ _ this _ _ t u] t u show ?thesis
    by (simp add: pend len)
qed

text \<open>\<open>idle\<close> triggers every event that \<open>epoll_wait\<close> reported, not only those still
  registered: when the read event was removed after the report while the write event is still
  there, the removed one is triggered too, through the scheduler pointer that was reset.\<close>

lemma removed_event_is_triggered:
  assumes "fc_events (ctx_heap s p) = EV_WRITE" "ec_scheduler (fc_read (ctx_heap s p)) = None"
    and "ev AND EPOLLIN \<noteq> 0" "ev AND EPOLLOUT \<noteq> 0" "\<And>op fd e. ctl op fd e = 0"
  shows "handle_event ctl p ev s = Inl Null_deref"
proof -
  have "(ev OR x) AND EPOLLIN \<noteq> 0" "(ev OR x) AND EPOLLOUT \<noteq> 0" for x
    using assms(3,4) by (auto simp: bit_eq_iff bit_simps)
  with assms show ?thesis
    by (simp add: handle_event_def trigger_if_def io_trigger_def triggerEvent_def getContext_def ev_defs Let_def)
qed

lemma removed_event_is_triggered_witness:
  "\<exists>s. handle_event (\<lambda>_ _ _. 0) 3 (EPOLLIN OR EPOLLOUT) s = Inl Null_deref"
proof -
  let ?s0 = "IOManager 0 (demo_sched []) 0"
  let ?s = "put_ctx 3 ((new_fd_context 3)\<lparr>fc_events := EV_WRITE\<rparr>) ?s0"
  have "handle_event (\<lambda>_ _ _. 0) 3 (EPOLLIN OR EPOLLOUT) ?s = Inl Null_deref"
    by (rule removed_event_is_triggered) (simp_all add: new_fd_context_def new_event_context_def epoll_defs)
  then show ?thesis by blast
qed

subsection \<open>Timers and the idle coroutine\<close>

lemma as_int_small: "x < 2 ^ 31 \<Longrightarrow> as_int x = int x"
  by (simp add: as_int_def signed_take_bit_int_eq_self)

lemma as_int_eq: "as_int x = (int x + 2 ^ 31) mod 2 ^ 32 - 2 ^ 31"
  by (simp add: as_int_def signed_take_bit_eq_take_bit_shift take_bit_eq_mod)

lemma as_int_wrapped:
  assumes "0 < k" "k \<le> 2 ^ 31" shows "as_int (2 ^ 64 - k) = - int k"
proof -
  have "int (2 ^ 64 - k) + 2 ^ 31 = (2 ^ 31 - int k) + 2 ^ 32 * 2 ^ 32" using assms by (simp add: of_nat_diff)
  then have "(int (2 ^ 64 - k) + 2 ^ 31) mod 2 ^ 32 = (2 ^ 31 - int k) mod 2 ^ 32"
    by (simp only: mod_mult_self2)
  also have "\<dots> = 2 ^ 31 - int k" using assms by (intro mod_pos_pos_trivial) auto
  finally show ?thesis unfolding as_int_eq by linarith
qed

lemma as_int_negative:
  assumes "2 ^ 31 \<le> x" "x < 2 ^ 32" shows "as_int x = int x - 2 ^ 32"
proof -
  have "int x + 2 ^ 31 = (int x - 2 ^ 31) + 2 ^ 32 * 1" by simp
  then have "(int x + 2 ^ 31) mod 2 ^ 32 = (int x - 2 ^ 31) mod 2 ^ 32" by (simp only: mod_mult_self2)
  also have "\<dots> = int x - 2 ^ 31" using assms by (intro mod_pos_pos_trivial) auto
  finally show ?thesis unfolding as_int_eq by simp
qed

text \<open>C20: how long \<open>idle\<close> waits, by what \<open>getNextTimer\<close> answers for the first timer: for one that is
  less than \<open>2 ^ 31\<close> milliseconds ahead until it is due, but no longer than three seconds; for one
  \<open>2 ^ 31\<close> to \<open>2 ^ 32\<close> milliseconds ahead a negative timeout, which waits for ever; for one overdue by one
  millisecond three seconds; for one overdue by more, up to \<open>2 ^ 31\<close> milliseconds, again a negative
  timeout.\<close>

theorem idle_wait_for_first_timer:
  assumes "tm_reachable tm" "m_timers tm \<noteq> []" "now < 2 ^ 64"
    and "due_at = t_next (t_heap tm (hd (m_timers tm)))"
  shows "(now \<le> due_at \<and> due_at - now < 2 ^ 31 \<longrightarrow>
            idle_timeout (fst (getNextTimer now tm)) = min 3000 (int (due_at - now)))
     \<and> (now \<le> due_at \<and> 2 ^ 31 \<le> due_at - now \<and> due_at - now < 2 ^ 32 \<longrightarrow>
            idle_timeout (fst (getNextTimer now tm)) < 0)
     \<and> (now = due_at + 1 \<longrightarrow> idle_timeout (fst (getNextTimer now tm)) = 3000)
     \<and> (due_at + 1 < now \<and> now - due_at \<le> 2 ^ 31 \<longrightarrow>
            idle_timeout (fst (getNextTimer now tm)) = - int (now - due_at))"
proof -
  obtain a ts where ts: "m_timers tm = a # ts" using assms(2) by (cases "m_timers tm") auto
  have lt: "due_at < 2 ^ 64" using tm_invD(3)[OF tm_reachable_inv[OF assms(1)], of a] ts assms(4) by simp
  have v: "fst (getNextTimer now tm) = (if now \<le> due_at then due_at - now else 2 ^ 64 - (now - due_at))"
    using lt assms(3,4) usub64_no_wrap[of now due_at] usub64_wrap[of due_at now]
    by (auto simp: getNextTimer_def ts Let_def)
  show ?thesis
  proof (intro conjI impI)
    assume a: "now \<le> due_at \<and> due_at - now < 2 ^ 31"
    then have "due_at - now \<noteq> u64max" by (auto simp: u64max_def)
    moreover have "as_int (due_at - now) = int (due_at - now)" by (rule as_int_small) (use a in simp)
    moreover have "as_int 3000 = 3000" using as_int_small[of 3000] by simp
    ultimately show "idle_timeout (fst (getNextTimer now tm)) = min 3000 (int (due_at - now))"
      using a v by (auto simp: idle_timeout_def Let_def min_def)
  next
    assume a: "now \<le> due_at \<and> 2 ^ 31 \<le> due_at - now \<and> due_at - now < 2 ^ 32"
    then have "due_at - now \<noteq> u64max" by (auto simp: u64max_def)
    moreover have "as_int (due_at - now) = int (due_at - now) - 2 ^ 32" using a by (intro as_int_negative) simp_all
    ultimately show "idle_timeout (fst (getNextTimer now tm)) < 0"
      using a v by (auto simp: idle_timeout_def Let_def)
  next
    assume "now = due_at + 1"
    then have "fst (getNextTimer now tm) = u64max" using v by (simp add: u64max_def)
    then show "idle_timeout (fst (getNextTimer now tm)) = 3000"
      using as_int_small[of 3000] by (simp add: idle_timeout_def)
  next
    assume a: "due_at + 1 < now \<and> now - due_at \<le> 2 ^ 31"
    then have e: "fst (getNextTimer now tm) = 2 ^ 64 - (now - due_at)" "2 ^ 64 - (now - due_at) \<noteq> u64max"
      using v by (auto simp: u64max_def)
    have "as_int (2 ^ 64 - (now - due_at)) = - int (now - due_at)" by (rule as_int_wrapped) (use a in auto)
    with a e show "idle_timeout (fst (getNextTimer now tm)) = - int (now - due_at)"
      by (simp add: idle_timeout_def Let_def)
  qed
qed

lemma idle_wait_for_first_timer_witness:
  "\<exists>tm. tm_reachable tm \<and> m_timers tm \<noteq> [] \<and> idle_timeout (fst (getNextTimer 107 tm)) = - 2"
proof -
  obtain tm where tm: "tm_reachable tm" "m_timers tm = [2]" "t_heap tm 2 = new_timer 100 5 (Some (Callback 7)) False"
    by (rule one_timer)
  have "t_next (t_heap tm 2) = 105" by (simp add: tm(3) new_timer_def uadd64_def)
  then show ?thesis using idle_wait_for_first_timer[OF tm(1), of 107 105] tm by auto
qed

end
