(* ===== verification/FdManager.thy ===== *)
theory FdManager
  imports Prelude
begin

unbundle bit_operations_syntax

text \<open>
  What the hooks know of a file descriptor (\<^verbatim>\<open>include/fdmanager.h\<close>, \<^verbatim>\<open>src/fdmanager.cc\<close>): its
  context and the table of contexts. The kernel is the answer of \<open>fstat\<close>, an argument, and
  the status flags that \<open>fcntl\<close> reads and writes, a component of the state. A \<open>FdCtx::ptr\<close> is
  an address in \<open>fd_heap\<close>.
\<close>

subsection \<open>State\<close>

record fd_ctx =
  m_isInit :: bool
  m_isSocket :: bool
  m_sysNonblock :: bool
  m_userNonblock :: bool
  m_isClosed :: bool
  m_fd :: int
  m_recvTimeout :: nat
  m_sendTimeout :: nat

record fd_manager =
  m_datas :: "nat option list"
  fd_heap :: "nat \<Rightarrow> fd_ctx"
  fd_next :: nat
  k_flags :: "int \<Rightarrow> 32 word"

datatype sock_opt = SO_RCVTIMEO | SO_SNDTIMEO

definition O_NONBLOCK :: "32 word" where
  "O_NONBLOCK = 0x800"

subsection \<open>FdCtx\<close>

text \<open>
  \<open>init\<close>; \<open>stat fd\<close> is what \<open>fstat\<close> finds: nothing (it fails) or whether the descriptor is a
  socket. The second result is the descriptor's kernel flags afterwards.
\<close>

definition fdctx_init :: "(int \<Rightarrow> bool option) \<Rightarrow> 32 word \<Rightarrow> fd_ctx \<Rightarrow> bool \<times> 32 word \<times> fd_ctx" where
  "fdctx_init stat flags c =
     (if m_isInit c then (True, flags, c)
      else
        let c = c\<lparr>m_recvTimeout := u64max, m_sendTimeout := u64max\<rparr>;
            c = (case stat (m_fd c) of
                   None \<Rightarrow> c\<lparr>m_isInit := False, m_isSocket := False\<rparr>
                 | Some sock \<Rightarrow> c\<lparr>m_isInit := True, m_isSocket := sock\<rparr>);
            (flags, c) = (if m_isSocket c
               then (if flags AND O_NONBLOCK = 0 then flags OR O_NONBLOCK else flags, c\<lparr>m_sysNonblock := True\<rparr>)
               else (flags, c\<lparr>m_sysNonblock := False\<rparr>));
            c = c\<lparr>m_userNonblock := False, m_isClosed := False\<rparr>
        in (m_isInit c, flags, c))"

definition FdCtx :: "(int \<Rightarrow> bool option) \<Rightarrow> int \<Rightarrow> 32 word \<Rightarrow> 32 word \<times> fd_ctx" where
  "FdCtx stat fd flags = snd (fdctx_init stat flags
     \<lparr>m_isInit = False, m_isSocket = False, m_sysNonblock = False, m_userNonblock = False, m_isClosed = False,
      m_fd = fd, m_recvTimeout = u64max, m_sendTimeout = u64max\<rparr>)"

definition setTimeout :: "sock_opt \<Rightarrow> nat \<Rightarrow> fd_ctx \<Rightarrow> fd_ctx" where
  "setTimeout ty v c = (if ty = SO_RCVTIMEO then c\<lparr>m_recvTimeout := v\<rparr> else c\<lparr>m_sendTimeout := v\<rparr>)"

definition getTimeout :: "sock_opt \<Rightarrow> fd_ctx \<Rightarrow> nat" where
  "getTimeout ty c = (if ty = SO_RCVTIMEO then m_recvTimeout c else m_sendTimeout c)"

definition setUserNonblock :: "bool \<Rightarrow> fd_ctx \<Rightarrow> fd_ctx" where
  "setUserNonblock v c = c\<lparr>m_userNonblock := v\<rparr>"

subsection \<open>FdManager\<close>

definition FdManager :: "(int \<Rightarrow> 32 word) \<Rightarrow> fd_manager" where
  "FdManager flags = \<lparr>m_datas = replicate 64 None,
     fd_heap = (\<lambda>_. \<lparr>m_isInit = False, m_isSocket = False, m_sysNonblock = False, m_userNonblock = False,
       m_isClosed = False, m_fd = - 1, m_recvTimeout = u64max, m_sendTimeout = u64max\<rparr>),
     fd_next = 0, k_flags = flags\<rparr>"

text \<open>Under the read lock: the answer, or \<open>None\<close> to go on and create a context.\<close>

definition fd_get_lookup :: "int \<Rightarrow> bool \<Rightarrow> fd_manager \<Rightarrow> fault + nat option option" where
  "fd_get_lookup fd auto_create s =
     (if int (length (m_datas s)) \<le> fd then Inr (if auto_create then None else Some None)
      else if fd < 0 then Inl Bad_index
      else Inr (if m_datas s ! nat fd \<noteq> None \<or> \<not> auto_create then Some (m_datas s ! nat fd) else None))"

text \<open>Under the write lock; \<open>fd * 1.5\<close> is truncated.\<close>

definition fd_get_create :: "(int \<Rightarrow> bool option) \<Rightarrow> int \<Rightarrow> fd_manager \<Rightarrow> fault + nat option \<times> fd_manager" where
  "fd_get_create stat fd s =
     (let (flags, c) = FdCtx stat fd (k_flags s fd); p = fd_next s;
          s = s\<lparr>fd_heap := (fd_heap s)(p := c), fd_next := p + 1, k_flags := (k_flags s)(fd := flags)\<rparr>;
          n = nat (fd * 3 div 2);
          s = (if int (length (m_datas s)) \<le> fd
               then s\<lparr>m_datas := take n (m_datas s) @ replicate (n - length (m_datas s)) None\<rparr> else s)
      in if fd < 0 \<or> length (m_datas s) \<le> nat fd then Inl Bad_index
         else Inr (Some p, s\<lparr>m_datas := (m_datas s)[nat fd := Some p]\<rparr>))"

definition fd_get ::
  "(int \<Rightarrow> bool option) \<Rightarrow> int \<Rightarrow> bool \<Rightarrow> fd_manager \<Rightarrow> fault + nat option \<times> fd_manager"
where
  "fd_get stat fd auto_create s =
     (if fd = - 1 then Inr (None, s)
      else bindE (fd_get_lookup fd auto_create s) (\<lambda>r. case r of
          Some c \<Rightarrow> Inr (c, s)
        | None \<Rightarrow> fd_get_create stat fd s))"

definition fd_del :: "int \<Rightarrow> fd_manager \<Rightarrow> fault + fd_manager" where
  "fd_del fd s =
     (if int (length (m_datas s)) \<le> fd then Inr s
      else if fd < 0 then Inl Bad_index
      else Inr (s\<lparr>m_datas := (m_datas s)[nat fd := None]\<rparr>))"

subsection \<open>A table of handles\<close>

text \<open>What the hooks rely on: creating, finding and removing the context of a descriptor.\<close>

locale handle_table =
  fixes look :: "'s \<Rightarrow> int \<Rightarrow> 'h option"
    and create :: "int \<Rightarrow> 's \<Rightarrow> 'e + 'h option \<times> 's"
    and remove :: "int \<Rightarrow> 's \<Rightarrow> 'e + 's"
    and inv :: "'s \<Rightarrow> bool"
  assumes create_spec: "inv s \<Longrightarrow> 0 \<le> fd \<Longrightarrow> \<exists>h t. create fd s = Inr (Some h, t) \<and> inv t
      \<and> look t = (look s)(fd := Some h) \<and> (\<forall>h'. look s fd = Some h' \<longrightarrow> h = h' \<and> t = s)"
    and remove_spec: "inv s \<Longrightarrow> 0 \<le> fd \<Longrightarrow> \<exists>t. remove fd s = Inr t \<and> inv t \<and> look t = (look s)(fd := None)"
begin

lemma create_twice:
  assumes "inv s" "0 \<le> fd" "create fd s = Inr (h, t)"
  shows "create fd t = Inr (h, t)"
proof -
  obtain g where t: "h = Some g" "inv t" "look t = (look s)(fd := Some g)"
    using create_spec[OF assms(1,2)] assms(3) by auto
  from create_spec[OF t(2) assms(2)] t(1,3) show ?thesis by auto
qed

lemma create_remove:
  assumes "inv s" "0 \<le> fd" "create fd s = Inr (h, t)"
  shows "\<exists>u. remove fd t = Inr u \<and> inv u \<and> look u fd = None \<and> (\<forall>fd'. fd' \<noteq> fd \<longrightarrow> look u fd' = look s fd')"
proof -
  have t: "inv t" "\<exists>g. look t = (look s)(fd := Some g)"
    using create_spec[OF assms(1,2)] assms(3) by auto
  from remove_spec[OF t(1) assms(2)] t(2) show ?thesis by auto
qed

end

definition fd_look :: "fd_manager \<Rightarrow> int \<Rightarrow> nat option" where
  "fd_look s fd = (if fd < 0 \<or> length (m_datas s) \<le> nat fd then None else m_datas s ! nat fd)"

text \<open>No two descriptors share a context.\<close>

definition fd_inv :: "fd_manager \<Rightarrow> bool" where
  "fd_inv s \<longleftrightarrow> 2 \<le> length (m_datas s) \<and> (\<forall>fd p. fd_look s fd = Some p \<longrightarrow> p < fd_next s)
     \<and> (\<forall>fd fd' p. fd_look s fd = Some p \<and> fd_look s fd' = Some p \<longrightarrow> fd = fd')"

lemma fd_inv_new: "fd_inv (FdManager flags)"
  by (auto simp: fd_inv_def fd_look_def FdManager_def split: if_splits)

lemma fd_look_update:
  "0 \<le> fd \<Longrightarrow> nat fd < length (m_datas s) \<Longrightarrow>
   fd_look (s\<lparr>m_datas := (m_datas s)[nat fd := v]\<rparr>) = (fd_look s)(fd := v)"
  by (rule ext) (auto simp: fd_look_def nth_list_update eq_nat_nat_iff)

lemma fd_look_grow:
  assumes "length (m_datas s) \<le> n"
  shows "fd_look (s\<lparr>m_datas := take n (m_datas s) @ replicate (n - length (m_datas s)) None\<rparr>) = fd_look s"
  using assms by (auto simp: fd_look_def nth_append fun_eq_iff)

lemma fd_get_create_ok:
  assumes inv: "fd_inv s" and fd: "0 \<le> fd" and none: "fd_look s fd = None"
  shows "\<exists>t. fd_get_create stat fd s = Inr (Some (fd_next s), t) \<and> fd_inv t
     \<and> fd_look t = (fd_look s)(fd := Some (fd_next s))
     \<and> fd_heap t (fd_next s) = snd (FdCtx stat fd (k_flags s fd)) \<and> k_flags t fd = fst (FdCtx stat fd (k_flags s fd))"
proof -
  obtain flags c where c: "FdCtx stat fd (k_flags s fd) = (flags, c)" by (metis surj_pair)
  let ?p = "fd_next s" and ?n = "nat (fd * 3 div 2)"
  let ?u = "s\<lparr>fd_heap := (fd_heap s)(?p := c), fd_next := ?p + 1, k_flags := (k_flags s)(fd := flags)\<rparr>"
  define v where "v = (if int (length (m_datas s)) \<le> fd
     then ?u\<lparr>m_datas := take ?n (m_datas ?u) @ replicate (?n - length (m_datas ?u)) None\<rparr> else ?u)"
  have two: "2 \<le> length (m_datas s)" using inv by (simp add: fd_inv_def)
  have len: "nat fd < length (m_datas v)" "length (m_datas s) \<le> length (m_datas v)"
  proof (atomize (full), cases "int (length (m_datas s)) \<le> fd")
    case True
    then have "nat fd < ?n" "length (m_datas s) \<le> ?n" using two fd by linarith+
    with True show "nat fd < length (m_datas v) \<and> length (m_datas s) \<le> length (m_datas v)" by (simp add: v_def)
  qed (use fd in \<open>simp add: v_def\<close>)
  have same: "fd_look ?u = fd_look s" by (simp add: fd_look_def fun_eq_iff)
  have look: "fd_look v = fd_look s"
  proof (cases "int (length (m_datas s)) \<le> fd")
    case True
    then have "length (m_datas ?u) \<le> ?n" using two fd by simp
    from trans[OF fd_look_grow[OF this] same] show ?thesis unfolding v_def if_P[OF True] .
  next
    case False
    with same show ?thesis by (simp add: v_def)
  qed
  have nx: "fd_next v = ?p + 1" "fd_heap v ?p = c" "k_flags v fd = flags" by (simp_all add: v_def)
  let ?t = "v\<lparr>m_datas := (m_datas v)[nat fd := Some ?p]\<rparr>"
  have lt: "fd_look ?t = (fd_look s)(fd := Some ?p)"
    using fd_look_update[OF fd len(1), of "Some ?p"] look by simp
  have "fd_get_create stat fd s = Inr (Some ?p, ?t)"
    using fd len(1) by (simp add: fd_get_create_def c Let_def v_def nat_le_eq_zle split: if_splits)
  moreover have "fd_inv ?t"
  proof -
    have "\<forall>fd p. fd_look s fd = Some p \<longrightarrow> p < ?p" using inv by (simp add: fd_inv_def)
    moreover have "\<forall>fd fd' p. fd_look s fd = Some p \<and> fd_look s fd' = Some p \<longrightarrow> fd = fd'"
      using inv by (simp add: fd_inv_def)
    ultimately show ?thesis
      using two len(2) unfolding fd_inv_def lt by (auto simp: nx less_Suc_eq split: if_splits)
  qed
  ultimately show ?thesis using lt nx c by auto
qed

lemma fd_get_found:
  "0 \<le> fd \<Longrightarrow> fd_look s fd = Some p \<Longrightarrow> fd_get stat fd b s = Inr (Some p, s)"
  by (auto simp: fd_get_def fd_get_lookup_def fd_look_def split: if_splits)

lemma fd_get_missing:
  "0 \<le> fd \<Longrightarrow> fd_look s fd = None \<Longrightarrow>
   fd_get stat fd b s = (if b then fd_get_create stat fd s else Inr (None, s))"
  by (auto simp: fd_get_def fd_get_lookup_def fd_look_def split: if_splits)

lemma fd_del_ok:
  assumes "fd_inv s" "0 \<le> fd"
  shows "\<exists>t. fd_del fd s = Inr t \<and> fd_inv t \<and> fd_look t = (fd_look s)(fd := None)"
proof (cases "int (length (m_datas s)) \<le> fd")
  case True
  then have "fd_look s fd = None" by (auto simp: fd_look_def)
  then have "(fd_look s)(fd := None) = fd_look s" by auto
  with True assms show ?thesis by (simp add: fd_del_def)
next
  case False
  let ?t = "s\<lparr>m_datas := (m_datas s)[nat fd := None]\<rparr>"
  have l: "fd_look ?t = (fd_look s)(fd := None)" by (rule fd_look_update) (use False assms in auto)
  have "fd_inv ?t" using assms(1) unfolding fd_inv_def l by (auto split: if_splits)
  with False assms l show ?thesis by (simp add: fd_del_def)
qed

interpretation fdt: handle_table fd_look "\<lambda>fd. fd_get stat fd True" fd_del fd_inv for stat
proof (unfold_locales, goal_cases)
  case (1 s fd)
  show ?case
  proof (cases "fd_look s fd")
    case None
    from fd_get_create_ok[OF 1 None, of stat] fd_get_missing[OF 1(2) None, of stat True] None show ?thesis by auto
  next
    case (Some p)
    have "(fd_look s)(fd := Some p) = fd_look s" using Some by auto
    with fd_get_found[OF 1(2) Some, of stat True] 1 Some show ?thesis by auto
  qed
next
  case (2 s fd)
  then show ?case by (rule fd_del_ok)
qed

end
