(* ===== verification/Hook.thy ===== *)
theory Hook
  imports FdManager IoProps "HOL-Library.Signed_Division"
begin

unbundle bit_operations_syntax

text \<open>
  The system calls that are replaced so that they suspend the coroutine and not the thread
  (\<^verbatim>\<open>include/hook.h\<close>, \<^verbatim>\<open>src/hook.cc\<close>). The kernel's answers are lists of results in the order
  of the calls; how a suspended coroutine is resumed is a list as well. A definition returns
  what the caller gets and the actions taken, or \<open>None\<close> when the answers run out, that is,
  while it still waits.
\<close>

subsection \<open>Answers and actions\<close>

datatype errno = EINTR | EAGAIN | EBADF | ETIMEDOUT | EINPROGRESS | Errno nat

text \<open>A call returns a value, or \<open>-1\<close> with \<open>errno\<close> set.\<close>

datatype sys_result = Sys_ret int | Sys_err errno

datatype hook_act = Call_fun | Add_timer nat | Add_event "32 word" | Swap_out | Cancel_timer

text \<open>
  Registering the event fails, or the coroutine comes back from \<open>swapOut\<close>; then the flag is
  \<open>tinfo->cancelled\<close>, which only the callback of the timer sets.
\<close>

datatype wake = Add_failed errno | Woken bool

subsection \<open>do\_io\<close>

fun call_once :: "sys_result list \<Rightarrow> (sys_result \<times> hook_act list) option" where
  "call_once [] = None"
| "call_once (r # _) = Some (r, [Call_fun])"

text \<open>
  The part from the label \<open>retry\<close> on. \<open>to\<close> is the timeout of the descriptor, \<open>u64max\<close> for none.
\<close>

fun io_retry ::
  "nat \<Rightarrow> 32 word \<Rightarrow> sys_result list \<Rightarrow> wake list \<Rightarrow> hook_act list \<Rightarrow> (sys_result \<times> hook_act list) option"
where
  "io_retry to event sys wakes acts =
     (let k = length (takeWhile (\<lambda>r. r = Sys_err EINTR) sys) in
      case drop k sys of
        [] \<Rightarrow> None
      | r # rest \<Rightarrow>
          let acts = acts @ replicate (Suc k) Call_fun in
          if r = Sys_err EAGAIN then
            let timer = (to \<noteq> u64max);
                acts = (if timer then acts @ [Add_timer to] else acts);
                acts = acts @ [Add_event event]
            in case wakes of
                 [] \<Rightarrow> None
               | Add_failed e # ws \<Rightarrow> Some (Sys_err e, if timer then acts @ [Cancel_timer] else acts)
               | Woken cancelled # ws \<Rightarrow>
                   let acts = acts @ [Swap_out];
                       acts = (if timer then acts @ [Cancel_timer] else acts)
                   in if timer \<and> cancelled then Some (Sys_err ETIMEDOUT, acts)
                      else io_retry to event rest ws acts
          else Some (r, acts))"

declare io_retry.simps [simp del]

definition do_io ::
  "bool \<Rightarrow> fd_ctx option \<Rightarrow> 32 word \<Rightarrow> sock_opt \<Rightarrow> sys_result list \<Rightarrow> wake list
   \<Rightarrow> (sys_result \<times> hook_act list) option"
where
  "do_io t_hook_enable ctx event timeout_so sys wakes =
     (if \<not> t_hook_enable then call_once sys
      else case ctx of
        None \<Rightarrow> call_once sys
      | Some c \<Rightarrow>
          if m_isClosed c then Some (Sys_err EBADF, [])
          else if \<not> m_isSocket c \<or> m_userNonblock c then call_once sys
          else io_retry (getTimeout timeout_so c) event sys wakes [])"

text \<open>The calls that are \<open>do_io\<close> with an event and a timeout; \<open>accept\<close> adds the new descriptor.\<close>

definition hook_read where "hook_read en ctx = do_io en ctx EV_READ SO_RCVTIMEO"
definition hook_readv where "hook_readv en ctx = do_io en ctx EV_READ SO_RCVTIMEO"
definition hook_recv where "hook_recv en ctx = do_io en ctx EV_READ SO_RCVTIMEO"
definition hook_recvfrom where "hook_recvfrom en ctx = do_io en ctx EV_READ SO_RCVTIMEO"
definition hook_recvmsg where "hook_recvmsg en ctx = do_io en ctx EV_READ SO_RCVTIMEO"
definition hook_write where "hook_write en ctx = do_io en ctx EV_WRITE SO_SNDTIMEO"
definition hook_writev where "hook_writev en ctx = do_io en ctx EV_WRITE SO_SNDTIMEO"
definition hook_send where "hook_send en ctx = do_io en ctx EV_WRITE SO_SNDTIMEO"
definition hook_sendto where "hook_sendto en ctx = do_io en ctx EV_WRITE SO_SNDTIMEO"
definition hook_sendmsg where "hook_sendmsg en ctx = do_io en ctx EV_WRITE SO_SNDTIMEO"

definition hook_accept ::
  "(int \<Rightarrow> bool option) \<Rightarrow> bool \<Rightarrow> fd_ctx option \<Rightarrow> sys_result list \<Rightarrow> wake list \<Rightarrow> fd_manager
   \<Rightarrow> (fault + sys_result \<times> fd_manager) option"
where
  "hook_accept stat en ctx sys wakes fds = (case do_io en ctx EV_READ SO_RCVTIMEO sys wakes of
       None \<Rightarrow> None
     | Some (Sys_ret fd, _) \<Rightarrow> Some (if 0 \<le> fd then bindE (fd_get stat fd True fds) (\<lambda>(_, fds). Inr (Sys_ret fd, fds))
         else Inr (Sys_ret fd, fds))
     | Some (Sys_err e, _) \<Rightarrow> Some (Inr (Sys_err e, fds)))"

subsection \<open>connect\<close>

text \<open>\<open>so_error\<close> is what \<open>getsockopt(SO_ERROR)\<close> finds, \<open>None\<close> when it fails.\<close>

definition connect_with_timeout ::
  "bool \<Rightarrow> fd_ctx option \<Rightarrow> nat \<Rightarrow> sys_result \<Rightarrow> wake \<Rightarrow> errno option \<times> errno option
   \<Rightarrow> sys_result \<times> hook_act list"
where
  "connect_with_timeout t_hook_enable ctx timeout_ms conn w so_error =
     (if \<not> t_hook_enable then (conn, [Call_fun])
      else case ctx of
        None \<Rightarrow> (Sys_err EBADF, [])
      | Some c \<Rightarrow>
          if m_isClosed c then (Sys_err EBADF, [])
          else if \<not> m_isSocket c then (conn, [Call_fun])
          else if m_userNonblock c then (conn, [Call_fun])
          else if conn \<noteq> Sys_err EINPROGRESS then (conn, [Call_fun])
          else
            let timer = (timeout_ms \<noteq> u64max);
                acts = [Call_fun] @ (if timer then [Add_timer timeout_ms] else []) @ [Add_event EV_WRITE];
                check = (case so_error of (Some e, _) \<Rightarrow> Sys_err e
                  | (None, None) \<Rightarrow> Sys_ret 0 | (None, Some e) \<Rightarrow> Sys_err e)
            in case w of
                 Woken cancelled \<Rightarrow>
                   let acts = acts @ [Swap_out] @ (if timer then [Cancel_timer] else []) in
                   if timer \<and> cancelled then (Sys_err ETIMEDOUT, acts) else (check, acts)
               | Add_failed e \<Rightarrow> (check, acts @ (if timer then [Cancel_timer] else [])))"

definition hook_connect ::
  "nat \<Rightarrow> bool \<Rightarrow> fd_ctx option \<Rightarrow> sys_result \<Rightarrow> wake \<Rightarrow> errno option \<times> errno option \<Rightarrow> sys_result \<times> hook_act list"
where
  "hook_connect s_connect_timeout en ctx = connect_with_timeout en ctx s_connect_timeout"

subsection \<open>Sleeping\<close>

text \<open>
  The period of the timer that resumes the coroutine: \<open>seconds * 1000\<close> is computed as
  \<open>unsigned int\<close>; \<open>nanosleep\<close> stores the sum in an \<open>int\<close>, which \<open>addTimer\<close> takes as \<open>uint64_t\<close>.
\<close>

definition sleep_ms :: "nat \<Rightarrow> nat" where
  "sleep_ms seconds = (seconds * 1000) mod 2 ^ 32"

definition usleep_ms :: "nat \<Rightarrow> nat" where
  "usleep_ms usec = usec div 1000"

definition nanosleep_ms :: "int \<Rightarrow> int \<Rightarrow> nat" where
  "nanosleep_ms tv_sec tv_nsec =
     nat (signed_take_bit 31 (tv_sec * 1000 + tv_nsec div 1000 div 1000) mod 2 ^ 64)"

definition hook_sleep :: "bool \<Rightarrow> nat \<Rightarrow> hook_act list" where
  "hook_sleep en ms = (if \<not> en then [Call_fun] else [Add_timer ms, Swap_out])"

subsection \<open>Descriptors and their options\<close>

definition hook_socket ::
  "(int \<Rightarrow> bool option) \<Rightarrow> bool \<Rightarrow> int \<Rightarrow> fd_manager \<Rightarrow> fault + int \<times> fd_manager"
where
  "hook_socket stat en fd fds = (if \<not> en then Inr (fd, fds)
     else if fd = - 1 then Inr (fd, fds)
     else bindE (fd_get stat fd True fds) (\<lambda>(_, fds). Inr (fd, fds)))"

text \<open>\<open>io\<close> is the manager of this thread, if there is one.\<close>

definition hook_close ::
  "epoll_ctl \<Rightarrow> (int \<Rightarrow> bool option) \<Rightarrow> bool \<Rightarrow> int \<Rightarrow> fd_manager \<Rightarrow> io_manager option
   \<Rightarrow> fault + fd_manager \<times> io_manager option"
where
  "hook_close ctl stat en fd fds io =
     (if \<not> en then Inr (fds, io)
      else bindE (fd_get stat fd False fds) (\<lambda>(ctx, fds).
        if ctx = None then Inr (fds, io)
        else bindE (case io of None \<Rightarrow> Inr None
             | Some m \<Rightarrow> bindE (cancelAll ctl fd m) (\<lambda>(_, m). Inr (Some m))) (\<lambda>io.
           bindE (fd_del fd fds) (\<lambda>fds. Inr (fds, io)))))"

text \<open>\<open>ctx_of\<close>: the context \<open>FdMgr\<close> has for a descriptor.\<close>

definition ctx_of :: "int \<Rightarrow> fd_manager \<Rightarrow> (nat \<times> fd_ctx) option" where
  "ctx_of fd fds = map_option (\<lambda>p. (p, fd_heap fds p)) (fd_look fds fd)"

datatype fcntl_cmd = F_SETFL "32 word" | F_GETFL | F_other

text \<open>
  \<open>fcntl\<close>: the two commands with a branch of their own; the others are passed on (their
  answer is the argument). The real calls read and write \<open>k_flags\<close>.
\<close>

definition hook_fcntl :: "int \<Rightarrow> fcntl_cmd \<Rightarrow> 32 word \<Rightarrow> fd_manager \<Rightarrow> 32 word \<times> fd_manager" where
  "hook_fcntl fd cmd answer fds = (case cmd of
     F_SETFL arg \<Rightarrow> (case ctx_of fd fds of
         Some (p, c) \<Rightarrow>
           if m_isClosed c \<or> \<not> m_isSocket c then (0, fds\<lparr>k_flags := (k_flags fds)(fd := arg)\<rparr>)
           else
             let c' = setUserNonblock (arg AND O_NONBLOCK \<noteq> 0) c;
                 arg = (if m_sysNonblock c' then arg OR O_NONBLOCK else arg AND NOT O_NONBLOCK)
             in (0, fds\<lparr>fd_heap := (fd_heap fds)(p := c'), k_flags := (k_flags fds)(fd := arg)\<rparr>)
       | None \<Rightarrow> (0, fds\<lparr>k_flags := (k_flags fds)(fd := arg)\<rparr>))
   | F_GETFL \<Rightarrow> (let arg = k_flags fds fd in case ctx_of fd fds of
         Some (p, c) \<Rightarrow>
           if m_isClosed c \<or> \<not> m_isSocket c then (arg, fds)
           else if m_userNonblock c then (arg OR O_NONBLOCK, fds) else (arg AND NOT O_NONBLOCK, fds)
       | None \<Rightarrow> (arg, fds))
   | F_other \<Rightarrow> (answer, fds))"

text \<open>\<open>ioctl\<close> with \<open>FIONBIO\<close>; the real call then sets or clears the kernel's flag as well.\<close>

definition hook_ioctl_fionbio :: "int \<Rightarrow> bool \<Rightarrow> fd_manager \<Rightarrow> fd_manager" where
  "hook_ioctl_fionbio fd user_nonblock fds =
     (let fds = (case ctx_of fd fds of
          Some (p, c) \<Rightarrow> if m_isClosed c \<or> \<not> m_isSocket c then fds
            else fds\<lparr>fd_heap := (fd_heap fds)(p := setUserNonblock user_nonblock c)\<rparr>
        | None \<Rightarrow> fds)
      in fds\<lparr>k_flags := (k_flags fds)(fd := (if user_nonblock then k_flags fds fd OR O_NONBLOCK
                                            else k_flags fds fd AND NOT O_NONBLOCK))\<rparr>)"

text \<open>\<open>setsockopt\<close> of a timeout at level \<open>SOL_SOCKET\<close>; \<open>None\<close> is any other option.\<close>

definition hook_setsockopt :: "bool \<Rightarrow> int \<Rightarrow> (sock_opt \<times> int \<times> int) option \<Rightarrow> fd_manager \<Rightarrow> fd_manager" where
  "hook_setsockopt en fd opt fds =
     (if \<not> en then fds
      else case opt of None \<Rightarrow> fds
      | Some (ty, tv_sec, tv_usec) \<Rightarrow> (case ctx_of fd fds of None \<Rightarrow> fds
          | Some (p, c) \<Rightarrow> fds\<lparr>fd_heap := (fd_heap fds)
              (p := setTimeout ty (nat ((tv_sec * 1000 + tv_usec sdiv 1000) mod 2 ^ 64)) c)\<rparr>))"

subsection \<open>Properties\<close>

text \<open>The timers armed and cancelled, and the suspensions, in a list of actions.\<close>

definition n_armed :: "hook_act list \<Rightarrow> nat" where
  "n_armed acts = length (filter (\<lambda>a. case a of Add_timer _ \<Rightarrow> True | _ \<Rightarrow> False) acts)"

definition n_cancelled :: "hook_act list \<Rightarrow> nat" where
  "n_cancelled acts = length (filter (\<lambda>a. a = Cancel_timer) acts)"

definition n_events :: "hook_act list \<Rightarrow> nat" where
  "n_events acts = length (filter (\<lambda>a. case a of Add_event _ \<Rightarrow> True | _ \<Rightarrow> False) acts)"

lemma n_append [simp]:
  "n_armed (as @ bs) = n_armed as + n_armed bs" "n_cancelled (as @ bs) = n_cancelled as + n_cancelled bs"
  "n_events (as @ bs) = n_events as + n_events bs"
  "n_armed (replicate k Call_fun) = 0" "n_cancelled (replicate k Call_fun) = 0" "n_events (replicate k Call_fun) = 0"
  "n_armed [] = 0" "n_cancelled [] = 0" "n_events [] = 0"
  by (simp_all add: n_armed_def n_cancelled_def n_events_def)

lemma n_single [simp]:
  "n_armed (a # as) = (case a of Add_timer _ \<Rightarrow> 1 | _ \<Rightarrow> 0) + n_armed as"
  "n_cancelled (a # as) = (if a = Cancel_timer then 1 else 0) + n_cancelled as"
  "n_events (a # as) = (case a of Add_event _ \<Rightarrow> 1 | _ \<Rightarrow> 0) + n_events as"
  by (simp_all add: n_armed_def n_cancelled_def n_events_def split: hook_act.split)

lemma drop_takeWhile_Cons:
  assumes "drop (length (takeWhile P xs)) xs = x # rest"
  shows "x \<in> set xs \<and> \<not> P x \<and> set rest \<subseteq> set xs"
proof -
  have "xs = takeWhile P xs @ x # rest" "\<not> P x"
    using assms dropWhile_eq_Cons_conv[of P xs x rest] by (simp_all add: dropWhile_eq_drop)
  then have "set xs = set (takeWhile P xs) \<union> insert x (set rest)" by (metis set_append list.simps(15))
  with \<open>\<not> P x\<close> show ?thesis by blast
qed

lemma io_retry_result:
  assumes "io_retry to event sys wakes acts = Some (r, acts')"
  shows "n_armed acts' + n_cancelled acts = n_armed acts + n_cancelled acts'
     \<and> (to = u64max \<longrightarrow> n_armed acts' = n_armed acts)
     \<and> (to \<noteq> u64max \<longrightarrow> n_armed acts' + n_events acts = n_armed acts + n_events acts')
     \<and> ((r \<in> set sys \<and> r \<noteq> Sys_err EINTR \<and> r \<noteq> Sys_err EAGAIN)
        \<or> (r = Sys_err ETIMEDOUT \<and> to \<noteq> u64max) \<or> (\<exists>e. r = Sys_err e \<and> Add_failed e \<in> set wakes))"
  using assms
proof (induction wakes arbitrary: sys acts)
  case Nil
  let ?k = "length (takeWhile (\<lambda>r. r = Sys_err EINTR) sys)"
  obtain x rest where d: "drop ?k sys = x # rest"
    using Nil by (cases "drop ?k sys") (auto simp: io_retry.simps[of to event sys])
  from drop_takeWhile_Cons[OF d] Nil d show ?case by (auto simp: io_retry.simps[of to event sys] Let_def split: if_splits)
next
  case (Cons w ws)
  let ?k = "length (takeWhile (\<lambda>r. r = Sys_err EINTR) sys)"
  obtain x rest where d: "drop ?k sys = x # rest"
    using Cons.prems by (cases "drop ?k sys") (auto simp: io_retry.simps[of to event sys])
  have x: "x \<in> set sys" "x \<noteq> Sys_err EINTR" and rest: "set rest \<subseteq> set sys"
    using drop_takeWhile_Cons[OF d] by simp_all
  show ?case
  proof (cases "x = Sys_err EAGAIN")
    case False
    with Cons.prems d x show ?thesis by (auto simp: io_retry.simps[of to event sys] Let_def)
  next
    case True
    show ?thesis
    proof (cases w)
      case (Add_failed e)
      with Cons.prems d True show ?thesis
        by (auto simp: io_retry.simps[of to event sys] Let_def)
    next
      case (Woken cancelled)
      show ?thesis
      proof (cases "to \<noteq> u64max \<and> cancelled")
        case True': True
        with Cons.prems d True Woken show ?thesis
          by (auto simp: io_retry.simps[of to event sys] Let_def)
      next
        case False
        let ?a = "acts @ replicate (Suc ?k) Call_fun @ (if to \<noteq> u64max then [Add_timer to] else [])
           @ [Add_event event, Swap_out] @ (if to \<noteq> u64max then [Cancel_timer] else [])"
        have "io_retry to event rest ws ?a = Some (r, acts')"
          using Cons.prems d True Woken False by (auto simp: io_retry.simps[of to event sys] Let_def split: if_splits)
        from Cons.IH[OF this] rest show ?thesis by (auto split: if_splits)
      qed
    qed
  qed
qed

text \<open>C21: on a socket in the program's own blocking mode a hooked call that goes through \<open>do_io\<close> never reports
  \<open>EINTR\<close> or \<open>EAGAIN\<close> of the real call: it reports an answer of the real call, a timeout
  (only if there is one) or the failure to register the event. Each time it waits it arms one
  timer, if there is a timeout, and every timer armed is cancelled before it returns. (The hooked \<open>connect\<close>, which has a loop of its own,
  can report \<open>EINTR\<close>.)\<close>

theorem do_io_result:
  assumes "ctx = Some c" "m_isSocket c" "\<not> m_userNonblock c" "\<not> m_isClosed c"
    and "do_io True ctx event ty sys wakes = Some (r, acts)"
  shows "((r \<in> set sys \<and> r \<noteq> Sys_err EINTR \<and> r \<noteq> Sys_err EAGAIN)
        \<or> (r = Sys_err ETIMEDOUT \<and> getTimeout ty c \<noteq> u64max) \<or> (\<exists>e. r = Sys_err e \<and> Add_failed e \<in> set wakes))
     \<and> n_armed acts = n_cancelled acts
     \<and> n_armed acts = (if getTimeout ty c = u64max then 0 else n_events acts)"
  using io_retry_result[of "getTimeout ty c" event sys wakes "[]" r acts] assms
  by (auto simp: do_io_def)

definition demo_ctx :: fd_ctx where
  "demo_ctx = \<lparr>m_isInit = True, m_isSocket = True, m_sysNonblock = True, m_userNonblock = False,
     m_isClosed = False, m_fd = 3, m_recvTimeout = 50, m_sendTimeout = u64max\<rparr>"

lemma do_io_result_witness:
  "\<exists>acts. do_io True (Some demo_ctx) EV_READ SO_RCVTIMEO [Sys_err EINTR, Sys_err EAGAIN, Sys_ret 5] [Woken False]
     = Some (Sys_ret 5, acts) \<and> n_armed acts = 1 \<and> n_cancelled acts = 1"
proof -
  obtain acts where a: "do_io True (Some demo_ctx) EV_READ SO_RCVTIMEO
      [Sys_err EINTR, Sys_err EAGAIN, Sys_ret 5] [Woken False] = Some (Sys_ret 5, acts)" "n_armed acts = 1"
    by (simp add: do_io_def demo_ctx_def getTimeout_def io_retry.simps u64max_def Let_def)
  from do_io_result[OF refl _ _ _ a(1)] a show ?thesis by (auto simp: demo_ctx_def)
qed

text \<open>What a program sets with \<open>fcntl(F_SETFL)\<close> on a hooked socket is what it reads back
  with \<open>fcntl(F_GETFL)\<close>, while the kernel's descriptor stays non-blocking throughout.\<close>

lemma fcntl_roundtrip:
  assumes "ctx_of fd fds = Some (p, c)" "m_isSocket c" "\<not> m_isClosed c" "m_sysNonblock c"
    and "hook_fcntl fd (F_SETFL arg) answer fds = (r, fds')"
  shows "hook_fcntl fd F_GETFL answer fds' = (arg, fds')
     \<and> k_flags fds' fd AND O_NONBLOCK \<noteq> 0 \<and> (\<exists>c'. ctx_of fd fds' = Some (p, c') \<and> m_userNonblock c' = (arg AND O_NONBLOCK \<noteq> 0))"
proof -
  let ?c = "setUserNonblock (arg AND O_NONBLOCK \<noteq> 0) c"
  have fds': "fds' = fds\<lparr>fd_heap := (fd_heap fds)(p := ?c), k_flags := (k_flags fds)(fd := arg OR O_NONBLOCK)\<rparr>"
    using assms by (auto simp: hook_fcntl_def setUserNonblock_def Let_def)
  have look: "ctx_of fd fds' = Some (p, ?c)"
    using assms(1) by (auto simp: fds' ctx_of_def fd_look_def split: if_splits)
  have bit: "bit O_NONBLOCK n \<longleftrightarrow> n = 11" for n
    using bit_exp_iff[where 'a = "32 word", of 11 n] by (auto simp: O_NONBLOCK_def)
  have user: "arg AND O_NONBLOCK \<noteq> 0 \<longleftrightarrow> bit arg 11"
    by (auto simp: bit_eq_iff[where 'a = "32 word"] bit_and_iff bit)
  have restored: "(if bit arg 11 then (arg OR O_NONBLOCK) OR O_NONBLOCK else (arg OR O_NONBLOCK) AND NOT O_NONBLOCK) = arg"
    by (rule bit_word_eqI) (auto simp: bit_simps bit)
  have "(arg OR O_NONBLOCK) AND O_NONBLOCK \<noteq> 0"
    by (auto simp: bit_eq_iff[where 'a = "32 word"] bit_and_iff bit_or_iff bit)
  moreover have "hook_fcntl fd F_GETFL answer fds' = (arg, fds')"
    using assms(2,3) look restored user by (auto simp: hook_fcntl_def setUserNonblock_def fds' Let_def)
  ultimately show ?thesis using look by (simp add: fds' setUserNonblock_def)
qed

lemma fd_get_demo:
  "\<exists>t c. fd_get (\<lambda>_. Some True) 3 True (FdManager (\<lambda>_. 0)) = Inr (Some 0, t) \<and> fd_inv t
     \<and> ctx_of 3 t = Some (0, c) \<and> m_isSocket c \<and> \<not> m_isClosed c \<and> m_sysNonblock c \<and> \<not> m_userNonblock c"
proof -
  let ?s = "FdManager (\<lambda>_. 0)"
  have n: "fd_look ?s 3 = None" "fd_next ?s = 0" by (simp_all add: fd_look_def FdManager_def)
  obtain t where t: "fd_get_create (\<lambda>_. Some True) 3 ?s = Inr (Some 0, t)" "fd_inv t"
    "fd_look t = (fd_look ?s)(3 := Some 0)" "fd_heap t 0 = snd (FdCtx (\<lambda>_. Some True) 3 (k_flags ?s 3))"
    using fd_get_create_ok[OF fd_inv_new _ n(1), of "\<lambda>_. Some True"] n(2) by auto
  have "fd_get (\<lambda>_. Some True) 3 True ?s = Inr (Some 0, t)"
    using fd_get_missing[OF _ n(1), of "\<lambda>_. Some True" True] t(1) by simp
  with t show ?thesis by (simp add: ctx_of_def FdCtx_def fdctx_init_def Let_def)
qed

lemma fcntl_roundtrip_witness:
  "\<exists>fds r fds'. hook_fcntl 3 (F_SETFL 2) 0 fds = (r, fds') \<and> hook_fcntl 3 F_GETFL 0 fds' = (2, fds')
     \<and> k_flags fds' 3 AND O_NONBLOCK \<noteq> 0"
proof -
  obtain fds c where f: "ctx_of 3 fds = Some (0, c)" "m_isSocket c" "\<not> m_isClosed c" "m_sysNonblock c"
    using fd_get_demo by blast
  obtain r fds' where e: "hook_fcntl 3 (F_SETFL 2) 0 fds = (r, fds')" by (metis surj_pair)
  from fcntl_roundtrip[OF f e] e show ?thesis by blast
qed

text \<open>A timeout of zero, which means no timeout at all to \<open>setsockopt\<close>, is stored as zero
  milliseconds: the next call that has to wait arms a timer that is due at once, and reports
  a timeout.\<close>

lemma zero_timeout_times_out:
  assumes "ctx_of fd fds = Some (p, c)" "m_isSocket c" "\<not> m_isClosed c" "\<not> m_userNonblock c"
    and "fds' = hook_setsockopt True fd (Some (ty, 0, 0)) fds"
  shows "\<exists>c'. ctx_of fd fds' = Some (p, c')
     \<and> do_io True (Some c') event ty [Sys_err EAGAIN] [Woken True]
       = Some (Sys_err ETIMEDOUT, [Call_fun, Add_timer 0, Add_event event, Swap_out, Cancel_timer])"
proof -
  have "ctx_of fd fds' = Some (p, setTimeout ty 0 c)"
    using assms(1,5) by (auto simp: hook_setsockopt_def ctx_of_def fd_look_def split: if_splits)
  moreover have "getTimeout ty (setTimeout ty 0 c) = 0" by (simp add: getTimeout_def setTimeout_def)
  moreover have "m_isSocket (setTimeout ty 0 c) \<and> \<not> m_isClosed (setTimeout ty 0 c) \<and> \<not> m_userNonblock (setTimeout ty 0 c)"
    using assms(2-4) by (simp add: setTimeout_def)
  ultimately show ?thesis by (simp add: do_io_def io_retry.simps u64max_def Let_def)
qed

lemma zero_timeout_times_out_witness:
  "\<exists>fds c'. ctx_of 3 (hook_setsockopt True 3 (Some (SO_RCVTIMEO, 0, 0)) fds) = Some (0, c')
     \<and> do_io True (Some c') EV_READ SO_RCVTIMEO [Sys_err EAGAIN] [Woken True]
       = Some (Sys_err ETIMEDOUT, [Call_fun, Add_timer 0, Add_event EV_READ, Swap_out, Cancel_timer])"
proof -
  obtain fds c where f: "ctx_of 3 fds = Some (0, c)" "m_isSocket c" "\<not> m_isClosed c" "\<not> m_userNonblock c"
    using fd_get_demo by blast
  from zero_timeout_times_out[OF f refl, of SO_RCVTIMEO EV_READ] show ?thesis by blast
qed

lemma cancelAll_events:
  assumes "cancelAll (\<lambda>_ _ _. 0) fd m = Inr (b, m')" "ctx_at fd m = Inr p"
  shows "fc_events (ctx_heap m' p) = 0"
  using assms by (auto simp: cancelAll_def ctx_at_def split: if_splits)

text \<open>A hooked \<open>close\<close> of a descriptor the table knows forgets that descriptor and no
  other, leaves no event registered in its context and keeps the count of pending events
  exact.\<close>

lemma hook_close_forgets:
  assumes "fd_inv fds" "io_reachable m" "0 \<le> fd" "fd_look fds fd \<noteq> None"
  shows "\<exists>fds' m'. hook_close (\<lambda>_ _ _. 0) stat True fd fds (Some m) = Inr (fds', Some m')
     \<and> fd_look fds' = (fd_look fds)(fd := None)
     \<and> (\<forall>p. ctx_at fd m = Inr p \<longrightarrow> fc_events (ctx_heap m' p) = 0)
     \<and> m_pendingEventCount m' = registered m'"
proof -
  obtain q where q: "fd_look fds fd = Some q" using assms(4) by blast
  obtain fds' where d: "fd_del fd fds = Inr fds'" "fd_look fds' = (fd_look fds)(fd := None)"
    using fd_del_ok[OF assms(1,3)] by blast
  have inv: "io_inv m" using io_reachable_inv[OF assms(2)] by blast
  obtain b m' where m': "cancelAll (\<lambda>_ _ _. 0) fd m = Inr (b, m')" "io_inv m'"
    using cancelAll_ok[OF inv assms(3), of "\<lambda>_ _ _. 0"] by blast
  have "hook_close (\<lambda>_ _ _. 0) stat True fd fds (Some m) = Inr (fds', Some m')"
    using fd_get_found[OF assms(3) q] m'(1) d(1) by (simp add: hook_close_def)
  with d(2) m' cancelAll_events[OF m'(1)] show ?thesis by (auto simp: io_inv_def)
qed

lemma hook_close_forgets_witness:
  "\<exists>fds fds' m'. hook_close (\<lambda>_ _ _. 0) (\<lambda>_. None) True 3 fds (Some (IOManager 0 (demo_sched []) 0)) = Inr (fds', Some m')
     \<and> fd_look fds 3 \<noteq> None \<and> fd_look fds' 3 = None"
proof -
  obtain fds where f: "fd_inv fds" "fd_look fds 3 \<noteq> None"
    using fd_get_demo by (auto simp: ctx_of_def)
  obtain fds' m' where h: "hook_close (\<lambda>_ _ _. 0) (\<lambda>_. None) True 3 fds (Some (IOManager 0 (demo_sched []) 0)) = Inr (fds', Some m')"
    "fd_look fds' = (fd_look fds)(3 := None)"
    using hook_close_forgets[OF f(1) reach_new _ f(2), of "\<lambda>_. None" 0 "demo_sched []" 0] by auto
  have "fd_look fds' 3 = None" by (simp add: h(2))
  with h(1) f(2) show ?thesis by blast
qed

text \<open>The period \<open>sleep\<close> gives its timer is the one asked for exactly up to 4294967 seconds;
  beyond, the 32-bit product wraps and the coroutine wakes up early.\<close>

lemma sleep_exact_iff:
  assumes "seconds < 2 ^ 32"
  shows "(sleep_ms seconds = seconds * 1000 \<longleftrightarrow> seconds \<le> 4294967)
     \<and> (4294967 < seconds \<longrightarrow> sleep_ms seconds < seconds * 1000)"
proof -
  have "sleep_ms seconds < 2 ^ 32" by (simp add: sleep_ms_def)
  then have "4294967 < seconds \<Longrightarrow> sleep_ms seconds < seconds * 1000" by simp
  moreover have "seconds \<le> 4294967 \<Longrightarrow> sleep_ms seconds = seconds * 1000" by (simp add: sleep_ms_def)
  ultimately show ?thesis by (metis leI less_irrefl)
qed

lemma sleep_exact_iff_witness: "sleep_ms 10 = 10 * 1000 \<and> sleep_ms 4294968 < 4294968 * 1000"
  using sleep_exact_iff[of 10] sleep_exact_iff[of 4294968] by simp

subsection \<open>The original functions\<close>

text \<open>The globals of the hooks: the originals by name, and \<open>s_connect_timeout\<close>. \<open>dlsym\<close> is an argument. The flag
  \<open>is_inited\<close> is never set.\<close>

record 'f hook_globals =
  hg_is_inited :: bool
  hg_funs :: "string \<Rightarrow> 'f option"
  hg_connect_timeout :: nat

definition hook_names :: "string list" where
  "hook_names = [''sleep'', ''usleep'', ''nanosleep'', ''socket'', ''connect'', ''accept'', ''read'', ''readv'', ''recv'', ''recvfrom'',
     ''recvmsg'', ''write'', ''writev'', ''send'', ''sendto'', ''sendmsg'', ''close'', ''fcntl'', ''ioctl'', ''getsockopt'', ''setsockopt'']"

definition hook_init :: "(string \<Rightarrow> 'f) \<Rightarrow> 'f hook_globals \<Rightarrow> 'f hook_globals" where
  "hook_init dlsym s = (if hg_is_inited s then s
     else s\<lparr>hg_funs := fold (\<lambda>name f. f(name \<mapsto> dlsym name)) hook_names (hg_funs s)\<rparr>)"

definition HOOKIniter :: "(string \<Rightarrow> 'f) \<Rightarrow> 'f hook_globals \<Rightarrow> 'f hook_globals" where
  "HOOKIniter dlsym s = (hook_init dlsym s)\<lparr>hg_connect_timeout := 5000\<rparr>"

definition set_hook_enable :: "bool \<Rightarrow> bool \<Rightarrow> bool" where
  "set_hook_enable flag t_hook_enable = flag"

lemma hook_init_all:
  "hg_funs (HOOKIniter dlsym \<lparr>hg_is_inited = False, hg_funs = (\<lambda>_. None), hg_connect_timeout = u64max\<rparr>)
     = (\<lambda>name. if name \<in> set hook_names then Some (dlsym name) else None)"
proof -
  have "fold (\<lambda>name f. f(name \<mapsto> dlsym name)) ns f = (\<lambda>name. if name \<in> set ns then Some (dlsym name) else f name)" for ns f
    by (induction ns arbitrary: f) auto
  then show ?thesis by (simp add: HOOKIniter_def hook_init_def)
qed

end
