(* ===== verification/Util.thy ===== *)
theory Util
  imports Prelude
begin

text \<open>
  String utilities (\<^verbatim>\<open>include/util.h\<close>, \<^verbatim>\<open>src/util.cc\<close>): case conversion, URL encoding and
  decoding, trimming; clocks, formatting and wide characters over the C library. A \<open>std::string\<close> is a list of \<open>char\<close>, one per byte.
\<close>

subsection \<open>Tables\<close>

definition uri_chars :: "nat list" where
  "uri_chars =
   [0, 0, 0, 0, 0, 0, 0, 0, 0, 0, 0, 0, 0, 0, 0, 0, 0, 0, 0, 0, 0, 0, 0, 0, 0, 0, 0, 0, 0, 0, 0, 0,
    0, 0, 0, 0, 0, 0, 0, 0, 0, 0, 0, 0, 0, 1, 1, 0, 1, 1, 1, 1, 1, 1, 1, 1, 1, 1, 0, 0, 0, 1, 0, 0,
    0, 1, 1, 1, 1, 1, 1, 1, 1, 1, 1, 1, 1, 1, 1, 1, 1, 1, 1, 1, 1, 1, 1, 1, 1, 1, 1, 0, 0, 0, 0, 1,
    0, 1, 1, 1, 1, 1, 1, 1, 1, 1, 1, 1, 1, 1, 1, 1, 1, 1, 1, 1, 1, 1, 1, 1, 1, 1, 1, 0, 0, 0, 1, 0,
    0, 0, 0, 0, 0, 0, 0, 0, 0, 0, 0, 0, 0, 0, 0, 0, 0, 0, 0, 0, 0, 0, 0, 0, 0, 0, 0, 0, 0, 0, 0, 0,
    0, 0, 0, 0, 0, 0, 0, 0, 0, 0, 0, 0, 0, 0, 0, 0, 0, 0, 0, 0, 0, 0, 0, 0, 0, 0, 0, 0, 0, 0, 0, 0,
    0, 0, 0, 0, 0, 0, 0, 0, 0, 0, 0, 0, 0, 0, 0, 0, 0, 0, 0, 0, 0, 0, 0, 0, 0, 0, 0, 0, 0, 0, 0, 0,
    0, 0, 0, 0, 0, 0, 0, 0, 0, 0, 0, 0, 0, 0, 0, 0, 0, 0, 0, 0, 0, 0, 0, 0, 0, 0, 0, 0, 0, 0, 0, 0]"

definition xdigit_chars :: "nat list" where
  "xdigit_chars =
   [0, 0, 0, 0, 0, 0, 0, 0, 0, 0, 0, 0, 0, 0, 0, 0, 0, 0, 0, 0, 0, 0, 0, 0, 0, 0, 0, 0, 0, 0, 0, 0,
    0, 0, 0, 0, 0, 0, 0, 0, 0, 0, 0, 0, 0, 0, 0, 0, 0, 1, 2, 3, 4, 5, 6, 7, 8, 9, 0, 0, 0, 0, 0, 0,
    0, 10, 11, 12, 13, 14, 15, 0, 0, 0, 0, 0, 0, 0, 0, 0, 0, 0, 0, 0, 0, 0, 0, 0, 0, 0, 0, 0, 0, 0, 0, 0,
    0, 10, 11, 12, 13, 14, 15, 0, 0, 0, 0, 0, 0, 0, 0, 0, 0, 0, 0, 0, 0, 0, 0, 0, 0, 0, 0, 0, 0, 0, 0, 0,
    0, 0, 0, 0, 0, 0, 0, 0, 0, 0, 0, 0, 0, 0, 0, 0, 0, 0, 0, 0, 0, 0, 0, 0, 0, 0, 0, 0, 0, 0, 0, 0,
    0, 0, 0, 0, 0, 0, 0, 0, 0, 0, 0, 0, 0, 0, 0, 0, 0, 0, 0, 0, 0, 0, 0, 0, 0, 0, 0, 0, 0, 0, 0, 0,
    0, 0, 0, 0, 0, 0, 0, 0, 0, 0, 0, 0, 0, 0, 0, 0, 0, 0, 0, 0, 0, 0, 0, 0, 0, 0, 0, 0, 0, 0, 0, 0,
    0, 0, 0, 0, 0, 0, 0, 0, 0, 0, 0, 0, 0, 0, 0, 0, 0, 0, 0, 0, 0, 0, 0, 0, 0, 0, 0, 0, 0, 0, 0, 0]"

definition char_code :: "char \<Rightarrow> nat" where
  "char_code c = of_char c"

definition CHAR_IS_UNRESERVED :: "char \<Rightarrow> bool" where
  "CHAR_IS_UNRESERVED c = (uri_chars ! char_code c \<noteq> 0)"

definition hexdigits :: string where
  "hexdigits = ''0123456789ABCDEF''"

text \<open>\<open>isxdigit\<close>, \<open>toupper\<close> and \<open>tolower\<close> in the C locale.\<close>

definition isxdigit :: "char \<Rightarrow> bool" where
  "isxdigit c = (c \<in> set ''0123456789abcdefABCDEF'')"

definition to_upper :: "char \<Rightarrow> char" where
  "to_upper c = (if 97 \<le> char_code c \<and> char_code c \<le> 122 then char_of (char_code c - 32) else c)"

definition to_lower :: "char \<Rightarrow> char" where
  "to_lower c = (if 65 \<le> char_code c \<and> char_code c \<le> 90 then char_of (char_code c + 32) else c)"

definition ToUpper :: "string \<Rightarrow> string" where
  "ToUpper name = map to_upper name"

definition ToLower :: "string \<Rightarrow> string" where
  "ToLower name = map to_lower name"

subsection \<open>URL encoding\<close>

text \<open>
  The loop of \<open>UrlEncode\<close>: \<open>old\<close> is what lies before the pointer \<open>c\<close>; \<open>ss\<close> stays null until
  a character has to be replaced.
\<close>

fun url_encode_loop :: "bool \<Rightarrow> string \<Rightarrow> string \<Rightarrow> string option \<Rightarrow> string option" where
  "url_encode_loop space_as_plus old [] ss = ss"
| "url_encode_loop space_as_plus old (c # cs) ss =
     (if \<not> CHAR_IS_UNRESERVED c then
        let s = (case ss of None \<Rightarrow> old | Some s \<Rightarrow> s);
            s = (if c = CHR '' '' \<and> space_as_plus then s @ ''+''
                 else s @ ''%'' @ [hexdigits ! (char_code c div 16)] @ [hexdigits ! (char_code c mod 16)])
        in url_encode_loop space_as_plus (old @ [c]) cs (Some s)
      else url_encode_loop space_as_plus (old @ [c]) cs (map_option (\<lambda>s. s @ [c]) ss))"

definition UrlEncode :: "string \<Rightarrow> bool \<Rightarrow> string" where
  "UrlEncode str space_as_plus = (case url_encode_loop space_as_plus [] str None of None \<Rightarrow> str | Some rt \<Rightarrow> rt)"

function url_decode_loop :: "bool \<Rightarrow> string \<Rightarrow> string \<Rightarrow> string option \<Rightarrow> string option" where
  "url_decode_loop space_as_plus old [] ss = ss"
| "url_decode_loop space_as_plus old (c # cs) ss =
     (let s = (case ss of None \<Rightarrow> old | Some s \<Rightarrow> s) in
      if c = CHR ''+'' \<and> space_as_plus then
        url_decode_loop space_as_plus (old @ [c]) cs (Some (s @ '' ''))
      else if c = CHR ''%'' \<and> 2 \<le> length cs \<and> isxdigit (cs ! 0) \<and> isxdigit (cs ! 1) then
        url_decode_loop space_as_plus (old @ [c, cs ! 0, cs ! 1]) (drop 2 cs)
          (Some (s @ [char_of (xdigit_chars ! char_code (cs ! 0) * 16 + xdigit_chars ! char_code (cs ! 1))]))
      else url_decode_loop space_as_plus (old @ [c]) cs (map_option (\<lambda>s. s @ [c]) ss))"
  by pat_completeness auto
termination
  by (relation "measure (\<lambda>(_, _, cs, _). length cs)") auto

definition UrlDecode :: "string \<Rightarrow> bool \<Rightarrow> string" where
  "UrlDecode str space_as_plus = (case url_decode_loop space_as_plus [] str None of None \<Rightarrow> str | Some rt \<Rightarrow> rt)"

subsection \<open>Trimming\<close>

definition find_first_not_of :: "string \<Rightarrow> string \<Rightarrow> nat option" where
  "find_first_not_of str delimit = (let n = length (takeWhile (\<lambda>c. c \<in> set delimit) str) in
     if n < length str then Some n else None)"

definition find_last_not_of :: "string \<Rightarrow> string \<Rightarrow> nat option" where
  "find_last_not_of str delimit = (let n = length (takeWhile (\<lambda>c. c \<in> set delimit) (rev str)) in
     if n < length str then Some (length str - 1 - n) else None)"

definition substr :: "string \<Rightarrow> nat \<Rightarrow> nat \<Rightarrow> string" where
  "substr str pos n = take n (drop pos str)"

text \<open>After a first character that is no delimiter there is a last one too.\<close>

definition Trim :: "string \<Rightarrow> string \<Rightarrow> string" where
  "Trim str delimit = (case find_first_not_of str delimit of None \<Rightarrow> []
     | Some b \<Rightarrow> (case find_last_not_of str delimit of
         Some e \<Rightarrow> substr str b (e - b + 1) | None \<Rightarrow> substr str b (length str)))"

definition TrimLeft :: "string \<Rightarrow> string \<Rightarrow> string" where
  "TrimLeft str delimit = (case find_first_not_of str delimit of None \<Rightarrow> [] | Some b \<Rightarrow> drop b str)"

definition TrimRight :: "string \<Rightarrow> string \<Rightarrow> string" where
  "TrimRight str delimit = (case find_last_not_of str delimit of None \<Rightarrow> [] | Some e \<Rightarrow> substr str 0 e)"

subsection \<open>Encoding character by character\<close>

definition enc_char :: "bool \<Rightarrow> char \<Rightarrow> string" where
  "enc_char space_as_plus c = (if CHAR_IS_UNRESERVED c then [c]
     else if c = CHR '' '' \<and> space_as_plus then ''+''
     else [CHR ''%'', hexdigits ! (char_code c div 16), hexdigits ! (char_code c mod 16)])"

lemma enc_unreserved: "list_all CHAR_IS_UNRESERVED xs \<Longrightarrow> concat (map (enc_char sp) xs) = xs"
  by (induction xs) (auto simp: enc_char_def)

lemma url_encode_loop_eq:
  "url_encode_loop sp old cs ss = (case ss of
     None \<Rightarrow> if list_all CHAR_IS_UNRESERVED cs then None else Some (old @ concat (map (enc_char sp) cs))
   | Some s \<Rightarrow> Some (s @ concat (map (enc_char sp) cs)))"
proof (induction cs arbitrary: old ss)
  case (Cons c cs)
  show ?case
    by (cases ss) (auto simp: Cons.IH enc_char_def enc_unreserved Let_def)
qed (simp split: option.split)

lemma UrlEncode_eq: "UrlEncode str sp = concat (map (enc_char sp) str)"
  by (simp add: UrlEncode_def url_encode_loop_eq enc_unreserved)

text \<open>Decoding, without the string that is kept as long as nothing changes.\<close>

function dec :: "bool \<Rightarrow> string \<Rightarrow> string" where
  "dec sp [] = []"
| "dec sp (c # cs) =
     (if c = CHR ''+'' \<and> sp then CHR '' '' # dec sp cs
      else if c = CHR ''%'' \<and> 2 \<le> length cs \<and> isxdigit (cs ! 0) \<and> isxdigit (cs ! 1) then
        char_of (xdigit_chars ! char_code (cs ! 0) * 16 + xdigit_chars ! char_code (cs ! 1)) # dec sp (drop 2 cs)
      else c # dec sp cs)"
  by pat_completeness auto
termination
  by (relation "measure (\<lambda>(_, cs). length cs)") auto

lemma url_decode_loop_Some: "url_decode_loop sp old cs (Some s) = Some (s @ dec sp cs)"
proof (induction sp cs arbitrary: old s rule: dec.induct)
  case (2 sp c cs)
  then show ?case by (simp add: Let_def del: One_nat_def)
qed simp

lemma url_decode_loop_None:
  "url_decode_loop sp old cs None = None \<and> dec sp cs = cs
   \<or> url_decode_loop sp old cs None = Some (old @ dec sp cs)"
proof (induction sp cs arbitrary: old rule: dec.induct)
  case (2 sp c cs)
  let ?hex = "c = CHR ''%'' \<and> 2 \<le> length cs \<and> isxdigit (cs ! 0) \<and> isxdigit (cs ! 1)"
  show ?case
  proof (cases "(c = CHR ''+'' \<and> sp) \<or> ?hex")
    case True
    then show ?thesis by (auto simp: Let_def url_decode_loop_Some simp del: One_nat_def)
  next
    case False
    then have "url_decode_loop sp old (c # cs) None = url_decode_loop sp (old @ [c]) cs None"
      and d: "dec sp (c # cs) = c # dec sp cs" by (auto simp: Let_def simp del: One_nat_def)
    moreover have "url_decode_loop sp (old @ [c]) cs None = None \<and> dec sp cs = cs
        \<or> url_decode_loop sp (old @ [c]) cs None = Some ((old @ [c]) @ dec sp cs)"
      using 2(3) False by blast
    ultimately show ?thesis unfolding d by simp
  qed
qed simp

lemma UrlDecode_eq: "UrlDecode str sp = dec sp str"
  using url_decode_loop_None[of sp "[]" str] by (auto simp: UrlDecode_def)

lemma hexdigits_ok:
  assumes "d < 16"
  shows "isxdigit (hexdigits ! d)" "xdigit_chars ! char_code (hexdigits ! d) = d"
proof -
  have "list_all (\<lambda>d. isxdigit (hexdigits ! d) \<and> xdigit_chars ! char_code (hexdigits ! d) = d) [0..<16]"
    by code_simp
  with assms show "isxdigit (hexdigits ! d)" "xdigit_chars ! char_code (hexdigits ! d) = d"
    by (auto simp: list_all_iff)
qed

lemma char_code_less: "char_code c < 256"
  by (simp add: char_code_def)

lemma reserved: "\<not> CHAR_IS_UNRESERVED (CHR ''+'')" "\<not> CHAR_IS_UNRESERVED (CHR ''%'')"
  by code_simp+

lemma dec_hex:
  assumes "isxdigit x" "isxdigit y"
  shows "dec sp (CHR ''%'' # x # y # rest) =
    char_of (xdigit_chars ! char_code x * 16 + xdigit_chars ! char_code y) # dec sp rest"
  using assms by (simp add: numeral_2_eq_2)

lemma dec_enc_char: "dec sp (enc_char sp c @ rest) = c # dec sp rest"
proof (cases "CHAR_IS_UNRESERVED c")
  case True
  with reserved have "c \<noteq> CHR ''+''" "c \<noteq> CHR ''%''" by metis+
  with True show ?thesis by (simp add: enc_char_def)
next
  case False
  show ?thesis
  proof (cases "c = CHR '' '' \<and> sp")
    case True
    with False have "enc_char sp c = ''+''" by (simp add: enc_char_def)
    then show ?thesis using True by simp
  next
    case plain: False
    have d: "char_code c div 16 < 16" "char_code c mod 16 < 16" using char_code_less[of c] by auto
    have "enc_char sp c = [CHR ''%'', hexdigits ! (char_code c div 16), hexdigits ! (char_code c mod 16)]"
      using False plain by (simp only: enc_char_def if_False)
    then have "dec sp (enc_char sp c @ rest) = char_of (char_code c div 16 * 16 + char_code c mod 16) # dec sp rest"
      by (simp only: append_Cons append_Nil dec_hex[OF hexdigits_ok(1)[OF d(1)] hexdigits_ok(1)[OF d(2)]]
        hexdigits_ok(2)[OF d(1)] hexdigits_ok(2)[OF d(2)])
    also have "char_of (char_code c div 16 * 16 + char_code c mod 16) = c"
      by (simp only: div_mult_mod_eq) (simp add: char_code_def)
    finally show ?thesis .
  qed
qed

lemma decode_encode: "UrlDecode (UrlEncode str sp) sp = str"
proof -
  have "dec sp (concat (map (enc_char sp) str)) = str" for sp
    by (induction str) (simp_all add: dec_enc_char)
  then show ?thesis by (simp add: UrlEncode_eq UrlDecode_eq)
qed

text \<open>C22: decoding what \<open>UrlEncode\<close> produced with the same treatment of blanks gives back the
  string, whatever bytes it holds.\<close>

theorem url_roundtrip: "UrlDecode (UrlEncode str space_as_plus) space_as_plus = str"
  by (rule decode_encode)

subsection \<open>Trimming at both ends\<close>

definition trim_left :: "string \<Rightarrow> string \<Rightarrow> string" where
  "trim_left str delimit = dropWhile (\<lambda>c. c \<in> set delimit) str"

definition trim_right :: "string \<Rightarrow> string \<Rightarrow> string" where
  "trim_right str delimit = rev (dropWhile (\<lambda>c. c \<in> set delimit) (rev str))"

lemma takeWhile_all: "length (takeWhile P xs) < length xs \<longleftrightarrow> (\<exists>x \<in> set xs. \<not> P x)"
proof
  assume "length (takeWhile P xs) < length xs"
  then show "\<exists>x \<in> set xs. \<not> P x" by (meson nth_length_takeWhile nth_mem)
next
  assume "\<exists>x \<in> set xs. \<not> P x"
  then have "takeWhile P xs \<noteq> xs" by (metis takeWhile_eq_all_conv)
  then show "length (takeWhile P xs) < length xs"
    by (metis le_neq_implies_less length_takeWhile_le takeWhile_eq_take take_all order_refl)
qed

lemma dropWhile_Nil: "(\<forall>x \<in> set xs. P x) \<Longrightarrow> dropWhile P xs = []"
  by simp

lemma trim_right_take:
  "trim_right str delimit = take (length str - length (takeWhile (\<lambda>c. c \<in> set delimit) (rev str))) str"
  by (simp add: trim_right_def dropWhile_eq_drop rev_drop)

lemma find_last_trim:
  "find_last_not_of str delimit = (if trim_right str delimit = [] then None else Some (length (trim_right str delimit) - 1))"
proof -
  let ?n = "length (takeWhile (\<lambda>c. c \<in> set delimit) (rev str))"
  have "?n \<le> length str" using length_takeWhile_le[of _ "rev str"] by simp
  then have len: "length (trim_right str delimit) = length str - ?n" by (simp add: trim_right_take)
  show ?thesis
  proof (cases "?n < length str")
    case True
    with len have "trim_right str delimit \<noteq> []" by auto
    with True len show ?thesis by (simp add: find_last_not_of_def)
  next
    case False
    with len show ?thesis by (simp add: find_last_not_of_def)
  qed
qed

text \<open>\<open>Trim\<close> and \<open>TrimLeft\<close> remove exactly the delimiters at the ends they are meant for;
  \<open>TrimRight\<close> also removes the last character that is not a delimiter.\<close>

lemma trim_results:
  "Trim str delimit = trim_right (trim_left str delimit) delimit
   \<and> TrimLeft str delimit = trim_left str delimit
   \<and> TrimRight str delimit = butlast (trim_right str delimit)"
proof (intro conjI)
  let ?P = "\<lambda>c. c \<in> set delimit"
  let ?b = "length (takeWhile ?P str)"
  have left: "trim_left str delimit = drop ?b str" by (simp add: trim_left_def dropWhile_eq_drop)
  show "TrimLeft str delimit = trim_left str delimit"
    by (simp add: TrimLeft_def find_first_not_of_def Let_def left)
  show "TrimRight str delimit = butlast (trim_right str delimit)"
  proof (cases "trim_right str delimit = []")
    case False
    have "take (length (trim_right str delimit) - 1) str = take (length (trim_right str delimit) - 1) (trim_right str delimit)"
      unfolding trim_right_take by (simp add: min_def)
    with False show ?thesis
      by (simp add: TrimRight_def find_last_trim substr_def butlast_conv_take)
  qed (simp add: TrimRight_def find_last_trim)
  show "Trim str delimit = trim_right (trim_left str delimit) delimit"
  proof (cases "?b < length str")
    case False
    then have "drop ?b str = []" by simp
    with False show ?thesis by (simp add: Trim_def find_first_not_of_def left trim_right_def)
  next
    case True
    then obtain x ys where x: "drop ?b str = x # ys" by (metis Cons_nth_drop_Suc)
    have "\<not> ?P x" using nth_length_takeWhile[OF True] x by (metis nth_via_drop)
    then have tw: "takeWhile ?P (rev (takeWhile ?P str @ x # ys)) = takeWhile ?P (rev (x # ys))"
      by (simp add: takeWhile_append)
    have str: "str = takeWhile ?P str @ x # ys"
      using x by (metis takeWhile_dropWhile_id dropWhile_eq_drop)
    let ?n = "length (takeWhile ?P (rev (x # ys)))"
    have n: "?n < length (x # ys)" using \<open>\<not> ?P x\<close> takeWhile_all[of ?P "rev (x # ys)"] by auto
    have tw': "takeWhile ?P (rev str) = takeWhile ?P (rev (x # ys))"
      using arg_cong[OF str, of "\<lambda>s. takeWhile ?P (rev s)"] tw by (rule trans)
    have "?n < length str" using n arg_cong[OF str, of length] by simp
    then have e: "find_last_not_of str delimit = Some (length str - 1 - ?n)"
      by (simp only: find_last_not_of_def Let_def tw' if_True)
    have "length str = ?b + length (x # ys)" using str by (metis length_append)
    then have "length str - 1 - ?n - ?b + 1 = length (x # ys) - ?n" using n by simp
    then show ?thesis
      using True e x by (simp add: Trim_def find_first_not_of_def left substr_def trim_right_take)
  qed
qed

subsection \<open>Clock, time and formatting\<close>

text \<open>\<open>GetCurrentMS\<close>, \<open>GetCurrentUS\<close>: the arguments are the members of the \<open>timeval\<close> from \<open>gettimeofday\<close>; both are
  converted to \<open>unsigned long\<close>.\<close>

definition GetCurrentMS :: "64 word \<Rightarrow> 64 word \<Rightarrow> 64 word" where
  "GetCurrentMS tv_sec tv_usec = tv_sec * 1000 + tv_usec div 1000"

definition GetCurrentUS :: "64 word \<Rightarrow> 64 word \<Rightarrow> 64 word" where
  "GetCurrentUS tv_sec tv_usec = tv_sec * 1000 * 1000 + tv_usec"

text \<open>The buffer has 64 characters; when the text and its end do not fit, \<open>strftime\<close> returns 0 and leaves it
  unspecified.\<close>

definition Time2Str :: "(string \<Rightarrow> 'tm \<Rightarrow> string) \<Rightarrow> (64 word \<Rightarrow> 'tm) \<Rightarrow> 64 word \<Rightarrow> string \<Rightarrow> fault + string" where
  "Time2Str strftime localtime ts format =
     (let t = strftime format (localtime ts) in if length t < 64 then Inr t else Inl Uninitialised)"

definition Str2Time :: "(string \<Rightarrow> string \<Rightarrow> 'tm option) \<Rightarrow> ('tm \<Rightarrow> int) \<Rightarrow> string \<Rightarrow> string \<Rightarrow> int" where
  "Str2Time strptime mktime str format = (case strptime str format of None \<Rightarrow> 0 | Some t \<Rightarrow> mktime t)"

definition Formatv :: "(string \<Rightarrow> 'args \<Rightarrow> string option) \<Rightarrow> string \<Rightarrow> 'args \<Rightarrow> string" where
  "Formatv vasprintf fmt ap = (case vasprintf fmt ap of None \<Rightarrow> [] | Some s \<Rightarrow> s)"

definition Format :: "(string \<Rightarrow> 'args \<Rightarrow> string option) \<Rightarrow> string \<Rightarrow> 'args \<Rightarrow> string" where
  "Format vasprintf fmt ap = Formatv vasprintf fmt ap"

text \<open>
  Wide characters: \<open>setlocale(LC_ALL, "")\<close> sets the locale \<open>env\<close> of the environment and returns its name, so that the last
  call sets the same again. A conversion that fails returns \<open>(size_t)-1\<close>, and the buffer is an array of no elements
  that is read all the same. The second component is the locale afterwards.
\<close>

definition WStringToString :: "'loc \<Rightarrow> ('loc \<Rightarrow> 'wide list \<Rightarrow> string option) \<Rightarrow> 'wide list \<Rightarrow> 'loc \<Rightarrow> fault + string \<times> 'loc" where
  "WStringToString env wcstombs ws locale = (let locale = env; str_locale = env in
     case wcstombs locale ws of None \<Rightarrow> Inl Bad_index | Some s \<Rightarrow> Inr (s, str_locale))"

definition StringToWString :: "'loc \<Rightarrow> ('loc \<Rightarrow> string \<Rightarrow> 'wide list option) \<Rightarrow> string \<Rightarrow> 'loc \<Rightarrow> fault + 'wide list \<times> 'loc" where
  "StringToWString env mbstowcs s locale = (let locale = env; str_locale = env in
     case mbstowcs locale s of None \<Rightarrow> Inl Bad_index | Some ws \<Rightarrow> Inr (ws, str_locale))"

lemma unat_small_sum:
  fixes a b :: "64 word"
  assumes "unat a * k + unat b < 2 ^ 64"
  shows "unat (a * of_nat k + b) = unat a * k + unat b"
  using assms by (simp add: unat_word_ariths unat_of_nat mod_mult_right_eq mod_add_left_eq flip: take_bit_eq_mod)

text \<open>The two clocks agree, until the microseconds wrap in the year 584554.\<close>

lemma clocks_agree:
  assumes "unat tv_usec < 1000000" "unat tv_sec * 1000000 + unat tv_usec < 2 ^ 64"
  shows "unat (GetCurrentMS tv_sec tv_usec) = unat (GetCurrentUS tv_sec tv_usec) div 1000"
proof -
  have "unat (tv_usec div 1000) = unat tv_usec div 1000" by (simp add: unat_div_distrib)
  moreover have "unat tv_sec * 1000 + unat tv_usec div 1000 < 2 ^ 64" using assms(2) by linarith
  ultimately have "unat (GetCurrentMS tv_sec tv_usec) = unat tv_sec * 1000 + unat tv_usec div 1000"
    using unat_small_sum[of tv_sec 1000 "tv_usec div 1000"] by (simp add: GetCurrentMS_def)
  moreover have "unat (GetCurrentUS tv_sec tv_usec) = unat tv_sec * 1000000 + unat tv_usec"
    using unat_small_sum[of tv_sec 1000000 tv_usec] assms(2) by (simp add: GetCurrentUS_def mult.assoc)
  ultimately show ?thesis by simp
qed

text \<open>The locale the caller had is lost.\<close>

lemma locale_not_restored:
  "WStringToString env wcstombs ws locale = Inr (s, locale') \<Longrightarrow> locale' = env"
  "StringToWString env mbstowcs s locale = Inr (ws, locale') \<Longrightarrow> locale' = env"
  by (auto simp: WStringToString_def StringToWString_def split: option.splits)

end
