(* ===== verification/SearchTree.thy ===== *)
theory SearchTree
  imports OrderedSet "HOL-Library.Tree"
begin

text \<open>
  \<^verbatim>\<open>std::map\<close> as the search tree the library keeps, for a comparator that need not be a strict
  weak order: which node a search reaches then depends on the shape of the tree. The search
  descends as the library's \<open>lower_bound\<close>, \<open>upper_bound\<close> and \<open>equal_range\<close> do; an iterator is an
  in-order index, \<open>end()\<close> the size. How the library rebalances is a parameter \<open>reb\<close>:
  \<open>reb t xs\<close> is the tree it has after an insertion or a removal has turned the entries of \<open>t\<close> into
  the sequence \<open>xs\<close>.
\<close>

subsection \<open>Descending\<close>

type_synonym ('k, 'v) map_tree = "('k \<times> 'v) tree"

type_synonym ('k, 'v) rebalance = "('k, 'v) map_tree \<Rightarrow> ('k \<times> 'v) list \<Rightarrow> ('k, 'v) map_tree"

text \<open>\<open>off\<close> entries lie before the subtree; \<open>y\<close> is the best candidate so far.\<close>

fun st_lower :: "('k \<Rightarrow> 'k \<Rightarrow> bool) \<Rightarrow> 'k \<Rightarrow> ('k, 'v) map_tree \<Rightarrow> nat \<Rightarrow> nat \<Rightarrow> nat" where
  "st_lower lt k Leaf off y = y"
| "st_lower lt k (Node l a r) off y =
     (if \<not> lt (fst a) k then st_lower lt k l off (off + size l)
      else st_lower lt k r (off + size l + 1) y)"

fun st_upper :: "('k \<Rightarrow> 'k \<Rightarrow> bool) \<Rightarrow> 'k \<Rightarrow> ('k, 'v) map_tree \<Rightarrow> nat \<Rightarrow> nat \<Rightarrow> nat" where
  "st_upper lt k Leaf off y = y"
| "st_upper lt k (Node l a r) off y =
     (if lt k (fst a) then st_upper lt k l off (off + size l)
      else st_upper lt k r (off + size l + 1) y)"

fun st_equal_range ::
  "('k \<Rightarrow> 'k \<Rightarrow> bool) \<Rightarrow> 'k \<Rightarrow> ('k, 'v) map_tree \<Rightarrow> nat \<Rightarrow> nat \<Rightarrow> nat \<times> nat"
where
  "st_equal_range lt k Leaf off y = (y, y)"
| "st_equal_range lt k (Node l a r) off y =
     (if lt (fst a) k then st_equal_range lt k r (off + size l + 1) y
      else if lt k (fst a) then st_equal_range lt k l off (off + size l)
      else (st_lower lt k l off (off + size l), st_upper lt k r (off + size l + 1) y))"

text \<open>Where a new node would hang: the number of entries before that place.\<close>

fun st_slot :: "('k \<Rightarrow> 'k \<Rightarrow> bool) \<Rightarrow> 'k \<Rightarrow> ('k, 'v) map_tree \<Rightarrow> nat \<Rightarrow> nat" where
  "st_slot lt k Leaf off = off"
| "st_slot lt k (Node l a r) off =
     (if lt k (fst a) then st_slot lt k l off else st_slot lt k r (off + size l + 1))"

subsection \<open>Operations\<close>

definition st_find :: "('k \<Rightarrow> 'k \<Rightarrow> bool) \<Rightarrow> 'k \<Rightarrow> ('k, 'v) map_tree \<Rightarrow> nat option" where
  "st_find lt k t = (let i = st_lower lt k t 0 (size t) in
     if i < size t \<and> \<not> lt k (fst (inorder t ! i)) then Some i else None)"

definition st_get :: "('k \<Rightarrow> 'k \<Rightarrow> bool) \<Rightarrow> 'k \<Rightarrow> ('k, 'v) map_tree \<Rightarrow> 'v option" where
  "st_get lt k t = map_option (\<lambda>i. snd (inorder t ! i)) (st_find lt k t)"

definition insert_at :: "nat \<Rightarrow> 'a \<Rightarrow> 'a list \<Rightarrow> 'a list" where
  "insert_at i x xs = take i xs @ x # drop i xs"

text \<open>\<open>insert\<close> of a pair: nothing happens when the node before the place has an equivalent key.\<close>

definition st_insert ::
  "('k \<Rightarrow> 'k \<Rightarrow> bool) \<Rightarrow> ('k, 'v) rebalance \<Rightarrow> 'k \<times> 'v \<Rightarrow> ('k, 'v) map_tree \<Rightarrow> ('k, 'v) map_tree"
where
  "st_insert lt reb x t = (let i = st_slot lt (fst x) t 0 in
     if i = 0 \<or> lt (fst (inorder t ! (i - 1))) (fst x) then reb t (insert_at i x (inorder t)) else t)"

text \<open>Changing the value of the \<open>i\<close>-th entry leaves the shape as it is.\<close>

fun st_update :: "nat \<Rightarrow> 'v \<Rightarrow> ('k, 'v) map_tree \<Rightarrow> ('k, 'v) map_tree" where
  "st_update i v Leaf = Leaf"
| "st_update i v (Node l a r) =
     (if i < size l then Node (st_update i v l) a r
      else if i = size l then Node l (fst a, v) r
      else Node l a (st_update (i - size l - 1) v r))"

text \<open>
  \<open>m[k] = v\<close>: the entry at the lower bound, or a new one inserted with that position as a hint.
  The hint is used when it fits between its neighbours, otherwise \<open>insert\<close> decides (and an
  entry it finds is the one that is assigned to).
\<close>

definition st_set ::
  "('k \<Rightarrow> 'k \<Rightarrow> bool) \<Rightarrow> ('k, 'v) rebalance \<Rightarrow> 'k \<Rightarrow> 'v \<Rightarrow> ('k, 'v) map_tree \<Rightarrow> ('k, 'v) map_tree"
where
  "st_set lt reb k v t = (let i = st_lower lt k t 0 (size t); xs = inorder t in
     if i < size t \<and> \<not> lt k (fst (xs ! i)) then st_update i v t
     else if (if i = size t then 0 < size t \<and> lt (fst (xs ! (i - 1))) k
              else i = 0 \<or> lt (fst (xs ! (i - 1))) k)
       then reb t (insert_at i (k, v) xs)
     else let j = st_slot lt k t 0 in
       if j = 0 \<or> lt (fst (xs ! (j - 1))) k then reb t (insert_at j (k, v) xs)
       else st_update (j - 1) v t)"

definition st_erase :: "('k \<Rightarrow> 'k \<Rightarrow> bool) \<Rightarrow> ('k, 'v) rebalance \<Rightarrow> 'k \<Rightarrow> ('k, 'v) map_tree \<Rightarrow> ('k, 'v) map_tree" where
  "st_erase lt reb k t = (let (lo, hi) = st_equal_range lt k t 0 (size t); xs = inorder t in
     if lo = hi then t else reb t (take lo xs @ drop hi xs))"

definition keeps_order :: "('k, 'v) rebalance \<Rightarrow> bool" where
  "keeps_order reb \<longleftrightarrow> (\<forall>t xs. inorder (reb t xs) = xs)"

subsection \<open>With a strict weak order\<close>

context strict_weak begin

lemma st_lower_eq:
  assumes "os_sorted lt fst (inorder t)"
  shows "st_lower lt k t off y =
    (if lower_bound lt fst k (inorder t) < size t then off + lower_bound lt fst k (inorder t) else y)"
  using assms
proof (induction t arbitrary: off y)
  case (Node l a r)
  have s: "os_sorted lt fst (inorder l)" "os_sorted lt fst (inorder r)"
    "\<forall>x \<in> set (inorder l). lt (fst x) (fst a)"
    using Node.prems by (auto simp: os_sorted_def sorted_wrt_append)
  show ?case
  proof (cases "lt (fst a) k")
    case True
    then have "\<forall>x \<in> set (inorder l). lt (fst x) k" using s(3) trans by blast
    then have "lower_bound lt fst k (inorder (Node l a r)) = size l + 1 + lower_bound lt fst k (inorder r)"
      using True takeWhile_append2[of "inorder l" "\<lambda>e. lt (fst e) k" "a # inorder r"]
      by (simp add: lower_bound_def)
    with True show ?thesis by (simp add: Node.IH(2)[OF s(2)])
  next
    case False
    have "lower_bound lt fst k (inorder (Node l a r)) = lower_bound lt fst k (inorder l)
        \<or> (lower_bound lt fst k (inorder l) = size l \<and> lower_bound lt fst k (inorder (Node l a r)) = size l)"
    proof (cases "\<exists>x \<in> set (inorder l). \<not> lt (fst x) k")
      case True
      then obtain x where "x \<in> set (inorder l)" "\<not> lt (fst x) k" by blast
      then show ?thesis by (simp add: lower_bound_def takeWhile_append1)
    next
      case all: False
      have "length (takeWhile (\<lambda>e. lt (fst e) k) (inorder l)) = length (inorder l)"
        using all by (metis takeWhile_eq_all_conv)
      with all False takeWhile_append2[of "inorder l" "\<lambda>e. lt (fst e) k" "a # inorder r"]
      show ?thesis by (simp add: lower_bound_def)
    qed
    moreover have "lower_bound lt fst k (inorder l) \<le> size l" using lower_bound_le[of fst k "inorder l"] by simp
    ultimately show ?thesis using False by (auto simp: Node.IH(1)[OF s(1)])
  qed
qed (simp add: lower_bound_def)

text \<open>Then the tree finds what the sequence of its entries has.\<close>

lemma st_find_eq: "os_sorted lt fst (inorder t) \<Longrightarrow> st_find lt k t = os_find lt fst k (inorder t)"
  by (auto simp: st_find_def os_find_def st_lower_eq Let_def)

lemma st_get_eq: "os_sorted lt fst (inorder t) \<Longrightarrow> st_get lt k t = om_find lt k (inorder t)"
  by (simp add: st_get_def om_find_def st_find_eq)

end

subsection \<open>With a comparator that only tells keys apart\<close>

text \<open>The keys a search can reach when \<open>lt a b\<close> just says that the keys differ.\<close>

fun right_spine :: "'a tree \<Rightarrow> 'a list" where
  "right_spine Leaf = []"
| "right_spine (Node l a r) = a # right_spine r"

lemma right_spine_subset: "set (right_spine t) \<subseteq> set_tree t"
  by (induction t) auto

definition differs :: "('k \<Rightarrow> 'k \<Rightarrow> bool) \<Rightarrow> bool" where
  "differs lt \<longleftrightarrow> (\<forall>a. \<not> lt a a) \<and> (\<forall>a b. lt a b \<longrightarrow> lt b a) \<and> (\<forall>a b c. \<not> lt a b \<longrightarrow> \<not> lt b c \<longrightarrow> \<not> lt a c)"

lemma st_lower_differs:
  assumes "differs lt"
  shows "st_lower lt k t off y = y \<and> (\<forall>x \<in> set (right_spine t). lt (fst x) k)
     \<or> (\<exists>i < size t. st_lower lt k t off y = off + i \<and> \<not> lt (fst (inorder t ! i)) k
          \<and> (\<exists>x \<in> set (right_spine t). \<not> lt (fst x) k))"
proof (induction t arbitrary: off y)
  case (Node l a r)
  show ?case
  proof (cases "lt (fst a) k")
    case True
    from Node.IH(2)[of "off + size l + 1" y] show ?thesis
    proof
      assume "\<exists>i < size r. st_lower lt k r (off + size l + 1) y = off + size l + 1 + i
          \<and> \<not> lt (fst (inorder r ! i)) k \<and> (\<exists>x \<in> set (right_spine r). \<not> lt (fst x) k)"
      then obtain i where i: "i < size r" "st_lower lt k r (off + size l + 1) y = off + size l + 1 + i"
        "\<not> lt (fst (inorder r ! i)) k" "\<exists>x \<in> set (right_spine r). \<not> lt (fst x) k" by blast
      then have "\<not> lt (fst (inorder (Node l a r) ! (size l + 1 + i))) k" by (simp add: nth_append)
      moreover have "st_lower lt k (Node l a r) off y = off + (size l + 1 + i)" using True i(2) by simp
      moreover have "size l + 1 + i < size (Node l a r)" using i(1) by simp
      moreover have "\<exists>x \<in> set (right_spine (Node l a r)). \<not> lt (fst x) k" using i(4) by auto
      ultimately show ?thesis by blast
    qed (use True in simp)
  next
    case False
    have sp: "\<exists>x \<in> set (right_spine (Node l a r)). \<not> lt (fst x) k" using False by auto
    from Node.IH(1)[of off "off + size l"] show ?thesis
    proof
      assume "\<exists>i < size l. st_lower lt k l off (off + size l) = off + i \<and> \<not> lt (fst (inorder l ! i)) k
          \<and> (\<exists>x \<in> set (right_spine l). \<not> lt (fst x) k)"
      then obtain i where i: "i < size l" "st_lower lt k l off (off + size l) = off + i" "\<not> lt (fst (inorder l ! i)) k"
        by blast
      then have "\<not> lt (fst (inorder (Node l a r) ! i)) k" by (simp add: nth_append)
      moreover have "st_lower lt k (Node l a r) off y = off + i" using False i(2) by simp
      moreover have "i < size (Node l a r)" using i(1) by simp
      ultimately show ?thesis using sp by blast
    next
      assume "st_lower lt k l off (off + size l) = off + size l \<and> (\<forall>x \<in> set (right_spine l). lt (fst x) k)"
      then have "st_lower lt k (Node l a r) off y = off + size l" using False by simp
      moreover have "\<not> lt (fst (inorder (Node l a r) ! size l)) k" using False by (simp add: nth_append)
      moreover have "size l < size (Node l a r)" by simp
      ultimately show ?thesis using sp by blast
    qed
  qed
qed simp

lemma st_find_differs:
  assumes "differs lt"
  shows "st_find lt k t \<noteq> None \<longleftrightarrow> (\<exists>x \<in> set (right_spine t). \<not> lt (fst x) k)"
proof -
  let ?i = "st_lower lt k t 0 (size t)"
  have sym: "lt k a \<longleftrightarrow> lt a k" for a using assms unfolding differs_def by blast
  from st_lower_differs[OF assms, of k t 0 "size t"] show ?thesis
  proof
    assume "?i = size t \<and> (\<forall>x \<in> set (right_spine t). lt (fst x) k)"
    then show ?thesis by (auto simp: st_find_def Let_def)
  next
    assume "\<exists>i < size t. ?i = 0 + i \<and> \<not> lt (fst (inorder t ! i)) k \<and> (\<exists>x \<in> set (right_spine t). \<not> lt (fst x) k)"
    then have "?i < size t" "\<not> lt (fst (inorder t ! ?i)) k" "\<exists>x \<in> set (right_spine t). \<not> lt (fst x) k" by auto
    then show ?thesis by (simp add: st_find_def Let_def sym)
  qed
qed

end
