(* ===== verification/CString.thy ===== *)
theory CString
  imports Util
begin

text \<open>
  The parts of the C and C++ string library the program uses: C strings end at the first
  NUL, comparison and search without regard to case, \<open>std::string::find\<close> of a character, and
  decimal output.
\<close>

subsection \<open>Definitions\<close>

definition c_str :: "string \<Rightarrow> string" where
  "c_str s = takeWhile (\<lambda>c. c \<noteq> CHR 0x00) s"

text \<open>\<open>strcasecmp(a.c_str(), b.c_str()) == 0\<close>\<close>

definition same_ci :: "string \<Rightarrow> string \<Rightarrow> bool" where
  "same_ci a b = (ToLower (c_str a) = ToLower (c_str b))"

fun is_prefix :: "'a list \<Rightarrow> 'a list \<Rightarrow> bool" where
  "is_prefix [] ys = True"
| "is_prefix (x # xs) [] = False"
| "is_prefix (x # xs) (y # ys) = (x = y \<and> is_prefix xs ys)"

fun is_infix :: "'a list \<Rightarrow> 'a list \<Rightarrow> bool" where
  "is_infix xs [] = (xs = [])"
| "is_infix xs (y # ys) = (is_prefix xs (y # ys) \<or> is_infix xs ys)"

text \<open>\<open>strcasestr(hay.c_str(), needle) != nullptr\<close>\<close>

definition strcasestr :: "string \<Rightarrow> string \<Rightarrow> bool" where
  "strcasestr hay needle = is_infix (ToLower needle) (ToLower (c_str hay))"

definition str_find :: "char \<Rightarrow> nat \<Rightarrow> string \<Rightarrow> nat option" where
  "str_find c pos s = (let i = pos + length (takeWhile (\<lambda>d. d \<noteq> c) (drop pos s)) in
     if i < length s then Some i else None)"

definition digit :: "nat \<Rightarrow> char" where
  "digit d = ''0123456789'' ! d"

fun dec_str :: "nat \<Rightarrow> string" where
  "dec_str n = (if n < 10 then [digit n] else dec_str (n div 10) @ [digit (n mod 10)])"

declare dec_str.simps [simp del]

definition crlf :: string where
  "crlf = [CHR 0x0D, CHR 0x0A]"

subsection \<open>Facts\<close>

lemma same_ci_refl [simp]: "same_ci a a"
  by (simp add: same_ci_def)

lemma is_prefix_append: "is_prefix xs (xs @ ys)"
  by (induction xs) simp_all

lemma str_find_append:
  assumes "c \<notin> set xs"
  shows "str_find c (length pre) (pre @ xs @ c # ys) = Some (length pre + length xs)"
    and "str_find c (length pre) (pre @ xs) = None"
proof -
  have "takeWhile (\<lambda>d. d \<noteq> c) (xs @ c # ys) = xs" using assms by (subst takeWhile_append2) auto
  then show "str_find c (length pre) (pre @ xs @ c # ys) = Some (length pre + length xs)"
    by (simp add: str_find_def)
  have "length (takeWhile (\<lambda>d. d \<noteq> c) xs) = length xs"
    by (rule arg_cong[of _ _ length], rule takeWhile_eq_all_conv[THEN iffD2]) (use assms in auto)
  then show "str_find c (length pre) (pre @ xs) = None" by (simp add: str_find_def)
qed

lemma str_find_Some:
  "str_find c pos s = Some i \<Longrightarrow> pos \<le> i \<and> i < length s"
  by (auto simp: str_find_def Let_def split: if_splits)

definition decimal_digits :: "char set" where
  "decimal_digits = set ''0123456789''"

lemma digit_range: "d < 10 \<Longrightarrow> digit d \<in> decimal_digits"
  unfolding digit_def decimal_digits_def by (rule nth_mem) simp

lemma dec_str_digits: "set (dec_str n) \<subseteq> decimal_digits"
proof (induction n rule: dec_str.induct)
  case (1 n)
  then show ?case
    using digit_range[of n] digit_range[of "n mod 10"] by (subst dec_str.simps) auto
qed

lemma dec_str_nonempty: "dec_str n \<noteq> []"
  by (subst dec_str.simps) simp

text \<open>Reading the digits back.\<close>

definition digit_val :: "char \<Rightarrow> nat" where
  "digit_val c = of_char c - 48"

definition dec_val :: "string \<Rightarrow> nat" where
  "dec_val s = foldl (\<lambda>n c. 10 * n + digit_val c) 0 s"

lemma digit_val_digit: "d < 10 \<Longrightarrow> digit_val (digit d) = d"
proof -
  assume "d < 10"
  moreover have "list_all (\<lambda>d. digit_val (digit d) = d) [0..<10]" by code_simp
  ultimately show ?thesis by (auto simp: list_all_iff)
qed

lemma dec_val_str: "dec_val (dec_str n) = n"
proof (induction n rule: dec_str.induct)
  case (1 n)
  show ?case
  proof (cases "n < 10")
    case True
    then show ?thesis by (subst dec_str.simps) (simp add: dec_val_def digit_val_digit)
  next
    case False
    from 1[OF False] have "foldl (\<lambda>n c. 10 * n + digit_val c) 0 (dec_str (n div 10)) = n div 10"
      by (simp add: dec_val_def)
    with False show ?thesis by (subst dec_str.simps) (simp add: dec_val_def digit_val_digit)
  qed
qed

end
