(* ===== verification/Http.thy ===== *)
theory Http
  imports SearchTree CString
begin

unbundle bit_operations_syntax

text \<open>
  HTTP requests and responses (\<^verbatim>\<open>include/http.h\<close>, \<^verbatim>\<open>src/http.cc\<close>). The maps of headers,
  parameters and cookies are search trees ordered by \<open>CaseInsensitiveLess\<close>, which is no order at
  all; \<open>reb\<close> is the library's rebalancing (theory \<open>SearchTree\<close>).
\<close>

subsection \<open>Methods and status codes\<close>

datatype http_method =
    DELETE | GET | HEAD | POST | PUT | CONNECT | OPTIONS | TRACE | COPY
  | LOCK | MKCOL | MOVE | PROPFIND | PROPPATCH | SEARCH | UNLOCK | BIND | REBIND
  | UNBIND | ACL | REPORT | MKACTIVITY | CHECKOUT | MERGE | MSEARCH | NOTIFY | SUBSCRIBE
  | UNSUBSCRIBE | PATCH | PURGE | MKCALENDAR | LINK | UNLINK | SOURCE | INVALID_METHOD

text \<open>\<open>HTTP_METHOD_MAP\<close>: the number of a method is its position.\<close>

definition http_method_map :: "(http_method \<times> string) list" where
  "http_method_map =
   [(DELETE, ''DELETE''), (GET, ''GET''), (HEAD, ''HEAD''), (POST, ''POST''),
    (PUT, ''PUT''), (CONNECT, ''CONNECT''), (OPTIONS, ''OPTIONS''), (TRACE, ''TRACE''),
    (COPY, ''COPY''), (LOCK, ''LOCK''), (MKCOL, ''MKCOL''), (MOVE, ''MOVE''),
    (PROPFIND, ''PROPFIND''), (PROPPATCH, ''PROPPATCH''), (SEARCH, ''SEARCH''), (UNLOCK, ''UNLOCK''),
    (BIND, ''BIND''), (REBIND, ''REBIND''), (UNBIND, ''UNBIND''), (ACL, ''ACL''),
    (REPORT, ''REPORT''), (MKACTIVITY, ''MKACTIVITY''), (CHECKOUT, ''CHECKOUT''), (MERGE, ''MERGE''),
    (MSEARCH, ''M - SEARCH''), (NOTIFY, ''NOTIFY''), (SUBSCRIBE, ''SUBSCRIBE''), (UNSUBSCRIBE, ''UNSUBSCRIBE''),
    (PATCH, ''PATCH''), (PURGE, ''PURGE''), (MKCALENDAR, ''MKCALENDAR''), (LINK, ''LINK''),
    (UNLINK, ''UNLINK''), (SOURCE, ''SOURCE'')]"

definition http_status_map :: "(nat \<times> string) list" where
  "http_status_map =
   [(100, ''Continue''), (101, ''Switching Protocols''), (102, ''Processing''),
    (200, ''OK''), (201, ''Created''), (202, ''Accepted''),
    (203, ''Non - Authoritative Information''), (204, ''No Content''), (205, ''Reset Content''),
    (206, ''Partial Content''), (207, ''Multi - Status''), (208, ''Already Reported''),
    (226, ''IM Used''), (300, ''Multiple Choices''), (301, ''Moved Permanently''),
    (302, ''Found''), (303, ''See Other''), (304, ''Not Modified''),
    (305, ''Use Proxy''), (307, ''Temporary Redirect''), (308, ''Permanent Redirect''),
    (400, ''Bad Request''), (401, ''Unauthorized''), (402, ''Payment Required''),
    (403, ''Forbidden''), (404, ''Not Found''), (405, ''Method Not Allowed''),
    (406, ''Not Acceptable''), (407, ''Proxy Authentication Required''), (408, ''Request Timeout''),
    (409, ''Conflict''), (410, ''Gone''), (411, ''Length Required''),
    (412, ''Precondition Failed''), (413, ''Payload Too Large''), (414, ''URI Too Long''),
    (415, ''Unsupported Media Type''), (416, ''Range Not Satisfiable''), (417, ''Expectation Failed''),
    (421, ''Misdirected Request''), (422, ''Unprocessable Entity''), (423, ''Locked''),
    (424, ''Failed Dependency''), (426, ''Upgrade Required''), (428, ''Precondition Required''),
    (429, ''Too Many Requests''), (431, ''Request Header Fields Too Large''), (451, ''Unavailable For Legal Reasons''),
    (500, ''Internal Server Error''), (501, ''Not Implemented''), (502, ''Bad Gateway''),
    (503, ''Service Unavailable''), (504, ''Gateway Timeout''), (505, ''HTTP Version Not Supported''),
    (506, ''Variant Also Negotiates''), (507, ''Insufficient Storage''), (508, ''Loop Detected''),
    (510, ''Not Extended''), (511, ''Network Authentication Required'')]"

definition StringToHttpMethod :: "string \<Rightarrow> http_method" where
  "StringToHttpMethod m = (case find (\<lambda>(_, s). s = c_str m) http_method_map of
     Some (name, _) \<Rightarrow> name | None \<Rightarrow> INVALID_METHOD)"

definition CharsToHttpMethod :: "string \<Rightarrow> http_method" where
  "CharsToHttpMethod m = (case find (\<lambda>(_, s). is_prefix s (c_str m)) http_method_map of
     Some (name, _) \<Rightarrow> name | None \<Rightarrow> INVALID_METHOD)"

definition method_num :: "http_method \<Rightarrow> nat" where
  "method_num m = length (takeWhile (\<lambda>(name, _). name \<noteq> m) http_method_map)"

definition s_method_string :: "string list" where
  "s_method_string = map snd http_method_map"

definition HttpMethodToString :: "http_method \<Rightarrow> string" where
  "HttpMethodToString m = (let idx = method_num m in
     if length s_method_string \<le> idx then ''<unknown>'' else s_method_string ! idx)"

definition HttpStatusToString :: "nat \<Rightarrow> string" where
  "HttpStatusToString s = (case map_of http_status_map s of Some msg \<Rightarrow> msg | None \<Rightarrow> ''<unknown>'')"

subsection \<open>Maps\<close>

definition CaseInsensitiveLess :: "string \<Rightarrow> string \<Rightarrow> bool" where
  "CaseInsensitiveLess lhs rhs = (\<not> same_ci lhs rhs)"

type_synonym http_map = "(string, string) map_tree"

type_synonym http_rebalance = "(string, string) rebalance"

abbreviation hm_get :: "string \<Rightarrow> http_map \<Rightarrow> string option" where
  "hm_get \<equiv> st_get CaseInsensitiveLess"

abbreviation hm_set :: "http_rebalance \<Rightarrow> string \<Rightarrow> string \<Rightarrow> http_map \<Rightarrow> http_map" where
  "hm_set \<equiv> st_set CaseInsensitiveLess"

abbreviation hm_erase :: "http_rebalance \<Rightarrow> string \<Rightarrow> http_map \<Rightarrow> http_map" where
  "hm_erase \<equiv> st_erase CaseInsensitiveLess"

text \<open>\<open>lexical_cast\<close> is the conversion, \<open>None\<close> when it throws; the result is also stored in \<open>val\<close>.\<close>

definition checkGetAs :: "(string \<Rightarrow> 'a option) \<Rightarrow> http_map \<Rightarrow> string \<Rightarrow> 'a \<Rightarrow> bool \<times> 'a" where
  "checkGetAs lexical_cast m key dflt = (case hm_get key m of
     None \<Rightarrow> (False, dflt)
   | Some s \<Rightarrow> (case lexical_cast s of Some v \<Rightarrow> (True, v) | None \<Rightarrow> (False, dflt)))"

definition getAs :: "(string \<Rightarrow> 'a option) \<Rightarrow> http_map \<Rightarrow> string \<Rightarrow> 'a \<Rightarrow> 'a" where
  "getAs lexical_cast m key dflt = (case hm_get key m of
     None \<Rightarrow> dflt
   | Some s \<Rightarrow> (case lexical_cast s of Some v \<Rightarrow> v | None \<Rightarrow> dflt))"

subsection \<open>HttpRequest\<close>

record http_request =
  rq_method :: http_method
  rq_version :: "8 word"
  rq_close :: bool
  rq_websocket :: bool
  rq_parserParamFlag :: "8 word"
  rq_path :: string
  rq_query :: string
  rq_fragment :: string
  rq_body :: string
  rq_headers :: http_map
  rq_params :: http_map
  rq_cookies :: http_map

definition HttpRequest :: "8 word \<Rightarrow> bool \<Rightarrow> http_request" where
  "HttpRequest version close = \<lparr>rq_method = GET, rq_version = version, rq_close = close,
     rq_websocket = False, rq_parserParamFlag = 0, rq_path = ''/'', rq_query = [], rq_fragment = [],
     rq_body = [], rq_headers = Leaf, rq_params = Leaf, rq_cookies = Leaf\<rparr>"

definition rq_getHeader :: "string \<Rightarrow> string \<Rightarrow> http_request \<Rightarrow> string" where
  "rq_getHeader key dflt s = (case hm_get key (rq_headers s) of None \<Rightarrow> dflt | Some v \<Rightarrow> v)"

definition rq_setHeader :: "http_rebalance \<Rightarrow> string \<Rightarrow> string \<Rightarrow> http_request \<Rightarrow> http_request" where
  "rq_setHeader reb key val s = s\<lparr>rq_headers := hm_set reb key val (rq_headers s)\<rparr>"

definition rq_setParam :: "http_rebalance \<Rightarrow> string \<Rightarrow> string \<Rightarrow> http_request \<Rightarrow> http_request" where
  "rq_setParam reb key val s = s\<lparr>rq_params := hm_set reb key val (rq_params s)\<rparr>"

definition rq_setCookie :: "http_rebalance \<Rightarrow> string \<Rightarrow> string \<Rightarrow> http_request \<Rightarrow> http_request" where
  "rq_setCookie reb key val s = s\<lparr>rq_cookies := hm_set reb key val (rq_cookies s)\<rparr>"

definition rq_delHeader :: "http_rebalance \<Rightarrow> string \<Rightarrow> http_request \<Rightarrow> http_request" where
  "rq_delHeader reb key s = s\<lparr>rq_headers := hm_erase reb key (rq_headers s)\<rparr>"

definition rq_delParam :: "http_rebalance \<Rightarrow> string \<Rightarrow> http_request \<Rightarrow> http_request" where
  "rq_delParam reb key s = s\<lparr>rq_params := hm_erase reb key (rq_params s)\<rparr>"

definition rq_delCookie :: "http_rebalance \<Rightarrow> string \<Rightarrow> http_request \<Rightarrow> http_request" where
  "rq_delCookie reb key s = s\<lparr>rq_cookies := hm_erase reb key (rq_cookies s)\<rparr>"

text \<open>\<open>Some v\<close> for \<open>true\<close>, with \<open>v\<close> stored through the pointer \<open>val\<close> if there is one.\<close>

definition rq_hasHeader :: "string \<Rightarrow> http_request \<Rightarrow> string option" where
  "rq_hasHeader key s = hm_get key (rq_headers s)"

definition rq_init :: "http_request \<Rightarrow> http_request" where
  "rq_init s = (let conn = rq_getHeader ''connection'' [] s in
     if conn \<noteq> [] then s\<lparr>rq_close := \<not> same_ci conn ''keep-alive''\<rparr> else s)"

subsection \<open>Parameters and cookies\<close>

definition blanks :: string where
  "blanks = [CHR '' '', CHR 0x09, CHR 0x0D, CHR 0x0A]"

text \<open>\<open>PARSE_PARAM\<close>: \<open>pos\<close> is where the current pair begins.\<close>

function parse_param ::
  "http_rebalance \<Rightarrow> string \<Rightarrow> char \<Rightarrow> (string \<Rightarrow> string) \<Rightarrow> nat \<Rightarrow> http_map \<Rightarrow> http_map"
where
  "parse_param reb str flag trim pos m =
     (case str_find (CHR ''='') pos str of
        None \<Rightarrow> m
      | Some key \<Rightarrow>
          let name = trim (substr str pos (key - pos)) in
          (case str_find flag key str of
             None \<Rightarrow> st_insert CaseInsensitiveLess reb (name, UrlDecode (drop (key + 1) str) True) m
           | Some amp \<Rightarrow> parse_param reb str flag trim (amp + 1)
               (st_insert CaseInsensitiveLess reb
                 (name, UrlDecode (substr str (key + 1) (amp - key - 1)) True) m)))"
  by pat_completeness auto
termination
  by (relation "measure (\<lambda>(_, str, _, _, pos, _). length str - pos)") (auto dest!: str_find_Some)

declare parse_param.simps [simp del]

definition initQueryParam :: "http_rebalance \<Rightarrow> http_request \<Rightarrow> http_request" where
  "initQueryParam reb s =
     (if rq_parserParamFlag s AND 0x1 \<noteq> 0 then s
      else s\<lparr>rq_params := parse_param reb (rq_query s) (CHR ''&'') (\<lambda>x. x) 0 (rq_params s),
             rq_parserParamFlag := rq_parserParamFlag s OR 0x1\<rparr>)"

definition initBodyParam :: "http_rebalance \<Rightarrow> http_request \<Rightarrow> http_request" where
  "initBodyParam reb s =
     (if rq_parserParamFlag s AND 0x2 \<noteq> 0 then s
      else if \<not> strcasestr (rq_getHeader ''content-type'' [] s) ''application/x-www-form-urlencoded''
        then s\<lparr>rq_parserParamFlag := rq_parserParamFlag s OR 0x2\<rparr>
      else s\<lparr>rq_params := parse_param reb (rq_body s) (CHR ''&'') (\<lambda>x. x) 0 (rq_params s),
             rq_parserParamFlag := rq_parserParamFlag s OR 0x2\<rparr>)"

definition initCookies :: "http_rebalance \<Rightarrow> http_request \<Rightarrow> http_request" where
  "initCookies reb s =
     (if rq_parserParamFlag s AND 0x4 \<noteq> 0 then s
      else let cookie = rq_getHeader ''cookie'' [] s in
        if cookie = [] then s\<lparr>rq_parserParamFlag := rq_parserParamFlag s OR 0x4\<rparr>
        else s\<lparr>rq_cookies := parse_param reb cookie (CHR '';'') (\<lambda>x. Trim x blanks) 0 (rq_cookies s),
               rq_parserParamFlag := rq_parserParamFlag s OR 0x4\<rparr>)"

definition initParam :: "http_rebalance \<Rightarrow> http_request \<Rightarrow> http_request" where
  "initParam reb s = initCookies reb (initBodyParam reb (initQueryParam reb s))"

definition rq_getParam :: "http_rebalance \<Rightarrow> string \<Rightarrow> string \<Rightarrow> http_request \<Rightarrow> string \<times> http_request" where
  "rq_getParam reb key dflt s = (let s = initBodyParam reb (initQueryParam reb s) in
     (case hm_get key (rq_params s) of None \<Rightarrow> dflt | Some v \<Rightarrow> v, s))"

definition rq_getCookie :: "http_rebalance \<Rightarrow> string \<Rightarrow> string \<Rightarrow> http_request \<Rightarrow> string \<times> http_request" where
  "rq_getCookie reb key dflt s = (let s = initCookies reb s in
     (case hm_get key (rq_cookies s) of None \<Rightarrow> dflt | Some v \<Rightarrow> v, s))"

definition rq_hasParam :: "http_rebalance \<Rightarrow> string \<Rightarrow> http_request \<Rightarrow> string option \<times> http_request" where
  "rq_hasParam reb key s = (let s = initBodyParam reb (initQueryParam reb s) in (hm_get key (rq_params s), s))"

definition rq_hasCookie :: "http_rebalance \<Rightarrow> string \<Rightarrow> http_request \<Rightarrow> string option \<times> http_request" where
  "rq_hasCookie reb key s = (let s = initCookies reb s in (hm_get key (rq_cookies s), s))"

subsection \<open>Typed access\<close>

definition rq_checkGetHeaderAs :: "(string \<Rightarrow> 'a option) \<Rightarrow> string \<Rightarrow> 'a \<Rightarrow> http_request \<Rightarrow> bool \<times> 'a" where
  "rq_checkGetHeaderAs lexical_cast key dflt s = checkGetAs lexical_cast (rq_headers s) key dflt"

definition rq_getHeaderAs :: "(string \<Rightarrow> 'a option) \<Rightarrow> string \<Rightarrow> 'a \<Rightarrow> http_request \<Rightarrow> 'a" where
  "rq_getHeaderAs lexical_cast key dflt s = getAs lexical_cast (rq_headers s) key dflt"

definition checkGetParamAs ::
  "http_rebalance \<Rightarrow> (string \<Rightarrow> 'a option) \<Rightarrow> string \<Rightarrow> 'a \<Rightarrow> http_request \<Rightarrow> (bool \<times> 'a) \<times> http_request"
where
  "checkGetParamAs reb lexical_cast key dflt s = (let s = initBodyParam reb (initQueryParam reb s) in
     (checkGetAs lexical_cast (rq_params s) key dflt, s))"

definition getParamAs :: "http_rebalance \<Rightarrow> (string \<Rightarrow> 'a option) \<Rightarrow> string \<Rightarrow> 'a \<Rightarrow> http_request \<Rightarrow> 'a \<times> http_request" where
  "getParamAs reb lexical_cast key dflt s = (let s = initBodyParam reb (initQueryParam reb s) in
     (getAs lexical_cast (rq_params s) key dflt, s))"

definition checkGetCookieAs ::
  "http_rebalance \<Rightarrow> (string \<Rightarrow> 'a option) \<Rightarrow> string \<Rightarrow> 'a \<Rightarrow> http_request \<Rightarrow> (bool \<times> 'a) \<times> http_request"
where
  "checkGetCookieAs reb lexical_cast key dflt s = (let s = initCookies reb s in
     (checkGetAs lexical_cast (rq_cookies s) key dflt, s))"

definition getCookieAs :: "http_rebalance \<Rightarrow> (string \<Rightarrow> 'a option) \<Rightarrow> string \<Rightarrow> 'a \<Rightarrow> http_request \<Rightarrow> 'a \<times> http_request" where
  "getCookieAs reb lexical_cast key dflt s = (let s = initCookies reb s in
     (getAs lexical_cast (rq_cookies s) key dflt, s))"

subsection \<open>Output\<close>

definition version_str :: "8 word \<Rightarrow> string" where
  "version_str v = dec_str (unat (drop_bit 4 v)) @ ''.'' @ dec_str (unat (v AND 0x0F))"

definition connection_line :: "bool \<Rightarrow> string" where
  "connection_line close = ''connection: '' @ (if close then ''close'' else ''keep-alive'')"

definition dump_headers :: "bool \<Rightarrow> http_map \<Rightarrow> string" where
  "dump_headers websocket headers = concat (map (\<lambda>(k, v).
     if \<not> websocket \<and> same_ci k ''connection'' then [] else k @ '': '' @ v @ crlf) (inorder headers))"

definition dump_body :: "string \<Rightarrow> string" where
  "dump_body body = (if body \<noteq> [] then ''content-length: '' @ dec_str (length body) @ crlf @ crlf @ body
     else crlf)"

definition rq_dump :: "http_request \<Rightarrow> string" where
  "rq_dump s =
     HttpMethodToString (rq_method s) @ '' '' @ rq_path s
     @ (if rq_query s = [] then [] else ''?'') @ rq_query s
     @ (if rq_fragment s = [] then [] else ''#'') @ rq_fragment s @ '' HTTP/'' @ version_str (rq_version s) @ crlf
     @ (if \<not> rq_websocket s then connection_line (rq_close s) @ crlf else [])
     @ dump_headers (rq_websocket s) (rq_headers s) @ dump_body (rq_body s)"

definition rq_toString :: "http_request \<Rightarrow> string" where
  "rq_toString s = rq_dump s"

subsection \<open>HttpResponse\<close>

record http_response =
  rs_status :: nat
  rs_version :: "8 word"
  rs_close :: bool
  rs_websocket :: bool
  rs_body :: string
  rs_reason :: string
  rs_headers :: http_map
  rs_cookies :: "string list"

definition HttpResponse :: "8 word \<Rightarrow> bool \<Rightarrow> http_response" where
  "HttpResponse version close = \<lparr>rs_status = 200, rs_version = version, rs_close = close,
     rs_websocket = False, rs_body = [], rs_reason = [], rs_headers = Leaf, rs_cookies = []\<rparr>"

definition createResponse :: "http_request \<Rightarrow> http_response" where
  "createResponse s = HttpResponse (rq_version s) (rq_close s)"

definition rs_getHeader :: "string \<Rightarrow> string \<Rightarrow> http_response \<Rightarrow> string" where
  "rs_getHeader key dflt s = (case hm_get key (rs_headers s) of None \<Rightarrow> dflt | Some v \<Rightarrow> v)"

definition rs_setHeader :: "http_rebalance \<Rightarrow> string \<Rightarrow> string \<Rightarrow> http_response \<Rightarrow> http_response" where
  "rs_setHeader reb key val s = s\<lparr>rs_headers := hm_set reb key val (rs_headers s)\<rparr>"

definition rs_delHeader :: "http_rebalance \<Rightarrow> string \<Rightarrow> http_response \<Rightarrow> http_response" where
  "rs_delHeader reb key s = s\<lparr>rs_headers := hm_erase reb key (rs_headers s)\<rparr>"

definition setRedirect :: "http_rebalance \<Rightarrow> string \<Rightarrow> http_response \<Rightarrow> http_response" where
  "setRedirect reb uri s = rs_setHeader reb ''Location'' uri (s\<lparr>rs_status := 302\<rparr>)"

text \<open>\<open>time2str\<close> stands for \<open>Time2Str\<close>, that is, \<open>localtime_r\<close> and \<open>strftime\<close>.\<close>

definition rs_setCookie ::
  "(int \<Rightarrow> string \<Rightarrow> string) \<Rightarrow> string \<Rightarrow> string \<Rightarrow> int \<Rightarrow> string \<Rightarrow> string \<Rightarrow> bool \<Rightarrow> http_response \<Rightarrow> http_response"
where
  "rs_setCookie time2str key val expired path domain secure s =
     (let ss = key @ ''='' @ val
        @ (if 0 < expired then '';expires='' @ time2str expired ''%a, %d %b %Y %H:%M:%S'' @ '' GMT'' else [])
        @ (if domain \<noteq> [] then '';domain='' @ domain else [])
        @ (if path \<noteq> [] then '';path='' @ path else [])
        @ (if secure then '';secure'' else [])
      in s\<lparr>rs_cookies := rs_cookies s @ [ss]\<rparr>)"

definition rs_dump :: "http_response \<Rightarrow> string" where
  "rs_dump s =
     ''HTTP/'' @ version_str (rs_version s) @ '' '' @ dec_str (rs_status s) @ '' ''
     @ (if rs_reason s = [] then HttpStatusToString (rs_status s) else rs_reason s) @ crlf
     @ dump_headers (rs_websocket s) (rs_headers s)
     @ concat (map (\<lambda>i. ''Set-Cookie: '' @ i @ crlf) (rs_cookies s))
     @ (if \<not> rs_websocket s then connection_line (rs_close s) @ crlf else [])
     @ dump_body (rs_body s)"

definition rs_checkGetHeaderAs :: "(string \<Rightarrow> 'a option) \<Rightarrow> string \<Rightarrow> 'a \<Rightarrow> http_response \<Rightarrow> bool \<times> 'a" where
  "rs_checkGetHeaderAs lexical_cast key dflt s = checkGetAs lexical_cast (rs_headers s) key dflt"

definition rs_getHeaderAs :: "(string \<Rightarrow> 'a option) \<Rightarrow> string \<Rightarrow> 'a \<Rightarrow> http_response \<Rightarrow> 'a" where
  "rs_getHeaderAs lexical_cast key dflt s = getAs lexical_cast (rs_headers s) key dflt"

definition rs_toString :: "http_response \<Rightarrow> string" where
  "rs_toString s = rs_dump s"

end
