(* ===== verification/HttpProps.thy ===== *)
theory HttpProps
  imports Http
begin

text \<open>
  Properties of the HTTP messages: the tables of methods, what a look-up in a header map can
  find, query strings, and the framing of what is sent.
\<close>

subsection \<open>Methods\<close>

text \<open>The name of every method is read back as that method, also at the start of a longer
  text; \<open>M-SEARCH\<close>, the real name of one of them, is not recognised.\<close>

lemma methods_roundtrip:
  "StringToHttpMethod (HttpMethodToString m) = m
   \<and> CharsToHttpMethod (HttpMethodToString m @ rest) = m
   \<and> StringToHttpMethod ''M-SEARCH'' = INVALID_METHOD"
proof (intro conjI)
  note defs = HttpMethodToString_def method_num_def s_method_string_def http_method_map_def
  show "StringToHttpMethod (HttpMethodToString m) = m"
    by (cases m) (simp_all add: StringToHttpMethod_def defs c_str_def)
  show "CharsToHttpMethod (HttpMethodToString m @ rest) = m"
    by (cases m) (simp_all add: CharsToHttpMethod_def defs c_str_def)
  show "StringToHttpMethod ''M-SEARCH'' = INVALID_METHOD"
    by (simp add: StringToHttpMethod_def http_method_map_def c_str_def)
qed

subsection \<open>Looking up a header\<close>

lemma differs_CaseInsensitiveLess: "differs CaseInsensitiveLess"
  by (auto simp: differs_def CaseInsensitiveLess_def same_ci_def)

lemma hm_get_iff: "hm_get key m \<noteq> None \<longleftrightarrow> (\<exists>x \<in> set (right_spine m). same_ci (fst x) key)"
  using st_find_differs[OF differs_CaseInsensitiveLess, of key m]
  by (auto simp: st_get_def CaseInsensitiveLess_def)

text \<open>A request has a header exactly if its key is, up to case, that of an entry on the right
  spine of the tree the map keeps; an entry anywhere else is never found.\<close>

lemma hasHeader_right_spine:
  "rq_hasHeader key s \<noteq> None \<longleftrightarrow> (\<exists>x \<in> set (right_spine (rq_headers s)). same_ci (fst x) key)"
  unfolding rq_hasHeader_def by (rule hm_get_iff)

lemma hm_set_new:
  assumes "keeps_order reb" "hm_get key m = None" "\<forall>x \<in> set_tree m. \<not> same_ci (fst x) key"
  shows "hm_set reb key v m = reb m (inorder m @ [(key, v)])"
proof -
  have i: "st_lower CaseInsensitiveLess key m 0 (size m) = size m"
    using st_lower_differs[OF differs_CaseInsensitiveLess, of key m 0 "size m"] assms(3)
      right_spine_subset[of m] by (auto simp: CaseInsensitiveLess_def)
  have slot: "st_slot CaseInsensitiveLess key t off = off" if "\<forall>x \<in> set_tree t. \<not> same_ci (fst x) key" for t off
    using that by (induction t arbitrary: off) (auto simp: CaseInsensitiveLess_def same_ci_def)
  show ?thesis
  proof (cases m)
    case Leaf
    then show ?thesis by (simp add: st_set_def insert_at_def)
  next
    case (Node l a r)
    have "inorder m ! (size m - 1) \<in> set_tree m"
      using nth_mem[of "size m - 1" "inorder m"] Node by simp
    then have "CaseInsensitiveLess (fst (inorder m ! (size m - 1))) key"
      using assms(3) by (simp add: CaseInsensitiveLess_def)
    with i Node show ?thesis by (simp add: st_set_def Let_def insert_at_def)
  qed
qed

text \<open>A library that balances: three entries are not a list.\<close>

definition balances :: "http_rebalance \<Rightarrow> bool" where
  "balances reb \<longleftrightarrow> keeps_order reb \<and> (\<forall>t xs. 3 \<le> length xs \<longrightarrow> left (reb t xs) \<noteq> Leaf)"

text \<open>C23: with a balanced tree, the third header that is set makes one of the three
  disappear for every later look-up, though all three are still stored.\<close>

theorem third_header_hides_one:
  assumes "balances reb" "\<not> same_ci a b" "\<not> same_ci a c" "\<not> same_ci b c"
    and "s = rq_setHeader reb c vc (rq_setHeader reb b vb (rq_setHeader reb a va (HttpRequest ver close)))"
  shows "inorder (rq_headers s) = [(a, va), (b, vb), (c, vc)] \<and> (\<exists>k \<in> {a, b, c}. rq_hasHeader k s = None)"
proof -
  have reb: "inorder (reb t xs) = xs" for t xs using assms(1) by (simp add: balances_def keeps_order_def)
  have k: "keeps_order reb" using assms(1) by (simp add: balances_def)
  have st: "set_tree (reb t xs) = set xs" for t xs using reb[of t xs] by (metis set_inorder)
  have none: "hm_get key m = None" if "\<forall>x \<in> set_tree m. \<not> same_ci (fst x) key" for key m
    using hm_get_iff[of key m] that right_spine_subset[of m] by auto
  have new: "hm_set reb key v m = reb m (inorder m @ [(key, v)])" if "\<forall>x \<in> set_tree m. \<not> same_ci (fst x) key" for key v m
    using hm_set_new[OF k none[OF that] that] .
  let ?t1 = "reb Leaf [(a, va)]"
  let ?t2 = "reb ?t1 [(a, va), (b, vb)]"
  let ?t3 = "reb ?t2 [(a, va), (b, vb), (c, vc)]"
  have 1: "hm_set reb a va Leaf = ?t1" using new[of Leaf a va] by simp
  have 2: "hm_set reb b vb ?t1 = ?t2" using new[of ?t1 b vb] assms(2) by (simp add: st reb)
  have 3: "hm_set reb c vc ?t2 = ?t3" using new[of ?t2 c vc] assms(3,4) by (simp add: st reb)
  have h: "rq_headers s = ?t3" using 1 2 3 by (simp add: assms(5) rq_setHeader_def HttpRequest_def)
  have "left ?t3 \<noteq> Leaf" using assms(1) by (simp add: balances_def)
  then obtain l x r where t3: "?t3 = Node l x r" "l \<noteq> Leaf" by (cases ?t3) auto
  obtain y where y: "y \<in> set_tree l" using t3(2) by (cases l) auto
  have io: "inorder l @ x # inorder r = [(a, va), (b, vb), (c, vc)]" 
    using reb[of ?t2 "[(a, va), (b, vb), (c, vc)]"] by (simp only: t3(1) inorder.simps append_Cons append_Nil)
  have dis: "\<not> same_ci (fst p) (fst q)" if "p \<in> set_tree l" "q \<in> insert x (set_tree r)" for p q
  proof -
    have sw: "sorted_wrt (\<lambda>p q. \<not> same_ci (fst p) (fst q)) (inorder l @ x # inorder r)"
      unfolding io using assms(2-4) by simp
    show ?thesis using sw that by (auto simp: sorted_wrt_append)
  qed
  have sp: "set (right_spine ?t3) \<subseteq> insert x (set_tree r)"
    using right_spine_subset[of r] by (auto simp: t3(1))
  have "y \<in> set (inorder l @ x # inorder r)" using y by simp
  then have "fst y \<in> {a, b, c}" unfolding io by auto
  moreover have "rq_hasHeader (fst y) s = None"
  proof (rule ccontr)
    assume "rq_hasHeader (fst y) s \<noteq> None"
    then obtain q where "q \<in> set (right_spine ?t3)" "same_ci (fst q) (fst y)"
      using hm_get_iff[of "fst y" ?t3] by (auto simp: rq_hasHeader_def h)
    with sp dis[OF y, of q] show False by (auto simp: same_ci_def)
  qed
  ultimately show ?thesis using reb by (auto simp: h)
qed

text \<open>One balancing that satisfies this: the middle entry on top.\<close>

function mid_tree :: "'a list \<Rightarrow> 'a tree" where
  "mid_tree xs = (if xs = [] then Leaf else let n = length xs div 2 in
     Node (mid_tree (take n xs)) (xs ! n) (mid_tree (drop (n + 1) xs)))"
  by pat_completeness auto
termination
proof (relation "measure length", goal_cases)
  case (2 xs x)
  then have "length xs div 2 < length xs" by (cases xs) simp_all
  with 2 show ?case by simp
qed auto

declare mid_tree.simps [simp del]

lemma inorder_mid_tree: "inorder (mid_tree xs) = xs"
proof (induction xs rule: mid_tree.induct)
  case (1 xs)
  show ?case
  proof (cases "xs = []")
    case False
    then have "length xs div 2 < length xs" by (cases xs) simp_all
    with 1[OF False refl] False show ?thesis
      by (subst mid_tree.simps) (simp add: Let_def id_take_nth_drop[symmetric])
  qed (simp add: mid_tree.simps)
qed

definition demo_reb :: http_rebalance where
  "demo_reb t xs = mid_tree xs"

lemma balances_demo: "balances demo_reb"
proof -
  have "left (mid_tree xs) \<noteq> Leaf" if "3 \<le> length xs" for xs :: "(string \<times> string) list"
  proof -
    have "xs \<noteq> []" "take (length xs div 2) xs \<noteq> []" using that by (cases xs, simp, simp)+
    then show ?thesis by (simp add: mid_tree.simps[of xs] mid_tree.simps[of "take (length xs div 2) xs"] Let_def)
  qed
  then show ?thesis by (simp add: balances_def keeps_order_def demo_reb_def inorder_mid_tree)
qed

lemma third_header_hides_one_witness:
  "\<exists>k \<in> {''host'', ''accept'', ''cookie''}. rq_hasHeader k (rq_setHeader demo_reb ''cookie'' ''x''
     (rq_setHeader demo_reb ''accept'' ''y'' (rq_setHeader demo_reb ''host'' ''z'' (HttpRequest 0x11 True)))) = None"
  using third_header_hides_one[OF balances_demo, where a = "''host''" and b = "''accept''" and c = "''cookie''"
      and va = "''z''" and vb = "''y''" and vc = "''x''" and ver = "0x11" and close = True, OF _ _ _ refl]
  by (simp add: same_ci_def c_str_def ToLower_def to_lower_def char_code_def)

subsection \<open>Query strings\<close>

definition pair_str :: "string \<times> string \<Rightarrow> string" where
  "pair_str p = fst p @ ''='' @ UrlEncode (snd p) True"

fun render_params :: "char \<Rightarrow> (string \<times> string) list \<Rightarrow> string" where
  "render_params flag [] = []"
| "render_params flag [p] = pair_str p"
| "render_params flag (p # q # ps) = pair_str p @ flag # render_params flag (q # ps)"

lemma hexdigits_no_flag:
  "d < 16 \<Longrightarrow> hexdigits ! d \<noteq> CHR ''&'' \<and> hexdigits ! d \<noteq> CHR '';'' \<and> hexdigits ! d \<noteq> CHR 0x0D"
proof -
  have "list_all (\<lambda>d. hexdigits ! d \<noteq> CHR ''&'' \<and> hexdigits ! d \<noteq> CHR '';'' \<and> hexdigits ! d \<noteq> CHR 0x0D) [0..<16]"
    by code_simp
  then show "d < 16 \<Longrightarrow> ?thesis" by (auto simp: list_all_iff)
qed

lemma flags_reserved: "\<not> CHAR_IS_UNRESERVED (CHR ''&'')" "\<not> CHAR_IS_UNRESERVED (CHR '';'')"
  by code_simp+

lemma UrlEncode_no_flag: "CHR ''&'' \<notin> set (UrlEncode v sp)" "CHR '';'' \<notin> set (UrlEncode v sp)"
proof -
  have c: "CHR ''&'' \<notin> set (enc_char sp c) \<and> CHR '';'' \<notin> set (enc_char sp c)" for c
  proof (cases "CHAR_IS_UNRESERVED c")
    case True
    with flags_reserved have "c \<noteq> CHR ''&''" "c \<noteq> CHR '';''" by metis+
    with True show ?thesis by (auto simp: enc_char_def)
  next
    case False
    have d: "char_code c div 16 < 16" "char_code c mod 16 < 16" using char_code_less[of c] by auto
    from hexdigits_no_flag[OF d(1)] hexdigits_no_flag[OF d(2)] False show ?thesis
      by (simp add: enc_char_def eq_commute[of "CHR ''&''"] eq_commute[of "CHR '';''"])
  qed
  then show "CHR ''&'' \<notin> set (UrlEncode v sp)" "CHR '';'' \<notin> set (UrlEncode v sp)"
    by (auto simp: UrlEncode_eq)
qed

abbreviation add_param :: "http_rebalance \<Rightarrow> (string \<Rightarrow> string) \<Rightarrow> string \<times> string \<Rightarrow> http_map \<Rightarrow> http_map" where
  "add_param reb trim p \<equiv> st_insert CaseInsensitiveLess reb (trim (fst p), snd p)"

lemma parse_param_last:
  assumes "CHR ''='' \<notin> set (fst p)" "flag = CHR ''&'' \<or> flag = CHR '';''"
  shows "parse_param reb (pre @ pair_str p) flag trim (length pre) m = add_param reb trim p m"
proof -
  have k: "str_find (CHR ''='') (length pre) (pre @ pair_str p) = Some (length pre + length (fst p))"
    using str_find_append(1)[OF assms(1), of pre] by (simp add: pair_str_def)
  have "str_find flag (length (pre @ fst p)) ((pre @ fst p) @ ''='' @ UrlEncode (snd p) True) = None"
    by (rule str_find_append(2)) (use assms(2) UrlEncode_no_flag in auto)
  then have f: "str_find flag (length pre + length (fst p)) (pre @ pair_str p) = None" by (simp add: pair_str_def)
  have n: "substr (pre @ pair_str p) (length pre) (length pre + length (fst p) - length pre) = fst p"
    and v: "drop (length pre + length (fst p) + 1) (pre @ pair_str p) = UrlEncode (snd p) True"
    by (simp_all add: substr_def pair_str_def)
  show ?thesis
    by (subst parse_param.simps) (simp only: k f option.case Let_def n v decode_encode)
qed

lemma parse_param_more:
  assumes "CHR ''='' \<notin> set (fst p)" "flag = CHR ''&'' \<or> flag = CHR '';''"
  shows "parse_param reb (pre @ pair_str p @ flag # rest) flag trim (length pre) m
    = parse_param reb ((pre @ pair_str p @ [flag]) @ rest) flag trim (length (pre @ pair_str p @ [flag])) (add_param reb trim p m)"
proof -
  let ?s = "pre @ pair_str p @ flag # rest"
  have k: "str_find (CHR ''='') (length pre) ?s = Some (length pre + length (fst p))"
    using str_find_append(1)[OF assms(1), of pre] by (simp add: pair_str_def)
  have "str_find flag (length (pre @ fst p)) ((pre @ fst p) @ (''='' @ UrlEncode (snd p) True) @ flag # rest)
      = Some (length (pre @ fst p) + length (''='' @ UrlEncode (snd p) True))"
    by (rule str_find_append(1)) (use assms(2) UrlEncode_no_flag in auto)
  then have f: "str_find flag (length pre + length (fst p)) ?s = Some (length (pre @ pair_str p))"
    by (simp add: pair_str_def)
  have n: "substr ?s (length pre) (length pre + length (fst p) - length pre) = fst p"
    and v: "substr ?s (length pre + length (fst p) + 1) (length (pre @ pair_str p) - (length pre + length (fst p)) - 1)
      = UrlEncode (snd p) True"
    and e: "?s = (pre @ pair_str p @ [flag]) @ rest" "length (pre @ pair_str p) + 1 = length (pre @ pair_str p @ [flag])"
    by (simp_all add: substr_def pair_str_def)
  have "parse_param reb ?s flag trim (length pre) m
      = parse_param reb ?s flag trim (length (pre @ pair_str p) + 1) (add_param reb trim p m)"
    by (subst parse_param.simps) (simp only: k f option.case Let_def n v decode_encode)
  then show ?thesis unfolding e .
qed

lemma parse_param_render:
  assumes "\<forall>p \<in> set ps. CHR ''='' \<notin> set (fst p)" "flag = CHR ''&'' \<or> flag = CHR '';''"
  shows "parse_param reb (pre @ render_params flag ps) flag trim (length pre) m = fold (add_param reb trim) ps m"
  using assms
proof (induction flag ps arbitrary: pre m rule: render_params.induct)
  case (1 flag)
  then show ?case by (subst parse_param.simps) (simp add: str_find_def)
next
  case (2 flag p)
  show ?case using parse_param_last[of p flag reb pre trim m, OF _ 2(2)] 2(1) by simp
next
  case (3 flag p q ps)
  have p: "CHR ''='' \<notin> set (fst p)" using 3 by simp
  show ?case
    using parse_param_more[OF p 3(3), of reb pre "render_params flag (q # ps)" trim m]
      3(1)[OF _ 3(3), of "pre @ pair_str p @ [flag]"] 3(2) by simp
qed

text \<open>C24: a query string built from names without \<open>=\<close> and URL-encoded values is parsed into exactly
  these names and values, in this order, whatever bytes the values hold; parsing it a second time
  changes nothing.\<close>

theorem query_roundtrip:
  assumes "\<forall>p \<in> set ps. CHR ''='' \<notin> set (fst p)" "rq_query s = render_params (CHR ''&'') ps"
    and "rq_parserParamFlag s AND 1 = 0" "t = initQueryParam reb s"
  shows "rq_params t = fold (\<lambda>p. st_insert CaseInsensitiveLess reb (fst p, snd p)) ps (rq_params s)
     \<and> initQueryParam reb t = t"
proof -
  have p: "parse_param reb (rq_query s) (CHR ''&'') (\<lambda>x. x) 0 (rq_params s)
      = fold (add_param reb (\<lambda>x. x)) ps (rq_params s)"
    using parse_param_render[OF assms(1), of "CHR ''&''" reb "[]" "\<lambda>x. x" "rq_params s"] assms(2) by simp
  have "(f OR 1) AND 1 \<noteq> 0" for f :: "8 word"
    by (metis bit.conj_disj_distrib2 bit.disj_cancel_right and.idem or_eq_0_iff zero_neq_one)
  then show ?thesis using assms(3,4) p by (simp add: initQueryParam_def)
qed

lemma query_roundtrip_witness:
  "rq_params (initQueryParam demo_reb ((HttpRequest 0x11 True)\<lparr>rq_query := ''q=a%26b&lang=en''\<rparr>))
     = st_insert CaseInsensitiveLess demo_reb (''lang'', ''en'') (st_insert CaseInsensitiveLess demo_reb (''q'', ''a&b'') Leaf)"
proof -
  let ?ps = "[(''q'', ''a&b''), (''lang'', ''en'')]"
  have r: "render_params (CHR ''&'') ?ps = ''q=a%26b&lang=en''" by code_simp
  show ?thesis
    using query_roundtrip[of ?ps "(HttpRequest 0x11 True)\<lparr>rq_query := ''q=a%26b&lang=en''\<rparr>" _ demo_reb, OF _ _ _ refl]
    unfolding r by (simp add: HttpRequest_def)
qed

subsection \<open>Framing\<close>

text \<open>How a receiver cuts a message: lines up to the first empty one, then the body.\<close>

fun split_line :: "string \<Rightarrow> string \<times> string" where
  "split_line [] = ([], [])"
| "split_line (c # cs) =
     (if is_prefix crlf (c # cs) then ([], drop 1 cs)
      else (let (l, rest) = split_line cs in (c # l, rest)))"

lemma length_split_line: "length (snd (split_line s)) \<le> length s - 1"
proof (induction s)
  case (Cons c cs)
  then show ?case by (auto simp: Let_def split: prod.split)
qed simp

function split_head :: "string \<Rightarrow> string list \<times> string" where
  "split_head s = (let (l, rest) = split_line s in
     if l = [] then ([], rest) else let (ls, body) = split_head rest in (l # ls, body))"
  by pat_completeness auto
termination
proof (relation "measure length", goal_cases)
  case (2 s x l rest)
  then have "s \<noteq> []" "rest = snd (split_line s)" by (auto simp: prod_eq_iff)
  with length_split_line[of s] show ?case by (cases s) auto
qed simp

declare split_head.simps [simp del]

abbreviation CR :: char where
  "CR \<equiv> CHR 0x0D"

lemma split_line_append: "CR \<notin> set l \<Longrightarrow> split_line (l @ crlf @ rest) = (l, rest)"
  by (induction l) (auto simp: crlf_def)

lemma split_head_line:
  assumes "CR \<notin> set l" "l \<noteq> []"
  shows "split_head (l @ crlf @ rest) = (l # fst (split_head rest), snd (split_head rest))"
  using assms by (subst split_head.simps) (simp add: split_line_append Let_def split_beta)

lemma split_head_end: "split_head (crlf @ body) = ([], body)"
  by (subst split_head.simps) (simp add: crlf_def)

definition clean_lines :: "string list \<Rightarrow> bool" where
  "clean_lines ls \<longleftrightarrow> (\<forall>l \<in> set ls. CR \<notin> set l \<and> l \<noteq> [])"

lemma split_head_lines:
  "clean_lines ls \<Longrightarrow> split_head (concat (map (\<lambda>l. l @ crlf) ls) @ crlf @ body) = (ls, body)"
  by (induction ls) (simp_all add: split_head_end split_head_line clean_lines_def)

text \<open>The lines of the parts of a message.\<close>

definition header_lines :: "bool \<Rightarrow> http_map \<Rightarrow> string list" where
  "header_lines websocket headers = map (\<lambda>(k, v). k @ '': '' @ v)
     (filter (\<lambda>(k, v). websocket \<or> \<not> same_ci k ''connection'') (inorder headers))"

definition body_lines :: "string \<Rightarrow> string list" where
  "body_lines body = (if body = [] then [] else [''content-length: '' @ dec_str (length body)])"

abbreviation ended_lines :: "string list \<Rightarrow> string" where
  "ended_lines ls \<equiv> concat (map (\<lambda>l. l @ crlf) ls)"

lemma dump_headers_lines: "dump_headers w m = ended_lines (header_lines w m)"
proof -
  have "concat (map (\<lambda>(k, v). if \<not> w \<and> same_ci k ''connection'' then [] else k @ '': '' @ v @ crlf) xs)
      = ended_lines (map (\<lambda>(k, v). k @ '': '' @ v) (filter (\<lambda>(k, v). w \<or> \<not> same_ci k ''connection'') xs))" for xs
    by (induction xs) auto
  then show ?thesis by (simp add: dump_headers_def header_lines_def)
qed

lemma dump_body_lines: "dump_body b = ended_lines (body_lines b) @ crlf @ b"
  by (simp add: dump_body_def body_lines_def)

lemma CR_digits: "CR \<notin> set (dec_str n)"
  using dec_str_digits[of n] by (auto simp: decimal_digits_def)

lemma clean_body: "clean_lines (body_lines b)"
  by (auto simp: clean_lines_def body_lines_def CR_digits)

lemma CR_version: "CR \<notin> set (version_str v)"
  by (simp add: version_str_def CR_digits)

lemma status_strings: "map_of http_status_map n = Some s \<Longrightarrow> CR \<notin> set s"
proof -
  have "list_all (\<lambda>(n, s). CR \<notin> set s) http_status_map" by code_simp
  then show "map_of http_status_map n = Some s \<Longrightarrow> ?thesis"
    by (auto simp: list_all_iff dest!: map_of_SomeD)
qed

lemma CR_status: "CR \<notin> set (HttpStatusToString n)"
  using status_strings[of n] by (auto simp: HttpStatusToString_def split: option.split)

definition header_clean :: "http_map \<Rightarrow> bool" where
  "header_clean m \<longleftrightarrow> (\<forall>p \<in> set_tree m. CR \<notin> set (fst p) \<and> CR \<notin> set (snd p))"

lemma clean_headers: "header_clean m \<Longrightarrow> clean_lines (header_lines w m)"
  by (auto simp: clean_lines_def header_lines_def header_clean_def)

lemma clean_connection: "clean_lines (if w then [] else [connection_line c])"
  by (simp add: clean_lines_def connection_line_def)

lemma clean_lines_append: "clean_lines (ls @ ls') = (clean_lines ls \<and> clean_lines ls')"
  by (auto simp: clean_lines_def)

lemma clean_lines_Cons: "clean_lines (l # ls) = (CR \<notin> set l \<and> l \<noteq> [] \<and> clean_lines ls)"
  by (auto simp: clean_lines_def)

definition status_line :: "http_response \<Rightarrow> string" where
  "status_line s = ''HTTP/'' @ version_str (rs_version s) @ '' '' @ dec_str (rs_status s) @ '' ''
     @ (if rs_reason s = [] then HttpStatusToString (rs_status s) else rs_reason s)"

text \<open>A receiver that cuts what a response sends gets back the status line, one line for
  every stored header but \<open>connection\<close>, the cookies, the one connection line, a content length
  that is the body's, and the body, whatever bytes it holds; provided no header, cookie or reason
  contains a carriage return.\<close>

lemma response_framing:
  assumes "header_clean (rs_headers s)" "CR \<notin> set (rs_reason s)" "\<forall>c \<in> set (rs_cookies s). CR \<notin> set c"
  shows "split_head (rs_toString s) = (status_line s # header_lines (rs_websocket s) (rs_headers s)
       @ map (\<lambda>c. ''Set-Cookie: '' @ c) (rs_cookies s)
       @ (if rs_websocket s then [] else [connection_line (rs_close s)]) @ body_lines (rs_body s), rs_body s)
     \<and> (rs_body s \<noteq> [] \<longrightarrow> (\<exists>n. body_lines (rs_body s) = [''content-length: '' @ n] \<and> dec_val n = length (rs_body s)))"
proof -
  let ?ls = "status_line s # header_lines (rs_websocket s) (rs_headers s) @ map (\<lambda>c. ''Set-Cookie: '' @ c) (rs_cookies s)
     @ (if rs_websocket s then [] else [connection_line (rs_close s)]) @ body_lines (rs_body s)"
  have st: "CR \<notin> set (status_line s) \<and> status_line s \<noteq> []"
    using assms(2) CR_status by (auto simp: clean_lines_def status_line_def CR_version CR_digits)
  have ck: "clean_lines (map (\<lambda>c. ''Set-Cookie: '' @ c) (rs_cookies s))"
    using assms(3) by (auto simp: clean_lines_def)
  have c: "clean_lines ?ls"
    using st ck clean_headers[OF assms(1)] clean_connection[of "rs_websocket s"] clean_body[of "rs_body s"]
    by (simp only: clean_lines_Cons clean_lines_append) simp
  have "rs_toString s = ended_lines ?ls @ crlf @ rs_body s"
    by (simp add: rs_toString_def rs_dump_def dump_headers_lines dump_body_lines status_line_def o_def)
  then have "split_head (rs_toString s) = (?ls, rs_body s)" using split_head_lines[OF c] by (simp only:)
  then show ?thesis by (simp add: body_lines_def dec_val_str)
qed

lemma response_framing_witness:
  "snd (split_head (rs_toString ((HttpResponse 0x11 True)\<lparr>rs_body := crlf @ crlf\<rparr>))) = crlf @ crlf"
  using response_framing[of "(HttpResponse 0x11 True)\<lparr>rs_body := crlf @ crlf\<rparr>"]
  by (simp add: HttpResponse_def header_clean_def)

end
