(* ===== verification/Address.thy ===== *)
theory Address
  imports Endian CString OrderedSet
begin

unbundle bit_operations_syntax

text \<open>
  Socket addresses (\<^verbatim>\<open>include/address.h\<close>, \<^verbatim>\<open>src/address.cc\<close>). An address is an object of one
  of the four classes with the memory of its \<open>sockaddr\<close> structure, because addresses are
  compared and filled as memory. \<open>host\<close> is the byte order of the machine. What
  \<open>getaddrinfo\<close>, \<open>getifaddrs\<close> and \<open>inet_pton\<close> answer are arguments.
\<close>

subsection \<open>Memory of an address\<close>

datatype addr_class = C_IPv4 | C_IPv6 | C_Unix | C_Unknown

text \<open>\<open>a_len\<close> is \<open>m_length\<close>, which only \<open>UnixAddress\<close> has.\<close>

record address =
  a_class :: addr_class
  a_mem :: "byte list"
  a_len :: nat

definition AF_UNSPEC :: "16 word" where "AF_UNSPEC = 0"
definition AF_UNIX :: "16 word" where "AF_UNIX = 1"
definition AF_INET :: "16 word" where "AF_INET = 2"
definition AF_INET6 :: "16 word" where "AF_INET6 = 10"

definition load :: "endian \<Rightarrow> nat \<Rightarrow> byte list \<Rightarrow> 'a::len word" where
  "load host off mem = val_of host (take (LENGTH('a) div 8) (drop off mem))"

definition store :: "endian \<Rightarrow> nat \<Rightarrow> 'a::len word \<Rightarrow> byte list \<Rightarrow> byte list" where
  "store host off w mem = overwrite mem off (mem_of host w)"

abbreviation on_net :: "endian \<Rightarrow> 'a::len word \<Rightarrow> 'a word" where
  "on_net \<equiv> byteswapOnLittleEndian"

subsection \<open>Common operations\<close>

definition class_size :: "addr_class \<Rightarrow> nat" where
  "class_size c = (case c of C_IPv4 \<Rightarrow> 16 | C_IPv6 \<Rightarrow> 28 | C_Unix \<Rightarrow> 110 | C_Unknown \<Rightarrow> 16)"

definition getAddrLen :: "address \<Rightarrow> nat" where
  "getAddrLen a = (if a_class a = C_Unix then a_len a else class_size (a_class a))"

definition getFamily :: "endian \<Rightarrow> address \<Rightarrow> 16 word" where
  "getFamily host a = load host 0 (a_mem a)"

fun memcmp :: "byte list \<Rightarrow> byte list \<Rightarrow> int" where
  "memcmp (x # xs) (y # ys) = (if x < y then - 1 else if y < x then 1 else memcmp xs ys)"
| "memcmp _ _ = 0"

definition address_less :: "address \<Rightarrow> address \<Rightarrow> bool" where
  "address_less l r =
     (let minlen = min (getAddrLen l) (getAddrLen r);
          result = memcmp (take minlen (a_mem l)) (take minlen (a_mem r))
      in if result < 0 then True
         else if 0 < result then False
         else if getAddrLen l < getAddrLen r then True
         else False)"

definition address_eq :: "address \<Rightarrow> address \<Rightarrow> bool" where
  "address_eq l r = (getAddrLen l = getAddrLen r
     \<and> memcmp (take (getAddrLen l) (a_mem l)) (take (getAddrLen l) (a_mem r)) = 0)"

definition address_ne :: "address \<Rightarrow> address \<Rightarrow> bool" where
  "address_ne l r = (\<not> address_eq l r)"

subsection \<open>IPv4\<close>

definition IPv4Address :: "endian \<Rightarrow> 32 word \<Rightarrow> 16 word \<Rightarrow> address" where
  "IPv4Address host addr port = \<lparr>a_class = C_IPv4,
     a_mem = store host 4 (on_net host addr) (store host 2 (on_net host port)
       (store host 0 AF_INET (replicate 16 0))), a_len = 0\<rparr>"

definition IPv4Address_copy :: "byte list \<Rightarrow> address" where
  "IPv4Address_copy mem = \<lparr>a_class = C_IPv4, a_mem = take 16 mem, a_len = 0\<rparr>"

text \<open>\<open>inet_pton\<close> answers with the four bytes, or not at all.\<close>

definition IPv4Address_Create :: "(string \<Rightarrow> byte list option) \<Rightarrow> endian \<Rightarrow> string \<Rightarrow> 16 word \<Rightarrow> address option" where
  "IPv4Address_Create inet_pton host s port =
     (let rt = IPv4Address host 0 0; rt = rt\<lparr>a_mem := store host 2 (on_net host port) (a_mem rt)\<rparr>
      in map_option (\<lambda>bs. rt\<lparr>a_mem := overwrite (a_mem rt) 4 bs\<rparr>) (inet_pton s))"

definition IPv4_insert :: "endian \<Rightarrow> address \<Rightarrow> string" where
  "IPv4_insert host a =
     (let addr = on_net host (load host 4 (a_mem a) :: 32 word);
          part = (\<lambda>n. dec_str (unat (drop_bit n addr AND 0xFF)))
      in part 24 @ ''.'' @ part 16 @ ''.'' @ part 8 @ ''.'' @ part 0 @ '':''
         @ dec_str (unat (on_net host (load host 2 (a_mem a) :: 16 word))))"

text \<open>
  \<open>(1 << (sizeof(T) * 8 - bits)) - 1\<close> is computed as \<open>int\<close>: a shift by 32 or more is
  undefined, and so is subtracting 1 from \<open>1 << 31\<close>.
\<close>

definition CreateMask32 :: "nat \<Rightarrow> fault + 32 word" where
  "CreateMask32 bits =
     (if bits = 0 \<or> 32 < bits then Inl Bad_shift
      else if bits = 1 then Inl Signed_overflow
      else Inr (of_nat (2 ^ (32 - bits) - 1)))"

definition CreateMask8 :: "nat \<Rightarrow> 8 word" where
  "CreateMask8 bits = of_nat (2 ^ (8 - bits) - 1)"

definition IPv4_broadcastAddress :: "endian \<Rightarrow> nat \<Rightarrow> address \<Rightarrow> fault + address option" where
  "IPv4_broadcastAddress host prefix_len a =
     (if 32 < prefix_len then Inr None
      else bindE (CreateMask32 prefix_len) (\<lambda>m.
        Inr (Some (IPv4Address_copy (store host 4 (load host 4 (a_mem a) OR on_net host m) (a_mem a))))))"

definition IPv4_networkAddress :: "endian \<Rightarrow> nat \<Rightarrow> address \<Rightarrow> fault + address option" where
  "IPv4_networkAddress host prefix_len a =
     (if 32 < prefix_len then Inr None
      else bindE (CreateMask32 prefix_len) (\<lambda>m.
        Inr (Some (IPv4Address_copy (store host 4 (load host 4 (a_mem a) AND on_net host m) (a_mem a))))))"

definition IPv4_subnetMask :: "endian \<Rightarrow> nat \<Rightarrow> fault + address" where
  "IPv4_subnetMask host prefix_len = bindE (CreateMask32 prefix_len) (\<lambda>m.
     Inr (IPv4Address_copy (store host 4 (NOT (on_net host m)) (store host 0 AF_INET (replicate 16 0)))))"

definition getPort :: "endian \<Rightarrow> address \<Rightarrow> 16 word" where
  "getPort host a = on_net host (load host 2 (a_mem a))"

definition setPort :: "endian \<Rightarrow> 16 word \<Rightarrow> address \<Rightarrow> address" where
  "setPort host v a = a\<lparr>a_mem := store host 2 (on_net host v) (a_mem a)\<rparr>"

text \<open>The loop of \<open>CountBytes\<close>.\<close>

lemma and_minus_1_less: "v \<noteq> 0 \<Longrightarrow> unat (v AND (v - 1)) < unat (v :: 'a::len word)"
proof -
  assume "v \<noteq> 0"
  then have "unat (v - 1) < unat v" by (simp add: unat_minus_one unat_gt_0)
  moreover have "unat (v AND (v - 1)) \<le> unat (v - 1)"
    using word_and_le1[of v "v - 1"] by (simp add: word_le_nat_alt)
  ultimately show ?thesis by simp
qed

function count_bytes :: "'a::len word \<Rightarrow> nat \<Rightarrow> nat" where
  "count_bytes value result = (if value \<noteq> 0 then count_bytes (value AND (value - 1)) (result + 1) else result)"
  by pat_completeness auto
termination
  by (relation "measure (\<lambda>(v, _). unat v)") (auto simp: and_minus_1_less)

declare count_bytes.simps [simp del]

definition CountBytes :: "'a::len word \<Rightarrow> nat" where
  "CountBytes value = count_bytes value 0"

subsection \<open>IPv6\<close>

definition IPv6Address :: "endian \<Rightarrow> address" where
  "IPv6Address host = \<lparr>a_class = C_IPv6, a_mem = store host 0 AF_INET6 (replicate 28 0), a_len = 0\<rparr>"

definition IPv6Address_copy :: "byte list \<Rightarrow> address" where
  "IPv6Address_copy mem = \<lparr>a_class = C_IPv6, a_mem = take 28 mem, a_len = 0\<rparr>"

definition IPv6Address_bytes :: "endian \<Rightarrow> byte list \<Rightarrow> 16 word \<Rightarrow> address" where
  "IPv6Address_bytes host addr port = (let a = IPv6Address host in
     a\<lparr>a_mem := overwrite (store host 2 (on_net host port) (a_mem a)) 8 (take 16 addr)\<rparr>)"

definition IPv6Address_Create :: "(string \<Rightarrow> byte list option) \<Rightarrow> endian \<Rightarrow> string \<Rightarrow> 16 word \<Rightarrow> address option" where
  "IPv6Address_Create inet_pton host s port =
     (let rt = IPv6Address host; rt = rt\<lparr>a_mem := store host 2 (on_net host port) (a_mem rt)\<rparr>
      in map_option (\<lambda>bs. rt\<lparr>a_mem := overwrite (a_mem rt) 8 bs\<rparr>) (inet_pton s))"

definition hex_char :: "nat \<Rightarrow> char" where
  "hex_char d = ''0123456789abcdef'' ! d"

fun hex_str :: "nat \<Rightarrow> string" where
  "hex_str n = (if n < 16 then [hex_char n] else hex_str (n div 16) @ [hex_char (n mod 16)])"

declare hex_str.simps [simp del]

text \<open>The loop over the eight groups; the flag is \<open>used_zeros\<close>.\<close>

fun insert6_loop :: "endian \<Rightarrow> 16 word list \<Rightarrow> nat list \<Rightarrow> bool \<Rightarrow> string \<Rightarrow> bool \<times> string" where
  "insert6_loop host addr [] used_zeros os = (used_zeros, os)"
| "insert6_loop host addr (i # is) used_zeros os =
     (if addr ! i = 0 \<and> \<not> used_zeros then insert6_loop host addr is used_zeros os
      else let colon = (i \<noteq> 0 \<and> addr ! (i - 1) = 0 \<and> \<not> used_zeros);
               os = (if colon then os @ '':'' else os);
               used_zeros = (colon \<or> used_zeros);
               os = (if i \<noteq> 0 then os @ '':'' else os)
           in insert6_loop host addr is used_zeros (os @ hex_str (unat (on_net host (addr ! i)))))"

definition groups6 :: "endian \<Rightarrow> byte list \<Rightarrow> 16 word list" where
  "groups6 host mem = map (\<lambda>i. load host (8 + 2 * i) mem) [0..<8]"

definition IPv6_insert :: "endian \<Rightarrow> address \<Rightarrow> string" where
  "IPv6_insert host a =
     (let addr = groups6 host (a_mem a);
          (used_zeros, os) = insert6_loop host addr [0..<8] False ''['';
          os = (if \<not> used_zeros \<and> addr ! 7 = 0 then os @ ''::'' else os)
      in os @ '']:'' @ dec_str (unat (on_net host (load host 2 (a_mem a) :: 16 word))))"

text \<open>Indexing \<open>s6_addr\<close> out of its 16 bytes is undefined.\<close>

definition IPv6_broadcastAddress :: "nat \<Rightarrow> address \<Rightarrow> fault + address" where
  "IPv6_broadcastAddress prefix_len a =
     (let k = prefix_len div 8 in
      if 16 \<le> k then Inl Bad_index
      else let mem = (a_mem a)[8 + k := a_mem a ! (8 + k) OR CreateMask8 (prefix_len mod 8)]
           in Inr (IPv6Address_copy (overwrite mem (8 + k + 1) (replicate (16 - (k + 1)) 0xFF))))"

definition IPv6_networkAddress :: "nat \<Rightarrow> address \<Rightarrow> fault + address" where
  "IPv6_networkAddress prefix_len a =
     (let k = prefix_len div 8 in
      if 16 \<le> k then Inl Bad_index
      else let mem = (a_mem a)[8 + k := a_mem a ! (8 + k) AND CreateMask8 (prefix_len mod 8)]
           in Inr (IPv6Address_copy (overwrite mem (8 + k + 1) (replicate (16 - (k + 1)) 0))))"

definition IPv6_subnetMask :: "endian \<Rightarrow> nat \<Rightarrow> fault + address" where
  "IPv6_subnetMask host prefix_len =
     (let k = prefix_len div 8 in
      if 16 \<le> k then Inl Bad_index
      else let mem = (store host 0 AF_INET6 (replicate 28 0))[8 + k := NOT (CreateMask8 (prefix_len mod 8))]
           in Inr (IPv6Address_copy (overwrite mem 8 (replicate k 0xFF))))"

subsection \<open>Unix and unknown addresses\<close>

definition byte_of :: "char \<Rightarrow> byte" where
  "byte_of c = of_char c"

definition char_of_byte :: "byte \<Rightarrow> char" where
  "char_of_byte b = char_of (unat b)"

definition MAX_PATH_LEN :: nat where
  "MAX_PATH_LEN = 107"

definition UnixAddress :: "endian \<Rightarrow> address" where
  "UnixAddress host = \<lparr>a_class = C_Unix, a_mem = store host 0 AF_UNIX (replicate 110 0),
     a_len = 2 + MAX_PATH_LEN\<rparr>"

text \<open>\<open>path.c_str()\<close> has a NUL after the last character.\<close>

definition UnixAddress_path :: "endian \<Rightarrow> string \<Rightarrow> fault + address" where
  "UnixAddress_path host path =
     (let m_length = length path + 1;
          m_length = (if path \<noteq> [] \<and> hd path = CHR 0x00 then m_length - 1 else m_length)
      in if 108 < m_length then Inl Logic_error
         else Inr \<lparr>a_class = C_Unix,
           a_mem = overwrite (store host 0 AF_UNIX (replicate 110 0)) 2
             (take m_length (map byte_of path @ [0])),
           a_len = m_length + 2\<rparr>)"

definition setAddrLen :: "nat \<Rightarrow> address \<Rightarrow> address" where
  "setAddrLen v a = a\<lparr>a_len := v\<rparr>"

definition unix_str :: "address \<Rightarrow> string" where
  "unix_str a = (let sun_path = drop 2 (a_mem a) in
     if 2 < a_len a \<and> sun_path ! 0 = 0
     then [CHR 0x5C, CHR ''0''] @ map char_of_byte (take (a_len a - 2 - 1) (drop 1 sun_path))
     else map char_of_byte (takeWhile (\<lambda>b. b \<noteq> 0) sun_path))"

definition getPath :: "address \<Rightarrow> string" where
  "getPath a = unix_str a"

definition Unix_insert :: "address \<Rightarrow> string" where
  "Unix_insert a = unix_str a"

definition UnknownAddress :: "endian \<Rightarrow> 16 word \<Rightarrow> address" where
  "UnknownAddress host family = \<lparr>a_class = C_Unknown, a_mem = store host 0 family (replicate 16 0), a_len = 0\<rparr>"

definition UnknownAddress_copy :: "byte list \<Rightarrow> address" where
  "UnknownAddress_copy mem = \<lparr>a_class = C_Unknown, a_mem = take 16 mem, a_len = 0\<rparr>"

definition Unknown_insert :: "endian \<Rightarrow> address \<Rightarrow> string" where
  "Unknown_insert host a = ''[UnknownAddress family='' @ dec_str (unat (getFamily host a)) @ '']''"

text \<open>The virtual \<open>insert\<close>, which \<open>toString\<close> calls.\<close>

definition address_toString :: "endian \<Rightarrow> address \<Rightarrow> string" where
  "address_toString host a = (case a_class a of
     C_IPv4 \<Rightarrow> IPv4_insert host a | C_IPv6 \<Rightarrow> IPv6_insert host a
   | C_Unix \<Rightarrow> Unix_insert a | C_Unknown \<Rightarrow> Unknown_insert host a)"

subsection \<open>Creating and looking up addresses\<close>

text \<open>
  \<open>Address::create\<close> from the memory of a \<open>sockaddr\<close>, \<open>None\<close> for the null pointer; reading a
  structure larger than that memory is undefined.
\<close>

definition address_create :: "endian \<Rightarrow> byte list option \<Rightarrow> fault + address option" where
  "address_create host addr = (case addr of None \<Rightarrow> Inr None
     | Some mem \<Rightarrow>
        let family = load host 0 mem in
        if family = AF_INET then
          (if length mem < 16 then Inl Bad_length else Inr (Some (IPv4Address_copy mem)))
        else if family = AF_INET6 then
          (if length mem < 28 then Inl Bad_length else Inr (Some (IPv6Address_copy mem)))
        else (if length mem < 16 then Inl Bad_length else Inr (Some (UnknownAddress_copy mem))))"

text \<open>The part of \<open>lookUp\<close> that takes the host name apart: the node and the service.\<close>

definition lookUp_split :: "string \<Rightarrow> string \<times> string option" where
  "lookUp_split host =
     (let (node, service) =
        (if host \<noteq> [] \<and> hd host = CHR ''['' then
           (case str_find (CHR '']'') 1 host of
              Some e \<Rightarrow> (substr host 1 (e - 1),
                if e + 1 < length host \<and> host ! (e + 1) = CHR '':'' then Some (drop (e + 2) host) else None)
            | None \<Rightarrow> ([], None))
         else ([], None));
          (node, service) =
        (if node = [] then
           (case str_find (CHR '':'') 0 host of
              Some i \<Rightarrow> (if str_find (CHR '':'') (i + 1) host = None
                then (take i host, Some (drop (i + 1) host)) else ([], Some (drop i host)))
            | None \<Rightarrow> ([], None))
         else (node, service));
          node = (if node = [] then host else node)
      in (node, service))"

fun create_all :: "endian \<Rightarrow> byte list option list \<Rightarrow> fault + address option list" where
  "create_all host [] = Inr []"
| "create_all host (m # ms) = bindE (address_create host m) (\<lambda>a.
     bindE (create_all host ms) (\<lambda>as. Inr (a # as)))"

text \<open>\<open>gai\<close> is \<open>getaddrinfo\<close>: the addresses it finds for a node and a service, or an error.\<close>

definition lookUp ::
  "(string \<Rightarrow> string option \<Rightarrow> byte list option list option) \<Rightarrow> endian \<Rightarrow> address option list \<Rightarrow> string
   \<Rightarrow> fault + bool \<times> address option list"
where
  "lookUp gai host result name = (let (node, service) = lookUp_split name in
     case gai (c_str node) (map_option c_str service) of
       None \<Rightarrow> Inr (False, result)
     | Some ms \<Rightarrow> bindE (create_all host ms) (\<lambda>as. Inr (result @ as \<noteq> [], result @ as)))"

definition LookupAny ::
  "(string \<Rightarrow> string option \<Rightarrow> byte list option list option) \<Rightarrow> endian \<Rightarrow> string \<Rightarrow> fault + address option"
where
  "LookupAny gai host name = bindE (lookUp gai host [] name) (\<lambda>(ok, result).
     Inr (if ok then result ! 0 else None))"

definition is_ip :: "address option \<Rightarrow> bool" where
  "is_ip a = (case a of None \<Rightarrow> False | Some a \<Rightarrow> a_class a = C_IPv4 \<or> a_class a = C_IPv6)"

definition LookupAnyIPAddress ::
  "(string \<Rightarrow> string option \<Rightarrow> byte list option list option) \<Rightarrow> endian \<Rightarrow> string \<Rightarrow> fault + address option"
where
  "LookupAnyIPAddress gai host name = bindE (lookUp gai host [] name) (\<lambda>(ok, result).
     Inr (if ok then (case find is_ip result of Some a \<Rightarrow> a | None \<Rightarrow> None) else None))"

text \<open>\<open>IPAddress::Create\<close>: whatever \<open>getaddrinfo\<close> finds, the result is dropped.\<close>

definition IPAddress_Create ::
  "(string \<Rightarrow> byte list option list option) \<Rightarrow> endian \<Rightarrow> string \<Rightarrow> 16 word \<Rightarrow> fault + address option"
where
  "IPAddress_Create gai host s port = (case gai s of
     None \<Rightarrow> Inr None
   | Some [] \<Rightarrow> Inl Null_deref
   | Some (m # _) \<Rightarrow> bindE (address_create host m) (\<lambda>a.
       let result = (if is_ip a then map_option (setPort host port) a else None) in Inr None))"

text \<open>
  \<open>GetInterfaceAddresses\<close>: an interface is its name, the memory of \<open>ifa_addr\<close> (a null pointer
  for interfaces without an address) and of \<open>ifa_netmask\<close>. Both overloads return a flag and what
  they have added.
\<close>

definition prefix6 :: "byte list \<Rightarrow> nat" where
  "prefix6 netmask = sum_list (map (\<lambda>i. CountBytes (netmask ! (8 + i))) [0..<16])"

fun interface_loop ::
  "endian \<Rightarrow> 16 word \<Rightarrow> (string \<times> byte list option \<times> byte list option) list
   \<Rightarrow> fault + (string \<times> address \<times> nat) list"
where
  "interface_loop host family [] = Inr []"
| "interface_loop host family ((ifa_name, ifa_addr, ifa_netmask) # ifs) = (case ifa_addr of
     None \<Rightarrow> Inl Null_deref
   | Some mem \<Rightarrow>
      let fam = load host 0 mem in
      if family \<noteq> AF_UNSPEC \<and> family \<noteq> fam then interface_loop host family ifs
      else if fam = AF_INET \<or> fam = AF_INET6 then (case ifa_netmask of
         None \<Rightarrow> Inl Null_deref
       | Some nm \<Rightarrow> bindE (address_create host (Some mem)) (\<lambda>addr.
           let prefix_len = (if fam = AF_INET then CountBytes (load host 4 nm :: 32 word) else prefix6 nm) in
           bindE (interface_loop host family ifs) (\<lambda>rest.
             Inr (case addr of Some a \<Rightarrow> (ifa_name, a, prefix_len) # rest | None \<Rightarrow> rest))))
      else interface_loop host family ifs)"

definition GetInterfaceAddresses ::
  "(string \<times> byte list option \<times> byte list option) list option \<Rightarrow> endian \<Rightarrow> 16 word
   \<Rightarrow> fault + bool \<times> (string \<times> address \<times> nat) list"
where
  "GetInterfaceAddresses ifaddrs host family = (case ifaddrs of
     None \<Rightarrow> Inr (False, [])
   | Some ifs \<Rightarrow> bindE (interface_loop host family ifs) (\<lambda>found. Inr (False, found)))"

definition GetInterfaceAddresses_named ::
  "(string \<times> byte list option \<times> byte list option) list option \<Rightarrow> endian \<Rightarrow> (address \<times> nat) list
   \<Rightarrow> string \<Rightarrow> 16 word \<Rightarrow> fault + bool \<times> (address \<times> nat) list"
where
  "GetInterfaceAddresses_named ifaddrs host result iface family =
     (if iface = [] \<or> iface = ''*'' then
        let result = (if family = AF_INET \<or> family = AF_UNSPEC
              then result @ [(IPv4Address host 0 0, 0)] else result);
            result = (if family = AF_INET6 \<or> family = AF_UNSPEC
              then result @ [(IPv6Address host, 0)] else result)
        in bindE (GetInterfaceAddresses ifaddrs host family) (\<lambda>(ok, results).
          if \<not> ok then Inr (False, result)
          else let result = result @ map snd (filter (\<lambda>(n, _). n = iface) results)
               in Inr (result \<noteq> [], result))
      else Inr (result \<noteq> [], result))"

end
