(* ===== verification/AddressProps.thy ===== *)
theory AddressProps
  imports Address
begin

unbundle bit_operations_syntax

text \<open>
  Properties of addresses: their order, the IPv4 masks, the text of an IPv6 address, and how a
  host name is taken apart.
\<close>

subsection \<open>The order\<close>

text \<open>The bytes that count.\<close>

definition key_bytes :: "address \<Rightarrow> byte list" where
  "key_bytes a = take (getAddrLen a) (a_mem a)"

definition address_wf :: "address \<Rightarrow> bool" where
  "address_wf a \<longleftrightarrow> length (a_mem a) = class_size (a_class a) \<and> getAddrLen a \<le> class_size (a_class a)"

lemma length_key_bytes: "address_wf a \<Longrightarrow> length (key_bytes a) = getAddrLen a"
  by (simp add: address_wf_def key_bytes_def)

fun bytes_less :: "byte list \<Rightarrow> byte list \<Rightarrow> bool" where
  "bytes_less xs [] = False"
| "bytes_less [] (y # ys) = True"
| "bytes_less (x # xs) (y # ys) = (x < y \<or> x = y \<and> bytes_less xs ys)"

lemma memcmp_less:
  "bytes_less xs ys = (let n = min (length xs) (length ys); r = memcmp (take n xs) (take n ys) in
     r < 0 \<or> r = 0 \<and> length xs < length ys)"
  by (induction xs ys rule: bytes_less.induct) (auto simp: Let_def)

lemma memcmp_eq: "length xs = length ys \<Longrightarrow> memcmp xs ys = 0 \<longleftrightarrow> xs = ys"
  by (induction xs ys rule: memcmp.induct) auto

lemma address_less_bytes:
  assumes "address_wf l" "address_wf r"
  shows "address_less l r = bytes_less (key_bytes l) (key_bytes r)"
proof -
  have t: "take (min (getAddrLen l) (getAddrLen r)) (key_bytes l) = take (min (getAddrLen l) (getAddrLen r)) (a_mem l)"
    "take (min (getAddrLen l) (getAddrLen r)) (key_bytes r) = take (min (getAddrLen l) (getAddrLen r)) (a_mem r)"
    by (simp_all add: key_bytes_def)
  show ?thesis
    unfolding memcmp_less length_key_bytes[OF assms(1)] length_key_bytes[OF assms(2)] Let_def t
    by (auto simp: address_less_def Let_def)
qed

lemma bytes_less_asym: "bytes_less xs ys \<Longrightarrow> \<not> bytes_less ys xs"
  by (induction xs ys rule: bytes_less.induct) auto

lemma bytes_less_cotrans: "bytes_less xs ys \<Longrightarrow> bytes_less xs zs \<or> bytes_less zs ys"
proof (induction xs ys arbitrary: zs rule: bytes_less.induct)
  case (2 y ys)
  then show ?case by (cases zs) auto
next
  case (3 x xs y ys)
  then show ?case by (cases zs) auto
qed simp

lemma bytes_less_total: "\<not> bytes_less xs ys \<Longrightarrow> \<not> bytes_less ys xs \<Longrightarrow> xs = ys"
proof (induction xs ys rule: bytes_less.induct)
  case (1 xs)
  then show ?case by (cases xs) auto
qed auto

text \<open>Addresses as objects of the model that are well formed.\<close>

typedef good_address = "{a. address_wf a}"
proof
  show "IPv4Address Little_endian 0 0 \<in> {a. address_wf a}"
    by (simp add: address_wf_def IPv4Address_def class_size_def getAddrLen_def store_def length_overwrite)
qed

definition good_less :: "good_address \<Rightarrow> good_address \<Rightarrow> bool" where
  "good_less a b = address_less (Rep_good_address a) (Rep_good_address b)"

interpretation addr: strict_weak good_less
proof
  have wf: "address_wf (Rep_good_address a)" for a using Rep_good_address by blast
  show "\<not> good_less b a" if "good_less a b" for a b
    using that bytes_less_asym by (auto simp: good_less_def address_less_bytes wf)
  show "good_less a c \<or> good_less c b" if "good_less a b" for a b c
    using that bytes_less_cotrans by (auto simp: good_less_def address_less_bytes wf)
qed

text \<open>C25: \<open>operator<\<close> is a strict weak order on addresses of all classes, and two addresses of
  which neither is smaller are those that \<open>operator==\<close> calls equal.\<close>

theorem address_order:
  assumes "address_wf a" "address_wf b" "address_wf c"
  shows "(address_less a b \<longrightarrow> \<not> address_less b a)
     \<and> (address_less a b \<and> address_less b c \<longrightarrow> address_less a c)
     \<and> (address_eq a b \<longleftrightarrow> \<not> address_less a b \<and> \<not> address_less b a)
     \<and> (address_ne a b \<longleftrightarrow> address_less a b \<or> address_less b a)"
proof -
  obtain a' b' c' where g: "a = Rep_good_address a'" "b = Rep_good_address b'" "c = Rep_good_address c'"
    using assms by (metis Abs_good_address_inverse mem_Collect_eq)
  have 1: "address_less a b \<longrightarrow> \<not> address_less b a" using addr.asym[of a' b'] by (simp add: good_less_def g)
  have 2: "address_less a b \<and> address_less b c \<longrightarrow> address_less a c"
    using addr.trans[of a' b' c'] by (simp add: good_less_def g)
  have "address_eq a b \<longleftrightarrow> key_bytes a = key_bytes b"
  proof
    assume e: "address_eq a b"
    then have "getAddrLen a = getAddrLen b" by (simp add: address_eq_def)
    with e show "key_bytes a = key_bytes b"
      using memcmp_eq[of "key_bytes a" "key_bytes b"] length_key_bytes[OF assms(1)] length_key_bytes[OF assms(2)]
      by (simp add: address_eq_def key_bytes_def)
  next
    assume k: "key_bytes a = key_bytes b"
    then have l: "getAddrLen a = getAddrLen b"
      using length_key_bytes[OF assms(1)] length_key_bytes[OF assms(2)] by simp
    with k memcmp_eq[of "key_bytes a" "key_bytes b"] show "address_eq a b"
      by (simp add: address_eq_def key_bytes_def)
  qed
  moreover have "key_bytes a = key_bytes b \<longleftrightarrow> \<not> address_less a b \<and> \<not> address_less b a"
    using bytes_less_total[of "key_bytes a" "key_bytes b"] bytes_less_asym[of "key_bytes a" "key_bytes a"]
    by (auto simp: address_less_bytes assms)
  ultimately show ?thesis using 1 2 by (auto simp: address_ne_def)
qed

lemma address_order_witness:
  "address_less (IPv4Address Little_endian 0x7F000001 80) (IPv6Address Little_endian)
   \<and> \<not> address_less (IPv6Address Little_endian) (IPv4Address Little_endian 0x7F000001 80)"
proof -
  have w: "address_wf (IPv4Address Little_endian 0x7F000001 80)" "address_wf (IPv6Address Little_endian)"
    by (simp_all add: address_wf_def IPv4Address_def IPv6Address_def class_size_def getAddrLen_def store_def length_overwrite)
  have "address_less (IPv4Address Little_endian 0x7F000001 80) (IPv6Address Little_endian)" by code_simp
  with address_order[OF w(1,2,1)] show ?thesis by blast
qed

subsection \<open>Fields\<close>

lemma load_store_same:
  assumes "off + LENGTH('a) div 8 \<le> length mem" "8 dvd LENGTH('a)"
  shows "load host off (store host off (w :: 'a::len word) mem) = w"
  using assms slice_overwrite[of off mem "mem_of host w"] by (simp add: load_def store_def)

lemma length_store:
  "off + LENGTH('a) div 8 \<le> length mem \<Longrightarrow> length (store host off (w :: 'a::len word) mem) = length mem"
  by (simp add: store_def length_overwrite)

lemma load_store_other:
  fixes w :: "'a::len word"
  assumes "off + LENGTH('a) div 8 \<le> length mem" "off' + LENGTH('b) div 8 \<le> off \<or> off + LENGTH('a) div 8 \<le> off'"
  shows "(load host off' (store host off w mem) :: 'b::len word) = load host off' mem"
proof -
  let ?n = "LENGTH('b) div 8" and ?m = "LENGTH('a) div 8"
  have "take ?n (drop off' (overwrite mem off (mem_of host w))) = take ?n (drop off' mem)"
    using assms(2)
  proof
    assume b: "off' + ?n \<le> off"
    have "take ?n (drop off' (overwrite mem off (mem_of host w))) = drop off' (take (off' + ?n) (overwrite mem off (mem_of host w)))"
      by (simp add: drop_take)
    also have "take (off' + ?n) (overwrite mem off (mem_of host w)) = take (off' + ?n) mem"
      using b assms(1) by (simp add: overwrite_def)
    finally show ?thesis by (simp add: drop_take)
  next
    assume a: "off + ?m \<le> off'"
    have "drop off' (overwrite mem off (mem_of host w)) = drop (off' - (off + ?m)) (drop (off + ?m) (overwrite mem off (mem_of host w)))"
      using a by simp
    also have "drop (off + ?m) (overwrite mem off (mem_of host w)) = drop (off + ?m) mem"
      using drop_overwrite[of off mem "mem_of host w"] assms(1) by simp
    finally show ?thesis using a by simp
  qed
  then show ?thesis by (simp add: load_def store_def)
qed

definition host_addr :: "endian \<Rightarrow> address \<Rightarrow> 32 word" where
  "host_addr host a = on_net host (load host 4 (a_mem a))"

lemma nth_le_bytes: "i < n \<Longrightarrow> le_bytes n w ! i = ucast (drop_bit (8 * i) w)"
proof (induction n arbitrary: w i)
  case (Suc n)
  then show ?case by (cases i) (simp_all add: drop_bit_drop_bit add.commute)
qed simp

lemma bit_of_le_bytes:
  "bit (of_le_bytes bs :: 'a::len word) n
    \<longleftrightarrow> n < LENGTH('a) \<and> n div 8 < length bs \<and> bit (bs ! (n div 8)) (n mod 8)"
proof (induction bs arbitrary: n)
  case (Cons b bs)
  have less: "bit b k \<Longrightarrow> k < 8" for k using bit_imp_le_length[of b k] by simp
  show ?case
  proof (cases "n < 8")
    case True
    then show ?thesis by (auto simp: bit_simps)
  next
    case False
    then have "n div 8 = Suc ((n - 8) div 8)" "n mod 8 = (n - 8) mod 8" by (simp_all add: le_div_geq le_mod_geq)
    then show ?thesis using False Cons.IH[of "n - 8"] less[of n] by (auto simp: bit_simps)
  qed
qed simp

lemma bit_ucast_drop: "j < 8 \<Longrightarrow> bit (ucast (drop_bit m w) :: byte) j = bit (w :: 'a::len word) (m + j)"
  by (auto simp: bit_simps dest: bit_imp_le_length)

lemma bit_byteswap32:
  "bit (byteswap (w :: 32 word)) n \<longleftrightarrow> n < 32 \<and> bit w (8 * (3 - n div 8) + n mod 8)"
proof (cases "n < 32")
  case True
  then have k: "n div 8 < 4" "n mod 8 < 8" by auto
  then have "rev (le_bytes 4 w) ! (n div 8) = le_bytes 4 w ! (3 - n div 8)" by (simp add: rev_nth)
  also have "\<dots> = ucast (drop_bit (8 * (3 - n div 8)) w)" using k by (intro nth_le_bytes) simp
  finally have "bit (rev (le_bytes 4 w) ! (n div 8)) (n mod 8) = bit w (8 * (3 - n div 8) + n mod 8)"
    using k(2) by (simp only: bit_ucast_drop)
  then show ?thesis using k True by (simp add: byteswap_def bit_of_le_bytes)
qed (simp add: byteswap_def bit_of_le_bytes)

lemma byteswap32_bitwise:
  fixes x y :: "32 word"
  shows "byteswap (x OR y) = byteswap x OR byteswap y"
    and "byteswap (x AND y) = byteswap x AND byteswap y"
    and "byteswap (NOT x) = NOT (byteswap x)"
  by (rule bit_word_eqI; auto simp: bit_byteswap32 bit_simps)+

lemma on_net_bitwise:
  fixes x y :: "32 word"
  shows "on_net host (x OR on_net host y) = on_net host x OR y"
    and "on_net host (x AND on_net host y) = on_net host x AND y"
    and "on_net host (NOT (on_net host y)) = NOT y"
  by (cases host; simp add: byteswapOnLittleEndian_def byteswap32_bitwise)+

subsection \<open>IPv4 masks\<close>

definition host_mask :: "nat \<Rightarrow> 32 word" where
  "host_mask prefix_len = mask (32 - prefix_len)"

lemma CreateMask32_ok: "2 \<le> p \<Longrightarrow> p \<le> 32 \<Longrightarrow> CreateMask32 p = Inr (host_mask p)"
proof -
  assume p: "2 \<le> p" "p \<le> 32"
  have "of_nat (2 ^ (32 - p) - 1) = (mask (32 - p) :: 32 word)" by (simp add: mask_eq_exp_minus_1)
  with p show ?thesis by (simp add: CreateMask32_def host_mask_def)
qed

text \<open>For prefix lengths from 2 to 32 the broadcast address has all host bits set and the
  subnet mask is the one of the prefix; but \<open>networkAddress\<close> keeps the host part and clears the
  network part, the complement of what it is for. Shorter prefixes are undefined behaviour.\<close>

lemma ipv4_masks:
  assumes "a_class a = C_IPv4" "length (a_mem a) = 16" "2 \<le> p" "p \<le> 32"
  shows "\<exists>b n m. IPv4_broadcastAddress host p a = Inr (Some b) \<and> host_addr host b = host_addr host a OR host_mask p
     \<and> getPort host b = getPort host a
     \<and> IPv4_subnetMask host p = Inr m \<and> host_addr host m = NOT (host_mask p)
     \<and> IPv4_networkAddress host p a = Inr (Some n) \<and> host_addr host n = host_addr host a AND host_mask p
     \<and> CreateMask32 1 = Inl Signed_overflow \<and> CreateMask32 0 = Inl Bad_shift"
proof -
  note cm = CreateMask32_ok[OF assms(3,4)]
  have st: "length (store host 4 (w :: 32 word) (a_mem a)) = 16" for w using assms(2) by (simp add: length_store)
  have ld: "load host 4 (store host 4 (w :: 32 word) (a_mem a)) = w" for w using assms(2) by (simp add: load_store_same)
  have pt: "(load host 2 (store host 4 (w :: 32 word) (a_mem a)) :: 16 word) = load host 2 (a_mem a)" for w
    using assms(2) by (simp add: load_store_other)
  let ?z = "store host 0 AF_INET (replicate 16 0)"
  have z: "length ?z = 16" by (simp add: length_store)
  have zs: "length (store host 4 (w :: 32 word) ?z) = 16" "load host 4 (store host 4 w ?z) = w" for w
    using z by (simp_all add: length_store load_store_same)
  have c: "CreateMask32 1 = Inl Signed_overflow" "CreateMask32 0 = Inl Bad_shift" by (simp_all add: CreateMask32_def)
  have p: "\<not> 32 < p" using assms(4) by simp
  have m0: "a_mem (IPv4Address_copy mem) = mem" if "length mem = 16" for mem
    using that by (simp add: IPv4Address_copy_def)
  let ?b = "IPv4Address_copy (store host 4 (load host 4 (a_mem a) OR on_net host (host_mask p)) (a_mem a))"
  let ?n = "IPv4Address_copy (store host 4 (load host 4 (a_mem a) AND on_net host (host_mask p)) (a_mem a))"
  let ?m = "IPv4Address_copy (store host 4 (NOT (on_net host (host_mask p))) ?z)"
  have "IPv4_broadcastAddress host p a = Inr (Some ?b)" "IPv4_networkAddress host p a = Inr (Some ?n)"
    "IPv4_subnetMask host p = Inr ?m"
    using p by (simp_all only: IPv4_broadcastAddress_def IPv4_networkAddress_def IPv4_subnetMask_def cm bindE.simps if_False)
  moreover have "host_addr host ?b = host_addr host a OR host_mask p" "getPort host ?b = getPort host a"
    "host_addr host ?n = host_addr host a AND host_mask p" "host_addr host ?m = NOT (host_mask p)"
    by (simp_all only: host_addr_def getPort_def m0 st ld pt zs on_net_bitwise)
  ultimately show ?thesis using c by blast
qed

lemma ipv4_masks_witness:
  "\<exists>n. IPv4_networkAddress Little_endian 24 (IPv4Address Little_endian 0xC0A80105 80) = Inr (Some n)
     \<and> host_addr Little_endian n = 5"
proof -
  let ?a = "IPv4Address Little_endian 0xC0A80105 80"
  have a: "a_class ?a = C_IPv4" "length (a_mem ?a) = 16" by (simp_all add: IPv4Address_def length_store)
  have h: "host_addr Little_endian ?a AND host_mask 24 = 5" by code_simp
  from ipv4_masks[OF a, of 24 Little_endian] show ?thesis by (auto simp: h)
qed

subsection \<open>The text of an IPv6 address\<close>

abbreviation group_hex :: "endian \<Rightarrow> 16 word \<Rightarrow> string" where
  "group_hex host g \<equiv> hex_str (unat (on_net host g))"

text \<open>The groups of the text, each after a colon but the first.\<close>

definition colon_groups :: "endian \<Rightarrow> 16 word list \<Rightarrow> string" where
  "colon_groups host gs = concat (map (\<lambda>g. '':'' @ group_hex host g) gs)"

definition joined_groups :: "endian \<Rightarrow> 16 word list \<Rightarrow> string" where
  "joined_groups host gs = drop 1 (colon_groups host gs)"

lemma colon_groups_simps [simp]:
  "colon_groups host [] = []" "colon_groups host (g # gs) = '':'' @ group_hex host g @ colon_groups host gs"
  by (simp_all add: colon_groups_def)

lemma joined_groups_Cons: "joined_groups host (g # gs) = group_hex host g @ colon_groups host gs"
  by (simp add: joined_groups_def)

lemma drop_Suc_Cons: "drop i xs = g # gs \<Longrightarrow> drop (Suc i) xs = gs \<and> xs ! i = g"
  by (metis drop_Suc list.sel(3) nth_via_drop tl_drop)

lemma insert6_used:
  assumes "0 < i" "i + length gs = length addr" "drop i addr = gs"
  shows "insert6_loop host addr [i..<length addr] True os = (True, os @ colon_groups host gs)"
  using assms
proof (induction gs arbitrary: i os)
  case (Cons g gs)
  have i: "[i..<length addr] = i # [Suc i..<length addr]" using Cons.prems by (simp add: upt_conv_Cons)
  have d: "drop (Suc i) addr = gs" "addr ! i = g" using drop_Suc_Cons[OF Cons.prems(3)] by auto
  have "insert6_loop host addr [i..<length addr] True os
      = insert6_loop host addr [Suc i..<length addr] True (os @ '':'' @ group_hex host g)"
    using Cons.prems(1) d(2) by (simp add: i)
  also have "\<dots> = (True, (os @ '':'' @ group_hex host g) @ colon_groups host gs)"
    by (rule Cons.IH[OF _ _ d(1)]) (use Cons.prems(2) in simp_all)
  finally show ?case by simp
qed simp

lemma insert6_zeros:
  assumes "0 < i" "addr ! (i - 1) = 0" "i + length gs = length addr" "drop i addr = gs"
  shows "insert6_loop host addr [i..<length addr] False os =
    (let post = dropWhile (\<lambda>g. g = 0) gs in
     if post = [] then (False, os) else (True, os @ ''::'' @ joined_groups host post))"
  using assms
proof (induction gs arbitrary: i)
  case (Cons g gs)
  have i: "[i..<length addr] = i # [Suc i..<length addr]" using Cons.prems by (simp add: upt_conv_Cons)
  have d: "drop (Suc i) addr = gs" "addr ! i = g" using drop_Suc_Cons[OF Cons.prems(4)] by auto
  show ?case
  proof (cases "g = 0")
    case True
    then show ?thesis using Cons.prems(3) d Cons.IH[of "Suc i"] by (simp add: i)
  next
    case False
    then show ?thesis using Cons.prems d insert6_used[of "Suc i" gs addr host] by (simp add: i joined_groups_Cons)
  qed
qed simp

lemma insert6_prefix:
  assumes "0 < i" "addr ! (i - 1) \<noteq> 0" "i + length gs = length addr" "drop i addr = gs"
  shows "insert6_loop host addr [i..<length addr] False os =
    (let pre = takeWhile (\<lambda>g. g \<noteq> 0) gs; post = dropWhile (\<lambda>g. g = 0) (dropWhile (\<lambda>g. g \<noteq> 0) gs) in
     if post = [] then (False, os @ colon_groups host pre)
     else (True, os @ colon_groups host pre @ ''::'' @ joined_groups host post))"
  using assms
proof (induction gs arbitrary: i os)
  case (Cons g gs)
  have i: "[i..<length addr] = i # [Suc i..<length addr]" using Cons.prems by (simp add: upt_conv_Cons)
  have d: "drop (Suc i) addr = gs" "addr ! i = g" using drop_Suc_Cons[OF Cons.prems(4)] by auto
  show ?case
  proof (cases "g = 0")
    case True
    then show ?thesis using Cons.prems(3) d insert6_zeros[of "Suc i" addr gs host os] by (simp add: i Let_def)
  next
    case False
    have "insert6_loop host addr [i..<length addr] False os
        = insert6_loop host addr [Suc i..<length addr] False (os @ '':'' @ group_hex host g)"
      using Cons.prems(1,2) d(2) False by (simp add: i)
    also have "\<dots> = (let pre = takeWhile (\<lambda>g. g \<noteq> 0) gs; post = dropWhile (\<lambda>g. g = 0) (dropWhile (\<lambda>g. g \<noteq> 0) gs) in
       if post = [] then (False, (os @ '':'' @ group_hex host g) @ colon_groups host pre)
       else (True, (os @ '':'' @ group_hex host g) @ colon_groups host pre @ ''::'' @ joined_groups host post))"
      by (rule Cons.IH[OF _ _ _ d(1)]) (use Cons.prems(3) d(2) False in simp_all)
    finally show ?thesis unfolding Let_def takeWhile.simps dropWhile.simps using False
      by (simp only: if_True if_False not_False_eq_True colon_groups_simps append_assoc)
  qed
qed simp

lemma ipv6_text_parts:
  assumes "gs = groups6 host (a_mem a)" "pre = takeWhile (\<lambda>g. g \<noteq> 0) gs"
    and "post = dropWhile (\<lambda>g. g = 0) (dropWhile (\<lambda>g. g \<noteq> 0) gs)"
  shows "IPv6_insert host a = ''['' @ (if 0 \<in> set gs then joined_groups host pre @ ''::'' @ joined_groups host post
       else joined_groups host gs) @ '']:'' @ dec_str (unat (getPort host a))
     \<and> gs = pre @ replicate (8 - length pre - length post) 0 @ post"
proof -
  have len: "length gs = 8" by (simp add: assms(1) groups6_def)
  then obtain g gs' where g: "gs = g # gs'" by (cases gs) auto
  have u: "[0..<8] = 0 # [1..<length gs]" by (simp add: len upt_conv_Cons)
  have last7: "gs ! 7 = last gs" using len by (cases gs) (auto simp: last_conv_nth)
  have split: "gs = pre @ takeWhile (\<lambda>g. g = 0) (dropWhile (\<lambda>g. g \<noteq> 0) gs) @ post"
    by (simp add: assms(2,3))
  have "takeWhile (\<lambda>g. g = 0) xs = replicate (length (takeWhile (\<lambda>g. g = 0) xs)) (0 :: 16 word)" for xs
    by (induction xs) auto
  then have gs: "gs = pre @ replicate (8 - length pre - length post) 0 @ post"
    using split len by (metis (no_types, lifting) add_diff_cancel_left' add_diff_cancel_right' diff_diff_left length_append)
  have zero: "0 \<in> set gs \<longleftrightarrow> dropWhile (\<lambda>g. g \<noteq> 0) gs \<noteq> []" by auto
  have z7: "gs ! 7 = 0" if "0 \<in> set gs" "post = []"
  proof -
    let ?n = "8 - length pre - length post"
    have e: "gs = pre @ replicate ?n 0" using gs that(2) by simp
    have "0 \<notin> set pre" unfolding assms(2) by (auto dest: set_takeWhileD)
    with that(1) have "?n \<noteq> 0" by (subst (asm) e) auto
    then have "last (pre @ replicate ?n 0) = 0" by simp
    with e last7 show ?thesis by simp
  qed
  have "gs ! 7 \<in> set gs" using len by simp
  then have n7: "gs ! 7 \<noteq> 0" if "0 \<notin> set gs" using that by metis
  have g0: "insert6_loop host gs [0..<8] False ''['' =
     (if post = [] then (False, ''['' @ joined_groups host pre) else (True, ''['' @ joined_groups host pre @ ''::'' @ joined_groups host post))"
  proof (cases "g = 0")
    case True
    have "insert6_loop host gs [0..<8] False ''['' = insert6_loop host gs [1..<length gs] False ''[''"
      unfolding u using True by (simp add: g)
    also have "\<dots> = (let post = dropWhile (\<lambda>g. g = 0) gs' in
       if post = [] then (False, ''['') else (True, ''['' @ ''::'' @ joined_groups host post))"
      by (rule insert6_zeros) (use True g in simp_all)
    finally show ?thesis using True by (simp add: assms(2,3) g Let_def joined_groups_def)
  next
    case False
    have "insert6_loop host gs [0..<8] False ''['' = insert6_loop host gs [1..<length gs] False (''['' @ group_hex host g)"
      unfolding u using False by (simp add: g)
    also have "\<dots> = (let pre = takeWhile (\<lambda>g. g \<noteq> 0) gs'; post = dropWhile (\<lambda>g. g = 0) (dropWhile (\<lambda>g. g \<noteq> 0) gs') in
       if post = [] then (False, (''['' @ group_hex host g) @ colon_groups host pre)
       else (True, (''['' @ group_hex host g) @ colon_groups host pre @ ''::'' @ joined_groups host post))"
      by (rule insert6_prefix) (use False g in simp_all)
    finally have i: "insert6_loop host gs [0..<8] False ''['' = \<dots>" .
    have "pre = g # takeWhile (\<lambda>g. g \<noteq> 0) gs'" "post = dropWhile (\<lambda>g. g = 0) (dropWhile (\<lambda>g. g \<noteq> 0) gs')"
      using False by (simp_all add: assms(2,3) g)
    then show ?thesis unfolding i Let_def by (simp only: joined_groups_Cons append_assoc)
  qed
  have out: "IPv6_insert host a = (if post = [] then ''['' @ joined_groups host pre @ (if gs ! 7 = 0 then ''::'' else [])
       else ''['' @ joined_groups host pre @ ''::'' @ joined_groups host post) @ '']:'' @ dec_str (unat (getPort host a))"
    unfolding IPv6_insert_def Let_def assms(1)[symmetric] g0 getPort_def by simp
  have nz: "pre = gs" "post = []" if "0 \<notin> set gs"
  proof -
    have "takeWhile (\<lambda>g. g \<noteq> 0) gs = gs" by (rule takeWhile_eq_all_conv[THEN iffD2]) (use that in auto)
    then show "pre = gs" by (simp add: assms(2))
    have "dropWhile (\<lambda>g. g \<noteq> 0) gs = []" using that zero by blast
    then show "post = []" by (simp only: assms(3) dropWhile.simps)
  qed
  show ?thesis
  proof (cases "0 \<in> set gs")
    case True
    have "joined_groups host [] = []" by (simp add: joined_groups_def)
    with True out z7 have "IPv6_insert host a = ''['' @ (joined_groups host pre @ ''::'' @ joined_groups host post)
       @ '']:'' @ dec_str (unat (getPort host a))"
      by (cases "post = []") (simp_all only: if_True if_False append_assoc append_Nil2, simp)
    with gs True show ?thesis by (simp only: if_True)
  next
    case False
    with out nz n7 have "IPv6_insert host a = ''['' @ joined_groups host gs @ '']:'' @ dec_str (unat (getPort host a))"
      by (simp only: if_True if_False append_assoc append_Nil simp_thms)
    with gs False show ?thesis by (simp only: if_False)
  qed
qed

definition groups_before :: "16 word list \<Rightarrow> 16 word list" where
  "groups_before gs = takeWhile (\<lambda>g. g \<noteq> 0) gs"

definition groups_after :: "16 word list \<Rightarrow> 16 word list" where
  "groups_after gs = dropWhile (\<lambda>g. g = 0) (dropWhile (\<lambda>g. g \<noteq> 0) gs)"

text \<open>C26: the text of an IPv6 address is its eight groups in hexadecimal, joined by colons, with
  the first run of zero groups, if there is one, replaced by \<open>::\<close>; the groups are determined by
  the two parts around it.\<close>

theorem ipv6_text:
  "(let gs = groups6 host (a_mem a); pre = groups_before gs; post = groups_after gs in
     IPv6_insert host a = ''['' @ (if 0 \<in> set gs then joined_groups host pre @ ''::'' @ joined_groups host post
       else joined_groups host gs) @ '']:'' @ dec_str (unat (getPort host a))
     \<and> gs = pre @ replicate (8 - length pre - length post) 0 @ post)"
  using ipv6_text_parts[OF refl groups_before_def groups_after_def, of host a] by (simp only: Let_def)

subsection \<open>Host names\<close>

lemma str_find_at0:
  "c \<notin> set xs \<Longrightarrow> str_find c 0 (xs @ c # ys) = Some (length xs)"
  "c \<notin> set xs \<Longrightarrow> str_find c 0 xs = None"
  using str_find_append(1)[of c xs "[]" ys] str_find_append(2)[of c xs "[]"] by simp_all

lemma str_find_after:
  "c \<notin> set ys \<Longrightarrow> str_find c (length xs + 1) (xs @ d # ys) = None"
  "str_find c (length xs + 1) (xs @ d # ys @ c # zs) \<noteq> None"
proof -
  show "c \<notin> set ys \<Longrightarrow> str_find c (length xs + 1) (xs @ d # ys) = None"
    using str_find_append(2)[of c ys "xs @ [d]"] by simp
  have "length (takeWhile (\<lambda>e. e \<noteq> c) (ys @ c # zs)) < length (ys @ c # zs)"
    by (subst takeWhile_all) auto
  then show "str_find c (length xs + 1) (xs @ d # ys @ c # zs) \<noteq> None"
    by (simp add: str_find_def Let_def)
qed

text \<open>A host name is taken apart into node and service: \<open>[literal]:port\<close>, \<open>[literal]\<close>, \<open>name:port\<close> and
  \<open>name\<close> come out as meant; a bare IPv6 address is passed on whole, but with the rest from its first
  colon as the service.\<close>

lemma lookUp_split_forms:
  assumes "CHR '']'' \<notin> set literal" "literal \<noteq> []" "CHR '':'' \<notin> set name" "name \<noteq> []" "hd name \<noteq> CHR ''[''" "CHR '':'' \<notin> set port"
  shows "lookUp_split (CHR ''['' # literal @ '']:'' @ port) = (literal, Some port)
     \<and> lookUp_split (CHR ''['' # literal @ '']'') = (literal, None)
     \<and> lookUp_split (name @ CHR '':'' # port) = (name, Some port)
     \<and> lookUp_split name = (name, None)
     \<and> lookUp_split (name @ CHR '':'' # rest @ CHR '':'' # tail)
       = (name @ CHR '':'' # rest @ CHR '':'' # tail, Some (CHR '':'' # rest @ CHR '':'' # tail))"
proof (intro conjI)
  have b: "str_find (CHR '']'') 1 (CHR ''['' # literal @ CHR '']'' # r) = Some (length literal + 1)" for r
    using str_find_append(1)[OF assms(1), of "''[''" r] by simp
  show "lookUp_split (CHR ''['' # literal @ '']:'' @ port) = (literal, Some port)"
    using assms(2) b[of "'':'' @ port"] by (simp add: lookUp_split_def substr_def nth_append)
  show "lookUp_split (CHR ''['' # literal @ '']'') = (literal, None)"
    using assms(2) b[of "[]"] by (simp add: lookUp_split_def substr_def)
  have nb: "hd (name @ r) \<noteq> CHR ''[''" for r using assms(4,5) by simp
  show "lookUp_split (name @ CHR '':'' # port) = (name, Some port)"
    using str_find_at0(1)[OF assms(3), of port] str_find_after(1)[OF assms(6), of name] assms(4) nb
    by (simp add: lookUp_split_def)
  show "lookUp_split name = (name, None)"
    using str_find_at0(2)[OF assms(3)] assms(4) nb[of "[]"] by (simp add: lookUp_split_def)
  show "lookUp_split (name @ CHR '':'' # rest @ CHR '':'' # tail)
      = (name @ CHR '':'' # rest @ CHR '':'' # tail, Some (CHR '':'' # rest @ CHR '':'' # tail))"
    using str_find_at0(1)[OF assms(3), of "rest @ CHR '':'' # tail"] str_find_after(2)[of "CHR '':''" name _ rest tail] assms(4) nb
    by (simp add: lookUp_split_def)
qed

lemma lookUp_split_forms_witness:
  "lookUp_split ''[::1]:80'' = (''::1'', Some ''80'') \<and> lookUp_split ''fe80::1'' = (''fe80::1'', Some ''::1'')"
  using lookUp_split_forms[where literal = "''::1''" and name = "''fe80''" and port = "''80''" and rest = "[]" and tail = "''1''"] by simp

end
