(* ===== verification/Socket.thy ===== *)
theory Socket
  imports Hook Address
begin

text \<open>
  \<^verbatim>\<open>include/socket.h\<close>, \<^verbatim>\<open>src/socket.cc\<close>: a socket object, which owns a descriptor. What a system
  call answers is a component of \<open>kernel\<close>, an argument of each operation; the calls made are
  appended to \<open>sk_calls\<close>. Logging is left out.
\<close>

subsection \<open>State\<close>

text \<open>\<open>Sys_socket fd\<close> is a call of \<open>socket\<close> that returned \<open>fd\<close>, \<open>Sys_accept fd\<close> likewise.\<close>

datatype sys_call =
    Sys_socket int | Sys_accept int | Sys_close int | Sys_setsockopt int nat nat | Sys_bind int | Sys_listen int nat
  | Sys_connect int "nat option" | Sys_getsockname int | Sys_getpeername int

record sock =
  sk_sock :: int
  sk_family :: "16 word"
  sk_type :: nat
  sk_protocol :: nat
  sk_isConnected :: bool
  sk_localAddress :: "address option"
  sk_remoteAddress :: "address option"
  sk_calls :: "sys_call list"

text \<open>A name is the memory of a \<open>sockaddr\<close>, all of it; the kernel copies what fits.\<close>

record kernel =
  k_socket :: int
  k_bind :: int
  k_listen :: int
  k_connect :: int
  k_accept :: int
  k_sockname :: "byte list option"
  k_peername :: "byte list option"

definition SOCK_STREAM :: nat where "SOCK_STREAM = 1"
definition SOCK_DGRAM :: nat where "SOCK_DGRAM = 2"
definition SOL_SOCKET :: nat where "SOL_SOCKET = 1"
definition SO_REUSEADDR :: nat where "SO_REUSEADDR = 2"
definition IPPROTO_TCP :: nat where "IPPROTO_TCP = 6"
definition TCP_NODELAY :: nat where "TCP_NODELAY = 1"

definition call :: "sys_call list \<Rightarrow> sock \<Rightarrow> sock" where
  "call cs s = s\<lparr>sk_calls := sk_calls s @ cs\<rparr>"

subsection \<open>Creating and closing\<close>

definition Socket :: "16 word \<Rightarrow> nat \<Rightarrow> nat \<Rightarrow> sock" where
  "Socket family type protocol = \<lparr>sk_sock = - 1, sk_family = family, sk_type = type, sk_protocol = protocol,
     sk_isConnected = False, sk_localAddress = None, sk_remoteAddress = None, sk_calls = []\<rparr>"

definition isValid :: "sock \<Rightarrow> bool" where
  "isValid s = (sk_sock s \<noteq> - 1)"

definition sk_connected :: "sock \<Rightarrow> bool" where
  "sk_connected s = sk_isConnected s"

definition initSock :: "sock \<Rightarrow> sock" where
  "initSock s = (let s = call [Sys_setsockopt (sk_sock s) SOL_SOCKET SO_REUSEADDR] s in
     if sk_type s = SOCK_STREAM then call [Sys_setsockopt (sk_sock s) IPPROTO_TCP TCP_NODELAY] s else s)"

definition newSock :: "kernel \<Rightarrow> sock \<Rightarrow> sock" where
  "newSock k s = (let s = call [Sys_socket (k_socket k)] (s\<lparr>sk_sock := k_socket k\<rparr>) in
     if sk_sock s \<noteq> - 1 then initSock s else s)"

definition CreateTCP :: "endian \<Rightarrow> address \<Rightarrow> sock" where
  "CreateTCP host addr = Socket (getFamily host addr) SOCK_STREAM 0"

definition CreateUDP :: "endian \<Rightarrow> kernel \<Rightarrow> address \<Rightarrow> sock" where
  "CreateUDP host k addr = (let s = newSock k (Socket (getFamily host addr) SOCK_DGRAM 0) in s\<lparr>sk_isConnected := True\<rparr>)"

definition CreateTCPIPV4 :: sock where
  "CreateTCPIPV4 = Socket AF_INET SOCK_STREAM 0"

definition CreateUDPIPV4 :: "kernel \<Rightarrow> sock" where
  "CreateUDPIPV4 k = (let s = newSock k (Socket AF_INET SOCK_DGRAM 0) in s\<lparr>sk_isConnected := True\<rparr>)"

definition CreateTCPIPV6 :: sock where
  "CreateTCPIPV6 = Socket AF_INET6 SOCK_STREAM 0"

definition CreateUDPIPV6 :: "kernel \<Rightarrow> sock" where
  "CreateUDPIPV6 k = (let s = newSock k (Socket AF_INET6 SOCK_DGRAM 0) in s\<lparr>sk_isConnected := True\<rparr>)"

definition CreateUnixTCP :: sock where
  "CreateUnixTCP = Socket AF_UNIX SOCK_STREAM 0"

definition CreateUnixUDP :: sock where
  "CreateUnixUDP = Socket AF_UNIX SOCK_DGRAM 0"

definition sk_close :: "sock \<Rightarrow> bool \<times> sock" where
  "sk_close s =
     (if \<not> sk_isConnected s \<and> sk_sock s = - 1 then (True, s)
      else let s = s\<lparr>sk_isConnected := False\<rparr>;
               s = (if sk_sock s \<noteq> - 1 then (call [Sys_close (sk_sock s)] s)\<lparr>sk_sock := - 1\<rparr> else s)
           in (False, s))"

text \<open>The destructor.\<close>

definition Socket_delete :: "sock \<Rightarrow> sock" where
  "Socket_delete s = snd (sk_close s)"

subsection \<open>Names\<close>

text \<open>\<open>getsockname\<close> and \<open>getpeername\<close> write into the object, at most its length.\<close>

definition fill_name :: "byte list \<Rightarrow> address \<Rightarrow> address" where
  "fill_name name a = (let a' = a\<lparr>a_mem := overwrite (a_mem a) 0 (take (getAddrLen a) name)\<rparr> in
     if a_class a = C_Unix then setAddrLen (length name) a' else a')"

definition local_object :: "endian \<Rightarrow> 16 word \<Rightarrow> address" where
  "local_object host family =
     (if family = AF_INET then IPv4Address host 0 0
      else if family = AF_INET6 then IPv4Address host 0 0
      else if family = AF_UNIX then UnixAddress host
      else UnknownAddress host family)"

definition remote_object :: "endian \<Rightarrow> 16 word \<Rightarrow> address" where
  "remote_object host family =
     (if family = AF_INET then IPv4Address host 0 0
      else if family = AF_INET6 then IPv6Address host
      else if family = AF_UNIX then UnixAddress host
      else UnknownAddress host family)"

definition getRemoteAddress :: "endian \<Rightarrow> kernel \<Rightarrow> sock \<Rightarrow> address \<times> sock" where
  "getRemoteAddress host k s = (case sk_remoteAddress s of
     Some a \<Rightarrow> (a, s)
   | None \<Rightarrow>
      let result = remote_object host (sk_family s); s = call [Sys_getpeername (sk_sock s)] s in
      (case k_peername k of
         None \<Rightarrow> (UnknownAddress host (sk_family s), s)
       | Some name \<Rightarrow> let a = fill_name name result in (a, s\<lparr>sk_remoteAddress := Some a\<rparr>)))"

definition getLocalAddress :: "endian \<Rightarrow> kernel \<Rightarrow> sock \<Rightarrow> address \<times> sock" where
  "getLocalAddress host k s = (case sk_localAddress s of
     Some a \<Rightarrow> (a, s)
   | None \<Rightarrow>
      let result = local_object host (sk_family s); s = call [Sys_getsockname (sk_sock s)] s in
      (case k_sockname k of
         None \<Rightarrow> (UnknownAddress host (sk_family s), s)
       | Some name \<Rightarrow> let a = fill_name name result in (a, s\<lparr>sk_localAddress := Some a\<rparr>)))"

subsection \<open>Connecting\<close>

definition sk_bind :: "endian \<Rightarrow> kernel \<Rightarrow> address \<Rightarrow> sock \<Rightarrow> bool \<times> sock" where
  "sk_bind host k addr s =
     (let s = (if \<not> isValid s then newSock k s else s) in
      if \<not> isValid s then (False, s)
      else if getFamily host addr \<noteq> sk_family s then (False, s)
      else let s = call [Sys_bind (sk_sock s)] s in
        if k_bind k \<noteq> 0 then (False, s)
        else (True, snd (getLocalAddress host k s)))"

text \<open>\<open>timeout_ms\<close> is \<open>None\<close> for \<open>(uint64_t)-1\<close>: then \<open>connect\<close>, else \<open>connect_with_timeout\<close>.\<close>

definition sk_connect :: "endian \<Rightarrow> kernel \<Rightarrow> address \<Rightarrow> nat option \<Rightarrow> sock \<Rightarrow> bool \<times> sock" where
  "sk_connect host k addr timeout_ms s =
     (let s = s\<lparr>sk_remoteAddress := Some addr\<rparr>;
          s = (if \<not> isValid s then newSock k s else s) in
      if \<not> isValid s then (False, s)
      else if getFamily host addr \<noteq> sk_family s then (False, s)
      else let s = call [Sys_connect (sk_sock s) timeout_ms] s in
        if k_connect k \<noteq> 0 then (False, snd (sk_close s))
        else let s = s\<lparr>sk_isConnected := True\<rparr>;
                 s = snd (getRemoteAddress host k s);
                 s = snd (getLocalAddress host k s)
             in (True, s))"

definition sk_reconnect :: "endian \<Rightarrow> kernel \<Rightarrow> nat option \<Rightarrow> sock \<Rightarrow> bool \<times> sock" where
  "sk_reconnect host k timeout_ms s = (case sk_remoteAddress s of
     None \<Rightarrow> (False, s)
   | Some a \<Rightarrow> sk_connect host k a timeout_ms (s\<lparr>sk_localAddress := None\<rparr>))"

definition sk_listen :: "kernel \<Rightarrow> nat \<Rightarrow> sock \<Rightarrow> bool \<times> sock" where
  "sk_listen k backlog s =
     (if \<not> isValid s then (False, s)
      else let s = call [Sys_listen (sk_sock s) backlog] s in (k_listen k = 0, s))"

text \<open>\<open>init\<close>: the descriptor must be known to \<open>FdMgr\<close> as an open socket.\<close>

definition sk_init :: "endian \<Rightarrow> kernel \<Rightarrow> fd_manager \<Rightarrow> int \<Rightarrow> sock \<Rightarrow> bool \<times> sock" where
  "sk_init host k fds fd s = (case ctx_of fd fds of
     Some (_, c) \<Rightarrow>
       if m_isSocket c \<and> \<not> m_isClosed c then
         let s = s\<lparr>sk_sock := fd, sk_isConnected := True\<rparr>;
             s = initSock s;
             s = snd (getLocalAddress host k s);
             s = snd (getRemoteAddress host k s)
         in (True, s)
       else (False, s)
   | None \<Rightarrow> (False, s))"

text \<open>
  \<open>accept\<close>: the new object, if there is one, and the system calls made. The object that
  is not returned is destroyed. \<open>fds\<close> is the table after the hooked \<open>accept\<close>.
\<close>

definition sk_accept :: "endian \<Rightarrow> kernel \<Rightarrow> fd_manager \<Rightarrow> sock \<Rightarrow> sock option \<times> sys_call list" where
  "sk_accept host k fds s =
     (let sock = Socket (sk_family s) (sk_type s) (sk_protocol s); newsock = k_accept k;
          sock = call [Sys_accept newsock] sock in
      if newsock = - 1 then (None, sk_calls (Socket_delete sock))
      else let (ok, sock) = sk_init host k fds newsock sock in
        if ok then (Some sock, sk_calls sock) else (None, sk_calls (Socket_delete sock)))"

subsection \<open>Options\<close>

text \<open>\<open>setOption\<close> and \<open>getOption\<close> succeed if the system call answers 0.\<close>

definition setOption :: "int \<Rightarrow> bool" where
  "setOption answer = (answer = 0)"

definition getOption :: "int \<Rightarrow> bool" where
  "getOption answer = (answer = 0)"

definition getError :: "int \<Rightarrow> int \<Rightarrow> int \<Rightarrow> int" where
  "getError answer so_error err = (if \<not> getOption answer then err else so_error)"

text \<open>The \<open>timeval\<close> for \<open>v\<close> milliseconds; both parts are converted to \<open>int\<close>.\<close>

definition timeval_of :: "int \<Rightarrow> int \<times> int" where
  "timeval_of v = (signed_take_bit 31 (v sdiv 1000), signed_take_bit 31 ((v smod 1000) * 1000))"

definition sk_setTimeout :: "bool \<Rightarrow> sock_opt \<Rightarrow> int \<Rightarrow> sock \<Rightarrow> fd_manager \<Rightarrow> fd_manager" where
  "sk_setTimeout en ty v s fds = (let (tv_sec, tv_usec) = timeval_of v in
     hook_setsockopt en (sk_sock s) (Some (ty, tv_sec, tv_usec)) fds)"

definition setSendTimeout :: "bool \<Rightarrow> int \<Rightarrow> sock \<Rightarrow> fd_manager \<Rightarrow> fd_manager" where
  "setSendTimeout en = sk_setTimeout en SO_SNDTIMEO"

definition setRecvTimeout :: "bool \<Rightarrow> int \<Rightarrow> sock \<Rightarrow> fd_manager \<Rightarrow> fd_manager" where
  "setRecvTimeout en = sk_setTimeout en SO_RCVTIMEO"

text \<open>The result is converted to \<open>int64_t\<close>.\<close>

definition sk_getTimeout :: "sock_opt \<Rightarrow> sock \<Rightarrow> fd_manager \<Rightarrow> int" where
  "sk_getTimeout ty s fds = (case ctx_of (sk_sock s) fds of
     Some (_, c) \<Rightarrow> signed_take_bit 63 (int (getTimeout ty c)) | None \<Rightarrow> - 1)"

definition getSendTimeout :: "sock \<Rightarrow> fd_manager \<Rightarrow> int" where
  "getSendTimeout = sk_getTimeout SO_SNDTIMEO"

definition getRecvTimeout :: "sock \<Rightarrow> fd_manager \<Rightarrow> int" where
  "getRecvTimeout = sk_getTimeout SO_RCVTIMEO"

subsection \<open>Input and output\<close>

text \<open>
  \<open>send\<close>, \<open>sendTo\<close>, \<open>recv\<close>, \<open>recvFrom\<close> in both overloads: the system call \<open>io\<close> on the
  descriptor and the arguments, if the socket is connected, else \<open>-1\<close> and nothing happens.
\<close>

definition sk_io :: "(int \<Rightarrow> 'arg \<Rightarrow> 'st \<Rightarrow> int \<times> 'st) \<Rightarrow> 'arg \<Rightarrow> sock \<Rightarrow> 'st \<Rightarrow> int \<times> 'st" where
  "sk_io io arg s st = (if sk_connected s then io (sk_sock s) arg st else (- 1, st))"

definition sk_send where "sk_send send = sk_io send"
definition sk_send_iov where "sk_send_iov sendmsg = sk_io sendmsg"
definition sk_sendTo where "sk_sendTo sendto = sk_io sendto"
definition sk_sendTo_iov where "sk_sendTo_iov sendmsg = sk_io sendmsg"
definition sk_recv where "sk_recv recv = sk_io recv"
definition sk_recv_iov where "sk_recv_iov recvmsg = sk_io recvmsg"
definition sk_recvFrom where "sk_recvFrom recvfrom = sk_io recvfrom"
definition sk_recvFrom_iov where "sk_recvFrom_iov recvmsg = sk_io recvmsg"

subsection \<open>Cancelling\<close>

definition cancelRead :: "epoll_ctl \<Rightarrow> sock \<Rightarrow> io_manager \<Rightarrow> fault + bool \<times> io_manager" where
  "cancelRead ctl s io = cancelEvent ctl (sk_sock s) EV_READ io"

definition cancelWrite :: "epoll_ctl \<Rightarrow> sock \<Rightarrow> io_manager \<Rightarrow> fault + bool \<times> io_manager" where
  "cancelWrite ctl s io = cancelEvent ctl (sk_sock s) EV_WRITE io"

definition cancelAccept :: "epoll_ctl \<Rightarrow> sock \<Rightarrow> io_manager \<Rightarrow> fault + bool \<times> io_manager" where
  "cancelAccept ctl s io = cancelEvent ctl (sk_sock s) EV_READ io"

definition sk_cancelAll :: "epoll_ctl \<Rightarrow> sock \<Rightarrow> io_manager \<Rightarrow> fault + bool \<times> io_manager" where
  "sk_cancelAll ctl s io = cancelAll ctl (sk_sock s) io"

subsection \<open>Output\<close>

definition int_str :: "int \<Rightarrow> string" where
  "int_str i = (if i < 0 then ''-'' @ dec_str (nat (- i)) else dec_str (nat i))"

definition sk_dump :: "endian \<Rightarrow> sock \<Rightarrow> string" where
  "sk_dump host s =
     ''[Socket sock='' @ int_str (sk_sock s) @ '' is_connected='' @ (if sk_isConnected s then ''1'' else ''0'')
     @ '' family='' @ dec_str (unat (sk_family s)) @ '' type='' @ dec_str (sk_type s)
     @ '' protocol='' @ dec_str (sk_protocol s)
     @ (case sk_localAddress s of Some a \<Rightarrow> '' local_address='' @ address_toString host a | None \<Rightarrow> [])
     @ (case sk_remoteAddress s of Some a \<Rightarrow> '' remote_address='' @ address_toString host a | None \<Rightarrow> [])
     @ '']''"

definition sk_toString :: "endian \<Rightarrow> sock \<Rightarrow> string" where
  "sk_toString host s = sk_dump host s"

end
