(* ===== verification/SocketProps.thy ===== *)
theory SocketProps
  imports Socket
begin

text \<open>
  What a socket object promises: it owns the descriptor it got from the kernel and no other,
  it is connected only while it has one, and its timeouts are those that were set.
\<close>

subsection \<open>The descriptors an object holds\<close>

fun hold_step :: "int list \<Rightarrow> sys_call \<Rightarrow> int list" where
  "hold_step hs (Sys_socket fd) = (if fd = - 1 then hs else hs @ [fd])"
| "hold_step hs (Sys_accept fd) = (if fd = - 1 then hs else hs @ [fd])"
| "hold_step hs (Sys_close fd) = remove1 fd hs"
| "hold_step hs _ = hs"

definition held :: "sys_call list \<Rightarrow> int list" where
  "held cs = foldl hold_step [] cs"

lemma held_simps [simp]: "held [] = []" "held (c # cs) = foldl hold_step (hold_step [] c) cs" "held (cs @ ds) = foldl hold_step (held cs) ds"
  by (simp_all add: held_def)

definition current :: "sock \<Rightarrow> int list" where
  "current s = (if isValid s then [sk_sock s] else [])"

definition owns :: "sock \<Rightarrow> bool" where
  "owns s \<longleftrightarrow> held (sk_calls s) = current s \<and> (sk_connected s \<longrightarrow> isValid s \<or> sk_type s = SOCK_DGRAM)"

lemmas sock_ops = Let_def call_def initSock_def newSock_def sk_close_def Socket_delete_def sk_bind_def sk_connect_def
  sk_reconnect_def sk_listen_def getLocalAddress_def getRemoteAddress_def

lemmas sock_views = owns_def current_def isValid_def sk_connected_def

lemma owns_new [simp]: "owns (Socket f t p)"
  by (simp add: sock_views Socket_def)

lemma owns_local [simp]: "owns (snd (getLocalAddress host k s)) = owns s"
  by (simp add: sock_views sock_ops split: option.split)

lemma owns_remote [simp]: "owns (snd (getRemoteAddress host k s)) = owns s"
  by (simp add: sock_views sock_ops split: option.split)

lemma fields_local [simp]:
  "sk_sock (snd (getLocalAddress host k s)) = sk_sock s" "sk_isConnected (snd (getLocalAddress host k s)) = sk_isConnected s"
  "sk_remoteAddress (snd (getLocalAddress host k s)) = sk_remoteAddress s"
  "sk_family (snd (getLocalAddress host k s)) = sk_family s" "sk_type (snd (getLocalAddress host k s)) = sk_type s"
  by (simp_all add: sock_ops split: option.split)

lemma fields_remote [simp]:
  "sk_sock (snd (getRemoteAddress host k s)) = sk_sock s" "sk_isConnected (snd (getRemoteAddress host k s)) = sk_isConnected s"
  "sk_localAddress (snd (getRemoteAddress host k s)) = sk_localAddress s"
  "sk_family (snd (getRemoteAddress host k s)) = sk_family s" "sk_type (snd (getRemoteAddress host k s)) = sk_type s"
  by (simp_all add: sock_ops split: option.split)

lemma owns_initSock [simp]: "owns (initSock s) = owns s"
  by (simp add: sock_views initSock_def call_def Let_def)

lemma fields_initSock [simp]:
  "sk_sock (initSock s) = sk_sock s" "sk_isConnected (initSock s) = sk_isConnected s" "sk_family (initSock s) = sk_family s"
  "sk_type (initSock s) = sk_type s" "sk_remoteAddress (initSock s) = sk_remoteAddress s"
  "sk_localAddress (initSock s) = sk_localAddress s"
  by (simp_all add: initSock_def call_def Let_def)

lemma fields_newSock [simp]:
  "sk_sock (newSock k s) = k_socket k" "sk_isConnected (newSock k s) = sk_isConnected s" "sk_family (newSock k s) = sk_family s"
  "sk_type (newSock k s) = sk_type s" "sk_remoteAddress (newSock k s) = sk_remoteAddress s"
  "sk_localAddress (newSock k s) = sk_localAddress s"
  by (simp_all add: newSock_def Let_def) (simp_all add: call_def)

lemma owns_newSock: "owns s \<Longrightarrow> \<not> isValid s \<Longrightarrow> owns (newSock k s)"
  by (auto simp: newSock_def Let_def) (auto simp: sock_views call_def)

lemma owns_close: "owns s \<Longrightarrow> owns (snd (sk_close s)) \<and> \<not> isValid (snd (sk_close s)) \<and> \<not> sk_connected (snd (sk_close s))"
  by (auto simp: sock_views sk_close_def call_def Let_def)

lemma owns_remote_upd [simp]: "owns (s\<lparr>sk_remoteAddress := a\<rparr>) = owns s" "owns (s\<lparr>sk_localAddress := a\<rparr>) = owns s"
  by (simp_all add: sock_views)

lemma owns_connected: "owns s \<Longrightarrow> isValid s \<Longrightarrow> owns (s\<lparr>sk_isConnected := True\<rparr>)"
  by (simp add: sock_views)

lemma owns_bind: "owns s \<Longrightarrow> owns (snd (sk_bind host k a s))"
proof -
  assume o: "owns s"
  define t where "t = (if \<not> isValid s then newSock k s else s)"
  have "owns t" using o owns_newSock[OF o] by (simp add: t_def)
  then have "owns (call [Sys_bind (sk_sock t)] t)" by (simp add: sock_views call_def)
  with \<open>owns t\<close> show ?thesis by (simp add: sk_bind_def t_def[symmetric] Let_def)
qed

lemma owns_connect: "owns s \<Longrightarrow> owns (snd (sk_connect host k a tm s))"
proof -
  assume o: "owns s"
  define t where "t = (let s' = s\<lparr>sk_remoteAddress := Some a\<rparr> in if \<not> isValid s' then newSock k s' else s')"
  have "owns t" using o owns_newSock[of "s\<lparr>sk_remoteAddress := Some a\<rparr>" k] by (simp add: t_def Let_def)
  then have c: "owns (call [Sys_connect (sk_sock t) tm] t)" "isValid t = isValid (call [Sys_connect (sk_sock t) tm] t)"
    by (simp_all add: sock_views call_def)
  show ?thesis
    using \<open>owns t\<close> c owns_close[OF c(1)] owns_connected[OF c(1)]
    by (simp add: sk_connect_def t_def[symmetric, unfolded Let_def] Let_def)
qed

lemma owns_init:
  assumes "sk_calls s = [Sys_accept fd]" "fd \<noteq> - 1" "sk_init host k fds fd s = (True, t)"
  shows "owns t \<and> sk_sock t = fd \<and> sk_isConnected t \<and> ctx_of fd fds \<noteq> None"
proof -
  let ?s = "initSock (s\<lparr>sk_sock := fd, sk_isConnected := True\<rparr>)"
  have t: "t = snd (getRemoteAddress host k (snd (getLocalAddress host k ?s)))"
    using assms(3) by (auto simp: sk_init_def Let_def split: option.splits if_splits)
  have "owns (s\<lparr>sk_sock := fd, sk_isConnected := True\<rparr>)" using assms(1,2) by (simp add: sock_views)
  moreover have "ctx_of fd fds \<noteq> None" using assms(3) by (auto simp: sk_init_def split: option.splits)
  ultimately show ?thesis by (simp add: t)
qed

subsection \<open>Lives of an object\<close>

text \<open>
  The operations that change an object. Options, timeouts, sending, receiving and cancelling leave it as it
  is; \<open>accept\<close>, which makes another object, is a step of the program below.
\<close>

inductive sk_step :: "endian \<Rightarrow> sock \<Rightarrow> sock \<Rightarrow> bool" for host where
  S_bind: "sk_step host s (snd (sk_bind host k a s))"
| S_connect: "sk_step host s (snd (sk_connect host k a tm s))"
| S_reconnect: "sk_step host s (snd (sk_reconnect host k tm s))"
| S_listen: "sk_step host s (snd (sk_listen k n s))"
| S_close: "sk_step host s (snd (sk_close s))"
| S_local: "sk_step host s (snd (getLocalAddress host k s))"
| S_remote: "sk_step host s (snd (getRemoteAddress host k s))"

inductive_cases sk_stepE: "sk_step host s t"

lemma owns_step: "sk_step host s t \<Longrightarrow> owns s \<Longrightarrow> owns t"
  by (erule sk_stepE)
     (auto simp: owns_bind owns_connect owns_close sk_reconnect_def sk_listen_def Let_def split: option.split,
      auto simp: sock_views call_def)

lemma owns_udp: "owns (let s = newSock k (Socket f SOCK_DGRAM p) in s\<lparr>sk_isConnected := True\<rparr>)"
proof -
  have "owns (newSock k (Socket f SOCK_DGRAM p))" by (rule owns_newSock[OF owns_new]) (simp add: isValid_def Socket_def)
  then show ?thesis using owns_new[of f SOCK_DGRAM p] by (simp add: sock_views Let_def) (simp add: Socket_def)
qed

lemma accept_some:
  assumes "sk_accept host k fds s = (Some t, cs)"
  shows "owns t \<and> sk_sock t = k_accept k \<and> k_accept k \<noteq> - 1 \<and> cs = sk_calls t \<and> sk_isConnected t
     \<and> ctx_of (k_accept k) fds \<noteq> None"
proof -
  let ?s = "call [Sys_accept (k_accept k)] (Socket (sk_family s) (sk_type s) (sk_protocol s))"
  have "k_accept k \<noteq> - 1" "sk_init host k fds (k_accept k) ?s = (True, t)" "cs = sk_calls t"
    using assms by (auto simp: sk_accept_def Let_def split: if_splits prod.splits)
  moreover have "sk_calls ?s = [Sys_accept (k_accept k)]" by (simp add: call_def Socket_def)
  ultimately show ?thesis using owns_init by blast
qed

text \<open>\<open>accept\<close> hands over the descriptor it got, in an object that is connected and
  has it. If \<open>FdMgr\<close> does not know the descriptor as an open socket there is no object, and
  the descriptor stays open although nothing refers to it.\<close>

lemma accept_descriptors:
  "(case sk_accept host k fds s of
      (Some t, cs) \<Rightarrow> sk_sock t = k_accept k \<and> isValid t \<and> sk_connected t \<and> held cs = [k_accept k]
    | (None, cs) \<Rightarrow> held cs = (if k_accept k = - 1 then [] else [k_accept k]))
   \<and> (fst (sk_accept host k fds s) = None) =
     (k_accept k = - 1 \<or> (case ctx_of (k_accept k) fds of None \<Rightarrow> True | Some (_, c) \<Rightarrow> \<not> (m_isSocket c \<and> \<not> m_isClosed c)))"
proof (rule conjI)
  obtain r cs where r: "sk_accept host k fds s = (r, cs)" by force
  show "case sk_accept host k fds s of
      (Some t, cs) \<Rightarrow> sk_sock t = k_accept k \<and> isValid t \<and> sk_connected t \<and> held cs = [k_accept k]
    | (None, cs) \<Rightarrow> held cs = (if k_accept k = - 1 then [] else [k_accept k])"
  proof (cases r)
    case None
    with r show ?thesis
      by (auto simp: sk_accept_def Let_def call_def Socket_def Socket_delete_def sk_close_def sk_init_def
          split: if_splits prod.splits option.splits)
  next
    case (Some t)
    with r accept_some[of host k fds s t cs] show ?thesis by (auto simp: sock_views)
  qed
qed (auto simp: sk_accept_def sk_init_def Let_def split: option.split prod.split)

text \<open>
  A program with socket objects: those that live, the calls made for the objects that are gone (the object
  of an \<open>accept\<close> that returned none among them), and the descriptors of connections that such an
  \<open>accept\<close> had taken.
\<close>

record sk_world =
  w_live :: "sock list"
  w_past :: "sys_call list list"
  w_refused :: "int list"

inductive sk_made :: "endian \<Rightarrow> sock \<Rightarrow> bool" for host where
  M_socket: "sk_made host (Socket f t p)"
| M_udp: "sk_made host (CreateUDP host k a)"
| M_udp4: "sk_made host (CreateUDPIPV4 k)"
| M_udp6: "sk_made host (CreateUDPIPV6 k)"

inductive world_step :: "endian \<Rightarrow> sk_world \<Rightarrow> sk_world \<Rightarrow> bool" for host where
  W_make: "sk_made host s \<Longrightarrow> world_step host w (w\<lparr>w_live := w_live w @ [s]\<rparr>)"
| W_step: "i < length (w_live w) \<Longrightarrow> sk_step host (w_live w ! i) t \<Longrightarrow> world_step host w (w\<lparr>w_live := (w_live w)[i := t]\<rparr>)"
| W_accept: "i < length (w_live w) \<Longrightarrow> sk_accept host k fds (w_live w ! i) = (Some t, cs)
    \<Longrightarrow> world_step host w (w\<lparr>w_live := w_live w @ [t]\<rparr>)"
| W_refuse: "i < length (w_live w) \<Longrightarrow> sk_accept host k fds (w_live w ! i) = (None, cs)
    \<Longrightarrow> world_step host w (w\<lparr>w_past := w_past w @ [cs],
          w_refused := w_refused w @ (if k_accept k = - 1 then [] else [k_accept k])\<rparr>)"
| W_delete: "i < length (w_live w)
    \<Longrightarrow> world_step host w (w\<lparr>w_live := take i (w_live w) @ drop (Suc i) (w_live w),
          w_past := w_past w @ [sk_calls (Socket_delete (w_live w ! i))]\<rparr>)"

inductive sk_reach :: "endian \<Rightarrow> sk_world \<Rightarrow> bool" for host where
  R_start: "sk_reach host \<lparr>w_live = [], w_past = [], w_refused = []\<rparr>"
| R_world: "sk_reach host w \<Longrightarrow> world_step host w w' \<Longrightarrow> sk_reach host w'"

text \<open>All descriptors that are open: of the objects that live, and of the calls of the past.\<close>

definition opened :: "sk_world \<Rightarrow> int multiset" where
  "opened w = mset (concat (map (held \<circ> sk_calls) (w_live w))) + mset (concat (map held (w_past w)))"

definition world_ok :: "sk_world \<Rightarrow> bool" where
  "world_ok w \<longleftrightarrow> (\<forall>s \<in> set (w_live w). owns s) \<and> mset (concat (map held (w_past w))) = mset (w_refused w)"

lemma owns_made: "sk_made host s \<Longrightarrow> owns s"
  by (erule sk_made.cases)
     (auto simp: owns_udp[unfolded Let_def] CreateUDP_def CreateUDPIPV4_def CreateUDPIPV6_def Let_def)

lemma owns_deleted: "owns s \<Longrightarrow> held (sk_calls (Socket_delete s)) = []"
  using owns_close[of s] by (auto simp: owns_def current_def Socket_delete_def)

lemma refused_held: "sk_accept host k fds s = (None, cs) \<Longrightarrow> held cs = (if k_accept k = - 1 then [] else [k_accept k])"
  using accept_descriptors[where host = host and k = k and fds = fds and s = s] by simp

lemma world_ok_step:
  assumes "world_step host w w'" "world_ok w"
  shows "world_ok w'"
  using assms(1)
proof cases
  case (W_make s)
  with assms(2) owns_made[of host s] show ?thesis by (auto simp: world_ok_def)
next
  case (W_step i t)
  with assms(2) have "owns t" by (auto simp: world_ok_def intro: owns_step)
  with W_step(1) assms(2) show ?thesis by (auto simp: world_ok_def dest: set_update_subset_insert[THEN subsetD])
next
  case (W_accept i k fds t cs)
  with assms(2) accept_some[of host k fds "w_live w ! i" t cs] show ?thesis by (auto simp: world_ok_def)
next
  case (W_refuse i k fds cs)
  with assms(2) show ?thesis by (auto simp: world_ok_def refused_held)
next
  case (W_delete i)
  with assms(2) have "owns (w_live w ! i)" by (auto simp: world_ok_def)
  with W_delete(1) assms(2) show ?thesis
    by (auto simp: world_ok_def owns_deleted dest: in_set_takeD in_set_dropD)
qed

lemma world_ok_reach: "sk_reach host w \<Longrightarrow> world_ok w"
  by (induction rule: sk_reach.induct) (use world_ok_step in \<open>auto simp: world_ok_def\<close>)

text \<open>C10: whatever a program does with its socket objects (making them, binding, connecting, listening,
  accepting, closing, asking for names, destroying them), the descriptors that its system calls were given and
  have not returned are those that its objects hold, each object its own, and those of the connections that
  \<open>accept\<close> took and did not hand over, which are lost (\<open>accept_descriptors\<close> says when that happens):
  apart from these nothing is left open when an object is destroyed. A connected object that is not a
  datagram socket has a descriptor.\<close>

theorem socket_owns_descriptor:
  assumes "sk_reach host w"
  shows "opened w = mset (map sk_sock (filter isValid (w_live w))) + mset (w_refused w)
     \<and> (\<forall>s \<in> set (w_live w). held (sk_calls s) = (if isValid s then [sk_sock s] else [])
          \<and> held (sk_calls (Socket_delete s)) = []
          \<and> (sk_connected s \<and> sk_type s \<noteq> SOCK_DGRAM \<longrightarrow> isValid s))"
proof -
  have ok: "\<forall>s \<in> set (w_live w). owns s" "mset (concat (map held (w_past w))) = mset (w_refused w)"
    using world_ok_reach[OF assms] by (auto simp: world_ok_def)
  have "concat (map (held \<circ> sk_calls) ss) = map sk_sock (filter isValid ss)" if "\<forall>s \<in> set ss. owns s" for ss
    using that by (induction ss) (auto simp: owns_def current_def)
  with ok show ?thesis by (auto simp: opened_def owns_deleted) (auto simp: owns_def current_def)
qed

definition demo_kernel :: kernel where
  "demo_kernel = \<lparr>k_socket = 5, k_bind = 0, k_listen = 0, k_connect = 0, k_accept = 9,
     k_sockname = Some (replicate 28 0), k_peername = None\<rparr>"

text \<open>A listening socket is bound, refuses a connection, and is destroyed: the connection stays open.\<close>

theorem socket_owns_descriptor_witness:
  "\<exists>w. sk_reach Little_endian w \<and> w_live w = [] \<and> opened w = {#9#}"
proof -
  let ?h = Little_endian and ?a = "IPv4Address Little_endian 1 80"
  let ?s = "snd (sk_bind ?h demo_kernel ?a CreateTCPIPV4)"
  let ?fds = "\<lparr>m_datas = [], fd_heap = (\<lambda>_. snd (FdCtx (\<lambda>_. None) 0 0)), fd_next = 0, k_flags = (\<lambda>_. 0)\<rparr>"
  let ?w0 = "\<lparr>w_live = [], w_past = [], w_refused = []\<rparr>" and ?w1 = "\<lparr>w_live = [CreateTCPIPV4], w_past = [], w_refused = []\<rparr>"
  let ?w2 = "\<lparr>w_live = [?s], w_past = [], w_refused = []\<rparr>"
  have "world_step ?h ?w0 ?w1" using W_make[of ?h CreateTCPIPV4 ?w0] by (simp add: CreateTCPIPV4_def M_socket)
  moreover have "world_step ?h ?w1 ?w2" using W_step[of 0 ?w1 ?h, OF _ S_bind] by simp
  ultimately have r2: "sk_reach ?h ?w2" using R_start R_world by blast
  have "k_accept demo_kernel = 9" by (simp add: demo_kernel_def)
  moreover have "ctx_of 9 ?fds = None" by (simp add: ctx_of_def fd_look_def)
  ultimately have "fst (sk_accept ?h demo_kernel ?fds ?s) = None"
    using accept_descriptors[where host = ?h and k = demo_kernel and fds = ?fds and s = ?s] by simp
  then obtain cs where cs: "sk_accept ?h demo_kernel ?fds ?s = (None, cs)" by (cases "sk_accept ?h demo_kernel ?fds ?s") auto
  let ?w3 = "\<lparr>w_live = [?s], w_past = [cs], w_refused = [9]\<rparr>"
  have "world_step ?h ?w2 ?w3" using W_refuse[of 0 ?w2 ?h demo_kernel ?fds cs] cs \<open>k_accept demo_kernel = 9\<close> by simp
  then have "sk_reach ?h ?w3" using r2 R_world by blast
  moreover have "world_step ?h ?w3 \<lparr>w_live = [], w_past = [cs, sk_calls (Socket_delete ?s)], w_refused = [9]\<rparr>"
    using W_delete[of 0 ?w3 ?h] by simp
  ultimately have r: "sk_reach ?h \<lparr>w_live = [], w_past = [cs, sk_calls (Socket_delete ?s)], w_refused = [9]\<rparr>" using R_world by blast
  from socket_owns_descriptor[OF r] r show ?thesis
    by (intro exI[of _ "\<lparr>w_live = [], w_past = [cs, sk_calls (Socket_delete ?s)], w_refused = [9]\<rparr>"]) simp
qed

text \<open>\<open>connect\<close> succeeds just when there is a descriptor, the family fits and the system
  call succeeds; then the object is connected to that address. When the system call fails the
  object has no descriptor any more; when only the family is wrong it keeps it, and it remembers
  the address for \<open>reconnect\<close> in any case.\<close>

lemma connect_outcome:
  "let (ok, t) = sk_connect host k a tm s;
       valid = (if isValid s then True else k_socket k \<noteq> - 1);
       family = (getFamily host a = sk_family s)
   in ok = (valid \<and> family \<and> k_connect k = 0)
     \<and> sk_connected t = (ok \<or> sk_connected s \<and> \<not> (valid \<and> family))
     \<and> isValid t = (valid \<and> (if family then k_connect k = 0 else True))
     \<and> sk_remoteAddress t = Some a"
  by (auto simp: sk_connect_def sk_connected_def isValid_def sk_close_def Let_def call_def getRemoteAddress_def)

subsection \<open>Timeouts\<close>

lemma timeval_exact:
  assumes "- 2147483648000 \<le> v" "v < 2147483648000"
  shows "fst (timeval_of v) * 1000 + snd (timeval_of v) sdiv 1000 = v"
proof -
  let ?q = "v sdiv 1000" and ?r = "v smod 1000"
  have d: "?q * 1000 + ?r = v" by (rule sdiv_mult_smod_eq)
  have r: "- 1000 < ?r" "?r < 1000" using smod_int_range[of 1000 v] by simp_all
  have "?q < 2 ^ 31"
  proof (cases "0 \<le> v")
    case True
    then have "?q = v div 1000" by (simp add: signed_divide_int_def sgn_if)
    with assms(2) show ?thesis by simp
  next
    case False
    with d r(1) show ?thesis by simp
  qed
  moreover have "- (2 ^ 31) \<le> ?q" using d r(2) assms(1) by simp
  ultimately have "signed_take_bit 31 ?q = ?q" by (rule signed_take_bit_int_eq_self[rotated])
  moreover have "signed_take_bit 31 (?r * 1000) = ?r * 1000" using r by (intro signed_take_bit_int_eq_self) simp_all
  moreover have "?r * 1000 sdiv 1000 = ?r" by (simp add: signed_divide_int_def sgn_mult abs_mult sgn_mult_abs)
  ultimately show ?thesis using d by (simp add: timeval_of_def)
qed

lemma u64_i64:
  assumes "- (2 ^ 63) \<le> v" "v < 2 ^ 63"
  shows "signed_take_bit 63 (int (nat (v mod 2 ^ 64))) = v"
proof -
  have "signed_take_bit 63 (v mod 2 ^ 64) = signed_take_bit 63 v"
    using signed_take_bit_take_bit[of 63 64 v] by (simp only: take_bit_eq_mod) simp
  also have "\<dots> = v" using assms by (intro signed_take_bit_int_eq_self) simp_all
  finally show ?thesis by simp
qed

lemma timeout_stored:
  assumes "- 2147483648000 \<le> v" "v < 2147483648000" and c: "ctx_of (sk_sock s) fds = Some (p, c)"
  shows "ctx_of (sk_sock s) (sk_setTimeout True ty v s fds) = Some (p, setTimeout ty (nat (v mod 2 ^ 64)) c)"
    "sk_getTimeout ty s (sk_setTimeout True ty v s fds) = v"
proof -
  obtain sec usec where tv: "timeval_of v = (sec, usec)" by force
  have v: "sec * 1000 + usec sdiv 1000 = v" using timeval_exact[OF assms(1,2)] tv by simp
  show ctx: "ctx_of (sk_sock s) (sk_setTimeout True ty v s fds) = Some (p, setTimeout ty (nat (v mod 2 ^ 64)) c)"
    using c tv v by (auto simp: sk_setTimeout_def hook_setsockopt_def ctx_of_def fd_look_def Let_def)
  have "signed_take_bit 63 (int (nat (v mod 2 ^ 64))) = v" using assms(1,2) by (intro u64_i64) simp_all
  then show "sk_getTimeout ty s (sk_setTimeout True ty v s fds) = v"
    using ctx by (simp add: sk_getTimeout_def setTimeout_def getTimeout_def)
qed

text \<open>The timeout of a descriptor that \<open>FdMgr\<close> knows is read back as it was set, to the
  millisecond, and \<open>-1\<close> is stored as the value that the hooked calls take for no timeout; the
  timeout of the other direction does not change. A descriptor it does not know has none.\<close>

lemma timeouts_read_back:
  assumes "- 2147483648000 \<le> v" "v < 2147483648000" "ctx_of (sk_sock s) fds = Some (p, c)"
  shows "getRecvTimeout s (setRecvTimeout True v s fds) = v \<and> getSendTimeout s (setSendTimeout True v s fds) = v
     \<and> getSendTimeout s (setRecvTimeout True v s fds) = getSendTimeout s fds
     \<and> getRecvTimeout s (setSendTimeout True v s fds) = getRecvTimeout s fds
     \<and> map_option (getTimeout SO_RCVTIMEO \<circ> snd) (ctx_of (sk_sock s) (setRecvTimeout True (- 1) s fds)) = Some u64max"
proof -
  have "nat ((- 1) mod 2 ^ 64 :: int) = u64max" by (simp add: u64max_def)
  moreover have "signed_take_bit 63 (int (nat (v mod 2 ^ 64))) = v" using assms(1,2) by (intro u64_i64) simp_all
  moreover note timeout_stored(1)[OF assms] timeout_stored(1)[OF _ _ assms(3), of "- 1"] assms(3)
  ultimately show ?thesis
    by (simp add: setRecvTimeout_def setSendTimeout_def getRecvTimeout_def getSendTimeout_def sk_getTimeout_def
        setTimeout_def getTimeout_def)
qed

definition demo_fds :: fd_manager where
  "demo_fds = \<lparr>m_datas = replicate 5 None @ [Some 0], fd_heap = (\<lambda>_. snd (FdCtx (\<lambda>_. Some True) 5 0)),
     fd_next = 1, k_flags = (\<lambda>_. 0)\<rparr>"

theorem timeouts_read_back_witness:
  "let s = newSock demo_kernel CreateTCPIPV4 in
   getRecvTimeout s (setRecvTimeout True 2500 s demo_fds) = 2500"
proof -
  have "ctx_of (sk_sock (newSock demo_kernel CreateTCPIPV4)) demo_fds = Some (0, snd (FdCtx (\<lambda>_. Some True) 5 0))"
    by (simp add: ctx_of_def fd_look_def demo_fds_def demo_kernel_def nth_append)
  from timeouts_read_back[OF _ _ this, of 2500] show ?thesis by (simp add: Let_def)
qed

subsection \<open>Names\<close>

text \<open>
  The local address of an IPv6 socket is an \<open>IPv4Address\<close> with the first 16 bytes of what the
  kernel wrote, so it has half of the address; the remote one is complete.
\<close>

lemma local_name_v6:
  assumes "sk_family s = AF_INET6" "sk_localAddress s = None" "k_sockname k = Some name" "length name = 28"
  shows "a_class (fst (getLocalAddress host k s)) = C_IPv4 \<and> a_mem (fst (getLocalAddress host k s)) = take 16 name"
proof -
  have "length (a_mem (IPv4Address host 0 0)) = 16"
    by (simp add: IPv4Address_def store_def length_overwrite)
  with assms show ?thesis
    by (simp add: getLocalAddress_def local_object_def fill_name_def overwrite_def getAddrLen_def class_size_def
        AF_INET_def AF_INET6_def IPv4Address_def Let_def)
qed

lemma remote_name_v6:
  assumes "sk_family s = AF_INET6" "sk_remoteAddress s = None" "k_peername k = Some name" "length name = 28"
  shows "a_class (fst (getRemoteAddress host k s)) = C_IPv6 \<and> a_mem (fst (getRemoteAddress host k s)) = name"
proof -
  have "length (a_mem (IPv6Address host)) = 28"
    by (simp add: IPv6Address_def store_def length_overwrite)
  with assms show ?thesis
    by (simp add: getRemoteAddress_def remote_object_def fill_name_def overwrite_def getAddrLen_def class_size_def
        AF_INET_def AF_INET6_def IPv6Address_def Let_def)
qed

text \<open>\<open>close\<close> keeps the addresses, so an object that is bound again has the old local address.\<close>

lemma stale_local_address:
  "sk_localAddress s = Some a \<Longrightarrow> sk_localAddress (snd (sk_bind host k b (snd (sk_close s)))) = Some a"
  by (auto simp: sk_bind_def sk_close_def getLocalAddress_def call_def Let_def split: option.split)

end
