(* ===== verification/Stream.thy ===== *)
theory Stream
  imports SocketProps ByteProps
begin

text \<open>
  \<^verbatim>\<open>include/stream.h\<close>, \<^verbatim>\<open>src/stream.cc\<close>: the loops that read and write a fixed length, over the
  virtual \<open>read\<close> and \<open>write\<close>; \<^verbatim>\<open>src/socket_stream.cc\<close>: these over a socket. A \<open>read\<close> gives its
  result, what it stored in the buffer and the next state of the peer.
\<close>

subsection \<open>Stream\<close>

text \<open>
  The loop of \<open>readFixSize(void *)\<close>: it goes on when \<open>read\<close> answers 0, so it may not end
  (\<open>None\<close>). The inner \<open>None\<close> says that the loop was left through its condition.
\<close>

partial_function (option) readFix_loop ::
  "(nat \<Rightarrow> 'st \<Rightarrow> int \<times> byte list \<times> 'st) \<Rightarrow> int \<Rightarrow> byte list \<Rightarrow> 'st \<Rightarrow> (int option \<times> byte list \<times> 'st) option"
where
  "readFix_loop rd left buffer st =
     (if left \<le> 0 then Some (None, buffer, st)
      else case rd (nat left) st of (len, bs, st) \<Rightarrow>
        if len < 0 then Some (Some len, buffer @ bs, st)
        else readFix_loop rd (left - len) (buffer @ bs) st)"

text \<open>\<open>return length\<close> converts to \<open>int\<close>, and \<open>left\<close> is an \<open>int64_t\<close>.\<close>

definition fix_result :: "nat \<Rightarrow> int option \<Rightarrow> int" where
  "fix_result n r = (case r of Some len \<Rightarrow> len | None \<Rightarrow> to_int32 (int n))"

definition readFixSize ::
  "(nat \<Rightarrow> 'st \<Rightarrow> int \<times> byte list \<times> 'st) \<Rightarrow> nat \<Rightarrow> 'st \<Rightarrow> (int \<times> byte list \<times> 'st) option"
where
  "readFixSize rd n st = map_option (\<lambda>(r, buffer, st). (fix_result n r, buffer, st))
     (readFix_loop rd (to_int64 (int n)) [] st)"

text \<open>The other three loops stop when the result is 0 or negative.\<close>

function fix_loop_ba ::
  "(nat \<Rightarrow> byte_array \<Rightarrow> 'st \<Rightarrow> fault + int \<times> byte_array \<times> 'st) \<Rightarrow> int \<Rightarrow> byte_array \<Rightarrow> 'st
   \<Rightarrow> fault + int option \<times> byte_array \<times> 'st"
where
  "fix_loop_ba io left ba st =
     (if left \<le> 0 then Inr (None, ba, st)
      else bindE (io (nat left) ba st) (\<lambda>(len, ba, st).
        if len \<le> 0 then Inr (Some len, ba, st)
        else fix_loop_ba io (left - len) ba st))"
  by pat_completeness auto
termination
  by (relation "measure (\<lambda>(_, left, _). nat left)") auto

declare fix_loop_ba.simps [simp del]

definition readFixSize_ba ::
  "(nat \<Rightarrow> byte_array \<Rightarrow> 'st \<Rightarrow> fault + int \<times> byte_array \<times> 'st) \<Rightarrow> nat \<Rightarrow> byte_array \<Rightarrow> 'st
   \<Rightarrow> fault + int \<times> byte_array \<times> 'st"
where
  "readFixSize_ba rd n ba st = bindE (fix_loop_ba rd (to_int64 (int n)) ba st)
     (\<lambda>(r, ba, st). Inr (fix_result n r, ba, st))"

definition writeFixSize_ba ::
  "(nat \<Rightarrow> byte_array \<Rightarrow> 'st \<Rightarrow> fault + int \<times> byte_array \<times> 'st) \<Rightarrow> nat \<Rightarrow> byte_array \<Rightarrow> 'st
   \<Rightarrow> fault + int \<times> byte_array \<times> 'st"
where
  "writeFixSize_ba wr n ba st = bindE (fix_loop_ba wr (to_int64 (int n)) ba st)
     (\<lambda>(r, ba, st). Inr (fix_result n r, ba, st))"

text \<open>\<open>buffer + offset\<close> as \<open>drop offset buffer\<close>, of which \<open>left\<close> bytes are written.\<close>

function writeFix_loop ::
  "(byte list \<Rightarrow> 'st \<Rightarrow> int \<times> 'st) \<Rightarrow> byte list \<Rightarrow> nat \<Rightarrow> int \<Rightarrow> 'st \<Rightarrow> int option \<times> 'st"
where
  "writeFix_loop wr buffer offset left st =
     (if left \<le> 0 then (None, st)
      else let (len, st) = wr (take (nat left) (drop offset buffer)) st in
        if len \<le> 0 then (Some len, st)
        else writeFix_loop wr buffer (offset + nat len) (left - len) st)"
  by pat_completeness auto
termination
  by (relation "measure (\<lambda>(_, _, _, left, _). nat left)") auto

declare writeFix_loop.simps [simp del]

definition writeFixSize :: "(byte list \<Rightarrow> 'st \<Rightarrow> int \<times> 'st) \<Rightarrow> byte list \<Rightarrow> nat \<Rightarrow> 'st \<Rightarrow> int \<times> 'st" where
  "writeFixSize wr buffer n st =
     (let (r, st) = writeFix_loop wr buffer 0 (to_int64 (int n)) st in (fix_result n r, st))"

subsection \<open>SocketStream\<close>

record sock_stream =
  st_socket :: "sock option"
  st_owner :: bool

definition SocketStream :: "sock option \<Rightarrow> bool \<Rightarrow> sock_stream" where
  "SocketStream sock owner = \<lparr>st_socket = sock, st_owner = owner\<rparr>"

definition ss_close :: "sock_stream \<Rightarrow> sock_stream" where
  "ss_close ss = ss\<lparr>st_socket := map_option (\<lambda>s. snd (sk_close s)) (st_socket ss)\<rparr>"

text \<open>The destructor.\<close>

definition SocketStream_delete :: "sock_stream \<Rightarrow> sock_stream" where
  "SocketStream_delete ss = (if st_owner ss \<and> st_socket ss \<noteq> None
     then ss\<lparr>st_socket := map_option (\<lambda>s. snd (sk_close s)) (st_socket ss)\<rparr> else ss)"

definition ss_isConnected :: "sock_stream \<Rightarrow> bool" where
  "ss_isConnected ss = (case st_socket ss of None \<Rightarrow> False | Some s \<Rightarrow> sk_connected s)"

text \<open>
  The system calls are arguments: on a descriptor, with the number of bytes there is room for
  (all entries together for \<open>recvmsg\<close>) or the bytes to send. What a call stores comes back as
  the first component of its state. Taking the address of the first entry of an empty vector
  is undefined.
\<close>

definition ss_read ::
  "(int \<Rightarrow> nat \<Rightarrow> byte list \<times> 'k \<Rightarrow> int \<times> byte list \<times> 'k) \<Rightarrow> sock_stream \<Rightarrow> nat \<Rightarrow> 'k \<Rightarrow> int \<times> byte list \<times> 'k"
where
  "ss_read recv ss n k =
     (if \<not> ss_isConnected ss then (- 1, [], k)
      else sk_recv recv n (the (st_socket ss)) ([], k))"

definition ss_read_ba ::
  "(int \<Rightarrow> nat \<Rightarrow> byte list \<times> 'k \<Rightarrow> int \<times> byte list \<times> 'k) \<Rightarrow> sock_stream \<Rightarrow> nat \<Rightarrow> byte_array \<Rightarrow> 'k
   \<Rightarrow> fault + int \<times> byte_array \<times> 'k"
where
  "ss_read_ba recvmsg ss n ba k =
     (if \<not> ss_isConnected ss then Inr (- 1, ba, k)
      else bindE (getWriteBuffers [] n ba) (\<lambda>((_, iovs), ba).
        if iovs = [] then Inl Bad_index
        else let (rt, bs, k) = sk_recv_iov recvmsg (iov_total iovs) (the (st_socket ss)) ([], k);
                 ba = ba\<lparr>m_root := scatter (m_root ba) iovs bs\<rparr>
             in if 0 < rt then bindE (ba_setPosition (m_position ba + nat rt) ba) (\<lambda>ba. Inr (rt, ba, k))
                else Inr (rt, ba, k)))"

definition ss_write :: "(int \<Rightarrow> byte list \<Rightarrow> 'k \<Rightarrow> int \<times> 'k) \<Rightarrow> sock_stream \<Rightarrow> byte list \<Rightarrow> 'k \<Rightarrow> int \<times> 'k" where
  "ss_write send ss buffer k =
     (if \<not> ss_isConnected ss then (- 1, k) else sk_send send buffer (the (st_socket ss)) k)"

definition ss_write_ba ::
  "(int \<Rightarrow> byte list \<Rightarrow> 'k \<Rightarrow> int \<times> 'k) \<Rightarrow> sock_stream \<Rightarrow> nat \<Rightarrow> byte_array \<Rightarrow> 'k \<Rightarrow> fault + int \<times> byte_array \<times> 'k"
where
  "ss_write_ba sendmsg ss n ba k =
     (if \<not> ss_isConnected ss then Inr (- 1, ba, k)
      else bindE (getReadBuffers [] n ba) (\<lambda>(_, iovs).
        if iovs = [] then Inl Bad_index
        else let (rt, k) = sk_send_iov sendmsg (gather (m_root ba) iovs) (the (st_socket ss)) k in
          if 0 < rt then bindE (ba_setPosition (m_position ba + nat rt) ba) (\<lambda>ba. Inr (rt, ba, k))
          else Inr (rt, ba, k)))"

definition ss_getRemoteAddress :: "endian \<Rightarrow> kernel \<Rightarrow> sock_stream \<Rightarrow> address option \<times> sock_stream" where
  "ss_getRemoteAddress host k ss = (case st_socket ss of None \<Rightarrow> (None, ss)
     | Some s \<Rightarrow> let (a, s) = getRemoteAddress host k s in (Some a, ss\<lparr>st_socket := Some s\<rparr>))"

definition ss_getLocalAddress :: "endian \<Rightarrow> kernel \<Rightarrow> sock_stream \<Rightarrow> address option \<times> sock_stream" where
  "ss_getLocalAddress host k ss = (case st_socket ss of None \<Rightarrow> (None, ss)
     | Some s \<Rightarrow> let (a, s) = getLocalAddress host k s in (Some a, ss\<lparr>st_socket := Some s\<rparr>))"

definition getRemoteAddressString :: "endian \<Rightarrow> kernel \<Rightarrow> sock_stream \<Rightarrow> string \<times> sock_stream" where
  "getRemoteAddressString host k ss = (case ss_getRemoteAddress host k ss of
     (Some a, ss) \<Rightarrow> (address_toString host a, ss) | (None, ss) \<Rightarrow> ([], ss))"

definition getLocalAddressString :: "endian \<Rightarrow> kernel \<Rightarrow> sock_stream \<Rightarrow> string \<times> sock_stream" where
  "getLocalAddressString host k ss = (case ss_getLocalAddress host k ss of
     (Some a, ss) \<Rightarrow> (address_toString host a, ss) | (None, ss) \<Rightarrow> ([], ss))"

subsection \<open>A source of bytes\<close>

text \<open>
  What a stream socket promises of its receiving side: a call delivers a part of what the
  peer sent, in order, at least one byte if any is there, and never more than asked for.
\<close>

locale byte_source =
  fixes rd :: "nat \<Rightarrow> 'st \<Rightarrow> int \<times> byte list \<times> 'st" and avail :: "'st \<Rightarrow> byte list"
  assumes rd_part: "0 < n \<Longrightarrow> rd n st = (r, bs, st') \<Longrightarrow> 0 \<le> r
      \<Longrightarrow> r = int (length bs) \<and> length bs \<le> n \<and> avail st = bs @ avail st'"
    and rd_some: "0 < n \<Longrightarrow> rd n st = (0, bs, st') \<Longrightarrow> avail st = []"
    and rd_err: "0 < n \<Longrightarrow> rd n st = (r, bs, st') \<Longrightarrow> r < 0 \<Longrightarrow> bs = [] \<and> avail st' = avail st"
begin

text \<open>What the loop has read when it ends.\<close>

definition after :: "int \<Rightarrow> byte list \<Rightarrow> 'st \<Rightarrow> int option \<times> byte list \<times> 'st \<Rightarrow> bool" where
  "after left buffer st = (\<lambda>(r, buffer', st'). \<exists>bs. buffer' = buffer @ bs \<and> avail st = bs @ avail st'
     \<and> (case r of None \<Rightarrow> length bs = nat left
        | Some len \<Rightarrow> len < 0 \<and> length bs < nat left \<and> (\<exists>n st. 0 < n \<and> fst (rd n st) = len)))"

lemma after_step:
  assumes "0 < left" "rd (nat left) st = (len, bs, st1)" "0 \<le> len" "after (left - len) (buffer @ bs) st1 y"
  shows "after left buffer st y"
proof -
  have len: "len = int (length bs)" "length bs \<le> nat left" "avail st = bs @ avail st1"
    using rd_part[OF _ assms(2,3)] assms(1) by simp_all
  obtain r buffer' st' cs where y: "y = (r, buffer', st')" "buffer' = (buffer @ bs) @ cs" "avail st1 = cs @ avail st'"
    "case r of None \<Rightarrow> length cs = nat (left - len)
     | Some l \<Rightarrow> l < 0 \<and> length cs < nat (left - len) \<and> (\<exists>n st. 0 < n \<and> fst (rd n st) = l)"
    using assms(4) by (auto simp: after_def)
  then show ?thesis
    using len assms(1) by (auto simp: after_def nat_diff_distrib split: option.splits intro!: exI[of _ "bs @ cs"])
qed

lemma loop_sound:
  assumes "readFix_loop rd left buffer st = Some y"
  shows "after left buffer st y"
proof -
  have "rd' = rd \<longrightarrow> after left buffer st y" if "readFix_loop rd' left buffer st = Some y" for rd'
  proof (induction rd' left buffer st y rule: readFix_loop.raw_induct)
    case (1 f rd' left buffer st y)
    show ?case
    proof (rule impI)
      assume eq: "rd' = rd"
      obtain len bs st1 where rd: "rd (nat left) st = (len, bs, st1)" by (cases "rd (nat left) st") auto
      consider "left \<le> 0" | "0 < left" "len < 0" | "0 < left" "0 \<le> len" by linarith
      then show "after left buffer st y"
      proof cases
        case 1
        then show ?thesis using "1.hyps" by (auto simp: after_def)
      next
        case 2
        then have "y = (Some len, buffer @ bs, st1)" "bs = []" "avail st1 = avail st"
          using "1.hyps" rd_err[OF _ rd] by (simp_all add: eq rd)
        then show ?thesis using 2 rd by (auto simp: after_def intro!: exI[of _ "nat left"] exI[of _ st])
      next
        case 3
        then have "f rd' (left - len) (buffer @ bs) st1 = Some y"
          using "1.hyps" by (simp add: eq rd)
        from "1.IH"[OF this] show ?thesis using after_step[OF 3(1) rd 3(2)] eq by blast
      qed
    qed
  qed (rule that)
  then show ?thesis using assms by blast
qed

end

text \<open>A source whose calls do not fail. When nothing is left it is at end of file.\<close>

locale reliable_source = byte_source +
  assumes no_error: "0 < n \<Longrightarrow> 0 \<le> fst (rd n st)"
begin

lemma loop_complete:
  assumes "nat left \<le> length (avail st)"
  shows "\<exists>st'. readFix_loop rd left buffer st = Some (None, buffer @ take (nat left) (avail st), st')
     \<and> avail st' = drop (nat left) (avail st)"
  using assms
proof (induction "nat left" arbitrary: left buffer st rule: less_induct)
  case less
  show ?case
  proof (cases "left \<le> 0")
    case True
    then show ?thesis by (subst readFix_loop.simps) simp
  next
    case False
    obtain len bs st1 where rd: "rd (nat left) st = (len, bs, st1)" by (cases "rd (nat left) st") auto
    have n: "0 < nat left" and ge: "0 \<le> len" using False no_error[of "nat left" st] rd by simp_all
    have len: "len = int (length bs)" "length bs \<le> nat left" "avail st = bs @ avail st1"
      using rd_part[OF n rd ge] by simp_all
    have "len \<noteq> 0"
    proof
      assume "len = 0"
      with rd_some[OF n, of st bs st1] rd have "avail st = []" by simp
      with less.prems n show False by simp
    qed
    with ge have "0 < len" by simp
    with n have "nat (left - len) < nat left" by simp
    moreover have le: "nat (left - len) = nat left - length bs" using len(1) by (simp add: nat_diff_distrib)
    moreover have "nat (left - len) \<le> length (avail st1)" using less.prems len(2,3) le by simp
    ultimately obtain st' where
      "readFix_loop rd (left - len) (buffer @ bs) st1 = Some (None, (buffer @ bs) @ take (nat (left - len)) (avail st1), st')"
      "avail st' = drop (nat (left - len)) (avail st1)"
      using less.hyps[of "left - len" st1 "buffer @ bs"] by blast
    with False ge rd len le show ?thesis by (subst readFix_loop.simps) simp
  qed
qed

text \<open>The answer is the length as an \<open>int\<close>, which need not be the length.\<close>

lemma readFixSize_all:
  assumes "n < 2 ^ 63"
  shows "if n \<le> length (avail st)
     then \<exists>st'. readFixSize rd n st = Some (to_int32 (int n), take n (avail st), st') \<and> avail st' = drop n (avail st)
     else readFixSize rd n st = None"
proof (cases "n \<le> length (avail st)")
  case True
  obtain st' where "readFix_loop rd (int n) [] st = Some (None, [] @ take (nat (int n)) (avail st), st')"
    "avail st' = drop (nat (int n)) (avail st)"
    using loop_complete[of "int n" st "[]"] True by auto
  with True assms show ?thesis
    by (auto simp: readFixSize_def fix_result_def to_int64_id)
next
  case False
  have "readFix_loop rd (int n) [] st = None"
  proof (rule ccontr)
    assume "readFix_loop rd (int n) [] st \<noteq> None"
    then obtain y where "readFix_loop rd (int n) [] st = Some y" by blast
    from loop_sound[OF this] obtain r bs st' where y: "y = (r, bs, st')" "avail st = bs @ avail st'"
      "case r of None \<Rightarrow> length bs = n | Some len \<Rightarrow> len < 0 \<and> (\<exists>n st. 0 < n \<and> fst (rd n st) = len)"
      by (cases y) (auto simp: after_def split: option.splits)
    show False
    proof (cases r)
      case None
      with y False show False by simp
    next
      case (Some len)
      with y(3) obtain m t where "0 < m" "fst (rd m t) = len" "len < 0" by auto
      with no_error[of m t] show False by simp
    qed
  qed
  with False assms show ?thesis by (simp add: readFixSize_def to_int64_id)
qed

lemma readFixSize_exact:
  assumes "n < 2 ^ 31"
  shows "if n \<le> length (avail st)
     then \<exists>st'. readFixSize rd n st = Some (int n, take n (avail st), st') \<and> avail st' = drop n (avail st)
     else readFixSize rd n st = None"
proof -
  have "n < 2 ^ 63" using assms by simp
  moreover have "to_int32 (int n) = int n" using assms by (intro to_int32_id) simp_all
  ultimately show ?thesis using readFixSize_all[of n st] by presburger
qed

end

end
