(* ===== verification/StreamProps.thy ===== *)
theory StreamProps
  imports Stream
begin

text \<open>
  What the fixed-length loops do over a connected socket, and the transport of a byte array
  from one end of a connection to the other. The system calls are the parameters of the
  locales; \<open>incoming\<close> is what the peer has sent and this end has not received.
\<close>

subsection \<open>Reading from a connected socket\<close>

locale open_socket =
  fixes recv :: "int \<Rightarrow> nat \<Rightarrow> byte list \<times> 'k \<Rightarrow> int \<times> byte list \<times> 'k"
    and ss :: sock_stream and incoming :: "'k \<Rightarrow> byte list"
  assumes connected: "ss_isConnected ss"
    and kernel: "reliable_source (\<lambda>n k. recv (sk_sock (the (st_socket ss))) n ([], k)) incoming"

lemma recv_open:
  assumes "ss_isConnected ss"
  shows "sk_recv recv n (the (st_socket ss)) st = recv (sk_sock (the (st_socket ss))) n st"
    "sk_recv_iov recv n (the (st_socket ss)) st = recv (sk_sock (the (st_socket ss))) n st"
    "sk_send send bs (the (st_socket ss)) k = send (sk_sock (the (st_socket ss))) bs k"
    "sk_send_iov send bs (the (st_socket ss)) k = send (sk_sock (the (st_socket ss))) bs k"
  using assms
  by (auto simp: ss_isConnected_def sk_recv_def sk_recv_iov_def sk_send_def sk_send_iov_def sk_io_def split: option.splits)

lemma ss_read_open: "ss_isConnected ss \<Longrightarrow> ss_read recv ss = (\<lambda>n k. recv (sk_sock (the (st_socket ss))) n ([], k))"
  by (simp add: ss_read_def fun_eq_iff recv_open)

sublocale open_socket \<subseteq> ss: reliable_source "ss_read recv ss" incoming
  using kernel by (simp add: ss_read_open[OF connected])

lemma iov_fill_Nil: "iov_fill nodes v [] = nodes"
  by (simp add: iov_fill_def)

lemma scatter_Nil: "scatter nodes vs [] = nodes"
  by (induction vs) (simp_all add: iov_fill_Nil)

lemma fb_write_Nil: "fb_write [] b = b"
  by (simp add: fb_write_def)

lemma fb_write_append:
  "snd b \<le> length (fst b) \<Longrightarrow> fb_write cs (fb_write bs b) = fb_write (bs @ cs) b"
  by (simp add: fb_write_def overwrite_overwrite)

lemma ba_abs_pos: "ba_inv s \<Longrightarrow> snd (ba_abs s) \<le> length (fst (ba_abs s))"
  using ba_invD(5) by (simp add: ba_abs_def ba_inv_length_content)

context open_socket begin

lemma source: "reliable_source (ss_read recv ss) incoming"
  by (rule ss.reliable_source_axioms)

lemma read_ba:
  assumes "ba_inv s" "ba_room s n" "0 < n"
  shows "\<exists>bs t k'. ss_read_ba recv ss n s k = Inr (int (length bs), t, k')
     \<and> length bs \<le> n \<and> incoming k = bs @ incoming k' \<and> (bs = [] \<longrightarrow> incoming k = [])
     \<and> ba_inv t \<and> ba_abs t = fb_write bs (ba_abs s) \<and> m_baseSize t = m_baseSize s \<and> m_endian t = m_endian s"
proof -
  let ?fd = "sk_sock (the (st_socket ss))"
  obtain rt bs k' where rd: "ss_read recv ss n k = (rt, bs, k')" by (cases "ss_read recv ss n k") auto
  have ge: "0 \<le> rt" using ss.no_error[OF assms(3), of k] rd by simp
  have rt: "rt = int (length bs)" "length bs \<le> n" "incoming k = bs @ incoming k'"
    using ss.rd_part[OF assms(3) rd ge] by simp_all
  have eof: "incoming k = []" if "bs = []"
    using ss.rd_some[OF assms(3), of k bs k'] rd rt(1) that by simp
  obtain vs t u where w: "getWriteBuffers [] n s = Inr ((n, vs), t)"
    "ba_setPosition (m_position t + length bs) (t\<lparr>m_root := scatter (m_root t) vs bs\<rparr>) = Inr u"
    "ba_inv u" "ba_abs u = fb_write bs (ba_abs s)" "m_baseSize u = m_baseSize s" "m_endian u = m_endian s"
    "ba_inv t" "ba_abs t = ba_abs s" "iov_total vs = n" "m_baseSize t = m_baseSize s" "m_endian t = m_endian s"
    using getWriteBuffers_scatter[OF assms(1,2) rt(2)] by blast
  have vs: "vs \<noteq> []" using w(9) assms(3) by auto
  have call: "recv ?fd n ([], k) = (rt, bs, k')" using rd by (simp add: ss_read_open[OF connected])
  show ?thesis
  proof (cases "bs = []")
    case True
    then have "ss_read_ba recv ss n s k = Inr (0, t, k')"
      using connected w(1,9) vs call rt(1) by (simp add: ss_read_ba_def recv_open scatter_Nil)
    with True rt w(7,8,10,11) eof show ?thesis
      by (intro exI[of _ "[]"] exI[of _ t] exI[of _ k']) (simp add: fb_write_Nil)
  next
    case False
    then have "ss_read_ba recv ss n s k = Inr (rt, u, k')"
      using connected w(1,2,9) vs call rt(1) by (simp add: ss_read_ba_def recv_open)
    with False rt w(3-6) show ?thesis
      by (intro exI[of _ bs] exI[of _ u] exI[of _ k']) simp
  qed
qed

lemma fix_loop:
  assumes "ba_inv s" "ba_room s (nat left)"
  shows "\<exists>t k'. fix_loop_ba (ss_read_ba recv ss) left s k
       = Inr (if nat left \<le> length (incoming k) then None else Some 0, t, k')
     \<and> ba_inv t \<and> ba_abs t = fb_write (take (nat left) (incoming k)) (ba_abs s)
     \<and> incoming k' = drop (nat left) (incoming k) \<and> m_baseSize t = m_baseSize s \<and> m_endian t = m_endian s"
  using assms
proof (induction "nat left" arbitrary: left s k rule: less_induct)
  case less
  show ?case
  proof (cases "left \<le> 0")
    case True
    then show ?thesis using less.prems by (subst fix_loop_ba.simps) (simp add: fb_write_Nil)
  next
    case False
    then have n: "0 < nat left" by simp
    obtain bs t k1 where rd: "ss_read_ba recv ss (nat left) s k = Inr (int (length bs), t, k1)"
      "length bs \<le> nat left" "incoming k = bs @ incoming k1" "bs = [] \<longrightarrow> incoming k = []"
      "ba_inv t" "ba_abs t = fb_write bs (ba_abs s)" "m_baseSize t = m_baseSize s" "m_endian t = m_endian s"
      using read_ba[OF less.prems n] by blast
    show ?thesis
    proof (cases "bs = []")
      case True
      with rd False n show ?thesis by (subst fix_loop_ba.simps) (simp add: fb_write_Nil)
    next
      case bs: False
      let ?l = "left - int (length bs)"
      have l: "nat ?l = nat left - length bs" using rd(2) False by (simp add: nat_diff_distrib)
      then have lt: "nat ?l < nat left" using bs n by simp
      have "m_position t = m_position s + length bs" using rd(6) by (simp add: ba_abs_def fb_write_def)
      then have room: "ba_room t (nat ?l)" using less.prems(2) rd(2,7) l by (simp add: ba_room_def)
      obtain u k' where u: "fix_loop_ba (ss_read_ba recv ss) ?l t k1
          = Inr (if nat ?l \<le> length (incoming k1) then None else Some 0, u, k')"
        "ba_inv u" "ba_abs u = fb_write (take (nat ?l) (incoming k1)) (ba_abs t)"
        "incoming k' = drop (nat ?l) (incoming k1)" "m_baseSize u = m_baseSize t" "m_endian u = m_endian t"
        using less.hyps[OF lt rd(5) room, of k1] by blast
      have "fb_write (take (nat ?l) (incoming k1)) (ba_abs t) = fb_write (take (nat left) (incoming k)) (ba_abs s)"
        using rd(2,3,6) l fb_write_append[OF ba_abs_pos[OF less.prems(1)]] by simp
      moreover have "(nat ?l \<le> length (incoming k1)) = (nat left \<le> length (incoming k))"
        using rd(2,3) l by auto
      ultimately show ?thesis using u rd(1,2,3,7,8) bs False l by (subst fix_loop_ba.simps) simp
    qed
  qed
qed

end

text \<open>C27: over a connected socket whose calls do not fail, the two overloads of
  \<open>readFixSize\<close> agree as long as the peer sends enough: both return the length and deliver
  exactly the next \<open>n\<close> bytes, however the kernel splits them. If the connection ends earlier the
  overload for memory never returns, and the one for a \<open>ByteArray\<close> returns 0 and has stored
  what there was.\<close>

theorem readFixSize_overloads:
  assumes "open_socket recv ss incoming" "ba_inv s" "ba_room s n" "n < 2 ^ 31"
  shows "(if n \<le> length (incoming k)
       then \<exists>k'. readFixSize (ss_read recv ss) n k = Some (int n, take n (incoming k), k')
         \<and> incoming k' = drop n (incoming k)
       else readFixSize (ss_read recv ss) n k = None)
     \<and> (\<exists>t k'. readFixSize_ba (ss_read_ba recv ss) n s k
           = Inr (if n \<le> length (incoming k) then int n else 0, t, k')
         \<and> ba_inv t \<and> ba_abs t = fb_write (take n (incoming k)) (ba_abs s) \<and> incoming k' = drop n (incoming k))"
proof
  show "if n \<le> length (incoming k)
       then \<exists>k'. readFixSize (ss_read recv ss) n k = Some (int n, take n (incoming k), k')
         \<and> incoming k' = drop n (incoming k)
       else readFixSize (ss_read recv ss) n k = None"
    by (rule reliable_source.readFixSize_exact[OF open_socket.source[OF assms(1)] assms(4)])
  obtain t k' where "fix_loop_ba (ss_read_ba recv ss) (int n) s k
       = Inr (if n \<le> length (incoming k) then None else Some 0, t, k')"
     "ba_inv t" "ba_abs t = fb_write (take n (incoming k)) (ba_abs s)" "incoming k' = drop n (incoming k)"
    using open_socket.fix_loop[OF assms(1), of s "int n" k] assms(2,3) by auto
  with assms(4) show "\<exists>t k'. readFixSize_ba (ss_read_ba recv ss) n s k
           = Inr (if n \<le> length (incoming k) then int n else 0, t, k')
         \<and> ba_inv t \<and> ba_abs t = fb_write (take n (incoming k)) (ba_abs s) \<and> incoming k' = drop n (incoming k)"
    by (auto simp: readFixSize_ba_def fix_result_def to_int32_id to_int64_id)
qed

subsection \<open>A connected pair\<close>

text \<open>
  A kernel that transports the bytes in a queue and takes or delivers a limited number per
  call: the limits are the second component.
\<close>

fun quota :: "nat list \<Rightarrow> nat \<Rightarrow> nat" where
  "quota [] n = n"
| "quota (q # _) n = min (Suc q) n"

definition pipe_recv :: "int \<Rightarrow> nat \<Rightarrow> byte list \<times> byte list \<times> nat list \<Rightarrow> int \<times> byte list \<times> byte list \<times> nat list" where
  "pipe_recv fd n st = (case st of (_, queue, qs) \<Rightarrow> let m = quota qs (min n (length queue)) in
     (int m, take m queue, drop m queue, tl qs))"

definition pipe_send :: "int \<Rightarrow> byte list \<Rightarrow> byte list \<times> nat list \<Rightarrow> int \<times> byte list \<times> nat list" where
  "pipe_send fd bs st = (case st of (queue, qs) \<Rightarrow> let m = quota qs (length bs) in (int m, queue @ take m bs, tl qs))"

lemma quota_bounds: "quota qs n \<le> n" "quota qs n = 0 \<longleftrightarrow> n = 0"
  by (cases qs; cases n; simp)+

lemma take_quota: "length (take (quota qs (min n (length xs))) xs) = quota qs (min n (length xs))"
  using quota_bounds(1)[of qs "min n (length xs)"] by simp

definition demo_sock :: sock where
  "demo_sock = CreateTCPIPV4\<lparr>sk_sock := 5, sk_isConnected := True\<rparr>"

lemma demo_connected: "ss_isConnected (SocketStream (Some demo_sock) True)"
  by (simp add: ss_isConnected_def SocketStream_def demo_sock_def sk_connected_def)

lemma pipe_recv_spec:
  assumes "0 < n" "pipe_recv fd n ([], st) = (r, bs, st')"
  shows "r = int (length bs) \<and> length bs \<le> n \<and> fst st = bs @ fst st' \<and> (r = 0 \<longrightarrow> fst st = [])"
proof -
  let ?m = "quota (snd st) (min n (length (fst st)))"
  have m: "r = int ?m" "bs = take ?m (fst st)" "fst st' = drop ?m (fst st)"
    using assms(2) by (auto simp: pipe_recv_def Let_def split: prod.splits)
  have a: "length bs = ?m" unfolding m(2) by (rule take_quota)
  have b: "fst st = bs @ fst st'" unfolding m(2,3) by simp
  have c: "?m \<le> n" using quota_bounds(1)[of "snd st" "min n (length (fst st))"] by simp
  have d: "fst st = []" if "r = 0"
  proof -
    from m(1) that have "?m = 0" by simp
    then have "min n (length (fst st)) = 0" by (rule quota_bounds(2)[THEN iffD1])
    with assms(1) show ?thesis by (simp add: min_def split: if_splits)
  qed
  show ?thesis by (intro conjI impI) (simp only: m(1) a, simp only: a c, rule b, rule d)
qed

lemma pipe_recv_source: "reliable_source (\<lambda>n k. pipe_recv fd n ([], k)) fst"
proof
  fix n :: nat and r bs and st st' :: "byte list \<times> nat list"
  assume n: "0 < n"
  { assume "pipe_recv fd n ([], st) = (r, bs, st')"
    from pipe_recv_spec[OF n this] show "r = int (length bs) \<and> length bs \<le> n \<and> fst st = bs @ fst st'" by (elim conjE) (intro conjI) }
  { assume "pipe_recv fd n ([], st) = (0, bs, st')"
    from pipe_recv_spec[OF n this] show "fst st = []" by (elim conjE mp) simp }
  { assume "pipe_recv fd n ([], st) = (r, bs, st')" "r < 0"
    from pipe_recv_spec[OF n this(1)] this(2) show "bs = [] \<and> fst st' = fst st" by linarith }
  show "0 \<le> fst (pipe_recv fd n ([], st))" by (simp add: pipe_recv_def Let_def split: prod.split)
qed

interpretation pipe: open_socket pipe_recv "SocketStream (Some demo_sock) True" fst
  by (rule open_socket.intro[OF demo_connected pipe_recv_source])

theorem readFixSize_overloads_witness:
  "readFixSize (ss_read pipe_recv (SocketStream (Some demo_sock) True)) 4 ([1, 2, 3], [0, 1]) = None
   \<and> (\<exists>t k'. readFixSize_ba (ss_read_ba pipe_recv (SocketStream (Some demo_sock) True)) 4
        (ByteArray (\<lambda>_. 0) 2) ([1, 2, 3], [0, 1]) = Inr (0, t, k') \<and> ba_abs t = ([1, 2, 3], 3))"
proof -
  have "ba_inv (ByteArray (\<lambda>_. 0) 2)" "ba_room (ByteArray (\<lambda>_. 0) 2) 4"
    using ba_inv_new[of 2 "\<lambda>_. 0"] by (simp_all add: ba_room_def ByteArray_def)
  note r = readFixSize_overloads[OF pipe.open_socket_axioms this, of "([1, 2, 3], [0, 1])"]
  have "fb_write [1, 2, 3] (ba_abs (ByteArray (\<lambda>_. 0) 2)) = ([1, 2, 3], 3)"
    by (simp add: ByteArray_def ba_abs_def ba_content_def fb_write_def overwrite_def)
  with r show ?thesis by auto
qed

subsection \<open>Writing\<close>

text \<open>The sending side takes a part of what it is given, from the front.\<close>

locale byte_sink =
  fixes wr :: "byte list \<Rightarrow> 'st \<Rightarrow> int \<times> 'st" and sent :: "'st \<Rightarrow> byte list"
  assumes wr_part: "bs \<noteq> [] \<Longrightarrow> wr bs st = (r, st')
      \<Longrightarrow> r \<le> int (length bs) \<and> sent st' = sent st @ take (nat r) bs"
begin

lemma write_loop:
  assumes "offset + nat left \<le> length buffer" "writeFix_loop wr buffer offset left st = (r, st')"
  shows "\<exists>m \<le> nat left. sent st' = sent st @ take m (drop offset buffer)
     \<and> (case r of None \<Rightarrow> m = nat left | Some len \<Rightarrow> len \<le> 0 \<and> m < nat left)"
  using assms
proof (induction "nat left" arbitrary: offset left st rule: less_induct)
  case less
  show ?case
  proof (cases "left \<le> 0")
    case True
    with less.prems(2) show ?thesis by (auto simp: writeFix_loop.simps[of wr buffer offset left])
  next
    case False
    let ?bs = "take (nat left) (drop offset buffer)"
    obtain len st1 where wr: "wr ?bs st = (len, st1)" by (cases "wr ?bs st") auto
    have bs: "length ?bs = nat left" "?bs \<noteq> []" using False less.prems(1) by auto
    have le: "len \<le> left" using wr_part[OF bs(2) wr] bs(1) False by simp
    then have part: "sent st1 = sent st @ take (nat len) (drop offset buffer)"
      using wr_part[OF bs(2) wr] by (simp add: min_absorb1)
    show ?thesis
    proof (cases "len \<le> 0")
      case True
      then have "r = Some len" "st' = st1"
        using less.prems(2) False wr by (simp_all add: writeFix_loop.simps[of wr buffer offset left])
      with True False part show ?thesis by (intro exI[of _ 0]) simp
    next
      case pos: False
      then have go: "writeFix_loop wr buffer (offset + nat len) (left - len) st1 = (r, st')"
        using less.prems(2) False wr by (simp add: writeFix_loop.simps[of wr buffer offset left])
      have n: "nat (left - len) = nat left - nat len" using pos by (simp add: nat_diff_distrib)
      have le: "nat len \<le> nat left" using le by simp
      have "nat (left - len) < nat left" using pos False by simp
      moreover have "offset + nat len + nat (left - len) \<le> length buffer" using less.prems(1) n le by simp
      ultimately obtain m where m: "m \<le> nat (left - len)"
        "sent st' = sent st1 @ take m (drop (offset + nat len) buffer)"
        "case r of None \<Rightarrow> m = nat (left - len) | Some l \<Rightarrow> l \<le> 0 \<and> m < nat (left - len)"
        using less.hyps[OF _ _ go] by blast
      have "take (nat len + m) (drop offset buffer)
          = take (nat len) (drop offset buffer) @ take m (drop (offset + nat len) buffer)"
        using take_add[of "nat len" m "drop offset buffer"] by (simp add: add.commute)
      with m part n le show ?thesis
        by (intro exI[of _ "nat len + m"]) (auto split: option.splits, linarith+)
    qed
  qed
qed

end

locale open_sink =
  fixes send :: "int \<Rightarrow> byte list \<Rightarrow> 'k \<Rightarrow> int \<times> 'k" and ss :: sock_stream and sent :: "'k \<Rightarrow> byte list"
  assumes connected: "ss_isConnected ss"
    and kernel: "byte_sink (send (sk_sock (the (st_socket ss)))) sent"

lemma ss_write_open: "ss_isConnected ss \<Longrightarrow> ss_write send ss = send (sk_sock (the (st_socket ss)))"
  by (simp add: ss_write_def fun_eq_iff recv_open)

sublocale open_sink \<subseteq> ss: byte_sink "ss_write send ss" sent
  using kernel by (simp add: ss_write_open[OF connected])

context open_sink begin

lemma sink: "byte_sink (ss_write send ss) sent"
  by (rule ss.byte_sink_axioms)

lemma write_ba:
  assumes inv: "ba_inv s" and n: "0 < n" "n \<le> getReadSize s"
  shows "\<exists>rt t k'. ss_write_ba send ss n s k = Inr (rt, t, k') \<and> rt \<le> int n
     \<and> sent k' = sent k @ take (nat rt) (drop (m_position s) (ba_content s))
     \<and> ba_inv t \<and> m_position t = m_position s + nat rt \<and> ba_content t = ba_content s"
proof -
  obtain vs where vs: "getReadBuffers [] n s = Inr (min n (getReadSize s), vs)"
    "gather (m_root s) vs = take n (drop (m_position s) (ba_content s))" "iov_total vs = min n (getReadSize s)"
    using getReadBuffers_gather[OF inv, of "[]" n] by auto
  let ?bs = "take n (drop (m_position s) (ba_content s))"
  have size: "getReadSize s = m_size s - m_position s" by (rule ba_inv_getReadSize[OF inv])
  have bs: "length ?bs = n" "?bs \<noteq> []" using n size by (auto simp: ba_inv_length_content[OF inv])
  have "vs \<noteq> []" using vs(3) n by auto
  obtain rt k' where wr: "ss_write send ss ?bs k = (rt, k')" by (cases "ss_write send ss ?bs k") auto
  have rt: "rt \<le> int n" using ss.wr_part[OF bs(2) wr] bs(1) by simp
  then have sent: "sent k' = sent k @ take (nat rt) (drop (m_position s) (ba_content s))"
    using ss.wr_part[OF bs(2) wr] by (simp add: min_absorb1)
  have call: "send (sk_sock (the (st_socket ss))) ?bs k = (rt, k')" using wr by (simp add: ss_write_open[OF connected])
  show ?thesis
  proof (cases "0 < rt")
    case False
    then have "ss_write_ba send ss n s k = Inr (rt, s, k')"
      using connected vs \<open>vs \<noteq> []\<close> call by (simp add: ss_write_ba_def recv_open)
    with False rt sent inv show ?thesis by simp
  next
    case True
    have pos: "m_position s + nat rt \<le> m_size s" using rt n(2) size True by linarith
    then have "m_position s + nat rt \<le> m_capacity s" using ba_invD(6)[OF inv] by simp
    from ba_setPosition_ok[OF inv this] obtain t where t: "ba_setPosition (m_position s + nat rt) s = Inr t"
      "ba_inv t" "m_position t = m_position s + nat rt" "m_size t = max (m_size s) (m_position s + nat rt)"
      "take (m_size s) (ba_content t) = ba_content s" by blast
    have "ba_content t = ba_content s" using t(4,5) pos ba_inv_length_content[OF t(2)] by simp
    moreover have "ss_write_ba send ss n s k = Inr (rt, t, k')"
      using connected vs \<open>vs \<noteq> []\<close> call True t(1) by (simp add: ss_write_ba_def recv_open)
    ultimately show ?thesis using t rt sent by simp
  qed
qed

lemma write_fix_loop:
  assumes "ba_inv s" "nat left \<le> getReadSize s"
  shows "\<exists>r t k' m. fix_loop_ba (ss_write_ba send ss) left s k = Inr (r, t, k') \<and> m \<le> nat left
     \<and> sent k' = sent k @ take m (drop (m_position s) (ba_content s))
     \<and> ba_inv t \<and> m_position t = m_position s + m \<and> ba_content t = ba_content s
     \<and> (case r of None \<Rightarrow> m = nat left | Some len \<Rightarrow> len \<le> 0 \<and> m < nat left)"
  using assms
proof (induction "nat left" arbitrary: left s k rule: less_induct)
  case less
  show ?case
  proof (cases "left \<le> 0")
    case True
    with less.prems(1) show ?thesis by (simp add: fix_loop_ba.simps[of _ left])
  next
    case False
    then have n: "0 < nat left" by simp
    obtain rt t k1 where wr: "ss_write_ba send ss (nat left) s k = Inr (rt, t, k1)" "rt \<le> left"
      "sent k1 = sent k @ take (nat rt) (drop (m_position s) (ba_content s))"
      "ba_inv t" "m_position t = m_position s + nat rt" "ba_content t = ba_content s"
      using write_ba[OF less.prems(1) n less.prems(2), of k] False by auto
    show ?thesis
    proof (cases "rt \<le> 0")
      case True
      with wr False show ?thesis
        by (intro exI[of _ "Some rt"] exI[of _ t] exI[of _ k1] exI[of _ 0]) (simp add: fix_loop_ba.simps[of _ left])
    next
      case pos: False
      have l: "nat (left - rt) = nat left - nat rt" "nat rt \<le> nat left" using pos wr(2) by (simp_all add: nat_diff_distrib)
      have lt: "nat (left - rt) < nat left" using pos False by simp
      have "m_size t = m_size s"
        using wr(6) ba_inv_length_content[OF wr(4)] ba_inv_length_content[OF less.prems(1)] by simp
      then have "nat (left - rt) \<le> getReadSize t"
        using less.prems(2) l wr(5) ba_inv_getReadSize[OF wr(4)] ba_inv_getReadSize[OF less.prems(1)] by linarith
      from less.hyps[OF lt wr(4) this, of k1] obtain r u k' m where u:
        "fix_loop_ba (ss_write_ba send ss) (left - rt) t k1 = Inr (r, u, k')" "m \<le> nat (left - rt)"
        "sent k' = sent k1 @ take m (drop (m_position t) (ba_content t))"
        "ba_inv u" "m_position u = m_position t + m" "ba_content u = ba_content t"
        "case r of None \<Rightarrow> m = nat (left - rt) | Some len \<Rightarrow> len \<le> 0 \<and> m < nat (left - rt)"
        by blast
      have "take (nat rt + m) (drop (m_position s) (ba_content s))
          = take (nat rt) (drop (m_position s) (ba_content s)) @ take m (drop (m_position t) (ba_content t))"
        using wr(5,6) take_add[of "nat rt" m "drop (m_position s) (ba_content s)"] by (simp add: add.commute)
      with u wr False pos l show ?thesis
        by (intro exI[of _ r] exI[of _ u] exI[of _ k'] exI[of _ "nat rt + m"])
           (auto simp: fix_loop_ba.simps[of _ left] split: option.splits, linarith+)
    qed
  qed
qed

end

lemma write_fix_mem:
  assumes "open_sink send ss sent" "n \<le> length buffer" "n < 2 ^ 31"
  shows "\<exists>r k' m. writeFixSize (ss_write send ss) buffer n k = (r, k') \<and> m \<le> n
     \<and> sent k' = sent k @ take m buffer \<and> (if m = n then r = int n else r \<le> 0)"
proof -
  obtain r k' where w: "writeFix_loop (ss_write send ss) buffer 0 (int n) k = (r, k')"
    by (cases "writeFix_loop (ss_write send ss) buffer 0 (int n) k") auto
  obtain m where "m \<le> n" "sent k' = sent k @ take m buffer"
    "case r of None \<Rightarrow> m = n | Some len \<Rightarrow> len \<le> 0 \<and> m < n"
    using byte_sink.write_loop[OF open_sink.sink[OF assms(1)] _ w, unfolded nat_int] assms(2) by auto
  with w assms(3) show ?thesis
    by (intro exI[of _ "fix_result n r"] exI[of _ k'] exI[of _ m])
       (auto simp: writeFixSize_def fix_result_def to_int32_id to_int64_id split: option.splits)
qed

lemma write_fix_ba:
  assumes "open_sink send ss sent" "ba_inv s" "n \<le> getReadSize s" "n < 2 ^ 31"
  shows "\<exists>r t k' m. writeFixSize_ba (ss_write_ba send ss) n s k = Inr (r, t, k') \<and> m \<le> n
     \<and> sent k' = sent k @ take m (drop (m_position s) (ba_content s))
     \<and> ba_inv t \<and> m_position t = m_position s + m \<and> ba_content t = ba_content s
     \<and> (if m = n then r = int n else r \<le> 0)"
proof -
  obtain r t k' m where "fix_loop_ba (ss_write_ba send ss) (int n) s k = Inr (r, t, k')" "m \<le> n"
    "sent k' = sent k @ take m (drop (m_position s) (ba_content s))" "ba_inv t" "m_position t = m_position s + m"
    "ba_content t = ba_content s" "case r of None \<Rightarrow> m = n | Some len \<Rightarrow> len \<le> 0 \<and> m < n"
    using open_sink.write_fix_loop[OF assms(1,2), of "int n" k, unfolded nat_int, OF assms(3)] by blast
  with assms(4) show ?thesis
    by (intro exI[of _ "fix_result n r"] exI[of _ t] exI[of _ k'] exI[of _ m])
       (auto simp: writeFixSize_ba_def fix_result_def to_int32_id to_int64_id split: option.splits)
qed

text \<open>C28: \<open>writeFixSize\<close>, from memory or from a \<open>ByteArray\<close>, sends a prefix of the \<open>n\<close>
  bytes in order, whatever the kernel accepts per call. It answers \<open>n\<close> just when it is all of
  them; a \<open>ByteArray\<close> has then moved its position by what was sent, and no byte of it changed.\<close>

theorem writeFixSize_prefix:
  assumes "open_sink send ss sent" "n \<le> length buffer" "ba_inv s" "n \<le> getReadSize s" "n < 2 ^ 31"
  shows "(\<exists>r k' m. writeFixSize (ss_write send ss) buffer n k = (r, k') \<and> m \<le> n
       \<and> sent k' = sent k @ take m buffer \<and> (if m = n then r = int n else r \<le> 0))
     \<and> (\<exists>r t k' m. writeFixSize_ba (ss_write_ba send ss) n s k = Inr (r, t, k') \<and> m \<le> n
       \<and> sent k' = sent k @ take m (drop (m_position s) (ba_content s))
       \<and> m_position t = m_position s + m \<and> ba_content t = ba_content s \<and> (if m = n then r = int n else r \<le> 0))"
proof
  show "\<exists>r k' m. writeFixSize (ss_write send ss) buffer n k = (r, k') \<and> m \<le> n
       \<and> sent k' = sent k @ take m buffer \<and> (if m = n then r = int n else r \<le> 0)"
    by (rule write_fix_mem[OF assms(1,2,5)])
  show "\<exists>r t k' m. writeFixSize_ba (ss_write_ba send ss) n s k = Inr (r, t, k') \<and> m \<le> n
       \<and> sent k' = sent k @ take m (drop (m_position s) (ba_content s))
       \<and> m_position t = m_position s + m \<and> ba_content t = ba_content s \<and> (if m = n then r = int n else r \<le> 0)"
    using write_fix_ba[OF assms(1,3,4,5), of k] by blast
qed

lemma pipe_send_sink: "byte_sink (pipe_send fd) fst"
proof
  fix bs r and st st' :: "byte list \<times> nat list"
  assume "pipe_send fd bs st = (r, st')"
  then show "r \<le> int (length bs) \<and> fst st' = fst st @ take (nat r) bs"
    by (auto simp: pipe_send_def Let_def quota_bounds split: prod.splits)
qed

interpretation pipe_out: open_sink pipe_send "SocketStream (Some demo_sock) True" fst
  by (rule open_sink.intro[OF demo_connected pipe_send_sink])

text \<open>A byte array with three bytes to read.\<close>

definition demo_ba :: byte_array where
  "demo_ba = \<lparr>m_baseSize = 4, m_position = 0, m_capacity = 4, m_size = 3, m_endian = Big_endian,
    m_root = [\<lparr>n_ptr = [1, 2, 3, 0], n_size = 4\<rparr>], m_cur = Some 0, ba_junk = \<lambda>_. 0\<rparr>"

lemma demo_ba_ok: "ba_inv demo_ba" "getReadSize demo_ba = 3" "ba_content demo_ba = [1, 2, 3]" "m_position demo_ba = 0"
  by (simp_all add: demo_ba_def ba_inv_def uniform_def cursor_def getReadSize_def usub64_def ba_content_def flat_def)

theorem writeFixSize_prefix_witness:
  "\<exists>r k' m. writeFixSize (ss_write pipe_send (SocketStream (Some demo_sock) True)) [7, 8] 2 ([], [0]) = (r, k') \<and> m \<le> 2
     \<and> fst k' = fst ([], [0 :: nat]) @ take m [7, 8] \<and> (if m = 2 then r = int 2 else r \<le> 0)"
proof -
  have "2 \<le> length [7, 8 :: byte]" "2 \<le> getReadSize demo_ba" "2 < (2 :: nat) ^ 31" by (simp_all add: demo_ba_ok(2))
  from writeFixSize_prefix[OF pipe_out.open_sink_axioms this(1) demo_ba_ok(1) this(2,3), of "([], [0])", THEN conjunct1]
  show ?thesis .
qed

text \<open>C29: when \<open>writeFixSize\<close> of a \<open>ByteArray\<close> answers \<open>n\<close> and nothing else is in transit,
  \<open>readFixSize\<close> at the other end returns \<open>n\<close>, and its \<open>ByteArray\<close> has had exactly the \<open>n\<close> bytes
  written to it that the first had at its position.\<close>

theorem byte_array_transport:
  assumes "open_sink send a incoming" "open_socket recv b incoming"
    and "ba_inv s" "n \<le> getReadSize s" "n < 2 ^ 31" "0 < n" "ba_inv t" "ba_room t n" "incoming k = []"
    and "writeFixSize_ba (ss_write_ba send a) n s k = Inr (int n, s', k')"
  shows "\<exists>t' k''. readFixSize_ba (ss_read_ba recv b) n t k' = Inr (int n, t', k'')
     \<and> ba_abs t' = fb_write (take n (drop (m_position s) (ba_content s))) (ba_abs t)
     \<and> m_position s' = m_position s + n \<and> incoming k'' = []"
proof -
  let ?bs = "drop (m_position s) (ba_content s)"
  have w: "incoming k' = take n ?bs" "m_position s' = m_position s + n"
    using write_fix_ba[OF assms(1,3,4,5), of k] assms(6,9,10) by (auto split: if_splits)
  have "length (take n ?bs) = n"
    using assms(4) ba_inv_getReadSize[OF assms(3)] ba_inv_length_content[OF assms(3)] by simp
  then have len: "length (incoming k') = n" "take n (incoming k') = take n ?bs" "drop n (incoming k') = []"
    using w(1) by simp_all
  obtain t' k'' where "fix_loop_ba (ss_read_ba recv b) (int n) t k' = Inr (None, t', k'')"
    "ba_abs t' = fb_write (take n ?bs) (ba_abs t)" "incoming k'' = []"
    using open_socket.fix_loop[OF assms(2,7), of "int n" k'] assms(8) len by auto
  with w(2) assms(5) show ?thesis by (simp add: readFixSize_ba_def fix_result_def to_int32_id to_int64_id)
qed

theorem byte_array_transport_witness:
  "\<exists>s' k' t' k''. writeFixSize_ba (ss_write_ba pipe_send (SocketStream (Some demo_sock) True)) 3 demo_ba ([], []) = Inr (3, s', k')
     \<and> readFixSize_ba (ss_read_ba pipe_recv (SocketStream (Some demo_sock) True)) 3 (ByteArray (\<lambda>_. 0) 2) k' = Inr (3, t', k'')
     \<and> ba_abs t' = ([1, 2, 3], 3)"
proof -
  let ?ss = "SocketStream (Some demo_sock) True"
  have vs: "getReadBuffers [] 3 demo_ba = Inr (3, [\<lparr>iov_node = 0, iov_off = 0, iov_len = 3\<rparr>])"
    by (simp add: getReadBuffers_def demo_ba_ok(2)) (simp add: demo_ba_def node_at_def usub64_def iov_loop.simps)
  have root: "gather (m_root demo_ba) [\<lparr>iov_node = 0, iov_off = 0, iov_len = 3\<rparr>] = [1, 2, 3]"
    by (simp add: gather_def iov_bytes_def demo_ba_def)
  obtain u where u: "ba_setPosition 3 demo_ba = Inr u"
    using ba_setPosition_ok[OF demo_ba_ok(1), of 3] by (auto simp: demo_ba_def)
  have "ss_write_ba pipe_send ?ss 3 demo_ba ([], []) = Inr (3, u, [1, 2, 3], [])"
    using u by (simp add: ss_write_ba_def demo_connected vs recv_open root pipe_send_def demo_ba_ok(4))
  then have w: "writeFixSize_ba (ss_write_ba pipe_send ?ss) 3 demo_ba ([], []) = Inr (3, u, [1, 2, 3], [])"
    by (simp add: writeFixSize_ba_def fix_loop_ba.simps fix_result_def to_int32_id to_int64_id)
  have inv: "ba_inv (ByteArray (\<lambda>_. 0) 2)" "ba_room (ByteArray (\<lambda>_. 0) 2) 3"
    using ba_inv_new[of 2 "\<lambda>_. 0"] by (simp_all add: ba_room_def ByteArray_def)
  have f: "fb_write [1, 2, 3] (ba_abs (ByteArray (\<lambda>_. 0) 2)) = ([1, 2, 3], 3)"
    by (simp add: ByteArray_def ba_abs_def ba_content_def fb_write_def overwrite_def)
  from byte_array_transport[OF pipe_out.open_sink_axioms pipe.open_socket_axioms demo_ba_ok(1) _ _ _ inv, of "([], [])" u]
  show ?thesis using w f by (simp add: demo_ba_ok) blast
qed

text \<open>Asking for more than the array has is undefined once it is empty.\<close>

lemma write_empty_undefined:
  assumes "ba_inv s" "getReadSize s = 0" "ss_isConnected ss"
  shows "ss_write_ba send ss n s k = Inl Bad_index"
  using assms by (simp add: ss_write_ba_def getReadBuffers_def)

end
