(* ===== verification/Servlet.thy ===== *)
theory Servlet
  imports Http
begin

text \<open>
  \<^verbatim>\<open>include/servlet.h\<close>, \<^verbatim>\<open>src/servlet.cc\<close>: what answers a request, and the dispatcher that finds
  it by the path. A callback is an identifier; what the callbacks do is the argument \<open>cb\<close>,
  and \<open>fnmatch\<close> is an argument too (\<open>True\<close> for a match). A null pointer is \<open>None\<close>.
\<close>

subsection \<open>State\<close>

text \<open>\<open>User_servlet\<close> is an object of a class that the program using the library derives.\<close>

datatype servlet = FunctionServlet nat | NotFoundServlet string | User_servlet nat

record dispatch =
  sd_datas :: "string \<Rightarrow> servlet option option"
  sd_globs :: "(string \<times> servlet option) list"
  sd_default :: "servlet option"

text \<open>What a callback or a derived class does to the request, the response and the session.\<close>

type_synonym 'w servlet_code = "nat \<Rightarrow> http_request \<Rightarrow> http_response \<Rightarrow> 'w \<Rightarrow> int \<times> http_request \<times> http_response \<times> 'w"

definition ServletDispatch :: dispatch where
  "ServletDispatch = \<lparr>sd_datas = (\<lambda>_. None), sd_globs = [], sd_default = Some (NotFoundServlet ''Sylar/1.0'')\<rparr>"

subsection \<open>NotFoundServlet\<close>

definition not_found_content :: "string \<Rightarrow> string" where
  "not_found_content name = ''<html><head><title>404 Not Found''
     @ ''</title></head><body><center><h1>404 Not Found</h1></center>''
     @ ''<hr><center>'' @ name @ ''</center></body></html>''"

definition NotFoundServlet_handle :: "http_rebalance \<Rightarrow> string \<Rightarrow> http_response \<Rightarrow> http_response" where
  "NotFoundServlet_handle reb name response =
     (let response = response\<lparr>rs_status := 404\<rparr>;
          response = rs_setHeader reb ''Server'' ''sylar/1.0.0'' response;
          response = rs_setHeader reb ''Content-Type'' ''text/html'' response
      in response\<lparr>rs_body := not_found_content name\<rparr>)"

text \<open>The virtual \<open>handle\<close>.\<close>

definition servlet_handle ::
  "'w servlet_code \<Rightarrow> 'w servlet_code \<Rightarrow> http_rebalance \<Rightarrow> servlet \<Rightarrow> http_request \<Rightarrow> http_response \<Rightarrow> 'w
   \<Rightarrow> int \<times> http_request \<times> http_response \<times> 'w"
where
  "servlet_handle cb user reb slt request response w = (case slt of
     FunctionServlet m_cb \<Rightarrow> cb m_cb request response w
   | NotFoundServlet name \<Rightarrow> (0, request, NotFoundServlet_handle reb name response, w)
   | User_servlet u \<Rightarrow> user u request response w)"

subsection \<open>ServletDispatch\<close>

definition addServlet :: "string \<Rightarrow> servlet option \<Rightarrow> dispatch \<Rightarrow> dispatch" where
  "addServlet uri slt d = d\<lparr>sd_datas := (sd_datas d)(uri := Some slt)\<rparr>"

definition addServlet_cb :: "string \<Rightarrow> nat \<Rightarrow> dispatch \<Rightarrow> dispatch" where
  "addServlet_cb uri cb d = d\<lparr>sd_datas := (sd_datas d)(uri := Some (Some (FunctionServlet cb)))\<rparr>"

text \<open>Erasing the first entry with the pattern.\<close>

fun erase_glob :: "string \<Rightarrow> (string \<times> 'a) list \<Rightarrow> (string \<times> 'a) list" where
  "erase_glob uri [] = []"
| "erase_glob uri (i # globs) = (if fst i = uri then globs else i # erase_glob uri globs)"

definition addGlobServlet :: "string \<Rightarrow> servlet option \<Rightarrow> dispatch \<Rightarrow> dispatch" where
  "addGlobServlet uri slt d = d\<lparr>sd_globs := erase_glob uri (sd_globs d) @ [(uri, slt)]\<rparr>"

definition addGlobServlet_cb :: "string \<Rightarrow> nat \<Rightarrow> dispatch \<Rightarrow> dispatch" where
  "addGlobServlet_cb uri cb = addGlobServlet uri (Some (FunctionServlet cb))"

definition delServlet :: "string \<Rightarrow> dispatch \<Rightarrow> dispatch" where
  "delServlet uri d = d\<lparr>sd_datas := (sd_datas d)(uri := None)\<rparr>"

definition delGlobServlet :: "string \<Rightarrow> dispatch \<Rightarrow> dispatch" where
  "delGlobServlet uri d = d\<lparr>sd_globs := erase_glob uri (sd_globs d)\<rparr>"

definition getDefault :: "dispatch \<Rightarrow> servlet option" where
  "getDefault d = sd_default d"

definition setDefault :: "servlet option \<Rightarrow> dispatch \<Rightarrow> dispatch" where
  "setDefault v d = d\<lparr>sd_default := v\<rparr>"

definition getServlet :: "string \<Rightarrow> dispatch \<Rightarrow> servlet option" where
  "getServlet uri d = (case sd_datas d uri of None \<Rightarrow> None | Some slt \<Rightarrow> slt)"

definition getGlobServlet :: "string \<Rightarrow> dispatch \<Rightarrow> servlet option" where
  "getGlobServlet uri d = (case find (\<lambda>(u, _). u = uri) (sd_globs d) of None \<Rightarrow> None | Some (_, slt) \<Rightarrow> slt)"

definition getMatchedServlet :: "(string \<Rightarrow> string \<Rightarrow> bool) \<Rightarrow> string \<Rightarrow> dispatch \<Rightarrow> servlet option" where
  "getMatchedServlet fnmatch uri d = (case sd_datas d uri of
     Some slt \<Rightarrow> slt
   | None \<Rightarrow> (case find (\<lambda>(u, _). fnmatch (c_str u) (c_str uri)) (sd_globs d) of
        Some (_, slt) \<Rightarrow> slt
      | None \<Rightarrow> sd_default d))"

definition ServletDispatch_handle ::
  "(string \<Rightarrow> string \<Rightarrow> bool) \<Rightarrow> 'w servlet_code \<Rightarrow> 'w servlet_code \<Rightarrow> http_rebalance \<Rightarrow> dispatch
   \<Rightarrow> http_request \<Rightarrow> http_response \<Rightarrow> 'w \<Rightarrow> int \<times> http_request \<times> http_response \<times> 'w"
where
  "ServletDispatch_handle fnmatch cb user reb d request response w =
     (case getMatchedServlet fnmatch (rq_path request) d of
        Some it \<Rightarrow> (let (_, request, response, w) = servlet_handle cb user reb it request response w
                    in (0, request, response, w))
      | None \<Rightarrow> (0, request, response, w))"

subsection \<open>What the dispatcher holds\<close>

datatype dispatch_op =
    Op_add string "servlet option" | Op_glob string "servlet option" | Op_del string | Op_delGlob string
  | Op_default "servlet option"

fun dispatch_step :: "dispatch_op \<Rightarrow> dispatch \<Rightarrow> dispatch" where
  "dispatch_step (Op_add uri slt) d = addServlet uri slt d"
| "dispatch_step (Op_glob uri slt) d = addGlobServlet uri slt d"
| "dispatch_step (Op_del uri) d = delServlet uri d"
| "dispatch_step (Op_delGlob uri) d = delGlobServlet uri d"
| "dispatch_step (Op_default slt) d = setDefault slt d"

text \<open>
  The specification: the operations as a log, newest first. An exact path is looked up in the
  log down to its removal; a pattern likewise, and of two live patterns that match the one
  added earlier wins.
\<close>

fun log_exact :: "dispatch_op list \<Rightarrow> string \<Rightarrow> servlet option option" where
  "log_exact [] u = None"
| "log_exact (Op_add v s # ops) u = (if u = v then Some s else log_exact ops u)"
| "log_exact (Op_del v # ops) u = (if u = v then None else log_exact ops u)"
| "log_exact (_ # ops) u = log_exact ops u"

fun log_globs :: "dispatch_op list \<Rightarrow> (string \<times> servlet option) list" where
  "log_globs [] = []"
| "log_globs (Op_glob u s # ops) = filter (\<lambda>(v, _). v \<noteq> u) (log_globs ops) @ [(u, s)]"
| "log_globs (Op_delGlob u # ops) = filter (\<lambda>(v, _). v \<noteq> u) (log_globs ops)"
| "log_globs (_ # ops) = log_globs ops"

fun log_default :: "dispatch_op list \<Rightarrow> servlet option" where
  "log_default [] = Some (NotFoundServlet ''Sylar/1.0'')"
| "log_default (Op_default s # ops) = s"
| "log_default (_ # ops) = log_default ops"

definition log_match :: "(string \<Rightarrow> string \<Rightarrow> bool) \<Rightarrow> dispatch_op list \<Rightarrow> string \<Rightarrow> servlet option" where
  "log_match fnmatch ops u = (case log_exact ops u of Some s \<Rightarrow> s
     | None \<Rightarrow> (case filter (\<lambda>(v, _). fnmatch (c_str v) (c_str u)) (log_globs ops) of
         (_, s) # _ \<Rightarrow> s | [] \<Rightarrow> log_default ops))"

definition run_ops :: "dispatch_op list \<Rightarrow> dispatch" where
  "run_ops ops = foldr dispatch_step ops ServletDispatch"

lemma erase_glob_filter:
  "distinct (map fst gs) \<Longrightarrow> erase_glob u gs = filter (\<lambda>(v, _). v \<noteq> u) gs"
  by (induction gs) (auto simp: case_prod_unfold intro!: filter_True[symmetric], force)

lemma distinct_filter_fst: "distinct (map fst gs) \<Longrightarrow> distinct (map fst (filter P gs))"
  by (induction gs) auto

lemma log_globs_distinct: "distinct (map fst (log_globs ops))"
proof (induction ops)
  case (Cons op ops)
  then show ?case by (cases op) (auto intro!: distinct_filter_fst)
qed simp

lemma run_ops_log:
  "sd_globs (run_ops ops) = log_globs ops \<and> sd_datas (run_ops ops) u = log_exact ops u
   \<and> sd_default (run_ops ops) = log_default ops"
proof (induction ops)
  case (Cons op ops)
  then show ?case using log_globs_distinct[of ops]
    by (cases op) (auto simp: run_ops_def addServlet_def addGlobServlet_def delServlet_def delGlobServlet_def
        setDefault_def erase_glob_filter)
qed (simp add: run_ops_def ServletDispatch_def)

lemma find_filter: "find P xs = (case filter P xs of [] \<Rightarrow> None | x # _ \<Rightarrow> Some x)"
  by (induction xs) auto

text \<open>C30: after any sequence of registrations and removals the dispatcher finds, for a path,
  the servlet the log of the operations determines: the one registered last for exactly this
  path, else that of the first live pattern matching it, in the order in which the patterns were
  added, else the default. A pattern is registered at most once at any time.\<close>

theorem dispatch_refines_log:
  "getMatchedServlet fnmatch u (run_ops ops) = log_match fnmatch ops u
   \<and> distinct (map fst (sd_globs (run_ops ops)))
   \<and> getGlobServlet v (delGlobServlet v (run_ops ops)) = None
   \<and> getGlobServlet v (addGlobServlet v s (run_ops ops)) = s"
proof -
  note l = run_ops_log[of ops u]
  have g: "distinct (map fst (sd_globs (run_ops ops)))" using l log_globs_distinct[of ops] by simp
  have "find (\<lambda>(w, _). w = v) (filter (\<lambda>(w, _). w \<noteq> v) gs @ rest) = find (\<lambda>(w, _). w = v) rest"
    for gs and rest :: "(string \<times> servlet option) list"
    by (induction gs) auto
  from this[of "sd_globs (run_ops ops)" "[]"] this[of "sd_globs (run_ops ops)" "[(v, s)]"]
  have d: "getGlobServlet v (delGlobServlet v (run_ops ops)) = None"
    "getGlobServlet v (addGlobServlet v s (run_ops ops)) = s"
    using g by (simp_all add: getGlobServlet_def delGlobServlet_def addGlobServlet_def erase_glob_filter)
  have "getMatchedServlet fnmatch u (run_ops ops) = log_match fnmatch ops u"
    using l by (auto simp: getMatchedServlet_def log_match_def find_filter split: option.split list.split)
  with g d show ?thesis by blast
qed

end
