(* ===== verification/HttpParser.thy ===== *)
theory HttpParser
  imports Http
begin

text \<open>
  \<^verbatim>\<open>include/http_parser.h\<close>, \<^verbatim>\<open>src/http_parser.cc\<close>: the callbacks that the generated parser calls, and
  the objects around it. The generated code is the argument \<open>engine\<close>: run on a buffer it makes
  callbacks in order and answers how much of the buffer it has consumed.
\<close>

subsection \<open>The generated parser\<close>

text \<open>
  An event is a callback with its arguments: the memory from the pointer \<open>at\<close> on and the length;
  a field has two of each.
\<close>

datatype http_event =
    On_method string nat | On_uri string nat | On_fragment string nat | On_path string nat
  | On_query string nat | On_version string nat | On_header_done string nat | On_field string nat string nat
  | On_reason string nat | On_status string nat | On_chunk string nat | On_last_chunk string nat

record 'p engine =
  e_init :: 'p
  e_execute :: "'p \<Rightarrow> string \<Rightarrow> http_event list \<times> nat \<times> 'p"
  e_finish :: "'p \<Rightarrow> int"
  e_has_error :: "'p \<Rightarrow> bool"

text \<open>\<open>strncmp(a, b, n) == 0\<close>; the terminating NUL is compared as well.\<close>

definition strncmp_eq :: "string \<Rightarrow> string \<Rightarrow> nat \<Rightarrow> bool" where
  "strncmp_eq a b n = (take n (c_str a @ [CHR 0x00]) = take n (c_str b @ [CHR 0x00]))"

text \<open>\<open>atoi\<close> of a string of digits; the status is an \<open>int\<close>.\<close>

definition atoi :: "string \<Rightarrow> nat" where
  "atoi s = dec_val (takeWhile (\<lambda>c. c \<in> decimal_digits) s)"

subsection \<open>Requests\<close>

record 'p request_parser =
  rp_parser :: 'p
  rp_data :: http_request
  rp_error :: int

definition HttpRequestParser :: "'p engine \<Rightarrow> 'p request_parser" where
  "HttpRequestParser e = \<lparr>rp_parser = e_init e, rp_data = HttpRequest 0x11 True, rp_error = 0\<rparr>"

definition rp_setError :: "int \<Rightarrow> 'p request_parser \<Rightarrow> 'p request_parser" where
  "rp_setError v p = p\<lparr>rp_error := v\<rparr>"

definition rp_upd :: "(http_request \<Rightarrow> http_request) \<Rightarrow> 'p request_parser \<Rightarrow> 'p request_parser" where
  "rp_upd f p = p\<lparr>rp_data := f (rp_data p)\<rparr>"

definition on_request_method :: "string \<Rightarrow> nat \<Rightarrow> 'p request_parser \<Rightarrow> 'p request_parser" where
  "on_request_method at len p = (let m = CharsToHttpMethod at in
     if m = INVALID_METHOD then rp_setError 1000 p
     else rp_upd (\<lambda>r. r\<lparr>rq_method := m\<rparr>) p)"

definition on_request_uri :: "string \<Rightarrow> nat \<Rightarrow> 'p request_parser \<Rightarrow> 'p request_parser" where
  "on_request_uri at len p = p"

definition on_request_fragment :: "string \<Rightarrow> nat \<Rightarrow> 'p request_parser \<Rightarrow> 'p request_parser" where
  "on_request_fragment at len = rp_upd (\<lambda>r. r\<lparr>rq_fragment := take len at\<rparr>)"

definition on_request_path :: "string \<Rightarrow> nat \<Rightarrow> 'p request_parser \<Rightarrow> 'p request_parser" where
  "on_request_path at len = rp_upd (\<lambda>r. r\<lparr>rq_path := take len at\<rparr>)"

definition on_request_query :: "string \<Rightarrow> nat \<Rightarrow> 'p request_parser \<Rightarrow> 'p request_parser" where
  "on_request_query at len = rp_upd (\<lambda>r. r\<lparr>rq_query := take len at\<rparr>)"

definition on_request_version :: "string \<Rightarrow> nat \<Rightarrow> 'p request_parser \<Rightarrow> 'p request_parser" where
  "on_request_version at len p =
     (if strncmp_eq at ''HTTP/1.1'' len then rp_upd (\<lambda>r. r\<lparr>rq_version := 0x11\<rparr>) p
      else if strncmp_eq at ''HTTP/1.0'' len then rp_upd (\<lambda>r. r\<lparr>rq_version := 0x10\<rparr>) p
      else rp_setError 1001 p)"

definition on_request_header_done :: "string \<Rightarrow> nat \<Rightarrow> 'p request_parser \<Rightarrow> 'p request_parser" where
  "on_request_header_done at len p = p"

definition on_request_http_field ::
  "http_rebalance \<Rightarrow> string \<Rightarrow> nat \<Rightarrow> string \<Rightarrow> nat \<Rightarrow> 'p request_parser \<Rightarrow> 'p request_parser"
where
  "on_request_http_field reb field flen val vlen p =
     (if flen = 0 then p
      else if same_ci (take flen field) ''connection'' \<and> same_ci (take vlen val) ''keep-alive''
        then rp_upd (\<lambda>r. rq_setHeader reb (take flen field) (take vlen val) (r\<lparr>rq_close := False\<rparr>)) p
      else rp_upd (rq_setHeader reb (take flen field) (take vlen val)) p)"

text \<open>Which callback an event is; the last four are not installed.\<close>

definition on_request_event :: "http_rebalance \<Rightarrow> http_event \<Rightarrow> 'p request_parser \<Rightarrow> 'p request_parser" where
  "on_request_event reb ev = (case ev of
     On_method at n \<Rightarrow> on_request_method at n | On_uri at n \<Rightarrow> on_request_uri at n
   | On_fragment at n \<Rightarrow> on_request_fragment at n | On_path at n \<Rightarrow> on_request_path at n
   | On_query at n \<Rightarrow> on_request_query at n | On_version at n \<Rightarrow> on_request_version at n
   | On_header_done at n \<Rightarrow> on_request_header_done at n
   | On_field field flen val vlen \<Rightarrow> on_request_http_field reb field flen val vlen
   | On_reason at n \<Rightarrow> (\<lambda>p. p) | On_status at n \<Rightarrow> (\<lambda>p. p) | On_chunk at n \<Rightarrow> (\<lambda>p. p) | On_last_chunk at n \<Rightarrow> (\<lambda>p. p))"

text \<open>\<open>execute\<close>: the part of the data that is left is moved to the front of the buffer.\<close>

definition rp_execute :: "'p engine \<Rightarrow> http_rebalance \<Rightarrow> string \<Rightarrow> 'p request_parser \<Rightarrow> string \<times> 'p request_parser" where
  "rp_execute e reb dat p = (let (evs, offset, q) = e_execute e (rp_parser p) dat in
     (drop offset dat, fold (on_request_event reb) evs (p\<lparr>rp_parser := q\<rparr>)))"

definition rp_isFinished :: "'p engine \<Rightarrow> 'p request_parser \<Rightarrow> bool" where
  "rp_isFinished e p = (e_finish e (rp_parser p) \<noteq> 0)"

definition rp_hasError :: "'p engine \<Rightarrow> 'p request_parser \<Rightarrow> bool" where
  "rp_hasError e p = (rp_error p \<noteq> 0 \<or> e_has_error e (rp_parser p))"

text \<open>\<open>lexical_cast\<close> is the conversion to \<open>uint64_t\<close>.\<close>

definition rp_getContentLength :: "(string \<Rightarrow> nat option) \<Rightarrow> 'p request_parser \<Rightarrow> nat" where
  "rp_getContentLength lexical_cast p = getAs lexical_cast (rq_headers (rp_data p)) ''content-length'' 0"

definition GetHttpRequestBufferSize :: nat where
  "GetHttpRequestBufferSize = 4 * 1024"

definition GetHttpRequestMaxBodySize :: nat where
  "GetHttpRequestMaxBodySize = 64 * 1024 * 1024"

subsection \<open>Responses\<close>

record 'p response_parser =
  sp_parser :: 'p
  sp_data :: http_response
  sp_error :: int

definition HttpResponseParser :: "'p engine \<Rightarrow> 'p response_parser" where
  "HttpResponseParser e = \<lparr>sp_parser = e_init e, sp_data = HttpResponse 0x11 True, sp_error = 0\<rparr>"

definition sp_setError :: "int \<Rightarrow> 'p response_parser \<Rightarrow> 'p response_parser" where
  "sp_setError v p = p\<lparr>sp_error := v\<rparr>"

definition on_response_reason :: "string \<Rightarrow> nat \<Rightarrow> 'p response_parser \<Rightarrow> 'p response_parser" where
  "on_response_reason at len p = p\<lparr>sp_data := (sp_data p)\<lparr>rs_reason := take len at\<rparr>\<rparr>"

definition on_response_status :: "string \<Rightarrow> nat \<Rightarrow> 'p response_parser \<Rightarrow> 'p response_parser" where
  "on_response_status at len p = p\<lparr>sp_data := (sp_data p)\<lparr>rs_status := atoi at\<rparr>\<rparr>"

definition on_response_chunk :: "string \<Rightarrow> nat \<Rightarrow> 'p response_parser \<Rightarrow> 'p response_parser" where
  "on_response_chunk at len p = p"

definition on_response_version :: "string \<Rightarrow> nat \<Rightarrow> 'p response_parser \<Rightarrow> 'p response_parser" where
  "on_response_version at len p =
     (if strncmp_eq at ''HTTP/1.1'' len then p\<lparr>sp_data := (sp_data p)\<lparr>rs_version := 0x11\<rparr>\<rparr>
      else if strncmp_eq at ''HTTP/1.0'' len then p\<lparr>sp_data := (sp_data p)\<lparr>rs_version := 0x10\<rparr>\<rparr>
      else sp_setError 1001 p)"

definition on_response_header_done :: "string \<Rightarrow> nat \<Rightarrow> 'p response_parser \<Rightarrow> 'p response_parser" where
  "on_response_header_done at len p = p"

definition on_response_last_chunk :: "string \<Rightarrow> nat \<Rightarrow> 'p response_parser \<Rightarrow> 'p response_parser" where
  "on_response_last_chunk at len p = p"

definition on_response_http_field ::
  "http_rebalance \<Rightarrow> string \<Rightarrow> nat \<Rightarrow> string \<Rightarrow> nat \<Rightarrow> 'p response_parser \<Rightarrow> 'p response_parser"
where
  "on_response_http_field reb field flen val vlen p =
     (if flen = 0 then p else p\<lparr>sp_data := rs_setHeader reb (take flen field) (take vlen val) (sp_data p)\<rparr>)"

definition on_response_event :: "http_rebalance \<Rightarrow> http_event \<Rightarrow> 'p response_parser \<Rightarrow> 'p response_parser" where
  "on_response_event reb ev = (case ev of
     On_reason at n \<Rightarrow> on_response_reason at n | On_status at n \<Rightarrow> on_response_status at n
   | On_chunk at n \<Rightarrow> on_response_chunk at n | On_version at n \<Rightarrow> on_response_version at n
   | On_header_done at n \<Rightarrow> on_response_header_done at n | On_last_chunk at n \<Rightarrow> on_response_last_chunk at n
   | On_field field flen val vlen \<Rightarrow> on_response_http_field reb field flen val vlen
   | On_method at n \<Rightarrow> (\<lambda>p. p) | On_uri at n \<Rightarrow> (\<lambda>p. p) | On_fragment at n \<Rightarrow> (\<lambda>p. p)
   | On_path at n \<Rightarrow> (\<lambda>p. p) | On_query at n \<Rightarrow> (\<lambda>p. p))"

definition sp_execute ::
  "'p engine \<Rightarrow> http_rebalance \<Rightarrow> string \<Rightarrow> bool \<Rightarrow> 'p response_parser \<Rightarrow> string \<times> 'p response_parser"
where
  "sp_execute e reb dat chunck p =
     (let p = (if chunck then p\<lparr>sp_parser := e_init e\<rparr> else p);
          (evs, offset, q) = e_execute e (sp_parser p) dat
      in (drop offset dat, fold (on_response_event reb) evs (p\<lparr>sp_parser := q\<rparr>)))"

definition sp_isFinished :: "'p engine \<Rightarrow> 'p response_parser \<Rightarrow> bool" where
  "sp_isFinished e p = (e_finish e (sp_parser p) \<noteq> 0)"

definition sp_hasError :: "'p engine \<Rightarrow> 'p response_parser \<Rightarrow> bool" where
  "sp_hasError e p = (sp_error p \<noteq> 0 \<or> e_has_error e (sp_parser p))"

definition sp_getContentLength :: "(string \<Rightarrow> nat option) \<Rightarrow> 'p response_parser \<Rightarrow> nat" where
  "sp_getContentLength lexical_cast p = getAs lexical_cast (rs_headers (sp_data p)) ''content-length'' 0"

definition GetHttpResponseBufferSize :: nat where
  "GetHttpResponseBufferSize = 4 * 1024"

definition GetHttpResponseMaxBodySize :: nat where
  "GetHttpResponseMaxBodySize = 64 * 1024 * 1024"

end
