(* ===== verification/TcpServer.thy ===== *)
theory TcpServer
  imports SocketProps
begin

text \<open>
  \<^verbatim>\<open>include/tcp_server.h\<close>, \<^verbatim>\<open>src/tcp_server.cc\<close>: listening sockets and the loop that accepts. A socket
  object that nothing refers to any more is destroyed; \<open>bind\<close> also gives the objects it destroys.
\<close>

subsection \<open>State\<close>

record tcp_server =
  ts_socks :: "sock list"
  ts_recvTimeout :: nat
  ts_name :: string
  ts_type :: string
  ts_isStop :: bool

definition TcpServer :: tcp_server where
  "TcpServer = \<lparr>ts_socks = [], ts_recvTimeout = 60 * 1000 * 2, ts_name = ''sylar/1.0.0'', ts_type = ''tcp'', ts_isStop = True\<rparr>"

definition SOMAXCONN :: nat where
  "SOMAXCONN = 4096"

text \<open>The destructor closes every socket and drops it; the objects afterwards.\<close>

definition TcpServer_delete :: "tcp_server \<Rightarrow> sock list" where
  "TcpServer_delete s = map (\<lambda>i. Socket_delete (snd (sk_close i))) (ts_socks s)"

subsection \<open>bind\<close>

text \<open>
  The loop over the addresses, with what the kernel answers for each of them: the addresses
  that failed, the sockets and the objects destroyed at \<open>continue\<close>.
\<close>

fun bind_loop ::
  "endian \<Rightarrow> (address \<times> kernel) list \<Rightarrow> address list \<Rightarrow> sock list \<Rightarrow> sock list \<Rightarrow> address list \<times> sock list \<times> sock list"
where
  "bind_loop host [] fails socks gone = (fails, socks, gone)"
| "bind_loop host ((addr, k) # addrs) fails socks gone =
     (let sock = CreateTCP host addr; (ok, sock) = sk_bind host k addr sock in
      if \<not> ok then bind_loop host addrs (fails @ [addr]) socks (gone @ [Socket_delete sock])
      else let (ok, sock) = sk_listen k SOMAXCONN sock in
        if \<not> ok then bind_loop host addrs (fails @ [addr]) socks (gone @ [Socket_delete sock])
        else bind_loop host addrs fails (socks @ [sock]) gone)"

text \<open>
  \<open>m_socks.clear()\<close> drops the pointers. The model destroys the sockets, of which the vector is the only
  owner until \<open>start\<close> has copied the pointers into its tasks; a server that binds again while it runs has
  them still open in these tasks.
\<close>

definition tcp_bind ::
  "endian \<Rightarrow> (address \<times> kernel) list \<Rightarrow> address list \<Rightarrow> tcp_server \<Rightarrow> bool \<times> address list \<times> tcp_server \<times> sock list"
where
  "tcp_bind host addrs fails s =
     (let (fails, socks, gone) = bind_loop host addrs fails (ts_socks s) [] in
      if fails \<noteq> [] then (False, fails, s\<lparr>ts_socks := []\<rparr>, gone @ map Socket_delete socks)
      else (True, fails, s\<lparr>ts_socks := socks\<rparr>, gone))"

definition tcp_bind_one :: "endian \<Rightarrow> address \<Rightarrow> kernel \<Rightarrow> tcp_server \<Rightarrow> bool \<times> tcp_server \<times> sock list" where
  "tcp_bind_one host addr k s = (let (ok, _, s, gone) = tcp_bind host [(addr, k)] [] s in (ok, s, gone))"

subsection \<open>start and stop\<close>

text \<open>\<open>start\<close> schedules \<open>startAccept\<close> for the sockets listed.\<close>

definition tcp_start :: "tcp_server \<Rightarrow> bool \<times> tcp_server \<times> sock list" where
  "tcp_start s = (if \<not> ts_isStop s then (True, s, []) else (True, s\<lparr>ts_isStop := False\<rparr>, ts_socks s))"

text \<open>\<open>stop\<close> schedules a task, which is the second definition; it runs on the accepting manager.\<close>

definition tcp_stop :: "tcp_server \<Rightarrow> tcp_server" where
  "tcp_stop s = s\<lparr>ts_isStop := True\<rparr>"

fun stop_loop :: "epoll_ctl \<Rightarrow> sock list \<Rightarrow> io_manager \<Rightarrow> fault + sock list \<times> io_manager" where
  "stop_loop ctl [] io = Inr ([], io)"
| "stop_loop ctl (sock # socks) io = bindE (sk_cancelAll ctl sock io) (\<lambda>(_, io).
     bindE (stop_loop ctl socks io) (\<lambda>(gone, io). Inr (snd (sk_close sock) # gone, io)))"

definition stop_task :: "epoll_ctl \<Rightarrow> tcp_server \<Rightarrow> io_manager \<Rightarrow> fault + tcp_server \<times> sock list \<times> io_manager" where
  "stop_task ctl s io = bindE (stop_loop ctl (ts_socks s) io) (\<lambda>(gone, io). Inr (s\<lparr>ts_socks := []\<rparr>, gone, io))"

text \<open>
  \<open>startAccept\<close>: each round finds the flag, the listening socket, the answer of the kernel and
  the table of descriptors as they are then (the socket is shared with \<open>stop\<close>). The result is
  the clients handed to \<open>handleClient\<close>, each with the table after its timeout is set, and
  whether the loop has ended.
\<close>

fun startAccept ::
  "endian \<Rightarrow> bool \<Rightarrow> nat \<Rightarrow> (bool \<times> sock \<times> kernel \<times> fd_manager) list \<Rightarrow> (sock \<times> fd_manager) list \<times> bool"
where
  "startAccept host en timeout [] = ([], False)"
| "startAccept host en timeout ((isStop, sock, k, fds) # rounds) =
     (if isStop then ([], True)
      else case sk_accept host k fds sock of
          (Some client, _) \<Rightarrow>
            let fds = setRecvTimeout en (signed_take_bit 63 (int timeout)) client fds;
                (clients, fin) = startAccept host en timeout rounds
            in ((client, fds) # clients, fin)
        | (None, _) \<Rightarrow> startAccept host en timeout rounds)"

definition tcp_getRecvTimeout :: "tcp_server \<Rightarrow> nat" where
  "tcp_getRecvTimeout s = ts_recvTimeout s"

definition tcp_setRecvTimeout :: "nat \<Rightarrow> tcp_server \<Rightarrow> tcp_server" where
  "tcp_setRecvTimeout v s = s\<lparr>ts_recvTimeout := v\<rparr>"

definition tcp_setName :: "string \<Rightarrow> 'a tcp_server_scheme \<Rightarrow> 'a tcp_server_scheme" where
  "tcp_setName v s = s\<lparr>ts_name := v\<rparr>"

text \<open>The names of the two managers are arguments, empty for a null pointer.\<close>

definition tcp_toString :: "endian \<Rightarrow> string \<Rightarrow> string \<Rightarrow> string \<Rightarrow> tcp_server \<Rightarrow> string" where
  "tcp_toString host worker accept prefix s =
     (let pfx = (if prefix = [] then ''    '' else prefix) in
      prefix @ ''[type='' @ ts_type s @ '' name='' @ ts_name s @ '' worker='' @ worker @ '' accept='' @ accept
      @ '' recv_timeout='' @ dec_str (ts_recvTimeout s) @ '']'' @ [CHR 0x0A]
      @ concat (map (\<lambda>i. pfx @ pfx @ sk_dump host i @ [CHR 0x0A]) (ts_socks s)))"

subsection \<open>All or nothing\<close>

text \<open>A socket on which \<open>bind\<close> and \<open>listen\<close> of \<open>addr\<close> succeed.\<close>

definition listens :: "endian \<Rightarrow> address \<times> kernel \<Rightarrow> bool" where
  "listens host ak = (k_socket (snd ak) \<noteq> - 1 \<and> k_bind (snd ak) = 0 \<and> k_listen (snd ak) = 0)"

definition listener :: "endian \<Rightarrow> address \<times> kernel \<Rightarrow> sock" where
  "listener host ak = snd (sk_listen (snd ak) SOMAXCONN (snd (sk_bind host (snd ak) (fst ak) (CreateTCP host (fst ak)))))"

lemma family_CreateTCP [simp]:
  "sk_family (CreateTCP host a) = getFamily host a" "sk_sock (CreateTCP host a) = - 1" "sk_calls (CreateTCP host a) = []"
  "owns (CreateTCP host a)"
  by (simp_all add: CreateTCP_def) (simp_all add: Socket_def)

lemma bind_new: "fst (sk_bind host k a (CreateTCP host a)) = (k_socket k \<noteq> - 1 \<and> k_bind k = 0)"
  by (auto simp: sk_bind_def isValid_def Let_def)

lemma bind_new_sock:
  "fst (sk_bind host k a (CreateTCP host a)) \<Longrightarrow> sk_sock (snd (sk_bind host k a (CreateTCP host a))) = k_socket k"
  by (auto simp: sk_bind_def isValid_def Let_def call_def split: if_splits)

lemma owns_listen: "owns s \<Longrightarrow> owns (snd (sk_listen k n s))"
  by (auto simp: sk_listen_def Let_def) (auto simp: sock_views call_def)

lemma held_delete: "owns s \<Longrightarrow> held (sk_calls (Socket_delete s)) = []"
  using owns_close[of s] by (simp add: Socket_delete_def sock_views)

lemma owns_listener: "owns (listener host ak)"
  by (simp add: listener_def owns_listen owns_bind)

lemma bind_loop_result:
  "\<exists>gone'. bind_loop host aks fails socks gone =
     (fails @ map fst (filter (\<lambda>ak. \<not> listens host ak) aks),
      socks @ map (listener host) (filter (listens host) aks), gone @ gone')
   \<and> (\<forall>s \<in> set gone'. held (sk_calls s) = [])"
proof (induction aks arbitrary: fails socks gone)
  case (Cons ak aks)
  obtain a k where ak: "ak = (a, k)" by force
  obtain ok s where b: "sk_bind host k a (CreateTCP host a) = (ok, s)" by force
  obtain ok' s' where l: "sk_listen k SOMAXCONN s = (ok', s')" by force
  have s: "owns s" "owns s'" using b l owns_bind[of "CreateTCP host a" host k a] owns_listen[of s k SOMAXCONN] by simp_all
  have ok: "ok = (k_socket k \<noteq> - 1 \<and> k_bind k = 0)" using bind_new[of host k a] b by simp
  have ok': "ok' = (k_listen k = 0)" if ok
    using l bind_new_sock[of host k a] b that ok by (auto simp: sk_listen_def isValid_def Let_def split: if_splits)
  have li: "listens host ak = (ok \<and> ok')" using ok ok' by (auto simp: ak listens_def)
  have lr: "listener host ak = s'" using b l by (simp add: ak listener_def)
  show ?case
  proof (cases "ok \<and> ok'")
    case True
    with Cons.IH[of fails "socks @ [s']" gone] li lr b l show ?thesis by (simp add: ak)
  next
    case False
    let ?d = "Socket_delete (if ok then s' else s)"
    obtain g where g: "bind_loop host aks (fails @ [a]) socks (gone @ [?d]) =
       ((fails @ [a]) @ map fst (filter (\<lambda>ak. \<not> listens host ak) aks),
        socks @ map (listener host) (filter (listens host) aks), (gone @ [?d]) @ g)" "\<forall>s \<in> set g. held (sk_calls s) = []"
      using Cons.IH[of "fails @ [a]" socks "gone @ [?d]"] by blast
    with False li b l s show ?thesis
      by (intro exI[of _ "?d # g"]) (auto simp: ak held_delete split: if_splits)
  qed
qed simp

text \<open>C31: \<open>bind\<close> of a list of addresses succeeds just when no failure is recorded and every
  address could be bound and listened to; then the server has one listening socket per address
  more, in their order. Otherwise the server has no socket at all any more, those of earlier calls
  included. Either way no descriptor stays open in an object that was dropped.\<close>

theorem tcp_bind_all_or_nothing:
  assumes "\<forall>s \<in> set (ts_socks srv). owns s"
  shows "case tcp_bind host aks fails srv of (ok, fails', srv', gone) \<Rightarrow>
     ok = (fails = [] \<and> list_all (listens host) aks)
     \<and> fails' = fails @ map fst (filter (\<lambda>ak. \<not> listens host ak) aks)
     \<and> ts_socks srv' = (if ok then ts_socks srv @ map (listener host) aks else [])
     \<and> list_all (\<lambda>s. held (sk_calls s) = []) gone \<and> list_all owns (ts_socks srv')"
proof -
  obtain g where g: "bind_loop host aks fails (ts_socks srv) [] =
     (fails @ map fst (filter (\<lambda>ak. \<not> listens host ak) aks),
      ts_socks srv @ map (listener host) (filter (listens host) aks), g)" "\<forall>s \<in> set g. held (sk_calls s) = []"
    using bind_loop_result[of host aks fails "ts_socks srv" "[]"] by auto
  have "filter (listens host) aks = aks" if "list_all (listens host) aks"
    using that by (simp add: filter_id_conv list_all_iff)
  moreover have "(filter (\<lambda>ak. \<not> listens host ak) aks = []) = list_all (listens host) aks"
    by (simp add: filter_empty_conv list_all_iff)
  ultimately show ?thesis
    using g assms by (auto simp: tcp_bind_def list_all_iff owns_listener held_delete)
qed

text \<open>The accept loop hands over every connection that \<open>accept\<close> gives before the
  flag is seen, in order and once each, connected and with the timeout of the server; a failed
  \<open>accept\<close> does not end it, only the flag does.\<close>

lemma startAccept_clients:
  assumes "timeout < 2147483648000"
  shows "let before = takeWhile (\<lambda>(isStop, _). \<not> isStop) rounds in
    map fst (fst (startAccept host True timeout rounds))
      = List.map_filter (\<lambda>(_, sock, k, fds). fst (sk_accept host k fds sock)) before
    \<and> snd (startAccept host True timeout rounds) = (before \<noteq> rounds)
    \<and> list_all (\<lambda>(client, fds). isValid client \<and> sk_connected client \<and> owns client
          \<and> getRecvTimeout client fds = int timeout)
        (fst (startAccept host True timeout rounds))"
proof (induction rounds)
  case (Cons r rounds)
  obtain st sock k fds where r: "r = (st, sock, k, fds)" by (cases r) auto
  obtain c cs where a: "sk_accept host k fds sock = (c, cs)" by force
  obtain clients fin where i: "startAccept host True timeout rounds = (clients, fin)" by force
  have v: "signed_take_bit 63 (int timeout) = int timeout" using assms by (intro signed_take_bit_int_eq_self) simp_all
  show ?case
  proof (cases c)
    case None
    with Cons a i show ?thesis by (simp add: r List.map_filter_def)
  next
    case (Some t)
    note t = accept_some[of host k fds sock t cs]
    obtain p c' where "ctx_of (sk_sock t) fds = Some (p, c')"
      using a Some t by fastforce
    from timeout_stored(2)[OF _ _ this, of "int timeout" SO_RCVTIMEO] assms
    have "getRecvTimeout t (setRecvTimeout True (int timeout) t fds) = int timeout"
      by (simp add: getRecvTimeout_def setRecvTimeout_def)
    moreover have "isValid t \<and> sk_connected t \<and> owns t" using t a Some by (simp add: isValid_def sk_connected_def)
    ultimately show ?thesis using Some Cons a i v by (simp add: r List.map_filter_def)
  qed
qed (simp add: List.map_filter_def)

text \<open>A table in which descriptor 9 is an open socket.\<close>

definition demo_fds9 :: fd_manager where
  "demo_fds9 = \<lparr>m_datas = replicate 9 None @ [Some 0], fd_heap = (\<lambda>_. snd (FdCtx (\<lambda>_. Some True) 9 0)),
     fd_next = 1, k_flags = (\<lambda>_. 0)\<rparr>"

theorem startAccept_clients_witness:
  "\<exists>client fds. startAccept Little_endian True 500 [(False, CreateTCPIPV4, demo_kernel, demo_fds9), (True, CreateTCPIPV4, demo_kernel, demo_fds9)]
     = ([(client, fds)], True) \<and> getRecvTimeout client fds = 500"
proof -
  let ?rounds = "[(False, CreateTCPIPV4, demo_kernel, demo_fds9), (True, CreateTCPIPV4, demo_kernel, demo_fds9)]"
  obtain clients fin where r: "startAccept Little_endian True 500 ?rounds = (clients, fin)" by force
  have "fst (sk_accept Little_endian demo_kernel demo_fds9 CreateTCPIPV4) \<noteq> None"
    by (simp add: sk_accept_def sk_init_def Let_def ctx_of_def fd_look_def demo_fds9_def demo_kernel_def nth_append
        FdCtx_def fdctx_init_def)
  then obtain t where t: "fst (sk_accept Little_endian demo_kernel demo_fds9 CreateTCPIPV4) = Some t" by blast
  from startAccept_clients[of 500 ?rounds Little_endian] r t
  have "map fst clients = [t]" "fin" "list_all (\<lambda>(client, fds). getRecvTimeout client fds = 500) clients"
    by (auto simp: List.map_filter_def list_all_iff)
  then obtain fds where "clients = [(t, fds)]" "getRecvTimeout t fds = 500" by (cases clients) auto
  with r \<open>fin\<close> show ?thesis by simp
qed

theorem tcp_bind_all_or_nothing_witness:
  "\<exists>srv' gone. tcp_bind Little_endian [(IPv4Address Little_endian 0 80, demo_kernel), (IPv4Address Little_endian 0 81, demo_kernel\<lparr>k_bind := 1\<rparr>)] [] TcpServer
     = (False, [IPv4Address Little_endian 0 81], srv', gone) \<and> ts_socks srv' = [] \<and> list_all (\<lambda>s. held (sk_calls s) = []) gone"
proof -
  let ?aks = "[(IPv4Address Little_endian 0 80, demo_kernel), (IPv4Address Little_endian 0 81, demo_kernel\<lparr>k_bind := 1\<rparr>)]"
  have "\<forall>s \<in> set (ts_socks TcpServer). owns s" by (simp add: TcpServer_def)
  from tcp_bind_all_or_nothing[OF this, where host = Little_endian and aks = ?aks and fails = "[]"]
  show ?thesis by (auto simp: listens_def demo_kernel_def split: prod.splits)
qed

end
