(* ===== verification/HttpServer.thy ===== *)
theory HttpServer
  imports Servlet HttpParser StreamProps TcpServer
begin

text \<open>
  \<^verbatim>\<open>src/http_session.cc\<close>: receiving a request and sending a response over a connection, and
  \<^verbatim>\<open>src/http_server.cc\<close>: the loop that serves a client. The system calls, the generated parser,
  \<open>lexical_cast\<close>, \<open>fnmatch\<close> and the callbacks are gathered in an environment.
\<close>

subsection \<open>State\<close>

record ('k, 'p) http_env =
  he_recv :: "int \<Rightarrow> nat \<Rightarrow> byte list \<times> 'k \<Rightarrow> int \<times> byte list \<times> 'k"
  he_send :: "int \<Rightarrow> byte list \<Rightarrow> 'k \<Rightarrow> int \<times> 'k"
  he_engine :: "'p engine"
  he_reb :: http_rebalance
  he_lexical_cast :: "string \<Rightarrow> nat option"
  he_fnmatch :: "string \<Rightarrow> string \<Rightarrow> bool"
  he_cb :: "(sock_stream \<times> 'k) servlet_code"
  he_user :: "(sock_stream \<times> 'k) servlet_code"

record http_server = tcp_server +
  hs_keepalive :: bool
  hs_dispatch :: dispatch

subsection \<open>HttpSession\<close>

definition HttpSession :: "sock option \<Rightarrow> bool \<Rightarrow> sock_stream" where
  "HttpSession sock owner = SocketStream sock owner"

text \<open>
  The loop of \<open>recvRequest\<close>; \<open>dat\<close> is the valid part of the buffer, \<open>offset\<close> bytes. The result
  is the parser and what is left in the buffer, or \<open>None\<close> for the failures, all of which close
  the session. A peer that keeps sending and never finishes keeps it running.
\<close>

partial_function (option) recv_loop ::
  "('k, 'p) http_env \<Rightarrow> sock_stream \<Rightarrow> nat \<Rightarrow> 'p request_parser \<Rightarrow> string \<Rightarrow> 'k
   \<Rightarrow> (('p request_parser \<times> string) option \<times> 'k) option"
where
  "recv_loop env ss buff_size parser dat k =
     (case ss_read (he_recv env) ss (buff_size - length dat) k of (len, bs, k) \<Rightarrow>
        if len \<le> 0 then Some (None, k)
        else (case rp_execute (he_engine env) (he_reb env) (dat @ map char_of_byte bs) parser of (dat, parser) \<Rightarrow>
          if rp_hasError (he_engine env) parser then Some (None, k)
          else if length dat = buff_size then Some (None, k)
          else if rp_isFinished (he_engine env) parser then Some (Some (parser, dat), k)
          else recv_loop env ss buff_size parser dat k))"

text \<open>
  The body: \<open>length\<close> is an \<open>int64_t\<close>; what the buffer holds is copied to the front of a string
  of NULs, and the rest is read behind it. What the buffer holds beyond the body is lost.
\<close>

definition recv_body ::
  "('k, 'p) http_env \<Rightarrow> sock_stream \<Rightarrow> 'p request_parser \<Rightarrow> string \<Rightarrow> 'k
   \<Rightarrow> (http_request option \<times> sock_stream \<times> 'k) option"
where
  "recv_body env ss parser dat k =
     (let len = to_int64 (int (rp_getContentLength (he_lexical_cast env) parser)); req = rp_data parser in
      if len \<le> 0 then Some (Some (rq_init req), ss, k)
      else
        let body = replicate (nat len) (CHR 0x00);
            body = overwrite body 0 (take (nat len) dat);
            rest = len - int (length dat)
        in if rest \<le> 0 then Some (Some (rq_init (req\<lparr>rq_body := body\<rparr>)), ss, k)
           else case readFixSize (ss_read (he_recv env) ss) (nat rest) k of
               None \<Rightarrow> None
             | Some (rt, bs, k) \<Rightarrow>
                 if rt \<le> 0 then Some (None, ss_close ss, k)
                 else Some (Some (rq_init (req\<lparr>rq_body := overwrite body (length dat) (map char_of_byte bs)\<rparr>)), ss, k))"

definition recvRequest ::
  "('k, 'p) http_env \<Rightarrow> sock_stream \<Rightarrow> 'k \<Rightarrow> (http_request option \<times> sock_stream \<times> 'k) option"
where
  "recvRequest env ss k =
     (case recv_loop env ss GetHttpRequestBufferSize (HttpRequestParser (he_engine env)) [] k of
        None \<Rightarrow> None
      | Some (None, k) \<Rightarrow> Some (None, ss_close ss, k)
      | Some (Some (parser, dat), k) \<Rightarrow> recv_body env ss parser dat k)"

definition sendResponse :: "('k, 'p) http_env \<Rightarrow> sock_stream \<Rightarrow> http_response \<Rightarrow> 'k \<Rightarrow> int \<times> 'k" where
  "sendResponse env ss rsp k = (let dat = map byte_of (rs_dump rsp) in
     writeFixSize (ss_write (he_send env) ss) dat (length dat) k)"

subsection \<open>HttpServer\<close>

definition HttpServer :: "bool \<Rightarrow> http_server" where
  "HttpServer keepalive = tcp_server.extend (TcpServer\<lparr>ts_type := ''http''\<rparr>)
     (http_server.fields keepalive ServletDispatch)"

definition setServeltDispatch :: "dispatch \<Rightarrow> http_server \<Rightarrow> http_server" where
  "setServeltDispatch v srv = srv\<lparr>hs_dispatch := v\<rparr>"

definition hs_setName :: "string \<Rightarrow> http_server \<Rightarrow> http_server" where
  "hs_setName v srv = (let srv = tcp_setName v srv in
     srv\<lparr>hs_dispatch := setDefault (Some (NotFoundServlet v)) (hs_dispatch srv)\<rparr>)"

text \<open>One request that has been received: the response is made, filled in and sent.\<close>

definition serve ::
  "('k, 'p) http_env \<Rightarrow> http_server \<Rightarrow> http_request \<Rightarrow> sock_stream \<Rightarrow> 'k
   \<Rightarrow> http_request \<times> http_response \<times> sock_stream \<times> 'k"
where
  "serve env srv req ss k =
     (let rsp = HttpResponse (rq_version req) (rq_close req \<or> \<not> hs_keepalive srv);
          rsp = rs_setHeader (he_reb env) ''Server'' (ts_name srv) rsp;
          (_, req, rsp, ss, k) = ServletDispatch_handle (he_fnmatch env) (he_cb env) (he_user env) (he_reb env)
             (hs_dispatch srv) req rsp (ss, k);
          (_, k) = sendResponse env ss rsp k
      in (req, rsp, ss, k))"

partial_function (option) handle_loop ::
  "('k, 'p) http_env \<Rightarrow> http_server \<Rightarrow> sock_stream \<Rightarrow> 'k \<Rightarrow> (sock_stream \<times> 'k) option"
where
  "handle_loop env srv ss k =
     (case recvRequest env ss k of
        None \<Rightarrow> None
      | Some (req, ss, k) \<Rightarrow> (case req of
          None \<Rightarrow> Some (ss, k)
        | Some req \<Rightarrow> (case serve env srv req ss k of (req, rsp, ss, k) \<Rightarrow>
            if \<not> hs_keepalive srv \<or> rq_close req then Some (ss, k)
            else handle_loop env srv ss k)))"

definition handleClient :: "('k, 'p) http_env \<Rightarrow> http_server \<Rightarrow> sock \<Rightarrow> 'k \<Rightarrow> (sock_stream \<times> 'k) option" where
  "handleClient env srv client k =
     map_option (\<lambda>(ss, k). (ss_close ss, k)) (handle_loop env srv (HttpSession (Some client) True) k)"

end
