(* ===== verification/ServerProps.thy ===== *)
theory ServerProps
  imports HttpServer
begin

text \<open>
  What serving a client amounts to: the life of the session, the body of a request, the runs of
  the keep-alive loop, and what is sent.
\<close>

subsection \<open>Receiving a request\<close>

lemma close_disconnects [simp]: "\<not> ss_isConnected (ss_close ss)"
  by (simp add: ss_isConnected_def ss_close_def sk_close_def sk_connected_def call_def Let_def split: option.split)

text \<open>\<open>recvRequest\<close> that gives no request has closed the session, and then it is not
  connected any more; one that gives a request has left the session as it was.\<close>

lemma recvRequest_session:
  "(case recvRequest env ss k of None \<Rightarrow> True
    | Some (req, ss', _) \<Rightarrow> ss' = (if req = None then ss_close ss else ss))
   \<and> \<not> ss_isConnected (ss_close ss)"
  by (auto simp: recvRequest_def recv_body_def Let_def split: option.split prod.split)

lemma overwrite_pad: "overwrite (replicate n x) 0 (take n xs) = take n xs @ replicate (n - length xs) x"
  by (simp add: overwrite_def min_def)

text \<open>The body of a request of any announced length: it is complete when its bytes have arrived,
  but what is still to be read when the header has been parsed is counted in an \<open>int\<close>.\<close>

lemma receive_any_body:
  assumes "open_socket (he_recv env) ss incoming"
    and "recv_loop env ss GetHttpRequestBufferSize (HttpRequestParser (he_engine env)) [] k = Some (Some (p, dat), k1)"
    and "rp_getContentLength (he_lexical_cast env) p = n" "0 < n" "n < 2 ^ 63"
  shows "if \<not> n \<le> length dat + length (incoming k1) then recvRequest env ss k = None
     else if n \<le> length dat \<or> 0 < to_int32 (int (n - length dat))
     then \<exists>k2. recvRequest env ss k
           = Some (Some (rq_init ((rp_data p)\<lparr>rq_body := take n (dat @ map char_of_byte (incoming k1))\<rparr>)), ss, k2)
         \<and> incoming k2 = drop (n - length dat) (incoming k1)
     else \<exists>k2. recvRequest env ss k = Some (None, ss_close ss, k2) \<and> incoming k2 = drop (n - length dat) (incoming k1)"
proof -
  have len: "to_int64 (int n) = int n" using assms(5) by (simp add: to_int64_id)
  have rq: "recvRequest env ss k = recv_body env ss p dat k1" using assms(2) by (simp add: recvRequest_def)
  show ?thesis
  proof (cases "n \<le> length dat")
    case True
    then show ?thesis unfolding rq recv_body_def assms(3)
      using assms(4) by (simp add: Let_def len overwrite_pad)
  next
    case False
    let ?r = "n - length dat"
    have rest: "nat (int n - int (length dat)) = ?r" by simp
    have b: "overwrite (overwrite (replicate n (CHR 0x00)) 0 (take n dat)) (length dat) (map char_of_byte (take ?r (incoming k1)))
        = take n (dat @ map char_of_byte (incoming k1))" if "?r \<le> length (incoming k1)"
      using that False by (simp add: overwrite_pad overwrite_def take_map)
    from reliable_source.readFixSize_all[OF open_socket.source[OF assms(1)], of ?r k1] assms(5)
    have r: "if ?r \<le> length (incoming k1)
       then \<exists>k2. readFixSize (ss_read (he_recv env) ss) ?r k1 = Some (to_int32 (int ?r), take ?r (incoming k1), k2)
         \<and> incoming k2 = drop ?r (incoming k1)
       else readFixSize (ss_read (he_recv env) ss) ?r k1 = None" by simp
    show ?thesis
    proof (cases "?r \<le> length (incoming k1)")
      case True
      then obtain k2 where k2: "readFixSize (ss_read (he_recv env) ss) ?r k1 = Some (to_int32 (int ?r), take ?r (incoming k1), k2)"
        "incoming k2 = drop ?r (incoming k1)" using r by auto
      have le: "n \<le> length dat + length (incoming k1)" using True False by simp
      show ?thesis
      proof (cases "0 < to_int32 (int ?r)")
        case True
        with k2 le False b[OF \<open>?r \<le> length (incoming k1)\<close>] show ?thesis unfolding rq recv_body_def assms(3)
          by (simp add: Let_def len rest)
      next
        case fail: False
        with k2 le False show ?thesis unfolding rq recv_body_def assms(3)
          by (simp add: Let_def len rest)
      qed
    next
      case never: False
      then have "\<not> n \<le> length dat + length (incoming k1)" using False by simp
      with r never False show ?thesis unfolding rq recv_body_def assms(3)
        by (simp add: Let_def len rest)
    qed
  qed
qed

lemma receive_body:
  assumes "open_socket (he_recv env) ss incoming"
    and "recv_loop env ss GetHttpRequestBufferSize (HttpRequestParser (he_engine env)) [] k = Some (Some (p, dat), k1)"
    and "rp_getContentLength (he_lexical_cast env) p = n" "0 < n" "n < 2 ^ 31"
  shows "if n \<le> length dat + length (incoming k1)
     then \<exists>k2. recvRequest env ss k
           = Some (Some (rq_init ((rp_data p)\<lparr>rq_body := take n (dat @ map char_of_byte (incoming k1))\<rparr>)), ss, k2)
         \<and> incoming k2 = drop (n - length dat) (incoming k1)
     else recvRequest env ss k = None"
proof -
  have "n \<le> length dat \<or> 0 < to_int32 (int (n - length dat))"
    using assms(5) by (cases "n \<le> length dat") (simp_all add: to_int32_id)
  then show ?thesis using receive_any_body[OF assms(1-4)] assms(5) by (simp split: if_splits)
qed

text \<open>C12: over a connection whose calls do not fail, a request whose header is complete and
  announces \<open>n\<close> bytes, a positive \<open>int64_t\<close> for which the string can be had, has as its body exactly
  the next \<open>n\<close> bytes, part of them from the buffer, when the number of bytes not yet in the buffer is
  positive as an \<open>int\<close> or none are missing: always for \<open>n\<close> below \<open>2 ^ 31\<close> (\<open>receive_body\<close>). If that number is not positive as an
  \<open>int\<close>, as for \<open>2 ^ 31\<close> missing bytes, \<open>recvRequest\<close> reads all of them, closes the session and gives no
  request. If the peer closes before it has sent them, \<open>recvRequest\<close> never returns.\<close>

theorem request_body:
  assumes "open_socket (he_recv env) ss incoming"
    and "recv_loop env ss GetHttpRequestBufferSize (HttpRequestParser (he_engine env)) [] k = Some (Some (p, dat), k1)"
    and "rp_getContentLength (he_lexical_cast env) p = n" "0 < n" "n < 2 ^ 63"
  shows "if \<not> n \<le> length dat + length (incoming k1) then recvRequest env ss k = None
     else if n \<le> length dat \<or> 0 < to_int32 (int (n - length dat))
     then \<exists>k2. recvRequest env ss k
           = Some (Some (rq_init ((rp_data p)\<lparr>rq_body := take n (dat @ map char_of_byte (incoming k1))\<rparr>)), ss, k2)
         \<and> incoming k2 = drop (n - length dat) (incoming k1)
     else \<exists>k2. recvRequest env ss k = Some (None, ss_close ss, k2) \<and> incoming k2 = drop (n - length dat) (incoming k1)"
  by (rule receive_any_body[OF assms])

text \<open>An environment: the parser takes the first character as the length of the body.\<close>

definition demo_engine :: "unit engine" where
  "demo_engine = \<lparr>e_init = (), e_execute = (\<lambda>_ dat. ([On_field ''content-length'' 14 dat 1], min 1 (length dat), ())),
     e_finish = (\<lambda>_. 1), e_has_error = (\<lambda>_. False)\<rparr>"

definition demo_env :: "(byte list \<times> nat list, unit) http_env" where
  "demo_env = \<lparr>he_recv = pipe_recv, he_send = pipe_send, he_engine = demo_engine,
     he_reb = (\<lambda>_ xs. foldr (\<lambda>x t. Node Leaf x t) xs Leaf), he_lexical_cast = (\<lambda>s. Some (dec_val s)),
     he_fnmatch = (\<lambda>_ _. False), he_cb = (\<lambda>_ req rsp w. (0, req, rsp, w)), he_user = (\<lambda>_ req rsp w. (0, req, rsp, w))\<rparr>"

lemma demo_env_simps [simp]:
  "he_recv demo_env = pipe_recv" "he_send demo_env = pipe_send" "he_engine demo_env = demo_engine"
  "he_lexical_cast demo_env = (\<lambda>s. Some (dec_val s))"
  by (simp_all add: demo_env_def)

abbreviation demo_ss :: sock_stream where
  "demo_ss \<equiv> SocketStream (Some demo_sock) True"

lemma rq_init_body [simp]: "rq_body (rq_init r) = rq_body r"
  by (simp add: rq_init_def Let_def)

lemma dec_val_digit5: "dec_val ''5'' = 5"
  by code_simp

theorem request_body_witness:
  "(\<exists>req k2. recvRequest demo_env demo_ss ([53, 104, 101, 108, 108, 111], [2]) = Some (Some req, demo_ss, k2)
      \<and> rq_body req = ''hello'')
   \<and> recvRequest demo_env demo_ss ([53, 104, 101, 108], [2]) = None"
proof -
  define p where "p = on_request_http_field (he_reb demo_env) ''content-length'' 14 ''5he'' 1 (HttpRequestParser demo_engine)"
  have loop: "recv_loop demo_env demo_ss GetHttpRequestBufferSize (HttpRequestParser demo_engine) [] ([53, 104, 101] @ xs, [2])
      = Some (Some (p, ''he''), (xs, []))" for xs
  proof -
    have "ss_read pipe_recv demo_ss 4096 ([53, 104, 101] @ xs, [2]) = (3, [53, 104, 101], (xs, []))"
      by (simp add: ss_read_open[OF demo_connected] pipe_recv_def)
    moreover have "map char_of_byte [53, 104, 101] = ''5he''" by code_simp
    moreover have "rp_execute demo_engine (he_reb demo_env) ''5he'' (HttpRequestParser demo_engine) = (''he'', p)"
      by (simp add: rp_execute_def demo_engine_def on_request_event_def p_def HttpRequestParser_def)
    moreover have "\<not> rp_hasError demo_engine p" "rp_isFinished demo_engine p"
      by (simp_all add: p_def rp_hasError_def rp_isFinished_def demo_engine_def on_request_http_field_def rp_upd_def
          HttpRequestParser_def)
    ultimately show ?thesis
      by (subst recv_loop.simps) (simp add: GetHttpRequestBufferSize_def)
  qed
  have n: "rp_getContentLength (he_lexical_cast demo_env) p = 5"
  proof -
    have "\<not> same_ci ''content-length'' ''connection''" "\<not> same_ci [] ''content-length''" by code_simp+
    then have "rq_headers (rp_data p) = Node Leaf (''content-length'', ''5'') Leaf"
      by (simp add: p_def on_request_http_field_def rp_upd_def rq_setHeader_def HttpRequestParser_def HttpRequest_def
          st_set_def st_slot.simps insert_at_def demo_env_def)
    moreover have "hm_get ''content-length'' (Node Leaf (''content-length'', ''5'') Leaf) = Some ''5''" by code_simp
    ultimately show ?thesis by (simp add: rp_getContentLength_def getAs_def dec_val_digit5)
  qed
  have o: "open_socket (he_recv demo_env) demo_ss fst" by (simp add: pipe.open_socket_axioms)
  have x: "recv_loop demo_env demo_ss GetHttpRequestBufferSize (HttpRequestParser (he_engine demo_env)) [] ([53, 104, 101] @ xs, [2])
      = Some (Some (p, ''he''), (xs, []))" for xs using loop[of xs] by simp
  have h: "take 5 (''he'' @ map char_of_byte [108, 108, 111]) = ''hello''" by code_simp
  have "to_int32 3 = 3" by (simp add: to_int32_id)
  then show ?thesis
    using request_body[OF o x n, of "[108, 108, 111]"] request_body[OF o x n, of "[108]"] h by auto
qed

subsection \<open>The keep-alive loop\<close>

text \<open>
  The runs of the loop as a relation: the requests that were answered, with their responses.
\<close>

inductive session_run ::
  "('k, 'p) http_env \<Rightarrow> http_server \<Rightarrow> sock_stream \<Rightarrow> 'k \<Rightarrow> (http_request \<times> http_response) list
   \<Rightarrow> sock_stream \<Rightarrow> 'k \<Rightarrow> bool" for env srv
where
  Run_fail: "recvRequest env ss k = Some (None, ss', k') \<Longrightarrow> session_run env srv ss k [] ss' k'"
| Run_last: "recvRequest env ss k = Some (Some req, ss1, k1) \<Longrightarrow> serve env srv req ss1 k1 = (req', rsp, ss', k')
    \<Longrightarrow> \<not> hs_keepalive srv \<or> rq_close req' \<Longrightarrow> session_run env srv ss k [(req', rsp)] ss' k'"
| Run_more: "recvRequest env ss k = Some (Some req, ss1, k1) \<Longrightarrow> serve env srv req ss1 k1 = (req', rsp, ss2, k2)
    \<Longrightarrow> hs_keepalive srv \<Longrightarrow> \<not> rq_close req' \<Longrightarrow> session_run env srv ss2 k2 ts ss' k'
    \<Longrightarrow> session_run env srv ss k ((req', rsp) # ts) ss' k'"

lemma run_loop: "session_run env srv ss k ts ss' k' \<Longrightarrow> handle_loop env srv ss k = Some (ss', k')"
  by (induction rule: session_run.induct) (subst handle_loop.simps; simp)+

lemma loop_run:
  assumes "handle_loop env srv ss k = Some y"
  shows "\<exists>ts. session_run env srv ss k ts (fst y) (snd y)"
proof (induction env srv ss k y rule: handle_loop.raw_induct)
  case (1 f env srv ss k y)
  show ?case
  proof (cases "recvRequest env ss k")
    case None
    with "1.hyps" show ?thesis by simp
  next
    case (Some a)
    obtain r ss1 k1 where a: "a = (r, ss1, k1)" by (cases a) auto
    show ?thesis
    proof (cases r)
      case None
      then have "recvRequest env ss k = Some (None, ss1, k1)" "y = (ss1, k1)" using Some a "1.hyps" by simp_all
      with Run_fail[of env ss k ss1 k1 srv] show ?thesis by auto
    next
      case (Some req)
      obtain req' rsp ss2 k2 where s: "serve env srv req ss1 k1 = (req', rsp, ss2, k2)"
        by (cases "serve env srv req ss1 k1") auto
      note rq = \<open>recvRequest env ss k = Some a\<close>[unfolded a Some]
      show ?thesis
      proof (cases "\<not> hs_keepalive srv \<or> rq_close req'")
        case True
        then have "y = (ss2, k2)" using rq s "1.hyps" by simp
        with Run_last[OF rq s True] show ?thesis by auto
      next
        case False
        then have "f env srv ss2 k2 = Some y" using rq s "1.hyps" by simp
        from "1.IH"[OF this] obtain ts where "session_run env srv ss2 k2 ts (fst y) (snd y)" by blast
        with Run_more[OF rq s] False show ?thesis by blast
      qed
    qed
  qed
qed (rule assms)

text \<open>A response says whether the server goes on, when the servlet leaves the flags alone.\<close>

definition keeps_flags :: "('k, 'p) http_env \<Rightarrow> bool" where
  "keeps_flags env \<longleftrightarrow> (\<forall>u req rsp w.
     (\<forall>r q s w'. he_cb env u req rsp w = (r, q, s, w') \<longrightarrow> rq_close q = rq_close req \<and> rs_close s = rs_close rsp)
     \<and> (\<forall>r q s w'. he_user env u req rsp w = (r, q, s, w') \<longrightarrow> rq_close q = rq_close req \<and> rs_close s = rs_close rsp))"

lemma keepsD:
  assumes "keeps_flags env"
  shows "he_cb env u req rsp w = (r, q, s, w') \<Longrightarrow> rq_close q = rq_close req \<and> rs_close s = rs_close rsp"
    "he_user env u req rsp w = (r, q, s, w') \<Longrightarrow> rq_close q = rq_close req \<and> rs_close s = rs_close rsp"
  using assms unfolding keeps_flags_def by blast+

lemma serve_flags:
  assumes "keeps_flags env" "serve env srv req ss k = (req', rsp, ss', k')"
  shows "rs_close rsp = (\<not> hs_keepalive srv \<or> rq_close req')"
proof -
  let ?rsp = "rs_setHeader (he_reb env) ''Server'' (ts_name srv) (HttpResponse (rq_version req) (rq_close req \<or> \<not> hs_keepalive srv))"
  obtain r q s w where d: "ServletDispatch_handle (he_fnmatch env) (he_cb env) (he_user env) (he_reb env)
      (hs_dispatch srv) req ?rsp (ss, k) = (r, q, s, w)" by (cases "ServletDispatch_handle (he_fnmatch env) (he_cb env) (he_user env) (he_reb env)
      (hs_dispatch srv) req ?rsp (ss, k)") auto
  have "rq_close q = rq_close req \<and> rs_close s = rs_close ?rsp"
    using d
    by (auto simp: ServletDispatch_handle_def servlet_handle_def NotFoundServlet_handle_def rs_setHeader_def
        Let_def split: option.splits servlet.splits prod.splits dest: keepsD[OF assms(1)])
  moreover have "req' = q" "rsp = s" using assms(2) d by (auto simp: serve_def Let_def split: prod.splits)
  ultimately show ?thesis by (auto simp: rs_setHeader_def HttpResponse_def)
qed

lemma run_shape:
  assumes "session_run env srv ss k ts ss' k'"
  shows "(\<forall>t \<in> set (butlast ts). hs_keepalive srv \<and> \<not> rq_close (fst t)) \<and> (\<not> hs_keepalive srv \<longrightarrow> length ts \<le> 1)"
  using assms by (induction rule: session_run.induct) auto

lemma run_flags:
  assumes "keeps_flags env" "session_run env srv ss k ts ss' k'"
  shows "\<forall>t \<in> set ts. rs_close (snd t) = (\<not> hs_keepalive srv \<or> rq_close (fst t))"
  using assms(2) by (induction rule: session_run.induct) (auto dest: serve_flags[OF assms(1)])

text \<open>C3: \<open>handleClient\<close> returns just when the loop has a finite run, and then with the session
  closed. After every request but the last the server has keep-alive and the request, as the
  servlet left it, does not ask to close; a server without keep-alive answers at most one request.
  If the servlets and callbacks leave the close flags of the request and of the response alone
  (\<open>keeps_flags\<close>), every response announces whether the loop goes on after it.\<close>

theorem handleClient_runs:
  "(handleClient env srv client k = Some (ss', k')) =
     (\<exists>ts ss1. session_run env srv (HttpSession (Some client) True) k ts ss1 k' \<and> ss' = ss_close ss1
       \<and> (\<forall>t \<in> set (butlast ts). hs_keepalive srv \<and> \<not> rq_close (fst t))
       \<and> (\<not> hs_keepalive srv \<longrightarrow> length ts \<le> 1)
       \<and> (keeps_flags env \<longrightarrow> (\<forall>t \<in> set ts. rs_close (snd t) = (\<not> hs_keepalive srv \<or> rq_close (fst t)))))"
  (is "?l = ?r")
proof
  assume ?l
  then obtain ss1 where "handle_loop env srv (HttpSession (Some client) True) k = Some (ss1, k')" "ss' = ss_close ss1"
    by (auto simp: handleClient_def)
  moreover from loop_run[OF this(1)] obtain ts where
    run: "session_run env srv (HttpSession (Some client) True) k ts ss1 k'" by auto
  ultimately show ?r using run_shape[OF run] run_flags[OF _ run] by blast
next
  assume ?r
  then show ?l using run_loop by (fastforce simp: handleClient_def)
qed

text \<open>A session of two requests: the parser takes every character for a request that asks to keep
  the connection, and the kernel gives one character at a time and takes all that is sent.\<close>

definition keep_engine :: "unit engine" where
  "keep_engine = \<lparr>e_init = (), e_execute = (\<lambda>_ dat. ([On_field ''connection'' 10 ''keep-alive'' 10], min 1 (length dat), ())),
     e_finish = (\<lambda>_. 1), e_has_error = (\<lambda>_. False)\<rparr>"

definition keep_env :: "(byte list \<times> nat list, unit) http_env" where
  "keep_env = demo_env\<lparr>he_engine := keep_engine, he_send := (\<lambda>_ bs k. (int (length bs), k))\<rparr>"

definition keep_request :: http_request where
  "keep_request = (HttpRequest 0x11 False)\<lparr>rq_headers := Node Leaf (''connection'', ''keep-alive'') Leaf\<rparr>"

lemma writeFix_loop_state:
  "(\<And>bs st. snd (wr bs st) = st) \<Longrightarrow> snd (writeFix_loop wr buffer offset rest st) = st"
proof (induction wr buffer offset rest st rule: writeFix_loop.induct)
  case (1 wr buffer offset rest st)
  obtain len st' where w: "wr (take (nat rest) (drop offset buffer)) st = (len, st')" by (cases "wr (take (nat rest) (drop offset buffer)) st")
  with "1.prems"[of "take (nat rest) (drop offset buffer)" st] have "st' = st" by simp
  with w "1.IH" "1.prems" show ?case by (subst writeFix_loop.simps) simp
qed

lemma sendResponse_keep: "\<exists>r. sendResponse keep_env demo_ss rsp k = (r, k)"
proof -
  have "snd (writeFixSize (ss_write (he_send keep_env) demo_ss) buffer n k) = k" for buffer n
    using writeFix_loop_state[of "ss_write (he_send keep_env) demo_ss" buffer 0 "to_int64 (int n)" k]
    by (cases "writeFix_loop (ss_write (he_send keep_env) demo_ss) buffer 0 (to_int64 (int n)) k")
       (simp add: ss_write_open[OF demo_connected] keep_env_def writeFixSize_def)
  then show ?thesis unfolding sendResponse_def Let_def by (metis prod.collapse)
qed

lemma serve_keep: "\<exists>rsp. serve keep_env (HttpServer True) keep_request demo_ss k = (keep_request, rsp, demo_ss, k)"
proof -
  let ?rsp = "rs_setHeader (he_reb keep_env) ''Server'' (ts_name (HttpServer True))
    (HttpResponse (rq_version keep_request) (rq_close keep_request \<or> \<not> hs_keepalive (HttpServer True)))"
  have "getMatchedServlet (he_fnmatch keep_env) (rq_path keep_request) (hs_dispatch (HttpServer True)) = Some (NotFoundServlet ''Sylar/1.0'')"
    by (simp add: getMatchedServlet_def keep_env_def keep_request_def demo_env_def HttpRequest_def HttpServer_def
        tcp_server.defs http_server.defs ServletDispatch_def)
  then have d: "ServletDispatch_handle (he_fnmatch keep_env) (he_cb keep_env) (he_user keep_env) (he_reb keep_env)
      (hs_dispatch (HttpServer True)) keep_request ?rsp (demo_ss, k)
      = (0, keep_request, NotFoundServlet_handle (he_reb keep_env) ''Sylar/1.0'' ?rsp, demo_ss, k)"
    by (simp add: ServletDispatch_handle_def servlet_handle_def)
  obtain r where "sendResponse keep_env demo_ss (NotFoundServlet_handle (he_reb keep_env) ''Sylar/1.0'' ?rsp) k = (r, k)"
    using sendResponse_keep by blast
  with d show ?thesis by (simp add: serve_def Let_def)
qed

lemma receive_keep:
  "recvRequest keep_env demo_ss (c # cs, 0 # qs) = Some (Some keep_request, demo_ss, (cs, qs))"
proof -
  define p where "p = on_request_http_field (he_reb keep_env) ''connection'' 10 ''keep-alive'' 10 (HttpRequestParser keep_engine)"
  have "\<not> same_ci [] ''connection''" by code_simp
  then have h: "rq_headers (rp_data p) = Node Leaf (''connection'', ''keep-alive'') Leaf"
    by (simp add: p_def on_request_http_field_def rp_upd_def rq_setHeader_def HttpRequestParser_def HttpRequest_def
        st_set_def st_slot.simps insert_at_def demo_env_def keep_env_def)
  have "ss_read pipe_recv demo_ss 4096 (c # cs, 0 # qs) = (1, [c], (cs, qs))"
    by (simp add: ss_read_open[OF demo_connected] pipe_recv_def)
  moreover have "rp_execute keep_engine (he_reb keep_env) [char_of_byte c] (HttpRequestParser keep_engine) = ([], p)"
    by (simp add: rp_execute_def keep_engine_def on_request_event_def p_def HttpRequestParser_def)
  moreover have "\<not> rp_hasError keep_engine p" "rp_isFinished keep_engine p"
    by (simp_all add: p_def rp_hasError_def rp_isFinished_def keep_engine_def on_request_http_field_def rp_upd_def HttpRequestParser_def)
  ultimately have "recv_loop keep_env demo_ss GetHttpRequestBufferSize (HttpRequestParser (he_engine keep_env)) [] (c # cs, 0 # qs)
      = Some (Some (p, []), (cs, qs))"
    by (subst recv_loop.simps) (simp add: GetHttpRequestBufferSize_def keep_env_def)
  moreover have "rp_getContentLength (he_lexical_cast keep_env) p = 0"
  proof -
    have "hm_get ''content-length'' (Node Leaf (''connection'', ''keep-alive'') Leaf) = None" by code_simp
    then show ?thesis by (simp add: rp_getContentLength_def getAs_def h)
  qed
  moreover have "rq_init (rp_data p) = keep_request"
  proof -
    have "hm_get ''connection'' (Node Leaf (''connection'', ''keep-alive'') Leaf) = Some ''keep-alive''"
      "same_ci ''keep-alive'' ''keep-alive''" by code_simp+
    then show ?thesis
      using h by (simp add: rq_init_def rq_getHeader_def keep_request_def p_def on_request_http_field_def rp_upd_def
        rq_setHeader_def HttpRequestParser_def HttpRequest_def)
  qed
  ultimately show ?thesis by (simp add: recvRequest_def recv_body_def to_int64_id)
qed

lemma keep_run:
  "\<exists>r1 r2. session_run keep_env (HttpServer True) demo_ss ([65, 66], [0, 0])
     [(keep_request, r1), (keep_request, r2)] (ss_close demo_ss) ([], [])"
proof -
  have "ss_read pipe_recv demo_ss n ([], []) = (0, [], ([], []))" for n
    by (simp add: ss_read_open[OF demo_connected] pipe_recv_def)
  then have e: "recvRequest keep_env demo_ss ([], []) = Some (None, ss_close demo_ss, ([], []))"
    by (simp add: recvRequest_def recv_loop.simps keep_env_def demo_env_def)
  have k: "hs_keepalive (HttpServer True)" "\<not> rq_close keep_request"
    by (simp_all add: HttpServer_def http_server.defs tcp_server.defs keep_request_def HttpRequest_def)
  obtain r1 r2 where "serve keep_env (HttpServer True) keep_request demo_ss ([66], [0]) = (keep_request, r1, demo_ss, ([66], [0]))"
    "serve keep_env (HttpServer True) keep_request demo_ss ([], []) = (keep_request, r2, demo_ss, ([], []))"
    using serve_keep[of "([66], [0])"] serve_keep[of "([], [])"] by blast
  then show ?thesis
    using Run_more[OF receive_keep _ k Run_more[OF receive_keep _ k Run_fail[OF e]]] by blast
qed

theorem handleClient_runs_witness:
  "\<exists>ts ss1. length ts = 2 \<and> session_run keep_env (HttpServer True) demo_ss ([65, 66], [0, 0]) ts ss1 ([], [])
     \<and> (\<forall>t \<in> set ts. \<not> rs_close (snd t))
     \<and> handleClient keep_env (HttpServer True) demo_sock ([65, 66], [0, 0]) = Some (ss_close ss1, ([], []))"
proof -
  obtain r1 r2 where run: "session_run keep_env (HttpServer True) demo_ss ([65, 66], [0, 0])
     [(keep_request, r1), (keep_request, r2)] (ss_close demo_ss) ([], [])"
    using keep_run by blast
  have k: "hs_keepalive (HttpServer True)" "\<not> rq_close keep_request"
    by (simp_all add: HttpServer_def http_server.defs tcp_server.defs keep_request_def HttpRequest_def)
  have "keeps_flags keep_env" by (simp add: keeps_flags_def keep_env_def demo_env_def)
  from run_flags[OF this run] k have f: "\<not> rs_close r1" "\<not> rs_close r2" by simp_all
  have "handleClient keep_env (HttpServer True) demo_sock ([65, 66], [0, 0]) = Some (ss_close (ss_close demo_ss), ([], []))"
    unfolding handleClient_runs
    using run f k by (intro exI[of _ "[(keep_request, r1), (keep_request, r2)]"] exI[of _ "ss_close demo_ss"]) (simp add: HttpSession_def)
  then show ?thesis using run f
    by (intro exI[of _ "[(keep_request, r1), (keep_request, r2)]"] exI[of _ "ss_close demo_ss"]) simp
qed

subsection \<open>A path that is not registered\<close>

text \<open>The answer is a prefix of the printed 404 response, all of it unless the kernel fails.\<close>

lemma not_found_served:
  assumes "open_sink (he_send env) ss sent"
    and "getMatchedServlet (he_fnmatch env) (rq_path req) (hs_dispatch srv) = Some (NotFoundServlet name)"
    and "serve env srv req ss k = (req', rsp, ss', k')" "length (rs_dump rsp) < 2 ^ 31"
  shows "req' = req \<and> ss' = ss \<and> rs_status rsp = 404 \<and> rs_body rsp = not_found_content name
     \<and> rs_close rsp = (rq_close req \<or> \<not> hs_keepalive srv)
     \<and> (\<exists>m \<le> length (rs_dump rsp). sent k' = sent k @ take m (map byte_of (rs_dump rsp)))"
proof -
  let ?rsp = "rs_setHeader (he_reb env) ''Server'' (ts_name srv) (HttpResponse (rq_version req) (rq_close req \<or> \<not> hs_keepalive srv))"
  have d: "ServletDispatch_handle (he_fnmatch env) (he_cb env) (he_user env) (he_reb env) (hs_dispatch srv) req ?rsp (ss, k)
      = (0, req, NotFoundServlet_handle (he_reb env) name ?rsp, ss, k)"
    using assms(2) by (simp add: ServletDispatch_handle_def servlet_handle_def)
  have s: "req' = req" "rsp = NotFoundServlet_handle (he_reb env) name ?rsp" "ss' = ss"
    "sendResponse env ss rsp k = (fst (sendResponse env ss rsp k), k')"
    using assms(3) d by (auto simp: serve_def Let_def split: prod.splits)
  let ?dat = "map byte_of (rs_dump rsp)"
  obtain m where "m \<le> length ?dat" "sent k' = sent k @ take m ?dat"
    using write_fix_mem[OF assms(1), of "length ?dat" ?dat k] s(4) assms(4) by (auto simp: sendResponse_def Let_def)
  moreover have "rs_status rsp = 404 \<and> rs_body rsp = not_found_content name \<and> rs_close rsp = rs_close ?rsp"
    unfolding s(2) by (simp add: NotFoundServlet_handle_def rs_setHeader_def Let_def)
  ultimately show ?thesis using s(1,3) by (auto simp: rs_setHeader_def HttpResponse_def)
qed

end
