(* ===== verification/Ragel.thy ===== *)
theory Ragel
  imports Prelude CString
begin

text \<open>
  What the state machines under \<^verbatim>\<open>include/\<close> (\<^verbatim>\<open>http11_parser.cc\<close>, \<^verbatim>\<open>httpclient_parser.cc\<close>,
  \<^verbatim>\<open>uri.cc\<close>) have in common. A label \<open>case n\<close> is a function from the current character to where the
  code goes: through a label \<open>tr\<close> with its actions to the next \<open>st\<close>, to \<open>st0\<close>, or out of the
  machine in the middle of an action.
\<close>

datatype 'a goto =
    Goto "'a list" nat    \<comment> \<open>actions, then \<open>goto st\<close>\<close>
  | Break "'a list" nat   \<comment> \<open>actions, of which the last is \<open>{p++; cs = n; goto _out;}\<close>\<close>
  | Fail                  \<comment> \<open>\<open>goto st0\<close>\<close>
  | No_case               \<comment> \<open>no \<open>case\<close> of the \<open>switch\<close> matches \<open>cs\<close>\<close>

text \<open>The value of a \<open>char\<close>, which is signed.\<close>

definition schar :: "char \<Rightarrow> int" where
  "schar c = (let n = of_char c in if n < (128 :: int) then n else n - 256)"

text \<open>
  The machine from state \<open>cs\<close> on: \<open>rest\<close> is the memory from \<open>p\<close> to \<open>pe\<close>. The result is \<open>cs\<close>
  and \<open>p\<close> at \<open>_out\<close> and the state that the actions have changed.
\<close>

fun machine_run ::
  "(nat \<Rightarrow> char \<Rightarrow> 'a goto) \<Rightarrow> ('a \<Rightarrow> nat \<Rightarrow> 's \<Rightarrow> 's) \<Rightarrow> nat \<Rightarrow> nat \<Rightarrow> string \<Rightarrow> 's \<Rightarrow> nat \<times> nat \<times> 's"
where
  "machine_run sw act cs p [] s = (cs, p, s)"
| "machine_run sw act cs p (c # rest) s = (case sw cs c of
     Goto as n \<Rightarrow> machine_run sw act n (p + 1) rest (fold (\<lambda>a. act a p) as s)
   | Break as n \<Rightarrow> (n, p + 1, fold (\<lambda>a. act a p) as s)
   | Fail \<Rightarrow> (0, p, s)
   | No_case \<Rightarrow> (cs, p, s))"

lemma machine_run_Goto:
  "sw cs c = Goto as n \<Longrightarrow> machine_run sw act cs p (c # rest) s = machine_run sw act n (Suc p) rest (fold (\<lambda>a. act a p) as s)"
  by simp

text \<open>Where the machine stays in a state, or goes through one without an action, it only moves on.\<close>

lemma machine_run_loop:
  assumes "list_all (\<lambda>c. sw cs c = Goto [] cs) xs"
  shows "machine_run sw act cs p (xs @ rest) s = machine_run sw act cs (p + length xs) rest s"
  using assms by (induction xs arbitrary: p) auto

text \<open>What the machine has read is a prefix of its input, and where it stops lies in it.\<close>

lemma machine_run_bounds:
  "machine_run sw act cs p rest s = (cs', p', s') \<Longrightarrow> p \<le> p' \<and> p' \<le> p + length rest"
  by (induction sw act cs p rest s rule: machine_run.induct) (fastforce split: goto.splits)+

text \<open>
  An invariant that relates the state of the machine, the position and what the actions have
  changed; \<open>J\<close> is what it says when the machine is left.
\<close>

lemma machine_run_inv:
  assumes "machine_run sw act cs p rest s = (cs', p', s')" "I cs p s"
    and goto: "\<And>cs c as n q s. sw cs c = Goto as n \<Longrightarrow> I cs q s \<Longrightarrow> q < p + length rest \<Longrightarrow> I n (Suc q) (fold (\<lambda>a. act a q) as s)"
    and break: "\<And>cs c as n q s. sw cs c = Break as n \<Longrightarrow> I cs q s \<Longrightarrow> q < p + length rest \<Longrightarrow> J (Suc q) (fold (\<lambda>a. act a q) as s)"
    and left: "\<And>cs q s. I cs q s \<Longrightarrow> J q s"
  shows "J p' s'"
proof -
  have "J p' s'" if "I cs p s" "e = p + length rest" "machine_run sw act cs p rest s = (cs', p', s')"
    "\<And>cs c as n q s. sw cs c = Goto as n \<Longrightarrow> I cs q s \<Longrightarrow> q < e \<Longrightarrow> I n (Suc q) (fold (\<lambda>a. act a q) as s)"
    "\<And>cs c as n q s. sw cs c = Break as n \<Longrightarrow> I cs q s \<Longrightarrow> q < e \<Longrightarrow> J (Suc q) (fold (\<lambda>a. act a q) as s)" for e
    using that(1-3)
  proof (induction rest arbitrary: cs p s)
    case Nil
    then show ?case by (auto intro: left)
  next
    case (Cons c rest)
    show ?case
    proof (cases "sw cs c")
      case (Goto as n)
      then have "I n (Suc p) (fold (\<lambda>a. act a p) as s)" using Cons.prems by (intro that(4)) auto
      then show ?thesis using Cons.IH[of n "Suc p"] Cons.prems Goto by simp
    next
      case (Break as n)
      then have "J (Suc p) (fold (\<lambda>a. act a p) as s)" using Cons.prems by (intro that(5)) auto
      then show ?thesis using Break Cons.prems by simp
    next
      case Fail
      then show ?thesis using Cons.prems by (auto intro: left)
    next
      case No_case
      then show ?thesis using Cons.prems by (auto intro: left)
    qed
  qed
  from this[OF assms(2) refl assms(1) goto break] show ?thesis .
qed

text \<open>Where the machine goes does not depend on what the actions do.\<close>

lemma machine_run_control:
  "fst (machine_run sw act cs p rest s) = fst (machine_run sw act' cs q rest t)
   \<and> fst (snd (machine_run sw act cs p rest s)) + q = fst (snd (machine_run sw act' cs q rest t)) + p"
proof (induction rest arbitrary: cs p q s t)
  case (Cons c rest)
  show ?case
  proof (cases "sw cs c")
    case (Goto as n)
    then show ?thesis using Cons[of n "Suc p" _ "Suc q"] by simp
  qed simp_all
qed simp

text \<open>
  A run that gets beyond \<open>xs\<close> has gone through all of it without leaving the machine: what the
  transitions promise of their targets (\<open>P\<close>) holds of the state it is in there.
\<close>

lemma machine_run_append:
  assumes "machine_run sw act cs p (xs @ ys) s = (cs', p', s')" "p + length xs < p'" "P cs"
    and P: "\<And>cs c as n. sw cs c = Goto as n \<Longrightarrow> P n"
  shows "\<exists>cm sm. machine_run sw act cs p xs s = (cm, p + length xs, sm) \<and> P cm
    \<and> machine_run sw act cm (p + length xs) ys sm = (cs', p', s')"
  using assms(1-3)
proof (induction xs arbitrary: cs p s)
  case (Cons c xs)
  from Cons.prems obtain as n where g: "sw cs c = Goto as n" by (auto split: goto.splits)
  from Cons.IH[of n "Suc p"] Cons.prems(1,2) g P[OF g] show ?case by simp
qed simp

text \<open>An invariant that speaks of the text read so far, for a machine that is not left in an action.\<close>

lemma machine_run_text:
  assumes "machine_run sw act cs 0 t s = (cs', p', s')" "I cs [] s"
    and goto: "\<And>cs c as n xs ys s. sw cs c = Goto as n \<Longrightarrow> I cs xs s \<Longrightarrow> t = xs @ c # ys \<Longrightarrow> I n (xs @ [c]) (fold (\<lambda>a. act a (length xs)) as s)"
    and break: "\<And>cs c as n. sw cs c \<noteq> Break as n"
  shows "\<exists>cs0. I cs0 (take p' t) s' \<and> (p' = length t \<longrightarrow> cs0 = cs')"
proof -
  have "\<exists>cs0. I cs0 (take p' t) s' \<and> (p' = length t \<longrightarrow> cs0 = cs')"
    if "machine_run sw act cs (length xs) ys s = (cs', p', s')" "I cs xs s" "t = xs @ ys" for cs xs ys s
    using that
  proof (induction ys arbitrary: cs xs s)
    case (Cons c ys)
    show ?case
    proof (cases "sw cs c")
      case (Goto as n)
      then have "I n (xs @ [c]) (fold (\<lambda>a. act a (length xs)) as s)" using Cons.prems(2,3) by (rule goto)
      with Cons.IH[of n "xs @ [c]"] Cons.prems Goto show ?thesis by simp
    next
      case (Break as n)
      with break[of cs c as n] show ?thesis by simp
    qed (use Cons.prems in auto)
  qed auto
  from this[of cs "[]" t s] assms(1,2) show ?thesis by simp
qed

text \<open>A character is known from its value.\<close>

lemma char_eq_schar: "schar c = schar d \<longleftrightarrow> c = d"
proof
  assume "schar c = schar d"
  moreover have "(of_char c :: int) < 256" "(of_char d :: int) < 256" "0 \<le> (of_char c :: int)" "0 \<le> (of_char d :: int)"
    by (simp_all add: of_char_def)
  ultimately have "(of_char c :: int) = of_char d" by (auto simp: schar_def Let_def split: if_splits)
  then show "c = d" by simp
qed simp

end
