(* ===== verification/Http11Machine.thy ===== *)
theory Http11Machine
  imports Ragel
begin

text \<open>
  The machine of \<^verbatim>\<open>include/http11_parser.cc\<close> (\<^verbatim>\<open>http_parser_execute\<close>), label by label: \<open>h11_tr\<close> are the
  labels \<open>tr\<close>, \<open>h11_case\<close> the labels \<open>case\<close>, and \<open>h11_switch\<close> the \<open>switch\<close> over \<open>cs\<close>. The
  actions have the names of \<^verbatim>\<open>include/http11_parser.rl\<close>.
\<close>

datatype h11_action =
    H_mark | H_start_field | H_write_field | H_start_value | H_write_value | H_request_method | H_request_uri | H_fragment | H_start_query | H_query_string | H_http_version | H_request_path | H_done | H_xml | H_json

text \<open>The widened character \<open>_widec\<close>: braces and the circumflex are told apart by \<open>uri_relaxed\<close>.\<close>

definition h11_widec :: "bool \<Rightarrow> int \<Rightarrow> int" where
  "h11_widec uri_relaxed c =
     (if c < 123 then (if 94 \<le> c \<and> c \<le> 94 then 128 + (c - (- 128)) + (if uri_relaxed then 256 else 0) else c)
      else if 123 < c then (if 125 \<le> c \<and> c \<le> 125 then 128 + (c - (- 128)) + (if uri_relaxed then 256 else 0) else c)
      else 128 + (c - (- 128)) + (if uri_relaxed then 256 else 0))"

subsection \<open>Transitions\<close>

definition h11_tr0 :: "h11_action goto" where
  "h11_tr0 = Goto [H_mark] 2"

definition h11_tr4 :: "h11_action goto" where
  "h11_tr4 = Goto [H_request_method] 3"

definition h11_tr6 :: "h11_action goto" where
  "h11_tr6 = Goto [H_mark, H_request_path, H_request_uri] 4"

definition h11_tr37 :: "h11_action goto" where
  "h11_tr37 = Goto [H_request_path, H_request_uri] 4"

definition h11_tr43 :: "h11_action goto" where
  "h11_tr43 = Goto [H_mark, H_fragment] 4"

definition h11_tr46 :: "h11_action goto" where
  "h11_tr46 = Goto [H_fragment] 4"

definition h11_tr53 :: "h11_action goto" where
  "h11_tr53 = Goto [H_start_query, H_query_string, H_request_uri] 4"

definition h11_tr57 :: "h11_action goto" where
  "h11_tr57 = Goto [H_query_string, H_request_uri] 4"

definition h11_tr13 :: "h11_action goto" where
  "h11_tr13 = Goto [H_mark] 5"

definition h11_tr21 :: "h11_action goto" where
  "h11_tr21 = Goto [H_http_version] 13"

definition h11_tr30 :: "h11_action goto" where
  "h11_tr30 = Goto [H_start_value, H_write_value] 13"

definition h11_tr33 :: "h11_action goto" where
  "h11_tr33 = Goto [H_write_value] 13"

definition h11_tr23 :: "h11_action goto" where
  "h11_tr23 = Goto [H_start_field] 14"

definition h11_tr27 :: "h11_action goto" where
  "h11_tr27 = Goto [H_write_field] 15"

definition h11_tr29 :: "h11_action goto" where
  "h11_tr29 = Goto [H_start_value] 15"

definition h11_tr28 :: "h11_action goto" where
  "h11_tr28 = Goto [H_start_value] 16"

definition h11_tr22 :: "h11_action goto" where
  "h11_tr22 = Goto [H_http_version] 17"

definition h11_tr31 :: "h11_action goto" where
  "h11_tr31 = Goto [H_start_value, H_write_value] 17"

definition h11_tr34 :: "h11_action goto" where
  "h11_tr34 = Goto [H_write_value] 17"

definition h11_tr24 :: "h11_action goto" where
  "h11_tr24 = Break [H_start_field, H_done] 348"

definition h11_tr36 :: "h11_action goto" where
  "h11_tr36 = Break [H_done] 348"

definition h11_tr25 :: "h11_action goto" where
  "h11_tr25 = Goto [H_start_field] 18"

definition h11_tr7 :: "h11_action goto" where
  "h11_tr7 = Goto [H_mark] 19"

definition h11_tr8 :: "h11_action goto" where
  "h11_tr8 = Goto [H_mark, H_request_path, H_request_uri] 20"

definition h11_tr39 :: "h11_action goto" where
  "h11_tr39 = Goto [H_request_path, H_request_uri] 20"

definition h11_tr55 :: "h11_action goto" where
  "h11_tr55 = Goto [H_start_query, H_query_string, H_request_uri] 20"

definition h11_tr59 :: "h11_action goto" where
  "h11_tr59 = Goto [H_query_string, H_request_uri] 20"

definition h11_tr44 :: "h11_action goto" where
  "h11_tr44 = Goto [H_mark] 21"

definition h11_tr45 :: "h11_action goto" where
  "h11_tr45 = Goto [H_mark] 22"

definition h11_tr9 :: "h11_action goto" where
  "h11_tr9 = Goto [H_mark] 24"

definition h11_tr203 :: "h11_action goto" where
  "h11_tr203 = Goto [H_mark] 26"

definition h11_tr204 :: "h11_action goto" where
  "h11_tr204 = Goto [H_mark] 27"

definition h11_tr11 :: "h11_action goto" where
  "h11_tr11 = Goto [H_mark, H_request_path] 29"

definition h11_tr42 :: "h11_action goto" where
  "h11_tr42 = Goto [H_request_path] 29"

definition h11_tr54 :: "h11_action goto" where
  "h11_tr54 = Goto [H_start_query] 30"

definition h11_tr56 :: "h11_action goto" where
  "h11_tr56 = Goto [H_start_query] 31"

definition h11_tr10 :: "h11_action goto" where
  "h11_tr10 = Goto [H_mark] 33"

definition h11_tr12 :: "h11_action goto" where
  "h11_tr12 = Goto [H_mark] 173"

definition h11_tr2 :: "h11_action goto" where
  "h11_tr2 = Goto [H_mark] 194"

definition h11_tr224 :: "h11_action goto" where
  "h11_tr224 = Goto [H_request_path] 196"

definition h11_tr227 :: "h11_action goto" where
  "h11_tr227 = Break [H_xml, H_done] 349"

definition h11_tr235 :: "h11_action goto" where
  "h11_tr235 = Break [H_json, H_done] 349"

definition h11_tr3 :: "h11_action goto" where
  "h11_tr3 = Goto [H_mark] 198"

definition h11_tr228 :: "h11_action goto" where
  "h11_tr228 = Goto [H_request_path] 199"

definition h11_tr232 :: "h11_action goto" where
  "h11_tr232 = Goto [H_mark] 200"

subsection \<open>States\<close>

definition h11_case1 :: "int \<Rightarrow> h11_action goto" where
  "h11_case1 c =
    (if c = 60 then h11_tr2
     else if c = 64 then h11_tr3
     else if 57 < c then
       (if 65 \<le> c \<and> c \<le> 90 then h11_tr0
       else Fail)
     else if 48 \<le> c then h11_tr0
     else Fail)"

definition h11_case2 :: "int \<Rightarrow> h11_action goto" where
  "h11_case2 c =
    (if c = 32 then h11_tr4
     else if 57 < c then
       (if 65 \<le> c \<and> c \<le> 90 then Goto [] 175
       else Fail)
     else if 48 \<le> c then Goto [] 175
     else Fail)"

definition h11_case3 :: "int \<Rightarrow> h11_action goto" where
  "h11_case3 w =
    (if w = 32 then h11_tr6
     else if w = 33 \<or> w = 59 \<or> w = 61 \<or> w = 64 \<or> w = 95 \<or> w = 126 \<or> w = 606 \<or> w = 635 \<or> w = 637 then h11_tr7
     else if w = 35 then h11_tr8
     else if w = 37 then h11_tr9
     else if w = 47 then h11_tr10
     else if w = 63 then h11_tr11
     else if w < 65 then
       (if 36 \<le> w \<and> w \<le> 57 then h11_tr7
       else Fail)
     else if 90 < w then
       (if 97 \<le> w \<and> w \<le> 122 then h11_tr12
       else Fail)
     else h11_tr12)"

definition h11_case4 :: "int \<Rightarrow> h11_action goto" where
  "h11_case4 c =
    (if c = 72 then h11_tr13
     else Fail)"

definition h11_case5 :: "int \<Rightarrow> h11_action goto" where
  "h11_case5 c =
    (if c = 84 then Goto [] 6
     else Fail)"

definition h11_case6 :: "int \<Rightarrow> h11_action goto" where
  "h11_case6 c =
    (if c = 84 then Goto [] 7
     else Fail)"

definition h11_case7 :: "int \<Rightarrow> h11_action goto" where
  "h11_case7 c =
    (if c = 80 then Goto [] 8
     else Fail)"

definition h11_case8 :: "int \<Rightarrow> h11_action goto" where
  "h11_case8 c =
    (if c = 47 then Goto [] 9
     else Fail)"

definition h11_case9 :: "int \<Rightarrow> h11_action goto" where
  "h11_case9 c =
    (if c = 49 then Goto [] 10
     else Fail)"

definition h11_case10 :: "int \<Rightarrow> h11_action goto" where
  "h11_case10 c =
    (if c = 46 then Goto [] 11
     else Fail)"

definition h11_case11 :: "int \<Rightarrow> h11_action goto" where
  "h11_case11 c =
    (if 48 \<le> c \<and> c \<le> 49 then Goto [] 12
     else Fail)"

definition h11_case12 :: "int \<Rightarrow> h11_action goto" where
  "h11_case12 c =
    (if c = 10 then h11_tr21
     else if c = 13 then h11_tr22
     else Fail)"

definition h11_case13 :: "int \<Rightarrow> h11_action goto" where
  "h11_case13 c =
    (if c = 10 then h11_tr24
     else if c = 13 then h11_tr25
     else if c = 33 \<or> c = 124 \<or> c = 126 then h11_tr23
     else if c < 42 then
       (if c < 11 then
         (if 1 \<le> c \<and> c \<le> 8 then h11_tr23
         else Fail)
       else if 31 < c then
         (if 35 \<le> c \<and> c \<le> 39 then h11_tr23
         else Fail)
       else h11_tr23)
     else if 43 < c then
       (if c < 48 then
         (if 45 \<le> c \<and> c \<le> 46 then h11_tr23
         else Fail)
       else if 57 < c then
         (if 90 < c then
           (if 94 \<le> c \<and> c \<le> 122 then h11_tr23
           else Fail)
         else if 65 \<le> c then h11_tr23
         else Fail)
       else h11_tr23)
     else h11_tr23)"

definition h11_case14 :: "int \<Rightarrow> h11_action goto" where
  "h11_case14 c =
    (if c = 33 \<or> c = 124 \<or> c = 126 then Goto [] 14
     else if c = 58 then h11_tr27
     else if c < 42 then
       (if c < 10 then
         (if 1 \<le> c \<and> c \<le> 8 then Goto [] 14
         else Fail)
       else if 31 < c then
         (if 35 \<le> c \<and> c \<le> 39 then Goto [] 14
         else Fail)
       else Goto [] 14)
     else if 43 < c then
       (if c < 48 then
         (if 45 \<le> c \<and> c \<le> 46 then Goto [] 14
         else Fail)
       else if 57 < c then
         (if 90 < c then
           (if 94 \<le> c \<and> c \<le> 122 then Goto [] 14
           else Fail)
         else if 65 \<le> c then Goto [] 14
         else Fail)
       else Goto [] 14)
     else Goto [] 14)"

definition h11_case15 :: "int \<Rightarrow> h11_action goto" where
  "h11_case15 c =
    (if c = 0 \<or> c = 127 then Fail
     else if c = 9 \<or> c = 32 then h11_tr29
     else if c = 10 then h11_tr30
     else if c = 13 then h11_tr31
     else h11_tr28)"

definition h11_case16 :: "int \<Rightarrow> h11_action goto" where
  "h11_case16 c =
    (if c = 0 \<or> c = 127 then Fail
     else if c = 10 then h11_tr33
     else if c = 13 then h11_tr34
     else Goto [] 16)"

definition h11_case17 :: "int \<Rightarrow> h11_action goto" where
  "h11_case17 c =
    (if c = 10 then Goto [] 13
     else Fail)"

definition h11_case348 :: "int \<Rightarrow> h11_action goto" where
  "h11_case348 c =
    (if c = 33 \<or> c = 124 \<or> c = 126 then Goto [] 14
     else if c = 58 then h11_tr27
     else if c < 42 then
       (if c < 10 then
         (if 1 \<le> c \<and> c \<le> 8 then Goto [] 14
         else Fail)
       else if 31 < c then
         (if 35 \<le> c \<and> c \<le> 39 then Goto [] 14
         else Fail)
       else Goto [] 14)
     else if 43 < c then
       (if c < 48 then
         (if 45 \<le> c \<and> c \<le> 46 then Goto [] 14
         else Fail)
       else if 57 < c then
         (if 90 < c then
           (if 94 \<le> c \<and> c \<le> 122 then Goto [] 14
           else Fail)
         else if 65 \<le> c then Goto [] 14
         else Fail)
       else Goto [] 14)
     else Goto [] 14)"

definition h11_case18 :: "int \<Rightarrow> h11_action goto" where
  "h11_case18 c =
    (if c = 10 then h11_tr36
     else if c = 33 \<or> c = 124 \<or> c = 126 then Goto [] 14
     else if c = 58 then h11_tr27
     else if c < 42 then
       (if c < 11 then
         (if 1 \<le> c \<and> c \<le> 8 then Goto [] 14
         else Fail)
       else if 31 < c then
         (if 35 \<le> c \<and> c \<le> 39 then Goto [] 14
         else Fail)
       else Goto [] 14)
     else if 43 < c then
       (if c < 48 then
         (if 45 \<le> c \<and> c \<le> 46 then Goto [] 14
         else Fail)
       else if 57 < c then
         (if 90 < c then
           (if 94 \<le> c \<and> c \<le> 122 then Goto [] 14
           else Fail)
         else if 65 \<le> c then Goto [] 14
         else Fail)
       else Goto [] 14)
     else Goto [] 14)"

definition h11_case19 :: "int \<Rightarrow> h11_action goto" where
  "h11_case19 w =
    (if w = 32 then h11_tr37
     else if w = 33 \<or> w = 59 \<or> w = 61 \<or> w = 95 \<or> w = 126 \<or> w = 606 \<or> w = 635 \<or> w = 637 then Goto [] 19
     else if w = 35 then h11_tr39
     else if w = 37 then Goto [] 24
     else if w = 47 then Goto [] 26
     else if w = 63 then h11_tr42
     else if w < 64 then
       (if 36 \<le> w \<and> w \<le> 57 then Goto [] 19
       else Fail)
     else if 90 < w then
       (if 97 \<le> w \<and> w \<le> 122 then Goto [] 19
       else Fail)
     else Goto [] 19)"

definition h11_case20 :: "int \<Rightarrow> h11_action goto" where
  "h11_case20 w =
    (if w = 32 then h11_tr43
     else if w = 33 \<or> w = 61 \<or> w = 95 \<or> w = 126 \<or> w = 606 \<or> w = 635 \<or> w = 637 then h11_tr44
     else if w = 37 then h11_tr45
     else if w < 63 then
       (if 36 \<le> w \<and> w \<le> 59 then h11_tr44
       else Fail)
     else if 90 < w then
       (if 97 \<le> w \<and> w \<le> 122 then h11_tr44
       else Fail)
     else h11_tr44)"

definition h11_case21 :: "int \<Rightarrow> h11_action goto" where
  "h11_case21 w =
    (if w = 32 then h11_tr46
     else if w = 33 \<or> w = 61 \<or> w = 95 \<or> w = 126 \<or> w = 606 \<or> w = 635 \<or> w = 637 then Goto [] 21
     else if w = 37 then Goto [] 22
     else if w < 63 then
       (if 36 \<le> w \<and> w \<le> 59 then Goto [] 21
       else Fail)
     else if 90 < w then
       (if 97 \<le> w \<and> w \<le> 122 then Goto [] 21
       else Fail)
     else Goto [] 21)"

definition h11_case22 :: "int \<Rightarrow> h11_action goto" where
  "h11_case22 c =
    (if c < 65 then
       (if 48 \<le> c \<and> c \<le> 57 then Goto [] 23
       else Fail)
     else if 70 < c then
       (if 97 \<le> c \<and> c \<le> 102 then Goto [] 23
       else Fail)
     else Goto [] 23)"

definition h11_case23 :: "int \<Rightarrow> h11_action goto" where
  "h11_case23 c =
    (if c < 65 then
       (if 48 \<le> c \<and> c \<le> 57 then Goto [] 21
       else Fail)
     else if 70 < c then
       (if 97 \<le> c \<and> c \<le> 102 then Goto [] 21
       else Fail)
     else Goto [] 21)"

definition h11_case24 :: "int \<Rightarrow> h11_action goto" where
  "h11_case24 c =
    (if c < 65 then
       (if 48 \<le> c \<and> c \<le> 57 then Goto [] 25
       else Fail)
     else if 70 < c then
       (if 97 \<le> c \<and> c \<le> 102 then Goto [] 25
       else Fail)
     else Goto [] 25)"

definition h11_case25 :: "int \<Rightarrow> h11_action goto" where
  "h11_case25 c =
    (if c < 65 then
       (if 48 \<le> c \<and> c \<le> 57 then Goto [] 19
       else Fail)
     else if 70 < c then
       (if 97 \<le> c \<and> c \<le> 102 then Goto [] 19
       else Fail)
     else Goto [] 19)"

definition h11_case26 :: "int \<Rightarrow> h11_action goto" where
  "h11_case26 w =
    (if w = 32 then h11_tr37
     else if w = 33 \<or> w = 61 \<or> w = 95 \<or> w = 126 \<or> w = 606 \<or> w = 635 \<or> w = 637 then Goto [] 26
     else if w = 35 then h11_tr39
     else if w = 37 then Goto [] 27
     else if w = 63 then h11_tr42
     else if w < 64 then
       (if 36 \<le> w \<and> w \<le> 59 then Goto [] 26
       else Fail)
     else if 90 < w then
       (if 97 \<le> w \<and> w \<le> 122 then Goto [] 26
       else Fail)
     else Goto [] 26)"

definition h11_case27 :: "int \<Rightarrow> h11_action goto" where
  "h11_case27 c =
    (if c < 65 then
       (if 48 \<le> c \<and> c \<le> 57 then Goto [] 28
       else Fail)
     else if 70 < c then
       (if 97 \<le> c \<and> c \<le> 102 then Goto [] 28
       else Fail)
     else Goto [] 28)"

definition h11_case28 :: "int \<Rightarrow> h11_action goto" where
  "h11_case28 c =
    (if c < 65 then
       (if 48 \<le> c \<and> c \<le> 57 then Goto [] 26
       else Fail)
     else if 70 < c then
       (if 97 \<le> c \<and> c \<le> 102 then Goto [] 26
       else Fail)
     else Goto [] 26)"

definition h11_case29 :: "int \<Rightarrow> h11_action goto" where
  "h11_case29 w =
    (if w = 32 then h11_tr53
     else if w = 33 \<or> w = 61 \<or> w = 95 \<or> w = 126 \<or> w = 606 \<or> w = 635 \<or> w = 637 then h11_tr54
     else if w = 35 then h11_tr55
     else if w = 37 then h11_tr56
     else if w < 63 then
       (if 36 \<le> w \<and> w \<le> 59 then h11_tr54
       else Fail)
     else if 90 < w then
       (if 97 \<le> w \<and> w \<le> 122 then h11_tr54
       else Fail)
     else h11_tr54)"

definition h11_case30 :: "int \<Rightarrow> h11_action goto" where
  "h11_case30 w =
    (if w = 32 then h11_tr57
     else if w = 33 \<or> w = 61 \<or> w = 95 \<or> w = 126 \<or> w = 606 \<or> w = 635 \<or> w = 637 then Goto [] 30
     else if w = 35 then h11_tr59
     else if w = 37 then Goto [] 31
     else if w < 63 then
       (if 36 \<le> w \<and> w \<le> 59 then Goto [] 30
       else Fail)
     else if 90 < w then
       (if 97 \<le> w \<and> w \<le> 122 then Goto [] 30
       else Fail)
     else Goto [] 30)"

definition h11_case31 :: "int \<Rightarrow> h11_action goto" where
  "h11_case31 c =
    (if c < 65 then
       (if 48 \<le> c \<and> c \<le> 57 then Goto [] 32
       else Fail)
     else if 70 < c then
       (if 97 \<le> c \<and> c \<le> 102 then Goto [] 32
       else Fail)
     else Goto [] 32)"

definition h11_case32 :: "int \<Rightarrow> h11_action goto" where
  "h11_case32 c =
    (if c < 65 then
       (if 48 \<le> c \<and> c \<le> 57 then Goto [] 30
       else Fail)
     else if 70 < c then
       (if 97 \<le> c \<and> c \<le> 102 then Goto [] 30
       else Fail)
     else Goto [] 30)"

definition h11_case33 :: "int \<Rightarrow> h11_action goto" where
  "h11_case33 w =
    (if w = 32 then h11_tr37
     else if w = 33 \<or> w = 61 \<or> w = 95 \<or> w = 126 \<or> w = 606 \<or> w = 635 \<or> w = 637 then Goto [] 26
     else if w = 35 then h11_tr39
     else if w = 37 then Goto [] 27
     else if w = 47 then Goto [] 34
     else if w = 63 then h11_tr42
     else if w < 64 then
       (if 36 \<le> w \<and> w \<le> 59 then Goto [] 26
       else Fail)
     else if 90 < w then
       (if 97 \<le> w \<and> w \<le> 122 then Goto [] 26
       else Fail)
     else Goto [] 26)"

definition h11_case34 :: "int \<Rightarrow> h11_action goto" where
  "h11_case34 w =
    (if w = 32 then h11_tr37
     else if w = 33 \<or> w = 61 \<or> w = 95 \<or> w = 126 \<or> w = 606 \<or> w = 635 \<or> w = 637 then Goto [] 35
     else if w = 35 then h11_tr39
     else if w = 37 then Goto [] 36
     else if w = 47 then Goto [] 26
     else if w = 58 then Goto [] 38
     else if w = 63 then h11_tr42
     else if w = 64 then Goto [] 42
     else if w = 91 then Goto [] 47
     else if w < 65 then
       (if 36 \<le> w \<and> w \<le> 59 then Goto [] 35
       else Fail)
     else if 90 < w then
       (if 97 \<le> w \<and> w \<le> 122 then Goto [] 35
       else Fail)
     else Goto [] 35)"

definition h11_case35 :: "int \<Rightarrow> h11_action goto" where
  "h11_case35 w =
    (if w = 32 then h11_tr37
     else if w = 33 \<or> w = 61 \<or> w = 95 \<or> w = 126 \<or> w = 606 \<or> w = 635 \<or> w = 637 then Goto [] 35
     else if w = 35 then h11_tr39
     else if w = 37 then Goto [] 36
     else if w = 47 then Goto [] 26
     else if w = 58 then Goto [] 38
     else if w = 63 then h11_tr42
     else if w = 64 then Goto [] 42
     else if w < 65 then
       (if 36 \<le> w \<and> w \<le> 59 then Goto [] 35
       else Fail)
     else if 90 < w then
       (if 97 \<le> w \<and> w \<le> 122 then Goto [] 35
       else Fail)
     else Goto [] 35)"

definition h11_case36 :: "int \<Rightarrow> h11_action goto" where
  "h11_case36 c =
    (if c < 65 then
       (if 48 \<le> c \<and> c \<le> 57 then Goto [] 37
       else Fail)
     else if 70 < c then
       (if 97 \<le> c \<and> c \<le> 102 then Goto [] 37
       else Fail)
     else Goto [] 37)"

definition h11_case37 :: "int \<Rightarrow> h11_action goto" where
  "h11_case37 c =
    (if c < 65 then
       (if 48 \<le> c \<and> c \<le> 57 then Goto [] 35
       else Fail)
     else if 70 < c then
       (if 97 \<le> c \<and> c \<le> 102 then Goto [] 35
       else Fail)
     else Goto [] 35)"

definition h11_case38 :: "int \<Rightarrow> h11_action goto" where
  "h11_case38 w =
    (if w = 32 then h11_tr37
     else if w = 33 \<or> w = 61 \<or> w = 95 \<or> w = 126 \<or> w = 606 \<or> w = 635 \<or> w = 637 then Goto [] 39
     else if w = 35 then h11_tr39
     else if w = 37 then Goto [] 40
     else if w = 47 then Goto [] 26
     else if w = 63 then h11_tr42
     else if w = 64 then Goto [] 42
     else if w < 58 then
       (if 46 < w then
         (if 48 \<le> w \<and> w \<le> 57 then Goto [] 38
         else Fail)
       else if 36 \<le> w then Goto [] 39
       else Fail)
     else if 59 < w then
       (if 90 < w then
         (if 97 \<le> w \<and> w \<le> 122 then Goto [] 39
         else Fail)
       else if 65 \<le> w then Goto [] 39
       else Fail)
     else Goto [] 39)"

definition h11_case39 :: "int \<Rightarrow> h11_action goto" where
  "h11_case39 w =
    (if w = 33 \<or> w = 61 \<or> w = 95 \<or> w = 126 \<or> w = 606 \<or> w = 635 \<or> w = 637 then Goto [] 39
     else if w = 37 then Goto [] 40
     else if w = 64 then Goto [] 42
     else if w < 48 then
       (if 36 \<le> w \<and> w \<le> 46 then Goto [] 39
       else Fail)
     else if 59 < w then
       (if 90 < w then
         (if 97 \<le> w \<and> w \<le> 122 then Goto [] 39
         else Fail)
       else if 65 \<le> w then Goto [] 39
       else Fail)
     else Goto [] 39)"

definition h11_case40 :: "int \<Rightarrow> h11_action goto" where
  "h11_case40 c =
    (if c < 65 then
       (if 48 \<le> c \<and> c \<le> 57 then Goto [] 41
       else Fail)
     else if 70 < c then
       (if 97 \<le> c \<and> c \<le> 102 then Goto [] 41
       else Fail)
     else Goto [] 41)"

definition h11_case41 :: "int \<Rightarrow> h11_action goto" where
  "h11_case41 c =
    (if c < 65 then
       (if 48 \<le> c \<and> c \<le> 57 then Goto [] 39
       else Fail)
     else if 70 < c then
       (if 97 \<le> c \<and> c \<le> 102 then Goto [] 39
       else Fail)
     else Goto [] 39)"

definition h11_case42 :: "int \<Rightarrow> h11_action goto" where
  "h11_case42 w =
    (if w = 32 then h11_tr37
     else if w = 33 \<or> w = 61 \<or> w = 95 \<or> w = 126 \<or> w = 606 \<or> w = 635 \<or> w = 637 then Goto [] 43
     else if w = 35 then h11_tr39
     else if w = 37 then Goto [] 44
     else if w = 47 then Goto [] 26
     else if w = 58 then Goto [] 46
     else if w = 63 then h11_tr42
     else if w = 91 then Goto [] 47
     else if w < 65 then
       (if 36 \<le> w \<and> w \<le> 59 then Goto [] 43
       else Fail)
     else if 90 < w then
       (if 97 \<le> w \<and> w \<le> 122 then Goto [] 43
       else Fail)
     else Goto [] 43)"

definition h11_case43 :: "int \<Rightarrow> h11_action goto" where
  "h11_case43 w =
    (if w = 32 then h11_tr37
     else if w = 33 \<or> w = 61 \<or> w = 95 \<or> w = 126 \<or> w = 606 \<or> w = 635 \<or> w = 637 then Goto [] 43
     else if w = 35 then h11_tr39
     else if w = 37 then Goto [] 44
     else if w = 47 then Goto [] 26
     else if w = 58 then Goto [] 46
     else if w = 63 then h11_tr42
     else if w < 65 then
       (if 36 \<le> w \<and> w \<le> 59 then Goto [] 43
       else Fail)
     else if 90 < w then
       (if 97 \<le> w \<and> w \<le> 122 then Goto [] 43
       else Fail)
     else Goto [] 43)"

definition h11_case44 :: "int \<Rightarrow> h11_action goto" where
  "h11_case44 c =
    (if c < 65 then
       (if 48 \<le> c \<and> c \<le> 57 then Goto [] 45
       else Fail)
     else if 70 < c then
       (if 97 \<le> c \<and> c \<le> 102 then Goto [] 45
       else Fail)
     else Goto [] 45)"

definition h11_case45 :: "int \<Rightarrow> h11_action goto" where
  "h11_case45 c =
    (if c < 65 then
       (if 48 \<le> c \<and> c \<le> 57 then Goto [] 43
       else Fail)
     else if 70 < c then
       (if 97 \<le> c \<and> c \<le> 102 then Goto [] 43
       else Fail)
     else Goto [] 43)"

definition h11_case46 :: "int \<Rightarrow> h11_action goto" where
  "h11_case46 c =
    (if c = 32 then h11_tr37
     else if c = 35 then h11_tr39
     else if c = 47 then Goto [] 26
     else if c = 63 then h11_tr42
     else if 48 \<le> c \<and> c \<le> 57 then Goto [] 46
     else Fail)"

definition h11_case47 :: "int \<Rightarrow> h11_action goto" where
  "h11_case47 c =
    (if c = 6 then Goto [] 48
     else if c = 58 then Goto [] 167
     else if c = 118 then Goto [] 169
     else if c < 65 then
       (if 48 \<le> c \<and> c \<le> 57 then Goto [] 91
       else Fail)
     else if 70 < c then
       (if 97 \<le> c \<and> c \<le> 102 then Goto [] 91
       else Fail)
     else Goto [] 91)"

definition h11_case48 :: "int \<Rightarrow> h11_action goto" where
  "h11_case48 c =
    (if c < 65 then
       (if 48 \<le> c \<and> c \<le> 57 then Goto [] 49
       else Fail)
     else if 70 < c then
       (if 97 \<le> c \<and> c \<le> 102 then Goto [] 49
       else Fail)
     else Goto [] 49)"

definition h11_case49 :: "int \<Rightarrow> h11_action goto" where
  "h11_case49 c =
    (if c = 58 then Goto [] 53
     else if c < 65 then
       (if 48 \<le> c \<and> c \<le> 57 then Goto [] 50
       else Fail)
     else if 70 < c then
       (if 97 \<le> c \<and> c \<le> 102 then Goto [] 50
       else Fail)
     else Goto [] 50)"

definition h11_case50 :: "int \<Rightarrow> h11_action goto" where
  "h11_case50 c =
    (if c = 58 then Goto [] 53
     else if c < 65 then
       (if 48 \<le> c \<and> c \<le> 57 then Goto [] 51
       else Fail)
     else if 70 < c then
       (if 97 \<le> c \<and> c \<le> 102 then Goto [] 51
       else Fail)
     else Goto [] 51)"

definition h11_case51 :: "int \<Rightarrow> h11_action goto" where
  "h11_case51 c =
    (if c = 58 then Goto [] 53
     else if c < 65 then
       (if 48 \<le> c \<and> c \<le> 57 then Goto [] 52
       else Fail)
     else if 70 < c then
       (if 97 \<le> c \<and> c \<le> 102 then Goto [] 52
       else Fail)
     else Goto [] 52)"

definition h11_case52 :: "int \<Rightarrow> h11_action goto" where
  "h11_case52 c =
    (if c = 58 then Goto [] 53
     else Fail)"

definition h11_case53 :: "int \<Rightarrow> h11_action goto" where
  "h11_case53 c =
    (if c = 49 then Goto [] 84
     else if c = 50 then Goto [] 87
     else if c < 65 then
       (if 48 \<le> c \<and> c \<le> 57 then Goto [] 54
       else Fail)
     else if 70 < c then
       (if 97 \<le> c \<and> c \<le> 102 then Goto [] 90
       else Fail)
     else Goto [] 90)"

definition h11_case54 :: "int \<Rightarrow> h11_action goto" where
  "h11_case54 c =
    (if c = 46 then Goto [] 55
     else if c = 58 then Goto [] 80
     else if c < 65 then
       (if 48 \<le> c \<and> c \<le> 57 then Goto [] 77
       else Fail)
     else if 70 < c then
       (if 97 \<le> c \<and> c \<le> 102 then Goto [] 77
       else Fail)
     else Goto [] 77)"

definition h11_case55 :: "int \<Rightarrow> h11_action goto" where
  "h11_case55 c =
    (if c = 49 then Goto [] 72
     else if c = 50 then Goto [] 74
     else if 48 \<le> c \<and> c \<le> 57 then Goto [] 56
     else Fail)"

definition h11_case56 :: "int \<Rightarrow> h11_action goto" where
  "h11_case56 c =
    (if c = 46 then Goto [] 57
     else Fail)"

definition h11_case57 :: "int \<Rightarrow> h11_action goto" where
  "h11_case57 c =
    (if c = 49 then Goto [] 67
     else if c = 50 then Goto [] 69
     else if 48 \<le> c \<and> c \<le> 57 then Goto [] 58
     else Fail)"

definition h11_case58 :: "int \<Rightarrow> h11_action goto" where
  "h11_case58 c =
    (if c = 46 then Goto [] 59
     else Fail)"

definition h11_case59 :: "int \<Rightarrow> h11_action goto" where
  "h11_case59 c =
    (if c = 49 then Goto [] 62
     else if c = 50 then Goto [] 64
     else if 48 \<le> c \<and> c \<le> 57 then Goto [] 60
     else Fail)"

definition h11_case60 :: "int \<Rightarrow> h11_action goto" where
  "h11_case60 c =
    (if c = 93 then Goto [] 61
     else Fail)"

definition h11_case61 :: "int \<Rightarrow> h11_action goto" where
  "h11_case61 c =
    (if c = 32 then h11_tr37
     else if c = 35 then h11_tr39
     else if c = 47 then Goto [] 26
     else if c = 58 then Goto [] 46
     else if c = 63 then h11_tr42
     else Fail)"

definition h11_case62 :: "int \<Rightarrow> h11_action goto" where
  "h11_case62 c =
    (if c = 93 then Goto [] 61
     else if 48 \<le> c \<and> c \<le> 57 then Goto [] 63
     else Fail)"

definition h11_case63 :: "int \<Rightarrow> h11_action goto" where
  "h11_case63 c =
    (if c = 93 then Goto [] 61
     else if 48 \<le> c \<and> c \<le> 57 then Goto [] 60
     else Fail)"

definition h11_case64 :: "int \<Rightarrow> h11_action goto" where
  "h11_case64 c =
    (if c = 48 then Goto [] 65
     else if c = 53 then Goto [] 66
     else if c = 93 then Goto [] 61
     else Fail)"

definition h11_case65 :: "int \<Rightarrow> h11_action goto" where
  "h11_case65 c =
    (if 48 \<le> c \<and> c \<le> 57 then Goto [] 60
     else Fail)"

definition h11_case66 :: "int \<Rightarrow> h11_action goto" where
  "h11_case66 c =
    (if c = 48 then Goto [] 60
     else Fail)"

definition h11_case67 :: "int \<Rightarrow> h11_action goto" where
  "h11_case67 c =
    (if c = 46 then Goto [] 59
     else if 48 \<le> c \<and> c \<le> 57 then Goto [] 68
     else Fail)"

definition h11_case68 :: "int \<Rightarrow> h11_action goto" where
  "h11_case68 c =
    (if c = 46 then Goto [] 59
     else if 48 \<le> c \<and> c \<le> 57 then Goto [] 58
     else Fail)"

definition h11_case69 :: "int \<Rightarrow> h11_action goto" where
  "h11_case69 c =
    (if c = 46 then Goto [] 59
     else if c = 48 then Goto [] 70
     else if c = 53 then Goto [] 71
     else Fail)"

definition h11_case70 :: "int \<Rightarrow> h11_action goto" where
  "h11_case70 c =
    (if 48 \<le> c \<and> c \<le> 57 then Goto [] 58
     else Fail)"

definition h11_case71 :: "int \<Rightarrow> h11_action goto" where
  "h11_case71 c =
    (if c = 48 then Goto [] 58
     else Fail)"

definition h11_case72 :: "int \<Rightarrow> h11_action goto" where
  "h11_case72 c =
    (if c = 46 then Goto [] 57
     else if 48 \<le> c \<and> c \<le> 57 then Goto [] 73
     else Fail)"

definition h11_case73 :: "int \<Rightarrow> h11_action goto" where
  "h11_case73 c =
    (if c = 46 then Goto [] 57
     else if 48 \<le> c \<and> c \<le> 57 then Goto [] 56
     else Fail)"

definition h11_case74 :: "int \<Rightarrow> h11_action goto" where
  "h11_case74 c =
    (if c = 46 then Goto [] 57
     else if c = 48 then Goto [] 75
     else if c = 53 then Goto [] 76
     else Fail)"

definition h11_case75 :: "int \<Rightarrow> h11_action goto" where
  "h11_case75 c =
    (if 48 \<le> c \<and> c \<le> 57 then Goto [] 56
     else Fail)"

definition h11_case76 :: "int \<Rightarrow> h11_action goto" where
  "h11_case76 c =
    (if c = 48 then Goto [] 56
     else Fail)"

definition h11_case77 :: "int \<Rightarrow> h11_action goto" where
  "h11_case77 c =
    (if c = 58 then Goto [] 80
     else if c < 65 then
       (if 48 \<le> c \<and> c \<le> 57 then Goto [] 78
       else Fail)
     else if 70 < c then
       (if 97 \<le> c \<and> c \<le> 102 then Goto [] 78
       else Fail)
     else Goto [] 78)"

definition h11_case78 :: "int \<Rightarrow> h11_action goto" where
  "h11_case78 c =
    (if c = 58 then Goto [] 80
     else if c < 65 then
       (if 48 \<le> c \<and> c \<le> 57 then Goto [] 79
       else Fail)
     else if 70 < c then
       (if 97 \<le> c \<and> c \<le> 102 then Goto [] 79
       else Fail)
     else Goto [] 79)"

definition h11_case79 :: "int \<Rightarrow> h11_action goto" where
  "h11_case79 c =
    (if c = 58 then Goto [] 80
     else Fail)"

definition h11_case80 :: "int \<Rightarrow> h11_action goto" where
  "h11_case80 c =
    (if c < 65 then
       (if 48 \<le> c \<and> c \<le> 57 then Goto [] 81
       else Fail)
     else if 70 < c then
       (if 97 \<le> c \<and> c \<le> 102 then Goto [] 81
       else Fail)
     else Goto [] 81)"

definition h11_case81 :: "int \<Rightarrow> h11_action goto" where
  "h11_case81 c =
    (if c = 93 then Goto [] 61
     else if c < 65 then
       (if 48 \<le> c \<and> c \<le> 57 then Goto [] 82
       else Fail)
     else if 70 < c then
       (if 97 \<le> c \<and> c \<le> 102 then Goto [] 82
       else Fail)
     else Goto [] 82)"

definition h11_case82 :: "int \<Rightarrow> h11_action goto" where
  "h11_case82 c =
    (if c = 93 then Goto [] 61
     else if c < 65 then
       (if 48 \<le> c \<and> c \<le> 57 then Goto [] 83
       else Fail)
     else if 70 < c then
       (if 97 \<le> c \<and> c \<le> 102 then Goto [] 83
       else Fail)
     else Goto [] 83)"

definition h11_case83 :: "int \<Rightarrow> h11_action goto" where
  "h11_case83 c =
    (if c = 93 then Goto [] 61
     else if c < 65 then
       (if 48 \<le> c \<and> c \<le> 57 then Goto [] 60
       else Fail)
     else if 70 < c then
       (if 97 \<le> c \<and> c \<le> 102 then Goto [] 60
       else Fail)
     else Goto [] 60)"

definition h11_case84 :: "int \<Rightarrow> h11_action goto" where
  "h11_case84 c =
    (if c = 46 then Goto [] 55
     else if c = 58 then Goto [] 80
     else if c < 65 then
       (if 48 \<le> c \<and> c \<le> 57 then Goto [] 85
       else Fail)
     else if 70 < c then
       (if 97 \<le> c \<and> c \<le> 102 then Goto [] 77
       else Fail)
     else Goto [] 77)"

definition h11_case85 :: "int \<Rightarrow> h11_action goto" where
  "h11_case85 c =
    (if c = 46 then Goto [] 55
     else if c = 58 then Goto [] 80
     else if c < 65 then
       (if 48 \<le> c \<and> c \<le> 57 then Goto [] 86
       else Fail)
     else if 70 < c then
       (if 97 \<le> c \<and> c \<le> 102 then Goto [] 78
       else Fail)
     else Goto [] 78)"

definition h11_case86 :: "int \<Rightarrow> h11_action goto" where
  "h11_case86 c =
    (if c = 46 then Goto [] 55
     else if c = 58 then Goto [] 80
     else if c < 65 then
       (if 48 \<le> c \<and> c \<le> 57 then Goto [] 79
       else Fail)
     else if 70 < c then
       (if 97 \<le> c \<and> c \<le> 102 then Goto [] 79
       else Fail)
     else Goto [] 79)"

definition h11_case87 :: "int \<Rightarrow> h11_action goto" where
  "h11_case87 c =
    (if c = 46 then Goto [] 55
     else if c = 48 then Goto [] 88
     else if c = 53 then Goto [] 89
     else if c = 58 then Goto [] 80
     else if c < 65 then
       (if 49 \<le> c \<and> c \<le> 57 then Goto [] 77
       else Fail)
     else if 70 < c then
       (if 97 \<le> c \<and> c \<le> 102 then Goto [] 77
       else Fail)
     else Goto [] 77)"

definition h11_case88 :: "int \<Rightarrow> h11_action goto" where
  "h11_case88 c =
    (if c = 58 then Goto [] 80
     else if c < 65 then
       (if 48 \<le> c \<and> c \<le> 57 then Goto [] 86
       else Fail)
     else if 70 < c then
       (if 97 \<le> c \<and> c \<le> 102 then Goto [] 78
       else Fail)
     else Goto [] 78)"

definition h11_case89 :: "int \<Rightarrow> h11_action goto" where
  "h11_case89 c =
    (if c = 48 then Goto [] 86
     else if c = 58 then Goto [] 80
     else if c < 65 then
       (if 49 \<le> c \<and> c \<le> 57 then Goto [] 78
       else Fail)
     else if 70 < c then
       (if 97 \<le> c \<and> c \<le> 102 then Goto [] 78
       else Fail)
     else Goto [] 78)"

definition h11_case90 :: "int \<Rightarrow> h11_action goto" where
  "h11_case90 c =
    (if c = 58 then Goto [] 80
     else if c < 65 then
       (if 48 \<le> c \<and> c \<le> 57 then Goto [] 77
       else Fail)
     else if 70 < c then
       (if 97 \<le> c \<and> c \<le> 102 then Goto [] 77
       else Fail)
     else Goto [] 77)"

definition h11_case91 :: "int \<Rightarrow> h11_action goto" where
  "h11_case91 c =
    (if c = 58 then Goto [] 95
     else if c < 65 then
       (if 48 \<le> c \<and> c \<le> 57 then Goto [] 92
       else Fail)
     else if 70 < c then
       (if 97 \<le> c \<and> c \<le> 102 then Goto [] 92
       else Fail)
     else Goto [] 92)"

definition h11_case92 :: "int \<Rightarrow> h11_action goto" where
  "h11_case92 c =
    (if c = 58 then Goto [] 95
     else if c < 65 then
       (if 48 \<le> c \<and> c \<le> 57 then Goto [] 93
       else Fail)
     else if 70 < c then
       (if 97 \<le> c \<and> c \<le> 102 then Goto [] 93
       else Fail)
     else Goto [] 93)"

definition h11_case93 :: "int \<Rightarrow> h11_action goto" where
  "h11_case93 c =
    (if c = 58 then Goto [] 95
     else if c < 65 then
       (if 48 \<le> c \<and> c \<le> 57 then Goto [] 94
       else Fail)
     else if 70 < c then
       (if 97 \<le> c \<and> c \<le> 102 then Goto [] 94
       else Fail)
     else Goto [] 94)"

definition h11_case94 :: "int \<Rightarrow> h11_action goto" where
  "h11_case94 c =
    (if c = 58 then Goto [] 95
     else Fail)"

definition h11_case95 :: "int \<Rightarrow> h11_action goto" where
  "h11_case95 c =
    (if c = 58 then Goto [] 166
     else if c < 65 then
       (if 48 \<le> c \<and> c \<le> 57 then Goto [] 96
       else Fail)
     else if 70 < c then
       (if 97 \<le> c \<and> c \<le> 102 then Goto [] 96
       else Fail)
     else Goto [] 96)"

definition h11_case96 :: "int \<Rightarrow> h11_action goto" where
  "h11_case96 c =
    (if c = 58 then Goto [] 100
     else if c < 65 then
       (if 48 \<le> c \<and> c \<le> 57 then Goto [] 97
       else Fail)
     else if 70 < c then
       (if 97 \<le> c \<and> c \<le> 102 then Goto [] 97
       else Fail)
     else Goto [] 97)"

definition h11_case97 :: "int \<Rightarrow> h11_action goto" where
  "h11_case97 c =
    (if c = 58 then Goto [] 100
     else if c < 65 then
       (if 48 \<le> c \<and> c \<le> 57 then Goto [] 98
       else Fail)
     else if 70 < c then
       (if 97 \<le> c \<and> c \<le> 102 then Goto [] 98
       else Fail)
     else Goto [] 98)"

definition h11_case98 :: "int \<Rightarrow> h11_action goto" where
  "h11_case98 c =
    (if c = 58 then Goto [] 100
     else if c < 65 then
       (if 48 \<le> c \<and> c \<le> 57 then Goto [] 99
       else Fail)
     else if 70 < c then
       (if 97 \<le> c \<and> c \<le> 102 then Goto [] 99
       else Fail)
     else Goto [] 99)"

definition h11_case99 :: "int \<Rightarrow> h11_action goto" where
  "h11_case99 c =
    (if c = 58 then Goto [] 100
     else Fail)"

definition h11_case100 :: "int \<Rightarrow> h11_action goto" where
  "h11_case100 c =
    (if c = 58 then Goto [] 165
     else if c < 65 then
       (if 48 \<le> c \<and> c \<le> 57 then Goto [] 101
       else Fail)
     else if 70 < c then
       (if 97 \<le> c \<and> c \<le> 102 then Goto [] 101
       else Fail)
     else Goto [] 101)"

definition h11_case101 :: "int \<Rightarrow> h11_action goto" where
  "h11_case101 c =
    (if c = 58 then Goto [] 105
     else if c < 65 then
       (if 48 \<le> c \<and> c \<le> 57 then Goto [] 102
       else Fail)
     else if 70 < c then
       (if 97 \<le> c \<and> c \<le> 102 then Goto [] 102
       else Fail)
     else Goto [] 102)"

definition h11_case102 :: "int \<Rightarrow> h11_action goto" where
  "h11_case102 c =
    (if c = 58 then Goto [] 105
     else if c < 65 then
       (if 48 \<le> c \<and> c \<le> 57 then Goto [] 103
       else Fail)
     else if 70 < c then
       (if 97 \<le> c \<and> c \<le> 102 then Goto [] 103
       else Fail)
     else Goto [] 103)"

definition h11_case103 :: "int \<Rightarrow> h11_action goto" where
  "h11_case103 c =
    (if c = 58 then Goto [] 105
     else if c < 65 then
       (if 48 \<le> c \<and> c \<le> 57 then Goto [] 104
       else Fail)
     else if 70 < c then
       (if 97 \<le> c \<and> c \<le> 102 then Goto [] 104
       else Fail)
     else Goto [] 104)"

definition h11_case104 :: "int \<Rightarrow> h11_action goto" where
  "h11_case104 c =
    (if c = 58 then Goto [] 105
     else Fail)"

definition h11_case105 :: "int \<Rightarrow> h11_action goto" where
  "h11_case105 c =
    (if c = 58 then Goto [] 164
     else if c < 65 then
       (if 48 \<le> c \<and> c \<le> 57 then Goto [] 106
       else Fail)
     else if 70 < c then
       (if 97 \<le> c \<and> c \<le> 102 then Goto [] 106
       else Fail)
     else Goto [] 106)"

definition h11_case106 :: "int \<Rightarrow> h11_action goto" where
  "h11_case106 c =
    (if c = 58 then Goto [] 110
     else if c < 65 then
       (if 48 \<le> c \<and> c \<le> 57 then Goto [] 107
       else Fail)
     else if 70 < c then
       (if 97 \<le> c \<and> c \<le> 102 then Goto [] 107
       else Fail)
     else Goto [] 107)"

definition h11_case107 :: "int \<Rightarrow> h11_action goto" where
  "h11_case107 c =
    (if c = 58 then Goto [] 110
     else if c < 65 then
       (if 48 \<le> c \<and> c \<le> 57 then Goto [] 108
       else Fail)
     else if 70 < c then
       (if 97 \<le> c \<and> c \<le> 102 then Goto [] 108
       else Fail)
     else Goto [] 108)"

definition h11_case108 :: "int \<Rightarrow> h11_action goto" where
  "h11_case108 c =
    (if c = 58 then Goto [] 110
     else if c < 65 then
       (if 48 \<le> c \<and> c \<le> 57 then Goto [] 109
       else Fail)
     else if 70 < c then
       (if 97 \<le> c \<and> c \<le> 102 then Goto [] 109
       else Fail)
     else Goto [] 109)"

definition h11_case109 :: "int \<Rightarrow> h11_action goto" where
  "h11_case109 c =
    (if c = 58 then Goto [] 110
     else Fail)"

definition h11_case110 :: "int \<Rightarrow> h11_action goto" where
  "h11_case110 c =
    (if c = 58 then Goto [] 163
     else if c < 65 then
       (if 48 \<le> c \<and> c \<le> 57 then Goto [] 111
       else Fail)
     else if 70 < c then
       (if 97 \<le> c \<and> c \<le> 102 then Goto [] 111
       else Fail)
     else Goto [] 111)"

definition h11_case111 :: "int \<Rightarrow> h11_action goto" where
  "h11_case111 c =
    (if c = 58 then Goto [] 115
     else if c < 65 then
       (if 48 \<le> c \<and> c \<le> 57 then Goto [] 112
       else Fail)
     else if 70 < c then
       (if 97 \<le> c \<and> c \<le> 102 then Goto [] 112
       else Fail)
     else Goto [] 112)"

definition h11_case112 :: "int \<Rightarrow> h11_action goto" where
  "h11_case112 c =
    (if c = 58 then Goto [] 115
     else if c < 65 then
       (if 48 \<le> c \<and> c \<le> 57 then Goto [] 113
       else Fail)
     else if 70 < c then
       (if 97 \<le> c \<and> c \<le> 102 then Goto [] 113
       else Fail)
     else Goto [] 113)"

definition h11_case113 :: "int \<Rightarrow> h11_action goto" where
  "h11_case113 c =
    (if c = 58 then Goto [] 115
     else if c < 65 then
       (if 48 \<le> c \<and> c \<le> 57 then Goto [] 114
       else Fail)
     else if 70 < c then
       (if 97 \<le> c \<and> c \<le> 102 then Goto [] 114
       else Fail)
     else Goto [] 114)"

definition h11_case114 :: "int \<Rightarrow> h11_action goto" where
  "h11_case114 c =
    (if c = 58 then Goto [] 115
     else Fail)"

definition h11_case115 :: "int \<Rightarrow> h11_action goto" where
  "h11_case115 c =
    (if c = 58 then Goto [] 151
     else if c < 65 then
       (if 48 \<le> c \<and> c \<le> 57 then Goto [] 116
       else Fail)
     else if 70 < c then
       (if 97 \<le> c \<and> c \<le> 102 then Goto [] 116
       else Fail)
     else Goto [] 116)"

definition h11_case116 :: "int \<Rightarrow> h11_action goto" where
  "h11_case116 c =
    (if c = 58 then Goto [] 120
     else if c < 65 then
       (if 48 \<le> c \<and> c \<le> 57 then Goto [] 117
       else Fail)
     else if 70 < c then
       (if 97 \<le> c \<and> c \<le> 102 then Goto [] 117
       else Fail)
     else Goto [] 117)"

definition h11_case117 :: "int \<Rightarrow> h11_action goto" where
  "h11_case117 c =
    (if c = 58 then Goto [] 120
     else if c < 65 then
       (if 48 \<le> c \<and> c \<le> 57 then Goto [] 118
       else Fail)
     else if 70 < c then
       (if 97 \<le> c \<and> c \<le> 102 then Goto [] 118
       else Fail)
     else Goto [] 118)"

definition h11_case118 :: "int \<Rightarrow> h11_action goto" where
  "h11_case118 c =
    (if c = 58 then Goto [] 120
     else if c < 65 then
       (if 48 \<le> c \<and> c \<le> 57 then Goto [] 119
       else Fail)
     else if 70 < c then
       (if 97 \<le> c \<and> c \<le> 102 then Goto [] 119
       else Fail)
     else Goto [] 119)"

definition h11_case119 :: "int \<Rightarrow> h11_action goto" where
  "h11_case119 c =
    (if c = 58 then Goto [] 120
     else Fail)"

definition h11_case120 :: "int \<Rightarrow> h11_action goto" where
  "h11_case120 c =
    (if c = 58 then Goto [] 150
     else if c < 65 then
       (if 48 \<le> c \<and> c \<le> 57 then Goto [] 121
       else Fail)
     else if 70 < c then
       (if 97 \<le> c \<and> c \<le> 102 then Goto [] 121
       else Fail)
     else Goto [] 121)"

definition h11_case121 :: "int \<Rightarrow> h11_action goto" where
  "h11_case121 c =
    (if c = 58 then Goto [] 125
     else if c < 65 then
       (if 48 \<le> c \<and> c \<le> 57 then Goto [] 122
       else Fail)
     else if 70 < c then
       (if 97 \<le> c \<and> c \<le> 102 then Goto [] 122
       else Fail)
     else Goto [] 122)"

definition h11_case122 :: "int \<Rightarrow> h11_action goto" where
  "h11_case122 c =
    (if c = 58 then Goto [] 125
     else if c < 65 then
       (if 48 \<le> c \<and> c \<le> 57 then Goto [] 123
       else Fail)
     else if 70 < c then
       (if 97 \<le> c \<and> c \<le> 102 then Goto [] 123
       else Fail)
     else Goto [] 123)"

definition h11_case123 :: "int \<Rightarrow> h11_action goto" where
  "h11_case123 c =
    (if c = 58 then Goto [] 125
     else if c < 65 then
       (if 48 \<le> c \<and> c \<le> 57 then Goto [] 124
       else Fail)
     else if 70 < c then
       (if 97 \<le> c \<and> c \<le> 102 then Goto [] 124
       else Fail)
     else Goto [] 124)"

definition h11_case124 :: "int \<Rightarrow> h11_action goto" where
  "h11_case124 c =
    (if c = 58 then Goto [] 125
     else Fail)"

definition h11_case125 :: "int \<Rightarrow> h11_action goto" where
  "h11_case125 c =
    (if c = 58 then Goto [] 126
     else if c < 65 then
       (if 48 \<le> c \<and> c \<le> 57 then Goto [] 121
       else Fail)
     else if 70 < c then
       (if 97 \<le> c \<and> c \<le> 102 then Goto [] 121
       else Fail)
     else Goto [] 121)"

definition h11_case126 :: "int \<Rightarrow> h11_action goto" where
  "h11_case126 c =
    (if c = 49 then Goto [] 143
     else if c = 50 then Goto [] 146
     else if c = 93 then Goto [] 61
     else if c < 48 then
       (if 2 \<le> c \<and> c \<le> 3 then Goto [] 48
       else Fail)
     else if 57 < c then
       (if 70 < c then
         (if 97 \<le> c \<and> c \<le> 102 then Goto [] 149
         else Fail)
       else if 65 \<le> c then Goto [] 149
       else Fail)
     else Goto [] 127)"

definition h11_case127 :: "int \<Rightarrow> h11_action goto" where
  "h11_case127 c =
    (if c = 46 then Goto [] 55
     else if c = 58 then Goto [] 131
     else if c = 93 then Goto [] 61
     else if c < 65 then
       (if 48 \<le> c \<and> c \<le> 57 then Goto [] 128
       else Fail)
     else if 70 < c then
       (if 97 \<le> c \<and> c \<le> 102 then Goto [] 128
       else Fail)
     else Goto [] 128)"

definition h11_case128 :: "int \<Rightarrow> h11_action goto" where
  "h11_case128 c =
    (if c = 58 then Goto [] 131
     else if c = 93 then Goto [] 61
     else if c < 65 then
       (if 48 \<le> c \<and> c \<le> 57 then Goto [] 129
       else Fail)
     else if 70 < c then
       (if 97 \<le> c \<and> c \<le> 102 then Goto [] 129
       else Fail)
     else Goto [] 129)"

definition h11_case129 :: "int \<Rightarrow> h11_action goto" where
  "h11_case129 c =
    (if c = 58 then Goto [] 131
     else if c = 93 then Goto [] 61
     else if c < 65 then
       (if 48 \<le> c \<and> c \<le> 57 then Goto [] 130
       else Fail)
     else if 70 < c then
       (if 97 \<le> c \<and> c \<le> 102 then Goto [] 130
       else Fail)
     else Goto [] 130)"

definition h11_case130 :: "int \<Rightarrow> h11_action goto" where
  "h11_case130 c =
    (if c = 58 then Goto [] 131
     else if c = 93 then Goto [] 61
     else Fail)"

definition h11_case131 :: "int \<Rightarrow> h11_action goto" where
  "h11_case131 c =
    (if c = 49 then Goto [] 136
     else if c = 50 then Goto [] 139
     else if c < 65 then
       (if 48 \<le> c \<and> c \<le> 57 then Goto [] 132
       else Fail)
     else if 70 < c then
       (if 97 \<le> c \<and> c \<le> 102 then Goto [] 142
       else Fail)
     else Goto [] 142)"

definition h11_case132 :: "int \<Rightarrow> h11_action goto" where
  "h11_case132 c =
    (if c = 46 then Goto [] 55
     else if c = 58 then Goto [] 80
     else if c = 93 then Goto [] 61
     else if c < 65 then
       (if 48 \<le> c \<and> c \<le> 57 then Goto [] 133
       else Fail)
     else if 70 < c then
       (if 97 \<le> c \<and> c \<le> 102 then Goto [] 133
       else Fail)
     else Goto [] 133)"

definition h11_case133 :: "int \<Rightarrow> h11_action goto" where
  "h11_case133 c =
    (if c = 58 then Goto [] 80
     else if c = 93 then Goto [] 61
     else if c < 65 then
       (if 48 \<le> c \<and> c \<le> 57 then Goto [] 134
       else Fail)
     else if 70 < c then
       (if 97 \<le> c \<and> c \<le> 102 then Goto [] 134
       else Fail)
     else Goto [] 134)"

definition h11_case134 :: "int \<Rightarrow> h11_action goto" where
  "h11_case134 c =
    (if c = 58 then Goto [] 80
     else if c = 93 then Goto [] 61
     else if c < 65 then
       (if 48 \<le> c \<and> c \<le> 57 then Goto [] 135
       else Fail)
     else if 70 < c then
       (if 97 \<le> c \<and> c \<le> 102 then Goto [] 135
       else Fail)
     else Goto [] 135)"

definition h11_case135 :: "int \<Rightarrow> h11_action goto" where
  "h11_case135 c =
    (if c = 58 then Goto [] 80
     else if c = 93 then Goto [] 61
     else Fail)"

definition h11_case136 :: "int \<Rightarrow> h11_action goto" where
  "h11_case136 c =
    (if c = 46 then Goto [] 55
     else if c = 58 then Goto [] 80
     else if c = 93 then Goto [] 61
     else if c < 65 then
       (if 48 \<le> c \<and> c \<le> 57 then Goto [] 137
       else Fail)
     else if 70 < c then
       (if 97 \<le> c \<and> c \<le> 102 then Goto [] 133
       else Fail)
     else Goto [] 133)"

definition h11_case137 :: "int \<Rightarrow> h11_action goto" where
  "h11_case137 c =
    (if c = 46 then Goto [] 55
     else if c = 58 then Goto [] 80
     else if c = 93 then Goto [] 61
     else if c < 65 then
       (if 48 \<le> c \<and> c \<le> 57 then Goto [] 138
       else Fail)
     else if 70 < c then
       (if 97 \<le> c \<and> c \<le> 102 then Goto [] 134
       else Fail)
     else Goto [] 134)"

definition h11_case138 :: "int \<Rightarrow> h11_action goto" where
  "h11_case138 c =
    (if c = 46 then Goto [] 55
     else if c = 58 then Goto [] 80
     else if c = 93 then Goto [] 61
     else if c < 65 then
       (if 48 \<le> c \<and> c \<le> 57 then Goto [] 135
       else Fail)
     else if 70 < c then
       (if 97 \<le> c \<and> c \<le> 102 then Goto [] 135
       else Fail)
     else Goto [] 135)"

definition h11_case139 :: "int \<Rightarrow> h11_action goto" where
  "h11_case139 c =
    (if c = 46 then Goto [] 55
     else if c = 48 then Goto [] 140
     else if c = 53 then Goto [] 141
     else if c = 58 then Goto [] 80
     else if c = 93 then Goto [] 61
     else if c < 65 then
       (if 49 \<le> c \<and> c \<le> 57 then Goto [] 133
       else Fail)
     else if 70 < c then
       (if 97 \<le> c \<and> c \<le> 102 then Goto [] 133
       else Fail)
     else Goto [] 133)"

definition h11_case140 :: "int \<Rightarrow> h11_action goto" where
  "h11_case140 c =
    (if c = 58 then Goto [] 80
     else if c = 93 then Goto [] 61
     else if c < 65 then
       (if 48 \<le> c \<and> c \<le> 57 then Goto [] 138
       else Fail)
     else if 70 < c then
       (if 97 \<le> c \<and> c \<le> 102 then Goto [] 134
       else Fail)
     else Goto [] 134)"

definition h11_case141 :: "int \<Rightarrow> h11_action goto" where
  "h11_case141 c =
    (if c = 48 then Goto [] 138
     else if c = 58 then Goto [] 80
     else if c = 93 then Goto [] 61
     else if c < 65 then
       (if 49 \<le> c \<and> c \<le> 57 then Goto [] 134
       else Fail)
     else if 70 < c then
       (if 97 \<le> c \<and> c \<le> 102 then Goto [] 134
       else Fail)
     else Goto [] 134)"

definition h11_case142 :: "int \<Rightarrow> h11_action goto" where
  "h11_case142 c =
    (if c = 58 then Goto [] 80
     else if c = 93 then Goto [] 61
     else if c < 65 then
       (if 48 \<le> c \<and> c \<le> 57 then Goto [] 133
       else Fail)
     else if 70 < c then
       (if 97 \<le> c \<and> c \<le> 102 then Goto [] 133
       else Fail)
     else Goto [] 133)"

definition h11_case143 :: "int \<Rightarrow> h11_action goto" where
  "h11_case143 c =
    (if c = 46 then Goto [] 55
     else if c = 58 then Goto [] 131
     else if c = 93 then Goto [] 61
     else if c < 65 then
       (if 48 \<le> c \<and> c \<le> 57 then Goto [] 144
       else Fail)
     else if 70 < c then
       (if 97 \<le> c \<and> c \<le> 102 then Goto [] 128
       else Fail)
     else Goto [] 128)"

definition h11_case144 :: "int \<Rightarrow> h11_action goto" where
  "h11_case144 c =
    (if c = 46 then Goto [] 55
     else if c = 58 then Goto [] 131
     else if c = 93 then Goto [] 61
     else if c < 65 then
       (if 48 \<le> c \<and> c \<le> 57 then Goto [] 145
       else Fail)
     else if 70 < c then
       (if 97 \<le> c \<and> c \<le> 102 then Goto [] 129
       else Fail)
     else Goto [] 129)"

definition h11_case145 :: "int \<Rightarrow> h11_action goto" where
  "h11_case145 c =
    (if c = 46 then Goto [] 55
     else if c = 58 then Goto [] 131
     else if c = 93 then Goto [] 61
     else if c < 65 then
       (if 48 \<le> c \<and> c \<le> 57 then Goto [] 130
       else Fail)
     else if 70 < c then
       (if 97 \<le> c \<and> c \<le> 102 then Goto [] 130
       else Fail)
     else Goto [] 130)"

definition h11_case146 :: "int \<Rightarrow> h11_action goto" where
  "h11_case146 c =
    (if c = 46 then Goto [] 55
     else if c = 48 then Goto [] 147
     else if c = 53 then Goto [] 148
     else if c = 58 then Goto [] 131
     else if c = 93 then Goto [] 61
     else if c < 65 then
       (if 49 \<le> c \<and> c \<le> 57 then Goto [] 128
       else Fail)
     else if 70 < c then
       (if 97 \<le> c \<and> c \<le> 102 then Goto [] 128
       else Fail)
     else Goto [] 128)"

definition h11_case147 :: "int \<Rightarrow> h11_action goto" where
  "h11_case147 c =
    (if c = 58 then Goto [] 131
     else if c = 93 then Goto [] 61
     else if c < 65 then
       (if 48 \<le> c \<and> c \<le> 57 then Goto [] 145
       else Fail)
     else if 70 < c then
       (if 97 \<le> c \<and> c \<le> 102 then Goto [] 129
       else Fail)
     else Goto [] 129)"

definition h11_case148 :: "int \<Rightarrow> h11_action goto" where
  "h11_case148 c =
    (if c = 48 then Goto [] 145
     else if c = 58 then Goto [] 131
     else if c = 93 then Goto [] 61
     else if c < 65 then
       (if 49 \<le> c \<and> c \<le> 57 then Goto [] 129
       else Fail)
     else if 70 < c then
       (if 97 \<le> c \<and> c \<le> 102 then Goto [] 129
       else Fail)
     else Goto [] 129)"

definition h11_case149 :: "int \<Rightarrow> h11_action goto" where
  "h11_case149 c =
    (if c = 58 then Goto [] 131
     else if c = 93 then Goto [] 61
     else if c < 65 then
       (if 48 \<le> c \<and> c \<le> 57 then Goto [] 128
       else Fail)
     else if 70 < c then
       (if 97 \<le> c \<and> c \<le> 102 then Goto [] 128
       else Fail)
     else Goto [] 128)"

definition h11_case150 :: "int \<Rightarrow> h11_action goto" where
  "h11_case150 c =
    (if c = 49 then Goto [] 143
     else if c = 50 then Goto [] 146
     else if c < 48 then
       (if 2 \<le> c \<and> c \<le> 3 then Goto [] 48
       else Fail)
     else if 57 < c then
       (if 70 < c then
         (if 97 \<le> c \<and> c \<le> 102 then Goto [] 149
         else Fail)
       else if 65 \<le> c then Goto [] 149
       else Fail)
     else Goto [] 127)"

definition h11_case151 :: "int \<Rightarrow> h11_action goto" where
  "h11_case151 c =
    (if c = 49 then Goto [] 156
     else if c = 50 then Goto [] 159
     else if c < 48 then
       (if 2 \<le> c \<and> c \<le> 3 then Goto [] 48
       else Fail)
     else if 57 < c then
       (if 70 < c then
         (if 97 \<le> c \<and> c \<le> 102 then Goto [] 162
         else Fail)
       else if 65 \<le> c then Goto [] 162
       else Fail)
     else Goto [] 152)"

definition h11_case152 :: "int \<Rightarrow> h11_action goto" where
  "h11_case152 c =
    (if c = 46 then Goto [] 55
     else if c = 58 then Goto [] 131
     else if c < 65 then
       (if 48 \<le> c \<and> c \<le> 57 then Goto [] 153
       else Fail)
     else if 70 < c then
       (if 97 \<le> c \<and> c \<le> 102 then Goto [] 153
       else Fail)
     else Goto [] 153)"

definition h11_case153 :: "int \<Rightarrow> h11_action goto" where
  "h11_case153 c =
    (if c = 58 then Goto [] 131
     else if c < 65 then
       (if 48 \<le> c \<and> c \<le> 57 then Goto [] 154
       else Fail)
     else if 70 < c then
       (if 97 \<le> c \<and> c \<le> 102 then Goto [] 154
       else Fail)
     else Goto [] 154)"

definition h11_case154 :: "int \<Rightarrow> h11_action goto" where
  "h11_case154 c =
    (if c = 58 then Goto [] 131
     else if c < 65 then
       (if 48 \<le> c \<and> c \<le> 57 then Goto [] 155
       else Fail)
     else if 70 < c then
       (if 97 \<le> c \<and> c \<le> 102 then Goto [] 155
       else Fail)
     else Goto [] 155)"

definition h11_case155 :: "int \<Rightarrow> h11_action goto" where
  "h11_case155 c =
    (if c = 58 then Goto [] 131
     else Fail)"

definition h11_case156 :: "int \<Rightarrow> h11_action goto" where
  "h11_case156 c =
    (if c = 46 then Goto [] 55
     else if c = 58 then Goto [] 131
     else if c < 65 then
       (if 48 \<le> c \<and> c \<le> 57 then Goto [] 157
       else Fail)
     else if 70 < c then
       (if 97 \<le> c \<and> c \<le> 102 then Goto [] 153
       else Fail)
     else Goto [] 153)"

definition h11_case157 :: "int \<Rightarrow> h11_action goto" where
  "h11_case157 c =
    (if c = 46 then Goto [] 55
     else if c = 58 then Goto [] 131
     else if c < 65 then
       (if 48 \<le> c \<and> c \<le> 57 then Goto [] 158
       else Fail)
     else if 70 < c then
       (if 97 \<le> c \<and> c \<le> 102 then Goto [] 154
       else Fail)
     else Goto [] 154)"

definition h11_case158 :: "int \<Rightarrow> h11_action goto" where
  "h11_case158 c =
    (if c = 46 then Goto [] 55
     else if c = 58 then Goto [] 131
     else if c < 65 then
       (if 48 \<le> c \<and> c \<le> 57 then Goto [] 155
       else Fail)
     else if 70 < c then
       (if 97 \<le> c \<and> c \<le> 102 then Goto [] 155
       else Fail)
     else Goto [] 155)"

definition h11_case159 :: "int \<Rightarrow> h11_action goto" where
  "h11_case159 c =
    (if c = 46 then Goto [] 55
     else if c = 48 then Goto [] 160
     else if c = 53 then Goto [] 161
     else if c = 58 then Goto [] 131
     else if c < 65 then
       (if 49 \<le> c \<and> c \<le> 57 then Goto [] 153
       else Fail)
     else if 70 < c then
       (if 97 \<le> c \<and> c \<le> 102 then Goto [] 153
       else Fail)
     else Goto [] 153)"

definition h11_case160 :: "int \<Rightarrow> h11_action goto" where
  "h11_case160 c =
    (if c = 58 then Goto [] 131
     else if c < 65 then
       (if 48 \<le> c \<and> c \<le> 57 then Goto [] 158
       else Fail)
     else if 70 < c then
       (if 97 \<le> c \<and> c \<le> 102 then Goto [] 154
       else Fail)
     else Goto [] 154)"

definition h11_case161 :: "int \<Rightarrow> h11_action goto" where
  "h11_case161 c =
    (if c = 48 then Goto [] 158
     else if c = 58 then Goto [] 131
     else if c < 65 then
       (if 49 \<le> c \<and> c \<le> 57 then Goto [] 154
       else Fail)
     else if 70 < c then
       (if 97 \<le> c \<and> c \<le> 102 then Goto [] 154
       else Fail)
     else Goto [] 154)"

definition h11_case162 :: "int \<Rightarrow> h11_action goto" where
  "h11_case162 c =
    (if c = 58 then Goto [] 131
     else if c < 65 then
       (if 48 \<le> c \<and> c \<le> 57 then Goto [] 153
       else Fail)
     else if 70 < c then
       (if 97 \<le> c \<and> c \<le> 102 then Goto [] 153
       else Fail)
     else Goto [] 153)"

definition h11_case163 :: "int \<Rightarrow> h11_action goto" where
  "h11_case163 c =
    (if c < 48 then
       (if 2 \<le> c \<and> c \<le> 3 then Goto [] 48
       else Fail)
     else if 57 < c then
       (if 70 < c then
         (if 97 \<le> c \<and> c \<le> 102 then Goto [] 49
         else Fail)
       else if 65 \<le> c then Goto [] 49
       else Fail)
     else Goto [] 49)"

definition h11_case164 :: "int \<Rightarrow> h11_action goto" where
  "h11_case164 c =
    (if 2 \<le> c \<and> c \<le> 3 then Goto [] 48
     else Fail)"

definition h11_case165 :: "int \<Rightarrow> h11_action goto" where
  "h11_case165 c =
    (if c = 3 then Goto [] 48
     else Fail)"

definition h11_case166 :: "int \<Rightarrow> h11_action goto" where
  "h11_case166 c =
    (if c = 4 then Goto [] 48
     else Fail)"

definition h11_case167 :: "int \<Rightarrow> h11_action goto" where
  "h11_case167 c =
    (if c = 58 then Goto [] 168
     else Fail)"

definition h11_case168 :: "int \<Rightarrow> h11_action goto" where
  "h11_case168 c =
    (if c = 49 then Goto [] 143
     else if c = 50 then Goto [] 146
     else if c = 93 then Goto [] 61
     else if c < 48 then
       (if 2 \<le> c \<and> c \<le> 5 then Goto [] 48
       else Fail)
     else if 57 < c then
       (if 70 < c then
         (if 97 \<le> c \<and> c \<le> 102 then Goto [] 149
         else Fail)
       else if 65 \<le> c then Goto [] 149
       else Fail)
     else Goto [] 127)"

definition h11_case169 :: "int \<Rightarrow> h11_action goto" where
  "h11_case169 c =
    (if c < 65 then
       (if 48 \<le> c \<and> c \<le> 57 then Goto [] 170
       else Fail)
     else if 70 < c then
       (if 97 \<le> c \<and> c \<le> 102 then Goto [] 170
       else Fail)
     else Goto [] 170)"

definition h11_case170 :: "int \<Rightarrow> h11_action goto" where
  "h11_case170 c =
    (if c = 46 then Goto [] 171
     else if c < 65 then
       (if 48 \<le> c \<and> c \<le> 57 then Goto [] 170
       else Fail)
     else if 70 < c then
       (if 97 \<le> c \<and> c \<le> 102 then Goto [] 170
       else Fail)
     else Goto [] 170)"

definition h11_case171 :: "int \<Rightarrow> h11_action goto" where
  "h11_case171 w =
    (if w = 33 \<or> w = 36 \<or> w = 61 \<or> w = 95 \<or> w = 126 \<or> w = 606 \<or> w = 635 \<or> w = 637 then Goto [] 172
     else if w < 48 then
       (if 38 \<le> w \<and> w \<le> 46 then Goto [] 172
       else Fail)
     else if 59 < w then
       (if 90 < w then
         (if 97 \<le> w \<and> w \<le> 122 then Goto [] 172
         else Fail)
       else if 65 \<le> w then Goto [] 172
       else Fail)
     else Goto [] 172)"

definition h11_case172 :: "int \<Rightarrow> h11_action goto" where
  "h11_case172 w =
    (if w = 33 \<or> w = 36 \<or> w = 61 \<or> w = 95 \<or> w = 126 \<or> w = 606 \<or> w = 635 \<or> w = 637 then Goto [] 172
     else if w = 93 then Goto [] 61
     else if w < 48 then
       (if 38 \<le> w \<and> w \<le> 46 then Goto [] 172
       else Fail)
     else if 59 < w then
       (if 90 < w then
         (if 97 \<le> w \<and> w \<le> 122 then Goto [] 172
         else Fail)
       else if 65 \<le> w then Goto [] 172
       else Fail)
     else Goto [] 172)"

definition h11_case173 :: "int \<Rightarrow> h11_action goto" where
  "h11_case173 w =
    (if w = 32 then h11_tr37
     else if w = 33 \<or> w = 59 \<or> w = 61 \<or> w = 64 \<or> w = 95 \<or> w = 126 \<or> w = 606 \<or> w = 635 \<or> w = 637 then Goto [] 19
     else if w = 35 then h11_tr39
     else if w = 37 then Goto [] 24
     else if w = 43 then Goto [] 173
     else if w = 47 then Goto [] 26
     else if w = 58 then Goto [] 174
     else if w = 63 then h11_tr42
     else if w < 45 then
       (if 36 \<le> w \<and> w \<le> 44 then Goto [] 19
       else Fail)
     else if 57 < w then
       (if 90 < w then
         (if 97 \<le> w \<and> w \<le> 122 then Goto [] 173
         else Fail)
       else if 65 \<le> w then Goto [] 173
       else Fail)
     else Goto [] 173)"

definition h11_case174 :: "int \<Rightarrow> h11_action goto" where
  "h11_case174 w =
    (if w = 32 then h11_tr6
     else if w = 33 \<or> w = 61 \<or> w = 95 \<or> w = 126 \<or> w = 606 \<or> w = 635 \<or> w = 637 then h11_tr203
     else if w = 35 then h11_tr8
     else if w = 37 then h11_tr204
     else if w = 47 then h11_tr10
     else if w = 63 then h11_tr11
     else if w < 64 then
       (if 36 \<le> w \<and> w \<le> 59 then h11_tr203
       else Fail)
     else if 90 < w then
       (if 97 \<le> w \<and> w \<le> 122 then h11_tr203
       else Fail)
     else h11_tr203)"

definition h11_case175 :: "int \<Rightarrow> h11_action goto" where
  "h11_case175 c =
    (if c = 32 then h11_tr4
     else if 57 < c then
       (if 65 \<le> c \<and> c \<le> 90 then Goto [] 176
       else Fail)
     else if 48 \<le> c then Goto [] 176
     else Fail)"

definition h11_case176 :: "int \<Rightarrow> h11_action goto" where
  "h11_case176 c =
    (if c = 32 then h11_tr4
     else if 57 < c then
       (if 65 \<le> c \<and> c \<le> 90 then Goto [] 177
       else Fail)
     else if 48 \<le> c then Goto [] 177
     else Fail)"

definition h11_case177 :: "int \<Rightarrow> h11_action goto" where
  "h11_case177 c =
    (if c = 32 then h11_tr4
     else if 57 < c then
       (if 65 \<le> c \<and> c \<le> 90 then Goto [] 178
       else Fail)
     else if 48 \<le> c then Goto [] 178
     else Fail)"

definition h11_case178 :: "int \<Rightarrow> h11_action goto" where
  "h11_case178 c =
    (if c = 32 then h11_tr4
     else if 57 < c then
       (if 65 \<le> c \<and> c \<le> 90 then Goto [] 179
       else Fail)
     else if 48 \<le> c then Goto [] 179
     else Fail)"

definition h11_case179 :: "int \<Rightarrow> h11_action goto" where
  "h11_case179 c =
    (if c = 32 then h11_tr4
     else if 57 < c then
       (if 65 \<le> c \<and> c \<le> 90 then Goto [] 180
       else Fail)
     else if 48 \<le> c then Goto [] 180
     else Fail)"

definition h11_case180 :: "int \<Rightarrow> h11_action goto" where
  "h11_case180 c =
    (if c = 32 then h11_tr4
     else if 57 < c then
       (if 65 \<le> c \<and> c \<le> 90 then Goto [] 181
       else Fail)
     else if 48 \<le> c then Goto [] 181
     else Fail)"

definition h11_case181 :: "int \<Rightarrow> h11_action goto" where
  "h11_case181 c =
    (if c = 32 then h11_tr4
     else if 57 < c then
       (if 65 \<le> c \<and> c \<le> 90 then Goto [] 182
       else Fail)
     else if 48 \<le> c then Goto [] 182
     else Fail)"

definition h11_case182 :: "int \<Rightarrow> h11_action goto" where
  "h11_case182 c =
    (if c = 32 then h11_tr4
     else if 57 < c then
       (if 65 \<le> c \<and> c \<le> 90 then Goto [] 183
       else Fail)
     else if 48 \<le> c then Goto [] 183
     else Fail)"

definition h11_case183 :: "int \<Rightarrow> h11_action goto" where
  "h11_case183 c =
    (if c = 32 then h11_tr4
     else if 57 < c then
       (if 65 \<le> c \<and> c \<le> 90 then Goto [] 184
       else Fail)
     else if 48 \<le> c then Goto [] 184
     else Fail)"

definition h11_case184 :: "int \<Rightarrow> h11_action goto" where
  "h11_case184 c =
    (if c = 32 then h11_tr4
     else if 57 < c then
       (if 65 \<le> c \<and> c \<le> 90 then Goto [] 185
       else Fail)
     else if 48 \<le> c then Goto [] 185
     else Fail)"

definition h11_case185 :: "int \<Rightarrow> h11_action goto" where
  "h11_case185 c =
    (if c = 32 then h11_tr4
     else if 57 < c then
       (if 65 \<le> c \<and> c \<le> 90 then Goto [] 186
       else Fail)
     else if 48 \<le> c then Goto [] 186
     else Fail)"

definition h11_case186 :: "int \<Rightarrow> h11_action goto" where
  "h11_case186 c =
    (if c = 32 then h11_tr4
     else if 57 < c then
       (if 65 \<le> c \<and> c \<le> 90 then Goto [] 187
       else Fail)
     else if 48 \<le> c then Goto [] 187
     else Fail)"

definition h11_case187 :: "int \<Rightarrow> h11_action goto" where
  "h11_case187 c =
    (if c = 32 then h11_tr4
     else if 57 < c then
       (if 65 \<le> c \<and> c \<le> 90 then Goto [] 188
       else Fail)
     else if 48 \<le> c then Goto [] 188
     else Fail)"

definition h11_case188 :: "int \<Rightarrow> h11_action goto" where
  "h11_case188 c =
    (if c = 32 then h11_tr4
     else if 57 < c then
       (if 65 \<le> c \<and> c \<le> 90 then Goto [] 189
       else Fail)
     else if 48 \<le> c then Goto [] 189
     else Fail)"

definition h11_case189 :: "int \<Rightarrow> h11_action goto" where
  "h11_case189 c =
    (if c = 32 then h11_tr4
     else if 57 < c then
       (if 65 \<le> c \<and> c \<le> 90 then Goto [] 190
       else Fail)
     else if 48 \<le> c then Goto [] 190
     else Fail)"

definition h11_case190 :: "int \<Rightarrow> h11_action goto" where
  "h11_case190 c =
    (if c = 32 then h11_tr4
     else if 57 < c then
       (if 65 \<le> c \<and> c \<le> 90 then Goto [] 191
       else Fail)
     else if 48 \<le> c then Goto [] 191
     else Fail)"

definition h11_case191 :: "int \<Rightarrow> h11_action goto" where
  "h11_case191 c =
    (if c = 32 then h11_tr4
     else if 57 < c then
       (if 65 \<le> c \<and> c \<le> 90 then Goto [] 192
       else Fail)
     else if 48 \<le> c then Goto [] 192
     else Fail)"

definition h11_case192 :: "int \<Rightarrow> h11_action goto" where
  "h11_case192 c =
    (if c = 32 then h11_tr4
     else if 57 < c then
       (if 65 \<le> c \<and> c \<le> 90 then Goto [] 193
       else Fail)
     else if 48 \<le> c then Goto [] 193
     else Fail)"

definition h11_case193 :: "int \<Rightarrow> h11_action goto" where
  "h11_case193 c =
    (if c = 32 then h11_tr4
     else Fail)"

definition h11_case194 :: "int \<Rightarrow> h11_action goto" where
  "h11_case194 c =
    (if c < 48 then
       (if 45 \<le> c \<and> c \<le> 46 then Goto [] 195
       else Fail)
     else if 57 < c then
       (if 90 < c then
         (if 97 \<le> c \<and> c \<le> 122 then Goto [] 195
         else Fail)
       else if 65 \<le> c then Goto [] 195
       else Fail)
     else Goto [] 195)"

definition h11_case195 :: "int \<Rightarrow> h11_action goto" where
  "h11_case195 c =
    (if c = 32 \<or> c = 47 \<or> c = 62 then h11_tr224
     else if c < 45 then
       (if 9 \<le> c \<and> c \<le> 13 then h11_tr224
       else Fail)
     else if 57 < c then
       (if 90 < c then
         (if 97 \<le> c \<and> c \<le> 122 then Goto [] 195
         else Fail)
       else if 65 \<le> c then Goto [] 195
       else Fail)
     else Goto [] 195)"

definition h11_case196 :: "int \<Rightarrow> h11_action goto" where
  "h11_case196 c =
    (if c = 62 then Goto [] 197
     else Goto [] 196)"

definition h11_case197 :: "int \<Rightarrow> h11_action goto" where
  "h11_case197 c =
    (if c = 0 then h11_tr227
     else if c = 62 then Goto [] 197
     else Goto [] 196)"

definition h11_case349 :: "int \<Rightarrow> h11_action goto" where
  "h11_case349 c = Fail"

definition h11_case198 :: "int \<Rightarrow> h11_action goto" where
  "h11_case198 w =
    (if w = 32 then h11_tr228
     else if w = 33 \<or> w = 59 \<or> w = 61 \<or> w = 95 \<or> w = 126 \<or> w = 606 \<or> w = 635 \<or> w = 637 then Goto [] 202
     else if w = 37 then Goto [] 203
     else if w = 47 then Goto [] 208
     else if w < 64 then
       (if 36 \<le> w \<and> w \<le> 57 then Goto [] 202
       else Fail)
     else if 90 < w then
       (if 97 \<le> w \<and> w \<le> 122 then Goto [] 202
       else Fail)
     else Goto [] 202)"

definition h11_case199 :: "int \<Rightarrow> h11_action goto" where
  "h11_case199 c =
    (if c = 123 then h11_tr232
     else Fail)"

definition h11_case200 :: "int \<Rightarrow> h11_action goto" where
  "h11_case200 c =
    (if c = 125 then Goto [] 201
     else Goto [] 200)"

definition h11_case201 :: "int \<Rightarrow> h11_action goto" where
  "h11_case201 c =
    (if c = 0 then h11_tr235
     else if c = 125 then Goto [] 201
     else Goto [] 200)"

definition h11_case202 :: "int \<Rightarrow> h11_action goto" where
  "h11_case202 w =
    (if w = 32 then h11_tr228
     else if w = 33 \<or> w = 59 \<or> w = 61 \<or> w = 95 \<or> w = 126 \<or> w = 606 \<or> w = 635 \<or> w = 637 then Goto [] 202
     else if w = 37 then Goto [] 203
     else if w = 47 then Goto [] 205
     else if w < 64 then
       (if 36 \<le> w \<and> w \<le> 57 then Goto [] 202
       else Fail)
     else if 90 < w then
       (if 97 \<le> w \<and> w \<le> 122 then Goto [] 202
       else Fail)
     else Goto [] 202)"

definition h11_case203 :: "int \<Rightarrow> h11_action goto" where
  "h11_case203 c =
    (if c < 65 then
       (if 48 \<le> c \<and> c \<le> 57 then Goto [] 204
       else Fail)
     else if 70 < c then
       (if 97 \<le> c \<and> c \<le> 102 then Goto [] 204
       else Fail)
     else Goto [] 204)"

definition h11_case204 :: "int \<Rightarrow> h11_action goto" where
  "h11_case204 c =
    (if c < 65 then
       (if 48 \<le> c \<and> c \<le> 57 then Goto [] 202
       else Fail)
     else if 70 < c then
       (if 97 \<le> c \<and> c \<le> 102 then Goto [] 202
       else Fail)
     else Goto [] 202)"

definition h11_case205 :: "int \<Rightarrow> h11_action goto" where
  "h11_case205 w =
    (if w = 32 then h11_tr228
     else if w = 33 \<or> w = 61 \<or> w = 95 \<or> w = 126 \<or> w = 606 \<or> w = 635 \<or> w = 637 then Goto [] 205
     else if w = 37 then Goto [] 206
     else if w < 64 then
       (if 36 \<le> w \<and> w \<le> 59 then Goto [] 205
       else Fail)
     else if 90 < w then
       (if 97 \<le> w \<and> w \<le> 122 then Goto [] 205
       else Fail)
     else Goto [] 205)"

definition h11_case206 :: "int \<Rightarrow> h11_action goto" where
  "h11_case206 c =
    (if c < 65 then
       (if 48 \<le> c \<and> c \<le> 57 then Goto [] 207
       else Fail)
     else if 70 < c then
       (if 97 \<le> c \<and> c \<le> 102 then Goto [] 207
       else Fail)
     else Goto [] 207)"

definition h11_case207 :: "int \<Rightarrow> h11_action goto" where
  "h11_case207 c =
    (if c < 65 then
       (if 48 \<le> c \<and> c \<le> 57 then Goto [] 205
       else Fail)
     else if 70 < c then
       (if 97 \<le> c \<and> c \<le> 102 then Goto [] 205
       else Fail)
     else Goto [] 205)"

definition h11_case208 :: "int \<Rightarrow> h11_action goto" where
  "h11_case208 w =
    (if w = 32 then h11_tr228
     else if w = 33 \<or> w = 61 \<or> w = 95 \<or> w = 126 \<or> w = 606 \<or> w = 635 \<or> w = 637 then Goto [] 205
     else if w = 37 then Goto [] 206
     else if w = 47 then Goto [] 209
     else if w < 64 then
       (if 36 \<le> w \<and> w \<le> 59 then Goto [] 205
       else Fail)
     else if 90 < w then
       (if 97 \<le> w \<and> w \<le> 122 then Goto [] 205
       else Fail)
     else Goto [] 205)"

definition h11_case209 :: "int \<Rightarrow> h11_action goto" where
  "h11_case209 w =
    (if w = 32 then h11_tr228
     else if w = 33 \<or> w = 61 \<or> w = 95 \<or> w = 126 \<or> w = 606 \<or> w = 635 \<or> w = 637 then Goto [] 210
     else if w = 37 then Goto [] 211
     else if w = 47 then Goto [] 205
     else if w = 58 then Goto [] 213
     else if w = 64 then Goto [] 217
     else if w = 91 then Goto [] 222
     else if w < 65 then
       (if 36 \<le> w \<and> w \<le> 59 then Goto [] 210
       else Fail)
     else if 90 < w then
       (if 97 \<le> w \<and> w \<le> 122 then Goto [] 210
       else Fail)
     else Goto [] 210)"

definition h11_case210 :: "int \<Rightarrow> h11_action goto" where
  "h11_case210 w =
    (if w = 32 then h11_tr228
     else if w = 33 \<or> w = 61 \<or> w = 95 \<or> w = 126 \<or> w = 606 \<or> w = 635 \<or> w = 637 then Goto [] 210
     else if w = 37 then Goto [] 211
     else if w = 47 then Goto [] 205
     else if w = 58 then Goto [] 213
     else if w = 64 then Goto [] 217
     else if w < 65 then
       (if 36 \<le> w \<and> w \<le> 59 then Goto [] 210
       else Fail)
     else if 90 < w then
       (if 97 \<le> w \<and> w \<le> 122 then Goto [] 210
       else Fail)
     else Goto [] 210)"

definition h11_case211 :: "int \<Rightarrow> h11_action goto" where
  "h11_case211 c =
    (if c < 65 then
       (if 48 \<le> c \<and> c \<le> 57 then Goto [] 212
       else Fail)
     else if 70 < c then
       (if 97 \<le> c \<and> c \<le> 102 then Goto [] 212
       else Fail)
     else Goto [] 212)"

definition h11_case212 :: "int \<Rightarrow> h11_action goto" where
  "h11_case212 c =
    (if c < 65 then
       (if 48 \<le> c \<and> c \<le> 57 then Goto [] 210
       else Fail)
     else if 70 < c then
       (if 97 \<le> c \<and> c \<le> 102 then Goto [] 210
       else Fail)
     else Goto [] 210)"

definition h11_case213 :: "int \<Rightarrow> h11_action goto" where
  "h11_case213 w =
    (if w = 32 then h11_tr228
     else if w = 33 \<or> w = 61 \<or> w = 95 \<or> w = 126 \<or> w = 606 \<or> w = 635 \<or> w = 637 then Goto [] 214
     else if w = 37 then Goto [] 215
     else if w = 47 then Goto [] 205
     else if w = 64 then Goto [] 217
     else if w < 58 then
       (if 46 < w then
         (if 48 \<le> w \<and> w \<le> 57 then Goto [] 213
         else Fail)
       else if 36 \<le> w then Goto [] 214
       else Fail)
     else if 59 < w then
       (if 90 < w then
         (if 97 \<le> w \<and> w \<le> 122 then Goto [] 214
         else Fail)
       else if 65 \<le> w then Goto [] 214
       else Fail)
     else Goto [] 214)"

definition h11_case214 :: "int \<Rightarrow> h11_action goto" where
  "h11_case214 w =
    (if w = 33 \<or> w = 61 \<or> w = 95 \<or> w = 126 \<or> w = 606 \<or> w = 635 \<or> w = 637 then Goto [] 214
     else if w = 37 then Goto [] 215
     else if w = 64 then Goto [] 217
     else if w < 48 then
       (if 36 \<le> w \<and> w \<le> 46 then Goto [] 214
       else Fail)
     else if 59 < w then
       (if 90 < w then
         (if 97 \<le> w \<and> w \<le> 122 then Goto [] 214
         else Fail)
       else if 65 \<le> w then Goto [] 214
       else Fail)
     else Goto [] 214)"

definition h11_case215 :: "int \<Rightarrow> h11_action goto" where
  "h11_case215 c =
    (if c < 65 then
       (if 48 \<le> c \<and> c \<le> 57 then Goto [] 216
       else Fail)
     else if 70 < c then
       (if 97 \<le> c \<and> c \<le> 102 then Goto [] 216
       else Fail)
     else Goto [] 216)"

definition h11_case216 :: "int \<Rightarrow> h11_action goto" where
  "h11_case216 c =
    (if c < 65 then
       (if 48 \<le> c \<and> c \<le> 57 then Goto [] 214
       else Fail)
     else if 70 < c then
       (if 97 \<le> c \<and> c \<le> 102 then Goto [] 214
       else Fail)
     else Goto [] 214)"

definition h11_case217 :: "int \<Rightarrow> h11_action goto" where
  "h11_case217 w =
    (if w = 32 then h11_tr228
     else if w = 33 \<or> w = 61 \<or> w = 95 \<or> w = 126 \<or> w = 606 \<or> w = 635 \<or> w = 637 then Goto [] 218
     else if w = 37 then Goto [] 219
     else if w = 47 then Goto [] 205
     else if w = 58 then Goto [] 221
     else if w = 91 then Goto [] 222
     else if w < 65 then
       (if 36 \<le> w \<and> w \<le> 59 then Goto [] 218
       else Fail)
     else if 90 < w then
       (if 97 \<le> w \<and> w \<le> 122 then Goto [] 218
       else Fail)
     else Goto [] 218)"

definition h11_case218 :: "int \<Rightarrow> h11_action goto" where
  "h11_case218 w =
    (if w = 32 then h11_tr228
     else if w = 33 \<or> w = 61 \<or> w = 95 \<or> w = 126 \<or> w = 606 \<or> w = 635 \<or> w = 637 then Goto [] 218
     else if w = 37 then Goto [] 219
     else if w = 47 then Goto [] 205
     else if w = 58 then Goto [] 221
     else if w < 65 then
       (if 36 \<le> w \<and> w \<le> 59 then Goto [] 218
       else Fail)
     else if 90 < w then
       (if 97 \<le> w \<and> w \<le> 122 then Goto [] 218
       else Fail)
     else Goto [] 218)"

definition h11_case219 :: "int \<Rightarrow> h11_action goto" where
  "h11_case219 c =
    (if c < 65 then
       (if 48 \<le> c \<and> c \<le> 57 then Goto [] 220
       else Fail)
     else if 70 < c then
       (if 97 \<le> c \<and> c \<le> 102 then Goto [] 220
       else Fail)
     else Goto [] 220)"

definition h11_case220 :: "int \<Rightarrow> h11_action goto" where
  "h11_case220 c =
    (if c < 65 then
       (if 48 \<le> c \<and> c \<le> 57 then Goto [] 218
       else Fail)
     else if 70 < c then
       (if 97 \<le> c \<and> c \<le> 102 then Goto [] 218
       else Fail)
     else Goto [] 218)"

definition h11_case221 :: "int \<Rightarrow> h11_action goto" where
  "h11_case221 c =
    (if c = 32 then h11_tr228
     else if c = 47 then Goto [] 205
     else if 48 \<le> c \<and> c \<le> 57 then Goto [] 221
     else Fail)"

definition h11_case222 :: "int \<Rightarrow> h11_action goto" where
  "h11_case222 c =
    (if c = 6 then Goto [] 223
     else if c = 58 then Goto [] 342
     else if c = 118 then Goto [] 344
     else if c < 65 then
       (if 48 \<le> c \<and> c \<le> 57 then Goto [] 266
       else Fail)
     else if 70 < c then
       (if 97 \<le> c \<and> c \<le> 102 then Goto [] 266
       else Fail)
     else Goto [] 266)"

definition h11_case223 :: "int \<Rightarrow> h11_action goto" where
  "h11_case223 c =
    (if c < 65 then
       (if 48 \<le> c \<and> c \<le> 57 then Goto [] 224
       else Fail)
     else if 70 < c then
       (if 97 \<le> c \<and> c \<le> 102 then Goto [] 224
       else Fail)
     else Goto [] 224)"

definition h11_case224 :: "int \<Rightarrow> h11_action goto" where
  "h11_case224 c =
    (if c = 58 then Goto [] 228
     else if c < 65 then
       (if 48 \<le> c \<and> c \<le> 57 then Goto [] 225
       else Fail)
     else if 70 < c then
       (if 97 \<le> c \<and> c \<le> 102 then Goto [] 225
       else Fail)
     else Goto [] 225)"

definition h11_case225 :: "int \<Rightarrow> h11_action goto" where
  "h11_case225 c =
    (if c = 58 then Goto [] 228
     else if c < 65 then
       (if 48 \<le> c \<and> c \<le> 57 then Goto [] 226
       else Fail)
     else if 70 < c then
       (if 97 \<le> c \<and> c \<le> 102 then Goto [] 226
       else Fail)
     else Goto [] 226)"

definition h11_case226 :: "int \<Rightarrow> h11_action goto" where
  "h11_case226 c =
    (if c = 58 then Goto [] 228
     else if c < 65 then
       (if 48 \<le> c \<and> c \<le> 57 then Goto [] 227
       else Fail)
     else if 70 < c then
       (if 97 \<le> c \<and> c \<le> 102 then Goto [] 227
       else Fail)
     else Goto [] 227)"

definition h11_case227 :: "int \<Rightarrow> h11_action goto" where
  "h11_case227 c =
    (if c = 58 then Goto [] 228
     else Fail)"

definition h11_case228 :: "int \<Rightarrow> h11_action goto" where
  "h11_case228 c =
    (if c = 49 then Goto [] 259
     else if c = 50 then Goto [] 262
     else if c < 65 then
       (if 48 \<le> c \<and> c \<le> 57 then Goto [] 229
       else Fail)
     else if 70 < c then
       (if 97 \<le> c \<and> c \<le> 102 then Goto [] 265
       else Fail)
     else Goto [] 265)"

definition h11_case229 :: "int \<Rightarrow> h11_action goto" where
  "h11_case229 c =
    (if c = 46 then Goto [] 230
     else if c = 58 then Goto [] 255
     else if c < 65 then
       (if 48 \<le> c \<and> c \<le> 57 then Goto [] 252
       else Fail)
     else if 70 < c then
       (if 97 \<le> c \<and> c \<le> 102 then Goto [] 252
       else Fail)
     else Goto [] 252)"

definition h11_case230 :: "int \<Rightarrow> h11_action goto" where
  "h11_case230 c =
    (if c = 49 then Goto [] 247
     else if c = 50 then Goto [] 249
     else if 48 \<le> c \<and> c \<le> 57 then Goto [] 231
     else Fail)"

definition h11_case231 :: "int \<Rightarrow> h11_action goto" where
  "h11_case231 c =
    (if c = 46 then Goto [] 232
     else Fail)"

definition h11_case232 :: "int \<Rightarrow> h11_action goto" where
  "h11_case232 c =
    (if c = 49 then Goto [] 242
     else if c = 50 then Goto [] 244
     else if 48 \<le> c \<and> c \<le> 57 then Goto [] 233
     else Fail)"

definition h11_case233 :: "int \<Rightarrow> h11_action goto" where
  "h11_case233 c =
    (if c = 46 then Goto [] 234
     else Fail)"

definition h11_case234 :: "int \<Rightarrow> h11_action goto" where
  "h11_case234 c =
    (if c = 49 then Goto [] 237
     else if c = 50 then Goto [] 239
     else if 48 \<le> c \<and> c \<le> 57 then Goto [] 235
     else Fail)"

definition h11_case235 :: "int \<Rightarrow> h11_action goto" where
  "h11_case235 c =
    (if c = 93 then Goto [] 236
     else Fail)"

definition h11_case236 :: "int \<Rightarrow> h11_action goto" where
  "h11_case236 c =
    (if c = 32 then h11_tr228
     else if c = 47 then Goto [] 205
     else if c = 58 then Goto [] 221
     else Fail)"

definition h11_case237 :: "int \<Rightarrow> h11_action goto" where
  "h11_case237 c =
    (if c = 93 then Goto [] 236
     else if 48 \<le> c \<and> c \<le> 57 then Goto [] 238
     else Fail)"

definition h11_case238 :: "int \<Rightarrow> h11_action goto" where
  "h11_case238 c =
    (if c = 93 then Goto [] 236
     else if 48 \<le> c \<and> c \<le> 57 then Goto [] 235
     else Fail)"

definition h11_case239 :: "int \<Rightarrow> h11_action goto" where
  "h11_case239 c =
    (if c = 48 then Goto [] 240
     else if c = 53 then Goto [] 241
     else if c = 93 then Goto [] 236
     else Fail)"

definition h11_case240 :: "int \<Rightarrow> h11_action goto" where
  "h11_case240 c =
    (if 48 \<le> c \<and> c \<le> 57 then Goto [] 235
     else Fail)"

definition h11_case241 :: "int \<Rightarrow> h11_action goto" where
  "h11_case241 c =
    (if c = 48 then Goto [] 235
     else Fail)"

definition h11_case242 :: "int \<Rightarrow> h11_action goto" where
  "h11_case242 c =
    (if c = 46 then Goto [] 234
     else if 48 \<le> c \<and> c \<le> 57 then Goto [] 243
     else Fail)"

definition h11_case243 :: "int \<Rightarrow> h11_action goto" where
  "h11_case243 c =
    (if c = 46 then Goto [] 234
     else if 48 \<le> c \<and> c \<le> 57 then Goto [] 233
     else Fail)"

definition h11_case244 :: "int \<Rightarrow> h11_action goto" where
  "h11_case244 c =
    (if c = 46 then Goto [] 234
     else if c = 48 then Goto [] 245
     else if c = 53 then Goto [] 246
     else Fail)"

definition h11_case245 :: "int \<Rightarrow> h11_action goto" where
  "h11_case245 c =
    (if 48 \<le> c \<and> c \<le> 57 then Goto [] 233
     else Fail)"

definition h11_case246 :: "int \<Rightarrow> h11_action goto" where
  "h11_case246 c =
    (if c = 48 then Goto [] 233
     else Fail)"

definition h11_case247 :: "int \<Rightarrow> h11_action goto" where
  "h11_case247 c =
    (if c = 46 then Goto [] 232
     else if 48 \<le> c \<and> c \<le> 57 then Goto [] 248
     else Fail)"

definition h11_case248 :: "int \<Rightarrow> h11_action goto" where
  "h11_case248 c =
    (if c = 46 then Goto [] 232
     else if 48 \<le> c \<and> c \<le> 57 then Goto [] 231
     else Fail)"

definition h11_case249 :: "int \<Rightarrow> h11_action goto" where
  "h11_case249 c =
    (if c = 46 then Goto [] 232
     else if c = 48 then Goto [] 250
     else if c = 53 then Goto [] 251
     else Fail)"

definition h11_case250 :: "int \<Rightarrow> h11_action goto" where
  "h11_case250 c =
    (if 48 \<le> c \<and> c \<le> 57 then Goto [] 231
     else Fail)"

definition h11_case251 :: "int \<Rightarrow> h11_action goto" where
  "h11_case251 c =
    (if c = 48 then Goto [] 231
     else Fail)"

definition h11_case252 :: "int \<Rightarrow> h11_action goto" where
  "h11_case252 c =
    (if c = 58 then Goto [] 255
     else if c < 65 then
       (if 48 \<le> c \<and> c \<le> 57 then Goto [] 253
       else Fail)
     else if 70 < c then
       (if 97 \<le> c \<and> c \<le> 102 then Goto [] 253
       else Fail)
     else Goto [] 253)"

definition h11_case253 :: "int \<Rightarrow> h11_action goto" where
  "h11_case253 c =
    (if c = 58 then Goto [] 255
     else if c < 65 then
       (if 48 \<le> c \<and> c \<le> 57 then Goto [] 254
       else Fail)
     else if 70 < c then
       (if 97 \<le> c \<and> c \<le> 102 then Goto [] 254
       else Fail)
     else Goto [] 254)"

definition h11_case254 :: "int \<Rightarrow> h11_action goto" where
  "h11_case254 c =
    (if c = 58 then Goto [] 255
     else Fail)"

definition h11_case255 :: "int \<Rightarrow> h11_action goto" where
  "h11_case255 c =
    (if c < 65 then
       (if 48 \<le> c \<and> c \<le> 57 then Goto [] 256
       else Fail)
     else if 70 < c then
       (if 97 \<le> c \<and> c \<le> 102 then Goto [] 256
       else Fail)
     else Goto [] 256)"

definition h11_case256 :: "int \<Rightarrow> h11_action goto" where
  "h11_case256 c =
    (if c = 93 then Goto [] 236
     else if c < 65 then
       (if 48 \<le> c \<and> c \<le> 57 then Goto [] 257
       else Fail)
     else if 70 < c then
       (if 97 \<le> c \<and> c \<le> 102 then Goto [] 257
       else Fail)
     else Goto [] 257)"

definition h11_case257 :: "int \<Rightarrow> h11_action goto" where
  "h11_case257 c =
    (if c = 93 then Goto [] 236
     else if c < 65 then
       (if 48 \<le> c \<and> c \<le> 57 then Goto [] 258
       else Fail)
     else if 70 < c then
       (if 97 \<le> c \<and> c \<le> 102 then Goto [] 258
       else Fail)
     else Goto [] 258)"

definition h11_case258 :: "int \<Rightarrow> h11_action goto" where
  "h11_case258 c =
    (if c = 93 then Goto [] 236
     else if c < 65 then
       (if 48 \<le> c \<and> c \<le> 57 then Goto [] 235
       else Fail)
     else if 70 < c then
       (if 97 \<le> c \<and> c \<le> 102 then Goto [] 235
       else Fail)
     else Goto [] 235)"

definition h11_case259 :: "int \<Rightarrow> h11_action goto" where
  "h11_case259 c =
    (if c = 46 then Goto [] 230
     else if c = 58 then Goto [] 255
     else if c < 65 then
       (if 48 \<le> c \<and> c \<le> 57 then Goto [] 260
       else Fail)
     else if 70 < c then
       (if 97 \<le> c \<and> c \<le> 102 then Goto [] 252
       else Fail)
     else Goto [] 252)"

definition h11_case260 :: "int \<Rightarrow> h11_action goto" where
  "h11_case260 c =
    (if c = 46 then Goto [] 230
     else if c = 58 then Goto [] 255
     else if c < 65 then
       (if 48 \<le> c \<and> c \<le> 57 then Goto [] 261
       else Fail)
     else if 70 < c then
       (if 97 \<le> c \<and> c \<le> 102 then Goto [] 253
       else Fail)
     else Goto [] 253)"

definition h11_case261 :: "int \<Rightarrow> h11_action goto" where
  "h11_case261 c =
    (if c = 46 then Goto [] 230
     else if c = 58 then Goto [] 255
     else if c < 65 then
       (if 48 \<le> c \<and> c \<le> 57 then Goto [] 254
       else Fail)
     else if 70 < c then
       (if 97 \<le> c \<and> c \<le> 102 then Goto [] 254
       else Fail)
     else Goto [] 254)"

definition h11_case262 :: "int \<Rightarrow> h11_action goto" where
  "h11_case262 c =
    (if c = 46 then Goto [] 230
     else if c = 48 then Goto [] 263
     else if c = 53 then Goto [] 264
     else if c = 58 then Goto [] 255
     else if c < 65 then
       (if 49 \<le> c \<and> c \<le> 57 then Goto [] 252
       else Fail)
     else if 70 < c then
       (if 97 \<le> c \<and> c \<le> 102 then Goto [] 252
       else Fail)
     else Goto [] 252)"

definition h11_case263 :: "int \<Rightarrow> h11_action goto" where
  "h11_case263 c =
    (if c = 58 then Goto [] 255
     else if c < 65 then
       (if 48 \<le> c \<and> c \<le> 57 then Goto [] 261
       else Fail)
     else if 70 < c then
       (if 97 \<le> c \<and> c \<le> 102 then Goto [] 253
       else Fail)
     else Goto [] 253)"

definition h11_case264 :: "int \<Rightarrow> h11_action goto" where
  "h11_case264 c =
    (if c = 48 then Goto [] 261
     else if c = 58 then Goto [] 255
     else if c < 65 then
       (if 49 \<le> c \<and> c \<le> 57 then Goto [] 253
       else Fail)
     else if 70 < c then
       (if 97 \<le> c \<and> c \<le> 102 then Goto [] 253
       else Fail)
     else Goto [] 253)"

definition h11_case265 :: "int \<Rightarrow> h11_action goto" where
  "h11_case265 c =
    (if c = 58 then Goto [] 255
     else if c < 65 then
       (if 48 \<le> c \<and> c \<le> 57 then Goto [] 252
       else Fail)
     else if 70 < c then
       (if 97 \<le> c \<and> c \<le> 102 then Goto [] 252
       else Fail)
     else Goto [] 252)"

definition h11_case266 :: "int \<Rightarrow> h11_action goto" where
  "h11_case266 c =
    (if c = 58 then Goto [] 270
     else if c < 65 then
       (if 48 \<le> c \<and> c \<le> 57 then Goto [] 267
       else Fail)
     else if 70 < c then
       (if 97 \<le> c \<and> c \<le> 102 then Goto [] 267
       else Fail)
     else Goto [] 267)"

definition h11_case267 :: "int \<Rightarrow> h11_action goto" where
  "h11_case267 c =
    (if c = 58 then Goto [] 270
     else if c < 65 then
       (if 48 \<le> c \<and> c \<le> 57 then Goto [] 268
       else Fail)
     else if 70 < c then
       (if 97 \<le> c \<and> c \<le> 102 then Goto [] 268
       else Fail)
     else Goto [] 268)"

definition h11_case268 :: "int \<Rightarrow> h11_action goto" where
  "h11_case268 c =
    (if c = 58 then Goto [] 270
     else if c < 65 then
       (if 48 \<le> c \<and> c \<le> 57 then Goto [] 269
       else Fail)
     else if 70 < c then
       (if 97 \<le> c \<and> c \<le> 102 then Goto [] 269
       else Fail)
     else Goto [] 269)"

definition h11_case269 :: "int \<Rightarrow> h11_action goto" where
  "h11_case269 c =
    (if c = 58 then Goto [] 270
     else Fail)"

definition h11_case270 :: "int \<Rightarrow> h11_action goto" where
  "h11_case270 c =
    (if c = 58 then Goto [] 341
     else if c < 65 then
       (if 48 \<le> c \<and> c \<le> 57 then Goto [] 271
       else Fail)
     else if 70 < c then
       (if 97 \<le> c \<and> c \<le> 102 then Goto [] 271
       else Fail)
     else Goto [] 271)"

definition h11_case271 :: "int \<Rightarrow> h11_action goto" where
  "h11_case271 c =
    (if c = 58 then Goto [] 275
     else if c < 65 then
       (if 48 \<le> c \<and> c \<le> 57 then Goto [] 272
       else Fail)
     else if 70 < c then
       (if 97 \<le> c \<and> c \<le> 102 then Goto [] 272
       else Fail)
     else Goto [] 272)"

definition h11_case272 :: "int \<Rightarrow> h11_action goto" where
  "h11_case272 c =
    (if c = 58 then Goto [] 275
     else if c < 65 then
       (if 48 \<le> c \<and> c \<le> 57 then Goto [] 273
       else Fail)
     else if 70 < c then
       (if 97 \<le> c \<and> c \<le> 102 then Goto [] 273
       else Fail)
     else Goto [] 273)"

definition h11_case273 :: "int \<Rightarrow> h11_action goto" where
  "h11_case273 c =
    (if c = 58 then Goto [] 275
     else if c < 65 then
       (if 48 \<le> c \<and> c \<le> 57 then Goto [] 274
       else Fail)
     else if 70 < c then
       (if 97 \<le> c \<and> c \<le> 102 then Goto [] 274
       else Fail)
     else Goto [] 274)"

definition h11_case274 :: "int \<Rightarrow> h11_action goto" where
  "h11_case274 c =
    (if c = 58 then Goto [] 275
     else Fail)"

definition h11_case275 :: "int \<Rightarrow> h11_action goto" where
  "h11_case275 c =
    (if c = 58 then Goto [] 340
     else if c < 65 then
       (if 48 \<le> c \<and> c \<le> 57 then Goto [] 276
       else Fail)
     else if 70 < c then
       (if 97 \<le> c \<and> c \<le> 102 then Goto [] 276
       else Fail)
     else Goto [] 276)"

definition h11_case276 :: "int \<Rightarrow> h11_action goto" where
  "h11_case276 c =
    (if c = 58 then Goto [] 280
     else if c < 65 then
       (if 48 \<le> c \<and> c \<le> 57 then Goto [] 277
       else Fail)
     else if 70 < c then
       (if 97 \<le> c \<and> c \<le> 102 then Goto [] 277
       else Fail)
     else Goto [] 277)"

definition h11_case277 :: "int \<Rightarrow> h11_action goto" where
  "h11_case277 c =
    (if c = 58 then Goto [] 280
     else if c < 65 then
       (if 48 \<le> c \<and> c \<le> 57 then Goto [] 278
       else Fail)
     else if 70 < c then
       (if 97 \<le> c \<and> c \<le> 102 then Goto [] 278
       else Fail)
     else Goto [] 278)"

definition h11_case278 :: "int \<Rightarrow> h11_action goto" where
  "h11_case278 c =
    (if c = 58 then Goto [] 280
     else if c < 65 then
       (if 48 \<le> c \<and> c \<le> 57 then Goto [] 279
       else Fail)
     else if 70 < c then
       (if 97 \<le> c \<and> c \<le> 102 then Goto [] 279
       else Fail)
     else Goto [] 279)"

definition h11_case279 :: "int \<Rightarrow> h11_action goto" where
  "h11_case279 c =
    (if c = 58 then Goto [] 280
     else Fail)"

definition h11_case280 :: "int \<Rightarrow> h11_action goto" where
  "h11_case280 c =
    (if c = 58 then Goto [] 339
     else if c < 65 then
       (if 48 \<le> c \<and> c \<le> 57 then Goto [] 281
       else Fail)
     else if 70 < c then
       (if 97 \<le> c \<and> c \<le> 102 then Goto [] 281
       else Fail)
     else Goto [] 281)"

definition h11_case281 :: "int \<Rightarrow> h11_action goto" where
  "h11_case281 c =
    (if c = 58 then Goto [] 285
     else if c < 65 then
       (if 48 \<le> c \<and> c \<le> 57 then Goto [] 282
       else Fail)
     else if 70 < c then
       (if 97 \<le> c \<and> c \<le> 102 then Goto [] 282
       else Fail)
     else Goto [] 282)"

definition h11_case282 :: "int \<Rightarrow> h11_action goto" where
  "h11_case282 c =
    (if c = 58 then Goto [] 285
     else if c < 65 then
       (if 48 \<le> c \<and> c \<le> 57 then Goto [] 283
       else Fail)
     else if 70 < c then
       (if 97 \<le> c \<and> c \<le> 102 then Goto [] 283
       else Fail)
     else Goto [] 283)"

definition h11_case283 :: "int \<Rightarrow> h11_action goto" where
  "h11_case283 c =
    (if c = 58 then Goto [] 285
     else if c < 65 then
       (if 48 \<le> c \<and> c \<le> 57 then Goto [] 284
       else Fail)
     else if 70 < c then
       (if 97 \<le> c \<and> c \<le> 102 then Goto [] 284
       else Fail)
     else Goto [] 284)"

definition h11_case284 :: "int \<Rightarrow> h11_action goto" where
  "h11_case284 c =
    (if c = 58 then Goto [] 285
     else Fail)"

definition h11_case285 :: "int \<Rightarrow> h11_action goto" where
  "h11_case285 c =
    (if c = 58 then Goto [] 338
     else if c < 65 then
       (if 48 \<le> c \<and> c \<le> 57 then Goto [] 286
       else Fail)
     else if 70 < c then
       (if 97 \<le> c \<and> c \<le> 102 then Goto [] 286
       else Fail)
     else Goto [] 286)"

definition h11_case286 :: "int \<Rightarrow> h11_action goto" where
  "h11_case286 c =
    (if c = 58 then Goto [] 290
     else if c < 65 then
       (if 48 \<le> c \<and> c \<le> 57 then Goto [] 287
       else Fail)
     else if 70 < c then
       (if 97 \<le> c \<and> c \<le> 102 then Goto [] 287
       else Fail)
     else Goto [] 287)"

definition h11_case287 :: "int \<Rightarrow> h11_action goto" where
  "h11_case287 c =
    (if c = 58 then Goto [] 290
     else if c < 65 then
       (if 48 \<le> c \<and> c \<le> 57 then Goto [] 288
       else Fail)
     else if 70 < c then
       (if 97 \<le> c \<and> c \<le> 102 then Goto [] 288
       else Fail)
     else Goto [] 288)"

definition h11_case288 :: "int \<Rightarrow> h11_action goto" where
  "h11_case288 c =
    (if c = 58 then Goto [] 290
     else if c < 65 then
       (if 48 \<le> c \<and> c \<le> 57 then Goto [] 289
       else Fail)
     else if 70 < c then
       (if 97 \<le> c \<and> c \<le> 102 then Goto [] 289
       else Fail)
     else Goto [] 289)"

definition h11_case289 :: "int \<Rightarrow> h11_action goto" where
  "h11_case289 c =
    (if c = 58 then Goto [] 290
     else Fail)"

definition h11_case290 :: "int \<Rightarrow> h11_action goto" where
  "h11_case290 c =
    (if c = 58 then Goto [] 326
     else if c < 65 then
       (if 48 \<le> c \<and> c \<le> 57 then Goto [] 291
       else Fail)
     else if 70 < c then
       (if 97 \<le> c \<and> c \<le> 102 then Goto [] 291
       else Fail)
     else Goto [] 291)"

definition h11_case291 :: "int \<Rightarrow> h11_action goto" where
  "h11_case291 c =
    (if c = 58 then Goto [] 295
     else if c < 65 then
       (if 48 \<le> c \<and> c \<le> 57 then Goto [] 292
       else Fail)
     else if 70 < c then
       (if 97 \<le> c \<and> c \<le> 102 then Goto [] 292
       else Fail)
     else Goto [] 292)"

definition h11_case292 :: "int \<Rightarrow> h11_action goto" where
  "h11_case292 c =
    (if c = 58 then Goto [] 295
     else if c < 65 then
       (if 48 \<le> c \<and> c \<le> 57 then Goto [] 293
       else Fail)
     else if 70 < c then
       (if 97 \<le> c \<and> c \<le> 102 then Goto [] 293
       else Fail)
     else Goto [] 293)"

definition h11_case293 :: "int \<Rightarrow> h11_action goto" where
  "h11_case293 c =
    (if c = 58 then Goto [] 295
     else if c < 65 then
       (if 48 \<le> c \<and> c \<le> 57 then Goto [] 294
       else Fail)
     else if 70 < c then
       (if 97 \<le> c \<and> c \<le> 102 then Goto [] 294
       else Fail)
     else Goto [] 294)"

definition h11_case294 :: "int \<Rightarrow> h11_action goto" where
  "h11_case294 c =
    (if c = 58 then Goto [] 295
     else Fail)"

definition h11_case295 :: "int \<Rightarrow> h11_action goto" where
  "h11_case295 c =
    (if c = 58 then Goto [] 325
     else if c < 65 then
       (if 48 \<le> c \<and> c \<le> 57 then Goto [] 296
       else Fail)
     else if 70 < c then
       (if 97 \<le> c \<and> c \<le> 102 then Goto [] 296
       else Fail)
     else Goto [] 296)"

definition h11_case296 :: "int \<Rightarrow> h11_action goto" where
  "h11_case296 c =
    (if c = 58 then Goto [] 300
     else if c < 65 then
       (if 48 \<le> c \<and> c \<le> 57 then Goto [] 297
       else Fail)
     else if 70 < c then
       (if 97 \<le> c \<and> c \<le> 102 then Goto [] 297
       else Fail)
     else Goto [] 297)"

definition h11_case297 :: "int \<Rightarrow> h11_action goto" where
  "h11_case297 c =
    (if c = 58 then Goto [] 300
     else if c < 65 then
       (if 48 \<le> c \<and> c \<le> 57 then Goto [] 298
       else Fail)
     else if 70 < c then
       (if 97 \<le> c \<and> c \<le> 102 then Goto [] 298
       else Fail)
     else Goto [] 298)"

definition h11_case298 :: "int \<Rightarrow> h11_action goto" where
  "h11_case298 c =
    (if c = 58 then Goto [] 300
     else if c < 65 then
       (if 48 \<le> c \<and> c \<le> 57 then Goto [] 299
       else Fail)
     else if 70 < c then
       (if 97 \<le> c \<and> c \<le> 102 then Goto [] 299
       else Fail)
     else Goto [] 299)"

definition h11_case299 :: "int \<Rightarrow> h11_action goto" where
  "h11_case299 c =
    (if c = 58 then Goto [] 300
     else Fail)"

definition h11_case300 :: "int \<Rightarrow> h11_action goto" where
  "h11_case300 c =
    (if c = 58 then Goto [] 301
     else if c < 65 then
       (if 48 \<le> c \<and> c \<le> 57 then Goto [] 296
       else Fail)
     else if 70 < c then
       (if 97 \<le> c \<and> c \<le> 102 then Goto [] 296
       else Fail)
     else Goto [] 296)"

definition h11_case301 :: "int \<Rightarrow> h11_action goto" where
  "h11_case301 c =
    (if c = 49 then Goto [] 318
     else if c = 50 then Goto [] 321
     else if c = 93 then Goto [] 236
     else if c < 48 then
       (if 2 \<le> c \<and> c \<le> 3 then Goto [] 223
       else Fail)
     else if 57 < c then
       (if 70 < c then
         (if 97 \<le> c \<and> c \<le> 102 then Goto [] 324
         else Fail)
       else if 65 \<le> c then Goto [] 324
       else Fail)
     else Goto [] 302)"

definition h11_case302 :: "int \<Rightarrow> h11_action goto" where
  "h11_case302 c =
    (if c = 46 then Goto [] 230
     else if c = 58 then Goto [] 306
     else if c = 93 then Goto [] 236
     else if c < 65 then
       (if 48 \<le> c \<and> c \<le> 57 then Goto [] 303
       else Fail)
     else if 70 < c then
       (if 97 \<le> c \<and> c \<le> 102 then Goto [] 303
       else Fail)
     else Goto [] 303)"

definition h11_case303 :: "int \<Rightarrow> h11_action goto" where
  "h11_case303 c =
    (if c = 58 then Goto [] 306
     else if c = 93 then Goto [] 236
     else if c < 65 then
       (if 48 \<le> c \<and> c \<le> 57 then Goto [] 304
       else Fail)
     else if 70 < c then
       (if 97 \<le> c \<and> c \<le> 102 then Goto [] 304
       else Fail)
     else Goto [] 304)"

definition h11_case304 :: "int \<Rightarrow> h11_action goto" where
  "h11_case304 c =
    (if c = 58 then Goto [] 306
     else if c = 93 then Goto [] 236
     else if c < 65 then
       (if 48 \<le> c \<and> c \<le> 57 then Goto [] 305
       else Fail)
     else if 70 < c then
       (if 97 \<le> c \<and> c \<le> 102 then Goto [] 305
       else Fail)
     else Goto [] 305)"

definition h11_case305 :: "int \<Rightarrow> h11_action goto" where
  "h11_case305 c =
    (if c = 58 then Goto [] 306
     else if c = 93 then Goto [] 236
     else Fail)"

definition h11_case306 :: "int \<Rightarrow> h11_action goto" where
  "h11_case306 c =
    (if c = 49 then Goto [] 311
     else if c = 50 then Goto [] 314
     else if c < 65 then
       (if 48 \<le> c \<and> c \<le> 57 then Goto [] 307
       else Fail)
     else if 70 < c then
       (if 97 \<le> c \<and> c \<le> 102 then Goto [] 317
       else Fail)
     else Goto [] 317)"

definition h11_case307 :: "int \<Rightarrow> h11_action goto" where
  "h11_case307 c =
    (if c = 46 then Goto [] 230
     else if c = 58 then Goto [] 255
     else if c = 93 then Goto [] 236
     else if c < 65 then
       (if 48 \<le> c \<and> c \<le> 57 then Goto [] 308
       else Fail)
     else if 70 < c then
       (if 97 \<le> c \<and> c \<le> 102 then Goto [] 308
       else Fail)
     else Goto [] 308)"

definition h11_case308 :: "int \<Rightarrow> h11_action goto" where
  "h11_case308 c =
    (if c = 58 then Goto [] 255
     else if c = 93 then Goto [] 236
     else if c < 65 then
       (if 48 \<le> c \<and> c \<le> 57 then Goto [] 309
       else Fail)
     else if 70 < c then
       (if 97 \<le> c \<and> c \<le> 102 then Goto [] 309
       else Fail)
     else Goto [] 309)"

definition h11_case309 :: "int \<Rightarrow> h11_action goto" where
  "h11_case309 c =
    (if c = 58 then Goto [] 255
     else if c = 93 then Goto [] 236
     else if c < 65 then
       (if 48 \<le> c \<and> c \<le> 57 then Goto [] 310
       else Fail)
     else if 70 < c then
       (if 97 \<le> c \<and> c \<le> 102 then Goto [] 310
       else Fail)
     else Goto [] 310)"

definition h11_case310 :: "int \<Rightarrow> h11_action goto" where
  "h11_case310 c =
    (if c = 58 then Goto [] 255
     else if c = 93 then Goto [] 236
     else Fail)"

definition h11_case311 :: "int \<Rightarrow> h11_action goto" where
  "h11_case311 c =
    (if c = 46 then Goto [] 230
     else if c = 58 then Goto [] 255
     else if c = 93 then Goto [] 236
     else if c < 65 then
       (if 48 \<le> c \<and> c \<le> 57 then Goto [] 312
       else Fail)
     else if 70 < c then
       (if 97 \<le> c \<and> c \<le> 102 then Goto [] 308
       else Fail)
     else Goto [] 308)"

definition h11_case312 :: "int \<Rightarrow> h11_action goto" where
  "h11_case312 c =
    (if c = 46 then Goto [] 230
     else if c = 58 then Goto [] 255
     else if c = 93 then Goto [] 236
     else if c < 65 then
       (if 48 \<le> c \<and> c \<le> 57 then Goto [] 313
       else Fail)
     else if 70 < c then
       (if 97 \<le> c \<and> c \<le> 102 then Goto [] 309
       else Fail)
     else Goto [] 309)"

definition h11_case313 :: "int \<Rightarrow> h11_action goto" where
  "h11_case313 c =
    (if c = 46 then Goto [] 230
     else if c = 58 then Goto [] 255
     else if c = 93 then Goto [] 236
     else if c < 65 then
       (if 48 \<le> c \<and> c \<le> 57 then Goto [] 310
       else Fail)
     else if 70 < c then
       (if 97 \<le> c \<and> c \<le> 102 then Goto [] 310
       else Fail)
     else Goto [] 310)"

definition h11_case314 :: "int \<Rightarrow> h11_action goto" where
  "h11_case314 c =
    (if c = 46 then Goto [] 230
     else if c = 48 then Goto [] 315
     else if c = 53 then Goto [] 316
     else if c = 58 then Goto [] 255
     else if c = 93 then Goto [] 236
     else if c < 65 then
       (if 49 \<le> c \<and> c \<le> 57 then Goto [] 308
       else Fail)
     else if 70 < c then
       (if 97 \<le> c \<and> c \<le> 102 then Goto [] 308
       else Fail)
     else Goto [] 308)"

definition h11_case315 :: "int \<Rightarrow> h11_action goto" where
  "h11_case315 c =
    (if c = 58 then Goto [] 255
     else if c = 93 then Goto [] 236
     else if c < 65 then
       (if 48 \<le> c \<and> c \<le> 57 then Goto [] 313
       else Fail)
     else if 70 < c then
       (if 97 \<le> c \<and> c \<le> 102 then Goto [] 309
       else Fail)
     else Goto [] 309)"

definition h11_case316 :: "int \<Rightarrow> h11_action goto" where
  "h11_case316 c =
    (if c = 48 then Goto [] 313
     else if c = 58 then Goto [] 255
     else if c = 93 then Goto [] 236
     else if c < 65 then
       (if 49 \<le> c \<and> c \<le> 57 then Goto [] 309
       else Fail)
     else if 70 < c then
       (if 97 \<le> c \<and> c \<le> 102 then Goto [] 309
       else Fail)
     else Goto [] 309)"

definition h11_case317 :: "int \<Rightarrow> h11_action goto" where
  "h11_case317 c =
    (if c = 58 then Goto [] 255
     else if c = 93 then Goto [] 236
     else if c < 65 then
       (if 48 \<le> c \<and> c \<le> 57 then Goto [] 308
       else Fail)
     else if 70 < c then
       (if 97 \<le> c \<and> c \<le> 102 then Goto [] 308
       else Fail)
     else Goto [] 308)"

definition h11_case318 :: "int \<Rightarrow> h11_action goto" where
  "h11_case318 c =
    (if c = 46 then Goto [] 230
     else if c = 58 then Goto [] 306
     else if c = 93 then Goto [] 236
     else if c < 65 then
       (if 48 \<le> c \<and> c \<le> 57 then Goto [] 319
       else Fail)
     else if 70 < c then
       (if 97 \<le> c \<and> c \<le> 102 then Goto [] 303
       else Fail)
     else Goto [] 303)"

definition h11_case319 :: "int \<Rightarrow> h11_action goto" where
  "h11_case319 c =
    (if c = 46 then Goto [] 230
     else if c = 58 then Goto [] 306
     else if c = 93 then Goto [] 236
     else if c < 65 then
       (if 48 \<le> c \<and> c \<le> 57 then Goto [] 320
       else Fail)
     else if 70 < c then
       (if 97 \<le> c \<and> c \<le> 102 then Goto [] 304
       else Fail)
     else Goto [] 304)"

definition h11_case320 :: "int \<Rightarrow> h11_action goto" where
  "h11_case320 c =
    (if c = 46 then Goto [] 230
     else if c = 58 then Goto [] 306
     else if c = 93 then Goto [] 236
     else if c < 65 then
       (if 48 \<le> c \<and> c \<le> 57 then Goto [] 305
       else Fail)
     else if 70 < c then
       (if 97 \<le> c \<and> c \<le> 102 then Goto [] 305
       else Fail)
     else Goto [] 305)"

definition h11_case321 :: "int \<Rightarrow> h11_action goto" where
  "h11_case321 c =
    (if c = 46 then Goto [] 230
     else if c = 48 then Goto [] 322
     else if c = 53 then Goto [] 323
     else if c = 58 then Goto [] 306
     else if c = 93 then Goto [] 236
     else if c < 65 then
       (if 49 \<le> c \<and> c \<le> 57 then Goto [] 303
       else Fail)
     else if 70 < c then
       (if 97 \<le> c \<and> c \<le> 102 then Goto [] 303
       else Fail)
     else Goto [] 303)"

definition h11_case322 :: "int \<Rightarrow> h11_action goto" where
  "h11_case322 c =
    (if c = 58 then Goto [] 306
     else if c = 93 then Goto [] 236
     else if c < 65 then
       (if 48 \<le> c \<and> c \<le> 57 then Goto [] 320
       else Fail)
     else if 70 < c then
       (if 97 \<le> c \<and> c \<le> 102 then Goto [] 304
       else Fail)
     else Goto [] 304)"

definition h11_case323 :: "int \<Rightarrow> h11_action goto" where
  "h11_case323 c =
    (if c = 48 then Goto [] 320
     else if c = 58 then Goto [] 306
     else if c = 93 then Goto [] 236
     else if c < 65 then
       (if 49 \<le> c \<and> c \<le> 57 then Goto [] 304
       else Fail)
     else if 70 < c then
       (if 97 \<le> c \<and> c \<le> 102 then Goto [] 304
       else Fail)
     else Goto [] 304)"

definition h11_case324 :: "int \<Rightarrow> h11_action goto" where
  "h11_case324 c =
    (if c = 58 then Goto [] 306
     else if c = 93 then Goto [] 236
     else if c < 65 then
       (if 48 \<le> c \<and> c \<le> 57 then Goto [] 303
       else Fail)
     else if 70 < c then
       (if 97 \<le> c \<and> c \<le> 102 then Goto [] 303
       else Fail)
     else Goto [] 303)"

definition h11_case325 :: "int \<Rightarrow> h11_action goto" where
  "h11_case325 c =
    (if c = 49 then Goto [] 318
     else if c = 50 then Goto [] 321
     else if c < 48 then
       (if 2 \<le> c \<and> c \<le> 3 then Goto [] 223
       else Fail)
     else if 57 < c then
       (if 70 < c then
         (if 97 \<le> c \<and> c \<le> 102 then Goto [] 324
         else Fail)
       else if 65 \<le> c then Goto [] 324
       else Fail)
     else Goto [] 302)"

definition h11_case326 :: "int \<Rightarrow> h11_action goto" where
  "h11_case326 c =
    (if c = 49 then Goto [] 331
     else if c = 50 then Goto [] 334
     else if c < 48 then
       (if 2 \<le> c \<and> c \<le> 3 then Goto [] 223
       else Fail)
     else if 57 < c then
       (if 70 < c then
         (if 97 \<le> c \<and> c \<le> 102 then Goto [] 337
         else Fail)
       else if 65 \<le> c then Goto [] 337
       else Fail)
     else Goto [] 327)"

definition h11_case327 :: "int \<Rightarrow> h11_action goto" where
  "h11_case327 c =
    (if c = 46 then Goto [] 230
     else if c = 58 then Goto [] 306
     else if c < 65 then
       (if 48 \<le> c \<and> c \<le> 57 then Goto [] 328
       else Fail)
     else if 70 < c then
       (if 97 \<le> c \<and> c \<le> 102 then Goto [] 328
       else Fail)
     else Goto [] 328)"

definition h11_case328 :: "int \<Rightarrow> h11_action goto" where
  "h11_case328 c =
    (if c = 58 then Goto [] 306
     else if c < 65 then
       (if 48 \<le> c \<and> c \<le> 57 then Goto [] 329
       else Fail)
     else if 70 < c then
       (if 97 \<le> c \<and> c \<le> 102 then Goto [] 329
       else Fail)
     else Goto [] 329)"

definition h11_case329 :: "int \<Rightarrow> h11_action goto" where
  "h11_case329 c =
    (if c = 58 then Goto [] 306
     else if c < 65 then
       (if 48 \<le> c \<and> c \<le> 57 then Goto [] 330
       else Fail)
     else if 70 < c then
       (if 97 \<le> c \<and> c \<le> 102 then Goto [] 330
       else Fail)
     else Goto [] 330)"

definition h11_case330 :: "int \<Rightarrow> h11_action goto" where
  "h11_case330 c =
    (if c = 58 then Goto [] 306
     else Fail)"

definition h11_case331 :: "int \<Rightarrow> h11_action goto" where
  "h11_case331 c =
    (if c = 46 then Goto [] 230
     else if c = 58 then Goto [] 306
     else if c < 65 then
       (if 48 \<le> c \<and> c \<le> 57 then Goto [] 332
       else Fail)
     else if 70 < c then
       (if 97 \<le> c \<and> c \<le> 102 then Goto [] 328
       else Fail)
     else Goto [] 328)"

definition h11_case332 :: "int \<Rightarrow> h11_action goto" where
  "h11_case332 c =
    (if c = 46 then Goto [] 230
     else if c = 58 then Goto [] 306
     else if c < 65 then
       (if 48 \<le> c \<and> c \<le> 57 then Goto [] 333
       else Fail)
     else if 70 < c then
       (if 97 \<le> c \<and> c \<le> 102 then Goto [] 329
       else Fail)
     else Goto [] 329)"

definition h11_case333 :: "int \<Rightarrow> h11_action goto" where
  "h11_case333 c =
    (if c = 46 then Goto [] 230
     else if c = 58 then Goto [] 306
     else if c < 65 then
       (if 48 \<le> c \<and> c \<le> 57 then Goto [] 330
       else Fail)
     else if 70 < c then
       (if 97 \<le> c \<and> c \<le> 102 then Goto [] 330
       else Fail)
     else Goto [] 330)"

definition h11_case334 :: "int \<Rightarrow> h11_action goto" where
  "h11_case334 c =
    (if c = 46 then Goto [] 230
     else if c = 48 then Goto [] 335
     else if c = 53 then Goto [] 336
     else if c = 58 then Goto [] 306
     else if c < 65 then
       (if 49 \<le> c \<and> c \<le> 57 then Goto [] 328
       else Fail)
     else if 70 < c then
       (if 97 \<le> c \<and> c \<le> 102 then Goto [] 328
       else Fail)
     else Goto [] 328)"

definition h11_case335 :: "int \<Rightarrow> h11_action goto" where
  "h11_case335 c =
    (if c = 58 then Goto [] 306
     else if c < 65 then
       (if 48 \<le> c \<and> c \<le> 57 then Goto [] 333
       else Fail)
     else if 70 < c then
       (if 97 \<le> c \<and> c \<le> 102 then Goto [] 329
       else Fail)
     else Goto [] 329)"

definition h11_case336 :: "int \<Rightarrow> h11_action goto" where
  "h11_case336 c =
    (if c = 48 then Goto [] 333
     else if c = 58 then Goto [] 306
     else if c < 65 then
       (if 49 \<le> c \<and> c \<le> 57 then Goto [] 329
       else Fail)
     else if 70 < c then
       (if 97 \<le> c \<and> c \<le> 102 then Goto [] 329
       else Fail)
     else Goto [] 329)"

definition h11_case337 :: "int \<Rightarrow> h11_action goto" where
  "h11_case337 c =
    (if c = 58 then Goto [] 306
     else if c < 65 then
       (if 48 \<le> c \<and> c \<le> 57 then Goto [] 328
       else Fail)
     else if 70 < c then
       (if 97 \<le> c \<and> c \<le> 102 then Goto [] 328
       else Fail)
     else Goto [] 328)"

definition h11_case338 :: "int \<Rightarrow> h11_action goto" where
  "h11_case338 c =
    (if c < 48 then
       (if 2 \<le> c \<and> c \<le> 3 then Goto [] 223
       else Fail)
     else if 57 < c then
       (if 70 < c then
         (if 97 \<le> c \<and> c \<le> 102 then Goto [] 224
         else Fail)
       else if 65 \<le> c then Goto [] 224
       else Fail)
     else Goto [] 224)"

definition h11_case339 :: "int \<Rightarrow> h11_action goto" where
  "h11_case339 c =
    (if 2 \<le> c \<and> c \<le> 3 then Goto [] 223
     else Fail)"

definition h11_case340 :: "int \<Rightarrow> h11_action goto" where
  "h11_case340 c =
    (if c = 3 then Goto [] 223
     else Fail)"

definition h11_case341 :: "int \<Rightarrow> h11_action goto" where
  "h11_case341 c =
    (if c = 4 then Goto [] 223
     else Fail)"

definition h11_case342 :: "int \<Rightarrow> h11_action goto" where
  "h11_case342 c =
    (if c = 58 then Goto [] 343
     else Fail)"

definition h11_case343 :: "int \<Rightarrow> h11_action goto" where
  "h11_case343 c =
    (if c = 49 then Goto [] 318
     else if c = 50 then Goto [] 321
     else if c = 93 then Goto [] 236
     else if c < 48 then
       (if 2 \<le> c \<and> c \<le> 5 then Goto [] 223
       else Fail)
     else if 57 < c then
       (if 70 < c then
         (if 97 \<le> c \<and> c \<le> 102 then Goto [] 324
         else Fail)
       else if 65 \<le> c then Goto [] 324
       else Fail)
     else Goto [] 302)"

definition h11_case344 :: "int \<Rightarrow> h11_action goto" where
  "h11_case344 c =
    (if c < 65 then
       (if 48 \<le> c \<and> c \<le> 57 then Goto [] 345
       else Fail)
     else if 70 < c then
       (if 97 \<le> c \<and> c \<le> 102 then Goto [] 345
       else Fail)
     else Goto [] 345)"

definition h11_case345 :: "int \<Rightarrow> h11_action goto" where
  "h11_case345 c =
    (if c = 46 then Goto [] 346
     else if c < 65 then
       (if 48 \<le> c \<and> c \<le> 57 then Goto [] 345
       else Fail)
     else if 70 < c then
       (if 97 \<le> c \<and> c \<le> 102 then Goto [] 345
       else Fail)
     else Goto [] 345)"

definition h11_case346 :: "int \<Rightarrow> h11_action goto" where
  "h11_case346 w =
    (if w = 33 \<or> w = 36 \<or> w = 61 \<or> w = 95 \<or> w = 126 \<or> w = 606 \<or> w = 635 \<or> w = 637 then Goto [] 347
     else if w < 48 then
       (if 38 \<le> w \<and> w \<le> 46 then Goto [] 347
       else Fail)
     else if 59 < w then
       (if 90 < w then
         (if 97 \<le> w \<and> w \<le> 122 then Goto [] 347
         else Fail)
       else if 65 \<le> w then Goto [] 347
       else Fail)
     else Goto [] 347)"

definition h11_case347 :: "int \<Rightarrow> h11_action goto" where
  "h11_case347 w =
    (if w = 33 \<or> w = 36 \<or> w = 61 \<or> w = 95 \<or> w = 126 \<or> w = 606 \<or> w = 635 \<or> w = 637 then Goto [] 347
     else if w = 93 then Goto [] 236
     else if w < 48 then
       (if 38 \<le> w \<and> w \<le> 46 then Goto [] 347
       else Fail)
     else if 59 < w then
       (if 90 < w then
         (if 97 \<le> w \<and> w \<le> 122 then Goto [] 347
         else Fail)
       else if 65 \<le> w then Goto [] 347
       else Fail)
     else Goto [] 347)"

subsection \<open>The switch\<close>

definition h11_switch :: "nat \<Rightarrow> int \<Rightarrow> int \<Rightarrow> h11_action goto" where
  "h11_switch cs c w =
    (if cs = 0 \<or> 349 < cs then No_case
    else if cs < 175 then (if cs < 88 then (if cs < 44 then (if cs < 22 then (if cs < 11 then (if cs < 6 then (if cs < 3 then (if cs < 2 then h11_case1 c
           else h11_case2 c)
          else if cs < 4 then h11_case3 w
          else if cs < 5 then h11_case4 c
          else h11_case5 c)
         else if cs < 8 then (if cs < 7 then h11_case6 c
          else h11_case7 c)
         else if cs < 9 then h11_case8 c
         else if cs < 10 then h11_case9 c
         else h11_case10 c)
        else if cs < 16 then (if cs < 13 then (if cs < 12 then h11_case11 c
          else h11_case12 c)
         else if cs < 14 then h11_case13 c
         else if cs < 15 then h11_case14 c
         else h11_case15 c)
        else if cs < 19 then (if cs < 17 then h11_case16 c
         else if cs < 18 then h11_case17 c
         else h11_case18 c)
        else if cs < 20 then h11_case19 w
        else if cs < 21 then h11_case20 w
        else h11_case21 w)
       else if cs < 33 then (if cs < 27 then (if cs < 24 then (if cs < 23 then h11_case22 c
          else h11_case23 c)
         else if cs < 25 then h11_case24 c
         else if cs < 26 then h11_case25 c
         else h11_case26 w)
        else if cs < 30 then (if cs < 28 then h11_case27 c
         else if cs < 29 then h11_case28 c
         else h11_case29 w)
        else if cs < 31 then h11_case30 w
        else if cs < 32 then h11_case31 c
        else h11_case32 c)
       else if cs < 38 then (if cs < 35 then (if cs < 34 then h11_case33 w
         else h11_case34 w)
        else if cs < 36 then h11_case35 w
        else if cs < 37 then h11_case36 c
        else h11_case37 c)
       else if cs < 41 then (if cs < 39 then h11_case38 w
        else if cs < 40 then h11_case39 w
        else h11_case40 c)
       else if cs < 42 then h11_case41 c
       else if cs < 43 then h11_case42 w
       else h11_case43 w)
      else if cs < 66 then (if cs < 55 then (if cs < 49 then (if cs < 46 then (if cs < 45 then h11_case44 c
          else h11_case45 c)
         else if cs < 47 then h11_case46 c
         else if cs < 48 then h11_case47 c
         else h11_case48 c)
        else if cs < 52 then (if cs < 50 then h11_case49 c
         else if cs < 51 then h11_case50 c
         else h11_case51 c)
        else if cs < 53 then h11_case52 c
        else if cs < 54 then h11_case53 c
        else h11_case54 c)
       else if cs < 60 then (if cs < 57 then (if cs < 56 then h11_case55 c
         else h11_case56 c)
        else if cs < 58 then h11_case57 c
        else if cs < 59 then h11_case58 c
        else h11_case59 c)
       else if cs < 63 then (if cs < 61 then h11_case60 c
        else if cs < 62 then h11_case61 c
        else h11_case62 c)
       else if cs < 64 then h11_case63 c
       else if cs < 65 then h11_case64 c
       else h11_case65 c)
      else if cs < 77 then (if cs < 71 then (if cs < 68 then (if cs < 67 then h11_case66 c
         else h11_case67 c)
        else if cs < 69 then h11_case68 c
        else if cs < 70 then h11_case69 c
        else h11_case70 c)
       else if cs < 74 then (if cs < 72 then h11_case71 c
        else if cs < 73 then h11_case72 c
        else h11_case73 c)
       else if cs < 75 then h11_case74 c
       else if cs < 76 then h11_case75 c
       else h11_case76 c)
      else if cs < 82 then (if cs < 79 then (if cs < 78 then h11_case77 c
        else h11_case78 c)
       else if cs < 80 then h11_case79 c
       else if cs < 81 then h11_case80 c
       else h11_case81 c)
      else if cs < 85 then (if cs < 83 then h11_case82 c
       else if cs < 84 then h11_case83 c
       else h11_case84 c)
      else if cs < 86 then h11_case85 c
      else if cs < 87 then h11_case86 c
      else h11_case87 c)
     else if cs < 131 then (if cs < 109 then (if cs < 98 then (if cs < 93 then (if cs < 90 then (if cs < 89 then h11_case88 c
          else h11_case89 c)
         else if cs < 91 then h11_case90 c
         else if cs < 92 then h11_case91 c
         else h11_case92 c)
        else if cs < 95 then (if cs < 94 then h11_case93 c
         else h11_case94 c)
        else if cs < 96 then h11_case95 c
        else if cs < 97 then h11_case96 c
        else h11_case97 c)
       else if cs < 103 then (if cs < 100 then (if cs < 99 then h11_case98 c
         else h11_case99 c)
        else if cs < 101 then h11_case100 c
        else if cs < 102 then h11_case101 c
        else h11_case102 c)
       else if cs < 106 then (if cs < 104 then h11_case103 c
        else if cs < 105 then h11_case104 c
        else h11_case105 c)
       else if cs < 107 then h11_case106 c
       else if cs < 108 then h11_case107 c
       else h11_case108 c)
      else if cs < 120 then (if cs < 114 then (if cs < 111 then (if cs < 110 then h11_case109 c
         else h11_case110 c)
        else if cs < 112 then h11_case111 c
        else if cs < 113 then h11_case112 c
        else h11_case113 c)
       else if cs < 117 then (if cs < 115 then h11_case114 c
        else if cs < 116 then h11_case115 c
        else h11_case116 c)
       else if cs < 118 then h11_case117 c
       else if cs < 119 then h11_case118 c
       else h11_case119 c)
      else if cs < 125 then (if cs < 122 then (if cs < 121 then h11_case120 c
        else h11_case121 c)
       else if cs < 123 then h11_case122 c
       else if cs < 124 then h11_case123 c
       else h11_case124 c)
      else if cs < 128 then (if cs < 126 then h11_case125 c
       else if cs < 127 then h11_case126 c
       else h11_case127 c)
      else if cs < 129 then h11_case128 c
      else if cs < 130 then h11_case129 c
      else h11_case130 c)
     else if cs < 153 then (if cs < 142 then (if cs < 136 then (if cs < 133 then (if cs < 132 then h11_case131 c
         else h11_case132 c)
        else if cs < 134 then h11_case133 c
        else if cs < 135 then h11_case134 c
        else h11_case135 c)
       else if cs < 139 then (if cs < 137 then h11_case136 c
        else if cs < 138 then h11_case137 c
        else h11_case138 c)
       else if cs < 140 then h11_case139 c
       else if cs < 141 then h11_case140 c
       else h11_case141 c)
      else if cs < 147 then (if cs < 144 then (if cs < 143 then h11_case142 c
        else h11_case143 c)
       else if cs < 145 then h11_case144 c
       else if cs < 146 then h11_case145 c
       else h11_case146 c)
      else if cs < 150 then (if cs < 148 then h11_case147 c
       else if cs < 149 then h11_case148 c
       else h11_case149 c)
      else if cs < 151 then h11_case150 c
      else if cs < 152 then h11_case151 c
      else h11_case152 c)
     else if cs < 164 then (if cs < 158 then (if cs < 155 then (if cs < 154 then h11_case153 c
        else h11_case154 c)
       else if cs < 156 then h11_case155 c
       else if cs < 157 then h11_case156 c
       else h11_case157 c)
      else if cs < 161 then (if cs < 159 then h11_case158 c
       else if cs < 160 then h11_case159 c
       else h11_case160 c)
      else if cs < 162 then h11_case161 c
      else if cs < 163 then h11_case162 c
      else h11_case163 c)
     else if cs < 169 then (if cs < 166 then (if cs < 165 then h11_case164 c
       else h11_case165 c)
      else if cs < 167 then h11_case166 c
      else if cs < 168 then h11_case167 c
      else h11_case168 c)
     else if cs < 172 then (if cs < 170 then h11_case169 c
      else if cs < 171 then h11_case170 c
      else h11_case171 w)
     else if cs < 173 then h11_case172 w
     else if cs < 174 then h11_case173 w
     else h11_case174 w)
    else if cs < 262 then (if cs < 218 then (if cs < 196 then (if cs < 185 then (if cs < 180 then (if cs < 177 then (if cs < 176 then h11_case175 c
          else h11_case176 c)
         else if cs < 178 then h11_case177 c
         else if cs < 179 then h11_case178 c
         else h11_case179 c)
        else if cs < 182 then (if cs < 181 then h11_case180 c
         else h11_case181 c)
        else if cs < 183 then h11_case182 c
        else if cs < 184 then h11_case183 c
        else h11_case184 c)
       else if cs < 190 then (if cs < 187 then (if cs < 186 then h11_case185 c
         else h11_case186 c)
        else if cs < 188 then h11_case187 c
        else if cs < 189 then h11_case188 c
        else h11_case189 c)
       else if cs < 193 then (if cs < 191 then h11_case190 c
        else if cs < 192 then h11_case191 c
        else h11_case192 c)
       else if cs < 194 then h11_case193 c
       else if cs < 195 then h11_case194 c
       else h11_case195 c)
      else if cs < 207 then (if cs < 201 then (if cs < 198 then (if cs < 197 then h11_case196 c
         else h11_case197 c)
        else if cs < 199 then h11_case198 w
        else if cs < 200 then h11_case199 c
        else h11_case200 c)
       else if cs < 204 then (if cs < 202 then h11_case201 c
        else if cs < 203 then h11_case202 w
        else h11_case203 c)
       else if cs < 205 then h11_case204 c
       else if cs < 206 then h11_case205 w
       else h11_case206 c)
      else if cs < 212 then (if cs < 209 then (if cs < 208 then h11_case207 c
        else h11_case208 w)
       else if cs < 210 then h11_case209 w
       else if cs < 211 then h11_case210 w
       else h11_case211 c)
      else if cs < 215 then (if cs < 213 then h11_case212 c
       else if cs < 214 then h11_case213 w
       else h11_case214 w)
      else if cs < 216 then h11_case215 c
      else if cs < 217 then h11_case216 c
      else h11_case217 w)
     else if cs < 240 then (if cs < 229 then (if cs < 223 then (if cs < 220 then (if cs < 219 then h11_case218 w
         else h11_case219 c)
        else if cs < 221 then h11_case220 c
        else if cs < 222 then h11_case221 c
        else h11_case222 c)
       else if cs < 226 then (if cs < 224 then h11_case223 c
        else if cs < 225 then h11_case224 c
        else h11_case225 c)
       else if cs < 227 then h11_case226 c
       else if cs < 228 then h11_case227 c
       else h11_case228 c)
      else if cs < 234 then (if cs < 231 then (if cs < 230 then h11_case229 c
        else h11_case230 c)
       else if cs < 232 then h11_case231 c
       else if cs < 233 then h11_case232 c
       else h11_case233 c)
      else if cs < 237 then (if cs < 235 then h11_case234 c
       else if cs < 236 then h11_case235 c
       else h11_case236 c)
      else if cs < 238 then h11_case237 c
      else if cs < 239 then h11_case238 c
      else h11_case239 c)
     else if cs < 251 then (if cs < 245 then (if cs < 242 then (if cs < 241 then h11_case240 c
        else h11_case241 c)
       else if cs < 243 then h11_case242 c
       else if cs < 244 then h11_case243 c
       else h11_case244 c)
      else if cs < 248 then (if cs < 246 then h11_case245 c
       else if cs < 247 then h11_case246 c
       else h11_case247 c)
      else if cs < 249 then h11_case248 c
      else if cs < 250 then h11_case249 c
      else h11_case250 c)
     else if cs < 256 then (if cs < 253 then (if cs < 252 then h11_case251 c
       else h11_case252 c)
      else if cs < 254 then h11_case253 c
      else if cs < 255 then h11_case254 c
      else h11_case255 c)
     else if cs < 259 then (if cs < 257 then h11_case256 c
      else if cs < 258 then h11_case257 c
      else h11_case258 c)
     else if cs < 260 then h11_case259 c
     else if cs < 261 then h11_case260 c
     else h11_case261 c)
    else if cs < 306 then (if cs < 284 then (if cs < 273 then (if cs < 267 then (if cs < 264 then (if cs < 263 then h11_case262 c
         else h11_case263 c)
        else if cs < 265 then h11_case264 c
        else if cs < 266 then h11_case265 c
        else h11_case266 c)
       else if cs < 270 then (if cs < 268 then h11_case267 c
        else if cs < 269 then h11_case268 c
        else h11_case269 c)
       else if cs < 271 then h11_case270 c
       else if cs < 272 then h11_case271 c
       else h11_case272 c)
      else if cs < 278 then (if cs < 275 then (if cs < 274 then h11_case273 c
        else h11_case274 c)
       else if cs < 276 then h11_case275 c
       else if cs < 277 then h11_case276 c
       else h11_case277 c)
      else if cs < 281 then (if cs < 279 then h11_case278 c
       else if cs < 280 then h11_case279 c
       else h11_case280 c)
      else if cs < 282 then h11_case281 c
      else if cs < 283 then h11_case282 c
      else h11_case283 c)
     else if cs < 295 then (if cs < 289 then (if cs < 286 then (if cs < 285 then h11_case284 c
        else h11_case285 c)
       else if cs < 287 then h11_case286 c
       else if cs < 288 then h11_case287 c
       else h11_case288 c)
      else if cs < 292 then (if cs < 290 then h11_case289 c
       else if cs < 291 then h11_case290 c
       else h11_case291 c)
      else if cs < 293 then h11_case292 c
      else if cs < 294 then h11_case293 c
      else h11_case294 c)
     else if cs < 300 then (if cs < 297 then (if cs < 296 then h11_case295 c
       else h11_case296 c)
      else if cs < 298 then h11_case297 c
      else if cs < 299 then h11_case298 c
      else h11_case299 c)
     else if cs < 303 then (if cs < 301 then h11_case300 c
      else if cs < 302 then h11_case301 c
      else h11_case302 c)
     else if cs < 304 then h11_case303 c
     else if cs < 305 then h11_case304 c
     else h11_case305 c)
    else if cs < 328 then (if cs < 317 then (if cs < 311 then (if cs < 308 then (if cs < 307 then h11_case306 c
        else h11_case307 c)
       else if cs < 309 then h11_case308 c
       else if cs < 310 then h11_case309 c
       else h11_case310 c)
      else if cs < 314 then (if cs < 312 then h11_case311 c
       else if cs < 313 then h11_case312 c
       else h11_case313 c)
      else if cs < 315 then h11_case314 c
      else if cs < 316 then h11_case315 c
      else h11_case316 c)
     else if cs < 322 then (if cs < 319 then (if cs < 318 then h11_case317 c
       else h11_case318 c)
      else if cs < 320 then h11_case319 c
      else if cs < 321 then h11_case320 c
      else h11_case321 c)
     else if cs < 325 then (if cs < 323 then h11_case322 c
      else if cs < 324 then h11_case323 c
      else h11_case324 c)
     else if cs < 326 then h11_case325 c
     else if cs < 327 then h11_case326 c
     else h11_case327 c)
    else if cs < 339 then (if cs < 333 then (if cs < 330 then (if cs < 329 then h11_case328 c
       else h11_case329 c)
      else if cs < 331 then h11_case330 c
      else if cs < 332 then h11_case331 c
      else h11_case332 c)
     else if cs < 336 then (if cs < 334 then h11_case333 c
      else if cs < 335 then h11_case334 c
      else h11_case335 c)
     else if cs < 337 then h11_case336 c
     else if cs < 338 then h11_case337 c
     else h11_case338 c)
    else if cs < 344 then (if cs < 341 then (if cs < 340 then h11_case339 c
      else h11_case340 c)
     else if cs < 342 then h11_case341 c
     else if cs < 343 then h11_case342 c
     else h11_case343 c)
    else if cs < 347 then (if cs < 345 then h11_case344 c
     else if cs < 346 then h11_case345 c
     else h11_case346 w)
    else if cs < 348 then h11_case347 w
    else if cs < 349 then h11_case348 c
    else h11_case349 c)"

end
