(* ===== verification/Http11.thy ===== *)
theory Http11
  imports Http11Machine HttpParser
begin

text \<open>
  \<^verbatim>\<open>include/http11_parser.h\<close>, \<^verbatim>\<open>include/http11_parser.cc\<close>: the parser of requests around the machine of
  \<open>Http11Machine\<close>. Pointers into the buffer are offsets. The callbacks are installed, as
  \<open>HttpRequestParser\<close> does; what they are called with is a list of events in order.
\<close>

subsection \<open>State\<close>

record http_parser =
  hp_cs :: nat
  hp_body_start :: nat
  hp_content_len :: int
  hp_nread :: nat
  hp_mark :: nat
  hp_field_start :: nat
  hp_field_len :: nat
  hp_query_start :: nat
  hp_xml_sent :: bool
  hp_json_sent :: bool
  hp_uri_relaxed :: bool

definition http_parser_start :: nat where "http_parser_start = 1"
definition http_parser_first_final :: nat where "http_parser_first_final = 348"
definition http_parser_error :: nat where "http_parser_error = 0"

text \<open>\<open>query_start\<close> and \<open>uri_relaxed\<close> keep what the memory held before.\<close>

definition http_parser_init :: "http_parser \<Rightarrow> http_parser" where
  "http_parser_init ps = ps\<lparr>hp_cs := http_parser_start, hp_body_start := 0, hp_content_len := 0, hp_mark := 0,
     hp_nread := 0, hp_field_len := 0, hp_field_start := 0, hp_xml_sent := False, hp_json_sent := False\<rparr>"

subsection \<open>Actions\<close>

text \<open>\<open>PTR_TO(F)\<close> as the memory from there to \<open>pe\<close>, and \<open>LEN(AT, FPC)\<close>, which is unsigned.\<close>

definition PTR_TO :: "string \<Rightarrow> nat \<Rightarrow> string" where
  "PTR_TO buffer i = drop i buffer"

definition LEN :: "nat \<Rightarrow> nat \<Rightarrow> nat" where
  "LEN i p = usub64 p i"

definition h11_done :: "string \<Rightarrow> nat \<Rightarrow> http_parser \<times> http_event list \<Rightarrow> http_parser \<times> http_event list" where
  "h11_done buffer p st = (case st of (ps, evs) \<Rightarrow>
     if hp_xml_sent ps \<or> hp_json_sent ps
     then (ps\<lparr>hp_body_start := hp_mark ps, hp_content_len := to_int32 (int (uadd64 (usub64 p (hp_mark ps)) 1))\<rparr>, evs)
     else (ps\<lparr>hp_body_start := p + 1\<rparr>, evs @ [On_header_done (PTR_TO buffer (p + 1)) (length buffer - p - 1)]))"

definition h11_do :: "string \<Rightarrow> h11_action \<Rightarrow> nat \<Rightarrow> http_parser \<times> http_event list \<Rightarrow> http_parser \<times> http_event list" where
  "h11_do buffer a p st = (case st of (ps, evs) \<Rightarrow> (case a of
     H_mark \<Rightarrow> (ps\<lparr>hp_mark := p\<rparr>, evs)
   | H_start_field \<Rightarrow> (ps\<lparr>hp_field_start := p\<rparr>, evs)
   | H_write_field \<Rightarrow> (ps\<lparr>hp_field_len := LEN (hp_field_start ps) p\<rparr>, evs)
   | H_start_value \<Rightarrow> (ps\<lparr>hp_mark := p\<rparr>, evs)
   | H_write_value \<Rightarrow> (ps, evs @ [On_field (PTR_TO buffer (hp_field_start ps)) (hp_field_len ps)
       (PTR_TO buffer (hp_mark ps)) (LEN (hp_mark ps) p)])
   | H_request_method \<Rightarrow> (ps, evs @ [On_method (PTR_TO buffer (hp_mark ps)) (LEN (hp_mark ps) p)])
   | H_request_uri \<Rightarrow> (ps, evs @ [On_uri (PTR_TO buffer (hp_mark ps)) (LEN (hp_mark ps) p)])
   | H_fragment \<Rightarrow> (ps, evs @ [On_fragment (PTR_TO buffer (hp_mark ps)) (LEN (hp_mark ps) p)])
   | H_start_query \<Rightarrow> (ps\<lparr>hp_query_start := p\<rparr>, evs)
   | H_query_string \<Rightarrow> (ps, evs @ [On_query (PTR_TO buffer (hp_query_start ps)) (LEN (hp_query_start ps) p)])
   | H_http_version \<Rightarrow> (ps, evs @ [On_version (PTR_TO buffer (hp_mark ps)) (LEN (hp_mark ps) p)])
   | H_request_path \<Rightarrow> (ps, evs @ [On_path (PTR_TO buffer (hp_mark ps)) (LEN (hp_mark ps) p)])
   | H_done \<Rightarrow> h11_done buffer p (ps, evs)
   | H_xml \<Rightarrow> (ps\<lparr>hp_xml_sent := True\<rparr>, evs)
   | H_json \<Rightarrow> (ps\<lparr>hp_json_sent := True\<rparr>, evs)))"

subsection \<open>Execution\<close>

definition h11_next :: "bool \<Rightarrow> nat \<Rightarrow> char \<Rightarrow> h11_action goto" where
  "h11_next relaxed cs c = h11_switch cs (schar c) (h11_widec relaxed (schar c))"

definition h11_run :: "string \<Rightarrow> nat \<Rightarrow> http_parser \<Rightarrow> nat \<times> nat \<times> http_parser \<times> http_event list" where
  "h11_run buffer off ps =
     machine_run (h11_next (hp_uri_relaxed ps)) (h11_do buffer) (hp_cs ps) off (drop off buffer) (ps, [])"

definition http_parser_has_error :: "http_parser \<Rightarrow> bool" where
  "http_parser_has_error ps = (hp_cs ps = http_parser_error)"

definition http_parser_is_finished :: "http_parser \<Rightarrow> bool" where
  "http_parser_is_finished ps = (http_parser_first_final \<le> hp_cs ps)"

definition http_parser_finish :: "http_parser \<Rightarrow> int" where
  "http_parser_finish ps =
     (if http_parser_has_error ps then - 1 else if http_parser_is_finished ps then 1 else 0)"

text \<open>What follows the machine: the state is stored and five assertions are checked.\<close>

definition h11_finish :: "nat \<Rightarrow> nat \<Rightarrow> nat \<times> nat \<times> http_parser \<times> http_event list \<Rightarrow> fault + http_event list \<times> nat \<times> http_parser" where
  "h11_finish len off r = (case r of (cs, p, ps, evs) \<Rightarrow>
     if \<not> p \<le> len then Inl Assert_failed
     else
       let ps = (if \<not> http_parser_has_error ps then ps\<lparr>hp_cs := cs\<rparr> else ps);
           ps = ps\<lparr>hp_nread := uadd64 (hp_nread ps) (p - off)\<rparr>
       in if hp_nread ps \<le> len \<and> hp_body_start ps \<le> len \<and> hp_mark ps < len \<and> hp_field_len ps \<le> len
             \<and> hp_field_start ps < len
          then Inr (evs, hp_nread ps, ps) else Inl Assert_failed)"

definition http_parser_execute ::
  "http_parser \<Rightarrow> string \<Rightarrow> nat \<Rightarrow> fault + http_event list \<times> nat \<times> http_parser"
where
  "http_parser_execute ps buffer off =
     (let len = length buffer in
      if len = 0 then Inr ([], 0, ps)
      else if \<not> off \<le> len then Inl Assert_failed
      else if int (len - off) \<noteq> to_int32 (int len) - to_int32 (int off) then Inl Assert_failed
      else h11_finish len off (h11_run buffer off ps))"

text \<open>
  The argument \<open>engine\<close> of \<open>HttpRequestParser\<close>, \<open>mem\<close> being the memory of the parser before. A failed
  assertion ends the process; it stands here as a call that does nothing, and what is
  proved of the engine is for calls that return.
\<close>

definition http11_engine :: "http_parser \<Rightarrow> http_parser engine" where
  "http11_engine mem = \<lparr>e_init = http_parser_init mem,
     e_execute = (\<lambda>ps dat. case http_parser_execute ps dat 0 of Inr r \<Rightarrow> r | Inl _ \<Rightarrow> ([], 0, ps)),
     e_finish = http_parser_finish, e_has_error = http_parser_has_error\<rparr>"

end
