(* ===== verification/Http11Safe.thy ===== *)
theory Http11Safe
  imports Http11
begin

text \<open>
  What holds of the request parser on any input: where its callbacks point, and its assertions.
\<close>

subsection \<open>Which transitions use a part that was stored before\<close>

text \<open>
  In the states from \<open>lo\<close> to \<open>hi\<close> a part of the input has been stored; they are entered only by a
  transition whose actions store it (\<open>a\<close>), and the action \<open>u\<close> that uses the part stands only in
  such a transition or in one that leaves these states.
\<close>

definition guarded :: "nat \<Rightarrow> nat \<Rightarrow> (h11_action list \<Rightarrow> bool) \<Rightarrow> h11_action \<Rightarrow> nat \<Rightarrow> h11_action goto \<Rightarrow> bool" where
  "guarded lo hi a u cs g = (lo \<le> cs \<and> cs \<le> hi \<or> (case g of
     Goto as n \<Rightarrow> a as \<or> \<not> (lo \<le> n \<and> n \<le> hi) \<and> u \<notin> set as
   | Break as n \<Rightarrow> u \<notin> set as | Fail \<Rightarrow> True | No_case \<Rightarrow> True))"

lemma guarded_simps:
  "\<not> (lo \<le> n \<and> n \<le> hi) \<Longrightarrow> guarded lo hi a u cs (Goto [] n)" "guarded lo hi a u cs Fail" "guarded lo hi a u cs No_case"
  "a (b # as) \<or> \<not> (lo \<le> n \<and> n \<le> hi) \<and> u \<notin> set (b # as) \<Longrightarrow> guarded lo hi a u cs (Goto (b # as) n)"
  "u \<notin> set as \<Longrightarrow> guarded lo hi a u cs (Break as n)"
  by (auto simp: guarded_def)

abbreviation stores_query :: "h11_action list \<Rightarrow> bool" where
  "stores_query as \<equiv> as \<noteq> [] \<and> hd as = H_start_query"

abbreviation stores_field :: "h11_action list \<Rightarrow> bool" where
  "stores_field as \<equiv> as = [H_write_field]"

lemma guarded_in: "lo \<le> cs \<and> cs \<le> hi \<Longrightarrow> guarded lo hi a u cs g"
  by (simp add: guarded_def)

lemma guarded_if: "guarded lo hi a u cs g \<Longrightarrow> guarded lo hi a u cs g' \<Longrightarrow> guarded lo hi a u cs (if b then g else g')"
  by simp

lemma guarded_less:
  "(cs < n \<Longrightarrow> guarded lo hi a u cs g) \<Longrightarrow> (n \<le> cs \<Longrightarrow> guarded lo hi a u cs g') \<Longrightarrow> guarded lo hi a u cs (if cs < n then g else g')"
  by simp

lemmas h11_cases =
      h11_case1_def h11_case2_def h11_case3_def h11_case4_def h11_case5_def h11_case6_def h11_case7_def
      h11_case8_def h11_case9_def h11_case10_def h11_case11_def h11_case12_def h11_case13_def h11_case14_def
      h11_case15_def h11_case16_def h11_case17_def h11_case18_def h11_case19_def h11_case20_def h11_case21_def
      h11_case22_def h11_case23_def h11_case24_def h11_case25_def h11_case26_def h11_case27_def h11_case28_def
      h11_case29_def h11_case30_def h11_case31_def h11_case32_def h11_case33_def h11_case34_def h11_case35_def
      h11_case36_def h11_case37_def h11_case38_def h11_case39_def h11_case40_def h11_case41_def h11_case42_def
      h11_case43_def h11_case44_def h11_case45_def h11_case46_def h11_case47_def h11_case48_def h11_case49_def
      h11_case50_def h11_case51_def h11_case52_def h11_case53_def h11_case54_def h11_case55_def h11_case56_def
      h11_case57_def h11_case58_def h11_case59_def h11_case60_def h11_case61_def h11_case62_def h11_case63_def
      h11_case64_def h11_case65_def h11_case66_def h11_case67_def h11_case68_def h11_case69_def h11_case70_def
      h11_case71_def h11_case72_def h11_case73_def h11_case74_def h11_case75_def h11_case76_def h11_case77_def
      h11_case78_def h11_case79_def h11_case80_def h11_case81_def h11_case82_def h11_case83_def h11_case84_def
      h11_case85_def h11_case86_def h11_case87_def h11_case88_def h11_case89_def h11_case90_def h11_case91_def
      h11_case92_def h11_case93_def h11_case94_def h11_case95_def h11_case96_def h11_case97_def h11_case98_def
      h11_case99_def h11_case100_def h11_case101_def h11_case102_def h11_case103_def h11_case104_def h11_case105_def
      h11_case106_def h11_case107_def h11_case108_def h11_case109_def h11_case110_def h11_case111_def h11_case112_def
      h11_case113_def h11_case114_def h11_case115_def h11_case116_def h11_case117_def h11_case118_def h11_case119_def
      h11_case120_def h11_case121_def h11_case122_def h11_case123_def h11_case124_def h11_case125_def h11_case126_def
      h11_case127_def h11_case128_def h11_case129_def h11_case130_def h11_case131_def h11_case132_def h11_case133_def
      h11_case134_def h11_case135_def h11_case136_def h11_case137_def h11_case138_def h11_case139_def h11_case140_def
      h11_case141_def h11_case142_def h11_case143_def h11_case144_def h11_case145_def h11_case146_def h11_case147_def
      h11_case148_def h11_case149_def h11_case150_def h11_case151_def h11_case152_def h11_case153_def h11_case154_def
      h11_case155_def h11_case156_def h11_case157_def h11_case158_def h11_case159_def h11_case160_def h11_case161_def
      h11_case162_def h11_case163_def h11_case164_def h11_case165_def h11_case166_def h11_case167_def h11_case168_def
      h11_case169_def h11_case170_def h11_case171_def h11_case172_def h11_case173_def h11_case174_def h11_case175_def
      h11_case176_def h11_case177_def h11_case178_def h11_case179_def h11_case180_def h11_case181_def h11_case182_def
      h11_case183_def h11_case184_def h11_case185_def h11_case186_def h11_case187_def h11_case188_def h11_case189_def
      h11_case190_def h11_case191_def h11_case192_def h11_case193_def h11_case194_def h11_case195_def h11_case196_def
      h11_case197_def h11_case198_def h11_case199_def h11_case200_def h11_case201_def h11_case202_def h11_case203_def
      h11_case204_def h11_case205_def h11_case206_def h11_case207_def h11_case208_def h11_case209_def h11_case210_def
      h11_case211_def h11_case212_def h11_case213_def h11_case214_def h11_case215_def h11_case216_def h11_case217_def
      h11_case218_def h11_case219_def h11_case220_def h11_case221_def h11_case222_def h11_case223_def h11_case224_def
      h11_case225_def h11_case226_def h11_case227_def h11_case228_def h11_case229_def h11_case230_def h11_case231_def
      h11_case232_def h11_case233_def h11_case234_def h11_case235_def h11_case236_def h11_case237_def h11_case238_def
      h11_case239_def h11_case240_def h11_case241_def h11_case242_def h11_case243_def h11_case244_def h11_case245_def
      h11_case246_def h11_case247_def h11_case248_def h11_case249_def h11_case250_def h11_case251_def h11_case252_def
      h11_case253_def h11_case254_def h11_case255_def h11_case256_def h11_case257_def h11_case258_def h11_case259_def
      h11_case260_def h11_case261_def h11_case262_def h11_case263_def h11_case264_def h11_case265_def h11_case266_def
      h11_case267_def h11_case268_def h11_case269_def h11_case270_def h11_case271_def h11_case272_def h11_case273_def
      h11_case274_def h11_case275_def h11_case276_def h11_case277_def h11_case278_def h11_case279_def h11_case280_def
      h11_case281_def h11_case282_def h11_case283_def h11_case284_def h11_case285_def h11_case286_def h11_case287_def
      h11_case288_def h11_case289_def h11_case290_def h11_case291_def h11_case292_def h11_case293_def h11_case294_def
      h11_case295_def h11_case296_def h11_case297_def h11_case298_def h11_case299_def h11_case300_def h11_case301_def
      h11_case302_def h11_case303_def h11_case304_def h11_case305_def h11_case306_def h11_case307_def h11_case308_def
      h11_case309_def h11_case310_def h11_case311_def h11_case312_def h11_case313_def h11_case314_def h11_case315_def
      h11_case316_def h11_case317_def h11_case318_def h11_case319_def h11_case320_def h11_case321_def h11_case322_def
      h11_case323_def h11_case324_def h11_case325_def h11_case326_def h11_case327_def h11_case328_def h11_case329_def
      h11_case330_def h11_case331_def h11_case332_def h11_case333_def h11_case334_def h11_case335_def h11_case336_def
      h11_case337_def h11_case338_def h11_case339_def h11_case340_def h11_case341_def h11_case342_def h11_case343_def
      h11_case344_def h11_case345_def h11_case346_def h11_case347_def h11_case348_def h11_case349_def

lemmas h11_trs =
      h11_tr0_def h11_tr4_def h11_tr6_def h11_tr37_def h11_tr43_def h11_tr46_def h11_tr53_def
      h11_tr57_def h11_tr13_def h11_tr21_def h11_tr30_def h11_tr33_def h11_tr23_def h11_tr27_def
      h11_tr29_def h11_tr28_def h11_tr22_def h11_tr31_def h11_tr34_def h11_tr24_def h11_tr36_def
      h11_tr25_def h11_tr7_def h11_tr8_def h11_tr39_def h11_tr55_def h11_tr59_def h11_tr44_def
      h11_tr45_def h11_tr9_def h11_tr203_def h11_tr204_def h11_tr11_def h11_tr42_def h11_tr54_def
      h11_tr56_def h11_tr10_def h11_tr12_def h11_tr2_def h11_tr224_def h11_tr227_def h11_tr235_def
      h11_tr3_def h11_tr228_def h11_tr232_def

lemma query_guarded: "guarded 30 32 stores_query H_query_string cs (h11_switch cs c w)"
  unfolding h11_switch_def
  by (intro guarded_less guarded_if[of _ _ _ _ _ No_case] guarded_simps(3))
    (simp_all add: guarded_in guarded_simps guarded_if h11_cases h11_trs del: if_split)

lemma field_guarded: "guarded 15 16 stores_field H_write_value cs (h11_switch cs c w)"
  unfolding h11_switch_def
  by (intro guarded_less guarded_if[of _ _ _ _ _ No_case] guarded_simps(3))
    (simp_all add: guarded_in guarded_simps guarded_if h11_cases h11_trs del: if_split)

text \<open>The states from 348 on, where the parser is finished, are reached only when the machine is left.\<close>

definition goto_inside :: "h11_action goto \<Rightarrow> bool" where
  "goto_inside g = (case g of Goto as n \<Rightarrow> n \<noteq> 0 \<and> n < http_parser_first_final | Break as n \<Rightarrow> http_parser_first_final \<le> n
     | Fail \<Rightarrow> True | No_case \<Rightarrow> True)"

lemma goto_inside_simps:
  "n \<noteq> 0 \<Longrightarrow> n < 348 \<Longrightarrow> goto_inside (Goto as n)" "348 \<le> n \<Longrightarrow> goto_inside (Break as n)" "goto_inside Fail" "goto_inside No_case"
  "goto_inside g \<Longrightarrow> goto_inside g' \<Longrightarrow> goto_inside (if b then g else g')"
  by (simp_all add: goto_inside_def http_parser_first_final_def)

lemma switch_inside: "goto_inside (h11_switch cs c w)"
  unfolding h11_switch_def
  by (intro goto_inside_simps(4-5)) (simp_all add: goto_inside_simps h11_cases h11_trs del: if_split)

text \<open>Between the name of a field and the end of its value no other field is begun.\<close>

lemma field_kept:
  assumes "15 \<le> cs" "cs \<le> 16"
  shows "h11_switch cs c w = Goto as n \<Longrightarrow> H_start_field \<notin> set as" "h11_switch cs c w \<noteq> Break as n"
proof -
  have sw: "h11_switch 15 c w = h11_case15 c" "h11_switch 16 c w = h11_case16 c" by (simp_all add: h11_switch_def)
  have cs: "cs = 15 \<or> cs = 16" using assms by arith
  note defs = h11_case15_def h11_case16_def h11_tr28_def h11_tr29_def h11_tr30_def h11_tr31_def h11_tr33_def h11_tr34_def
  show "H_start_field \<notin> set as" if "h11_switch cs c w = Goto as n"
  proof -
    have "h11_case15 c = Goto as n \<or> h11_case16 c = Goto as n" using that cs sw by auto
    then show ?thesis by (auto simp: defs split: if_split_asm)
  qed
  have "h11_case15 c \<noteq> Break as n" "h11_case16 c \<noteq> Break as n" by (simp_all add: defs)
  then show "h11_switch cs c w \<noteq> Break as n" using cs sw by auto
qed

subsection \<open>Slices\<close>

text \<open>The memory and length that a callback is given, twice for a field.\<close>

fun event_slices :: "http_event \<Rightarrow> (string \<times> nat) list" where
  "event_slices (On_field f flen v vlen) = [(f, flen), (v, vlen)]"
| "event_slices (On_method at n) = [(at, n)]" | "event_slices (On_uri at n) = [(at, n)]"
| "event_slices (On_fragment at n) = [(at, n)]" | "event_slices (On_path at n) = [(at, n)]"
| "event_slices (On_query at n) = [(at, n)]" | "event_slices (On_version at n) = [(at, n)]"
| "event_slices (On_header_done at n) = [(at, n)]" | "event_slices (On_reason at n) = [(at, n)]"
| "event_slices (On_status at n) = [(at, n)]" | "event_slices (On_chunk at n) = [(at, n)]"
| "event_slices (On_last_chunk at n) = [(at, n)]"

definition slice_in :: "string \<Rightarrow> string \<times> nat \<Rightarrow> bool" where
  "slice_in buffer s = (\<exists>i \<le> length buffer. fst s = drop i buffer \<and> i + snd s \<le> length buffer)"

lemma LEN_add [simp]: "i + n < 2 ^ 64 \<Longrightarrow> LEN i (i + n) = n"
  by (simp add: LEN_def usub64_def)

lemma slice_in_LEN: "i \<le> p \<Longrightarrow> p \<le> length buf \<Longrightarrow> length buf < 2 ^ 64 \<Longrightarrow> slice_in buf (PTR_TO buf i, LEN i p)"
  using LEN_add[of i "p - i"] by (auto simp: slice_in_def PTR_TO_def intro!: exI[of _ i])

text \<open>
  The invariant: where the marks stand at position \<open>p\<close>; \<open>query\<close> and \<open>field\<close> say whether the start of
  the query and the length of the name of a field have been stored.
\<close>

definition parser_marks :: "string \<Rightarrow> http_parser \<Rightarrow> bool \<Rightarrow> bool \<Rightarrow> nat \<Rightarrow> http_parser \<times> http_event list \<Rightarrow> bool" where
  "parser_marks buf ps0 query field p st = (case st of (ps, evs) \<Rightarrow>
     hp_mark ps \<le> p \<and> hp_field_start ps \<le> p \<and> hp_field_len ps \<le> length buf
     \<and> hp_mark ps < length buf \<and> hp_field_start ps < length buf \<and> hp_body_start ps \<le> length buf
     \<and> (query \<longrightarrow> hp_query_start ps \<le> p) \<and> (field \<longrightarrow> hp_field_start ps + hp_field_len ps \<le> length buf)
     \<and> list_all (\<lambda>ev. list_all (slice_in buf) (event_slices ev)) evs
     \<and> hp_cs ps = hp_cs ps0 \<and> hp_nread ps = hp_nread ps0 \<and> hp_uri_relaxed ps = hp_uri_relaxed ps0)"

lemma parser_marks_mono:
  "parser_marks buf ps0 q f p st \<Longrightarrow> q' \<longrightarrow> q \<Longrightarrow> f' \<longrightarrow> f \<Longrightarrow> p \<le> p' \<Longrightarrow> parser_marks buf ps0 q' f' p' st"
  by (auto simp: parser_marks_def)

lemma parser_marks_do:
  assumes "parser_marks buf ps0 query field p st" "p < length buf" "length buf < 2 ^ 64"
    and "a = H_query_string \<Longrightarrow> query" "a = H_write_value \<Longrightarrow> field"
  shows "parser_marks buf ps0 (query \<or> a = H_start_query) (field \<and> a \<noteq> H_start_field \<or> a = H_write_field) p (h11_do buf a p st)"
proof -
  obtain ps evs where st: "st = (ps, evs)" by force
  have l: "LEN i p = p - i" if "i \<le> p" for i using that assms(2,3) LEN_add[of i "p - i"] by simp
  have sl: "slice_in buf (PTR_TO buf i, p - i)" if "i \<le> p" for i
    using slice_in_LEN[of i p buf] l[OF that] that assms(2,3) by simp
  have e: "slice_in buf (PTR_TO buf (Suc p), length buf - Suc p)"
    using assms(2) by (auto simp: slice_in_def PTR_TO_def intro!: exI[of _ "Suc p"])
  have f: "slice_in buf (PTR_TO buf i, n)" if "i + n \<le> length buf" for i n
    using that by (auto simp: slice_in_def PTR_TO_def intro!: exI[of _ i])
  show ?thesis using assms sl e f
    by (cases a) (auto simp: parser_marks_def st h11_do_def h11_done_def l)
qed

lemma parser_marks_fold:
  assumes "parser_marks buf ps0 query field p st" "p < length buf" "length buf < 2 ^ 64"
    and "query \<or> H_query_string \<notin> set as \<or> stores_query as" "field \<and> H_start_field \<notin> set as \<or> H_write_value \<notin> set as"
  shows "parser_marks buf ps0 (query \<or> stores_query as) (field \<and> H_start_field \<notin> set as \<or> stores_field as) p
    (fold (\<lambda>a. h11_do buf a p) as st)"
proof -
  have weaker: "parser_marks buf ps0 q' f' p st" if "parser_marks buf ps0 q f p st" "q' \<longrightarrow> q" "f' \<longrightarrow> f" for q f q' f' st
    using parser_marks_mono[OF that] by simp
  have run: "parser_marks buf ps0 q (f \<and> H_start_field \<notin> set as) p (fold (\<lambda>a. h11_do buf a p) as st)"
    if "parser_marks buf ps0 q f p st" "q \<or> H_query_string \<notin> set as" "f \<and> H_start_field \<notin> set as \<or> H_write_value \<notin> set as"
    for as q f st
    using that
  proof (induction as arbitrary: q f st)
    case (Cons a as)
    from Cons.prems have "parser_marks buf ps0 (q \<or> a = H_start_query) (f \<and> a \<noteq> H_start_field \<or> a = H_write_field) p (h11_do buf a p st)"
      by (intro parser_marks_do assms(2,3)) auto
    then have "parser_marks buf ps0 q (f \<and> a \<noteq> H_start_field) p (h11_do buf a p st)" by (rule weaker) auto
    from Cons.IH[OF this] Cons.prems have
      "parser_marks buf ps0 q ((f \<and> a \<noteq> H_start_field) \<and> H_start_field \<notin> set as) p (fold (\<lambda>a. h11_do buf a p) as (h11_do buf a p st))"
      by auto
    then show ?case by (auto intro: weaker)
  qed (auto intro: weaker)
  show ?thesis
  proof (cases "stores_query as")
    case True
    then obtain bs where as: "as = H_start_query # bs" by (cases as) auto
    have "parser_marks buf ps0 (query \<or> H_start_query = H_start_query) (field \<and> H_start_query \<noteq> H_start_field \<or> H_start_query = H_write_field)
        p (h11_do buf H_start_query p st)"
      by (rule parser_marks_do[OF assms(1-3)]) auto
    then have "parser_marks buf ps0 True field p (h11_do buf H_start_query p st)" by (rule weaker) auto
    from run[OF this, of bs] assms(5) show ?thesis unfolding as by auto
  next
    case False
    show ?thesis
    proof (cases "stores_field as")
      case True
      then show ?thesis using parser_marks_do[OF assms(1-3), of H_write_field] by simp
    next
      case f: False
      have "parser_marks buf ps0 query (field \<and> H_start_field \<notin> set as) p (fold (\<lambda>a. h11_do buf a p) as st)"
        by (rule run[OF assms(1)]) (use assms(4,5) False in auto)
      then show ?thesis by (rule weaker) (use False f in auto)
    qed
  qed
qed

text \<open>The invariant of the machine, and what it says when a call is over.\<close>

lemma h11_run_marks:
  assumes run: "h11_run buf off ps = (cs, p, ps', evs)" and len: "off < length buf" "length buf < 2 ^ 64"
    and init: "parser_marks buf ps False False off (ps, [])" "\<not> (15 \<le> hp_cs ps \<and> hp_cs ps \<le> 16)" "\<not> (30 \<le> hp_cs ps \<and> hp_cs ps \<le> 32)"
  shows "parser_marks buf ps False False p (ps', evs)" "off \<le> p" "p \<le> length buf"
proof -
  let ?q = "\<lambda>cs. 30 \<le> cs \<and> cs \<le> (32 :: nat)" and ?f = "\<lambda>cs. 15 \<le> cs \<and> cs \<le> (16 :: nat)"
  have r: "machine_run (h11_next (hp_uri_relaxed ps)) (h11_do buf) (hp_cs ps) off (drop off buf) (ps, []) = (cs, p, ps', evs)"
    using run by (simp add: h11_run_def)
  have e: "off + length (drop off buf) = length buf" using len by simp
  from machine_run_bounds[OF r] e show "off \<le> p" "p \<le> length buf" by auto
  have q: "h11_next rx c x = Goto as n \<Longrightarrow> ?q c \<or> stores_query as \<or> \<not> ?q n \<and> H_query_string \<notin> set as"
      "h11_next rx c x = Break as n \<Longrightarrow> ?q c \<or> H_query_string \<notin> set as" for rx c x as n
    using query_guarded[of c "schar x" "h11_widec rx (schar x)"] by (auto simp: guarded_def h11_next_def)
  have f: "h11_next rx c x = Goto as n \<Longrightarrow> ?f c \<or> stores_field as \<or> \<not> ?f n \<and> H_write_value \<notin> set as"
      "h11_next rx c x = Break as n \<Longrightarrow> ?f c \<or> H_write_value \<notin> set as" for rx c x as n
    using field_guarded[of c "schar x" "h11_widec rx (schar x)"] by (auto simp: guarded_def h11_next_def)
  have fk: "h11_next rx c x = Goto as n \<Longrightarrow> ?f c \<Longrightarrow> H_start_field \<notin> set as" for rx c x as n
    using field_kept(1)[of c "schar x" "h11_widec rx (schar x)" as n] by (simp add: h11_next_def)
  have fb: "H_write_value \<notin> set as" if "h11_next rx c x = Break as n" for rx c x as n
    using f(2)[OF that] field_kept(2)[of c "schar x" "h11_widec rx (schar x)" as n] that by (auto simp: h11_next_def)
  show "parser_marks buf ps False False p (ps', evs)"
  proof (rule machine_run_inv[OF r, where I = "\<lambda>cs p st. parser_marks buf ps (?q cs) (?f cs) p st" and J = "parser_marks buf ps False False"],
      unfold e)
    have "?q (hp_cs ps) = False" "?f (hp_cs ps) = False" using init(2,3) by auto
    with init(1) show "parser_marks buf ps (?q (hp_cs ps)) (?f (hp_cs ps)) off (ps, [])" by (simp only:)
  next
    fix c x as n p st
    assume g: "h11_next (hp_uri_relaxed ps) c x = Goto as n" and i: "parser_marks buf ps (?q c) (?f c) p st" and p: "p < length buf"
    have "parser_marks buf ps (?q c \<or> stores_query as) (?f c \<and> H_start_field \<notin> set as \<or> stores_field as) p (fold (\<lambda>a. h11_do buf a p) as st)"
      by (rule parser_marks_fold[OF i p len(2)]) (use q(1)[OF g] f(1)[OF g] fk[OF g] in auto)
    then show "parser_marks buf ps (?q n) (?f n) (Suc p) (fold (\<lambda>a. h11_do buf a p) as st)"
      by (rule parser_marks_mono) (use q(1)[OF g] f(1)[OF g] fk[OF g] in auto)
  next
    fix c x as n p st
    assume g: "h11_next (hp_uri_relaxed ps) c x = Break as n" and i: "parser_marks buf ps (?q c) (?f c) p st" and p: "p < length buf"
    have "parser_marks buf ps (?q c \<or> stores_query as) (?f c \<and> H_start_field \<notin> set as \<or> stores_field as) p (fold (\<lambda>a. h11_do buf a p) as st)"
      by (rule parser_marks_fold[OF i p len(2)]) (use q(2)[OF g] fb[OF g] in auto)
    then show "parser_marks buf ps False False (Suc p) (fold (\<lambda>a. h11_do buf a p) as st)"
      by (rule parser_marks_mono) auto
  next
    show "parser_marks buf ps False False p st" if "parser_marks buf ps (?q c) (?f c) p st" for c p st
      using that by (rule parser_marks_mono) auto
  qed
qed

subsection \<open>A first call\<close>

text \<open>The assertions after the machine hold for a fresh parser.\<close>

lemma execute_fresh:
  assumes "buf \<noteq> []" "length buf < 2 ^ 31" "h11_run buf 0 (http_parser_init mem) = (cs, p, ps, evs)"
  shows "http_parser_execute (http_parser_init mem) buf 0 = Inr (evs, p, ps\<lparr>hp_cs := cs, hp_nread := p\<rparr>)"
    and "parser_marks buf (http_parser_init mem) False False p (ps, evs)" "p \<le> length buf"
proof -
  let ?i = "http_parser_init mem"
  have l: "length buf < 2 ^ 64" using assms(2) by (rule less_trans) simp
  have "parser_marks buf ?i False False 0 (?i, [])" using assms(1) by (simp add: parser_marks_def http_parser_init_def)
  from h11_run_marks[OF assms(3) _ l this]
  show m: "parser_marks buf ?i False False p (ps, evs)" and p: "p \<le> length buf"
    using assms(1) by (simp_all add: http_parser_init_def http_parser_start_def)
  have "hp_cs ps = 1" "hp_nread ps = 0" "hp_body_start ps \<le> length buf" "hp_mark ps < length buf" "hp_field_len ps \<le> length buf"
    "hp_field_start ps < length buf"
    using m by (simp_all add: parser_marks_def http_parser_init_def http_parser_start_def)
  then show "http_parser_execute ?i buf 0 = Inr (evs, p, ps\<lparr>hp_cs := cs, hp_nread := p\<rparr>)"
    using assms(1,2) p l by (simp add: http_parser_execute_def assms(3) h11_finish_def to_int32_id Let_def uadd64_def
      http_parser_has_error_def http_parser_error_def)
qed

text \<open>C6: the first call of the parser on a buffer of any content returns: no assertion fails, it
  consumes at most the buffer, and every slice of memory that a callback is given lies in the buffer,
  also those that are computed from members no constructor has set.\<close>

theorem http11_slices_in_buffer:
  assumes "length buf < 2 ^ 31"
  shows "\<exists>evs n ps. http_parser_execute (http_parser_init mem) buf 0 = Inr (evs, n, ps) \<and> n \<le> length buf
     \<and> list_all (\<lambda>ev. list_all (slice_in buf) (event_slices ev)) evs"
proof (cases "buf = []")
  case True
  then show ?thesis by (simp add: http_parser_execute_def)
next
  case False
  obtain cs p ps evs where r: "h11_run buf 0 (http_parser_init mem) = (cs, p, ps, evs)" by (metis prod_cases4)
  from execute_fresh[OF False assms r] show ?thesis by (auto simp: parser_marks_def)
qed

text \<open>A parser in memory that holds anything.\<close>

definition demo_memory :: http_parser where
  "demo_memory = \<lparr>hp_cs = 7, hp_body_start = 99, hp_content_len = - 1, hp_nread = 99, hp_mark = 99, hp_field_start = 99,
     hp_field_len = 99, hp_query_start = 99, hp_xml_sent = True, hp_json_sent = True, hp_uri_relaxed = True\<rparr>"

theorem http11_slices_in_buffer_witness:
  "let buf = ''GET /a?b HTTP/1.1 trailing'' in
   \<exists>evs n ps. http_parser_execute (http_parser_init demo_memory) buf 0 = Inr (evs, n, ps) \<and> n \<le> length buf
     \<and> list_all (\<lambda>ev. list_all (slice_in buf) (event_slices ev)) evs"
  unfolding Let_def by (rule http11_slices_in_buffer) simp

end
