(* ===== verification/TextRuns.thy ===== *)
theory TextRuns
  imports Ragel
begin

text \<open>
  The texts the machines read: classes of characters by their value, text with percent signs, and how a
  machine runs over a text that keeps it in one state.
\<close>

subsection \<open>Characters\<close>

definition token_char :: "char \<Rightarrow> bool" where
  "token_char c = (let n = schar c in n = 33 \<or> 35 \<le> n \<and> n \<le> 39 \<or> 42 \<le> n \<and> n \<le> 43 \<or> 45 \<le> n \<and> n \<le> 46
     \<or> 48 \<le> n \<and> n \<le> 57 \<or> 65 \<le> n \<and> n \<le> 90 \<or> 94 \<le> n \<and> n \<le> 122 \<or> n = 124 \<or> n = 126)"

definition method_char :: "char \<Rightarrow> bool" where
  "method_char c = (let n = schar c in 48 \<le> n \<and> n \<le> 57 \<or> 65 \<le> n \<and> n \<le> 90)"

definition value_char :: "char \<Rightarrow> bool" where
  "value_char c = (schar c \<notin> {0, 10, 13, 127})"

definition blank_char :: "char \<Rightarrow> bool" where
  "blank_char c = (schar c = 9 \<or> schar c = 32)"

definition hex_digit :: "char \<Rightarrow> bool" where
  "hex_digit c = (let n = schar c in 48 \<le> n \<and> n \<le> 57 \<or> 65 \<le> n \<and> n \<le> 70 \<or> 97 \<le> n \<and> n \<le> 102)"

definition digit_char :: "char \<Rightarrow> bool" where
  "digit_char c = (48 \<le> schar c \<and> schar c \<le> 57)"

definition path_char :: "char \<Rightarrow> bool" where
  "path_char c = (let n = schar c in n = 33 \<or> n = 36 \<or> 38 \<le> n \<and> n \<le> 59 \<or> n = 61 \<or> 64 \<le> n \<and> n \<le> 90 \<or> n = 95
     \<or> 97 \<le> n \<and> n \<le> 122 \<or> n = 126)"

definition query_char :: "char \<Rightarrow> bool" where
  "query_char c = (path_char c \<or> schar c = 63)"

text \<open>Text with percent signs that are followed by two hexadecimal digits.\<close>

fun pct_text :: "(char \<Rightarrow> bool) \<Rightarrow> string \<Rightarrow> bool" where
  "pct_text ok [] = True"
| "pct_text ok (c # r) = (if c = CHR ''%'' then (case r of a # b # r' \<Rightarrow> hex_digit a \<and> hex_digit b \<and> pct_text ok r' | _ \<Rightarrow> False)
     else ok c \<and> pct_text ok r)"

lemma schar_simps [simp]:
  "schar CHR '' '' = 32" "schar CHR ''%'' = 37" "schar CHR ''/'' = 47" "schar CHR ''?'' = 63" "schar CHR ''#'' = 35"
  "schar CHR '':'' = 58" "schar CHR 0x0D = 13" "schar CHR 0x0A = 10"
  by (simp_all add: schar_def)

lemma path_charE:
  assumes "path_char c"
  obtains "schar c = 33" | "schar c = 36" | "38 \<le> schar c" "schar c \<le> 59" | "schar c = 61" | "64 \<le> schar c" "schar c \<le> 90"
    | "schar c = 95" | "97 \<le> schar c" "schar c \<le> 122" | "schar c = 126"
  using assms by (auto simp: path_char_def Let_def)

lemma hex_digitE:
  assumes "hex_digit c"
  obtains "48 \<le> schar c" "schar c \<le> 57" | "65 \<le> schar c" "schar c \<le> 70" | "97 \<le> schar c" "schar c \<le> 102"
  using assms by (auto simp: hex_digit_def Let_def)

lemma token_charE:
  assumes "token_char c"
  obtains "schar c = 33" | "35 \<le> schar c" "schar c \<le> 39" | "42 \<le> schar c" "schar c \<le> 43" | "45 \<le> schar c" "schar c \<le> 46"
    | "48 \<le> schar c" "schar c \<le> 57" | "65 \<le> schar c" "schar c \<le> 90" | "94 \<le> schar c" "schar c \<le> 122"
    | "schar c = 124" | "schar c = 126"
  using assms by (auto simp: token_char_def Let_def)

subsection \<open>Runs\<close>

lemma run_pct_text:
  assumes "pct_text ok xs"
    and s: "\<And>c. ok c \<Longrightarrow> sw s c = Goto [] s" "sw s CHR ''%'' = Goto [] s1"
      "\<And>c. hex_digit c \<Longrightarrow> sw s1 c = Goto [] s2" "\<And>c. hex_digit c \<Longrightarrow> sw s2 c = Goto [] s"
  shows "machine_run sw act s p (xs @ rest) st = machine_run sw act s (p + length xs) rest st"
  using assms(1)
proof (induction xs arbitrary: p rule: length_induct)
  case (1 xs)
  show ?case
  proof (cases xs)
    case (Cons c r)
    show ?thesis
    proof (cases "c = CHR ''%''")
      case True
      with Cons 1(2) obtain a b r' where "r = a # b # r'" "hex_digit a" "hex_digit b" "pct_text ok r'"
        by (auto split: list.splits)
      with True Cons 1(1) show ?thesis by (simp add: s)
    next
      case False
      with Cons 1 show ?thesis by (simp add: s)
    qed
  qed simp
qed

text \<open>Text with another state at its beginning, which may do something on its way out.\<close>

lemma run_pct_text0:
  assumes "pct_text ok xs" "xs \<noteq> []" "hd xs = CHR ''%'' \<or> ok0 (hd xs)"
    and s0: "\<And>c. ok c \<Longrightarrow> ok0 c \<Longrightarrow> sw s0 c = Goto as s" "sw s0 CHR ''%'' = Goto as s1"
    and s: "\<And>c. ok c \<Longrightarrow> sw s c = Goto [] s" "sw s CHR ''%'' = Goto [] s1"
      "\<And>c. hex_digit c \<Longrightarrow> sw s1 c = Goto [] s2" "\<And>c. hex_digit c \<Longrightarrow> sw s2 c = Goto [] s"
  shows "machine_run sw act s0 p (xs @ rest) st = machine_run sw act s (p + length xs) rest (fold (\<lambda>a. act a p) as st)"
proof -
  obtain c r where xs: "xs = c # r" using assms(2) by (cases xs) auto
  note run = run_pct_text[where sw = sw and s = s, OF _ s]
  show ?thesis
  proof (cases "c = CHR ''%''")
    case True
    with assms(1) xs obtain a b r' where "r = a # b # r'" "hex_digit a" "hex_digit b" "pct_text ok r'"
      by (auto split: list.splits)
    with True xs show ?thesis by (simp add: s s0 run)
  next
    case False
    with assms(1,3) xs show ?thesis by (simp add: s0 run[of ok r])
  qed
qed

end
