(* ===== verification/Http11Props.thy ===== *)
theory Http11Props
  imports Http11Safe HttpProps TextRuns
begin

text \<open>
  What the request parser does with a request: the states it goes through for each part of the
  text, and what the object around it holds at the end.
\<close>

subsection \<open>States\<close>

lemma h11_states:
  "h11_switch 1 c w = h11_case1 c" "h11_switch 2 c w = h11_case2 c" "h11_switch 3 c w = h11_case3 w"
  "h11_switch 4 c w = h11_case4 c" "h11_switch 5 c w = h11_case5 c" "h11_switch 6 c w = h11_case6 c"
  "h11_switch 7 c w = h11_case7 c" "h11_switch 8 c w = h11_case8 c" "h11_switch 9 c w = h11_case9 c"
  "h11_switch 10 c w = h11_case10 c" "h11_switch 11 c w = h11_case11 c" "h11_switch 12 c w = h11_case12 c"
  "h11_switch 13 c w = h11_case13 c" "h11_switch 14 c w = h11_case14 c" "h11_switch 15 c w = h11_case15 c"
  "h11_switch 16 c w = h11_case16 c" "h11_switch 17 c w = h11_case17 c" "h11_switch 18 c w = h11_case18 c"
  "h11_switch 20 c w = h11_case20 w" "h11_switch 21 c w = h11_case21 w" "h11_switch 22 c w = h11_case22 c"
  "h11_switch 23 c w = h11_case23 c" "h11_switch 26 c w = h11_case26 w" "h11_switch 27 c w = h11_case27 c"
  "h11_switch 28 c w = h11_case28 c" "h11_switch 29 c w = h11_case29 w" "h11_switch 30 c w = h11_case30 w"
  "h11_switch 31 c w = h11_case31 c" "h11_switch 32 c w = h11_case32 c" "h11_switch 33 c w = h11_case33 w"
  by (simp_all add: h11_switch_def)

lemma h11_method_states:
  "h11_switch 175 c w = h11_case175 c" "h11_switch 176 c w = h11_case176 c" "h11_switch 177 c w = h11_case177 c"
  "h11_switch 178 c w = h11_case178 c" "h11_switch 179 c w = h11_case179 c" "h11_switch 180 c w = h11_case180 c"
  "h11_switch 181 c w = h11_case181 c" "h11_switch 182 c w = h11_case182 c" "h11_switch 183 c w = h11_case183 c"
  "h11_switch 184 c w = h11_case184 c" "h11_switch 185 c w = h11_case185 c" "h11_switch 186 c w = h11_case186 c"
  "h11_switch 187 c w = h11_case187 c" "h11_switch 188 c w = h11_case188 c" "h11_switch 189 c w = h11_case189 c"
  "h11_switch 190 c w = h11_case190 c" "h11_switch 191 c w = h11_case191 c" "h11_switch 192 c w = h11_case192 c"
  "h11_switch 193 c w = h11_case193 c"
  by (simp_all add: h11_switch_def)

lemma widec_plain: "c \<noteq> 94 \<Longrightarrow> c \<noteq> 123 \<Longrightarrow> c \<noteq> 125 \<Longrightarrow> h11_widec relaxed c = c"
  by (auto simp: h11_widec_def)

subsection \<open>Transitions\<close>

definition method_state :: "nat \<Rightarrow> nat" where
  "method_state k = (if k = 1 then 2 else 173 + k)"

lemma h11_state1 [simp]: "h11_switch (Suc 0) c w = h11_case1 c"
  using h11_states(1) by simp

lemma next_method_all:
  assumes "method_char c"
  shows "list_all (\<lambda>k. h11_next r (173 + k) c = Goto [] (174 + k)) [2, 3, 4, 5, 6, 7, 8, 9, 10, 11, 12, 13, 14, 15, 16, 17, 18, 19]"
  using assms
  by (simp add: h11_next_def h11_method_states h11_case175_def h11_case176_def h11_case177_def h11_case178_def h11_case179_def h11_case180_def h11_case181_def h11_case182_def h11_case183_def h11_case184_def h11_case185_def h11_case186_def h11_case187_def h11_case188_def h11_case189_def h11_case190_def h11_case191_def h11_case192_def
    method_char_def Let_def) auto

lemma next_space_all:
  "list_all (\<lambda>k. h11_next r (173 + k) CHR '' '' = Goto [H_request_method] 3) [2, 3, 4, 5, 6, 7, 8, 9, 10, 11, 12, 13, 14, 15, 16, 17, 18, 19, 20]"
  by (simp add: h11_next_def schar_def h11_method_states h11_case175_def h11_case176_def h11_case177_def h11_case178_def h11_case179_def h11_case180_def h11_case181_def h11_case182_def h11_case183_def h11_case184_def h11_case185_def h11_case186_def h11_case187_def h11_case188_def h11_case189_def h11_case190_def h11_case191_def h11_case192_def
    h11_case193_def h11_tr4_def)

lemma next_method:
  assumes "method_char c" "1 \<le> k" "k < 20"
  shows "h11_next r (method_state k) c = Goto [] (method_state (Suc k))"
proof (cases "k = 1")
  case True
  then show ?thesis using assms(1)
    by (auto simp: h11_next_def method_state_def h11_states h11_case2_def method_char_def Let_def)
next
  case False
  then have "k \<in> set [2, 3, 4, 5, 6, 7, 8, 9, 10, 11, 12, 13, 14, 15, 16, 17, 18, 19]" using assms(2,3) by simp presburger
  then have "h11_next r (173 + k) c = Goto [] (174 + k)"
    using next_method_all[OF assms(1), of r] unfolding list_all_iff by blast
  with False assms(2) show ?thesis by (simp add: method_state_def)
qed

lemma next_space:
  assumes "1 \<le> k" "k \<le> 20"
  shows "h11_next r (method_state k) CHR '' '' = Goto [H_request_method] 3"
proof (cases "k = 1")
  case True
  then show ?thesis by (simp add: h11_next_def schar_def method_state_def h11_states h11_case2_def h11_tr4_def)
next
  case False
  then have "k \<in> set [2, 3, 4, 5, 6, 7, 8, 9, 10, 11, 12, 13, 14, 15, 16, 17, 18, 19, 20]" using assms by simp presburger
  then have "h11_next r (173 + k) CHR '' '' = Goto [H_request_method] 3"
    using next_space_all[of r] unfolding list_all_iff by blast
  with False assms show ?thesis by (simp add: method_state_def)
qed

lemma next_method1: "method_char c \<Longrightarrow> h11_next r 1 c = Goto [H_mark] (method_state 1)"
  by (auto simp: h11_next_def method_state_def h11_case1_def h11_tr0_def method_char_def Let_def)

lemma widec_path: "path_char c \<Longrightarrow> h11_widec r (schar c) = schar c"
  by (rule widec_plain) (auto simp: path_char_def Let_def)

lemma widec_simps [simp]: "h11_widec r 32 = 32" "h11_widec r 37 = 37" "h11_widec r 47 = 47" "h11_widec r 63 = 63" "h11_widec r 35 = 35"
  by (simp_all add: h11_widec_def)

text \<open>The target: in a state of text the machine stays, going through two others on a percent sign.\<close>

lemma next_path:
  "path_char c \<Longrightarrow> h11_next r 26 c = Goto [] 26"
  "path_char c \<Longrightarrow> c \<noteq> CHR ''/'' \<Longrightarrow> h11_next r 33 c = Goto [] 26"
proof -
  assume p: "path_char c"
  then show "h11_next r 26 c = Goto [] 26"
    by (frule_tac widec_path[of _ r], elim path_charE) (simp_all add: h11_next_def h11_states h11_case26_def)
  assume "c \<noteq> CHR ''/''"
  then have "schar c \<noteq> 47" using char_eq_schar[of c "CHR ''/''"] by simp
  with p show "h11_next r 33 c = Goto [] 26"
    by (frule_tac widec_path[of _ r], elim path_charE) (simp_all add: h11_next_def h11_states h11_case33_def)
qed

lemma next_path_pct:
  "h11_next r 26 CHR ''%'' = Goto [] 27" "h11_next r 33 CHR ''%'' = Goto [] 27"
  "hex_digit c \<Longrightarrow> h11_next r 27 c = Goto [] 28" "hex_digit c \<Longrightarrow> h11_next r 28 c = Goto [] 26"
  by (simp_all add: h11_next_def h11_states h11_case26_def h11_case33_def h11_case27_def h11_case28_def)
    (auto elim!: hex_digitE)

lemma next_query:
  assumes "query_char c"
  shows "h11_next r 29 c = Goto [H_start_query] 30" "h11_next r 30 c = Goto [] 30"
    "h11_next r 20 c = Goto [H_mark] 21" "h11_next r 21 c = Goto [] 21"
proof -
  have w: "h11_widec r (schar c) = schar c" using assms by (auto simp: query_char_def widec_path)
  have "path_char c \<or> schar c = 63" using assms by (simp add: query_char_def)
  with w show "h11_next r 29 c = Goto [H_start_query] 30" "h11_next r 30 c = Goto [] 30"
    "h11_next r 20 c = Goto [H_mark] 21" "h11_next r 21 c = Goto [] 21"
    by (elim disjE path_charE; simp add: h11_next_def h11_states h11_case29_def h11_case30_def h11_case20_def h11_case21_def
      h11_tr54_def h11_tr44_def)+
qed

lemma next_query_pct:
  "h11_next r 29 CHR ''%'' = Goto [H_start_query] 31" "h11_next r 30 CHR ''%'' = Goto [] 31"
  "h11_next r 20 CHR ''%'' = Goto [H_mark] 22" "h11_next r 21 CHR ''%'' = Goto [] 22"
  "hex_digit c \<Longrightarrow> h11_next r 31 c = Goto [] 32" "hex_digit c \<Longrightarrow> h11_next r 32 c = Goto [] 30"
  "hex_digit c \<Longrightarrow> h11_next r 22 c = Goto [] 23" "hex_digit c \<Longrightarrow> h11_next r 23 c = Goto [] 21"
  by (simp_all add: h11_next_def h11_states h11_case29_def h11_case30_def h11_case31_def h11_case32_def h11_tr56_def
      h11_case20_def h11_case21_def h11_case22_def h11_case23_def h11_tr45_def)
    (auto elim!: hex_digitE)

text \<open>Where a part of the target ends.\<close>

lemma next_target_end:
  "h11_next r 3 CHR ''/'' = Goto [H_mark] 33"
  "h11_next r 33 CHR '' '' = Goto [H_request_path, H_request_uri] 4" "h11_next r 26 CHR '' '' = Goto [H_request_path, H_request_uri] 4"
  "h11_next r 33 CHR ''#'' = Goto [H_request_path, H_request_uri] 20" "h11_next r 26 CHR ''#'' = Goto [H_request_path, H_request_uri] 20"
  "h11_next r 33 CHR ''?'' = Goto [H_request_path] 29" "h11_next r 26 CHR ''?'' = Goto [H_request_path] 29"
  "h11_next r 29 CHR '' '' = Goto [H_start_query, H_query_string, H_request_uri] 4"
  "h11_next r 30 CHR '' '' = Goto [H_query_string, H_request_uri] 4"
  "h11_next r 29 CHR ''#'' = Goto [H_start_query, H_query_string, H_request_uri] 20"
  "h11_next r 30 CHR ''#'' = Goto [H_query_string, H_request_uri] 20"
  "h11_next r 20 CHR '' '' = Goto [H_mark, H_fragment] 4" "h11_next r 21 CHR '' '' = Goto [H_fragment] 4"
  by (simp_all add: h11_next_def h11_states h11_case3_def h11_case33_def h11_case26_def h11_case29_def h11_case30_def
    h11_case20_def h11_case21_def h11_tr10_def h11_tr37_def h11_tr39_def h11_tr42_def h11_tr53_def h11_tr57_def h11_tr55_def
    h11_tr59_def h11_tr43_def h11_tr46_def)

lemma next_version:
  "h11_next r 4 CHR ''H'' = Goto [H_mark] 5" "h11_next r 5 CHR ''T'' = Goto [] 6" "h11_next r 6 CHR ''T'' = Goto [] 7"
  "h11_next r 7 CHR ''P'' = Goto [] 8" "h11_next r 8 CHR ''/'' = Goto [] 9" "h11_next r 9 CHR ''1'' = Goto [] 10"
  "h11_next r 10 CHR ''.'' = Goto [] 11" "h11_next r 11 CHR ''0'' = Goto [] 12" "h11_next r 11 CHR ''1'' = Goto [] 12"
  "h11_next r 12 CHR 0x0D = Goto [H_http_version] 17" "h11_next r 17 CHR 0x0A = Goto [] 13"
  by (simp_all add: h11_next_def schar_def h11_states h11_case4_def h11_case5_def h11_case6_def h11_case7_def h11_case8_def
    h11_case9_def h11_case10_def h11_case11_def h11_case12_def h11_case17_def h11_tr13_def h11_tr22_def)

lemma next_name:
  "token_char c \<Longrightarrow> h11_next r 13 c = Goto [H_start_field] 14" "token_char c \<Longrightarrow> h11_next r 14 c = Goto [] 14"
  "h11_next r 14 CHR '':'' = Goto [H_write_field] 15"
  by (erule token_charE; simp add: h11_next_def h11_states h11_case13_def h11_case14_def h11_tr23_def)+
    (simp add: h11_next_def h11_states h11_case14_def h11_tr27_def)

lemma next_value:
  "blank_char c \<Longrightarrow> h11_next r 15 c = Goto [H_start_value] 15"
  "value_char c \<Longrightarrow> \<not> blank_char c \<Longrightarrow> h11_next r 15 c = Goto [H_start_value] 16"
  "value_char c \<Longrightarrow> h11_next r 16 c = Goto [] 16"
  "h11_next r 15 CHR 0x0D = Goto [H_start_value, H_write_value] 17" "h11_next r 16 CHR 0x0D = Goto [H_write_value] 17"
  by (auto simp: h11_next_def h11_states h11_case15_def h11_case16_def h11_tr29_def h11_tr28_def h11_tr31_def h11_tr34_def
    blank_char_def value_char_def)

lemma next_end:
  "h11_next r 13 CHR 0x0D = Goto [H_start_field] 18" "h11_next r 18 CHR 0x0A = Break [H_done] 348"
  by (simp_all add: h11_next_def h11_states h11_case13_def h11_case18_def h11_tr25_def h11_tr36_def)

subsection \<open>The machine on the parts of a request\<close>

abbreviation h11_mrun :: "bool \<Rightarrow> string \<Rightarrow> nat \<Rightarrow> nat \<Rightarrow> string \<Rightarrow> http_parser \<times> http_event list \<Rightarrow> nat \<times> nat \<times> http_parser \<times> http_event list"
where "h11_mrun r buf \<equiv> machine_run (h11_next r) (h11_do buf)"

text \<open>What a request is made of: \<open>blks\<close> are the blanks before a value.\<close>

definition method_ok :: "string \<Rightarrow> bool" where
  "method_ok m = (m \<noteq> [] \<and> length m \<le> 20 \<and> list_all method_char m)"

definition path_ok :: "string \<Rightarrow> bool" where
  "path_ok path = (\<exists>q. path = CHR ''/'' # q \<and> pct_text path_char q \<and> \<not> is_prefix ''/'' q)"

definition header_ok :: "string \<times> string \<times> string \<Rightarrow> bool" where
  "header_ok h = (case h of (name, blks, val) \<Rightarrow> name \<noteq> [] \<and> list_all token_char name \<and> list_all blank_char blks
     \<and> list_all value_char val \<and> \<not> (val \<noteq> [] \<and> blank_char (hd val)))"

lemma run_method:
  assumes "method_ok m" "p + length m < 2 ^ 64"
  shows "h11_mrun r buf 1 p (m @ CHR '' '' # rest) (ps, evs)
    = h11_mrun r buf 3 (p + length m + 1) rest (ps\<lparr>hp_mark := p\<rparr>, evs @ [On_method (PTR_TO buf p) (length m)])"
proof -
  obtain c m' where m: "m = c # m'" "method_char c" "list_all method_char m'" "length m' < 20"
    using assms(1) by (cases m) (auto simp: method_ok_def)
  have loop: "h11_mrun r buf (method_state k) q (xs @ rest) st = h11_mrun r buf (method_state (k + length xs)) (q + length xs) rest st"
    if "list_all method_char xs" "1 \<le> k" "k + length xs \<le> 20" for xs k q rest st
    using that by (induction xs arbitrary: k q) (simp_all add: next_method)
  have "h11_mrun r buf 1 p (m @ CHR '' '' # rest) (ps, evs)
      = h11_mrun r buf (method_state (1 + length m')) (p + 1 + length m') (CHR '' '' # rest) (ps\<lparr>hp_mark := p\<rparr>, evs)"
    using m loop[of m' 1 "p + 1" "CHR '' '' # rest"] by (simp add: next_method1[simplified] h11_do_def)
  also have "\<dots> = h11_mrun r buf 3 (p + length m + 1) rest (ps\<lparr>hp_mark := p\<rparr>, evs @ [On_method (PTR_TO buf p) (length m)])"
    using m assms(2) LEN_add[of p "length m"] by (simp add: next_space h11_do_def)
  finally show ?thesis .
qed

lemma run_path:
  assumes "path_ok path"
  obtains s where "s = 33 \<or> s = 26" "\<And>rest. h11_mrun r buf 3 p (path @ rest) (ps, evs) = h11_mrun r buf s (p + length path) rest (ps\<lparr>hp_mark := p\<rparr>, evs)"
proof -
  obtain q where q: "path = CHR ''/'' # q" "pct_text path_char q" "\<not> is_prefix ''/'' q"
    using assms by (auto simp: path_ok_def)
  show ?thesis
  proof (cases "q = []")
    case True
    with q that[of 33] show ?thesis by (simp add: next_target_end h11_do_def)
  next
    case False
    then have "hd q = CHR ''%'' \<or> hd q \<noteq> CHR ''/''" using q(3) by (cases q) auto
    have "h11_mrun r buf 33 (p + 1) (q @ rest) st = h11_mrun r buf 26 (p + 1 + length q) rest st" for rest st
      using run_pct_text0[where ok = path_char and ?ok0.0 = "\<lambda>c. c \<noteq> CHR ''/''" and sw = "h11_next r" and act = "h11_do buf" and ?s0.0 = 33
          and s = 26 and as = "[]" and ?s1.0 = 27 and ?s2.0 = 28, OF q(2) False \<open>hd q = CHR ''%'' \<or> hd q \<noteq> CHR ''/''\<close>]
      by (simp add: next_path next_path_pct)
    then show ?thesis using q(1) by (intro that[of 26]) (simp_all add: next_target_end h11_do_def)
  qed
qed

lemma run_query:
  assumes "pct_text query_char q"
  obtains s as where "s = 29 \<and> q = [] \<and> as = [H_start_query] \<or> s = 30 \<and> q \<noteq> [] \<and> as = []"
    "\<And>rest. h11_mrun r buf 29 p (q @ rest) (ps, evs)
       = h11_mrun r buf s (p + length q) rest (if q = [] then ps else ps\<lparr>hp_query_start := p\<rparr>, evs)"
proof (cases "q = []")
  case True
  with that[of 29 "[H_start_query]"] show ?thesis by simp
next
  case False
  have "hd q = CHR ''%'' \<or> True" by simp
  from run_pct_text0[where ok = query_char and ?ok0.0 = "\<lambda>_. True" and sw = "h11_next r" and act = "h11_do buf" and ?s0.0 = 29
      and s = 30 and as = "[H_start_query]" and ?s1.0 = 31 and ?s2.0 = 32, OF assms False this]
  show ?thesis using False that[of 30 "[]"] by (simp add: next_query next_query_pct h11_do_def)
qed

text \<open>A query ends the part that the callback for the target reports.\<close>

lemma run_query_end:
  assumes "pct_text query_char q" "p + length q < 2 ^ 64" "c = CHR '' '' \<and> s = 4 \<or> c = CHR ''#'' \<and> s = 20"
  shows "h11_mrun r buf 29 p (q @ c # rest) (ps, evs)
    = h11_mrun r buf s (p + length q + 1) rest (ps\<lparr>hp_query_start := p\<rparr>,
        evs @ [On_query (PTR_TO buf p) (length q), On_uri (PTR_TO buf (hp_mark ps)) (LEN (hp_mark ps) (p + length q))])"
proof -
  obtain t as where t: "t = 29 \<and> q = [] \<and> as = [H_start_query] \<or> t = 30 \<and> q \<noteq> [] \<and> as = []"
    "h11_mrun r buf 29 p (q @ c # rest) (ps, evs)
       = h11_mrun r buf t (p + length q) (c # rest) (if q = [] then ps else ps\<lparr>hp_query_start := p\<rparr>, evs)"
    using run_query[OF assms(1)] by metis
  have "h11_next r t c = Goto (as @ [H_query_string, H_request_uri]) s"
    using t(1) assms(3) by (auto simp: next_target_end)
  with t LEN_add[OF assms(2)] LEN_add[of p 0] assms(2) show ?thesis by (auto simp: h11_do_def)
qed

lemma run_fragment:
  assumes "pct_text query_char f" "p + length f < 2 ^ 64"
  shows "h11_mrun r buf 20 p (f @ CHR '' '' # rest) (ps, evs)
    = h11_mrun r buf 4 (p + length f + 1) rest (ps\<lparr>hp_mark := p\<rparr>, evs @ [On_fragment (PTR_TO buf p) (length f)])"
proof (cases "f = []")
  case True
  then show ?thesis using assms(2) LEN_add[of p 0] by (simp add: next_target_end h11_do_def)
next
  case False
  have "hd f = CHR ''%'' \<or> True" by simp
  from run_pct_text0[where ok = query_char and ?ok0.0 = "\<lambda>_. True" and sw = "h11_next r" and act = "h11_do buf" and ?s0.0 = 20
      and s = 21 and as = "[H_mark]" and ?s1.0 = 22 and ?s2.0 = 23, OF assms(1) False this]
  show ?thesis using False LEN_add[OF assms(2)] by (simp add: next_query next_query_pct next_target_end h11_do_def)
qed

lemma run_version:
  assumes "d = CHR ''0'' \<or> d = CHR ''1''" "p + 8 < 2 ^ 64"
  shows "h11_mrun r buf 4 p (''HTTP/1.'' @ d # crlf @ rest) (ps, evs)
    = h11_mrun r buf 13 (p + 10) rest (ps\<lparr>hp_mark := p\<rparr>, evs @ [On_version (PTR_TO buf p) 8])"
proof -
  have l: "LEN p (Suc (Suc (Suc (Suc (Suc (Suc (Suc (Suc p)))))))) = 8"
    using LEN_add[OF assms(2)] by (simp add: eval_nat_numeral)
  have e: "p + 10 = Suc (Suc (Suc (Suc (Suc (Suc (Suc (Suc (Suc (Suc p)))))))))" by simp
  show ?thesis unfolding e using assms(1) l by (auto simp: next_version crlf_def h11_do_def)
qed

lemma run_header:
  assumes h: "header_ok (name, blks, val)" and len: "p + length name + 1 + length blks + length val < 2 ^ 64"
  shows "h11_mrun r buf 13 p (name @ '':'' @ blks @ val @ crlf @ rest) (ps, evs)
    = (let v = p + length name + 1 + length blks in
       h11_mrun r buf 13 (v + length val + 2) rest
         (ps\<lparr>hp_field_start := p, hp_field_len := length name, hp_mark := v\<rparr>,
          evs @ [On_field (PTR_TO buf p) (length name) (PTR_TO buf v) (length val)]))"
proof -
  obtain c n where name: "name = c # n" "token_char c" "list_all token_char n" using h by (cases name) (auto simp: header_ok_def)
  let ?v = "p + length name + 1 + length blks"
  have len': "p + length name < 2 ^ 64" "?v + length val < 2 ^ 64" "?v < 2 ^ 64" using len by simp_all
  have tok: "list_all (\<lambda>c. h11_next r 14 c = Goto [] 14) n"
    using name(3) by (auto simp: list_all_iff next_name)
  note loop = machine_run_loop[where sw = "h11_next r" and act = "h11_do buf"]
  have "h11_mrun r buf 13 p (name @ '':'' @ blks @ val @ crlf @ rest) (ps, evs)
      = h11_mrun r buf 15 (p + length name + 1) (blks @ val @ crlf @ rest)
          (ps\<lparr>hp_field_start := p, hp_field_len := length name\<rparr>, evs)"
    using name(1,2) loop[of 14 n, OF tok] LEN_add[OF len'(1)] by (simp add: next_name h11_do_def)
  also have "\<dots> = h11_mrun r buf 15 ?v (val @ crlf @ rest)
      (if blks = [] then ps\<lparr>hp_field_start := p, hp_field_len := length name\<rparr>
       else ps\<lparr>hp_field_start := p, hp_field_len := length name, hp_mark := ?v - 1\<rparr>, evs)"
  proof -
    have b: "h11_mrun r buf 15 q (bs @ xs) (ps, evs)
        = h11_mrun r buf 15 (q + length bs) xs (if bs = [] then ps else ps\<lparr>hp_mark := q + length bs - 1\<rparr>, evs)"
      if "list_all blank_char bs" for bs q xs ps evs
      using that by (induction bs arbitrary: q ps) (simp_all add: next_value h11_do_def)
    have "list_all blank_char blks" using h by (simp add: header_ok_def)
    from b[OF this] show ?thesis by simp
  qed
  also have "\<dots> = h11_mrun r buf 13 (?v + length val + 2) rest
      (ps\<lparr>hp_field_start := p, hp_field_len := length name, hp_mark := ?v\<rparr>,
       evs @ [On_field (PTR_TO buf p) (length name) (PTR_TO buf ?v) (length val)])"
  proof (cases val)
    case Nil
    then show ?thesis using LEN_add[of ?v 0] len'(3) by (simp add: next_value next_version crlf_def h11_do_def)
  next
    case (Cons c w)
    then have w: "value_char c" "\<not> blank_char c" "list_all (\<lambda>c. h11_next r 16 c = Goto [] 16) w"
      using h by (auto simp: header_ok_def list_all_iff next_value)
    show ?thesis using Cons w(1,2) loop[of 16 w, OF w(3)] LEN_add[OF len'(2)]
      by (simp add: next_value next_version crlf_def h11_do_def)
  qed
  finally show ?thesis by (simp add: Let_def)
qed

lemma run_end:
  assumes "\<not> hp_xml_sent ps" "\<not> hp_json_sent ps"
  shows "h11_mrun r buf 13 p (crlf @ rest) (ps, evs)
    = (348, p + 2, ps\<lparr>hp_field_start := p, hp_body_start := p + 2\<rparr>,
       evs @ [On_header_done (PTR_TO buf (p + 2)) (length buf - p - 2)])"
  using assms by (simp add: next_end crlf_def h11_do_def h11_done_def)

subsection \<open>Requests\<close>

definition opt_part :: "char \<Rightarrow> string option \<Rightarrow> string" where
  "opt_part c x = (case x of None \<Rightarrow> [] | Some s \<Rightarrow> c # s)"

definition opt_ok :: "string option \<Rightarrow> bool" where
  "opt_ok x = (case x of None \<Rightarrow> True | Some s \<Rightarrow> pct_text query_char s)"

definition header_text :: "string \<times> string \<times> string \<Rightarrow> string" where
  "header_text h = (case h of (name, blks, val) \<Rightarrow> name @ '':'' @ blks @ val @ crlf)"

definition request_text ::
  "string \<Rightarrow> string \<Rightarrow> string option \<Rightarrow> string option \<Rightarrow> char \<Rightarrow> (string \<times> string \<times> string) list \<Rightarrow> string"
where
  "request_text m path query fragment d hs =
     m @ CHR '' '' # path @ opt_part CHR ''?'' query @ opt_part CHR ''#'' fragment @ CHR '' '' # ''HTTP/1.'' @ d # crlf
     @ concat (map header_text hs) @ crlf"

text \<open>The callbacks for the target, which begins at \<open>a\<close>.\<close>

definition target_events :: "string \<Rightarrow> nat \<Rightarrow> string \<Rightarrow> string option \<Rightarrow> string option \<Rightarrow> http_event list" where
  "target_events buf a path query fragment =
     (let e = a + length path in
      On_path (PTR_TO buf a) (length path)
      # (case query of None \<Rightarrow> [On_uri (PTR_TO buf a) (length path)]
         | Some q \<Rightarrow> [On_query (PTR_TO buf (e + 1)) (length q), On_uri (PTR_TO buf a) (length path + 1 + length q)])
      @ (case fragment of None \<Rightarrow> []
         | Some f \<Rightarrow> [On_fragment (PTR_TO buf (e + length (opt_part CHR ''?'' query) + 1)) (length f)]))"

lemma run_target:
  assumes "path_ok path" "opt_ok query" "opt_ok fragment"
    and "a + length path + length (opt_part CHR ''?'' query) + length (opt_part CHR ''#'' fragment) < 2 ^ 64"
  shows "\<exists>ps'. h11_mrun r buf 3 a (path @ opt_part CHR ''?'' query @ opt_part CHR ''#'' fragment @ CHR '' '' # rest) (ps, evs)
      = h11_mrun r buf 4 (a + length path + length (opt_part CHR ''?'' query) + length (opt_part CHR ''#'' fragment) + 1) rest
          (ps', evs @ target_events buf a path query fragment)
    \<and> hp_xml_sent ps' = hp_xml_sent ps \<and> hp_json_sent ps' = hp_json_sent ps"
proof -
  let ?e = "a + length path" and ?M = "ps\<lparr>hp_mark := a\<rparr>"
  obtain s where s: "s = 33 \<or> s = 26" and path: "\<And>rest. h11_mrun r buf 3 a (path @ rest) (ps, evs) = h11_mrun r buf s ?e rest (?M, evs)"
    by (rule run_path[OF assms(1), where r = r and buf = buf and p = a and ps = ps and evs = evs]) blast
  have LP: "LEN a ?e = length path" using LEN_add[of a "length path"] assms(4) by simp
  have frag: "h11_mrun r buf 20 p (f @ CHR '' '' # rest) (ps, evs)
      = h11_mrun r buf 4 (p + length f + 1) rest (ps\<lparr>hp_mark := p\<rparr>, evs @ [On_fragment (PTR_TO buf p) (length f)])"
    if "fragment = Some f" "p + length f < 2 ^ 64" for f p ps evs
    using run_fragment[OF _ that(2)] that(1) assms(3) by (simp add: opt_ok_def)
  show ?thesis
  proof (cases query)
    case None
    show ?thesis
    proof (cases fragment)
      case N: None
      show ?thesis using s LP by (intro exI[of _ ?M]) (auto simp: None N path opt_part_def target_events_def Let_def next_target_end h11_do_def)
    next
      case (Some f)
      have "?e + 1 + length f < 2 ^ 64" using assms(4) Some by (simp add: opt_part_def None)
      from frag[OF Some this] show ?thesis using s LP
        by (intro exI[of _ "?M\<lparr>hp_mark := ?e + 1\<rparr>"]) (auto simp: None Some path opt_part_def target_events_def Let_def next_target_end h11_do_def)
    qed
  next
    case q: (Some q)
    have qok: "pct_text query_char q" using assms(2) q by (simp add: opt_ok_def)
    have ql: "Suc ?e + length q < 2 ^ 64" using assms(4) q by (simp add: opt_part_def)
    have LU: "LEN a (Suc ?e + length q) = length path + 1 + length q"
      using LEN_add[of a "length path + 1 + length q"] ql by (simp add: add.assoc)
    have start: "h11_mrun r buf 3 a (path @ CHR ''?'' # xs) (ps, evs) = h11_mrun r buf 29 (Suc ?e) xs (?M, evs @ [On_path (PTR_TO buf a) (length path)])" for xs
      using s LP unfolding path by (auto simp: next_target_end h11_do_def)
    show ?thesis
    proof (cases fragment)
      case None
      show ?thesis using run_query_end[OF qok ql, of "CHR '' ''" 4 r buf rest ?M] LU
        by (intro exI[of _ "?M\<lparr>hp_query_start := Suc ?e\<rparr>"]) (simp add: None q opt_part_def target_events_def Let_def start)
    next
      case (Some f)
      have "Suc ?e + length q + 1 + length f < 2 ^ 64" using assms(4) Some by (simp add: opt_part_def q)
      from frag[OF Some this] show ?thesis using run_query_end[OF qok ql, of "CHR ''#''" 20 r buf "f @ CHR '' '' # rest" ?M] LU
        by (intro exI[of _ "ps\<lparr>hp_query_start := Suc ?e, hp_mark := Suc ?e + length q + 1\<rparr>"])
          (simp add: Some q opt_part_def target_events_def Let_def start)
    qed
  qed
qed

fun header_events :: "string \<Rightarrow> nat \<Rightarrow> (string \<times> string \<times> string) list \<Rightarrow> http_event list" where
  "header_events buf p [] = []"
| "header_events buf p ((n, b, v) # hs) =
     On_field (PTR_TO buf p) (length n) (PTR_TO buf (p + length n + 1 + length b)) (length v)
     # header_events buf (p + length (header_text (n, b, v))) hs"

lemma run_headers:
  assumes "list_all header_ok hs" "p + length (concat (map header_text hs)) < 2 ^ 64"
  shows "\<exists>ps'. h11_mrun r buf 13 p (concat (map header_text hs) @ rest) (ps, evs)
      = h11_mrun r buf 13 (p + length (concat (map header_text hs))) rest (ps', evs @ header_events buf p hs)
    \<and> hp_xml_sent ps' = hp_xml_sent ps \<and> hp_json_sent ps' = hp_json_sent ps"
  using assms
proof (induction hs arbitrary: p ps evs)
  case (Cons h hs)
  obtain n b v where h: "h = (n, b, v)" by (metis prod_cases3)
  let ?p = "p + length (header_text h)" and ?ps = "ps\<lparr>hp_field_start := p, hp_field_len := length n, hp_mark := p + length n + 1 + length b\<rparr>"
  let ?evs = "evs @ [On_field (PTR_TO buf p) (length n) (PTR_TO buf (p + length n + 1 + length b)) (length v)]"
  have l: "p + length n + 1 + length b + length v < 2 ^ 64" using Cons.prems(2) by (simp add: h header_text_def crlf_def)
  have "h11_mrun r buf 13 p (header_text h @ xs) (ps, evs) = h11_mrun r buf 13 ?p xs (?ps, ?evs)" for xs
    using run_header[OF _ l, of r buf xs ps evs] Cons.prems(1) by (simp add: h header_text_def Let_def crlf_def add.assoc)
  with Cons.IH[of ?p ?ps ?evs] Cons.prems show ?case by (auto simp: h add.assoc)
qed auto

text \<open>The machine on a whole request, with something behind it.\<close>

definition request_events ::
  "string \<Rightarrow> string \<Rightarrow> string \<Rightarrow> string option \<Rightarrow> string option \<Rightarrow> (string \<times> string \<times> string) list \<Rightarrow> http_event list"
where
  "request_events buf m path query fragment hs =
     (let a = length m + 1;
          v = a + length path + length (opt_part CHR ''?'' query) + length (opt_part CHR ''#'' fragment) + 1;
          e = v + 10 + length (concat (map header_text hs))
      in On_method (PTR_TO buf 0) (length m) # target_events buf a path query fragment @ On_version (PTR_TO buf v) 8
         # header_events buf (v + 10) hs @ [On_header_done (PTR_TO buf (e + 2)) (length buf - e - 2)])"

lemma run_request:
  assumes m: "method_ok m" and t: "path_ok path" "opt_ok query" "opt_ok fragment" and d: "d = CHR ''0'' \<or> d = CHR ''1''"
    and hs: "list_all header_ok hs" and len: "length (request_text m path query fragment d hs) < 2 ^ 64"
    and ps: "\<not> hp_xml_sent ps" "\<not> hp_json_sent ps"
  shows "\<exists>ps'. h11_mrun r buf 1 0 (request_text m path query fragment d hs @ body) (ps, [])
     = (348, length (request_text m path query fragment d hs), ps', request_events buf m path query fragment hs)"
proof -
  let ?a = "length m + 1"
  let ?v = "?a + length path + length (opt_part CHR ''?'' query) + length (opt_part CHR ''#'' fragment) + 1"
  let ?h = "concat (map header_text hs)"
  let ?e = "?v + 10 + length ?h"
  have L: "length (request_text m path query fragment d hs) = ?e + 2" by (simp add: request_text_def crlf_def)
  have l: "?e + 2 < 2 ^ 64" using len L by simp
  let ?e1 = "[On_method (PTR_TO buf 0) (length m)]"
  have "h11_mrun r buf 1 0 (request_text m path query fragment d hs @ body) (ps, [])
      = h11_mrun r buf 3 ?a (path @ opt_part CHR ''?'' query @ opt_part CHR ''#'' fragment @ CHR '' '' # ''HTTP/1.'' @ d # crlf
          @ ?h @ crlf @ body) (ps\<lparr>hp_mark := 0\<rparr>, ?e1)"
    using run_method[OF m, of 0 r buf _ ps "[]"] l by (simp add: request_text_def)
  moreover obtain ps1 where "h11_mrun r buf 3 ?a (path @ opt_part CHR ''?'' query @ opt_part CHR ''#'' fragment @ CHR '' ''
          # ''HTTP/1.'' @ d # crlf @ ?h @ crlf @ body) (ps\<lparr>hp_mark := 0\<rparr>, ?e1)
      = h11_mrun r buf 4 ?v (''HTTP/1.'' @ d # crlf @ ?h @ crlf @ body) (ps1, ?e1 @ target_events buf ?a path query fragment)"
    "\<not> hp_xml_sent ps1" "\<not> hp_json_sent ps1"
    using run_target[OF t, of ?a r buf "''HTTP/1.'' @ d # crlf @ ?h @ crlf @ body" "ps\<lparr>hp_mark := 0\<rparr>" ?e1] l ps by auto
  moreover have "h11_mrun r buf 4 ?v (''HTTP/1.'' @ d # crlf @ ?h @ crlf @ body) (ps1, evs)
      = h11_mrun r buf 13 (?v + 10) (?h @ crlf @ body) (ps1\<lparr>hp_mark := ?v\<rparr>, evs @ [On_version (PTR_TO buf ?v) 8])" for evs
    using l by (intro run_version[OF d]) simp
  moreover obtain ps2 where "h11_mrun r buf 13 (?v + 10) (?h @ crlf @ body) (ps1\<lparr>hp_mark := ?v\<rparr>,
        (?e1 @ target_events buf ?a path query fragment) @ [On_version (PTR_TO buf ?v) 8])
      = h11_mrun r buf 13 ?e (crlf @ body) (ps2, ((?e1 @ target_events buf ?a path query fragment) @ [On_version (PTR_TO buf ?v) 8])
          @ header_events buf (?v + 10) hs)"
    "\<not> hp_xml_sent ps2" "\<not> hp_json_sent ps2"
    using run_headers[OF hs, of "?v + 10" r buf "crlf @ body" "ps1\<lparr>hp_mark := ?v\<rparr>"
        "(?e1 @ target_events buf ?a path query fragment) @ [On_version (PTR_TO buf ?v) 8]"] l \<open>\<not> hp_xml_sent ps1\<close> \<open>\<not> hp_json_sent ps1\<close>
    by auto
  ultimately have "h11_mrun r buf 1 0 (request_text m path query fragment d hs @ body) (ps, [])
      = h11_mrun r buf 13 ?e (crlf @ body) (ps2, ((?e1 @ target_events buf ?a path query fragment) @ [On_version (PTR_TO buf ?v) 8])
          @ header_events buf (?v + 10) hs)" by presburger
  with run_end[OF \<open>\<not> hp_xml_sent ps2\<close> \<open>\<not> hp_json_sent ps2\<close>] show ?thesis
    unfolding L by (simp add: request_events_def Let_def)
qed

subsection \<open>What the callbacks make of it\<close>

definition parsed_header :: "http_rebalance \<Rightarrow> string \<times> string \<times> string \<Rightarrow> http_request \<Rightarrow> http_request" where
  "parsed_header reb h req = (case h of (name, blks, val) \<Rightarrow> rq_setHeader reb name val
     (if same_ci name ''connection'' \<and> same_ci val ''keep-alive'' then req\<lparr>rq_close := False\<rparr> else req))"

definition parsed_request ::
  "http_rebalance \<Rightarrow> http_method \<Rightarrow> string \<Rightarrow> string option \<Rightarrow> string option \<Rightarrow> char \<Rightarrow> (string \<times> string \<times> string) list \<Rightarrow> http_request"
where
  "parsed_request reb meth path query fragment d hs = fold (parsed_header reb) hs ((HttpRequest 0x11 True)
     \<lparr>rq_method := meth, rq_version := (if d = CHR ''1'' then 0x11 else 0x10), rq_path := path,
      rq_query := (case query of None \<Rightarrow> [] | Some q \<Rightarrow> q), rq_fragment := (case fragment of None \<Rightarrow> [] | Some f \<Rightarrow> f)\<rparr>)"

lemma PTR_TO_append [simp]: "PTR_TO (xs @ ys) (length xs) = ys"
  by (simp add: PTR_TO_def)

lemma method_text_ok: "meth \<noteq> MSEARCH \<Longrightarrow> meth \<noteq> INVALID_METHOD \<Longrightarrow> method_ok (HttpMethodToString meth)"
  by (cases meth) (simp_all add: method_ok_def method_char_def schar_def HttpMethodToString_def method_num_def
    s_method_string_def http_method_map_def)

lemma on_method:
  "meth \<noteq> INVALID_METHOD \<Longrightarrow> on_request_event reb (On_method (HttpMethodToString meth @ xs) n) p = rp_upd (\<lambda>r. r\<lparr>rq_method := meth\<rparr>) p"
  using methods_roundtrip[of meth xs] by (simp add: on_request_event_def on_request_method_def)

lemma on_version:
  "d = CHR ''0'' \<or> d = CHR ''1'' \<Longrightarrow> on_request_event reb (On_version (''HTTP/1.'' @ d # xs) 8) p
    = rp_upd (\<lambda>r. r\<lparr>rq_version := (if d = CHR ''1'' then 0x11 else 0x10)\<rparr>) p"
  by (auto simp: on_request_event_def on_request_version_def strncmp_eq_def c_str_def rp_upd_def)

lemma on_target:
  assumes "buf = pre @ path @ opt_part CHR ''?'' query @ opt_part CHR ''#'' fragment @ rest"
  shows "fold (on_request_event reb) (target_events buf (length pre) path query fragment) p
    = rp_upd (\<lambda>r. r\<lparr>rq_path := path, rq_query := (case query of None \<Rightarrow> rq_query r | Some q \<Rightarrow> q),
        rq_fragment := (case fragment of None \<Rightarrow> rq_fragment r | Some f \<Rightarrow> f)\<rparr>) p"
proof -
  have a: "PTR_TO buf (length pre) = path @ opt_part CHR ''?'' query @ opt_part CHR ''#'' fragment @ rest" using assms by simp
  have q: "PTR_TO buf (Suc (length pre + length path)) = q @ opt_part CHR ''#'' fragment @ rest" if "query = Some q" for q
    using PTR_TO_append[of "pre @ path @ ''?''"] that assms by (simp add: opt_part_def)
  have f: "PTR_TO buf (Suc (length pre + length path + length (opt_part CHR ''?'' query))) = f @ rest" if "fragment = Some f" for f
    using PTR_TO_append[of "pre @ path @ opt_part CHR ''?'' query @ ''#''"] that assms by (simp add: opt_part_def add.assoc)
  show ?thesis
    by (auto simp: target_events_def Let_def a q f on_request_event_def on_request_path_def on_request_query_def
      on_request_fragment_def on_request_uri_def rp_upd_def split: option.splits)
qed

lemma on_headers:
  assumes "list_all header_ok hs" "buf = pre @ concat (map header_text hs) @ rest"
  shows "fold (on_request_event reb) (header_events buf (length pre) hs) p = rp_upd (fold (parsed_header reb) hs) p"
  using assms
proof (induction hs arbitrary: pre p)
  case Nil
  then show ?case by (simp add: rp_upd_def)
next
  case (Cons h hs)
  obtain n b v where h: "h = (n, b, v)" by (metis prod_cases3)
  let ?r = "concat (map header_text hs) @ rest"
  have "header_text h = n @ '':'' @ b @ v @ crlf" by (simp add: h header_text_def)
  then have buf: "buf = pre @ n @ '':'' @ b @ v @ crlf @ ?r" using Cons.prems(2) by simp
  have n: "PTR_TO buf (length pre) = n @ '':'' @ b @ v @ crlf @ ?r" unfolding buf by simp
  have v: "PTR_TO buf (length pre + length n + 1 + length b) = v @ crlf @ ?r"
    using PTR_TO_append[of "pre @ n @ '':'' @ b" "v @ crlf @ ?r"] unfolding buf by (simp add: add.assoc)
  have "n \<noteq> []" using Cons.prems(1) by (simp add: h header_ok_def)
  then have e: "on_request_event reb (On_field (PTR_TO buf (length pre)) (length n) (PTR_TO buf (length pre + length n + 1 + length b)) (length v)) p
      = rp_upd (parsed_header reb h) p"
    unfolding n v by (simp add: h on_request_event_def on_request_http_field_def parsed_header_def rp_upd_def rq_setHeader_def)
  have "buf = (pre @ header_text h) @ ?r" using Cons.prems(2) by simp
  from Cons.IH[OF _ this] Cons.prems(1) e show ?case by (simp add: h rp_upd_def)
qed

lemma on_request_events:
  fixes p :: "http_parser request_parser"
  assumes "meth \<noteq> INVALID_METHOD" "d = CHR ''0'' \<or> d = CHR ''1''" "list_all header_ok hs"
    and buf: "buf = request_text (HttpMethodToString meth) path query fragment d hs @ body"
  shows "fold (on_request_event reb) (request_events buf (HttpMethodToString meth) path query fragment hs) p
    = rp_upd (\<lambda>r. fold (parsed_header reb) hs (r\<lparr>rq_method := meth, rq_path := path,
        rq_query := (case query of None \<Rightarrow> rq_query r | Some q \<Rightarrow> q),
        rq_fragment := (case fragment of None \<Rightarrow> rq_fragment r | Some f \<Rightarrow> f), rq_version := (if d = CHR ''1'' then 0x11 else 0x10)\<rparr>)) p"
proof -
  let ?m = "HttpMethodToString meth"
  let ?T = "path @ opt_part CHR ''?'' query @ opt_part CHR ''#'' fragment"
  let ?H = "concat (map header_text hs)"
  let ?p1 = "?m @ '' ''" and ?p2 = "?m @ '' '' @ ?T @ '' ''"
  let ?p3 = "?p2 @ ''HTTP/1.'' @ d # crlf"
  have b0: "buf = ?m @ '' '' @ ?T @ '' '' @ ''HTTP/1.'' @ d # crlf @ ?H @ crlf @ body" by (simp add: buf request_text_def)
  have b1: "buf = ?p1 @ path @ opt_part CHR ''?'' query @ opt_part CHR ''#'' fragment @ '' '' @ ''HTTP/1.'' @ d # crlf @ ?H @ crlf @ body"
    unfolding b0 by simp
  have b2: "buf = ?p2 @ ''HTTP/1.'' @ d # crlf @ ?H @ crlf @ body" unfolding b0 by simp
  have b3: "buf = ?p3 @ ?H @ crlf @ body" unfolding b0 by simp
  have l: "length ?m + 1 = length ?p1"
    "length ?p1 + length path + length (opt_part CHR ''?'' query) + length (opt_part CHR ''#'' fragment) + 1 = length ?p2"
    "length ?p2 + 10 = length ?p3" by (simp_all add: crlf_def)
  have "PTR_TO buf 0 = ?m @ '' '' @ ?T @ '' '' @ ''HTTP/1.'' @ d # crlf @ ?H @ crlf @ body" unfolding b0 by (simp add: PTR_TO_def)
  then have m: "on_request_event reb (On_method (PTR_TO buf 0) n) p = rp_upd (\<lambda>r. r\<lparr>rq_method := meth\<rparr>) p"
    for n and p :: "http_parser request_parser" by (simp only: on_method[OF assms(1)])
  have "PTR_TO buf (length ?p2) = ''HTTP/1.'' @ d # crlf @ ?H @ crlf @ body" unfolding b2 by (rule PTR_TO_append)
  then have v: "on_request_event reb (On_version (PTR_TO buf (length ?p2)) 8) p
      = rp_upd (\<lambda>r. r\<lparr>rq_version := (if d = CHR ''1'' then 0x11 else 0x10)\<rparr>) p"
    for p :: "http_parser request_parser" by (simp only: on_version[OF assms(2)])
  have done': "on_request_event reb (On_header_done at n) p = p" for at n and p :: "http_parser request_parser"
    by (simp add: on_request_event_def on_request_header_done_def)
  show ?thesis
    unfolding request_events_def Let_def l
    by (simp only: fold_append fold_simps o_apply m v done' on_target[OF b1] on_headers[OF assms(3) b3])
      (simp add: rp_upd_def split: option.splits)
qed

lemma parse_request:
  assumes "meth \<noteq> MSEARCH" "meth \<noteq> INVALID_METHOD" "path_ok path" "opt_ok query" "opt_ok fragment" "d = CHR ''0'' \<or> d = CHR ''1''"
    and "list_all header_ok hs" "length (request_text (HttpMethodToString meth) path query fragment d hs @ body) < 2 ^ 31"
  shows "let e = http11_engine mem;
       (rest, p) = rp_execute e reb (request_text (HttpMethodToString meth) path query fragment d hs @ body) (HttpRequestParser e)
     in rest = body \<and> rp_data p = parsed_request reb meth path query fragment d hs \<and> rp_isFinished e p \<and> \<not> rp_hasError e p"
proof -
  let ?m = "HttpMethodToString meth" and ?i = "http_parser_init mem"
  let ?t = "request_text ?m path query fragment d hs"
  let ?buf = "?t @ body"
  have "length ?t < 2 ^ 64" using assms(8) by simp
  from run_request[OF method_text_ok[OF assms(1,2)] assms(3-7) this, of ?i "hp_uri_relaxed ?i" ?buf body]
  obtain ps where "h11_mrun (hp_uri_relaxed ?i) ?buf 1 0 ?buf (?i, []) = (348, length ?t, ps, request_events ?buf ?m path query fragment hs)"
    by (auto simp: http_parser_init_def)
  then have "h11_run ?buf 0 ?i = (348, length ?t, ps, request_events ?buf ?m path query fragment hs)"
    by (simp add: h11_run_def http_parser_init_def http_parser_start_def)
  moreover have "?buf \<noteq> []" by (simp add: request_text_def)
  ultimately have ex: "http_parser_execute ?i ?buf 0
      = Inr (request_events ?buf ?m path query fragment hs, length ?t, ps\<lparr>hp_cs := 348, hp_nread := length ?t\<rparr>)"
    using execute_fresh(1)[of ?buf mem] assms(8) by blast
  note evs = on_request_events[OF assms(2,6,7) refl[of ?buf]]
  let ?q = "ps\<lparr>hp_cs := 348, hp_nread := length ?t\<rparr>"
  let ?e = "http11_engine mem"
  have e: "e_execute ?e ?i ?buf = (request_events ?buf ?m path query fragment hs, length ?t, ?q)" "e_init ?e = ?i"
    "e_finish ?e = http_parser_finish" "e_has_error ?e = http_parser_has_error"
    by (simp_all only: http11_engine_def ex sum.case engine.simps)
  let ?p = "\<lparr>rp_parser = ?q, rp_data = parsed_request reb meth path query fragment d hs, rp_error = 0\<rparr>"
  have "rp_execute ?e reb ?buf (HttpRequestParser ?e) = (body, ?p)"
    unfolding rp_execute_def HttpRequestParser_def request_parser.simps e Let_def prod.case evs
    by (simp add: rp_upd_def parsed_request_def HttpRequest_def cong: option.case_cong)
  moreover have "http_parser_finish ?q \<noteq> 0" "\<not> http_parser_has_error ?q"
    by (simp_all add: http_parser_finish_def http_parser_has_error_def http_parser_is_finished_def
      http_parser_error_def http_parser_first_final_def)
  ultimately show ?thesis
    by (simp only: Let_def prod.case rp_isFinished_def rp_hasError_def e request_parser.simps) simp
qed

text \<open>C11: a well-formed request in one buffer, with any bytes behind it, is parsed by the object with
  the machine into exactly the method, path, query, fragment and version of its text and its headers in
  order; the parser is finished without error, and what is left of the buffer is what followed the request.\<close>

theorem request_parsed:
  assumes "meth \<noteq> MSEARCH" "meth \<noteq> INVALID_METHOD" "path_ok path" "opt_ok query" "opt_ok fragment" "d = CHR ''0'' \<or> d = CHR ''1''"
    and "list_all header_ok hs" "length (request_text (HttpMethodToString meth) path query fragment d hs @ body) < 2 ^ 31"
  shows "let e = http11_engine mem;
       (rest, p) = rp_execute e reb (request_text (HttpMethodToString meth) path query fragment d hs @ body) (HttpRequestParser e)
     in rest = body \<and> rp_data p = parsed_request reb meth path query fragment d hs \<and> rp_isFinished e p \<and> \<not> rp_hasError e p"
  by (rule parse_request[OF assms])

theorem request_parsed_witness:
  "let e = http11_engine demo_memory;
       (rest, p) = rp_execute e demo_reb
         (request_text ''GET'' ''/a'' (Some ''b=1'') (Some ''f'') CHR ''1'' [(''Host'', '' '', ''x'')] @ ''hello'') (HttpRequestParser e)
   in rest = ''hello'' \<and> rp_data p = parsed_request demo_reb GET ''/a'' (Some ''b=1'') (Some ''f'') CHR ''1'' [(''Host'', '' '', ''x'')]
     \<and> rp_isFinished e p \<and> \<not> rp_hasError e p"
proof -
  have g: "HttpMethodToString GET = ''GET''"
    by (simp add: HttpMethodToString_def method_num_def s_method_string_def http_method_map_def)
  have l: "length (request_text ''GET'' ''/a'' (Some ''b=1'') (Some ''f'') CHR ''1'' [(''Host'', '' '', ''x'')] @ ''hello'') < 2 ^ 31"
    by (simp add: request_text_def header_text_def opt_part_def crlf_def)
  have ok: "path_ok ''/a''" "opt_ok (Some ''b=1'')" "opt_ok (Some ''f'')" "list_all header_ok [(''Host'', '' '', ''x'')]"
    by (simp_all add: path_ok_def opt_ok_def header_ok_def path_char_def query_char_def token_char_def blank_char_def value_char_def schar_def)
  show ?thesis
    using request_parsed[of GET "''/a''" "Some ''b=1''" "Some ''f''" "CHR ''1''" "[(''Host'', '' '', ''x'')]" "''hello''" demo_memory demo_reb]
      ok l unfolding g by simp
qed

end
