(* ===== verification/Transport.thy ===== *)
theory Transport
  imports ServerProps Http11Props
begin

text \<open>
  From one end of a connection to the other: a request printed by \<open>HttpRequest::dump\<close> is received by an
  \<open>HttpSession\<close> with the parser and the machine.
\<close>

subsection \<open>The text of a request\<close>

definition dumped_headers :: "http_request \<Rightarrow> (string \<times> string \<times> string) list" where
  "dumped_headers s =
     (if rq_websocket s then [] else [(''connection'', '' '', if rq_close s then ''close'' else ''keep-alive'')])
     @ concat (map (\<lambda>(k, v). if \<not> rq_websocket s \<and> same_ci k ''connection'' then [] else [(k, '' '', v)]) (inorder (rq_headers s)))
     @ (if rq_body s = [] then [] else [(''content-length'', '' '', dec_str (length (rq_body s)))])"

definition opt_text :: "string \<Rightarrow> string option" where
  "opt_text t = (if t = [] then None else Some t)"

definition version_digit :: "8 word \<Rightarrow> char" where
  "version_digit v = (if v = 0x11 then CHR ''1'' else CHR ''0'')"

definition head_text :: "http_request \<Rightarrow> string" where
  "head_text s = request_text (HttpMethodToString (rq_method s)) (rq_path s) (opt_text (rq_query s)) (opt_text (rq_fragment s))
     (version_digit (rq_version s)) (dumped_headers s)"

lemma version_text: "v = 0x10 \<or> v = 0x11 \<Longrightarrow> version_str v = [CHR ''1'', CHR ''.'', version_digit v]"
proof -
  have "version_str 0x10 = [CHR ''1'', CHR ''.'', CHR ''0'']" "version_str 0x11 = [CHR ''1'', CHR ''.'', CHR ''1'']" by code_simp+
  then show "v = 0x10 \<or> v = 0x11 \<Longrightarrow> ?thesis" by (auto simp: version_digit_def)
qed

lemma rq_dump_text:
  assumes "rq_version s = 0x10 \<or> rq_version s = 0x11"
  shows "rq_dump s = head_text s @ rq_body s"
proof -
  have h: "concat (map header_text (concat (map (\<lambda>(k, v). if w \<and> same_ci k ''connection'' then [] else [(k, '' '', v)]) kvs)))
      = concat (map (\<lambda>(k, v). if w \<and> same_ci k ''connection'' then [] else k @ '': '' @ v @ crlf) kvs)" for w kvs
    by (induction kvs) (auto simp: header_text_def)
  show ?thesis
    by (simp add: rq_dump_def head_text_def request_text_def dumped_headers_def version_text[OF assms] opt_text_def opt_part_def h
      dump_headers_def dump_body_def connection_line_def header_text_def)
qed

text \<open>Requests that can be sent: the parts have the characters of their grammar.\<close>

definition request_ok :: "http_request \<Rightarrow> bool" where
  "request_ok s = (rq_method s \<noteq> MSEARCH \<and> rq_method s \<noteq> INVALID_METHOD \<and> path_ok (rq_path s)
     \<and> pct_text query_char (rq_query s) \<and> pct_text query_char (rq_fragment s) \<and> (rq_version s = 0x10 \<or> rq_version s = 0x11)
     \<and> (\<forall>(k, v) \<in> set (inorder (rq_headers s)). header_ok (k, '' '', v)))"

lemma digits_value: "list_all value_char (dec_str n)" "dec_str n \<noteq> [] \<longrightarrow> \<not> blank_char (hd (dec_str n))"
proof -
  have v: "\<forall>c \<in> decimal_digits. value_char c \<and> \<not> blank_char c"
    by (simp add: decimal_digits_def value_char_def blank_char_def schar_def)
  with dec_str_digits[of n] show "list_all value_char (dec_str n)" by (auto simp: list_all_iff)
  from v dec_str_digits[of n] show "dec_str n \<noteq> [] \<longrightarrow> \<not> blank_char (hd (dec_str n))" by (cases "dec_str n") auto
qed

lemma dumped_headers_ok: "request_ok s \<Longrightarrow> list_all header_ok (dumped_headers s)"
proof -
  assume "request_ok s"
  then have "\<forall>(k, v) \<in> set (inorder (rq_headers s)). header_ok (k, '' '', v)" by (simp add: request_ok_def)
  then have "list_all header_ok (concat (map (\<lambda>(k, v). if w \<and> same_ci k ''connection'' then [] else [(k, '' '', v)]) (inorder (rq_headers s))))" for w
    by (auto simp: list_all_iff split: if_splits)
  moreover have "header_ok (''connection'', '' '', if b then ''close'' else ''keep-alive'')" for b
    by (simp add: header_ok_def token_char_def blank_char_def value_char_def schar_def)
  moreover have "header_ok (''content-length'', '' '', dec_str n)" for n
  proof -
    have "blank_char (CHR '' '')" "list_all token_char ''content-length''"
      by (simp_all add: blank_char_def token_char_def schar_def)
    with digits_value[of n] show ?thesis by (auto simp: header_ok_def)
  qed
  ultimately show ?thesis by (simp add: dumped_headers_def)
qed

subsection \<open>What the parser makes of it\<close>

definition received :: "http_rebalance \<Rightarrow> http_request \<Rightarrow> http_request" where
  "received reb s = parsed_request reb (rq_method s) (rq_path s) (opt_text (rq_query s)) (opt_text (rq_fragment s))
     (version_digit (rq_version s)) (dumped_headers s)"

lemma fold_headers:
  "rq_method (fold (parsed_header reb) hs r) = rq_method r" "rq_path (fold (parsed_header reb) hs r) = rq_path r"
  "rq_query (fold (parsed_header reb) hs r) = rq_query r" "rq_fragment (fold (parsed_header reb) hs r) = rq_fragment r"
  "rq_version (fold (parsed_header reb) hs r) = rq_version r"
  by (induction hs arbitrary: r) (auto simp: parsed_header_def rq_setHeader_def split: prod.splits)

lemma received_parts:
  "rq_method (received reb s) = rq_method s" "rq_path (received reb s) = rq_path s" "rq_query (received reb s) = rq_query s"
  "rq_fragment (received reb s) = rq_fragment s"
  "rq_version s = 0x10 \<or> rq_version s = 0x11 \<Longrightarrow> rq_version (received reb s) = rq_version s"
  by (auto simp: received_def parsed_request_def fold_headers opt_text_def version_digit_def)

lemma received_body: "rq_body (received reb s) = []"
proof -
  have "rq_body (fold (parsed_header reb) hs r) = rq_body r" for hs r
    by (induction hs arbitrary: r) (auto simp: parsed_header_def rq_setHeader_def split: prod.splits)
  then show ?thesis by (simp add: received_def parsed_request_def HttpRequest_def)
qed

lemma rq_init_parts [simp]:
  "rq_method (rq_init r) = rq_method r" "rq_path (rq_init r) = rq_path r" "rq_query (rq_init r) = rq_query r"
  "rq_fragment (rq_init r) = rq_fragment r" "rq_version (rq_init r) = rq_version r"
  by (simp_all add: rq_init_def Let_def)

lemma parse_dump:
  assumes "request_ok s" "length (head_text s @ rest) < 2 ^ 31"
  obtains p where "rp_execute (http11_engine mem) reb (head_text s @ rest) (HttpRequestParser (http11_engine mem)) = (rest, p)"
    "rp_data p = received reb s" "rp_isFinished (http11_engine mem) p" "\<not> rp_hasError (http11_engine mem) p"
proof -
  let ?e = "http11_engine mem"
  have "opt_ok (opt_text t) = pct_text query_char t" for t by (simp add: opt_ok_def opt_text_def)
  then have "let (rest', p) = rp_execute ?e reb (head_text s @ rest) (HttpRequestParser ?e)
     in rest' = rest \<and> rp_data p = received reb s \<and> rp_isFinished ?e p \<and> \<not> rp_hasError ?e p"
    using parse_request[of "rq_method s" "rq_path s" "opt_text (rq_query s)" "opt_text (rq_fragment s)" "version_digit (rq_version s)"
        "dumped_headers s" rest mem reb] assms dumped_headers_ok[OF assms(1)]
    by (simp add: request_ok_def head_text_def received_def version_digit_def Let_def)
  then show thesis
    by (cases "rp_execute ?e reb (head_text s @ rest) (HttpRequestParser ?e)") (auto intro: that)
qed

subsection \<open>Over a connection\<close>

lemma receive_head:
  assumes "open_socket (he_recv env) ss incoming" "he_engine env = http11_engine mem" "request_ok s"
    and "ss_read (he_recv env) ss GetHttpRequestBufferSize k = (len, bs, k1)" "map char_of_byte bs = head_text s @ dat"
  obtains p where "recv_loop env ss GetHttpRequestBufferSize (HttpRequestParser (he_engine env)) [] k = Some (Some (p, dat), k1)"
    "rp_data p = received (he_reb env) s"
proof -
  have n: "0 < GetHttpRequestBufferSize" by (simp add: GetHttpRequestBufferSize_def)
  note src = open_socket.source[OF assms(1)]
  have "0 \<le> len" using reliable_source.no_error[OF src n, of k] assms(4) by simp
  with byte_source.rd_part[OF reliable_source.axioms(1)[OF src] n assms(4)]
  have len: "len = int (length bs)" "length bs \<le> GetHttpRequestBufferSize" by simp_all
  have l: "length (head_text s) + length dat = length bs" using assms(5) by (metis length_append length_map)
  have h: "0 < length (head_text s)" by (simp add: head_text_def request_text_def)
  have "length (head_text s @ dat) < 2 ^ 31" using l len(2) by (simp add: GetHttpRequestBufferSize_def)
  from parse_dump[OF assms(3) this, of mem "he_reb env"] obtain p where p:
    "rp_execute (http11_engine mem) (he_reb env) (head_text s @ dat) (HttpRequestParser (http11_engine mem)) = (dat, p)"
    "rp_data p = received (he_reb env) s" "rp_isFinished (http11_engine mem) p" "\<not> rp_hasError (http11_engine mem) p" .
  have "length dat \<noteq> GetHttpRequestBufferSize" using l h len(2) by linarith
  moreover have "bs \<noteq> []" using l h by auto
  ultimately have "recv_loop env ss GetHttpRequestBufferSize (HttpRequestParser (he_engine env)) [] k = Some (Some (p, dat), k1)"
    using p assms(4,5) len(1) by (subst recv_loop.simps) (simp add: assms(2))
  with p(2) show thesis by (rule that[rotated -1])
qed

text \<open>C1: a well-formed request (its method is one the machine knows, its version 1.0 or 1.1, and its path,
  query, fragment and headers have the characters of their grammar: \<open>request_ok\<close>) with a body of less than
  \<open>2 ^ 31\<close> bytes, printed by \<open>HttpRequest::dump\<close> and sent over a connection whose calls do not fail and whose first read
  gives the whole head and nothing beyond the body, is received by \<open>HttpSession::recvRequest\<close> as a request with the same
  method, path, query, fragment, version and body, and the connection stands behind it: provided that a search of the
  received headers for \<open>content-length\<close> finds the length that \<open>dump\<close> has printed, and none when the body is empty, and that
  \<open>lexical_cast\<close> reads the decimal text of a \<open>uint64_t\<close>.\<close>

theorem request_transport:
  assumes "open_socket (he_recv env) ss incoming" "he_engine env = http11_engine mem" "request_ok s"
    and "ss_read (he_recv env) ss GetHttpRequestBufferSize k = (len, bs, k1)" "map char_of_byte bs = head_text s @ dat"
    and "map char_of_byte (incoming k) = rq_dump s @ rest" "length dat \<le> length (rq_body s)" "length (rq_body s) < 2 ^ 31"
    and "hm_get ''content-length'' (rq_headers (received (he_reb env) s))
       = (if rq_body s = [] then None else Some (dec_str (length (rq_body s))))"
    and "\<forall>n < 2 ^ 64. he_lexical_cast env (dec_str n) = Some n"
  shows "\<exists>r k2. recvRequest env ss k = Some (Some r, ss, k2) \<and> map char_of_byte (incoming k2) = rest
     \<and> rq_method r = rq_method s \<and> rq_path r = rq_path s \<and> rq_query r = rq_query s \<and> rq_fragment r = rq_fragment s
     \<and> rq_version r = rq_version s \<and> rq_body r = rq_body s"
proof -
  obtain p where p: "recv_loop env ss GetHttpRequestBufferSize (HttpRequestParser (he_engine env)) [] k = Some (Some (p, dat), k1)"
      "rp_data p = received (he_reb env) s"
    using receive_head[OF assms(1-5)] .
  have v: "rq_version s = 0x10 \<or> rq_version s = 0x11" using assms(3) by (simp add: request_ok_def)
  have n: "0 < GetHttpRequestBufferSize" by (simp add: GetHttpRequestBufferSize_def)
  note src = open_socket.source[OF assms(1)]
  have "0 \<le> len" using reliable_source.no_error[OF src n, of k] assms(4) by simp
  with byte_source.rd_part[OF reliable_source.axioms(1)[OF src] n assms(4)] have "incoming k = bs @ incoming k1" by simp
  then have flow: "dat @ map char_of_byte (incoming k1) = rq_body s @ rest"
    using assms(5,6) rq_dump_text[OF v] by simp
  show ?thesis
  proof (cases "rq_body s = []")
    case True
    then have "rp_getContentLength (he_lexical_cast env) p = 0" using assms(9) by (simp add: rp_getContentLength_def getAs_def p(2))
    then have "recvRequest env ss k = Some (Some (rq_init (received (he_reb env) s)), ss, k1)"
      by (simp add: recvRequest_def p recv_body_def to_int64_id)
    with True flow assms(7) received_parts[where reb = "he_reb env" and s = s] v show ?thesis by (simp add: received_body)
  next
    case False
    have "length (rq_body s) < 2 ^ 64" using assms(8) by simp
    then have "he_lexical_cast env (dec_str (length (rq_body s))) = Some (length (rq_body s))" using assms(10) by blast
    with False have c: "rp_getContentLength (he_lexical_cast env) p = length (rq_body s)"
      using assms(9) by (simp add: rp_getContentLength_def getAs_def p(2))
    have le: "length (rq_body s) \<le> length dat + length (incoming k1)"
      using arg_cong[OF flow, of length] by simp
    then obtain k2 where k2: "recvRequest env ss k
          = Some (Some (rq_init ((rp_data p)\<lparr>rq_body := take (length (rq_body s)) (dat @ map char_of_byte (incoming k1))\<rparr>)), ss, k2)"
        "incoming k2 = drop (length (rq_body s) - length dat) (incoming k1)"
      using receive_body[OF assms(1) p(1) c _ assms(8)] False by auto
    have "drop (length (rq_body s)) (dat @ map char_of_byte (incoming k1)) = rest" using flow by simp
    then have "map char_of_byte (incoming k2) = rest" using assms(7) k2(2) by (simp add: drop_map)
    with k2(1) flow received_parts[where reb = "he_reb env" and s = s] v show ?thesis by (simp add: p(2))
  qed
qed

text \<open>What the first read gives beyond the body, such as the beginning of a next request that the client has sent already, is
  lost: the connection stands behind it.\<close>

lemma pipelined_bytes_lost:
  assumes "open_socket (he_recv env) ss incoming" "he_engine env = http11_engine mem" "request_ok s"
    and "ss_read (he_recv env) ss GetHttpRequestBufferSize k = (len, bs, k1)" "map char_of_byte bs = rq_dump s @ extra"
    and "hm_get ''content-length'' (rq_headers (received (he_reb env) s))
       = (if rq_body s = [] then None else Some (dec_str (length (rq_body s))))"
    and "\<forall>n < 2 ^ 64. he_lexical_cast env (dec_str n) = Some n" "length (rq_body s) < 2 ^ 31"
  shows "\<exists>r k2. recvRequest env ss k = Some (Some r, ss, k2) \<and> rq_body r = rq_body s \<and> incoming k2 = incoming k1"
proof -
  have v: "rq_version s = 0x10 \<or> rq_version s = 0x11" using assms(3) by (simp add: request_ok_def)
  have "map char_of_byte bs = head_text s @ rq_body s @ extra" using assms(5) rq_dump_text[OF v] by simp
  from receive_head[OF assms(1-4) this] obtain p where p:
    "recv_loop env ss GetHttpRequestBufferSize (HttpRequestParser (he_engine env)) [] k = Some (Some (p, rq_body s @ extra), k1)"
    "rp_data p = received (he_reb env) s" .
  show ?thesis
  proof (cases "rq_body s = []")
    case True
    then have "rp_getContentLength (he_lexical_cast env) p = 0" using assms(6) by (simp add: rp_getContentLength_def getAs_def p(2))
    then have "recvRequest env ss k = Some (Some (rq_init (received (he_reb env) s)), ss, k1)"
      by (simp add: recvRequest_def p recv_body_def to_int64_id)
    with True show ?thesis by (simp add: received_body)
  next
    case False
    have "length (rq_body s) < 2 ^ 64" using assms(8) by simp
    then have "he_lexical_cast env (dec_str (length (rq_body s))) = Some (length (rq_body s))" using assms(7) by blast
    with False have c: "rp_getContentLength (he_lexical_cast env) p = length (rq_body s)"
      using assms(6) by (simp add: rp_getContentLength_def getAs_def p(2))
    from receive_body[OF assms(1) p(1) c _ assms(8)] False show ?thesis by fastforce
  qed
qed

text \<open>A POST of two bytes over the pipe.\<close>

definition sent_request :: http_request where
  "sent_request = (HttpRequest 0x11 False)\<lparr>rq_method := POST, rq_path := ''/a'', rq_query := ''b=1'', rq_body := ''hi''\<rparr>"

definition uint64_cast :: "string \<Rightarrow> nat option" where
  "uint64_cast s = (if s \<noteq> [] \<and> set s \<subseteq> decimal_digits \<and> dec_val s < 2 ^ 64 then Some (dec_val s) else None)"

definition machine_env :: "(byte list \<times> nat list, http_parser) http_env" where
  "machine_env = \<lparr>he_recv = pipe_recv, he_send = pipe_send, he_engine = http11_engine demo_memory,
     he_reb = (\<lambda>_ xs. foldr (\<lambda>x t. Node Leaf x t) xs Leaf), he_lexical_cast = uint64_cast,
     he_fnmatch = (\<lambda>_ _. False), he_cb = (\<lambda>_ req rsp w. (0, req, rsp, w)), he_user = (\<lambda>_ req rsp w. (0, req, rsp, w))\<rparr>"

lemma machine_env_simps [simp]:
  "he_recv machine_env = pipe_recv" "he_engine machine_env = http11_engine demo_memory"
  "he_lexical_cast machine_env = uint64_cast" "he_reb machine_env = (\<lambda>_ xs. foldr (\<lambda>x t. Node Leaf x t) xs Leaf)"
  by (simp_all add: machine_env_def)

lemma char_bytes: "map char_of_byte (map byte_of t) = t"
proof -
  have "char_of_byte (byte_of c) = c" for c
  proof -
    have "(of_char c :: 8 word) = of_nat (of_char c)" by (simp only: of_nat_of_char)
    then have "unat (of_char c :: 8 word) = of_char c" by (simp add: unat_of_nat)
    then show ?thesis by (simp add: char_of_byte_def byte_of_def)
  qed
  then show ?thesis by (simp add: o_def)
qed

theorem request_transport_witness:
  "\<exists>r k2. recvRequest machine_env demo_ss (map byte_of (rq_dump sent_request), []) = Some (Some r, demo_ss, k2)
     \<and> rq_method r = POST \<and> rq_path r = ''/a'' \<and> rq_query r = ''b=1'' \<and> rq_body r = ''hi''"
proof -
  let ?t = "rq_dump sent_request"
  have v: "rq_version sent_request = 0x10 \<or> rq_version sent_request = 0x11" by (simp add: sent_request_def HttpRequest_def)
  have l: "length ?t \<le> 4096" by code_simp
  have ok: "request_ok sent_request"
    by (simp add: request_ok_def sent_request_def HttpRequest_def path_ok_def path_char_def query_char_def schar_def)
  have rd: "ss_read (he_recv machine_env) demo_ss GetHttpRequestBufferSize (map byte_of ?t, []) = (int (length ?t), map byte_of ?t, [], [])"
    using l by (simp add: ss_read_open[OF demo_connected] pipe_recv_def GetHttpRequestBufferSize_def min_def)
  have body: "rq_body sent_request = ''hi''" by (simp add: sent_request_def)
  have len: "hm_get ''content-length'' (rq_headers (received (he_reb machine_env) sent_request))
      = (if rq_body sent_request = [] then None else Some (dec_str (length (rq_body sent_request))))"
    by code_simp
  have os: "open_socket (he_recv machine_env) demo_ss fst" by (simp add: pipe.open_socket_axioms)
  have heads: "map char_of_byte (map byte_of ?t) = head_text sent_request @ ''hi''"
    using rq_dump_text[OF v] by (simp only: char_bytes body)
  have all: "map char_of_byte (fst (map byte_of ?t, [])) = ?t @ []" by (simp only: fst_conv char_bytes append_Nil2)
  have cast: "\<forall>n < 2 ^ 64. he_lexical_cast machine_env (dec_str n) = Some n"
    using dec_str_digits dec_str_nonempty by (simp add: uint64_cast_def dec_val_str)
  have "length ''hi'' \<le> length (rq_body sent_request)" "length (rq_body sent_request) < 2 ^ 31" by (simp_all add: body)
  from request_transport[OF os machine_env_simps(2) ok rd heads all this len cast]
  obtain r k2 where r: "recvRequest machine_env demo_ss (map byte_of ?t, []) = Some (Some r, demo_ss, k2)"
      "rq_method r = rq_method sent_request" "rq_path r = rq_path sent_request" "rq_query r = rq_query sent_request"
      "rq_body r = rq_body sent_request" by blast
  then show ?thesis by (intro exI[of _ r] exI[of _ k2]) (simp add: sent_request_def HttpRequest_def)
qed

end
