(* ===== verification/Json.thy ===== *)
theory Json
  imports OrderedSet CString
begin

text \<open>
  \<^verbatim>\<open>include/json.hpp\<close>: the values of the JSON library and the members of \<open>basic_json\<close> that the program
  calls. An object is a \<open>std::map\<close>, the sequence of its members in the order of the keys.
\<close>

subsection \<open>Values\<close>

text \<open>
  A floating-point number is the text that \<open>to_chars\<close> prints for it. Values of type \<open>binary\<close> and
  \<open>discarded\<close> do not occur in the program.
\<close>

datatype json =
    J_null
  | J_bool bool
  | J_string string
  | J_integer int
  | J_unsigned nat
  | J_float string
  | J_array "json list"
  | J_object "(string \<times> json) list"

definition is_structured :: "json \<Rightarrow> bool" where
  "is_structured j = (case j of J_array xs \<Rightarrow> True | J_object kvs \<Rightarrow> True | _ \<Rightarrow> False)"

text \<open>\<open>std::less<std::string>\<close>, which compares bytes as unsigned.\<close>

fun string_less :: "string \<Rightarrow> string \<Rightarrow> bool" where
  "string_less s [] = False"
| "string_less [] (c # t) = True"
| "string_less (a # s) (b # t) = (if a = b then string_less s t else (of_char a :: nat) < of_char b)"

lemma char_codes: "a = b \<or> (of_char a :: nat) < of_char b \<or> (of_char b :: nat) < of_char a"
  using of_char_eq_iff[of a b, where ?'a = nat] by linarith

lemma string_less_asym: "string_less s t \<Longrightarrow> \<not> string_less t s"
  by (induction s t rule: string_less.induct) (auto split: if_splits)

lemma string_less_cotrans: "string_less s t \<Longrightarrow> string_less s u \<or> string_less u t"
proof (induction s t arbitrary: u rule: string_less.induct)
  case (2 c t)
  then show ?case by (cases u) auto
next
  case (3 a s b t)
  then show ?case
  proof (cases u)
    case (Cons c u')
    consider "a = b" "string_less s t" | "a \<noteq> b" "(of_char a :: nat) < of_char b" using 3 by (auto split: if_splits)
    then show ?thesis
    proof cases
      case 1
      with 3 Cons char_codes[of a c] show ?thesis by auto
    next
      case 2
      with Cons char_codes[of a c] char_codes[of c b] show ?thesis by auto
    qed
  qed simp
qed simp

lemma string_less_total: "string_less s t \<or> s = t \<or> string_less t s"
proof (induction s t rule: string_less.induct)
  case (1 s)
  then show ?case by (cases s) auto
next
  case (3 a s b t)
  then show ?case using char_codes[of a b] by auto
qed simp

lemma string_less_cases:
  obtains "string_less s t" "\<not> string_less t s" "s \<noteq> t" | "s = t" "\<not> string_less s s" | "string_less t s" "\<not> string_less s t" "s \<noteq> t"
  using string_less_total[of s t] string_less_asym[of s t] string_less_asym[of t s] by blast

interpretation string_order: strict_weak string_less
  using string_less_asym string_less_cotrans by unfold_locales auto

subsection \<open>Members\<close>

text \<open>\<open>operator[]\<close> makes an object of null and a null member for a key that is new; the second component
  is the value afterwards. \<open>j_put\<close> is an assignment to the reference it returns.\<close>

definition j_index :: "string \<Rightarrow> json \<Rightarrow> fault + json \<times> json" where
  "j_index key j = (case j of
     J_null \<Rightarrow> Inr (J_null, J_object [(key, J_null)])
   | J_object kvs \<Rightarrow> Inr (case om_find string_less key kvs of
       Some v \<Rightarrow> (v, j)
     | None \<Rightarrow> (J_null, J_object (om_set string_less key J_null kvs)))
   | _ \<Rightarrow> Inl Type_error)"

definition j_put :: "string \<Rightarrow> json \<Rightarrow> json \<Rightarrow> fault + json" where
  "j_put key v j = (case j of
     J_null \<Rightarrow> Inr (J_object [(key, v)])
   | J_object kvs \<Rightarrow> Inr (J_object (om_set string_less key v kvs))
   | _ \<Rightarrow> Inl Type_error)"

definition j_find :: "string \<Rightarrow> json \<Rightarrow> json option" where
  "j_find key j = (case j of J_object kvs \<Rightarrow> om_find string_less key kvs | _ \<Rightarrow> None)"

definition j_contains :: "string \<Rightarrow> json \<Rightarrow> bool" where
  "j_contains key j = (j_find key j \<noteq> None)"

definition j_push_back :: "json \<Rightarrow> json \<Rightarrow> fault + json" where
  "j_push_back v j = (case j of
     J_null \<Rightarrow> Inr (J_array [v])
   | J_array xs \<Rightarrow> Inr (J_array (xs @ [v]))
   | _ \<Rightarrow> Inl Type_error)"

text \<open>The conversion to \<open>std::string\<close>.\<close>

definition j_string :: "json \<Rightarrow> fault + string" where
  "j_string j = (case j of J_string s \<Rightarrow> Inr s | _ \<Rightarrow> Inl Type_error)"

text \<open>What iterators from \<open>begin()\<close> to \<open>end()\<close> pass: a value that is no container is passed once, null not at
  all. \<open>items()\<close> gives keys with them.\<close>

definition j_elements :: "json \<Rightarrow> json list" where
  "j_elements j = (case j of J_null \<Rightarrow> [] | J_array xs \<Rightarrow> xs | J_object kvs \<Rightarrow> map snd kvs | _ \<Rightarrow> [j])"

definition j_items :: "json \<Rightarrow> (string \<times> json) list" where
  "j_items j = (case j of
     J_null \<Rightarrow> []
   | J_array xs \<Rightarrow> zip (map dec_str [0..<length xs]) xs
   | J_object kvs \<Rightarrow> kvs
   | _ \<Rightarrow> [([], j)])"

subsection \<open>Objects with ordered keys\<close>

definition sorted_keys :: "(string \<times> 'v) list \<Rightarrow> bool" where
  "sorted_keys kvs = os_sorted string_less fst kvs"

lemma sorted_keys_simps [simp]:
  "sorted_keys []"
  "sorted_keys (kv # kvs) = ((\<forall>kv' \<in> set kvs. string_less (fst kv) (fst kv')) \<and> sorted_keys kvs)"
  by (simp_all add: sorted_keys_def os_sorted_def)

lemma om_find_Nil [simp]: "om_find lt k [] = None"
  by (simp add: om_find_def os_find_def Let_def)

lemma om_set_Nil [simp]: "om_set lt k v [] = [(k, v)]"
  by (simp add: om_set_def os_find_def os_insert_def lower_bound_def Let_def)

text \<open>A new greatest key comes to the end.\<close>

lemma om_set_last:
  assumes "\<forall>kv \<in> set kvs. string_less (fst kv) k"
  shows "om_set string_less k v kvs = kvs @ [(k, v)]"
proof -
  have "length (takeWhile (\<lambda>e. string_less (fst e) k) kvs) = length kvs"
    using assms by (metis takeWhile_eq_all_conv)
  then show ?thesis by (simp add: om_set_def os_find_def os_insert_def lower_bound_def Let_def)
qed

lemma om_set_first:
  "string_less k k' \<Longrightarrow> om_set string_less k v ((k', v') # kvs) = (k, v) # (k', v') # kvs"
  using string_less_asym[of k k']
  by (simp add: om_set_def os_find_def os_insert_def lower_bound_def Let_def)

lemma lower_bound_Cons:
  "lower_bound lt key k (x # xs) = (if lt (key x) k then Suc (lower_bound lt key k xs) else 0)"
  by (simp add: lower_bound_def)

lemma os_find_Cons:
  "os_find lt key k (x # xs) = (if lt (key x) k then map_option Suc (os_find lt key k xs)
     else if lt k (key x) then None else Some 0)"
  by (simp add: os_find_def lower_bound_Cons Let_def)

lemma om_find_Cons:
  "om_find lt k ((k', v) # kvs) = (if lt k' k then om_find lt k kvs else if lt k k' then None else Some v)"
  by (auto simp: om_find_def os_find_Cons option.map_comp o_def)

lemma om_set_Cons:
  "om_set lt k v ((k', v') # kvs) = (if lt k' k then (k', v') # om_set lt k v kvs
     else if lt k k' then (k, v) # (k', v') # kvs else (k', v) # kvs)"
  by (auto simp: om_set_def os_find_Cons os_insert_def lower_bound_Cons Let_def split: option.split)

text \<open>Look-up in an ordered object is look-up in a map.\<close>

lemma om_find_map_of:
  assumes "sorted_keys kvs"
  shows "om_find string_less k kvs = map_of kvs k"
  using assms
proof (induction kvs)
  case (Cons kv kvs)
  obtain k' v where kv: "kv = (k', v)" by force
  have "k \<notin> fst ` set kvs" if "string_less k k'"
    using Cons.prems kv that string_less_asym[of k k'] by auto
  then have "map_of kvs k = None" if "string_less k k'" using that by (simp add: map_of_eq_None_iff)
  then show ?case using Cons kv string_less_total[of k k'] string_order.irrefl
    by (auto simp: om_find_Cons dest: string_less_asym)
qed simp

lemma keys_om_set: "fst ` set (om_set string_less k v kvs) = insert k (fst ` set kvs)"
proof (induction kvs)
  case (Cons kv kvs)
  then show ?case by (cases kv, cases rule: string_less_cases[of k "fst kv"]) (auto simp: om_set_Cons)
qed simp

lemma om_set_sorted: "sorted_keys kvs \<Longrightarrow> sorted_keys (om_set string_less k v kvs)"
proof (induction kvs)
  case (Cons kv kvs)
  obtain k' v' where kv: "kv = (k', v')" by force
  have "\<forall>x \<in> set (om_set string_less k v kvs). string_less k' (fst x)" if "string_less k' k"
  proof
    fix x assume "x \<in> set (om_set string_less k v kvs)"
    then have "fst x = k \<or> fst x \<in> fst ` set kvs" using keys_om_set[of k v kvs] by blast
    then show "string_less k' (fst x)" using that Cons.prems kv by auto
  qed
  moreover have "string_less k (fst x)" if "string_less k k'" "x \<in> set kvs" for x
    using that Cons.prems kv string_order.trans by auto
  ultimately show ?case using Cons kv by (cases rule: string_less_cases[of k k']) (auto simp: om_set_Cons)
qed simp

lemma map_of_om_set: "sorted_keys kvs \<Longrightarrow> map_of (om_set string_less k v kvs) = (map_of kvs)(k \<mapsto> v)"
proof (induction kvs)
  case (Cons kv kvs)
  then show ?case by (cases kv, cases rule: string_less_cases[of k "fst kv"]) (auto simp: om_set_Cons fun_upd_twist)
qed simp

lemma set_om_set: "set (om_set string_less k v kvs) \<subseteq> insert (k, v) (set kvs)"
proof (induction kvs)
  case (Cons kv kvs)
  then show ?case by (cases kv, cases rule: string_less_cases[of k "fst kv"]) (auto simp: om_set_Cons)
qed simp

end
