(* ===== verification/JsonText.thy ===== *)
theory JsonText
  imports Json
begin

text \<open>
  \<^verbatim>\<open>include/json.hpp\<close>: the text of JSON values, as the program reads and prints it. The serializer has the
  default arguments of \<open>dump\<close> (blanks, no escapes for characters beyond ASCII, strict errors); the lexer has no
  comments; the parser builds the value. Characters are read from the front of a list; a character that the
  lexer gives back stays there. \<open>strtod\<close> is an argument: for the text of a number, the text that \<open>to_chars\<close> prints
  for the double it denotes, or nothing when that is not finite. The decimal point is that of the C locale.
\<close>

subsection \<open>Serializer\<close>

definition utf8d :: "nat list" where
  "utf8d =
    [0, 0, 0, 0, 0, 0, 0, 0, 0, 0, 0, 0, 0, 0, 0, 0, 0, 0, 0, 0, 0, 0, 0, 0, 0, 0, 0, 0, 0, 0, 0, 0,
     0, 0, 0, 0, 0, 0, 0, 0, 0, 0, 0, 0, 0, 0, 0, 0, 0, 0, 0, 0, 0, 0, 0, 0, 0, 0, 0, 0, 0, 0, 0, 0,
     0, 0, 0, 0, 0, 0, 0, 0, 0, 0, 0, 0, 0, 0, 0, 0, 0, 0, 0, 0, 0, 0, 0, 0, 0, 0, 0, 0, 0, 0, 0, 0,
     0, 0, 0, 0, 0, 0, 0, 0, 0, 0, 0, 0, 0, 0, 0, 0, 0, 0, 0, 0, 0, 0, 0, 0, 0, 0, 0, 0, 0, 0, 0, 0,
     1, 1, 1, 1, 1, 1, 1, 1, 1, 1, 1, 1, 1, 1, 1, 1, 9, 9, 9, 9, 9, 9, 9, 9, 9, 9, 9, 9, 9, 9, 9, 9,
     7, 7, 7, 7, 7, 7, 7, 7, 7, 7, 7, 7, 7, 7, 7, 7, 7, 7, 7, 7, 7, 7, 7, 7, 7, 7, 7, 7, 7, 7, 7, 7,
     8, 8, 2, 2, 2, 2, 2, 2, 2, 2, 2, 2, 2, 2, 2, 2, 2, 2, 2, 2, 2, 2, 2, 2, 2, 2, 2, 2, 2, 2, 2, 2,
     10, 3, 3, 3, 3, 3, 3, 3, 3, 3, 3, 3, 3, 4, 3, 3, 11, 6, 6, 6, 5, 8, 8, 8, 8, 8, 8, 8, 8, 8, 8, 8,
     0, 1, 2, 3, 5, 8, 7, 1, 1, 1, 4, 6, 1, 1, 1, 1, 1, 1, 1, 1, 1, 1, 1, 1, 1, 1, 1, 1, 1, 1, 1, 1,
     1, 0, 1, 1, 1, 1, 1, 0, 1, 0, 1, 1, 1, 1, 1, 1, 1, 2, 1, 1, 1, 1, 1, 2, 1, 2, 1, 1, 1, 1, 1, 1,
     1, 1, 1, 1, 1, 1, 1, 2, 1, 1, 1, 1, 1, 1, 1, 1, 1, 2, 1, 1, 1, 1, 1, 1, 1, 2, 1, 1, 1, 1, 1, 1,
     1, 1, 1, 1, 1, 1, 1, 3, 1, 3, 1, 1, 1, 1, 1, 1, 1, 3, 1, 1, 1, 1, 1, 3, 1, 3, 1, 1, 1, 1, 1, 1,
     1, 3, 1, 1, 1, 1, 1, 1, 1, 1, 1, 1, 1, 1, 1, 1]"

text \<open>The state and the code point after a byte.\<close>

definition utf8_decode :: "nat \<Rightarrow> nat \<Rightarrow> nat \<Rightarrow> nat \<times> nat" where
  "utf8_decode state codep byte =
     (let type = utf8d ! byte;
          codep = (if state \<noteq> 0 then or (and byte 0x3F) (push_bit 6 codep) else and (drop_bit type 0xFF) byte)
      in (utf8d ! (256 + state * 16 + type), codep))"

definition hex4 :: "nat \<Rightarrow> string" where
  "hex4 n = map (\<lambda>k. ''0123456789abcdef'' ! (n div 16 ^ k mod 16)) [3, 2, 1, 0]"

definition escape_char :: "nat \<Rightarrow> char \<Rightarrow> string" where
  "escape_char codepoint c =
     (if codepoint = 0x08 then [CHR 0x5C, CHR ''b'']
      else if codepoint = 0x09 then [CHR 0x5C, CHR ''t'']
      else if codepoint = 0x0A then [CHR 0x5C, CHR ''n'']
      else if codepoint = 0x0C then [CHR 0x5C, CHR ''f'']
      else if codepoint = 0x0D then [CHR 0x5C, CHR ''r'']
      else if codepoint = 0x22 then [CHR 0x5C, CHR 0x22]
      else if codepoint = 0x5C then [CHR 0x5C, CHR 0x5C]
      else if codepoint \<le> 0x1F then [CHR 0x5C, CHR ''u''] @ hex4 codepoint
      else [c])"

fun escape_loop :: "nat \<Rightarrow> nat \<Rightarrow> string \<Rightarrow> fault + string" where
  "escape_loop state codepoint [] = (if state = 0 then Inr [] else Inl Type_error)"
| "escape_loop state codepoint (c # s) = (case utf8_decode state codepoint (of_char c) of (state, codepoint) \<Rightarrow>
     if state = 1 then Inl Type_error
     else bindE (escape_loop state codepoint s) (\<lambda>t. Inr ((if state = 0 then escape_char codepoint c else [c]) @ t)))"

definition dump_escaped :: "string \<Rightarrow> fault + string" where
  "dump_escaped s = escape_loop 0 0 s"

definition dump_string :: "string \<Rightarrow> fault + string" where
  "dump_string s = bindE (dump_escaped s) (\<lambda>t. Inr (CHR 0x22 # t @ [CHR 0x22]))"

definition dump_integer :: "int \<Rightarrow> string" where
  "dump_integer x = (if x < 0 then CHR ''-'' # dec_str (nat (- x)) else dec_str (nat x))"

text \<open>
  \<open>i\<close> is \<open>indent_step\<close> if the text is printed with line breaks, \<open>cur\<close> is \<open>current_indent\<close>, both
  \<open>unsigned int\<close>, and \<open>cap\<close> the size of \<open>indent_string\<close>, a string of blanks whose first characters
  are written. One character more is the NUL that ends the string; beyond it is not the string's.
\<close>

definition indentation :: "nat \<Rightarrow> nat \<Rightarrow> fault + string" where
  "indentation cap n =
     (if n \<le> cap then Inr (replicate n (CHR '' ''))
      else if n = cap + 1 then Inr (replicate cap (CHR '' '') @ [CHR 0x00])
      else Inl Bad_index)"

definition new_line :: "nat option \<Rightarrow> nat \<Rightarrow> nat \<Rightarrow> fault + string" where
  "new_line i cap cur = (case i of None \<Rightarrow> Inr []
     | Some _ \<Rightarrow> bindE (indentation cap cur) (\<lambda>t. Inr (CHR 0x0A # t)))"

definition new_indent :: "nat option \<Rightarrow> nat \<Rightarrow> nat" where
  "new_indent i cur = (case i of None \<Rightarrow> cur | Some n \<Rightarrow> (cur + n) mod 2 ^ 32)"

text \<open>\<open>indent_string\<close> is doubled once when a container is entered and it is too short.\<close>

definition grow_indent :: "nat option \<Rightarrow> nat \<Rightarrow> nat \<Rightarrow> nat" where
  "grow_indent i cur cap = (case i of None \<Rightarrow> cap
     | Some _ \<Rightarrow> if cap < new_indent i cur then cap * 2 else cap)"

definition colon :: "nat option \<Rightarrow> string" where
  "colon i = (case i of None \<Rightarrow> '':'' | Some _ \<Rightarrow> '': '')"

text \<open>
  The result is the text and the size of \<open>indent_string\<close> afterwards. A floating-point value is its
  text in the model: what \<open>dump_float\<close> prints is a parameter, of which \<open>float_text\<close> says what is
  assumed where it matters.
\<close>

fun dump_value :: "nat option \<Rightarrow> nat \<Rightarrow> nat \<Rightarrow> json \<Rightarrow> fault + string \<times> nat"
  and dump_elements :: "nat option \<Rightarrow> nat \<Rightarrow> nat \<Rightarrow> json list \<Rightarrow> fault + string \<times> nat"
  and dump_members :: "nat option \<Rightarrow> nat \<Rightarrow> nat \<Rightarrow> (string \<times> json) list \<Rightarrow> fault + string \<times> nat"
where
  "dump_value i cap cur (J_object kvs) =
     (if kvs = [] then Inr (''{}'', cap)
      else bindE (dump_members i (grow_indent i cur cap) (new_indent i cur) kvs) (\<lambda>(t, cap).
        bindE (new_line i cap cur) (\<lambda>nl. Inr (''{'' @ t @ nl @ ''}'', cap))))"
| "dump_value i cap cur (J_array xs) =
     (if xs = [] then Inr (''[]'', cap)
      else bindE (dump_elements i (grow_indent i cur cap) (new_indent i cur) xs) (\<lambda>(t, cap).
        bindE (new_line i cap cur) (\<lambda>nl. Inr (''['' @ t @ nl @ '']'', cap))))"
| "dump_value i cap cur (J_string s) = bindE (dump_string s) (\<lambda>t. Inr (t, cap))"
| "dump_value i cap cur (J_bool b) = Inr (if b then ''true'' else ''false'', cap)"
| "dump_value i cap cur (J_integer x) = Inr (dump_integer x, cap)"
| "dump_value i cap cur (J_unsigned n) = Inr (dump_integer (int n), cap)"
| "dump_value i cap cur (J_float t) = Inr (t, cap)"
| "dump_value i cap cur J_null = Inr (''null'', cap)"
| "dump_elements i cap cur [] = Inr ([], cap)"
| "dump_elements i cap cur (v # xs) =
     bindE (new_line i cap cur) (\<lambda>nl. bindE (dump_value i cap cur v) (\<lambda>(t, cap).
       bindE (dump_elements i cap cur xs) (\<lambda>(ts, cap).
         Inr (nl @ t @ (if xs = [] then [] else '','') @ ts, cap))))"
| "dump_members i cap cur [] = Inr ([], cap)"
| "dump_members i cap cur ((k, v) # kvs) =
     bindE (new_line i cap cur) (\<lambda>nl. bindE (dump_string k) (\<lambda>key. bindE (dump_value i cap cur v) (\<lambda>(t, cap).
       bindE (dump_members i cap cur kvs) (\<lambda>(ts, cap).
         Inr (nl @ key @ colon i @ t @ (if kvs = [] then [] else '','') @ ts, cap)))))"

text \<open>\<open>dump(indent)\<close>, and \<open>dump()\<close> without an indent; the serializer starts with 512 blanks.\<close>

definition json_dump :: "nat option \<Rightarrow> json \<Rightarrow> fault + string" where
  "json_dump indent j = bindE (dump_value indent 512 0 j) (\<lambda>(t, _). Inr t)"

text \<open>The text when the blanks are always there, and the indentations for which they are.\<close>

definition text_line :: "nat option \<Rightarrow> nat \<Rightarrow> string" where
  "text_line i cur = (case i of None \<Rightarrow> [] | Some _ \<Rightarrow> CHR 0x0A # replicate cur (CHR '' ''))"

fun text_value :: "nat option \<Rightarrow> nat \<Rightarrow> json \<Rightarrow> fault + string"
  and text_elements :: "nat option \<Rightarrow> nat \<Rightarrow> json list \<Rightarrow> fault + string"
  and text_members :: "nat option \<Rightarrow> nat \<Rightarrow> (string \<times> json) list \<Rightarrow> fault + string"
where
  "text_value i cur (J_object kvs) =
     (if kvs = [] then Inr ''{}''
      else bindE (text_members i (new_indent i cur) kvs) (\<lambda>t. Inr (''{'' @ t @ text_line i cur @ ''}'')))"
| "text_value i cur (J_array xs) =
     (if xs = [] then Inr ''[]''
      else bindE (text_elements i (new_indent i cur) xs) (\<lambda>t. Inr (''['' @ t @ text_line i cur @ '']'')))"
| "text_value i cur (J_string s) = dump_string s"
| "text_value i cur (J_bool b) = Inr (if b then ''true'' else ''false'')"
| "text_value i cur (J_integer x) = Inr (dump_integer x)"
| "text_value i cur (J_unsigned n) = Inr (dump_integer (int n))"
| "text_value i cur (J_float t) = Inr t"
| "text_value i cur J_null = Inr ''null''"
| "text_elements i cur [] = Inr []"
| "text_elements i cur (v # xs) =
     bindE (text_value i cur v) (\<lambda>t. bindE (text_elements i cur xs) (\<lambda>ts.
       Inr (text_line i cur @ t @ (if xs = [] then [] else '','') @ ts)))"
| "text_members i cur [] = Inr []"
| "text_members i cur ((k, v) # kvs) =
     bindE (dump_string k) (\<lambda>key. bindE (text_value i cur v) (\<lambda>t. bindE (text_members i cur kvs) (\<lambda>ts.
       Inr (text_line i cur @ key @ colon i @ t @ (if kvs = [] then [] else '','') @ ts))))"

definition indent_ok :: "nat option \<Rightarrow> bool" where
  "indent_ok i = (case i of None \<Rightarrow> True | Some n \<Rightarrow> n \<le> 1024)"

lemma indent_ok_simps [simp]: "indent_ok None" "indent_ok (Some n) \<longleftrightarrow> n \<le> 1024"
  by (simp_all add: indent_ok_def)

definition blanks_suffice :: "nat option \<Rightarrow> nat \<Rightarrow> nat \<Rightarrow> bool" where
  "blanks_suffice i cap cur = (case i of None \<Rightarrow> True | Some n \<Rightarrow> n < 2 ^ 32 \<and> cur \<le> cap \<and> (n \<le> cap \<or> (cur = 0 \<and> n \<le> 2 * cap)))"

lemma blanks_suffice_mono: "blanks_suffice i cap cur \<Longrightarrow> cap \<le> cap' \<Longrightarrow> blanks_suffice i cap' cur"
  by (auto simp: blanks_suffice_def split: option.splits)

lemma blanks_suffice_enter:
  assumes "blanks_suffice i cap cur"
  shows "blanks_suffice i (grow_indent i cur cap) (new_indent i cur)" "cap \<le> grow_indent i cur cap"
proof -
  show "cap \<le> grow_indent i cur cap" by (simp add: grow_indent_def split: option.split)
  show "blanks_suffice i (grow_indent i cur cap) (new_indent i cur)"
  proof (cases i)
    case (Some n)
    have "(cur + n) mod 2 ^ 32 \<le> cur + n" by simp
    moreover have "cur = 0 \<and> cap < n \<and> n < 2 ^ 32 \<longrightarrow> (cur + n) mod 2 ^ 32 = n" by simp
    ultimately show ?thesis using assms Some
      by (auto simp: blanks_suffice_def grow_indent_def new_indent_def simp del: mod_less_eq_dividend)
  qed (simp add: blanks_suffice_def)
qed

lemma new_line_suffice: "blanks_suffice i cap cur \<Longrightarrow> new_line i cap cur = Inr (text_line i cur)"
  by (auto simp: blanks_suffice_def new_line_def text_line_def indentation_def split: option.splits)

text \<open>What is printed, for the fault or the text \<open>r\<close>: the string of blanks can only grow.\<close>

definition prints :: "nat \<Rightarrow> fault + string \<times> nat \<Rightarrow> fault + string \<Rightarrow> bool" where
  "prints cap d r = (case r of Inl e \<Rightarrow> d = Inl e | Inr t \<Rightarrow> \<exists>cap' \<ge> cap. d = Inr (t, cap'))"

lemma prints_Inr [simp]: "prints cap (Inr (t, cap)) (Inr t)"
  by (simp add: prints_def)

lemma prints_Inl [simp]: "prints cap (Inl e) (Inl e)"
  by (simp add: prints_def)

lemma prints_bind:
  assumes "prints cap d r" "\<And>t cap'. r = Inr t \<Longrightarrow> cap \<le> cap' \<Longrightarrow> prints cap' (f (t, cap')) (g t)"
  shows "prints cap (bindE d f) (bindE r g)"
proof (cases r)
  case (Inl e)
  with assms(1) show ?thesis by (simp add: prints_def)
next
  case (Inr t)
  with assms(1) obtain cap' where c: "cap \<le> cap'" "d = Inr (t, cap')" by (auto simp: prints_def)
  from assms(2)[OF Inr c(1)] show ?thesis
    using c Inr by (auto simp: prints_def split: sum.splits intro: order_trans)
qed

lemma dump_prints:
  shows "blanks_suffice i cap cur \<Longrightarrow> prints cap (dump_value i cap cur v) (text_value i cur v)"
    and "blanks_suffice i cap cur \<Longrightarrow> prints cap (dump_elements i cap cur xs) (text_elements i cur xs)"
    and "blanks_suffice i cap cur \<Longrightarrow> prints cap (dump_members i cap cur kvs) (text_members i cur kvs)"
proof (induction i cur v and i cur xs and i cur kvs arbitrary: cap and cap and cap
    rule: text_value_text_elements_text_members.induct)
  case (1 i cur kvs)
  note e = blanks_suffice_enter[OF 1(2)]
  show ?case
  proof (cases "kvs = []")
    case False
    have "prints (grow_indent i cur cap) (dump_value i cap cur (J_object kvs)) (text_value i cur (J_object kvs))"
      using False by (auto intro!: prints_bind[OF 1(1)[OF False e(1)]]
        simp: new_line_suffice[OF blanks_suffice_mono[OF 1(2) order_trans[OF e(2)]]])
    then show ?thesis using e(2) by (auto simp: prints_def split: sum.splits intro: order_trans)
  qed simp
next
  case (2 i cur xs)
  note e = blanks_suffice_enter[OF 2(2)]
  show ?case
  proof (cases "xs = []")
    case False
    have "prints (grow_indent i cur cap) (dump_value i cap cur (J_array xs)) (text_value i cur (J_array xs))"
      using False by (auto intro!: prints_bind[OF 2(1)[OF False e(1)]]
        simp: new_line_suffice[OF blanks_suffice_mono[OF 2(2) order_trans[OF e(2)]]])
    then show ?thesis using e(2) by (auto simp: prints_def split: sum.splits intro: order_trans)
  qed simp
next
  case (10 i cur v xs)
  show ?case
    using blanks_suffice_mono[OF 10(3)]
    by (auto simp: new_line_suffice[OF 10(3)] intro!: prints_bind 10(1)[OF 10(3)] 10(2))
next
  case (12 i cur k v kvs)
  show ?case
    using blanks_suffice_mono[OF 12(3)]
    by (cases "dump_string k") (auto simp: new_line_suffice[OF 12(3)] intro!: prints_bind 12(1)[OF _ 12(3)] 12(2))
next
  case (3 i cur s)
  show ?case by (cases "dump_string s") simp_all
qed simp_all

text \<open>With an indentation of at most 1024 the blanks suffice at every depth.\<close>

lemma json_dump_text:
  assumes "indent_ok i"
  shows "json_dump i j = text_value i 0 j"
proof -
  have "blanks_suffice i 512 0" using assms by (auto simp: blanks_suffice_def indent_ok_def split: option.splits)
  from dump_prints(1)[OF this, of j] show ?thesis
    by (auto simp: json_dump_def prints_def split: sum.splits)
qed

text \<open>With more than 1025 (and with 1025 a NUL is printed for the last blank) the serializer reads beyond the
  end of the string in every container that is not empty.\<close>

lemma json_dump_overread:
  assumes "1025 < n" "n < 2 ^ 32"
  shows "xs \<noteq> [] \<Longrightarrow> json_dump (Some n) (J_array xs) = Inl Bad_index"
    and "kvs \<noteq> [] \<Longrightarrow> json_dump (Some n) (J_object kvs) = Inl Bad_index"
proof -
  have nl: "new_line (Some n) (grow_indent (Some n) 0 512) (new_indent (Some n) 0) = Inl Bad_index"
    using assms by (simp add: new_line_def grow_indent_def new_indent_def indentation_def)
  show "json_dump (Some n) (J_array xs) = Inl Bad_index" if "xs \<noteq> []"
    using that nl by (cases xs) (simp_all add: json_dump_def)
  show "json_dump (Some n) (J_object kvs) = Inl Bad_index" if "kvs \<noteq> []"
    using that nl by (cases kvs) (auto simp: json_dump_def)
qed

subsection \<open>Lexer\<close>

datatype token =
    T_begin_array | T_end_array | T_begin_object | T_end_object | T_name_separator | T_value_separator
  | T_literal_true | T_literal_false | T_literal_null
  | T_string string | T_unsigned nat | T_integer int | T_float "string option"
  | T_parse_error | T_end_of_input

definition hex_val :: "char \<Rightarrow> nat option" where
  "hex_val c = (let n = of_char c in
     if 0x30 \<le> n \<and> n \<le> 0x39 then Some (n - 0x30)
     else if 0x41 \<le> n \<and> n \<le> 0x46 then Some (n - 0x37)
     else if 0x61 \<le> n \<and> n \<le> 0x66 then Some (n - 0x57) else None)"

text \<open>The value of \<open>-1\<close> is \<open>None\<close>.\<close>

definition get_codepoint :: "string \<Rightarrow> (nat \<times> string) option" where
  "get_codepoint s = (case s of
     a # b # c # d # s \<Rightarrow> (case (hex_val a, hex_val b, hex_val c, hex_val d) of
         (Some a, Some b, Some c, Some d) \<Rightarrow> Some (a * 0x1000 + b * 0x100 + c * 0x10 + d, s)
       | _ \<Rightarrow> None)
   | _ \<Rightarrow> None)"

fun next_byte_in_range :: "(nat \<times> nat) list \<Rightarrow> string \<Rightarrow> (string \<times> string) option" where
  "next_byte_in_range [] s = Some ([], s)"
| "next_byte_in_range (r # rs) [] = None"
| "next_byte_in_range (r # rs) (c # s) =
     (if fst r \<le> of_char c \<and> of_char c \<le> snd r
      then map_option (\<lambda>(bs, s). (c # bs, s)) (next_byte_in_range rs s) else None)"

definition utf8_encode :: "nat \<Rightarrow> string" where
  "utf8_encode cp = map char_of
     (if cp < 0x80 then [cp]
      else if cp \<le> 0x7FF then [or 0xC0 (drop_bit 6 cp), or 0x80 (and cp 0x3F)]
      else if cp \<le> 0xFFFF then [or 0xE0 (drop_bit 12 cp), or 0x80 (and (drop_bit 6 cp) 0x3F), or 0x80 (and cp 0x3F)]
      else [or 0xF0 (drop_bit 18 cp), or 0x80 (and (drop_bit 12 cp) 0x3F), or 0x80 (and (drop_bit 6 cp) 0x3F),
        or 0x80 (and cp 0x3F)])"

text \<open>Behind \<open>\\u\<close>: the bytes of the character and the rest.\<close>

definition scan_unicode :: "string \<Rightarrow> (string \<times> string) option" where
  "scan_unicode s = (case get_codepoint s of None \<Rightarrow> None
   | Some (codepoint1, s) \<Rightarrow>
       if 0xD800 \<le> codepoint1 \<and> codepoint1 \<le> 0xDBFF then
         (case s of a # b # s \<Rightarrow>
            if a = CHR 0x5C \<and> b = CHR ''u'' then
              (case get_codepoint s of None \<Rightarrow> None
               | Some (codepoint2, s) \<Rightarrow>
                   if 0xDC00 \<le> codepoint2 \<and> codepoint2 \<le> 0xDFFF
                   then Some (utf8_encode (push_bit 10 codepoint1 + codepoint2 - 0x35FDC00), s) else None)
            else None
          | _ \<Rightarrow> None)
       else if 0xDC00 \<le> codepoint1 \<and> codepoint1 \<le> 0xDFFF then None
       else Some (utf8_encode codepoint1, s))"

definition scan_escape :: "string \<Rightarrow> (string \<times> string) option" where
  "scan_escape s = (case s of [] \<Rightarrow> None
   | c # s \<Rightarrow>
       if c = CHR 0x22 then Some ([CHR 0x22], s)
       else if c = CHR 0x5C then Some ([CHR 0x5C], s)
       else if c = CHR ''/'' then Some ([CHR ''/''], s)
       else if c = CHR ''b'' then Some ([CHR 0x08], s)
       else if c = CHR ''f'' then Some ([CHR 0x0C], s)
       else if c = CHR ''n'' then Some ([CHR 0x0A], s)
       else if c = CHR ''r'' then Some ([CHR 0x0D], s)
       else if c = CHR ''t'' then Some ([CHR 0x09], s)
       else if c = CHR ''u'' then scan_unicode s
       else None)"

text \<open>The bytes that may follow a first byte; \<open>None\<close> for a byte that is no first byte.\<close>

definition utf8_ranges :: "nat \<Rightarrow> (nat \<times> nat) list option" where
  "utf8_ranges n =
     (if 0x20 \<le> n \<and> n \<le> 0x7F then Some []
      else if 0xC2 \<le> n \<and> n \<le> 0xDF then Some [(0x80, 0xBF)]
      else if n = 0xE0 then Some [(0xA0, 0xBF), (0x80, 0xBF)]
      else if 0xE1 \<le> n \<and> n \<le> 0xEC \<or> n = 0xEE \<or> n = 0xEF then Some [(0x80, 0xBF), (0x80, 0xBF)]
      else if n = 0xED then Some [(0x80, 0x9F), (0x80, 0xBF)]
      else if n = 0xF0 then Some [(0x90, 0xBF), (0x80, 0xBF), (0x80, 0xBF)]
      else if 0xF1 \<le> n \<and> n \<le> 0xF3 then Some [(0x80, 0xBF), (0x80, 0xBF), (0x80, 0xBF)]
      else if n = 0xF4 then Some [(0x80, 0x8F), (0x80, 0xBF), (0x80, 0xBF)]
      else None)"

text \<open>What one round of the loop adds, for any character but the closing quote.\<close>

definition scan_part :: "char \<Rightarrow> string \<Rightarrow> (string \<times> string) option" where
  "scan_part c s =
     (if c = CHR 0x5C then scan_escape s
      else case utf8_ranges (of_char c) of None \<Rightarrow> None
         | Some rs \<Rightarrow> map_option (\<lambda>(bs, s). (c # bs, s)) (next_byte_in_range rs s))"

lemma get_codepoint_length: "get_codepoint s = Some (n, r) \<Longrightarrow> length r \<le> length s"
  by (auto simp: get_codepoint_def split: list.splits option.splits)

lemma next_byte_length: "next_byte_in_range rs s = Some (bs, r) \<Longrightarrow> length r \<le> length s"
  by (induction rs s arbitrary: bs rule: next_byte_in_range.induct) (fastforce split: if_splits)+

lemma scan_unicode_length: "scan_unicode s = Some (bs, r) \<Longrightarrow> length r \<le> length s"
  by (auto simp: scan_unicode_def split: option.splits if_splits list.splits dest!: get_codepoint_length)

lemma scan_part_length: "scan_part c s = Some (bs, r) \<Longrightarrow> length r \<le> length s"
  by (auto simp: scan_part_def scan_escape_def split: option.splits if_splits list.splits
    dest!: scan_unicode_length next_byte_length)

text \<open>The characters up to the closing quote, and the rest.\<close>

function scan_string :: "string \<Rightarrow> (string \<times> string) option" where
  "scan_string [] = None"
| "scan_string (c # s) =
     (if c = CHR 0x22 then Some ([], s)
      else case scan_part c s of None \<Rightarrow> None
         | Some (bs, s) \<Rightarrow> map_option (\<lambda>(t, s). (bs @ t, s)) (scan_string s))"
  by pat_completeness auto

termination by (relation "measure length") (auto dest: scan_part_length)

datatype num_state = N_minus | N_zero | N_any1 | N_decimal1 | N_decimal2 | N_exponent | N_sign | N_any2
datatype num_type = Num_unsigned | Num_integer | Num_float

definition is_digit :: "char \<Rightarrow> bool" where
  "is_digit c = (c \<in> decimal_digits)"

fun num_next :: "num_state \<Rightarrow> char \<Rightarrow> num_state option" where
  "num_next N_minus c = (if c = CHR ''0'' then Some N_zero else if is_digit c then Some N_any1 else None)"
| "num_next N_zero c = (if c = CHR ''.'' then Some N_decimal1
     else if c = CHR ''e'' \<or> c = CHR ''E'' then Some N_exponent else None)"
| "num_next N_any1 c = (if is_digit c then Some N_any1 else if c = CHR ''.'' then Some N_decimal1
     else if c = CHR ''e'' \<or> c = CHR ''E'' then Some N_exponent else None)"
| "num_next N_decimal1 c = (if is_digit c then Some N_decimal2 else None)"
| "num_next N_decimal2 c = (if is_digit c then Some N_decimal2
     else if c = CHR ''e'' \<or> c = CHR ''E'' then Some N_exponent else None)"
| "num_next N_exponent c = (if c = CHR ''+'' \<or> c = CHR ''-'' then Some N_sign else if is_digit c then Some N_any2 else None)"
| "num_next N_sign c = (if is_digit c then Some N_any2 else None)"
| "num_next N_any2 c = (if is_digit c then Some N_any2 else None)"

text \<open>The labels that go on to \<open>scan_number_done\<close> for any other character, and those that set the type.\<close>

definition num_done :: "num_state \<Rightarrow> bool" where
  "num_done st = (st = N_zero \<or> st = N_any1 \<or> st = N_decimal2 \<or> st = N_any2)"

definition num_enter :: "num_state \<Rightarrow> num_type \<Rightarrow> num_type" where
  "num_enter st ty = (if st = N_minus then Num_integer else if st = N_decimal1 \<or> st = N_exponent then Num_float else ty)"

fun num_loop :: "num_state \<Rightarrow> num_type \<Rightarrow> string \<Rightarrow> string \<Rightarrow> (num_type \<times> string \<times> string) option" where
  "num_loop st ty buf [] = (if num_done st then Some (num_enter st ty, buf, []) else None)"
| "num_loop st ty buf (c # s) = (case num_next st c of
     Some st' \<Rightarrow> num_loop st' (num_enter st ty) (buf @ [c]) s
   | None \<Rightarrow> if num_done st then Some (num_enter st ty, buf, c # s) else None)"

definition scan_number :: "(string \<Rightarrow> string option) \<Rightarrow> char \<Rightarrow> string \<Rightarrow> token \<times> string" where
  "scan_number strtod c s =
     (case num_loop (if c = CHR ''-'' then N_minus else if c = CHR ''0'' then N_zero else N_any1) Num_unsigned [c] s of
        None \<Rightarrow> (T_parse_error, s)
      | Some (ty, buf, s) \<Rightarrow>
          (if ty = Num_unsigned \<and> dec_val buf < 2 ^ 64 then T_unsigned (dec_val buf)
           else if ty = Num_integer \<and> dec_val (tl buf) \<le> 2 ^ 63 then T_integer (- int (dec_val (tl buf)))
           else T_float (strtod buf), s))"

definition scan_literal :: "string \<Rightarrow> token \<Rightarrow> string \<Rightarrow> token \<times> string" where
  "scan_literal literal_text return_type s =
     (if take (length literal_text) s = literal_text then (return_type, drop (length literal_text) s)
      else (T_parse_error, s))"

definition is_blank :: "char \<Rightarrow> bool" where
  "is_blank c = (c = CHR '' '' \<or> c = CHR 0x09 \<or> c = CHR 0x0A \<or> c = CHR 0x0D)"

text \<open>The literals without their first characters.\<close>

definition scan :: "(string \<Rightarrow> string option) \<Rightarrow> string \<Rightarrow> token \<times> string" where
  "scan strtod s = (case dropWhile is_blank s of
     [] \<Rightarrow> (T_end_of_input, [])
   | c # s \<Rightarrow>
       if c = CHR ''['' then (T_begin_array, s)
       else if c = CHR '']'' then (T_end_array, s)
       else if c = CHR ''{'' then (T_begin_object, s)
       else if c = CHR ''}'' then (T_end_object, s)
       else if c = CHR '':'' then (T_name_separator, s)
       else if c = CHR '','' then (T_value_separator, s)
       else if c = CHR ''t'' then scan_literal ''rue'' T_literal_true s
       else if c = CHR ''f'' then scan_literal ''alse'' T_literal_false s
       else if c = CHR ''n'' then scan_literal ''ull'' T_literal_null s
       else if c = CHR 0x22 then (case scan_string s of None \<Rightarrow> (T_parse_error, s) | Some (t, s) \<Rightarrow> (T_string t, s))
       else if c = CHR ''-'' \<or> is_digit c then scan_number strtod c s
       else if c = CHR 0x00 then (T_end_of_input, s)
       else (T_parse_error, s))"

definition skip_bom :: "string \<Rightarrow> string option" where
  "skip_bom s = (case s of [] \<Rightarrow> Some s
   | c # r \<Rightarrow> if c \<noteq> CHR 0xEF then Some s
       else if take 2 r = [CHR 0xBB, CHR 0xBF] then Some (drop 2 r) else None)"

lemma scan_string_length: "scan_string s = Some (t, r) \<Longrightarrow> length r < length s"
proof (induction s arbitrary: t rule: scan_string.induct)
  case (2 c s)
  then show ?case by (fastforce split: if_splits option.splits dest: scan_part_length)
qed simp

lemma num_loop_length: "num_loop st ty buf s = Some (ty', buf', r) \<Longrightarrow> length r \<le> length s"
  by (induction st ty buf s rule: num_loop.induct) (auto split: option.splits if_splits)

lemma scan_length:
  assumes "scan strtod s = (tok, r)"
  shows "length r + (if tok = T_end_of_input then 0 else 1) \<le> length s"
proof (cases "dropWhile is_blank s")
  case Nil
  with assms show ?thesis by (simp add: scan_def)
next
  case (Cons c s')
  have "length (dropWhile is_blank s) \<le> length s" by (rule length_dropWhile_le)
  then have "length s' < length s" using Cons by simp
  moreover have "length r \<le> length s'"
    using assms Cons
    by (auto simp: scan_def scan_literal_def scan_number_def split: if_splits option.splits
      dest!: scan_string_length num_loop_length)
  ultimately show ?thesis by simp
qed

subsection \<open>Parser\<close>

text \<open>
  The containers that are open, the innermost first, with the key whose value comes next; they stand for the
  stack \<open>states\<close> of the parser and for \<open>ref_stack\<close> and \<open>object_element\<close> of the SAX consumer that builds the value.
  \<open>p_value\<close> is the first half of the loop in \<open>sax_parse_internal\<close>, \<open>p_state\<close> the second, for a value that is complete;
  both return the value and the rest of the text.
\<close>

datatype frame = Frame_array "json list" | Frame_object "(string \<times> json) list" string

text \<open>A key with its colon: the key, the first token of the value, and the rest.\<close>

definition scan_key :: "(string \<Rightarrow> string option) \<Rightarrow> token \<Rightarrow> string \<Rightarrow> (string \<times> token \<times> string) option" where
  "scan_key strtod tok s = (case tok of
     T_string key \<Rightarrow> (case scan strtod s of
         (T_name_separator, s) \<Rightarrow> Some (key, scan strtod s)
       | _ \<Rightarrow> None)
   | _ \<Rightarrow> None)"

lemma scan_key_length:
  assumes "scan_key strtod tok s = Some (key, tok', r)"
  shows "length r + (if tok' = T_end_of_input then 0 else 1) \<le> length s - 1 \<and> s \<noteq> []"
proof -
  obtain k s' where k: "tok = T_string k" "scan strtod s = (T_name_separator, s')" "scan strtod s' = (tok', r)"
    using assms by (auto simp: scan_key_def split: token.splits prod.splits)
  from scan_length[OF k(2)] scan_length[OF k(3)] show ?thesis by (cases s) auto
qed

function p_value :: "(string \<Rightarrow> string option) \<Rightarrow> token \<Rightarrow> string \<Rightarrow> frame list \<Rightarrow> fault + json \<times> string"
  and p_state :: "(string \<Rightarrow> string option) \<Rightarrow> json \<Rightarrow> string \<Rightarrow> frame list \<Rightarrow> fault + json \<times> string"
where
  "p_value strtod tok s states = (case tok of
     T_begin_object \<Rightarrow> (case scan strtod s of (tok, s) \<Rightarrow>
       if tok = T_end_object then p_state strtod (J_object []) s states
       else case scan_key strtod tok s of None \<Rightarrow> Inl Parse_error
          | Some (key, tok, s) \<Rightarrow> p_value strtod tok s (Frame_object [] key # states))
   | T_begin_array \<Rightarrow> (case scan strtod s of (tok, s) \<Rightarrow>
       if tok = T_end_array then p_state strtod (J_array []) s states
       else p_value strtod tok s (Frame_array [] # states))
   | T_float None \<Rightarrow> Inl Out_of_range
   | T_float (Some t) \<Rightarrow> p_state strtod (J_float t) s states
   | T_literal_false \<Rightarrow> p_state strtod (J_bool False) s states
   | T_literal_null \<Rightarrow> p_state strtod J_null s states
   | T_literal_true \<Rightarrow> p_state strtod (J_bool True) s states
   | T_integer x \<Rightarrow> p_state strtod (J_integer x) s states
   | T_string t \<Rightarrow> p_state strtod (J_string t) s states
   | T_unsigned n \<Rightarrow> p_state strtod (J_unsigned n) s states
   | _ \<Rightarrow> Inl Parse_error)"
| "p_state strtod v s states = (case states of
     [] \<Rightarrow> Inr (v, s)
   | Frame_array xs # states \<Rightarrow> (case scan strtod s of (tok, s) \<Rightarrow>
       if tok = T_value_separator then (case scan strtod s of (tok, s) \<Rightarrow> p_value strtod tok s (Frame_array (xs @ [v]) # states))
       else if tok = T_end_array then p_state strtod (J_array (xs @ [v])) s states
       else Inl Parse_error)
   | Frame_object kvs key # states \<Rightarrow> (case scan strtod s of (tok, s) \<Rightarrow>
       if tok = T_value_separator then (case scan strtod s of (tok, s) \<Rightarrow>
         (case scan_key strtod tok s of None \<Rightarrow> Inl Parse_error
          | Some (key', tok, s) \<Rightarrow> p_value strtod tok s (Frame_object (om_set string_less key v kvs) key' # states)))
       else if tok = T_end_object then p_state strtod (J_object (om_set string_less key v kvs)) s states
       else Inl Parse_error))"
  by pat_completeness auto

termination
proof (relation "measure (\<lambda>a. case a of
    Inl (strtod, tok, s, states) \<Rightarrow> 2 * length s + (if tok = T_end_of_input then 0 else 2)
  | Inr (strtod, v, s, states) \<Rightarrow> 2 * length s + 1)", goal_cases)
qed (auto dest!: scan_length[OF sym] scan_length scan_key_length split: if_splits)

declare p_value.simps [simp del] p_state.simps [simp del]

definition json_parse :: "(string \<Rightarrow> string option) \<Rightarrow> string \<Rightarrow> fault + json" where
  "json_parse strtod s = (case skip_bom s of None \<Rightarrow> Inl Parse_error
   | Some s \<Rightarrow> (case scan strtod s of (tok, s) \<Rightarrow> bindE (p_value strtod tok s []) (\<lambda>(v, s).
       if fst (scan strtod s) = T_end_of_input then Inr v else Inl Parse_error)))"

end
