(* ===== verification/JsonUtf8.thy ===== *)
theory JsonUtf8
  imports JsonText
begin

text \<open>
  Strings of JSON: what the decoder of the serializer lets through is what the lexer accepts, byte by byte, and an
  escaped string is read back.
\<close>

subsection \<open>UTF-8\<close>

definition byte_type :: "nat \<Rightarrow> nat" where
  "byte_type b = (if b < 0x80 then 0 else if b < 0x90 then 1 else if b < 0xA0 then 9 else if b < 0xC0 then 7
     else if b < 0xC2 then 8 else if b < 0xE0 then 2 else if b = 0xE0 then 10 else if b = 0xED then 4
     else if b < 0xF0 then 3 else if b = 0xF0 then 11 else if b < 0xF4 then 6 else if b = 0xF4 then 5 else 8)"

lemma utf8d_types: "take 256 utf8d = map byte_type [0..<256]"
  by code_simp

lemma utf8d_byte: "b < 256 \<Longrightarrow> utf8d ! b = byte_type b"
  using arg_cong[OF utf8d_types, of "\<lambda>xs. xs ! b"] by simp

definition utf8_rows :: "nat list" where
  "utf8_rows = drop 256 utf8d"

lemmas utf8_rows_eq = utf8_rows_def[unfolded utf8d_def, simplified]

lemma utf8d_row: "utf8d ! (256 + n) = utf8_rows ! n"
  by (simp add: utf8_rows_def utf8d_def)

text \<open>What may follow in a state of the decoder, and the least value of the code point so far.\<close>

definition st_ranges :: "nat \<Rightarrow> (nat \<times> nat) list" where
  "st_ranges st =
     (if st = 2 then [(0x80, 0xBF)]
      else if st = 3 then [(0x80, 0xBF), (0x80, 0xBF)]
      else if st = 4 then [(0xA0, 0xBF), (0x80, 0xBF)]
      else if st = 5 then [(0x80, 0x9F), (0x80, 0xBF)]
      else if st = 6 then [(0x90, 0xBF), (0x80, 0xBF), (0x80, 0xBF)]
      else if st = 7 then [(0x80, 0xBF), (0x80, 0xBF), (0x80, 0xBF)]
      else if st = 8 then [(0x80, 0x8F), (0x80, 0xBF), (0x80, 0xBF)]
      else [])"

definition st_low :: "nat \<Rightarrow> nat" where
  "st_low st = (if st = 0 then 0x80 else if st = 2 then 2 else if st = 4 \<or> st = 6 then 0 else 1)"

definition st_inside :: "nat \<Rightarrow> bool" where
  "st_inside st = (2 \<le> st \<and> st \<le> 8)"

lemma rows_first:
  "utf8_rows ! byte_type b = (if b < 0x80 then 0 else if b < 0xC2 then 1 else if b < 0xE0 then 2 else if b = 0xE0 then 4
     else if b = 0xED then 5 else if b < 0xF0 then 3 else if b = 0xF0 then 6 else if b < 0xF4 then 7 else if b = 0xF4 then 8 else 1)"
  by (simp add: byte_type_def utf8_rows_eq)

lemma rows_next:
  "utf8_rows ! (32 + byte_type b) = (if 0x80 \<le> b \<and> b \<le> 0xBF then 0 else 1)"
  "utf8_rows ! (48 + byte_type b) = (if 0x80 \<le> b \<and> b \<le> 0xBF then 2 else 1)"
  "utf8_rows ! (64 + byte_type b) = (if 0xA0 \<le> b \<and> b \<le> 0xBF then 2 else 1)"
  "utf8_rows ! (80 + byte_type b) = (if 0x80 \<le> b \<and> b \<le> 0x9F then 2 else 1)"
  "utf8_rows ! (96 + byte_type b) = (if 0x90 \<le> b \<and> b \<le> 0xBF then 3 else 1)"
  "utf8_rows ! (112 + byte_type b) = (if 0x80 \<le> b \<and> b \<le> 0xBF then 3 else 1)"
  "utf8_rows ! (128 + byte_type b) = (if 0x80 \<le> b \<and> b \<le> 0x8F then 3 else 1)"
  by (auto simp: byte_type_def utf8_rows_eq)

lemma and_low: "and b (2 ^ n - 1) = b mod 2 ^ n" for b :: nat
  by (simp add: take_bit_eq_mod[symmetric] take_bit_eq_mask mask_eq_exp_minus_1)

lemma type_mask:
  assumes "b < 256"
  shows "and (drop_bit (byte_type b) 0xFF) b = b mod 2 ^ (8 - byte_type b)"
proof -
  have "drop_bit (byte_type b) (0xFF :: nat) = 2 ^ (8 - byte_type b) - 1" by (simp add: byte_type_def)
  then show ?thesis by (simp only: and.commute[of _ b] and_low)
qed

lemma or_shifted: "or (and b 0x3F) (push_bit 6 c) = b mod 64 + 64 * c" for b c :: nat
proof -
  have m: "and b 0x3F = take_bit 6 b" using and_low[of b 6] by (simp add: take_bit_eq_mod)
  have "and (take_bit 6 b) (push_bit 6 c) = 0" by (auto simp: bit_eq_iff bit_simps)
  then have "take_bit 6 b + push_bit 6 c = or (take_bit 6 b) (push_bit 6 c)" by (rule disjunctive_add_eq_or)
  then show ?thesis unfolding m by (simp add: take_bit_eq_mod push_bit_eq_mult mult.commute)
qed

text \<open>A first byte is ASCII, or what its ranges and the code point say.\<close>

lemma decode_ascii:
  assumes "b < 0x80"
  shows "utf8_decode 0 c b = (0, b)"
  using assms type_mask[of b] by (simp add: utf8_decode_def utf8d_byte utf8d_row rows_first Let_def) (simp add: byte_type_def)

lemma decode_first:
  assumes "0x80 \<le> b" "b < 256" "utf8_decode 0 c b = (st, cp)"
  shows "if st = 1 then utf8_ranges b = None else utf8_ranges b = Some (st_ranges st) \<and> st_inside st \<and> st_low st \<le> cp"
proof -
  have st: "st = utf8_rows ! byte_type b" "cp = b mod 2 ^ (8 - byte_type b)"
    using assms(2,3) by (auto simp: utf8_decode_def utf8d_byte utf8d_row Let_def type_mask)
  note st = st(1)[unfolded rows_first] st(2)
  consider "b < 0xC2" | "0xC2 \<le> b" "b < 0xE0" | "b = 0xE0" | "b = 0xED" | "0xE0 < b" "b < 0xED" | "0xED < b" "b < 0xF0"
    | "b = 0xF0" | "0xF0 < b" "b < 0xF4" | "b = 0xF4" | "0xF4 < b" by linarith
  then show ?thesis
  proof cases
    case 2
    then have "b mod 64 = b - 192" using le_mod_geq[of 64 b] le_mod_geq[of 64 "b - 64"] le_mod_geq[of 64 "b - 128"] by simp
    with 2 show ?thesis by (simp add: st utf8_ranges_def st_ranges_def st_inside_def st_low_def byte_type_def)
  next
    case 5
    then have "b mod 32 \<noteq> 0" by presburger
    with 5 show ?thesis by (simp add: st utf8_ranges_def st_ranges_def st_inside_def st_low_def byte_type_def)
  next
    case 6
    then have "b = 238 \<or> b = 239" by linarith
    then show ?thesis by (auto simp: st utf8_ranges_def st_ranges_def st_inside_def st_low_def byte_type_def)
  next
    case 8
    then have "b mod 4 \<noteq> 0" by presburger
    with 8 show ?thesis by (simp add: st utf8_ranges_def st_ranges_def st_inside_def st_low_def byte_type_def)
  qed (use assms in \<open>simp_all add: st utf8_ranges_def st_ranges_def st_inside_def st_low_def byte_type_def\<close>)
qed

lemma decode_next:
  assumes "st_inside st" "b < 256" "utf8_decode st c b = (st', cp)"
  shows "\<exists>lo hi rs. st_ranges st = (lo, hi) # rs \<and> (if st' = 1 then \<not> (lo \<le> b \<and> b \<le> hi)
    else lo \<le> b \<and> b \<le> hi \<and> st_ranges st' = rs \<and> (st' = 0 \<or> st_inside st')
      \<and> (st_low st \<le> c \<longrightarrow> st_low st' \<le> cp))"
proof -
  have cp: "cp = b mod 64 + 64 * c" using assms(1,3) by (auto simp: utf8_decode_def st_inside_def Let_def or_shifted)
  have st': "st' = utf8_rows ! (16 * st + byte_type b)"
    using assms(1-3) utf8d_row[of "16 * st + byte_type b"]
    by (simp add: utf8_decode_def utf8d_byte st_inside_def Let_def mult.commute add.assoc)
  have m: "b mod 64 = b - 128" if "128 \<le> b" "b < 192" using that le_mod_geq[of 64 b] le_mod_geq[of 64 "b - 64"] by simp
  consider "st = 2" | "st = 3" | "st = 4" | "st = 5" | "st = 6" | "st = 7" | "st = 8"
    using assms(1) unfolding st_inside_def by linarith
  then show ?thesis
    by cases (use cp st' m in \<open>auto simp: rows_next st_ranges_def st_inside_def st_low_def\<close>)
qed

subsection \<open>Strings\<close>

text \<open>The bytes that complete a character are copied, and are what the lexer expects there.\<close>

lemma escape_run:
  assumes "st_inside st" "st_low st \<le> c" "escape_loop st c s = Inr t"
  shows "\<exists>bs s' t' c'. s = bs @ s' \<and> t = bs @ t' \<and> (\<forall>x. next_byte_in_range (st_ranges st) (bs @ x) = Some (bs, x))
     \<and> escape_loop 0 c' s' = Inr t'"
  using assms
proof (induction s arbitrary: st c t)
  case (Cons a s)
  obtain st' cp where d: "utf8_decode st c (of_char a) = (st', cp)" by force
  obtain lo hi rs where r: "st_ranges st = (lo, hi) # rs"
      "if st' = 1 then \<not> (lo \<le> of_char a \<and> of_char a \<le> hi)
       else lo \<le> of_char a \<and> of_char a \<le> hi \<and> st_ranges st' = rs \<and> (st' = 0 \<or> st_inside st') \<and> st_low st' \<le> cp"
    using decode_next[OF Cons.prems(1) nat_of_char_less_256 d] Cons.prems(2) by auto
  obtain t' where t: "st' \<noteq> 1" "escape_loop st' cp s = Inr t'" "t = (if st' = 0 then escape_char cp a else [a]) @ t'"
    using Cons.prems(3) d by (auto split: if_splits)
  show ?case
  proof (cases "st' = 0")
    case True
    then have "escape_char cp a = [a]" using r t(1) by (auto simp: escape_char_def st_low_def)
    with True t r show ?thesis by (intro exI[of _ "[a]"] exI[of _ s] exI[of _ t'] exI[of _ cp]) (auto simp: st_ranges_def)
  next
    case False
    with r t(1) have "st_inside st'" "st_low st' \<le> cp" by auto
    from Cons.IH[OF this t(2)] obtain bs s' t'' c' where
      "s = bs @ s'" "t' = bs @ t''" "\<forall>x. next_byte_in_range (st_ranges st') (bs @ x) = Some (bs, x)" "escape_loop 0 c' s' = Inr t''"
      by blast
    with False t r show ?thesis by (intro exI[of _ "a # bs"] exI[of _ s'] exI[of _ t''] exI[of _ c']) auto
  qed
qed (auto simp: st_inside_def)

lemma hex_digits: "n < 16 \<Longrightarrow> hex_val (''0123456789abcdef'' ! n) = Some n"
proof -
  have "list_all (\<lambda>n. hex_val (''0123456789abcdef'' ! n) = Some n) [0..<16]" by code_simp
  then show "n < 16 \<Longrightarrow> hex_val (''0123456789abcdef'' ! n) = Some n" by (simp add: list_all_iff)
qed

lemma codepoint_hex4:
  assumes "n < 0x10000"
  shows "get_codepoint (hex4 n @ r) = Some (n, r)"
proof -
  define a b c where abc: "a = n div 16" "b = a div 16" "c = b div 16"
  have n: "16 * a + n mod 16 = n" "16 * b + a mod 16 = a" "16 * c + b mod 16 = b"
    unfolding abc by (rule mult_div_mod_eq)+
  with assms have "c < 16" by linarith
  moreover have "n div 256 = b" "n div 4096 = c" by (simp_all add: abc div_mult2_eq[symmetric])
  ultimately show ?thesis using n by (simp add: get_codepoint_def hex4_def hex_digits flip: abc(1))
qed

lemma char_of_code: "of_char c = n \<Longrightarrow> c = char_of n" for n :: nat
  by auto

lemma code_chars: "char_of (0x08 :: nat) = CHR 0x08" "char_of (0x09 :: nat) = CHR 0x09" "char_of (0x0A :: nat) = CHR 0x0A"
    "char_of (0x0C :: nat) = CHR 0x0C" "char_of (0x0D :: nat) = CHR 0x0D" "char_of (0x22 :: nat) = CHR 0x22"
    "char_of (0x5C :: nat) = CHR 0x5C"
  by code_simp+

text \<open>One character of ASCII, escaped and read back.\<close>

lemma scan_escaped_char:
  assumes "(of_char c :: nat) < 0x80"
  shows "\<exists>d u. escape_char (of_char c) c = d # u \<and> d \<noteq> CHR 0x22 \<and> scan_part d (u @ r) = Some ([c], r)"
proof -
  let ?n = "of_char c :: nat"
  consider "?n \<in> {0x08, 0x09, 0x0A, 0x0C, 0x0D, 0x22, 0x5C}" | "?n \<notin> {0x08, 0x09, 0x0A, 0x0C, 0x0D, 0x22, 0x5C}" "?n \<le> 0x1F"
    | "?n \<notin> {0x08, 0x09, 0x0A, 0x0C, 0x0D, 0x22, 0x5C}" "0x20 \<le> ?n" by fastforce
  then show ?thesis
  proof cases
    case 1
    then show ?thesis by (auto simp: escape_char_def scan_part_def scan_escape_def code_chars dest!: char_of_code)
  next
    case 2
    then have "escape_char ?n c = CHR 0x5C # CHR ''u'' # hex4 ?n" by (simp add: escape_char_def)
    moreover have "scan_unicode (hex4 ?n @ r) = Some ([c], r)"
      using 2(2) by (simp add: scan_unicode_def codepoint_hex4 utf8_encode_def)
    ultimately show ?thesis by (simp add: scan_part_def scan_escape_def)
  next
    case 3
    then have "c \<noteq> CHR 0x22" "c \<noteq> CHR 0x5C" by auto
    with 3 assms show ?thesis by (simp add: escape_char_def scan_part_def utf8_ranges_def)
  qed
qed

lemma scan_escaped:
  assumes "escape_loop 0 c s = Inr t"
  shows "scan_string (t @ CHR 0x22 # r) = Some (s, r)"
  using assms
proof (induction "length s" arbitrary: c s t rule: less_induct)
  case less
  show ?case
  proof (cases s)
    case Nil
    with less.prems show ?thesis by simp
  next
    case (Cons a s')
    show ?thesis
    proof (cases "(of_char a :: nat) < 0x80")
      case True
      then obtain t' where t: "escape_loop 0 (of_char a) s' = Inr t'" "t = escape_char (of_char a) a @ t'"
        using less.prems Cons by (auto simp: decode_ascii)
      have ih: "scan_string (t' @ CHR 0x22 # r) = Some (s', r)" by (rule less.hyps[OF _ t(1)]) (simp add: Cons)
      obtain d u where "escape_char (of_char a) a = d # u" "d \<noteq> CHR 0x22"
          "scan_part d (u @ t' @ CHR 0x22 # r) = Some ([a], t' @ CHR 0x22 # r)"
        using scan_escaped_char[OF True] by blast
      with ih show ?thesis by (simp add: t(2) Cons)
    next
      case False
      obtain st cp where d: "utf8_decode 0 c (of_char a) = (st, cp)" by force
      have st: "st \<noteq> 1" using less.prems Cons d by auto
      then have f: "utf8_ranges (of_char a) = Some (st_ranges st)" "st_inside st" "st_low st \<le> cp"
        using decode_first[OF _ nat_of_char_less_256 d] False by auto
      then obtain t1 where t1: "escape_loop st cp s' = Inr t1" "t = a # t1"
        using less.prems Cons d by (auto simp: st_inside_def)
      from escape_run[OF f(2,3) t1(1)] obtain bs s2 t2 c2 where
        r: "s' = bs @ s2" "t1 = bs @ t2" "\<forall>x. next_byte_in_range (st_ranges st) (bs @ x) = Some (bs, x)" "escape_loop 0 c2 s2 = Inr t2"
        by blast
      have "scan_string (t2 @ CHR 0x22 # r) = Some (s2, r)" by (rule less.hyps[OF _ r(4)]) (simp add: Cons r(1))
      moreover have "a \<noteq> CHR 0x22" "a \<noteq> CHR 0x5C" using False by auto
      ultimately show ?thesis using r f(1) by (simp add: Cons t1(2) scan_part_def)
    qed
  qed
qed

subsection \<open>What the lexer returns\<close>

text \<open>Whole characters: the decoder is in its first state behind them.\<close>

definition whole :: "string \<Rightarrow> bool" where
  "whole bs = (\<exists>u. \<forall>c x. escape_loop 0 c (bs @ x) = bindE (escape_loop 0 0 x) (\<lambda>t. Inr (u @ t)))"

lemma decode_start: "utf8_decode 0 c b = utf8_decode 0 0 b"
  by (simp add: utf8_decode_def)

lemma escape_loop_start: "escape_loop 0 c s = escape_loop 0 0 s"
  by (cases s) (simp_all add: decode_start[of c])

lemma whole_Nil: "whole []"
  unfolding whole_def
proof (intro exI[of _ "[]"] allI)
  show "escape_loop 0 c ([] @ x) = bindE (escape_loop 0 0 x) (\<lambda>t. Inr ([] @ t))" for c x
    using escape_loop_start[of c x] by simp
qed

lemma whole_append:
  assumes "whole xs" "whole ys"
  shows "whole (xs @ ys)"
proof -
  obtain u v where "\<And>c x. escape_loop 0 c (xs @ x) = bindE (escape_loop 0 0 x) (\<lambda>t. Inr (u @ t))"
      "\<And>c x. escape_loop 0 c (ys @ x) = bindE (escape_loop 0 0 x) (\<lambda>t. Inr (v @ t))"
    using assms unfolding whole_def by blast
  then show ?thesis unfolding whole_def by (intro exI[of _ "u @ v"]) (simp add: bindE_assoc)
qed

lemma whole_ascii:
  assumes "(of_char c :: nat) < 0x80"
  shows "whole [c]"
  unfolding whole_def
  by (intro exI[of _ "escape_char (of_char c) c"]) (simp add: decode_ascii[OF assms] escape_loop_start[of "of_char c"])

lemma whole_run:
  assumes "st_inside st" "next_byte_in_range (st_ranges st) s = Some (bs, r)"
  shows "\<exists>u. \<forall>x. escape_loop st c (bs @ x) = bindE (escape_loop 0 0 x) (\<lambda>t. Inr (u @ t))"
  using assms
proof (induction s arbitrary: st c bs)
  case (Cons a s)
  obtain st' cp where d: "utf8_decode st c (of_char a) = (st', cp)" by force
  obtain lo hi rs where r: "st_ranges st = (lo, hi) # rs" "if st' = 1 then \<not> (lo \<le> of_char a \<and> of_char a \<le> hi)
       else st_ranges st' = rs \<and> (st' = 0 \<or> st_inside st')"
    using decode_next[OF Cons.prems(1) nat_of_char_less_256 d] by (auto split: if_splits)
  obtain bs' where b: "lo \<le> of_char a" "of_char a \<le> hi" "next_byte_in_range rs s = Some (bs', r)" "bs = a # bs'"
    using Cons.prems(2) r(1) by (auto split: if_splits)
  then have st': "st' \<noteq> 1" "st_ranges st' = rs" "st' = 0 \<or> st_inside st'" using r(2) by (auto split: if_splits)
  show ?case
  proof (cases "st' = 0")
    case True
    then have "bs' = []" using st'(2) b(3) by (auto simp: st_ranges_def)
    with True d show ?thesis
      by (intro exI[of _ "escape_char cp a"]) (simp add: b(4) escape_loop_start[of cp])
  next
    case False
    then obtain u where "\<forall>x. escape_loop st' cp (bs' @ x) = bindE (escape_loop 0 0 x) (\<lambda>t. Inr (u @ t))"
      using Cons.IH[of st' bs' cp] st' b(3) by auto
    with False st'(1) d show ?thesis by (intro exI[of _ "a # u"]) (simp add: b(4) bindE_assoc)
  qed
next
  case Nil
  then have "2 \<le> st" "st \<le> 8" "st_ranges st = []" by (cases "st_ranges st"; simp add: st_inside_def)+
  then show ?case by (auto simp: st_ranges_def split: if_splits)
qed

lemma whole_ranges:
  assumes "utf8_ranges (of_char c) = Some rs" "next_byte_in_range rs s = Some (bs, r)"
  shows "whole (c # bs)"
proof (cases "(of_char c :: nat) < 0x80")
  case True
  then have "rs = []" using assms(1) by (auto simp: utf8_ranges_def split: if_splits)
  with assms(2) whole_ascii[OF True] show ?thesis by simp
next
  case False
  obtain st cp where "utf8_decode 0 0 (of_char c) = (st, cp)" by force
  then have d: "utf8_decode 0 c' (of_char c) = (st, cp)" for c' by (simp add: decode_start[of c'])
  have st: "st \<noteq> 1" "rs = st_ranges st" "st_inside st"
    using decode_first[OF _ nat_of_char_less_256 d] False assms(1) by (auto split: if_splits)
  with whole_run[OF st(3), of s bs r cp] assms(2) obtain u where
    "\<forall>x. escape_loop st cp (bs @ x) = bindE (escape_loop 0 0 x) (\<lambda>t. Inr (u @ t))" by auto
  with d st(1,3) show ?thesis
    unfolding whole_def by (intro exI[of _ "c # u"]) (simp add: bindE_assoc st_inside_def)
qed

lemma or_add:
  fixes y :: nat
  assumes "y < 2 ^ n"
  shows "or (push_bit n a) y = push_bit n a + y"
proof -
  have "and (push_bit n a) (take_bit n y) = 0" by (auto simp: bit_eq_iff bit_simps)
  moreover have "take_bit n y = y" using assms by (simp add: take_bit_eq_mod)
  ultimately show ?thesis by (simp add: disjunctive_add_eq_or)
qed

lemma or_marks:
  "y < 64 \<Longrightarrow> or 0x80 y = 0x80 + y" "y < 32 \<Longrightarrow> or 0xC0 y = 0xC0 + y" "y < 16 \<Longrightarrow> or 0xE0 y = 0xE0 + y"
  "y < 8 \<Longrightarrow> or 0xF0 y = 0xF0 + y" for y :: nat
  using or_add[of y 6 2] or_add[of y 5 6] or_add[of y 4 14] or_add[of y 3 30] by (simp_all add: push_bit_eq_mult)

lemma and_63: "and n 0x3F = n mod 64" for n :: nat
  using and_low[of n 6] by simp

lemma mod_64_less: "n mod 64 < (64 :: nat)"
  by simp

lemma utf8_encode_bytes:
  "cp < 0x80 \<Longrightarrow> utf8_encode cp = [char_of cp]"
  "0x80 \<le> cp \<Longrightarrow> cp \<le> 0x7FF \<Longrightarrow> utf8_encode cp = map char_of [0xC0 + cp div 64, 0x80 + cp mod 64]"
  "0x800 \<le> cp \<Longrightarrow> cp \<le> 0xFFFF \<Longrightarrow>
     utf8_encode cp = map char_of [0xE0 + cp div 4096, 0x80 + cp div 64 mod 64, 0x80 + cp mod 64]"
  "0x10000 \<le> cp \<Longrightarrow> cp \<le> 0x10FFFF \<Longrightarrow>
     utf8_encode cp = map char_of [0xF0 + cp div 262144, 0x80 + cp div 4096 mod 64, 0x80 + cp div 64 mod 64, 0x80 + cp mod 64]"
  by (simp_all add: utf8_encode_def and_63 or_marks(1)[OF mod_64_less] or_marks(2-4) drop_bit_eq_div less_mult_imp_div_less)

text \<open>A code point that is no surrogate becomes a whole character.\<close>

lemma whole_encode:
  assumes "cp \<le> 0x10FFFF" "\<not> (0xD800 \<le> cp \<and> cp \<le> 0xDFFF)"
  shows "whole (utf8_encode cp)"
proof -
  have m: "n mod 64 < 64" for n :: nat by simp
  have l: "n mod 64 \<le> 63" for n :: nat using m[of n] by linarith
  note r = whole_ranges[where r = "[]"]
  consider "cp < 0x80" | "0x80 \<le> cp" "cp \<le> 0x7FF" | "0x800 \<le> cp" "cp \<le> 0xFFFF" | "0x10000 \<le> cp" using assms by linarith
  then show ?thesis
  proof cases
    case 1
    then show ?thesis using whole_ascii[of "char_of cp"] by (simp add: utf8_encode_bytes)
  next
    case 2
    have d: "2 \<le> cp div 64" "cp div 64 < 32" using 2 by (simp_all add: less_mult_imp_div_less Suc_le_eq less_eq_div_iff_mult_less_eq)
    have "utf8_ranges (of_char (char_of (0xC0 + cp div 64) :: char)) = Some [(0x80, 0xBF)]"
      using d by (simp add: utf8_ranges_def)
    from r[OF this, of "[char_of (0x80 + cp mod 64)]" "[char_of (0x80 + cp mod 64)]"] m[of cp] show ?thesis
      by (simp add: utf8_encode_bytes(2)[OF 2])
  next
    case 3
    define q a where "q = cp div 64" "a = q div 64"
    have q: "cp div 4096 = a" by (simp add: q_a_def div_mult2_eq[symmetric])
    have "64 * q + cp mod 64 = cp" "64 * a + q mod 64 = q" unfolding q_a_def by (rule mult_div_mod_eq)+
    then have b: "a \<le> 15" "a = 0 \<Longrightarrow> 32 \<le> q mod 64" "a = 13 \<Longrightarrow> q mod 64 \<le> 31" using 3 assms(2) m[of cp] m[of q] by linarith+
    obtain rs where "utf8_ranges (of_char (char_of (0xE0 + a) :: char)) = Some rs"
        "rs = [(if a = 0 then 0xA0 else 0x80, if a = 13 then 0x9F else 0xBF), (0x80, 0xBF)]"
      using b(1) by (simp add: utf8_ranges_def)
    moreover have "(if a = 0 then 0xA0 else 0x80) \<le> 0x80 + q mod 64" "0x80 + q mod 64 \<le> (if a = 13 then 0x9F else 0xBF)"
      using b(2,3) m[of q] by auto
    ultimately show ?thesis
      using r[of "char_of (0xE0 + a)" rs "map char_of [0x80 + q mod 64, 0x80 + cp mod 64]" "map char_of [0x80 + q mod 64, 0x80 + cp mod 64]"]
        m[of cp] by (simp add: utf8_encode_bytes(3)[OF 3] q del: of_char_of flip: q_a_def(1)) simp
  next
    case 4
    define q p a where "q = cp div 64" "p = q div 64" "a = p div 64"
    have q: "cp div 4096 = p" "cp div 262144 = a" by (simp_all add: q_p_a_def div_mult2_eq[symmetric])
    have "64 * q + cp mod 64 = cp" "64 * p + q mod 64 = q" "64 * a + p mod 64 = p" unfolding q_p_a_def by (rule mult_div_mod_eq)+
    then have b: "a \<le> 4" "a = 0 \<Longrightarrow> 16 \<le> p mod 64" "a = 4 \<Longrightarrow> p mod 64 \<le> 15"
      using 4 assms(1) m[of cp] m[of q] m[of p] by linarith+
    obtain rs where "utf8_ranges (of_char (char_of (0xF0 + a) :: char)) = Some rs"
        "rs = [(if a = 0 then 0x90 else 0x80, if a = 4 then 0x8F else 0xBF), (0x80, 0xBF), (0x80, 0xBF)]"
      using b(1) by (simp add: utf8_ranges_def)
    moreover have "(if a = 0 then 0x90 else 0x80) \<le> 0x80 + p mod 64" "0x80 + p mod 64 \<le> (if a = 4 then 0x8F else 0xBF)"
      using b(2,3) m[of p] by auto
    ultimately show ?thesis
      using r[of "char_of (0xF0 + a)" rs "map char_of [0x80 + p mod 64, 0x80 + q mod 64, 0x80 + cp mod 64]"
          "map char_of [0x80 + p mod 64, 0x80 + q mod 64, 0x80 + cp mod 64]"]
      by (simp add: utf8_encode_bytes(4)[OF 4 assms(1)] q l del: of_char_of flip: q_p_a_def(1)) (simp add: l)
  qed
qed

lemma hex_val_less: "hex_val c = Some n \<Longrightarrow> n < 16"
  by (auto simp: hex_val_def Let_def split: if_splits)

lemma get_codepoint_less: "get_codepoint s = Some (n, r) \<Longrightarrow> n \<le> 0xFFFF"
  by (auto simp: get_codepoint_def split: list.splits option.splits dest!: hex_val_less)

lemma scan_part_whole:
  assumes "scan_part c s = Some (bs, r)"
  shows "whole bs"
proof (cases "c = CHR 0x5C")
  case False
  with assms show ?thesis by (auto simp: scan_part_def split: option.splits intro: whole_ranges)
next
  case True
  have u: "whole bs" if unicode: "scan_unicode s' = Some (bs, r)" for s'
  proof -
    obtain n s1 where n: "get_codepoint s' = Some (n, s1)" using unicode by (auto simp: scan_unicode_def split: option.splits)
    show ?thesis
    proof (cases "0xD800 \<le> n \<and> n \<le> 0xDBFF")
      case True
      then obtain n2 where "0xDC00 \<le> n2" "n2 \<le> 0xDFFF" "bs = utf8_encode (push_bit 10 n + n2 - 0x35FDC00)"
        using unicode n by (auto simp: scan_unicode_def split: list.splits if_splits option.splits)
      with True show ?thesis by (auto simp: push_bit_eq_mult intro!: whole_encode)
    next
      case False
      with unicode n have "bs = utf8_encode n" "\<not> (0xD800 \<le> n \<and> n \<le> 0xDFFF)" by (auto simp: scan_unicode_def split: if_splits)
      with get_codepoint_less[OF n] show ?thesis by (auto intro!: whole_encode)
    qed
  qed
  from True assms show ?thesis
    by (auto simp: scan_part_def scan_escape_def split: list.splits if_splits intro!: u whole_ascii)
qed

lemma scan_string_whole: "scan_string s = Some (t, r) \<Longrightarrow> whole t"
proof (induction s arbitrary: t rule: scan_string.induct)
  case (2 c s)
  then show ?case by (auto split: if_splits option.splits intro: whole_Nil whole_append scan_part_whole)
qed simp

lemma whole_dump: "whole s \<Longrightarrow> \<exists>t. dump_escaped s = Inr t"
  unfolding whole_def dump_escaped_def by (metis append_Nil2 bindE.simps(2) escape_loop.simps(1))

end
