(* ===== verification/JsonProps.thy ===== *)
theory JsonProps
  imports JsonUtf8
begin

text \<open>
  JSON texts: a value that is well formed is read back from its text, printed with or without line breaks; what
  the parser returns is well formed and can be printed.
\<close>

subsection \<open>Well-formed values\<close>

definition float_text :: "(string \<Rightarrow> string option) \<Rightarrow> string \<Rightarrow> bool" where
  "float_text strtod t = (case t of [] \<Rightarrow> False
   | c # s \<Rightarrow> (c = CHR ''-'' \<or> is_digit c) \<and> strtod t = Some t
      \<and> num_loop (if c = CHR ''-'' then N_minus else if c = CHR ''0'' then N_zero else N_any1) Num_unsigned [c] s = Some (Num_float, t, []))"

definition utf8_ok :: "string \<Rightarrow> bool" where
  "utf8_ok s = (case dump_escaped s of Inl _ \<Rightarrow> False | Inr _ \<Rightarrow> True)"

lemma utf8_ascii:
  assumes "list_all (\<lambda>c. (of_char c :: nat) < 0x80) s"
  shows "utf8_ok s"
proof -
  have "\<exists>t. escape_loop 0 c s = Inr t" if "list_all (\<lambda>c. (of_char c :: nat) < 0x80) s" for c s
    using that
  proof (induction s arbitrary: c)
    case (Cons d s)
    obtain t where "escape_loop 0 (of_char d) s = Inr t" using Cons by auto
    with Cons.prems show ?case by (simp add: decode_ascii)
  qed simp
  from this[OF assms, of 0] show ?thesis by (auto simp: utf8_ok_def dump_escaped_def)
qed

fun json_ok :: "(string \<Rightarrow> string option) \<Rightarrow> json \<Rightarrow> bool" where
  "json_ok strtod (J_object kvs) = (sorted_keys kvs \<and> (\<forall>kv \<in> set kvs. utf8_ok (fst kv) \<and> json_ok strtod (snd kv)))"
| "json_ok strtod (J_array xs) = (\<forall>x \<in> set xs. json_ok strtod x)"
| "json_ok strtod (J_string s) = utf8_ok s"
| "json_ok strtod (J_integer x) = (- (2 ^ 63) \<le> x \<and> x < 2 ^ 63)"
| "json_ok strtod (J_unsigned n) = (n < 2 ^ 64)"
| "json_ok strtod (J_float t) = float_text strtod t"
| "json_ok strtod _ = True"

text \<open>A number that is not negative is read as unsigned, whatever it was before.\<close>

fun json_norm :: "json \<Rightarrow> json" where
  "json_norm (J_object kvs) = J_object (map (map_prod id json_norm) kvs)"
| "json_norm (J_array xs) = J_array (map json_norm xs)"
| "json_norm (J_integer x) = (if x < 0 then J_integer x else J_unsigned (nat x))"
| "json_norm j = j"

lemma json_norm_object: "json_norm (J_object kvs) = J_object (map (apsnd json_norm) kvs)"
  by (simp add: apsnd_def)

declare json_norm.simps(1) [simp del] json_norm_object [simp]

lemma sorted_keys_map [simp]: "sorted_keys (map (apsnd f) kvs) = sorted_keys kvs"
  by (induction kvs) (auto simp: split_beta)

subsection \<open>Tokens\<close>

text \<open>What stands behind a value inside a text.\<close>

definition ends :: "string \<Rightarrow> bool" where
  "ends r = (case r of [] \<Rightarrow> True | c # _ \<Rightarrow> c \<in> {CHR '','', CHR '']'', CHR ''}'', CHR 0x0A})"

lemma ends_simps [simp]: "ends []" "ends (CHR '','' # r)" "ends (CHR '']'' # r)" "ends (CHR ''}'' # r)" "ends (CHR 0x0A # r)"
  by (simp_all add: ends_def)

lemma num_next_end: "c \<in> {CHR '','', CHR '']'', CHR ''}'', CHR 0x0A} \<Longrightarrow> num_next st c = None"
  by (cases st) (auto simp: is_digit_def decimal_digits_def)

lemma num_loop_extend:
  assumes "num_loop st ty buf s = Some (ty', buf', [])" "ends r"
  shows "num_loop st ty buf (s @ r) = Some (ty', buf', r)"
  using assms
proof (induction st ty buf s rule: num_loop.induct)
  case (1 st ty buf)
  then show ?case by (cases r) (auto simp: ends_def num_next_end split: if_splits)
qed (auto split: option.splits if_splits)

lemma num_loop_digits: "set ds \<subseteq> decimal_digits \<Longrightarrow> num_loop N_any1 ty buf ds = Some (ty, buf @ ds, [])"
  by (induction ds arbitrary: buf) (auto simp: num_done_def num_enter_def is_digit_def)

lemma dec_str_parts:
  obtains c ds where "dec_str n = c # ds" "is_digit c" "set ds \<subseteq> decimal_digits" "c = CHR ''0'' \<Longrightarrow> ds = []"
proof -
  have "\<exists>c ds. dec_str n = c # ds \<and> is_digit c \<and> set ds \<subseteq> decimal_digits \<and> (c = CHR ''0'' \<longrightarrow> n = 0 \<and> ds = [])"
  proof (induction n rule: dec_str.induct)
    case (1 n)
    show ?case
    proof (cases "n < 10")
      case True
      then have "digit n = CHR ''0'' \<longrightarrow> n = 0"
      proof -
        have "list_all (\<lambda>n. digit n = CHR ''0'' \<longrightarrow> n = 0) [0..<10]" by code_simp
        with True show ?thesis by (auto simp: list_all_iff)
      qed
      with True digit_range[OF True] show ?thesis by (subst dec_str.simps) (simp add: is_digit_def)
    next
      case False
      from 1[OF False] obtain c ds where
        "dec_str (n div 10) = c # ds" "is_digit c" "set ds \<subseteq> decimal_digits" "c = CHR ''0'' \<longrightarrow> n div 10 = 0 \<and> ds = []" by blast
      with False digit_range[of "n mod 10"] show ?thesis by (subst dec_str.simps) auto
    qed
  qed
  then show thesis using that by blast
qed

lemma scan_dec:
  assumes "c = CHR ''-'' \<or> is_digit c" "num_loop (if c = CHR ''-'' then N_minus else if c = CHR ''0'' then N_zero else N_any1)
      Num_unsigned [c] s = Some (ty, c # s, [])" "ends r"
  shows "scan strtod (c # s @ r) = (if ty = Num_unsigned \<and> dec_val (c # s) < 2 ^ 64 then T_unsigned (dec_val (c # s))
     else if ty = Num_integer \<and> dec_val s \<le> 2 ^ 63 then T_integer (- int (dec_val s)) else T_float (strtod (c # s)), r)"
proof -
  have c: "c \<in> set ''-0123456789''" using assms(1) by (auto simp: is_digit_def decimal_digits_def)
  then have "\<not> is_blank c" "c \<notin> set ''[]{}:,tfn''" "c \<noteq> CHR 0x22" by (auto simp: is_blank_def)
  moreover have "scan_number strtod c (s @ r) = (if ty = Num_unsigned \<and> dec_val (c # s) < 2 ^ 64 then T_unsigned (dec_val (c # s))
     else if ty = Num_integer \<and> dec_val s \<le> 2 ^ 63 then T_integer (- int (dec_val s)) else T_float (strtod (c # s)), r)"
    using num_loop_extend[OF assms(2,3)] by (simp add: scan_number_def)
  ultimately show ?thesis using assms(1) by (simp add: scan_def)
qed

lemma scan_unsigned:
  assumes "n < 2 ^ 64" "ends r"
  shows "scan strtod (dec_str n @ r) = (T_unsigned n, r)"
proof (rule dec_str_parts[of n])
  fix c ds assume d: "dec_str n = c # ds" "is_digit c" "set ds \<subseteq> decimal_digits" "c = CHR ''0'' \<Longrightarrow> ds = []"
  have m: "c \<noteq> CHR ''-''" using d(2) by (auto simp: is_digit_def decimal_digits_def)
  have "num_loop (if c = CHR ''0'' then N_zero else N_any1) Num_unsigned [c] ds = Some (Num_unsigned, c # ds, [])"
    using d(3,4) num_loop_digits[of ds Num_unsigned "[c]"] by (auto simp: num_done_def num_enter_def)
  with m have "num_loop (if c = CHR ''-'' then N_minus else if c = CHR ''0'' then N_zero else N_any1) Num_unsigned [c] ds
      = Some (Num_unsigned, c # ds, [])" by simp
  from scan_dec[OF _ this assms(2)] d(1,2) assms(1) dec_val_str[of n] show ?thesis by simp
qed

lemma scan_integer:
  assumes "- (2 ^ 63) \<le> x" "x < 0" "ends r"
  shows "scan strtod (dump_integer x @ r) = (T_integer x, r)"
proof (rule dec_str_parts[of "nat (- x)"])
  fix c ds assume d: "dec_str (nat (- x)) = c # ds" "is_digit c" "set ds \<subseteq> decimal_digits" "c = CHR ''0'' \<Longrightarrow> ds = []"
  have "num_loop N_minus Num_unsigned ''-'' (c # ds) = Some (Num_integer, CHR ''-'' # c # ds, [])"
    using d(2-4) num_loop_digits[of ds Num_integer "[CHR ''-'', c]"] by (auto simp: num_done_def num_enter_def)
  from scan_dec[of "CHR ''-''", OF _ _ assms(3), of "c # ds" Num_integer strtod] this dec_val_str[of "nat (- x)"] d(1) assms(1,2)
  show ?thesis by (simp add: dump_integer_def nat_le_iff)
qed

lemma scan_any_integer:
  assumes "- (2 ^ 63) \<le> x" "x < 2 ^ 63" "ends r"
  shows "scan strtod (dump_integer x @ r) = ((if x < 0 then T_integer x else T_unsigned (nat x)), r)"
  using assms scan_integer[of x r] scan_unsigned[of "nat x" r]
  by (cases "x < 0") (simp_all add: dump_integer_def nat_less_iff)

lemma scan_string_text:
  assumes "dump_string s = Inr t"
  shows "scan strtod (t @ r) = (T_string s, r)"
proof -
  obtain u where "escape_loop 0 0 s = Inr u" "t = CHR 0x22 # u @ [CHR 0x22]" using assms by (auto simp: dump_string_def dump_escaped_def)
  with scan_escaped[OF this(1), of r] show ?thesis by (simp add: scan_def is_blank_def)
qed

lemma scan_text_line [simp]: "scan strtod (text_line i cur @ s) = scan strtod s"
proof -
  have "dropWhile is_blank (replicate n (CHR '' '') @ s) = dropWhile is_blank s" for n
    by (induction n) (auto simp: is_blank_def)
  then show ?thesis by (simp add: text_line_def scan_def is_blank_def split: option.split)
qed

lemma scan_marks [simp]:
  "scan strtod (CHR ''['' # s) = (T_begin_array, s)" "scan strtod (CHR '']'' # s) = (T_end_array, s)"
  "scan strtod (CHR ''{'' # s) = (T_begin_object, s)" "scan strtod (CHR ''}'' # s) = (T_end_object, s)"
  "scan strtod (CHR '':'' # s) = (T_name_separator, s)" "scan strtod (CHR '','' # s) = (T_value_separator, s)"
  "scan strtod (CHR '' '' # s) = scan strtod s"
  by (simp_all add: scan_def is_blank_def)

lemma scan_literals:
  "scan strtod (''true'' @ s) = (T_literal_true, s)" "scan strtod (''false'' @ s) = (T_literal_false, s)"
  "scan strtod (''null'' @ s) = (T_literal_null, s)"
  by (simp_all add: scan_def is_blank_def scan_literal_def)

subsection \<open>Reading a printed value\<close>

abbreviation run_value :: "(string \<Rightarrow> string option) \<Rightarrow> string \<Rightarrow> frame list \<Rightarrow> fault + json \<times> string" where
  "run_value strtod s fs \<equiv> (case scan strtod s of (tok, s) \<Rightarrow> p_value strtod tok s fs)"

abbreviation run_members ::
  "(string \<Rightarrow> string option) \<Rightarrow> string \<Rightarrow> (string \<times> json) list \<Rightarrow> frame list \<Rightarrow> fault + json \<times> string" where
  "run_members strtod s kvs fs \<equiv> (case scan strtod s of (tok, s) \<Rightarrow> case scan_key strtod tok s of
     None \<Rightarrow> Inl Parse_error | Some (key, tok, s) \<Rightarrow> p_value strtod tok s (Frame_object kvs key # fs))"

lemma p_value_scalars:
  "p_value strtod T_literal_true s fs = p_state strtod (J_bool True) s fs"
  "p_value strtod T_literal_false s fs = p_state strtod (J_bool False) s fs"
  "p_value strtod T_literal_null s fs = p_state strtod J_null s fs"
  "p_value strtod (T_integer x) s fs = p_state strtod (J_integer x) s fs"
  "p_value strtod (T_unsigned n) s fs = p_state strtod (J_unsigned n) s fs"
  "p_value strtod (T_string t) s fs = p_state strtod (J_string t) s fs"
  "p_value strtod (T_float (Some t)) s fs = p_state strtod (J_float t) s fs"
  by (simp_all add: p_value.simps)

lemma scan_float:
  assumes "float_text strtod t" "ends r"
  shows "scan strtod (t @ r) = (T_float (Some t), r)"
proof -
  obtain c s where "t = c # s" "c = CHR ''-'' \<or> is_digit c" "strtod t = Some t"
      "num_loop (if c = CHR ''-'' then N_minus else if c = CHR ''0'' then N_zero else N_any1) Num_unsigned [c] s = Some (Num_float, c # s, [])"
    using assms(1) by (auto simp: float_text_def split: list.splits)
  with scan_dec[OF this(2,4) assms(2), of strtod] show ?thesis by simp
qed

text \<open>No value begins with the bracket that closes an array.\<close>

lemma value_not_end:
  assumes "text_value i cur v = Inr t" "json_ok strtod v" "ends r"
  shows "fst (scan strtod (t @ r)) \<noteq> T_end_array"
proof (cases v)
  case (J_string s)
  with assms show ?thesis by (simp add: scan_string_text)
next
  case (J_unsigned n)
  with assms show ?thesis by (auto simp: dump_integer_def scan_unsigned)
next
  case (J_integer x)
  with assms have "t = dump_integer x" "- (2 ^ 63) \<le> x" "x < 2 ^ 63" by auto
  with assms(3) show ?thesis by (simp add: scan_any_integer)
next
  case (J_float u)
  with assms show ?thesis by (simp add: scan_float)
next
  case (J_bool b)
  with assms scan_literals[of strtod r] show ?thesis by (cases b) auto
next
  case J_null
  with assms scan_literals[of strtod r] show ?thesis by auto
qed (use assms in \<open>auto split: if_splits\<close>)

lemma ends_text_line: "ends (c # r) \<Longrightarrow> ends (text_line i cur @ c # r)"
  by (simp add: text_line_def split: option.split)

lemma dump_read:
  shows "text_value i cur v = Inr t \<Longrightarrow> json_ok strtod v \<Longrightarrow> ends r \<Longrightarrow>
     run_value strtod (t @ r) fs = p_state strtod (json_norm v) r fs"
    and "text_elements i cur xs = Inr t \<Longrightarrow> xs \<noteq> [] \<Longrightarrow> \<forall>x \<in> set xs. json_ok strtod x \<Longrightarrow>
     run_value strtod (t @ text_line i cur' @ CHR '']'' # r) (Frame_array acc # fs) = p_state strtod (J_array (acc @ map json_norm xs)) r fs
     \<and> fst (scan strtod (t @ text_line i cur' @ CHR '']'' # r)) \<noteq> T_end_array"
    and "text_members i cur kvs = Inr t \<Longrightarrow> kvs \<noteq> [] \<Longrightarrow> \<forall>kv \<in> set kvs. json_ok strtod (snd kv) \<Longrightarrow>
     sorted_keys (acc' @ map (apsnd json_norm) kvs) \<Longrightarrow>
     run_members strtod (t @ text_line i cur' @ CHR ''}'' # r) acc' fs = p_state strtod (J_object (acc' @ map (apsnd json_norm) kvs)) r fs
     \<and> fst (scan strtod (t @ text_line i cur' @ CHR ''}'' # r)) \<noteq> T_end_object"
proof (induction i cur v and i cur xs and i cur kvs arbitrary: t r fs and t r fs cur' acc and t r fs cur' acc'
    rule: text_value_text_elements_text_members.induct)
  case (1 i cur kvs)
  show ?case
  proof (cases "kvs = []")
    case True
    with 1(2) have "t = ''{}''" by simp
    with True show ?thesis by (simp add: p_value.simps)
  next
    case False
    with 1(2) obtain u where u: "text_members i (new_indent i cur) kvs = Inr u" "t = ''{'' @ u @ text_line i cur @ ''}''" by auto
    from 1(1)[OF False u(1) False, of "[]" fs cur r] 1(3) show ?thesis
      by (simp add: u(2) p_value.simps[of strtod T_begin_object] split_beta)
  qed
next
  case (2 i cur xs)
  show ?case
  proof (cases "xs = []")
    case True
    with 2(2) have "t = ''[]''" by simp
    with True show ?thesis by (simp add: p_value.simps)
  next
    case False
    with 2(2) obtain u where u: "text_elements i (new_indent i cur) xs = Inr u" "t = ''['' @ u @ text_line i cur @ '']''" by auto
    from 2(1)[OF False u(1) False, of "[]" fs cur r] 2(3) show ?thesis
      by (simp add: u(2) p_value.simps[of strtod T_begin_array] split_beta)
  qed
next
  case (10 i cur v xs)
  obtain u us where u: "text_value i cur v = Inr u" "text_elements i cur xs = Inr us"
      "t = text_line i cur @ u @ (if xs = [] then [] else '','') @ us"
    using 10(3) by auto
  let ?r = "(if xs = [] then [] else '','') @ us @ text_line i cur' @ CHR '']'' # r"
  have e: "ends ?r" using u(2) by (cases "xs = []") (simp_all add: ends_text_line)
  have v: "json_ok strtod v" using 10(5) by simp
  have "run_value strtod (u @ ?r) (Frame_array acc # fs) = p_state strtod (json_norm v) ?r (Frame_array acc # fs)" by (rule 10(1)[OF u(1) v e])
  moreover have "p_state strtod (json_norm v) ?r (Frame_array acc # fs) = p_state strtod (J_array (acc @ map json_norm (v # xs))) r fs"
  proof (cases "xs = []")
    case True
    with u(2) show ?thesis by (simp add: p_state.simps[of strtod "json_norm v"])
  next
    case False
    with 10(2)[OF u(1) u(2) False, of "acc @ [json_norm v]" fs cur' r] 10(5) show ?thesis by (simp add: p_state.simps[of strtod "json_norm v"] split_beta)
  qed
  ultimately show ?case using value_not_end[OF u(1) v e] by (simp add: u(3))
next
  case (12 i cur k v kvs)
  obtain key u us where u: "dump_string k = Inr key" "text_value i cur v = Inr u" "text_members i cur kvs = Inr us"
      "t = text_line i cur @ key @ colon i @ u @ (if kvs = [] then [] else '','') @ us"
    using 12(3) by auto
  let ?r = "(if kvs = [] then [] else '','') @ us @ text_line i cur' @ CHR ''}'' # r"
  have e: "ends ?r" using u(3) by (cases "kvs = []") (simp_all add: ends_text_line)
  have c: "scan strtod (colon i @ u @ ?r) = (T_name_separator, (if i = None then [] else '' '') @ u @ ?r)"
    by (simp add: colon_def split: option.split)
  have b: "scan strtod ((if i = None then [] else '' '') @ u @ ?r) = scan strtod (u @ ?r)" by simp
  have "run_members strtod (key @ colon i @ u @ ?r) acc' fs = run_value strtod (u @ ?r) (Frame_object acc' k # fs)"
    unfolding scan_string_text[OF u(1)] by (simp only: prod.case scan_key_def token.case c b option.case)
  also have "\<dots> = p_state strtod (json_norm v) ?r (Frame_object acc' k # fs)" by (rule 12(1)[OF u(1) u(2) _ e]) (use 12(5) in simp)
  also have "\<dots> = p_state strtod (J_object (acc' @ map (apsnd json_norm) ((k, v) # kvs))) r fs"
  proof -
    have m: "om_set string_less k (json_norm v) acc' = acc' @ [(k, json_norm v)]" using 12(6) by (intro om_set_last) (auto simp: sorted_keys_def os_sorted_def sorted_wrt_append)
    show ?thesis
    proof (cases "kvs = []")
      case True
      with u(3) m show ?thesis by (simp add: p_state.simps[of strtod "json_norm v"])
    next
      case False
      with 12(2)[OF u(1) u(2) u(3) False, of "acc' @ [(k, json_norm v)]" fs cur' r] 12(5,6) m show ?thesis by (simp add: p_state.simps[of strtod "json_norm v"] split_beta cong: option.case_cong)
    qed
  qed
  finally show ?case using scan_string_text[OF u(1)] by (simp add: u(4))
next
  case (5 i cur x)
  then have "t = dump_integer x" "- (2 ^ 63) \<le> x" "x < 2 ^ 63" by auto
  with 5(3) show ?case by (simp add: scan_any_integer p_value_scalars)
next
  case (4 i cur b)
  with scan_literals[of strtod r] show ?case by (cases b) (auto simp: p_value_scalars)
next
  case (8 i cur)
  with scan_literals[of strtod r] show ?case by (auto simp: p_value_scalars)
qed (auto simp: scan_string_text scan_float scan_unsigned dump_integer_def p_value_scalars)

lemma dump_ok:
  shows "json_ok strtod v \<Longrightarrow> \<exists>t. text_value i cur v = Inr t"
    and "\<forall>x \<in> set xs. json_ok strtod x \<Longrightarrow> \<exists>t. text_elements i cur xs = Inr t"
    and "\<forall>kv \<in> set kvs. utf8_ok (fst kv) \<and> json_ok strtod (snd kv) \<Longrightarrow> \<exists>t. text_members i cur kvs = Inr t"
proof (induction i cur v and i cur xs and i cur kvs rule: text_value_text_elements_text_members.induct)
  case (12 i cur k v kvs)
  then obtain key where "dump_string k = Inr key" by (auto simp: utf8_ok_def dump_string_def split: sum.splits)
  with 12 show ?case by fastforce
qed (auto simp: utf8_ok_def dump_string_def split: sum.splits)

lemma skip_bom_dump:
  assumes "text_value i cur v = Inr t" "json_ok strtod v"
  shows "skip_bom t = Some t"
proof -
  have d: "skip_bom (dec_str n) = Some (dec_str n)" for n
    by (rule dec_str_parts[of n]) (auto simp: skip_bom_def is_digit_def decimal_digits_def)
  show ?thesis
  proof (cases v)
    case (J_float u)
    with assms show ?thesis by (auto simp: float_text_def is_digit_def decimal_digits_def skip_bom_def split: list.splits)
  next
    case (J_integer x)
    with assms show ?thesis using d by (auto simp: dump_integer_def) (simp add: skip_bom_def)
  next
    case (J_unsigned x)
    with assms show ?thesis using d by (auto simp: dump_integer_def)
  qed (use assms in \<open>auto simp: skip_bom_def dump_string_def split: if_splits\<close>)
qed

lemma dump_parse:
  assumes "json_ok strtod j" "indent_ok i"
  shows "\<exists>t. json_dump i j = Inr t \<and> json_parse strtod t = Inr (json_norm j)"
proof -
  obtain t where t: "text_value i 0 j = Inr t" using dump_ok(1)[OF assms(1)] by blast
  have "run_value strtod t [] = Inr (json_norm j, [])" using dump_read(1)[OF t assms(1), of "[]" "[]"] by (simp add: p_state.simps)
  then have "json_parse strtod t = Inr (json_norm j)"
    using skip_bom_dump[OF t assms(1)] by (simp add: json_parse_def split_beta scan_def)
  with t show ?thesis by (simp add: json_dump_text[OF assms(2)])
qed

text \<open>Strings that could be printed.\<close>

lemma dumped_strings: "text_elements i cur (map J_string ts) = Inr u \<Longrightarrow> x \<in> set ts \<Longrightarrow> utf8_ok x"
proof (induction ts arbitrary: u)
  case (Cons y ts)
  then show ?case by (cases ts) (auto simp: utf8_ok_def dump_string_def split: sum.splits)
qed simp

text \<open>A number reader for examples.\<close>

definition demo_strtod :: "string \<Rightarrow> string option" where
  "demo_strtod t = Some ''0.0''"

lemma demo_strtod_ok: "float_text demo_strtod ''0.0''"
  by code_simp

text \<open>C13: every well-formed value (\<open>json_ok\<close>: the strings are UTF-8, the integers are in the range of their type,
  the members are sorted with different names, and the text of a floating-point number is one that the library functions
  \<open>to_chars\<close> and \<open>strtod\<close>, which are parameters, print and read back) can be printed, compactly or with an indentation of up
  to 1024, and the parser reads the text back as the same value; only a number that is not negative comes back as unsigned.
  With an indentation above 1025 printing any container that is not empty reads beyond the end of the string of
  blanks.\<close>

theorem json_roundtrip:
  assumes "json_ok strtod j"
  shows "(indent_ok i \<longrightarrow> (\<exists>t. json_dump i j = Inr t \<and> json_parse strtod t = Inr (json_norm j)))
     \<and> (\<forall>n. 1025 < n \<and> n < 2 ^ 32 \<longrightarrow> (\<forall>xs. j = J_array xs \<and> xs \<noteq> [] \<longrightarrow> json_dump (Some n) j = Inl Bad_index)
          \<and> (\<forall>kvs. j = J_object kvs \<and> kvs \<noteq> [] \<longrightarrow> json_dump (Some n) j = Inl Bad_index))"
  using dump_parse[OF assms] json_dump_overread by blast

theorem json_roundtrip_witness:
  "\<exists>t. json_dump (Some 4) (J_object [(''a'', J_array [J_integer 5, J_integer (-5), J_float ''0.0'']), (''b'', J_string ''x'')]) = Inr t
     \<and> json_parse demo_strtod t = Inr (J_object [(''a'', J_array [J_unsigned 5, J_integer (-5), J_float ''0.0'']), (''b'', J_string ''x'')])"
  using json_roundtrip[of demo_strtod "J_object [(''a'', J_array [J_integer 5, J_integer (-5), J_float ''0.0'']), (''b'', J_string ''x'')]" "Some 4"]
  by (simp add: utf8_ascii demo_strtod_ok)

subsection \<open>What the parser returns\<close>

definition strtod_ok :: "(string \<Rightarrow> string option) \<Rightarrow> bool" where
  "strtod_ok strtod = (\<forall>t u. strtod t = Some u \<longrightarrow> float_text strtod u)"

fun token_ok :: "(string \<Rightarrow> string option) \<Rightarrow> token \<Rightarrow> bool" where
  "token_ok strtod (T_string s) = utf8_ok s"
| "token_ok strtod (T_unsigned n) = (n < 2 ^ 64)"
| "token_ok strtod (T_integer x) = (- (2 ^ 63) \<le> x \<and> x < 2 ^ 63)"
| "token_ok strtod (T_float (Some t)) = float_text strtod t"
| "token_ok strtod _ = True"

fun frame_ok :: "(string \<Rightarrow> string option) \<Rightarrow> frame \<Rightarrow> bool" where
  "frame_ok strtod (Frame_array xs) = json_ok strtod (J_array xs)"
| "frame_ok strtod (Frame_object kvs key) = (json_ok strtod (J_object kvs) \<and> utf8_ok key)"

lemma token_ok_float: "strtod_ok strtod \<Longrightarrow> token_ok strtod (T_float (strtod t))"
  by (cases "strtod t") (auto simp: strtod_ok_def)

lemma scan_literal_ok: "scan_literal l ty s = (tok, r) \<Longrightarrow> token_ok strtod ty \<Longrightarrow> token_ok strtod tok"
  by (auto simp: scan_literal_def split: if_splits)

lemma scan_number_ok:
  assumes "strtod_ok strtod" "scan_number strtod c s = (tok, r)"
  shows "token_ok strtod tok"
  using token_ok_float[OF assms(1)] assms(2) by (auto simp: scan_number_def split: option.splits if_splits)

lemma scan_string_ok: "scan_string s = Some (t, r) \<Longrightarrow> utf8_ok t"
  using whole_dump[OF scan_string_whole, of s t r] by (auto simp: utf8_ok_def)

lemma if_eqE: "(if b then x else y) = z \<Longrightarrow> (x = z \<Longrightarrow> P) \<Longrightarrow> (y = z \<Longrightarrow> P) \<Longrightarrow> P"
  by (cases b) simp_all

lemma scan_ok:
  assumes "strtod_ok strtod" "scan strtod s = (tok, r)"
  shows "token_ok strtod tok"
proof (cases "dropWhile is_blank s")
  case Nil
  with assms(2) show ?thesis by (simp add: scan_def)
next
  case (Cons c s')
  have s: "token_ok strtod tok" if "(case scan_string s' of None \<Rightarrow> (T_parse_error, s') | Some (t, s) \<Rightarrow> (T_string t, s)) = (tok, r)"
    using that by (auto split: option.splits dest: scan_string_ok)
  from assms(2)[unfolded scan_def Cons list.case] show ?thesis
    by (elim if_eqE) (auto intro: scan_number_ok[OF assms(1)] s elim!: scan_literal_ok)
qed

lemma scan_key_ok:
  assumes "strtod_ok strtod" "scan_key strtod tok s = Some (key, tok', r)" "token_ok strtod tok"
  shows "utf8_ok key \<and> token_ok strtod tok'"
  using assms by (auto simp: scan_key_def split: token.splits prod.splits intro: scan_ok)

lemma json_ok_put: "json_ok strtod (J_object kvs) \<Longrightarrow> utf8_ok key \<Longrightarrow> json_ok strtod v \<Longrightarrow>
    json_ok strtod (J_object (om_set string_less key v kvs))"
  using set_om_set[of key v kvs] by (auto simp: om_set_sorted)

lemma parse_ok:
  assumes "strtod_ok strtod"
  shows "p_value strtod tok s fs = Inr (j, r) \<Longrightarrow> token_ok strtod tok \<Longrightarrow> \<forall>f \<in> set fs. frame_ok strtod f \<Longrightarrow> json_ok strtod j"
    and "p_state strtod v s fs = Inr (j, r) \<Longrightarrow> json_ok strtod v \<Longrightarrow> \<forall>f \<in> set fs. frame_ok strtod f \<Longrightarrow> json_ok strtod j"
  using assms
proof (induction strtod tok s fs and strtod v s fs rule: p_value_p_state.induct, goal_cases)
  case (1 strtod tok s fs)
  note ih = 1(1-11) and prems = 1(12-15)
  show ?case
  proof (cases tok)
    case T_begin_object
    obtain tok1 s1 where s1: "scan strtod s = (tok1, s1)" by force
    note ok = scan_ok[OF prems(4) s1]
    show ?thesis
    proof (cases "tok1 = T_end_object")
      case True
      with ih(3)[OF T_begin_object s1[symmetric] True] prems s1 T_begin_object show ?thesis
        by (simp add: p_value.simps[of strtod T_begin_object])
    next
      case False
      then obtain key tok2 s2 where k: "scan_key strtod tok1 s1 = Some (key, tok2, s2)"
        using prems(1) s1 T_begin_object by (auto simp: p_value.simps[of strtod T_begin_object] split: option.splits)
      from scan_key_ok[OF prems(4) k ok] ih(4)[OF T_begin_object s1[symmetric] False k] prems s1 T_begin_object False k
      show ?thesis by (simp add: p_value.simps[of strtod T_begin_object])
    qed
  next
    case T_begin_array
    obtain tok1 s1 where s1: "scan strtod s = (tok1, s1)" by force
    with ih(1,2)[OF T_begin_array s1[symmetric]] scan_ok[OF prems(4) s1] prems T_begin_array show ?thesis
      by (cases "tok1 = T_end_array") (simp_all add: p_value.simps[of strtod T_begin_array])
  next
    case (T_float x)
    with ih prems show ?thesis by (cases x) (simp_all add: p_value.simps)
  qed (use ih prems in \<open>simp_all add: p_value.simps\<close>)
next
  case (2 strtod v s fs)
  note ih = 2(1-4) and prems = 2(5-8)
  show ?case
  proof (cases fs)
    case Nil
    with prems show ?thesis by (simp add: p_state.simps)
  next
    case (Cons f fs')
    obtain tok s1 where s1: "scan strtod s = (tok, s1)" by force
    obtain tok2 s2 where s2: "scan strtod s1 = (tok2, s2)" by force
    note ok = scan_ok[OF prems(4) s2]
    show ?thesis
    proof (cases f)
      case (Frame_array xs)
      note c = Cons[unfolded Frame_array]
      consider "tok = T_value_separator" | "tok = T_end_array" "tok \<noteq> T_value_separator"
        using prems(1) s1 by (auto simp: c p_state.simps split: if_splits)
      then show ?thesis
      proof cases
        case 1
        with ih(1)[OF c refl s1[symmetric] 1 s2[symmetric]] prems ok s1 s2 show ?thesis
          by (auto simp: c p_state.simps[of strtod v])
      next
        case 2
        with ih(2)[OF c refl s1[symmetric] 2(2,1)] prems s1 show ?thesis
          by (auto simp: c p_state.simps[of strtod v])
      qed
    next
      case (Frame_object kvs key)
      note c = Cons[unfolded Frame_object]
      have put: "json_ok strtod (J_object (om_set string_less key v kvs))"
        using prems(2,3) by (intro json_ok_put) (simp_all add: c)
      consider "tok = T_value_separator" | "tok = T_end_object" "tok \<noteq> T_value_separator"
        using prems(1) s1 by (auto simp: c p_state.simps split: if_splits)
      then show ?thesis
      proof cases
        case 1
        then obtain key' tok3 s3 where k: "scan_key strtod tok2 s2 = Some (key', tok3, s3)"
          using prems(1) s1 s2 by (auto simp: c p_state.simps[of strtod v] split: option.splits)
        with ih(3)[OF c refl s1[symmetric] 1 s2[symmetric] k] scan_key_ok[OF prems(4) k ok] prems put s1 s2 1 show ?thesis
          by (auto simp: c p_state.simps[of strtod v])
      next
        case 2
        with ih(4)[OF c refl s1[symmetric] 2(2,1)] prems put s1 show ?thesis
          by (auto simp: c p_state.simps[of strtod v])
      qed
    qed
  qed
qed

text \<open>C14: whatever text the parser accepts, the value is well formed: its keys are in order and different, its
  strings are UTF-8, its numbers in range. So it can be printed and read again.\<close>

theorem parsed_json_ok:
  assumes "strtod_ok strtod" "json_parse strtod s = Inr j"
  shows "json_ok strtod j"
proof -
  obtain s1 tok s2 r where "scan strtod s1 = (tok, s2)" "p_value strtod tok s2 [] = Inr (j, r)"
    using assms(2) by (auto simp: json_parse_def split: option.splits prod.splits if_splits)
  with parse_ok(1)[OF assms(1) this(2)] scan_ok[OF assms(1)] show ?thesis by simp
qed


theorem parsed_json_ok_witness:
  "\<exists>t. json_parse demo_strtod t = Inr (J_array [J_unsigned 1]) \<and> json_ok demo_strtod (J_array [J_unsigned 1])"
proof -
  have "strtod_ok demo_strtod" using demo_strtod_ok by (simp add: strtod_ok_def demo_strtod_def)
  moreover obtain t where "json_parse demo_strtod t = Inr (J_array [J_unsigned 1])"
    using dump_parse[of demo_strtod "J_array [J_unsigned 1]" None] by auto
  ultimately show ?thesis using parsed_json_ok by blast
qed

end
