(* ===== verification/LexicalCast.thy ===== *)
theory LexicalCast
  imports JsonProps
begin

text \<open>
  \<^verbatim>\<open>include/Config.h\<close>: the conversions \<open>LexicalCast\<close> between containers and strings. The conversion of an
  element is an argument, \<open>from\<close> or \<open>to\<close>; for a basic type it is \<open>boost::lexical_cast\<close>. A set is the list of its elements in
  order, an unordered container a list in the order of iteration, where \<open>ins\<close> inserts.
\<close>

subsection \<open>Elements one after the other\<close>

fun mapE :: "('a \<Rightarrow> 'e + 'b) \<Rightarrow> 'a list \<Rightarrow> 'e + 'b list" where
  "mapE f [] = Inr []"
| "mapE f (x # xs) = bindE (f x) (\<lambda>y. bindE (mapE f xs) (\<lambda>ys. Inr (y # ys)))"

lemma mapE_cong [fundef_cong]: "xs = ys \<Longrightarrow> (\<And>x. x \<in> set ys \<Longrightarrow> f x = g x) \<Longrightarrow> mapE f xs = mapE g ys"
proof (induction ys arbitrary: xs)
  case (Cons y ys)
  then show ?case by (auto cong: bindE_cong)
qed simp

lemma mapE_Inr [simp]: "mapE (\<lambda>x. Inr (f x)) xs = Inr (map f xs)"
  by (induction xs) auto

lemma mapE_map: "mapE f (map g xs) = mapE (\<lambda>x. f (g x)) xs"
  by (induction xs) auto

lemma mapE_InrD: "mapE f xs = Inr ys \<Longrightarrow> list_all2 (\<lambda>x y. f x = Inr y) xs ys"
  by (induction xs arbitrary: ys) auto

text \<open>Reading an element: its text is printed again and given to the conversion.\<close>

definition read_element :: "nat option \<Rightarrow> (string \<Rightarrow> fault + 'a) \<Rightarrow> json \<Rightarrow> fault + 'a" where
  "read_element indent from e = bindE (json_dump indent e) from"

text \<open>Writing elements: the texts become strings of an array.\<close>

fun push_texts :: "('a \<Rightarrow> fault + string) \<Rightarrow> json \<Rightarrow> 'a list \<Rightarrow> fault + json" where
  "push_texts to j [] = Inr j"
| "push_texts to j (x # xs) = bindE (to x) (\<lambda>t. bindE (j_push_back (J_string t) j) (\<lambda>j. push_texts to j xs))"

fun put_texts :: "('a \<Rightarrow> fault + string) \<Rightarrow> json \<Rightarrow> (string \<times> 'a) list \<Rightarrow> fault + json" where
  "put_texts to j [] = Inr j"
| "put_texts to j ((key, x) # kxs) = bindE (to x) (\<lambda>t. bindE (j_put key (J_string t) j) (\<lambda>j. put_texts to j kxs))"

subsection \<open>Containers\<close>

definition string_to_vector :: "(string \<Rightarrow> string option) \<Rightarrow> (string \<Rightarrow> fault + 'a) \<Rightarrow> string \<Rightarrow> fault + 'a list" where
  "string_to_vector strtod from val = bindE (json_parse strtod val) (\<lambda>j. mapE (read_element (Some 4) from) (j_elements j))"

definition vector_to_string :: "('a \<Rightarrow> fault + string) \<Rightarrow> 'a list \<Rightarrow> fault + string" where
  "vector_to_string to vec = bindE (push_texts to J_null vec) (json_dump (Some 4))"

definition string_to_list :: "(string \<Rightarrow> string option) \<Rightarrow> (string \<Rightarrow> fault + 'a) \<Rightarrow> string \<Rightarrow> fault + 'a list" where
  "string_to_list strtod from val = bindE (json_parse strtod val) (\<lambda>j. mapE (read_element (Some 4) from) (j_elements j))"

definition list_to_string :: "('a \<Rightarrow> fault + string) \<Rightarrow> 'a list \<Rightarrow> fault + string" where
  "list_to_string to vec = bindE (push_texts to J_null vec) (json_dump (Some 4))"

definition string_to_set ::
  "('a \<Rightarrow> 'a \<Rightarrow> bool) \<Rightarrow> (string \<Rightarrow> string option) \<Rightarrow> (string \<Rightarrow> fault + 'a) \<Rightarrow> string \<Rightarrow> fault + 'a list"
where
  "string_to_set lt strtod from val = bindE (json_parse strtod val) (\<lambda>j.
     bindE (mapE (read_element (Some 4) from) (j_elements j)) (\<lambda>xs.
       Inr (fold (\<lambda>x vec. fst (os_insert lt (\<lambda>x. x) x vec)) xs [])))"

definition set_to_string :: "('a \<Rightarrow> fault + string) \<Rightarrow> 'a list \<Rightarrow> fault + string" where
  "set_to_string to vec = bindE (push_texts to J_null vec) (json_dump (Some 4))"

definition string_to_unordered_set ::
  "('a \<Rightarrow> 'a list \<Rightarrow> 'a list) \<Rightarrow> (string \<Rightarrow> string option) \<Rightarrow> (string \<Rightarrow> fault + 'a) \<Rightarrow> string \<Rightarrow> fault + 'a list"
where
  "string_to_unordered_set ins strtod from val = bindE (json_parse strtod val) (\<lambda>j.
     bindE (mapE (read_element (Some 4) from) (j_elements j)) (\<lambda>xs. Inr (fold ins xs [])))"

definition unordered_set_to_string :: "('a \<Rightarrow> fault + string) \<Rightarrow> 'a list \<Rightarrow> fault + string" where
  "unordered_set_to_string to vec = bindE (push_texts to J_null vec) (json_dump (Some 4))"

text \<open>Maps print the members without an indent. \<open>insert\<close> keeps a member that is there.\<close>

definition read_members ::
  "(string \<Rightarrow> fault + 'a) \<Rightarrow> json \<Rightarrow> fault + (string \<times> 'a) list"
where
  "read_members from j = mapE (\<lambda>(key, e). bindE (read_element None from e) (\<lambda>x. Inr (key, x))) (j_items j)"

definition string_to_map ::
  "(string \<Rightarrow> string option) \<Rightarrow> (string \<Rightarrow> fault + 'a) \<Rightarrow> string \<Rightarrow> fault + (string \<times> 'a) list"
where
  "string_to_map strtod from val = bindE (json_parse strtod val) (\<lambda>j. bindE (read_members from j) (\<lambda>kxs.
     Inr (fold (\<lambda>kx vec. fst (os_insert string_less fst kx vec)) kxs [])))"

definition map_to_string :: "('a \<Rightarrow> fault + string) \<Rightarrow> (string \<times> 'a) list \<Rightarrow> fault + string" where
  "map_to_string to vec = bindE (put_texts to J_null vec) (json_dump (Some 4))"

definition string_to_unordered_map ::
  "(string \<times> 'a \<Rightarrow> (string \<times> 'a) list \<Rightarrow> (string \<times> 'a) list) \<Rightarrow> (string \<Rightarrow> string option) \<Rightarrow> (string \<Rightarrow> fault + 'a)
   \<Rightarrow> string \<Rightarrow> fault + (string \<times> 'a) list"
where
  "string_to_unordered_map ins strtod from val = bindE (json_parse strtod val) (\<lambda>j. bindE (read_members from j) (\<lambda>kxs.
     Inr (fold ins kxs [])))"

definition unordered_map_to_string :: "('a \<Rightarrow> fault + string) \<Rightarrow> (string \<times> 'a) list \<Rightarrow> fault + string" where
  "unordered_map_to_string to vec = bindE (put_texts to J_null vec) (json_dump (Some 4))"

subsection \<open>Documents and what is read from them\<close>

text \<open>Values that the parser gives back as they are.\<close>

definition json_plain :: "(string \<Rightarrow> string option) \<Rightarrow> json \<Rightarrow> bool" where
  "json_plain strtod j = (json_ok strtod j \<and> json_norm j = j)"

lemma plain_read:
  assumes "json_plain strtod j" "indent_ok i"
  obtains t where "json_dump i j = Inr t" "json_parse strtod t = Inr j"
  using dump_parse[of strtod j i] assms that by (auto simp: json_plain_def)

lemma plain_dumped: "json_plain strtod j \<Longrightarrow> indent_ok i \<Longrightarrow> json_dump i j = Inr t \<Longrightarrow> json_parse strtod t = Inr j"
  by (metis plain_read sum.inject(2))

lemma plain_array [simp]: "json_plain strtod (J_array xs) = (\<forall>x \<in> set xs. json_plain strtod x)"
  using map_eq_conv[of json_norm xs "\<lambda>x. x"] by (auto simp: json_plain_def)

lemma plain_string [simp]: "json_plain strtod (J_string s) = utf8_ok s"
  by (simp add: json_plain_def)

lemma plain_null [simp]: "json_plain strtod J_null"
  by (simp add: json_plain_def)

lemma plain_object:
  "json_plain strtod (J_object kvs) = (sorted_keys kvs \<and> (\<forall>(k, v) \<in> set kvs. utf8_ok k \<and> json_plain strtod v))"
proof -
  have "map (apsnd json_norm) kvs = kvs \<longleftrightarrow> (\<forall>(k, v) \<in> set kvs. json_norm v = v)"
    by (induction kvs) (auto simp: apsnd_def)
  then show ?thesis by (auto simp: json_plain_def)
qed

lemma push_texts_array: "push_texts to (J_array js) xs = bindE (mapE to xs) (\<lambda>ts. Inr (J_array (js @ map J_string ts)))"
  by (induction xs arbitrary: js) (auto simp: j_push_back_def bindE_assoc)

lemma push_texts_null:
  "push_texts to J_null xs = bindE (mapE to xs) (\<lambda>ts. Inr (if ts = [] then J_null else J_array (map J_string ts)))"
  by (cases xs) (auto simp: j_push_back_def push_texts_array bindE_assoc)

subsection \<open>What is written and read again\<close>

lemma read_string [simp]: "read_element i from (J_string t) = bindE (dump_string t) from"
  by (cases "dump_string t") (simp_all add: read_element_def json_dump_def)

text \<open>The elements of a container come back as the conversions of their texts in quotation marks.\<close>

lemma vector_reread:
  assumes "mapE to xs = Inr ts" "\<forall>t \<in> set ts. utf8_ok t"
  obtains val where "vector_to_string to xs = Inr val"
    "string_to_vector strtod from val = mapE (\<lambda>t. bindE (dump_string t) from) ts"
proof -
  let ?j = "if ts = [] then J_null else J_array (map J_string ts)"
  have "json_plain strtod ?j" using assms(2) by simp
  then obtain val where val: "json_dump (Some 4) ?j = Inr val" "json_parse strtod val = Inr ?j" by (rule plain_read[where i = "Some 4"]) simp
  have "vector_to_string to xs = Inr val" by (simp add: vector_to_string_def push_texts_null assms(1) val(1) del: if_split)
  moreover have "string_to_vector strtod from val = mapE (\<lambda>t. bindE (dump_string t) from) ts"
    by (simp add: string_to_vector_def val(2) j_elements_def mapE_map)
  ultimately show thesis by (rule that)
qed

lemma dump_string_quote: "dump_string t = Inr u \<Longrightarrow> \<exists>v. u = CHR 0x22 # v"
  by (auto simp: dump_string_def)

lemma utf8_digits: "utf8_ok (dec_str n)"
  using dec_str_digits[of n] by (intro utf8_ascii) (auto simp: list_all_iff decimal_digits_def)

text \<open>An array of numbers in a document is read as a vector; but the val that \<open>toString\<close> writes for the same vector
  has the numbers in quotation marks, and \<open>fromString\<close> throws on it, because the conversion of an element is given the quotation
  marks too.\<close>

lemma number_vector_not_reread:
  assumes "\<forall>n. from (dec_str n) = Inr n" "\<forall>s. from (CHR 0x22 # s) = Inl Bad_cast"
    and "\<forall>x \<in> set xs. x < 2 ^ 64" "xs \<noteq> []" "indent_ok i"
  shows "\<exists>doc val. json_dump i (J_array (map J_unsigned xs)) = Inr doc \<and> string_to_vector strtod from doc = Inr xs
    \<and> vector_to_string (\<lambda>n. Inr (dec_str n)) xs = Inr val \<and> string_to_vector strtod from val = Inl Bad_cast"
proof -
  have "json_plain strtod (J_array (map J_unsigned xs))" using assms(3) by (simp add: json_plain_def)
  then obtain doc where doc: "json_dump i (J_array (map J_unsigned xs)) = Inr doc"
      "json_parse strtod doc = Inr (J_array (map J_unsigned xs))" by (rule plain_read[OF _ assms(5)])
  have "read_element (Some 4) from (J_unsigned n) = Inr n" for n
    using assms(1) by (simp add: read_element_def json_dump_def dump_integer_def)
  then have "string_to_vector strtod from doc = Inr xs" by (simp add: string_to_vector_def doc(2) j_elements_def mapE_map)
  moreover obtain val where val: "vector_to_string (\<lambda>n. Inr (dec_str n)) xs = Inr val"
      "string_to_vector strtod from val = mapE (\<lambda>t. bindE (dump_string t) from) (map dec_str xs)"
    by (rule vector_reread[of "\<lambda>n. Inr (dec_str n)" xs "map dec_str xs"]) (auto simp: utf8_digits)
  moreover have "mapE (\<lambda>t. bindE (dump_string t) from) (map dec_str xs) = Inl Bad_cast"
  proof (cases xs)
    case (Cons x xs')
    obtain u where u: "dump_string (dec_str x) = Inr u" using utf8_digits[of x] by (auto simp: utf8_ok_def dump_string_def split: sum.splits)
    from dump_string_quote[OF this] u assms(2) show ?thesis by (auto simp: Cons)
  qed (use assms(4) in simp)
  ultimately show ?thesis using doc(1) by auto
qed

definition demo_lexical_cast :: "string \<Rightarrow> fault + nat" where
  "demo_lexical_cast s = (if s \<noteq> [] \<and> set s \<subseteq> decimal_digits then Inr (dec_val s) else Inl Bad_cast)"

theorem number_vector_not_reread_witness:
  "\<exists>doc val. json_dump None (J_array [J_unsigned 1, J_unsigned 20]) = Inr doc
     \<and> string_to_vector demo_strtod demo_lexical_cast doc = Inr [1, 20]
     \<and> vector_to_string (\<lambda>n. Inr (dec_str n)) [1, 20] = Inr val \<and> string_to_vector demo_strtod demo_lexical_cast val = Inl Bad_cast"
proof -
  have "\<forall>n. demo_lexical_cast (dec_str n) = Inr n"
    using dec_str_digits dec_str_nonempty dec_val_str by (simp add: demo_lexical_cast_def)
  moreover have "\<forall>s. demo_lexical_cast (CHR 0x22 # s) = Inl Bad_cast" by (simp add: demo_lexical_cast_def decimal_digits_def)
  ultimately show ?thesis
    using number_vector_not_reread[of demo_lexical_cast "[1, 20]" None demo_strtod] by simp
qed

text \<open>A vector of strings is read again with every string in quotation marks, escaped.\<close>

lemma string_vector_reread:
  assumes "\<forall>t \<in> set ts. utf8_ok t"
  shows "\<exists>val us. vector_to_string Inr ts = Inr val \<and> string_to_vector strtod Inr val = Inr us
    \<and> list_all2 (\<lambda>t u. dump_string t = Inr u) ts us"
proof -
  have "mapE Inr ts = Inr ts" by (induction ts) auto
  then obtain val where val: "vector_to_string Inr ts = Inr val" "string_to_vector strtod Inr val = mapE dump_string ts"
    using vector_reread[of Inr ts ts strtod Inr] assms by auto
  have "\<exists>us. mapE dump_string ts = Inr us" using assms
    by (induction ts) (auto simp: utf8_ok_def dump_string_def split: sum.splits)
  then obtain us where "mapE dump_string ts = Inr us" by blast
  with val mapE_InrD[OF this] show ?thesis by auto
qed

end
