(* ===== verification/Log.thy ===== *)
theory Log
  imports CString
begin

text \<open>
  \<^verbatim>\<open>include/Log.h\<close>, \<^verbatim>\<open>src/Log.cc\<close>: levels, the pattern language of the formatter, appenders and
  loggers. \<open>strftime\<close> on the local time is an argument; what is written to the console and to
  files is a list of outputs. \<open>LogConfig\<close> has the conversions to and from JSON.
\<close>

subsection \<open>Levels and events\<close>

datatype log_level = UNKNOW | DEBUG | INFO | WARN | ERROR | FATAL

fun level_num :: "log_level \<Rightarrow> nat" where
  "level_num UNKNOW = 0" | "level_num DEBUG = 1" | "level_num INFO = 2" | "level_num WARN = 3"
| "level_num ERROR = 4" | "level_num FATAL = 5"

fun LogLevel_ToString :: "log_level \<Rightarrow> string" where
  "LogLevel_ToString DEBUG = ''DEBUG''" | "LogLevel_ToString INFO = ''INFO''" | "LogLevel_ToString FATAL = ''FATAL''"
| "LogLevel_ToString ERROR = ''ERROR''" | "LogLevel_ToString WARN = ''WARN''" | "LogLevel_ToString UNKNOW = ''UNKNOW''"

definition LogLevel_FromString :: "string \<Rightarrow> log_level" where
  "LogLevel_FromString str =
     (if str = ''debug'' then DEBUG else if str = ''info'' then INFO else if str = ''warn'' then WARN
      else if str = ''error'' then ERROR else if str = ''fatal'' then FATAL
      else if str = ''DEBUG'' then DEBUG else if str = ''INFO'' then INFO else if str = ''WARN'' then WARN
      else if str = ''ERROR'' then ERROR else if str = ''FATAL'' then FATAL else UNKNOW)"

record log_event =
  le_file :: string
  le_line :: int
  le_threadId :: nat
  le_elapse :: nat
  le_fiberId :: nat
  le_time :: nat
  le_threadName :: string
  le_ss :: string
  le_logger :: string
  le_level :: log_level

text \<open>The logger of an event is its name, the only thing that is asked of it.\<close>

definition LogEvent ::
  "string \<Rightarrow> log_level \<Rightarrow> string \<Rightarrow> int \<Rightarrow> nat \<Rightarrow> nat \<Rightarrow> nat \<Rightarrow> nat \<Rightarrow> string \<Rightarrow> log_event"
where
  "LogEvent logger level filename line elapse thread_id fiber_id time thread_name =
     \<lparr>le_file = filename, le_line = line, le_threadId = thread_id, le_elapse = elapse, le_fiberId = fiber_id,
      le_time = time, le_threadName = thread_name, le_ss = [], le_logger = logger, le_level = level\<rparr>"

subsection \<open>Items\<close>

text \<open>\<open>format(fmt, al)\<close>: \<open>vasprintf\<close> gives the text, or nothing for \<open>-1\<close>.\<close>

definition LogEvent_format :: "(string \<Rightarrow> 'args \<Rightarrow> string option) \<Rightarrow> string \<Rightarrow> 'args \<Rightarrow> log_event \<Rightarrow> log_event" where
  "LogEvent_format vasprintf fmt al e = (case vasprintf fmt al of None \<Rightarrow> e | Some s \<Rightarrow> e\<lparr>le_ss := le_ss e @ s\<rparr>)"

datatype format_item =
    MessageFormatItem | LevelFormatItem | ElapseFormatItem | NameFormatItem | ThreadIdFormatItem
  | NewLineFormatItem | DateTimeFormatItem string | FilenameFormatItem | LineFormatItem | TabFormatItem
  | FiberIdFormatItem | ThreadNameFormatItem | StringFormatItem string

definition DateTimeFormatItem_new :: "string \<Rightarrow> format_item" where
  "DateTimeFormatItem_new fmt = DateTimeFormatItem (if fmt = [] then ''%Y-%m-%d %H:%M:%S'' else fmt)"

definition log_int_str :: "int \<Rightarrow> string" where
  "log_int_str i = (if i < 0 then ''-'' @ dec_str (nat (- i)) else dec_str (nat i))"

fun item_format :: "(string \<Rightarrow> nat \<Rightarrow> string) \<Rightarrow> log_level \<Rightarrow> log_event \<Rightarrow> format_item \<Rightarrow> string" where
  "item_format strftime level ev MessageFormatItem = le_ss ev"
| "item_format strftime level ev LevelFormatItem = LogLevel_ToString level"
| "item_format strftime level ev ElapseFormatItem = dec_str (le_elapse ev)"
| "item_format strftime level ev NameFormatItem = le_logger ev"
| "item_format strftime level ev ThreadIdFormatItem = dec_str (le_threadId ev)"
| "item_format strftime level ev FiberIdFormatItem = dec_str (le_fiberId ev)"
| "item_format strftime level ev ThreadNameFormatItem = le_threadName ev"
| "item_format strftime level ev (DateTimeFormatItem fmt) = strftime fmt (le_time ev)"
| "item_format strftime level ev FilenameFormatItem = le_file ev"
| "item_format strftime level ev LineFormatItem = log_int_str (le_line ev)"
| "item_format strftime level ev NewLineFormatItem = [CHR 0x0A]"
| "item_format strftime level ev (StringFormatItem str) = str"
| "item_format strftime level ev TabFormatItem = [CHR 0x09]"

definition formatterItems :: "(string \<times> (string \<Rightarrow> format_item)) list" where
  "formatterItems =
     [(''m'', \<lambda>_. MessageFormatItem), (''p'', \<lambda>_. LevelFormatItem), (''r'', \<lambda>_. ElapseFormatItem),
      (''c'', \<lambda>_. NameFormatItem), (''t'', \<lambda>_. ThreadIdFormatItem), (''n'', \<lambda>_. NewLineFormatItem),
      (''d'', DateTimeFormatItem_new), (''f'', \<lambda>_. FilenameFormatItem), (''l'', \<lambda>_. LineFormatItem),
      (''T'', \<lambda>_. TabFormatItem), (''F'', \<lambda>_. FiberIdFormatItem), (''N'', \<lambda>_. ThreadNameFormatItem)]"

subsection \<open>The pattern\<close>

definition is_alpha :: "char \<Rightarrow> bool" where
  "is_alpha c = (let n = of_char c :: nat in 65 \<le> n \<and> n \<le> 90 \<or> 97 \<le> n \<and> n \<le> 122)"

text \<open>
  The loop over the pattern: \<open>nstr\<close> is the text read since the last entry, an entry is a string,
  its format and whether it is an item, and \<open>err\<close> is \<open>m_error\<close>. The inner loop looks for \<open>}\<close>,
  the terminating NUL of the string included.
\<close>

function init_loop ::
  "string \<Rightarrow> nat \<Rightarrow> string \<Rightarrow> (string \<times> string \<times> bool) list \<Rightarrow> bool \<Rightarrow> (string \<times> string \<times> bool) list \<times> bool"
where
  "init_loop pat i nstr vec err =
     (if \<not> i < length pat then (vec, err)
      else if pat ! i \<noteq> CHR ''%'' then init_loop pat (i + 1) (nstr @ [pat ! i]) vec err
      else if i + 1 < length pat \<and> pat ! (i + 1) = CHR ''%''
        then init_loop pat (i + 2) [] (vec @ [(nstr @ ''%'', [], False)]) err
      else
        let n = i + 1; flush = (if nstr \<noteq> [] then [(nstr, [], False)] else []) in
        if n < length pat \<and> is_alpha (pat ! n) then
          if n + 1 < length pat \<and> pat ! (n + 1) = CHR ''{'' then
            (case str_find (CHR ''}'') (n + 2) pat of
               Some m \<Rightarrow> init_loop pat (m + 1) [] (vec @ flush @ [([pat ! n], take (m - (n + 2)) (drop (n + 2) pat), True)]) err
             | None \<Rightarrow> init_loop pat (i + 2) [] (vec @ [([pat ! n], ''<<pattern_error>>'', True)] @ flush) True)
          else init_loop pat (i + 2) [] (vec @ flush @ [([pat ! n], [], True)]) err
        else init_loop pat (i + 2) [] (vec @ flush) err)"
  by pat_completeness auto
termination
  by (relation "measure (\<lambda>(pat, i, _). length pat - i)") (auto dest!: str_find_Some)

declare init_loop.simps [simp del]

record log_formatter =
  fm_pattern :: string
  fm_item :: "format_item list"
  fm_error :: bool

definition make_item :: "string \<times> string \<times> bool \<Rightarrow> format_item \<times> bool" where
  "make_item e = (case e of (str, fmt, is_item) \<Rightarrow>
     if \<not> is_item then (StringFormatItem str, False)
     else (case map_of formatterItems str of
         None \<Rightarrow> (StringFormatItem (''<<error_format %'' @ str @ ''>>''), True)
       | Some mk \<Rightarrow> (mk fmt, False)))"

definition LogFormatter_init :: "log_formatter \<Rightarrow> log_formatter" where
  "LogFormatter_init f = (let (vec, err) = init_loop (fm_pattern f) 0 [] [] (fm_error f); made = map make_item vec in
     f\<lparr>fm_item := fm_item f @ map fst made, fm_error := err \<or> (\<exists>m \<in> set made. snd m)\<rparr>)"

definition LogFormatter :: "string \<Rightarrow> log_formatter" where
  "LogFormatter pattern = LogFormatter_init \<lparr>fm_pattern = pattern, fm_item = [], fm_error = False\<rparr>"

definition formatter_format :: "(string \<Rightarrow> nat \<Rightarrow> string) \<Rightarrow> log_level \<Rightarrow> log_event \<Rightarrow> log_formatter \<Rightarrow> string" where
  "formatter_format strftime level ev f = concat (map (item_format strftime level ev) (fm_item f))"

subsection \<open>Appenders\<close>

text \<open>A \<open>File\<close> appender has the name of its file and the time it was last opened.\<close>

datatype appender_kind = Stdout_appender | File_appender string nat

record log_appender =
  ap_kind :: appender_kind
  ap_level :: log_level
  ap_hasFormatter :: bool
  ap_formatter :: "log_formatter option"

datatype log_output = To_stdout string | To_file string string | Reopen string

definition StdoutLogAppender :: log_appender where
  "StdoutLogAppender = \<lparr>ap_kind = Stdout_appender, ap_level = DEBUG, ap_hasFormatter = False, ap_formatter = None\<rparr>"

text \<open>The constructor opens the file, too.\<close>

definition FileLogAppender :: "string \<Rightarrow> log_appender" where
  "FileLogAppender filename =
     \<lparr>ap_kind = File_appender filename 0, ap_level = DEBUG, ap_hasFormatter = False, ap_formatter = None\<rparr>"

definition ap_setFormatter :: "log_formatter \<Rightarrow> log_appender \<Rightarrow> log_appender" where
  "ap_setFormatter val a = a\<lparr>ap_formatter := Some val\<rparr>"

definition ap_setLevel :: "log_level \<Rightarrow> log_appender \<Rightarrow> log_appender" where
  "ap_setLevel val a = a\<lparr>ap_level := val\<rparr>"

definition appender_log ::
  "(string \<Rightarrow> nat \<Rightarrow> string) \<Rightarrow> log_level \<Rightarrow> log_event \<Rightarrow> log_appender \<Rightarrow> fault + log_output list \<times> log_appender"
where
  "appender_log strftime level ev a =
     (if level_num level < level_num (ap_level a) then Inr ([], a)
      else case ap_kind a of
        Stdout_appender \<Rightarrow> (case ap_formatter a of None \<Rightarrow> Inl Null_deref
          | Some f \<Rightarrow> Inr ([To_stdout (formatter_format strftime level ev f)], a))
      | File_appender name lastTime \<Rightarrow>
          let now = le_time ev; again = (uadd64 lastTime 3 \<le> now);
              a = (if again then a\<lparr>ap_kind := File_appender name now\<rparr> else a)
          in (case ap_formatter a of None \<Rightarrow> Inl Null_deref
            | Some f \<Rightarrow> Inr ((if again then [Reopen name] else []) @ [To_file name (formatter_format strftime level ev f)], a)))"

subsection \<open>Loggers\<close>

text \<open>\<open>m_root\<close> is left out: it is null, and nothing in the program assigns to it.\<close>

record logger =
  lg_name :: string
  lg_level :: log_level
  lg_appenders :: "log_appender list"
  lg_formatter :: "log_formatter option"

fun log_all ::
  "(string \<Rightarrow> nat \<Rightarrow> string) \<Rightarrow> log_level \<Rightarrow> log_event \<Rightarrow> log_appender list \<Rightarrow> fault + log_output list \<times> log_appender list"
where
  "log_all strftime level ev [] = Inr ([], [])"
| "log_all strftime level ev (a # as) = bindE (appender_log strftime level ev a) (\<lambda>(out, a).
     bindE (log_all strftime level ev as) (\<lambda>(outs, as). Inr (out @ outs, a # as)))"

definition logger_log ::
  "(string \<Rightarrow> nat \<Rightarrow> string) \<Rightarrow> log_level \<Rightarrow> log_event \<Rightarrow> logger \<Rightarrow> fault + log_output list \<times> logger"
where
  "logger_log strftime level ev l =
     (if level_num (lg_level l) \<le> level_num level
      then bindE (log_all strftime level ev (lg_appenders l)) (\<lambda>(out, as). Inr (out, l\<lparr>lg_appenders := as\<rparr>))
      else Inr ([], l))"

definition logger_debug where "logger_debug strftime = logger_log strftime DEBUG"
definition logger_info where "logger_info strftime = logger_log strftime INFO"
definition logger_warn where "logger_warn strftime = logger_log strftime WARN"
definition logger_fatal where "logger_fatal strftime = logger_log strftime FATAL"
definition logger_error where "logger_error strftime = logger_log strftime ERROR"

definition addAppender :: "log_appender \<Rightarrow> logger \<Rightarrow> logger" where
  "addAppender a l = l\<lparr>lg_appenders := lg_appenders l @ [a]\<rparr>"

text \<open>The appender to remove is given by its address; \<open>same\<close> tells whether an element is that object.\<close>

fun erase_first :: "('a \<Rightarrow> bool) \<Rightarrow> 'a list \<Rightarrow> 'a list" where
  "erase_first same [] = []"
| "erase_first same (x # xs) = (if same x then xs else x # erase_first same xs)"

definition delAppender :: "(log_appender \<Rightarrow> bool) \<Rightarrow> logger \<Rightarrow> logger" where
  "delAppender same l = l\<lparr>lg_appenders := erase_first same (lg_appenders l)\<rparr>"

definition clearAppenders :: "logger \<Rightarrow> logger" where
  "clearAppenders l = l\<lparr>lg_appenders := []\<rparr>"

definition lg_setLevel :: "log_level \<Rightarrow> logger \<Rightarrow> logger" where
  "lg_setLevel level l = l\<lparr>lg_level := level\<rparr>"

definition setFormatter :: "log_formatter option \<Rightarrow> logger \<Rightarrow> logger" where
  "setFormatter val l = l\<lparr>lg_formatter := val,
     lg_appenders := map (\<lambda>i. if \<not> ap_hasFormatter i then i\<lparr>ap_formatter := val\<rparr> else i) (lg_appenders l)\<rparr>"

text \<open>The overload for a pattern calls the other one with the mutex held, which is not recursive.\<close>

definition setFormatter_pattern :: "string \<Rightarrow> logger \<Rightarrow> fault + logger" where
  "setFormatter_pattern val l = (let new_val = LogFormatter val in
     if fm_error new_val then Inr l else Inl Deadlock)"

definition Logger :: "string \<Rightarrow> logger" where
  "Logger name =
     (let f = LogFormatter ''%d{%Y-%m-%d %H:%M:%S}%T%t%T%N%T%F%T[%p]%T[%c]%T%f:%l%T%m%n'';
          l = \<lparr>lg_name = name, lg_level = DEBUG,
            lg_appenders = [StdoutLogAppender, FileLogAppender ''/root/desktop/muqiu0614/src/Log.txt''],
            lg_formatter = Some f\<rparr>
      in setFormatter (Some f) l)"

text \<open>
  The macro \<open>SYLAR_LOG_LEVEL\<close>: an event is made if the level passes, the text is streamed into
  it, and the destructor of the wrapper logs it.
\<close>

definition SYLAR_LOG_LEVEL ::
  "(string \<Rightarrow> nat \<Rightarrow> string) \<Rightarrow> log_level \<Rightarrow> log_event \<Rightarrow> string \<Rightarrow> logger \<Rightarrow> fault + log_output list \<times> logger"
where
  "SYLAR_LOG_LEVEL strftime level ev txt l =
     (if level_num (lg_level l) \<le> level_num level
      then logger_log strftime (le_level ev) (ev\<lparr>le_ss := le_ss ev @ txt\<rparr>) l else Inr ([], l))"

text \<open>The macro \<open>SYLAR_LOG_FMT_LEVEL\<close>, with the arguments of the format.\<close>

definition SYLAR_LOG_FMT_LEVEL ::
  "(string \<Rightarrow> 'args \<Rightarrow> string option) \<Rightarrow> (string \<Rightarrow> nat \<Rightarrow> string) \<Rightarrow> log_level \<Rightarrow> log_event \<Rightarrow> string \<Rightarrow> 'args \<Rightarrow> logger
   \<Rightarrow> fault + log_output list \<times> logger"
where
  "SYLAR_LOG_FMT_LEVEL vasprintf strftime level ev fmt al l =
     (if level_num (lg_level l) \<le> level_num level
      then logger_log strftime (le_level ev) (LogEvent_format vasprintf fmt al ev) l else Inr ([], l))"

subsection \<open>LoggerManager\<close>

text \<open>Loggers by address; \<open>lm_names\<close> is \<open>m_loggers\<close>.\<close>

record logger_manager =
  lm_heap :: "nat \<Rightarrow> logger"
  lm_next :: nat
  lm_names :: "string \<Rightarrow> nat option"
  lm_root :: nat

definition LoggerManager :: "nat \<Rightarrow> (nat \<Rightarrow> logger) \<Rightarrow> logger_manager" where
  "LoggerManager p heap = \<lparr>lm_heap = heap(p := Logger ''root''), lm_next = p + 1, lm_names = [''root'' \<mapsto> p], lm_root = p\<rparr>"

text \<open>\<open>getLogger\<close>: a logger that is made is entered under its name, but the root is returned.\<close>

definition getLogger :: "string \<Rightarrow> logger_manager \<Rightarrow> nat \<times> logger_manager" where
  "getLogger name s = (case lm_names s name of
     Some p \<Rightarrow> (p, s)
   | None \<Rightarrow> (lm_root s, s\<lparr>lm_heap := (lm_heap s)(lm_next s := Logger name), lm_next := lm_next s + 1,
       lm_names := (lm_names s)(name \<mapsto> lm_next s)\<rparr>))"

subsection \<open>Definitions from the configuration\<close>

record log_appender_define =
  ad_type :: int
  ad_level :: log_level
  ad_formatter :: string
  ad_file :: string

record log_define =
  ld_name :: string
  ld_level :: log_level
  ld_formatter :: string
  ld_appenders :: "log_appender_define list"

definition ad_eq :: "log_appender_define \<Rightarrow> log_appender_define \<Rightarrow> bool" where
  "ad_eq a oth = (ad_type a = ad_type oth \<and> ad_level a = ad_level oth
     \<and> ad_formatter a = ad_formatter oth \<and> ad_file a = ad_file oth)"

text \<open>The last comparison is of \<open>appenders\<close> with itself.\<close>

definition ld_eq :: "log_define \<Rightarrow> log_define \<Rightarrow> bool" where
  "ld_eq d oth = (ld_name d = ld_name oth \<and> ld_level d = ld_level oth \<and> ld_formatter d = ld_formatter oth
     \<and> list_all2 ad_eq (ld_appenders d) (ld_appenders d))"

definition ld_isValid :: "log_define \<Rightarrow> bool" where
  "ld_isValid d = (ld_name d \<noteq> [])"

text \<open>
  What the listener does for a new definition: \<open>SYLAR_LOG_NAME\<close> makes a logger of its own, which
  is configured and then destroyed. An appender of another type is a null pointer.
\<close>

fun configure_appenders :: "log_appender_define list \<Rightarrow> logger \<Rightarrow> fault + logger" where
  "configure_appenders [] l = Inr l"
| "configure_appenders (a # as) l =
     (if ad_type a \<noteq> 1 \<and> ad_type a \<noteq> 2 then Inl Null_deref
      else let ap = (if ad_type a = 1 then FileLogAppender (ad_file a) else StdoutLogAppender);
               ap = ap_setLevel (ad_level a) ap;
               fmt = LogFormatter (ad_formatter a);
               ap = (if ad_formatter a \<noteq> [] \<and> \<not> fm_error fmt then ap_setFormatter fmt ap else ap)
           in configure_appenders as (addAppender ap l))"

definition configure_logger :: "log_define \<Rightarrow> fault + logger" where
  "configure_logger d =
     (let l = clearAppenders (lg_setLevel (ld_level d) (Logger (ld_name d))) in
      bindE (configure_appenders (ld_appenders d) l) (\<lambda>l.
        if ld_formatter d \<noteq> [] then setFormatter_pattern (ld_formatter d) l else Inr l))"

text \<open>The sets are ordered by name: \<open>find\<close> is by name, too.\<close>

definition ld_find :: "log_define \<Rightarrow> log_define list \<Rightarrow> log_define option" where
  "ld_find d ds = find (\<lambda>e. ld_name e = ld_name d) ds"

fun on_logger_conf_changed :: "log_define list \<Rightarrow> log_define list \<Rightarrow> fault + logger list" where
  "on_logger_conf_changed old_value [] = Inr []"
| "on_logger_conf_changed old_value (i # new_value) =
     (if (case ld_find i old_value of None \<Rightarrow> True | Some e \<Rightarrow> \<not> ld_eq i e)
      then bindE (configure_logger i) (\<lambda>l. bindE (on_logger_conf_changed old_value new_value) (\<lambda>ls. Inr (l # ls)))
      else on_logger_conf_changed old_value new_value)"

subsection \<open>Patterns as segments\<close>

datatype segment = Txt string | Percent | Item char | Item_fmt char string

fun seg_str :: "segment \<Rightarrow> string" where
  "seg_str (Txt s) = s"
| "seg_str Percent = ''%%''"
| "seg_str (Item c) = [CHR ''%'', c]"
| "seg_str (Item_fmt c f) = [CHR ''%'', c, CHR ''{''] @ f @ [CHR ''}'']"

definition segs_str :: "segment list \<Rightarrow> string" where
  "segs_str segs = concat (map seg_str segs)"

lemma segs_str_simps [simp]: "segs_str [] = []" "segs_str (x # xs) = seg_str x @ segs_str xs"
  by (simp_all add: segs_str_def)

text \<open>
  Text has no percent sign, a letter with no format is not followed by a brace, a format has
  no closing brace; \<open>known\<close> says which letters may be used.
\<close>

fun segs_ok :: "(char \<Rightarrow> bool) \<Rightarrow> segment list \<Rightarrow> bool" where
  "segs_ok known [] = True"
| "segs_ok known (Txt s # segs) = (CHR ''%'' \<notin> set s \<and> segs_ok known segs)"
| "segs_ok known (Percent # segs) = segs_ok known segs"
| "segs_ok known (Item c # segs) = (known c \<and> \<not> is_prefix ''{'' (segs_str segs) \<and> segs_ok known segs)"
| "segs_ok known (Item_fmt c f # segs) = (known c \<and> CHR ''}'' \<notin> set f \<and> segs_ok known segs)"

text \<open>What the parser makes of them; \<open>nstr\<close> is the text before.\<close>

fun seg_entries :: "string \<Rightarrow> segment list \<Rightarrow> (string \<times> string \<times> bool) list" where
  "seg_entries nstr [] = []"
| "seg_entries nstr (Txt s # segs) = seg_entries (nstr @ s) segs"
| "seg_entries nstr (Percent # segs) = (nstr @ ''%'', [], False) # seg_entries [] segs"
| "seg_entries nstr (Item c # segs) = (if nstr \<noteq> [] then [(nstr, [], False)] else []) @ ([c], [], True) # seg_entries [] segs"
| "seg_entries nstr (Item_fmt c f # segs) = (if nstr \<noteq> [] then [(nstr, [], False)] else []) @ ([c], f, True) # seg_entries [] segs"

text \<open>One round of the loop, by what it finds.\<close>

abbreviation flushed :: "string \<Rightarrow> (string \<times> string \<times> bool) list" where
  "flushed nstr \<equiv> if nstr \<noteq> [] then [(nstr, [], False)] else []"

lemma round_text:
  "i < length pat \<Longrightarrow> pat ! i \<noteq> CHR ''%'' \<Longrightarrow> init_loop pat i nstr vec err = init_loop pat (i + 1) (nstr @ [pat ! i]) vec err"
  by (subst init_loop.simps) simp

lemma round_percent:
  "i + 1 < length pat \<Longrightarrow> pat ! i = CHR ''%'' \<Longrightarrow> pat ! (i + 1) = CHR ''%''
   \<Longrightarrow> init_loop pat i nstr vec err = init_loop pat (i + 2) [] (vec @ [(nstr @ ''%'', [], False)]) err"
  by (subst init_loop.simps) simp

lemma round_item:
  "i + 1 < length pat \<Longrightarrow> pat ! i = CHR ''%'' \<Longrightarrow> is_alpha (pat ! (i + 1))
   \<Longrightarrow> \<not> (i + 2 < length pat \<and> pat ! (i + 2) = CHR ''{'')
   \<Longrightarrow> init_loop pat i nstr vec err = init_loop pat (i + 2) [] (vec @ flushed nstr @ [([pat ! (i + 1)], [], True)]) err"
  by (subst init_loop.simps) (auto simp: is_alpha_def Let_def)

lemma round_fmt:
  "i + 2 < length pat \<Longrightarrow> pat ! i = CHR ''%'' \<Longrightarrow> is_alpha (pat ! (i + 1)) \<Longrightarrow> pat ! (i + 2) = CHR ''{''
   \<Longrightarrow> str_find (CHR ''}'') (i + 3) pat = Some m
   \<Longrightarrow> init_loop pat i nstr vec err
     = init_loop pat (m + 1) [] (vec @ flushed nstr @ [([pat ! (i + 1)], take (m - (i + 3)) (drop (i + 3) pat), True)]) err"
  by (subst init_loop.simps) (auto simp: is_alpha_def Let_def numeral_3_eq_3)

lemma init_loop_text:
  assumes "CHR ''%'' \<notin> set s"
  shows "init_loop (pre @ s @ rest) (length pre) nstr vec err
    = init_loop (pre @ s @ rest) (length pre + length s) (nstr @ s) vec err"
  using assms
proof (induction s arbitrary: pre nstr)
  case (Cons c s)
  have "init_loop (pre @ (c # s) @ rest) (length pre) nstr vec err
      = init_loop (pre @ (c # s) @ rest) (length pre + 1) (nstr @ [c]) vec err"
    using Cons.prems by (subst round_text) auto
  also have "\<dots> = init_loop ((pre @ [c]) @ s @ rest) (length (pre @ [c])) (nstr @ [c]) vec err" by simp
  also have "\<dots> = init_loop ((pre @ [c]) @ s @ rest) (length (pre @ [c]) + length s) ((nstr @ [c]) @ s) vec err"
    by (rule Cons.IH) (use Cons.prems in simp)
  finally show ?case by simp
qed simp

lemma init_loop_segs:
  assumes "segs_ok is_alpha segs"
  shows "init_loop (pre @ segs_str segs) (length pre) nstr vec err = (vec @ seg_entries nstr segs, err)"
  using assms
proof (induction segs arbitrary: pre nstr vec)
  case Nil
  then show ?case by (subst init_loop.simps) simp
next
  case (Cons x segs)
  let ?n = "length pre"
  show ?case
  proof (cases x)
    case (Txt s)
    with Cons.prems init_loop_text[of s pre "segs_str segs" nstr vec err] Cons.IH[of "pre @ s" "nstr @ s" vec]
    show ?thesis by simp
  next
    case Percent
    let ?pat = "pre @ ''%%'' @ segs_str segs"
    have "init_loop ?pat ?n nstr vec err = init_loop ?pat (?n + 2) [] (vec @ [(nstr @ ''%'', [], False)]) err"
      by (rule round_percent) (simp_all add: nth_append)
    with Percent Cons.prems Cons.IH[of "pre @ ''%%''" "[]" "vec @ [(nstr @ ''%'', [], False)]"] show ?thesis by simp
  next
    case (Item c)
    let ?pat = "pre @ [CHR ''%'', c] @ segs_str segs"
    have c: "is_alpha c" "\<not> is_prefix ''{'' (segs_str segs)" using Item Cons.prems by simp_all
    have "\<not> (segs_str segs \<noteq> [] \<and> segs_str segs ! 0 = CHR ''{'')" using c(2) by (cases "segs_str segs") auto
    then have "init_loop ?pat ?n nstr vec err
        = init_loop ?pat (?n + 2) [] (vec @ flushed nstr @ [([?pat ! (?n + 1)], [], True)]) err"
      using c(1) by (intro round_item) (simp_all add: nth_append)
    with Item Cons.prems Cons.IH[of "pre @ [CHR ''%'', c]" "[]" "vec @ flushed nstr @ [([c], [], True)]"]
    show ?thesis by (simp add: nth_append)
  next
    case (Item_fmt c f)
    let ?pre = "pre @ [CHR ''%'', c, CHR ''{'']"
    let ?pat = "?pre @ f @ CHR ''}'' # segs_str segs"
    have c: "is_alpha c" "CHR ''}'' \<notin> set f" using Item_fmt Cons.prems by simp_all
    have n: "length ?pre = ?n + 3" by simp
    have m: "str_find (CHR ''}'') (?n + 3) ?pat = Some (?n + 3 + length f)"
      using str_find_append(1)[OF c(2), of ?pre "segs_str segs"] unfolding n .
    have d: "take (?n + 3 + length f - (?n + 3)) (drop (?n + 3) ?pat) = f" by simp
    have n1: "?pat ! (?n + 1) = c" by (simp add: nth_append)
    have len: "length (?pre @ f @ [CHR ''}'']) = ?n + 3 + length f + 1" by simp
    have "init_loop ?pat ?n nstr vec err = init_loop ?pat (?n + 3 + length f + 1) []
        (vec @ flushed nstr @ [([?pat ! (?n + 1)], take (?n + 3 + length f - (?n + 3)) (drop (?n + 3) ?pat), True)]) err"
      using c(1) by (intro round_fmt m) (simp_all add: nth_append)
    also have "\<dots> = init_loop ((?pre @ f @ [CHR ''}'']) @ segs_str segs) (length (?pre @ f @ [CHR ''}''])) []
        (vec @ flushed nstr @ [([c], f, True)]) err"
      unfolding d n1 len by simp
    also have "\<dots> = ((vec @ flushed nstr @ [([c], f, True)]) @ seg_entries [] segs, err)"
      by (rule Cons.IH) (use Item_fmt Cons.prems in simp)
    finally show ?thesis using Item_fmt by simp
  qed
qed

lemma seg_entries_append_Txt: "seg_entries nstr (segs @ [Txt s]) = seg_entries nstr segs"
proof (induction segs arbitrary: nstr)
  case (Cons x segs)
  then show ?case by (cases x) simp_all
qed simp

text \<open>The letters that the formatter knows.\<close>

definition known_letter :: "char \<Rightarrow> bool" where
  "known_letter c = (map_of formatterItems [c] \<noteq> None)"

lemma known_alpha: "known_letter c \<Longrightarrow> is_alpha c"
proof -
  assume "known_letter c"
  then have "[c] \<in> set (map fst formatterItems)" by (simp add: known_letter_def map_of_eq_None_iff)
  moreover have "list_all (\<lambda>s. \<forall>c. s = [c] \<longrightarrow> is_alpha c) (map fst formatterItems)"
    by (auto simp: formatterItems_def is_alpha_def)
  ultimately show "is_alpha c" by (auto simp: list_all_iff)
qed

lemma segs_ok_mono: "segs_ok known_letter segs \<Longrightarrow> segs_ok is_alpha segs"
proof (induction segs)
  case (Cons x segs)
  then show ?case by (cases x) (auto intro: known_alpha)
qed simp

lemma known_no_error:
  "segs_ok known_letter segs \<Longrightarrow> e \<in> set (seg_entries nstr segs) \<Longrightarrow> \<not> snd (make_item e)"
proof (induction segs arbitrary: nstr)
  case (Cons x segs)
  then show ?case by (cases x) (auto simp: make_item_def known_letter_def split: if_splits option.splits)
qed simp

lemma formatter_of_segs:
  assumes "segs_ok known_letter segs"
  shows "LogFormatter (segs_str segs) = \<lparr>fm_pattern = segs_str segs,
       fm_item = map (fst \<circ> make_item) (seg_entries [] segs), fm_error = False\<rparr>"
  using init_loop_segs[OF segs_ok_mono[OF assms], of "[]" "[]" "[]" False] known_no_error[OF assms, of _ "[]"]
  by (auto simp: LogFormatter_def LogFormatter_init_def Let_def)

text \<open>C34: the formatter reads a pattern made of text, \<open>%%\<close>, known letters and formats as
  the items it stands for, with the text between two of them as one item, and finds no error. Text at
  the end of the pattern is lost.\<close>

theorem pattern_items:
  assumes "segs_ok known_letter segs"
  shows "LogFormatter (segs_str segs) = \<lparr>fm_pattern = segs_str segs,
       fm_item = map (fst \<circ> make_item) (seg_entries [] segs), fm_error = False\<rparr>
     \<and> (segs_ok known_letter (segs @ [Txt s])
        \<longrightarrow> fm_item (LogFormatter (segs_str (segs @ [Txt s]))) = fm_item (LogFormatter (segs_str segs)))"
  using assms by (simp add: formatter_of_segs seg_entries_append_Txt)

theorem pattern_items_witness:
  "fm_item (LogFormatter ''[%p]%T%d{%Y}%% %m.'') =
     [StringFormatItem ''['', LevelFormatItem, StringFormatItem '']'', TabFormatItem, DateTimeFormatItem ''%Y'',
      StringFormatItem ''%'', StringFormatItem '' '', MessageFormatItem]"
proof -
  let ?segs = "[Txt ''['', Item (CHR ''p''), Txt '']'', Item (CHR ''T''), Item_fmt (CHR ''d'') ''%Y'', Percent, Txt '' '', Item (CHR ''m''), Txt ''.'']"
  have "segs_ok known_letter ?segs" by (simp add: known_letter_def formatterItems_def)
  from pattern_items[OF this, THEN conjunct1]
  show ?thesis by (simp add: make_item_def formatterItems_def DateTimeFormatItem_new_def)
qed

end
