(* ===== verification/Config.thy ===== *)
theory Config
  imports JsonText
begin

text \<open>
  \<^verbatim>\<open>include/Config.h\<close>, \<^verbatim>\<open>src/Config.cc\<close>: variables with listeners, the registry of variables and
  loading it from a JSON document. The conversions \<open>from_str\<close> and \<open>to_str\<close> of a type, which may throw, are
  arguments, and so is the equality of its values; \<open>LexicalCast\<close> has those of containers.
  The values of all types are one type \<open>'a\<close>; a variable has a number for its own type.
\<close>

subsection \<open>Variables\<close>

record 'a config_var =
  cv_name :: string
  cv_description :: string
  cv_type :: nat
  cv_val :: 'a
  cv_cdId :: nat
  cv_cbs :: "(nat \<times> nat) list"

definition ConfigVar :: "nat \<Rightarrow> string \<Rightarrow> 'a \<Rightarrow> string \<Rightarrow> 'a config_var" where
  "ConfigVar ty name default_value description =
     \<lparr>cv_name = ToLower name, cv_description = description, cv_type = ty, cv_val = default_value, cv_cdId = 0, cv_cbs = []\<rparr>"

text \<open>\<open>m_cbs\<close> is ordered by key; the counter \<open>s_fun_id\<close> is passed on.\<close>

definition addListener :: "nat \<Rightarrow> nat \<Rightarrow> 'a config_var \<Rightarrow> nat \<times> nat \<times> 'a config_var" where
  "addListener cb s_fun_id v = (let s_fun_id = s_fun_id + 1 in
     (s_fun_id, s_fun_id, v\<lparr>cv_cbs := filter (\<lambda>(k, _). k < s_fun_id) (cv_cbs v) @ [(s_fun_id, cb)]
        @ filter (\<lambda>(k, _). s_fun_id < k) (cv_cbs v)\<rparr>))"

definition delListener :: "nat \<Rightarrow> 'a config_var \<Rightarrow> 'a config_var" where
  "delListener key v = v\<lparr>cv_cbs := filter (\<lambda>(k, _). k \<noteq> key) (cv_cbs v)\<rparr>"

definition getListener :: "nat \<Rightarrow> 'a config_var \<Rightarrow> nat option" where
  "getListener key v = map_of (cv_cbs v) key"

definition clearListener :: "'a config_var \<Rightarrow> 'a config_var" where
  "clearListener v = v\<lparr>cv_cbs := []\<rparr>"

text \<open>The calls of listeners, with the old and the new value, and the variable afterwards.\<close>

definition setValue :: "('a \<Rightarrow> 'a \<Rightarrow> bool) \<Rightarrow> 'a \<Rightarrow> 'a config_var \<Rightarrow> (nat \<times> 'a \<times> 'a) list \<times> 'a config_var" where
  "setValue eq v var = (if eq v (cv_val var) then ([], var)
     else (map (\<lambda>(_, cb). (cb, cv_val var, v)) (cv_cbs var), var\<lparr>cv_val := v\<rparr>))"

definition fromString ::
  "(nat \<Rightarrow> 'a \<Rightarrow> 'a \<Rightarrow> bool) \<Rightarrow> (nat \<Rightarrow> string \<Rightarrow> fault + 'a) \<Rightarrow> string \<Rightarrow> 'a config_var
   \<Rightarrow> bool \<times> (nat \<times> 'a \<times> 'a) list \<times> 'a config_var"
where
  "fromString eq from_str val var = (case from_str (cv_type var) val of
     Inr v \<Rightarrow> (True, setValue (eq (cv_type var)) v var)
   | Inl _ \<Rightarrow> (False, [], var))"

definition cv_toString :: "(nat \<Rightarrow> 'a \<Rightarrow> fault + string) \<Rightarrow> 'a config_var \<Rightarrow> string" where
  "cv_toString to_str var = (case to_str (cv_type var) (cv_val var) of Inr t \<Rightarrow> t | Inl _ \<Rightarrow> [])"

subsection \<open>The registry\<close>

text \<open>Variables by address, and the addresses by name.\<close>

record 'a config =
  cf_heap :: "nat \<Rightarrow> 'a config_var"
  cf_next :: nat
  cf_datas :: "string \<Rightarrow> nat option"

definition name_chars :: string where
  "name_chars = ''abcdefghikjlmnopqrstuvwxyz._0123456789''"

definition LookupBase :: "string \<Rightarrow> 'a config \<Rightarrow> nat option" where
  "LookupBase name s = cf_datas s name"

text \<open>The cast gives nothing when the variable has another type.\<close>

definition Lookup_type :: "nat \<Rightarrow> string \<Rightarrow> 'a config \<Rightarrow> nat option" where
  "Lookup_type ty name s = (case cf_datas s name of None \<Rightarrow> None
     | Some p \<Rightarrow> if cv_type (cf_heap s p) = ty then Some p else None)"

definition Lookup :: "nat \<Rightarrow> string \<Rightarrow> 'a \<Rightarrow> string \<Rightarrow> 'a config \<Rightarrow> fault + nat \<times> 'a config" where
  "Lookup ty name default_value description s = (case Lookup_type ty name s of
     Some p \<Rightarrow> Inr (p, s)
   | None \<Rightarrow>
       if \<not> set name \<subseteq> set name_chars then Inl Invalid_argument
       else let p = cf_next s in
         Inr (p, s\<lparr>cf_heap := (cf_heap s)(p := ConfigVar ty name default_value description), cf_next := p + 1,
           cf_datas := (cf_datas s)(name \<mapsto> p)\<rparr>))"

subsection \<open>Loading\<close>

definition member_chars :: string where
  "member_chars = ''abcdefghikjlmnopqrstuvwxyz._012345678''"

definition member_name :: "string \<Rightarrow> string \<Rightarrow> string" where
  "member_name prefix key = (if prefix = [] then key else prefix @ ''.'' @ key)"

lemma size_member [termination_simp]: "(k, v) \<in> set kvs \<Longrightarrow> size v < Suc (size_list (size_prod (\<lambda>_. 0) size) kvs)"
  by (induction kvs) auto

fun ListAllMember :: "string \<Rightarrow> json \<Rightarrow> (string \<times> json) list" where
  "ListAllMember prefix j =
     (if \<not> set prefix \<subseteq> set member_chars then []
      else (prefix, j) # (case j of
          J_object items \<Rightarrow> concat (map (\<lambda>(key, v). ListAllMember (member_name prefix key) v) items)
        | _ \<Rightarrow> []))"

declare ListAllMember.simps [simp del]

text \<open>One member: the variable of that name is set from the text, if there is one. An exception of
  \<open>dump\<close> is not caught.\<close>

definition load_member ::
  "(nat \<Rightarrow> 'a \<Rightarrow> 'a \<Rightarrow> bool) \<Rightarrow> (nat \<Rightarrow> string \<Rightarrow> fault + 'a) \<Rightarrow> string \<times> json \<Rightarrow> 'a config
   \<Rightarrow> fault + (nat \<times> 'a \<times> 'a) list \<times> 'a config"
where
  "load_member eq from_str i s =
     (if fst i = [] then Inr ([], s)
      else case LookupBase (ToLower (fst i)) s of
         None \<Rightarrow> Inr ([], s)
       | Some p \<Rightarrow> bindE (json_dump None (snd i)) (\<lambda>t.
           let (_, cs, v) = fromString eq from_str t (cf_heap s p)
           in Inr (cs, s\<lparr>cf_heap := (cf_heap s)(p := v)\<rparr>)))"

fun load_members ::
  "(nat \<Rightarrow> 'a \<Rightarrow> 'a \<Rightarrow> bool) \<Rightarrow> (nat \<Rightarrow> string \<Rightarrow> fault + 'a) \<Rightarrow> (string \<times> json) list \<Rightarrow> 'a config
   \<Rightarrow> fault + (nat \<times> 'a \<times> 'a) list \<times> 'a config"
where
  "load_members eq from_str [] s = Inr ([], s)"
| "load_members eq from_str (i # is) s = bindE (load_member eq from_str i s) (\<lambda>(cs, s).
     bindE (load_members eq from_str is s) (\<lambda>(cs', s). Inr (cs @ cs', s)))"

definition LoadFromJson ::
  "(nat \<Rightarrow> 'a \<Rightarrow> 'a \<Rightarrow> bool) \<Rightarrow> (nat \<Rightarrow> string \<Rightarrow> fault + 'a) \<Rightarrow> json \<Rightarrow> 'a config
   \<Rightarrow> fault + (nat \<times> 'a \<times> 'a) list \<times> 'a config"
where
  "LoadFromJson eq from_str root s = load_members eq from_str (ListAllMember [] root) s"

subsection \<open>What is loaded\<close>

text \<open>The members of a document: the keys from the root down to a node.\<close>

inductive at_path :: "json \<Rightarrow> string list \<Rightarrow> json \<Rightarrow> bool" where
  Here: "at_path j [] j"
| There: "(k, v) \<in> set items \<Longrightarrow> at_path v ks j \<Longrightarrow> at_path (J_object items) (k # ks) j"

inductive_cases at_pathE: "at_path j ks j'"
inductive_simps at_path_Nil: "at_path j [] j'"
inductive_simps at_path_Cons: "at_path j (k # ks) j'"

definition path_name :: "string \<Rightarrow> string list \<Rightarrow> string" where
  "path_name prefix ks = foldl member_name prefix ks"

lemma path_name_simps [simp]: "path_name p [] = p" "path_name p (k # ks) = path_name (member_name p k) ks"
  by (simp_all add: path_name_def)

lemma path_name_mono: "set p \<subseteq> set (path_name p ks)"
proof (induction ks arbitrary: p)
  case (Cons k ks)
  have "set p \<subseteq> set (member_name p k)" by (auto simp: member_name_def)
  with Cons[of "member_name p k"] show ?case by auto
qed simp

lemma leaf:
  assumes "\<forall>items. j \<noteq> J_object items" "set p \<subseteq> set member_chars"
  shows "((n, j') \<in> set (ListAllMember p j)) =
    (\<exists>ks. at_path j ks j' \<and> n = path_name p ks \<and> set n \<subseteq> set member_chars)"
proof -
  have "at_path j ks j' = (ks = [] \<and> j' = j)" for ks
    using assms(1) by (cases ks) (auto simp: at_path_Nil at_path_Cons)
  moreover have "ListAllMember p j = [(p, j)]"
    using assms by (subst ListAllMember.simps) (auto split: json.split)
  ultimately show ?thesis using assms(2) by auto
qed

lemma member_iff:
  "((n, j') \<in> set (ListAllMember p j)) =
   (\<exists>ks. at_path j ks j' \<and> n = path_name p ks \<and> set n \<subseteq> set member_chars)"
proof (induction p j arbitrary: n j' rule: ListAllMember.induct)
  case (1 p j)
  show ?case
  proof (cases "set p \<subseteq> set member_chars")
    case False
    then have "\<not> set (path_name p ks) \<subseteq> set member_chars" for ks using path_name_mono[of p ks] by blast
    with False show ?thesis by (subst ListAllMember.simps) auto
  next
    case True
    show ?thesis
    proof (cases j)
      case (J_object items)
      have IH: "((n, j') \<in> set (ListAllMember (member_name p k) v)) =
          (\<exists>ks. at_path v ks j' \<and> n = path_name (member_name p k) ks \<and> set n \<subseteq> set member_chars)"
        if "(k, v) \<in> set items" for k v
        using 1[OF _ J_object that refl] True by simp
      have "((n, j') \<in> set (ListAllMember p j)) =
          ((n, j') = (p, j) \<or> (\<exists>(k, v) \<in> set items. (n, j') \<in> set (ListAllMember (member_name p k) v)))"
        using True J_object by (subst ListAllMember.simps) auto
      also have "\<dots> = (\<exists>ks. at_path j ks j' \<and> n = path_name p ks \<and> set n \<subseteq> set member_chars)" (is "?l = ?r")
      proof
        assume ?l
        then show ?r
        proof
          assume "(n, j') = (p, j)"
          with True show ?r by (intro exI[of _ "[]"]) (simp add: Here)
        next
          assume "\<exists>(k, v) \<in> set items. (n, j') \<in> set (ListAllMember (member_name p k) v)"
          then obtain k v where kv: "(k, v) \<in> set items" "(n, j') \<in> set (ListAllMember (member_name p k) v)" by blast
          with IH[OF kv(1)] obtain ks where "at_path v ks j'" "n = path_name (member_name p k) ks" "set n \<subseteq> set member_chars"
            by blast
          with kv(1) J_object show ?r by (intro exI[of _ "k # ks"]) (auto intro: There)
        qed
      next
        assume ?r
        then obtain ks where ks: "at_path j ks j'" "n = path_name p ks" "set n \<subseteq> set member_chars" by blast
        then show ?l
        proof (cases ks)
          case Nil
          with ks show ?thesis by (simp add: at_path_Nil)
        next
          case (Cons k ks')
          with ks(1) J_object obtain v where "(k, v) \<in> set items" "at_path v ks' j'" by (auto simp: at_path_Cons)
          with IH[of k v] ks Cons show ?thesis by auto
        qed
      qed
      finally show ?thesis .
    qed (use True leaf[of j p n j'] in simp_all)
  qed
qed

text \<open>Loading visits exactly the members whose dotted name, and so the name of every
  object around them, is made of the characters allowed, which leave out the digit 9 that \<open>Lookup\<close> accepts.\<close>

lemma members_loaded:
  "((n, j') \<in> set (ListAllMember [] root)) =
     (\<exists>ks. at_path root ks j' \<and> n = path_name [] ks \<and> set n \<subseteq> set name_chars - {CHR ''9''})"
proof -
  have "set member_chars = set name_chars - {CHR ''9''}"
    by (auto simp: member_chars_def name_chars_def)
  then show ?thesis by (simp add: member_iff)
qed

lemma load_member_other:
  assumes "load_member eq from_str i s = Inr (cs, s')" "ToLower (fst i) \<noteq> name" "\<forall>n. cf_datas s n = Some p \<longrightarrow> n = name"
  shows "cf_heap s' p = cf_heap s p" "cf_datas s' = cf_datas s"
  using assms by (auto simp: load_member_def LookupBase_def Let_def split: option.splits prod.splits if_splits)

lemma load_others:
  assumes "load_members eq from_str members s = Inr (cs, s')" "\<forall>i \<in> set members. ToLower (fst i) \<noteq> name"
    and "\<forall>n. cf_datas s n = Some p \<longrightarrow> n = name"
  shows "cf_heap s' p = cf_heap s p"
  using assms
proof (induction members arbitrary: s cs)
  case (Cons i members)
  then obtain c1 s1 c2 where s1: "load_member eq from_str i s = Inr (c1, s1)" "load_members eq from_str members s1 = Inr (c2, s')"
    by auto
  have "ToLower (fst i) \<noteq> name" using Cons.prems(2) by simp
  from load_member_other[OF s1(1) this Cons.prems(3)] Cons.IH[OF s1(2)] Cons.prems(2,3) show ?case by simp
qed simp

text \<open>A variable whose name has the digit 9 keeps its value whatever document is
  loaded, although it can be registered.\<close>

lemma nine_never_loaded:
  assumes "LoadFromJson eq from_str root s = Inr (cs, s')" "CHR ''9'' \<in> set name" "\<forall>n. cf_datas s n = Some p \<longrightarrow> n = name"
  shows "cf_heap s' p = cf_heap s p"
proof (rule load_others[OF assms(1)[unfolded LoadFromJson_def] _ assms(3)])
  show "\<forall>i \<in> set (ListAllMember [] root). ToLower (fst i) \<noteq> name"
  proof (intro ballI notI)
    fix i assume i: "i \<in> set (ListAllMember [] root)" "ToLower (fst i) = name"
    then have "set (fst i) \<subseteq> set member_chars" using member_iff[of "fst i" "snd i" "[]" root] by auto
    moreover have "list_all (\<lambda>c. to_lower c \<noteq> CHR ''9'') member_chars" by code_simp
    moreover obtain c where "c \<in> set (fst i)" "to_lower c = CHR ''9''" using i(2) assms(2) by (auto simp: ToLower_def)
    ultimately show False by (auto simp: list_all_iff)
  qed
qed

end
