(* ===== verification/LogConfig.thy ===== *)
theory LogConfig
  imports LexicalCast Log Config
begin

text \<open>
  \<^verbatim>\<open>src/Log.cc\<close>: how definitions of loggers are read from the configuration and written, the JSON of loggers, and
  \<open>LoggerManager::init\<close>, which loads a document and lets the listener of the variable \<open>logs\<close> configure the loggers.
\<close>

subsection \<open>Definitions from text\<close>

text \<open>A member that is read as a string, through \<open>operator[]\<close>.\<close>

definition member_string :: "string \<Rightarrow> json \<Rightarrow> fault + string" where
  "member_string key n = bindE (j_index key n) (\<lambda>(v, _). j_string v)"

text \<open>One appender; \<open>None\<close> when it is skipped.\<close>

definition read_appender :: "json \<Rightarrow> fault + log_appender_define option" where
  "read_appender a =
     (if \<not> j_contains ''type'' a then Inr None
      else bindE (member_string ''type'' a) (\<lambda>type.
        let lad = \<lparr>ad_type = 0, ad_level = UNKNOW, ad_formatter = [], ad_file = []\<rparr> in
        if type = ''FileLogAppender'' then
          (let lad = lad\<lparr>ad_type := 1\<rparr> in
           if \<not> j_contains ''path'' a then Inr None
           else bindE (member_string ''path'' a) (\<lambda>path.
             let lad = lad\<lparr>ad_file := path\<rparr> in
             if j_contains ''formatter'' a then bindE (member_string ''formatter'' a) (\<lambda>f. Inr (Some (lad\<lparr>ad_formatter := f\<rparr>)))
             else Inr (Some lad)))
        else if type = ''StdoutLogAppender'' then
          (let lad = lad\<lparr>ad_type := 2\<rparr> in
           if j_contains ''formatter'' a then bindE (member_string ''formatter'' a) (\<lambda>f. Inr (Some (lad\<lparr>ad_formatter := f\<rparr>)))
           else Inr (Some lad))
        else Inr None))"

definition those_of :: "'a option list \<Rightarrow> 'a list" where
  "those_of xs = concat (map (\<lambda>x. case x of None \<Rightarrow> [] | Some y \<Rightarrow> [y]) xs)"

text \<open>A member that may be missing.\<close>

definition optional_string :: "string \<Rightarrow> json \<Rightarrow> fault + string" where
  "optional_string key n = (if j_find key n \<noteq> None then member_string key n else Inr [])"

definition read_appenders :: "json \<Rightarrow> fault + log_appender_define option list" where
  "read_appenders n = (if j_find ''appender'' n \<noteq> None
     then bindE (j_index ''appender'' n) (\<lambda>(as, _). mapE read_appender (j_elements as)) else Inr [])"

text \<open>\<open>auto name = n["name"]\<close> comes before the test for the name, and makes the member.\<close>

definition string_to_LogDefine :: "(string \<Rightarrow> string option) \<Rightarrow> string \<Rightarrow> fault + log_define" where
  "string_to_LogDefine strtod v = bindE (json_parse strtod v) (\<lambda>n.
     bindE (j_index ''name'' n) (\<lambda>(_, n).
     if j_find ''name'' n = None then Inl Logic_error
     else bindE (member_string ''name'' n) (\<lambda>name.
     bindE (optional_string ''level'' n) (\<lambda>level.
     bindE (optional_string ''formatter'' n) (\<lambda>formatter.
     bindE (read_appenders n) (\<lambda>appenders.
       Inr \<lparr>ld_name = name, ld_level = LogLevel_FromString level, ld_formatter = formatter, ld_appenders = those_of appenders\<rparr>))))))"

subsection \<open>Definitions to text\<close>

definition put_if :: "bool \<Rightarrow> string \<Rightarrow> string \<Rightarrow> json \<Rightarrow> fault + json" where
  "put_if b key v n = (if b then j_put key (J_string v) n else Inr n)"

text \<open>\<open>n[key].push_back(v)\<close>.\<close>

definition j_push_member :: "string \<Rightarrow> json \<Rightarrow> json \<Rightarrow> fault + json" where
  "j_push_member key v n = bindE (j_index key n) (\<lambda>(m, n). bindE (j_push_back v m) (\<lambda>m. j_put key m n))"

definition appender_json :: "log_appender_define \<Rightarrow> fault + json" where
  "appender_json a = bindE
     (if ad_type a = 1 then bindE (j_put ''type'' (J_string ''FileLogAppender'') J_null) (j_put ''file'' (J_string (ad_file a)))
      else if ad_type a = 2 then j_put ''type'' (J_string ''StdoutLogAppender'') J_null
      else Inr J_null) (\<lambda>na.
     bindE (put_if (ad_level a \<noteq> UNKNOW) ''level'' (LogLevel_ToString (ad_level a)) na) (\<lambda>na.
     put_if (ad_formatter a \<noteq> []) ''formatter'' (ad_formatter a) na))"

fun push_appenders :: "json \<Rightarrow> log_appender_define list \<Rightarrow> fault + json" where
  "push_appenders n [] = Inr n"
| "push_appenders n (a # as) = bindE (appender_json a) (\<lambda>na. bindE (j_push_member ''appenders'' na n) (\<lambda>n. push_appenders n as))"

definition LogDefine_json :: "log_define \<Rightarrow> fault + json" where
  "LogDefine_json i = bindE (j_put ''name'' (J_string (ld_name i)) J_null) (\<lambda>n.
     bindE (put_if (ld_level i \<noteq> UNKNOW) ''level'' (LogLevel_ToString (ld_level i)) n) (\<lambda>n.
     bindE (put_if (ld_formatter i \<noteq> []) ''formatter'' (ld_formatter i) n) (\<lambda>n.
     push_appenders n (ld_appenders i))))"

definition LogDefine_to_string :: "log_define \<Rightarrow> fault + string" where
  "LogDefine_to_string i = bindE (LogDefine_json i) (json_dump None)"

subsection \<open>The JSON of loggers\<close>

definition appender_toJsonString :: "log_appender \<Rightarrow> fault + string" where
  "appender_toJsonString a = bindE
     (case ap_kind a of
        File_appender name _ \<Rightarrow> bindE (j_put ''type'' (J_string ''FileLogAppender'') J_null) (j_put ''file'' (J_string name))
      | Stdout_appender \<Rightarrow> j_put ''type'' (J_string ''StdoutLogAppender'') J_null) (\<lambda>node.
     bindE (put_if (ap_level a \<noteq> UNKNOW) ''level'' (LogLevel_ToString (ap_level a)) node) (\<lambda>node.
     bindE (case ap_formatter a of
        Some f \<Rightarrow> put_if (ap_hasFormatter a) ''formatter'' (fm_pattern f) node
      | None \<Rightarrow> Inr node) (json_dump None)))"

fun push_parsed :: "(string \<Rightarrow> string option) \<Rightarrow> ('a \<Rightarrow> fault + string) \<Rightarrow> (json \<Rightarrow> json \<Rightarrow> fault + json) \<Rightarrow> json \<Rightarrow> 'a list \<Rightarrow> fault + json"
where
  "push_parsed strtod to push node [] = Inr node"
| "push_parsed strtod to push node (a # as) = bindE (to a) (\<lambda>s. bindE (json_parse strtod s) (\<lambda>j.
     bindE (push j node) (\<lambda>node. push_parsed strtod to push node as)))"

definition Logger_toJsonString :: "(string \<Rightarrow> string option) \<Rightarrow> logger \<Rightarrow> fault + string" where
  "Logger_toJsonString strtod l = bindE (j_put ''name'' (J_string (lg_name l)) J_null) (\<lambda>node.
     bindE (put_if (lg_level l \<noteq> UNKNOW) ''level'' (LogLevel_ToString (lg_level l)) node) (\<lambda>node.
     bindE (case lg_formatter l of
        Some f \<Rightarrow> j_put ''formatter'' (J_string (fm_pattern f)) node
      | None \<Rightarrow> Inr node) (\<lambda>node.
     bindE (push_parsed strtod appender_toJsonString (j_push_member ''appenders'') node (lg_appenders l)) (json_dump None))))"

text \<open>\<open>loggers\<close> are those of \<open>m_loggers\<close> in the order of their names.\<close>

definition LoggerManager_toJsonString :: "(string \<Rightarrow> string option) \<Rightarrow> logger list \<Rightarrow> fault + string" where
  "LoggerManager_toJsonString strtod loggers =
     bindE (push_parsed strtod (Logger_toJsonString strtod) j_push_back J_null loggers) (json_dump None)"

subsection \<open>The variable\<close>

definition ld_less :: "log_define \<Rightarrow> log_define \<Rightarrow> bool" where
  "ld_less d oth = string_less (ld_name d) (ld_name oth)"

definition string_to_logs :: "(string \<Rightarrow> string option) \<Rightarrow> string \<Rightarrow> fault + log_define list" where
  "string_to_logs strtod = string_to_set ld_less strtod (string_to_LogDefine strtod)"

definition logs_to_string :: "log_define list \<Rightarrow> fault + string" where
  "logs_to_string = set_to_string LogDefine_to_string"

subsection \<open>Objects as maps\<close>

definition obj_is :: "(string \<Rightarrow> string option) \<Rightarrow> json \<Rightarrow> (string \<Rightarrow> json option) \<Rightarrow> bool" where
  "obj_is strtod j m = (\<exists>kvs. j = J_object kvs \<and> json_plain strtod j \<and> map_of kvs = m)"

lemma obj_plain: "obj_is strtod j m \<Longrightarrow> json_plain strtod j"
  by (auto simp: obj_is_def)

lemma obj_find: "obj_is strtod j m \<Longrightarrow> j_find key j = m key"
  by (auto simp: obj_is_def j_find_def plain_object om_find_map_of)

lemma obj_index: "obj_is strtod j m \<Longrightarrow> m key = Some v \<Longrightarrow> j_index key j = Inr (v, j)"
  by (auto simp: obj_is_def j_index_def plain_object om_find_map_of)

lemma obj_string: "obj_is strtod j m \<Longrightarrow> m key = Some (J_string s) \<Longrightarrow> member_string key j = Inr s"
  by (simp add: member_string_def obj_index j_string_def)

lemma obj_null: "utf8_ok key \<Longrightarrow> json_plain strtod v \<Longrightarrow> \<exists>j'. j_put key v J_null = Inr j' \<and> obj_is strtod j' [key \<mapsto> v]"
  by (auto simp: j_put_def obj_is_def plain_object)

lemma obj_put:
  assumes "obj_is strtod j m" "utf8_ok key" "json_plain strtod v"
  shows "\<exists>j'. j_put key v j = Inr j' \<and> obj_is strtod j' (m(key \<mapsto> v))"
  using assms set_om_set[of key v]
  by (fastforce simp: obj_is_def j_put_def plain_object map_of_om_set om_set_sorted)

lemma obj_put_if:
  assumes "obj_is strtod j m" "utf8_ok key" "b \<Longrightarrow> utf8_ok v"
  shows "\<exists>j'. put_if b key v j = Inr j' \<and> obj_is strtod j' (if b then m(key \<mapsto> J_string v) else m)"
  using assms obj_put[of strtod j m key "J_string v"] by (cases b) (auto simp: put_if_def)

lemma obj_push_new:
  assumes "obj_is strtod j m" "m key = None" "utf8_ok key" "json_plain strtod v"
  shows "\<exists>j'. j_push_member key v j = Inr j' \<and> obj_is strtod j' (m(key \<mapsto> J_array [v]))"
proof -
  obtain j1 where j1: "j_put key J_null j = Inr j1" "obj_is strtod j1 (m(key \<mapsto> J_null))"
    using obj_put[OF assms(1,3), of J_null] by auto
  then have "j_index key j = Inr (J_null, j1)"
    using assms(1,2) obj_find[OF assms(1), of key] by (auto simp: obj_is_def j_index_def j_put_def j_find_def)
  with obj_put[OF j1(2) assms(3), of "J_array [v]"] assms(4) show ?thesis by (auto simp: j_push_member_def j_push_back_def)
qed

lemma obj_push_more:
  assumes "obj_is strtod j m" "m key = Some (J_array xs)" "utf8_ok key" "json_plain strtod v" "json_plain strtod (J_array xs)"
  shows "\<exists>j'. j_push_member key v j = Inr j' \<and> obj_is strtod j' (m(key \<mapsto> J_array (xs @ [v])))"
  using obj_index[OF assms(1,2)] obj_put[OF assms(1,3), of "J_array (xs @ [v])"] assms(4,5)
  by (auto simp: j_push_member_def j_push_back_def)

lemma utf8_keys [simp]:
  "utf8_ok ''name''" "utf8_ok ''level''" "utf8_ok ''formatter''" "utf8_ok ''appenders''" "utf8_ok ''appender''"
  "utf8_ok ''type''" "utf8_ok ''file''" "utf8_ok ''path''" "utf8_ok ''logs''" "utf8_ok ''FileLogAppender''" "utf8_ok ''StdoutLogAppender''"
  by (simp_all add: utf8_ascii)

lemma utf8_level [simp]: "utf8_ok (LogLevel_ToString l)"
  by (cases l) (simp_all add: utf8_ascii)

lemma level_roundtrip [simp]: "LogLevel_FromString (LogLevel_ToString l) = l"
  by (cases l) (simp_all add: LogLevel_FromString_def)

lemma level_empty [simp]: "LogLevel_FromString [] = UNKNOW"
  by (simp add: LogLevel_FromString_def)

subsection \<open>Definitions written and read\<close>

definition appender_utf8 :: "log_appender_define \<Rightarrow> bool" where
  "appender_utf8 a = (utf8_ok (ad_formatter a) \<and> utf8_ok (ad_file a))"

definition define_utf8 :: "log_define \<Rightarrow> bool" where
  "define_utf8 d = (utf8_ok (ld_name d) \<and> utf8_ok (ld_formatter d) \<and> list_all appender_utf8 (ld_appenders d))"

lemma put_if_null: "utf8_ok key \<Longrightarrow> utf8_ok v \<Longrightarrow> \<exists>j'. put_if b key v J_null = Inr j' \<and> (j' = J_null \<or> (\<exists>m. obj_is strtod j' m))"
  using obj_null[of key strtod "J_string v"] by (auto simp: put_if_def)

lemma put_if_any:
  assumes "j = J_null \<or> (\<exists>m. obj_is strtod j m)" "utf8_ok key" "utf8_ok v"
  shows "\<exists>j'. put_if b key v j = Inr j' \<and> (j' = J_null \<or> (\<exists>m. obj_is strtod j' m))"
  using assms put_if_null[of key v b strtod] obj_put_if[of strtod j _ key b v] by blast

lemma appender_json_plain:
  assumes "appender_utf8 a"
  shows "\<exists>j. appender_json a = Inr j \<and> json_plain strtod j"
proof -
  let ?start = "if ad_type a = 1 then bindE (j_put ''type'' (J_string ''FileLogAppender'') J_null) (j_put ''file'' (J_string (ad_file a)))
      else if ad_type a = 2 then j_put ''type'' (J_string ''StdoutLogAppender'') J_null else Inr J_null"
  obtain j0 where j0: "j_put ''type'' (J_string ''FileLogAppender'') J_null = Inr j0" "obj_is strtod j0 [''type'' \<mapsto> J_string ''FileLogAppender'']"
    using obj_null[of "''type''" strtod "J_string ''FileLogAppender''"] by auto
  have "\<exists>j. ?start = Inr j \<and> (j = J_null \<or> (\<exists>m. obj_is strtod j m))"
    using obj_put[OF j0(2), of "''file''" "J_string (ad_file a)"] obj_null[of "''type''" strtod "J_string ''StdoutLogAppender''"] assms j0(1)
    by (auto simp: appender_utf8_def)
  then obtain j1 where j1: "?start = Inr j1" "j1 = J_null \<or> (\<exists>m. obj_is strtod j1 m)" by blast
  obtain j2 where j2: "put_if (ad_level a \<noteq> UNKNOW) ''level'' (LogLevel_ToString (ad_level a)) j1 = Inr j2"
      "j2 = J_null \<or> (\<exists>m. obj_is strtod j2 m)"
    using put_if_any[OF j1(2), of "''level''" "LogLevel_ToString (ad_level a)"] by auto
  obtain j3 where j3: "put_if (ad_formatter a \<noteq> []) ''formatter'' (ad_formatter a) j2 = Inr j3" "j3 = J_null \<or> (\<exists>m. obj_is strtod j3 m)"
    using put_if_any[OF j2(2), of "''formatter''" "ad_formatter a"] assms by (auto simp: appender_utf8_def)
  show ?thesis unfolding appender_json_def j1(1) using j2(1) j3 obj_plain by auto
qed

lemma push_appenders_more:
  assumes "obj_is strtod n m" "m ''appenders'' = Some (J_array xs)" "json_plain strtod (J_array xs)" "list_all appender_utf8 as"
  shows "\<exists>n' ys. push_appenders n as = Inr n' \<and> json_plain strtod (J_array ys) \<and> obj_is strtod n' (m(''appenders'' \<mapsto> J_array ys))"
  using assms
proof (induction as arbitrary: n m xs)
  case Nil
  then have "m(''appenders'' \<mapsto> J_array xs) = m" by auto
  with Nil show ?case by (intro exI[of _ n] exI[of _ xs]) simp
next
  case (Cons a as)
  obtain na where na: "appender_json a = Inr na" "json_plain strtod na" using appender_json_plain[of a strtod] Cons.prems(4) by auto
  obtain n1 where n1: "j_push_member ''appenders'' na n = Inr n1" "obj_is strtod n1 (m(''appenders'' \<mapsto> J_array (xs @ [na])))"
    using obj_push_more[OF Cons.prems(1,2) _ na(2) Cons.prems(3)] by auto
  have "\<exists>n' ys. push_appenders n1 as = Inr n' \<and> json_plain strtod (J_array ys) \<and> obj_is strtod n' (m(''appenders'' \<mapsto> J_array ys))"
    by (rule Cons.IH[OF n1(2), of "xs @ [na]", unfolded fun_upd_upd]) (use Cons.prems(3,4) na(2) in simp_all)
  moreover have "push_appenders n (a # as) = push_appenders n1 as" using na(1) n1(1) by simp
  ultimately show ?case by metis
qed

text \<open>What is written: the name, and level, formatter and appenders where there are any.\<close>

lemma LogDefine_json_members:
  assumes "define_utf8 d"
  shows "\<exists>j m. LogDefine_json d = Inr j \<and> obj_is strtod j m \<and> m ''name'' = Some (J_string (ld_name d))
    \<and> m ''level'' = (if ld_level d = UNKNOW then None else Some (J_string (LogLevel_ToString (ld_level d))))
    \<and> m ''formatter'' = (if ld_formatter d = [] then None else Some (J_string (ld_formatter d)))
    \<and> m ''appender'' = None"
proof -
  have u: "utf8_ok (ld_name d)" "utf8_ok (ld_formatter d)" "list_all appender_utf8 (ld_appenders d)"
    using assms by (simp_all add: define_utf8_def)
  obtain n1 where n1: "j_put ''name'' (J_string (ld_name d)) J_null = Inr n1" "obj_is strtod n1 [''name'' \<mapsto> J_string (ld_name d)]"
    using obj_null[of "''name''" strtod "J_string (ld_name d)"] u by auto
  define m2 where "m2 = (if ld_level d \<noteq> UNKNOW then [''name'' \<mapsto> J_string (ld_name d)](''level'' \<mapsto> J_string (LogLevel_ToString (ld_level d)))
    else [''name'' \<mapsto> J_string (ld_name d)])"
  obtain n2 where n2: "put_if (ld_level d \<noteq> UNKNOW) ''level'' (LogLevel_ToString (ld_level d)) n1 = Inr n2" "obj_is strtod n2 m2"
    using obj_put_if[OF n1(2), of "''level''" "ld_level d \<noteq> UNKNOW" "LogLevel_ToString (ld_level d)"] by (auto simp: m2_def)
  define m3 where "m3 = (if ld_formatter d \<noteq> [] then m2(''formatter'' \<mapsto> J_string (ld_formatter d)) else m2)"
  obtain n3 where n3: "put_if (ld_formatter d \<noteq> []) ''formatter'' (ld_formatter d) n2 = Inr n3" "obj_is strtod n3 m3"
    using obj_put_if[OF n2(2), of "''formatter''" "ld_formatter d \<noteq> []" "ld_formatter d"] u by (auto simp: m3_def)
  have a: "m3 ''appenders'' = None" by (simp add: m3_def m2_def)
  have "\<exists>n4 m4. push_appenders n3 (ld_appenders d) = Inr n4 \<and> obj_is strtod n4 m4 \<and> (\<forall>k. k \<noteq> ''appenders'' \<longrightarrow> m4 k = m3 k)"
  proof (cases "ld_appenders d")
    case Nil
    with n3 show ?thesis by auto
  next
    case (Cons x as)
    obtain na where na: "appender_json x = Inr na" "json_plain strtod na" using appender_json_plain[of x strtod] u(3) Cons by auto
    obtain n4 where n4: "j_push_member ''appenders'' na n3 = Inr n4" "obj_is strtod n4 (m3(''appenders'' \<mapsto> J_array [na]))"
      using obj_push_new[OF n3(2) a _ na(2)] by auto
    have "\<exists>n5 ys. push_appenders n4 as = Inr n5 \<and> obj_is strtod n5 (m3(''appenders'' \<mapsto> J_array ys))"
      using push_appenders_more[OF n4(2), of "[na]" as, unfolded fun_upd_upd] na(2) u(3) Cons by auto
    then obtain n5 ys where "push_appenders n4 as = Inr n5" "obj_is strtod n5 (m3(''appenders'' \<mapsto> J_array ys))" by blast
    with na(1) n4(1) Cons show ?thesis by (intro exI[of _ n5] exI[of _ "m3(''appenders'' \<mapsto> J_array ys)"]) simp
  qed
  then obtain n4 m4 where n4: "push_appenders n3 (ld_appenders d) = Inr n4" "obj_is strtod n4 m4"
      "\<And>k. k \<noteq> ''appenders'' \<Longrightarrow> m4 k = m3 k" by blast
  then have "LogDefine_json d = Inr n4" by (simp add: LogDefine_json_def n1(1) n2(1) n3(1))
  moreover have "m4 ''name'' = Some (J_string (ld_name d))"
      "m4 ''level'' = (if ld_level d = UNKNOW then None else Some (J_string (LogLevel_ToString (ld_level d))))"
      "m4 ''formatter'' = (if ld_formatter d = [] then None else Some (J_string (ld_formatter d)))" "m4 ''appender'' = None"
    by (simp_all add: n4(3) m3_def m2_def)
  ultimately show ?thesis using n4(2) by blast
qed

text \<open>Reading an object that has a name.\<close>

lemma read_LogDefine:
  assumes "json_parse strtod v = Inr n" "obj_is strtod n m" "m ''name'' = Some (J_string name)"
    and "m ''level'' = None \<and> level = UNKNOW \<or> m ''level'' = Some (J_string (LogLevel_ToString level))"
    and "m ''formatter'' = None \<and> formatter = [] \<or> m ''formatter'' = Some (J_string formatter)"
    and "m ''appender'' = None \<and> as = [] \<or> (\<exists>js os. m ''appender'' = Some (J_array js) \<and> mapE read_appender js = Inr os \<and> those_of os = as)"
  shows "string_to_LogDefine strtod v = Inr \<lparr>ld_name = name, ld_level = level, ld_formatter = formatter, ld_appenders = as\<rparr>"
proof -
  note obj = obj_find[OF assms(2)] obj_index[OF assms(2)] obj_string[OF assms(2)]
  have "\<exists>lv. optional_string ''level'' n = Inr lv \<and> LogLevel_FromString lv = level"
    using assms(4) obj by (auto simp: optional_string_def)
  then obtain lv where l: "optional_string ''level'' n = Inr lv" "LogLevel_FromString lv = level" by blast
  have f: "optional_string ''formatter'' n = Inr formatter" using assms(5) obj by (auto simp: optional_string_def)
  have "\<exists>os. read_appenders n = Inr os \<and> those_of os = as"
    using assms(6) obj by (auto simp: read_appenders_def j_elements_def those_of_def)
  then obtain os where o: "read_appenders n = Inr os" "those_of os = as" by blast
  show ?thesis using assms(1,3) obj l f o by (simp add: string_to_LogDefine_def)
qed

text \<open>C33: a definition that is written and read again is the same but for its appenders, which are lost: they are
  written as \<open>appenders\<close> with the name of a file as \<open>file\<close>, and read as \<open>appender\<close> with \<open>path\<close>.\<close>

theorem log_define_roundtrip:
  assumes "define_utf8 d"
  shows "\<exists>t. LogDefine_to_string d = Inr t \<and> string_to_LogDefine strtod t = Inr (d\<lparr>ld_appenders := []\<rparr>)"
proof -
  obtain j m where j: "LogDefine_json d = Inr j" "obj_is strtod j m" "m ''name'' = Some (J_string (ld_name d))"
      "m ''level'' = (if ld_level d = UNKNOW then None else Some (J_string (LogLevel_ToString (ld_level d))))"
      "m ''formatter'' = (if ld_formatter d = [] then None else Some (J_string (ld_formatter d)))" "m ''appender'' = None"
    using LogDefine_json_members[OF assms, of strtod] by blast
  obtain t where t: "json_dump None j = Inr t" "json_parse strtod t = Inr j" using plain_read[OF obj_plain[OF j(2)], of None] by auto
  have "string_to_LogDefine strtod t = Inr \<lparr>ld_name = ld_name d, ld_level = ld_level d, ld_formatter = ld_formatter d, ld_appenders = []\<rparr>"
    by (rule read_LogDefine[OF t(2) j(2,3)]) (use j(4-6) in auto)
  with t(1) j(1) show ?thesis by (cases d) (auto simp: LogDefine_to_string_def)
qed


theorem log_define_roundtrip_witness:
  "let d = \<lparr>ld_name = ''system'', ld_level = INFO, ld_formatter = ''%m%n'',
      ld_appenders = [\<lparr>ad_type = 1, ad_level = UNKNOW, ad_formatter = [], ad_file = ''Log.txt''\<rparr>]\<rparr>
   in \<exists>t. LogDefine_to_string d = Inr t \<and> string_to_LogDefine demo_strtod t = Inr (d\<lparr>ld_appenders := []\<rparr>)"
  unfolding Let_def by (rule log_define_roundtrip) (simp add: define_utf8_def appender_utf8_def utf8_ascii)

text \<open>The test for the name comes too late: reading \<open>n["name"]\<close> has made the member, as null, which is no string.\<close>

lemma missing_name:
  assumes "json_parse strtod v = Inr n" "j_find ''name'' n = None"
  shows "string_to_LogDefine strtod v = Inl Type_error"
proof (cases n)
  case (J_object kvs)
  with assms(2) have f: "om_find string_less ''name'' kvs = None" by (simp add: j_find_def)
  have g: "om_find string_less ''name'' (om_set string_less ''name'' J_null kvs) = Some J_null" by (induction kvs) (auto simp: om_find_Cons om_set_Cons string_order.irrefl)
  show ?thesis using assms(1) J_object f g by (simp add: string_to_LogDefine_def j_index_def j_find_def member_string_def j_string_def)
qed (use assms(1) in \<open>auto simp: string_to_LogDefine_def j_index_def j_find_def member_string_def j_string_def om_find_Cons string_order.irrefl\<close>)

text \<open>What is written for a set that is not empty is not read: its definitions are strings.\<close>

lemma logs_not_reread:
  assumes "logs_to_string ds = Inr t" "ds \<noteq> []"
  shows "string_to_logs strtod t = Inl Type_error"
proof -
  obtain ts where ts: "mapE LogDefine_to_string ds = Inr ts"
      and t: "json_dump (Some 4) (if ts = [] then J_null else J_array (map J_string ts)) = Inr t"
    using assms(1) by (auto simp: logs_to_string_def set_to_string_def push_texts_null)
  from mapE_InrD[OF ts] assms(2) have ne: "ts \<noteq> []" by auto
  have u: "\<forall>x \<in> set ts. utf8_ok x"
    using t ne by (auto simp: json_dump_text intro: dumped_strings)
  have "json_plain strtod (J_array (map J_string ts))" using u by simp
  with t ne have p: "json_parse strtod t = Inr (J_array (map J_string ts))" using plain_dumped[of strtod _ "Some 4"] by simp
  obtain x xs where x: "ts = x # xs" using ne by (cases ts) auto
  then obtain q where q: "dump_string x = Inr q" "json_parse strtod q = Inr (J_string x)"
    using u plain_read[of strtod "J_string x" None] by (auto simp: json_dump_text)
  have "string_to_LogDefine strtod q = Inl Type_error" by (rule missing_name[OF q(2)]) (simp add: j_find_def)
  with p x q(1) show ?thesis by (simp add: string_to_logs_def string_to_set_def j_elements_def)
qed


subsection \<open>Documents\<close>

text \<open>What a definition looks like in the configuration.\<close>

definition appender_doc :: "log_appender_define \<Rightarrow> json" where
  "appender_doc a = J_object ((if ad_formatter a = [] then [] else [(''formatter'', J_string (ad_formatter a))])
     @ (if ad_type a = 1 then [(''path'', J_string (ad_file a)), (''type'', J_string ''FileLogAppender'')]
        else [(''type'', J_string ''StdoutLogAppender'')]))"

definition define_doc :: "log_define \<Rightarrow> json" where
  "define_doc d = J_object [(''appender'', J_array (map appender_doc (ld_appenders d))), (''formatter'', J_string (ld_formatter d)),
     (''level'', J_string (LogLevel_ToString (ld_level d))), (''name'', J_string (ld_name d))]"

text \<open>The definitions a document can give: the level of an appender is not read.\<close>

definition appender_ok :: "log_appender_define \<Rightarrow> bool" where
  "appender_ok a = (appender_utf8 a \<and> ad_level a = UNKNOW \<and> (ad_type a = 1 \<or> ad_type a = 2 \<and> ad_file a = []))"

definition define_ok :: "log_define \<Rightarrow> bool" where
  "define_ok d = (utf8_ok (ld_name d) \<and> utf8_ok (ld_formatter d) \<and> list_all appender_ok (ld_appenders d))"

lemma obj_make: "sorted_keys kvs \<Longrightarrow> \<forall>(k, v) \<in> set kvs. utf8_ok k \<and> json_plain strtod v \<Longrightarrow> obj_is strtod (J_object kvs) (map_of kvs)"
  by (auto simp: obj_is_def plain_object)

lemma appender_doc_obj: "appender_ok a \<Longrightarrow> obj_is strtod (appender_doc a)
   (if ad_type a = 1 then (if ad_formatter a = [] then [''path'' \<mapsto> J_string (ad_file a), ''type'' \<mapsto> J_string ''FileLogAppender'']
      else [''formatter'' \<mapsto> J_string (ad_formatter a), ''path'' \<mapsto> J_string (ad_file a), ''type'' \<mapsto> J_string ''FileLogAppender''])
    else if ad_formatter a = [] then [''type'' \<mapsto> J_string ''StdoutLogAppender'']
    else [''formatter'' \<mapsto> J_string (ad_formatter a), ''type'' \<mapsto> J_string ''StdoutLogAppender''])"
  by (auto simp: appender_doc_def appender_ok_def appender_utf8_def obj_is_def plain_object fun_upd_twist)

lemma read_appender_obj:
  assumes "obj_is strtod j m" "m ''type'' = Some (J_string ty)"
    and "m ''formatter'' = None \<and> f = [] \<or> m ''formatter'' = Some (J_string f)"
    and "ty = ''FileLogAppender'' \<and> m ''path'' = Some (J_string p) \<and> t = 1 \<or> ty = ''StdoutLogAppender'' \<and> p = [] \<and> t = 2"
  shows "read_appender j = Inr (Some \<lparr>ad_type = t, ad_level = UNKNOW, ad_formatter = f, ad_file = p\<rparr>)"
  using assms(2-4) by (auto simp: read_appender_def j_contains_def obj_find[OF assms(1)] obj_string[OF assms(1)] Let_def)

lemma read_appender_doc:
  assumes "appender_ok a"
  shows "read_appender (appender_doc a) = Inr (Some a)"
proof -
  obtain t f p where a: "a = \<lparr>ad_type = t, ad_level = UNKNOW, ad_formatter = f, ad_file = p\<rparr>" "t = 1 \<or> t = 2 \<and> p = []"
    using assms by (cases a) (auto simp: appender_ok_def)
  show ?thesis
    by (subst (2) a(1), rule read_appender_obj[OF appender_doc_obj[OF assms],
        where ty = "if t = 1 then ''FileLogAppender'' else ''StdoutLogAppender''"]) (use a in auto)
qed

lemma read_define_doc:
  assumes "define_ok d" "json_parse strtod v = Inr (define_doc d)"
  shows "string_to_LogDefine strtod v = Inr d"
proof -
  let ?kvs = "[(''appender'', J_array (map appender_doc (ld_appenders d))), (''formatter'', J_string (ld_formatter d)),
     (''level'', J_string (LogLevel_ToString (ld_level d))), (''name'', J_string (ld_name d))]"
  have plain: "json_plain strtod (J_array (map appender_doc (ld_appenders d)))"
    using assms(1) appender_doc_obj obj_plain by (fastforce simp: define_ok_def list_all_iff)
  have obj: "obj_is strtod (define_doc d) (map_of ?kvs)"
    unfolding define_doc_def by (rule obj_make) (use assms(1) plain in \<open>simp_all add: define_ok_def\<close>)
  have "mapE read_appender (map appender_doc as) = Inr (map Some as)" if "list_all appender_ok as" for as
    using that by (induction as) (simp_all add: read_appender_doc)
  then have m: "mapE read_appender (map appender_doc (ld_appenders d)) = Inr (map Some (ld_appenders d))"
    using assms(1) by (simp add: define_ok_def)
  have o: "those_of (map Some as) = as" for as :: "log_appender_define list"
    by (induction as) (simp_all add: those_of_def)
  have "string_to_LogDefine strtod v = Inr \<lparr>ld_name = ld_name d, ld_level = ld_level d, ld_formatter = ld_formatter d,
      ld_appenders = ld_appenders d\<rparr>"
    by (rule read_LogDefine[OF assms(2) obj]) (use m o in simp_all)
  then show ?thesis by simp
qed

lemma define_doc_plain: "define_ok d \<Longrightarrow> json_plain strtod (define_doc d)"
  using appender_doc_obj[of _ strtod] obj_plain
  by (fastforce simp: define_doc_def define_ok_def plain_object list_all_iff)

lemma read_doc_element:
  assumes "define_ok d" "indent_ok i"
  shows "read_element i (string_to_LogDefine strtod) (define_doc d) = Inr d"
proof -
  obtain t where "json_dump i (define_doc d) = Inr t" "json_parse strtod t = Inr (define_doc d)"
    using plain_read[OF define_doc_plain[OF assms(1)] assms(2)] .
  with read_define_doc[OF assms(1)] show ?thesis by (simp add: read_element_def)
qed

lemma os_insert_last:
  assumes "\<forall>y \<in> set xs. lt (key y) (key x)"
  shows "os_insert lt key x xs = (xs @ [x], length xs, True)"
proof -
  have "length (takeWhile (\<lambda>y. lt (key y) (key x)) xs) = length xs" using assms by (metis takeWhile_eq_all_conv)
  then show ?thesis by (simp add: os_insert_def lower_bound_def Let_def)
qed

lemma logs_in_order:
  "os_sorted ld_less (\<lambda>x. x) (vec @ ds) \<Longrightarrow> fold (\<lambda>x vec. fst (os_insert ld_less (\<lambda>x. x) x vec)) ds vec = vec @ ds"
proof (induction ds arbitrary: vec)
  case (Cons d ds)
  then have "\<forall>y \<in> set vec. ld_less y d" by (auto simp: os_sorted_def sorted_wrt_append)
  with Cons show ?case by (simp add: os_insert_last)
qed simp

definition logs_ok :: "log_define list \<Rightarrow> bool" where
  "logs_ok ds = (list_all define_ok ds \<and> os_sorted ld_less (\<lambda>x. x) ds)"

lemma read_logs:
  assumes "logs_ok ds" "json_parse strtod v = Inr (J_array (map define_doc ds))"
  shows "string_to_logs strtod v = Inr ds"
proof -
  have "mapE (read_element (Some 4) (string_to_LogDefine strtod)) (map define_doc ds') = Inr ds'" if "list_all define_ok ds'" for ds'
    using that by (induction ds') (simp_all add: read_doc_element)
  with assms logs_in_order[of "[]" ds] show ?thesis
    by (simp add: string_to_logs_def string_to_set_def j_elements_def logs_ok_def)
qed

subsection \<open>The listener of the variable\<close>

text \<open>The values of variables: definitions of loggers, or what other variables have.\<close>

type_synonym 'b config_value = "log_define list + 'b"

definition logs_from ::
  "(string \<Rightarrow> string option) \<Rightarrow> (nat \<Rightarrow> string \<Rightarrow> fault + 'b) \<Rightarrow> nat \<Rightarrow> string \<Rightarrow> fault + 'b config_value"
where
  "logs_from strtod from_str ty v = (if ty = 0 then bindE (string_to_logs strtod v) (\<lambda>ds. Inr (Inl ds))
     else bindE (from_str ty v) (\<lambda>x. Inr (Inr x)))"

definition logs_eq :: "(nat \<Rightarrow> 'b \<Rightarrow> 'b \<Rightarrow> bool) \<Rightarrow> nat \<Rightarrow> 'b config_value \<Rightarrow> 'b config_value \<Rightarrow> bool" where
  "logs_eq eq ty v w = (case (v, w) of
     (Inl ds, Inl es) \<Rightarrow> list_all2 ld_eq ds es
   | (Inr x, Inr y) \<Rightarrow> eq ty x y
   | _ \<Rightarrow> False)"

definition logs_listener :: "'b config_value \<Rightarrow> 'b config_value \<Rightarrow> fault + logger list" where
  "logs_listener old_value new_value = (case (old_value, new_value) of
     (Inl ds, Inl es) \<Rightarrow> on_logger_conf_changed ds es | _ \<Rightarrow> Inr [])"

text \<open>The initialisers \<open>g_log_defines\<close> and \<open>LogIniter\<close>; the listener has number 0.\<close>

definition LogIniter :: "nat \<Rightarrow> 'b config_value config \<Rightarrow> fault + nat \<times> 'b config_value config" where
  "LogIniter s_fun_id s = bindE (Lookup 0 ''logs'' (Inl []) ''logs config'' s) (\<lambda>(p, s).
     let (s_fun_id, _, v) = addListener 0 s_fun_id (cf_heap s p)
     in Inr (s_fun_id, s\<lparr>cf_heap := (cf_heap s)(p := v)\<rparr>))"

fun run_calls ::
  "(nat \<Rightarrow> 'v \<Rightarrow> 'v \<Rightarrow> fault + logger list) \<Rightarrow> (nat \<times> 'v \<times> 'v) list \<Rightarrow> fault + logger list"
where
  "run_calls cbs [] = Inr []"
| "run_calls cbs ((cb, old_value, new_value) # cs) = bindE (cbs cb old_value new_value) (\<lambda>ls.
     bindE (run_calls cbs cs) (\<lambda>ls'. Inr (ls @ ls')))"

text \<open>\<open>init\<close> on a file with these contents. \<open>cbs\<close> are the functions of the listeners, which do not use the
  registry; their calls are made here after the members are loaded.\<close>

definition LoggerManager_init where
  "LoggerManager_init strtod from_str eq cbs file s = bindE (json_parse strtod file) (\<lambda>root.
     bindE (LoadFromJson (logs_eq eq) (logs_from strtod from_str) root s) (\<lambda>(cs, s).
     bindE (run_calls cbs cs) (\<lambda>ls. Inr (ls, s))))"

definition logs_doc :: "log_define list \<Rightarrow> json" where
  "logs_doc ds = J_object [(''logs'', J_array (map define_doc ds))]"

text \<open>A definition with a pattern that is valid.\<close>

definition has_pattern :: "log_define \<Rightarrow> bool" where
  "has_pattern d = (ld_formatter d \<noteq> [] \<and> \<not> fm_error (LogFormatter (ld_formatter d)))"

lemma configure_appenders_returns:
  "list_all (\<lambda>a. ad_type a = 1 \<or> ad_type a = 2) as \<Longrightarrow> \<exists>l'. configure_appenders as l = Inr l'"
  by (induction as arbitrary: l) (auto simp: Let_def)

lemma configure_logger_result:
  assumes "define_ok d"
  shows "if has_pattern d then configure_logger d = Inl Deadlock else \<exists>l. configure_logger d = Inr l"
proof -
  have "list_all (\<lambda>a. ad_type a = 1 \<or> ad_type a = 2) (ld_appenders d)"
    using assms by (auto simp: define_ok_def appender_ok_def list_all_iff)
  from configure_appenders_returns[OF this, of "clearAppenders (lg_setLevel (ld_level d) (Logger (ld_name d)))"]
  show ?thesis by (auto simp: configure_logger_def has_pattern_def setFormatter_pattern_def Let_def)
qed

lemma listener_result:
  assumes "list_all define_ok ds"
  shows "if \<exists>d \<in> set ds. has_pattern d then on_logger_conf_changed [] ds = Inl Deadlock
     else \<exists>ls. on_logger_conf_changed [] ds = Inr ls"
  using assms
proof (induction ds)
  case (Cons d ds)
  with configure_logger_result[of d] show ?case by (auto simp: ld_find_def split: if_splits)
qed simp


lemma members_of_logs: "ListAllMember [] (logs_doc ds) = [([], logs_doc ds), (''logs'', J_array (map define_doc ds))]"
  by (simp add: logs_doc_def ListAllMember.simps[of _ "J_object _"] ListAllMember.simps[of _ "J_array _"] member_name_def member_chars_def)

lemma load_logs:
  assumes "logs_ok ds" "cf_datas s ''logs'' = Some p" "cf_heap s p = v" "cv_type v = 0"
  shows "LoadFromJson (logs_eq eq) (logs_from strtod from_str) (logs_doc ds) s =
    (let (cs, v) = setValue (logs_eq eq 0) (Inl ds) v in Inr (cs, s\<lparr>cf_heap := (cf_heap s)(p := v)\<rparr>))"
proof -
  have "json_plain strtod (J_array (map define_doc ds))" using assms(1) define_doc_plain by (auto simp: logs_ok_def list_all_iff)
  then obtain t where t: "json_dump None (J_array (map define_doc ds)) = Inr t" "json_parse strtod t = Inr (J_array (map define_doc ds))"
    by (rule plain_read[where i = None]) simp
  have "ToLower ''logs'' = ''logs''" by code_simp
  with t read_logs[OF assms(1) t(2)] assms(2-4) show ?thesis
    by (simp add: LoadFromJson_def members_of_logs load_member_def LookupBase_def fromString_def logs_from_def split_beta Let_def)
qed

lemma LogIniter_result:
  assumes "LogIniter n s0 = Inr (n', s)" "cf_datas s0 ''logs'' = None"
  obtains p v where "cf_datas s ''logs'' = Some p" "cf_heap s p = v" "cv_type v = 0" "cv_val v = Inl []" "cv_cbs v = [(n', 0)]"
  using assms by (auto simp: LogIniter_def Lookup_def Lookup_type_def ConfigVar_def addListener_def Let_def split: if_splits)

text \<open>C32: \<open>init\<close> reads a file of definitions as these definitions and sets the variable, but it never returns if one
  of them has a valid pattern: the listener calls \<open>setFormatter\<close>, which locks the mutex of the logger twice.\<close>

theorem init_stops_at_pattern:
  assumes "LogIniter n s0 = Inr (n', s)" "cf_datas s0 ''logs'' = None" "cbs 0 = logs_listener"
    and "logs_ok ds" "json_parse strtod contents = Inr (logs_doc ds)"
  shows "if \<exists>d \<in> set ds. has_pattern d then LoggerManager_init strtod from_str eq cbs contents s = Inl Deadlock
     else \<exists>ls s' p. LoggerManager_init strtod from_str eq cbs contents s = Inr (ls, s')
       \<and> cf_datas s' ''logs'' = Some p \<and> cv_val (cf_heap s' p) = Inl ds"
proof -
  obtain p v where p: "cf_datas s ''logs'' = Some p" "cf_heap s p = v" "cv_type v = 0" "cv_val v = Inl []" "cv_cbs v = [(n', 0)]"
    by (rule LogIniter_result[OF assms(1,2)])
  have l: "list_all define_ok ds" using assms(4) by (simp add: logs_ok_def)
  have i: "LoggerManager_init strtod from_str eq cbs contents s = bindE (run_calls cbs (fst (setValue (logs_eq eq 0) (Inl ds) v)))
      (\<lambda>ls. Inr (ls, s\<lparr>cf_heap := (cf_heap s)(p := snd (setValue (logs_eq eq 0) (Inl ds) v))\<rparr>))"
    using load_logs[OF assms(4) p(1-3)] by (simp add: LoggerManager_init_def assms(5) split_beta Let_def)
  show ?thesis
  proof (cases "ds = []")
    case True
    with i p show ?thesis by (simp add: setValue_def logs_eq_def)
  next
    case False
    then have "setValue (logs_eq eq 0) (Inl ds) v = ([(0, Inl [], Inl ds)], v\<lparr>cv_val := Inl ds\<rparr>)"
      using p(4,5) by (simp add: setValue_def logs_eq_def)
    with i listener_result[OF l] p(1) show ?thesis by (auto simp: assms(3) logs_listener_def split: if_splits)
  qed
qed

text \<open>The file \<^verbatim>\<open>src/log.json\<close> of the repository is such a file.\<close>

definition shipped_pattern :: string where
  "shipped_pattern = ''%d{%Y-%m-%d %H:%M:%S}%T%t%T%N%T%F%T[%p]%T[%c]%T%f:%l%T%T%m%n''"

definition shipped_define :: "string \<Rightarrow> log_define" where
  "shipped_define name = \<lparr>ld_name = name, ld_level = DEBUG, ld_formatter = shipped_pattern, ld_appenders =
     [\<lparr>ad_type = 1, ad_level = UNKNOW, ad_formatter = [], ad_file = ''/home/muqiu0614/desktop/muqiu0614/src/Log.txt''\<rparr>,
      \<lparr>ad_type = 2, ad_level = UNKNOW, ad_formatter = [], ad_file = []\<rparr>]\<rparr>"

lemma shipped_valid: "has_pattern (shipped_define name)"
proof -
  have "\<not> fm_error (LogFormatter shipped_pattern)" unfolding shipped_pattern_def by code_simp
  then show ?thesis by (simp add: has_pattern_def shipped_define_def shipped_pattern_def)
qed

lemma shipped_ok: "logs_ok [shipped_define ''root'', shipped_define ''system'']"
proof -
  have "string_less ''root'' ''system''" by code_simp
  then show ?thesis by (simp add: logs_ok_def shipped_define_def shipped_pattern_def define_ok_def appender_ok_def
    appender_utf8_def utf8_ascii os_sorted_def ld_less_def)
qed

theorem init_stops_at_pattern_witness:
  "\<exists>contents n s. json_parse demo_strtod contents = Inr (logs_doc [shipped_define ''root'', shipped_define ''system''])
     \<and> LogIniter 0 \<lparr>cf_heap = (\<lambda>_. ConfigVar 1 ''x'' (Inr ()) []), cf_next = 0, cf_datas = (\<lambda>_. None)\<rparr> = Inr (n, s)
     \<and> LoggerManager_init demo_strtod (\<lambda>_ _. Inl Bad_cast) (\<lambda>_ _ _. True) (\<lambda>_. logs_listener) contents s = Inl Deadlock"
proof -
  let ?ds = "[shipped_define ''root'', shipped_define ''system'']"
  have "json_plain demo_strtod (logs_doc ?ds)" using shipped_ok define_doc_plain by (auto simp: logs_doc_def plain_object logs_ok_def)
  then obtain contents where c: "json_parse demo_strtod contents = Inr (logs_doc ?ds)" by (rule plain_read[where i = None]) simp
  obtain n s where s: "LogIniter 0 \<lparr>cf_heap = (\<lambda>_. ConfigVar 1 ''x'' (Inr ()) []), cf_next = 0, cf_datas = (\<lambda>_. None)\<rparr> = Inr (n, s)"
    by (auto simp: LogIniter_def Lookup_def Lookup_type_def name_chars_def addListener_def Let_def)
  from init_stops_at_pattern[OF s _ _ shipped_ok c, of "\<lambda>_. logs_listener" "\<lambda>_ _. Inl Bad_cast" "\<lambda>_ _ _. True"]
  have "LoggerManager_init demo_strtod (\<lambda>_ _. Inl Bad_cast) (\<lambda>_ _ _. True) (\<lambda>_. logs_listener) contents s = Inl Deadlock"
    using shipped_valid by simp
  with c s show ?thesis by blast
qed

subsection \<open>ManagerLog\<close>

text \<open>\<^verbatim>\<open>include/Manager.h\<close>, \<^verbatim>\<open>src/Manager.cc\<close>: a call loads the file and asks for the logger. The singleton is passed on.\<close>

definition ManagerLog_call where
  "ManagerLog_call strtod from_str eq cbs contents name lm s =
     bindE (LoggerManager_init strtod from_str eq cbs contents s) (\<lambda>(ls, s).
       let (p, lm) = getLogger name lm in Inr (p, lm, s))"

lemma manager_log_first_call:
  assumes "ManagerLog_call strtod from_str eq cbs contents name lm s = Inr (p, lm', s')" "lm_names lm name = None"
  shows "p = lm_root lm \<and> lm_names lm' name = Some (lm_next lm)"
  using assms by (auto simp: ManagerLog_call_def getLogger_def Let_def)

end
