(* ===== verification/Locks.thy ===== *)
theory Locks
  imports Prelude
begin

text \<open>
  \<^verbatim>\<open>include/Mutex.h\<close>, \<^verbatim>\<open>src/Mutex.cc\<close>: the semaphore, the guards that hold a lock for a scope, and
  the lock made of an atomic flag. What \<open>sem_wait\<close> and the like return is an argument.
\<close>

subsection \<open>Semaphore\<close>

definition Semaphore :: "int \<Rightarrow> nat \<Rightarrow> fault + nat" where
  "Semaphore rt count = (if rt \<noteq> 0 then Inl Logic_error else Inr count)"

text \<open>\<open>wait\<close> and a successful \<open>sem_wait\<close>: \<open>None\<close> if there is nothing to take and the thread has to wait.\<close>

definition Semaphore_wait :: "int \<Rightarrow> nat \<Rightarrow> fault + nat option" where
  "Semaphore_wait rt count =
     (if rt \<noteq> 0 then Inl Logic_error else if count = 0 then Inr None else Inr (Some (count - 1)))"

definition Semaphore_notify :: "int \<Rightarrow> nat \<Rightarrow> fault + nat" where
  "Semaphore_notify rt count = (if rt \<noteq> 0 then Inl Logic_error else Inr (count + 1))"

subsection \<open>Guards\<close>

text \<open>
  \<open>ScopedLockImpl\<close>, \<open>ReadScopedLockImpl\<close> and \<open>WriteScopedLockImpl\<close> differ in the call that takes
  the mutex, \<open>acq\<close>. A guard is its flag and the calls it has made on the mutex.
\<close>

datatype lock_call = Lock | Rdlock | Wrlock | Unlock

record guard =
  g_locked :: bool
  g_calls :: "lock_call list"

definition guard_new :: "lock_call \<Rightarrow> guard" where
  "guard_new acq = \<lparr>g_locked = True, g_calls = [acq]\<rparr>"

definition guard_lock :: "lock_call \<Rightarrow> guard \<Rightarrow> guard" where
  "guard_lock acq g = (if \<not> g_locked g then \<lparr>g_locked = True, g_calls = g_calls g @ [acq]\<rparr> else g)"

definition guard_unlock :: "guard \<Rightarrow> guard" where
  "guard_unlock g = (if g_locked g then \<lparr>g_locked = False, g_calls = g_calls g @ [Unlock]\<rparr> else g)"

definition guard_delete :: "guard \<Rightarrow> guard" where
  "guard_delete g = guard_unlock g"

datatype guard_op = Do_lock | Do_unlock

fun guard_do :: "lock_call \<Rightarrow> guard_op \<Rightarrow> guard \<Rightarrow> guard" where
  "guard_do acq Do_lock g = guard_lock acq g"
| "guard_do acq Do_unlock g = guard_unlock g"

text \<open>The calls of a guard: pairs of taking and giving back, and one more taking while it is locked.\<close>

definition balanced :: "lock_call \<Rightarrow> guard \<Rightarrow> bool" where
  "balanced acq g = (\<exists>n. g_calls g = concat (replicate n [acq, Unlock]) @ (if g_locked g then [acq] else []))"

lemma replicate_pairs: "concat (replicate n [a, b]) @ [a, b] = concat (replicate (Suc n) [a, b])"
  by (induction n) auto

lemma balanced_new: "balanced acq (guard_new acq)"
  unfolding balanced_def guard_new_def by (rule exI[of _ 0]) simp

lemma balanced_lock: "balanced acq g \<Longrightarrow> balanced acq (guard_lock acq g)"
  by (auto simp: balanced_def guard_lock_def)

lemma balanced_unlock: "balanced acq g \<Longrightarrow> balanced acq (guard_unlock g)"
  using replicate_pairs[of _ acq Unlock]
  by (cases "g_locked g") (auto simp: balanced_def guard_unlock_def simp del: replicate_Suc intro: exI[of _ "Suc _"])

lemma balanced_ops: "balanced acq g \<Longrightarrow> balanced acq (fold (guard_do acq) ops g)"
proof (induction ops arbitrary: g)
  case (Cons op ops)
  then show ?case by (cases op) (simp_all add: balanced_lock balanced_unlock)
qed simp

text \<open>
  Whatever a scope does with its guard, when it is left the mutex has been taken and given back
  in turn.
\<close>

lemma guard_scope_balanced:
  "\<exists>n. g_calls (guard_delete (fold (guard_do acq) ops (guard_new acq))) = concat (replicate n [acq, Unlock])"
  using balanced_unlock[OF balanced_ops[OF balanced_new, of acq ops]]
  by (auto simp: balanced_def guard_delete_def guard_unlock_def split: if_splits)

subsection \<open>CASLock\<close>

text \<open>The flag of a \<open>CASLock\<close>, and one round of the loop in \<open>lock\<close>: the old value and the new flag.\<close>

definition test_and_set :: "bool \<Rightarrow> bool \<times> bool" where
  "test_and_set flag = (flag, True)"

definition CASLock_new :: bool where
  "CASLock_new = False"

definition CASLock_unlock :: "bool \<Rightarrow> bool" where
  "CASLock_unlock flag = False"

text \<open>
  Threads that share a \<open>CASLock\<close>, each with a guard at a time: it has none, it is in the loop of
  \<open>lock\<close>, or it has a guard with its flag \<open>m_locked\<close>.
\<close>

datatype guard_pc = No_guard | Spinning | Guard bool

datatype guard_action = Construct | Spin | Call_lock | Call_unlock | Destruct

text \<open>One atomic action of thread \<open>t\<close>; \<open>None\<close> if it is not what the thread is about to do.\<close>

fun cas_action :: "guard_action \<Rightarrow> bool \<Rightarrow> guard_pc \<Rightarrow> (bool \<times> guard_pc) option" where
  "cas_action Construct flag No_guard = Some (flag, Spinning)"
| "cas_action Spin flag Spinning =
     (case test_and_set flag of (old, flag) \<Rightarrow> Some (flag, if old then Spinning else Guard True))"
| "cas_action Call_lock flag (Guard locked) = Some (flag, if \<not> locked then Spinning else Guard locked)"
| "cas_action Call_unlock flag (Guard locked) = Some (if locked then CASLock_unlock flag else flag, Guard False)"
| "cas_action Destruct flag (Guard locked) = Some (if locked then CASLock_unlock flag else flag, No_guard)"
| "cas_action _ _ _ = None"

record cas_world =
  cw_flag :: bool
  cw_pc :: "nat \<Rightarrow> guard_pc"

definition cas_init :: cas_world where
  "cas_init = \<lparr>cw_flag = CASLock_new, cw_pc = (\<lambda>_. No_guard)\<rparr>"

definition cas_step :: "nat \<times> guard_action \<Rightarrow> cas_world \<Rightarrow> cas_world option" where
  "cas_step ta w = (case cas_action (snd ta) (cw_flag w) (cw_pc w (fst ta)) of
     None \<Rightarrow> None
   | Some (flag, pc) \<Rightarrow> Some \<lparr>cw_flag = flag, cw_pc = (cw_pc w)(fst ta := pc)\<rparr>)"

inductive cas_reach :: "cas_world \<Rightarrow> bool" where
  cas_start: "cas_reach cas_init"
| cas_next: "cas_reach w \<Longrightarrow> cas_step ta w = Some w' \<Longrightarrow> cas_reach w'"

definition holders :: "cas_world \<Rightarrow> nat set" where
  "holders w = {t. cw_pc w t = Guard True}"

text \<open>The flag is set just while one thread holds the lock.\<close>

definition cas_inv :: "cas_world \<Rightarrow> bool" where
  "cas_inv w = (holders w = {} \<and> \<not> cw_flag w \<or> (\<exists>t. holders w = {t}) \<and> cw_flag w)"

lemma cas_action_cases:
  assumes "cas_action a flag pc = Some (flag', pc')"
  shows "pc \<noteq> Guard True \<and> pc' \<noteq> Guard True \<and> flag' = flag
    \<or> pc \<noteq> Guard True \<and> pc' = Guard True \<and> \<not> flag \<and> flag'
    \<or> pc = Guard True \<and> pc' = Guard True \<and> flag' = flag
    \<or> pc = Guard True \<and> pc' \<noteq> Guard True \<and> \<not> flag'"
  using assms by (induction a flag pc rule: cas_action.induct)
    (auto simp: test_and_set_def CASLock_unlock_def split: if_splits)

lemma holders_upd:
  "holders \<lparr>cw_flag = f, cw_pc = (cw_pc w)(t := pc)\<rparr> = (if pc = Guard True then insert t (holders w) else holders w - {t})"
  by (auto simp: holders_def)

lemma cas_inv_step:
  assumes "cas_inv w" "cas_step ta w = Some w'"
  shows "cas_inv w'"
proof -
  obtain t a where ta: "ta = (t, a)" by force
  obtain flag pc where s: "cas_action a (cw_flag w) (cw_pc w t) = Some (flag, pc)"
    and w': "w' = \<lparr>cw_flag = flag, cw_pc = (cw_pc w)(t := pc)\<rparr>"
    using assms(2) by (auto simp: cas_step_def ta split: option.splits)
  have t: "t \<in> holders w \<longleftrightarrow> cw_pc w t = Guard True" by (simp add: holders_def)
  show ?thesis
    using cas_action_cases[OF s] assms(1) t unfolding cas_inv_def w' holders_upd by auto
qed

lemma cas_reach_inv: "cas_reach w \<Longrightarrow> cas_inv w"
proof (induction rule: cas_reach.induct)
  case cas_start
  then show ?case by (simp add: cas_inv_def cas_init_def CASLock_new_def holders_def)
next
  case (cas_next w ta w')
  then show ?case by (blast intro: cas_inv_step)
qed

text \<open>C36: however threads take turns with their guards on a \<open>CASLock\<close>, at most one holds it at any
  time, the flag is set just while one does, and a thread in the loop gets the lock with its next
  test if none does. A guard that is unlocked twice or destroyed unlocked does not release the lock
  of another thread.\<close>

theorem cas_mutual_exclusion:
  assumes "cas_reach w"
  shows "(\<exists>u. holders w \<subseteq> {u}) \<and> (cw_flag w \<longleftrightarrow> holders w \<noteq> {})
    \<and> (cw_pc w t = Spinning \<longrightarrow> (\<exists>w'. cas_step (t, Spin) w = Some w' \<and> (t \<in> holders w' \<longleftrightarrow> holders w = {})))
    \<and> (cas_step (t, a) w = Some w' \<longrightarrow> holders w - {t} \<subseteq> holders w')"
proof (intro conjI impI)
  note inv = cas_reach_inv[OF assms]
  show "\<exists>u. holders w \<subseteq> {u}" using inv by (auto simp: cas_inv_def)
  show flag: "cw_flag w \<longleftrightarrow> holders w \<noteq> {}" using inv by (auto simp: cas_inv_def)
  show "\<exists>w'. cas_step (t, Spin) w = Some w' \<and> (t \<in> holders w' \<longleftrightarrow> holders w = {})" if "cw_pc w t = Spinning"
    using that flag by (simp add: cas_step_def test_and_set_def holders_upd)
  show "holders w - {t} \<subseteq> holders w'" if "cas_step (t, a) w = Some w'"
    using that by (auto simp: cas_step_def holders_def split: option.splits)
qed

text \<open>Thread 1 has the lock and thread 2 is in the loop.\<close>

theorem cas_mutual_exclusion_witness:
  "\<exists>w. cas_reach w \<and> holders w = {1} \<and> cw_pc w 2 = Spinning
     \<and> (\<exists>w'. cas_step (2, Spin) w = Some w' \<and> 2 \<notin> holders w')"
proof -
  define w where "w = \<lparr>cw_flag = True, cw_pc = (\<lambda>_. No_guard)(1 := Guard True, 2 := Spinning)\<rparr>"
  have "cas_reach \<lparr>cw_flag = False, cw_pc = (\<lambda>_. No_guard)(1 := Spinning)\<rparr>"
    by (rule cas_next[OF cas_start, of "(1, Construct)"]) (simp add: cas_step_def cas_init_def CASLock_new_def)
  then have "cas_reach \<lparr>cw_flag = True, cw_pc = (\<lambda>_. No_guard)(1 := Guard True)\<rparr>"
    by (rule cas_next[of _ "(1, Spin)"]) (simp add: cas_step_def test_and_set_def)
  then have r: "cas_reach w"
    unfolding w_def by (rule cas_next[of _ "(2, Construct)"]) (simp add: cas_step_def)
  moreover have h: "holders w = {1}" by (auto simp: holders_def w_def)
  moreover have "cw_pc w 2 = Spinning" by (simp add: w_def)
  ultimately show ?thesis using cas_mutual_exclusion[OF r, of 2] by auto
qed

end
