(* ===== verification/Threads.thy ===== *)
theory Threads
  imports Locks
begin

text \<open>
  \<^verbatim>\<open>include/PThread.h\<close>, \<^verbatim>\<open>src/PThread.cc\<close>: a thread as an object. The constructor starts the thread
  and waits until it has announced itself; both are programs of single steps here, so that every
  interleaving of the two is a run. What the kernel's calls return is an argument. At the end, the
  wrapper of \<open>std::thread\<close>.
\<close>

subsection \<open>State\<close>

text \<open>The object; \<open>pt_Pthread\<close> is the handle, 0 for none, \<open>pt_cb\<close> the function, \<open>None\<close> when it is empty.\<close>

record pthread =
  pt_id :: int
  pt_name :: string
  pt_Pthread :: nat
  pt_cb :: "nat option"
  pt_semaphore :: nat

text \<open>The variables \<open>t_thread\<close> and \<open>t_thread_name\<close> of a thread.\<close>

record thread_local =
  t_thread :: "nat option"
  t_thread_name :: string

definition thread_locals :: thread_local where
  "thread_locals = \<lparr>t_thread = None, t_thread_name = ''UNKNOW''\<rparr>"

text \<open>What \<open>pthread_create\<close> returns and stores, the new thread's number, and what the semaphore's calls return.\<close>

record thread_kernel =
  tk_create :: int
  tk_Pthread :: nat
  tk_tid :: int
  tk_wait :: int
  tk_post :: int

text \<open>\<open>Destroyed\<close>: the constructor has returned and the owner has destroyed the object.\<close>

datatype ctor_pc = Create | Wait | Returned | Destroyed | Threw

datatype run_pc =
    Not_started | Set_this | Set_thread_name | Set_id | Set_comm | Swap_cb | Notify "nat option" | Posted "nat option"
  | Call_cb "nat option" | Finished | Terminated

text \<open>
  The constructor's thread and the new one. \<open>w_comm\<close> is the name the kernel knows, \<open>w_ran\<close> the
  functions called, \<open>w_gone\<close> whether the object has been destroyed, and \<open>w_bad\<close> whether it has been
  used after that.
\<close>

record thread_world =
  w_obj :: pthread
  w_ctor :: ctor_pc
  w_run :: run_pc
  w_creator :: thread_local
  w_new :: thread_local
  w_comm :: string
  w_ran :: "nat list"
  w_gone :: bool
  w_bad :: bool

subsection \<open>The constructor\<close>

text \<open>Up to \<open>pthread_create\<close>: an empty name is replaced by the one of the calling thread, which then gets the object's name.\<close>

definition PThread :: "nat option \<Rightarrow> string \<Rightarrow> thread_local \<Rightarrow> thread_world" where
  "PThread cb name me =
     (let m_name = (if name = [] then t_thread_name me else name) in
      \<lparr>w_obj = \<lparr>pt_id = - 1, pt_name = m_name, pt_Pthread = 0, pt_cb = cb, pt_semaphore = 0\<rparr>,
       w_ctor = Create, w_run = Not_started, w_creator = me\<lparr>t_thread_name := m_name\<rparr>,
       w_new = thread_locals, w_comm = [], w_ran = [], w_gone = False, w_bad = False\<rparr>)"

text \<open>
  A failure of \<open>pthread_create\<close> is logged only. An exception from the semaphore ends the life of the object.
\<close>

definition ctor_step :: "thread_kernel \<Rightarrow> thread_world \<Rightarrow> thread_world option" where
  "ctor_step k w = (case w_ctor w of
     Create \<Rightarrow> Some (if tk_create k \<noteq> 0 then w\<lparr>w_ctor := Wait\<rparr>
       else w\<lparr>w_ctor := Wait, w_run := Set_this, w_obj := (w_obj w)\<lparr>pt_Pthread := tk_Pthread k\<rparr>\<rparr>)
   | Wait \<Rightarrow> (case Semaphore_wait (tk_wait k) (pt_semaphore (w_obj w)) of
       Inl e \<Rightarrow> Some (w\<lparr>w_ctor := Threw, w_gone := True\<rparr>)
     | Inr None \<Rightarrow> None
     | Inr (Some n) \<Rightarrow> Some (w\<lparr>w_ctor := Returned, w_obj := (w_obj w)\<lparr>pt_semaphore := n\<rparr>\<rparr>))
   | Returned \<Rightarrow> None
   | Destroyed \<Rightarrow> None
   | Threw \<Rightarrow> None)"

subsection \<open>run\<close>

text \<open>
  \<open>this\<close> is the address of the object. An access to it after its end is recorded in \<open>w_bad\<close>. The last
  access of \<open>sem_post\<close> to the semaphore is its increment (a semaphore may be destroyed as soon as a wait on
  it has returned); the return from \<open>sem_post\<close> is a step of its own, \<open>Posted\<close>.
\<close>

abbreviation touch :: "thread_world \<Rightarrow> thread_world" where
  "touch w \<equiv> w\<lparr>w_bad := w_bad w \<or> w_gone w\<rparr>"

definition run_pt_step :: "thread_kernel \<Rightarrow> nat \<Rightarrow> thread_world \<Rightarrow> thread_world option" where
  "run_pt_step k this w = (case w_run w of
     Not_started \<Rightarrow> None
   | Set_this \<Rightarrow> Some (w\<lparr>w_run := Set_thread_name, w_new := (w_new w)\<lparr>t_thread := Some this\<rparr>\<rparr>)
   | Set_thread_name \<Rightarrow> Some (touch (w\<lparr>w_run := Set_id, w_new := (w_new w)\<lparr>t_thread_name := pt_name (w_obj w)\<rparr>\<rparr>))
   | Set_id \<Rightarrow> Some (touch (w\<lparr>w_run := Set_comm, w_obj := (w_obj w)\<lparr>pt_id := tk_tid k\<rparr>\<rparr>))
   | Set_comm \<Rightarrow> Some (touch (w\<lparr>w_run := Swap_cb, w_comm := take 15 (pt_name (w_obj w))\<rparr>))
   | Swap_cb \<Rightarrow> Some (touch (w\<lparr>w_run := Notify (pt_cb (w_obj w)), w_obj := (w_obj w)\<lparr>pt_cb := None\<rparr>\<rparr>))
   | Notify cb \<Rightarrow> (case Semaphore_notify (tk_post k) (pt_semaphore (w_obj w)) of
       Inl e \<Rightarrow> Some (touch (w\<lparr>w_run := Terminated\<rparr>))
     | Inr n \<Rightarrow> Some (touch (w\<lparr>w_run := Posted cb, w_obj := (w_obj w)\<lparr>pt_semaphore := n\<rparr>\<rparr>)))
   | Posted cb \<Rightarrow> Some (w\<lparr>w_run := Call_cb cb\<rparr>)
   | Call_cb cb \<Rightarrow> (case cb of
       None \<Rightarrow> Some (w\<lparr>w_run := Terminated\<rparr>)
     | Some f \<Rightarrow> Some (w\<lparr>w_run := Finished, w_ran := w_ran w @ [f]\<rparr>))
   | Finished \<Rightarrow> None
   | Terminated \<Rightarrow> None)"

text \<open>Whoever has constructed the object may destroy it at any time after that, whatever the new thread does.\<close>

definition owner_step :: "thread_world \<Rightarrow> thread_world option" where
  "owner_step w = (if w_ctor w = Returned then Some (w\<lparr>w_ctor := Destroyed, w_gone := True\<rparr>) else None)"

inductive thread_step :: "thread_kernel \<Rightarrow> nat \<Rightarrow> thread_world \<Rightarrow> thread_world \<Rightarrow> bool" for k this where
  by_ctor: "ctor_step k w = Some w' \<Longrightarrow> thread_step k this w w'"
| by_run: "run_pt_step k this w = Some w' \<Longrightarrow> thread_step k this w w'"
| by_owner: "owner_step w = Some w' \<Longrightarrow> thread_step k this w w'"

inductive_cases thread_stepE: "thread_step k this w w'"

inductive thread_reach :: "thread_kernel \<Rightarrow> nat \<Rightarrow> thread_world \<Rightarrow> thread_world \<Rightarrow> bool" for k this w0 where
  thread_start: "thread_reach k this w0 w0"
| thread_next: "thread_reach k this w0 w \<Longrightarrow> thread_step k this w w' \<Longrightarrow> thread_reach k this w0 w'"

subsection \<open>The other operations\<close>

definition PThread_GetName :: "thread_local \<Rightarrow> string" where
  "PThread_GetName me = t_thread_name me"

definition PThread_GetThis :: "thread_local \<Rightarrow> nat option" where
  "PThread_GetThis me = t_thread me"

definition PThread_SetName :: "string \<Rightarrow> thread_local \<Rightarrow> (nat \<Rightarrow> pthread) \<Rightarrow> thread_local \<times> (nat \<Rightarrow> pthread)" where
  "PThread_SetName name me heap =
     (if name = [] then (me, heap)
      else (me\<lparr>t_thread_name := name\<rparr>, case t_thread me of None \<Rightarrow> heap | Some p \<Rightarrow> heap(p := (heap p)\<lparr>pt_name := name\<rparr>)))"

datatype thread_call = Pthread_detach nat | Pthread_join nat

definition PThread_delete :: "pthread \<Rightarrow> thread_call list" where
  "PThread_delete th = (if pt_Pthread th \<noteq> 0 then [Pthread_detach (pt_Pthread th)] else [])"

definition PThread_join :: "int \<Rightarrow> pthread \<Rightarrow> thread_call list \<times> (fault + pthread)" where
  "PThread_join rt th =
     (if pt_Pthread th \<noteq> 0
      then ([Pthread_join (pt_Pthread th)], if rt \<noteq> 0 then Inl Logic_error else Inr (th\<lparr>pt_Pthread := 0\<rparr>))
      else ([], Inr th))"

subsection \<open>The handshake\<close>

text \<open>How far the new thread is.\<close>

fun run_rank :: "run_pc \<Rightarrow> nat" where
  "run_rank Not_started = 0" | "run_rank Set_this = 1" | "run_rank Set_thread_name = 2" | "run_rank Set_id = 3"
| "run_rank Set_comm = 4" | "run_rank Swap_cb = 5" | "run_rank (Notify _) = 6" | "run_rank (Posted _) = 7"
| "run_rank (Call_cb _) = 8" | "run_rank Finished = 9" | "run_rank Terminated = 9"

fun ctor_rank :: "ctor_pc \<Rightarrow> nat" where
  "ctor_rank Create = 0" | "ctor_rank Wait = 1" | "ctor_rank Returned = 2" | "ctor_rank Destroyed = 3" | "ctor_rank Threw = 2"

definition ctor_done :: "thread_world \<Rightarrow> bool" where
  "ctor_done w \<longleftrightarrow> w_ctor w = Returned \<or> w_ctor w = Destroyed"

lemma ctor_step_rank: "ctor_step k w = Some w' \<Longrightarrow> ctor_rank (w_ctor w) < ctor_rank (w_ctor w')"
  by (auto simp: ctor_step_def split: ctor_pc.splits sum.splits option.splits if_splits)

lemma run_step_rank: "run_pt_step k this w = Some w' \<Longrightarrow> run_rank (w_run w) < run_rank (w_run w') \<and> w_ctor w' = w_ctor w"
  by (auto simp: run_pt_step_def split: run_pc.splits sum.splits option.splits)

lemma owner_step_rank: "owner_step w = Some w' \<Longrightarrow> ctor_rank (w_ctor w) < ctor_rank (w_ctor w') \<and> w_run w' = w_run w"
  by (auto simp: owner_step_def split: if_splits)

text \<open>The function is in the object, with the new thread, or has been called.\<close>

fun held_cb :: "run_pc \<Rightarrow> nat option" where
  "held_cb (Notify cb) = cb" | "held_cb (Posted cb) = cb" | "held_cb (Call_cb cb) = cb" | "held_cb _ = None"

definition thread_inv :: "thread_kernel \<Rightarrow> nat \<Rightarrow> nat option \<Rightarrow> string \<Rightarrow> thread_world \<Rightarrow> bool" where
  "thread_inv k this cb name w =
     (let r = run_rank (w_run w); ob = w_obj w in
      w_ctor w \<noteq> Threw \<and> w_gone w = (w_ctor w = Destroyed) \<and> \<not> w_bad w \<and> pt_name ob = name
      \<and> (w_run w = Not_started) = (w_ctor w = Create)
      \<and> pt_Pthread ob = (if w_ctor w = Create then 0 else tk_Pthread k)
      \<and> pt_semaphore ob = (if r \<ge> 7 \<and> \<not> ctor_done w then 1 else 0)
      \<and> (ctor_done w \<longrightarrow> r \<ge> 7)
      \<and> pt_id ob = (if r \<ge> 4 then tk_tid k else - 1)
      \<and> t_thread (w_new w) = (if r \<ge> 2 then Some this else None)
      \<and> (r \<ge> 3 \<longrightarrow> t_thread_name (w_new w) = name)
      \<and> (r \<ge> 5 \<longrightarrow> w_comm w = take 15 name)
      \<and> pt_cb ob = (if r \<ge> 6 then None else cb)
      \<and> (r = 6 \<or> r = 7 \<or> r = 8 \<longrightarrow> held_cb (w_run w) = cb)
      \<and> (w_run w = Terminated \<longrightarrow> cb = None) \<and> (w_run w = Finished \<longrightarrow> cb \<noteq> None)
      \<and> w_ran w = (if r = 9 then (case cb of None \<Rightarrow> [] | Some f \<Rightarrow> [f]) else []))"

lemma thread_inv_step:
  assumes k: "tk_create k = 0" "tk_wait k = 0" "tk_post k = 0"
    and inv: "thread_inv k this cb name w" and step: "thread_step k this w w'"
  shows "thread_inv k this cb name w'"
proof -
  have "thread_inv k this cb name w'" if "ctor_step k w = Some w'"
    using that k inv
    by (cases "w_ctor w"; clarsimp simp: ctor_step_def thread_inv_def ctor_done_def Let_def Semaphore_wait_def split: if_splits)
  moreover have "thread_inv k this cb name w'" if "run_pt_step k this w = Some w'"
    using that k inv
    by (cases "w_run w"; clarsimp simp: run_pt_step_def thread_inv_def ctor_done_def Let_def Semaphore_notify_def
        split: if_splits option.splits)
  moreover have "thread_inv k this cb name w'" if "owner_step w = Some w'"
    using that inv by (clarsimp simp: owner_step_def thread_inv_def ctor_done_def Let_def split: if_splits)
  ultimately show ?thesis using step by (auto elim: thread_stepE)
qed

lemma thread_inv_reach:
  assumes k: "tk_create k = 0" "tk_wait k = 0" "tk_post k = 0"
    and r: "thread_reach k this (PThread cb name me) w"
  shows "thread_inv k this cb (if name = [] then t_thread_name me else name) w"
  using r
proof (induction rule: thread_reach.induct)
  case thread_start
  then show ?case by (simp add: thread_inv_def ctor_done_def PThread_def thread_locals_def Let_def)
next
  case (thread_next w w')
  then show ?case by (blast intro: thread_inv_step[OF k])
qed

text \<open>Every step brings one of the two further.\<close>

lemma thread_step_rank:
  assumes "thread_step k this w w'" "(w_run w = Not_started) = (w_ctor w = Create)"
  shows "ctor_rank (w_ctor w) + run_rank (w_run w) < ctor_rank (w_ctor w') + run_rank (w_run w')"
proof -
  have "run_rank (w_run w) \<le> run_rank (w_run w')" if "ctor_step k w = Some w'"
    using that assms(2) by (auto simp: ctor_step_def split: ctor_pc.splits sum.splits option.splits if_splits)
  then show ?thesis
    using assms(1) ctor_step_rank[of k w w'] run_step_rank[of k this w w'] owner_step_rank[of w w']
    by (auto elim!: thread_stepE)
qed

lemma ranks_bounded: "ctor_rank c + run_rank r \<le> 12"
  by (cases c; cases r) simp_all

lemma creator_renamed:
  "thread_reach k this (PThread cb name me) w
   \<Longrightarrow> t_thread_name (w_creator w) = (if name = [] then t_thread_name me else name)"
proof (induction rule: thread_reach.induct)
  case thread_start
  then show ?case by (simp add: PThread_def Let_def)
next
  case (thread_next w w')
  have "w_creator w' = w_creator w" using thread_next.hyps(2)
    by (auto elim!: thread_stepE simp: ctor_step_def run_pt_step_def owner_step_def
        split: ctor_pc.splits run_pc.splits sum.splits option.splits if_splits)
  with thread_next.IH show ?case by simp
qed

lemma create_fails:
  assumes "tk_create k \<noteq> 0" "tk_wait k = 0" "thread_reach k this (PThread cb name me) w"
  shows "w_run w = Not_started \<and> pt_semaphore (w_obj w) = 0 \<and> (w_ctor w = Create \<or> w_ctor w = Wait)"
  using assms(3)
proof (induction rule: thread_reach.induct)
  case thread_start
  then show ?case by (simp add: PThread_def Let_def)
next
  case (thread_next w w')
  then show ?case using assms(1,2)
    by (auto elim!: thread_stepE simp: ctor_step_def run_pt_step_def owner_step_def Semaphore_wait_def)
qed

text \<open>Single parts of the invariant.\<close>

lemma thread_invD:
  assumes "thread_inv k this cb name w"
  shows "w_ctor w \<noteq> Threw" "\<not> w_bad w" "pt_name (w_obj w) = name"
    "(w_run w = Not_started) = (w_ctor w = Create)"
    "ctor_done w \<Longrightarrow> 7 \<le> run_rank (w_run w)"
    "\<not> ctor_done w \<Longrightarrow> 7 \<le> run_rank (w_run w) \<Longrightarrow> pt_semaphore (w_obj w) = 1"
    "w_run w = Finished \<Longrightarrow> map Some (w_ran w) = [cb]"
  using assms by (simp_all add: thread_inv_def Let_def split: option.splits)

text \<open>If nothing fails there is a step until both have come to their end.\<close>

lemma thread_inv_progress:
  assumes "tk_create k = 0" "tk_wait k = 0" "tk_post k = 0" "thread_inv k this cb name w"
    and "ctor_step k w = None" "run_pt_step k this w = None"
  shows "ctor_done w \<and> run_rank (w_run w) = 9"
proof -
  from assms(3,6) have "run_rank (w_run w) = 9 \<or> w_run w = Not_started"
    by (auto simp: run_pt_step_def Semaphore_notify_def split: run_pc.splits option.splits)
  moreover from assms(2,5) have "w_ctor w = Wait \<and> pt_semaphore (w_obj w) = 0 \<or> ctor_done w \<or> w_ctor w = Threw"
    by (auto simp: ctor_step_def ctor_done_def Semaphore_wait_def split: ctor_pc.splits if_splits)
  ultimately show ?thesis using thread_invD[OF assms(4)] by (auto simp: ctor_done_def)
qed

text \<open>The invariant read at the end of the constructor.\<close>

lemma thread_inv_returned:
  assumes "thread_inv k this cb name w" "ctor_done w"
  shows "pt_id (w_obj w) = tk_tid k \<and> pt_cb (w_obj w) = None \<and> PThread_GetThis (w_new w) = Some this
     \<and> PThread_GetName (w_new w) = name \<and> w_comm w = take 15 name"
    and "run_pt_step k this w = Some w' \<Longrightarrow> w_obj w' = w_obj w"
proof -
  have r: "7 \<le> run_rank (w_run w)" using assms by (simp add: thread_inv_def Let_def)
  then show "pt_id (w_obj w) = tk_tid k \<and> pt_cb (w_obj w) = None \<and> PThread_GetThis (w_new w) = Some this
     \<and> PThread_GetName (w_new w) = name \<and> w_comm w = take 15 name"
    using assms(1) by (simp add: thread_inv_def Let_def PThread_GetThis_def PThread_GetName_def)
  show "w_obj w' = w_obj w" if "run_pt_step k this w = Some w'"
    using that r by (cases "w_run w") (auto simp: run_pt_step_def split: option.splits)
qed

text \<open>C37: if no call fails, the constructor of a thread returns, in every interleaving with the new
  thread and with the owner, who may destroy the object at any time after that: the two are never stuck and
  come to their end after at most twelve steps together, the destruction included. The constructor does not
  return before the new thread has its number and names and has taken its function, which it calls once
  (an empty one terminates the process). In no interleaving does the new thread touch the object after the owner has destroyed it. If the thread
  cannot be created the constructor never returns. The name of the new thread becomes the name of the
  thread that constructs it, too.\<close>

theorem constructor_handshake:
  assumes "thread_reach k this (PThread cb name me) w"
  shows "if tk_create k = 0 \<and> tk_wait k = 0 \<and> tk_post k = 0
     then (ctor_step k w = None \<and> run_pt_step k this w = None) = (ctor_done w \<and> run_rank (w_run w) = 9)
       \<and> ctor_rank (w_ctor w) + run_rank (w_run w) \<le> 12
       \<and> (thread_step k this w w' \<longrightarrow> ctor_rank (w_ctor w) + run_rank (w_run w) < ctor_rank (w_ctor w') + run_rank (w_run w'))
       \<and> (ctor_done w \<longrightarrow> pt_id (w_obj w) = tk_tid k \<and> pt_cb (w_obj w) = None \<and> PThread_GetThis (w_new w) = Some this
          \<and> PThread_GetName (w_new w) = pt_name (w_obj w) \<and> (run_pt_step k this w = Some w' \<longrightarrow> w_obj w' = w_obj w))
       \<and> w_gone w = (w_ctor w = Destroyed) \<and> \<not> w_bad w \<and> (w_run w = Finished \<longrightarrow> map Some (w_ran w) = [cb])
       \<and> t_thread_name (w_creator w) = pt_name (w_obj w)
     else tk_wait k = 0 \<and> tk_create k \<noteq> 0 \<longrightarrow>
       w_ctor w = Create \<or> w_ctor w = Wait \<and> \<not> (\<exists>w'. thread_step k this w w')"
proof (cases "tk_create k = 0 \<and> tk_wait k = 0 \<and> tk_post k = 0")
  case True
  then have k: "tk_create k = 0" "tk_wait k = 0" "tk_post k = 0" by auto
  note inv = thread_inv_reach[OF k assms]
  have "ctor_step k w = None \<and> run_pt_step k this w = None" if "ctor_done w" "run_rank (w_run w) = 9"
    using that by (auto simp: ctor_done_def ctor_step_def run_pt_step_def split: run_pc.splits option.splits)
  with thread_inv_progress[OF k inv]
  have live: "(ctor_step k w = None \<and> run_pt_step k this w = None) = (ctor_done w \<and> run_rank (w_run w) = 9)" by blast
  have "(w_run w = Not_started) = (w_ctor w = Create)" using thread_invD[OF inv] by simp
  then have rank: "thread_step k this w w' \<longrightarrow> ctor_rank (w_ctor w) + run_rank (w_run w) < ctor_rank (w_ctor w') + run_rank (w_run w')"
    by (blast intro: thread_step_rank)
  have basic: "\<not> w_bad w" "pt_name (w_obj w) = (if name = [] then t_thread_name me else name)" "w_gone w = (w_ctor w = Destroyed)"
    using thread_invD[OF inv] inv by (simp_all add: thread_inv_def Let_def)
  have ran: "w_run w = Finished \<longrightarrow> map Some (w_ran w) = [cb]" using thread_invD(7)[OF inv] by simp
  show ?thesis
    using True live rank basic ran ranks_bounded creator_renamed[OF assms] thread_inv_returned[OF inv]
    by (simp only: if_True simp_thms) blast
next
  case False
  then show ?thesis using create_fails[OF _ _ assms]
    by (auto elim!: thread_stepE simp: ctor_step_def run_pt_step_def owner_step_def Semaphore_wait_def)
qed

text \<open>The owner destroys the object before the new thread has called its function.\<close>

theorem constructor_handshake_witness:
  "let k = \<lparr>tk_create = 0, tk_Pthread = 5, tk_tid = 42, tk_wait = 0, tk_post = 0\<rparr>; w0 = PThread (Some 7) ''io'' thread_locals in
   \<exists>w. thread_reach k 1 w0 w \<and> w_gone w \<and> pt_id (w_obj w) = 42 \<and> PThread_GetName (w_new w) = ''io''
     \<and> \<not> w_bad w \<and> w_ran w = [7]"
proof -
  let ?k = "\<lparr>tk_create = 0, tk_Pthread = 5, tk_tid = 42, tk_wait = 0, tk_post = 0\<rparr>"
  let ?w0 = "PThread (Some 7) ''io'' thread_locals"
  let ?R = "thread_reach ?k 1 ?w0"
  define run where "run = (\<lambda>w. the (run_pt_step ?k 1 w))"
  define ctor where "ctor = (\<lambda>w. the (ctor_step ?k w))"
  define own where "own = (\<lambda>w. the (owner_step w))"
  have r: "?R w \<Longrightarrow> run_pt_step ?k 1 w \<noteq> None \<Longrightarrow> ?R (run w)" for w
    by (rule thread_next[OF _ by_run]) (auto simp: run_def)
  have c: "?R w \<Longrightarrow> ctor_step ?k w \<noteq> None \<Longrightarrow> ?R (ctor w)" for w
    by (rule thread_next[OF _ by_ctor]) (auto simp: ctor_def)
  have o: "?R w \<Longrightarrow> owner_step w \<noteq> None \<Longrightarrow> ?R (own w)" for w
    by (rule thread_next[OF _ by_owner]) (auto simp: own_def)
  note defs = run_def ctor_def own_def run_pt_step_def ctor_step_def owner_step_def PThread_def thread_locals_def Let_def
    Semaphore_wait_def Semaphore_notify_def
  let ?w = "run (run (own (ctor (run (run (run (run (run (run (ctor ?w0))))))))))"
  have "?R ?w" by (intro c r o thread_start) (simp_all add: defs)
  moreover have "w_ctor ?w = Destroyed" "w_run ?w = Finished" "w_ran ?w = [7]" "pt_name (w_obj ?w) = ''io''" by (simp_all add: defs)
  ultimately show ?thesis using constructor_handshake[of ?k 1 "Some 7" "''io''" thread_locals ?w]
    by (auto simp: Let_def ctor_done_def intro!: exI[of _ ?w])
qed

text \<open>
  What the code leaves behind: the variable \<open>t_thread\<close> of the new thread still has the address of the object
  that is gone, and a call of \<open>SetName\<close> by the function of the thread writes there.
\<close>

lemma this_outlives_object:
  assumes "tk_create k = 0" "tk_wait k = 0" "tk_post k = 0" "thread_reach k this (PThread cb name me) w" "w_gone w" "new_name \<noteq> []"
  shows "snd (PThread_SetName new_name (w_new w) heap) = heap(this := (heap this)\<lparr>pt_name := new_name\<rparr>)"
proof -
  note inv = thread_inv_reach[OF assms(1-4)]
  have "ctor_done w" using inv assms(5) by (simp add: thread_inv_def ctor_done_def Let_def)
  with thread_inv_returned[OF inv] assms(6) show ?thesis by (simp add: PThread_SetName_def PThread_GetThis_def)
qed

text \<open>
  A signal that interrupts \<open>sem_wait\<close> makes the constructor throw: the object is gone, and the new
  thread uses it.
\<close>

lemma interrupted_constructor:
  assumes "tk_create k = 0" "tk_wait k \<noteq> 0"
  shows "\<exists>w. thread_reach k this (PThread cb name me) w \<and> w_ctor w = Threw \<and> w_bad w"
proof -
  let ?w0 = "PThread cb name me"
  note defs = run_pt_step_def ctor_step_def PThread_def Let_def Semaphore_wait_def
  obtain w1 where w1: "ctor_step k ?w0 = Some w1" "w_ctor w1 = Wait" "w_run w1 = Set_this"
    using assms(1) by (auto simp: defs)
  obtain w2 where w2: "ctor_step k w1 = Some w2" "w_ctor w2 = Threw" "w_gone w2" "w_run w2 = Set_this"
    using assms(2) w1(2,3) by (auto simp: defs)
  obtain w3 where w3: "run_pt_step k this w2 = Some w3" "w_ctor w3 = Threw" "w_gone w3" "w_run w3 = Set_thread_name"
    using w2 by (auto simp: defs)
  obtain w4 where w4: "run_pt_step k this w3 = Some w4" "w_ctor w4 = Threw" "w_bad w4"
    using w3 by (auto simp: defs)
  have "thread_reach k this ?w0 w4"
    by (rule thread_next[OF thread_next[OF thread_next[OF thread_next[OF thread_start by_ctor[OF w1(1)]]
      by_ctor[OF w2(1)]] by_run[OF w3(1)]] by_run[OF w4(1)]])
  with w4 show ?thesis by blast
qed

text \<open>Destroyed after any number of calls of \<open>join\<close>, a thread has been joined or detached, and once.\<close>

fun join_n :: "int list \<Rightarrow> pthread \<Rightarrow> thread_call list \<times> (fault + pthread)" where
  "join_n [] th = ([], Inr th)"
| "join_n (rt # rts) th = (case PThread_join rt th of
     (calls, Inl e) \<Rightarrow> (calls, Inl e)
   | (calls, Inr th) \<Rightarrow> (case join_n rts th of (calls', r) \<Rightarrow> (calls @ calls', r)))"

lemma joined_or_detached_once:
  assumes "join_n rts th = (calls, Inr th')" "pt_Pthread th \<noteq> 0"
  shows "calls @ PThread_delete th' = (if rts = [] then [Pthread_detach (pt_Pthread th)] else [Pthread_join (pt_Pthread th)])"
proof -
  have none: "join_n rts th = ([], Inr th)" if "pt_Pthread th = 0" for rts th
    using that by (induction rts) (simp_all add: PThread_join_def)
  show ?thesis
  proof (cases rts)
    case (Cons rt rts')
    with assms none[of "th\<lparr>pt_Pthread := 0\<rparr>" rts'] show ?thesis
      by (auto simp: PThread_join_def PThread_delete_def split: if_splits)
  qed (use assms in \<open>simp add: PThread_delete_def\<close>)
qed

subsection \<open>ThreadC11::Thread\<close>

text \<open>
  \<^verbatim>\<open>include/Thread.h\<close>, \<^verbatim>\<open>src/Thread.cc\<close>: a wrapper of \<open>std::thread\<close>. The thread that is started belongs to the variable
  \<open>thread_\<close> of the file and not to the object, and nothing joins it: assigning another one destroys it while it is
  joinable.
\<close>

record 'f c11_thread =
  ct_id :: nat
  ct_name :: string
  ct_func :: 'f

definition Thread :: "nat \<Rightarrow> string \<Rightarrow> 'f \<Rightarrow> 'f c11_thread" where
  "Thread GetThreadId name func = \<lparr>ct_id = GetThreadId, ct_name = name, ct_func = func\<rparr>"

definition Thread_getId :: "'f c11_thread \<Rightarrow> nat" where
  "Thread_getId t = ct_id t"

definition Thread_start :: "'f c11_thread \<Rightarrow> 'f option \<Rightarrow> fault + 'f option" where
  "Thread_start t cur = (case cur of None \<Rightarrow> Inr (Some (ct_func t)) | Some _ \<Rightarrow> Inl Terminate_called)"

lemma second_start_terminates:
  "Thread_start t None = Inr th \<Longrightarrow> Thread_start t' th = Inl Terminate_called"
  by (auto simp: Thread_start_def)

end
