(* ===== verification/Http11Split.thy ===== *)
theory Http11Split
  imports Http11Props
begin

text \<open>
  A request that arrives in two pieces: \<open>recvRequest\<close> calls the parser on each piece, from offset 0
  of the buffer and with what the parser remembers of the first call.
\<close>

lemma do_keeps: "hp_nread (fst (h11_do buf a p st)) = hp_nread (fst st)"
  by (cases st; cases a) (simp_all add: h11_do_def h11_done_def)

lemma fold_keeps: "hp_nread (fst (fold (\<lambda>a. h11_do buf a p) as st)) = hp_nread (fst st)"
  by (induction as arbitrary: st) (simp_all add: do_keeps)

lemma run_keeps: "hp_nread (fst (snd (snd (machine_run sw (h11_do buf) cs p rest st)))) = hp_nread (fst st)"
proof -
  obtain cs' p' st' where r: "machine_run sw (h11_do buf) cs p rest st = (cs', p', st')" by (metis prod_cases3)
  have "hp_nread (fst st') = hp_nread (fst st)"
    by (rule machine_run_inv[OF r, where I = "\<lambda>_ _ x. hp_nread (fst x) = hp_nread (fst st)"]) (simp_all add: fold_keeps)
  with r show ?thesis by simp
qed

text \<open>
  What the first \<open>a\<close> bytes of a well-formed request leave behind: the parser has consumed them
  all and is inside the machine; on what follows the machine goes on to the end of the request.
\<close>

lemma first_piece:
  assumes "method_ok m" "path_ok path" "opt_ok query" "opt_ok fragment" "d = CHR ''0'' \<or> d = CHR ''1''" "list_all header_ok hs"
    and t: "request_text m path query fragment d hs = a @ b" "a \<noteq> []" "b \<noteq> []" and len: "length (a @ b) < 2 ^ 31"
  obtains evs ps where "http_parser_execute (http_parser_init mem) a 0 = Inr (evs, length a, ps)"
    "http_parser_finish ps = 0" "hp_nread ps = length a"
    "\<exists>ps' evs'. h11_run (b @ rest) 0 ps = (348, length b, ps', evs')"
proof -
  let ?i = "http_parser_init mem"
  let ?sw = "h11_next (hp_uri_relaxed ?i)"
  have t64: "length (request_text m path query fragment d hs) < 2 ^ 64" using len t(1) by simp
  from run_request[OF assms(1-6) t64, of ?i "hp_uri_relaxed ?i" a rest] t(1)
  obtain ps' evs' where full: "machine_run ?sw (h11_do a) 1 0 (a @ b @ rest) (?i, []) = (348, length a + length b, ps', evs')"
    by (auto simp: http_parser_init_def)
  have "\<exists>cm sm. machine_run ?sw (h11_do a) 1 0 a (?i, []) = (cm, 0 + length a, sm) \<and> (cm \<noteq> 0 \<and> cm < http_parser_first_final)
      \<and> machine_run ?sw (h11_do a) cm (0 + length a) (b @ rest) sm = (348, length a + length b, ps', evs')"
  proof (rule machine_run_append[OF full])
    show "0 + length a < length a + length b" using t(3) by simp
    show "n \<noteq> 0 \<and> n < http_parser_first_final" if "?sw cs c = Goto as n" for cs c as n
      using switch_inside[of cs "schar c" "h11_widec (hp_uri_relaxed ?i) (schar c)"] that by (simp add: h11_next_def goto_inside_def)
  qed (simp add: http_parser_first_final_def)
  then obtain cm ps1 evs where one: "machine_run ?sw (h11_do a) 1 0 a (?i, []) = (cm, length a, ps1, evs)"
      "cm \<noteq> 0" "cm < http_parser_first_final"
      "machine_run ?sw (h11_do a) cm (length a) (b @ rest) (ps1, evs) = (348, length a + length b, ps', evs')"
    by auto
  have r: "h11_run a 0 ?i = (cm, length a, ps1, evs)"
    using one(1) by (simp add: h11_run_def http_parser_init_def http_parser_start_def)
  have la: "length a < 2 ^ 31" using len by simp
  let ?ps = "ps1\<lparr>hp_cs := cm, hp_nread := length a\<rparr>"
  have relaxed: "hp_uri_relaxed ps1 = hp_uri_relaxed ?i" using execute_fresh(2)[OF t(2) la r] by (simp add: parser_marks_def)
  have two: "\<exists>ps' evs'. h11_run (b @ rest) 0 ?ps = (348, length b, ps', evs')"
  proof -
    obtain cs p ps2 evs2 where x: "machine_run ?sw (h11_do (b @ rest)) cm 0 (b @ rest) (?ps, []) = (cs, p, ps2, evs2)" by (metis prod_cases4)
    with machine_run_control[of ?sw "h11_do a" cm "length a" "b @ rest" "(ps1, evs)" "h11_do (b @ rest)" 0 "(?ps, [])"] one(4)
    have "cs = 348" "p = length b" by simp_all
    with x relaxed show ?thesis by (simp add: h11_run_def)
  qed
  have fin: "http_parser_finish ?ps = 0" using one(2,3)
    by (simp add: http_parser_finish_def http_parser_has_error_def http_parser_is_finished_def http_parser_error_def)
  show thesis by (rule that[OF execute_fresh(1)[OF t(2) la r] fin _ two]) simp
qed

text \<open>C35: the count of bytes read is not reset between calls but is compared with the length of the
  current buffer: a well-formed request whose head arrives in two pieces fails an assertion at the second
  call, although the first has succeeded, unless at least as many bytes as the first piece had follow the head.\<close>

theorem split_request_fails:
  assumes "method_ok m" "path_ok path" "opt_ok query" "opt_ok fragment" "d = CHR ''0'' \<or> d = CHR ''1''" "list_all header_ok hs"
    and "request_text m path query fragment d hs = a @ b" "a \<noteq> []" "b \<noteq> []" "length rest < length a" "length (a @ b @ rest) < 2 ^ 31"
  shows "\<exists>evs ps. http_parser_execute (http_parser_init mem) a 0 = Inr (evs, length a, ps) \<and> http_parser_finish ps = 0
     \<and> http_parser_execute ps (b @ rest) 0 = Inl Assert_failed"
proof -
  have "length (a @ b) < 2 ^ 31" using assms(11) by simp
  from first_piece[OF assms(1-9) this] obtain evs ps where one:
    "http_parser_execute (http_parser_init mem) a 0 = Inr (evs, length a, ps)" "http_parser_finish ps = 0" "hp_nread ps = length a"
    and "\<exists>ps' evs'. h11_run (b @ rest) 0 ps = (348, length b, ps', evs')" by blast
  then obtain ps' evs' where two: "h11_run (b @ rest) 0 ps = (348, length b, ps', evs')" by blast
  have "hp_nread ps' = length a"
    using run_keeps[of "h11_next (hp_uri_relaxed ps)" "b @ rest" "hp_cs ps" 0 "b @ rest" "(ps, [])"] one(3) two by (simp add: h11_run_def)
  then have "http_parser_execute ps (b @ rest) 0 = Inl Assert_failed"
    using assms(9-11) by (simp add: http_parser_execute_def two h11_finish_def Let_def uadd64_def to_int32_id)
  with one show ?thesis by blast
qed

theorem split_request_fails_witness:
  "\<exists>evs ps. http_parser_execute (http_parser_init demo_memory) ''GET / HT'' 0 = Inr (evs, length ''GET / HT'', ps) \<and> http_parser_finish ps = 0
     \<and> http_parser_execute ps (''TP/1.1'' @ crlf @ crlf @ ''body'') 0 = Inl Assert_failed"
proof -
  have ok: "method_ok ''GET''" "path_ok ''/''"
    by (simp_all add: path_ok_def method_ok_def path_char_def method_char_def schar_def)
  have "\<exists>evs ps. http_parser_execute (http_parser_init demo_memory) ''GET / HT'' 0 = Inr (evs, length ''GET / HT'', ps) \<and> http_parser_finish ps = 0
     \<and> http_parser_execute ps ((''TP/1.1'' @ crlf @ crlf) @ ''body'') 0 = Inl Assert_failed"
    by (rule split_request_fails[OF ok, where query = None and fragment = None and d = "CHR ''1''" and hs = "[]"])
      (simp_all add: opt_ok_def request_text_def opt_part_def crlf_def)
  then show ?thesis by (simp only: append_assoc)
qed

end
