(* ===== verification/HttpClientMachine.thy ===== *)
theory HttpClientMachine
  imports Ragel
begin

text \<open>
  The machine of \<^verbatim>\<open>include/httpclient_parser.cc\<close> (\<^verbatim>\<open>httpclient_parser_execute\<close>), label by label:
  \<open>hc_tr\<close> are the labels \<open>tr\<close>, \<open>hc_case\<close> the labels \<open>case\<close>, and \<open>hc_switch\<close> the \<open>switch\<close> over \<open>cs\<close>.
  The actions have the names of \<^verbatim>\<open>include/httpclient_parser.rl\<close>.
\<close>

datatype hc_action =
    C_mark | C_start_field | C_write_field | C_start_value | C_write_content_len | C_write_connection_close | C_write_value | C_reason_phrase | C_status_code | C_http_version | C_chunk_size | C_trans_chunked | C_done

subsection \<open>Transitions\<close>

definition hc_tr0 :: "hc_action goto" where
  "hc_tr0 = Goto [C_mark] 2"

definition hc_tr3 :: "hc_action goto" where
  "hc_tr3 = Break [C_chunk_size, C_done] 120"

definition hc_tr7 :: "hc_action goto" where
  "hc_tr7 = Break [C_done] 120"

definition hc_tr9 :: "hc_action goto" where
  "hc_tr9 = Break [C_write_field, C_start_value, C_write_value, C_done] 120"

definition hc_tr15 :: "hc_action goto" where
  "hc_tr15 = Break [C_write_value, C_done] 120"

definition hc_tr74 :: "hc_action goto" where
  "hc_tr74 = Break [C_write_connection_close, C_done] 120"

definition hc_tr4 :: "hc_action goto" where
  "hc_tr4 = Goto [C_chunk_size] 3"

definition hc_tr10 :: "hc_action goto" where
  "hc_tr10 = Goto [C_write_field, C_start_value, C_write_value] 3"

definition hc_tr16 :: "hc_action goto" where
  "hc_tr16 = Goto [C_write_value] 3"

definition hc_tr75 :: "hc_action goto" where
  "hc_tr75 = Goto [C_write_connection_close] 3"

definition hc_tr6 :: "hc_action goto" where
  "hc_tr6 = Goto [C_chunk_size] 4"

definition hc_tr12 :: "hc_action goto" where
  "hc_tr12 = Goto [C_write_field, C_start_value, C_write_value] 4"

definition hc_tr18 :: "hc_action goto" where
  "hc_tr18 = Goto [C_write_value] 4"

definition hc_tr8 :: "hc_action goto" where
  "hc_tr8 = Goto [C_start_field] 5"

definition hc_tr13 :: "hc_action goto" where
  "hc_tr13 = Goto [C_write_field, C_start_value] 6"

definition hc_tr14 :: "hc_action goto" where
  "hc_tr14 = Goto [C_start_value] 7"

definition hc_tr2 :: "hc_action goto" where
  "hc_tr2 = Goto [C_mark] 8"

definition hc_tr26 :: "hc_action goto" where
  "hc_tr26 = Goto [C_http_version] 16"

definition hc_tr27 :: "hc_action goto" where
  "hc_tr27 = Goto [C_mark] 17"

definition hc_tr28 :: "hc_action goto" where
  "hc_tr28 = Goto [C_status_code] 18"

definition hc_tr30 :: "hc_action goto" where
  "hc_tr30 = Goto [C_mark] 19"

definition hc_tr45 :: "hc_action goto" where
  "hc_tr45 = Goto [C_write_value] 20"

definition hc_tr32 :: "hc_action goto" where
  "hc_tr32 = Goto [C_reason_phrase] 20"

definition hc_tr42 :: "hc_action goto" where
  "hc_tr42 = Goto [C_start_value, C_write_value] 20"

definition hc_tr111 :: "hc_action goto" where
  "hc_tr111 = Goto [C_write_value, C_trans_chunked] 20"

definition hc_tr113 :: "hc_action goto" where
  "hc_tr113 = Goto [C_trans_chunked] 20"

definition hc_tr158 :: "hc_action goto" where
  "hc_tr158 = Goto [C_write_content_len, C_write_value] 20"

definition hc_tr35 :: "hc_action goto" where
  "hc_tr35 = Goto [C_start_field] 21"

definition hc_tr76 :: "hc_action goto" where
  "hc_tr76 = Goto [C_write_connection_close, C_start_field] 21"

definition hc_tr41 :: "hc_action goto" where
  "hc_tr41 = Goto [C_start_value] 22"

definition hc_tr39 :: "hc_action goto" where
  "hc_tr39 = Goto [C_write_field] 22"

definition hc_tr40 :: "hc_action goto" where
  "hc_tr40 = Goto [C_start_value] 23"

definition hc_tr46 :: "hc_action goto" where
  "hc_tr46 = Goto [C_write_value] 24"

definition hc_tr33 :: "hc_action goto" where
  "hc_tr33 = Goto [C_reason_phrase] 24"

definition hc_tr43 :: "hc_action goto" where
  "hc_tr43 = Goto [C_start_value, C_write_value] 24"

definition hc_tr159 :: "hc_action goto" where
  "hc_tr159 = Goto [C_write_content_len, C_write_value] 24"

definition hc_tr36 :: "hc_action goto" where
  "hc_tr36 = Goto [C_start_field] 25"

definition hc_tr77 :: "hc_action goto" where
  "hc_tr77 = Goto [C_write_connection_close, C_start_field] 25"

definition hc_tr59 :: "hc_action goto" where
  "hc_tr59 = Goto [C_start_value] 35"

definition hc_tr58 :: "hc_action goto" where
  "hc_tr58 = Goto [C_write_field] 35"

definition hc_tr60 :: "hc_action goto" where
  "hc_tr60 = Goto [C_start_value, C_write_value] 36"

definition hc_tr136 :: "hc_action goto" where
  "hc_tr136 = Goto [C_write_value] 43"

definition hc_tr37 :: "hc_action goto" where
  "hc_tr37 = Goto [C_start_field] 44"

definition hc_tr78 :: "hc_action goto" where
  "hc_tr78 = Goto [C_write_connection_close, C_start_field] 44"

definition hc_tr96 :: "hc_action goto" where
  "hc_tr96 = Goto [C_start_value] 61"

definition hc_tr95 :: "hc_action goto" where
  "hc_tr95 = Goto [C_write_field] 61"

definition hc_tr97 :: "hc_action goto" where
  "hc_tr97 = Goto [C_start_value, C_write_value] 62"

definition hc_tr104 :: "hc_action goto" where
  "hc_tr104 = Goto [C_start_value] 64"

definition hc_tr112 :: "hc_action goto" where
  "hc_tr112 = Goto [C_write_value] 71"

definition hc_tr101 :: "hc_action goto" where
  "hc_tr101 = Break [C_done] 121"

definition hc_tr103 :: "hc_action goto" where
  "hc_tr103 = Goto [C_start_value, C_start_field] 73"

definition hc_tr98 :: "hc_action goto" where
  "hc_tr98 = Goto [C_start_value, C_write_value] 80"

definition hc_tr99 :: "hc_action goto" where
  "hc_tr99 = Goto [C_start_value] 81"

definition hc_tr137 :: "hc_action goto" where
  "hc_tr137 = Goto [C_write_value] 88"

definition hc_tr64 :: "hc_action goto" where
  "hc_tr64 = Break [C_done] 122"

definition hc_tr66 :: "hc_action goto" where
  "hc_tr66 = Goto [C_start_field] 90"

definition hc_tr61 :: "hc_action goto" where
  "hc_tr61 = Goto [C_start_value, C_write_value] 95"

definition hc_tr62 :: "hc_action goto" where
  "hc_tr62 = Goto [C_start_value] 96"

definition hc_tr149 :: "hc_action goto" where
  "hc_tr149 = Goto [C_start_value] 112"

definition hc_tr148 :: "hc_action goto" where
  "hc_tr148 = Goto [C_write_field] 112"

definition hc_tr150 :: "hc_action goto" where
  "hc_tr150 = Goto [C_start_value, C_write_value] 113"

definition hc_tr157 :: "hc_action goto" where
  "hc_tr157 = Goto [C_start_value] 115"

definition hc_tr154 :: "hc_action goto" where
  "hc_tr154 = Break [C_done] 123"

definition hc_tr156 :: "hc_action goto" where
  "hc_tr156 = Goto [C_start_value, C_start_field] 117"

definition hc_tr151 :: "hc_action goto" where
  "hc_tr151 = Goto [C_start_value, C_write_value] 118"

definition hc_tr152 :: "hc_action goto" where
  "hc_tr152 = Goto [C_start_value] 119"

subsection \<open>States\<close>

definition hc_case1 :: "int \<Rightarrow> hc_action goto" where
  "hc_case1 c =
    (if c = 72 then hc_tr2
     else if c < 65 then
       (if 48 \<le> c \<and> c \<le> 57 then hc_tr0
       else Fail)
     else if 70 < c then
       (if 97 \<le> c \<and> c \<le> 102 then hc_tr0
       else Fail)
     else hc_tr0)"

definition hc_case2 :: "int \<Rightarrow> hc_action goto" where
  "hc_case2 c =
    (if c = 10 then hc_tr3
     else if c = 13 then hc_tr4
     else if c = 59 then hc_tr6
     else if c < 65 then
       (if 48 \<le> c \<and> c \<le> 57 then Goto [] 2
       else Fail)
     else if 70 < c then
       (if 97 \<le> c \<and> c \<le> 102 then Goto [] 2
       else Fail)
     else Goto [] 2)"

definition hc_case120 :: "int \<Rightarrow> hc_action goto" where
  "hc_case120 c = Fail"

definition hc_case3 :: "int \<Rightarrow> hc_action goto" where
  "hc_case3 c =
    (if c = 10 then hc_tr7
     else Fail)"

definition hc_case4 :: "int \<Rightarrow> hc_action goto" where
  "hc_case4 c =
    (if c = 33 \<or> c = 124 \<or> c = 126 then hc_tr8
     else if c < 45 then
       (if 39 < c then
         (if 42 \<le> c \<and> c \<le> 43 then hc_tr8
         else Fail)
       else if 35 \<le> c then hc_tr8
       else Fail)
     else if 46 < c then
       (if c < 65 then
         (if 48 \<le> c \<and> c \<le> 57 then hc_tr8
         else Fail)
       else if 90 < c then
         (if 94 \<le> c \<and> c \<le> 122 then hc_tr8
         else Fail)
       else hc_tr8)
     else hc_tr8)"

definition hc_case5 :: "int \<Rightarrow> hc_action goto" where
  "hc_case5 c =
    (if c = 10 then hc_tr9
     else if c = 13 then hc_tr10
     else if c = 33 \<or> c = 124 \<or> c = 126 then Goto [] 5
     else if c = 59 then hc_tr12
     else if c = 61 then hc_tr13
     else if c < 45 then
       (if 39 < c then
         (if 42 \<le> c \<and> c \<le> 43 then Goto [] 5
         else Fail)
       else if 35 \<le> c then Goto [] 5
       else Fail)
     else if 46 < c then
       (if c < 65 then
         (if 48 \<le> c \<and> c \<le> 57 then Goto [] 5
         else Fail)
       else if 90 < c then
         (if 94 \<le> c \<and> c \<le> 122 then Goto [] 5
         else Fail)
       else Goto [] 5)
     else Goto [] 5)"

definition hc_case6 :: "int \<Rightarrow> hc_action goto" where
  "hc_case6 c =
    (if c = 33 \<or> c = 124 \<or> c = 126 then hc_tr14
     else if c < 45 then
       (if 39 < c then
         (if 42 \<le> c \<and> c \<le> 43 then hc_tr14
         else Fail)
       else if 35 \<le> c then hc_tr14
       else Fail)
     else if 46 < c then
       (if c < 65 then
         (if 48 \<le> c \<and> c \<le> 57 then hc_tr14
         else Fail)
       else if 90 < c then
         (if 94 \<le> c \<and> c \<le> 122 then hc_tr14
         else Fail)
       else hc_tr14)
     else hc_tr14)"

definition hc_case7 :: "int \<Rightarrow> hc_action goto" where
  "hc_case7 c =
    (if c = 10 then hc_tr15
     else if c = 13 then hc_tr16
     else if c = 33 \<or> c = 124 \<or> c = 126 then Goto [] 7
     else if c = 59 then hc_tr18
     else if c < 45 then
       (if 39 < c then
         (if 42 \<le> c \<and> c \<le> 43 then Goto [] 7
         else Fail)
       else if 35 \<le> c then Goto [] 7
       else Fail)
     else if 46 < c then
       (if c < 65 then
         (if 48 \<le> c \<and> c \<le> 57 then Goto [] 7
         else Fail)
       else if 90 < c then
         (if 94 \<le> c \<and> c \<le> 122 then Goto [] 7
         else Fail)
       else Goto [] 7)
     else Goto [] 7)"

definition hc_case8 :: "int \<Rightarrow> hc_action goto" where
  "hc_case8 c =
    (if c = 84 then Goto [] 9
     else Fail)"

definition hc_case9 :: "int \<Rightarrow> hc_action goto" where
  "hc_case9 c =
    (if c = 84 then Goto [] 10
     else Fail)"

definition hc_case10 :: "int \<Rightarrow> hc_action goto" where
  "hc_case10 c =
    (if c = 80 then Goto [] 11
     else Fail)"

definition hc_case11 :: "int \<Rightarrow> hc_action goto" where
  "hc_case11 c =
    (if c = 47 then Goto [] 12
     else Fail)"

definition hc_case12 :: "int \<Rightarrow> hc_action goto" where
  "hc_case12 c =
    (if 48 \<le> c \<and> c \<le> 57 then Goto [] 13
     else Fail)"

definition hc_case13 :: "int \<Rightarrow> hc_action goto" where
  "hc_case13 c =
    (if c = 46 then Goto [] 14
     else if 48 \<le> c \<and> c \<le> 57 then Goto [] 13
     else Fail)"

definition hc_case14 :: "int \<Rightarrow> hc_action goto" where
  "hc_case14 c =
    (if 48 \<le> c \<and> c \<le> 57 then Goto [] 15
     else Fail)"

definition hc_case15 :: "int \<Rightarrow> hc_action goto" where
  "hc_case15 c =
    (if c = 32 then hc_tr26
     else if 48 \<le> c \<and> c \<le> 57 then Goto [] 15
     else Fail)"

definition hc_case16 :: "int \<Rightarrow> hc_action goto" where
  "hc_case16 c =
    (if 48 \<le> c \<and> c \<le> 57 then hc_tr27
     else Fail)"

definition hc_case17 :: "int \<Rightarrow> hc_action goto" where
  "hc_case17 c =
    (if c = 32 then hc_tr28
     else if 48 \<le> c \<and> c \<le> 57 then Goto [] 17
     else Fail)"

definition hc_case18 :: "int \<Rightarrow> hc_action goto" where
  "hc_case18 c =
    (if c = 10 then Fail
     else hc_tr30)"

definition hc_case19 :: "int \<Rightarrow> hc_action goto" where
  "hc_case19 c =
    (if c = 10 then hc_tr32
     else if c = 13 then hc_tr33
     else Goto [] 19)"

definition hc_case20 :: "int \<Rightarrow> hc_action goto" where
  "hc_case20 c =
    (if c = 10 then hc_tr7
     else if c = 13 then Goto [] 3
     else if c = 33 \<or> c = 124 \<or> c = 126 then hc_tr35
     else if c = 67 \<or> c = 99 then hc_tr36
     else if c = 84 \<or> c = 116 then hc_tr37
     else if c < 45 then
       (if 39 < c then
         (if 42 \<le> c \<and> c \<le> 43 then hc_tr35
         else Fail)
       else if 35 \<le> c then hc_tr35
       else Fail)
     else if 46 < c then
       (if c < 65 then
         (if 48 \<le> c \<and> c \<le> 57 then hc_tr35
         else Fail)
       else if 90 < c then
         (if 94 \<le> c \<and> c \<le> 122 then hc_tr35
         else Fail)
       else hc_tr35)
     else hc_tr35)"

definition hc_case21 :: "int \<Rightarrow> hc_action goto" where
  "hc_case21 c =
    (if c = 33 \<or> c = 124 \<or> c = 126 then Goto [] 21
     else if c = 58 then hc_tr39
     else if c < 45 then
       (if 39 < c then
         (if 42 \<le> c \<and> c \<le> 43 then Goto [] 21
         else Fail)
       else if 35 \<le> c then Goto [] 21
       else Fail)
     else if 46 < c then
       (if c < 65 then
         (if 48 \<le> c \<and> c \<le> 57 then Goto [] 21
         else Fail)
       else if 90 < c then
         (if 94 \<le> c \<and> c \<le> 122 then Goto [] 21
         else Fail)
       else Goto [] 21)
     else Goto [] 21)"

definition hc_case22 :: "int \<Rightarrow> hc_action goto" where
  "hc_case22 c =
    (if c = 10 then hc_tr42
     else if c = 13 then hc_tr43
     else if c = 32 then hc_tr41
     else if 9 \<le> c \<and> c \<le> 12 then hc_tr41
     else hc_tr40)"

definition hc_case23 :: "int \<Rightarrow> hc_action goto" where
  "hc_case23 c =
    (if c = 10 then hc_tr45
     else if c = 13 then hc_tr46
     else Goto [] 23)"

definition hc_case24 :: "int \<Rightarrow> hc_action goto" where
  "hc_case24 c =
    (if c = 10 then Goto [] 20
     else Fail)"

definition hc_case25 :: "int \<Rightarrow> hc_action goto" where
  "hc_case25 c =
    (if c = 33 \<or> c = 124 \<or> c = 126 then Goto [] 21
     else if c = 58 then hc_tr39
     else if c = 79 \<or> c = 111 then Goto [] 26
     else if c < 45 then
       (if 39 < c then
         (if 42 \<le> c \<and> c \<le> 43 then Goto [] 21
         else Fail)
       else if 35 \<le> c then Goto [] 21
       else Fail)
     else if 46 < c then
       (if c < 65 then
         (if 48 \<le> c \<and> c \<le> 57 then Goto [] 21
         else Fail)
       else if 90 < c then
         (if 94 \<le> c \<and> c \<le> 122 then Goto [] 21
         else Fail)
       else Goto [] 21)
     else Goto [] 21)"

definition hc_case26 :: "int \<Rightarrow> hc_action goto" where
  "hc_case26 c =
    (if c = 33 \<or> c = 124 \<or> c = 126 then Goto [] 21
     else if c = 58 then hc_tr39
     else if c = 78 \<or> c = 110 then Goto [] 27
     else if c < 45 then
       (if 39 < c then
         (if 42 \<le> c \<and> c \<le> 43 then Goto [] 21
         else Fail)
       else if 35 \<le> c then Goto [] 21
       else Fail)
     else if 46 < c then
       (if c < 65 then
         (if 48 \<le> c \<and> c \<le> 57 then Goto [] 21
         else Fail)
       else if 90 < c then
         (if 94 \<le> c \<and> c \<le> 122 then Goto [] 21
         else Fail)
       else Goto [] 21)
     else Goto [] 21)"

definition hc_case27 :: "int \<Rightarrow> hc_action goto" where
  "hc_case27 c =
    (if c = 33 \<or> c = 124 \<or> c = 126 then Goto [] 21
     else if c = 58 then hc_tr39
     else if c = 78 \<or> c = 110 then Goto [] 28
     else if c = 84 \<or> c = 116 then Goto [] 101
     else if c < 45 then
       (if 39 < c then
         (if 42 \<le> c \<and> c \<le> 43 then Goto [] 21
         else Fail)
       else if 35 \<le> c then Goto [] 21
       else Fail)
     else if 46 < c then
       (if c < 65 then
         (if 48 \<le> c \<and> c \<le> 57 then Goto [] 21
         else Fail)
       else if 90 < c then
         (if 94 \<le> c \<and> c \<le> 122 then Goto [] 21
         else Fail)
       else Goto [] 21)
     else Goto [] 21)"

definition hc_case28 :: "int \<Rightarrow> hc_action goto" where
  "hc_case28 c =
    (if c = 33 \<or> c = 124 \<or> c = 126 then Goto [] 21
     else if c = 58 then hc_tr39
     else if c = 69 \<or> c = 101 then Goto [] 29
     else if c < 45 then
       (if 39 < c then
         (if 42 \<le> c \<and> c \<le> 43 then Goto [] 21
         else Fail)
       else if 35 \<le> c then Goto [] 21
       else Fail)
     else if 46 < c then
       (if c < 65 then
         (if 48 \<le> c \<and> c \<le> 57 then Goto [] 21
         else Fail)
       else if 90 < c then
         (if 94 \<le> c \<and> c \<le> 122 then Goto [] 21
         else Fail)
       else Goto [] 21)
     else Goto [] 21)"

definition hc_case29 :: "int \<Rightarrow> hc_action goto" where
  "hc_case29 c =
    (if c = 33 \<or> c = 124 \<or> c = 126 then Goto [] 21
     else if c = 58 then hc_tr39
     else if c = 67 \<or> c = 99 then Goto [] 30
     else if c < 45 then
       (if 39 < c then
         (if 42 \<le> c \<and> c \<le> 43 then Goto [] 21
         else Fail)
       else if 35 \<le> c then Goto [] 21
       else Fail)
     else if 46 < c then
       (if c < 65 then
         (if 48 \<le> c \<and> c \<le> 57 then Goto [] 21
         else Fail)
       else if 90 < c then
         (if 94 \<le> c \<and> c \<le> 122 then Goto [] 21
         else Fail)
       else Goto [] 21)
     else Goto [] 21)"

definition hc_case30 :: "int \<Rightarrow> hc_action goto" where
  "hc_case30 c =
    (if c = 33 \<or> c = 124 \<or> c = 126 then Goto [] 21
     else if c = 58 then hc_tr39
     else if c = 84 \<or> c = 116 then Goto [] 31
     else if c < 45 then
       (if 39 < c then
         (if 42 \<le> c \<and> c \<le> 43 then Goto [] 21
         else Fail)
       else if 35 \<le> c then Goto [] 21
       else Fail)
     else if 46 < c then
       (if c < 65 then
         (if 48 \<le> c \<and> c \<le> 57 then Goto [] 21
         else Fail)
       else if 90 < c then
         (if 94 \<le> c \<and> c \<le> 122 then Goto [] 21
         else Fail)
       else Goto [] 21)
     else Goto [] 21)"

definition hc_case31 :: "int \<Rightarrow> hc_action goto" where
  "hc_case31 c =
    (if c = 33 \<or> c = 124 \<or> c = 126 then Goto [] 21
     else if c = 58 then hc_tr39
     else if c = 73 \<or> c = 105 then Goto [] 32
     else if c < 45 then
       (if 39 < c then
         (if 42 \<le> c \<and> c \<le> 43 then Goto [] 21
         else Fail)
       else if 35 \<le> c then Goto [] 21
       else Fail)
     else if 46 < c then
       (if c < 65 then
         (if 48 \<le> c \<and> c \<le> 57 then Goto [] 21
         else Fail)
       else if 90 < c then
         (if 94 \<le> c \<and> c \<le> 122 then Goto [] 21
         else Fail)
       else Goto [] 21)
     else Goto [] 21)"

definition hc_case32 :: "int \<Rightarrow> hc_action goto" where
  "hc_case32 c =
    (if c = 33 \<or> c = 124 \<or> c = 126 then Goto [] 21
     else if c = 58 then hc_tr39
     else if c = 79 \<or> c = 111 then Goto [] 33
     else if c < 45 then
       (if 39 < c then
         (if 42 \<le> c \<and> c \<le> 43 then Goto [] 21
         else Fail)
       else if 35 \<le> c then Goto [] 21
       else Fail)
     else if 46 < c then
       (if c < 65 then
         (if 48 \<le> c \<and> c \<le> 57 then Goto [] 21
         else Fail)
       else if 90 < c then
         (if 94 \<le> c \<and> c \<le> 122 then Goto [] 21
         else Fail)
       else Goto [] 21)
     else Goto [] 21)"

definition hc_case33 :: "int \<Rightarrow> hc_action goto" where
  "hc_case33 c =
    (if c = 33 \<or> c = 124 \<or> c = 126 then Goto [] 21
     else if c = 58 then hc_tr39
     else if c = 78 \<or> c = 110 then Goto [] 34
     else if c < 45 then
       (if 39 < c then
         (if 42 \<le> c \<and> c \<le> 43 then Goto [] 21
         else Fail)
       else if 35 \<le> c then Goto [] 21
       else Fail)
     else if 46 < c then
       (if c < 65 then
         (if 48 \<le> c \<and> c \<le> 57 then Goto [] 21
         else Fail)
       else if 90 < c then
         (if 94 \<le> c \<and> c \<le> 122 then Goto [] 21
         else Fail)
       else Goto [] 21)
     else Goto [] 21)"

definition hc_case34 :: "int \<Rightarrow> hc_action goto" where
  "hc_case34 c =
    (if c = 33 \<or> c = 124 \<or> c = 126 then Goto [] 21
     else if c = 58 then hc_tr58
     else if c < 45 then
       (if 39 < c then
         (if 42 \<le> c \<and> c \<le> 43 then Goto [] 21
         else Fail)
       else if 35 \<le> c then Goto [] 21
       else Fail)
     else if 46 < c then
       (if c < 65 then
         (if 48 \<le> c \<and> c \<le> 57 then Goto [] 21
         else Fail)
       else if 90 < c then
         (if 94 \<le> c \<and> c \<le> 122 then Goto [] 21
         else Fail)
       else Goto [] 21)
     else Goto [] 21)"

definition hc_case35 :: "int \<Rightarrow> hc_action goto" where
  "hc_case35 c =
    (if c = 10 then hc_tr60
     else if c = 13 then hc_tr61
     else if c = 32 then hc_tr59
     else if c = 67 \<or> c = 99 then hc_tr62
     else if 9 \<le> c \<and> c \<le> 12 then hc_tr59
     else hc_tr40)"

definition hc_case36 :: "int \<Rightarrow> hc_action goto" where
  "hc_case36 c =
    (if c = 10 then hc_tr64
     else if c = 13 then Goto [] 89
     else if c = 32 then Goto [] 37
     else if c = 33 \<or> c = 124 \<or> c = 126 then hc_tr35
     else if c = 67 \<or> c = 99 then hc_tr66
     else if c = 84 \<or> c = 116 then hc_tr37
     else if c < 45 then
       (if c < 35 then
         (if 9 \<le> c \<and> c \<le> 12 then Goto [] 37
         else Fail)
       else if 39 < c then
         (if 42 \<le> c \<and> c \<le> 43 then hc_tr35
         else Fail)
       else hc_tr35)
     else if 46 < c then
       (if c < 65 then
         (if 48 \<le> c \<and> c \<le> 57 then hc_tr35
         else Fail)
       else if 90 < c then
         (if 94 \<le> c \<and> c \<le> 122 then hc_tr35
         else Fail)
       else hc_tr35)
     else hc_tr35)"

definition hc_case37 :: "int \<Rightarrow> hc_action goto" where
  "hc_case37 c =
    (if c = 32 then Goto [] 37
     else if c = 67 \<or> c = 99 then Goto [] 38
     else if 9 \<le> c \<and> c \<le> 13 then Goto [] 37
     else Fail)"

definition hc_case38 :: "int \<Rightarrow> hc_action goto" where
  "hc_case38 c =
    (if c = 76 \<or> c = 108 then Goto [] 39
     else Fail)"

definition hc_case39 :: "int \<Rightarrow> hc_action goto" where
  "hc_case39 c =
    (if c = 79 \<or> c = 111 then Goto [] 40
     else Fail)"

definition hc_case40 :: "int \<Rightarrow> hc_action goto" where
  "hc_case40 c =
    (if c = 83 \<or> c = 115 then Goto [] 41
     else Fail)"

definition hc_case41 :: "int \<Rightarrow> hc_action goto" where
  "hc_case41 c =
    (if c = 69 \<or> c = 101 then Goto [] 42
     else Fail)"

definition hc_case42 :: "int \<Rightarrow> hc_action goto" where
  "hc_case42 c =
    (if c = 10 then Goto [] 43
     else if c = 13 then Goto [] 88
     else Fail)"

definition hc_case43 :: "int \<Rightarrow> hc_action goto" where
  "hc_case43 c =
    (if c = 10 then hc_tr74
     else if c = 13 then hc_tr75
     else if c = 33 \<or> c = 124 \<or> c = 126 then hc_tr76
     else if c = 67 \<or> c = 99 then hc_tr77
     else if c = 84 \<or> c = 116 then hc_tr78
     else if c < 45 then
       (if 39 < c then
         (if 42 \<le> c \<and> c \<le> 43 then hc_tr76
         else Fail)
       else if 35 \<le> c then hc_tr76
       else Fail)
     else if 46 < c then
       (if c < 65 then
         (if 48 \<le> c \<and> c \<le> 57 then hc_tr76
         else Fail)
       else if 90 < c then
         (if 94 \<le> c \<and> c \<le> 122 then hc_tr76
         else Fail)
       else hc_tr76)
     else hc_tr76)"

definition hc_case44 :: "int \<Rightarrow> hc_action goto" where
  "hc_case44 c =
    (if c = 33 \<or> c = 124 \<or> c = 126 then Goto [] 21
     else if c = 58 then hc_tr39
     else if c = 82 \<or> c = 114 then Goto [] 45
     else if c < 45 then
       (if 39 < c then
         (if 42 \<le> c \<and> c \<le> 43 then Goto [] 21
         else Fail)
       else if 35 \<le> c then Goto [] 21
       else Fail)
     else if 46 < c then
       (if c < 65 then
         (if 48 \<le> c \<and> c \<le> 57 then Goto [] 21
         else Fail)
       else if 90 < c then
         (if 94 \<le> c \<and> c \<le> 122 then Goto [] 21
         else Fail)
       else Goto [] 21)
     else Goto [] 21)"

definition hc_case45 :: "int \<Rightarrow> hc_action goto" where
  "hc_case45 c =
    (if c = 33 \<or> c = 124 \<or> c = 126 then Goto [] 21
     else if c = 58 then hc_tr39
     else if c = 65 \<or> c = 97 then Goto [] 46
     else if c < 45 then
       (if 39 < c then
         (if 42 \<le> c \<and> c \<le> 43 then Goto [] 21
         else Fail)
       else if 35 \<le> c then Goto [] 21
       else Fail)
     else if 46 < c then
       (if c < 66 then
         (if 48 \<le> c \<and> c \<le> 57 then Goto [] 21
         else Fail)
       else if 90 < c then
         (if 94 \<le> c \<and> c \<le> 122 then Goto [] 21
         else Fail)
       else Goto [] 21)
     else Goto [] 21)"

definition hc_case46 :: "int \<Rightarrow> hc_action goto" where
  "hc_case46 c =
    (if c = 33 \<or> c = 124 \<or> c = 126 then Goto [] 21
     else if c = 58 then hc_tr39
     else if c = 78 \<or> c = 110 then Goto [] 47
     else if c < 45 then
       (if 39 < c then
         (if 42 \<le> c \<and> c \<le> 43 then Goto [] 21
         else Fail)
       else if 35 \<le> c then Goto [] 21
       else Fail)
     else if 46 < c then
       (if c < 65 then
         (if 48 \<le> c \<and> c \<le> 57 then Goto [] 21
         else Fail)
       else if 90 < c then
         (if 94 \<le> c \<and> c \<le> 122 then Goto [] 21
         else Fail)
       else Goto [] 21)
     else Goto [] 21)"

definition hc_case47 :: "int \<Rightarrow> hc_action goto" where
  "hc_case47 c =
    (if c = 33 \<or> c = 124 \<or> c = 126 then Goto [] 21
     else if c = 58 then hc_tr39
     else if c = 83 \<or> c = 115 then Goto [] 48
     else if c < 45 then
       (if 39 < c then
         (if 42 \<le> c \<and> c \<le> 43 then Goto [] 21
         else Fail)
       else if 35 \<le> c then Goto [] 21
       else Fail)
     else if 46 < c then
       (if c < 65 then
         (if 48 \<le> c \<and> c \<le> 57 then Goto [] 21
         else Fail)
       else if 90 < c then
         (if 94 \<le> c \<and> c \<le> 122 then Goto [] 21
         else Fail)
       else Goto [] 21)
     else Goto [] 21)"

definition hc_case48 :: "int \<Rightarrow> hc_action goto" where
  "hc_case48 c =
    (if c = 33 \<or> c = 124 \<or> c = 126 then Goto [] 21
     else if c = 58 then hc_tr39
     else if c = 70 \<or> c = 102 then Goto [] 49
     else if c < 45 then
       (if 39 < c then
         (if 42 \<le> c \<and> c \<le> 43 then Goto [] 21
         else Fail)
       else if 35 \<le> c then Goto [] 21
       else Fail)
     else if 46 < c then
       (if c < 65 then
         (if 48 \<le> c \<and> c \<le> 57 then Goto [] 21
         else Fail)
       else if 90 < c then
         (if 94 \<le> c \<and> c \<le> 122 then Goto [] 21
         else Fail)
       else Goto [] 21)
     else Goto [] 21)"

definition hc_case49 :: "int \<Rightarrow> hc_action goto" where
  "hc_case49 c =
    (if c = 33 \<or> c = 124 \<or> c = 126 then Goto [] 21
     else if c = 58 then hc_tr39
     else if c = 69 \<or> c = 101 then Goto [] 50
     else if c < 45 then
       (if 39 < c then
         (if 42 \<le> c \<and> c \<le> 43 then Goto [] 21
         else Fail)
       else if 35 \<le> c then Goto [] 21
       else Fail)
     else if 46 < c then
       (if c < 65 then
         (if 48 \<le> c \<and> c \<le> 57 then Goto [] 21
         else Fail)
       else if 90 < c then
         (if 94 \<le> c \<and> c \<le> 122 then Goto [] 21
         else Fail)
       else Goto [] 21)
     else Goto [] 21)"

definition hc_case50 :: "int \<Rightarrow> hc_action goto" where
  "hc_case50 c =
    (if c = 33 \<or> c = 124 \<or> c = 126 then Goto [] 21
     else if c = 58 then hc_tr39
     else if c = 82 \<or> c = 114 then Goto [] 51
     else if c < 45 then
       (if 39 < c then
         (if 42 \<le> c \<and> c \<le> 43 then Goto [] 21
         else Fail)
       else if 35 \<le> c then Goto [] 21
       else Fail)
     else if 46 < c then
       (if c < 65 then
         (if 48 \<le> c \<and> c \<le> 57 then Goto [] 21
         else Fail)
       else if 90 < c then
         (if 94 \<le> c \<and> c \<le> 122 then Goto [] 21
         else Fail)
       else Goto [] 21)
     else Goto [] 21)"

definition hc_case51 :: "int \<Rightarrow> hc_action goto" where
  "hc_case51 c =
    (if c = 33 \<or> c = 46 \<or> c = 124 \<or> c = 126 then Goto [] 21
     else if c = 45 then Goto [] 52
     else if c = 58 then hc_tr39
     else if c < 48 then
       (if 39 < c then
         (if 42 \<le> c \<and> c \<le> 43 then Goto [] 21
         else Fail)
       else if 35 \<le> c then Goto [] 21
       else Fail)
     else if 57 < c then
       (if 90 < c then
         (if 94 \<le> c \<and> c \<le> 122 then Goto [] 21
         else Fail)
       else if 65 \<le> c then Goto [] 21
       else Fail)
     else Goto [] 21)"

definition hc_case52 :: "int \<Rightarrow> hc_action goto" where
  "hc_case52 c =
    (if c = 33 \<or> c = 124 \<or> c = 126 then Goto [] 21
     else if c = 58 then hc_tr39
     else if c = 69 \<or> c = 101 then Goto [] 53
     else if c < 45 then
       (if 39 < c then
         (if 42 \<le> c \<and> c \<le> 43 then Goto [] 21
         else Fail)
       else if 35 \<le> c then Goto [] 21
       else Fail)
     else if 46 < c then
       (if c < 65 then
         (if 48 \<le> c \<and> c \<le> 57 then Goto [] 21
         else Fail)
       else if 90 < c then
         (if 94 \<le> c \<and> c \<le> 122 then Goto [] 21
         else Fail)
       else Goto [] 21)
     else Goto [] 21)"

definition hc_case53 :: "int \<Rightarrow> hc_action goto" where
  "hc_case53 c =
    (if c = 33 \<or> c = 124 \<or> c = 126 then Goto [] 21
     else if c = 58 then hc_tr39
     else if c = 78 \<or> c = 110 then Goto [] 54
     else if c < 45 then
       (if 39 < c then
         (if 42 \<le> c \<and> c \<le> 43 then Goto [] 21
         else Fail)
       else if 35 \<le> c then Goto [] 21
       else Fail)
     else if 46 < c then
       (if c < 65 then
         (if 48 \<le> c \<and> c \<le> 57 then Goto [] 21
         else Fail)
       else if 90 < c then
         (if 94 \<le> c \<and> c \<le> 122 then Goto [] 21
         else Fail)
       else Goto [] 21)
     else Goto [] 21)"

definition hc_case54 :: "int \<Rightarrow> hc_action goto" where
  "hc_case54 c =
    (if c = 33 \<or> c = 124 \<or> c = 126 then Goto [] 21
     else if c = 58 then hc_tr39
     else if c = 67 \<or> c = 99 then Goto [] 55
     else if c < 45 then
       (if 39 < c then
         (if 42 \<le> c \<and> c \<le> 43 then Goto [] 21
         else Fail)
       else if 35 \<le> c then Goto [] 21
       else Fail)
     else if 46 < c then
       (if c < 65 then
         (if 48 \<le> c \<and> c \<le> 57 then Goto [] 21
         else Fail)
       else if 90 < c then
         (if 94 \<le> c \<and> c \<le> 122 then Goto [] 21
         else Fail)
       else Goto [] 21)
     else Goto [] 21)"

definition hc_case55 :: "int \<Rightarrow> hc_action goto" where
  "hc_case55 c =
    (if c = 33 \<or> c = 124 \<or> c = 126 then Goto [] 21
     else if c = 58 then hc_tr39
     else if c = 79 \<or> c = 111 then Goto [] 56
     else if c < 45 then
       (if 39 < c then
         (if 42 \<le> c \<and> c \<le> 43 then Goto [] 21
         else Fail)
       else if 35 \<le> c then Goto [] 21
       else Fail)
     else if 46 < c then
       (if c < 65 then
         (if 48 \<le> c \<and> c \<le> 57 then Goto [] 21
         else Fail)
       else if 90 < c then
         (if 94 \<le> c \<and> c \<le> 122 then Goto [] 21
         else Fail)
       else Goto [] 21)
     else Goto [] 21)"

definition hc_case56 :: "int \<Rightarrow> hc_action goto" where
  "hc_case56 c =
    (if c = 33 \<or> c = 124 \<or> c = 126 then Goto [] 21
     else if c = 58 then hc_tr39
     else if c = 68 \<or> c = 100 then Goto [] 57
     else if c < 45 then
       (if 39 < c then
         (if 42 \<le> c \<and> c \<le> 43 then Goto [] 21
         else Fail)
       else if 35 \<le> c then Goto [] 21
       else Fail)
     else if 46 < c then
       (if c < 65 then
         (if 48 \<le> c \<and> c \<le> 57 then Goto [] 21
         else Fail)
       else if 90 < c then
         (if 94 \<le> c \<and> c \<le> 122 then Goto [] 21
         else Fail)
       else Goto [] 21)
     else Goto [] 21)"

definition hc_case57 :: "int \<Rightarrow> hc_action goto" where
  "hc_case57 c =
    (if c = 33 \<or> c = 124 \<or> c = 126 then Goto [] 21
     else if c = 58 then hc_tr39
     else if c = 73 \<or> c = 105 then Goto [] 58
     else if c < 45 then
       (if 39 < c then
         (if 42 \<le> c \<and> c \<le> 43 then Goto [] 21
         else Fail)
       else if 35 \<le> c then Goto [] 21
       else Fail)
     else if 46 < c then
       (if c < 65 then
         (if 48 \<le> c \<and> c \<le> 57 then Goto [] 21
         else Fail)
       else if 90 < c then
         (if 94 \<le> c \<and> c \<le> 122 then Goto [] 21
         else Fail)
       else Goto [] 21)
     else Goto [] 21)"

definition hc_case58 :: "int \<Rightarrow> hc_action goto" where
  "hc_case58 c =
    (if c = 33 \<or> c = 124 \<or> c = 126 then Goto [] 21
     else if c = 58 then hc_tr39
     else if c = 78 \<or> c = 110 then Goto [] 59
     else if c < 45 then
       (if 39 < c then
         (if 42 \<le> c \<and> c \<le> 43 then Goto [] 21
         else Fail)
       else if 35 \<le> c then Goto [] 21
       else Fail)
     else if 46 < c then
       (if c < 65 then
         (if 48 \<le> c \<and> c \<le> 57 then Goto [] 21
         else Fail)
       else if 90 < c then
         (if 94 \<le> c \<and> c \<le> 122 then Goto [] 21
         else Fail)
       else Goto [] 21)
     else Goto [] 21)"

definition hc_case59 :: "int \<Rightarrow> hc_action goto" where
  "hc_case59 c =
    (if c = 33 \<or> c = 124 \<or> c = 126 then Goto [] 21
     else if c = 58 then hc_tr39
     else if c = 71 \<or> c = 103 then Goto [] 60
     else if c < 45 then
       (if 39 < c then
         (if 42 \<le> c \<and> c \<le> 43 then Goto [] 21
         else Fail)
       else if 35 \<le> c then Goto [] 21
       else Fail)
     else if 46 < c then
       (if c < 65 then
         (if 48 \<le> c \<and> c \<le> 57 then Goto [] 21
         else Fail)
       else if 90 < c then
         (if 94 \<le> c \<and> c \<le> 122 then Goto [] 21
         else Fail)
       else Goto [] 21)
     else Goto [] 21)"

definition hc_case60 :: "int \<Rightarrow> hc_action goto" where
  "hc_case60 c =
    (if c = 33 \<or> c = 124 \<or> c = 126 then Goto [] 21
     else if c = 58 then hc_tr95
     else if c < 45 then
       (if 39 < c then
         (if 42 \<le> c \<and> c \<le> 43 then Goto [] 21
         else Fail)
       else if 35 \<le> c then Goto [] 21
       else Fail)
     else if 46 < c then
       (if c < 65 then
         (if 48 \<le> c \<and> c \<le> 57 then Goto [] 21
         else Fail)
       else if 90 < c then
         (if 94 \<le> c \<and> c \<le> 122 then Goto [] 21
         else Fail)
       else Goto [] 21)
     else Goto [] 21)"

definition hc_case61 :: "int \<Rightarrow> hc_action goto" where
  "hc_case61 c =
    (if c = 10 then hc_tr97
     else if c = 13 then hc_tr98
     else if c = 32 then hc_tr96
     else if c = 67 \<or> c = 99 then hc_tr99
     else if 9 \<le> c \<and> c \<le> 12 then hc_tr96
     else hc_tr40)"

definition hc_case62 :: "int \<Rightarrow> hc_action goto" where
  "hc_case62 c =
    (if c = 10 then hc_tr101
     else if c = 13 then Goto [] 72
     else if c = 32 then Goto [] 63
     else if c = 33 \<or> c = 124 \<or> c = 126 then hc_tr35
     else if c = 67 \<or> c = 99 then hc_tr103
     else if c = 84 \<or> c = 116 then hc_tr37
     else if c < 45 then
       (if c < 35 then
         (if 9 \<le> c \<and> c \<le> 12 then Goto [] 63
         else Fail)
       else if 39 < c then
         (if 42 \<le> c \<and> c \<le> 43 then hc_tr35
         else Fail)
       else hc_tr35)
     else if 46 < c then
       (if c < 65 then
         (if 48 \<le> c \<and> c \<le> 57 then hc_tr35
         else Fail)
       else if 90 < c then
         (if 94 \<le> c \<and> c \<le> 122 then hc_tr35
         else Fail)
       else hc_tr35)
     else hc_tr35)"

definition hc_case63 :: "int \<Rightarrow> hc_action goto" where
  "hc_case63 c =
    (if c = 32 then Goto [] 63
     else if c = 67 \<or> c = 99 then hc_tr104
     else if 9 \<le> c \<and> c \<le> 13 then Goto [] 63
     else Fail)"

definition hc_case64 :: "int \<Rightarrow> hc_action goto" where
  "hc_case64 c =
    (if c = 72 \<or> c = 104 then Goto [] 65
     else Fail)"

definition hc_case65 :: "int \<Rightarrow> hc_action goto" where
  "hc_case65 c =
    (if c = 85 \<or> c = 117 then Goto [] 66
     else Fail)"

definition hc_case66 :: "int \<Rightarrow> hc_action goto" where
  "hc_case66 c =
    (if c = 78 \<or> c = 110 then Goto [] 67
     else Fail)"

definition hc_case67 :: "int \<Rightarrow> hc_action goto" where
  "hc_case67 c =
    (if c = 75 \<or> c = 107 then Goto [] 68
     else Fail)"

definition hc_case68 :: "int \<Rightarrow> hc_action goto" where
  "hc_case68 c =
    (if c = 69 \<or> c = 101 then Goto [] 69
     else Fail)"

definition hc_case69 :: "int \<Rightarrow> hc_action goto" where
  "hc_case69 c =
    (if c = 68 \<or> c = 100 then Goto [] 70
     else Fail)"

definition hc_case70 :: "int \<Rightarrow> hc_action goto" where
  "hc_case70 c =
    (if c = 10 then hc_tr111
     else if c = 13 then hc_tr112
     else Fail)"

definition hc_case71 :: "int \<Rightarrow> hc_action goto" where
  "hc_case71 c =
    (if c = 10 then hc_tr113
     else Fail)"

definition hc_case121 :: "int \<Rightarrow> hc_action goto" where
  "hc_case121 c =
    (if c = 32 then Goto [] 63
     else if c = 67 \<or> c = 99 then hc_tr104
     else if 9 \<le> c \<and> c \<le> 13 then Goto [] 63
     else Fail)"

definition hc_case72 :: "int \<Rightarrow> hc_action goto" where
  "hc_case72 c =
    (if c = 10 then hc_tr101
     else if c = 32 then Goto [] 63
     else if c = 67 \<or> c = 99 then hc_tr104
     else if 9 \<le> c \<and> c \<le> 13 then Goto [] 63
     else Fail)"

definition hc_case73 :: "int \<Rightarrow> hc_action goto" where
  "hc_case73 c =
    (if c = 33 \<or> c = 124 \<or> c = 126 then Goto [] 21
     else if c = 58 then hc_tr39
     else if c = 72 \<or> c = 104 then Goto [] 74
     else if c = 79 \<or> c = 111 then Goto [] 26
     else if c < 45 then
       (if 39 < c then
         (if 42 \<le> c \<and> c \<le> 43 then Goto [] 21
         else Fail)
       else if 35 \<le> c then Goto [] 21
       else Fail)
     else if 46 < c then
       (if c < 65 then
         (if 48 \<le> c \<and> c \<le> 57 then Goto [] 21
         else Fail)
       else if 90 < c then
         (if 94 \<le> c \<and> c \<le> 122 then Goto [] 21
         else Fail)
       else Goto [] 21)
     else Goto [] 21)"

definition hc_case74 :: "int \<Rightarrow> hc_action goto" where
  "hc_case74 c =
    (if c = 33 \<or> c = 124 \<or> c = 126 then Goto [] 21
     else if c = 58 then hc_tr39
     else if c = 85 \<or> c = 117 then Goto [] 75
     else if c < 45 then
       (if 39 < c then
         (if 42 \<le> c \<and> c \<le> 43 then Goto [] 21
         else Fail)
       else if 35 \<le> c then Goto [] 21
       else Fail)
     else if 46 < c then
       (if c < 65 then
         (if 48 \<le> c \<and> c \<le> 57 then Goto [] 21
         else Fail)
       else if 90 < c then
         (if 94 \<le> c \<and> c \<le> 122 then Goto [] 21
         else Fail)
       else Goto [] 21)
     else Goto [] 21)"

definition hc_case75 :: "int \<Rightarrow> hc_action goto" where
  "hc_case75 c =
    (if c = 33 \<or> c = 124 \<or> c = 126 then Goto [] 21
     else if c = 58 then hc_tr39
     else if c = 78 \<or> c = 110 then Goto [] 76
     else if c < 45 then
       (if 39 < c then
         (if 42 \<le> c \<and> c \<le> 43 then Goto [] 21
         else Fail)
       else if 35 \<le> c then Goto [] 21
       else Fail)
     else if 46 < c then
       (if c < 65 then
         (if 48 \<le> c \<and> c \<le> 57 then Goto [] 21
         else Fail)
       else if 90 < c then
         (if 94 \<le> c \<and> c \<le> 122 then Goto [] 21
         else Fail)
       else Goto [] 21)
     else Goto [] 21)"

definition hc_case76 :: "int \<Rightarrow> hc_action goto" where
  "hc_case76 c =
    (if c = 33 \<or> c = 124 \<or> c = 126 then Goto [] 21
     else if c = 58 then hc_tr39
     else if c = 75 \<or> c = 107 then Goto [] 77
     else if c < 45 then
       (if 39 < c then
         (if 42 \<le> c \<and> c \<le> 43 then Goto [] 21
         else Fail)
       else if 35 \<le> c then Goto [] 21
       else Fail)
     else if 46 < c then
       (if c < 65 then
         (if 48 \<le> c \<and> c \<le> 57 then Goto [] 21
         else Fail)
       else if 90 < c then
         (if 94 \<le> c \<and> c \<le> 122 then Goto [] 21
         else Fail)
       else Goto [] 21)
     else Goto [] 21)"

definition hc_case77 :: "int \<Rightarrow> hc_action goto" where
  "hc_case77 c =
    (if c = 33 \<or> c = 124 \<or> c = 126 then Goto [] 21
     else if c = 58 then hc_tr39
     else if c = 69 \<or> c = 101 then Goto [] 78
     else if c < 45 then
       (if 39 < c then
         (if 42 \<le> c \<and> c \<le> 43 then Goto [] 21
         else Fail)
       else if 35 \<le> c then Goto [] 21
       else Fail)
     else if 46 < c then
       (if c < 65 then
         (if 48 \<le> c \<and> c \<le> 57 then Goto [] 21
         else Fail)
       else if 90 < c then
         (if 94 \<le> c \<and> c \<le> 122 then Goto [] 21
         else Fail)
       else Goto [] 21)
     else Goto [] 21)"

definition hc_case78 :: "int \<Rightarrow> hc_action goto" where
  "hc_case78 c =
    (if c = 33 \<or> c = 124 \<or> c = 126 then Goto [] 21
     else if c = 58 then hc_tr39
     else if c = 68 \<or> c = 100 then Goto [] 79
     else if c < 45 then
       (if 39 < c then
         (if 42 \<le> c \<and> c \<le> 43 then Goto [] 21
         else Fail)
       else if 35 \<le> c then Goto [] 21
       else Fail)
     else if 46 < c then
       (if c < 65 then
         (if 48 \<le> c \<and> c \<le> 57 then Goto [] 21
         else Fail)
       else if 90 < c then
         (if 94 \<le> c \<and> c \<le> 122 then Goto [] 21
         else Fail)
       else Goto [] 21)
     else Goto [] 21)"

definition hc_case79 :: "int \<Rightarrow> hc_action goto" where
  "hc_case79 c =
    (if c = 10 then hc_tr111
     else if c = 13 then hc_tr112
     else if c = 33 \<or> c = 124 \<or> c = 126 then Goto [] 21
     else if c = 58 then hc_tr39
     else if c < 45 then
       (if 39 < c then
         (if 42 \<le> c \<and> c \<le> 43 then Goto [] 21
         else Fail)
       else if 35 \<le> c then Goto [] 21
       else Fail)
     else if 46 < c then
       (if c < 65 then
         (if 48 \<le> c \<and> c \<le> 57 then Goto [] 21
         else Fail)
       else if 90 < c then
         (if 94 \<le> c \<and> c \<le> 122 then Goto [] 21
         else Fail)
       else Goto [] 21)
     else Goto [] 21)"

definition hc_case80 :: "int \<Rightarrow> hc_action goto" where
  "hc_case80 c =
    (if c = 10 then Goto [] 62
     else if c = 32 then Goto [] 63
     else if c = 67 \<or> c = 99 then hc_tr104
     else if 9 \<le> c \<and> c \<le> 13 then Goto [] 63
     else Fail)"

definition hc_case81 :: "int \<Rightarrow> hc_action goto" where
  "hc_case81 c =
    (if c = 10 then hc_tr45
     else if c = 13 then hc_tr46
     else if c = 72 \<or> c = 104 then Goto [] 82
     else Goto [] 23)"

definition hc_case82 :: "int \<Rightarrow> hc_action goto" where
  "hc_case82 c =
    (if c = 10 then hc_tr45
     else if c = 13 then hc_tr46
     else if c = 85 \<or> c = 117 then Goto [] 83
     else Goto [] 23)"

definition hc_case83 :: "int \<Rightarrow> hc_action goto" where
  "hc_case83 c =
    (if c = 10 then hc_tr45
     else if c = 13 then hc_tr46
     else if c = 78 \<or> c = 110 then Goto [] 84
     else Goto [] 23)"

definition hc_case84 :: "int \<Rightarrow> hc_action goto" where
  "hc_case84 c =
    (if c = 10 then hc_tr45
     else if c = 13 then hc_tr46
     else if c = 75 \<or> c = 107 then Goto [] 85
     else Goto [] 23)"

definition hc_case85 :: "int \<Rightarrow> hc_action goto" where
  "hc_case85 c =
    (if c = 10 then hc_tr45
     else if c = 13 then hc_tr46
     else if c = 69 \<or> c = 101 then Goto [] 86
     else Goto [] 23)"

definition hc_case86 :: "int \<Rightarrow> hc_action goto" where
  "hc_case86 c =
    (if c = 10 then hc_tr45
     else if c = 13 then hc_tr46
     else if c = 68 \<or> c = 100 then Goto [] 87
     else Goto [] 23)"

definition hc_case87 :: "int \<Rightarrow> hc_action goto" where
  "hc_case87 c =
    (if c = 10 then hc_tr111
     else if c = 13 then hc_tr112
     else Goto [] 23)"

definition hc_case88 :: "int \<Rightarrow> hc_action goto" where
  "hc_case88 c =
    (if c = 10 then Goto [] 43
     else Fail)"

definition hc_case122 :: "int \<Rightarrow> hc_action goto" where
  "hc_case122 c =
    (if c = 32 then Goto [] 37
     else if c = 67 \<or> c = 99 then Goto [] 38
     else if 9 \<le> c \<and> c \<le> 13 then Goto [] 37
     else Fail)"

definition hc_case89 :: "int \<Rightarrow> hc_action goto" where
  "hc_case89 c =
    (if c = 10 then hc_tr64
     else if c = 32 then Goto [] 37
     else if c = 67 \<or> c = 99 then Goto [] 38
     else if 9 \<le> c \<and> c \<le> 13 then Goto [] 37
     else Fail)"

definition hc_case90 :: "int \<Rightarrow> hc_action goto" where
  "hc_case90 c =
    (if c = 33 \<or> c = 124 \<or> c = 126 then Goto [] 21
     else if c = 58 then hc_tr39
     else if c = 76 \<or> c = 108 then Goto [] 91
     else if c = 79 \<or> c = 111 then Goto [] 26
     else if c < 45 then
       (if 39 < c then
         (if 42 \<le> c \<and> c \<le> 43 then Goto [] 21
         else Fail)
       else if 35 \<le> c then Goto [] 21
       else Fail)
     else if 46 < c then
       (if c < 65 then
         (if 48 \<le> c \<and> c \<le> 57 then Goto [] 21
         else Fail)
       else if 90 < c then
         (if 94 \<le> c \<and> c \<le> 122 then Goto [] 21
         else Fail)
       else Goto [] 21)
     else Goto [] 21)"

definition hc_case91 :: "int \<Rightarrow> hc_action goto" where
  "hc_case91 c =
    (if c = 33 \<or> c = 124 \<or> c = 126 then Goto [] 21
     else if c = 58 then hc_tr39
     else if c = 79 \<or> c = 111 then Goto [] 92
     else if c < 45 then
       (if 39 < c then
         (if 42 \<le> c \<and> c \<le> 43 then Goto [] 21
         else Fail)
       else if 35 \<le> c then Goto [] 21
       else Fail)
     else if 46 < c then
       (if c < 65 then
         (if 48 \<le> c \<and> c \<le> 57 then Goto [] 21
         else Fail)
       else if 90 < c then
         (if 94 \<le> c \<and> c \<le> 122 then Goto [] 21
         else Fail)
       else Goto [] 21)
     else Goto [] 21)"

definition hc_case92 :: "int \<Rightarrow> hc_action goto" where
  "hc_case92 c =
    (if c = 33 \<or> c = 124 \<or> c = 126 then Goto [] 21
     else if c = 58 then hc_tr39
     else if c = 83 \<or> c = 115 then Goto [] 93
     else if c < 45 then
       (if 39 < c then
         (if 42 \<le> c \<and> c \<le> 43 then Goto [] 21
         else Fail)
       else if 35 \<le> c then Goto [] 21
       else Fail)
     else if 46 < c then
       (if c < 65 then
         (if 48 \<le> c \<and> c \<le> 57 then Goto [] 21
         else Fail)
       else if 90 < c then
         (if 94 \<le> c \<and> c \<le> 122 then Goto [] 21
         else Fail)
       else Goto [] 21)
     else Goto [] 21)"

definition hc_case93 :: "int \<Rightarrow> hc_action goto" where
  "hc_case93 c =
    (if c = 33 \<or> c = 124 \<or> c = 126 then Goto [] 21
     else if c = 58 then hc_tr39
     else if c = 69 \<or> c = 101 then Goto [] 94
     else if c < 45 then
       (if 39 < c then
         (if 42 \<le> c \<and> c \<le> 43 then Goto [] 21
         else Fail)
       else if 35 \<le> c then Goto [] 21
       else Fail)
     else if 46 < c then
       (if c < 65 then
         (if 48 \<le> c \<and> c \<le> 57 then Goto [] 21
         else Fail)
       else if 90 < c then
         (if 94 \<le> c \<and> c \<le> 122 then Goto [] 21
         else Fail)
       else Goto [] 21)
     else Goto [] 21)"

definition hc_case94 :: "int \<Rightarrow> hc_action goto" where
  "hc_case94 c =
    (if c = 10 then Goto [] 43
     else if c = 13 then Goto [] 88
     else if c = 33 \<or> c = 124 \<or> c = 126 then Goto [] 21
     else if c = 58 then hc_tr39
     else if c < 45 then
       (if 39 < c then
         (if 42 \<le> c \<and> c \<le> 43 then Goto [] 21
         else Fail)
       else if 35 \<le> c then Goto [] 21
       else Fail)
     else if 46 < c then
       (if c < 65 then
         (if 48 \<le> c \<and> c \<le> 57 then Goto [] 21
         else Fail)
       else if 90 < c then
         (if 94 \<le> c \<and> c \<le> 122 then Goto [] 21
         else Fail)
       else Goto [] 21)
     else Goto [] 21)"

definition hc_case95 :: "int \<Rightarrow> hc_action goto" where
  "hc_case95 c =
    (if c = 10 then Goto [] 36
     else if c = 32 then Goto [] 37
     else if c = 67 \<or> c = 99 then Goto [] 38
     else if 9 \<le> c \<and> c \<le> 13 then Goto [] 37
     else Fail)"

definition hc_case96 :: "int \<Rightarrow> hc_action goto" where
  "hc_case96 c =
    (if c = 10 then hc_tr45
     else if c = 13 then hc_tr46
     else if c = 76 \<or> c = 108 then Goto [] 97
     else Goto [] 23)"

definition hc_case97 :: "int \<Rightarrow> hc_action goto" where
  "hc_case97 c =
    (if c = 10 then hc_tr45
     else if c = 13 then hc_tr46
     else if c = 79 \<or> c = 111 then Goto [] 98
     else Goto [] 23)"

definition hc_case98 :: "int \<Rightarrow> hc_action goto" where
  "hc_case98 c =
    (if c = 10 then hc_tr45
     else if c = 13 then hc_tr46
     else if c = 83 \<or> c = 115 then Goto [] 99
     else Goto [] 23)"

definition hc_case99 :: "int \<Rightarrow> hc_action goto" where
  "hc_case99 c =
    (if c = 10 then hc_tr45
     else if c = 13 then hc_tr46
     else if c = 69 \<or> c = 101 then Goto [] 100
     else Goto [] 23)"

definition hc_case100 :: "int \<Rightarrow> hc_action goto" where
  "hc_case100 c =
    (if c = 10 then hc_tr136
     else if c = 13 then hc_tr137
     else Goto [] 23)"

definition hc_case101 :: "int \<Rightarrow> hc_action goto" where
  "hc_case101 c =
    (if c = 33 \<or> c = 124 \<or> c = 126 then Goto [] 21
     else if c = 58 then hc_tr39
     else if c = 69 \<or> c = 101 then Goto [] 102
     else if c < 45 then
       (if 39 < c then
         (if 42 \<le> c \<and> c \<le> 43 then Goto [] 21
         else Fail)
       else if 35 \<le> c then Goto [] 21
       else Fail)
     else if 46 < c then
       (if c < 65 then
         (if 48 \<le> c \<and> c \<le> 57 then Goto [] 21
         else Fail)
       else if 90 < c then
         (if 94 \<le> c \<and> c \<le> 122 then Goto [] 21
         else Fail)
       else Goto [] 21)
     else Goto [] 21)"

definition hc_case102 :: "int \<Rightarrow> hc_action goto" where
  "hc_case102 c =
    (if c = 33 \<or> c = 124 \<or> c = 126 then Goto [] 21
     else if c = 58 then hc_tr39
     else if c = 78 \<or> c = 110 then Goto [] 103
     else if c < 45 then
       (if 39 < c then
         (if 42 \<le> c \<and> c \<le> 43 then Goto [] 21
         else Fail)
       else if 35 \<le> c then Goto [] 21
       else Fail)
     else if 46 < c then
       (if c < 65 then
         (if 48 \<le> c \<and> c \<le> 57 then Goto [] 21
         else Fail)
       else if 90 < c then
         (if 94 \<le> c \<and> c \<le> 122 then Goto [] 21
         else Fail)
       else Goto [] 21)
     else Goto [] 21)"

definition hc_case103 :: "int \<Rightarrow> hc_action goto" where
  "hc_case103 c =
    (if c = 33 \<or> c = 124 \<or> c = 126 then Goto [] 21
     else if c = 58 then hc_tr39
     else if c = 84 \<or> c = 116 then Goto [] 104
     else if c < 45 then
       (if 39 < c then
         (if 42 \<le> c \<and> c \<le> 43 then Goto [] 21
         else Fail)
       else if 35 \<le> c then Goto [] 21
       else Fail)
     else if 46 < c then
       (if c < 65 then
         (if 48 \<le> c \<and> c \<le> 57 then Goto [] 21
         else Fail)
       else if 90 < c then
         (if 94 \<le> c \<and> c \<le> 122 then Goto [] 21
         else Fail)
       else Goto [] 21)
     else Goto [] 21)"

definition hc_case104 :: "int \<Rightarrow> hc_action goto" where
  "hc_case104 c =
    (if c = 33 \<or> c = 46 \<or> c = 124 \<or> c = 126 then Goto [] 21
     else if c = 45 then Goto [] 105
     else if c = 58 then hc_tr39
     else if c < 48 then
       (if 39 < c then
         (if 42 \<le> c \<and> c \<le> 43 then Goto [] 21
         else Fail)
       else if 35 \<le> c then Goto [] 21
       else Fail)
     else if 57 < c then
       (if 90 < c then
         (if 94 \<le> c \<and> c \<le> 122 then Goto [] 21
         else Fail)
       else if 65 \<le> c then Goto [] 21
       else Fail)
     else Goto [] 21)"

definition hc_case105 :: "int \<Rightarrow> hc_action goto" where
  "hc_case105 c =
    (if c = 33 \<or> c = 124 \<or> c = 126 then Goto [] 21
     else if c = 58 then hc_tr39
     else if c = 76 \<or> c = 108 then Goto [] 106
     else if c < 45 then
       (if 39 < c then
         (if 42 \<le> c \<and> c \<le> 43 then Goto [] 21
         else Fail)
       else if 35 \<le> c then Goto [] 21
       else Fail)
     else if 46 < c then
       (if c < 65 then
         (if 48 \<le> c \<and> c \<le> 57 then Goto [] 21
         else Fail)
       else if 90 < c then
         (if 94 \<le> c \<and> c \<le> 122 then Goto [] 21
         else Fail)
       else Goto [] 21)
     else Goto [] 21)"

definition hc_case106 :: "int \<Rightarrow> hc_action goto" where
  "hc_case106 c =
    (if c = 33 \<or> c = 124 \<or> c = 126 then Goto [] 21
     else if c = 58 then hc_tr39
     else if c = 69 \<or> c = 101 then Goto [] 107
     else if c < 45 then
       (if 39 < c then
         (if 42 \<le> c \<and> c \<le> 43 then Goto [] 21
         else Fail)
       else if 35 \<le> c then Goto [] 21
       else Fail)
     else if 46 < c then
       (if c < 65 then
         (if 48 \<le> c \<and> c \<le> 57 then Goto [] 21
         else Fail)
       else if 90 < c then
         (if 94 \<le> c \<and> c \<le> 122 then Goto [] 21
         else Fail)
       else Goto [] 21)
     else Goto [] 21)"

definition hc_case107 :: "int \<Rightarrow> hc_action goto" where
  "hc_case107 c =
    (if c = 33 \<or> c = 124 \<or> c = 126 then Goto [] 21
     else if c = 58 then hc_tr39
     else if c = 78 \<or> c = 110 then Goto [] 108
     else if c < 45 then
       (if 39 < c then
         (if 42 \<le> c \<and> c \<le> 43 then Goto [] 21
         else Fail)
       else if 35 \<le> c then Goto [] 21
       else Fail)
     else if 46 < c then
       (if c < 65 then
         (if 48 \<le> c \<and> c \<le> 57 then Goto [] 21
         else Fail)
       else if 90 < c then
         (if 94 \<le> c \<and> c \<le> 122 then Goto [] 21
         else Fail)
       else Goto [] 21)
     else Goto [] 21)"

definition hc_case108 :: "int \<Rightarrow> hc_action goto" where
  "hc_case108 c =
    (if c = 33 \<or> c = 124 \<or> c = 126 then Goto [] 21
     else if c = 58 then hc_tr39
     else if c = 71 \<or> c = 103 then Goto [] 109
     else if c < 45 then
       (if 39 < c then
         (if 42 \<le> c \<and> c \<le> 43 then Goto [] 21
         else Fail)
       else if 35 \<le> c then Goto [] 21
       else Fail)
     else if 46 < c then
       (if c < 65 then
         (if 48 \<le> c \<and> c \<le> 57 then Goto [] 21
         else Fail)
       else if 90 < c then
         (if 94 \<le> c \<and> c \<le> 122 then Goto [] 21
         else Fail)
       else Goto [] 21)
     else Goto [] 21)"

definition hc_case109 :: "int \<Rightarrow> hc_action goto" where
  "hc_case109 c =
    (if c = 33 \<or> c = 124 \<or> c = 126 then Goto [] 21
     else if c = 58 then hc_tr39
     else if c = 84 \<or> c = 116 then Goto [] 110
     else if c < 45 then
       (if 39 < c then
         (if 42 \<le> c \<and> c \<le> 43 then Goto [] 21
         else Fail)
       else if 35 \<le> c then Goto [] 21
       else Fail)
     else if 46 < c then
       (if c < 65 then
         (if 48 \<le> c \<and> c \<le> 57 then Goto [] 21
         else Fail)
       else if 90 < c then
         (if 94 \<le> c \<and> c \<le> 122 then Goto [] 21
         else Fail)
       else Goto [] 21)
     else Goto [] 21)"

definition hc_case110 :: "int \<Rightarrow> hc_action goto" where
  "hc_case110 c =
    (if c = 33 \<or> c = 124 \<or> c = 126 then Goto [] 21
     else if c = 58 then hc_tr39
     else if c = 72 \<or> c = 104 then Goto [] 111
     else if c < 45 then
       (if 39 < c then
         (if 42 \<le> c \<and> c \<le> 43 then Goto [] 21
         else Fail)
       else if 35 \<le> c then Goto [] 21
       else Fail)
     else if 46 < c then
       (if c < 65 then
         (if 48 \<le> c \<and> c \<le> 57 then Goto [] 21
         else Fail)
       else if 90 < c then
         (if 94 \<le> c \<and> c \<le> 122 then Goto [] 21
         else Fail)
       else Goto [] 21)
     else Goto [] 21)"

definition hc_case111 :: "int \<Rightarrow> hc_action goto" where
  "hc_case111 c =
    (if c = 33 \<or> c = 124 \<or> c = 126 then Goto [] 21
     else if c = 58 then hc_tr148
     else if c < 45 then
       (if 39 < c then
         (if 42 \<le> c \<and> c \<le> 43 then Goto [] 21
         else Fail)
       else if 35 \<le> c then Goto [] 21
       else Fail)
     else if 46 < c then
       (if c < 65 then
         (if 48 \<le> c \<and> c \<le> 57 then Goto [] 21
         else Fail)
       else if 90 < c then
         (if 94 \<le> c \<and> c \<le> 122 then Goto [] 21
         else Fail)
       else Goto [] 21)
     else Goto [] 21)"

definition hc_case112 :: "int \<Rightarrow> hc_action goto" where
  "hc_case112 c =
    (if c = 10 then hc_tr150
     else if c = 13 then hc_tr151
     else if c = 32 then hc_tr149
     else if 12 < c then
       (if 48 \<le> c \<and> c \<le> 57 then hc_tr152
       else hc_tr40)
     else if 9 \<le> c then hc_tr149
     else hc_tr40)"

definition hc_case113 :: "int \<Rightarrow> hc_action goto" where
  "hc_case113 c =
    (if c = 10 then hc_tr154
     else if c = 13 then Goto [] 116
     else if c = 32 then Goto [] 114
     else if c = 33 \<or> c = 124 \<or> c = 126 then hc_tr35
     else if c = 67 \<or> c = 99 then hc_tr36
     else if c = 84 \<or> c = 116 then hc_tr37
     else if c < 45 then
       (if c < 35 then
         (if 9 \<le> c \<and> c \<le> 12 then Goto [] 114
         else Fail)
       else if 39 < c then
         (if 42 \<le> c \<and> c \<le> 43 then hc_tr35
         else Fail)
       else hc_tr35)
     else if 46 < c then
       (if c < 65 then
         (if 48 \<le> c \<and> c \<le> 57 then hc_tr156
         else Fail)
       else if 90 < c then
         (if 94 \<le> c \<and> c \<le> 122 then hc_tr35
         else Fail)
       else hc_tr35)
     else hc_tr35)"

definition hc_case114 :: "int \<Rightarrow> hc_action goto" where
  "hc_case114 c =
    (if c = 32 then Goto [] 114
     else if 13 < c then
       (if 48 \<le> c \<and> c \<le> 57 then hc_tr157
       else Fail)
     else if 9 \<le> c then Goto [] 114
     else Fail)"

definition hc_case115 :: "int \<Rightarrow> hc_action goto" where
  "hc_case115 c =
    (if c = 10 then hc_tr158
     else if c = 13 then hc_tr159
     else if 48 \<le> c \<and> c \<le> 57 then Goto [] 115
     else Fail)"

definition hc_case123 :: "int \<Rightarrow> hc_action goto" where
  "hc_case123 c =
    (if c = 32 then Goto [] 114
     else if 13 < c then
       (if 48 \<le> c \<and> c \<le> 57 then hc_tr157
       else Fail)
     else if 9 \<le> c then Goto [] 114
     else Fail)"

definition hc_case116 :: "int \<Rightarrow> hc_action goto" where
  "hc_case116 c =
    (if c = 10 then hc_tr154
     else if c = 32 then Goto [] 114
     else if 13 < c then
       (if 48 \<le> c \<and> c \<le> 57 then hc_tr157
       else Fail)
     else if 9 \<le> c then Goto [] 114
     else Fail)"

definition hc_case117 :: "int \<Rightarrow> hc_action goto" where
  "hc_case117 c =
    (if c = 10 then hc_tr158
     else if c = 13 then hc_tr159
     else if c = 33 \<or> c = 124 \<or> c = 126 then Goto [] 21
     else if c = 58 then hc_tr39
     else if c < 45 then
       (if 39 < c then
         (if 42 \<le> c \<and> c \<le> 43 then Goto [] 21
         else Fail)
       else if 35 \<le> c then Goto [] 21
       else Fail)
     else if 46 < c then
       (if c < 65 then
         (if 48 \<le> c \<and> c \<le> 57 then Goto [] 117
         else Fail)
       else if 90 < c then
         (if 94 \<le> c \<and> c \<le> 122 then Goto [] 21
         else Fail)
       else Goto [] 21)
     else Goto [] 21)"

definition hc_case118 :: "int \<Rightarrow> hc_action goto" where
  "hc_case118 c =
    (if c = 10 then Goto [] 113
     else if c = 32 then Goto [] 114
     else if 13 < c then
       (if 48 \<le> c \<and> c \<le> 57 then hc_tr157
       else Fail)
     else if 9 \<le> c then Goto [] 114
     else Fail)"

definition hc_case119 :: "int \<Rightarrow> hc_action goto" where
  "hc_case119 c =
    (if c = 10 then hc_tr158
     else if c = 13 then hc_tr159
     else if 48 \<le> c \<and> c \<le> 57 then Goto [] 119
     else Goto [] 23)"

subsection \<open>The switch\<close>

definition hc_switch :: "nat \<Rightarrow> int \<Rightarrow> hc_action goto" where
  "hc_switch cs c =
    (if cs = 0 \<or> 123 < cs then No_case
    else if cs < 62 then (if cs < 31 then (if cs < 16 then (if cs < 8 then (if cs < 4 then (if cs < 2 then hc_case1 c
         else if cs < 3 then hc_case2 c
         else hc_case3 c)
        else if cs < 6 then (if cs < 5 then hc_case4 c
         else hc_case5 c)
        else if cs < 7 then hc_case6 c
        else hc_case7 c)
       else if cs < 12 then (if cs < 10 then (if cs < 9 then hc_case8 c
         else hc_case9 c)
        else if cs < 11 then hc_case10 c
        else hc_case11 c)
       else if cs < 14 then (if cs < 13 then hc_case12 c
        else hc_case13 c)
       else if cs < 15 then hc_case14 c
       else hc_case15 c)
      else if cs < 23 then (if cs < 19 then (if cs < 17 then hc_case16 c
        else if cs < 18 then hc_case17 c
        else hc_case18 c)
       else if cs < 21 then (if cs < 20 then hc_case19 c
        else hc_case20 c)
       else if cs < 22 then hc_case21 c
       else hc_case22 c)
      else if cs < 27 then (if cs < 25 then (if cs < 24 then hc_case23 c
        else hc_case24 c)
       else if cs < 26 then hc_case25 c
       else hc_case26 c)
      else if cs < 29 then (if cs < 28 then hc_case27 c
       else hc_case28 c)
      else if cs < 30 then hc_case29 c
      else hc_case30 c)
     else if cs < 46 then (if cs < 38 then (if cs < 34 then (if cs < 32 then hc_case31 c
        else if cs < 33 then hc_case32 c
        else hc_case33 c)
       else if cs < 36 then (if cs < 35 then hc_case34 c
        else hc_case35 c)
       else if cs < 37 then hc_case36 c
       else hc_case37 c)
      else if cs < 42 then (if cs < 40 then (if cs < 39 then hc_case38 c
        else hc_case39 c)
       else if cs < 41 then hc_case40 c
       else hc_case41 c)
      else if cs < 44 then (if cs < 43 then hc_case42 c
       else hc_case43 c)
      else if cs < 45 then hc_case44 c
      else hc_case45 c)
     else if cs < 54 then (if cs < 50 then (if cs < 48 then (if cs < 47 then hc_case46 c
        else hc_case47 c)
       else if cs < 49 then hc_case48 c
       else hc_case49 c)
      else if cs < 52 then (if cs < 51 then hc_case50 c
       else hc_case51 c)
      else if cs < 53 then hc_case52 c
      else hc_case53 c)
     else if cs < 58 then (if cs < 56 then (if cs < 55 then hc_case54 c
       else hc_case55 c)
      else if cs < 57 then hc_case56 c
      else hc_case57 c)
     else if cs < 60 then (if cs < 59 then hc_case58 c
      else hc_case59 c)
     else if cs < 61 then hc_case60 c
     else hc_case61 c)
    else if cs < 93 then (if cs < 77 then (if cs < 69 then (if cs < 65 then (if cs < 63 then hc_case62 c
        else if cs < 64 then hc_case63 c
        else hc_case64 c)
       else if cs < 67 then (if cs < 66 then hc_case65 c
        else hc_case66 c)
       else if cs < 68 then hc_case67 c
       else hc_case68 c)
      else if cs < 73 then (if cs < 71 then (if cs < 70 then hc_case69 c
        else hc_case70 c)
       else if cs < 72 then hc_case71 c
       else hc_case72 c)
      else if cs < 75 then (if cs < 74 then hc_case73 c
       else hc_case74 c)
      else if cs < 76 then hc_case75 c
      else hc_case76 c)
     else if cs < 85 then (if cs < 81 then (if cs < 79 then (if cs < 78 then hc_case77 c
        else hc_case78 c)
       else if cs < 80 then hc_case79 c
       else hc_case80 c)
      else if cs < 83 then (if cs < 82 then hc_case81 c
       else hc_case82 c)
      else if cs < 84 then hc_case83 c
      else hc_case84 c)
     else if cs < 89 then (if cs < 87 then (if cs < 86 then hc_case85 c
       else hc_case86 c)
      else if cs < 88 then hc_case87 c
      else hc_case88 c)
     else if cs < 91 then (if cs < 90 then hc_case89 c
      else hc_case90 c)
     else if cs < 92 then hc_case91 c
     else hc_case92 c)
    else if cs < 108 then (if cs < 100 then (if cs < 96 then (if cs < 94 then hc_case93 c
       else if cs < 95 then hc_case94 c
       else hc_case95 c)
      else if cs < 98 then (if cs < 97 then hc_case96 c
       else hc_case97 c)
      else if cs < 99 then hc_case98 c
      else hc_case99 c)
     else if cs < 104 then (if cs < 102 then (if cs < 101 then hc_case100 c
       else hc_case101 c)
      else if cs < 103 then hc_case102 c
      else hc_case103 c)
     else if cs < 106 then (if cs < 105 then hc_case104 c
      else hc_case105 c)
     else if cs < 107 then hc_case106 c
     else hc_case107 c)
    else if cs < 116 then (if cs < 112 then (if cs < 110 then (if cs < 109 then hc_case108 c
       else hc_case109 c)
      else if cs < 111 then hc_case110 c
      else hc_case111 c)
     else if cs < 114 then (if cs < 113 then hc_case112 c
      else hc_case113 c)
     else if cs < 115 then hc_case114 c
     else hc_case115 c)
    else if cs < 120 then (if cs < 118 then (if cs < 117 then hc_case116 c
      else hc_case117 c)
     else if cs < 119 then hc_case118 c
     else hc_case119 c)
    else if cs < 122 then (if cs < 121 then hc_case120 c
     else hc_case121 c)
    else if cs < 123 then hc_case122 c
    else hc_case123 c)"

end
