(* ===== verification/CNumber.thy ===== *)
theory CNumber
  imports CString
begin

text \<open>What the parsers use of the C library to read numbers.\<close>

definition c_isspace :: "char \<Rightarrow> bool" where
  "c_isspace c = (c = CHR '' '' \<or> (let n = of_char c in 9 \<le> n \<and> n \<le> (13 :: nat)))"

definition c_digit :: "nat \<Rightarrow> char \<Rightarrow> nat option" where
  "c_digit base c = (let n = of_char c;
       d = (if 48 \<le> n \<and> n \<le> (57 :: nat) then Some (n - 48)
            else if 97 \<le> n \<and> n \<le> 122 then Some (n - 87)
            else if 65 \<le> n \<and> n \<le> 90 then Some (n - 55) else None)
     in case d of None \<Rightarrow> None | Some v \<Rightarrow> if v < base then Some v else None)"

fun c_digits :: "nat \<Rightarrow> nat \<Rightarrow> string \<Rightarrow> nat" where
  "c_digits base acc [] = acc"
| "c_digits base acc (c # s) = (case c_digit base c of None \<Rightarrow> acc | Some d \<Rightarrow> c_digits base (acc * base + d) s)"

text \<open>\<open>strtol\<close> for base 10 and 16: blanks, a sign, the prefix of base 16, digits; the result is cut off at the bounds of \<open>long\<close>.\<close>

definition strtol :: "nat \<Rightarrow> string \<Rightarrow> int" where
  "strtol base s =
     (let s = dropWhile c_isspace s;
          neg = (s \<noteq> [] \<and> hd s = CHR ''-'');
          s = (if s \<noteq> [] \<and> (hd s = CHR ''-'' \<or> hd s = CHR ''+'') then drop 1 s else s);
          s = (if base = 16 \<and> (is_prefix ''0x'' s \<or> is_prefix ''0X'' s) \<and> 2 < length s \<and> c_digit 16 (s ! 2) \<noteq> None then drop 2 s else s);
          v = int (c_digits base 0 s)
      in if neg then max (- (2 ^ 63)) (- v) else min (2 ^ 63 - 1) v)"

text \<open>\<open>atoi\<close> of the GNU C library.\<close>

definition c_atoi :: "string \<Rightarrow> int" where
  "c_atoi s = to_int32 (strtol 10 s)"

lemma c_digit_decimal: "c_digit 10 c = (if c \<in> decimal_digits then Some (digit_val c) else None)"
proof -
  have "c \<in> decimal_digits \<longleftrightarrow> 48 \<le> (of_char c :: nat) \<and> (of_char c :: nat) \<le> 57"
  proof
    assume "48 \<le> (of_char c :: nat) \<and> (of_char c :: nat) \<le> 57"
    moreover define n :: nat where "n = of_char c"
    ultimately have "n = 48 \<or> n = 49 \<or> n = 50 \<or> n = 51 \<or> n = 52 \<or> n = 53 \<or> n = 54 \<or> n = 55 \<or> n = 56 \<or> n = 57" by arith
    moreover have "c = char_of n" by (simp add: n_def)
    ultimately show "c \<in> decimal_digits" by (elim disjE) (simp_all add: decimal_digits_def char_of_def bit_0)
  qed (auto simp: decimal_digits_def)
  then show ?thesis by (auto simp: c_digit_def digit_val_def Let_def)
qed

text \<open>A number as \<open>to_string\<close> writes it is read back, whatever follows that is no digit.\<close>

lemma c_digits_append: "list_all (\<lambda>c. c \<in> decimal_digits) s \<Longrightarrow> c_digits 10 acc (s @ t) = c_digits 10 (foldl (\<lambda>n c. 10 * n + digit_val c) acc s) t"
  by (induction s arbitrary: acc) (simp_all add: c_digit_decimal mult.commute)

lemma strtol_dec:
  assumes "s \<noteq> []" "list_all (\<lambda>c. c \<in> decimal_digits) s" "t = [] \<or> hd t \<notin> decimal_digits" "int (dec_val s) < 2 ^ 63"
  shows "strtol 10 (s @ t) = int (dec_val s)"
proof -
  obtain c s' where s: "s = c # s'" and c: "c \<in> decimal_digits" using assms(1,2) by (cases s) auto
  have nd: "\<not> c_isspace c" "c \<noteq> CHR ''-''" "c \<noteq> CHR ''+''" using c by (auto simp: decimal_digits_def c_isspace_def)
  have "c_digits 10 0 (s @ t) = dec_val s"
    using assms(3) c_digits_append[OF assms(2), of 0 t] by (cases t) (auto simp: c_digit_decimal dec_val_def)
  with assms(4) nd show ?thesis by (simp add: strtol_def Let_def s min_def)
qed

lemma c_atoi_dec:
  assumes "n < 2 ^ 31" "t = [] \<or> hd t \<notin> decimal_digits"
  shows "c_atoi (dec_str n @ t) = int n"
proof -
  have "int (dec_val (dec_str n)) < 2 ^ 63" using assms(1) by (simp add: dec_val_str)
  then have "strtol 10 (dec_str n @ t) = int n"
    using strtol_dec[of "dec_str n" t] assms(2) dec_str_digits[of n] by (auto simp: dec_val_str dec_str_nonempty list_all_iff)
  with assms(1) show ?thesis by (simp add: c_atoi_def to_int32_id)
qed

end
