(* ===== verification/HttpClient.thy ===== *)
theory HttpClient
  imports HttpClientMachine CNumber Http11
begin

text \<open>
  \<^verbatim>\<open>include/httpclient_parser.h\<close>, \<^verbatim>\<open>include/httpclient_parser.cc\<close>: the parser of responses and of the
  headers of chunks, around the machine of \<open>HttpClientMachine\<close>. As for requests, pointers are offsets
  and the callbacks, all of which \<open>HttpResponseParser\<close> installs, are a list of events.
\<close>

subsection \<open>State\<close>

record httpclient_parser =
  cp_cs :: nat
  cp_body_start :: nat
  cp_content_len :: int
  cp_status :: int
  cp_chunked :: bool
  cp_chunks_done :: bool
  cp_close :: bool
  cp_nread :: nat
  cp_mark :: nat
  cp_field_start :: nat
  cp_field_len :: nat

definition httpclient_parser_start :: nat where "httpclient_parser_start = 1"
definition httpclient_parser_first_final :: nat where "httpclient_parser_first_final = 120"
definition httpclient_parser_error :: nat where "httpclient_parser_error = 0"

text \<open>\<open>status\<close> keeps what the memory held before.\<close>

definition httpclient_parser_init :: "httpclient_parser \<Rightarrow> httpclient_parser" where
  "httpclient_parser_init ps = ps\<lparr>cp_cs := httpclient_parser_start, cp_body_start := 0, cp_content_len := - 1,
     cp_chunked := False, cp_chunks_done := False, cp_mark := 0, cp_nread := 0, cp_field_len := 0,
     cp_field_start := 0, cp_close := False\<rparr>"

subsection \<open>Actions\<close>

text \<open>A chunk of length 0, or of one that does not fit, is reported as the last. A \<open>long\<close> is cut to an \<open>int\<close>.\<close>

definition hc_chunk_size :: "string \<Rightarrow> nat \<Rightarrow> httpclient_parser \<times> http_event list \<Rightarrow> httpclient_parser \<times> http_event list" where
  "hc_chunk_size buffer p st = (case st of (ps, evs) \<Rightarrow>
     let ps = ps\<lparr>cp_chunked := True, cp_content_len := to_int32 (strtol 16 (PTR_TO buffer (cp_mark ps)))\<rparr>;
         ps = ps\<lparr>cp_chunks_done := cp_content_len ps \<le> 0\<rparr>
     in if cp_chunks_done ps then (ps, evs @ [On_last_chunk (PTR_TO buffer (cp_mark ps)) (LEN (cp_mark ps) p)])
        else (ps, evs @ [On_chunk (PTR_TO buffer (cp_mark ps)) (LEN (cp_mark ps) p)]))"

definition hc_do ::
  "string \<Rightarrow> hc_action \<Rightarrow> nat \<Rightarrow> httpclient_parser \<times> http_event list \<Rightarrow> httpclient_parser \<times> http_event list"
where
  "hc_do buffer a p st = (case st of (ps, evs) \<Rightarrow> (case a of
     C_mark \<Rightarrow> (ps\<lparr>cp_mark := p\<rparr>, evs)
   | C_start_field \<Rightarrow> (ps\<lparr>cp_field_start := p\<rparr>, evs)
   | C_write_field \<Rightarrow> (ps\<lparr>cp_field_len := LEN (cp_field_start ps) p\<rparr>, evs)
   | C_start_value \<Rightarrow> (ps\<lparr>cp_mark := p\<rparr>, evs)
   | C_write_content_len \<Rightarrow> (ps\<lparr>cp_content_len := to_int32 (strtol 10 (PTR_TO buffer (cp_mark ps)))\<rparr>, evs)
   | C_write_connection_close \<Rightarrow> (ps\<lparr>cp_close := True\<rparr>, evs)
   | C_write_value \<Rightarrow> (ps, evs @ [On_field (PTR_TO buffer (cp_field_start ps)) (cp_field_len ps)
       (PTR_TO buffer (cp_mark ps)) (LEN (cp_mark ps) p)])
   | C_reason_phrase \<Rightarrow> (ps, evs @ [On_reason (PTR_TO buffer (cp_mark ps)) (LEN (cp_mark ps) p)])
   | C_status_code \<Rightarrow> (ps\<lparr>cp_status := to_int32 (strtol 10 (PTR_TO buffer (cp_mark ps)))\<rparr>,
       evs @ [On_status (PTR_TO buffer (cp_mark ps)) (LEN (cp_mark ps) p)])
   | C_http_version \<Rightarrow> (ps, evs @ [On_version (PTR_TO buffer (cp_mark ps)) (LEN (cp_mark ps) p)])
   | C_chunk_size \<Rightarrow> hc_chunk_size buffer p (ps, evs)
   | C_trans_chunked \<Rightarrow> (ps\<lparr>cp_chunked := True\<rparr>, evs)
   | C_done \<Rightarrow> (ps\<lparr>cp_body_start := p + 1\<rparr>, evs @ [On_header_done (PTR_TO buffer (p + 1)) (length buffer - p - 1)])))"

subsection \<open>Execution\<close>

definition hc_next :: "nat \<Rightarrow> char \<Rightarrow> hc_action goto" where
  "hc_next cs c = hc_switch cs (schar c)"

definition hc_run :: "string \<Rightarrow> nat \<Rightarrow> httpclient_parser \<Rightarrow> nat \<times> nat \<times> httpclient_parser \<times> http_event list" where
  "hc_run buffer off ps = machine_run hc_next (hc_do buffer) (cp_cs ps) off (drop off buffer) (ps, [])"

definition httpclient_parser_has_error :: "httpclient_parser \<Rightarrow> bool" where
  "httpclient_parser_has_error ps = (cp_cs ps = httpclient_parser_error)"

definition httpclient_parser_is_finished :: "httpclient_parser \<Rightarrow> bool" where
  "httpclient_parser_is_finished ps = (cp_cs ps = httpclient_parser_first_final)"

definition httpclient_parser_finish :: "httpclient_parser \<Rightarrow> int" where
  "httpclient_parser_finish ps =
     (if httpclient_parser_has_error ps then - 1 else if httpclient_parser_is_finished ps then 1 else 0)"

text \<open>
  What follows the machine. A violated \<open>check\<close> returns -1; the count is one more than what has been
  read if the end of a head has been seen. The result is converted to \<open>int\<close>.
\<close>

definition hc_finish ::
  "nat \<Rightarrow> nat \<Rightarrow> nat \<times> nat \<times> httpclient_parser \<times> http_event list \<Rightarrow> fault + http_event list \<times> int \<times> httpclient_parser"
where
  "hc_finish len off r = (case r of (cs, p, ps, evs) \<Rightarrow>
     let ps = ps\<lparr>cp_cs := cs, cp_nread := uadd64 (cp_nread ps) (p - off)\<rparr>
     in if \<not> (p \<le> len \<and> cp_nread ps \<le> len \<and> cp_body_start ps \<le> len) then Inl Assert_failed
        else if \<not> (cp_mark ps < len \<and> cp_field_len ps \<le> len \<and> cp_field_start ps < len) then Inr (evs, - 1, ps)
        else
          let ps = (if cp_body_start ps \<noteq> 0 then ps\<lparr>cp_nread := uadd64 (cp_nread ps) 1\<rparr> else ps)
          in Inr (evs, to_int32 (int (cp_nread ps)), ps))"

text \<open>\<open>pe\<close> is the character behind the buffer.\<close>

definition httpclient_parser_execute ::
  "httpclient_parser \<Rightarrow> string \<Rightarrow> char \<Rightarrow> nat \<Rightarrow> fault + http_event list \<times> int \<times> httpclient_parser"
where
  "httpclient_parser_execute ps buffer pe off =
     (let len = length buffer in
      if \<not> off \<le> len then Inl Assert_failed
      else if pe \<noteq> CHR 0x00 then Inl Assert_failed
      else if int (len - off) \<noteq> to_int32 (int len) - to_int32 (int off) then Inl Assert_failed
      else hc_finish len off (hc_run buffer off ps))"

text \<open>
  The argument \<open>engine\<close> of \<open>HttpResponseParser\<close> for buffers that end in NUL; the count is converted to
  \<open>size_t\<close>. A failed assertion ends the process; it stands here as a call that does nothing.
\<close>

definition httpclient_engine :: "httpclient_parser \<Rightarrow> httpclient_parser engine" where
  "httpclient_engine mem = \<lparr>e_init = httpclient_parser_init mem,
     e_execute = (\<lambda>ps dat. case httpclient_parser_execute ps dat (CHR 0x00) 0 of
        Inr (evs, n, ps) \<Rightarrow> (evs, nat (n mod 2 ^ 64), ps) | Inl _ \<Rightarrow> ([], 0, ps)),
     e_finish = httpclient_parser_finish, e_has_error = httpclient_parser_has_error\<rparr>"

end
