(* ===== verification/HttpClientProps.thy ===== *)
theory HttpClientProps
  imports HttpClient Http11Safe TextRuns
begin

text \<open>
  What holds of the response parser: the count it returns, the headers of chunks, and a header
  it reads beyond the end of the buffer.
\<close>

subsection \<open>Transitions\<close>

lemmas hc_cases =
      hc_case1_def hc_case2_def hc_case3_def hc_case4_def hc_case5_def hc_case6_def hc_case7_def hc_case8_def
      hc_case9_def hc_case10_def hc_case11_def hc_case12_def hc_case13_def hc_case14_def hc_case15_def
      hc_case16_def hc_case17_def hc_case18_def hc_case19_def hc_case20_def hc_case21_def hc_case22_def
      hc_case23_def hc_case24_def hc_case25_def hc_case26_def hc_case27_def hc_case28_def hc_case29_def
      hc_case30_def hc_case31_def hc_case32_def hc_case33_def hc_case34_def hc_case35_def hc_case36_def
      hc_case37_def hc_case38_def hc_case39_def hc_case40_def hc_case41_def hc_case42_def hc_case43_def
      hc_case44_def hc_case45_def hc_case46_def hc_case47_def hc_case48_def hc_case49_def hc_case50_def
      hc_case51_def hc_case52_def hc_case53_def hc_case54_def hc_case55_def hc_case56_def hc_case57_def
      hc_case58_def hc_case59_def hc_case60_def hc_case61_def hc_case62_def hc_case63_def hc_case64_def
      hc_case65_def hc_case66_def hc_case67_def hc_case68_def hc_case69_def hc_case70_def hc_case71_def
      hc_case72_def hc_case73_def hc_case74_def hc_case75_def hc_case76_def hc_case77_def hc_case78_def
      hc_case79_def hc_case80_def hc_case81_def hc_case82_def hc_case83_def hc_case84_def hc_case85_def
      hc_case86_def hc_case87_def hc_case88_def hc_case89_def hc_case90_def hc_case91_def hc_case92_def
      hc_case93_def hc_case94_def hc_case95_def hc_case96_def hc_case97_def hc_case98_def hc_case99_def
      hc_case100_def hc_case101_def hc_case102_def hc_case103_def hc_case104_def hc_case105_def hc_case106_def
      hc_case107_def hc_case108_def hc_case109_def hc_case110_def hc_case111_def hc_case112_def hc_case113_def
      hc_case114_def hc_case115_def hc_case116_def hc_case117_def hc_case118_def hc_case119_def hc_case120_def
      hc_case121_def hc_case122_def hc_case123_def

lemmas hc_trs =
      hc_tr0_def hc_tr3_def hc_tr7_def hc_tr9_def hc_tr15_def hc_tr74_def hc_tr4_def hc_tr10_def hc_tr16_def
      hc_tr75_def hc_tr6_def hc_tr12_def hc_tr18_def hc_tr8_def hc_tr13_def hc_tr14_def hc_tr2_def hc_tr26_def
      hc_tr27_def hc_tr28_def hc_tr30_def hc_tr45_def hc_tr32_def hc_tr42_def hc_tr111_def hc_tr113_def
      hc_tr158_def hc_tr35_def hc_tr76_def hc_tr41_def hc_tr39_def hc_tr40_def hc_tr46_def hc_tr33_def hc_tr43_def
      hc_tr159_def hc_tr36_def hc_tr77_def hc_tr59_def hc_tr58_def hc_tr60_def hc_tr136_def hc_tr37_def hc_tr78_def
      hc_tr96_def hc_tr95_def hc_tr97_def hc_tr104_def hc_tr112_def hc_tr101_def hc_tr103_def hc_tr98_def
      hc_tr99_def hc_tr137_def hc_tr64_def hc_tr66_def hc_tr61_def hc_tr62_def hc_tr149_def hc_tr148_def
      hc_tr150_def hc_tr157_def hc_tr154_def hc_tr156_def hc_tr151_def hc_tr152_def

lemma hc_switch_at:
  "hc_switch 1 c = hc_case1 c"
  "hc_switch 2 c = hc_case2 c"
  "hc_switch 3 c = hc_case3 c"
  "hc_switch 4 c = hc_case4 c"
  "hc_switch 5 c = hc_case5 c"
  "hc_switch 6 c = hc_case6 c"
  "hc_switch 7 c = hc_case7 c"
  "hc_switch 8 c = hc_case8 c"
  "hc_switch 9 c = hc_case9 c"
  "hc_switch 10 c = hc_case10 c"
  "hc_switch 11 c = hc_case11 c"
  "hc_switch 12 c = hc_case12 c"
  "hc_switch 13 c = hc_case13 c"
  "hc_switch 14 c = hc_case14 c"
  "hc_switch 15 c = hc_case15 c"
  "hc_switch 16 c = hc_case16 c"
  "hc_switch 17 c = hc_case17 c"
  "hc_switch 18 c = hc_case18 c"
  "hc_switch 19 c = hc_case19 c"
  "hc_switch 20 c = hc_case20 c"
  "hc_switch 21 c = hc_case21 c"
  "hc_switch 22 c = hc_case22 c"
  "hc_switch 23 c = hc_case23 c"
  "hc_switch 24 c = hc_case24 c"
  "hc_switch 25 c = hc_case25 c"
  "hc_switch 26 c = hc_case26 c"
  "hc_switch 27 c = hc_case27 c"
  "hc_switch 28 c = hc_case28 c"
  "hc_switch 29 c = hc_case29 c"
  "hc_switch 30 c = hc_case30 c"
  "hc_switch 31 c = hc_case31 c"
  "hc_switch 32 c = hc_case32 c"
  "hc_switch 33 c = hc_case33 c"
  "hc_switch 34 c = hc_case34 c"
  "hc_switch 35 c = hc_case35 c"
  "hc_switch 36 c = hc_case36 c"
  "hc_switch 37 c = hc_case37 c"
  "hc_switch 38 c = hc_case38 c"
  "hc_switch 39 c = hc_case39 c"
  "hc_switch 40 c = hc_case40 c"
  "hc_switch 41 c = hc_case41 c"
  "hc_switch 42 c = hc_case42 c"
  "hc_switch 43 c = hc_case43 c"
  "hc_switch 44 c = hc_case44 c"
  "hc_switch 45 c = hc_case45 c"
  "hc_switch 46 c = hc_case46 c"
  "hc_switch 47 c = hc_case47 c"
  "hc_switch 48 c = hc_case48 c"
  "hc_switch 49 c = hc_case49 c"
  "hc_switch 50 c = hc_case50 c"
  "hc_switch 51 c = hc_case51 c"
  "hc_switch 52 c = hc_case52 c"
  "hc_switch 53 c = hc_case53 c"
  "hc_switch 54 c = hc_case54 c"
  "hc_switch 55 c = hc_case55 c"
  "hc_switch 56 c = hc_case56 c"
  "hc_switch 57 c = hc_case57 c"
  "hc_switch 58 c = hc_case58 c"
  "hc_switch 59 c = hc_case59 c"
  "hc_switch 60 c = hc_case60 c"
  "hc_switch 61 c = hc_case61 c"
  "hc_switch 62 c = hc_case62 c"
  "hc_switch 63 c = hc_case63 c"
  "hc_switch 64 c = hc_case64 c"
  "hc_switch 65 c = hc_case65 c"
  "hc_switch 66 c = hc_case66 c"
  "hc_switch 67 c = hc_case67 c"
  "hc_switch 68 c = hc_case68 c"
  "hc_switch 69 c = hc_case69 c"
  "hc_switch 70 c = hc_case70 c"
  "hc_switch 71 c = hc_case71 c"
  "hc_switch 72 c = hc_case72 c"
  "hc_switch 73 c = hc_case73 c"
  "hc_switch 74 c = hc_case74 c"
  "hc_switch 75 c = hc_case75 c"
  "hc_switch 76 c = hc_case76 c"
  "hc_switch 77 c = hc_case77 c"
  "hc_switch 78 c = hc_case78 c"
  "hc_switch 79 c = hc_case79 c"
  "hc_switch 80 c = hc_case80 c"
  "hc_switch 81 c = hc_case81 c"
  "hc_switch 82 c = hc_case82 c"
  "hc_switch 83 c = hc_case83 c"
  "hc_switch 84 c = hc_case84 c"
  "hc_switch 85 c = hc_case85 c"
  "hc_switch 86 c = hc_case86 c"
  "hc_switch 87 c = hc_case87 c"
  "hc_switch 88 c = hc_case88 c"
  "hc_switch 89 c = hc_case89 c"
  "hc_switch 90 c = hc_case90 c"
  "hc_switch 91 c = hc_case91 c"
  "hc_switch 92 c = hc_case92 c"
  "hc_switch 93 c = hc_case93 c"
  "hc_switch 94 c = hc_case94 c"
  "hc_switch 95 c = hc_case95 c"
  "hc_switch 96 c = hc_case96 c"
  "hc_switch 97 c = hc_case97 c"
  "hc_switch 98 c = hc_case98 c"
  "hc_switch 99 c = hc_case99 c"
  "hc_switch 100 c = hc_case100 c"
  "hc_switch 101 c = hc_case101 c"
  "hc_switch 102 c = hc_case102 c"
  "hc_switch 103 c = hc_case103 c"
  "hc_switch 104 c = hc_case104 c"
  "hc_switch 105 c = hc_case105 c"
  "hc_switch 106 c = hc_case106 c"
  "hc_switch 107 c = hc_case107 c"
  "hc_switch 108 c = hc_case108 c"
  "hc_switch 109 c = hc_case109 c"
  "hc_switch 110 c = hc_case110 c"
  "hc_switch 111 c = hc_case111 c"
  "hc_switch 112 c = hc_case112 c"
  "hc_switch 113 c = hc_case113 c"
  "hc_switch 114 c = hc_case114 c"
  "hc_switch 115 c = hc_case115 c"
  "hc_switch 116 c = hc_case116 c"
  "hc_switch 117 c = hc_case117 c"
  "hc_switch 118 c = hc_case118 c"
  "hc_switch 119 c = hc_case119 c"
  "hc_switch 120 c = hc_case120 c"
  "hc_switch 121 c = hc_case121 c"
  "hc_switch 122 c = hc_case122 c"
  "hc_switch 123 c = hc_case123 c"
  by (simp_all add: hc_switch_def)

text \<open>The end of a head is seen just when the machine is left.\<close>

definition hc_flow :: "hc_action goto \<Rightarrow> bool" where
  "hc_flow g = (case g of Goto as n \<Rightarrow> C_done \<notin> set as | Break as n \<Rightarrow> C_done \<notin> set (butlast as) \<and> as \<noteq> [] \<and> last as = C_done
     | Fail \<Rightarrow> True | No_case \<Rightarrow> True)"

lemma hc_flow_simps:
  "hc_flow (Goto [] n)" "C_done \<notin> set (a # as) \<Longrightarrow> hc_flow (Goto (a # as) n)"
  "C_done \<notin> set (butlast (a # as)) \<Longrightarrow> last (a # as) = C_done \<Longrightarrow> hc_flow (Break (a # as) n)" "hc_flow Fail" "hc_flow No_case"
  "hc_flow g \<Longrightarrow> hc_flow g' \<Longrightarrow> hc_flow (if b then g else g')"
  by (simp_all add: hc_flow_def)

lemma switch_flow: "hc_flow (hc_switch cs c)"
  unfolding hc_switch_def
  by (intro hc_flow_simps(5-6)) (simp_all add: hc_flow_simps hc_cases hc_trs del: if_split)

subsection \<open>The count\<close>

definition hc_marks :: "string \<Rightarrow> nat \<Rightarrow> httpclient_parser \<times> http_event list \<Rightarrow> bool" where
  "hc_marks buf p st = (case st of (ps, evs) \<Rightarrow> cp_nread ps = 0 \<and> cp_mark ps \<le> p \<and> cp_field_start ps \<le> p
     \<and> cp_mark ps < length buf \<and> cp_field_start ps < length buf \<and> cp_field_len ps \<le> length buf)"

lemma hc_marks_do:
  assumes "hc_marks buf p st" "p < length buf" "length buf < 2 ^ 31"
  shows "hc_marks buf p (hc_do buf a p st)"
    and "cp_body_start (fst (hc_do buf a p st)) = (if a = C_done then p + 1 else cp_body_start (fst st))"
proof -
  obtain ps evs where st: "st = (ps, evs)" by force
  have "LEN i p = p - i" if "i \<le> p" for i using that assms(2,3) LEN_add[of i "p - i"] by simp
  then show "hc_marks buf p (hc_do buf a p st)" using assms
    by (cases a) (auto simp: hc_marks_def st hc_do_def hc_chunk_size_def Let_def)
  show "cp_body_start (fst (hc_do buf a p st)) = (if a = C_done then p + 1 else cp_body_start (fst st))"
    by (cases a) (simp_all add: st hc_do_def hc_chunk_size_def Let_def)
qed

lemma hc_marks_fold:
  assumes "hc_marks buf p st" "p < length buf" "length buf < 2 ^ 31"
  shows "hc_marks buf p (fold (\<lambda>a. hc_do buf a p) as st)"
    and "cp_body_start (fst (fold (\<lambda>a. hc_do buf a p) as st)) = (if C_done \<in> set as then p + 1 else cp_body_start (fst st))"
proof -
  have "hc_marks buf p (fold (\<lambda>a. hc_do buf a p) as st)
      \<and> cp_body_start (fst (fold (\<lambda>a. hc_do buf a p) as st)) = (if C_done \<in> set as then p + 1 else cp_body_start (fst st))"
    using assms(1)
  proof (induction as arbitrary: st)
    case (Cons a as)
    with Cons.IH[OF hc_marks_do(1)[OF Cons.prems assms(2,3)], of a] hc_marks_do(2)[OF Cons.prems assms(2,3), of a] show ?case by auto
  qed simp
  then show "hc_marks buf p (fold (\<lambda>a. hc_do buf a p) as st)"
    "cp_body_start (fst (fold (\<lambda>a. hc_do buf a p) as st)) = (if C_done \<in> set as then p + 1 else cp_body_start (fst st))" by auto
qed

lemma hc_run_marks:
  assumes run: "hc_run buf 0 (httpclient_parser_init mem) = (cs, p, ps, evs)" and len: "buf \<noteq> []" "length buf < 2 ^ 31"
  shows "hc_marks buf p (ps, evs) \<and> (cp_body_start ps = 0 \<or> cp_body_start ps = p)" "p \<le> length buf"
proof -
  let ?i = "httpclient_parser_init mem"
  have r: "machine_run hc_next (hc_do buf) 1 0 buf (?i, []) = (cs, p, ps, evs)"
    using run by (simp add: hc_run_def httpclient_parser_init_def httpclient_parser_start_def)
  from machine_run_bounds[OF r] show "p \<le> length buf" by simp
  have flow: "hc_flow (hc_next c x)" for c x using switch_flow by (simp add: hc_next_def)
  have mono: "hc_marks buf (Suc q) st" if "hc_marks buf q st" for q st using that by (auto simp: hc_marks_def)
  let ?J = "\<lambda>p st. hc_marks buf p st \<and> (cp_body_start (fst st) = 0 \<or> cp_body_start (fst st) = p)"
  have "?J p (ps, evs)"
  proof (rule machine_run_inv[OF r, where I = "\<lambda>_ p st. hc_marks buf p st \<and> cp_body_start (fst st) = 0" and J = ?J])
    show "hc_marks buf 0 (?i, []) \<and> cp_body_start (fst (?i, [] :: http_event list)) = 0"
      using len(1) by (simp add: hc_marks_def httpclient_parser_init_def)
  next
    fix c x as n q st
    assume g: "hc_next c x = Goto as n" and i: "hc_marks buf q st \<and> cp_body_start (fst st) = 0" and q: "q < 0 + length buf"
    have "C_done \<notin> set as" using flow[of c x] g by (simp add: hc_flow_def)
    with hc_marks_fold[of buf q st as] i q len(2) mono
    show "hc_marks buf (Suc q) (fold (\<lambda>a. hc_do buf a q) as st) \<and> cp_body_start (fst (fold (\<lambda>a. hc_do buf a q) as st)) = 0" by auto
  next
    fix c x as n q st
    assume g: "hc_next c x = Break as n" and i: "hc_marks buf q st \<and> cp_body_start (fst st) = 0" and q: "q < 0 + length buf"
    have "C_done \<in> set as" using flow[of c x] g by (auto simp: hc_flow_def dest: last_in_set)
    with hc_marks_fold[of buf q st as] i q len(2) mono
    show "?J (Suc q) (fold (\<lambda>a. hc_do buf a q) as st)" by auto
  qed auto
  then show "hc_marks buf p (ps, evs) \<and> (cp_body_start ps = 0 \<or> cp_body_start ps = p)" by simp
qed

text \<open>A first call returns; the count is what the machine has read, and one more if it has seen the end of a head.\<close>

lemma hc_execute_fresh:
  assumes "hc_run buf 0 (httpclient_parser_init mem) = (cs, p, ps, evs)" "buf \<noteq> []" "length buf < 2 ^ 31 - 1"
  shows "httpclient_parser_execute (httpclient_parser_init mem) buf (CHR 0x00) 0
      = Inr (evs, if cp_body_start ps \<noteq> 0 then int p + 1 else int p,
          ps\<lparr>cp_cs := cs, cp_nread := (if cp_body_start ps \<noteq> 0 then p + 1 else p)\<rparr>)"
proof -
  have l: "length buf < 2 ^ 31" using assms(3) by simp
  note m = hc_run_marks[OF assms(1,2) l]
  have p: "uadd64 0 p = p" using m(2) l by (simp add: uadd64_def)
  have i: "to_int32 (int x) = int x" "uadd64 x 1 = x + 1" "to_int32 (int x + 1) = int x + 1" if "x \<le> length buf" for x
    using that assms(3) by (simp_all add: uadd64_def to_int32_id)
  have b: "cp_body_start ps \<le> length buf" "to_int32 0 = 0" using m i(1)[of 0] by auto
  show ?thesis
  proof (cases "cp_body_start ps = 0")
    case True
    with m show ?thesis by (simp add: httpclient_parser_execute_def Let_def hc_finish_def assms(1) hc_marks_def p i(1) b(2))
  next
    case False
    with m have "cp_body_start ps = p" by simp
    with False b m i(2,3)[OF m(2)] show ?thesis
      by (simp add: httpclient_parser_execute_def Let_def hc_finish_def assms(1) hc_marks_def p i(1) add.commute)
  qed
qed

lemma sp_parser_events: "sp_parser (fold (on_response_event reb) es v) = sp_parser v"
  by (induction es arbitrary: v) (auto simp: on_response_event_def on_response_reason_def on_response_status_def on_response_chunk_def
    on_response_version_def on_response_header_done_def on_response_last_chunk_def on_response_http_field_def sp_setError_def split: http_event.splits)

lemma sp_execute_parser:
  assumes "sp_execute (httpclient_engine mem) reb buf False (HttpResponseParser (httpclient_engine mem)) = (rest, p)"
    and "httpclient_parser_execute (httpclient_parser_init mem) buf (CHR 0x00) 0 = Inr (evs, n, ps)"
  shows "sp_parser p = ps" "rest = drop (nat (n mod 2 ^ 64)) buf"
  using assms(1) by (auto simp: sp_execute_def HttpResponseParser_def httpclient_engine_def assms(2) sp_parser_events)

text \<open>C38: whatever a first buffer holds, once the end of a head has been seen in it, the count that the
  response parser returns is one more than the head has bytes: \<open>HttpResponseParser::execute\<close> drops
  the first byte of the body with the head, and without a body the count is greater than the
  length of the data, so that \<open>memmove\<close> is given a length of -1.\<close>

theorem response_head_takes_one_byte_too_many:
  assumes "buf \<noteq> []" "length buf < 2 ^ 31 - 1"
    and "sp_execute (httpclient_engine mem) reb buf False (HttpResponseParser (httpclient_engine mem)) = (rest, p)"
    and "cp_body_start (sp_parser p) \<noteq> 0"
  shows "\<exists>evs ps. httpclient_parser_execute (httpclient_parser_init mem) buf (CHR 0x00) 0 = Inr (evs, int (cp_body_start (sp_parser p)) + 1, ps)
    \<and> rest = tl (drop (cp_body_start (sp_parser p)) buf) \<and> cp_body_start (sp_parser p) \<le> length buf"
proof -
  let ?i = "httpclient_parser_init mem"
  obtain cs q ps evs where r: "hc_run buf 0 ?i = (cs, q, ps, evs)" by (metis prod_cases4)
  have l: "length buf < 2 ^ 31" using assms(2) by simp
  note m = hc_run_marks[OF r assms(1) l]
  obtain ps' where x: "httpclient_parser_execute ?i buf (CHR 0x00) 0 = Inr (evs, if cp_body_start ps \<noteq> 0 then int q + 1 else int q, ps')"
    "cp_body_start ps' = cp_body_start ps" using hc_execute_fresh[OF r assms(1,2)] by simp
  have s: "sp_parser p = ps'" "rest = drop (nat ((if cp_body_start ps \<noteq> 0 then int q + 1 else int q) mod 2 ^ 64)) buf"
    using sp_execute_parser[OF assms(3) x(1)] by simp_all
  with assms(4) x(2) m have b: "cp_body_start ps = q" "cp_body_start ps \<noteq> 0" by auto
  have "(int q + 1) mod 2 ^ 64 = int (Suc q)" using m(2) assms(2) by simp
  with s b have "rest = drop (Suc q) buf" by (simp add: nat_add_distrib)
  also have "\<dots> = tl (drop q buf)" by (simp add: drop_Suc tl_drop)
  finally show ?thesis using s(1) x b m(2) by auto
qed

text \<open>The shortest response with a body of one byte: its body is gone.\<close>

definition demo_client :: httpclient_parser where
  "demo_client = \<lparr>cp_cs = 7, cp_body_start = 99, cp_content_len = 9, cp_status = 9, cp_chunked = True, cp_chunks_done = True,
     cp_close = True, cp_nread = 99, cp_mark = 99, cp_field_start = 99, cp_field_len = 99\<rparr>"

lemma run_demo:
  "hc_run (''HTTP/1.1 200 O'' @ crlf @ crlf @ ''x'') 0 (httpclient_parser_init demo_client)
    = (120, 18, (httpclient_parser_init demo_client)\<lparr>cp_body_start := 18, cp_status := 200, cp_mark := 13\<rparr>,
       [On_version (''HTTP/1.1 200 O'' @ crlf @ crlf @ ''x'') 8, On_status (''200 O'' @ crlf @ crlf @ ''x'') 3,
        On_reason (''O'' @ crlf @ crlf @ ''x'') 1, On_header_done ''x'' 1])"
  by (simp add: hc_run_def httpclient_parser_init_def httpclient_parser_start_def crlf_def hc_next_def schar_def hc_switch_at[simplified]
    hc_cases hc_trs hc_do_def hc_chunk_size_def PTR_TO_def LEN_def usub64_def strtol_def c_isspace_def c_digit_def to_int32_id Let_def)

theorem response_head_takes_one_byte_too_many_witness:
  "fst (sp_execute (httpclient_engine demo_client) (\<lambda>t _. t) (''HTTP/1.1 200 O'' @ crlf @ crlf @ ''x'') False
     (HttpResponseParser (httpclient_engine demo_client))) = []"
proof -
  let ?b = "''HTTP/1.1 200 O'' @ crlf @ crlf @ ''x''" and ?e = "httpclient_engine demo_client"
  have len: "?b \<noteq> []" "length ?b < 2 ^ 31 - 1" by (simp_all add: crlf_def)
  obtain ps where x: "httpclient_parser_execute (httpclient_parser_init demo_client) ?b (CHR 0x00) 0
      = Inr ([On_version ?b 8, On_status (''200 O'' @ crlf @ crlf @ ''x'') 3, On_reason (''O'' @ crlf @ crlf @ ''x'') 1, On_header_done ''x'' 1], 19, ps)"
    "cp_body_start ps = 18"
    using hc_execute_fresh[OF run_demo len] by (auto simp: httpclient_parser_init_def)
  obtain rest p where s: "sp_execute ?e (\<lambda>t _. t) ?b False (HttpResponseParser ?e) = (rest, p)" by force
  have "sp_parser p = ps" by (rule sp_execute_parser(1)[OF s x(1)])
  with response_head_takes_one_byte_too_many[OF len s] x(2) have "rest = tl (drop 18 ?b)" by simp
  then show ?thesis using s by (simp add: crlf_def)
qed

subsection \<open>Chunks\<close>

definition hex_str :: "string \<Rightarrow> bool" where
  "hex_str h = (h \<noteq> [] \<and> list_all hex_digit h)"

lemma next_chunk:
  "hex_digit c \<Longrightarrow> hc_next 1 c = Goto [C_mark] 2" "hex_digit c \<Longrightarrow> hc_next 2 c = Goto [] 2"
  "hc_next 2 CHR 0x0D = Goto [C_chunk_size] 3" "hc_next 3 CHR 0x0A = Break [C_done] 120"
  by (auto simp: hc_next_def hc_switch_at hc_switch_at[simplified] hc_case1_def hc_case2_def hc_case3_def hc_trs elim!: hex_digitE)

lemma hex_digit_code: "hex_digit c \<longleftrightarrow> (let n = of_char c :: nat in 48 \<le> n \<and> n \<le> 57 \<or> 65 \<le> n \<and> n \<le> 70 \<or> 97 \<le> n \<and> n \<le> 102)"
proof -
  obtain n :: nat where n: "of_char c = n" "(of_char c :: int) = int n" "n < 256"
    using of_nat_of_char[of c, where ?'a = int] by (simp add: of_char_def)
  show ?thesis unfolding hex_digit_def schar_def Let_def n(1,2) using n(3) by auto
qed

lemma strtol_hex:
  assumes "hex_str h"
  shows "strtol 16 (h @ CHR 0x0D # t) = min (2 ^ 63 - 1) (int (c_digits 16 0 h))"
proof -
  let ?c = "CHR 0x0D"
  obtain d r where h: "h = d # r" "hex_digit d" "list_all hex_digit r" using assms by (cases h) (auto simp: hex_str_def)
  have d: "\<not> c_isspace d" "d \<noteq> CHR ''-''" "d \<noteq> CHR ''+''"
    using h(2) by (auto simp: hex_digit_code c_isspace_def Let_def)
  have n: "\<not> hex_digit CHR ''x''" "\<not> hex_digit CHR ''X''" by (simp_all add: hex_digit_def schar_def)
  then have x: "\<not> is_prefix ''0x'' (h @ ?c # t)" "\<not> is_prefix ''0X'' (h @ ?c # t)" using h by (cases r; auto)+
  have dig: "c_digit 16 d \<noteq> None" if "hex_digit d" for d
    using that by (auto simp: hex_digit_code c_digit_def Let_def)
  have "c_digits 16 a (xs @ ?c # t) = c_digits 16 a xs" if "list_all hex_digit xs" for xs a
    using that by (induction xs arbitrary: a) (auto simp: c_digit_def split: option.splits)
  then have "c_digits 16 0 (h @ ?c # t) = c_digits 16 0 h" using assms by (simp add: hex_str_def)
  moreover have "dropWhile c_isspace (h @ ?c # t) = h @ ?c # t" "hd (h @ ?c # t) = d" using d by (simp_all add: h(1))
  ultimately show ?thesis using d x by (simp add: strtol_def Let_def)
qed

text \<open>The header of a chunk, followed by anything, is read as one callback with the text of the
  size; its number is converted to \<open>int\<close>, so that a chunk of \<open>2 ^ 31\<close> bytes or more may be reported as the last chunk,
  and its length is negative or too small.\<close>

lemma chunk_header:
  assumes "hex_str h" "c_digits 16 0 h < 2 ^ 63" "length (h @ crlf @ rest) < 2 ^ 31 - 1"
  shows "let buf = h @ crlf @ rest; size = to_int32 (int (c_digits 16 0 h)) in
     \<exists>ps. httpclient_parser_execute (httpclient_parser_init mem) buf (CHR 0x00) 0
       = Inr ([if size \<le> 0 then On_last_chunk buf (length h) else On_chunk buf (length h), On_header_done rest (length rest)], int (length h) + 3, ps)
     \<and> cp_chunked ps \<and> cp_content_len ps = size \<and> (cp_chunks_done ps = (size \<le> 0)) \<and> httpclient_parser_finish ps = 1"
proof -
  let ?buf = "h @ crlf @ rest" and ?size = "to_int32 (int (c_digits 16 0 h))"
  let ?i = "httpclient_parser_init mem"
  let ?n = "length h"
  obtain d r where h: "h = d # r" "hex_digit d" "list_all hex_digit r" using assms(1) by (cases h) (auto simp: hex_str_def)
  let ?ev = "if ?size \<le> 0 then On_last_chunk ?buf ?n else On_chunk ?buf ?n"
  let ?p1 = "?i\<lparr>cp_mark := 0\<rparr>"
  let ?p2 = "?p1\<lparr>cp_chunked := True, cp_content_len := ?size, cp_chunks_done := (?size \<le> 0)\<rparr>"
  have size: "to_int32 (strtol 16 ?buf) = ?size" using strtol_hex[OF assms(1), of "CHR 0x0A # rest"] assms(2) by (simp add: crlf_def)
  have len: "LEN 0 ?n = ?n" using LEN_add[of 0 ?n] assms(3) by simp
  have chunk: "hc_do ?buf C_chunk_size ?n (?p1, []) = (?p2, [?ev])"
    by (simp add: hc_do_def hc_chunk_size_def PTR_TO_def size len Let_def)
  have end': "hc_do ?buf C_done (?n + 1) (?p2, [?ev]) = (?p2\<lparr>cp_body_start := ?n + 2\<rparr>, [?ev, On_header_done rest (length rest)])"
    by (simp add: hc_do_def PTR_TO_def crlf_def)
  have "list_all (\<lambda>c. hc_next 2 c = Goto [] 2) r" using h(3) next_chunk(2) by (auto simp: list_all_iff)
  note loop = machine_run_loop[where sw = hc_next and act = "hc_do ?buf" and cs = 2, OF this, of 1 "crlf @ rest" "(?p1, [])"]
  have "machine_run hc_next (hc_do ?buf) 1 0 ?buf (?i, []) = machine_run hc_next (hc_do ?buf) 2 1 (r @ crlf @ rest) (?p1, [])"
    using next_chunk(1)[OF h(2)] by (simp add: h(1) hc_do_def)
  also have "\<dots> = machine_run hc_next (hc_do ?buf) 2 ?n (crlf @ rest) (?p1, [])" using loop by (simp add: h(1))
  also have "\<dots> = machine_run hc_next (hc_do ?buf) 3 (?n + 1) (CHR 0x0A # rest) (?p2, [?ev])"
    using next_chunk(3) chunk by (simp add: crlf_def)
  also have "\<dots> = (120, ?n + 2, ?p2\<lparr>cp_body_start := ?n + 2\<rparr>, [?ev, On_header_done rest (length rest)])"
    using next_chunk(4) end' by simp
  finally have run: "hc_run ?buf 0 ?i = \<dots>" by (simp add: hc_run_def httpclient_parser_init_def httpclient_parser_start_def)
  have "length ?buf < 2 ^ 31 - 1" "?buf \<noteq> []" using assms(3) h(1) by simp_all
  from hc_execute_fresh[OF run this(2,1)] have "httpclient_parser_execute ?i ?buf (CHR 0x00) 0
      = Inr ([?ev, On_header_done rest (length rest)], int ?n + 3, ?p2\<lparr>cp_body_start := ?n + 2, cp_cs := 120, cp_nread := ?n + 3\<rparr>)"
    by (simp add: add.commute)
  then show ?thesis
    by (simp add: Let_def httpclient_parser_finish_def httpclient_parser_has_error_def httpclient_parser_is_finished_def
      httpclient_parser_error_def httpclient_parser_first_final_def)
qed

lemma chunk_header_witness:
  "\<exists>ps. httpclient_parser_execute (httpclient_parser_init demo_client) (''80000000'' @ crlf @ ''xyz'') (CHR 0x00) 0
     = Inr ([On_last_chunk (''80000000'' @ crlf @ ''xyz'') 8, On_header_done ''xyz'' 3], 11, ps) \<and> cp_content_len ps = - (2 ^ 31)"
proof -
  have h: "hex_str ''80000000''" "c_digits 16 0 ''80000000'' = 2 ^ 31" by (simp_all add: hex_str_def hex_digit_def schar_def c_digit_def)
  have s: "to_int32 (2 ^ 31) = - (2 ^ 31)" by (simp add: to_int32_def signed_take_bit_int_eq_self_iff signed_take_bit_eq_if_negative)
  have "length (''80000000'' @ crlf @ ''xyz'') < 2 ^ 31 - 1" by (simp add: crlf_def)
  from chunk_header[OF h(1) _ this, of demo_client] s show ?thesis unfolding h(2) Let_def by auto
qed

subsection \<open>A field whose value stands on the next line\<close>

definition split_length :: string where
  "split_length = ''HTTP/1.1 200 OK'' @ crlf @ ''Content-Length:'' @ crlf"

lemma run_split_length:
  "\<exists>ps. (\<exists>evs. machine_run hc_next (hc_do b) 1 0 (split_length @ rest) (i, [])
       = machine_run hc_next (hc_do b) 113 (length split_length) rest (ps, evs)) \<and> cp_field_len ps = 14"
  by (simp add: split_length_def crlf_def hc_next_def schar_def hc_switch_at hc_switch_at[simplified] hc_cases hc_trs hc_do_def LEN_def usub64_def)
    (rule exI, rule conjI, rule exI, rule refl, simp)

lemma next_split_digit:
  "digit_char c \<Longrightarrow> hc_next 113 c = Goto [C_start_value, C_start_field] 117" "digit_char c \<Longrightarrow> hc_next 117 c = Goto [] 117"
  "hc_next 117 CHR 0x0D = Goto [C_write_content_len, C_write_value] 24"
  by (simp_all add: hc_next_def hc_switch_at hc_case113_def hc_case117_def hc_trs digit_char_def)

text \<open>C39: the machine lets the value of a header stand on the next line; for Content-Length it then takes
  the start of the value for the start of the next field name as well, and reports a field of the
  old length from there: a response that is cut behind the digits makes \<open>std::string\<close> copy bytes beyond
  the end of the buffer.\<close>

theorem response_field_beyond_buffer:
  assumes "list_all digit_char ds" "ds \<noteq> []" "length ds < 13"
  shows "let buf = split_length @ ds @ [CHR 0x0D] in
     \<exists>evs n ps. httpclient_parser_execute (httpclient_parser_init mem) buf (CHR 0x00) 0 = Inr (evs, n, ps)
       \<and> \<not> list_all (\<lambda>ev. list_all (slice_in buf) (event_slices ev)) evs"
proof -
  let ?buf = "split_length @ ds @ [CHR 0x0D]" and ?i = "httpclient_parser_init mem"
  have l: "length split_length = 34" by (simp add: split_length_def crlf_def)
  obtain d r where ds: "ds = d # r" "digit_char d" "list_all digit_char r" using assms(1,2) by (cases ds) auto
  obtain ps evs where pre: "machine_run hc_next (hc_do ?buf) 1 0 ?buf (?i, []) = machine_run hc_next (hc_do ?buf) 113 34 (ds @ [CHR 0x0D]) (ps, evs)"
    "cp_field_len ps = 14" using run_split_length[of ?buf "ds @ [CHR 0x0D]" ?i] unfolding l by auto
  let ?p = "ps\<lparr>cp_mark := 34, cp_field_start := 34\<rparr>" and ?q = "34 + length ds"
  have "list_all (\<lambda>c. hc_next 117 c = Goto [] 117) r" using ds(3) next_split_digit(2) by (auto simp: list_all_iff)
  from machine_run_loop[where sw = hc_next and act = "hc_do ?buf" and cs = 117, OF this]
  have "machine_run hc_next (hc_do ?buf) 113 34 (ds @ [CHR 0x0D]) (ps, evs) = machine_run hc_next (hc_do ?buf) 117 ?q [CHR 0x0D] (?p, evs)"
    using next_split_digit(1)[OF ds(2)] by (simp add: ds(1) hc_do_def)
  also obtain ps' where "\<dots> = (24, ?q + 1, ps', evs @ [On_field (PTR_TO ?buf 34) 14 (PTR_TO ?buf 34) (LEN 34 ?q)])"
    using next_split_digit(3) pre(2) by (simp add: hc_do_def)
  finally have run: "hc_run ?buf 0 ?i = (24, ?q + 1, ps', evs @ [On_field (PTR_TO ?buf 34) 14 (PTR_TO ?buf 34) (LEN 34 ?q)])"
    using pre(1) by (simp add: hc_run_def httpclient_parser_init_def httpclient_parser_start_def)
  have "length ?buf < 2 ^ 31 - 1" "?buf \<noteq> []" using assms(3) by (simp_all add: l)
  note x = hc_execute_fresh[OF run this(2,1)]
  have "\<not> slice_in ?buf (PTR_TO ?buf 34, 14)"
  proof
    assume "slice_in ?buf (PTR_TO ?buf 34, 14)"
    then obtain i where "PTR_TO ?buf 34 = drop i ?buf" "i + 14 \<le> length ?buf" by (auto simp: slice_in_def)
    then have "14 \<le> length (PTR_TO ?buf 34)" by simp
    with assms(3) show False by (simp add: PTR_TO_def l)
  qed
  with x show ?thesis by (auto simp: Let_def)
qed

theorem response_field_beyond_buffer_witness:
  "\<exists>evs n ps. httpclient_parser_execute (httpclient_parser_init demo_client) (split_length @ ''5'' @ [CHR 0x0D]) (CHR 0x00) 0 = Inr (evs, n, ps)
     \<and> \<not> list_all (\<lambda>ev. list_all (slice_in (split_length @ ''5'' @ [CHR 0x0D])) (event_slices ev)) evs"
  using response_field_beyond_buffer[of "''5''" demo_client] by (simp add: Let_def digit_char_def schar_def)

end
