(* ===== verification/UriMachine.thy ===== *)
theory UriMachine
  imports Ragel
begin

text \<open>
  The machine of \<^verbatim>\<open>include/uri.cc\<close> (\<^verbatim>\<open>Uri::Create\<close>), label by label: \<open>uri_tr\<close> are the labels \<open>tr\<close>,
  \<open>uri_case\<close> the labels \<open>case\<close>, and \<open>uri_switch\<close> the \<open>switch\<close> over \<open>cs\<close>. \<open>uri_eof\<close> are the actions at
  the end of the text. The actions have the names of \<^verbatim>\<open>include/uri.rl\<close>.
\<close>

datatype uri_action =
    U_marku | U_markh | U_save_scheme | U_save_port | U_save_userinfo | U_save_host | U_save_path | U_save_query | U_save_fragment

subsection \<open>Transitions\<close>

definition uri_tr467 :: "uri_action goto" where
  "uri_tr467 = Goto [U_marku, U_save_query] 453"

definition uri_tr469 :: "uri_action goto" where
  "uri_tr469 = Goto [U_save_query] 453"

definition uri_tr474 :: "uri_action goto" where
  "uri_tr474 = Goto [U_markh, U_save_host] 453"

definition uri_tr485 :: "uri_action goto" where
  "uri_tr485 = Goto [U_save_host] 453"

definition uri_tr489 :: "uri_action goto" where
  "uri_tr489 = Goto [U_markh, U_save_port] 453"

definition uri_tr493 :: "uri_action goto" where
  "uri_tr493 = Goto [U_save_port] 453"

definition uri_tr548 :: "uri_action goto" where
  "uri_tr548 = Goto [U_markh, U_save_host, U_save_path] 453"

definition uri_tr559 :: "uri_action goto" where
  "uri_tr559 = Goto [U_save_host, U_markh, U_save_path] 453"

definition uri_tr563 :: "uri_action goto" where
  "uri_tr563 = Goto [U_save_path] 453"

definition uri_tr566 :: "uri_action goto" where
  "uri_tr566 = Goto [U_markh, U_save_port, U_save_path] 453"

definition uri_tr570 :: "uri_action goto" where
  "uri_tr570 = Goto [U_save_port, U_markh, U_save_path] 453"

definition uri_tr462 :: "uri_action goto" where
  "uri_tr462 = Goto [U_marku] 454"

definition uri_tr463 :: "uri_action goto" where
  "uri_tr463 = Goto [U_marku] 1"

definition uri_tr476 :: "uri_action goto" where
  "uri_tr476 = Goto [U_markh, U_save_host] 455"

definition uri_tr486 :: "uri_action goto" where
  "uri_tr486 = Goto [U_save_host] 455"

definition uri_tr490 :: "uri_action goto" where
  "uri_tr490 = Goto [U_markh, U_save_port] 455"

definition uri_tr494 :: "uri_action goto" where
  "uri_tr494 = Goto [U_save_port] 455"

definition uri_tr482 :: "uri_action goto" where
  "uri_tr482 = Goto [U_markh, U_save_host] 456"

definition uri_tr488 :: "uri_action goto" where
  "uri_tr488 = Goto [U_save_host] 456"

definition uri_tr492 :: "uri_action goto" where
  "uri_tr492 = Goto [U_markh, U_save_port] 456"

definition uri_tr496 :: "uri_action goto" where
  "uri_tr496 = Goto [U_save_port] 456"

definition uri_tr556 :: "uri_action goto" where
  "uri_tr556 = Goto [U_markh, U_save_host, U_save_path] 456"

definition uri_tr562 :: "uri_action goto" where
  "uri_tr562 = Goto [U_save_host, U_markh, U_save_path] 456"

definition uri_tr565 :: "uri_action goto" where
  "uri_tr565 = Goto [U_save_path] 456"

definition uri_tr569 :: "uri_action goto" where
  "uri_tr569 = Goto [U_markh, U_save_port, U_save_path] 456"

definition uri_tr573 :: "uri_action goto" where
  "uri_tr573 = Goto [U_save_port, U_markh, U_save_path] 456"

definition uri_tr466 :: "uri_action goto" where
  "uri_tr466 = Goto [U_marku] 457"

definition uri_tr468 :: "uri_action goto" where
  "uri_tr468 = Goto [U_marku] 7"

definition uri_tr472 :: "uri_action goto" where
  "uri_tr472 = Goto [U_markh] 9"

definition uri_tr507 :: "uri_action goto" where
  "uri_tr507 = Goto [U_markh, U_save_host] 461"

definition uri_tr487 :: "uri_action goto" where
  "uri_tr487 = Goto [U_save_host] 461"

definition uri_tr491 :: "uri_action goto" where
  "uri_tr491 = Goto [U_markh] 462"

definition uri_tr473 :: "uri_action goto" where
  "uri_tr473 = Goto [U_markh] 467"

definition uri_tr475 :: "uri_action goto" where
  "uri_tr475 = Goto [U_markh] 31"

definition uri_tr481 :: "uri_action goto" where
  "uri_tr481 = Goto [U_markh, U_save_host] 468"

definition uri_tr499 :: "uri_action goto" where
  "uri_tr499 = Goto [U_save_host] 468"

definition uri_tr38 :: "uri_action goto" where
  "uri_tr38 = Goto [U_save_userinfo] 469"

definition uri_tr483 :: "uri_action goto" where
  "uri_tr483 = Goto [U_markh, U_save_userinfo] 469"

definition uri_tr501 :: "uri_action goto" where
  "uri_tr501 = Goto [U_markh] 470"

definition uri_tr502 :: "uri_action goto" where
  "uri_tr502 = Goto [U_markh] 36"

definition uri_tr503 :: "uri_action goto" where
  "uri_tr503 = Goto [U_markh] 471"

definition uri_tr504 :: "uri_action goto" where
  "uri_tr504 = Goto [U_markh] 485"

definition uri_tr506 :: "uri_action goto" where
  "uri_tr506 = Goto [U_markh] 486"

definition uri_tr505 :: "uri_action goto" where
  "uri_tr505 = Goto [U_markh] 487"

definition uri_tr484 :: "uri_action goto" where
  "uri_tr484 = Goto [U_markh] 38"

definition uri_tr500 :: "uri_action goto" where
  "uri_tr500 = Goto [U_markh] 489"

definition uri_tr477 :: "uri_action goto" where
  "uri_tr477 = Goto [U_markh] 490"

definition uri_tr478 :: "uri_action goto" where
  "uri_tr478 = Goto [U_markh] 504"

definition uri_tr480 :: "uri_action goto" where
  "uri_tr480 = Goto [U_markh] 505"

definition uri_tr479 :: "uri_action goto" where
  "uri_tr479 = Goto [U_markh] 506"

definition uri_tr461 :: "uri_action goto" where
  "uri_tr461 = Goto [U_marku] 508"

definition uri_tr543 :: "uri_action goto" where
  "uri_tr543 = Goto [U_save_scheme] 509"

definition uri_tr546 :: "uri_action goto" where
  "uri_tr546 = Goto [U_markh] 229"

definition uri_tr550 :: "uri_action goto" where
  "uri_tr550 = Goto [U_markh, U_save_host] 513"

definition uri_tr567 :: "uri_action goto" where
  "uri_tr567 = Goto [U_markh, U_save_port] 513"

definition uri_tr560 :: "uri_action goto" where
  "uri_tr560 = Goto [U_save_host, U_markh] 513"

definition uri_tr571 :: "uri_action goto" where
  "uri_tr571 = Goto [U_save_port, U_markh] 513"

definition uri_tr584 :: "uri_action goto" where
  "uri_tr584 = Goto [U_markh, U_save_host] 514"

definition uri_tr561 :: "uri_action goto" where
  "uri_tr561 = Goto [U_save_host] 514"

definition uri_tr568 :: "uri_action goto" where
  "uri_tr568 = Goto [U_markh] 515"

definition uri_tr547 :: "uri_action goto" where
  "uri_tr547 = Goto [U_markh] 520"

definition uri_tr549 :: "uri_action goto" where
  "uri_tr549 = Goto [U_markh] 253"

definition uri_tr555 :: "uri_action goto" where
  "uri_tr555 = Goto [U_markh, U_save_host] 521"

definition uri_tr576 :: "uri_action goto" where
  "uri_tr576 = Goto [U_save_host] 521"

definition uri_tr263 :: "uri_action goto" where
  "uri_tr263 = Goto [U_save_userinfo] 522"

definition uri_tr557 :: "uri_action goto" where
  "uri_tr557 = Goto [U_markh, U_save_userinfo] 522"

definition uri_tr578 :: "uri_action goto" where
  "uri_tr578 = Goto [U_markh] 523"

definition uri_tr579 :: "uri_action goto" where
  "uri_tr579 = Goto [U_markh] 258"

definition uri_tr580 :: "uri_action goto" where
  "uri_tr580 = Goto [U_markh] 524"

definition uri_tr581 :: "uri_action goto" where
  "uri_tr581 = Goto [U_markh] 538"

definition uri_tr583 :: "uri_action goto" where
  "uri_tr583 = Goto [U_markh] 539"

definition uri_tr582 :: "uri_action goto" where
  "uri_tr582 = Goto [U_markh] 540"

definition uri_tr558 :: "uri_action goto" where
  "uri_tr558 = Goto [U_markh] 260"

definition uri_tr577 :: "uri_action goto" where
  "uri_tr577 = Goto [U_markh] 542"

definition uri_tr551 :: "uri_action goto" where
  "uri_tr551 = Goto [U_markh] 543"

definition uri_tr552 :: "uri_action goto" where
  "uri_tr552 = Goto [U_markh] 557"

definition uri_tr554 :: "uri_action goto" where
  "uri_tr554 = Goto [U_markh] 558"

definition uri_tr553 :: "uri_action goto" where
  "uri_tr553 = Goto [U_markh] 559"

subsection \<open>States\<close>

definition uri_case451 :: "int \<Rightarrow> uri_action goto" where
  "uri_case451 c =
    (if c = 34 \<or> c = 58 \<or> c = 60 \<or> c = 62 \<or> c = 96 \<or> c = 127 then Fail
     else if c = 35 then Goto [] 453
     else if c = 37 then Goto [] 3
     else if c = 47 then Goto [] 458
     else if c = 63 then Goto [] 456
     else if c < 91 then
       (if 32 < c then
         (if 65 \<le> c \<and> c \<le> 90 then uri_tr461
         else Goto [] 452)
       else if 0 \<le> c then Fail
       else Goto [] 452)
     else if 94 < c then
       (if 122 < c then
         (if 123 \<le> c \<and> c \<le> 125 then Fail
         else Goto [] 452)
       else if 97 \<le> c then uri_tr461
       else Goto [] 452)
     else Fail)"

definition uri_case452 :: "int \<Rightarrow> uri_action goto" where
  "uri_case452 c =
    (if c = 34 \<or> c = 58 \<or> c = 60 \<or> c = 62 \<or> c = 96 \<or> c = 127 then Fail
     else if c = 35 then Goto [] 453
     else if c = 37 then Goto [] 3
     else if c = 47 then Goto [] 455
     else if c = 63 then Goto [] 456
     else if c < 91 then
       (if 0 \<le> c \<and> c \<le> 32 then Fail
       else Goto [] 452)
     else if 94 < c then
       (if 123 \<le> c \<and> c \<le> 125 then Fail
       else Goto [] 452)
     else Fail)"

definition uri_case453 :: "int \<Rightarrow> uri_action goto" where
  "uri_case453 c =
    (if c = 37 then uri_tr463
     else if c = 60 \<or> c = 62 \<or> c = 96 \<or> c = 127 then Fail
     else if c < 34 then
       (if 0 \<le> c \<and> c \<le> 32 then Fail
       else uri_tr462)
     else if 35 < c then
       (if 94 < c then
         (if 123 \<le> c \<and> c \<le> 125 then Fail
         else uri_tr462)
       else if 91 \<le> c then Fail
       else uri_tr462)
     else Fail)"

definition uri_case454 :: "int \<Rightarrow> uri_action goto" where
  "uri_case454 c =
    (if c = 37 then Goto [] 1
     else if c = 60 \<or> c = 62 \<or> c = 96 \<or> c = 127 then Fail
     else if c < 34 then
       (if 0 \<le> c \<and> c \<le> 32 then Fail
       else Goto [] 454)
     else if 35 < c then
       (if 94 < c then
         (if 123 \<le> c \<and> c \<le> 125 then Fail
         else Goto [] 454)
       else if 91 \<le> c then Fail
       else Goto [] 454)
     else Fail)"

definition uri_case1 :: "int \<Rightarrow> uri_action goto" where
  "uri_case1 c =
    (if c < 65 then
       (if 48 \<le> c \<and> c \<le> 57 then Goto [] 2
       else Fail)
     else if 70 < c then
       (if 97 \<le> c \<and> c \<le> 102 then Goto [] 2
       else Fail)
     else Goto [] 2)"

definition uri_case2 :: "int \<Rightarrow> uri_action goto" where
  "uri_case2 c =
    (if c < 65 then
       (if 48 \<le> c \<and> c \<le> 57 then Goto [] 454
       else Fail)
     else if 70 < c then
       (if 97 \<le> c \<and> c \<le> 102 then Goto [] 454
       else Fail)
     else Goto [] 454)"

definition uri_case3 :: "int \<Rightarrow> uri_action goto" where
  "uri_case3 c =
    (if c < 65 then
       (if 48 \<le> c \<and> c \<le> 57 then Goto [] 4
       else Fail)
     else if 70 < c then
       (if 97 \<le> c \<and> c \<le> 102 then Goto [] 4
       else Fail)
     else Goto [] 4)"

definition uri_case4 :: "int \<Rightarrow> uri_action goto" where
  "uri_case4 c =
    (if c < 65 then
       (if 48 \<le> c \<and> c \<le> 57 then Goto [] 452
       else Fail)
     else if 70 < c then
       (if 97 \<le> c \<and> c \<le> 102 then Goto [] 452
       else Fail)
     else Goto [] 452)"

definition uri_case455 :: "int \<Rightarrow> uri_action goto" where
  "uri_case455 c =
    (if c = 34 \<or> c = 60 \<or> c = 62 \<or> c = 96 \<or> c = 127 then Fail
     else if c = 35 then Goto [] 453
     else if c = 37 then Goto [] 5
     else if c = 63 then Goto [] 456
     else if c < 91 then
       (if 0 \<le> c \<and> c \<le> 32 then Fail
       else Goto [] 455)
     else if 94 < c then
       (if 123 \<le> c \<and> c \<le> 125 then Fail
       else Goto [] 455)
     else Fail)"

definition uri_case5 :: "int \<Rightarrow> uri_action goto" where
  "uri_case5 c =
    (if c < 65 then
       (if 48 \<le> c \<and> c \<le> 57 then Goto [] 6
       else Fail)
     else if 70 < c then
       (if 97 \<le> c \<and> c \<le> 102 then Goto [] 6
       else Fail)
     else Goto [] 6)"

definition uri_case6 :: "int \<Rightarrow> uri_action goto" where
  "uri_case6 c =
    (if c < 65 then
       (if 48 \<le> c \<and> c \<le> 57 then Goto [] 455
       else Fail)
     else if 70 < c then
       (if 97 \<le> c \<and> c \<le> 102 then Goto [] 455
       else Fail)
     else Goto [] 455)"

definition uri_case456 :: "int \<Rightarrow> uri_action goto" where
  "uri_case456 c =
    (if c = 34 \<or> c = 60 \<or> c = 62 \<or> c = 96 \<or> c = 127 then Fail
     else if c = 35 then uri_tr467
     else if c = 37 then uri_tr468
     else if c < 91 then
       (if 0 \<le> c \<and> c \<le> 32 then Fail
       else uri_tr466)
     else if 94 < c then
       (if 123 \<le> c \<and> c \<le> 125 then Fail
       else uri_tr466)
     else Fail)"

definition uri_case457 :: "int \<Rightarrow> uri_action goto" where
  "uri_case457 c =
    (if c = 34 \<or> c = 60 \<or> c = 62 \<or> c = 96 \<or> c = 127 then Fail
     else if c = 35 then uri_tr469
     else if c = 37 then Goto [] 7
     else if c < 91 then
       (if 0 \<le> c \<and> c \<le> 32 then Fail
       else Goto [] 457)
     else if 94 < c then
       (if 123 \<le> c \<and> c \<le> 125 then Fail
       else Goto [] 457)
     else Fail)"

definition uri_case7 :: "int \<Rightarrow> uri_action goto" where
  "uri_case7 c =
    (if c < 65 then
       (if 48 \<le> c \<and> c \<le> 57 then Goto [] 8
       else Fail)
     else if 70 < c then
       (if 97 \<le> c \<and> c \<le> 102 then Goto [] 8
       else Fail)
     else Goto [] 8)"

definition uri_case8 :: "int \<Rightarrow> uri_action goto" where
  "uri_case8 c =
    (if c < 65 then
       (if 48 \<le> c \<and> c \<le> 57 then Goto [] 457
       else Fail)
     else if 70 < c then
       (if 97 \<le> c \<and> c \<le> 102 then Goto [] 457
       else Fail)
     else Goto [] 457)"

definition uri_case458 :: "int \<Rightarrow> uri_action goto" where
  "uri_case458 c =
    (if c = 34 \<or> c = 60 \<or> c = 62 \<or> c = 96 \<or> c = 127 then Fail
     else if c = 35 then Goto [] 453
     else if c = 37 then Goto [] 5
     else if c = 47 then Goto [] 459
     else if c = 63 then Goto [] 456
     else if c < 91 then
       (if 0 \<le> c \<and> c \<le> 32 then Fail
       else Goto [] 455)
     else if 94 < c then
       (if 123 \<le> c \<and> c \<le> 125 then Fail
       else Goto [] 455)
     else Fail)"

definition uri_case459 :: "int \<Rightarrow> uri_action goto" where
  "uri_case459 c =
    (if c = 2 then uri_tr472
     else if c = 33 \<or> c = 59 \<or> c = 61 \<or> c = 95 \<or> c = 126 then uri_tr473
     else if c = 35 then uri_tr474
     else if c = 37 then uri_tr475
     else if c = 47 then uri_tr476
     else if c = 48 then uri_tr477
     else if c = 49 then uri_tr478
     else if c = 50 then uri_tr479
     else if c = 58 then uri_tr481
     else if c = 63 then uri_tr482
     else if c = 64 then uri_tr483
     else if c = 91 then uri_tr484
     else if c < 51 then
       (if 36 \<le> c \<and> c \<le> 46 then uri_tr473
       else Fail)
     else if 57 < c then
       (if 90 < c then
         (if 97 \<le> c \<and> c \<le> 122 then uri_tr473
         else Fail)
       else if 65 \<le> c then uri_tr473
       else Fail)
     else uri_tr480)"

definition uri_case9 :: "int \<Rightarrow> uri_action goto" where
  "uri_case9 c =
    (if 48 \<le> c \<and> c \<le> 52 then Goto [] 10
     else Fail)"

definition uri_case10 :: "int \<Rightarrow> uri_action goto" where
  "uri_case10 c =
    (if 48 \<le> c \<and> c \<le> 57 then Goto [] 11
     else Fail)"

definition uri_case11 :: "int \<Rightarrow> uri_action goto" where
  "uri_case11 c =
    (if c = 46 then Goto [] 12
     else Fail)"

definition uri_case12 :: "int \<Rightarrow> uri_action goto" where
  "uri_case12 c =
    (if c = 2 then Goto [] 13
     else if c = 48 then Goto [] 15
     else if c = 49 then Goto [] 27
     else if c = 50 then Goto [] 29
     else if 51 \<le> c \<and> c \<le> 57 then Goto [] 28
     else Fail)"

definition uri_case13 :: "int \<Rightarrow> uri_action goto" where
  "uri_case13 c =
    (if 48 \<le> c \<and> c \<le> 52 then Goto [] 14
     else Fail)"

definition uri_case14 :: "int \<Rightarrow> uri_action goto" where
  "uri_case14 c =
    (if 48 \<le> c \<and> c \<le> 57 then Goto [] 15
     else Fail)"

definition uri_case15 :: "int \<Rightarrow> uri_action goto" where
  "uri_case15 c =
    (if c = 46 then Goto [] 16
     else Fail)"

definition uri_case16 :: "int \<Rightarrow> uri_action goto" where
  "uri_case16 c =
    (if c = 2 then Goto [] 17
     else if c = 48 then Goto [] 19
     else if c = 49 then Goto [] 23
     else if c = 50 then Goto [] 25
     else if 51 \<le> c \<and> c \<le> 57 then Goto [] 24
     else Fail)"

definition uri_case17 :: "int \<Rightarrow> uri_action goto" where
  "uri_case17 c =
    (if 48 \<le> c \<and> c \<le> 52 then Goto [] 18
     else Fail)"

definition uri_case18 :: "int \<Rightarrow> uri_action goto" where
  "uri_case18 c =
    (if 48 \<le> c \<and> c \<le> 57 then Goto [] 19
     else Fail)"

definition uri_case19 :: "int \<Rightarrow> uri_action goto" where
  "uri_case19 c =
    (if c = 46 then Goto [] 20
     else Fail)"

definition uri_case20 :: "int \<Rightarrow> uri_action goto" where
  "uri_case20 c =
    (if c = 2 then Goto [] 21
     else if c = 48 then Goto [] 460
     else if c = 49 then Goto [] 463
     else if c = 50 then Goto [] 465
     else if 51 \<le> c \<and> c \<le> 57 then Goto [] 464
     else Fail)"

definition uri_case21 :: "int \<Rightarrow> uri_action goto" where
  "uri_case21 c =
    (if 48 \<le> c \<and> c \<le> 52 then Goto [] 22
     else Fail)"

definition uri_case22 :: "int \<Rightarrow> uri_action goto" where
  "uri_case22 c =
    (if 48 \<le> c \<and> c \<le> 57 then Goto [] 460
     else Fail)"

definition uri_case460 :: "int \<Rightarrow> uri_action goto" where
  "uri_case460 c =
    (if c = 35 then uri_tr485
     else if c = 47 then uri_tr486
     else if c = 58 then uri_tr487
     else if c = 63 then uri_tr488
     else Fail)"

definition uri_case461 :: "int \<Rightarrow> uri_action goto" where
  "uri_case461 c =
    (if c = 35 then uri_tr489
     else if c = 47 then uri_tr490
     else if c = 63 then uri_tr492
     else if 48 \<le> c \<and> c \<le> 57 then uri_tr491
     else Fail)"

definition uri_case462 :: "int \<Rightarrow> uri_action goto" where
  "uri_case462 c =
    (if c = 35 then uri_tr493
     else if c = 47 then uri_tr494
     else if c = 63 then uri_tr496
     else if 48 \<le> c \<and> c \<le> 57 then Goto [] 462
     else Fail)"

definition uri_case463 :: "int \<Rightarrow> uri_action goto" where
  "uri_case463 c =
    (if c = 35 then uri_tr485
     else if c = 47 then uri_tr486
     else if c = 58 then uri_tr487
     else if c = 63 then uri_tr488
     else if 48 \<le> c \<and> c \<le> 57 then Goto [] 464
     else Fail)"

definition uri_case464 :: "int \<Rightarrow> uri_action goto" where
  "uri_case464 c =
    (if c = 35 then uri_tr485
     else if c = 47 then uri_tr486
     else if c = 58 then uri_tr487
     else if c = 63 then uri_tr488
     else if 48 \<le> c \<and> c \<le> 57 then Goto [] 460
     else Fail)"

definition uri_case465 :: "int \<Rightarrow> uri_action goto" where
  "uri_case465 c =
    (if c = 35 then uri_tr485
     else if c = 47 then uri_tr486
     else if c = 53 then Goto [] 466
     else if c = 58 then uri_tr487
     else if c = 63 then uri_tr488
     else if 48 \<le> c \<and> c \<le> 57 then Goto [] 460
     else Fail)"

definition uri_case466 :: "int \<Rightarrow> uri_action goto" where
  "uri_case466 c =
    (if c = 35 then uri_tr485
     else if c = 47 then uri_tr486
     else if c = 58 then uri_tr487
     else if c = 63 then uri_tr488
     else if 48 \<le> c \<and> c \<le> 53 then Goto [] 460
     else Fail)"

definition uri_case23 :: "int \<Rightarrow> uri_action goto" where
  "uri_case23 c =
    (if c = 46 then Goto [] 20
     else if 48 \<le> c \<and> c \<le> 57 then Goto [] 24
     else Fail)"

definition uri_case24 :: "int \<Rightarrow> uri_action goto" where
  "uri_case24 c =
    (if c = 46 then Goto [] 20
     else if 48 \<le> c \<and> c \<le> 57 then Goto [] 19
     else Fail)"

definition uri_case25 :: "int \<Rightarrow> uri_action goto" where
  "uri_case25 c =
    (if c = 46 then Goto [] 20
     else if c = 53 then Goto [] 26
     else if 48 \<le> c \<and> c \<le> 57 then Goto [] 19
     else Fail)"

definition uri_case26 :: "int \<Rightarrow> uri_action goto" where
  "uri_case26 c =
    (if c = 46 then Goto [] 20
     else if 48 \<le> c \<and> c \<le> 53 then Goto [] 19
     else Fail)"

definition uri_case27 :: "int \<Rightarrow> uri_action goto" where
  "uri_case27 c =
    (if c = 46 then Goto [] 16
     else if 48 \<le> c \<and> c \<le> 57 then Goto [] 28
     else Fail)"

definition uri_case28 :: "int \<Rightarrow> uri_action goto" where
  "uri_case28 c =
    (if c = 46 then Goto [] 16
     else if 48 \<le> c \<and> c \<le> 57 then Goto [] 15
     else Fail)"

definition uri_case29 :: "int \<Rightarrow> uri_action goto" where
  "uri_case29 c =
    (if c = 46 then Goto [] 16
     else if c = 53 then Goto [] 30
     else if 48 \<le> c \<and> c \<le> 57 then Goto [] 15
     else Fail)"

definition uri_case30 :: "int \<Rightarrow> uri_action goto" where
  "uri_case30 c =
    (if c = 46 then Goto [] 16
     else if 48 \<le> c \<and> c \<le> 53 then Goto [] 15
     else Fail)"

definition uri_case467 :: "int \<Rightarrow> uri_action goto" where
  "uri_case467 c =
    (if c = 33 \<or> c = 61 \<or> c = 95 \<or> c = 126 then Goto [] 467
     else if c = 35 then uri_tr485
     else if c = 37 then Goto [] 31
     else if c = 47 then uri_tr486
     else if c = 58 then uri_tr499
     else if c = 63 then uri_tr488
     else if c = 64 then uri_tr38
     else if c < 65 then
       (if 36 \<le> c \<and> c \<le> 59 then Goto [] 467
       else Fail)
     else if 90 < c then
       (if 97 \<le> c \<and> c \<le> 122 then Goto [] 467
       else Fail)
     else Goto [] 467)"

definition uri_case31 :: "int \<Rightarrow> uri_action goto" where
  "uri_case31 c =
    (if c < 65 then
       (if 48 \<le> c \<and> c \<le> 57 then Goto [] 32
       else Fail)
     else if 70 < c then
       (if 97 \<le> c \<and> c \<le> 102 then Goto [] 32
       else Fail)
     else Goto [] 32)"

definition uri_case32 :: "int \<Rightarrow> uri_action goto" where
  "uri_case32 c =
    (if c < 65 then
       (if 48 \<le> c \<and> c \<le> 57 then Goto [] 467
       else Fail)
     else if 70 < c then
       (if 97 \<le> c \<and> c \<le> 102 then Goto [] 467
       else Fail)
     else Goto [] 467)"

definition uri_case468 :: "int \<Rightarrow> uri_action goto" where
  "uri_case468 c =
    (if c = 33 \<or> c = 61 \<or> c = 95 \<or> c = 126 then Goto [] 33
     else if c = 35 then uri_tr489
     else if c = 37 then Goto [] 34
     else if c = 47 then uri_tr490
     else if c = 63 then uri_tr492
     else if c = 64 then uri_tr38
     else if c < 58 then
       (if 46 < c then
         (if 48 \<le> c \<and> c \<le> 57 then uri_tr500
         else Fail)
       else if 36 \<le> c then Goto [] 33
       else Fail)
     else if 59 < c then
       (if 90 < c then
         (if 97 \<le> c \<and> c \<le> 122 then Goto [] 33
         else Fail)
       else if 65 \<le> c then Goto [] 33
       else Fail)
     else Goto [] 33)"

definition uri_case33 :: "int \<Rightarrow> uri_action goto" where
  "uri_case33 c =
    (if c = 33 \<or> c = 61 \<or> c = 95 \<or> c = 126 then Goto [] 33
     else if c = 37 then Goto [] 34
     else if c = 64 then uri_tr38
     else if c < 48 then
       (if 36 \<le> c \<and> c \<le> 46 then Goto [] 33
       else Fail)
     else if 59 < c then
       (if 90 < c then
         (if 97 \<le> c \<and> c \<le> 122 then Goto [] 33
         else Fail)
       else if 65 \<le> c then Goto [] 33
       else Fail)
     else Goto [] 33)"

definition uri_case34 :: "int \<Rightarrow> uri_action goto" where
  "uri_case34 c =
    (if c < 65 then
       (if 48 \<le> c \<and> c \<le> 57 then Goto [] 35
       else Fail)
     else if 70 < c then
       (if 97 \<le> c \<and> c \<le> 102 then Goto [] 35
       else Fail)
     else Goto [] 35)"

definition uri_case35 :: "int \<Rightarrow> uri_action goto" where
  "uri_case35 c =
    (if c < 65 then
       (if 48 \<le> c \<and> c \<le> 57 then Goto [] 33
       else Fail)
     else if 70 < c then
       (if 97 \<le> c \<and> c \<le> 102 then Goto [] 33
       else Fail)
     else Goto [] 33)"

definition uri_case469 :: "int \<Rightarrow> uri_action goto" where
  "uri_case469 c =
    (if c = 2 then uri_tr472
     else if c = 33 \<or> c = 59 \<or> c = 61 \<or> c = 95 \<or> c = 126 then uri_tr501
     else if c = 35 then uri_tr474
     else if c = 37 then uri_tr502
     else if c = 47 then uri_tr476
     else if c = 48 then uri_tr503
     else if c = 49 then uri_tr504
     else if c = 50 then uri_tr505
     else if c = 58 then uri_tr507
     else if c = 63 then uri_tr482
     else if c = 91 then uri_tr484
     else if c < 51 then
       (if 36 \<le> c \<and> c \<le> 46 then uri_tr501
       else Fail)
     else if 57 < c then
       (if 90 < c then
         (if 97 \<le> c \<and> c \<le> 122 then uri_tr501
         else Fail)
       else if 65 \<le> c then uri_tr501
       else Fail)
     else uri_tr506)"

definition uri_case470 :: "int \<Rightarrow> uri_action goto" where
  "uri_case470 c =
    (if c = 33 \<or> c = 61 \<or> c = 95 \<or> c = 126 then Goto [] 470
     else if c = 35 then uri_tr485
     else if c = 37 then Goto [] 36
     else if c = 47 then uri_tr486
     else if c = 58 then uri_tr487
     else if c = 63 then uri_tr488
     else if c < 65 then
       (if 36 \<le> c \<and> c \<le> 59 then Goto [] 470
       else Fail)
     else if 90 < c then
       (if 97 \<le> c \<and> c \<le> 122 then Goto [] 470
       else Fail)
     else Goto [] 470)"

definition uri_case36 :: "int \<Rightarrow> uri_action goto" where
  "uri_case36 c =
    (if c < 65 then
       (if 48 \<le> c \<and> c \<le> 57 then Goto [] 37
       else Fail)
     else if 70 < c then
       (if 97 \<le> c \<and> c \<le> 102 then Goto [] 37
       else Fail)
     else Goto [] 37)"

definition uri_case37 :: "int \<Rightarrow> uri_action goto" where
  "uri_case37 c =
    (if c < 65 then
       (if 48 \<le> c \<and> c \<le> 57 then Goto [] 470
       else Fail)
     else if 70 < c then
       (if 97 \<le> c \<and> c \<le> 102 then Goto [] 470
       else Fail)
     else Goto [] 470)"

definition uri_case471 :: "int \<Rightarrow> uri_action goto" where
  "uri_case471 c =
    (if c = 33 \<or> c = 61 \<or> c = 95 \<or> c = 126 then Goto [] 470
     else if c = 35 then uri_tr485
     else if c = 37 then Goto [] 36
     else if c = 46 then Goto [] 472
     else if c = 47 then uri_tr486
     else if c = 58 then uri_tr487
     else if c = 63 then uri_tr488
     else if c < 65 then
       (if 36 \<le> c \<and> c \<le> 59 then Goto [] 470
       else Fail)
     else if 90 < c then
       (if 97 \<le> c \<and> c \<le> 122 then Goto [] 470
       else Fail)
     else Goto [] 470)"

definition uri_case472 :: "int \<Rightarrow> uri_action goto" where
  "uri_case472 c =
    (if c = 2 then Goto [] 13
     else if c = 33 \<or> c = 59 \<or> c = 61 \<or> c = 95 \<or> c = 126 then Goto [] 470
     else if c = 35 then uri_tr485
     else if c = 37 then Goto [] 36
     else if c = 47 then uri_tr486
     else if c = 48 then Goto [] 473
     else if c = 49 then Goto [] 481
     else if c = 50 then Goto [] 483
     else if c = 58 then uri_tr487
     else if c = 63 then uri_tr488
     else if c < 51 then
       (if 36 \<le> c \<and> c \<le> 46 then Goto [] 470
       else Fail)
     else if 57 < c then
       (if 90 < c then
         (if 97 \<le> c \<and> c \<le> 122 then Goto [] 470
         else Fail)
       else if 65 \<le> c then Goto [] 470
       else Fail)
     else Goto [] 482)"

definition uri_case473 :: "int \<Rightarrow> uri_action goto" where
  "uri_case473 c =
    (if c = 33 \<or> c = 61 \<or> c = 95 \<or> c = 126 then Goto [] 470
     else if c = 35 then uri_tr485
     else if c = 37 then Goto [] 36
     else if c = 46 then Goto [] 474
     else if c = 47 then uri_tr486
     else if c = 58 then uri_tr487
     else if c = 63 then uri_tr488
     else if c < 65 then
       (if 36 \<le> c \<and> c \<le> 59 then Goto [] 470
       else Fail)
     else if 90 < c then
       (if 97 \<le> c \<and> c \<le> 122 then Goto [] 470
       else Fail)
     else Goto [] 470)"

definition uri_case474 :: "int \<Rightarrow> uri_action goto" where
  "uri_case474 c =
    (if c = 2 then Goto [] 17
     else if c = 33 \<or> c = 59 \<or> c = 61 \<or> c = 95 \<or> c = 126 then Goto [] 470
     else if c = 35 then uri_tr485
     else if c = 37 then Goto [] 36
     else if c = 47 then uri_tr486
     else if c = 48 then Goto [] 475
     else if c = 49 then Goto [] 477
     else if c = 50 then Goto [] 479
     else if c = 58 then uri_tr487
     else if c = 63 then uri_tr488
     else if c < 51 then
       (if 36 \<le> c \<and> c \<le> 46 then Goto [] 470
       else Fail)
     else if 57 < c then
       (if 90 < c then
         (if 97 \<le> c \<and> c \<le> 122 then Goto [] 470
         else Fail)
       else if 65 \<le> c then Goto [] 470
       else Fail)
     else Goto [] 478)"

definition uri_case475 :: "int \<Rightarrow> uri_action goto" where
  "uri_case475 c =
    (if c = 33 \<or> c = 61 \<or> c = 95 \<or> c = 126 then Goto [] 470
     else if c = 35 then uri_tr485
     else if c = 37 then Goto [] 36
     else if c = 46 then Goto [] 476
     else if c = 47 then uri_tr486
     else if c = 58 then uri_tr487
     else if c = 63 then uri_tr488
     else if c < 65 then
       (if 36 \<le> c \<and> c \<le> 59 then Goto [] 470
       else Fail)
     else if 90 < c then
       (if 97 \<le> c \<and> c \<le> 122 then Goto [] 470
       else Fail)
     else Goto [] 470)"

definition uri_case476 :: "int \<Rightarrow> uri_action goto" where
  "uri_case476 c =
    (if c = 2 then Goto [] 21
     else if c = 33 \<or> c = 61 \<or> c = 95 \<or> c = 126 then Goto [] 470
     else if c = 35 then uri_tr485
     else if c = 37 then Goto [] 36
     else if c = 47 then uri_tr486
     else if c = 58 then uri_tr487
     else if c = 63 then uri_tr488
     else if c < 65 then
       (if 36 \<le> c \<and> c \<le> 59 then Goto [] 470
       else Fail)
     else if 90 < c then
       (if 97 \<le> c \<and> c \<le> 122 then Goto [] 470
       else Fail)
     else Goto [] 470)"

definition uri_case477 :: "int \<Rightarrow> uri_action goto" where
  "uri_case477 c =
    (if c = 33 \<or> c = 59 \<or> c = 61 \<or> c = 95 \<or> c = 126 then Goto [] 470
     else if c = 35 then uri_tr485
     else if c = 37 then Goto [] 36
     else if c = 46 then Goto [] 476
     else if c = 47 then uri_tr486
     else if c = 58 then uri_tr487
     else if c = 63 then uri_tr488
     else if c < 48 then
       (if 36 \<le> c \<and> c \<le> 45 then Goto [] 470
       else Fail)
     else if 57 < c then
       (if 90 < c then
         (if 97 \<le> c \<and> c \<le> 122 then Goto [] 470
         else Fail)
       else if 65 \<le> c then Goto [] 470
       else Fail)
     else Goto [] 478)"

definition uri_case478 :: "int \<Rightarrow> uri_action goto" where
  "uri_case478 c =
    (if c = 33 \<or> c = 59 \<or> c = 61 \<or> c = 95 \<or> c = 126 then Goto [] 470
     else if c = 35 then uri_tr485
     else if c = 37 then Goto [] 36
     else if c = 46 then Goto [] 476
     else if c = 47 then uri_tr486
     else if c = 58 then uri_tr487
     else if c = 63 then uri_tr488
     else if c < 48 then
       (if 36 \<le> c \<and> c \<le> 45 then Goto [] 470
       else Fail)
     else if 57 < c then
       (if 90 < c then
         (if 97 \<le> c \<and> c \<le> 122 then Goto [] 470
         else Fail)
       else if 65 \<le> c then Goto [] 470
       else Fail)
     else Goto [] 475)"

definition uri_case479 :: "int \<Rightarrow> uri_action goto" where
  "uri_case479 c =
    (if c = 33 \<or> c = 59 \<or> c = 61 \<or> c = 95 \<or> c = 126 then Goto [] 470
     else if c = 35 then uri_tr485
     else if c = 37 then Goto [] 36
     else if c = 46 then Goto [] 476
     else if c = 47 then uri_tr486
     else if c = 53 then Goto [] 480
     else if c = 58 then uri_tr487
     else if c = 63 then uri_tr488
     else if c < 48 then
       (if 36 \<le> c \<and> c \<le> 45 then Goto [] 470
       else Fail)
     else if 57 < c then
       (if 90 < c then
         (if 97 \<le> c \<and> c \<le> 122 then Goto [] 470
         else Fail)
       else if 65 \<le> c then Goto [] 470
       else Fail)
     else Goto [] 475)"

definition uri_case480 :: "int \<Rightarrow> uri_action goto" where
  "uri_case480 c =
    (if c = 33 \<or> c = 61 \<or> c = 95 \<or> c = 126 then Goto [] 470
     else if c = 35 then uri_tr485
     else if c = 37 then Goto [] 36
     else if c = 46 then Goto [] 476
     else if c = 47 then uri_tr486
     else if c = 58 then uri_tr487
     else if c = 63 then uri_tr488
     else if c < 54 then
       (if 45 < c then
         (if 48 \<le> c \<and> c \<le> 53 then Goto [] 475
         else Fail)
       else if 36 \<le> c then Goto [] 470
       else Fail)
     else if 59 < c then
       (if 90 < c then
         (if 97 \<le> c \<and> c \<le> 122 then Goto [] 470
         else Fail)
       else if 65 \<le> c then Goto [] 470
       else Fail)
     else Goto [] 470)"

definition uri_case481 :: "int \<Rightarrow> uri_action goto" where
  "uri_case481 c =
    (if c = 33 \<or> c = 59 \<or> c = 61 \<or> c = 95 \<or> c = 126 then Goto [] 470
     else if c = 35 then uri_tr485
     else if c = 37 then Goto [] 36
     else if c = 46 then Goto [] 474
     else if c = 47 then uri_tr486
     else if c = 58 then uri_tr487
     else if c = 63 then uri_tr488
     else if c < 48 then
       (if 36 \<le> c \<and> c \<le> 45 then Goto [] 470
       else Fail)
     else if 57 < c then
       (if 90 < c then
         (if 97 \<le> c \<and> c \<le> 122 then Goto [] 470
         else Fail)
       else if 65 \<le> c then Goto [] 470
       else Fail)
     else Goto [] 482)"

definition uri_case482 :: "int \<Rightarrow> uri_action goto" where
  "uri_case482 c =
    (if c = 33 \<or> c = 59 \<or> c = 61 \<or> c = 95 \<or> c = 126 then Goto [] 470
     else if c = 35 then uri_tr485
     else if c = 37 then Goto [] 36
     else if c = 46 then Goto [] 474
     else if c = 47 then uri_tr486
     else if c = 58 then uri_tr487
     else if c = 63 then uri_tr488
     else if c < 48 then
       (if 36 \<le> c \<and> c \<le> 45 then Goto [] 470
       else Fail)
     else if 57 < c then
       (if 90 < c then
         (if 97 \<le> c \<and> c \<le> 122 then Goto [] 470
         else Fail)
       else if 65 \<le> c then Goto [] 470
       else Fail)
     else Goto [] 473)"

definition uri_case483 :: "int \<Rightarrow> uri_action goto" where
  "uri_case483 c =
    (if c = 33 \<or> c = 59 \<or> c = 61 \<or> c = 95 \<or> c = 126 then Goto [] 470
     else if c = 35 then uri_tr485
     else if c = 37 then Goto [] 36
     else if c = 46 then Goto [] 474
     else if c = 47 then uri_tr486
     else if c = 53 then Goto [] 484
     else if c = 58 then uri_tr487
     else if c = 63 then uri_tr488
     else if c < 48 then
       (if 36 \<le> c \<and> c \<le> 45 then Goto [] 470
       else Fail)
     else if 57 < c then
       (if 90 < c then
         (if 97 \<le> c \<and> c \<le> 122 then Goto [] 470
         else Fail)
       else if 65 \<le> c then Goto [] 470
       else Fail)
     else Goto [] 473)"

definition uri_case484 :: "int \<Rightarrow> uri_action goto" where
  "uri_case484 c =
    (if c = 33 \<or> c = 61 \<or> c = 95 \<or> c = 126 then Goto [] 470
     else if c = 35 then uri_tr485
     else if c = 37 then Goto [] 36
     else if c = 46 then Goto [] 474
     else if c = 47 then uri_tr486
     else if c = 58 then uri_tr487
     else if c = 63 then uri_tr488
     else if c < 54 then
       (if 45 < c then
         (if 48 \<le> c \<and> c \<le> 53 then Goto [] 473
         else Fail)
       else if 36 \<le> c then Goto [] 470
       else Fail)
     else if 59 < c then
       (if 90 < c then
         (if 97 \<le> c \<and> c \<le> 122 then Goto [] 470
         else Fail)
       else if 65 \<le> c then Goto [] 470
       else Fail)
     else Goto [] 470)"

definition uri_case485 :: "int \<Rightarrow> uri_action goto" where
  "uri_case485 c =
    (if c = 33 \<or> c = 59 \<or> c = 61 \<or> c = 95 \<or> c = 126 then Goto [] 470
     else if c = 35 then uri_tr485
     else if c = 37 then Goto [] 36
     else if c = 46 then Goto [] 472
     else if c = 47 then uri_tr486
     else if c = 58 then uri_tr487
     else if c = 63 then uri_tr488
     else if c < 48 then
       (if 36 \<le> c \<and> c \<le> 45 then Goto [] 470
       else Fail)
     else if 57 < c then
       (if 90 < c then
         (if 97 \<le> c \<and> c \<le> 122 then Goto [] 470
         else Fail)
       else if 65 \<le> c then Goto [] 470
       else Fail)
     else Goto [] 486)"

definition uri_case486 :: "int \<Rightarrow> uri_action goto" where
  "uri_case486 c =
    (if c = 33 \<or> c = 59 \<or> c = 61 \<or> c = 95 \<or> c = 126 then Goto [] 470
     else if c = 35 then uri_tr485
     else if c = 37 then Goto [] 36
     else if c = 46 then Goto [] 472
     else if c = 47 then uri_tr486
     else if c = 58 then uri_tr487
     else if c = 63 then uri_tr488
     else if c < 48 then
       (if 36 \<le> c \<and> c \<le> 45 then Goto [] 470
       else Fail)
     else if 57 < c then
       (if 90 < c then
         (if 97 \<le> c \<and> c \<le> 122 then Goto [] 470
         else Fail)
       else if 65 \<le> c then Goto [] 470
       else Fail)
     else Goto [] 471)"

definition uri_case487 :: "int \<Rightarrow> uri_action goto" where
  "uri_case487 c =
    (if c = 33 \<or> c = 59 \<or> c = 61 \<or> c = 95 \<or> c = 126 then Goto [] 470
     else if c = 35 then uri_tr485
     else if c = 37 then Goto [] 36
     else if c = 46 then Goto [] 472
     else if c = 47 then uri_tr486
     else if c = 53 then Goto [] 488
     else if c = 58 then uri_tr487
     else if c = 63 then uri_tr488
     else if c < 48 then
       (if 36 \<le> c \<and> c \<le> 45 then Goto [] 470
       else Fail)
     else if 57 < c then
       (if 90 < c then
         (if 97 \<le> c \<and> c \<le> 122 then Goto [] 470
         else Fail)
       else if 65 \<le> c then Goto [] 470
       else Fail)
     else Goto [] 471)"

definition uri_case488 :: "int \<Rightarrow> uri_action goto" where
  "uri_case488 c =
    (if c = 33 \<or> c = 61 \<or> c = 95 \<or> c = 126 then Goto [] 470
     else if c = 35 then uri_tr485
     else if c = 37 then Goto [] 36
     else if c = 46 then Goto [] 472
     else if c = 47 then uri_tr486
     else if c = 58 then uri_tr487
     else if c = 63 then uri_tr488
     else if c < 54 then
       (if 45 < c then
         (if 48 \<le> c \<and> c \<le> 53 then Goto [] 471
         else Fail)
       else if 36 \<le> c then Goto [] 470
       else Fail)
     else if 59 < c then
       (if 90 < c then
         (if 97 \<le> c \<and> c \<le> 122 then Goto [] 470
         else Fail)
       else if 65 \<le> c then Goto [] 470
       else Fail)
     else Goto [] 470)"

definition uri_case38 :: "int \<Rightarrow> uri_action goto" where
  "uri_case38 c =
    (if c = 58 then Goto [] 146
     else if c = 118 then Goto [] 225
     else if c < 65 then
       (if 48 \<le> c \<and> c \<le> 57 then Goto [] 39
       else Fail)
     else if 70 < c then
       (if 97 \<le> c \<and> c \<le> 102 then Goto [] 39
       else Fail)
     else Goto [] 39)"

definition uri_case39 :: "int \<Rightarrow> uri_action goto" where
  "uri_case39 c =
    (if c = 58 then Goto [] 43
     else if c < 65 then
       (if 48 \<le> c \<and> c \<le> 57 then Goto [] 40
       else Fail)
     else if 70 < c then
       (if 97 \<le> c \<and> c \<le> 102 then Goto [] 40
       else Fail)
     else Goto [] 40)"

definition uri_case40 :: "int \<Rightarrow> uri_action goto" where
  "uri_case40 c =
    (if c = 58 then Goto [] 43
     else if c < 65 then
       (if 48 \<le> c \<and> c \<le> 57 then Goto [] 41
       else Fail)
     else if 70 < c then
       (if 97 \<le> c \<and> c \<le> 102 then Goto [] 41
       else Fail)
     else Goto [] 41)"

definition uri_case41 :: "int \<Rightarrow> uri_action goto" where
  "uri_case41 c =
    (if c = 58 then Goto [] 43
     else if c < 65 then
       (if 48 \<le> c \<and> c \<le> 57 then Goto [] 42
       else Fail)
     else if 70 < c then
       (if 97 \<le> c \<and> c \<le> 102 then Goto [] 42
       else Fail)
     else Goto [] 42)"

definition uri_case42 :: "int \<Rightarrow> uri_action goto" where
  "uri_case42 c =
    (if c = 58 then Goto [] 43
     else Fail)"

definition uri_case43 :: "int \<Rightarrow> uri_action goto" where
  "uri_case43 c =
    (if c = 58 then Goto [] 141
     else if c < 65 then
       (if 48 \<le> c \<and> c \<le> 57 then Goto [] 44
       else Fail)
     else if 70 < c then
       (if 97 \<le> c \<and> c \<le> 102 then Goto [] 44
       else Fail)
     else Goto [] 44)"

definition uri_case44 :: "int \<Rightarrow> uri_action goto" where
  "uri_case44 c =
    (if c = 58 then Goto [] 48
     else if c < 65 then
       (if 48 \<le> c \<and> c \<le> 57 then Goto [] 45
       else Fail)
     else if 70 < c then
       (if 97 \<le> c \<and> c \<le> 102 then Goto [] 45
       else Fail)
     else Goto [] 45)"

definition uri_case45 :: "int \<Rightarrow> uri_action goto" where
  "uri_case45 c =
    (if c = 58 then Goto [] 48
     else if c < 65 then
       (if 48 \<le> c \<and> c \<le> 57 then Goto [] 46
       else Fail)
     else if 70 < c then
       (if 97 \<le> c \<and> c \<le> 102 then Goto [] 46
       else Fail)
     else Goto [] 46)"

definition uri_case46 :: "int \<Rightarrow> uri_action goto" where
  "uri_case46 c =
    (if c = 58 then Goto [] 48
     else if c < 65 then
       (if 48 \<le> c \<and> c \<le> 57 then Goto [] 47
       else Fail)
     else if 70 < c then
       (if 97 \<le> c \<and> c \<le> 102 then Goto [] 47
       else Fail)
     else Goto [] 47)"

definition uri_case47 :: "int \<Rightarrow> uri_action goto" where
  "uri_case47 c =
    (if c = 58 then Goto [] 48
     else Fail)"

definition uri_case48 :: "int \<Rightarrow> uri_action goto" where
  "uri_case48 c =
    (if c = 58 then Goto [] 136
     else if c < 65 then
       (if 48 \<le> c \<and> c \<le> 57 then Goto [] 49
       else Fail)
     else if 70 < c then
       (if 97 \<le> c \<and> c \<le> 102 then Goto [] 49
       else Fail)
     else Goto [] 49)"

definition uri_case49 :: "int \<Rightarrow> uri_action goto" where
  "uri_case49 c =
    (if c = 58 then Goto [] 53
     else if c < 65 then
       (if 48 \<le> c \<and> c \<le> 57 then Goto [] 50
       else Fail)
     else if 70 < c then
       (if 97 \<le> c \<and> c \<le> 102 then Goto [] 50
       else Fail)
     else Goto [] 50)"

definition uri_case50 :: "int \<Rightarrow> uri_action goto" where
  "uri_case50 c =
    (if c = 58 then Goto [] 53
     else if c < 65 then
       (if 48 \<le> c \<and> c \<le> 57 then Goto [] 51
       else Fail)
     else if 70 < c then
       (if 97 \<le> c \<and> c \<le> 102 then Goto [] 51
       else Fail)
     else Goto [] 51)"

definition uri_case51 :: "int \<Rightarrow> uri_action goto" where
  "uri_case51 c =
    (if c = 58 then Goto [] 53
     else if c < 65 then
       (if 48 \<le> c \<and> c \<le> 57 then Goto [] 52
       else Fail)
     else if 70 < c then
       (if 97 \<le> c \<and> c \<le> 102 then Goto [] 52
       else Fail)
     else Goto [] 52)"

definition uri_case52 :: "int \<Rightarrow> uri_action goto" where
  "uri_case52 c =
    (if c = 58 then Goto [] 53
     else Fail)"

definition uri_case53 :: "int \<Rightarrow> uri_action goto" where
  "uri_case53 c =
    (if c = 58 then Goto [] 131
     else if c < 65 then
       (if 48 \<le> c \<and> c \<le> 57 then Goto [] 54
       else Fail)
     else if 70 < c then
       (if 97 \<le> c \<and> c \<le> 102 then Goto [] 54
       else Fail)
     else Goto [] 54)"

definition uri_case54 :: "int \<Rightarrow> uri_action goto" where
  "uri_case54 c =
    (if c = 58 then Goto [] 58
     else if c < 65 then
       (if 48 \<le> c \<and> c \<le> 57 then Goto [] 55
       else Fail)
     else if 70 < c then
       (if 97 \<le> c \<and> c \<le> 102 then Goto [] 55
       else Fail)
     else Goto [] 55)"

definition uri_case55 :: "int \<Rightarrow> uri_action goto" where
  "uri_case55 c =
    (if c = 58 then Goto [] 58
     else if c < 65 then
       (if 48 \<le> c \<and> c \<le> 57 then Goto [] 56
       else Fail)
     else if 70 < c then
       (if 97 \<le> c \<and> c \<le> 102 then Goto [] 56
       else Fail)
     else Goto [] 56)"

definition uri_case56 :: "int \<Rightarrow> uri_action goto" where
  "uri_case56 c =
    (if c = 58 then Goto [] 58
     else if c < 65 then
       (if 48 \<le> c \<and> c \<le> 57 then Goto [] 57
       else Fail)
     else if 70 < c then
       (if 97 \<le> c \<and> c \<le> 102 then Goto [] 57
       else Fail)
     else Goto [] 57)"

definition uri_case57 :: "int \<Rightarrow> uri_action goto" where
  "uri_case57 c =
    (if c = 58 then Goto [] 58
     else Fail)"

definition uri_case58 :: "int \<Rightarrow> uri_action goto" where
  "uri_case58 c =
    (if c = 58 then Goto [] 126
     else if c < 65 then
       (if 48 \<le> c \<and> c \<le> 57 then Goto [] 59
       else Fail)
     else if 70 < c then
       (if 97 \<le> c \<and> c \<le> 102 then Goto [] 59
       else Fail)
     else Goto [] 59)"

definition uri_case59 :: "int \<Rightarrow> uri_action goto" where
  "uri_case59 c =
    (if c = 58 then Goto [] 63
     else if c < 65 then
       (if 48 \<le> c \<and> c \<le> 57 then Goto [] 60
       else Fail)
     else if 70 < c then
       (if 97 \<le> c \<and> c \<le> 102 then Goto [] 60
       else Fail)
     else Goto [] 60)"

definition uri_case60 :: "int \<Rightarrow> uri_action goto" where
  "uri_case60 c =
    (if c = 58 then Goto [] 63
     else if c < 65 then
       (if 48 \<le> c \<and> c \<le> 57 then Goto [] 61
       else Fail)
     else if 70 < c then
       (if 97 \<le> c \<and> c \<le> 102 then Goto [] 61
       else Fail)
     else Goto [] 61)"

definition uri_case61 :: "int \<Rightarrow> uri_action goto" where
  "uri_case61 c =
    (if c = 58 then Goto [] 63
     else if c < 65 then
       (if 48 \<le> c \<and> c \<le> 57 then Goto [] 62
       else Fail)
     else if 70 < c then
       (if 97 \<le> c \<and> c \<le> 102 then Goto [] 62
       else Fail)
     else Goto [] 62)"

definition uri_case62 :: "int \<Rightarrow> uri_action goto" where
  "uri_case62 c =
    (if c = 58 then Goto [] 63
     else Fail)"

definition uri_case63 :: "int \<Rightarrow> uri_action goto" where
  "uri_case63 c =
    (if c = 58 then Goto [] 113
     else if c < 65 then
       (if 48 \<le> c \<and> c \<le> 57 then Goto [] 64
       else Fail)
     else if 70 < c then
       (if 97 \<le> c \<and> c \<le> 102 then Goto [] 64
       else Fail)
     else Goto [] 64)"

definition uri_case64 :: "int \<Rightarrow> uri_action goto" where
  "uri_case64 c =
    (if c = 58 then Goto [] 68
     else if c < 65 then
       (if 48 \<le> c \<and> c \<le> 57 then Goto [] 65
       else Fail)
     else if 70 < c then
       (if 97 \<le> c \<and> c \<le> 102 then Goto [] 65
       else Fail)
     else Goto [] 65)"

definition uri_case65 :: "int \<Rightarrow> uri_action goto" where
  "uri_case65 c =
    (if c = 58 then Goto [] 68
     else if c < 65 then
       (if 48 \<le> c \<and> c \<le> 57 then Goto [] 66
       else Fail)
     else if 70 < c then
       (if 97 \<le> c \<and> c \<le> 102 then Goto [] 66
       else Fail)
     else Goto [] 66)"

definition uri_case66 :: "int \<Rightarrow> uri_action goto" where
  "uri_case66 c =
    (if c = 58 then Goto [] 68
     else if c < 65 then
       (if 48 \<le> c \<and> c \<le> 57 then Goto [] 67
       else Fail)
     else if 70 < c then
       (if 97 \<le> c \<and> c \<le> 102 then Goto [] 67
       else Fail)
     else Goto [] 67)"

definition uri_case67 :: "int \<Rightarrow> uri_action goto" where
  "uri_case67 c =
    (if c = 58 then Goto [] 68
     else Fail)"

definition uri_case68 :: "int \<Rightarrow> uri_action goto" where
  "uri_case68 c =
    (if c = 2 then Goto [] 69
     else if c = 48 then Goto [] 96
     else if c = 49 then Goto [] 104
     else if c = 50 then Goto [] 107
     else if c = 58 then Goto [] 111
     else if c < 65 then
       (if 51 \<le> c \<and> c \<le> 57 then Goto [] 110
       else Fail)
     else if 70 < c then
       (if 97 \<le> c \<and> c \<le> 102 then Goto [] 112
       else Fail)
     else Goto [] 112)"

definition uri_case69 :: "int \<Rightarrow> uri_action goto" where
  "uri_case69 c =
    (if 48 \<le> c \<and> c \<le> 52 then Goto [] 70
     else Fail)"

definition uri_case70 :: "int \<Rightarrow> uri_action goto" where
  "uri_case70 c =
    (if 48 \<le> c \<and> c \<le> 57 then Goto [] 71
     else Fail)"

definition uri_case71 :: "int \<Rightarrow> uri_action goto" where
  "uri_case71 c =
    (if c = 46 then Goto [] 72
     else Fail)"

definition uri_case72 :: "int \<Rightarrow> uri_action goto" where
  "uri_case72 c =
    (if c = 2 then Goto [] 73
     else if c = 48 then Goto [] 75
     else if c = 49 then Goto [] 92
     else if c = 50 then Goto [] 94
     else if 51 \<le> c \<and> c \<le> 57 then Goto [] 93
     else Fail)"

definition uri_case73 :: "int \<Rightarrow> uri_action goto" where
  "uri_case73 c =
    (if 48 \<le> c \<and> c \<le> 52 then Goto [] 74
     else Fail)"

definition uri_case74 :: "int \<Rightarrow> uri_action goto" where
  "uri_case74 c =
    (if 48 \<le> c \<and> c \<le> 57 then Goto [] 75
     else Fail)"

definition uri_case75 :: "int \<Rightarrow> uri_action goto" where
  "uri_case75 c =
    (if c = 46 then Goto [] 76
     else Fail)"

definition uri_case76 :: "int \<Rightarrow> uri_action goto" where
  "uri_case76 c =
    (if c = 2 then Goto [] 77
     else if c = 48 then Goto [] 79
     else if c = 49 then Goto [] 88
     else if c = 50 then Goto [] 90
     else if 51 \<le> c \<and> c \<le> 57 then Goto [] 89
     else Fail)"

definition uri_case77 :: "int \<Rightarrow> uri_action goto" where
  "uri_case77 c =
    (if 48 \<le> c \<and> c \<le> 52 then Goto [] 78
     else Fail)"

definition uri_case78 :: "int \<Rightarrow> uri_action goto" where
  "uri_case78 c =
    (if 48 \<le> c \<and> c \<le> 57 then Goto [] 79
     else Fail)"

definition uri_case79 :: "int \<Rightarrow> uri_action goto" where
  "uri_case79 c =
    (if c = 46 then Goto [] 80
     else Fail)"

definition uri_case80 :: "int \<Rightarrow> uri_action goto" where
  "uri_case80 c =
    (if c = 2 then Goto [] 81
     else if c = 48 then Goto [] 83
     else if c = 49 then Goto [] 84
     else if c = 50 then Goto [] 86
     else if 51 \<le> c \<and> c \<le> 57 then Goto [] 85
     else Fail)"

definition uri_case81 :: "int \<Rightarrow> uri_action goto" where
  "uri_case81 c =
    (if 48 \<le> c \<and> c \<le> 52 then Goto [] 82
     else Fail)"

definition uri_case82 :: "int \<Rightarrow> uri_action goto" where
  "uri_case82 c =
    (if 48 \<le> c \<and> c \<le> 57 then Goto [] 83
     else Fail)"

definition uri_case83 :: "int \<Rightarrow> uri_action goto" where
  "uri_case83 c =
    (if c = 93 then Goto [] 460
     else Fail)"

definition uri_case84 :: "int \<Rightarrow> uri_action goto" where
  "uri_case84 c =
    (if c = 93 then Goto [] 460
     else if 48 \<le> c \<and> c \<le> 57 then Goto [] 85
     else Fail)"

definition uri_case85 :: "int \<Rightarrow> uri_action goto" where
  "uri_case85 c =
    (if c = 93 then Goto [] 460
     else if 48 \<le> c \<and> c \<le> 57 then Goto [] 83
     else Fail)"

definition uri_case86 :: "int \<Rightarrow> uri_action goto" where
  "uri_case86 c =
    (if c = 53 then Goto [] 87
     else if c = 93 then Goto [] 460
     else if 48 \<le> c \<and> c \<le> 57 then Goto [] 83
     else Fail)"

definition uri_case87 :: "int \<Rightarrow> uri_action goto" where
  "uri_case87 c =
    (if c = 93 then Goto [] 460
     else if 48 \<le> c \<and> c \<le> 53 then Goto [] 83
     else Fail)"

definition uri_case88 :: "int \<Rightarrow> uri_action goto" where
  "uri_case88 c =
    (if c = 46 then Goto [] 80
     else if 48 \<le> c \<and> c \<le> 57 then Goto [] 89
     else Fail)"

definition uri_case89 :: "int \<Rightarrow> uri_action goto" where
  "uri_case89 c =
    (if c = 46 then Goto [] 80
     else if 48 \<le> c \<and> c \<le> 57 then Goto [] 79
     else Fail)"

definition uri_case90 :: "int \<Rightarrow> uri_action goto" where
  "uri_case90 c =
    (if c = 46 then Goto [] 80
     else if c = 53 then Goto [] 91
     else if 48 \<le> c \<and> c \<le> 57 then Goto [] 79
     else Fail)"

definition uri_case91 :: "int \<Rightarrow> uri_action goto" where
  "uri_case91 c =
    (if c = 46 then Goto [] 80
     else if 48 \<le> c \<and> c \<le> 53 then Goto [] 79
     else Fail)"

definition uri_case92 :: "int \<Rightarrow> uri_action goto" where
  "uri_case92 c =
    (if c = 46 then Goto [] 76
     else if 48 \<le> c \<and> c \<le> 57 then Goto [] 93
     else Fail)"

definition uri_case93 :: "int \<Rightarrow> uri_action goto" where
  "uri_case93 c =
    (if c = 46 then Goto [] 76
     else if 48 \<le> c \<and> c \<le> 57 then Goto [] 75
     else Fail)"

definition uri_case94 :: "int \<Rightarrow> uri_action goto" where
  "uri_case94 c =
    (if c = 46 then Goto [] 76
     else if c = 53 then Goto [] 95
     else if 48 \<le> c \<and> c \<le> 57 then Goto [] 75
     else Fail)"

definition uri_case95 :: "int \<Rightarrow> uri_action goto" where
  "uri_case95 c =
    (if c = 46 then Goto [] 76
     else if 48 \<le> c \<and> c \<le> 53 then Goto [] 75
     else Fail)"

definition uri_case96 :: "int \<Rightarrow> uri_action goto" where
  "uri_case96 c =
    (if c = 46 then Goto [] 72
     else if c = 58 then Goto [] 100
     else if c < 65 then
       (if 48 \<le> c \<and> c \<le> 57 then Goto [] 97
       else Fail)
     else if 70 < c then
       (if 97 \<le> c \<and> c \<le> 102 then Goto [] 97
       else Fail)
     else Goto [] 97)"

definition uri_case97 :: "int \<Rightarrow> uri_action goto" where
  "uri_case97 c =
    (if c = 58 then Goto [] 100
     else if c < 65 then
       (if 48 \<le> c \<and> c \<le> 57 then Goto [] 98
       else Fail)
     else if 70 < c then
       (if 97 \<le> c \<and> c \<le> 102 then Goto [] 98
       else Fail)
     else Goto [] 98)"

definition uri_case98 :: "int \<Rightarrow> uri_action goto" where
  "uri_case98 c =
    (if c = 58 then Goto [] 100
     else if c < 65 then
       (if 48 \<le> c \<and> c \<le> 57 then Goto [] 99
       else Fail)
     else if 70 < c then
       (if 97 \<le> c \<and> c \<le> 102 then Goto [] 99
       else Fail)
     else Goto [] 99)"

definition uri_case99 :: "int \<Rightarrow> uri_action goto" where
  "uri_case99 c =
    (if c = 58 then Goto [] 100
     else Fail)"

definition uri_case100 :: "int \<Rightarrow> uri_action goto" where
  "uri_case100 c =
    (if c = 58 then Goto [] 83
     else if c < 65 then
       (if 48 \<le> c \<and> c \<le> 57 then Goto [] 101
       else Fail)
     else if 70 < c then
       (if 97 \<le> c \<and> c \<le> 102 then Goto [] 101
       else Fail)
     else Goto [] 101)"

definition uri_case101 :: "int \<Rightarrow> uri_action goto" where
  "uri_case101 c =
    (if c = 93 then Goto [] 460
     else if c < 65 then
       (if 48 \<le> c \<and> c \<le> 57 then Goto [] 102
       else Fail)
     else if 70 < c then
       (if 97 \<le> c \<and> c \<le> 102 then Goto [] 102
       else Fail)
     else Goto [] 102)"

definition uri_case102 :: "int \<Rightarrow> uri_action goto" where
  "uri_case102 c =
    (if c = 93 then Goto [] 460
     else if c < 65 then
       (if 48 \<le> c \<and> c \<le> 57 then Goto [] 103
       else Fail)
     else if 70 < c then
       (if 97 \<le> c \<and> c \<le> 102 then Goto [] 103
       else Fail)
     else Goto [] 103)"

definition uri_case103 :: "int \<Rightarrow> uri_action goto" where
  "uri_case103 c =
    (if c = 93 then Goto [] 460
     else if c < 65 then
       (if 48 \<le> c \<and> c \<le> 57 then Goto [] 83
       else Fail)
     else if 70 < c then
       (if 97 \<le> c \<and> c \<le> 102 then Goto [] 83
       else Fail)
     else Goto [] 83)"

definition uri_case104 :: "int \<Rightarrow> uri_action goto" where
  "uri_case104 c =
    (if c = 46 then Goto [] 72
     else if c = 58 then Goto [] 100
     else if c < 65 then
       (if 48 \<le> c \<and> c \<le> 57 then Goto [] 105
       else Fail)
     else if 70 < c then
       (if 97 \<le> c \<and> c \<le> 102 then Goto [] 97
       else Fail)
     else Goto [] 97)"

definition uri_case105 :: "int \<Rightarrow> uri_action goto" where
  "uri_case105 c =
    (if c = 46 then Goto [] 72
     else if c = 58 then Goto [] 100
     else if c < 65 then
       (if 48 \<le> c \<and> c \<le> 57 then Goto [] 106
       else Fail)
     else if 70 < c then
       (if 97 \<le> c \<and> c \<le> 102 then Goto [] 98
       else Fail)
     else Goto [] 98)"

definition uri_case106 :: "int \<Rightarrow> uri_action goto" where
  "uri_case106 c =
    (if c = 46 then Goto [] 72
     else if c = 58 then Goto [] 100
     else if c < 65 then
       (if 48 \<le> c \<and> c \<le> 57 then Goto [] 99
       else Fail)
     else if 70 < c then
       (if 97 \<le> c \<and> c \<le> 102 then Goto [] 99
       else Fail)
     else Goto [] 99)"

definition uri_case107 :: "int \<Rightarrow> uri_action goto" where
  "uri_case107 c =
    (if c = 46 then Goto [] 72
     else if c = 53 then Goto [] 109
     else if c = 58 then Goto [] 100
     else if c < 65 then
       (if 48 \<le> c \<and> c \<le> 57 then Goto [] 108
       else Fail)
     else if 70 < c then
       (if 97 \<le> c \<and> c \<le> 102 then Goto [] 97
       else Fail)
     else Goto [] 97)"

definition uri_case108 :: "int \<Rightarrow> uri_action goto" where
  "uri_case108 c =
    (if c = 46 then Goto [] 72
     else if c = 58 then Goto [] 100
     else if c < 65 then
       (if 48 \<le> c \<and> c \<le> 57 then Goto [] 98
       else Fail)
     else if 70 < c then
       (if 97 \<le> c \<and> c \<le> 102 then Goto [] 98
       else Fail)
     else Goto [] 98)"

definition uri_case109 :: "int \<Rightarrow> uri_action goto" where
  "uri_case109 c =
    (if c = 46 then Goto [] 72
     else if c = 58 then Goto [] 100
     else if c < 54 then
       (if 48 \<le> c \<and> c \<le> 53 then Goto [] 106
       else Fail)
     else if 57 < c then
       (if 70 < c then
         (if 97 \<le> c \<and> c \<le> 102 then Goto [] 98
         else Fail)
       else if 65 \<le> c then Goto [] 98
       else Fail)
     else Goto [] 98)"

definition uri_case110 :: "int \<Rightarrow> uri_action goto" where
  "uri_case110 c =
    (if c = 46 then Goto [] 72
     else if c = 58 then Goto [] 100
     else if c < 65 then
       (if 48 \<le> c \<and> c \<le> 57 then Goto [] 108
       else Fail)
     else if 70 < c then
       (if 97 \<le> c \<and> c \<le> 102 then Goto [] 97
       else Fail)
     else Goto [] 97)"

definition uri_case111 :: "int \<Rightarrow> uri_action goto" where
  "uri_case111 c =
    (if c < 65 then
       (if 48 \<le> c \<and> c \<le> 57 then Goto [] 101
       else Fail)
     else if 70 < c then
       (if 97 \<le> c \<and> c \<le> 102 then Goto [] 101
       else Fail)
     else Goto [] 101)"

definition uri_case112 :: "int \<Rightarrow> uri_action goto" where
  "uri_case112 c =
    (if c = 58 then Goto [] 100
     else if c < 65 then
       (if 48 \<le> c \<and> c \<le> 57 then Goto [] 97
       else Fail)
     else if 70 < c then
       (if 97 \<le> c \<and> c \<le> 102 then Goto [] 97
       else Fail)
     else Goto [] 97)"

definition uri_case113 :: "int \<Rightarrow> uri_action goto" where
  "uri_case113 c =
    (if c = 2 then Goto [] 69
     else if c = 48 then Goto [] 114
     else if c = 49 then Goto [] 118
     else if c = 50 then Goto [] 121
     else if c < 65 then
       (if 51 \<le> c \<and> c \<le> 57 then Goto [] 124
       else Fail)
     else if 70 < c then
       (if 97 \<le> c \<and> c \<le> 102 then Goto [] 125
       else Fail)
     else Goto [] 125)"

definition uri_case114 :: "int \<Rightarrow> uri_action goto" where
  "uri_case114 c =
    (if c = 46 then Goto [] 72
     else if c = 58 then Goto [] 111
     else if c < 65 then
       (if 48 \<le> c \<and> c \<le> 57 then Goto [] 115
       else Fail)
     else if 70 < c then
       (if 97 \<le> c \<and> c \<le> 102 then Goto [] 115
       else Fail)
     else Goto [] 115)"

definition uri_case115 :: "int \<Rightarrow> uri_action goto" where
  "uri_case115 c =
    (if c = 58 then Goto [] 111
     else if c < 65 then
       (if 48 \<le> c \<and> c \<le> 57 then Goto [] 116
       else Fail)
     else if 70 < c then
       (if 97 \<le> c \<and> c \<le> 102 then Goto [] 116
       else Fail)
     else Goto [] 116)"

definition uri_case116 :: "int \<Rightarrow> uri_action goto" where
  "uri_case116 c =
    (if c = 58 then Goto [] 111
     else if c < 65 then
       (if 48 \<le> c \<and> c \<le> 57 then Goto [] 117
       else Fail)
     else if 70 < c then
       (if 97 \<le> c \<and> c \<le> 102 then Goto [] 117
       else Fail)
     else Goto [] 117)"

definition uri_case117 :: "int \<Rightarrow> uri_action goto" where
  "uri_case117 c =
    (if c = 58 then Goto [] 111
     else Fail)"

definition uri_case118 :: "int \<Rightarrow> uri_action goto" where
  "uri_case118 c =
    (if c = 46 then Goto [] 72
     else if c = 58 then Goto [] 111
     else if c < 65 then
       (if 48 \<le> c \<and> c \<le> 57 then Goto [] 119
       else Fail)
     else if 70 < c then
       (if 97 \<le> c \<and> c \<le> 102 then Goto [] 115
       else Fail)
     else Goto [] 115)"

definition uri_case119 :: "int \<Rightarrow> uri_action goto" where
  "uri_case119 c =
    (if c = 46 then Goto [] 72
     else if c = 58 then Goto [] 111
     else if c < 65 then
       (if 48 \<le> c \<and> c \<le> 57 then Goto [] 120
       else Fail)
     else if 70 < c then
       (if 97 \<le> c \<and> c \<le> 102 then Goto [] 116
       else Fail)
     else Goto [] 116)"

definition uri_case120 :: "int \<Rightarrow> uri_action goto" where
  "uri_case120 c =
    (if c = 46 then Goto [] 72
     else if c = 58 then Goto [] 111
     else if c < 65 then
       (if 48 \<le> c \<and> c \<le> 57 then Goto [] 117
       else Fail)
     else if 70 < c then
       (if 97 \<le> c \<and> c \<le> 102 then Goto [] 117
       else Fail)
     else Goto [] 117)"

definition uri_case121 :: "int \<Rightarrow> uri_action goto" where
  "uri_case121 c =
    (if c = 46 then Goto [] 72
     else if c = 53 then Goto [] 123
     else if c = 58 then Goto [] 111
     else if c < 65 then
       (if 48 \<le> c \<and> c \<le> 57 then Goto [] 122
       else Fail)
     else if 70 < c then
       (if 97 \<le> c \<and> c \<le> 102 then Goto [] 115
       else Fail)
     else Goto [] 115)"

definition uri_case122 :: "int \<Rightarrow> uri_action goto" where
  "uri_case122 c =
    (if c = 46 then Goto [] 72
     else if c = 58 then Goto [] 111
     else if c < 65 then
       (if 48 \<le> c \<and> c \<le> 57 then Goto [] 116
       else Fail)
     else if 70 < c then
       (if 97 \<le> c \<and> c \<le> 102 then Goto [] 116
       else Fail)
     else Goto [] 116)"

definition uri_case123 :: "int \<Rightarrow> uri_action goto" where
  "uri_case123 c =
    (if c = 46 then Goto [] 72
     else if c = 58 then Goto [] 111
     else if c < 54 then
       (if 48 \<le> c \<and> c \<le> 53 then Goto [] 120
       else Fail)
     else if 57 < c then
       (if 70 < c then
         (if 97 \<le> c \<and> c \<le> 102 then Goto [] 116
         else Fail)
       else if 65 \<le> c then Goto [] 116
       else Fail)
     else Goto [] 116)"

definition uri_case124 :: "int \<Rightarrow> uri_action goto" where
  "uri_case124 c =
    (if c = 46 then Goto [] 72
     else if c = 58 then Goto [] 111
     else if c < 65 then
       (if 48 \<le> c \<and> c \<le> 57 then Goto [] 122
       else Fail)
     else if 70 < c then
       (if 97 \<le> c \<and> c \<le> 102 then Goto [] 115
       else Fail)
     else Goto [] 115)"

definition uri_case125 :: "int \<Rightarrow> uri_action goto" where
  "uri_case125 c =
    (if c = 58 then Goto [] 111
     else if c < 65 then
       (if 48 \<le> c \<and> c \<le> 57 then Goto [] 115
       else Fail)
     else if 70 < c then
       (if 97 \<le> c \<and> c \<le> 102 then Goto [] 115
       else Fail)
     else Goto [] 115)"

definition uri_case126 :: "int \<Rightarrow> uri_action goto" where
  "uri_case126 c =
    (if c < 65 then
       (if 48 \<le> c \<and> c \<le> 57 then Goto [] 127
       else Fail)
     else if 70 < c then
       (if 97 \<le> c \<and> c \<le> 102 then Goto [] 127
       else Fail)
     else Goto [] 127)"

definition uri_case127 :: "int \<Rightarrow> uri_action goto" where
  "uri_case127 c =
    (if c = 58 then Goto [] 113
     else if c < 65 then
       (if 48 \<le> c \<and> c \<le> 57 then Goto [] 128
       else Fail)
     else if 70 < c then
       (if 97 \<le> c \<and> c \<le> 102 then Goto [] 128
       else Fail)
     else Goto [] 128)"

definition uri_case128 :: "int \<Rightarrow> uri_action goto" where
  "uri_case128 c =
    (if c = 58 then Goto [] 113
     else if c < 65 then
       (if 48 \<le> c \<and> c \<le> 57 then Goto [] 129
       else Fail)
     else if 70 < c then
       (if 97 \<le> c \<and> c \<le> 102 then Goto [] 129
       else Fail)
     else Goto [] 129)"

definition uri_case129 :: "int \<Rightarrow> uri_action goto" where
  "uri_case129 c =
    (if c = 58 then Goto [] 113
     else if c < 65 then
       (if 48 \<le> c \<and> c \<le> 57 then Goto [] 130
       else Fail)
     else if 70 < c then
       (if 97 \<le> c \<and> c \<le> 102 then Goto [] 130
       else Fail)
     else Goto [] 130)"

definition uri_case130 :: "int \<Rightarrow> uri_action goto" where
  "uri_case130 c =
    (if c = 58 then Goto [] 113
     else Fail)"

definition uri_case131 :: "int \<Rightarrow> uri_action goto" where
  "uri_case131 c =
    (if c < 65 then
       (if 48 \<le> c \<and> c \<le> 57 then Goto [] 132
       else Fail)
     else if 70 < c then
       (if 97 \<le> c \<and> c \<le> 102 then Goto [] 132
       else Fail)
     else Goto [] 132)"

definition uri_case132 :: "int \<Rightarrow> uri_action goto" where
  "uri_case132 c =
    (if c = 58 then Goto [] 126
     else if c < 65 then
       (if 48 \<le> c \<and> c \<le> 57 then Goto [] 133
       else Fail)
     else if 70 < c then
       (if 97 \<le> c \<and> c \<le> 102 then Goto [] 133
       else Fail)
     else Goto [] 133)"

definition uri_case133 :: "int \<Rightarrow> uri_action goto" where
  "uri_case133 c =
    (if c = 58 then Goto [] 126
     else if c < 65 then
       (if 48 \<le> c \<and> c \<le> 57 then Goto [] 134
       else Fail)
     else if 70 < c then
       (if 97 \<le> c \<and> c \<le> 102 then Goto [] 134
       else Fail)
     else Goto [] 134)"

definition uri_case134 :: "int \<Rightarrow> uri_action goto" where
  "uri_case134 c =
    (if c = 58 then Goto [] 126
     else if c < 65 then
       (if 48 \<le> c \<and> c \<le> 57 then Goto [] 135
       else Fail)
     else if 70 < c then
       (if 97 \<le> c \<and> c \<le> 102 then Goto [] 135
       else Fail)
     else Goto [] 135)"

definition uri_case135 :: "int \<Rightarrow> uri_action goto" where
  "uri_case135 c =
    (if c = 58 then Goto [] 126
     else Fail)"

definition uri_case136 :: "int \<Rightarrow> uri_action goto" where
  "uri_case136 c =
    (if c < 65 then
       (if 48 \<le> c \<and> c \<le> 57 then Goto [] 137
       else Fail)
     else if 70 < c then
       (if 97 \<le> c \<and> c \<le> 102 then Goto [] 137
       else Fail)
     else Goto [] 137)"

definition uri_case137 :: "int \<Rightarrow> uri_action goto" where
  "uri_case137 c =
    (if c = 58 then Goto [] 131
     else if c < 65 then
       (if 48 \<le> c \<and> c \<le> 57 then Goto [] 138
       else Fail)
     else if 70 < c then
       (if 97 \<le> c \<and> c \<le> 102 then Goto [] 138
       else Fail)
     else Goto [] 138)"

definition uri_case138 :: "int \<Rightarrow> uri_action goto" where
  "uri_case138 c =
    (if c = 58 then Goto [] 131
     else if c < 65 then
       (if 48 \<le> c \<and> c \<le> 57 then Goto [] 139
       else Fail)
     else if 70 < c then
       (if 97 \<le> c \<and> c \<le> 102 then Goto [] 139
       else Fail)
     else Goto [] 139)"

definition uri_case139 :: "int \<Rightarrow> uri_action goto" where
  "uri_case139 c =
    (if c = 58 then Goto [] 131
     else if c < 65 then
       (if 48 \<le> c \<and> c \<le> 57 then Goto [] 140
       else Fail)
     else if 70 < c then
       (if 97 \<le> c \<and> c \<le> 102 then Goto [] 140
       else Fail)
     else Goto [] 140)"

definition uri_case140 :: "int \<Rightarrow> uri_action goto" where
  "uri_case140 c =
    (if c = 58 then Goto [] 131
     else Fail)"

definition uri_case141 :: "int \<Rightarrow> uri_action goto" where
  "uri_case141 c =
    (if c < 65 then
       (if 48 \<le> c \<and> c \<le> 57 then Goto [] 142
       else Fail)
     else if 70 < c then
       (if 97 \<le> c \<and> c \<le> 102 then Goto [] 142
       else Fail)
     else Goto [] 142)"

definition uri_case142 :: "int \<Rightarrow> uri_action goto" where
  "uri_case142 c =
    (if c = 58 then Goto [] 136
     else if c < 65 then
       (if 48 \<le> c \<and> c \<le> 57 then Goto [] 143
       else Fail)
     else if 70 < c then
       (if 97 \<le> c \<and> c \<le> 102 then Goto [] 143
       else Fail)
     else Goto [] 143)"

definition uri_case143 :: "int \<Rightarrow> uri_action goto" where
  "uri_case143 c =
    (if c = 58 then Goto [] 136
     else if c < 65 then
       (if 48 \<le> c \<and> c \<le> 57 then Goto [] 144
       else Fail)
     else if 70 < c then
       (if 97 \<le> c \<and> c \<le> 102 then Goto [] 144
       else Fail)
     else Goto [] 144)"

definition uri_case144 :: "int \<Rightarrow> uri_action goto" where
  "uri_case144 c =
    (if c = 58 then Goto [] 136
     else if c < 65 then
       (if 48 \<le> c \<and> c \<le> 57 then Goto [] 145
       else Fail)
     else if 70 < c then
       (if 97 \<le> c \<and> c \<le> 102 then Goto [] 145
       else Fail)
     else Goto [] 145)"

definition uri_case145 :: "int \<Rightarrow> uri_action goto" where
  "uri_case145 c =
    (if c = 58 then Goto [] 136
     else Fail)"

definition uri_case146 :: "int \<Rightarrow> uri_action goto" where
  "uri_case146 c =
    (if c = 58 then Goto [] 147
     else Fail)"

definition uri_case147 :: "int \<Rightarrow> uri_action goto" where
  "uri_case147 c =
    (if c = 2 then Goto [] 69
     else if c = 48 then Goto [] 148
     else if c = 49 then Goto [] 217
     else if c = 50 then Goto [] 220
     else if c = 93 then Goto [] 460
     else if c < 65 then
       (if 51 \<le> c \<and> c \<le> 57 then Goto [] 223
       else Fail)
     else if 70 < c then
       (if 97 \<le> c \<and> c \<le> 102 then Goto [] 224
       else Fail)
     else Goto [] 224)"

definition uri_case148 :: "int \<Rightarrow> uri_action goto" where
  "uri_case148 c =
    (if c = 46 then Goto [] 72
     else if c = 58 then Goto [] 152
     else if c = 93 then Goto [] 460
     else if c < 65 then
       (if 48 \<le> c \<and> c \<le> 57 then Goto [] 149
       else Fail)
     else if 70 < c then
       (if 97 \<le> c \<and> c \<le> 102 then Goto [] 149
       else Fail)
     else Goto [] 149)"

definition uri_case149 :: "int \<Rightarrow> uri_action goto" where
  "uri_case149 c =
    (if c = 58 then Goto [] 152
     else if c = 93 then Goto [] 460
     else if c < 65 then
       (if 48 \<le> c \<and> c \<le> 57 then Goto [] 150
       else Fail)
     else if 70 < c then
       (if 97 \<le> c \<and> c \<le> 102 then Goto [] 150
       else Fail)
     else Goto [] 150)"

definition uri_case150 :: "int \<Rightarrow> uri_action goto" where
  "uri_case150 c =
    (if c = 58 then Goto [] 152
     else if c = 93 then Goto [] 460
     else if c < 65 then
       (if 48 \<le> c \<and> c \<le> 57 then Goto [] 151
       else Fail)
     else if 70 < c then
       (if 97 \<le> c \<and> c \<le> 102 then Goto [] 151
       else Fail)
     else Goto [] 151)"

definition uri_case151 :: "int \<Rightarrow> uri_action goto" where
  "uri_case151 c =
    (if c = 58 then Goto [] 152
     else if c = 93 then Goto [] 460
     else Fail)"

definition uri_case152 :: "int \<Rightarrow> uri_action goto" where
  "uri_case152 c =
    (if c = 2 then Goto [] 69
     else if c = 48 then Goto [] 153
     else if c = 49 then Goto [] 209
     else if c = 50 then Goto [] 212
     else if c < 65 then
       (if 51 \<le> c \<and> c \<le> 57 then Goto [] 215
       else Fail)
     else if 70 < c then
       (if 97 \<le> c \<and> c \<le> 102 then Goto [] 216
       else Fail)
     else Goto [] 216)"

definition uri_case153 :: "int \<Rightarrow> uri_action goto" where
  "uri_case153 c =
    (if c = 46 then Goto [] 72
     else if c = 58 then Goto [] 157
     else if c = 93 then Goto [] 460
     else if c < 65 then
       (if 48 \<le> c \<and> c \<le> 57 then Goto [] 154
       else Fail)
     else if 70 < c then
       (if 97 \<le> c \<and> c \<le> 102 then Goto [] 154
       else Fail)
     else Goto [] 154)"

definition uri_case154 :: "int \<Rightarrow> uri_action goto" where
  "uri_case154 c =
    (if c = 58 then Goto [] 157
     else if c = 93 then Goto [] 460
     else if c < 65 then
       (if 48 \<le> c \<and> c \<le> 57 then Goto [] 155
       else Fail)
     else if 70 < c then
       (if 97 \<le> c \<and> c \<le> 102 then Goto [] 155
       else Fail)
     else Goto [] 155)"

definition uri_case155 :: "int \<Rightarrow> uri_action goto" where
  "uri_case155 c =
    (if c = 58 then Goto [] 157
     else if c = 93 then Goto [] 460
     else if c < 65 then
       (if 48 \<le> c \<and> c \<le> 57 then Goto [] 156
       else Fail)
     else if 70 < c then
       (if 97 \<le> c \<and> c \<le> 102 then Goto [] 156
       else Fail)
     else Goto [] 156)"

definition uri_case156 :: "int \<Rightarrow> uri_action goto" where
  "uri_case156 c =
    (if c = 58 then Goto [] 157
     else if c = 93 then Goto [] 460
     else Fail)"

definition uri_case157 :: "int \<Rightarrow> uri_action goto" where
  "uri_case157 c =
    (if c = 2 then Goto [] 69
     else if c = 48 then Goto [] 158
     else if c = 49 then Goto [] 201
     else if c = 50 then Goto [] 204
     else if c < 65 then
       (if 51 \<le> c \<and> c \<le> 57 then Goto [] 207
       else Fail)
     else if 70 < c then
       (if 97 \<le> c \<and> c \<le> 102 then Goto [] 208
       else Fail)
     else Goto [] 208)"

definition uri_case158 :: "int \<Rightarrow> uri_action goto" where
  "uri_case158 c =
    (if c = 46 then Goto [] 72
     else if c = 58 then Goto [] 162
     else if c = 93 then Goto [] 460
     else if c < 65 then
       (if 48 \<le> c \<and> c \<le> 57 then Goto [] 159
       else Fail)
     else if 70 < c then
       (if 97 \<le> c \<and> c \<le> 102 then Goto [] 159
       else Fail)
     else Goto [] 159)"

definition uri_case159 :: "int \<Rightarrow> uri_action goto" where
  "uri_case159 c =
    (if c = 58 then Goto [] 162
     else if c = 93 then Goto [] 460
     else if c < 65 then
       (if 48 \<le> c \<and> c \<le> 57 then Goto [] 160
       else Fail)
     else if 70 < c then
       (if 97 \<le> c \<and> c \<le> 102 then Goto [] 160
       else Fail)
     else Goto [] 160)"

definition uri_case160 :: "int \<Rightarrow> uri_action goto" where
  "uri_case160 c =
    (if c = 58 then Goto [] 162
     else if c = 93 then Goto [] 460
     else if c < 65 then
       (if 48 \<le> c \<and> c \<le> 57 then Goto [] 161
       else Fail)
     else if 70 < c then
       (if 97 \<le> c \<and> c \<le> 102 then Goto [] 161
       else Fail)
     else Goto [] 161)"

definition uri_case161 :: "int \<Rightarrow> uri_action goto" where
  "uri_case161 c =
    (if c = 58 then Goto [] 162
     else if c = 93 then Goto [] 460
     else Fail)"

definition uri_case162 :: "int \<Rightarrow> uri_action goto" where
  "uri_case162 c =
    (if c = 2 then Goto [] 69
     else if c = 48 then Goto [] 163
     else if c = 49 then Goto [] 193
     else if c = 50 then Goto [] 196
     else if c < 65 then
       (if 51 \<le> c \<and> c \<le> 57 then Goto [] 199
       else Fail)
     else if 70 < c then
       (if 97 \<le> c \<and> c \<le> 102 then Goto [] 200
       else Fail)
     else Goto [] 200)"

definition uri_case163 :: "int \<Rightarrow> uri_action goto" where
  "uri_case163 c =
    (if c = 46 then Goto [] 72
     else if c = 58 then Goto [] 167
     else if c = 93 then Goto [] 460
     else if c < 65 then
       (if 48 \<le> c \<and> c \<le> 57 then Goto [] 164
       else Fail)
     else if 70 < c then
       (if 97 \<le> c \<and> c \<le> 102 then Goto [] 164
       else Fail)
     else Goto [] 164)"

definition uri_case164 :: "int \<Rightarrow> uri_action goto" where
  "uri_case164 c =
    (if c = 58 then Goto [] 167
     else if c = 93 then Goto [] 460
     else if c < 65 then
       (if 48 \<le> c \<and> c \<le> 57 then Goto [] 165
       else Fail)
     else if 70 < c then
       (if 97 \<le> c \<and> c \<le> 102 then Goto [] 165
       else Fail)
     else Goto [] 165)"

definition uri_case165 :: "int \<Rightarrow> uri_action goto" where
  "uri_case165 c =
    (if c = 58 then Goto [] 167
     else if c = 93 then Goto [] 460
     else if c < 65 then
       (if 48 \<le> c \<and> c \<le> 57 then Goto [] 166
       else Fail)
     else if 70 < c then
       (if 97 \<le> c \<and> c \<le> 102 then Goto [] 166
       else Fail)
     else Goto [] 166)"

definition uri_case166 :: "int \<Rightarrow> uri_action goto" where
  "uri_case166 c =
    (if c = 58 then Goto [] 167
     else if c = 93 then Goto [] 460
     else Fail)"

definition uri_case167 :: "int \<Rightarrow> uri_action goto" where
  "uri_case167 c =
    (if c = 2 then Goto [] 69
     else if c = 48 then Goto [] 168
     else if c = 49 then Goto [] 185
     else if c = 50 then Goto [] 188
     else if c < 65 then
       (if 51 \<le> c \<and> c \<le> 57 then Goto [] 191
       else Fail)
     else if 70 < c then
       (if 97 \<le> c \<and> c \<le> 102 then Goto [] 192
       else Fail)
     else Goto [] 192)"

definition uri_case168 :: "int \<Rightarrow> uri_action goto" where
  "uri_case168 c =
    (if c = 46 then Goto [] 72
     else if c = 58 then Goto [] 172
     else if c = 93 then Goto [] 460
     else if c < 65 then
       (if 48 \<le> c \<and> c \<le> 57 then Goto [] 169
       else Fail)
     else if 70 < c then
       (if 97 \<le> c \<and> c \<le> 102 then Goto [] 169
       else Fail)
     else Goto [] 169)"

definition uri_case169 :: "int \<Rightarrow> uri_action goto" where
  "uri_case169 c =
    (if c = 58 then Goto [] 172
     else if c = 93 then Goto [] 460
     else if c < 65 then
       (if 48 \<le> c \<and> c \<le> 57 then Goto [] 170
       else Fail)
     else if 70 < c then
       (if 97 \<le> c \<and> c \<le> 102 then Goto [] 170
       else Fail)
     else Goto [] 170)"

definition uri_case170 :: "int \<Rightarrow> uri_action goto" where
  "uri_case170 c =
    (if c = 58 then Goto [] 172
     else if c = 93 then Goto [] 460
     else if c < 65 then
       (if 48 \<le> c \<and> c \<le> 57 then Goto [] 171
       else Fail)
     else if 70 < c then
       (if 97 \<le> c \<and> c \<le> 102 then Goto [] 171
       else Fail)
     else Goto [] 171)"

definition uri_case171 :: "int \<Rightarrow> uri_action goto" where
  "uri_case171 c =
    (if c = 58 then Goto [] 172
     else if c = 93 then Goto [] 460
     else Fail)"

definition uri_case172 :: "int \<Rightarrow> uri_action goto" where
  "uri_case172 c =
    (if c = 2 then Goto [] 69
     else if c = 48 then Goto [] 173
     else if c = 49 then Goto [] 177
     else if c = 50 then Goto [] 180
     else if c < 65 then
       (if 51 \<le> c \<and> c \<le> 57 then Goto [] 183
       else Fail)
     else if 70 < c then
       (if 97 \<le> c \<and> c \<le> 102 then Goto [] 184
       else Fail)
     else Goto [] 184)"

definition uri_case173 :: "int \<Rightarrow> uri_action goto" where
  "uri_case173 c =
    (if c = 46 then Goto [] 72
     else if c = 58 then Goto [] 111
     else if c = 93 then Goto [] 460
     else if c < 65 then
       (if 48 \<le> c \<and> c \<le> 57 then Goto [] 174
       else Fail)
     else if 70 < c then
       (if 97 \<le> c \<and> c \<le> 102 then Goto [] 174
       else Fail)
     else Goto [] 174)"

definition uri_case174 :: "int \<Rightarrow> uri_action goto" where
  "uri_case174 c =
    (if c = 58 then Goto [] 111
     else if c = 93 then Goto [] 460
     else if c < 65 then
       (if 48 \<le> c \<and> c \<le> 57 then Goto [] 175
       else Fail)
     else if 70 < c then
       (if 97 \<le> c \<and> c \<le> 102 then Goto [] 175
       else Fail)
     else Goto [] 175)"

definition uri_case175 :: "int \<Rightarrow> uri_action goto" where
  "uri_case175 c =
    (if c = 58 then Goto [] 111
     else if c = 93 then Goto [] 460
     else if c < 65 then
       (if 48 \<le> c \<and> c \<le> 57 then Goto [] 176
       else Fail)
     else if 70 < c then
       (if 97 \<le> c \<and> c \<le> 102 then Goto [] 176
       else Fail)
     else Goto [] 176)"

definition uri_case176 :: "int \<Rightarrow> uri_action goto" where
  "uri_case176 c =
    (if c = 58 then Goto [] 111
     else if c = 93 then Goto [] 460
     else Fail)"

definition uri_case177 :: "int \<Rightarrow> uri_action goto" where
  "uri_case177 c =
    (if c = 46 then Goto [] 72
     else if c = 58 then Goto [] 111
     else if c = 93 then Goto [] 460
     else if c < 65 then
       (if 48 \<le> c \<and> c \<le> 57 then Goto [] 178
       else Fail)
     else if 70 < c then
       (if 97 \<le> c \<and> c \<le> 102 then Goto [] 174
       else Fail)
     else Goto [] 174)"

definition uri_case178 :: "int \<Rightarrow> uri_action goto" where
  "uri_case178 c =
    (if c = 46 then Goto [] 72
     else if c = 58 then Goto [] 111
     else if c = 93 then Goto [] 460
     else if c < 65 then
       (if 48 \<le> c \<and> c \<le> 57 then Goto [] 179
       else Fail)
     else if 70 < c then
       (if 97 \<le> c \<and> c \<le> 102 then Goto [] 175
       else Fail)
     else Goto [] 175)"

definition uri_case179 :: "int \<Rightarrow> uri_action goto" where
  "uri_case179 c =
    (if c = 46 then Goto [] 72
     else if c = 58 then Goto [] 111
     else if c = 93 then Goto [] 460
     else if c < 65 then
       (if 48 \<le> c \<and> c \<le> 57 then Goto [] 176
       else Fail)
     else if 70 < c then
       (if 97 \<le> c \<and> c \<le> 102 then Goto [] 176
       else Fail)
     else Goto [] 176)"

definition uri_case180 :: "int \<Rightarrow> uri_action goto" where
  "uri_case180 c =
    (if c = 46 then Goto [] 72
     else if c = 53 then Goto [] 182
     else if c = 58 then Goto [] 111
     else if c = 93 then Goto [] 460
     else if c < 65 then
       (if 48 \<le> c \<and> c \<le> 57 then Goto [] 181
       else Fail)
     else if 70 < c then
       (if 97 \<le> c \<and> c \<le> 102 then Goto [] 174
       else Fail)
     else Goto [] 174)"

definition uri_case181 :: "int \<Rightarrow> uri_action goto" where
  "uri_case181 c =
    (if c = 46 then Goto [] 72
     else if c = 58 then Goto [] 111
     else if c = 93 then Goto [] 460
     else if c < 65 then
       (if 48 \<le> c \<and> c \<le> 57 then Goto [] 175
       else Fail)
     else if 70 < c then
       (if 97 \<le> c \<and> c \<le> 102 then Goto [] 175
       else Fail)
     else Goto [] 175)"

definition uri_case182 :: "int \<Rightarrow> uri_action goto" where
  "uri_case182 c =
    (if c = 46 then Goto [] 72
     else if c = 58 then Goto [] 111
     else if c = 93 then Goto [] 460
     else if c < 54 then
       (if 48 \<le> c \<and> c \<le> 53 then Goto [] 179
       else Fail)
     else if 57 < c then
       (if 70 < c then
         (if 97 \<le> c \<and> c \<le> 102 then Goto [] 175
         else Fail)
       else if 65 \<le> c then Goto [] 175
       else Fail)
     else Goto [] 175)"

definition uri_case183 :: "int \<Rightarrow> uri_action goto" where
  "uri_case183 c =
    (if c = 46 then Goto [] 72
     else if c = 58 then Goto [] 111
     else if c = 93 then Goto [] 460
     else if c < 65 then
       (if 48 \<le> c \<and> c \<le> 57 then Goto [] 181
       else Fail)
     else if 70 < c then
       (if 97 \<le> c \<and> c \<le> 102 then Goto [] 174
       else Fail)
     else Goto [] 174)"

definition uri_case184 :: "int \<Rightarrow> uri_action goto" where
  "uri_case184 c =
    (if c = 58 then Goto [] 111
     else if c = 93 then Goto [] 460
     else if c < 65 then
       (if 48 \<le> c \<and> c \<le> 57 then Goto [] 174
       else Fail)
     else if 70 < c then
       (if 97 \<le> c \<and> c \<le> 102 then Goto [] 174
       else Fail)
     else Goto [] 174)"

definition uri_case185 :: "int \<Rightarrow> uri_action goto" where
  "uri_case185 c =
    (if c = 46 then Goto [] 72
     else if c = 58 then Goto [] 172
     else if c = 93 then Goto [] 460
     else if c < 65 then
       (if 48 \<le> c \<and> c \<le> 57 then Goto [] 186
       else Fail)
     else if 70 < c then
       (if 97 \<le> c \<and> c \<le> 102 then Goto [] 169
       else Fail)
     else Goto [] 169)"

definition uri_case186 :: "int \<Rightarrow> uri_action goto" where
  "uri_case186 c =
    (if c = 46 then Goto [] 72
     else if c = 58 then Goto [] 172
     else if c = 93 then Goto [] 460
     else if c < 65 then
       (if 48 \<le> c \<and> c \<le> 57 then Goto [] 187
       else Fail)
     else if 70 < c then
       (if 97 \<le> c \<and> c \<le> 102 then Goto [] 170
       else Fail)
     else Goto [] 170)"

definition uri_case187 :: "int \<Rightarrow> uri_action goto" where
  "uri_case187 c =
    (if c = 46 then Goto [] 72
     else if c = 58 then Goto [] 172
     else if c = 93 then Goto [] 460
     else if c < 65 then
       (if 48 \<le> c \<and> c \<le> 57 then Goto [] 171
       else Fail)
     else if 70 < c then
       (if 97 \<le> c \<and> c \<le> 102 then Goto [] 171
       else Fail)
     else Goto [] 171)"

definition uri_case188 :: "int \<Rightarrow> uri_action goto" where
  "uri_case188 c =
    (if c = 46 then Goto [] 72
     else if c = 53 then Goto [] 190
     else if c = 58 then Goto [] 172
     else if c = 93 then Goto [] 460
     else if c < 65 then
       (if 48 \<le> c \<and> c \<le> 57 then Goto [] 189
       else Fail)
     else if 70 < c then
       (if 97 \<le> c \<and> c \<le> 102 then Goto [] 169
       else Fail)
     else Goto [] 169)"

definition uri_case189 :: "int \<Rightarrow> uri_action goto" where
  "uri_case189 c =
    (if c = 46 then Goto [] 72
     else if c = 58 then Goto [] 172
     else if c = 93 then Goto [] 460
     else if c < 65 then
       (if 48 \<le> c \<and> c \<le> 57 then Goto [] 170
       else Fail)
     else if 70 < c then
       (if 97 \<le> c \<and> c \<le> 102 then Goto [] 170
       else Fail)
     else Goto [] 170)"

definition uri_case190 :: "int \<Rightarrow> uri_action goto" where
  "uri_case190 c =
    (if c = 46 then Goto [] 72
     else if c = 58 then Goto [] 172
     else if c = 93 then Goto [] 460
     else if c < 54 then
       (if 48 \<le> c \<and> c \<le> 53 then Goto [] 187
       else Fail)
     else if 57 < c then
       (if 70 < c then
         (if 97 \<le> c \<and> c \<le> 102 then Goto [] 170
         else Fail)
       else if 65 \<le> c then Goto [] 170
       else Fail)
     else Goto [] 170)"

definition uri_case191 :: "int \<Rightarrow> uri_action goto" where
  "uri_case191 c =
    (if c = 46 then Goto [] 72
     else if c = 58 then Goto [] 172
     else if c = 93 then Goto [] 460
     else if c < 65 then
       (if 48 \<le> c \<and> c \<le> 57 then Goto [] 189
       else Fail)
     else if 70 < c then
       (if 97 \<le> c \<and> c \<le> 102 then Goto [] 169
       else Fail)
     else Goto [] 169)"

definition uri_case192 :: "int \<Rightarrow> uri_action goto" where
  "uri_case192 c =
    (if c = 58 then Goto [] 172
     else if c = 93 then Goto [] 460
     else if c < 65 then
       (if 48 \<le> c \<and> c \<le> 57 then Goto [] 169
       else Fail)
     else if 70 < c then
       (if 97 \<le> c \<and> c \<le> 102 then Goto [] 169
       else Fail)
     else Goto [] 169)"

definition uri_case193 :: "int \<Rightarrow> uri_action goto" where
  "uri_case193 c =
    (if c = 46 then Goto [] 72
     else if c = 58 then Goto [] 167
     else if c = 93 then Goto [] 460
     else if c < 65 then
       (if 48 \<le> c \<and> c \<le> 57 then Goto [] 194
       else Fail)
     else if 70 < c then
       (if 97 \<le> c \<and> c \<le> 102 then Goto [] 164
       else Fail)
     else Goto [] 164)"

definition uri_case194 :: "int \<Rightarrow> uri_action goto" where
  "uri_case194 c =
    (if c = 46 then Goto [] 72
     else if c = 58 then Goto [] 167
     else if c = 93 then Goto [] 460
     else if c < 65 then
       (if 48 \<le> c \<and> c \<le> 57 then Goto [] 195
       else Fail)
     else if 70 < c then
       (if 97 \<le> c \<and> c \<le> 102 then Goto [] 165
       else Fail)
     else Goto [] 165)"

definition uri_case195 :: "int \<Rightarrow> uri_action goto" where
  "uri_case195 c =
    (if c = 46 then Goto [] 72
     else if c = 58 then Goto [] 167
     else if c = 93 then Goto [] 460
     else if c < 65 then
       (if 48 \<le> c \<and> c \<le> 57 then Goto [] 166
       else Fail)
     else if 70 < c then
       (if 97 \<le> c \<and> c \<le> 102 then Goto [] 166
       else Fail)
     else Goto [] 166)"

definition uri_case196 :: "int \<Rightarrow> uri_action goto" where
  "uri_case196 c =
    (if c = 46 then Goto [] 72
     else if c = 53 then Goto [] 198
     else if c = 58 then Goto [] 167
     else if c = 93 then Goto [] 460
     else if c < 65 then
       (if 48 \<le> c \<and> c \<le> 57 then Goto [] 197
       else Fail)
     else if 70 < c then
       (if 97 \<le> c \<and> c \<le> 102 then Goto [] 164
       else Fail)
     else Goto [] 164)"

definition uri_case197 :: "int \<Rightarrow> uri_action goto" where
  "uri_case197 c =
    (if c = 46 then Goto [] 72
     else if c = 58 then Goto [] 167
     else if c = 93 then Goto [] 460
     else if c < 65 then
       (if 48 \<le> c \<and> c \<le> 57 then Goto [] 165
       else Fail)
     else if 70 < c then
       (if 97 \<le> c \<and> c \<le> 102 then Goto [] 165
       else Fail)
     else Goto [] 165)"

definition uri_case198 :: "int \<Rightarrow> uri_action goto" where
  "uri_case198 c =
    (if c = 46 then Goto [] 72
     else if c = 58 then Goto [] 167
     else if c = 93 then Goto [] 460
     else if c < 54 then
       (if 48 \<le> c \<and> c \<le> 53 then Goto [] 195
       else Fail)
     else if 57 < c then
       (if 70 < c then
         (if 97 \<le> c \<and> c \<le> 102 then Goto [] 165
         else Fail)
       else if 65 \<le> c then Goto [] 165
       else Fail)
     else Goto [] 165)"

definition uri_case199 :: "int \<Rightarrow> uri_action goto" where
  "uri_case199 c =
    (if c = 46 then Goto [] 72
     else if c = 58 then Goto [] 167
     else if c = 93 then Goto [] 460
     else if c < 65 then
       (if 48 \<le> c \<and> c \<le> 57 then Goto [] 197
       else Fail)
     else if 70 < c then
       (if 97 \<le> c \<and> c \<le> 102 then Goto [] 164
       else Fail)
     else Goto [] 164)"

definition uri_case200 :: "int \<Rightarrow> uri_action goto" where
  "uri_case200 c =
    (if c = 58 then Goto [] 167
     else if c = 93 then Goto [] 460
     else if c < 65 then
       (if 48 \<le> c \<and> c \<le> 57 then Goto [] 164
       else Fail)
     else if 70 < c then
       (if 97 \<le> c \<and> c \<le> 102 then Goto [] 164
       else Fail)
     else Goto [] 164)"

definition uri_case201 :: "int \<Rightarrow> uri_action goto" where
  "uri_case201 c =
    (if c = 46 then Goto [] 72
     else if c = 58 then Goto [] 162
     else if c = 93 then Goto [] 460
     else if c < 65 then
       (if 48 \<le> c \<and> c \<le> 57 then Goto [] 202
       else Fail)
     else if 70 < c then
       (if 97 \<le> c \<and> c \<le> 102 then Goto [] 159
       else Fail)
     else Goto [] 159)"

definition uri_case202 :: "int \<Rightarrow> uri_action goto" where
  "uri_case202 c =
    (if c = 46 then Goto [] 72
     else if c = 58 then Goto [] 162
     else if c = 93 then Goto [] 460
     else if c < 65 then
       (if 48 \<le> c \<and> c \<le> 57 then Goto [] 203
       else Fail)
     else if 70 < c then
       (if 97 \<le> c \<and> c \<le> 102 then Goto [] 160
       else Fail)
     else Goto [] 160)"

definition uri_case203 :: "int \<Rightarrow> uri_action goto" where
  "uri_case203 c =
    (if c = 46 then Goto [] 72
     else if c = 58 then Goto [] 162
     else if c = 93 then Goto [] 460
     else if c < 65 then
       (if 48 \<le> c \<and> c \<le> 57 then Goto [] 161
       else Fail)
     else if 70 < c then
       (if 97 \<le> c \<and> c \<le> 102 then Goto [] 161
       else Fail)
     else Goto [] 161)"

definition uri_case204 :: "int \<Rightarrow> uri_action goto" where
  "uri_case204 c =
    (if c = 46 then Goto [] 72
     else if c = 53 then Goto [] 206
     else if c = 58 then Goto [] 162
     else if c = 93 then Goto [] 460
     else if c < 65 then
       (if 48 \<le> c \<and> c \<le> 57 then Goto [] 205
       else Fail)
     else if 70 < c then
       (if 97 \<le> c \<and> c \<le> 102 then Goto [] 159
       else Fail)
     else Goto [] 159)"

definition uri_case205 :: "int \<Rightarrow> uri_action goto" where
  "uri_case205 c =
    (if c = 46 then Goto [] 72
     else if c = 58 then Goto [] 162
     else if c = 93 then Goto [] 460
     else if c < 65 then
       (if 48 \<le> c \<and> c \<le> 57 then Goto [] 160
       else Fail)
     else if 70 < c then
       (if 97 \<le> c \<and> c \<le> 102 then Goto [] 160
       else Fail)
     else Goto [] 160)"

definition uri_case206 :: "int \<Rightarrow> uri_action goto" where
  "uri_case206 c =
    (if c = 46 then Goto [] 72
     else if c = 58 then Goto [] 162
     else if c = 93 then Goto [] 460
     else if c < 54 then
       (if 48 \<le> c \<and> c \<le> 53 then Goto [] 203
       else Fail)
     else if 57 < c then
       (if 70 < c then
         (if 97 \<le> c \<and> c \<le> 102 then Goto [] 160
         else Fail)
       else if 65 \<le> c then Goto [] 160
       else Fail)
     else Goto [] 160)"

definition uri_case207 :: "int \<Rightarrow> uri_action goto" where
  "uri_case207 c =
    (if c = 46 then Goto [] 72
     else if c = 58 then Goto [] 162
     else if c = 93 then Goto [] 460
     else if c < 65 then
       (if 48 \<le> c \<and> c \<le> 57 then Goto [] 205
       else Fail)
     else if 70 < c then
       (if 97 \<le> c \<and> c \<le> 102 then Goto [] 159
       else Fail)
     else Goto [] 159)"

definition uri_case208 :: "int \<Rightarrow> uri_action goto" where
  "uri_case208 c =
    (if c = 58 then Goto [] 162
     else if c = 93 then Goto [] 460
     else if c < 65 then
       (if 48 \<le> c \<and> c \<le> 57 then Goto [] 159
       else Fail)
     else if 70 < c then
       (if 97 \<le> c \<and> c \<le> 102 then Goto [] 159
       else Fail)
     else Goto [] 159)"

definition uri_case209 :: "int \<Rightarrow> uri_action goto" where
  "uri_case209 c =
    (if c = 46 then Goto [] 72
     else if c = 58 then Goto [] 157
     else if c = 93 then Goto [] 460
     else if c < 65 then
       (if 48 \<le> c \<and> c \<le> 57 then Goto [] 210
       else Fail)
     else if 70 < c then
       (if 97 \<le> c \<and> c \<le> 102 then Goto [] 154
       else Fail)
     else Goto [] 154)"

definition uri_case210 :: "int \<Rightarrow> uri_action goto" where
  "uri_case210 c =
    (if c = 46 then Goto [] 72
     else if c = 58 then Goto [] 157
     else if c = 93 then Goto [] 460
     else if c < 65 then
       (if 48 \<le> c \<and> c \<le> 57 then Goto [] 211
       else Fail)
     else if 70 < c then
       (if 97 \<le> c \<and> c \<le> 102 then Goto [] 155
       else Fail)
     else Goto [] 155)"

definition uri_case211 :: "int \<Rightarrow> uri_action goto" where
  "uri_case211 c =
    (if c = 46 then Goto [] 72
     else if c = 58 then Goto [] 157
     else if c = 93 then Goto [] 460
     else if c < 65 then
       (if 48 \<le> c \<and> c \<le> 57 then Goto [] 156
       else Fail)
     else if 70 < c then
       (if 97 \<le> c \<and> c \<le> 102 then Goto [] 156
       else Fail)
     else Goto [] 156)"

definition uri_case212 :: "int \<Rightarrow> uri_action goto" where
  "uri_case212 c =
    (if c = 46 then Goto [] 72
     else if c = 53 then Goto [] 214
     else if c = 58 then Goto [] 157
     else if c = 93 then Goto [] 460
     else if c < 65 then
       (if 48 \<le> c \<and> c \<le> 57 then Goto [] 213
       else Fail)
     else if 70 < c then
       (if 97 \<le> c \<and> c \<le> 102 then Goto [] 154
       else Fail)
     else Goto [] 154)"

definition uri_case213 :: "int \<Rightarrow> uri_action goto" where
  "uri_case213 c =
    (if c = 46 then Goto [] 72
     else if c = 58 then Goto [] 157
     else if c = 93 then Goto [] 460
     else if c < 65 then
       (if 48 \<le> c \<and> c \<le> 57 then Goto [] 155
       else Fail)
     else if 70 < c then
       (if 97 \<le> c \<and> c \<le> 102 then Goto [] 155
       else Fail)
     else Goto [] 155)"

definition uri_case214 :: "int \<Rightarrow> uri_action goto" where
  "uri_case214 c =
    (if c = 46 then Goto [] 72
     else if c = 58 then Goto [] 157
     else if c = 93 then Goto [] 460
     else if c < 54 then
       (if 48 \<le> c \<and> c \<le> 53 then Goto [] 211
       else Fail)
     else if 57 < c then
       (if 70 < c then
         (if 97 \<le> c \<and> c \<le> 102 then Goto [] 155
         else Fail)
       else if 65 \<le> c then Goto [] 155
       else Fail)
     else Goto [] 155)"

definition uri_case215 :: "int \<Rightarrow> uri_action goto" where
  "uri_case215 c =
    (if c = 46 then Goto [] 72
     else if c = 58 then Goto [] 157
     else if c = 93 then Goto [] 460
     else if c < 65 then
       (if 48 \<le> c \<and> c \<le> 57 then Goto [] 213
       else Fail)
     else if 70 < c then
       (if 97 \<le> c \<and> c \<le> 102 then Goto [] 154
       else Fail)
     else Goto [] 154)"

definition uri_case216 :: "int \<Rightarrow> uri_action goto" where
  "uri_case216 c =
    (if c = 58 then Goto [] 157
     else if c = 93 then Goto [] 460
     else if c < 65 then
       (if 48 \<le> c \<and> c \<le> 57 then Goto [] 154
       else Fail)
     else if 70 < c then
       (if 97 \<le> c \<and> c \<le> 102 then Goto [] 154
       else Fail)
     else Goto [] 154)"

definition uri_case217 :: "int \<Rightarrow> uri_action goto" where
  "uri_case217 c =
    (if c = 46 then Goto [] 72
     else if c = 58 then Goto [] 152
     else if c = 93 then Goto [] 460
     else if c < 65 then
       (if 48 \<le> c \<and> c \<le> 57 then Goto [] 218
       else Fail)
     else if 70 < c then
       (if 97 \<le> c \<and> c \<le> 102 then Goto [] 149
       else Fail)
     else Goto [] 149)"

definition uri_case218 :: "int \<Rightarrow> uri_action goto" where
  "uri_case218 c =
    (if c = 46 then Goto [] 72
     else if c = 58 then Goto [] 152
     else if c = 93 then Goto [] 460
     else if c < 65 then
       (if 48 \<le> c \<and> c \<le> 57 then Goto [] 219
       else Fail)
     else if 70 < c then
       (if 97 \<le> c \<and> c \<le> 102 then Goto [] 150
       else Fail)
     else Goto [] 150)"

definition uri_case219 :: "int \<Rightarrow> uri_action goto" where
  "uri_case219 c =
    (if c = 46 then Goto [] 72
     else if c = 58 then Goto [] 152
     else if c = 93 then Goto [] 460
     else if c < 65 then
       (if 48 \<le> c \<and> c \<le> 57 then Goto [] 151
       else Fail)
     else if 70 < c then
       (if 97 \<le> c \<and> c \<le> 102 then Goto [] 151
       else Fail)
     else Goto [] 151)"

definition uri_case220 :: "int \<Rightarrow> uri_action goto" where
  "uri_case220 c =
    (if c = 46 then Goto [] 72
     else if c = 53 then Goto [] 222
     else if c = 58 then Goto [] 152
     else if c = 93 then Goto [] 460
     else if c < 65 then
       (if 48 \<le> c \<and> c \<le> 57 then Goto [] 221
       else Fail)
     else if 70 < c then
       (if 97 \<le> c \<and> c \<le> 102 then Goto [] 149
       else Fail)
     else Goto [] 149)"

definition uri_case221 :: "int \<Rightarrow> uri_action goto" where
  "uri_case221 c =
    (if c = 46 then Goto [] 72
     else if c = 58 then Goto [] 152
     else if c = 93 then Goto [] 460
     else if c < 65 then
       (if 48 \<le> c \<and> c \<le> 57 then Goto [] 150
       else Fail)
     else if 70 < c then
       (if 97 \<le> c \<and> c \<le> 102 then Goto [] 150
       else Fail)
     else Goto [] 150)"

definition uri_case222 :: "int \<Rightarrow> uri_action goto" where
  "uri_case222 c =
    (if c = 46 then Goto [] 72
     else if c = 58 then Goto [] 152
     else if c = 93 then Goto [] 460
     else if c < 54 then
       (if 48 \<le> c \<and> c \<le> 53 then Goto [] 219
       else Fail)
     else if 57 < c then
       (if 70 < c then
         (if 97 \<le> c \<and> c \<le> 102 then Goto [] 150
         else Fail)
       else if 65 \<le> c then Goto [] 150
       else Fail)
     else Goto [] 150)"

definition uri_case223 :: "int \<Rightarrow> uri_action goto" where
  "uri_case223 c =
    (if c = 46 then Goto [] 72
     else if c = 58 then Goto [] 152
     else if c = 93 then Goto [] 460
     else if c < 65 then
       (if 48 \<le> c \<and> c \<le> 57 then Goto [] 221
       else Fail)
     else if 70 < c then
       (if 97 \<le> c \<and> c \<le> 102 then Goto [] 149
       else Fail)
     else Goto [] 149)"

definition uri_case224 :: "int \<Rightarrow> uri_action goto" where
  "uri_case224 c =
    (if c = 58 then Goto [] 152
     else if c = 93 then Goto [] 460
     else if c < 65 then
       (if 48 \<le> c \<and> c \<le> 57 then Goto [] 149
       else Fail)
     else if 70 < c then
       (if 97 \<le> c \<and> c \<le> 102 then Goto [] 149
       else Fail)
     else Goto [] 149)"

definition uri_case225 :: "int \<Rightarrow> uri_action goto" where
  "uri_case225 c =
    (if c < 65 then
       (if 48 \<le> c \<and> c \<le> 57 then Goto [] 226
       else Fail)
     else if 70 < c then
       (if 97 \<le> c \<and> c \<le> 102 then Goto [] 226
       else Fail)
     else Goto [] 226)"

definition uri_case226 :: "int \<Rightarrow> uri_action goto" where
  "uri_case226 c =
    (if c = 46 then Goto [] 227
     else if c < 65 then
       (if 48 \<le> c \<and> c \<le> 57 then Goto [] 226
       else Fail)
     else if 70 < c then
       (if 97 \<le> c \<and> c \<le> 102 then Goto [] 226
       else Fail)
     else Goto [] 226)"

definition uri_case227 :: "int \<Rightarrow> uri_action goto" where
  "uri_case227 c =
    (if c = 33 \<or> c = 36 \<or> c = 61 \<or> c = 95 \<or> c = 126 then Goto [] 228
     else if c < 48 then
       (if 38 \<le> c \<and> c \<le> 46 then Goto [] 228
       else Fail)
     else if 59 < c then
       (if 90 < c then
         (if 97 \<le> c \<and> c \<le> 122 then Goto [] 228
         else Fail)
       else if 65 \<le> c then Goto [] 228
       else Fail)
     else Goto [] 228)"

definition uri_case228 :: "int \<Rightarrow> uri_action goto" where
  "uri_case228 c =
    (if c = 33 \<or> c = 36 \<or> c = 61 \<or> c = 95 \<or> c = 126 then Goto [] 228
     else if c = 93 then Goto [] 460
     else if c < 48 then
       (if 38 \<le> c \<and> c \<le> 46 then Goto [] 228
       else Fail)
     else if 59 < c then
       (if 90 < c then
         (if 97 \<le> c \<and> c \<le> 122 then Goto [] 228
         else Fail)
       else if 65 \<le> c then Goto [] 228
       else Fail)
     else Goto [] 228)"

definition uri_case489 :: "int \<Rightarrow> uri_action goto" where
  "uri_case489 c =
    (if c = 33 \<or> c = 61 \<or> c = 95 \<or> c = 126 then Goto [] 33
     else if c = 35 then uri_tr493
     else if c = 37 then Goto [] 34
     else if c = 47 then uri_tr494
     else if c = 63 then uri_tr496
     else if c = 64 then uri_tr38
     else if c < 58 then
       (if 46 < c then
         (if 48 \<le> c \<and> c \<le> 57 then Goto [] 489
         else Fail)
       else if 36 \<le> c then Goto [] 33
       else Fail)
     else if 59 < c then
       (if 90 < c then
         (if 97 \<le> c \<and> c \<le> 122 then Goto [] 33
         else Fail)
       else if 65 \<le> c then Goto [] 33
       else Fail)
     else Goto [] 33)"

definition uri_case490 :: "int \<Rightarrow> uri_action goto" where
  "uri_case490 c =
    (if c = 33 \<or> c = 61 \<or> c = 95 \<or> c = 126 then Goto [] 467
     else if c = 35 then uri_tr485
     else if c = 37 then Goto [] 31
     else if c = 46 then Goto [] 491
     else if c = 47 then uri_tr486
     else if c = 58 then uri_tr499
     else if c = 63 then uri_tr488
     else if c = 64 then uri_tr38
     else if c < 65 then
       (if 36 \<le> c \<and> c \<le> 59 then Goto [] 467
       else Fail)
     else if 90 < c then
       (if 97 \<le> c \<and> c \<le> 122 then Goto [] 467
       else Fail)
     else Goto [] 467)"

definition uri_case491 :: "int \<Rightarrow> uri_action goto" where
  "uri_case491 c =
    (if c = 2 then Goto [] 13
     else if c = 33 \<or> c = 59 \<or> c = 61 \<or> c = 95 \<or> c = 126 then Goto [] 467
     else if c = 35 then uri_tr485
     else if c = 37 then Goto [] 31
     else if c = 47 then uri_tr486
     else if c = 48 then Goto [] 492
     else if c = 49 then Goto [] 500
     else if c = 50 then Goto [] 502
     else if c = 58 then uri_tr499
     else if c = 63 then uri_tr488
     else if c = 64 then uri_tr38
     else if c < 51 then
       (if 36 \<le> c \<and> c \<le> 46 then Goto [] 467
       else Fail)
     else if 57 < c then
       (if 90 < c then
         (if 97 \<le> c \<and> c \<le> 122 then Goto [] 467
         else Fail)
       else if 65 \<le> c then Goto [] 467
       else Fail)
     else Goto [] 501)"

definition uri_case492 :: "int \<Rightarrow> uri_action goto" where
  "uri_case492 c =
    (if c = 33 \<or> c = 61 \<or> c = 95 \<or> c = 126 then Goto [] 467
     else if c = 35 then uri_tr485
     else if c = 37 then Goto [] 31
     else if c = 46 then Goto [] 493
     else if c = 47 then uri_tr486
     else if c = 58 then uri_tr499
     else if c = 63 then uri_tr488
     else if c = 64 then uri_tr38
     else if c < 65 then
       (if 36 \<le> c \<and> c \<le> 59 then Goto [] 467
       else Fail)
     else if 90 < c then
       (if 97 \<le> c \<and> c \<le> 122 then Goto [] 467
       else Fail)
     else Goto [] 467)"

definition uri_case493 :: "int \<Rightarrow> uri_action goto" where
  "uri_case493 c =
    (if c = 2 then Goto [] 17
     else if c = 33 \<or> c = 59 \<or> c = 61 \<or> c = 95 \<or> c = 126 then Goto [] 467
     else if c = 35 then uri_tr485
     else if c = 37 then Goto [] 31
     else if c = 47 then uri_tr486
     else if c = 48 then Goto [] 494
     else if c = 49 then Goto [] 496
     else if c = 50 then Goto [] 498
     else if c = 58 then uri_tr499
     else if c = 63 then uri_tr488
     else if c = 64 then uri_tr38
     else if c < 51 then
       (if 36 \<le> c \<and> c \<le> 46 then Goto [] 467
       else Fail)
     else if 57 < c then
       (if 90 < c then
         (if 97 \<le> c \<and> c \<le> 122 then Goto [] 467
         else Fail)
       else if 65 \<le> c then Goto [] 467
       else Fail)
     else Goto [] 497)"

definition uri_case494 :: "int \<Rightarrow> uri_action goto" where
  "uri_case494 c =
    (if c = 33 \<or> c = 61 \<or> c = 95 \<or> c = 126 then Goto [] 467
     else if c = 35 then uri_tr485
     else if c = 37 then Goto [] 31
     else if c = 46 then Goto [] 495
     else if c = 47 then uri_tr486
     else if c = 58 then uri_tr499
     else if c = 63 then uri_tr488
     else if c = 64 then uri_tr38
     else if c < 65 then
       (if 36 \<le> c \<and> c \<le> 59 then Goto [] 467
       else Fail)
     else if 90 < c then
       (if 97 \<le> c \<and> c \<le> 122 then Goto [] 467
       else Fail)
     else Goto [] 467)"

definition uri_case495 :: "int \<Rightarrow> uri_action goto" where
  "uri_case495 c =
    (if c = 2 then Goto [] 21
     else if c = 33 \<or> c = 61 \<or> c = 95 \<or> c = 126 then Goto [] 467
     else if c = 35 then uri_tr485
     else if c = 37 then Goto [] 31
     else if c = 47 then uri_tr486
     else if c = 58 then uri_tr499
     else if c = 63 then uri_tr488
     else if c = 64 then uri_tr38
     else if c < 65 then
       (if 36 \<le> c \<and> c \<le> 59 then Goto [] 467
       else Fail)
     else if 90 < c then
       (if 97 \<le> c \<and> c \<le> 122 then Goto [] 467
       else Fail)
     else Goto [] 467)"

definition uri_case496 :: "int \<Rightarrow> uri_action goto" where
  "uri_case496 c =
    (if c = 33 \<or> c = 59 \<or> c = 61 \<or> c = 95 \<or> c = 126 then Goto [] 467
     else if c = 35 then uri_tr485
     else if c = 37 then Goto [] 31
     else if c = 46 then Goto [] 495
     else if c = 47 then uri_tr486
     else if c = 58 then uri_tr499
     else if c = 63 then uri_tr488
     else if c = 64 then uri_tr38
     else if c < 48 then
       (if 36 \<le> c \<and> c \<le> 45 then Goto [] 467
       else Fail)
     else if 57 < c then
       (if 90 < c then
         (if 97 \<le> c \<and> c \<le> 122 then Goto [] 467
         else Fail)
       else if 65 \<le> c then Goto [] 467
       else Fail)
     else Goto [] 497)"

definition uri_case497 :: "int \<Rightarrow> uri_action goto" where
  "uri_case497 c =
    (if c = 33 \<or> c = 59 \<or> c = 61 \<or> c = 95 \<or> c = 126 then Goto [] 467
     else if c = 35 then uri_tr485
     else if c = 37 then Goto [] 31
     else if c = 46 then Goto [] 495
     else if c = 47 then uri_tr486
     else if c = 58 then uri_tr499
     else if c = 63 then uri_tr488
     else if c = 64 then uri_tr38
     else if c < 48 then
       (if 36 \<le> c \<and> c \<le> 45 then Goto [] 467
       else Fail)
     else if 57 < c then
       (if 90 < c then
         (if 97 \<le> c \<and> c \<le> 122 then Goto [] 467
         else Fail)
       else if 65 \<le> c then Goto [] 467
       else Fail)
     else Goto [] 494)"

definition uri_case498 :: "int \<Rightarrow> uri_action goto" where
  "uri_case498 c =
    (if c = 33 \<or> c = 59 \<or> c = 61 \<or> c = 95 \<or> c = 126 then Goto [] 467
     else if c = 35 then uri_tr485
     else if c = 37 then Goto [] 31
     else if c = 46 then Goto [] 495
     else if c = 47 then uri_tr486
     else if c = 53 then Goto [] 499
     else if c = 58 then uri_tr499
     else if c = 63 then uri_tr488
     else if c = 64 then uri_tr38
     else if c < 48 then
       (if 36 \<le> c \<and> c \<le> 45 then Goto [] 467
       else Fail)
     else if 57 < c then
       (if 90 < c then
         (if 97 \<le> c \<and> c \<le> 122 then Goto [] 467
         else Fail)
       else if 65 \<le> c then Goto [] 467
       else Fail)
     else Goto [] 494)"

definition uri_case499 :: "int \<Rightarrow> uri_action goto" where
  "uri_case499 c =
    (if c = 33 \<or> c = 61 \<or> c = 95 \<or> c = 126 then Goto [] 467
     else if c = 35 then uri_tr485
     else if c = 37 then Goto [] 31
     else if c = 46 then Goto [] 495
     else if c = 47 then uri_tr486
     else if c = 58 then uri_tr499
     else if c = 63 then uri_tr488
     else if c = 64 then uri_tr38
     else if c < 54 then
       (if 45 < c then
         (if 48 \<le> c \<and> c \<le> 53 then Goto [] 494
         else Fail)
       else if 36 \<le> c then Goto [] 467
       else Fail)
     else if 59 < c then
       (if 90 < c then
         (if 97 \<le> c \<and> c \<le> 122 then Goto [] 467
         else Fail)
       else if 65 \<le> c then Goto [] 467
       else Fail)
     else Goto [] 467)"

definition uri_case500 :: "int \<Rightarrow> uri_action goto" where
  "uri_case500 c =
    (if c = 33 \<or> c = 59 \<or> c = 61 \<or> c = 95 \<or> c = 126 then Goto [] 467
     else if c = 35 then uri_tr485
     else if c = 37 then Goto [] 31
     else if c = 46 then Goto [] 493
     else if c = 47 then uri_tr486
     else if c = 58 then uri_tr499
     else if c = 63 then uri_tr488
     else if c = 64 then uri_tr38
     else if c < 48 then
       (if 36 \<le> c \<and> c \<le> 45 then Goto [] 467
       else Fail)
     else if 57 < c then
       (if 90 < c then
         (if 97 \<le> c \<and> c \<le> 122 then Goto [] 467
         else Fail)
       else if 65 \<le> c then Goto [] 467
       else Fail)
     else Goto [] 501)"

definition uri_case501 :: "int \<Rightarrow> uri_action goto" where
  "uri_case501 c =
    (if c = 33 \<or> c = 59 \<or> c = 61 \<or> c = 95 \<or> c = 126 then Goto [] 467
     else if c = 35 then uri_tr485
     else if c = 37 then Goto [] 31
     else if c = 46 then Goto [] 493
     else if c = 47 then uri_tr486
     else if c = 58 then uri_tr499
     else if c = 63 then uri_tr488
     else if c = 64 then uri_tr38
     else if c < 48 then
       (if 36 \<le> c \<and> c \<le> 45 then Goto [] 467
       else Fail)
     else if 57 < c then
       (if 90 < c then
         (if 97 \<le> c \<and> c \<le> 122 then Goto [] 467
         else Fail)
       else if 65 \<le> c then Goto [] 467
       else Fail)
     else Goto [] 492)"

definition uri_case502 :: "int \<Rightarrow> uri_action goto" where
  "uri_case502 c =
    (if c = 33 \<or> c = 59 \<or> c = 61 \<or> c = 95 \<or> c = 126 then Goto [] 467
     else if c = 35 then uri_tr485
     else if c = 37 then Goto [] 31
     else if c = 46 then Goto [] 493
     else if c = 47 then uri_tr486
     else if c = 53 then Goto [] 503
     else if c = 58 then uri_tr499
     else if c = 63 then uri_tr488
     else if c = 64 then uri_tr38
     else if c < 48 then
       (if 36 \<le> c \<and> c \<le> 45 then Goto [] 467
       else Fail)
     else if 57 < c then
       (if 90 < c then
         (if 97 \<le> c \<and> c \<le> 122 then Goto [] 467
         else Fail)
       else if 65 \<le> c then Goto [] 467
       else Fail)
     else Goto [] 492)"

definition uri_case503 :: "int \<Rightarrow> uri_action goto" where
  "uri_case503 c =
    (if c = 33 \<or> c = 61 \<or> c = 95 \<or> c = 126 then Goto [] 467
     else if c = 35 then uri_tr485
     else if c = 37 then Goto [] 31
     else if c = 46 then Goto [] 493
     else if c = 47 then uri_tr486
     else if c = 58 then uri_tr499
     else if c = 63 then uri_tr488
     else if c = 64 then uri_tr38
     else if c < 54 then
       (if 45 < c then
         (if 48 \<le> c \<and> c \<le> 53 then Goto [] 492
         else Fail)
       else if 36 \<le> c then Goto [] 467
       else Fail)
     else if 59 < c then
       (if 90 < c then
         (if 97 \<le> c \<and> c \<le> 122 then Goto [] 467
         else Fail)
       else if 65 \<le> c then Goto [] 467
       else Fail)
     else Goto [] 467)"

definition uri_case504 :: "int \<Rightarrow> uri_action goto" where
  "uri_case504 c =
    (if c = 33 \<or> c = 59 \<or> c = 61 \<or> c = 95 \<or> c = 126 then Goto [] 467
     else if c = 35 then uri_tr485
     else if c = 37 then Goto [] 31
     else if c = 46 then Goto [] 491
     else if c = 47 then uri_tr486
     else if c = 58 then uri_tr499
     else if c = 63 then uri_tr488
     else if c = 64 then uri_tr38
     else if c < 48 then
       (if 36 \<le> c \<and> c \<le> 45 then Goto [] 467
       else Fail)
     else if 57 < c then
       (if 90 < c then
         (if 97 \<le> c \<and> c \<le> 122 then Goto [] 467
         else Fail)
       else if 65 \<le> c then Goto [] 467
       else Fail)
     else Goto [] 505)"

definition uri_case505 :: "int \<Rightarrow> uri_action goto" where
  "uri_case505 c =
    (if c = 33 \<or> c = 59 \<or> c = 61 \<or> c = 95 \<or> c = 126 then Goto [] 467
     else if c = 35 then uri_tr485
     else if c = 37 then Goto [] 31
     else if c = 46 then Goto [] 491
     else if c = 47 then uri_tr486
     else if c = 58 then uri_tr499
     else if c = 63 then uri_tr488
     else if c = 64 then uri_tr38
     else if c < 48 then
       (if 36 \<le> c \<and> c \<le> 45 then Goto [] 467
       else Fail)
     else if 57 < c then
       (if 90 < c then
         (if 97 \<le> c \<and> c \<le> 122 then Goto [] 467
         else Fail)
       else if 65 \<le> c then Goto [] 467
       else Fail)
     else Goto [] 490)"

definition uri_case506 :: "int \<Rightarrow> uri_action goto" where
  "uri_case506 c =
    (if c = 33 \<or> c = 59 \<or> c = 61 \<or> c = 95 \<or> c = 126 then Goto [] 467
     else if c = 35 then uri_tr485
     else if c = 37 then Goto [] 31
     else if c = 46 then Goto [] 491
     else if c = 47 then uri_tr486
     else if c = 53 then Goto [] 507
     else if c = 58 then uri_tr499
     else if c = 63 then uri_tr488
     else if c = 64 then uri_tr38
     else if c < 48 then
       (if 36 \<le> c \<and> c \<le> 45 then Goto [] 467
       else Fail)
     else if 57 < c then
       (if 90 < c then
         (if 97 \<le> c \<and> c \<le> 122 then Goto [] 467
         else Fail)
       else if 65 \<le> c then Goto [] 467
       else Fail)
     else Goto [] 490)"

definition uri_case507 :: "int \<Rightarrow> uri_action goto" where
  "uri_case507 c =
    (if c = 33 \<or> c = 61 \<or> c = 95 \<or> c = 126 then Goto [] 467
     else if c = 35 then uri_tr485
     else if c = 37 then Goto [] 31
     else if c = 46 then Goto [] 491
     else if c = 47 then uri_tr486
     else if c = 58 then uri_tr499
     else if c = 63 then uri_tr488
     else if c = 64 then uri_tr38
     else if c < 54 then
       (if 45 < c then
         (if 48 \<le> c \<and> c \<le> 53 then Goto [] 490
         else Fail)
       else if 36 \<le> c then Goto [] 467
       else Fail)
     else if 59 < c then
       (if 90 < c then
         (if 97 \<le> c \<and> c \<le> 122 then Goto [] 467
         else Fail)
       else if 65 \<le> c then Goto [] 467
       else Fail)
     else Goto [] 467)"

definition uri_case508 :: "int \<Rightarrow> uri_action goto" where
  "uri_case508 c =
    (if c = 34 \<or> c = 60 \<or> c = 62 \<or> c = 96 \<or> c = 127 then Fail
     else if c = 35 then Goto [] 453
     else if c = 37 then Goto [] 3
     else if c = 43 then Goto [] 508
     else if c = 47 then Goto [] 455
     else if c = 58 then uri_tr543
     else if c = 63 then Goto [] 456
     else if c < 65 then
       (if 32 < c then
         (if 45 \<le> c \<and> c \<le> 57 then Goto [] 508
         else Goto [] 452)
       else if 0 \<le> c then Fail
       else Goto [] 452)
     else if 90 < c then
       (if c < 97 then
         (if 91 \<le> c \<and> c \<le> 94 then Fail
         else Goto [] 452)
       else if 122 < c then
         (if 123 \<le> c \<and> c \<le> 125 then Fail
         else Goto [] 452)
       else Goto [] 508)
     else Goto [] 508)"

definition uri_case509 :: "int \<Rightarrow> uri_action goto" where
  "uri_case509 c =
    (if c = 34 \<or> c = 60 \<or> c = 62 \<or> c = 96 \<or> c = 127 then Fail
     else if c = 35 then Goto [] 453
     else if c = 37 then Goto [] 5
     else if c = 47 then Goto [] 510
     else if c = 63 then Goto [] 456
     else if c < 91 then
       (if 0 \<le> c \<and> c \<le> 32 then Fail
       else Goto [] 455)
     else if 94 < c then
       (if 123 \<le> c \<and> c \<le> 125 then Fail
       else Goto [] 455)
     else Fail)"

definition uri_case510 :: "int \<Rightarrow> uri_action goto" where
  "uri_case510 c =
    (if c = 34 \<or> c = 60 \<or> c = 62 \<or> c = 96 \<or> c = 127 then Fail
     else if c = 35 then Goto [] 453
     else if c = 37 then Goto [] 5
     else if c = 47 then Goto [] 511
     else if c = 63 then Goto [] 456
     else if c < 91 then
       (if 0 \<le> c \<and> c \<le> 32 then Fail
       else Goto [] 455)
     else if 94 < c then
       (if 123 \<le> c \<and> c \<le> 125 then Fail
       else Goto [] 455)
     else Fail)"

definition uri_case511 :: "int \<Rightarrow> uri_action goto" where
  "uri_case511 c =
    (if c = 2 then uri_tr546
     else if c = 33 \<or> c = 59 \<or> c = 61 \<or> c = 95 \<or> c = 126 then uri_tr547
     else if c = 35 then uri_tr548
     else if c = 37 then uri_tr549
     else if c = 47 then uri_tr550
     else if c = 48 then uri_tr551
     else if c = 49 then uri_tr552
     else if c = 50 then uri_tr553
     else if c = 58 then uri_tr555
     else if c = 63 then uri_tr556
     else if c = 64 then uri_tr557
     else if c = 91 then uri_tr558
     else if c < 51 then
       (if 36 \<le> c \<and> c \<le> 46 then uri_tr547
       else Fail)
     else if 57 < c then
       (if 90 < c then
         (if 97 \<le> c \<and> c \<le> 122 then uri_tr547
         else Fail)
       else if 65 \<le> c then uri_tr547
       else Fail)
     else uri_tr554)"

definition uri_case229 :: "int \<Rightarrow> uri_action goto" where
  "uri_case229 c =
    (if 48 \<le> c \<and> c \<le> 52 then Goto [] 230
     else Fail)"

definition uri_case230 :: "int \<Rightarrow> uri_action goto" where
  "uri_case230 c =
    (if 48 \<le> c \<and> c \<le> 57 then Goto [] 231
     else Fail)"

definition uri_case231 :: "int \<Rightarrow> uri_action goto" where
  "uri_case231 c =
    (if c = 46 then Goto [] 232
     else Fail)"

definition uri_case232 :: "int \<Rightarrow> uri_action goto" where
  "uri_case232 c =
    (if c = 2 then Goto [] 233
     else if c = 48 then Goto [] 235
     else if c = 49 then Goto [] 249
     else if c = 50 then Goto [] 251
     else if 51 \<le> c \<and> c \<le> 57 then Goto [] 250
     else Fail)"

definition uri_case233 :: "int \<Rightarrow> uri_action goto" where
  "uri_case233 c =
    (if 48 \<le> c \<and> c \<le> 52 then Goto [] 234
     else Fail)"

definition uri_case234 :: "int \<Rightarrow> uri_action goto" where
  "uri_case234 c =
    (if 48 \<le> c \<and> c \<le> 57 then Goto [] 235
     else Fail)"

definition uri_case235 :: "int \<Rightarrow> uri_action goto" where
  "uri_case235 c =
    (if c = 46 then Goto [] 236
     else Fail)"

definition uri_case236 :: "int \<Rightarrow> uri_action goto" where
  "uri_case236 c =
    (if c = 2 then Goto [] 237
     else if c = 48 then Goto [] 239
     else if c = 49 then Goto [] 245
     else if c = 50 then Goto [] 247
     else if 51 \<le> c \<and> c \<le> 57 then Goto [] 246
     else Fail)"

definition uri_case237 :: "int \<Rightarrow> uri_action goto" where
  "uri_case237 c =
    (if 48 \<le> c \<and> c \<le> 52 then Goto [] 238
     else Fail)"

definition uri_case238 :: "int \<Rightarrow> uri_action goto" where
  "uri_case238 c =
    (if 48 \<le> c \<and> c \<le> 57 then Goto [] 239
     else Fail)"

definition uri_case239 :: "int \<Rightarrow> uri_action goto" where
  "uri_case239 c =
    (if c = 46 then Goto [] 240
     else Fail)"

definition uri_case240 :: "int \<Rightarrow> uri_action goto" where
  "uri_case240 c =
    (if c = 2 then Goto [] 241
     else if c = 48 then Goto [] 512
     else if c = 49 then Goto [] 516
     else if c = 50 then Goto [] 518
     else if 51 \<le> c \<and> c \<le> 57 then Goto [] 517
     else Fail)"

definition uri_case241 :: "int \<Rightarrow> uri_action goto" where
  "uri_case241 c =
    (if 48 \<le> c \<and> c \<le> 52 then Goto [] 242
     else Fail)"

definition uri_case242 :: "int \<Rightarrow> uri_action goto" where
  "uri_case242 c =
    (if 48 \<le> c \<and> c \<le> 57 then Goto [] 512
     else Fail)"

definition uri_case512 :: "int \<Rightarrow> uri_action goto" where
  "uri_case512 c =
    (if c = 35 then uri_tr559
     else if c = 47 then uri_tr560
     else if c = 58 then uri_tr561
     else if c = 63 then uri_tr562
     else Fail)"

definition uri_case513 :: "int \<Rightarrow> uri_action goto" where
  "uri_case513 c =
    (if c = 34 \<or> c = 60 \<or> c = 62 \<or> c = 96 \<or> c = 127 then Fail
     else if c = 35 then uri_tr563
     else if c = 37 then Goto [] 243
     else if c = 63 then uri_tr565
     else if c < 91 then
       (if 0 \<le> c \<and> c \<le> 32 then Fail
       else Goto [] 513)
     else if 94 < c then
       (if 123 \<le> c \<and> c \<le> 125 then Fail
       else Goto [] 513)
     else Fail)"

definition uri_case243 :: "int \<Rightarrow> uri_action goto" where
  "uri_case243 c =
    (if c < 65 then
       (if 48 \<le> c \<and> c \<le> 57 then Goto [] 244
       else Fail)
     else if 70 < c then
       (if 97 \<le> c \<and> c \<le> 102 then Goto [] 244
       else Fail)
     else Goto [] 244)"

definition uri_case244 :: "int \<Rightarrow> uri_action goto" where
  "uri_case244 c =
    (if c < 65 then
       (if 48 \<le> c \<and> c \<le> 57 then Goto [] 513
       else Fail)
     else if 70 < c then
       (if 97 \<le> c \<and> c \<le> 102 then Goto [] 513
       else Fail)
     else Goto [] 513)"

definition uri_case514 :: "int \<Rightarrow> uri_action goto" where
  "uri_case514 c =
    (if c = 35 then uri_tr566
     else if c = 47 then uri_tr567
     else if c = 63 then uri_tr569
     else if 48 \<le> c \<and> c \<le> 57 then uri_tr568
     else Fail)"

definition uri_case515 :: "int \<Rightarrow> uri_action goto" where
  "uri_case515 c =
    (if c = 35 then uri_tr570
     else if c = 47 then uri_tr571
     else if c = 63 then uri_tr573
     else if 48 \<le> c \<and> c \<le> 57 then Goto [] 515
     else Fail)"

definition uri_case516 :: "int \<Rightarrow> uri_action goto" where
  "uri_case516 c =
    (if c = 35 then uri_tr559
     else if c = 47 then uri_tr560
     else if c = 58 then uri_tr561
     else if c = 63 then uri_tr562
     else if 48 \<le> c \<and> c \<le> 57 then Goto [] 517
     else Fail)"

definition uri_case517 :: "int \<Rightarrow> uri_action goto" where
  "uri_case517 c =
    (if c = 35 then uri_tr559
     else if c = 47 then uri_tr560
     else if c = 58 then uri_tr561
     else if c = 63 then uri_tr562
     else if 48 \<le> c \<and> c \<le> 57 then Goto [] 512
     else Fail)"

definition uri_case518 :: "int \<Rightarrow> uri_action goto" where
  "uri_case518 c =
    (if c = 35 then uri_tr559
     else if c = 47 then uri_tr560
     else if c = 53 then Goto [] 519
     else if c = 58 then uri_tr561
     else if c = 63 then uri_tr562
     else if 48 \<le> c \<and> c \<le> 57 then Goto [] 512
     else Fail)"

definition uri_case519 :: "int \<Rightarrow> uri_action goto" where
  "uri_case519 c =
    (if c = 35 then uri_tr559
     else if c = 47 then uri_tr560
     else if c = 58 then uri_tr561
     else if c = 63 then uri_tr562
     else if 48 \<le> c \<and> c \<le> 53 then Goto [] 512
     else Fail)"

definition uri_case245 :: "int \<Rightarrow> uri_action goto" where
  "uri_case245 c =
    (if c = 46 then Goto [] 240
     else if 48 \<le> c \<and> c \<le> 57 then Goto [] 246
     else Fail)"

definition uri_case246 :: "int \<Rightarrow> uri_action goto" where
  "uri_case246 c =
    (if c = 46 then Goto [] 240
     else if 48 \<le> c \<and> c \<le> 57 then Goto [] 239
     else Fail)"

definition uri_case247 :: "int \<Rightarrow> uri_action goto" where
  "uri_case247 c =
    (if c = 46 then Goto [] 240
     else if c = 53 then Goto [] 248
     else if 48 \<le> c \<and> c \<le> 57 then Goto [] 239
     else Fail)"

definition uri_case248 :: "int \<Rightarrow> uri_action goto" where
  "uri_case248 c =
    (if c = 46 then Goto [] 240
     else if 48 \<le> c \<and> c \<le> 53 then Goto [] 239
     else Fail)"

definition uri_case249 :: "int \<Rightarrow> uri_action goto" where
  "uri_case249 c =
    (if c = 46 then Goto [] 236
     else if 48 \<le> c \<and> c \<le> 57 then Goto [] 250
     else Fail)"

definition uri_case250 :: "int \<Rightarrow> uri_action goto" where
  "uri_case250 c =
    (if c = 46 then Goto [] 236
     else if 48 \<le> c \<and> c \<le> 57 then Goto [] 235
     else Fail)"

definition uri_case251 :: "int \<Rightarrow> uri_action goto" where
  "uri_case251 c =
    (if c = 46 then Goto [] 236
     else if c = 53 then Goto [] 252
     else if 48 \<le> c \<and> c \<le> 57 then Goto [] 235
     else Fail)"

definition uri_case252 :: "int \<Rightarrow> uri_action goto" where
  "uri_case252 c =
    (if c = 46 then Goto [] 236
     else if 48 \<le> c \<and> c \<le> 53 then Goto [] 235
     else Fail)"

definition uri_case520 :: "int \<Rightarrow> uri_action goto" where
  "uri_case520 c =
    (if c = 33 \<or> c = 61 \<or> c = 95 \<or> c = 126 then Goto [] 520
     else if c = 35 then uri_tr559
     else if c = 37 then Goto [] 253
     else if c = 47 then uri_tr560
     else if c = 58 then uri_tr576
     else if c = 63 then uri_tr562
     else if c = 64 then uri_tr263
     else if c < 65 then
       (if 36 \<le> c \<and> c \<le> 59 then Goto [] 520
       else Fail)
     else if 90 < c then
       (if 97 \<le> c \<and> c \<le> 122 then Goto [] 520
       else Fail)
     else Goto [] 520)"

definition uri_case253 :: "int \<Rightarrow> uri_action goto" where
  "uri_case253 c =
    (if c < 65 then
       (if 48 \<le> c \<and> c \<le> 57 then Goto [] 254
       else Fail)
     else if 70 < c then
       (if 97 \<le> c \<and> c \<le> 102 then Goto [] 254
       else Fail)
     else Goto [] 254)"

definition uri_case254 :: "int \<Rightarrow> uri_action goto" where
  "uri_case254 c =
    (if c < 65 then
       (if 48 \<le> c \<and> c \<le> 57 then Goto [] 520
       else Fail)
     else if 70 < c then
       (if 97 \<le> c \<and> c \<le> 102 then Goto [] 520
       else Fail)
     else Goto [] 520)"

definition uri_case521 :: "int \<Rightarrow> uri_action goto" where
  "uri_case521 c =
    (if c = 33 \<or> c = 61 \<or> c = 95 \<or> c = 126 then Goto [] 255
     else if c = 35 then uri_tr566
     else if c = 37 then Goto [] 256
     else if c = 47 then uri_tr567
     else if c = 63 then uri_tr569
     else if c = 64 then uri_tr263
     else if c < 58 then
       (if 46 < c then
         (if 48 \<le> c \<and> c \<le> 57 then uri_tr577
         else Fail)
       else if 36 \<le> c then Goto [] 255
       else Fail)
     else if 59 < c then
       (if 90 < c then
         (if 97 \<le> c \<and> c \<le> 122 then Goto [] 255
         else Fail)
       else if 65 \<le> c then Goto [] 255
       else Fail)
     else Goto [] 255)"

definition uri_case255 :: "int \<Rightarrow> uri_action goto" where
  "uri_case255 c =
    (if c = 33 \<or> c = 61 \<or> c = 95 \<or> c = 126 then Goto [] 255
     else if c = 37 then Goto [] 256
     else if c = 64 then uri_tr263
     else if c < 48 then
       (if 36 \<le> c \<and> c \<le> 46 then Goto [] 255
       else Fail)
     else if 59 < c then
       (if 90 < c then
         (if 97 \<le> c \<and> c \<le> 122 then Goto [] 255
         else Fail)
       else if 65 \<le> c then Goto [] 255
       else Fail)
     else Goto [] 255)"

definition uri_case256 :: "int \<Rightarrow> uri_action goto" where
  "uri_case256 c =
    (if c < 65 then
       (if 48 \<le> c \<and> c \<le> 57 then Goto [] 257
       else Fail)
     else if 70 < c then
       (if 97 \<le> c \<and> c \<le> 102 then Goto [] 257
       else Fail)
     else Goto [] 257)"

definition uri_case257 :: "int \<Rightarrow> uri_action goto" where
  "uri_case257 c =
    (if c < 65 then
       (if 48 \<le> c \<and> c \<le> 57 then Goto [] 255
       else Fail)
     else if 70 < c then
       (if 97 \<le> c \<and> c \<le> 102 then Goto [] 255
       else Fail)
     else Goto [] 255)"

definition uri_case522 :: "int \<Rightarrow> uri_action goto" where
  "uri_case522 c =
    (if c = 2 then uri_tr546
     else if c = 33 \<or> c = 59 \<or> c = 61 \<or> c = 95 \<or> c = 126 then uri_tr578
     else if c = 35 then uri_tr548
     else if c = 37 then uri_tr579
     else if c = 47 then uri_tr550
     else if c = 48 then uri_tr580
     else if c = 49 then uri_tr581
     else if c = 50 then uri_tr582
     else if c = 58 then uri_tr584
     else if c = 63 then uri_tr556
     else if c = 91 then uri_tr558
     else if c < 51 then
       (if 36 \<le> c \<and> c \<le> 46 then uri_tr578
       else Fail)
     else if 57 < c then
       (if 90 < c then
         (if 97 \<le> c \<and> c \<le> 122 then uri_tr578
         else Fail)
       else if 65 \<le> c then uri_tr578
       else Fail)
     else uri_tr583)"

definition uri_case523 :: "int \<Rightarrow> uri_action goto" where
  "uri_case523 c =
    (if c = 33 \<or> c = 61 \<or> c = 95 \<or> c = 126 then Goto [] 523
     else if c = 35 then uri_tr559
     else if c = 37 then Goto [] 258
     else if c = 47 then uri_tr560
     else if c = 58 then uri_tr561
     else if c = 63 then uri_tr562
     else if c < 65 then
       (if 36 \<le> c \<and> c \<le> 59 then Goto [] 523
       else Fail)
     else if 90 < c then
       (if 97 \<le> c \<and> c \<le> 122 then Goto [] 523
       else Fail)
     else Goto [] 523)"

definition uri_case258 :: "int \<Rightarrow> uri_action goto" where
  "uri_case258 c =
    (if c < 65 then
       (if 48 \<le> c \<and> c \<le> 57 then Goto [] 259
       else Fail)
     else if 70 < c then
       (if 97 \<le> c \<and> c \<le> 102 then Goto [] 259
       else Fail)
     else Goto [] 259)"

definition uri_case259 :: "int \<Rightarrow> uri_action goto" where
  "uri_case259 c =
    (if c < 65 then
       (if 48 \<le> c \<and> c \<le> 57 then Goto [] 523
       else Fail)
     else if 70 < c then
       (if 97 \<le> c \<and> c \<le> 102 then Goto [] 523
       else Fail)
     else Goto [] 523)"

definition uri_case524 :: "int \<Rightarrow> uri_action goto" where
  "uri_case524 c =
    (if c = 33 \<or> c = 61 \<or> c = 95 \<or> c = 126 then Goto [] 523
     else if c = 35 then uri_tr559
     else if c = 37 then Goto [] 258
     else if c = 46 then Goto [] 525
     else if c = 47 then uri_tr560
     else if c = 58 then uri_tr561
     else if c = 63 then uri_tr562
     else if c < 65 then
       (if 36 \<le> c \<and> c \<le> 59 then Goto [] 523
       else Fail)
     else if 90 < c then
       (if 97 \<le> c \<and> c \<le> 122 then Goto [] 523
       else Fail)
     else Goto [] 523)"

definition uri_case525 :: "int \<Rightarrow> uri_action goto" where
  "uri_case525 c =
    (if c = 2 then Goto [] 233
     else if c = 33 \<or> c = 59 \<or> c = 61 \<or> c = 95 \<or> c = 126 then Goto [] 523
     else if c = 35 then uri_tr559
     else if c = 37 then Goto [] 258
     else if c = 47 then uri_tr560
     else if c = 48 then Goto [] 526
     else if c = 49 then Goto [] 534
     else if c = 50 then Goto [] 536
     else if c = 58 then uri_tr561
     else if c = 63 then uri_tr562
     else if c < 51 then
       (if 36 \<le> c \<and> c \<le> 46 then Goto [] 523
       else Fail)
     else if 57 < c then
       (if 90 < c then
         (if 97 \<le> c \<and> c \<le> 122 then Goto [] 523
         else Fail)
       else if 65 \<le> c then Goto [] 523
       else Fail)
     else Goto [] 535)"

definition uri_case526 :: "int \<Rightarrow> uri_action goto" where
  "uri_case526 c =
    (if c = 33 \<or> c = 61 \<or> c = 95 \<or> c = 126 then Goto [] 523
     else if c = 35 then uri_tr559
     else if c = 37 then Goto [] 258
     else if c = 46 then Goto [] 527
     else if c = 47 then uri_tr560
     else if c = 58 then uri_tr561
     else if c = 63 then uri_tr562
     else if c < 65 then
       (if 36 \<le> c \<and> c \<le> 59 then Goto [] 523
       else Fail)
     else if 90 < c then
       (if 97 \<le> c \<and> c \<le> 122 then Goto [] 523
       else Fail)
     else Goto [] 523)"

definition uri_case527 :: "int \<Rightarrow> uri_action goto" where
  "uri_case527 c =
    (if c = 2 then Goto [] 237
     else if c = 33 \<or> c = 59 \<or> c = 61 \<or> c = 95 \<or> c = 126 then Goto [] 523
     else if c = 35 then uri_tr559
     else if c = 37 then Goto [] 258
     else if c = 47 then uri_tr560
     else if c = 48 then Goto [] 528
     else if c = 49 then Goto [] 530
     else if c = 50 then Goto [] 532
     else if c = 58 then uri_tr561
     else if c = 63 then uri_tr562
     else if c < 51 then
       (if 36 \<le> c \<and> c \<le> 46 then Goto [] 523
       else Fail)
     else if 57 < c then
       (if 90 < c then
         (if 97 \<le> c \<and> c \<le> 122 then Goto [] 523
         else Fail)
       else if 65 \<le> c then Goto [] 523
       else Fail)
     else Goto [] 531)"

definition uri_case528 :: "int \<Rightarrow> uri_action goto" where
  "uri_case528 c =
    (if c = 33 \<or> c = 61 \<or> c = 95 \<or> c = 126 then Goto [] 523
     else if c = 35 then uri_tr559
     else if c = 37 then Goto [] 258
     else if c = 46 then Goto [] 529
     else if c = 47 then uri_tr560
     else if c = 58 then uri_tr561
     else if c = 63 then uri_tr562
     else if c < 65 then
       (if 36 \<le> c \<and> c \<le> 59 then Goto [] 523
       else Fail)
     else if 90 < c then
       (if 97 \<le> c \<and> c \<le> 122 then Goto [] 523
       else Fail)
     else Goto [] 523)"

definition uri_case529 :: "int \<Rightarrow> uri_action goto" where
  "uri_case529 c =
    (if c = 2 then Goto [] 241
     else if c = 33 \<or> c = 61 \<or> c = 95 \<or> c = 126 then Goto [] 523
     else if c = 35 then uri_tr559
     else if c = 37 then Goto [] 258
     else if c = 47 then uri_tr560
     else if c = 58 then uri_tr561
     else if c = 63 then uri_tr562
     else if c < 65 then
       (if 36 \<le> c \<and> c \<le> 59 then Goto [] 523
       else Fail)
     else if 90 < c then
       (if 97 \<le> c \<and> c \<le> 122 then Goto [] 523
       else Fail)
     else Goto [] 523)"

definition uri_case530 :: "int \<Rightarrow> uri_action goto" where
  "uri_case530 c =
    (if c = 33 \<or> c = 59 \<or> c = 61 \<or> c = 95 \<or> c = 126 then Goto [] 523
     else if c = 35 then uri_tr559
     else if c = 37 then Goto [] 258
     else if c = 46 then Goto [] 529
     else if c = 47 then uri_tr560
     else if c = 58 then uri_tr561
     else if c = 63 then uri_tr562
     else if c < 48 then
       (if 36 \<le> c \<and> c \<le> 45 then Goto [] 523
       else Fail)
     else if 57 < c then
       (if 90 < c then
         (if 97 \<le> c \<and> c \<le> 122 then Goto [] 523
         else Fail)
       else if 65 \<le> c then Goto [] 523
       else Fail)
     else Goto [] 531)"

definition uri_case531 :: "int \<Rightarrow> uri_action goto" where
  "uri_case531 c =
    (if c = 33 \<or> c = 59 \<or> c = 61 \<or> c = 95 \<or> c = 126 then Goto [] 523
     else if c = 35 then uri_tr559
     else if c = 37 then Goto [] 258
     else if c = 46 then Goto [] 529
     else if c = 47 then uri_tr560
     else if c = 58 then uri_tr561
     else if c = 63 then uri_tr562
     else if c < 48 then
       (if 36 \<le> c \<and> c \<le> 45 then Goto [] 523
       else Fail)
     else if 57 < c then
       (if 90 < c then
         (if 97 \<le> c \<and> c \<le> 122 then Goto [] 523
         else Fail)
       else if 65 \<le> c then Goto [] 523
       else Fail)
     else Goto [] 528)"

definition uri_case532 :: "int \<Rightarrow> uri_action goto" where
  "uri_case532 c =
    (if c = 33 \<or> c = 59 \<or> c = 61 \<or> c = 95 \<or> c = 126 then Goto [] 523
     else if c = 35 then uri_tr559
     else if c = 37 then Goto [] 258
     else if c = 46 then Goto [] 529
     else if c = 47 then uri_tr560
     else if c = 53 then Goto [] 533
     else if c = 58 then uri_tr561
     else if c = 63 then uri_tr562
     else if c < 48 then
       (if 36 \<le> c \<and> c \<le> 45 then Goto [] 523
       else Fail)
     else if 57 < c then
       (if 90 < c then
         (if 97 \<le> c \<and> c \<le> 122 then Goto [] 523
         else Fail)
       else if 65 \<le> c then Goto [] 523
       else Fail)
     else Goto [] 528)"

definition uri_case533 :: "int \<Rightarrow> uri_action goto" where
  "uri_case533 c =
    (if c = 33 \<or> c = 61 \<or> c = 95 \<or> c = 126 then Goto [] 523
     else if c = 35 then uri_tr559
     else if c = 37 then Goto [] 258
     else if c = 46 then Goto [] 529
     else if c = 47 then uri_tr560
     else if c = 58 then uri_tr561
     else if c = 63 then uri_tr562
     else if c < 54 then
       (if 45 < c then
         (if 48 \<le> c \<and> c \<le> 53 then Goto [] 528
         else Fail)
       else if 36 \<le> c then Goto [] 523
       else Fail)
     else if 59 < c then
       (if 90 < c then
         (if 97 \<le> c \<and> c \<le> 122 then Goto [] 523
         else Fail)
       else if 65 \<le> c then Goto [] 523
       else Fail)
     else Goto [] 523)"

definition uri_case534 :: "int \<Rightarrow> uri_action goto" where
  "uri_case534 c =
    (if c = 33 \<or> c = 59 \<or> c = 61 \<or> c = 95 \<or> c = 126 then Goto [] 523
     else if c = 35 then uri_tr559
     else if c = 37 then Goto [] 258
     else if c = 46 then Goto [] 527
     else if c = 47 then uri_tr560
     else if c = 58 then uri_tr561
     else if c = 63 then uri_tr562
     else if c < 48 then
       (if 36 \<le> c \<and> c \<le> 45 then Goto [] 523
       else Fail)
     else if 57 < c then
       (if 90 < c then
         (if 97 \<le> c \<and> c \<le> 122 then Goto [] 523
         else Fail)
       else if 65 \<le> c then Goto [] 523
       else Fail)
     else Goto [] 535)"

definition uri_case535 :: "int \<Rightarrow> uri_action goto" where
  "uri_case535 c =
    (if c = 33 \<or> c = 59 \<or> c = 61 \<or> c = 95 \<or> c = 126 then Goto [] 523
     else if c = 35 then uri_tr559
     else if c = 37 then Goto [] 258
     else if c = 46 then Goto [] 527
     else if c = 47 then uri_tr560
     else if c = 58 then uri_tr561
     else if c = 63 then uri_tr562
     else if c < 48 then
       (if 36 \<le> c \<and> c \<le> 45 then Goto [] 523
       else Fail)
     else if 57 < c then
       (if 90 < c then
         (if 97 \<le> c \<and> c \<le> 122 then Goto [] 523
         else Fail)
       else if 65 \<le> c then Goto [] 523
       else Fail)
     else Goto [] 526)"

definition uri_case536 :: "int \<Rightarrow> uri_action goto" where
  "uri_case536 c =
    (if c = 33 \<or> c = 59 \<or> c = 61 \<or> c = 95 \<or> c = 126 then Goto [] 523
     else if c = 35 then uri_tr559
     else if c = 37 then Goto [] 258
     else if c = 46 then Goto [] 527
     else if c = 47 then uri_tr560
     else if c = 53 then Goto [] 537
     else if c = 58 then uri_tr561
     else if c = 63 then uri_tr562
     else if c < 48 then
       (if 36 \<le> c \<and> c \<le> 45 then Goto [] 523
       else Fail)
     else if 57 < c then
       (if 90 < c then
         (if 97 \<le> c \<and> c \<le> 122 then Goto [] 523
         else Fail)
       else if 65 \<le> c then Goto [] 523
       else Fail)
     else Goto [] 526)"

definition uri_case537 :: "int \<Rightarrow> uri_action goto" where
  "uri_case537 c =
    (if c = 33 \<or> c = 61 \<or> c = 95 \<or> c = 126 then Goto [] 523
     else if c = 35 then uri_tr559
     else if c = 37 then Goto [] 258
     else if c = 46 then Goto [] 527
     else if c = 47 then uri_tr560
     else if c = 58 then uri_tr561
     else if c = 63 then uri_tr562
     else if c < 54 then
       (if 45 < c then
         (if 48 \<le> c \<and> c \<le> 53 then Goto [] 526
         else Fail)
       else if 36 \<le> c then Goto [] 523
       else Fail)
     else if 59 < c then
       (if 90 < c then
         (if 97 \<le> c \<and> c \<le> 122 then Goto [] 523
         else Fail)
       else if 65 \<le> c then Goto [] 523
       else Fail)
     else Goto [] 523)"

definition uri_case538 :: "int \<Rightarrow> uri_action goto" where
  "uri_case538 c =
    (if c = 33 \<or> c = 59 \<or> c = 61 \<or> c = 95 \<or> c = 126 then Goto [] 523
     else if c = 35 then uri_tr559
     else if c = 37 then Goto [] 258
     else if c = 46 then Goto [] 525
     else if c = 47 then uri_tr560
     else if c = 58 then uri_tr561
     else if c = 63 then uri_tr562
     else if c < 48 then
       (if 36 \<le> c \<and> c \<le> 45 then Goto [] 523
       else Fail)
     else if 57 < c then
       (if 90 < c then
         (if 97 \<le> c \<and> c \<le> 122 then Goto [] 523
         else Fail)
       else if 65 \<le> c then Goto [] 523
       else Fail)
     else Goto [] 539)"

definition uri_case539 :: "int \<Rightarrow> uri_action goto" where
  "uri_case539 c =
    (if c = 33 \<or> c = 59 \<or> c = 61 \<or> c = 95 \<or> c = 126 then Goto [] 523
     else if c = 35 then uri_tr559
     else if c = 37 then Goto [] 258
     else if c = 46 then Goto [] 525
     else if c = 47 then uri_tr560
     else if c = 58 then uri_tr561
     else if c = 63 then uri_tr562
     else if c < 48 then
       (if 36 \<le> c \<and> c \<le> 45 then Goto [] 523
       else Fail)
     else if 57 < c then
       (if 90 < c then
         (if 97 \<le> c \<and> c \<le> 122 then Goto [] 523
         else Fail)
       else if 65 \<le> c then Goto [] 523
       else Fail)
     else Goto [] 524)"

definition uri_case540 :: "int \<Rightarrow> uri_action goto" where
  "uri_case540 c =
    (if c = 33 \<or> c = 59 \<or> c = 61 \<or> c = 95 \<or> c = 126 then Goto [] 523
     else if c = 35 then uri_tr559
     else if c = 37 then Goto [] 258
     else if c = 46 then Goto [] 525
     else if c = 47 then uri_tr560
     else if c = 53 then Goto [] 541
     else if c = 58 then uri_tr561
     else if c = 63 then uri_tr562
     else if c < 48 then
       (if 36 \<le> c \<and> c \<le> 45 then Goto [] 523
       else Fail)
     else if 57 < c then
       (if 90 < c then
         (if 97 \<le> c \<and> c \<le> 122 then Goto [] 523
         else Fail)
       else if 65 \<le> c then Goto [] 523
       else Fail)
     else Goto [] 524)"

definition uri_case541 :: "int \<Rightarrow> uri_action goto" where
  "uri_case541 c =
    (if c = 33 \<or> c = 61 \<or> c = 95 \<or> c = 126 then Goto [] 523
     else if c = 35 then uri_tr559
     else if c = 37 then Goto [] 258
     else if c = 46 then Goto [] 525
     else if c = 47 then uri_tr560
     else if c = 58 then uri_tr561
     else if c = 63 then uri_tr562
     else if c < 54 then
       (if 45 < c then
         (if 48 \<le> c \<and> c \<le> 53 then Goto [] 524
         else Fail)
       else if 36 \<le> c then Goto [] 523
       else Fail)
     else if 59 < c then
       (if 90 < c then
         (if 97 \<le> c \<and> c \<le> 122 then Goto [] 523
         else Fail)
       else if 65 \<le> c then Goto [] 523
       else Fail)
     else Goto [] 523)"

definition uri_case260 :: "int \<Rightarrow> uri_action goto" where
  "uri_case260 c =
    (if c = 58 then Goto [] 368
     else if c = 118 then Goto [] 447
     else if c < 65 then
       (if 48 \<le> c \<and> c \<le> 57 then Goto [] 261
       else Fail)
     else if 70 < c then
       (if 97 \<le> c \<and> c \<le> 102 then Goto [] 261
       else Fail)
     else Goto [] 261)"

definition uri_case261 :: "int \<Rightarrow> uri_action goto" where
  "uri_case261 c =
    (if c = 58 then Goto [] 265
     else if c < 65 then
       (if 48 \<le> c \<and> c \<le> 57 then Goto [] 262
       else Fail)
     else if 70 < c then
       (if 97 \<le> c \<and> c \<le> 102 then Goto [] 262
       else Fail)
     else Goto [] 262)"

definition uri_case262 :: "int \<Rightarrow> uri_action goto" where
  "uri_case262 c =
    (if c = 58 then Goto [] 265
     else if c < 65 then
       (if 48 \<le> c \<and> c \<le> 57 then Goto [] 263
       else Fail)
     else if 70 < c then
       (if 97 \<le> c \<and> c \<le> 102 then Goto [] 263
       else Fail)
     else Goto [] 263)"

definition uri_case263 :: "int \<Rightarrow> uri_action goto" where
  "uri_case263 c =
    (if c = 58 then Goto [] 265
     else if c < 65 then
       (if 48 \<le> c \<and> c \<le> 57 then Goto [] 264
       else Fail)
     else if 70 < c then
       (if 97 \<le> c \<and> c \<le> 102 then Goto [] 264
       else Fail)
     else Goto [] 264)"

definition uri_case264 :: "int \<Rightarrow> uri_action goto" where
  "uri_case264 c =
    (if c = 58 then Goto [] 265
     else Fail)"

definition uri_case265 :: "int \<Rightarrow> uri_action goto" where
  "uri_case265 c =
    (if c = 58 then Goto [] 363
     else if c < 65 then
       (if 48 \<le> c \<and> c \<le> 57 then Goto [] 266
       else Fail)
     else if 70 < c then
       (if 97 \<le> c \<and> c \<le> 102 then Goto [] 266
       else Fail)
     else Goto [] 266)"

definition uri_case266 :: "int \<Rightarrow> uri_action goto" where
  "uri_case266 c =
    (if c = 58 then Goto [] 270
     else if c < 65 then
       (if 48 \<le> c \<and> c \<le> 57 then Goto [] 267
       else Fail)
     else if 70 < c then
       (if 97 \<le> c \<and> c \<le> 102 then Goto [] 267
       else Fail)
     else Goto [] 267)"

definition uri_case267 :: "int \<Rightarrow> uri_action goto" where
  "uri_case267 c =
    (if c = 58 then Goto [] 270
     else if c < 65 then
       (if 48 \<le> c \<and> c \<le> 57 then Goto [] 268
       else Fail)
     else if 70 < c then
       (if 97 \<le> c \<and> c \<le> 102 then Goto [] 268
       else Fail)
     else Goto [] 268)"

definition uri_case268 :: "int \<Rightarrow> uri_action goto" where
  "uri_case268 c =
    (if c = 58 then Goto [] 270
     else if c < 65 then
       (if 48 \<le> c \<and> c \<le> 57 then Goto [] 269
       else Fail)
     else if 70 < c then
       (if 97 \<le> c \<and> c \<le> 102 then Goto [] 269
       else Fail)
     else Goto [] 269)"

definition uri_case269 :: "int \<Rightarrow> uri_action goto" where
  "uri_case269 c =
    (if c = 58 then Goto [] 270
     else Fail)"

definition uri_case270 :: "int \<Rightarrow> uri_action goto" where
  "uri_case270 c =
    (if c = 58 then Goto [] 358
     else if c < 65 then
       (if 48 \<le> c \<and> c \<le> 57 then Goto [] 271
       else Fail)
     else if 70 < c then
       (if 97 \<le> c \<and> c \<le> 102 then Goto [] 271
       else Fail)
     else Goto [] 271)"

definition uri_case271 :: "int \<Rightarrow> uri_action goto" where
  "uri_case271 c =
    (if c = 58 then Goto [] 275
     else if c < 65 then
       (if 48 \<le> c \<and> c \<le> 57 then Goto [] 272
       else Fail)
     else if 70 < c then
       (if 97 \<le> c \<and> c \<le> 102 then Goto [] 272
       else Fail)
     else Goto [] 272)"

definition uri_case272 :: "int \<Rightarrow> uri_action goto" where
  "uri_case272 c =
    (if c = 58 then Goto [] 275
     else if c < 65 then
       (if 48 \<le> c \<and> c \<le> 57 then Goto [] 273
       else Fail)
     else if 70 < c then
       (if 97 \<le> c \<and> c \<le> 102 then Goto [] 273
       else Fail)
     else Goto [] 273)"

definition uri_case273 :: "int \<Rightarrow> uri_action goto" where
  "uri_case273 c =
    (if c = 58 then Goto [] 275
     else if c < 65 then
       (if 48 \<le> c \<and> c \<le> 57 then Goto [] 274
       else Fail)
     else if 70 < c then
       (if 97 \<le> c \<and> c \<le> 102 then Goto [] 274
       else Fail)
     else Goto [] 274)"

definition uri_case274 :: "int \<Rightarrow> uri_action goto" where
  "uri_case274 c =
    (if c = 58 then Goto [] 275
     else Fail)"

definition uri_case275 :: "int \<Rightarrow> uri_action goto" where
  "uri_case275 c =
    (if c = 58 then Goto [] 353
     else if c < 65 then
       (if 48 \<le> c \<and> c \<le> 57 then Goto [] 276
       else Fail)
     else if 70 < c then
       (if 97 \<le> c \<and> c \<le> 102 then Goto [] 276
       else Fail)
     else Goto [] 276)"

definition uri_case276 :: "int \<Rightarrow> uri_action goto" where
  "uri_case276 c =
    (if c = 58 then Goto [] 280
     else if c < 65 then
       (if 48 \<le> c \<and> c \<le> 57 then Goto [] 277
       else Fail)
     else if 70 < c then
       (if 97 \<le> c \<and> c \<le> 102 then Goto [] 277
       else Fail)
     else Goto [] 277)"

definition uri_case277 :: "int \<Rightarrow> uri_action goto" where
  "uri_case277 c =
    (if c = 58 then Goto [] 280
     else if c < 65 then
       (if 48 \<le> c \<and> c \<le> 57 then Goto [] 278
       else Fail)
     else if 70 < c then
       (if 97 \<le> c \<and> c \<le> 102 then Goto [] 278
       else Fail)
     else Goto [] 278)"

definition uri_case278 :: "int \<Rightarrow> uri_action goto" where
  "uri_case278 c =
    (if c = 58 then Goto [] 280
     else if c < 65 then
       (if 48 \<le> c \<and> c \<le> 57 then Goto [] 279
       else Fail)
     else if 70 < c then
       (if 97 \<le> c \<and> c \<le> 102 then Goto [] 279
       else Fail)
     else Goto [] 279)"

definition uri_case279 :: "int \<Rightarrow> uri_action goto" where
  "uri_case279 c =
    (if c = 58 then Goto [] 280
     else Fail)"

definition uri_case280 :: "int \<Rightarrow> uri_action goto" where
  "uri_case280 c =
    (if c = 58 then Goto [] 348
     else if c < 65 then
       (if 48 \<le> c \<and> c \<le> 57 then Goto [] 281
       else Fail)
     else if 70 < c then
       (if 97 \<le> c \<and> c \<le> 102 then Goto [] 281
       else Fail)
     else Goto [] 281)"

definition uri_case281 :: "int \<Rightarrow> uri_action goto" where
  "uri_case281 c =
    (if c = 58 then Goto [] 285
     else if c < 65 then
       (if 48 \<le> c \<and> c \<le> 57 then Goto [] 282
       else Fail)
     else if 70 < c then
       (if 97 \<le> c \<and> c \<le> 102 then Goto [] 282
       else Fail)
     else Goto [] 282)"

definition uri_case282 :: "int \<Rightarrow> uri_action goto" where
  "uri_case282 c =
    (if c = 58 then Goto [] 285
     else if c < 65 then
       (if 48 \<le> c \<and> c \<le> 57 then Goto [] 283
       else Fail)
     else if 70 < c then
       (if 97 \<le> c \<and> c \<le> 102 then Goto [] 283
       else Fail)
     else Goto [] 283)"

definition uri_case283 :: "int \<Rightarrow> uri_action goto" where
  "uri_case283 c =
    (if c = 58 then Goto [] 285
     else if c < 65 then
       (if 48 \<le> c \<and> c \<le> 57 then Goto [] 284
       else Fail)
     else if 70 < c then
       (if 97 \<le> c \<and> c \<le> 102 then Goto [] 284
       else Fail)
     else Goto [] 284)"

definition uri_case284 :: "int \<Rightarrow> uri_action goto" where
  "uri_case284 c =
    (if c = 58 then Goto [] 285
     else Fail)"

definition uri_case285 :: "int \<Rightarrow> uri_action goto" where
  "uri_case285 c =
    (if c = 58 then Goto [] 335
     else if c < 65 then
       (if 48 \<le> c \<and> c \<le> 57 then Goto [] 286
       else Fail)
     else if 70 < c then
       (if 97 \<le> c \<and> c \<le> 102 then Goto [] 286
       else Fail)
     else Goto [] 286)"

definition uri_case286 :: "int \<Rightarrow> uri_action goto" where
  "uri_case286 c =
    (if c = 58 then Goto [] 290
     else if c < 65 then
       (if 48 \<le> c \<and> c \<le> 57 then Goto [] 287
       else Fail)
     else if 70 < c then
       (if 97 \<le> c \<and> c \<le> 102 then Goto [] 287
       else Fail)
     else Goto [] 287)"

definition uri_case287 :: "int \<Rightarrow> uri_action goto" where
  "uri_case287 c =
    (if c = 58 then Goto [] 290
     else if c < 65 then
       (if 48 \<le> c \<and> c \<le> 57 then Goto [] 288
       else Fail)
     else if 70 < c then
       (if 97 \<le> c \<and> c \<le> 102 then Goto [] 288
       else Fail)
     else Goto [] 288)"

definition uri_case288 :: "int \<Rightarrow> uri_action goto" where
  "uri_case288 c =
    (if c = 58 then Goto [] 290
     else if c < 65 then
       (if 48 \<le> c \<and> c \<le> 57 then Goto [] 289
       else Fail)
     else if 70 < c then
       (if 97 \<le> c \<and> c \<le> 102 then Goto [] 289
       else Fail)
     else Goto [] 289)"

definition uri_case289 :: "int \<Rightarrow> uri_action goto" where
  "uri_case289 c =
    (if c = 58 then Goto [] 290
     else Fail)"

definition uri_case290 :: "int \<Rightarrow> uri_action goto" where
  "uri_case290 c =
    (if c = 2 then Goto [] 291
     else if c = 48 then Goto [] 318
     else if c = 49 then Goto [] 326
     else if c = 50 then Goto [] 329
     else if c = 58 then Goto [] 333
     else if c < 65 then
       (if 51 \<le> c \<and> c \<le> 57 then Goto [] 332
       else Fail)
     else if 70 < c then
       (if 97 \<le> c \<and> c \<le> 102 then Goto [] 334
       else Fail)
     else Goto [] 334)"

definition uri_case291 :: "int \<Rightarrow> uri_action goto" where
  "uri_case291 c =
    (if 48 \<le> c \<and> c \<le> 52 then Goto [] 292
     else Fail)"

definition uri_case292 :: "int \<Rightarrow> uri_action goto" where
  "uri_case292 c =
    (if 48 \<le> c \<and> c \<le> 57 then Goto [] 293
     else Fail)"

definition uri_case293 :: "int \<Rightarrow> uri_action goto" where
  "uri_case293 c =
    (if c = 46 then Goto [] 294
     else Fail)"

definition uri_case294 :: "int \<Rightarrow> uri_action goto" where
  "uri_case294 c =
    (if c = 2 then Goto [] 295
     else if c = 48 then Goto [] 297
     else if c = 49 then Goto [] 314
     else if c = 50 then Goto [] 316
     else if 51 \<le> c \<and> c \<le> 57 then Goto [] 315
     else Fail)"

definition uri_case295 :: "int \<Rightarrow> uri_action goto" where
  "uri_case295 c =
    (if 48 \<le> c \<and> c \<le> 52 then Goto [] 296
     else Fail)"

definition uri_case296 :: "int \<Rightarrow> uri_action goto" where
  "uri_case296 c =
    (if 48 \<le> c \<and> c \<le> 57 then Goto [] 297
     else Fail)"

definition uri_case297 :: "int \<Rightarrow> uri_action goto" where
  "uri_case297 c =
    (if c = 46 then Goto [] 298
     else Fail)"

definition uri_case298 :: "int \<Rightarrow> uri_action goto" where
  "uri_case298 c =
    (if c = 2 then Goto [] 299
     else if c = 48 then Goto [] 301
     else if c = 49 then Goto [] 310
     else if c = 50 then Goto [] 312
     else if 51 \<le> c \<and> c \<le> 57 then Goto [] 311
     else Fail)"

definition uri_case299 :: "int \<Rightarrow> uri_action goto" where
  "uri_case299 c =
    (if 48 \<le> c \<and> c \<le> 52 then Goto [] 300
     else Fail)"

definition uri_case300 :: "int \<Rightarrow> uri_action goto" where
  "uri_case300 c =
    (if 48 \<le> c \<and> c \<le> 57 then Goto [] 301
     else Fail)"

definition uri_case301 :: "int \<Rightarrow> uri_action goto" where
  "uri_case301 c =
    (if c = 46 then Goto [] 302
     else Fail)"

definition uri_case302 :: "int \<Rightarrow> uri_action goto" where
  "uri_case302 c =
    (if c = 2 then Goto [] 303
     else if c = 48 then Goto [] 305
     else if c = 49 then Goto [] 306
     else if c = 50 then Goto [] 308
     else if 51 \<le> c \<and> c \<le> 57 then Goto [] 307
     else Fail)"

definition uri_case303 :: "int \<Rightarrow> uri_action goto" where
  "uri_case303 c =
    (if 48 \<le> c \<and> c \<le> 52 then Goto [] 304
     else Fail)"

definition uri_case304 :: "int \<Rightarrow> uri_action goto" where
  "uri_case304 c =
    (if 48 \<le> c \<and> c \<le> 57 then Goto [] 305
     else Fail)"

definition uri_case305 :: "int \<Rightarrow> uri_action goto" where
  "uri_case305 c =
    (if c = 93 then Goto [] 512
     else Fail)"

definition uri_case306 :: "int \<Rightarrow> uri_action goto" where
  "uri_case306 c =
    (if c = 93 then Goto [] 512
     else if 48 \<le> c \<and> c \<le> 57 then Goto [] 307
     else Fail)"

definition uri_case307 :: "int \<Rightarrow> uri_action goto" where
  "uri_case307 c =
    (if c = 93 then Goto [] 512
     else if 48 \<le> c \<and> c \<le> 57 then Goto [] 305
     else Fail)"

definition uri_case308 :: "int \<Rightarrow> uri_action goto" where
  "uri_case308 c =
    (if c = 53 then Goto [] 309
     else if c = 93 then Goto [] 512
     else if 48 \<le> c \<and> c \<le> 57 then Goto [] 305
     else Fail)"

definition uri_case309 :: "int \<Rightarrow> uri_action goto" where
  "uri_case309 c =
    (if c = 93 then Goto [] 512
     else if 48 \<le> c \<and> c \<le> 53 then Goto [] 305
     else Fail)"

definition uri_case310 :: "int \<Rightarrow> uri_action goto" where
  "uri_case310 c =
    (if c = 46 then Goto [] 302
     else if 48 \<le> c \<and> c \<le> 57 then Goto [] 311
     else Fail)"

definition uri_case311 :: "int \<Rightarrow> uri_action goto" where
  "uri_case311 c =
    (if c = 46 then Goto [] 302
     else if 48 \<le> c \<and> c \<le> 57 then Goto [] 301
     else Fail)"

definition uri_case312 :: "int \<Rightarrow> uri_action goto" where
  "uri_case312 c =
    (if c = 46 then Goto [] 302
     else if c = 53 then Goto [] 313
     else if 48 \<le> c \<and> c \<le> 57 then Goto [] 301
     else Fail)"

definition uri_case313 :: "int \<Rightarrow> uri_action goto" where
  "uri_case313 c =
    (if c = 46 then Goto [] 302
     else if 48 \<le> c \<and> c \<le> 53 then Goto [] 301
     else Fail)"

definition uri_case314 :: "int \<Rightarrow> uri_action goto" where
  "uri_case314 c =
    (if c = 46 then Goto [] 298
     else if 48 \<le> c \<and> c \<le> 57 then Goto [] 315
     else Fail)"

definition uri_case315 :: "int \<Rightarrow> uri_action goto" where
  "uri_case315 c =
    (if c = 46 then Goto [] 298
     else if 48 \<le> c \<and> c \<le> 57 then Goto [] 297
     else Fail)"

definition uri_case316 :: "int \<Rightarrow> uri_action goto" where
  "uri_case316 c =
    (if c = 46 then Goto [] 298
     else if c = 53 then Goto [] 317
     else if 48 \<le> c \<and> c \<le> 57 then Goto [] 297
     else Fail)"

definition uri_case317 :: "int \<Rightarrow> uri_action goto" where
  "uri_case317 c =
    (if c = 46 then Goto [] 298
     else if 48 \<le> c \<and> c \<le> 53 then Goto [] 297
     else Fail)"

definition uri_case318 :: "int \<Rightarrow> uri_action goto" where
  "uri_case318 c =
    (if c = 46 then Goto [] 294
     else if c = 58 then Goto [] 322
     else if c < 65 then
       (if 48 \<le> c \<and> c \<le> 57 then Goto [] 319
       else Fail)
     else if 70 < c then
       (if 97 \<le> c \<and> c \<le> 102 then Goto [] 319
       else Fail)
     else Goto [] 319)"

definition uri_case319 :: "int \<Rightarrow> uri_action goto" where
  "uri_case319 c =
    (if c = 58 then Goto [] 322
     else if c < 65 then
       (if 48 \<le> c \<and> c \<le> 57 then Goto [] 320
       else Fail)
     else if 70 < c then
       (if 97 \<le> c \<and> c \<le> 102 then Goto [] 320
       else Fail)
     else Goto [] 320)"

definition uri_case320 :: "int \<Rightarrow> uri_action goto" where
  "uri_case320 c =
    (if c = 58 then Goto [] 322
     else if c < 65 then
       (if 48 \<le> c \<and> c \<le> 57 then Goto [] 321
       else Fail)
     else if 70 < c then
       (if 97 \<le> c \<and> c \<le> 102 then Goto [] 321
       else Fail)
     else Goto [] 321)"

definition uri_case321 :: "int \<Rightarrow> uri_action goto" where
  "uri_case321 c =
    (if c = 58 then Goto [] 322
     else Fail)"

definition uri_case322 :: "int \<Rightarrow> uri_action goto" where
  "uri_case322 c =
    (if c = 58 then Goto [] 305
     else if c < 65 then
       (if 48 \<le> c \<and> c \<le> 57 then Goto [] 323
       else Fail)
     else if 70 < c then
       (if 97 \<le> c \<and> c \<le> 102 then Goto [] 323
       else Fail)
     else Goto [] 323)"

definition uri_case323 :: "int \<Rightarrow> uri_action goto" where
  "uri_case323 c =
    (if c = 93 then Goto [] 512
     else if c < 65 then
       (if 48 \<le> c \<and> c \<le> 57 then Goto [] 324
       else Fail)
     else if 70 < c then
       (if 97 \<le> c \<and> c \<le> 102 then Goto [] 324
       else Fail)
     else Goto [] 324)"

definition uri_case324 :: "int \<Rightarrow> uri_action goto" where
  "uri_case324 c =
    (if c = 93 then Goto [] 512
     else if c < 65 then
       (if 48 \<le> c \<and> c \<le> 57 then Goto [] 325
       else Fail)
     else if 70 < c then
       (if 97 \<le> c \<and> c \<le> 102 then Goto [] 325
       else Fail)
     else Goto [] 325)"

definition uri_case325 :: "int \<Rightarrow> uri_action goto" where
  "uri_case325 c =
    (if c = 93 then Goto [] 512
     else if c < 65 then
       (if 48 \<le> c \<and> c \<le> 57 then Goto [] 305
       else Fail)
     else if 70 < c then
       (if 97 \<le> c \<and> c \<le> 102 then Goto [] 305
       else Fail)
     else Goto [] 305)"

definition uri_case326 :: "int \<Rightarrow> uri_action goto" where
  "uri_case326 c =
    (if c = 46 then Goto [] 294
     else if c = 58 then Goto [] 322
     else if c < 65 then
       (if 48 \<le> c \<and> c \<le> 57 then Goto [] 327
       else Fail)
     else if 70 < c then
       (if 97 \<le> c \<and> c \<le> 102 then Goto [] 319
       else Fail)
     else Goto [] 319)"

definition uri_case327 :: "int \<Rightarrow> uri_action goto" where
  "uri_case327 c =
    (if c = 46 then Goto [] 294
     else if c = 58 then Goto [] 322
     else if c < 65 then
       (if 48 \<le> c \<and> c \<le> 57 then Goto [] 328
       else Fail)
     else if 70 < c then
       (if 97 \<le> c \<and> c \<le> 102 then Goto [] 320
       else Fail)
     else Goto [] 320)"

definition uri_case328 :: "int \<Rightarrow> uri_action goto" where
  "uri_case328 c =
    (if c = 46 then Goto [] 294
     else if c = 58 then Goto [] 322
     else if c < 65 then
       (if 48 \<le> c \<and> c \<le> 57 then Goto [] 321
       else Fail)
     else if 70 < c then
       (if 97 \<le> c \<and> c \<le> 102 then Goto [] 321
       else Fail)
     else Goto [] 321)"

definition uri_case329 :: "int \<Rightarrow> uri_action goto" where
  "uri_case329 c =
    (if c = 46 then Goto [] 294
     else if c = 53 then Goto [] 331
     else if c = 58 then Goto [] 322
     else if c < 65 then
       (if 48 \<le> c \<and> c \<le> 57 then Goto [] 330
       else Fail)
     else if 70 < c then
       (if 97 \<le> c \<and> c \<le> 102 then Goto [] 319
       else Fail)
     else Goto [] 319)"

definition uri_case330 :: "int \<Rightarrow> uri_action goto" where
  "uri_case330 c =
    (if c = 46 then Goto [] 294
     else if c = 58 then Goto [] 322
     else if c < 65 then
       (if 48 \<le> c \<and> c \<le> 57 then Goto [] 320
       else Fail)
     else if 70 < c then
       (if 97 \<le> c \<and> c \<le> 102 then Goto [] 320
       else Fail)
     else Goto [] 320)"

definition uri_case331 :: "int \<Rightarrow> uri_action goto" where
  "uri_case331 c =
    (if c = 46 then Goto [] 294
     else if c = 58 then Goto [] 322
     else if c < 54 then
       (if 48 \<le> c \<and> c \<le> 53 then Goto [] 328
       else Fail)
     else if 57 < c then
       (if 70 < c then
         (if 97 \<le> c \<and> c \<le> 102 then Goto [] 320
         else Fail)
       else if 65 \<le> c then Goto [] 320
       else Fail)
     else Goto [] 320)"

definition uri_case332 :: "int \<Rightarrow> uri_action goto" where
  "uri_case332 c =
    (if c = 46 then Goto [] 294
     else if c = 58 then Goto [] 322
     else if c < 65 then
       (if 48 \<le> c \<and> c \<le> 57 then Goto [] 330
       else Fail)
     else if 70 < c then
       (if 97 \<le> c \<and> c \<le> 102 then Goto [] 319
       else Fail)
     else Goto [] 319)"

definition uri_case333 :: "int \<Rightarrow> uri_action goto" where
  "uri_case333 c =
    (if c < 65 then
       (if 48 \<le> c \<and> c \<le> 57 then Goto [] 323
       else Fail)
     else if 70 < c then
       (if 97 \<le> c \<and> c \<le> 102 then Goto [] 323
       else Fail)
     else Goto [] 323)"

definition uri_case334 :: "int \<Rightarrow> uri_action goto" where
  "uri_case334 c =
    (if c = 58 then Goto [] 322
     else if c < 65 then
       (if 48 \<le> c \<and> c \<le> 57 then Goto [] 319
       else Fail)
     else if 70 < c then
       (if 97 \<le> c \<and> c \<le> 102 then Goto [] 319
       else Fail)
     else Goto [] 319)"

definition uri_case335 :: "int \<Rightarrow> uri_action goto" where
  "uri_case335 c =
    (if c = 2 then Goto [] 291
     else if c = 48 then Goto [] 336
     else if c = 49 then Goto [] 340
     else if c = 50 then Goto [] 343
     else if c < 65 then
       (if 51 \<le> c \<and> c \<le> 57 then Goto [] 346
       else Fail)
     else if 70 < c then
       (if 97 \<le> c \<and> c \<le> 102 then Goto [] 347
       else Fail)
     else Goto [] 347)"

definition uri_case336 :: "int \<Rightarrow> uri_action goto" where
  "uri_case336 c =
    (if c = 46 then Goto [] 294
     else if c = 58 then Goto [] 333
     else if c < 65 then
       (if 48 \<le> c \<and> c \<le> 57 then Goto [] 337
       else Fail)
     else if 70 < c then
       (if 97 \<le> c \<and> c \<le> 102 then Goto [] 337
       else Fail)
     else Goto [] 337)"

definition uri_case337 :: "int \<Rightarrow> uri_action goto" where
  "uri_case337 c =
    (if c = 58 then Goto [] 333
     else if c < 65 then
       (if 48 \<le> c \<and> c \<le> 57 then Goto [] 338
       else Fail)
     else if 70 < c then
       (if 97 \<le> c \<and> c \<le> 102 then Goto [] 338
       else Fail)
     else Goto [] 338)"

definition uri_case338 :: "int \<Rightarrow> uri_action goto" where
  "uri_case338 c =
    (if c = 58 then Goto [] 333
     else if c < 65 then
       (if 48 \<le> c \<and> c \<le> 57 then Goto [] 339
       else Fail)
     else if 70 < c then
       (if 97 \<le> c \<and> c \<le> 102 then Goto [] 339
       else Fail)
     else Goto [] 339)"

definition uri_case339 :: "int \<Rightarrow> uri_action goto" where
  "uri_case339 c =
    (if c = 58 then Goto [] 333
     else Fail)"

definition uri_case340 :: "int \<Rightarrow> uri_action goto" where
  "uri_case340 c =
    (if c = 46 then Goto [] 294
     else if c = 58 then Goto [] 333
     else if c < 65 then
       (if 48 \<le> c \<and> c \<le> 57 then Goto [] 341
       else Fail)
     else if 70 < c then
       (if 97 \<le> c \<and> c \<le> 102 then Goto [] 337
       else Fail)
     else Goto [] 337)"

definition uri_case341 :: "int \<Rightarrow> uri_action goto" where
  "uri_case341 c =
    (if c = 46 then Goto [] 294
     else if c = 58 then Goto [] 333
     else if c < 65 then
       (if 48 \<le> c \<and> c \<le> 57 then Goto [] 342
       else Fail)
     else if 70 < c then
       (if 97 \<le> c \<and> c \<le> 102 then Goto [] 338
       else Fail)
     else Goto [] 338)"

definition uri_case342 :: "int \<Rightarrow> uri_action goto" where
  "uri_case342 c =
    (if c = 46 then Goto [] 294
     else if c = 58 then Goto [] 333
     else if c < 65 then
       (if 48 \<le> c \<and> c \<le> 57 then Goto [] 339
       else Fail)
     else if 70 < c then
       (if 97 \<le> c \<and> c \<le> 102 then Goto [] 339
       else Fail)
     else Goto [] 339)"

definition uri_case343 :: "int \<Rightarrow> uri_action goto" where
  "uri_case343 c =
    (if c = 46 then Goto [] 294
     else if c = 53 then Goto [] 345
     else if c = 58 then Goto [] 333
     else if c < 65 then
       (if 48 \<le> c \<and> c \<le> 57 then Goto [] 344
       else Fail)
     else if 70 < c then
       (if 97 \<le> c \<and> c \<le> 102 then Goto [] 337
       else Fail)
     else Goto [] 337)"

definition uri_case344 :: "int \<Rightarrow> uri_action goto" where
  "uri_case344 c =
    (if c = 46 then Goto [] 294
     else if c = 58 then Goto [] 333
     else if c < 65 then
       (if 48 \<le> c \<and> c \<le> 57 then Goto [] 338
       else Fail)
     else if 70 < c then
       (if 97 \<le> c \<and> c \<le> 102 then Goto [] 338
       else Fail)
     else Goto [] 338)"

definition uri_case345 :: "int \<Rightarrow> uri_action goto" where
  "uri_case345 c =
    (if c = 46 then Goto [] 294
     else if c = 58 then Goto [] 333
     else if c < 54 then
       (if 48 \<le> c \<and> c \<le> 53 then Goto [] 342
       else Fail)
     else if 57 < c then
       (if 70 < c then
         (if 97 \<le> c \<and> c \<le> 102 then Goto [] 338
         else Fail)
       else if 65 \<le> c then Goto [] 338
       else Fail)
     else Goto [] 338)"

definition uri_case346 :: "int \<Rightarrow> uri_action goto" where
  "uri_case346 c =
    (if c = 46 then Goto [] 294
     else if c = 58 then Goto [] 333
     else if c < 65 then
       (if 48 \<le> c \<and> c \<le> 57 then Goto [] 344
       else Fail)
     else if 70 < c then
       (if 97 \<le> c \<and> c \<le> 102 then Goto [] 337
       else Fail)
     else Goto [] 337)"

definition uri_case347 :: "int \<Rightarrow> uri_action goto" where
  "uri_case347 c =
    (if c = 58 then Goto [] 333
     else if c < 65 then
       (if 48 \<le> c \<and> c \<le> 57 then Goto [] 337
       else Fail)
     else if 70 < c then
       (if 97 \<le> c \<and> c \<le> 102 then Goto [] 337
       else Fail)
     else Goto [] 337)"

definition uri_case348 :: "int \<Rightarrow> uri_action goto" where
  "uri_case348 c =
    (if c < 65 then
       (if 48 \<le> c \<and> c \<le> 57 then Goto [] 349
       else Fail)
     else if 70 < c then
       (if 97 \<le> c \<and> c \<le> 102 then Goto [] 349
       else Fail)
     else Goto [] 349)"

definition uri_case349 :: "int \<Rightarrow> uri_action goto" where
  "uri_case349 c =
    (if c = 58 then Goto [] 335
     else if c < 65 then
       (if 48 \<le> c \<and> c \<le> 57 then Goto [] 350
       else Fail)
     else if 70 < c then
       (if 97 \<le> c \<and> c \<le> 102 then Goto [] 350
       else Fail)
     else Goto [] 350)"

definition uri_case350 :: "int \<Rightarrow> uri_action goto" where
  "uri_case350 c =
    (if c = 58 then Goto [] 335
     else if c < 65 then
       (if 48 \<le> c \<and> c \<le> 57 then Goto [] 351
       else Fail)
     else if 70 < c then
       (if 97 \<le> c \<and> c \<le> 102 then Goto [] 351
       else Fail)
     else Goto [] 351)"

definition uri_case351 :: "int \<Rightarrow> uri_action goto" where
  "uri_case351 c =
    (if c = 58 then Goto [] 335
     else if c < 65 then
       (if 48 \<le> c \<and> c \<le> 57 then Goto [] 352
       else Fail)
     else if 70 < c then
       (if 97 \<le> c \<and> c \<le> 102 then Goto [] 352
       else Fail)
     else Goto [] 352)"

definition uri_case352 :: "int \<Rightarrow> uri_action goto" where
  "uri_case352 c =
    (if c = 58 then Goto [] 335
     else Fail)"

definition uri_case353 :: "int \<Rightarrow> uri_action goto" where
  "uri_case353 c =
    (if c < 65 then
       (if 48 \<le> c \<and> c \<le> 57 then Goto [] 354
       else Fail)
     else if 70 < c then
       (if 97 \<le> c \<and> c \<le> 102 then Goto [] 354
       else Fail)
     else Goto [] 354)"

definition uri_case354 :: "int \<Rightarrow> uri_action goto" where
  "uri_case354 c =
    (if c = 58 then Goto [] 348
     else if c < 65 then
       (if 48 \<le> c \<and> c \<le> 57 then Goto [] 355
       else Fail)
     else if 70 < c then
       (if 97 \<le> c \<and> c \<le> 102 then Goto [] 355
       else Fail)
     else Goto [] 355)"

definition uri_case355 :: "int \<Rightarrow> uri_action goto" where
  "uri_case355 c =
    (if c = 58 then Goto [] 348
     else if c < 65 then
       (if 48 \<le> c \<and> c \<le> 57 then Goto [] 356
       else Fail)
     else if 70 < c then
       (if 97 \<le> c \<and> c \<le> 102 then Goto [] 356
       else Fail)
     else Goto [] 356)"

definition uri_case356 :: "int \<Rightarrow> uri_action goto" where
  "uri_case356 c =
    (if c = 58 then Goto [] 348
     else if c < 65 then
       (if 48 \<le> c \<and> c \<le> 57 then Goto [] 357
       else Fail)
     else if 70 < c then
       (if 97 \<le> c \<and> c \<le> 102 then Goto [] 357
       else Fail)
     else Goto [] 357)"

definition uri_case357 :: "int \<Rightarrow> uri_action goto" where
  "uri_case357 c =
    (if c = 58 then Goto [] 348
     else Fail)"

definition uri_case358 :: "int \<Rightarrow> uri_action goto" where
  "uri_case358 c =
    (if c < 65 then
       (if 48 \<le> c \<and> c \<le> 57 then Goto [] 359
       else Fail)
     else if 70 < c then
       (if 97 \<le> c \<and> c \<le> 102 then Goto [] 359
       else Fail)
     else Goto [] 359)"

definition uri_case359 :: "int \<Rightarrow> uri_action goto" where
  "uri_case359 c =
    (if c = 58 then Goto [] 353
     else if c < 65 then
       (if 48 \<le> c \<and> c \<le> 57 then Goto [] 360
       else Fail)
     else if 70 < c then
       (if 97 \<le> c \<and> c \<le> 102 then Goto [] 360
       else Fail)
     else Goto [] 360)"

definition uri_case360 :: "int \<Rightarrow> uri_action goto" where
  "uri_case360 c =
    (if c = 58 then Goto [] 353
     else if c < 65 then
       (if 48 \<le> c \<and> c \<le> 57 then Goto [] 361
       else Fail)
     else if 70 < c then
       (if 97 \<le> c \<and> c \<le> 102 then Goto [] 361
       else Fail)
     else Goto [] 361)"

definition uri_case361 :: "int \<Rightarrow> uri_action goto" where
  "uri_case361 c =
    (if c = 58 then Goto [] 353
     else if c < 65 then
       (if 48 \<le> c \<and> c \<le> 57 then Goto [] 362
       else Fail)
     else if 70 < c then
       (if 97 \<le> c \<and> c \<le> 102 then Goto [] 362
       else Fail)
     else Goto [] 362)"

definition uri_case362 :: "int \<Rightarrow> uri_action goto" where
  "uri_case362 c =
    (if c = 58 then Goto [] 353
     else Fail)"

definition uri_case363 :: "int \<Rightarrow> uri_action goto" where
  "uri_case363 c =
    (if c < 65 then
       (if 48 \<le> c \<and> c \<le> 57 then Goto [] 364
       else Fail)
     else if 70 < c then
       (if 97 \<le> c \<and> c \<le> 102 then Goto [] 364
       else Fail)
     else Goto [] 364)"

definition uri_case364 :: "int \<Rightarrow> uri_action goto" where
  "uri_case364 c =
    (if c = 58 then Goto [] 358
     else if c < 65 then
       (if 48 \<le> c \<and> c \<le> 57 then Goto [] 365
       else Fail)
     else if 70 < c then
       (if 97 \<le> c \<and> c \<le> 102 then Goto [] 365
       else Fail)
     else Goto [] 365)"

definition uri_case365 :: "int \<Rightarrow> uri_action goto" where
  "uri_case365 c =
    (if c = 58 then Goto [] 358
     else if c < 65 then
       (if 48 \<le> c \<and> c \<le> 57 then Goto [] 366
       else Fail)
     else if 70 < c then
       (if 97 \<le> c \<and> c \<le> 102 then Goto [] 366
       else Fail)
     else Goto [] 366)"

definition uri_case366 :: "int \<Rightarrow> uri_action goto" where
  "uri_case366 c =
    (if c = 58 then Goto [] 358
     else if c < 65 then
       (if 48 \<le> c \<and> c \<le> 57 then Goto [] 367
       else Fail)
     else if 70 < c then
       (if 97 \<le> c \<and> c \<le> 102 then Goto [] 367
       else Fail)
     else Goto [] 367)"

definition uri_case367 :: "int \<Rightarrow> uri_action goto" where
  "uri_case367 c =
    (if c = 58 then Goto [] 358
     else Fail)"

definition uri_case368 :: "int \<Rightarrow> uri_action goto" where
  "uri_case368 c =
    (if c = 58 then Goto [] 369
     else Fail)"

definition uri_case369 :: "int \<Rightarrow> uri_action goto" where
  "uri_case369 c =
    (if c = 2 then Goto [] 291
     else if c = 48 then Goto [] 370
     else if c = 49 then Goto [] 439
     else if c = 50 then Goto [] 442
     else if c = 93 then Goto [] 512
     else if c < 65 then
       (if 51 \<le> c \<and> c \<le> 57 then Goto [] 445
       else Fail)
     else if 70 < c then
       (if 97 \<le> c \<and> c \<le> 102 then Goto [] 446
       else Fail)
     else Goto [] 446)"

definition uri_case370 :: "int \<Rightarrow> uri_action goto" where
  "uri_case370 c =
    (if c = 46 then Goto [] 294
     else if c = 58 then Goto [] 374
     else if c = 93 then Goto [] 512
     else if c < 65 then
       (if 48 \<le> c \<and> c \<le> 57 then Goto [] 371
       else Fail)
     else if 70 < c then
       (if 97 \<le> c \<and> c \<le> 102 then Goto [] 371
       else Fail)
     else Goto [] 371)"

definition uri_case371 :: "int \<Rightarrow> uri_action goto" where
  "uri_case371 c =
    (if c = 58 then Goto [] 374
     else if c = 93 then Goto [] 512
     else if c < 65 then
       (if 48 \<le> c \<and> c \<le> 57 then Goto [] 372
       else Fail)
     else if 70 < c then
       (if 97 \<le> c \<and> c \<le> 102 then Goto [] 372
       else Fail)
     else Goto [] 372)"

definition uri_case372 :: "int \<Rightarrow> uri_action goto" where
  "uri_case372 c =
    (if c = 58 then Goto [] 374
     else if c = 93 then Goto [] 512
     else if c < 65 then
       (if 48 \<le> c \<and> c \<le> 57 then Goto [] 373
       else Fail)
     else if 70 < c then
       (if 97 \<le> c \<and> c \<le> 102 then Goto [] 373
       else Fail)
     else Goto [] 373)"

definition uri_case373 :: "int \<Rightarrow> uri_action goto" where
  "uri_case373 c =
    (if c = 58 then Goto [] 374
     else if c = 93 then Goto [] 512
     else Fail)"

definition uri_case374 :: "int \<Rightarrow> uri_action goto" where
  "uri_case374 c =
    (if c = 2 then Goto [] 291
     else if c = 48 then Goto [] 375
     else if c = 49 then Goto [] 431
     else if c = 50 then Goto [] 434
     else if c < 65 then
       (if 51 \<le> c \<and> c \<le> 57 then Goto [] 437
       else Fail)
     else if 70 < c then
       (if 97 \<le> c \<and> c \<le> 102 then Goto [] 438
       else Fail)
     else Goto [] 438)"

definition uri_case375 :: "int \<Rightarrow> uri_action goto" where
  "uri_case375 c =
    (if c = 46 then Goto [] 294
     else if c = 58 then Goto [] 379
     else if c = 93 then Goto [] 512
     else if c < 65 then
       (if 48 \<le> c \<and> c \<le> 57 then Goto [] 376
       else Fail)
     else if 70 < c then
       (if 97 \<le> c \<and> c \<le> 102 then Goto [] 376
       else Fail)
     else Goto [] 376)"

definition uri_case376 :: "int \<Rightarrow> uri_action goto" where
  "uri_case376 c =
    (if c = 58 then Goto [] 379
     else if c = 93 then Goto [] 512
     else if c < 65 then
       (if 48 \<le> c \<and> c \<le> 57 then Goto [] 377
       else Fail)
     else if 70 < c then
       (if 97 \<le> c \<and> c \<le> 102 then Goto [] 377
       else Fail)
     else Goto [] 377)"

definition uri_case377 :: "int \<Rightarrow> uri_action goto" where
  "uri_case377 c =
    (if c = 58 then Goto [] 379
     else if c = 93 then Goto [] 512
     else if c < 65 then
       (if 48 \<le> c \<and> c \<le> 57 then Goto [] 378
       else Fail)
     else if 70 < c then
       (if 97 \<le> c \<and> c \<le> 102 then Goto [] 378
       else Fail)
     else Goto [] 378)"

definition uri_case378 :: "int \<Rightarrow> uri_action goto" where
  "uri_case378 c =
    (if c = 58 then Goto [] 379
     else if c = 93 then Goto [] 512
     else Fail)"

definition uri_case379 :: "int \<Rightarrow> uri_action goto" where
  "uri_case379 c =
    (if c = 2 then Goto [] 291
     else if c = 48 then Goto [] 380
     else if c = 49 then Goto [] 423
     else if c = 50 then Goto [] 426
     else if c < 65 then
       (if 51 \<le> c \<and> c \<le> 57 then Goto [] 429
       else Fail)
     else if 70 < c then
       (if 97 \<le> c \<and> c \<le> 102 then Goto [] 430
       else Fail)
     else Goto [] 430)"

definition uri_case380 :: "int \<Rightarrow> uri_action goto" where
  "uri_case380 c =
    (if c = 46 then Goto [] 294
     else if c = 58 then Goto [] 384
     else if c = 93 then Goto [] 512
     else if c < 65 then
       (if 48 \<le> c \<and> c \<le> 57 then Goto [] 381
       else Fail)
     else if 70 < c then
       (if 97 \<le> c \<and> c \<le> 102 then Goto [] 381
       else Fail)
     else Goto [] 381)"

definition uri_case381 :: "int \<Rightarrow> uri_action goto" where
  "uri_case381 c =
    (if c = 58 then Goto [] 384
     else if c = 93 then Goto [] 512
     else if c < 65 then
       (if 48 \<le> c \<and> c \<le> 57 then Goto [] 382
       else Fail)
     else if 70 < c then
       (if 97 \<le> c \<and> c \<le> 102 then Goto [] 382
       else Fail)
     else Goto [] 382)"

definition uri_case382 :: "int \<Rightarrow> uri_action goto" where
  "uri_case382 c =
    (if c = 58 then Goto [] 384
     else if c = 93 then Goto [] 512
     else if c < 65 then
       (if 48 \<le> c \<and> c \<le> 57 then Goto [] 383
       else Fail)
     else if 70 < c then
       (if 97 \<le> c \<and> c \<le> 102 then Goto [] 383
       else Fail)
     else Goto [] 383)"

definition uri_case383 :: "int \<Rightarrow> uri_action goto" where
  "uri_case383 c =
    (if c = 58 then Goto [] 384
     else if c = 93 then Goto [] 512
     else Fail)"

definition uri_case384 :: "int \<Rightarrow> uri_action goto" where
  "uri_case384 c =
    (if c = 2 then Goto [] 291
     else if c = 48 then Goto [] 385
     else if c = 49 then Goto [] 415
     else if c = 50 then Goto [] 418
     else if c < 65 then
       (if 51 \<le> c \<and> c \<le> 57 then Goto [] 421
       else Fail)
     else if 70 < c then
       (if 97 \<le> c \<and> c \<le> 102 then Goto [] 422
       else Fail)
     else Goto [] 422)"

definition uri_case385 :: "int \<Rightarrow> uri_action goto" where
  "uri_case385 c =
    (if c = 46 then Goto [] 294
     else if c = 58 then Goto [] 389
     else if c = 93 then Goto [] 512
     else if c < 65 then
       (if 48 \<le> c \<and> c \<le> 57 then Goto [] 386
       else Fail)
     else if 70 < c then
       (if 97 \<le> c \<and> c \<le> 102 then Goto [] 386
       else Fail)
     else Goto [] 386)"

definition uri_case386 :: "int \<Rightarrow> uri_action goto" where
  "uri_case386 c =
    (if c = 58 then Goto [] 389
     else if c = 93 then Goto [] 512
     else if c < 65 then
       (if 48 \<le> c \<and> c \<le> 57 then Goto [] 387
       else Fail)
     else if 70 < c then
       (if 97 \<le> c \<and> c \<le> 102 then Goto [] 387
       else Fail)
     else Goto [] 387)"

definition uri_case387 :: "int \<Rightarrow> uri_action goto" where
  "uri_case387 c =
    (if c = 58 then Goto [] 389
     else if c = 93 then Goto [] 512
     else if c < 65 then
       (if 48 \<le> c \<and> c \<le> 57 then Goto [] 388
       else Fail)
     else if 70 < c then
       (if 97 \<le> c \<and> c \<le> 102 then Goto [] 388
       else Fail)
     else Goto [] 388)"

definition uri_case388 :: "int \<Rightarrow> uri_action goto" where
  "uri_case388 c =
    (if c = 58 then Goto [] 389
     else if c = 93 then Goto [] 512
     else Fail)"

definition uri_case389 :: "int \<Rightarrow> uri_action goto" where
  "uri_case389 c =
    (if c = 2 then Goto [] 291
     else if c = 48 then Goto [] 390
     else if c = 49 then Goto [] 407
     else if c = 50 then Goto [] 410
     else if c < 65 then
       (if 51 \<le> c \<and> c \<le> 57 then Goto [] 413
       else Fail)
     else if 70 < c then
       (if 97 \<le> c \<and> c \<le> 102 then Goto [] 414
       else Fail)
     else Goto [] 414)"

definition uri_case390 :: "int \<Rightarrow> uri_action goto" where
  "uri_case390 c =
    (if c = 46 then Goto [] 294
     else if c = 58 then Goto [] 394
     else if c = 93 then Goto [] 512
     else if c < 65 then
       (if 48 \<le> c \<and> c \<le> 57 then Goto [] 391
       else Fail)
     else if 70 < c then
       (if 97 \<le> c \<and> c \<le> 102 then Goto [] 391
       else Fail)
     else Goto [] 391)"

definition uri_case391 :: "int \<Rightarrow> uri_action goto" where
  "uri_case391 c =
    (if c = 58 then Goto [] 394
     else if c = 93 then Goto [] 512
     else if c < 65 then
       (if 48 \<le> c \<and> c \<le> 57 then Goto [] 392
       else Fail)
     else if 70 < c then
       (if 97 \<le> c \<and> c \<le> 102 then Goto [] 392
       else Fail)
     else Goto [] 392)"

definition uri_case392 :: "int \<Rightarrow> uri_action goto" where
  "uri_case392 c =
    (if c = 58 then Goto [] 394
     else if c = 93 then Goto [] 512
     else if c < 65 then
       (if 48 \<le> c \<and> c \<le> 57 then Goto [] 393
       else Fail)
     else if 70 < c then
       (if 97 \<le> c \<and> c \<le> 102 then Goto [] 393
       else Fail)
     else Goto [] 393)"

definition uri_case393 :: "int \<Rightarrow> uri_action goto" where
  "uri_case393 c =
    (if c = 58 then Goto [] 394
     else if c = 93 then Goto [] 512
     else Fail)"

definition uri_case394 :: "int \<Rightarrow> uri_action goto" where
  "uri_case394 c =
    (if c = 2 then Goto [] 291
     else if c = 48 then Goto [] 395
     else if c = 49 then Goto [] 399
     else if c = 50 then Goto [] 402
     else if c < 65 then
       (if 51 \<le> c \<and> c \<le> 57 then Goto [] 405
       else Fail)
     else if 70 < c then
       (if 97 \<le> c \<and> c \<le> 102 then Goto [] 406
       else Fail)
     else Goto [] 406)"

definition uri_case395 :: "int \<Rightarrow> uri_action goto" where
  "uri_case395 c =
    (if c = 46 then Goto [] 294
     else if c = 58 then Goto [] 333
     else if c = 93 then Goto [] 512
     else if c < 65 then
       (if 48 \<le> c \<and> c \<le> 57 then Goto [] 396
       else Fail)
     else if 70 < c then
       (if 97 \<le> c \<and> c \<le> 102 then Goto [] 396
       else Fail)
     else Goto [] 396)"

definition uri_case396 :: "int \<Rightarrow> uri_action goto" where
  "uri_case396 c =
    (if c = 58 then Goto [] 333
     else if c = 93 then Goto [] 512
     else if c < 65 then
       (if 48 \<le> c \<and> c \<le> 57 then Goto [] 397
       else Fail)
     else if 70 < c then
       (if 97 \<le> c \<and> c \<le> 102 then Goto [] 397
       else Fail)
     else Goto [] 397)"

definition uri_case397 :: "int \<Rightarrow> uri_action goto" where
  "uri_case397 c =
    (if c = 58 then Goto [] 333
     else if c = 93 then Goto [] 512
     else if c < 65 then
       (if 48 \<le> c \<and> c \<le> 57 then Goto [] 398
       else Fail)
     else if 70 < c then
       (if 97 \<le> c \<and> c \<le> 102 then Goto [] 398
       else Fail)
     else Goto [] 398)"

definition uri_case398 :: "int \<Rightarrow> uri_action goto" where
  "uri_case398 c =
    (if c = 58 then Goto [] 333
     else if c = 93 then Goto [] 512
     else Fail)"

definition uri_case399 :: "int \<Rightarrow> uri_action goto" where
  "uri_case399 c =
    (if c = 46 then Goto [] 294
     else if c = 58 then Goto [] 333
     else if c = 93 then Goto [] 512
     else if c < 65 then
       (if 48 \<le> c \<and> c \<le> 57 then Goto [] 400
       else Fail)
     else if 70 < c then
       (if 97 \<le> c \<and> c \<le> 102 then Goto [] 396
       else Fail)
     else Goto [] 396)"

definition uri_case400 :: "int \<Rightarrow> uri_action goto" where
  "uri_case400 c =
    (if c = 46 then Goto [] 294
     else if c = 58 then Goto [] 333
     else if c = 93 then Goto [] 512
     else if c < 65 then
       (if 48 \<le> c \<and> c \<le> 57 then Goto [] 401
       else Fail)
     else if 70 < c then
       (if 97 \<le> c \<and> c \<le> 102 then Goto [] 397
       else Fail)
     else Goto [] 397)"

definition uri_case401 :: "int \<Rightarrow> uri_action goto" where
  "uri_case401 c =
    (if c = 46 then Goto [] 294
     else if c = 58 then Goto [] 333
     else if c = 93 then Goto [] 512
     else if c < 65 then
       (if 48 \<le> c \<and> c \<le> 57 then Goto [] 398
       else Fail)
     else if 70 < c then
       (if 97 \<le> c \<and> c \<le> 102 then Goto [] 398
       else Fail)
     else Goto [] 398)"

definition uri_case402 :: "int \<Rightarrow> uri_action goto" where
  "uri_case402 c =
    (if c = 46 then Goto [] 294
     else if c = 53 then Goto [] 404
     else if c = 58 then Goto [] 333
     else if c = 93 then Goto [] 512
     else if c < 65 then
       (if 48 \<le> c \<and> c \<le> 57 then Goto [] 403
       else Fail)
     else if 70 < c then
       (if 97 \<le> c \<and> c \<le> 102 then Goto [] 396
       else Fail)
     else Goto [] 396)"

definition uri_case403 :: "int \<Rightarrow> uri_action goto" where
  "uri_case403 c =
    (if c = 46 then Goto [] 294
     else if c = 58 then Goto [] 333
     else if c = 93 then Goto [] 512
     else if c < 65 then
       (if 48 \<le> c \<and> c \<le> 57 then Goto [] 397
       else Fail)
     else if 70 < c then
       (if 97 \<le> c \<and> c \<le> 102 then Goto [] 397
       else Fail)
     else Goto [] 397)"

definition uri_case404 :: "int \<Rightarrow> uri_action goto" where
  "uri_case404 c =
    (if c = 46 then Goto [] 294
     else if c = 58 then Goto [] 333
     else if c = 93 then Goto [] 512
     else if c < 54 then
       (if 48 \<le> c \<and> c \<le> 53 then Goto [] 401
       else Fail)
     else if 57 < c then
       (if 70 < c then
         (if 97 \<le> c \<and> c \<le> 102 then Goto [] 397
         else Fail)
       else if 65 \<le> c then Goto [] 397
       else Fail)
     else Goto [] 397)"

definition uri_case405 :: "int \<Rightarrow> uri_action goto" where
  "uri_case405 c =
    (if c = 46 then Goto [] 294
     else if c = 58 then Goto [] 333
     else if c = 93 then Goto [] 512
     else if c < 65 then
       (if 48 \<le> c \<and> c \<le> 57 then Goto [] 403
       else Fail)
     else if 70 < c then
       (if 97 \<le> c \<and> c \<le> 102 then Goto [] 396
       else Fail)
     else Goto [] 396)"

definition uri_case406 :: "int \<Rightarrow> uri_action goto" where
  "uri_case406 c =
    (if c = 58 then Goto [] 333
     else if c = 93 then Goto [] 512
     else if c < 65 then
       (if 48 \<le> c \<and> c \<le> 57 then Goto [] 396
       else Fail)
     else if 70 < c then
       (if 97 \<le> c \<and> c \<le> 102 then Goto [] 396
       else Fail)
     else Goto [] 396)"

definition uri_case407 :: "int \<Rightarrow> uri_action goto" where
  "uri_case407 c =
    (if c = 46 then Goto [] 294
     else if c = 58 then Goto [] 394
     else if c = 93 then Goto [] 512
     else if c < 65 then
       (if 48 \<le> c \<and> c \<le> 57 then Goto [] 408
       else Fail)
     else if 70 < c then
       (if 97 \<le> c \<and> c \<le> 102 then Goto [] 391
       else Fail)
     else Goto [] 391)"

definition uri_case408 :: "int \<Rightarrow> uri_action goto" where
  "uri_case408 c =
    (if c = 46 then Goto [] 294
     else if c = 58 then Goto [] 394
     else if c = 93 then Goto [] 512
     else if c < 65 then
       (if 48 \<le> c \<and> c \<le> 57 then Goto [] 409
       else Fail)
     else if 70 < c then
       (if 97 \<le> c \<and> c \<le> 102 then Goto [] 392
       else Fail)
     else Goto [] 392)"

definition uri_case409 :: "int \<Rightarrow> uri_action goto" where
  "uri_case409 c =
    (if c = 46 then Goto [] 294
     else if c = 58 then Goto [] 394
     else if c = 93 then Goto [] 512
     else if c < 65 then
       (if 48 \<le> c \<and> c \<le> 57 then Goto [] 393
       else Fail)
     else if 70 < c then
       (if 97 \<le> c \<and> c \<le> 102 then Goto [] 393
       else Fail)
     else Goto [] 393)"

definition uri_case410 :: "int \<Rightarrow> uri_action goto" where
  "uri_case410 c =
    (if c = 46 then Goto [] 294
     else if c = 53 then Goto [] 412
     else if c = 58 then Goto [] 394
     else if c = 93 then Goto [] 512
     else if c < 65 then
       (if 48 \<le> c \<and> c \<le> 57 then Goto [] 411
       else Fail)
     else if 70 < c then
       (if 97 \<le> c \<and> c \<le> 102 then Goto [] 391
       else Fail)
     else Goto [] 391)"

definition uri_case411 :: "int \<Rightarrow> uri_action goto" where
  "uri_case411 c =
    (if c = 46 then Goto [] 294
     else if c = 58 then Goto [] 394
     else if c = 93 then Goto [] 512
     else if c < 65 then
       (if 48 \<le> c \<and> c \<le> 57 then Goto [] 392
       else Fail)
     else if 70 < c then
       (if 97 \<le> c \<and> c \<le> 102 then Goto [] 392
       else Fail)
     else Goto [] 392)"

definition uri_case412 :: "int \<Rightarrow> uri_action goto" where
  "uri_case412 c =
    (if c = 46 then Goto [] 294
     else if c = 58 then Goto [] 394
     else if c = 93 then Goto [] 512
     else if c < 54 then
       (if 48 \<le> c \<and> c \<le> 53 then Goto [] 409
       else Fail)
     else if 57 < c then
       (if 70 < c then
         (if 97 \<le> c \<and> c \<le> 102 then Goto [] 392
         else Fail)
       else if 65 \<le> c then Goto [] 392
       else Fail)
     else Goto [] 392)"

definition uri_case413 :: "int \<Rightarrow> uri_action goto" where
  "uri_case413 c =
    (if c = 46 then Goto [] 294
     else if c = 58 then Goto [] 394
     else if c = 93 then Goto [] 512
     else if c < 65 then
       (if 48 \<le> c \<and> c \<le> 57 then Goto [] 411
       else Fail)
     else if 70 < c then
       (if 97 \<le> c \<and> c \<le> 102 then Goto [] 391
       else Fail)
     else Goto [] 391)"

definition uri_case414 :: "int \<Rightarrow> uri_action goto" where
  "uri_case414 c =
    (if c = 58 then Goto [] 394
     else if c = 93 then Goto [] 512
     else if c < 65 then
       (if 48 \<le> c \<and> c \<le> 57 then Goto [] 391
       else Fail)
     else if 70 < c then
       (if 97 \<le> c \<and> c \<le> 102 then Goto [] 391
       else Fail)
     else Goto [] 391)"

definition uri_case415 :: "int \<Rightarrow> uri_action goto" where
  "uri_case415 c =
    (if c = 46 then Goto [] 294
     else if c = 58 then Goto [] 389
     else if c = 93 then Goto [] 512
     else if c < 65 then
       (if 48 \<le> c \<and> c \<le> 57 then Goto [] 416
       else Fail)
     else if 70 < c then
       (if 97 \<le> c \<and> c \<le> 102 then Goto [] 386
       else Fail)
     else Goto [] 386)"

definition uri_case416 :: "int \<Rightarrow> uri_action goto" where
  "uri_case416 c =
    (if c = 46 then Goto [] 294
     else if c = 58 then Goto [] 389
     else if c = 93 then Goto [] 512
     else if c < 65 then
       (if 48 \<le> c \<and> c \<le> 57 then Goto [] 417
       else Fail)
     else if 70 < c then
       (if 97 \<le> c \<and> c \<le> 102 then Goto [] 387
       else Fail)
     else Goto [] 387)"

definition uri_case417 :: "int \<Rightarrow> uri_action goto" where
  "uri_case417 c =
    (if c = 46 then Goto [] 294
     else if c = 58 then Goto [] 389
     else if c = 93 then Goto [] 512
     else if c < 65 then
       (if 48 \<le> c \<and> c \<le> 57 then Goto [] 388
       else Fail)
     else if 70 < c then
       (if 97 \<le> c \<and> c \<le> 102 then Goto [] 388
       else Fail)
     else Goto [] 388)"

definition uri_case418 :: "int \<Rightarrow> uri_action goto" where
  "uri_case418 c =
    (if c = 46 then Goto [] 294
     else if c = 53 then Goto [] 420
     else if c = 58 then Goto [] 389
     else if c = 93 then Goto [] 512
     else if c < 65 then
       (if 48 \<le> c \<and> c \<le> 57 then Goto [] 419
       else Fail)
     else if 70 < c then
       (if 97 \<le> c \<and> c \<le> 102 then Goto [] 386
       else Fail)
     else Goto [] 386)"

definition uri_case419 :: "int \<Rightarrow> uri_action goto" where
  "uri_case419 c =
    (if c = 46 then Goto [] 294
     else if c = 58 then Goto [] 389
     else if c = 93 then Goto [] 512
     else if c < 65 then
       (if 48 \<le> c \<and> c \<le> 57 then Goto [] 387
       else Fail)
     else if 70 < c then
       (if 97 \<le> c \<and> c \<le> 102 then Goto [] 387
       else Fail)
     else Goto [] 387)"

definition uri_case420 :: "int \<Rightarrow> uri_action goto" where
  "uri_case420 c =
    (if c = 46 then Goto [] 294
     else if c = 58 then Goto [] 389
     else if c = 93 then Goto [] 512
     else if c < 54 then
       (if 48 \<le> c \<and> c \<le> 53 then Goto [] 417
       else Fail)
     else if 57 < c then
       (if 70 < c then
         (if 97 \<le> c \<and> c \<le> 102 then Goto [] 387
         else Fail)
       else if 65 \<le> c then Goto [] 387
       else Fail)
     else Goto [] 387)"

definition uri_case421 :: "int \<Rightarrow> uri_action goto" where
  "uri_case421 c =
    (if c = 46 then Goto [] 294
     else if c = 58 then Goto [] 389
     else if c = 93 then Goto [] 512
     else if c < 65 then
       (if 48 \<le> c \<and> c \<le> 57 then Goto [] 419
       else Fail)
     else if 70 < c then
       (if 97 \<le> c \<and> c \<le> 102 then Goto [] 386
       else Fail)
     else Goto [] 386)"

definition uri_case422 :: "int \<Rightarrow> uri_action goto" where
  "uri_case422 c =
    (if c = 58 then Goto [] 389
     else if c = 93 then Goto [] 512
     else if c < 65 then
       (if 48 \<le> c \<and> c \<le> 57 then Goto [] 386
       else Fail)
     else if 70 < c then
       (if 97 \<le> c \<and> c \<le> 102 then Goto [] 386
       else Fail)
     else Goto [] 386)"

definition uri_case423 :: "int \<Rightarrow> uri_action goto" where
  "uri_case423 c =
    (if c = 46 then Goto [] 294
     else if c = 58 then Goto [] 384
     else if c = 93 then Goto [] 512
     else if c < 65 then
       (if 48 \<le> c \<and> c \<le> 57 then Goto [] 424
       else Fail)
     else if 70 < c then
       (if 97 \<le> c \<and> c \<le> 102 then Goto [] 381
       else Fail)
     else Goto [] 381)"

definition uri_case424 :: "int \<Rightarrow> uri_action goto" where
  "uri_case424 c =
    (if c = 46 then Goto [] 294
     else if c = 58 then Goto [] 384
     else if c = 93 then Goto [] 512
     else if c < 65 then
       (if 48 \<le> c \<and> c \<le> 57 then Goto [] 425
       else Fail)
     else if 70 < c then
       (if 97 \<le> c \<and> c \<le> 102 then Goto [] 382
       else Fail)
     else Goto [] 382)"

definition uri_case425 :: "int \<Rightarrow> uri_action goto" where
  "uri_case425 c =
    (if c = 46 then Goto [] 294
     else if c = 58 then Goto [] 384
     else if c = 93 then Goto [] 512
     else if c < 65 then
       (if 48 \<le> c \<and> c \<le> 57 then Goto [] 383
       else Fail)
     else if 70 < c then
       (if 97 \<le> c \<and> c \<le> 102 then Goto [] 383
       else Fail)
     else Goto [] 383)"

definition uri_case426 :: "int \<Rightarrow> uri_action goto" where
  "uri_case426 c =
    (if c = 46 then Goto [] 294
     else if c = 53 then Goto [] 428
     else if c = 58 then Goto [] 384
     else if c = 93 then Goto [] 512
     else if c < 65 then
       (if 48 \<le> c \<and> c \<le> 57 then Goto [] 427
       else Fail)
     else if 70 < c then
       (if 97 \<le> c \<and> c \<le> 102 then Goto [] 381
       else Fail)
     else Goto [] 381)"

definition uri_case427 :: "int \<Rightarrow> uri_action goto" where
  "uri_case427 c =
    (if c = 46 then Goto [] 294
     else if c = 58 then Goto [] 384
     else if c = 93 then Goto [] 512
     else if c < 65 then
       (if 48 \<le> c \<and> c \<le> 57 then Goto [] 382
       else Fail)
     else if 70 < c then
       (if 97 \<le> c \<and> c \<le> 102 then Goto [] 382
       else Fail)
     else Goto [] 382)"

definition uri_case428 :: "int \<Rightarrow> uri_action goto" where
  "uri_case428 c =
    (if c = 46 then Goto [] 294
     else if c = 58 then Goto [] 384
     else if c = 93 then Goto [] 512
     else if c < 54 then
       (if 48 \<le> c \<and> c \<le> 53 then Goto [] 425
       else Fail)
     else if 57 < c then
       (if 70 < c then
         (if 97 \<le> c \<and> c \<le> 102 then Goto [] 382
         else Fail)
       else if 65 \<le> c then Goto [] 382
       else Fail)
     else Goto [] 382)"

definition uri_case429 :: "int \<Rightarrow> uri_action goto" where
  "uri_case429 c =
    (if c = 46 then Goto [] 294
     else if c = 58 then Goto [] 384
     else if c = 93 then Goto [] 512
     else if c < 65 then
       (if 48 \<le> c \<and> c \<le> 57 then Goto [] 427
       else Fail)
     else if 70 < c then
       (if 97 \<le> c \<and> c \<le> 102 then Goto [] 381
       else Fail)
     else Goto [] 381)"

definition uri_case430 :: "int \<Rightarrow> uri_action goto" where
  "uri_case430 c =
    (if c = 58 then Goto [] 384
     else if c = 93 then Goto [] 512
     else if c < 65 then
       (if 48 \<le> c \<and> c \<le> 57 then Goto [] 381
       else Fail)
     else if 70 < c then
       (if 97 \<le> c \<and> c \<le> 102 then Goto [] 381
       else Fail)
     else Goto [] 381)"

definition uri_case431 :: "int \<Rightarrow> uri_action goto" where
  "uri_case431 c =
    (if c = 46 then Goto [] 294
     else if c = 58 then Goto [] 379
     else if c = 93 then Goto [] 512
     else if c < 65 then
       (if 48 \<le> c \<and> c \<le> 57 then Goto [] 432
       else Fail)
     else if 70 < c then
       (if 97 \<le> c \<and> c \<le> 102 then Goto [] 376
       else Fail)
     else Goto [] 376)"

definition uri_case432 :: "int \<Rightarrow> uri_action goto" where
  "uri_case432 c =
    (if c = 46 then Goto [] 294
     else if c = 58 then Goto [] 379
     else if c = 93 then Goto [] 512
     else if c < 65 then
       (if 48 \<le> c \<and> c \<le> 57 then Goto [] 433
       else Fail)
     else if 70 < c then
       (if 97 \<le> c \<and> c \<le> 102 then Goto [] 377
       else Fail)
     else Goto [] 377)"

definition uri_case433 :: "int \<Rightarrow> uri_action goto" where
  "uri_case433 c =
    (if c = 46 then Goto [] 294
     else if c = 58 then Goto [] 379
     else if c = 93 then Goto [] 512
     else if c < 65 then
       (if 48 \<le> c \<and> c \<le> 57 then Goto [] 378
       else Fail)
     else if 70 < c then
       (if 97 \<le> c \<and> c \<le> 102 then Goto [] 378
       else Fail)
     else Goto [] 378)"

definition uri_case434 :: "int \<Rightarrow> uri_action goto" where
  "uri_case434 c =
    (if c = 46 then Goto [] 294
     else if c = 53 then Goto [] 436
     else if c = 58 then Goto [] 379
     else if c = 93 then Goto [] 512
     else if c < 65 then
       (if 48 \<le> c \<and> c \<le> 57 then Goto [] 435
       else Fail)
     else if 70 < c then
       (if 97 \<le> c \<and> c \<le> 102 then Goto [] 376
       else Fail)
     else Goto [] 376)"

definition uri_case435 :: "int \<Rightarrow> uri_action goto" where
  "uri_case435 c =
    (if c = 46 then Goto [] 294
     else if c = 58 then Goto [] 379
     else if c = 93 then Goto [] 512
     else if c < 65 then
       (if 48 \<le> c \<and> c \<le> 57 then Goto [] 377
       else Fail)
     else if 70 < c then
       (if 97 \<le> c \<and> c \<le> 102 then Goto [] 377
       else Fail)
     else Goto [] 377)"

definition uri_case436 :: "int \<Rightarrow> uri_action goto" where
  "uri_case436 c =
    (if c = 46 then Goto [] 294
     else if c = 58 then Goto [] 379
     else if c = 93 then Goto [] 512
     else if c < 54 then
       (if 48 \<le> c \<and> c \<le> 53 then Goto [] 433
       else Fail)
     else if 57 < c then
       (if 70 < c then
         (if 97 \<le> c \<and> c \<le> 102 then Goto [] 377
         else Fail)
       else if 65 \<le> c then Goto [] 377
       else Fail)
     else Goto [] 377)"

definition uri_case437 :: "int \<Rightarrow> uri_action goto" where
  "uri_case437 c =
    (if c = 46 then Goto [] 294
     else if c = 58 then Goto [] 379
     else if c = 93 then Goto [] 512
     else if c < 65 then
       (if 48 \<le> c \<and> c \<le> 57 then Goto [] 435
       else Fail)
     else if 70 < c then
       (if 97 \<le> c \<and> c \<le> 102 then Goto [] 376
       else Fail)
     else Goto [] 376)"

definition uri_case438 :: "int \<Rightarrow> uri_action goto" where
  "uri_case438 c =
    (if c = 58 then Goto [] 379
     else if c = 93 then Goto [] 512
     else if c < 65 then
       (if 48 \<le> c \<and> c \<le> 57 then Goto [] 376
       else Fail)
     else if 70 < c then
       (if 97 \<le> c \<and> c \<le> 102 then Goto [] 376
       else Fail)
     else Goto [] 376)"

definition uri_case439 :: "int \<Rightarrow> uri_action goto" where
  "uri_case439 c =
    (if c = 46 then Goto [] 294
     else if c = 58 then Goto [] 374
     else if c = 93 then Goto [] 512
     else if c < 65 then
       (if 48 \<le> c \<and> c \<le> 57 then Goto [] 440
       else Fail)
     else if 70 < c then
       (if 97 \<le> c \<and> c \<le> 102 then Goto [] 371
       else Fail)
     else Goto [] 371)"

definition uri_case440 :: "int \<Rightarrow> uri_action goto" where
  "uri_case440 c =
    (if c = 46 then Goto [] 294
     else if c = 58 then Goto [] 374
     else if c = 93 then Goto [] 512
     else if c < 65 then
       (if 48 \<le> c \<and> c \<le> 57 then Goto [] 441
       else Fail)
     else if 70 < c then
       (if 97 \<le> c \<and> c \<le> 102 then Goto [] 372
       else Fail)
     else Goto [] 372)"

definition uri_case441 :: "int \<Rightarrow> uri_action goto" where
  "uri_case441 c =
    (if c = 46 then Goto [] 294
     else if c = 58 then Goto [] 374
     else if c = 93 then Goto [] 512
     else if c < 65 then
       (if 48 \<le> c \<and> c \<le> 57 then Goto [] 373
       else Fail)
     else if 70 < c then
       (if 97 \<le> c \<and> c \<le> 102 then Goto [] 373
       else Fail)
     else Goto [] 373)"

definition uri_case442 :: "int \<Rightarrow> uri_action goto" where
  "uri_case442 c =
    (if c = 46 then Goto [] 294
     else if c = 53 then Goto [] 444
     else if c = 58 then Goto [] 374
     else if c = 93 then Goto [] 512
     else if c < 65 then
       (if 48 \<le> c \<and> c \<le> 57 then Goto [] 443
       else Fail)
     else if 70 < c then
       (if 97 \<le> c \<and> c \<le> 102 then Goto [] 371
       else Fail)
     else Goto [] 371)"

definition uri_case443 :: "int \<Rightarrow> uri_action goto" where
  "uri_case443 c =
    (if c = 46 then Goto [] 294
     else if c = 58 then Goto [] 374
     else if c = 93 then Goto [] 512
     else if c < 65 then
       (if 48 \<le> c \<and> c \<le> 57 then Goto [] 372
       else Fail)
     else if 70 < c then
       (if 97 \<le> c \<and> c \<le> 102 then Goto [] 372
       else Fail)
     else Goto [] 372)"

definition uri_case444 :: "int \<Rightarrow> uri_action goto" where
  "uri_case444 c =
    (if c = 46 then Goto [] 294
     else if c = 58 then Goto [] 374
     else if c = 93 then Goto [] 512
     else if c < 54 then
       (if 48 \<le> c \<and> c \<le> 53 then Goto [] 441
       else Fail)
     else if 57 < c then
       (if 70 < c then
         (if 97 \<le> c \<and> c \<le> 102 then Goto [] 372
         else Fail)
       else if 65 \<le> c then Goto [] 372
       else Fail)
     else Goto [] 372)"

definition uri_case445 :: "int \<Rightarrow> uri_action goto" where
  "uri_case445 c =
    (if c = 46 then Goto [] 294
     else if c = 58 then Goto [] 374
     else if c = 93 then Goto [] 512
     else if c < 65 then
       (if 48 \<le> c \<and> c \<le> 57 then Goto [] 443
       else Fail)
     else if 70 < c then
       (if 97 \<le> c \<and> c \<le> 102 then Goto [] 371
       else Fail)
     else Goto [] 371)"

definition uri_case446 :: "int \<Rightarrow> uri_action goto" where
  "uri_case446 c =
    (if c = 58 then Goto [] 374
     else if c = 93 then Goto [] 512
     else if c < 65 then
       (if 48 \<le> c \<and> c \<le> 57 then Goto [] 371
       else Fail)
     else if 70 < c then
       (if 97 \<le> c \<and> c \<le> 102 then Goto [] 371
       else Fail)
     else Goto [] 371)"

definition uri_case447 :: "int \<Rightarrow> uri_action goto" where
  "uri_case447 c =
    (if c < 65 then
       (if 48 \<le> c \<and> c \<le> 57 then Goto [] 448
       else Fail)
     else if 70 < c then
       (if 97 \<le> c \<and> c \<le> 102 then Goto [] 448
       else Fail)
     else Goto [] 448)"

definition uri_case448 :: "int \<Rightarrow> uri_action goto" where
  "uri_case448 c =
    (if c = 46 then Goto [] 449
     else if c < 65 then
       (if 48 \<le> c \<and> c \<le> 57 then Goto [] 448
       else Fail)
     else if 70 < c then
       (if 97 \<le> c \<and> c \<le> 102 then Goto [] 448
       else Fail)
     else Goto [] 448)"

definition uri_case449 :: "int \<Rightarrow> uri_action goto" where
  "uri_case449 c =
    (if c = 33 \<or> c = 36 \<or> c = 61 \<or> c = 95 \<or> c = 126 then Goto [] 450
     else if c < 48 then
       (if 38 \<le> c \<and> c \<le> 46 then Goto [] 450
       else Fail)
     else if 59 < c then
       (if 90 < c then
         (if 97 \<le> c \<and> c \<le> 122 then Goto [] 450
         else Fail)
       else if 65 \<le> c then Goto [] 450
       else Fail)
     else Goto [] 450)"

definition uri_case450 :: "int \<Rightarrow> uri_action goto" where
  "uri_case450 c =
    (if c = 33 \<or> c = 36 \<or> c = 61 \<or> c = 95 \<or> c = 126 then Goto [] 450
     else if c = 93 then Goto [] 512
     else if c < 48 then
       (if 38 \<le> c \<and> c \<le> 46 then Goto [] 450
       else Fail)
     else if 59 < c then
       (if 90 < c then
         (if 97 \<le> c \<and> c \<le> 122 then Goto [] 450
         else Fail)
       else if 65 \<le> c then Goto [] 450
       else Fail)
     else Goto [] 450)"

definition uri_case542 :: "int \<Rightarrow> uri_action goto" where
  "uri_case542 c =
    (if c = 33 \<or> c = 61 \<or> c = 95 \<or> c = 126 then Goto [] 255
     else if c = 35 then uri_tr570
     else if c = 37 then Goto [] 256
     else if c = 47 then uri_tr571
     else if c = 63 then uri_tr573
     else if c = 64 then uri_tr263
     else if c < 58 then
       (if 46 < c then
         (if 48 \<le> c \<and> c \<le> 57 then Goto [] 542
         else Fail)
       else if 36 \<le> c then Goto [] 255
       else Fail)
     else if 59 < c then
       (if 90 < c then
         (if 97 \<le> c \<and> c \<le> 122 then Goto [] 255
         else Fail)
       else if 65 \<le> c then Goto [] 255
       else Fail)
     else Goto [] 255)"

definition uri_case543 :: "int \<Rightarrow> uri_action goto" where
  "uri_case543 c =
    (if c = 33 \<or> c = 61 \<or> c = 95 \<or> c = 126 then Goto [] 520
     else if c = 35 then uri_tr559
     else if c = 37 then Goto [] 253
     else if c = 46 then Goto [] 544
     else if c = 47 then uri_tr560
     else if c = 58 then uri_tr576
     else if c = 63 then uri_tr562
     else if c = 64 then uri_tr263
     else if c < 65 then
       (if 36 \<le> c \<and> c \<le> 59 then Goto [] 520
       else Fail)
     else if 90 < c then
       (if 97 \<le> c \<and> c \<le> 122 then Goto [] 520
       else Fail)
     else Goto [] 520)"

definition uri_case544 :: "int \<Rightarrow> uri_action goto" where
  "uri_case544 c =
    (if c = 2 then Goto [] 233
     else if c = 33 \<or> c = 59 \<or> c = 61 \<or> c = 95 \<or> c = 126 then Goto [] 520
     else if c = 35 then uri_tr559
     else if c = 37 then Goto [] 253
     else if c = 47 then uri_tr560
     else if c = 48 then Goto [] 545
     else if c = 49 then Goto [] 553
     else if c = 50 then Goto [] 555
     else if c = 58 then uri_tr576
     else if c = 63 then uri_tr562
     else if c = 64 then uri_tr263
     else if c < 51 then
       (if 36 \<le> c \<and> c \<le> 46 then Goto [] 520
       else Fail)
     else if 57 < c then
       (if 90 < c then
         (if 97 \<le> c \<and> c \<le> 122 then Goto [] 520
         else Fail)
       else if 65 \<le> c then Goto [] 520
       else Fail)
     else Goto [] 554)"

definition uri_case545 :: "int \<Rightarrow> uri_action goto" where
  "uri_case545 c =
    (if c = 33 \<or> c = 61 \<or> c = 95 \<or> c = 126 then Goto [] 520
     else if c = 35 then uri_tr559
     else if c = 37 then Goto [] 253
     else if c = 46 then Goto [] 546
     else if c = 47 then uri_tr560
     else if c = 58 then uri_tr576
     else if c = 63 then uri_tr562
     else if c = 64 then uri_tr263
     else if c < 65 then
       (if 36 \<le> c \<and> c \<le> 59 then Goto [] 520
       else Fail)
     else if 90 < c then
       (if 97 \<le> c \<and> c \<le> 122 then Goto [] 520
       else Fail)
     else Goto [] 520)"

definition uri_case546 :: "int \<Rightarrow> uri_action goto" where
  "uri_case546 c =
    (if c = 2 then Goto [] 237
     else if c = 33 \<or> c = 59 \<or> c = 61 \<or> c = 95 \<or> c = 126 then Goto [] 520
     else if c = 35 then uri_tr559
     else if c = 37 then Goto [] 253
     else if c = 47 then uri_tr560
     else if c = 48 then Goto [] 547
     else if c = 49 then Goto [] 549
     else if c = 50 then Goto [] 551
     else if c = 58 then uri_tr576
     else if c = 63 then uri_tr562
     else if c = 64 then uri_tr263
     else if c < 51 then
       (if 36 \<le> c \<and> c \<le> 46 then Goto [] 520
       else Fail)
     else if 57 < c then
       (if 90 < c then
         (if 97 \<le> c \<and> c \<le> 122 then Goto [] 520
         else Fail)
       else if 65 \<le> c then Goto [] 520
       else Fail)
     else Goto [] 550)"

definition uri_case547 :: "int \<Rightarrow> uri_action goto" where
  "uri_case547 c =
    (if c = 33 \<or> c = 61 \<or> c = 95 \<or> c = 126 then Goto [] 520
     else if c = 35 then uri_tr559
     else if c = 37 then Goto [] 253
     else if c = 46 then Goto [] 548
     else if c = 47 then uri_tr560
     else if c = 58 then uri_tr576
     else if c = 63 then uri_tr562
     else if c = 64 then uri_tr263
     else if c < 65 then
       (if 36 \<le> c \<and> c \<le> 59 then Goto [] 520
       else Fail)
     else if 90 < c then
       (if 97 \<le> c \<and> c \<le> 122 then Goto [] 520
       else Fail)
     else Goto [] 520)"

definition uri_case548 :: "int \<Rightarrow> uri_action goto" where
  "uri_case548 c =
    (if c = 2 then Goto [] 241
     else if c = 33 \<or> c = 61 \<or> c = 95 \<or> c = 126 then Goto [] 520
     else if c = 35 then uri_tr559
     else if c = 37 then Goto [] 253
     else if c = 47 then uri_tr560
     else if c = 58 then uri_tr576
     else if c = 63 then uri_tr562
     else if c = 64 then uri_tr263
     else if c < 65 then
       (if 36 \<le> c \<and> c \<le> 59 then Goto [] 520
       else Fail)
     else if 90 < c then
       (if 97 \<le> c \<and> c \<le> 122 then Goto [] 520
       else Fail)
     else Goto [] 520)"

definition uri_case549 :: "int \<Rightarrow> uri_action goto" where
  "uri_case549 c =
    (if c = 33 \<or> c = 59 \<or> c = 61 \<or> c = 95 \<or> c = 126 then Goto [] 520
     else if c = 35 then uri_tr559
     else if c = 37 then Goto [] 253
     else if c = 46 then Goto [] 548
     else if c = 47 then uri_tr560
     else if c = 58 then uri_tr576
     else if c = 63 then uri_tr562
     else if c = 64 then uri_tr263
     else if c < 48 then
       (if 36 \<le> c \<and> c \<le> 45 then Goto [] 520
       else Fail)
     else if 57 < c then
       (if 90 < c then
         (if 97 \<le> c \<and> c \<le> 122 then Goto [] 520
         else Fail)
       else if 65 \<le> c then Goto [] 520
       else Fail)
     else Goto [] 550)"

definition uri_case550 :: "int \<Rightarrow> uri_action goto" where
  "uri_case550 c =
    (if c = 33 \<or> c = 59 \<or> c = 61 \<or> c = 95 \<or> c = 126 then Goto [] 520
     else if c = 35 then uri_tr559
     else if c = 37 then Goto [] 253
     else if c = 46 then Goto [] 548
     else if c = 47 then uri_tr560
     else if c = 58 then uri_tr576
     else if c = 63 then uri_tr562
     else if c = 64 then uri_tr263
     else if c < 48 then
       (if 36 \<le> c \<and> c \<le> 45 then Goto [] 520
       else Fail)
     else if 57 < c then
       (if 90 < c then
         (if 97 \<le> c \<and> c \<le> 122 then Goto [] 520
         else Fail)
       else if 65 \<le> c then Goto [] 520
       else Fail)
     else Goto [] 547)"

definition uri_case551 :: "int \<Rightarrow> uri_action goto" where
  "uri_case551 c =
    (if c = 33 \<or> c = 59 \<or> c = 61 \<or> c = 95 \<or> c = 126 then Goto [] 520
     else if c = 35 then uri_tr559
     else if c = 37 then Goto [] 253
     else if c = 46 then Goto [] 548
     else if c = 47 then uri_tr560
     else if c = 53 then Goto [] 552
     else if c = 58 then uri_tr576
     else if c = 63 then uri_tr562
     else if c = 64 then uri_tr263
     else if c < 48 then
       (if 36 \<le> c \<and> c \<le> 45 then Goto [] 520
       else Fail)
     else if 57 < c then
       (if 90 < c then
         (if 97 \<le> c \<and> c \<le> 122 then Goto [] 520
         else Fail)
       else if 65 \<le> c then Goto [] 520
       else Fail)
     else Goto [] 547)"

definition uri_case552 :: "int \<Rightarrow> uri_action goto" where
  "uri_case552 c =
    (if c = 33 \<or> c = 61 \<or> c = 95 \<or> c = 126 then Goto [] 520
     else if c = 35 then uri_tr559
     else if c = 37 then Goto [] 253
     else if c = 46 then Goto [] 548
     else if c = 47 then uri_tr560
     else if c = 58 then uri_tr576
     else if c = 63 then uri_tr562
     else if c = 64 then uri_tr263
     else if c < 54 then
       (if 45 < c then
         (if 48 \<le> c \<and> c \<le> 53 then Goto [] 547
         else Fail)
       else if 36 \<le> c then Goto [] 520
       else Fail)
     else if 59 < c then
       (if 90 < c then
         (if 97 \<le> c \<and> c \<le> 122 then Goto [] 520
         else Fail)
       else if 65 \<le> c then Goto [] 520
       else Fail)
     else Goto [] 520)"

definition uri_case553 :: "int \<Rightarrow> uri_action goto" where
  "uri_case553 c =
    (if c = 33 \<or> c = 59 \<or> c = 61 \<or> c = 95 \<or> c = 126 then Goto [] 520
     else if c = 35 then uri_tr559
     else if c = 37 then Goto [] 253
     else if c = 46 then Goto [] 546
     else if c = 47 then uri_tr560
     else if c = 58 then uri_tr576
     else if c = 63 then uri_tr562
     else if c = 64 then uri_tr263
     else if c < 48 then
       (if 36 \<le> c \<and> c \<le> 45 then Goto [] 520
       else Fail)
     else if 57 < c then
       (if 90 < c then
         (if 97 \<le> c \<and> c \<le> 122 then Goto [] 520
         else Fail)
       else if 65 \<le> c then Goto [] 520
       else Fail)
     else Goto [] 554)"

definition uri_case554 :: "int \<Rightarrow> uri_action goto" where
  "uri_case554 c =
    (if c = 33 \<or> c = 59 \<or> c = 61 \<or> c = 95 \<or> c = 126 then Goto [] 520
     else if c = 35 then uri_tr559
     else if c = 37 then Goto [] 253
     else if c = 46 then Goto [] 546
     else if c = 47 then uri_tr560
     else if c = 58 then uri_tr576
     else if c = 63 then uri_tr562
     else if c = 64 then uri_tr263
     else if c < 48 then
       (if 36 \<le> c \<and> c \<le> 45 then Goto [] 520
       else Fail)
     else if 57 < c then
       (if 90 < c then
         (if 97 \<le> c \<and> c \<le> 122 then Goto [] 520
         else Fail)
       else if 65 \<le> c then Goto [] 520
       else Fail)
     else Goto [] 545)"

definition uri_case555 :: "int \<Rightarrow> uri_action goto" where
  "uri_case555 c =
    (if c = 33 \<or> c = 59 \<or> c = 61 \<or> c = 95 \<or> c = 126 then Goto [] 520
     else if c = 35 then uri_tr559
     else if c = 37 then Goto [] 253
     else if c = 46 then Goto [] 546
     else if c = 47 then uri_tr560
     else if c = 53 then Goto [] 556
     else if c = 58 then uri_tr576
     else if c = 63 then uri_tr562
     else if c = 64 then uri_tr263
     else if c < 48 then
       (if 36 \<le> c \<and> c \<le> 45 then Goto [] 520
       else Fail)
     else if 57 < c then
       (if 90 < c then
         (if 97 \<le> c \<and> c \<le> 122 then Goto [] 520
         else Fail)
       else if 65 \<le> c then Goto [] 520
       else Fail)
     else Goto [] 545)"

definition uri_case556 :: "int \<Rightarrow> uri_action goto" where
  "uri_case556 c =
    (if c = 33 \<or> c = 61 \<or> c = 95 \<or> c = 126 then Goto [] 520
     else if c = 35 then uri_tr559
     else if c = 37 then Goto [] 253
     else if c = 46 then Goto [] 546
     else if c = 47 then uri_tr560
     else if c = 58 then uri_tr576
     else if c = 63 then uri_tr562
     else if c = 64 then uri_tr263
     else if c < 54 then
       (if 45 < c then
         (if 48 \<le> c \<and> c \<le> 53 then Goto [] 545
         else Fail)
       else if 36 \<le> c then Goto [] 520
       else Fail)
     else if 59 < c then
       (if 90 < c then
         (if 97 \<le> c \<and> c \<le> 122 then Goto [] 520
         else Fail)
       else if 65 \<le> c then Goto [] 520
       else Fail)
     else Goto [] 520)"

definition uri_case557 :: "int \<Rightarrow> uri_action goto" where
  "uri_case557 c =
    (if c = 33 \<or> c = 59 \<or> c = 61 \<or> c = 95 \<or> c = 126 then Goto [] 520
     else if c = 35 then uri_tr559
     else if c = 37 then Goto [] 253
     else if c = 46 then Goto [] 544
     else if c = 47 then uri_tr560
     else if c = 58 then uri_tr576
     else if c = 63 then uri_tr562
     else if c = 64 then uri_tr263
     else if c < 48 then
       (if 36 \<le> c \<and> c \<le> 45 then Goto [] 520
       else Fail)
     else if 57 < c then
       (if 90 < c then
         (if 97 \<le> c \<and> c \<le> 122 then Goto [] 520
         else Fail)
       else if 65 \<le> c then Goto [] 520
       else Fail)
     else Goto [] 558)"

definition uri_case558 :: "int \<Rightarrow> uri_action goto" where
  "uri_case558 c =
    (if c = 33 \<or> c = 59 \<or> c = 61 \<or> c = 95 \<or> c = 126 then Goto [] 520
     else if c = 35 then uri_tr559
     else if c = 37 then Goto [] 253
     else if c = 46 then Goto [] 544
     else if c = 47 then uri_tr560
     else if c = 58 then uri_tr576
     else if c = 63 then uri_tr562
     else if c = 64 then uri_tr263
     else if c < 48 then
       (if 36 \<le> c \<and> c \<le> 45 then Goto [] 520
       else Fail)
     else if 57 < c then
       (if 90 < c then
         (if 97 \<le> c \<and> c \<le> 122 then Goto [] 520
         else Fail)
       else if 65 \<le> c then Goto [] 520
       else Fail)
     else Goto [] 543)"

definition uri_case559 :: "int \<Rightarrow> uri_action goto" where
  "uri_case559 c =
    (if c = 33 \<or> c = 59 \<or> c = 61 \<or> c = 95 \<or> c = 126 then Goto [] 520
     else if c = 35 then uri_tr559
     else if c = 37 then Goto [] 253
     else if c = 46 then Goto [] 544
     else if c = 47 then uri_tr560
     else if c = 53 then Goto [] 560
     else if c = 58 then uri_tr576
     else if c = 63 then uri_tr562
     else if c = 64 then uri_tr263
     else if c < 48 then
       (if 36 \<le> c \<and> c \<le> 45 then Goto [] 520
       else Fail)
     else if 57 < c then
       (if 90 < c then
         (if 97 \<le> c \<and> c \<le> 122 then Goto [] 520
         else Fail)
       else if 65 \<le> c then Goto [] 520
       else Fail)
     else Goto [] 543)"

definition uri_case560 :: "int \<Rightarrow> uri_action goto" where
  "uri_case560 c =
    (if c = 33 \<or> c = 61 \<or> c = 95 \<or> c = 126 then Goto [] 520
     else if c = 35 then uri_tr559
     else if c = 37 then Goto [] 253
     else if c = 46 then Goto [] 544
     else if c = 47 then uri_tr560
     else if c = 58 then uri_tr576
     else if c = 63 then uri_tr562
     else if c = 64 then uri_tr263
     else if c < 54 then
       (if 45 < c then
         (if 48 \<le> c \<and> c \<le> 53 then Goto [] 543
         else Fail)
       else if 36 \<le> c then Goto [] 520
       else Fail)
     else if 59 < c then
       (if 90 < c then
         (if 97 \<le> c \<and> c \<le> 122 then Goto [] 520
         else Fail)
       else if 65 \<le> c then Goto [] 520
       else Fail)
     else Goto [] 520)"

subsection \<open>The switch\<close>

definition uri_switch :: "nat \<Rightarrow> int \<Rightarrow> uri_action goto" where
  "uri_switch cs c =
    (if cs = 0 \<or> 560 < cs then No_case
    else if cs < 281 then (if cs < 141 then (if cs < 71 then (if cs < 36 then (if cs < 18 then (if cs < 9 then (if cs < 5 then (if cs < 3 then (if cs < 2 then uri_case1 c
            else uri_case2 c)
           else if cs < 4 then uri_case3 c
           else uri_case4 c)
          else if cs < 7 then (if cs < 6 then uri_case5 c
           else uri_case6 c)
          else if cs < 8 then uri_case7 c
          else uri_case8 c)
         else if cs < 13 then (if cs < 11 then (if cs < 10 then uri_case9 c
           else uri_case10 c)
          else if cs < 12 then uri_case11 c
          else uri_case12 c)
         else if cs < 15 then (if cs < 14 then uri_case13 c
          else uri_case14 c)
         else if cs < 16 then uri_case15 c
         else if cs < 17 then uri_case16 c
         else uri_case17 c)
        else if cs < 27 then (if cs < 22 then (if cs < 20 then (if cs < 19 then uri_case18 c
           else uri_case19 c)
          else if cs < 21 then uri_case20 c
          else uri_case21 c)
         else if cs < 24 then (if cs < 23 then uri_case22 c
          else uri_case23 c)
         else if cs < 25 then uri_case24 c
         else if cs < 26 then uri_case25 c
         else uri_case26 c)
        else if cs < 31 then (if cs < 29 then (if cs < 28 then uri_case27 c
          else uri_case28 c)
         else if cs < 30 then uri_case29 c
         else uri_case30 c)
        else if cs < 33 then (if cs < 32 then uri_case31 c
         else uri_case32 c)
        else if cs < 34 then uri_case33 c
        else if cs < 35 then uri_case34 c
        else uri_case35 c)
       else if cs < 53 then (if cs < 44 then (if cs < 40 then (if cs < 38 then (if cs < 37 then uri_case36 c
           else uri_case37 c)
          else if cs < 39 then uri_case38 c
          else uri_case39 c)
         else if cs < 42 then (if cs < 41 then uri_case40 c
          else uri_case41 c)
         else if cs < 43 then uri_case42 c
         else uri_case43 c)
        else if cs < 48 then (if cs < 46 then (if cs < 45 then uri_case44 c
          else uri_case45 c)
         else if cs < 47 then uri_case46 c
         else uri_case47 c)
        else if cs < 50 then (if cs < 49 then uri_case48 c
         else uri_case49 c)
        else if cs < 51 then uri_case50 c
        else if cs < 52 then uri_case51 c
        else uri_case52 c)
       else if cs < 62 then (if cs < 57 then (if cs < 55 then (if cs < 54 then uri_case53 c
          else uri_case54 c)
         else if cs < 56 then uri_case55 c
         else uri_case56 c)
        else if cs < 59 then (if cs < 58 then uri_case57 c
         else uri_case58 c)
        else if cs < 60 then uri_case59 c
        else if cs < 61 then uri_case60 c
        else uri_case61 c)
       else if cs < 66 then (if cs < 64 then (if cs < 63 then uri_case62 c
         else uri_case63 c)
        else if cs < 65 then uri_case64 c
        else uri_case65 c)
       else if cs < 68 then (if cs < 67 then uri_case66 c
        else uri_case67 c)
       else if cs < 69 then uri_case68 c
       else if cs < 70 then uri_case69 c
       else uri_case70 c)
      else if cs < 106 then (if cs < 88 then (if cs < 79 then (if cs < 75 then (if cs < 73 then (if cs < 72 then uri_case71 c
           else uri_case72 c)
          else if cs < 74 then uri_case73 c
          else uri_case74 c)
         else if cs < 77 then (if cs < 76 then uri_case75 c
          else uri_case76 c)
         else if cs < 78 then uri_case77 c
         else uri_case78 c)
        else if cs < 83 then (if cs < 81 then (if cs < 80 then uri_case79 c
          else uri_case80 c)
         else if cs < 82 then uri_case81 c
         else uri_case82 c)
        else if cs < 85 then (if cs < 84 then uri_case83 c
         else uri_case84 c)
        else if cs < 86 then uri_case85 c
        else if cs < 87 then uri_case86 c
        else uri_case87 c)
       else if cs < 97 then (if cs < 92 then (if cs < 90 then (if cs < 89 then uri_case88 c
          else uri_case89 c)
         else if cs < 91 then uri_case90 c
         else uri_case91 c)
        else if cs < 94 then (if cs < 93 then uri_case92 c
         else uri_case93 c)
        else if cs < 95 then uri_case94 c
        else if cs < 96 then uri_case95 c
        else uri_case96 c)
       else if cs < 101 then (if cs < 99 then (if cs < 98 then uri_case97 c
         else uri_case98 c)
        else if cs < 100 then uri_case99 c
        else uri_case100 c)
       else if cs < 103 then (if cs < 102 then uri_case101 c
        else uri_case102 c)
       else if cs < 104 then uri_case103 c
       else if cs < 105 then uri_case104 c
       else uri_case105 c)
      else if cs < 123 then (if cs < 114 then (if cs < 110 then (if cs < 108 then (if cs < 107 then uri_case106 c
          else uri_case107 c)
         else if cs < 109 then uri_case108 c
         else uri_case109 c)
        else if cs < 112 then (if cs < 111 then uri_case110 c
         else uri_case111 c)
        else if cs < 113 then uri_case112 c
        else uri_case113 c)
       else if cs < 118 then (if cs < 116 then (if cs < 115 then uri_case114 c
         else uri_case115 c)
        else if cs < 117 then uri_case116 c
        else uri_case117 c)
       else if cs < 120 then (if cs < 119 then uri_case118 c
        else uri_case119 c)
       else if cs < 121 then uri_case120 c
       else if cs < 122 then uri_case121 c
       else uri_case122 c)
      else if cs < 132 then (if cs < 127 then (if cs < 125 then (if cs < 124 then uri_case123 c
         else uri_case124 c)
        else if cs < 126 then uri_case125 c
        else uri_case126 c)
       else if cs < 129 then (if cs < 128 then uri_case127 c
        else uri_case128 c)
       else if cs < 130 then uri_case129 c
       else if cs < 131 then uri_case130 c
       else uri_case131 c)
      else if cs < 136 then (if cs < 134 then (if cs < 133 then uri_case132 c
        else uri_case133 c)
       else if cs < 135 then uri_case134 c
       else uri_case135 c)
      else if cs < 138 then (if cs < 137 then uri_case136 c
       else uri_case137 c)
      else if cs < 139 then uri_case138 c
      else if cs < 140 then uri_case139 c
      else uri_case140 c)
     else if cs < 211 then (if cs < 176 then (if cs < 158 then (if cs < 149 then (if cs < 145 then (if cs < 143 then (if cs < 142 then uri_case141 c
           else uri_case142 c)
          else if cs < 144 then uri_case143 c
          else uri_case144 c)
         else if cs < 147 then (if cs < 146 then uri_case145 c
          else uri_case146 c)
         else if cs < 148 then uri_case147 c
         else uri_case148 c)
        else if cs < 153 then (if cs < 151 then (if cs < 150 then uri_case149 c
          else uri_case150 c)
         else if cs < 152 then uri_case151 c
         else uri_case152 c)
        else if cs < 155 then (if cs < 154 then uri_case153 c
         else uri_case154 c)
        else if cs < 156 then uri_case155 c
        else if cs < 157 then uri_case156 c
        else uri_case157 c)
       else if cs < 167 then (if cs < 162 then (if cs < 160 then (if cs < 159 then uri_case158 c
          else uri_case159 c)
         else if cs < 161 then uri_case160 c
         else uri_case161 c)
        else if cs < 164 then (if cs < 163 then uri_case162 c
         else uri_case163 c)
        else if cs < 165 then uri_case164 c
        else if cs < 166 then uri_case165 c
        else uri_case166 c)
       else if cs < 171 then (if cs < 169 then (if cs < 168 then uri_case167 c
         else uri_case168 c)
        else if cs < 170 then uri_case169 c
        else uri_case170 c)
       else if cs < 173 then (if cs < 172 then uri_case171 c
        else uri_case172 c)
       else if cs < 174 then uri_case173 c
       else if cs < 175 then uri_case174 c
       else uri_case175 c)
      else if cs < 193 then (if cs < 184 then (if cs < 180 then (if cs < 178 then (if cs < 177 then uri_case176 c
          else uri_case177 c)
         else if cs < 179 then uri_case178 c
         else uri_case179 c)
        else if cs < 182 then (if cs < 181 then uri_case180 c
         else uri_case181 c)
        else if cs < 183 then uri_case182 c
        else uri_case183 c)
       else if cs < 188 then (if cs < 186 then (if cs < 185 then uri_case184 c
         else uri_case185 c)
        else if cs < 187 then uri_case186 c
        else uri_case187 c)
       else if cs < 190 then (if cs < 189 then uri_case188 c
        else uri_case189 c)
       else if cs < 191 then uri_case190 c
       else if cs < 192 then uri_case191 c
       else uri_case192 c)
      else if cs < 202 then (if cs < 197 then (if cs < 195 then (if cs < 194 then uri_case193 c
         else uri_case194 c)
        else if cs < 196 then uri_case195 c
        else uri_case196 c)
       else if cs < 199 then (if cs < 198 then uri_case197 c
        else uri_case198 c)
       else if cs < 200 then uri_case199 c
       else if cs < 201 then uri_case200 c
       else uri_case201 c)
      else if cs < 206 then (if cs < 204 then (if cs < 203 then uri_case202 c
        else uri_case203 c)
       else if cs < 205 then uri_case204 c
       else uri_case205 c)
      else if cs < 208 then (if cs < 207 then uri_case206 c
       else uri_case207 c)
      else if cs < 209 then uri_case208 c
      else if cs < 210 then uri_case209 c
      else uri_case210 c)
     else if cs < 246 then (if cs < 228 then (if cs < 219 then (if cs < 215 then (if cs < 213 then (if cs < 212 then uri_case211 c
          else uri_case212 c)
         else if cs < 214 then uri_case213 c
         else uri_case214 c)
        else if cs < 217 then (if cs < 216 then uri_case215 c
         else uri_case216 c)
        else if cs < 218 then uri_case217 c
        else uri_case218 c)
       else if cs < 223 then (if cs < 221 then (if cs < 220 then uri_case219 c
         else uri_case220 c)
        else if cs < 222 then uri_case221 c
        else uri_case222 c)
       else if cs < 225 then (if cs < 224 then uri_case223 c
        else uri_case224 c)
       else if cs < 226 then uri_case225 c
       else if cs < 227 then uri_case226 c
       else uri_case227 c)
      else if cs < 237 then (if cs < 232 then (if cs < 230 then (if cs < 229 then uri_case228 c
         else uri_case229 c)
        else if cs < 231 then uri_case230 c
        else uri_case231 c)
       else if cs < 234 then (if cs < 233 then uri_case232 c
        else uri_case233 c)
       else if cs < 235 then uri_case234 c
       else if cs < 236 then uri_case235 c
       else uri_case236 c)
      else if cs < 241 then (if cs < 239 then (if cs < 238 then uri_case237 c
        else uri_case238 c)
       else if cs < 240 then uri_case239 c
       else uri_case240 c)
      else if cs < 243 then (if cs < 242 then uri_case241 c
       else uri_case242 c)
      else if cs < 244 then uri_case243 c
      else if cs < 245 then uri_case244 c
      else uri_case245 c)
     else if cs < 263 then (if cs < 254 then (if cs < 250 then (if cs < 248 then (if cs < 247 then uri_case246 c
         else uri_case247 c)
        else if cs < 249 then uri_case248 c
        else uri_case249 c)
       else if cs < 252 then (if cs < 251 then uri_case250 c
        else uri_case251 c)
       else if cs < 253 then uri_case252 c
       else uri_case253 c)
      else if cs < 258 then (if cs < 256 then (if cs < 255 then uri_case254 c
        else uri_case255 c)
       else if cs < 257 then uri_case256 c
       else uri_case257 c)
      else if cs < 260 then (if cs < 259 then uri_case258 c
       else uri_case259 c)
      else if cs < 261 then uri_case260 c
      else if cs < 262 then uri_case261 c
      else uri_case262 c)
     else if cs < 272 then (if cs < 267 then (if cs < 265 then (if cs < 264 then uri_case263 c
        else uri_case264 c)
       else if cs < 266 then uri_case265 c
       else uri_case266 c)
      else if cs < 269 then (if cs < 268 then uri_case267 c
       else uri_case268 c)
      else if cs < 270 then uri_case269 c
      else if cs < 271 then uri_case270 c
      else uri_case271 c)
     else if cs < 276 then (if cs < 274 then (if cs < 273 then uri_case272 c
       else uri_case273 c)
      else if cs < 275 then uri_case274 c
      else uri_case275 c)
     else if cs < 278 then (if cs < 277 then uri_case276 c
      else uri_case277 c)
     else if cs < 279 then uri_case278 c
     else if cs < 280 then uri_case279 c
     else uri_case280 c)
    else if cs < 421 then (if cs < 351 then (if cs < 316 then (if cs < 298 then (if cs < 289 then (if cs < 285 then (if cs < 283 then (if cs < 282 then uri_case281 c
           else uri_case282 c)
          else if cs < 284 then uri_case283 c
          else uri_case284 c)
         else if cs < 287 then (if cs < 286 then uri_case285 c
          else uri_case286 c)
         else if cs < 288 then uri_case287 c
         else uri_case288 c)
        else if cs < 293 then (if cs < 291 then (if cs < 290 then uri_case289 c
          else uri_case290 c)
         else if cs < 292 then uri_case291 c
         else uri_case292 c)
        else if cs < 295 then (if cs < 294 then uri_case293 c
         else uri_case294 c)
        else if cs < 296 then uri_case295 c
        else if cs < 297 then uri_case296 c
        else uri_case297 c)
       else if cs < 307 then (if cs < 302 then (if cs < 300 then (if cs < 299 then uri_case298 c
          else uri_case299 c)
         else if cs < 301 then uri_case300 c
         else uri_case301 c)
        else if cs < 304 then (if cs < 303 then uri_case302 c
         else uri_case303 c)
        else if cs < 305 then uri_case304 c
        else if cs < 306 then uri_case305 c
        else uri_case306 c)
       else if cs < 311 then (if cs < 309 then (if cs < 308 then uri_case307 c
         else uri_case308 c)
        else if cs < 310 then uri_case309 c
        else uri_case310 c)
       else if cs < 313 then (if cs < 312 then uri_case311 c
        else uri_case312 c)
       else if cs < 314 then uri_case313 c
       else if cs < 315 then uri_case314 c
       else uri_case315 c)
      else if cs < 333 then (if cs < 324 then (if cs < 320 then (if cs < 318 then (if cs < 317 then uri_case316 c
          else uri_case317 c)
         else if cs < 319 then uri_case318 c
         else uri_case319 c)
        else if cs < 322 then (if cs < 321 then uri_case320 c
         else uri_case321 c)
        else if cs < 323 then uri_case322 c
        else uri_case323 c)
       else if cs < 328 then (if cs < 326 then (if cs < 325 then uri_case324 c
         else uri_case325 c)
        else if cs < 327 then uri_case326 c
        else uri_case327 c)
       else if cs < 330 then (if cs < 329 then uri_case328 c
        else uri_case329 c)
       else if cs < 331 then uri_case330 c
       else if cs < 332 then uri_case331 c
       else uri_case332 c)
      else if cs < 342 then (if cs < 337 then (if cs < 335 then (if cs < 334 then uri_case333 c
         else uri_case334 c)
        else if cs < 336 then uri_case335 c
        else uri_case336 c)
       else if cs < 339 then (if cs < 338 then uri_case337 c
        else uri_case338 c)
       else if cs < 340 then uri_case339 c
       else if cs < 341 then uri_case340 c
       else uri_case341 c)
      else if cs < 346 then (if cs < 344 then (if cs < 343 then uri_case342 c
        else uri_case343 c)
       else if cs < 345 then uri_case344 c
       else uri_case345 c)
      else if cs < 348 then (if cs < 347 then uri_case346 c
       else uri_case347 c)
      else if cs < 349 then uri_case348 c
      else if cs < 350 then uri_case349 c
      else uri_case350 c)
     else if cs < 386 then (if cs < 368 then (if cs < 359 then (if cs < 355 then (if cs < 353 then (if cs < 352 then uri_case351 c
          else uri_case352 c)
         else if cs < 354 then uri_case353 c
         else uri_case354 c)
        else if cs < 357 then (if cs < 356 then uri_case355 c
         else uri_case356 c)
        else if cs < 358 then uri_case357 c
        else uri_case358 c)
       else if cs < 363 then (if cs < 361 then (if cs < 360 then uri_case359 c
         else uri_case360 c)
        else if cs < 362 then uri_case361 c
        else uri_case362 c)
       else if cs < 365 then (if cs < 364 then uri_case363 c
        else uri_case364 c)
       else if cs < 366 then uri_case365 c
       else if cs < 367 then uri_case366 c
       else uri_case367 c)
      else if cs < 377 then (if cs < 372 then (if cs < 370 then (if cs < 369 then uri_case368 c
         else uri_case369 c)
        else if cs < 371 then uri_case370 c
        else uri_case371 c)
       else if cs < 374 then (if cs < 373 then uri_case372 c
        else uri_case373 c)
       else if cs < 375 then uri_case374 c
       else if cs < 376 then uri_case375 c
       else uri_case376 c)
      else if cs < 381 then (if cs < 379 then (if cs < 378 then uri_case377 c
        else uri_case378 c)
       else if cs < 380 then uri_case379 c
       else uri_case380 c)
      else if cs < 383 then (if cs < 382 then uri_case381 c
       else uri_case382 c)
      else if cs < 384 then uri_case383 c
      else if cs < 385 then uri_case384 c
      else uri_case385 c)
     else if cs < 403 then (if cs < 394 then (if cs < 390 then (if cs < 388 then (if cs < 387 then uri_case386 c
         else uri_case387 c)
        else if cs < 389 then uri_case388 c
        else uri_case389 c)
       else if cs < 392 then (if cs < 391 then uri_case390 c
        else uri_case391 c)
       else if cs < 393 then uri_case392 c
       else uri_case393 c)
      else if cs < 398 then (if cs < 396 then (if cs < 395 then uri_case394 c
        else uri_case395 c)
       else if cs < 397 then uri_case396 c
       else uri_case397 c)
      else if cs < 400 then (if cs < 399 then uri_case398 c
       else uri_case399 c)
      else if cs < 401 then uri_case400 c
      else if cs < 402 then uri_case401 c
      else uri_case402 c)
     else if cs < 412 then (if cs < 407 then (if cs < 405 then (if cs < 404 then uri_case403 c
        else uri_case404 c)
       else if cs < 406 then uri_case405 c
       else uri_case406 c)
      else if cs < 409 then (if cs < 408 then uri_case407 c
       else uri_case408 c)
      else if cs < 410 then uri_case409 c
      else if cs < 411 then uri_case410 c
      else uri_case411 c)
     else if cs < 416 then (if cs < 414 then (if cs < 413 then uri_case412 c
       else uri_case413 c)
      else if cs < 415 then uri_case414 c
      else uri_case415 c)
     else if cs < 418 then (if cs < 417 then uri_case416 c
      else uri_case417 c)
     else if cs < 419 then uri_case418 c
     else if cs < 420 then uri_case419 c
     else uri_case420 c)
    else if cs < 491 then (if cs < 456 then (if cs < 438 then (if cs < 429 then (if cs < 425 then (if cs < 423 then (if cs < 422 then uri_case421 c
          else uri_case422 c)
         else if cs < 424 then uri_case423 c
         else uri_case424 c)
        else if cs < 427 then (if cs < 426 then uri_case425 c
         else uri_case426 c)
        else if cs < 428 then uri_case427 c
        else uri_case428 c)
       else if cs < 433 then (if cs < 431 then (if cs < 430 then uri_case429 c
         else uri_case430 c)
        else if cs < 432 then uri_case431 c
        else uri_case432 c)
       else if cs < 435 then (if cs < 434 then uri_case433 c
        else uri_case434 c)
       else if cs < 436 then uri_case435 c
       else if cs < 437 then uri_case436 c
       else uri_case437 c)
      else if cs < 447 then (if cs < 442 then (if cs < 440 then (if cs < 439 then uri_case438 c
         else uri_case439 c)
        else if cs < 441 then uri_case440 c
        else uri_case441 c)
       else if cs < 444 then (if cs < 443 then uri_case442 c
        else uri_case443 c)
       else if cs < 445 then uri_case444 c
       else if cs < 446 then uri_case445 c
       else uri_case446 c)
      else if cs < 451 then (if cs < 449 then (if cs < 448 then uri_case447 c
        else uri_case448 c)
       else if cs < 450 then uri_case449 c
       else uri_case450 c)
      else if cs < 453 then (if cs < 452 then uri_case451 c
       else uri_case452 c)
      else if cs < 454 then uri_case453 c
      else if cs < 455 then uri_case454 c
      else uri_case455 c)
     else if cs < 473 then (if cs < 464 then (if cs < 460 then (if cs < 458 then (if cs < 457 then uri_case456 c
         else uri_case457 c)
        else if cs < 459 then uri_case458 c
        else uri_case459 c)
       else if cs < 462 then (if cs < 461 then uri_case460 c
        else uri_case461 c)
       else if cs < 463 then uri_case462 c
       else uri_case463 c)
      else if cs < 468 then (if cs < 466 then (if cs < 465 then uri_case464 c
        else uri_case465 c)
       else if cs < 467 then uri_case466 c
       else uri_case467 c)
      else if cs < 470 then (if cs < 469 then uri_case468 c
       else uri_case469 c)
      else if cs < 471 then uri_case470 c
      else if cs < 472 then uri_case471 c
      else uri_case472 c)
     else if cs < 482 then (if cs < 477 then (if cs < 475 then (if cs < 474 then uri_case473 c
        else uri_case474 c)
       else if cs < 476 then uri_case475 c
       else uri_case476 c)
      else if cs < 479 then (if cs < 478 then uri_case477 c
       else uri_case478 c)
      else if cs < 480 then uri_case479 c
      else if cs < 481 then uri_case480 c
      else uri_case481 c)
     else if cs < 486 then (if cs < 484 then (if cs < 483 then uri_case482 c
       else uri_case483 c)
      else if cs < 485 then uri_case484 c
      else uri_case485 c)
     else if cs < 488 then (if cs < 487 then uri_case486 c
      else uri_case487 c)
     else if cs < 489 then uri_case488 c
     else if cs < 490 then uri_case489 c
     else uri_case490 c)
    else if cs < 526 then (if cs < 508 then (if cs < 499 then (if cs < 495 then (if cs < 493 then (if cs < 492 then uri_case491 c
         else uri_case492 c)
        else if cs < 494 then uri_case493 c
        else uri_case494 c)
       else if cs < 497 then (if cs < 496 then uri_case495 c
        else uri_case496 c)
       else if cs < 498 then uri_case497 c
       else uri_case498 c)
      else if cs < 503 then (if cs < 501 then (if cs < 500 then uri_case499 c
        else uri_case500 c)
       else if cs < 502 then uri_case501 c
       else uri_case502 c)
      else if cs < 505 then (if cs < 504 then uri_case503 c
       else uri_case504 c)
      else if cs < 506 then uri_case505 c
      else if cs < 507 then uri_case506 c
      else uri_case507 c)
     else if cs < 517 then (if cs < 512 then (if cs < 510 then (if cs < 509 then uri_case508 c
        else uri_case509 c)
       else if cs < 511 then uri_case510 c
       else uri_case511 c)
      else if cs < 514 then (if cs < 513 then uri_case512 c
       else uri_case513 c)
      else if cs < 515 then uri_case514 c
      else if cs < 516 then uri_case515 c
      else uri_case516 c)
     else if cs < 521 then (if cs < 519 then (if cs < 518 then uri_case517 c
       else uri_case518 c)
      else if cs < 520 then uri_case519 c
      else uri_case520 c)
     else if cs < 523 then (if cs < 522 then uri_case521 c
      else uri_case522 c)
     else if cs < 524 then uri_case523 c
     else if cs < 525 then uri_case524 c
     else uri_case525 c)
    else if cs < 543 then (if cs < 534 then (if cs < 530 then (if cs < 528 then (if cs < 527 then uri_case526 c
        else uri_case527 c)
       else if cs < 529 then uri_case528 c
       else uri_case529 c)
      else if cs < 532 then (if cs < 531 then uri_case530 c
       else uri_case531 c)
      else if cs < 533 then uri_case532 c
      else uri_case533 c)
     else if cs < 538 then (if cs < 536 then (if cs < 535 then uri_case534 c
       else uri_case535 c)
      else if cs < 537 then uri_case536 c
      else uri_case537 c)
     else if cs < 540 then (if cs < 539 then uri_case538 c
      else uri_case539 c)
     else if cs < 541 then uri_case540 c
     else if cs < 542 then uri_case541 c
     else uri_case542 c)
    else if cs < 552 then (if cs < 547 then (if cs < 545 then (if cs < 544 then uri_case543 c
       else uri_case544 c)
      else if cs < 546 then uri_case545 c
      else uri_case546 c)
     else if cs < 549 then (if cs < 548 then uri_case547 c
      else uri_case548 c)
     else if cs < 550 then uri_case549 c
     else if cs < 551 then uri_case550 c
     else uri_case551 c)
    else if cs < 556 then (if cs < 554 then (if cs < 553 then uri_case552 c
      else uri_case553 c)
     else if cs < 555 then uri_case554 c
     else uri_case555 c)
    else if cs < 558 then (if cs < 557 then uri_case556 c
     else uri_case557 c)
    else if cs < 559 then uri_case558 c
    else if cs < 560 then uri_case559 c
    else uri_case560 c)"

text \<open>The actions for \<open>p == eof\<close>.\<close>

definition uri_eof :: "nat \<Rightarrow> uri_action list" where
  "uri_eof cs =
    (if cs = 462 \<or> cs = 489 then [U_save_port]
     else if cs = 460 \<or> 463 \<le> cs \<and> cs \<le> 467 \<or> 470 \<le> cs \<and> cs \<le> 488 \<or> 490 \<le> cs \<and> cs \<le> 507 then [U_save_host]
     else if cs = 513 then [U_save_path]
     else if cs = 457 then [U_save_query]
     else if cs = 454 then [U_save_fragment]
     else if cs = 456 then [U_marku, U_save_query]
     else if cs = 453 then [U_marku, U_save_fragment]
     else if cs = 461 \<or> cs = 468 then [U_markh, U_save_port]
     else if cs = 459 \<or> cs = 469 then [U_markh, U_save_host]
     else if cs = 514 \<or> cs = 521 then [U_markh, U_save_port, U_save_path]
     else if cs = 511 \<or> cs = 522 then [U_markh, U_save_host, U_save_path]
     else if cs = 515 \<or> cs = 542 then [U_save_port, U_markh, U_save_path]
     else if cs = 512 \<or> 516 \<le> cs \<and> cs \<le> 520 \<or> 523 \<le> cs \<and> cs \<le> 541 \<or> 543 \<le> cs \<and> cs \<le> 560 then [U_save_host, U_markh, U_save_path]
     else [])"

end
