(* ===== verification/Uri.thy ===== *)
theory Uri
  imports UriMachine CNumber Address
begin

text \<open>
  \<^verbatim>\<open>include/uri.h\<close>, \<^verbatim>\<open>include/uri.cc\<close>: URIs and their parser around the machine of \<open>UriMachine\<close>. Pointers
  into the text are offsets.
\<close>

subsection \<open>The class\<close>

record uri =
  u_scheme :: string
  u_userinfo :: string
  u_host :: string
  u_path :: string
  u_query :: string
  u_fragment :: string
  u_port :: int

definition Uri :: uri where
  "Uri = \<lparr>u_scheme = [], u_userinfo = [], u_host = [], u_path = [], u_query = [], u_fragment = [], u_port = 0\<rparr>"

definition isDefaultPort :: "uri \<Rightarrow> bool" where
  "isDefaultPort u =
     (if u_port u = 0 then True
      else if u_scheme u = ''http'' \<or> u_scheme u = ''ws'' then u_port u = 80
      else if u_scheme u = ''https'' \<or> u_scheme u = ''wss'' then u_port u = 443
      else False)"

definition getPath :: "uri \<Rightarrow> string" where
  "getPath u = (if u_path u = [] then ''/'' else u_path u)"

definition getPort :: "uri \<Rightarrow> int" where
  "getPort u =
     (if u_port u \<noteq> 0 then u_port u
      else if u_scheme u = ''http'' \<or> u_scheme u = ''ws'' then 80
      else if u_scheme u = ''https'' \<or> u_scheme u = ''wss'' then 443
      else u_port u)"

text \<open>\<open>std::to_string\<close> of an \<open>int\<close>.\<close>

definition int_str :: "int \<Rightarrow> string" where
  "int_str i = (if i < 0 then CHR ''-'' # dec_str (nat (- i)) else dec_str (nat i))"

definition uri_dump :: "uri \<Rightarrow> string" where
  "uri_dump u = u_scheme u @ ''://'' @ u_userinfo u @ (if u_userinfo u = [] then [] else ''@'') @ u_host u
     @ (if isDefaultPort u then [] else '':'' @ int_str (u_port u)) @ getPath u
     @ (if u_query u = [] then [] else ''?'') @ u_query u
     @ (if u_fragment u = [] then [] else ''#'') @ u_fragment u"

definition uri_toString :: "uri \<Rightarrow> string" where
  "uri_toString u = uri_dump u"

text \<open>\<open>gai\<close> is what the resolver answers, as in \<open>Address\<close>; the port is converted to \<open>uint16_t\<close>.\<close>

definition createAddress ::
  "(string \<Rightarrow> string option \<Rightarrow> byte list option list option) \<Rightarrow> endian \<Rightarrow> uri \<Rightarrow> fault + address option"
where
  "createAddress gai host u = bindE (LookupAnyIPAddress gai host (u_host u)) (\<lambda>a.
     Inr (case a of None \<Rightarrow> None | Some a \<Rightarrow> Some (setPort host (word_of_int (getPort u)) a)))"

subsection \<open>Actions\<close>

text \<open>\<open>std::string(mark, p - mark)\<close>; a null \<open>mark\<close> makes the constructor throw.\<close>

definition cut :: "string \<Rightarrow> nat \<Rightarrow> nat option \<Rightarrow> fault + string" where
  "cut s p mark = (case mark of None \<Rightarrow> Inl Logic_error | Some m \<Rightarrow> Inr (take (p - m) (drop m s)))"

definition uri_do :: "string \<Rightarrow> uri_action \<Rightarrow> nat \<Rightarrow> fault + uri \<times> nat option \<Rightarrow> fault + uri \<times> nat option" where
  "uri_do s a p st = bindE st (\<lambda>(u, mark). case a of
     U_marku \<Rightarrow> Inr (u, Some p)
   | U_markh \<Rightarrow> Inr (u, Some p)
   | U_save_scheme \<Rightarrow> bindE (cut s p mark) (\<lambda>v. Inr (u\<lparr>u_scheme := v\<rparr>, None))
   | U_save_port \<Rightarrow> (case mark of
       None \<Rightarrow> Inl Null_deref
     | Some m \<Rightarrow> if p \<noteq> m then Inr (u\<lparr>u_port := c_atoi (drop m s)\<rparr>, None) else Inr (u, None))
   | U_save_userinfo \<Rightarrow> (case mark of
       None \<Rightarrow> Inr (u, None)
     | Some m \<Rightarrow> bindE (cut s p mark) (\<lambda>v. Inr (u\<lparr>u_userinfo := v\<rparr>, None)))
   | U_save_host \<Rightarrow> (case mark of
       None \<Rightarrow> Inr (u, None)
     | Some m \<Rightarrow> bindE (cut s p mark) (\<lambda>v. Inr (u\<lparr>u_host := v\<rparr>, mark)))
   | U_save_path \<Rightarrow> bindE (cut s p mark) (\<lambda>v. Inr (u\<lparr>u_path := v\<rparr>, None))
   | U_save_query \<Rightarrow> bindE (cut s p mark) (\<lambda>v. Inr (u\<lparr>u_query := v\<rparr>, None))
   | U_save_fragment \<Rightarrow> bindE (cut s p mark) (\<lambda>v. Inr (u\<lparr>u_fragment := v\<rparr>, None)))"

subsection \<open>Create\<close>

definition uri_parser_start :: nat where "uri_parser_start = 451"
definition uri_parser_first_final :: nat where "uri_parser_first_final = 451"
definition uri_parser_error :: nat where "uri_parser_error = 0"

definition uri_next :: "nat \<Rightarrow> char \<Rightarrow> uri_action goto" where
  "uri_next cs c = uri_switch cs (schar c)"

definition uri_run :: "string \<Rightarrow> nat \<times> nat \<times> (fault + uri \<times> nat option)" where
  "uri_run s = machine_run uri_next (uri_do s) uri_parser_start 0 s (Inr (Uri, None))"

definition uri_at_eof :: "string \<Rightarrow> nat \<Rightarrow> nat \<Rightarrow> fault + uri \<times> nat option \<Rightarrow> fault + uri \<times> nat option" where
  "uri_at_eof s cs p st = (if p = length s then fold (\<lambda>a. uri_do s a p) (uri_eof cs) st else st)"

definition Uri_Create :: "string \<Rightarrow> fault + uri option" where
  "Uri_Create s = (case uri_run s of (cs, p, st) \<Rightarrow>
     bindE (uri_at_eof s cs p st) (\<lambda>(u, mark).
       Inr (if cs = uri_parser_error then None else if uri_parser_first_final \<le> cs then Some u else None)))"

end
