(* ===== verification/UriSafe.thy ===== *)
theory UriSafe
  imports Uri TextRuns
begin

text \<open>
  What holds of \<open>Uri::Create\<close> on any text: when it uses a null mark.
\<close>

subsection \<open>Which transitions need a mark\<close>

text \<open>
  In the states \<open>marked\<close> the mark is set; \<open>authority\<close> are those behind \<open>://\<close>; the states \<open>at_colon\<close> stand
  behind a colon that may begin a port.
\<close>

definition marked :: "nat \<Rightarrow> bool" where
  "marked n = (n \<le> 2 \<or> 7 \<le> n \<and> n \<le> 450 \<or> n = 454 \<or> n = 457 \<or> 460 \<le> n \<and> n \<le> 468 \<or> 470 \<le> n \<and> n \<le> 508
     \<or> 512 \<le> n \<and> n \<le> 521 \<or> 523 \<le> n)"

definition authority :: "nat \<Rightarrow> bool" where
  "authority n = (229 \<le> n \<and> n \<le> 450 \<or> 511 \<le> n)"

definition at_colon :: "nat \<Rightarrow> bool" where
  "at_colon n = (n = 514 \<or> n = 521)"

text \<open>Whether the mark is set after some actions; \<open>None\<close> if one of them uses a mark that is not.\<close>

fun mark_flow :: "bool \<Rightarrow> uri_action list \<Rightarrow> bool option" where
  "mark_flow m [] = Some m"
| "mark_flow m (a # as) =
     (if a = U_marku \<or> a = U_markh then mark_flow True as
      else if a = U_save_host then mark_flow m as
      else if m then mark_flow False as else None)"

text \<open>What is true of every transition on \<open>c\<close>; the last case is a port without digits.\<close>

definition uri_flow :: "nat \<Rightarrow> int \<Rightarrow> uri_action goto \<Rightarrow> bool" where
  "uri_flow cs c g = (case g of
     Goto as n \<Rightarrow> (n = 509 \<longrightarrow> c = 58) \<and> (n = 510 \<longrightarrow> cs = 509 \<and> c = 47) \<and> (n = 511 \<longrightarrow> cs = 510 \<and> c = 47)
       \<and> (authority n \<longrightarrow> authority cs \<or> n = 511) \<and> (at_colon n \<longrightarrow> c = 58 \<and> authority cs)
       \<and> (case mark_flow (marked cs) as of Some m \<Rightarrow> (marked n \<longrightarrow> m) \<or> at_colon cs \<and> (c = 47 \<or> c = 35 \<or> c = 63)
          | None \<Rightarrow> at_colon cs \<and> (c = 47 \<or> c = 35 \<or> c = 63))
   | Break as n \<Rightarrow> False | Fail \<Rightarrow> True | No_case \<Rightarrow> True)"

lemma uri_flow_simps:
  "uri_flow cs c (Goto [] n) =
     ((n = 509 \<longrightarrow> c = 58) \<and> (n = 510 \<longrightarrow> cs = 509 \<and> c = 47) \<and> (n = 511 \<longrightarrow> cs = 510 \<and> c = 47)
       \<and> (authority n \<longrightarrow> authority cs \<or> n = 511) \<and> (at_colon n \<longrightarrow> c = 58 \<and> authority cs)
       \<and> ((marked n \<longrightarrow> marked cs) \<or> at_colon cs \<and> (c = 47 \<or> c = 35 \<or> c = 63)))"
  "uri_flow cs c (Goto (a # as) n) =
     ((n = 509 \<longrightarrow> c = 58) \<and> (n = 510 \<longrightarrow> cs = 509 \<and> c = 47) \<and> (n = 511 \<longrightarrow> cs = 510 \<and> c = 47)
       \<and> (authority n \<longrightarrow> authority cs \<or> n = 511) \<and> (at_colon n \<longrightarrow> c = 58 \<and> authority cs)
       \<and> (case mark_flow (marked cs) (a # as) of Some m \<Rightarrow> (marked n \<longrightarrow> m) \<or> at_colon cs \<and> (c = 47 \<or> c = 35 \<or> c = 63)
          | None \<Rightarrow> at_colon cs \<and> (c = 47 \<or> c = 35 \<or> c = 63)))"
  "uri_flow cs c Fail" "uri_flow cs c No_case"
  "uri_flow cs c g \<Longrightarrow> uri_flow cs c g' \<Longrightarrow> uri_flow cs c (if b then g else g')"
  by (simp_all add: uri_flow_def)

lemmas uri_cases =
      uri_case1_def uri_case2_def uri_case3_def uri_case4_def uri_case5_def uri_case6_def uri_case7_def
      uri_case8_def uri_case9_def uri_case10_def uri_case11_def uri_case12_def uri_case13_def uri_case14_def
      uri_case15_def uri_case16_def uri_case17_def uri_case18_def uri_case19_def uri_case20_def uri_case21_def
      uri_case22_def uri_case23_def uri_case24_def uri_case25_def uri_case26_def uri_case27_def uri_case28_def
      uri_case29_def uri_case30_def uri_case31_def uri_case32_def uri_case33_def uri_case34_def uri_case35_def
      uri_case36_def uri_case37_def uri_case38_def uri_case39_def uri_case40_def uri_case41_def uri_case42_def
      uri_case43_def uri_case44_def uri_case45_def uri_case46_def uri_case47_def uri_case48_def uri_case49_def
      uri_case50_def uri_case51_def uri_case52_def uri_case53_def uri_case54_def uri_case55_def uri_case56_def
      uri_case57_def uri_case58_def uri_case59_def uri_case60_def uri_case61_def uri_case62_def uri_case63_def
      uri_case64_def uri_case65_def uri_case66_def uri_case67_def uri_case68_def uri_case69_def uri_case70_def
      uri_case71_def uri_case72_def uri_case73_def uri_case74_def uri_case75_def uri_case76_def uri_case77_def
      uri_case78_def uri_case79_def uri_case80_def uri_case81_def uri_case82_def uri_case83_def uri_case84_def
      uri_case85_def uri_case86_def uri_case87_def uri_case88_def uri_case89_def uri_case90_def uri_case91_def
      uri_case92_def uri_case93_def uri_case94_def uri_case95_def uri_case96_def uri_case97_def uri_case98_def
      uri_case99_def uri_case100_def uri_case101_def uri_case102_def uri_case103_def uri_case104_def
      uri_case105_def uri_case106_def uri_case107_def uri_case108_def uri_case109_def uri_case110_def
      uri_case111_def uri_case112_def uri_case113_def uri_case114_def uri_case115_def uri_case116_def
      uri_case117_def uri_case118_def uri_case119_def uri_case120_def uri_case121_def uri_case122_def
      uri_case123_def uri_case124_def uri_case125_def uri_case126_def uri_case127_def uri_case128_def
      uri_case129_def uri_case130_def uri_case131_def uri_case132_def uri_case133_def uri_case134_def
      uri_case135_def uri_case136_def uri_case137_def uri_case138_def uri_case139_def uri_case140_def
      uri_case141_def uri_case142_def uri_case143_def uri_case144_def uri_case145_def uri_case146_def
      uri_case147_def uri_case148_def uri_case149_def uri_case150_def uri_case151_def uri_case152_def
      uri_case153_def uri_case154_def uri_case155_def uri_case156_def uri_case157_def uri_case158_def
      uri_case159_def uri_case160_def uri_case161_def uri_case162_def uri_case163_def uri_case164_def
      uri_case165_def uri_case166_def uri_case167_def uri_case168_def uri_case169_def uri_case170_def
      uri_case171_def uri_case172_def uri_case173_def uri_case174_def uri_case175_def uri_case176_def
      uri_case177_def uri_case178_def uri_case179_def uri_case180_def uri_case181_def uri_case182_def
      uri_case183_def uri_case184_def uri_case185_def uri_case186_def uri_case187_def uri_case188_def
      uri_case189_def uri_case190_def uri_case191_def uri_case192_def uri_case193_def uri_case194_def
      uri_case195_def uri_case196_def uri_case197_def uri_case198_def uri_case199_def uri_case200_def
      uri_case201_def uri_case202_def uri_case203_def uri_case204_def uri_case205_def uri_case206_def
      uri_case207_def uri_case208_def uri_case209_def uri_case210_def uri_case211_def uri_case212_def
      uri_case213_def uri_case214_def uri_case215_def uri_case216_def uri_case217_def uri_case218_def
      uri_case219_def uri_case220_def uri_case221_def uri_case222_def uri_case223_def uri_case224_def
      uri_case225_def uri_case226_def uri_case227_def uri_case228_def uri_case229_def uri_case230_def
      uri_case231_def uri_case232_def uri_case233_def uri_case234_def uri_case235_def uri_case236_def
      uri_case237_def uri_case238_def uri_case239_def uri_case240_def uri_case241_def uri_case242_def
      uri_case243_def uri_case244_def uri_case245_def uri_case246_def uri_case247_def uri_case248_def
      uri_case249_def uri_case250_def uri_case251_def uri_case252_def uri_case253_def uri_case254_def
      uri_case255_def uri_case256_def uri_case257_def uri_case258_def uri_case259_def uri_case260_def
      uri_case261_def uri_case262_def uri_case263_def uri_case264_def uri_case265_def uri_case266_def
      uri_case267_def uri_case268_def uri_case269_def uri_case270_def uri_case271_def uri_case272_def
      uri_case273_def uri_case274_def uri_case275_def uri_case276_def uri_case277_def uri_case278_def
      uri_case279_def uri_case280_def uri_case281_def uri_case282_def uri_case283_def uri_case284_def
      uri_case285_def uri_case286_def uri_case287_def uri_case288_def uri_case289_def uri_case290_def
      uri_case291_def uri_case292_def uri_case293_def uri_case294_def uri_case295_def uri_case296_def
      uri_case297_def uri_case298_def uri_case299_def uri_case300_def uri_case301_def uri_case302_def
      uri_case303_def uri_case304_def uri_case305_def uri_case306_def uri_case307_def uri_case308_def
      uri_case309_def uri_case310_def uri_case311_def uri_case312_def uri_case313_def uri_case314_def
      uri_case315_def uri_case316_def uri_case317_def uri_case318_def uri_case319_def uri_case320_def
      uri_case321_def uri_case322_def uri_case323_def uri_case324_def uri_case325_def uri_case326_def
      uri_case327_def uri_case328_def uri_case329_def uri_case330_def uri_case331_def uri_case332_def
      uri_case333_def uri_case334_def uri_case335_def uri_case336_def uri_case337_def uri_case338_def
      uri_case339_def uri_case340_def uri_case341_def uri_case342_def uri_case343_def uri_case344_def
      uri_case345_def uri_case346_def uri_case347_def uri_case348_def uri_case349_def uri_case350_def
      uri_case351_def uri_case352_def uri_case353_def uri_case354_def uri_case355_def uri_case356_def
      uri_case357_def uri_case358_def uri_case359_def uri_case360_def uri_case361_def uri_case362_def
      uri_case363_def uri_case364_def uri_case365_def uri_case366_def uri_case367_def uri_case368_def
      uri_case369_def uri_case370_def uri_case371_def uri_case372_def uri_case373_def uri_case374_def
      uri_case375_def uri_case376_def uri_case377_def uri_case378_def uri_case379_def uri_case380_def
      uri_case381_def uri_case382_def uri_case383_def uri_case384_def uri_case385_def uri_case386_def
      uri_case387_def uri_case388_def uri_case389_def uri_case390_def uri_case391_def uri_case392_def
      uri_case393_def uri_case394_def uri_case395_def uri_case396_def uri_case397_def uri_case398_def
      uri_case399_def uri_case400_def uri_case401_def uri_case402_def uri_case403_def uri_case404_def
      uri_case405_def uri_case406_def uri_case407_def uri_case408_def uri_case409_def uri_case410_def
      uri_case411_def uri_case412_def uri_case413_def uri_case414_def uri_case415_def uri_case416_def
      uri_case417_def uri_case418_def uri_case419_def uri_case420_def uri_case421_def uri_case422_def
      uri_case423_def uri_case424_def uri_case425_def uri_case426_def uri_case427_def uri_case428_def
      uri_case429_def uri_case430_def uri_case431_def uri_case432_def uri_case433_def uri_case434_def
      uri_case435_def uri_case436_def uri_case437_def uri_case438_def uri_case439_def uri_case440_def
      uri_case441_def uri_case442_def uri_case443_def uri_case444_def uri_case445_def uri_case446_def
      uri_case447_def uri_case448_def uri_case449_def uri_case450_def uri_case451_def uri_case452_def
      uri_case453_def uri_case454_def uri_case455_def uri_case456_def uri_case457_def uri_case458_def
      uri_case459_def uri_case460_def uri_case461_def uri_case462_def uri_case463_def uri_case464_def
      uri_case465_def uri_case466_def uri_case467_def uri_case468_def uri_case469_def uri_case470_def
      uri_case471_def uri_case472_def uri_case473_def uri_case474_def uri_case475_def uri_case476_def
      uri_case477_def uri_case478_def uri_case479_def uri_case480_def uri_case481_def uri_case482_def
      uri_case483_def uri_case484_def uri_case485_def uri_case486_def uri_case487_def uri_case488_def
      uri_case489_def uri_case490_def uri_case491_def uri_case492_def uri_case493_def uri_case494_def
      uri_case495_def uri_case496_def uri_case497_def uri_case498_def uri_case499_def uri_case500_def
      uri_case501_def uri_case502_def uri_case503_def uri_case504_def uri_case505_def uri_case506_def
      uri_case507_def uri_case508_def uri_case509_def uri_case510_def uri_case511_def uri_case512_def
      uri_case513_def uri_case514_def uri_case515_def uri_case516_def uri_case517_def uri_case518_def
      uri_case519_def uri_case520_def uri_case521_def uri_case522_def uri_case523_def uri_case524_def
      uri_case525_def uri_case526_def uri_case527_def uri_case528_def uri_case529_def uri_case530_def
      uri_case531_def uri_case532_def uri_case533_def uri_case534_def uri_case535_def uri_case536_def
      uri_case537_def uri_case538_def uri_case539_def uri_case540_def uri_case541_def uri_case542_def
      uri_case543_def uri_case544_def uri_case545_def uri_case546_def uri_case547_def uri_case548_def
      uri_case549_def uri_case550_def uri_case551_def uri_case552_def uri_case553_def uri_case554_def
      uri_case555_def uri_case556_def uri_case557_def uri_case558_def uri_case559_def uri_case560_def

lemmas uri_trs =
      uri_tr467_def uri_tr469_def uri_tr474_def uri_tr485_def uri_tr489_def uri_tr493_def uri_tr548_def
      uri_tr559_def uri_tr563_def uri_tr566_def uri_tr570_def uri_tr462_def uri_tr463_def uri_tr476_def
      uri_tr486_def uri_tr490_def uri_tr494_def uri_tr482_def uri_tr488_def uri_tr492_def uri_tr496_def
      uri_tr556_def uri_tr562_def uri_tr565_def uri_tr569_def uri_tr573_def uri_tr466_def uri_tr468_def
      uri_tr472_def uri_tr507_def uri_tr487_def uri_tr491_def uri_tr473_def uri_tr475_def uri_tr481_def
      uri_tr499_def uri_tr38_def uri_tr483_def uri_tr501_def uri_tr502_def uri_tr503_def uri_tr504_def
      uri_tr506_def uri_tr505_def uri_tr484_def uri_tr500_def uri_tr477_def uri_tr478_def uri_tr480_def
      uri_tr479_def uri_tr461_def uri_tr543_def uri_tr546_def uri_tr550_def uri_tr567_def uri_tr560_def
      uri_tr571_def uri_tr584_def uri_tr561_def uri_tr568_def uri_tr547_def uri_tr549_def uri_tr555_def
      uri_tr576_def uri_tr263_def uri_tr557_def uri_tr578_def uri_tr579_def uri_tr580_def uri_tr581_def
      uri_tr583_def uri_tr582_def uri_tr558_def uri_tr577_def uri_tr551_def uri_tr552_def uri_tr554_def
      uri_tr553_def

lemma uri_switch_at:
  "uri_switch 1 c = uri_case1 c"
  "uri_switch 2 c = uri_case2 c"
  "uri_switch 3 c = uri_case3 c"
  "uri_switch 4 c = uri_case4 c"
  "uri_switch 5 c = uri_case5 c"
  "uri_switch 6 c = uri_case6 c"
  "uri_switch 7 c = uri_case7 c"
  "uri_switch 8 c = uri_case8 c"
  "uri_switch 9 c = uri_case9 c"
  "uri_switch 10 c = uri_case10 c"
  "uri_switch 11 c = uri_case11 c"
  "uri_switch 12 c = uri_case12 c"
  "uri_switch 13 c = uri_case13 c"
  "uri_switch 14 c = uri_case14 c"
  "uri_switch 15 c = uri_case15 c"
  "uri_switch 16 c = uri_case16 c"
  "uri_switch 17 c = uri_case17 c"
  "uri_switch 18 c = uri_case18 c"
  "uri_switch 19 c = uri_case19 c"
  "uri_switch 20 c = uri_case20 c"
  "uri_switch 21 c = uri_case21 c"
  "uri_switch 22 c = uri_case22 c"
  "uri_switch 23 c = uri_case23 c"
  "uri_switch 24 c = uri_case24 c"
  "uri_switch 25 c = uri_case25 c"
  "uri_switch 26 c = uri_case26 c"
  "uri_switch 27 c = uri_case27 c"
  "uri_switch 28 c = uri_case28 c"
  "uri_switch 29 c = uri_case29 c"
  "uri_switch 30 c = uri_case30 c"
  "uri_switch 31 c = uri_case31 c"
  "uri_switch 32 c = uri_case32 c"
  "uri_switch 33 c = uri_case33 c"
  "uri_switch 34 c = uri_case34 c"
  "uri_switch 35 c = uri_case35 c"
  "uri_switch 36 c = uri_case36 c"
  "uri_switch 37 c = uri_case37 c"
  "uri_switch 38 c = uri_case38 c"
  "uri_switch 39 c = uri_case39 c"
  "uri_switch 40 c = uri_case40 c"
  "uri_switch 41 c = uri_case41 c"
  "uri_switch 42 c = uri_case42 c"
  "uri_switch 43 c = uri_case43 c"
  "uri_switch 44 c = uri_case44 c"
  "uri_switch 45 c = uri_case45 c"
  "uri_switch 46 c = uri_case46 c"
  "uri_switch 47 c = uri_case47 c"
  "uri_switch 48 c = uri_case48 c"
  "uri_switch 49 c = uri_case49 c"
  "uri_switch 50 c = uri_case50 c"
  "uri_switch 51 c = uri_case51 c"
  "uri_switch 52 c = uri_case52 c"
  "uri_switch 53 c = uri_case53 c"
  "uri_switch 54 c = uri_case54 c"
  "uri_switch 55 c = uri_case55 c"
  "uri_switch 56 c = uri_case56 c"
  "uri_switch 57 c = uri_case57 c"
  "uri_switch 58 c = uri_case58 c"
  "uri_switch 59 c = uri_case59 c"
  "uri_switch 60 c = uri_case60 c"
  "uri_switch 61 c = uri_case61 c"
  "uri_switch 62 c = uri_case62 c"
  "uri_switch 63 c = uri_case63 c"
  "uri_switch 64 c = uri_case64 c"
  "uri_switch 65 c = uri_case65 c"
  "uri_switch 66 c = uri_case66 c"
  "uri_switch 67 c = uri_case67 c"
  "uri_switch 68 c = uri_case68 c"
  "uri_switch 69 c = uri_case69 c"
  "uri_switch 70 c = uri_case70 c"
  "uri_switch 71 c = uri_case71 c"
  "uri_switch 72 c = uri_case72 c"
  "uri_switch 73 c = uri_case73 c"
  "uri_switch 74 c = uri_case74 c"
  "uri_switch 75 c = uri_case75 c"
  "uri_switch 76 c = uri_case76 c"
  "uri_switch 77 c = uri_case77 c"
  "uri_switch 78 c = uri_case78 c"
  "uri_switch 79 c = uri_case79 c"
  "uri_switch 80 c = uri_case80 c"
  "uri_switch 81 c = uri_case81 c"
  "uri_switch 82 c = uri_case82 c"
  "uri_switch 83 c = uri_case83 c"
  "uri_switch 84 c = uri_case84 c"
  "uri_switch 85 c = uri_case85 c"
  "uri_switch 86 c = uri_case86 c"
  "uri_switch 87 c = uri_case87 c"
  "uri_switch 88 c = uri_case88 c"
  "uri_switch 89 c = uri_case89 c"
  "uri_switch 90 c = uri_case90 c"
  "uri_switch 91 c = uri_case91 c"
  "uri_switch 92 c = uri_case92 c"
  "uri_switch 93 c = uri_case93 c"
  "uri_switch 94 c = uri_case94 c"
  "uri_switch 95 c = uri_case95 c"
  "uri_switch 96 c = uri_case96 c"
  "uri_switch 97 c = uri_case97 c"
  "uri_switch 98 c = uri_case98 c"
  "uri_switch 99 c = uri_case99 c"
  "uri_switch 100 c = uri_case100 c"
  "uri_switch 101 c = uri_case101 c"
  "uri_switch 102 c = uri_case102 c"
  "uri_switch 103 c = uri_case103 c"
  "uri_switch 104 c = uri_case104 c"
  "uri_switch 105 c = uri_case105 c"
  "uri_switch 106 c = uri_case106 c"
  "uri_switch 107 c = uri_case107 c"
  "uri_switch 108 c = uri_case108 c"
  "uri_switch 109 c = uri_case109 c"
  "uri_switch 110 c = uri_case110 c"
  "uri_switch 111 c = uri_case111 c"
  "uri_switch 112 c = uri_case112 c"
  "uri_switch 113 c = uri_case113 c"
  "uri_switch 114 c = uri_case114 c"
  "uri_switch 115 c = uri_case115 c"
  "uri_switch 116 c = uri_case116 c"
  "uri_switch 117 c = uri_case117 c"
  "uri_switch 118 c = uri_case118 c"
  "uri_switch 119 c = uri_case119 c"
  "uri_switch 120 c = uri_case120 c"
  "uri_switch 121 c = uri_case121 c"
  "uri_switch 122 c = uri_case122 c"
  "uri_switch 123 c = uri_case123 c"
  "uri_switch 124 c = uri_case124 c"
  "uri_switch 125 c = uri_case125 c"
  "uri_switch 126 c = uri_case126 c"
  "uri_switch 127 c = uri_case127 c"
  "uri_switch 128 c = uri_case128 c"
  "uri_switch 129 c = uri_case129 c"
  "uri_switch 130 c = uri_case130 c"
  "uri_switch 131 c = uri_case131 c"
  "uri_switch 132 c = uri_case132 c"
  "uri_switch 133 c = uri_case133 c"
  "uri_switch 134 c = uri_case134 c"
  "uri_switch 135 c = uri_case135 c"
  "uri_switch 136 c = uri_case136 c"
  "uri_switch 137 c = uri_case137 c"
  "uri_switch 138 c = uri_case138 c"
  "uri_switch 139 c = uri_case139 c"
  "uri_switch 140 c = uri_case140 c"
  "uri_switch 141 c = uri_case141 c"
  "uri_switch 142 c = uri_case142 c"
  "uri_switch 143 c = uri_case143 c"
  "uri_switch 144 c = uri_case144 c"
  "uri_switch 145 c = uri_case145 c"
  "uri_switch 146 c = uri_case146 c"
  "uri_switch 147 c = uri_case147 c"
  "uri_switch 148 c = uri_case148 c"
  "uri_switch 149 c = uri_case149 c"
  "uri_switch 150 c = uri_case150 c"
  "uri_switch 151 c = uri_case151 c"
  "uri_switch 152 c = uri_case152 c"
  "uri_switch 153 c = uri_case153 c"
  "uri_switch 154 c = uri_case154 c"
  "uri_switch 155 c = uri_case155 c"
  "uri_switch 156 c = uri_case156 c"
  "uri_switch 157 c = uri_case157 c"
  "uri_switch 158 c = uri_case158 c"
  "uri_switch 159 c = uri_case159 c"
  "uri_switch 160 c = uri_case160 c"
  "uri_switch 161 c = uri_case161 c"
  "uri_switch 162 c = uri_case162 c"
  "uri_switch 163 c = uri_case163 c"
  "uri_switch 164 c = uri_case164 c"
  "uri_switch 165 c = uri_case165 c"
  "uri_switch 166 c = uri_case166 c"
  "uri_switch 167 c = uri_case167 c"
  "uri_switch 168 c = uri_case168 c"
  "uri_switch 169 c = uri_case169 c"
  "uri_switch 170 c = uri_case170 c"
  "uri_switch 171 c = uri_case171 c"
  "uri_switch 172 c = uri_case172 c"
  "uri_switch 173 c = uri_case173 c"
  "uri_switch 174 c = uri_case174 c"
  "uri_switch 175 c = uri_case175 c"
  "uri_switch 176 c = uri_case176 c"
  "uri_switch 177 c = uri_case177 c"
  "uri_switch 178 c = uri_case178 c"
  "uri_switch 179 c = uri_case179 c"
  "uri_switch 180 c = uri_case180 c"
  "uri_switch 181 c = uri_case181 c"
  "uri_switch 182 c = uri_case182 c"
  "uri_switch 183 c = uri_case183 c"
  "uri_switch 184 c = uri_case184 c"
  "uri_switch 185 c = uri_case185 c"
  "uri_switch 186 c = uri_case186 c"
  "uri_switch 187 c = uri_case187 c"
  "uri_switch 188 c = uri_case188 c"
  "uri_switch 189 c = uri_case189 c"
  "uri_switch 190 c = uri_case190 c"
  "uri_switch 191 c = uri_case191 c"
  "uri_switch 192 c = uri_case192 c"
  "uri_switch 193 c = uri_case193 c"
  "uri_switch 194 c = uri_case194 c"
  "uri_switch 195 c = uri_case195 c"
  "uri_switch 196 c = uri_case196 c"
  "uri_switch 197 c = uri_case197 c"
  "uri_switch 198 c = uri_case198 c"
  "uri_switch 199 c = uri_case199 c"
  "uri_switch 200 c = uri_case200 c"
  "uri_switch 201 c = uri_case201 c"
  "uri_switch 202 c = uri_case202 c"
  "uri_switch 203 c = uri_case203 c"
  "uri_switch 204 c = uri_case204 c"
  "uri_switch 205 c = uri_case205 c"
  "uri_switch 206 c = uri_case206 c"
  "uri_switch 207 c = uri_case207 c"
  "uri_switch 208 c = uri_case208 c"
  "uri_switch 209 c = uri_case209 c"
  "uri_switch 210 c = uri_case210 c"
  "uri_switch 211 c = uri_case211 c"
  "uri_switch 212 c = uri_case212 c"
  "uri_switch 213 c = uri_case213 c"
  "uri_switch 214 c = uri_case214 c"
  "uri_switch 215 c = uri_case215 c"
  "uri_switch 216 c = uri_case216 c"
  "uri_switch 217 c = uri_case217 c"
  "uri_switch 218 c = uri_case218 c"
  "uri_switch 219 c = uri_case219 c"
  "uri_switch 220 c = uri_case220 c"
  "uri_switch 221 c = uri_case221 c"
  "uri_switch 222 c = uri_case222 c"
  "uri_switch 223 c = uri_case223 c"
  "uri_switch 224 c = uri_case224 c"
  "uri_switch 225 c = uri_case225 c"
  "uri_switch 226 c = uri_case226 c"
  "uri_switch 227 c = uri_case227 c"
  "uri_switch 228 c = uri_case228 c"
  "uri_switch 229 c = uri_case229 c"
  "uri_switch 230 c = uri_case230 c"
  "uri_switch 231 c = uri_case231 c"
  "uri_switch 232 c = uri_case232 c"
  "uri_switch 233 c = uri_case233 c"
  "uri_switch 234 c = uri_case234 c"
  "uri_switch 235 c = uri_case235 c"
  "uri_switch 236 c = uri_case236 c"
  "uri_switch 237 c = uri_case237 c"
  "uri_switch 238 c = uri_case238 c"
  "uri_switch 239 c = uri_case239 c"
  "uri_switch 240 c = uri_case240 c"
  "uri_switch 241 c = uri_case241 c"
  "uri_switch 242 c = uri_case242 c"
  "uri_switch 243 c = uri_case243 c"
  "uri_switch 244 c = uri_case244 c"
  "uri_switch 245 c = uri_case245 c"
  "uri_switch 246 c = uri_case246 c"
  "uri_switch 247 c = uri_case247 c"
  "uri_switch 248 c = uri_case248 c"
  "uri_switch 249 c = uri_case249 c"
  "uri_switch 250 c = uri_case250 c"
  "uri_switch 251 c = uri_case251 c"
  "uri_switch 252 c = uri_case252 c"
  "uri_switch 253 c = uri_case253 c"
  "uri_switch 254 c = uri_case254 c"
  "uri_switch 255 c = uri_case255 c"
  "uri_switch 256 c = uri_case256 c"
  "uri_switch 257 c = uri_case257 c"
  "uri_switch 258 c = uri_case258 c"
  "uri_switch 259 c = uri_case259 c"
  "uri_switch 260 c = uri_case260 c"
  "uri_switch 261 c = uri_case261 c"
  "uri_switch 262 c = uri_case262 c"
  "uri_switch 263 c = uri_case263 c"
  "uri_switch 264 c = uri_case264 c"
  "uri_switch 265 c = uri_case265 c"
  "uri_switch 266 c = uri_case266 c"
  "uri_switch 267 c = uri_case267 c"
  "uri_switch 268 c = uri_case268 c"
  "uri_switch 269 c = uri_case269 c"
  "uri_switch 270 c = uri_case270 c"
  "uri_switch 271 c = uri_case271 c"
  "uri_switch 272 c = uri_case272 c"
  "uri_switch 273 c = uri_case273 c"
  "uri_switch 274 c = uri_case274 c"
  "uri_switch 275 c = uri_case275 c"
  "uri_switch 276 c = uri_case276 c"
  "uri_switch 277 c = uri_case277 c"
  "uri_switch 278 c = uri_case278 c"
  "uri_switch 279 c = uri_case279 c"
  "uri_switch 280 c = uri_case280 c"
  "uri_switch 281 c = uri_case281 c"
  "uri_switch 282 c = uri_case282 c"
  "uri_switch 283 c = uri_case283 c"
  "uri_switch 284 c = uri_case284 c"
  "uri_switch 285 c = uri_case285 c"
  "uri_switch 286 c = uri_case286 c"
  "uri_switch 287 c = uri_case287 c"
  "uri_switch 288 c = uri_case288 c"
  "uri_switch 289 c = uri_case289 c"
  "uri_switch 290 c = uri_case290 c"
  "uri_switch 291 c = uri_case291 c"
  "uri_switch 292 c = uri_case292 c"
  "uri_switch 293 c = uri_case293 c"
  "uri_switch 294 c = uri_case294 c"
  "uri_switch 295 c = uri_case295 c"
  "uri_switch 296 c = uri_case296 c"
  "uri_switch 297 c = uri_case297 c"
  "uri_switch 298 c = uri_case298 c"
  "uri_switch 299 c = uri_case299 c"
  "uri_switch 300 c = uri_case300 c"
  "uri_switch 301 c = uri_case301 c"
  "uri_switch 302 c = uri_case302 c"
  "uri_switch 303 c = uri_case303 c"
  "uri_switch 304 c = uri_case304 c"
  "uri_switch 305 c = uri_case305 c"
  "uri_switch 306 c = uri_case306 c"
  "uri_switch 307 c = uri_case307 c"
  "uri_switch 308 c = uri_case308 c"
  "uri_switch 309 c = uri_case309 c"
  "uri_switch 310 c = uri_case310 c"
  "uri_switch 311 c = uri_case311 c"
  "uri_switch 312 c = uri_case312 c"
  "uri_switch 313 c = uri_case313 c"
  "uri_switch 314 c = uri_case314 c"
  "uri_switch 315 c = uri_case315 c"
  "uri_switch 316 c = uri_case316 c"
  "uri_switch 317 c = uri_case317 c"
  "uri_switch 318 c = uri_case318 c"
  "uri_switch 319 c = uri_case319 c"
  "uri_switch 320 c = uri_case320 c"
  "uri_switch 321 c = uri_case321 c"
  "uri_switch 322 c = uri_case322 c"
  "uri_switch 323 c = uri_case323 c"
  "uri_switch 324 c = uri_case324 c"
  "uri_switch 325 c = uri_case325 c"
  "uri_switch 326 c = uri_case326 c"
  "uri_switch 327 c = uri_case327 c"
  "uri_switch 328 c = uri_case328 c"
  "uri_switch 329 c = uri_case329 c"
  "uri_switch 330 c = uri_case330 c"
  "uri_switch 331 c = uri_case331 c"
  "uri_switch 332 c = uri_case332 c"
  "uri_switch 333 c = uri_case333 c"
  "uri_switch 334 c = uri_case334 c"
  "uri_switch 335 c = uri_case335 c"
  "uri_switch 336 c = uri_case336 c"
  "uri_switch 337 c = uri_case337 c"
  "uri_switch 338 c = uri_case338 c"
  "uri_switch 339 c = uri_case339 c"
  "uri_switch 340 c = uri_case340 c"
  "uri_switch 341 c = uri_case341 c"
  "uri_switch 342 c = uri_case342 c"
  "uri_switch 343 c = uri_case343 c"
  "uri_switch 344 c = uri_case344 c"
  "uri_switch 345 c = uri_case345 c"
  "uri_switch 346 c = uri_case346 c"
  "uri_switch 347 c = uri_case347 c"
  "uri_switch 348 c = uri_case348 c"
  "uri_switch 349 c = uri_case349 c"
  "uri_switch 350 c = uri_case350 c"
  "uri_switch 351 c = uri_case351 c"
  "uri_switch 352 c = uri_case352 c"
  "uri_switch 353 c = uri_case353 c"
  "uri_switch 354 c = uri_case354 c"
  "uri_switch 355 c = uri_case355 c"
  "uri_switch 356 c = uri_case356 c"
  "uri_switch 357 c = uri_case357 c"
  "uri_switch 358 c = uri_case358 c"
  "uri_switch 359 c = uri_case359 c"
  "uri_switch 360 c = uri_case360 c"
  "uri_switch 361 c = uri_case361 c"
  "uri_switch 362 c = uri_case362 c"
  "uri_switch 363 c = uri_case363 c"
  "uri_switch 364 c = uri_case364 c"
  "uri_switch 365 c = uri_case365 c"
  "uri_switch 366 c = uri_case366 c"
  "uri_switch 367 c = uri_case367 c"
  "uri_switch 368 c = uri_case368 c"
  "uri_switch 369 c = uri_case369 c"
  "uri_switch 370 c = uri_case370 c"
  "uri_switch 371 c = uri_case371 c"
  "uri_switch 372 c = uri_case372 c"
  "uri_switch 373 c = uri_case373 c"
  "uri_switch 374 c = uri_case374 c"
  "uri_switch 375 c = uri_case375 c"
  "uri_switch 376 c = uri_case376 c"
  "uri_switch 377 c = uri_case377 c"
  "uri_switch 378 c = uri_case378 c"
  "uri_switch 379 c = uri_case379 c"
  "uri_switch 380 c = uri_case380 c"
  "uri_switch 381 c = uri_case381 c"
  "uri_switch 382 c = uri_case382 c"
  "uri_switch 383 c = uri_case383 c"
  "uri_switch 384 c = uri_case384 c"
  "uri_switch 385 c = uri_case385 c"
  "uri_switch 386 c = uri_case386 c"
  "uri_switch 387 c = uri_case387 c"
  "uri_switch 388 c = uri_case388 c"
  "uri_switch 389 c = uri_case389 c"
  "uri_switch 390 c = uri_case390 c"
  "uri_switch 391 c = uri_case391 c"
  "uri_switch 392 c = uri_case392 c"
  "uri_switch 393 c = uri_case393 c"
  "uri_switch 394 c = uri_case394 c"
  "uri_switch 395 c = uri_case395 c"
  "uri_switch 396 c = uri_case396 c"
  "uri_switch 397 c = uri_case397 c"
  "uri_switch 398 c = uri_case398 c"
  "uri_switch 399 c = uri_case399 c"
  "uri_switch 400 c = uri_case400 c"
  "uri_switch 401 c = uri_case401 c"
  "uri_switch 402 c = uri_case402 c"
  "uri_switch 403 c = uri_case403 c"
  "uri_switch 404 c = uri_case404 c"
  "uri_switch 405 c = uri_case405 c"
  "uri_switch 406 c = uri_case406 c"
  "uri_switch 407 c = uri_case407 c"
  "uri_switch 408 c = uri_case408 c"
  "uri_switch 409 c = uri_case409 c"
  "uri_switch 410 c = uri_case410 c"
  "uri_switch 411 c = uri_case411 c"
  "uri_switch 412 c = uri_case412 c"
  "uri_switch 413 c = uri_case413 c"
  "uri_switch 414 c = uri_case414 c"
  "uri_switch 415 c = uri_case415 c"
  "uri_switch 416 c = uri_case416 c"
  "uri_switch 417 c = uri_case417 c"
  "uri_switch 418 c = uri_case418 c"
  "uri_switch 419 c = uri_case419 c"
  "uri_switch 420 c = uri_case420 c"
  "uri_switch 421 c = uri_case421 c"
  "uri_switch 422 c = uri_case422 c"
  "uri_switch 423 c = uri_case423 c"
  "uri_switch 424 c = uri_case424 c"
  "uri_switch 425 c = uri_case425 c"
  "uri_switch 426 c = uri_case426 c"
  "uri_switch 427 c = uri_case427 c"
  "uri_switch 428 c = uri_case428 c"
  "uri_switch 429 c = uri_case429 c"
  "uri_switch 430 c = uri_case430 c"
  "uri_switch 431 c = uri_case431 c"
  "uri_switch 432 c = uri_case432 c"
  "uri_switch 433 c = uri_case433 c"
  "uri_switch 434 c = uri_case434 c"
  "uri_switch 435 c = uri_case435 c"
  "uri_switch 436 c = uri_case436 c"
  "uri_switch 437 c = uri_case437 c"
  "uri_switch 438 c = uri_case438 c"
  "uri_switch 439 c = uri_case439 c"
  "uri_switch 440 c = uri_case440 c"
  "uri_switch 441 c = uri_case441 c"
  "uri_switch 442 c = uri_case442 c"
  "uri_switch 443 c = uri_case443 c"
  "uri_switch 444 c = uri_case444 c"
  "uri_switch 445 c = uri_case445 c"
  "uri_switch 446 c = uri_case446 c"
  "uri_switch 447 c = uri_case447 c"
  "uri_switch 448 c = uri_case448 c"
  "uri_switch 449 c = uri_case449 c"
  "uri_switch 450 c = uri_case450 c"
  "uri_switch 451 c = uri_case451 c"
  "uri_switch 452 c = uri_case452 c"
  "uri_switch 453 c = uri_case453 c"
  "uri_switch 454 c = uri_case454 c"
  "uri_switch 455 c = uri_case455 c"
  "uri_switch 456 c = uri_case456 c"
  "uri_switch 457 c = uri_case457 c"
  "uri_switch 458 c = uri_case458 c"
  "uri_switch 459 c = uri_case459 c"
  "uri_switch 460 c = uri_case460 c"
  "uri_switch 461 c = uri_case461 c"
  "uri_switch 462 c = uri_case462 c"
  "uri_switch 463 c = uri_case463 c"
  "uri_switch 464 c = uri_case464 c"
  "uri_switch 465 c = uri_case465 c"
  "uri_switch 466 c = uri_case466 c"
  "uri_switch 467 c = uri_case467 c"
  "uri_switch 468 c = uri_case468 c"
  "uri_switch 469 c = uri_case469 c"
  "uri_switch 470 c = uri_case470 c"
  "uri_switch 471 c = uri_case471 c"
  "uri_switch 472 c = uri_case472 c"
  "uri_switch 473 c = uri_case473 c"
  "uri_switch 474 c = uri_case474 c"
  "uri_switch 475 c = uri_case475 c"
  "uri_switch 476 c = uri_case476 c"
  "uri_switch 477 c = uri_case477 c"
  "uri_switch 478 c = uri_case478 c"
  "uri_switch 479 c = uri_case479 c"
  "uri_switch 480 c = uri_case480 c"
  "uri_switch 481 c = uri_case481 c"
  "uri_switch 482 c = uri_case482 c"
  "uri_switch 483 c = uri_case483 c"
  "uri_switch 484 c = uri_case484 c"
  "uri_switch 485 c = uri_case485 c"
  "uri_switch 486 c = uri_case486 c"
  "uri_switch 487 c = uri_case487 c"
  "uri_switch 488 c = uri_case488 c"
  "uri_switch 489 c = uri_case489 c"
  "uri_switch 490 c = uri_case490 c"
  "uri_switch 491 c = uri_case491 c"
  "uri_switch 492 c = uri_case492 c"
  "uri_switch 493 c = uri_case493 c"
  "uri_switch 494 c = uri_case494 c"
  "uri_switch 495 c = uri_case495 c"
  "uri_switch 496 c = uri_case496 c"
  "uri_switch 497 c = uri_case497 c"
  "uri_switch 498 c = uri_case498 c"
  "uri_switch 499 c = uri_case499 c"
  "uri_switch 500 c = uri_case500 c"
  "uri_switch 501 c = uri_case501 c"
  "uri_switch 502 c = uri_case502 c"
  "uri_switch 503 c = uri_case503 c"
  "uri_switch 504 c = uri_case504 c"
  "uri_switch 505 c = uri_case505 c"
  "uri_switch 506 c = uri_case506 c"
  "uri_switch 507 c = uri_case507 c"
  "uri_switch 508 c = uri_case508 c"
  "uri_switch 509 c = uri_case509 c"
  "uri_switch 510 c = uri_case510 c"
  "uri_switch 511 c = uri_case511 c"
  "uri_switch 512 c = uri_case512 c"
  "uri_switch 513 c = uri_case513 c"
  "uri_switch 514 c = uri_case514 c"
  "uri_switch 515 c = uri_case515 c"
  "uri_switch 516 c = uri_case516 c"
  "uri_switch 517 c = uri_case517 c"
  "uri_switch 518 c = uri_case518 c"
  "uri_switch 519 c = uri_case519 c"
  "uri_switch 520 c = uri_case520 c"
  "uri_switch 521 c = uri_case521 c"
  "uri_switch 522 c = uri_case522 c"
  "uri_switch 523 c = uri_case523 c"
  "uri_switch 524 c = uri_case524 c"
  "uri_switch 525 c = uri_case525 c"
  "uri_switch 526 c = uri_case526 c"
  "uri_switch 527 c = uri_case527 c"
  "uri_switch 528 c = uri_case528 c"
  "uri_switch 529 c = uri_case529 c"
  "uri_switch 530 c = uri_case530 c"
  "uri_switch 531 c = uri_case531 c"
  "uri_switch 532 c = uri_case532 c"
  "uri_switch 533 c = uri_case533 c"
  "uri_switch 534 c = uri_case534 c"
  "uri_switch 535 c = uri_case535 c"
  "uri_switch 536 c = uri_case536 c"
  "uri_switch 537 c = uri_case537 c"
  "uri_switch 538 c = uri_case538 c"
  "uri_switch 539 c = uri_case539 c"
  "uri_switch 540 c = uri_case540 c"
  "uri_switch 541 c = uri_case541 c"
  "uri_switch 542 c = uri_case542 c"
  "uri_switch 543 c = uri_case543 c"
  "uri_switch 544 c = uri_case544 c"
  "uri_switch 545 c = uri_case545 c"
  "uri_switch 546 c = uri_case546 c"
  "uri_switch 547 c = uri_case547 c"
  "uri_switch 548 c = uri_case548 c"
  "uri_switch 549 c = uri_case549 c"
  "uri_switch 550 c = uri_case550 c"
  "uri_switch 551 c = uri_case551 c"
  "uri_switch 552 c = uri_case552 c"
  "uri_switch 553 c = uri_case553 c"
  "uri_switch 554 c = uri_case554 c"
  "uri_switch 555 c = uri_case555 c"
  "uri_switch 556 c = uri_case556 c"
  "uri_switch 557 c = uri_case557 c"
  "uri_switch 558 c = uri_case558 c"
  "uri_switch 559 c = uri_case559 c"
  "uri_switch 560 c = uri_case560 c"
  by (simp_all add: uri_switch_def)

lemma flow_colon: "list_all (\<lambda>n. uri_flow n 58 (uri_switch n 58)) [2..<561]"
  by (simp add: uri_flow_simps uri_switch_at uri_cases uri_trs marked_def authority_def at_colon_def del: if_split)

lemma flow_slash: "list_all (\<lambda>n. uri_flow n 47 (uri_switch n 47)) [2..<561]"
  by (simp add: uri_flow_simps uri_switch_at uri_cases uri_trs marked_def authority_def at_colon_def del: if_split)

lemma flow_hash: "list_all (\<lambda>n. uri_flow n 35 (uri_switch n 35)) [2..<561]"
  by (simp add: uri_flow_simps uri_switch_at uri_cases uri_trs marked_def authority_def at_colon_def del: if_split)

lemma flow_question: "list_all (\<lambda>n. uri_flow n 63 (uri_switch n 63)) [2..<561]"
  by (simp add: uri_flow_simps uri_switch_at uri_cases uri_trs marked_def authority_def at_colon_def del: if_split)

lemma flow_other:
  assumes "c \<noteq> 58" "c \<noteq> 47" "c \<noteq> 35" "c \<noteq> 63"
  shows "list_all (\<lambda>n. uri_flow n c (uri_switch n c)) [2..<230]"
    and "list_all (\<lambda>n. uri_flow n c (uri_switch n c)) [230..<400]"
    and "list_all (\<lambda>n. uri_flow n c (uri_switch n c)) [400..<561]"
  by (simp_all add: assms uri_flow_simps uri_switch_at uri_cases uri_trs marked_def authority_def at_colon_def del: if_split)

lemma flow_first: "uri_flow 1 c (uri_switch 1 c)"
  using uri_switch_at(1)[of c]
  by (simp add: uri_flow_simps uri_case1_def marked_def authority_def at_colon_def del: if_split)

lemma list_all_upt: "list_all P [a..<b] \<Longrightarrow> a \<le> n \<Longrightarrow> n < b \<Longrightarrow> P n"
  by (simp add: list_all_iff)

lemma flow_all: "uri_flow cs c (uri_switch cs c)"
proof -
  consider "cs = 0 \<or> 560 < cs" | "cs = 1" | "2 \<le> cs" "cs < 561" by arith
  then show ?thesis
  proof cases
    case 1
    then show ?thesis by (simp add: uri_switch_def uri_flow_simps)
  next
    case 2
    with flow_first[of c] show ?thesis by simp
  next
    case 3
    consider "c = 58" | "c = 47" | "c = 35" | "c = 63" | "c \<noteq> 58" "c \<noteq> 47" "c \<noteq> 35" "c \<noteq> 63" by blast
    then show ?thesis
    proof cases
      case 5
      note o = flow_other[OF 5]
      consider "cs < 230" | "230 \<le> cs" "cs < 400" | "400 \<le> cs" by arith
      then show ?thesis using list_all_upt[OF o(1)] list_all_upt[OF o(2)] list_all_upt[OF o(3)] 3 by cases blast+
    qed (use 3 list_all_upt[OF flow_colon] list_all_upt[OF flow_slash] list_all_upt[OF flow_hash] list_all_upt[OF flow_question] in blast)+
  qed
qed

subsection \<open>The mark\<close>

lemma mark_flow_sound:
  assumes "mark_flow m as = Some m'" "m \<longrightarrow> mark \<noteq> None"
  shows "\<exists>u' mark'. fold (\<lambda>a. uri_do s a p) as (Inr (u, mark)) = Inr (u', mark') \<and> (m' \<longrightarrow> mark' \<noteq> None)"
  using assms
proof (induction as arbitrary: m u mark)
  case (Cons a as)
  let ?st = "uri_do s a p (Inr (u, mark))"
  consider "a = U_marku \<or> a = U_markh" | "a = U_save_host" | "a \<noteq> U_marku" "a \<noteq> U_markh" "a \<noteq> U_save_host" m
    using Cons.prems(1) by (auto split: if_splits)
  then show ?case
  proof cases
    case 1
    then show ?thesis using Cons.IH[of True "Some p" u] Cons.prems(1) by (auto simp: uri_do_def)
  next
    case 2
    then obtain u' where "?st = Inr (u', mark)" by (cases mark) (auto simp: uri_do_def cut_def)
    with 2 show ?thesis using Cons.IH[of m mark u'] Cons.prems by simp
  next
    case 3
    with Cons.prems(2) obtain k where "mark = Some k" by auto
    with 3 obtain u' where "?st = Inr (u', None)" by (cases a; cases "p = k") (auto simp: uri_do_def cut_def)
    with 3 show ?thesis using Cons.IH[of False None u'] Cons.prems(1) by simp
  qed
qed simp

text \<open>The invariant of a run on a text without an empty port, behind the characters \<open>xs\<close>.\<close>

definition uri_marks :: "nat \<Rightarrow> string \<Rightarrow> fault + uri \<times> nat option \<Rightarrow> bool" where
  "uri_marks cs xs st = ((\<exists>u mark. st = Inr (u, mark) \<and> (marked cs \<longrightarrow> mark \<noteq> None))
     \<and> (cs = 509 \<longrightarrow> (\<exists>a. xs = a @ '':'')) \<and> (cs = 510 \<longrightarrow> (\<exists>a. xs = a @ '':/''))
     \<and> (authority cs \<longrightarrow> (\<exists>a b. xs = a @ ''://'' @ b)) \<and> (at_colon cs \<longrightarrow> (\<exists>a b. xs = a @ ''://'' @ b @ '':'')))"

definition empty_port :: "string \<Rightarrow> bool" where
  "empty_port s = (\<exists>i < length s. s ! i = CHR '':'' \<and> is_infix ''://'' (take i s)
     \<and> (i + 1 = length s \<or> s ! (i + 1) \<in> set ''/?#''))"

lemma is_infix_mid: "is_infix p (a @ p @ b)"
proof (induction a)
  case Nil
  show ?case by (cases p) (simp_all add: is_prefix_append, cases b, simp_all)
qed simp

lemma empty_portI:
  assumes "s = a @ ''://'' @ b @ '':'' @ c" "c = [] \<or> hd c \<in> set ''/?#''"
  shows "empty_port s"
  unfolding empty_port_def
proof (intro exI[of _ "length (a @ ''://'' @ b)"] conjI)
  let ?i = "length (a @ ''://'' @ b)"
  show "?i < length s" using assms(1) by simp
  have "s = (a @ ''://'' @ b) @ '':'' @ c" using assms(1) by simp
  then show "s ! ?i = CHR '':''" by (metis append_Cons nth_append_length)
  have "take ?i s = a @ ''://'' @ b" using \<open>s = (a @ ''://'' @ b) @ '':'' @ c\<close> by (metis append_eq_conv_conj)
  then show "is_infix ''://'' (take ?i s)" using is_infix_mid[of "''://''" a b] by simp
  have l: "length s = ?i + 1 + length c" using assms(1) by simp
  have "s = (a @ ''://'' @ b @ '':'') @ c" using assms(1) by simp
  then have "c \<noteq> [] \<Longrightarrow> s ! length (a @ ''://'' @ b @ '':'') = hd c" by (metis hd_conv_nth add.right_neutral length_greater_0_conv nth_append_length_plus)
  with l show "?i + 1 = length s \<or> s ! (?i + 1) \<in> set ''/?#''" using assms(2) by (cases c) auto
qed

lemma uri_marks_step:
  assumes "\<not> empty_port s" and g: "uri_next cs c = Goto as n" and i: "uri_marks cs xs st" and s: "s = xs @ c # ys"
  shows "uri_marks n (xs @ [c]) (fold (\<lambda>a. uri_do s a (length xs)) as st)"
proof -
  have f: "uri_flow cs (schar c) (Goto as n)" using flow_all[of cs "schar c"] g by (simp add: uri_next_def)
  have ch: "schar c = 58 \<longleftrightarrow> c = CHR '':''" "schar c = 47 \<longleftrightarrow> c = CHR ''/''" "schar c = 35 \<longleftrightarrow> c = CHR ''#''" "schar c = 63 \<longleftrightarrow> c = CHR ''?''"
    using char_eq_schar[of c "CHR '':''"] char_eq_schar[of c "CHR ''/''"] char_eq_schar[of c "CHR ''#''"] char_eq_schar[of c "CHR ''?''"]
    by simp_all
  have "\<not> (at_colon cs \<and> (c = CHR ''/'' \<or> c = CHR ''#'' \<or> c = CHR ''?''))"
  proof
    assume "at_colon cs \<and> (c = CHR ''/'' \<or> c = CHR ''#'' \<or> c = CHR ''?'')"
    moreover from this i obtain a b where "xs = a @ ''://'' @ b @ '':''" by (auto simp: uri_marks_def)
    ultimately have "empty_port s" using s by (intro empty_portI[of s a b "c # ys"]) auto
    with assms(1) show False ..
  qed
  then have "\<not> (at_colon cs \<and> (schar c = 47 \<or> schar c = 35 \<or> schar c = 63))" unfolding ch .
  with f obtain m where m: "mark_flow (marked cs) as = Some m" "marked n \<longrightarrow> m"
    by (cases "mark_flow (marked cs) as") (simp_all add: uri_flow_def)
  obtain u mark where "st = Inr (u, mark)" "marked cs \<longrightarrow> mark \<noteq> None" using i by (auto simp: uri_marks_def)
  with mark_flow_sound[OF m(1), of mark s "length xs" u] m(2)
  have "\<exists>u mark. fold (\<lambda>a. uri_do s a (length xs)) as st = Inr (u, mark) \<and> (marked n \<longrightarrow> mark \<noteq> None)" by auto
  moreover have "\<exists>a. xs @ [c] = a @ '':''" if "n = 509" using f ch that by (simp add: uri_flow_def)
  moreover have "\<exists>a. xs @ [c] = a @ '':/''" if "n = 510"
    using f ch that i by (auto simp: uri_flow_def uri_marks_def)
  moreover have au: "\<exists>a b. xs @ [c] = a @ ''://'' @ b" if "authority n"
  proof (cases "authority cs")
    case True
    with i obtain a b where "xs = a @ ''://'' @ b" by (auto simp: uri_marks_def)
    then have "xs @ [c] = a @ ''://'' @ (b @ [c])" by simp
    then show ?thesis by blast
  next
    case False
    with f that ch have "cs = 510" "c = CHR ''/''" by (auto simp: uri_flow_def)
    with i obtain a where "xs = a @ '':/''" by (auto simp: uri_marks_def)
    with \<open>c = CHR ''/''\<close> have "xs @ [c] = a @ ''://'' @ []" by simp
    then show ?thesis by blast
  qed
  moreover have "\<exists>a b. xs @ [c] = a @ ''://'' @ b @ '':''" if "at_colon n"
  proof -
    from f that ch have "c = CHR '':''" "authority cs" by (auto simp: uri_flow_def)
    moreover from this i obtain a b where "xs = a @ ''://'' @ b" by (auto simp: uri_marks_def)
    ultimately have "xs @ [c] = a @ ''://'' @ b @ '':''" by simp
    then show ?thesis by blast
  qed
  ultimately show ?thesis unfolding uri_marks_def by blast
qed

lemma eof_flow:
  assumes "\<not> at_colon cs"
  shows "mark_flow (marked cs) (uri_eof cs) \<noteq> None"
proof (cases "marked cs")
  case True
  with assms show ?thesis by (simp add: uri_eof_def at_colon_def ex_bool_eq)
next
  case False
  with assms show ?thesis by (simp add: uri_eof_def marked_def at_colon_def ex_bool_eq)
qed

text \<open>C40: on a text without an empty port, \<open>Uri::Create\<close> returns, with an object or without: it never
  makes a string from the null mark, whatever the text. An empty port is a colon, somewhere
  behind \<open>://\<close>, that is followed by \<open>/\<close>, \<open>?\<close> or \<open>#\<close> or ends the text.\<close>

theorem uri_create_returns:
  assumes "\<not> empty_port s"
  shows "\<exists>r. Uri_Create s = Inr r"
proof -
  obtain cs p st where r: "uri_run s = (cs, p, st)" by (metis prod_cases3)
  have run: "machine_run uri_next (uri_do s) 451 0 s (Inr (Uri, None)) = (cs, p, st)"
    using r by (simp add: uri_run_def uri_parser_start_def)
  have "\<exists>cs0. uri_marks cs0 (take p s) st \<and> (p = length s \<longrightarrow> cs0 = cs)"
  proof (rule machine_run_text[OF run])
    show "uri_marks 451 [] (Inr (Uri, None))" by (simp add: uri_marks_def marked_def authority_def at_colon_def)
    show "uri_next cs c \<noteq> Break as n" for cs c as n
      using flow_all[of cs "schar c"] by (auto simp: uri_next_def uri_flow_def)
  qed (rule uri_marks_step[OF assms])
  then obtain cs0 where i: "uri_marks cs0 (take p s) st" "p = length s \<longrightarrow> cs0 = cs" by blast
  then obtain u mark where st: "st = Inr (u, mark)" "marked cs0 \<longrightarrow> mark \<noteq> None" by (auto simp: uri_marks_def)
  have "\<exists>u' mark'. uri_at_eof s cs p st = Inr (u', mark')"
  proof (cases "p = length s")
    case True
    have "\<not> at_colon cs"
    proof
      assume "at_colon cs"
      with i True obtain a b where "s = a @ ''://'' @ b @ '':'' @ []" by (auto simp: uri_marks_def)
      then have "empty_port s" by (rule empty_portI) simp
      with assms show False ..
    qed
    with eof_flow[of cs] obtain m where "mark_flow (marked cs) (uri_eof cs) = Some m" by auto
    from mark_flow_sound[OF this, of mark s p u] True i(2) st show ?thesis by (auto simp: uri_at_eof_def)
  qed (simp add: uri_at_eof_def st)
  then show ?thesis by (auto simp: Uri_Create_def r)
qed

theorem uri_create_returns_witness: "\<exists>r. Uri_Create ''http://[::1]:80/?#'' = Inr r"
  by (rule uri_create_returns) code_simp

end
