(* ===== verification/Spec2Isabelle.thy ===== *)
theory Spec2Isabelle
  imports Prelude ByteProps IoProps Hook Util HttpProps AddressProps StreamProps Transport JsonProps LogConfig Threads Http11Split HttpClientProps UriProps
begin

text \<open>
  The network framework muqiu (\<^verbatim>\<open>src/\<close>, \<^verbatim>\<open>include/\<close>): coroutines over a pool of threads, an epoll
  loop with timers, system calls replaced so that they suspend a coroutine, sockets, byte buffers,
  and an HTTP server on top, with logging and configuration beside them.

  \<^bold>\<open>The parts and how they interact.\<close>
  A \<open>TcpServer\<close> owns listening \<open>Socket\<close>s and schedules, for each, a task that accepts. Every
  accepted socket becomes a task \<open>handleClient\<close>. \<open>HttpServer\<close> wraps it into an \<open>HttpSession\<close>, a
  \<open>SocketStream\<close>, which runs the generated HTTP parser over what it reads and asks the
  \<open>ServletDispatch\<close> for the servlet of the path. Tasks live in the queue of the \<open>Scheduler\<close>; its
  threads resume \<open>Fiber\<close>s and, without work, run \<open>IOManager::idle\<close>, which waits for events and
  for the first timer of the \<open>TimerManager\<close> the class inherits from. A blocking call inside a
  coroutine goes through the hooks, which ask \<open>FdManager\<close> about the descriptor, register an event
  and a timer, and yield.

  \<^bold>\<open>The theories.\<close> The names of definitions are those of the code; members are record fields.

  \<^item> \<open>Prelude\<close>: faults (null dereference, failed assertion, thrown exception, undefined behaviour)
    and their sequencing \<open>bindE\<close>, 64-bit arithmetic on \<open>nat\<close>. \<open>OrderedSet\<close>, \<open>SearchTree\<close>,
    \<open>CString\<close>: what the code uses of the standard library, i.e. \<open>std::set\<close> with a
    comparator as the sequence of its elements, \<open>std::map\<close> as the tree it is (needed where the
    comparator is no order), C strings.
  \<^item> \<open>Endian\<close> (\<^verbatim>\<open>ntmlgb.h\<close>), \<open>NodeChain\<close>, \<open>ByteArray\<close>, \<open>ByteCodec\<close>, \<open>ByteBuffers\<close>
    (\<^verbatim>\<open>bytearray.h\<close>, \<^verbatim>\<open>bytearray.cc\<close>): the chain of blocks, the cursor and the operations on it, typed
    values, files and scatter/gather buffers. \<open>ByteStore\<close> is the interface (locale \<open>byte_store\<close>)
    on which \<open>ByteRoundtrip\<close> proves the encodings, interpreted by the chain. \<open>ByteProps\<close> has the
    refinement of a flat sequence of bytes, safety of the operations in every reachable state (those with a
    position and \<open>writeToFile\<close>, which are not safe, apart), and the round trips.
  \<^item> \<open>Timer\<close> (\<^verbatim>\<open>timer.h\<close>, \<^verbatim>\<open>timer.cc\<close>): timers by address, the ordered set, the invariant that makes
    the iterators valid, and what an expiry hands out.
  \<^item> \<open>Fiber\<close>, \<open>Scheduler\<close> (\<^verbatim>\<open>Fiber.cc\<close>, \<^verbatim>\<open>Scheduler.cc\<close>): states of coroutines, the queue with
    thread affinities, the rounds of \<open>run\<close> with the coroutine bodies as a parameter.
  \<^item> \<open>IoManager\<close>, \<open>IoProps\<close> (\<^verbatim>\<open>IoManager.cc\<close>): event contexts, registration, cancellation, the round
    of \<open>idle\<close>; exactness of the count of pending events, and what breaks it.
  \<^item> \<open>FdManager\<close>, \<open>Hook\<close> (\<^verbatim>\<open>fdmanager.cc\<close>, \<^verbatim>\<open>hook.cc\<close>): the table of descriptors (locale
    \<open>handle_table\<close>) and the replaced calls; the kernel is a list of answers, what the
    coroutine does a list of actions.
  \<^item> \<open>Util\<close> (\<^verbatim>\<open>util.cc\<close>), \<open>Http\<close>, \<open>HttpProps\<close> (\<^verbatim>\<open>http.h\<close>, \<^verbatim>\<open>http.cc\<close>): URL coding, requests and
    responses, their maps, parameters and output.
  \<^item> \<open>Address\<close>, \<open>AddressProps\<close> (\<^verbatim>\<open>address.cc\<close>): the four classes of addresses as the memory they
    are, so that what \<open>memcmp\<close> and the byte order do is visible.
  \<^item> \<open>Socket\<close>, \<open>SocketProps\<close> (\<^verbatim>\<open>socket.cc\<close>): a socket object with the trace of its system calls; the
    step relation \<open>sk_step\<close> has the operations that change one, \<open>world_step\<close> those of a program with many
    (making, accepting, destroying), and the invariant over \<open>sk_reach\<close> says which descriptors are open.
  \<^item> \<open>Stream\<close>, \<open>StreamProps\<close> (\<^verbatim>\<open>stream.cc\<close>, \<^verbatim>\<open>socket_stream.cc\<close>): the fixed-length loops. The promises
    of a connected stream socket are the locales \<open>open_socket\<close> and \<open>open_sink\<close>, from which
    \<open>byte_source\<close> and \<open>byte_sink\<close> follow for \<open>SocketStream\<close> (sublocales).
  \<^item> \<open>Servlet\<close> (\<^verbatim>\<open>servlet.cc\<close>), \<open>HttpParser\<close> (\<^verbatim>\<open>http_parser.cc\<close>), \<open>TcpServer\<close> (\<^verbatim>\<open>tcp_server.cc\<close>),
    \<open>HttpServer\<close> (\<^verbatim>\<open>http_session.cc\<close>, \<^verbatim>\<open>http_server.cc\<close>), \<open>ServerProps\<close>: the dispatcher against the log
    of its operations, the callbacks of the parser, binding and accepting, the session and the
    keep-alive loop, whose finite runs are the inductive \<open>session_run\<close>.
  \<^item> \<open>Ragel\<close>, \<open>Http11Machine\<close>, \<open>Http11\<close> (\<^verbatim>\<open>http11_parser.cc\<close>, \<^verbatim>\<open>http11_parser.h\<close>): the generated machine,
    every label a definition, and the function around it; \<open>http11_engine\<close> is the argument that
    \<open>HttpParser\<close> leaves open for requests. \<open>Http11Safe\<close> has what holds on any input, by a dataflow over the
    transitions; \<open>Http11Props\<close> follows the machine through a well-formed request and on
    into the request object; \<open>Http11Split\<close> is about requests that arrive in two pieces. \<open>Transport\<close> composes
    \<open>HttpRequest::dump\<close>, the connection, the machine, the callbacks and \<open>recvRequest\<close>.
  \<^item> \<open>HttpClientMachine\<close>, \<open>HttpClient\<close>, \<open>HttpClientProps\<close> (\<^verbatim>\<open>httpclient_parser.cc\<close>,
    \<^verbatim>\<open>httpclient_parser.h\<close>): the same for the parser of responses, with \<open>httpclient_engine\<close>; what it counts, where
    its marks can point, and the header of a chunk.
  \<^item> \<open>UriMachine\<close>, \<open>Uri\<close>, \<open>UriSafe\<close>, \<open>UriProps\<close> (\<^verbatim>\<open>uri.cc\<close>, \<^verbatim>\<open>uri.h\<close>): the machine of URIs with its actions at the end
    of the text, the class around it; on which texts \<open>Create\<close> returns, by a dataflow of the mark, and the round
    trip through the output. \<open>CNumber\<close> has \<open>strtol\<close> and \<open>atoi\<close>, \<open>TextRuns\<close> the classes of characters and
    the runs of a machine over percent-encoded text that both kinds of parsers share.
  \<^item> \<open>Locks\<close> (\<^verbatim>\<open>Mutex.h\<close>, \<^verbatim>\<open>Mutex.cc\<close>), \<open>Threads\<close> (\<^verbatim>\<open>PThread.h\<close>, \<^verbatim>\<open>PThread.cc\<close>): guards, semaphore and the
    lock of an atomic flag under any turns of the threads; the constructor of a thread and the
    thread it starts, step by step in every interleaving with the destruction of the object; the wrapper of \<^verbatim>\<open>std::thread\<close> (\<^verbatim>\<open>Thread.cc\<close>).
  \<^item> \<open>Json\<close>, \<open>JsonText\<close> (\<^verbatim>\<open>json.hpp\<close>): the part of the JSON library that the program calls: values and their
    members, the serializer with its automaton for UTF-8, the lexer, the parser. The serializer carries the size of its string of blanks, which fails for indentations above 1025.
    \<open>JsonUtf8\<close> relates the three
    readers of UTF-8 (the automaton, the ranges of the lexer, the escapes); \<open>JsonProps\<close> has the round trip of texts and
    what the parser can return.
  \<^item> \<open>Log\<close> (\<^verbatim>\<open>Log.cc\<close>), \<open>Config\<close> (\<^verbatim>\<open>Config.cc\<close>, \<^verbatim>\<open>Config.h\<close>): the pattern language of the formatter, appenders,
    loggers and the listener that configures them; variables, their registry and the walk over a
    JSON document. \<open>LexicalCast\<close> (\<^verbatim>\<open>Config.h\<close>) has the conversions of containers to and from text, \<open>LogConfig\<close>
    (\<^verbatim>\<open>Log.cc\<close>, \<^verbatim>\<open>Manager.cc\<close>) the definitions of loggers as JSON and \<open>LoggerManager::init\<close> from the file to the listener.

  \<^bold>\<open>State, concurrency and errors.\<close> Objects behind pointers are functions from addresses to
  records. Where a method holds a lock from its first to its last access, it is one step; where it
  releases one in between (\<open>addEvent\<close>, \<open>FdManager::get\<close>), each locked region is a step of its own,
  so that what happens in between can be stated. Null dereferences, failed assertions, exceptions and
  undefined behaviour are values of the type \<open>fault\<close>; where the code goes on after a mistake, so
  does the model.

  \<^bold>\<open>Termination.\<close> All definitions are total except the four loops that need not end:
  \<open>readFix_loop\<close>, \<open>recv_loop\<close>, \<open>handle_loop\<close> and \<open>read_file_loop\<close> are partial functions into \<open>option\<close>
  with \<open>None\<close> for a run that never returns, and both outcomes are proved where they occur. No fuel is
  used: the other loops have a measure, and the loops of the threads (\<open>run\<close>, \<open>idle\<close>) are modelled round
  by round. Sizes and positions are natural numbers below \<open>2 ^ 64\<close> with the bound as a hypothesis;
  integers whose wrap-around matters are words.

  \<^bold>\<open>What is not modelled.\<close> The vendored library \<^verbatim>\<open>httplib.h\<close>, which the program does not use, and of
  \<^verbatim>\<open>json.hpp\<close> what it does not call (binary formats, comments, callbacks, pointers, patches, messages of
  errors). The machine contexts and stacks of coroutines. The C library behind time, \<open>strftime\<close>, \<open>vasprintf\<close>, wide
  characters, \<open>dlsym\<close> and the text of doubles: these functions are arguments. The wrappers of a single call of the
  thread library (\<open>Mutex\<close>, \<open>RWMutex\<close>, \<open>Spinlock\<close>). \<^verbatim>\<open>memorypool.h\<close> declares a class without definitions. Failing
  allocations are not considered.
\<close>

end
